(* ===== verification/Prelude.thy ===== *)
theory Prelude
  imports Main "HOL-Library.Sublist"
begin

text \<open>
  Shared material: the named collections the component proofs draw on, the parts of the Rust
  string library the services use, and generic facts on lists.

  A Rust \<open>String\<close> is the sequence of its UTF-8 bytes, one \<open>char\<close> per byte.  \<open>trim\<close> removes every
  code point with the Unicode property White\_Space, so the encodings of those code points are
  listed.  \<open>to_lowercase\<close> is only ever compared with ASCII literals by the code; the one
  non-ASCII code point whose lower case is an ASCII letter is the Kelvin sign (U+212A), which is
  treated, and all other non-ASCII bytes are left alone (they stay non-ASCII either way, so a
  comparison with an ASCII literal has the same answer).
\<close>

named_theorems keeps_intros \<open>closure rules for invariants of effectful actions\<close>
named_theorems silent_intros \<open>closure rules for actions that hand nothing to the outside\<close>
named_theorems straight_intros \<open>closure rules for actions that swallow no failed statement\<close>
named_theorems act_simps \<open>equations that run an effectful action\<close>

type_synonym uuid = nat
type_synonym time = int

text \<open>Instants are nanoseconds since the epoch, the resolution of \<open>chrono\<close>.\<close>

definition NANOS_PER_SEC :: int where
  "NANOS_PER_SEC = 1000000000"

section \<open>Rust strings\<close>

definition byte_of :: "char \<Rightarrow> nat" where
  "byte_of c = of_char c"

definition ascii_lower :: "char \<Rightarrow> char" where
  "ascii_lower c = (if 65 \<le> byte_of c \<and> byte_of c \<le> 90 then char_of (byte_of c + 32) else c)"

definition ascii_upper :: "char \<Rightarrow> char" where
  "ascii_upper c = (if 97 \<le> byte_of c \<and> byte_of c \<le> 122 then char_of (byte_of c - 32) else c)"

definition to_ascii_lowercase :: "string \<Rightarrow> string" where
  "to_ascii_lowercase = map ascii_lower"

definition to_ascii_uppercase :: "string \<Rightarrow> string" where
  "to_ascii_uppercase = map ascii_upper"

definition is_ascii_digit :: "char \<Rightarrow> bool" where
  "is_ascii_digit c \<longleftrightarrow> 48 \<le> byte_of c \<and> byte_of c \<le> 57"

definition is_ascii_alphabetic :: "char \<Rightarrow> bool" where
  "is_ascii_alphabetic c \<longleftrightarrow>
     (65 \<le> byte_of c \<and> byte_of c \<le> 90) \<or> (97 \<le> byte_of c \<and> byte_of c \<le> 122)"

fun to_lowercase :: "string \<Rightarrow> string" where
  "to_lowercase [] = []"
| "to_lowercase (c # s) =
     (if c = CHR 0xE2 \<and> take 2 s = [CHR 0x84, CHR 0xAA]
      then CHR ''k'' # to_lowercase (drop 2 s)
      else ascii_lower c # to_lowercase s)"

text \<open>The UTF-8 encodings of the White\_Space code points.\<close>

definition ws_codes :: "string list" where
  "ws_codes =
     [[CHR 0x09], [CHR 0x0A], [CHR 0x0B], [CHR 0x0C], [CHR 0x0D], [CHR 0x20],
      [CHR 0xC2, CHR 0x85], [CHR 0xC2, CHR 0xA0], [CHR 0xE1, CHR 0x9A, CHR 0x80],
      [CHR 0xE2, CHR 0x80, CHR 0x80], [CHR 0xE2, CHR 0x80, CHR 0x81],
      [CHR 0xE2, CHR 0x80, CHR 0x82], [CHR 0xE2, CHR 0x80, CHR 0x83],
      [CHR 0xE2, CHR 0x80, CHR 0x84], [CHR 0xE2, CHR 0x80, CHR 0x85],
      [CHR 0xE2, CHR 0x80, CHR 0x86], [CHR 0xE2, CHR 0x80, CHR 0x87],
      [CHR 0xE2, CHR 0x80, CHR 0x88], [CHR 0xE2, CHR 0x80, CHR 0x89],
      [CHR 0xE2, CHR 0x80, CHR 0x8A], [CHR 0xE2, CHR 0x80, CHR 0xA8],
      [CHR 0xE2, CHR 0x80, CHR 0xA9], [CHR 0xE2, CHR 0x80, CHR 0xAF],
      [CHR 0xE2, CHR 0x81, CHR 0x9F], [CHR 0xE3, CHR 0x80, CHR 0x80]]"

function strip_codes :: "string list \<Rightarrow> string \<Rightarrow> string" where
  "strip_codes ws s =
     (case find (\<lambda>w. w \<noteq> [] \<and> prefix w s) ws of
        None \<Rightarrow> s
      | Some w \<Rightarrow> strip_codes ws (drop (length w) s))"
  by pat_completeness auto
termination
proof (relation "measure (\<lambda>(ws, s). length s)")
  show "wf (measure (\<lambda>(ws, s). length s))" by simp
next
  fix ws :: "string list" and s w :: string
  assume "find (\<lambda>w. w \<noteq> [] \<and> prefix w s) ws = Some w"
  then have "w \<noteq> []" and "prefix w s" by (auto simp: find_Some_iff)
  then have "length w \<noteq> 0" and "length w \<le> length s"
    by (auto dest: prefix_length_le)
  then have "length s - length w < length s" by arith
  then show "((ws, drop (length w) s), ws, s) \<in> measure (\<lambda>(ws, s). length s)" by simp
qed

declare strip_codes.simps [simp del]

definition trim :: "string \<Rightarrow> string" where
  "trim s = rev (strip_codes (map rev ws_codes) (rev (strip_codes ws_codes s)))"

definition blank :: "string \<Rightarrow> bool" where
  "blank s \<longleftrightarrow> trim s = []"

text \<open>\<open>str::split(ch)\<close>: always at least one piece.\<close>

fun split_char :: "char \<Rightarrow> string \<Rightarrow> string list" where
  "split_char d [] = [[]]"
| "split_char d (c # s) =
     (if c = d then [] # split_char d s
      else (case split_char d s of [] \<Rightarrow> [[c]] | p # ps \<Rightarrow> (c # p) # ps))"

text \<open>\<open>str::rfind(ch)\<close>, returned as the text before and after the last occurrence.\<close>

fun rsplit_once :: "char \<Rightarrow> string \<Rightarrow> (string \<times> string) option" where
  "rsplit_once d [] = None"
| "rsplit_once d (c # s) =
     (case rsplit_once d s of
        Some (a, b) \<Rightarrow> Some (c # a, b)
      | None \<Rightarrow> if c = d then Some ([], s) else None)"

text \<open>\<open>[String]::join(sep)\<close>.\<close>

fun join_with :: "string \<Rightarrow> string list \<Rightarrow> string" where
  "join_with sep [] = []"
| "join_with sep [x] = x"
| "join_with sep (x # y # xs) = x @ sep @ join_with sep (y # xs)"

text \<open>\<open>to_string\<close> of an unsigned and of a signed integer.\<close>

fun nat_text :: "nat \<Rightarrow> string" where
  "nat_text n = (if n < 10 then [char_of (48 + n)] else nat_text (n div 10) @ [char_of (48 + n mod 10)])"

declare nat_text.simps [simp del]

definition int_text :: "int \<Rightarrow> string" where
  "int_text i = (if i < 0 then CHR ''-'' # nat_text (nat (- i)) else nat_text (nat i))"

text \<open>\<open>str::parse::<i64>()\<close>: an optional sign, at least one digit, and a value in range.\<close>

definition digits_value :: "string \<Rightarrow> nat" where
  "digits_value s = foldl (\<lambda>n c. 10 * n + (byte_of c - 48)) 0 s"

definition parse_i64 :: "string \<Rightarrow> int option" where
  "parse_i64 s =
     (let (neg, ds) = (case s of
            [] \<Rightarrow> (False, [])
          | c # cs \<Rightarrow> if c = CHR ''-'' then (True, cs) else if c = CHR ''+'' then (False, cs) else (False, s));
          n = (if neg then - int (digits_value ds) else int (digits_value ds))
      in if ds = [] \<or> \<not> list_all is_ascii_digit ds \<or> n < - (2 ^ 63) \<or> n \<ge> 2 ^ 63 then None else Some n)"

section \<open>Facts on strings\<close>

lemma ascii_lower_idem [simp]: "ascii_lower (ascii_lower c) = ascii_lower c"
  by (auto simp: ascii_lower_def byte_of_def)

lemma to_ascii_lowercase_idem [simp]:
  "to_ascii_lowercase (to_ascii_lowercase s) = to_ascii_lowercase s"
  by (simp add: to_ascii_lowercase_def)

lemma to_ascii_lowercase_append [simp]:
  "to_ascii_lowercase (s @ t) = to_ascii_lowercase s @ to_ascii_lowercase t"
  by (simp add: to_ascii_lowercase_def)

lemma length_to_ascii_lowercase [simp]: "length (to_ascii_lowercase s) = length s"
  by (simp add: to_ascii_lowercase_def)

lemma to_ascii_lowercase_Nil_iff [simp]: "to_ascii_lowercase s = [] \<longleftrightarrow> s = []"
  by (simp add: to_ascii_lowercase_def)

lemma ascii_lower_at [simp]: "ascii_lower c = CHR ''@'' \<longleftrightarrow> c = CHR ''@''"
proof
  assume h: "ascii_lower c = CHR ''@''"
  show "c = CHR ''@''"
  proof (cases "65 \<le> byte_of c \<and> byte_of c \<le> 90")
    case True
    with h have "char_of (byte_of c + 32) = CHR ''@''" by (simp add: ascii_lower_def)
    then have "(of_char (char_of (byte_of c + 32) :: char) :: nat) = of_char (CHR ''@'')"
      by simp
    with True show ?thesis by simp
  next
    case False
    with h show ?thesis by (auto simp: ascii_lower_def)
  qed
qed (simp add: ascii_lower_def byte_of_def)

lemma split_char_not_Nil [simp]: "split_char d s \<noteq> []"
  by (induction s) (auto split: list.splits)

lemma split_char_no_sep: "d \<notin> set s \<Longrightarrow> split_char d s = [s]"
  by (induction s) auto

lemma split_char_pieces: "p \<in> set (split_char d s) \<Longrightarrow> d \<notin> set p"
proof (induction s arbitrary: p)
  case Nil
  then show ?case by simp
next
  case (Cons c s)
  obtain q qs where q: "split_char d s = q # qs"
    by (cases "split_char d s") auto
  with Cons.IH have "d \<notin> set q" and "\<forall>r\<in>set qs. d \<notin> set r" by auto
  with Cons.prems q show ?case by (auto split: if_splits)
qed

lemma split_char_append_sep: "split_char d (s @ d # t) = split_char d s @ split_char d t"
proof (induction s)
  case Nil
  then show ?case by simp
next
  case (Cons c s)
  obtain q qs where "split_char d s = q # qs"
    by (cases "split_char d s") auto
  with Cons.IH show ?case by simp
qed

lemma rsplit_once_None_iff: "rsplit_once d s = None \<longleftrightarrow> d \<notin> set s"
  by (induction s) (auto split: option.splits)

lemma rsplit_once_Some: "rsplit_once d s = Some (a, b) \<Longrightarrow> s = a @ d # b \<and> d \<notin> set b"
  by (induction s arbitrary: a b)
    (auto simp: rsplit_once_None_iff split: option.splits if_splits)

lemma rsplit_once_eq: "d \<notin> set b \<Longrightarrow> rsplit_once d (a @ d # b) = Some (a, b)"
proof (induction a)
  case Nil
  then have "rsplit_once d b = None" by (simp add: rsplit_once_None_iff)
  then show ?case by simp
next
  case (Cons c a)
  then show ?case by simp
qed

lemma strip_codes_suffix: "suffix (strip_codes ws s) s"
proof (induction ws s rule: strip_codes.induct)
  case (1 ws s)
  show ?case
  proof (cases "find (\<lambda>w. w \<noteq> [] \<and> prefix w s) ws")
    case None
    then show ?thesis by (subst strip_codes.simps) simp
  next
    case (Some w)
    then have "suffix (strip_codes ws (drop (length w) s)) (drop (length w) s)"
      by (rule "1.IH")
    with Some show ?thesis
      by (subst strip_codes.simps) (auto intro: suffix_order.trans suffix_drop)
  qed
qed

lemma set_strip_codes: "set (strip_codes ws s) \<subseteq> set s"
  using strip_codes_suffix [of ws s] by (auto dest: set_mono_suffix)

lemma set_trim: "set (trim s) \<subseteq> set s"
  using set_strip_codes [of "map rev ws_codes" "rev (strip_codes ws_codes s)"]
    set_strip_codes [of ws_codes s]
  by (auto simp: trim_def)

lemma nat_text_digits: "list_all is_ascii_digit (nat_text n) \<and> nat_text n \<noteq> [] \<and> digits_value (nat_text n) = n"
proof (induction n rule: nat_text.induct)
  case (1 n)
  show ?case
  proof (cases "n < 10")
    case True
    then show ?thesis
      by (simp add: nat_text.simps is_ascii_digit_def byte_of_def digits_value_def)
  next
    case False
    have m: "n mod 10 < 10" by simp
    then have "digits_value (nat_text (n div 10) @ [char_of (48 + n mod 10)]) = n"
      using 1 [OF False] by (simp add: digits_value_def byte_of_def)
    moreover have "is_ascii_digit (char_of (48 + n mod 10))"
      using m by (simp add: is_ascii_digit_def byte_of_def)
    ultimately show ?thesis using 1 [OF False] False by (simp add: nat_text.simps [of n])
  qed
qed

lemma parse_i64_text:
  assumes "- (2 ^ 63) \<le> i" and "i < 2 ^ 63"
  shows "parse_i64 (int_text i) = Some i"
proof (cases "i < 0")
  case True
  with assms nat_text_digits [of "nat (- i)"] show ?thesis
    by (simp add: parse_i64_def int_text_def)
next
  case False
  obtain c cs where c: "nat_text (nat i) = c # cs" by (cases "nat_text (nat i)") (use nat_text_digits in auto)
  with nat_text_digits [of "nat i"] have "is_ascii_digit c" by simp
  then have "c \<noteq> CHR ''-''" "c \<noteq> CHR ''+''" by (auto simp: is_ascii_digit_def byte_of_def)
  with assms False nat_text_digits [of "nat i"] c show ?thesis
    by (simp add: parse_i64_def int_text_def)
qed

lemma trim_Nil [simp]: "trim [] = []"
  using set_trim [of "[]"] by simp

lemma blank_Nil [simp]: "blank []"
  by (simp add: blank_def)

section \<open>Facts on lists\<close>

lemma find_map_upd:
  "(\<And>x. key (g x) = key x) \<Longrightarrow>
   find (\<lambda>x. key x = k) (map g xs) = map_option g (find (\<lambda>x. key x = k) xs)"
  by (induction xs) auto

lemma distinct_key_unique:
  "distinct (map key xs) \<Longrightarrow> x \<in> set xs \<Longrightarrow> y \<in> set xs \<Longrightarrow> key x = key y \<Longrightarrow> x = y"
  by (metis distinct_map inj_onD)

lemma find_distinct:
  assumes "distinct (map key xs)" and "x \<in> set xs" and "key x = k"
  shows "find (\<lambda>x. key x = k) xs = Some x"
  using assms by (induction xs) auto

lemma find_append:
  "find P (xs @ ys) = (case find P xs of None \<Rightarrow> find P ys | Some x \<Rightarrow> Some x)"
  by (induction xs) simp_all

lemma find_map_same:
  "(\<And>x. P (g x) = P x) \<Longrightarrow> find P (map g xs) = map_option g (find P xs)"
  by (induction xs) simp_all

lemma find_filter:
  "find P (filter Q xs) = find (\<lambda>x. Q x \<and> P x) xs"
  by (induction xs) simp_all

lemma find_SomeD: "find P xs = Some x \<Longrightarrow> x \<in> set xs \<and> P x"
  by (auto simp: find_Some_iff)

lemma find_None_key: "find (\<lambda>x. key x = k) xs = None \<longleftrightarrow> k \<notin> key ` set xs"
  by (auto simp: find_None_iff)

lemma length_filter_map_le:
  assumes "\<forall>x\<in>set xs. P (g x) \<longrightarrow> P x"
  shows "length (filter P (map g xs)) \<le> length (filter P xs)"
  using assms by (induction xs) auto

lemma length_filter_less_map:
  assumes "\<forall>x\<in>set xs. P (g x) \<longrightarrow> P x"
    and "y \<in> set xs" and "P y" and "\<not> P (g y)"
  shows "length (filter P (map g xs)) < length (filter P xs)"
  using assms
proof (induction xs)
  case Nil
  then show ?case by simp
next
  case (Cons x xs)
  have le: "length (filter P (map g xs)) \<le> length (filter P xs)"
    using Cons.prems(1) by (intro length_filter_map_le) simp
  show ?case
  proof (cases "y = x")
    case True
    with Cons.prems le show ?thesis by (simp add: less_Suc_eq_le)
  next
    case False
    with Cons.prems Cons.IH have "length (filter P (map g xs)) < length (filter P xs)"
      by simp
    with Cons.prems(1) show ?thesis by simp
  qed
qed

lemma subseq_distinct: "subseq xs ys \<Longrightarrow> distinct ys \<Longrightarrow> distinct xs"
  by (auto simp: subseq_conv_nths intro: distinct_nthsI)

lemma subseq_set: "subseq xs ys \<Longrightarrow> set xs \<subseteq> set ys"
  by (auto simp: subseq_conv_nths dest: in_set_nthsD)

lemma list_all2_map_same: "(\<And>x. x \<in> set xs \<Longrightarrow> P x (g x)) \<Longrightarrow> list_all2 P xs (map g xs)"
  by (induction xs) auto

section \<open>The first row of an order\<close>

text \<open>\<open>ORDER BY ... LIMIT 1\<close>.\<close>

fun first_by :: "('a \<Rightarrow> 'a \<Rightarrow> bool) \<Rightarrow> 'a list \<Rightarrow> 'a option" where
  "first_by le [] = None"
| "first_by le (x # xs) =
     (case first_by le xs of None \<Rightarrow> Some x | Some y \<Rightarrow> if le x y then Some x else Some y)"

lemma first_by_None [simp]: "first_by le xs = None \<longleftrightarrow> xs = []"
  by (cases xs) (auto split: option.splits)

lemma first_by_least:
  assumes "first_by le xs = Some m"
    and "\<And>x y. le x y \<or> le y x" and "\<And>x y z. le x y \<Longrightarrow> le y z \<Longrightarrow> le x z"
  shows "m \<in> set xs \<and> (\<forall>x\<in>set xs. le m x)"
  using assms(1)
proof (induction xs arbitrary: m)
  case (Cons x xs)
  have refl: "le z z" for z using assms(2) [of z z] by blast
  show ?case
  proof (cases "first_by le xs")
    case None
    with Cons.prems refl show ?thesis by simp
  next
    case (Some y)
    with Cons.IH have y: "y \<in> set xs" "\<forall>z\<in>set xs. le y z" by blast+
    show ?thesis
    proof (cases "le x y")
      case True
      with Cons.prems Some y assms(3) refl show ?thesis by auto
    next
      case False
      with Cons.prems Some y assms(2) [of x y] show ?thesis by auto
    qed
  qed
qed simp

end
