(* ===== verification/Effects.thy ===== *)
theory Effects
  imports Prelude
begin

text \<open>
  The effects the services have, written as explicit state passing.  A \<^emph>\<open>world\<close> holds the database
  the service sees, a counter of effects performed (\<open>tick\<close>), the flag PostgreSQL keeps for a
  transaction in which a statement has failed, the start time of the transaction (SQL's \<open>NOW()\<close>)
  and a trace of what was handed to the outside.  The \<^emph>\<open>environment\<close> is fixed: the uuid generator and
  the texts of uuids and times (crates \<open>uuid\<close>, \<open>chrono\<close>) and of a string under \<open>{:?}\<close>, the clock, which
  rows other transactions hold locked, and which database round trips fail.  It is indexed by \<open>tick\<close>, so it can answer differently each time.

  An \<^emph>\<open>action\<close> takes a world to a result (an error or a value) and a world; it is how an
  \<open>async fn\<close> returning \<open>Result<_, E>\<close> is written here.  \<open>stmt\<close> is one SQL statement on an open
  transaction, \<open>in_tx\<close> is \<open>pool.begin() ... tx.commit()\<close> around a body: an error drops the
  transaction, which rolls back; a transaction in which a statement failed refuses every further
  statement, and its COMMIT rolls back; a COMMIT can be refused, or be applied while its
  acknowledgement is lost.  \<open>query\<close> is a single statement outside a transaction.
\<close>

section \<open>Worlds and actions\<close>

text \<open>\<open>Panicked\<close> stands for the panic of \<open>Row::get\<close> on a value of another type; like an error it drops the
  transaction.\<close>

datatype db_error =
    Connection
  | TxAborted
  | UniqueViolation string
  | ForeignKeyViolation string
  | CheckViolation string
  | BadCast string
  | InvalidRowCount
  | Panicked string
  | RowNotFound

record env =
  rng :: "nat \<Rightarrow> uuid"
  clock :: "nat \<Rightarrow> time"
  fault :: "nat \<Rightarrow> bool"
  ack_lost :: "nat \<Rightarrow> bool"
  uuid_text :: "uuid \<Rightarrow> string"
  uuid_simple :: "uuid \<Rightarrow> string"
  time_text :: "time \<Rightarrow> string"
  str_debug :: "string \<Rightarrow> string"
  row_locked :: "nat \<Rightarrow> uuid \<Rightarrow> bool"

record ('d, 'o) world =
  db :: 'd
  tick :: nat
  aborted :: bool
  tx_start :: time
  trace :: "'o list"

type_synonym ('d, 'o, 'e, 'a) act = "env \<Rightarrow> ('d, 'o) world \<Rightarrow> ('e + 'a) \<times> ('d, 'o) world"

definition ret :: "'a \<Rightarrow> ('d, 'o, 'e, 'a) act" where
  "ret x = (\<lambda>v w. (Inr x, w))"

definition fail :: "'e \<Rightarrow> ('d, 'o, 'e, 'a) act" where
  "fail e = (\<lambda>v w. (Inl e, w))"

definition bindA :: "('d, 'o, 'e, 'a) act \<Rightarrow> ('a \<Rightarrow> ('d, 'o, 'e, 'b) act) \<Rightarrow> ('d, 'o, 'e, 'b) act" where
  "bindA m f = (\<lambda>v w. case m v w of (Inl e, w') \<Rightarrow> (Inl e, w') | (Inr x, w') \<Rightarrow> f x v w')"

text \<open>The conversion the \<open>?\<close> operator applies to an error (\<open>From\<close>).\<close>

definition lift :: "('e \<Rightarrow> 'f) \<Rightarrow> ('d, 'o, 'e, 'a) act \<Rightarrow> ('d, 'o, 'f, 'a) act" where
  "lift up m = (\<lambda>v w. case m v w of (Inl e, w') \<Rightarrow> (Inl (up e), w') | (Inr x, w') \<Rightarrow> (Inr x, w'))"

text \<open>A result that is matched on instead of being propagated (\<open>match f().await { ... }\<close>).\<close>

definition attempt :: "('d, 'o, 'e, 'a) act \<Rightarrow> ('d, 'o, 'f, 'e + 'a) act" where
  "attempt m = (\<lambda>v w. (Inr (fst (m v w)), snd (m v w)))"

definition of_sum :: "'e + 'a \<Rightarrow> ('d, 'o, 'e, 'a) act" where
  "of_sum r = (\<lambda>v w. (r, w))"

definition ask :: "(env \<Rightarrow> 'a) \<Rightarrow> ('d, 'o, 'e, 'a) act" where
  "ask f = (\<lambda>v w. (Inr (f v), w))"

definition new_v4 :: "('d, 'o, 'e, uuid) act" where
  "new_v4 = (\<lambda>v w. (Inr (rng v (tick w)), w\<lparr>tick := Suc (tick w)\<rparr>))"

definition now_utc :: "('d, 'o, 'e, time) act" where
  "now_utc = (\<lambda>v w. (Inr (clock v (tick w)), w\<lparr>tick := Suc (tick w)\<rparr>))"

definition emit :: "'o \<Rightarrow> ('d, 'o, 'e, unit) act" where
  "emit x = (\<lambda>v w. (Inr (), w\<lparr>trace := trace w @ [x]\<rparr>))"

definition stmt_now :: "(time \<Rightarrow> 'd \<Rightarrow> db_error + 'a \<times> 'd) \<Rightarrow> ('d, 'o, db_error, 'a) act" where
  "stmt_now q = (\<lambda>v w.
     if aborted w then (Inl TxAborted, w\<lparr>tick := Suc (tick w)\<rparr>)
     else if fault v (tick w)
       then (Inl Connection, w\<lparr>tick := Suc (tick w), aborted := True\<rparr>)
     else case q (tx_start w) (db w) of
            Inl e \<Rightarrow> (Inl e, w\<lparr>tick := Suc (tick w), aborted := True\<rparr>)
          | Inr (x, d) \<Rightarrow> (Inr x, w\<lparr>tick := Suc (tick w), db := d\<rparr>))"

definition stmt :: "('d \<Rightarrow> db_error + 'a \<times> 'd) \<Rightarrow> ('d, 'o, db_error, 'a) act" where
  "stmt q = stmt_now (\<lambda>_. q)"

text \<open>A statement with \<open>FOR UPDATE SKIP LOCKED\<close>: it sees which rows are locked when it runs.\<close>

definition stmt_locked ::
  "((uuid \<Rightarrow> bool) \<Rightarrow> 'd \<Rightarrow> db_error + 'a \<times> 'd) \<Rightarrow> ('d, 'o, db_error, 'a) act" where
  "stmt_locked q = (\<lambda>v w. stmt (q (row_locked v (tick w))) v w)"

definition stmt_locked_now ::
  "((uuid \<Rightarrow> bool) \<Rightarrow> time \<Rightarrow> 'd \<Rightarrow> db_error + 'a \<times> 'd) \<Rightarrow> ('d, 'o, db_error, 'a) act" where
  "stmt_locked_now q = (\<lambda>v w. stmt_now (q (row_locked v (tick w))) v w)"

definition query_now :: "(time \<Rightarrow> 'd \<Rightarrow> db_error + 'a \<times> 'd) \<Rightarrow> ('d, 'o, db_error, 'a) act" where
  "query_now q = (\<lambda>v w.
     if fault v (tick w) then (Inl Connection, w\<lparr>tick := Suc (tick w)\<rparr>)
     else case q (clock v (tick w)) (db w) of
            Inl e \<Rightarrow> (Inl e, w\<lparr>tick := Suc (tick w)\<rparr>)
          | Inr (x, d) \<Rightarrow> (Inr x, w\<lparr>tick := Suc (tick w), db := d\<rparr>))"

definition query :: "('d \<Rightarrow> db_error + 'a \<times> 'd) \<Rightarrow> ('d, 'o, db_error, 'a) act" where
  "query q = query_now (\<lambda>_. q)"

text \<open>\<open>pool.acquire()\<close>: it can fail, and does nothing else.\<close>

definition acquire :: "('d, 'o, db_error, unit) act" where
  "acquire = (\<lambda>v w. (if fault v (tick w) then Inl Connection else Inr (), w\<lparr>tick := Suc (tick w)\<rparr>))"

text \<open>A statement that only reads.\<close>

definition reading :: "('d \<Rightarrow> 'a) \<Rightarrow> 'd \<Rightarrow> db_error + 'a \<times> 'd" where
  "reading f d = Inr (f d, d)"

definition begin_tx :: "env \<Rightarrow> ('d, 'o) world \<Rightarrow> ('d, 'o) world" where
  "begin_tx v w = w\<lparr>tick := Suc (tick w), aborted := False, tx_start := clock v (tick w)\<rparr>"

definition commit :: "(db_error \<Rightarrow> 'e) \<Rightarrow> 'd \<Rightarrow> 'a \<Rightarrow> ('d, 'o, 'e, 'a) act" where
  "commit up d0 x = (\<lambda>v w.
     let w' = w\<lparr>tick := Suc (tick w), aborted := False,
                db := (if aborted w \<or> fault v (tick w) then d0 else db w)\<rparr>
     in if fault v (tick w) \<or> ack_lost v (tick w)
        then (Inl (up Connection), w') else (Inr x, w'))"

definition in_tx :: "(db_error \<Rightarrow> 'e) \<Rightarrow> ('d, 'o, 'e, 'a) act \<Rightarrow> ('d, 'o, 'e, 'a) act" where
  "in_tx up body = (\<lambda>v w.
     if fault v (tick w) then (Inl (up Connection), w\<lparr>tick := Suc (tick w)\<rparr>)
     else case body v (begin_tx v w) of
            (Inl e, w') \<Rightarrow> (Inl e, w'\<lparr>db := db w, aborted := False\<rparr>)
          | (Inr x, w') \<Rightarrow> commit up (db w) x v w')"

text \<open>A \<open>for\<close> loop whose body can return early with \<open>?\<close>.\<close>

fun foldA :: "('s \<Rightarrow> 'x \<Rightarrow> ('d, 'o, 'e, 's) act) \<Rightarrow> 's \<Rightarrow> 'x list \<Rightarrow> ('d, 'o, 'e, 's) act" where
  "foldA f s [] = ret s"
| "foldA f s (x # xs) = bindA (f s x) (\<lambda>s'. foldA f s' xs)"

section \<open>Running without faults\<close>

definition quiet :: "env \<Rightarrow> bool" where
  "quiet v \<longleftrightarrow> (\<forall>n. \<not> fault v n) \<and> (\<forall>n. \<not> ack_lost v n)"

lemma begin_tx_simps [simp]:
  "db (begin_tx v w) = db w" "tick (begin_tx v w) = Suc (tick w)" "\<not> aborted (begin_tx v w)"
  "tx_start (begin_tx v w) = clock v (tick w)" "trace (begin_tx v w) = trace w"
  by (simp_all add: begin_tx_def)

lemma ret_run [act_simps]: "ret x v w = (Inr x, w)"
  by (simp add: ret_def)

lemma fail_run [act_simps]: "fail e v w = (Inl e, w)"
  by (simp add: fail_def)

lemma of_sum_run [act_simps]: "of_sum r v w = (r, w)"
  by (simp add: of_sum_def)

lemma ask_run [act_simps]: "ask f v w = (Inr (f v), w)"
  by (simp add: ask_def)

lemma bindA_ask: "bindA (ask f) F v w = F (f v) v w"
  by (simp add: bindA_def ask_def)

lemma bindA_run [act_simps]:
  "m v w = (Inr x, w') \<Longrightarrow> bindA m f v w = f x v w'"
  "m v w = (Inl e, w') \<Longrightarrow> bindA m f v w = (Inl e, w')"
  by (simp_all add: bindA_def)

lemma lift_run [act_simps]:
  "m v w = (Inr x, w') \<Longrightarrow> lift up m v w = (Inr x, w')"
  "m v w = (Inl e, w') \<Longrightarrow> lift up m v w = (Inl (up e), w')"
  by (simp_all add: lift_def)

lemma attempt_run [act_simps]: "m v w = (r, w') \<Longrightarrow> attempt m v w = (Inr r, w')"
  by (simp add: attempt_def)

lemma stmt_now_run [act_simps]:
  "\<not> aborted w \<Longrightarrow> quiet v \<Longrightarrow> q (tx_start w) (db w) = Inr (x, d) \<Longrightarrow>
   stmt_now q v w = (Inr x, w\<lparr>tick := Suc (tick w), db := d\<rparr>)"
  "\<not> aborted w \<Longrightarrow> quiet v \<Longrightarrow> q (tx_start w) (db w) = Inl e \<Longrightarrow>
   stmt_now q v w = (Inl e, w\<lparr>tick := Suc (tick w), aborted := True\<rparr>)"
  "aborted w \<Longrightarrow> stmt_now q v w = (Inl TxAborted, w\<lparr>tick := Suc (tick w)\<rparr>)"
  by (simp_all add: stmt_now_def quiet_def)

lemma stmt_run [act_simps]:
  "\<not> aborted w \<Longrightarrow> quiet v \<Longrightarrow> q (db w) = Inr (x, d) \<Longrightarrow>
   stmt q v w = (Inr x, w\<lparr>tick := Suc (tick w), db := d\<rparr>)"
  "\<not> aborted w \<Longrightarrow> quiet v \<Longrightarrow> q (db w) = Inl e \<Longrightarrow>
   stmt q v w = (Inl e, w\<lparr>tick := Suc (tick w), aborted := True\<rparr>)"
  "aborted w \<Longrightarrow> stmt q v w = (Inl TxAborted, w\<lparr>tick := Suc (tick w)\<rparr>)"
  by (simp_all add: stmt_def stmt_now_run)

lemma query_run [act_simps]:
  "quiet v \<Longrightarrow> q (db w) = Inr (x, d) \<Longrightarrow>
   query q v w = (Inr x, w\<lparr>tick := Suc (tick w), db := d\<rparr>)"
  "quiet v \<Longrightarrow> q (db w) = Inl e \<Longrightarrow> query q v w = (Inl e, w\<lparr>tick := Suc (tick w)\<rparr>)"
  by (simp_all add: query_def query_now_def quiet_def)

lemma new_v4_run [act_simps]:
  "new_v4 v w = (Inr (rng v (tick w)), w\<lparr>tick := Suc (tick w)\<rparr>)"
  by (simp add: new_v4_def)

lemma now_utc_run [act_simps]:
  "now_utc v w = (Inr (clock v (tick w)), w\<lparr>tick := Suc (tick w)\<rparr>)"
  by (simp add: now_utc_def)

lemma emit_run [act_simps]: "emit x v w = (Inr (), w\<lparr>trace := trace w @ [x]\<rparr>)"
  by (simp add: emit_def)

lemma in_tx_run [act_simps]:
  "quiet v \<Longrightarrow> body v (begin_tx v w) = (Inr x, w') \<Longrightarrow> \<not> aborted w' \<Longrightarrow>
   in_tx up body v w = (Inr x, w'\<lparr>tick := Suc (tick w'), aborted := False\<rparr>)"
  "quiet v \<Longrightarrow> body v (begin_tx v w) = (Inl e, w') \<Longrightarrow>
   in_tx up body v w = (Inl e, w'\<lparr>db := db w, aborted := False\<rparr>)"
  by (simp_all add: in_tx_def commit_def quiet_def)

section \<open>What a successful action did\<close>

text \<open>
  \<open>tx_step w w'\<close>: \<open>w'\<close> comes from \<open>w\<close> by statements of one transaction, none of which failed.
  The rules \<open>act_elims\<close> take a successful run apart into its steps.
\<close>

definition tx_step :: "('d, 'o) world \<Rightarrow> ('d, 'o) world \<Rightarrow> bool" where
  "tx_step w w' \<longleftrightarrow> aborted w' = aborted w \<and> tx_start w' = tx_start w \<and> trace w' = trace w"

lemma tx_step_refl [simp]: "tx_step w w"
  by (simp add: tx_step_def)

lemma tx_step_trans [trans]: "tx_step w w' \<Longrightarrow> tx_step w' w'' \<Longrightarrow> tx_step w w''"
  by (simp add: tx_step_def)

lemma bindA_InrE:
  assumes "bindA m f v w = (Inr y, w')"
  obtains x w1 where "m v w = (Inr x, w1)" and "f x v w1 = (Inr y, w')"
  using assms by (auto simp: bindA_def split: prod.splits sum.splits)

lemma lift_InrE:
  assumes "lift up m v w = (Inr y, w')"
  obtains "m v w = (Inr y, w')"
  using assms by (auto simp: lift_def split: prod.splits sum.splits)

lemma ret_InrE:
  assumes "ret x v w = (Inr y, w')"
  obtains "y = x" and "w' = w"
  using assms by (auto simp: ret_def)

lemma fail_InrE:
  assumes "fail e v w = (Inr y, w')"
  obtains "False"
  using assms by (auto simp: fail_def)

lemma of_sum_InrE:
  assumes "of_sum r v w = (Inr y, w')"
  obtains "r = Inr y" and "w' = w"
  using assms by (auto simp: of_sum_def)

lemma ask_InrE:
  assumes "ask f v w = (Inr y, w')"
  obtains "y = f v" and "w' = w"
  using assms by (auto simp: ask_def)

lemma new_v4_InrE:
  assumes "new_v4 v w = (Inr y, w')"
  obtains "db w' = db w" and "tx_step w w'" and "y = rng v (tick w)" and "tick w' = Suc (tick w)"
  using assms by (auto simp: new_v4_def tx_step_def)

lemma now_utc_InrE:
  assumes "now_utc v w = (Inr y, w')"
  obtains "db w' = db w" and "tx_step w w'"
  using assms by (auto simp: now_utc_def tx_step_def)

lemma acquire_InrE:
  assumes "acquire v w = (Inr y, w')"
  obtains "db w' = db w" and "tx_step w w'" and "tick w' = Suc (tick w)"
  using assms by (auto simp: acquire_def tx_step_def split: if_splits)

lemma query_now_InrE:
  assumes "query_now q v w = (Inr y, w')"
  obtains "q (clock v (tick w)) (db w) = Inr (y, db w')" and "tx_step w w'"
  using assms by (auto simp: query_now_def tx_step_def split: if_splits sum.splits)

lemma query_InrE:
  assumes "query q v w = (Inr y, w')"
  obtains "q (db w) = Inr (y, db w')" and "tx_step w w'"
  using assms unfolding query_def by (rule query_now_InrE)

lemma stmt_now_InrE:
  assumes "stmt_now q v w = (Inr y, w')"
  obtains "q (tx_start w) (db w) = Inr (y, db w')" and "tx_step w w'" and "\<not> aborted w"
  using assms by (auto simp: stmt_now_def tx_step_def split: if_splits sum.splits)

lemma stmt_InrE:
  assumes "stmt q v w = (Inr y, w')"
  obtains "q (db w) = Inr (y, db w')" and "tx_step w w'" and "\<not> aborted w"
  using assms unfolding stmt_def by (rule stmt_now_InrE)

lemma stmt_locked_InrE:
  assumes "stmt_locked q v w = (Inr y, w')"
  obtains locked where "q locked (db w) = Inr (y, db w')" and "tx_step w w'" and "\<not> aborted w"
  using assms unfolding stmt_locked_def by (rule stmt_InrE) (rule that)

lemma stmt_locked_now_InrE:
  assumes "stmt_locked_now q v w = (Inr y, w')"
  obtains locked where "q locked (tx_start w) (db w) = Inr (y, db w')" and "tx_step w w'"
    and "\<not> aborted w"
  using assms unfolding stmt_locked_now_def by (rule stmt_now_InrE) (rule that)

lemma reading_stmt_InrE:
  assumes "lift up (stmt (reading f)) v w = (Inr x, w')"
  obtains "x = f (db w)" and "db w' = db w" and "tx_step w w'" and "\<not> aborted w"
proof -
  from assms have "reading f (db w) = Inr (x, db w')" "tx_step w w'" "\<not> aborted w"
    by (auto elim!: lift_InrE stmt_InrE)
  moreover from this(1) have "x = f (db w) \<and> db w' = db w" by (simp add: reading_def eq_commute)
  ultimately show ?thesis using that by blast
qed

lemmas act_elims = stmt_locked_InrE stmt_locked_now_InrE bindA_InrE lift_InrE ret_InrE fail_InrE of_sum_InrE ask_InrE new_v4_InrE
  now_utc_InrE stmt_now_InrE stmt_InrE

lemma run_Inr: "\<not> isl (fst (m v w)) \<Longrightarrow> m v w = (Inr (projr (fst (m v w))), snd (m v w))"
  by (cases "m v w") simp

section \<open>Reasoning about every environment\<close>

text \<open>
  \<open>triple P m Q E\<close>: from a world with \<open>P\<close>, action \<open>m\<close> ends in \<open>Q\<close> of its value and world, or in
  \<open>E\<close> of its error and world.  Nothing is assumed of the environment, so a triple holds under every
  pattern of failing statements.
\<close>

definition triple ::
  "(('d, 'o) world \<Rightarrow> bool) \<Rightarrow> ('d, 'o, 'e, 'a) act \<Rightarrow> ('a \<Rightarrow> ('d, 'o) world \<Rightarrow> bool) \<Rightarrow>
   ('e \<Rightarrow> ('d, 'o) world \<Rightarrow> bool) \<Rightarrow> bool" where
  "triple P m Q E \<longleftrightarrow>
     (\<forall>v w. P w \<longrightarrow> (case m v w of (Inl e, w') \<Rightarrow> E e w' | (Inr x, w') \<Rightarrow> Q x w'))"

lemma tripleD_Inr: "triple P m Q E \<Longrightarrow> P w \<Longrightarrow> m v w = (Inr x, w') \<Longrightarrow> Q x w'"
  unfolding triple_def by (metis (mono_tags, lifting) case_prod_conv sum.simps(6))

lemma tripleD_Inl: "triple P m Q E \<Longrightarrow> P w \<Longrightarrow> m v w = (Inl e, w') \<Longrightarrow> E e w'"
  unfolding triple_def by (metis (mono_tags, lifting) case_prod_conv sum.simps(5))

lemma triple_run:
  "triple P m (\<lambda>_. Q) (\<lambda>_. Q) \<Longrightarrow> P w \<Longrightarrow> m v w = (r, w') \<Longrightarrow> Q w'"
  unfolding triple_def by (cases r) (metis (mono_tags, lifting) case_prod_conv sum.simps(5,6))+

lemma triple_ret: "(\<And>w. P w \<Longrightarrow> Q x w) \<Longrightarrow> triple P (ret x) Q E"
  by (simp add: triple_def ret_def)

lemma triple_fail: "(\<And>w. P w \<Longrightarrow> E e w) \<Longrightarrow> triple P (fail e) Q E"
  by (simp add: triple_def fail_def)

lemma triple_of_sum:
  "(\<And>w x. P w \<Longrightarrow> r = Inr x \<Longrightarrow> Q x w) \<Longrightarrow> (\<And>w e. P w \<Longrightarrow> r = Inl e \<Longrightarrow> E e w) \<Longrightarrow>
   triple P (of_sum r) Q E"
  by (cases r) (simp_all add: triple_def of_sum_def)

lemma triple_ask: "(\<And>w x. P w \<Longrightarrow> Q x w) \<Longrightarrow> triple P (ask f) Q E"
  by (simp add: triple_def ask_def)

lemma triple_bind:
  assumes "triple P m R E" and "\<And>x. triple (R x) (f x) Q E"
  shows "triple P (bindA m f) Q E"
  unfolding triple_def
proof (intro allI impI)
  fix v w assume p: "P w"
  obtain r w1 where m: "m v w = (r, w1)" by fastforce
  show "case bindA m f v w of (Inl e, w') \<Rightarrow> E e w' | (Inr x, w') \<Rightarrow> Q x w'"
  proof (cases r)
    case (Inl e)
    with tripleD_Inl [OF assms(1) p] m show ?thesis by (simp add: bindA_def)
  next
    case (Inr x)
    with tripleD_Inr [OF assms(1) p] m have "R x w1" by simp
    with assms(2) [of x] m Inr show ?thesis by (simp add: bindA_def triple_def)
  qed
qed

lemma triple_lift:
  assumes "triple P m Q (\<lambda>e. E (up e))"
  shows "triple P (lift up m) Q E"
  using assms unfolding triple_def lift_def by (fastforce split: prod.splits sum.splits)

lemma triple_stmt_now:
  assumes "\<And>w x d. P w \<Longrightarrow> \<not> aborted w \<Longrightarrow> q (tx_start w) (db w) = Inr (x, d) \<Longrightarrow>
             Q x (w\<lparr>tick := Suc (tick w), db := d\<rparr>)"
    and "\<And>w e b. P w \<Longrightarrow> E e (w\<lparr>tick := Suc (tick w), aborted := b\<rparr>)"
    and "\<And>w e. P w \<Longrightarrow> E e (w\<lparr>tick := Suc (tick w)\<rparr>)"
  shows "triple P (stmt_now q) Q E"
  using assms unfolding triple_def stmt_now_def by (auto split: sum.splits)

lemma triple_stmt:
  assumes "\<And>w x d. P w \<Longrightarrow> \<not> aborted w \<Longrightarrow> q (db w) = Inr (x, d) \<Longrightarrow>
             Q x (w\<lparr>tick := Suc (tick w), db := d\<rparr>)"
    and "\<And>w e b. P w \<Longrightarrow> E e (w\<lparr>tick := Suc (tick w), aborted := b\<rparr>)"
    and "\<And>w e. P w \<Longrightarrow> E e (w\<lparr>tick := Suc (tick w)\<rparr>)"
  shows "triple P (stmt q) Q E"
  using assms unfolding stmt_def by (rule triple_stmt_now)

lemma triple_new_v4:
  "(\<And>w x. P w \<Longrightarrow> Q x (w\<lparr>tick := Suc (tick w)\<rparr>)) \<Longrightarrow> triple P new_v4 Q E"
  by (simp add: triple_def new_v4_def)

lemma triple_now_utc:
  "(\<And>w x. P w \<Longrightarrow> Q x (w\<lparr>tick := Suc (tick w)\<rparr>)) \<Longrightarrow> triple P now_utc Q E"
  by (simp add: triple_def now_utc_def)

lemma triple_emit:
  "(\<And>w. P w \<Longrightarrow> Q () (w\<lparr>trace := trace w @ [x]\<rparr>)) \<Longrightarrow> triple P (emit x) Q E"
  by (simp add: triple_def emit_def)

lemma triple_if:
  "(c \<Longrightarrow> triple P a Q E) \<Longrightarrow> (\<not> c \<Longrightarrow> triple P b Q E) \<Longrightarrow> triple P (if c then a else b) Q E"
  by simp

lemma triple_weaken:
  assumes "triple P' m Q' E'"
    and "\<And>w. P w \<Longrightarrow> P' w" and "\<And>x w. Q' x w \<Longrightarrow> Q x w" and "\<And>e w. E' e w \<Longrightarrow> E e w"
  shows "triple P m Q E"
  using assms unfolding triple_def by (fastforce split: prod.splits sum.splits)

lemma triple_foldA:
  assumes "\<And>s x. x \<in> set xs \<Longrightarrow> triple P (f s x) (\<lambda>_. P) E"
  shows "triple P (foldA f s xs) (\<lambda>_. P) E"
  using assms
proof (induction xs arbitrary: s)
  case Nil
  then show ?case by (simp add: triple_ret)
next
  case (Cons x xs)
  have "triple P (f s x) (\<lambda>_. P) E" using Cons.prems by simp
  moreover have "\<And>s'. triple P (foldA f s' xs) (\<lambda>_. P) E" using Cons by simp
  ultimately show ?case by (auto intro: triple_bind)
qed

text \<open>
  A transaction: the body runs on the open transaction and either the database it started from or
  the database it ended with is kept.
\<close>

lemma commit_db [simp]:
  "db (snd (commit up d0 x v w)) = (if aborted w \<or> fault v (tick w) then d0 else db w)"
  by (simp add: commit_def Let_def)

lemma commit_same [simp]: "trace (snd (commit up d0 x v w)) = trace w"
  by (simp add: commit_def Let_def)

lemma commit_fst [simp]:
  "fst (commit up d0 x v w) =
     (if fault v (tick w) \<or> ack_lost v (tick w) then Inl (up Connection) else Inr x)"
  by (simp add: commit_def Let_def)

text \<open>The two ways a transaction can go: its body fails, or its body returns and COMMIT runs.\<close>

lemma in_tx_unfold:
  "in_tx up body v w =
     (if fault v (tick w) then (Inl (up Connection), w\<lparr>tick := Suc (tick w)\<rparr>)
      else let b = body v (begin_tx v w) in
        case fst b of
          Inl e \<Rightarrow> (Inl e, (snd b)\<lparr>db := db w, aborted := False\<rparr>)
        | Inr x \<Rightarrow> commit up (db w) x v (snd b))"
  by (simp add: in_tx_def Let_def case_prod_beta)

lemma in_tx_atomic:
  assumes "in_tx up body v w = (r, w')"
  shows "db w' = db w \<or>
    (\<exists>x w1. body v (begin_tx v w) = (Inr x, w1) \<and> \<not> aborted w1 \<and>
       db w' = db w1 \<and> (r = Inr x \<or> r = Inl (up Connection)))"
proof (cases "fault v (tick w)")
  case True
  with assms show ?thesis by (auto simp: in_tx_def)
next
  case no_fault: False
  obtain q w1 where b: "body v (begin_tx v w) = (q, w1)" by fastforce
  show ?thesis
  proof (cases q)
    case (Inl e)
    with assms no_fault b show ?thesis by (auto simp: in_tx_def)
  next
    case (Inr x)
    with assms no_fault b have c: "commit up (db w) x v w1 = (r, w')" by (simp add: in_tx_def)
    then have "db w' = (if aborted w1 \<or> fault v (tick w1) then db w else db w1)"
      using commit_db [of up "db w" x v w1] by simp
    moreover from c have "r = Inr x \<or> r = Inl (up Connection)"
      using commit_fst [of up "db w" x v w1] by (simp split: if_splits)
    ultimately show ?thesis using b Inr by (simp split: if_splits)
  qed
qed

lemma in_tx_Inr:
  assumes "in_tx up body v w = (Inr x, w')"
  shows "\<exists>w1. body v (begin_tx v w) = (Inr x, w1) \<and>
     db w' = (if aborted w1 then db w else db w1) \<and> trace w' = trace w1"
proof (cases "fault v (tick w)")
  case True
  with assms show ?thesis by (auto simp: in_tx_def)
next
  case no_fault: False
  obtain q w1 where b: "body v (begin_tx v w) = (q, w1)" by fastforce
  show ?thesis
  proof (cases q)
    case (Inl e)
    with assms no_fault b show ?thesis by (auto simp: in_tx_def)
  next
    case (Inr y)
    with assms no_fault b have c: "commit up (db w) y v w1 = (Inr x, w')" by (simp add: in_tx_def)
    have f: "\<not> fault v (tick w1)" and y: "y = x"
      using commit_fst [of up "db w" y v w1] unfolding c by (simp_all split: if_splits)
    have "db w' = (if aborted w1 then db w else db w1)" "trace w' = trace w1"
      using commit_db [of up "db w" y v w1] commit_same [of up "db w" y v w1] f unfolding c by simp_all
    with b Inr y show ?thesis by simp
  qed
qed

text \<open>Without a lost acknowledgement, an error means nothing was written.\<close>

lemma in_tx_Inl:
  assumes "in_tx up body v w = (Inl e, w')" and "\<forall>n. \<not> ack_lost v n"
  shows "db w' = db w"
proof (cases "fault v (tick w)")
  case True
  with assms show ?thesis by (auto simp: in_tx_def)
next
  case no_fault: False
  obtain q w1 where b: "body v (begin_tx v w) = (q, w1)" by fastforce
  with assms no_fault show ?thesis
    by (cases q) (auto simp: in_tx_def commit_def Let_def split: if_splits)
qed

text \<open>A body of which no failed statement is swallowed: success commits its database.\<close>

lemma in_tx_InrE:
  assumes "in_tx up body v w = (Inr x, w')"
    and "\<And>w1. body v (begin_tx v w) = (Inr x, w1) \<Longrightarrow> \<not> aborted w1"
  obtains w1 where "body v (begin_tx v w) = (Inr x, w1)" and "db w' = db w1" and "trace w' = trace w1"
  using in_tx_Inr [OF assms(1)] assms(2) by auto

section \<open>Invariants of the database\<close>

definition keeps :: "('d \<Rightarrow> bool) \<Rightarrow> ('d, 'o, 'e, 'a) act \<Rightarrow> bool" where
  "keeps I m \<longleftrightarrow> (\<forall>v w. I (db w) \<longrightarrow> I (db (snd (m v w))))"

lemma keepsD: "keeps I m \<Longrightarrow> I (db w) \<Longrightarrow> I (db (snd (m v w)))"
  by (simp add: keeps_def)

lemma keeps_triple: "keeps I m \<longleftrightarrow> triple (\<lambda>w. I (db w)) m (\<lambda>_ w. I (db w)) (\<lambda>_ w. I (db w))"
proof -
  have "I (db (snd (m v w))) \<longleftrightarrow>
      (case m v w of (Inl e, w') \<Rightarrow> I (db w') | (Inr x, w') \<Rightarrow> I (db w'))" for v w
    by (cases "m v w") (simp split: sum.splits)
  then show ?thesis by (simp add: keeps_def triple_def)
qed

lemma keeps_ret [keeps_intros]: "keeps I (ret x)"
  by (simp add: keeps_def ret_def)

lemma keeps_fail [keeps_intros]: "keeps I (fail e)"
  by (simp add: keeps_def fail_def)

lemma keeps_of_sum [keeps_intros]: "keeps I (of_sum r)"
  by (simp add: keeps_def of_sum_def)

lemma keeps_bind [keeps_intros]:
  "keeps I m \<Longrightarrow> (\<And>x. keeps I (f x)) \<Longrightarrow> keeps I (bindA m f)"
  unfolding keeps_triple by (rule triple_bind)

lemma keeps_lift [keeps_intros]: "keeps I m \<Longrightarrow> keeps I (lift up m)"
  unfolding keeps_triple by (rule triple_lift)

lemma keeps_new_v4 [keeps_intros]: "keeps I new_v4"
  by (simp add: keeps_def new_v4_def)

lemma keeps_now_utc [keeps_intros]: "keeps I now_utc"
  by (simp add: keeps_def now_utc_def)

lemma keeps_emit [keeps_intros]: "keeps I (emit x)"
  by (simp add: keeps_def emit_def)

lemma keeps_attempt [keeps_intros]: "keeps I m \<Longrightarrow> keeps I (attempt m)"
  by (simp add: keeps_def attempt_def)

lemma keeps_stmt_now:
  "(\<And>t d x d'. I d \<Longrightarrow> q t d = Inr (x, d') \<Longrightarrow> I d') \<Longrightarrow> keeps I (stmt_now q)"
  by (auto simp: keeps_def stmt_now_def split: sum.splits prod.splits)

lemma keeps_stmt: "(\<And>d x d'. I d \<Longrightarrow> q d = Inr (x, d') \<Longrightarrow> I d') \<Longrightarrow> keeps I (stmt q)"
  unfolding stmt_def by (rule keeps_stmt_now)

lemma keeps_stmt_locked:
  "(\<And>l d x d'. I d \<Longrightarrow> q l d = Inr (x, d') \<Longrightarrow> I d') \<Longrightarrow> keeps I (stmt_locked q)"
  by (auto simp: keeps_def stmt_locked_def stmt_def stmt_now_def split: sum.splits prod.splits)

lemma keeps_stmt_locked_now:
  "(\<And>l t d x d'. I d \<Longrightarrow> q l t d = Inr (x, d') \<Longrightarrow> I d') \<Longrightarrow> keeps I (stmt_locked_now q)"
  by (auto simp: keeps_def stmt_locked_now_def stmt_now_def split: sum.splits prod.splits)

lemma keeps_query_now:
  "(\<And>t d x d'. I d \<Longrightarrow> q t d = Inr (x, d') \<Longrightarrow> I d') \<Longrightarrow> keeps I (query_now q)"
  by (auto simp: keeps_def query_now_def split: sum.splits prod.splits)

lemma keeps_query: "(\<And>d x d'. I d \<Longrightarrow> q d = Inr (x, d') \<Longrightarrow> I d') \<Longrightarrow> keeps I (query q)"
  unfolding query_def by (rule keeps_query_now)

lemma keeps_acquire [keeps_intros]: "keeps I acquire"
  by (simp add: keeps_def acquire_def)

lemma keeps_ask [keeps_intros]: "keeps I (ask f)"
  by (simp add: keeps_def ask_def)

lemma keeps_stmt_reading [keeps_intros]: "keeps I (stmt (reading f))"
  by (rule keeps_stmt) (simp add: reading_def)

lemma keeps_query_reading [keeps_intros]: "keeps I (query (reading f))"
  by (rule keeps_query) (simp add: reading_def)

lemma keeps_foldA [keeps_intros]:
  "(\<And>s x. keeps I (f s x)) \<Longrightarrow> keeps I (foldA f s xs)"
  unfolding keeps_triple by (rule triple_foldA)

lemma keeps_in_tx [keeps_intros]:
  assumes "keeps I body"
  shows "keeps I (in_tx up body)"
  unfolding keeps_def
proof (intro allI impI)
  fix v and w :: "('a, 'b) world"
  assume i: "I (db w)"
  obtain r w' where e: "in_tx up body v w = (r, w')" by fastforce
  from keepsD [OF assms, of "begin_tx v w" v] i
  have "I (db (snd (body v (begin_tx v w))))" by simp
  with in_tx_atomic [OF e] i have "I (db w')" by (metis snd_conv)
  with e show "I (db (snd (in_tx up body v w)))" by simp
qed

text \<open>An invariant a transaction may break while it is open, as long as it holds at COMMIT.\<close>

lemma keeps_in_tx_commit:
  assumes "triple (\<lambda>w. I (db w)) body (\<lambda>_ w. I (db w)) (\<lambda>_ _. True)"
  shows "keeps I (in_tx up body)"
  unfolding keeps_def
proof (intro allI impI)
  fix v and w :: "('a, 'b) world"
  assume i: "I (db w)"
  obtain r w' where e: "in_tx up body v w = (r, w')" by fastforce
  from in_tx_atomic [OF e] consider "db w' = db w"
    | x w1 where "body v (begin_tx v w) = (Inr x, w1)" "db w' = db w1" by auto
  then have "I (db w')"
  proof cases
    case 1
    with i show ?thesis by simp
  next
    case 2
    with tripleD_Inr [OF assms, of "begin_tx v w"] i show ?thesis by simp
  qed
  with e show "I (db (snd (in_tx up body v w)))" by simp
qed

lemma keeps_option [keeps_intros]:
  "(z = None \<Longrightarrow> keeps I a) \<Longrightarrow> (\<And>x. z = Some x \<Longrightarrow> keeps I (b x)) \<Longrightarrow>
   keeps I (case z of None \<Rightarrow> a | Some x \<Rightarrow> b x)"
  by (cases z) simp_all

lemma keeps_sum [keeps_intros]:
  "(\<And>x. z = Inl x \<Longrightarrow> keeps I (a x)) \<Longrightarrow> (\<And>x. z = Inr x \<Longrightarrow> keeps I (b x)) \<Longrightarrow>
   keeps I (case z of Inl x \<Rightarrow> a x | Inr x \<Rightarrow> b x)"
  by (cases z) simp_all

lemma keeps_prod [keeps_intros]:
  "(\<And>x y. z = (x, y) \<Longrightarrow> keeps I (a x y)) \<Longrightarrow> keeps I (case z of (x, y) \<Rightarrow> a x y)"
  by (cases z) simp_all

lemma keeps_if [keeps_intros]:
  "(c \<Longrightarrow> keeps I a) \<Longrightarrow> (\<not> c \<Longrightarrow> keeps I b) \<Longrightarrow> keeps I (if c then a else b)"
  by simp


section \<open>Actions without output\<close>

definition silent :: "('d, 'o, 'e, 'a) act \<Rightarrow> bool" where
  "silent m \<longleftrightarrow> (\<forall>v w. trace (snd (m v w)) = trace w)"

lemma silentD: "silent m \<Longrightarrow> m v w = (r, w') \<Longrightarrow> trace w' = trace w"
  unfolding silent_def by (metis snd_conv)

lemma silent_basic [silent_intros]:
  "silent (ret x)" "silent (fail e)" "silent (of_sum r)" "silent (ask f)" "silent new_v4"
  "silent now_utc" "silent acquire"
  by (simp_all add: silent_def ret_def fail_def of_sum_def ask_def new_v4_def now_utc_def acquire_def)

lemma silent_statements [silent_intros]:
  "silent (stmt_now q)" "silent (stmt q')" "silent (query_now q)" "silent (query q')"
  "silent (stmt_locked ql)" "silent (stmt_locked_now qn)"
  by (auto simp: silent_def stmt_now_def stmt_def query_now_def query_def stmt_locked_def
        stmt_locked_now_def split: sum.splits prod.splits)

lemma silent_bind [silent_intros]:
  assumes "silent m" and "\<And>x. silent (f x)"
  shows "silent (bindA m f)"
  unfolding silent_def
proof (intro allI)
  fix v and w :: "('a, 'b) world"
  obtain r w1 where m: "m v w = (r, w1)" by fastforce
  then have "trace w1 = trace w" by (rule silentD [OF assms(1)])
  moreover have "trace (snd (f x v w1)) = trace w1" for x
    using assms(2) [of x] by (simp add: silent_def)
  ultimately show "trace (snd (bindA m f v w)) = trace w"
    using m by (cases r) (simp_all add: bindA_def)
qed

lemma silent_lift [silent_intros]: "silent m \<Longrightarrow> silent (lift up m)"
  unfolding silent_def lift_def by (auto split: prod.splits sum.splits) (metis snd_conv)+

lemma silent_attempt [silent_intros]: "silent m \<Longrightarrow> silent (attempt m)"
  by (simp add: silent_def attempt_def)

lemma silent_foldA [silent_intros]: "(\<And>s x. silent (f s x)) \<Longrightarrow> silent (foldA f s xs)"
  by (induction xs arbitrary: s) (auto intro: silent_intros)

lemma silent_in_tx [silent_intros]:
  assumes "silent body"
  shows "silent (in_tx up body)"
  unfolding silent_def
proof (intro allI)
  fix v and w :: "('a, 'b) world"
  obtain r w1 where b: "body v (begin_tx v w) = (r, w1)" by fastforce
  then have "trace w1 = trace w" using silentD [OF assms b] by simp
  with b show "trace (snd (in_tx up body v w)) = trace w"
    by (cases r) (simp_all add: in_tx_def)
qed

lemma silent_cases [silent_intros]:
  "(c \<Longrightarrow> silent a) \<Longrightarrow> (\<not> c \<Longrightarrow> silent b) \<Longrightarrow> silent (if c then a else b)"
  "(z = None \<Longrightarrow> silent a) \<Longrightarrow> (\<And>x. z = Some x \<Longrightarrow> silent (f x)) \<Longrightarrow>
   silent (case z of None \<Rightarrow> a | Some x \<Rightarrow> f x)"
  "(\<And>x. y = Inl x \<Longrightarrow> silent (g x)) \<Longrightarrow> (\<And>x. y = Inr x \<Longrightarrow> silent (h x)) \<Longrightarrow>
   silent (case y of Inl x \<Rightarrow> g x | Inr x \<Rightarrow> h x)"
  by (auto split: option.splits sum.splits)

section \<open>Actions that swallow no failure\<close>

text \<open>An action that returns a value leaves the transaction as usable as it was; then \<open>Ok\<close> of the
  whole transaction means its database was committed.\<close>

definition straight :: "('d, 'o, 'e, 'a) act \<Rightarrow> bool" where
  "straight m \<longleftrightarrow> (\<forall>v w x w'. m v w = (Inr x, w') \<longrightarrow> aborted w' = aborted w)"

lemma straightD: "straight m \<Longrightarrow> m v w = (Inr x, w') \<Longrightarrow> aborted w' = aborted w"
  by (simp add: straight_def)

lemma straight_basic [straight_intros]:
  "straight (ret x)" "straight (fail e)" "straight (of_sum r)" "straight (ask f)" "straight new_v4"
  "straight now_utc" "straight acquire"
  by (simp_all add: straight_def ret_def fail_def of_sum_def ask_def new_v4_def now_utc_def acquire_def)

lemma straight_statements [straight_intros]:
  "straight (stmt_now q)" "straight (stmt q')" "straight (query_now q)" "straight (query q')"
  "straight (stmt_locked ql)" "straight (stmt_locked_now qn)"
  by (auto simp: straight_def stmt_now_def stmt_def query_now_def query_def stmt_locked_def
        stmt_locked_now_def split: sum.splits prod.splits if_splits)

lemma straight_bind [straight_intros]:
  "straight m \<Longrightarrow> (\<And>x. straight (f x)) \<Longrightarrow> straight (bindA m f)"
  unfolding straight_def by (metis bindA_InrE)

lemma straight_lift [straight_intros]: "straight m \<Longrightarrow> straight (lift up m)"
  unfolding straight_def by (metis lift_InrE)

lemma straight_foldA [straight_intros]: "(\<And>s x. straight (f s x)) \<Longrightarrow> straight (foldA f s xs)"
  by (induction xs arbitrary: s) (auto intro: straight_intros)

lemma straight_cases [straight_intros]:
  "(c \<Longrightarrow> straight a) \<Longrightarrow> (\<not> c \<Longrightarrow> straight b) \<Longrightarrow> straight (if c then a else b)"
  "(z = None \<Longrightarrow> straight a) \<Longrightarrow> (\<And>x. z = Some x \<Longrightarrow> straight (f x)) \<Longrightarrow>
   straight (case z of None \<Rightarrow> a | Some x \<Rightarrow> f x)"
  "(\<And>x. y = Inl x \<Longrightarrow> straight (g x)) \<Longrightarrow> (\<And>x. y = Inr x \<Longrightarrow> straight (h x)) \<Longrightarrow>
   straight (case y of Inl x \<Rightarrow> g x | Inr x \<Rightarrow> h x)"
  by (auto split: option.splits sum.splits)

lemma in_tx_straight:
  assumes "in_tx up body v w = (Inr x, w')" and "straight body"
  obtains w1 where "body v (begin_tx v w) = (Inr x, w1)" and "db w' = db w1" and "trace w' = trace w1"
  using assms(1)
proof (rule in_tx_InrE)
  show "\<not> aborted w1" if "body v (begin_tx v w) = (Inr x, w1)" for w1
    using straightD [OF assms(2) that] by simp
qed (rule that)

text \<open>Every run, successful or not, leaves either the old database or that of a successful body.\<close>

lemma in_tx_cases:
  assumes "in_tx up body v w = (r, w')"
  obtains "db w' = db w"
  | x w1 where "body v (begin_tx v w) = (Inr x, w1)" and "db w' = db w1"
  using in_tx_atomic [OF assms] by blast

lemma in_tx_straight_cases:
  assumes "in_tx up body v w = (r, w')" and "straight body"
  obtains "isl r" and "db w' = db w"
  | x w1 where "body v (begin_tx v w) = (Inr x, w1)" and "db w' = db w1" and "r = Inr x \<or> isl r"
proof (cases r)
  case Inl
  with assms(1) that show ?thesis by (auto elim: in_tx_cases)
next
  case (Inr x)
  from assms(1) [unfolded Inr] assms(2) show ?thesis by (rule in_tx_straight) (rule that(2), simp_all add: Inr)
qed

section \<open>Actions that succeed\<close>

text \<open>\<open>succeeds v m w\<close>: run in \<open>w\<close>, the action returns a value and leaves the transaction usable.\<close>

definition succeeds :: "env \<Rightarrow> ('d, 'o, 'e, 'a) act \<Rightarrow> ('d, 'o) world \<Rightarrow> bool" where
  "succeeds v m w \<longleftrightarrow> (\<exists>x w'. m v w = (Inr x, w') \<and> \<not> aborted w')"

lemma succeeds_bind:
  assumes "succeeds v m w"
    and "\<And>x w'. m v w = (Inr x, w') \<Longrightarrow> \<not> aborted w' \<Longrightarrow> succeeds v (f x) w'"
  shows "succeeds v (bindA m f) w"
  using assms by (fastforce simp: succeeds_def bindA_def)

lemma succeeds_bind_attempt:
  assumes "succeeds v m w"
    and "\<And>x w'. m v w = (Inr x, w') \<Longrightarrow> \<not> aborted w' \<Longrightarrow> succeeds v (f (Inr x)) w'"
  shows "succeeds v (bindA (attempt m) f) w"
  using assms by (fastforce simp: succeeds_def bindA_def attempt_def)

lemma succeeds_lift: "succeeds v m w \<Longrightarrow> succeeds v (lift up m) w"
  by (auto simp: succeeds_def lift_def)

lemma succeeds_basic:
  assumes "\<not> aborted w"
  shows "succeeds v (ret x) w" "succeeds v (ask f) w" "succeeds v new_v4 w" "succeeds v now_utc w"
  using assms by (simp_all add: succeeds_def ret_def ask_def new_v4_def now_utc_def)

lemma succeeds_stmt_now:
  assumes "\<not> aborted w" and "quiet v" and "\<exists>p. q (tx_start w) (db w) = Inr p"
  shows "succeeds v (stmt_now q) w"
  using assms by (auto simp: succeeds_def stmt_now_def quiet_def)

lemma succeeds_stmt:
  assumes "\<not> aborted w" and "quiet v" and "\<exists>p. q (db w) = Inr p"
  shows "succeeds v (stmt q) w"
  unfolding stmt_def using assms by (rule succeeds_stmt_now)

lemma succeeds_query:
  assumes "\<not> aborted w" and "quiet v" and "\<exists>p. q (db w) = Inr p"
  shows "succeeds v (query q) w"
  using assms by (auto simp: succeeds_def query_def query_now_def quiet_def)

lemma succeeds_reading:
  assumes "\<not> aborted w" and "quiet v"
  shows "succeeds v (stmt (reading f)) w" "succeeds v (query (reading f)) w"
  using assms by (simp_all add: succeeds_stmt succeeds_query reading_def)

lemma succeeds_acquire: "\<not> aborted w \<Longrightarrow> quiet v \<Longrightarrow> succeeds v acquire w"
  by (simp add: succeeds_def acquire_def quiet_def)

lemma succeeds_in_tx:
  assumes "quiet v" and "succeeds v body (begin_tx v w)"
  shows "succeeds v (in_tx up body) w"
  using assms in_tx_run(1) [of v body w _ _ up] unfolding succeeds_def by fastforce

end
