(* ===== verification/Vocab.thy ===== *)
theory Vocab
  imports Prelude
begin

text \<open>
  The enumerations of \<open>src/domain/entity/\<close>: each has a \<open>Display\<close> that prints its snake-case label
  (\<open>_show\<close>), a \<open>FromStr\<close> that parses a label without regard to case (\<open>_from_str\<close>), and a \<open>Default\<close>
  (\<open>_default\<close>).  The database columns are enum types with the same labels, so the SQL cast
  \<open>$1::mail_state\<close> accepts exactly the printed labels (\<open>pg_enum_cast\<close>).  The locale \<open>text_enum\<close> is the
  contract of such a pair of printer and parser; it is interpreted for every enumeration.
  Constructors are written with their type (\<open>MailState.Outgoing\<close>), as in the source.
\<close>

section \<open>The contract of a printed enumeration\<close>

definition pg_enum_cast :: "('a \<Rightarrow> string) \<Rightarrow> (string \<Rightarrow> 'e + 'a) \<Rightarrow> string \<Rightarrow> 'a option" where
  "pg_enum_cast label from_str s =
     (case from_str s of Inl _ \<Rightarrow> None | Inr x \<Rightarrow> if label x = s then Some x else None)"

locale text_enum =
  fixes label :: "'a \<Rightarrow> string"
    and from_str :: "string \<Rightarrow> 'e + 'a"
  assumes from_str_label: "from_str (label x) = Inr x"
    and from_str_sound: "from_str s = Inr x \<Longrightarrow> to_lowercase s = label x"
    and from_str_lower: "to_lowercase s = to_lowercase t \<Longrightarrow> from_str s = Inr x \<Longrightarrow> from_str t = Inr x"
begin

lemma label_inj: "label x = label y \<longleftrightarrow> x = y"
  by (metis from_str_label sum.inject(2))

lemma label_lower: "to_lowercase (label x) = label x"
  using from_str_sound [OF from_str_label] .

lemma from_str_iff: "from_str s = Inr x \<longleftrightarrow> to_lowercase s = label x"
proof
  assume "to_lowercase s = label x"
  then have "to_lowercase (label x) = to_lowercase s" by (simp add: label_lower)
  then show "from_str s = Inr x" using from_str_label [of x] by (rule from_str_lower)
qed (rule from_str_sound)

lemma cast_label [simp]: "pg_enum_cast label from_str (label x) = Some x"
  by (simp add: pg_enum_cast_def from_str_label)

lemma cast_iff: "pg_enum_cast label from_str s = Some x \<longleftrightarrow> s = label x"
  by (auto simp: pg_enum_cast_def from_str_label split: sum.splits if_splits)

lemma cast_None: "pg_enum_cast label from_str s = None \<longleftrightarrow> s \<notin> range label"
  by (metis cast_iff not_Some_eq rangeE rangeI)

end

section \<open>MailState\<close>

datatype MailState = Outgoing | Sent | Received | Exception | Cancel

fun MailState_show :: "MailState \<Rightarrow> string" where
  "MailState_show MailState.Outgoing = ''outgoing''"
| "MailState_show MailState.Sent = ''sent''"
| "MailState_show MailState.Received = ''received''"
| "MailState_show MailState.Exception = ''exception''"
| "MailState_show MailState.Cancel = ''cancel''"

definition MailState_from_str :: "string \<Rightarrow> string + MailState" where
  "MailState_from_str s =
     (let t = to_lowercase s in
      if t = ''outgoing'' then Inr MailState.Outgoing
      else if t = ''sent'' then Inr MailState.Sent
      else if t = ''received'' then Inr MailState.Received
      else if t = ''exception'' then Inr MailState.Exception
      else if t = ''cancel'' then Inr MailState.Cancel
      else Inl (''Unknown MailState variant: '' @ s))"

definition MailState_default :: MailState where
  "MailState_default = MailState.Outgoing"

interpretation mail_state: text_enum MailState_show MailState_from_str
proof
  show "MailState_from_str (MailState_show x) = Inr x" for x
    by (cases x) (simp_all add: MailState_from_str_def ascii_lower_def byte_of_def)
  show "MailState_from_str s = Inr x \<Longrightarrow> to_lowercase s = MailState_show x" for s x
    by (auto simp: MailState_from_str_def Let_def split: if_splits)
  show "to_lowercase s = to_lowercase t \<Longrightarrow> MailState_from_str s = Inr x \<Longrightarrow> MailState_from_str t = Inr x"
    for s t x
    by (auto simp: MailState_from_str_def Let_def split: if_splits)
qed

section \<open>MailNotificationStatus\<close>

datatype MailNotificationStatus = Ready | Process | Pending | Sent | Bounce | Exception | Canceled

fun MailNotificationStatus_show :: "MailNotificationStatus \<Rightarrow> string" where
  "MailNotificationStatus_show MailNotificationStatus.Ready = ''ready''"
| "MailNotificationStatus_show MailNotificationStatus.Process = ''process''"
| "MailNotificationStatus_show MailNotificationStatus.Pending = ''pending''"
| "MailNotificationStatus_show MailNotificationStatus.Sent = ''sent''"
| "MailNotificationStatus_show MailNotificationStatus.Bounce = ''bounce''"
| "MailNotificationStatus_show MailNotificationStatus.Exception = ''exception''"
| "MailNotificationStatus_show MailNotificationStatus.Canceled = ''canceled''"

definition MailNotificationStatus_from_str :: "string \<Rightarrow> string + MailNotificationStatus" where
  "MailNotificationStatus_from_str s =
     (let t = to_lowercase s in
      if t = ''ready'' then Inr MailNotificationStatus.Ready
      else if t = ''process'' then Inr MailNotificationStatus.Process
      else if t = ''pending'' then Inr MailNotificationStatus.Pending
      else if t = ''sent'' then Inr MailNotificationStatus.Sent
      else if t = ''bounce'' then Inr MailNotificationStatus.Bounce
      else if t = ''exception'' then Inr MailNotificationStatus.Exception
      else if t = ''canceled'' then Inr MailNotificationStatus.Canceled
      else Inl (''Unknown MailNotificationStatus variant: '' @ s))"

definition MailNotificationStatus_default :: MailNotificationStatus where
  "MailNotificationStatus_default = MailNotificationStatus.Ready"

interpretation mail_notification_status: text_enum MailNotificationStatus_show MailNotificationStatus_from_str
proof
  show "MailNotificationStatus_from_str (MailNotificationStatus_show x) = Inr x" for x
    by (cases x) (simp_all add: MailNotificationStatus_from_str_def ascii_lower_def byte_of_def)
  show "MailNotificationStatus_from_str s = Inr x \<Longrightarrow> to_lowercase s = MailNotificationStatus_show x" for s x
    by (auto simp: MailNotificationStatus_from_str_def Let_def split: if_splits)
  show "to_lowercase s = to_lowercase t \<Longrightarrow> MailNotificationStatus_from_str s = Inr x \<Longrightarrow> MailNotificationStatus_from_str t = Inr x"
    for s t x
    by (auto simp: MailNotificationStatus_from_str_def Let_def split: if_splits)
qed

section \<open>SmsState\<close>

datatype SmsState = Outgoing | Process | Pending | Sent | Error | Canceled

fun SmsState_show :: "SmsState \<Rightarrow> string" where
  "SmsState_show SmsState.Outgoing = ''outgoing''"
| "SmsState_show SmsState.Process = ''process''"
| "SmsState_show SmsState.Pending = ''pending''"
| "SmsState_show SmsState.Sent = ''sent''"
| "SmsState_show SmsState.Error = ''error''"
| "SmsState_show SmsState.Canceled = ''canceled''"

definition SmsState_from_str :: "string \<Rightarrow> string + SmsState" where
  "SmsState_from_str s =
     (let t = to_lowercase s in
      if t = ''outgoing'' then Inr SmsState.Outgoing
      else if t = ''process'' then Inr SmsState.Process
      else if t = ''pending'' then Inr SmsState.Pending
      else if t = ''sent'' then Inr SmsState.Sent
      else if t = ''error'' then Inr SmsState.Error
      else if t = ''canceled'' then Inr SmsState.Canceled
      else Inl (''Unknown SmsState variant: '' @ s))"

definition SmsState_default :: SmsState where
  "SmsState_default = SmsState.Outgoing"

interpretation sms_state: text_enum SmsState_show SmsState_from_str
proof
  show "SmsState_from_str (SmsState_show x) = Inr x" for x
    by (cases x) (simp_all add: SmsState_from_str_def ascii_lower_def byte_of_def)
  show "SmsState_from_str s = Inr x \<Longrightarrow> to_lowercase s = SmsState_show x" for s x
    by (auto simp: SmsState_from_str_def Let_def split: if_splits)
  show "to_lowercase s = to_lowercase t \<Longrightarrow> SmsState_from_str s = Inr x \<Longrightarrow> SmsState_from_str t = Inr x"
    for s t x
    by (auto simp: SmsState_from_str_def Let_def split: if_splits)
qed

section \<open>MailFailureType\<close>

datatype MailFailureType = MailSmtp | MailEmailInvalid | MailBounce | MailBlacklist | MailRecipient | MailServer | Unknown

fun MailFailureType_show :: "MailFailureType \<Rightarrow> string" where
  "MailFailureType_show MailFailureType.MailSmtp = ''mail_smtp''"
| "MailFailureType_show MailFailureType.MailEmailInvalid = ''mail_email_invalid''"
| "MailFailureType_show MailFailureType.MailBounce = ''mail_bounce''"
| "MailFailureType_show MailFailureType.MailBlacklist = ''mail_blacklist''"
| "MailFailureType_show MailFailureType.MailRecipient = ''mail_recipient''"
| "MailFailureType_show MailFailureType.MailServer = ''mail_server''"
| "MailFailureType_show MailFailureType.Unknown = ''unknown''"

definition MailFailureType_from_str :: "string \<Rightarrow> string + MailFailureType" where
  "MailFailureType_from_str s =
     (let t = to_lowercase s in
      if t = ''mail_smtp'' then Inr MailFailureType.MailSmtp
      else if t = ''mail_email_invalid'' then Inr MailFailureType.MailEmailInvalid
      else if t = ''mail_bounce'' then Inr MailFailureType.MailBounce
      else if t = ''mail_blacklist'' then Inr MailFailureType.MailBlacklist
      else if t = ''mail_recipient'' then Inr MailFailureType.MailRecipient
      else if t = ''mail_server'' then Inr MailFailureType.MailServer
      else if t = ''unknown'' then Inr MailFailureType.Unknown
      else Inl (''Unknown MailFailureType variant: '' @ s))"

definition MailFailureType_default :: MailFailureType where
  "MailFailureType_default = MailFailureType.Unknown"

interpretation mail_failure_type: text_enum MailFailureType_show MailFailureType_from_str
proof
  show "MailFailureType_from_str (MailFailureType_show x) = Inr x" for x
    by (cases x) (simp_all add: MailFailureType_from_str_def ascii_lower_def byte_of_def)
  show "MailFailureType_from_str s = Inr x \<Longrightarrow> to_lowercase s = MailFailureType_show x" for s x
    by (auto simp: MailFailureType_from_str_def Let_def split: if_splits)
  show "to_lowercase s = to_lowercase t \<Longrightarrow> MailFailureType_from_str s = Inr x \<Longrightarrow> MailFailureType_from_str t = Inr x"
    for s t x
    by (auto simp: MailFailureType_from_str_def Let_def split: if_splits)
qed

section \<open>SmsFailureType\<close>

datatype SmsFailureType = SmsNumberMissing | SmsNumberFormat | SmsCountryNotSupported | SmsRegistrationNeeded | SmsCredit | SmsServer | SmsAcc | SmsBlacklist | SmsDuplicate | SmsOptout | Unknown

fun SmsFailureType_show :: "SmsFailureType \<Rightarrow> string" where
  "SmsFailureType_show SmsFailureType.SmsNumberMissing = ''sms_number_missing''"
| "SmsFailureType_show SmsFailureType.SmsNumberFormat = ''sms_number_format''"
| "SmsFailureType_show SmsFailureType.SmsCountryNotSupported = ''sms_country_not_supported''"
| "SmsFailureType_show SmsFailureType.SmsRegistrationNeeded = ''sms_registration_needed''"
| "SmsFailureType_show SmsFailureType.SmsCredit = ''sms_credit''"
| "SmsFailureType_show SmsFailureType.SmsServer = ''sms_server''"
| "SmsFailureType_show SmsFailureType.SmsAcc = ''sms_acc''"
| "SmsFailureType_show SmsFailureType.SmsBlacklist = ''sms_blacklist''"
| "SmsFailureType_show SmsFailureType.SmsDuplicate = ''sms_duplicate''"
| "SmsFailureType_show SmsFailureType.SmsOptout = ''sms_optout''"
| "SmsFailureType_show SmsFailureType.Unknown = ''unknown''"

definition SmsFailureType_from_str :: "string \<Rightarrow> string + SmsFailureType" where
  "SmsFailureType_from_str s =
     (let t = to_lowercase s in
      if t = ''sms_number_missing'' then Inr SmsFailureType.SmsNumberMissing
      else if t = ''sms_number_format'' then Inr SmsFailureType.SmsNumberFormat
      else if t = ''sms_country_not_supported'' then Inr SmsFailureType.SmsCountryNotSupported
      else if t = ''sms_registration_needed'' then Inr SmsFailureType.SmsRegistrationNeeded
      else if t = ''sms_credit'' then Inr SmsFailureType.SmsCredit
      else if t = ''sms_server'' then Inr SmsFailureType.SmsServer
      else if t = ''sms_acc'' then Inr SmsFailureType.SmsAcc
      else if t = ''sms_blacklist'' then Inr SmsFailureType.SmsBlacklist
      else if t = ''sms_duplicate'' then Inr SmsFailureType.SmsDuplicate
      else if t = ''sms_optout'' then Inr SmsFailureType.SmsOptout
      else if t = ''unknown'' then Inr SmsFailureType.Unknown
      else Inl (''Unknown SmsFailureType variant: '' @ s))"

definition SmsFailureType_default :: SmsFailureType where
  "SmsFailureType_default = SmsFailureType.SmsCredit"

interpretation sms_failure_type: text_enum SmsFailureType_show SmsFailureType_from_str
proof
  show "SmsFailureType_from_str (SmsFailureType_show x) = Inr x" for x
    by (cases x) (simp_all add: SmsFailureType_from_str_def ascii_lower_def byte_of_def)
  show "SmsFailureType_from_str s = Inr x \<Longrightarrow> to_lowercase s = SmsFailureType_show x" for s x
    by (auto simp: SmsFailureType_from_str_def Let_def split: if_splits)
  show "to_lowercase s = to_lowercase t \<Longrightarrow> SmsFailureType_from_str s = Inr x \<Longrightarrow> SmsFailureType_from_str t = Inr x"
    for s t x
    by (auto simp: SmsFailureType_from_str_def Let_def split: if_splits)
qed

section \<open>NotificationFailureType\<close>

datatype NotificationFailureType = MailSmtp | MailEmailInvalid | MailBounce | MailBlacklist | MailRecipient | MailServer | Unknown | SmsNumberMissing | SmsNumberFormat | SmsCountryNotSupported | SmsRegistrationNeeded | SmsCredit | SmsServer | SmsAcc | SmsBlacklist | SmsDuplicate | SmsOptout | SmsExpired | SmsInvalidDestination | SmsNotAllowed | SmsNotDelivered | SmsRejected

fun NotificationFailureType_show :: "NotificationFailureType \<Rightarrow> string" where
  "NotificationFailureType_show NotificationFailureType.MailSmtp = ''mail_smtp''"
| "NotificationFailureType_show NotificationFailureType.MailEmailInvalid = ''mail_email_invalid''"
| "NotificationFailureType_show NotificationFailureType.MailBounce = ''mail_bounce''"
| "NotificationFailureType_show NotificationFailureType.MailBlacklist = ''mail_blacklist''"
| "NotificationFailureType_show NotificationFailureType.MailRecipient = ''mail_recipient''"
| "NotificationFailureType_show NotificationFailureType.MailServer = ''mail_server''"
| "NotificationFailureType_show NotificationFailureType.Unknown = ''unknown''"
| "NotificationFailureType_show NotificationFailureType.SmsNumberMissing = ''sms_number_missing''"
| "NotificationFailureType_show NotificationFailureType.SmsNumberFormat = ''sms_number_format''"
| "NotificationFailureType_show NotificationFailureType.SmsCountryNotSupported = ''sms_country_not_supported''"
| "NotificationFailureType_show NotificationFailureType.SmsRegistrationNeeded = ''sms_registration_needed''"
| "NotificationFailureType_show NotificationFailureType.SmsCredit = ''sms_credit''"
| "NotificationFailureType_show NotificationFailureType.SmsServer = ''sms_server''"
| "NotificationFailureType_show NotificationFailureType.SmsAcc = ''sms_acc''"
| "NotificationFailureType_show NotificationFailureType.SmsBlacklist = ''sms_blacklist''"
| "NotificationFailureType_show NotificationFailureType.SmsDuplicate = ''sms_duplicate''"
| "NotificationFailureType_show NotificationFailureType.SmsOptout = ''sms_optout''"
| "NotificationFailureType_show NotificationFailureType.SmsExpired = ''sms_expired''"
| "NotificationFailureType_show NotificationFailureType.SmsInvalidDestination = ''sms_invalid_destination''"
| "NotificationFailureType_show NotificationFailureType.SmsNotAllowed = ''sms_not_allowed''"
| "NotificationFailureType_show NotificationFailureType.SmsNotDelivered = ''sms_not_delivered''"
| "NotificationFailureType_show NotificationFailureType.SmsRejected = ''sms_rejected''"

definition NotificationFailureType_from_str :: "string \<Rightarrow> string + NotificationFailureType" where
  "NotificationFailureType_from_str s =
     (let t = to_lowercase s in
      if t = ''mail_smtp'' then Inr NotificationFailureType.MailSmtp
      else if t = ''mail_email_invalid'' then Inr NotificationFailureType.MailEmailInvalid
      else if t = ''mail_bounce'' then Inr NotificationFailureType.MailBounce
      else if t = ''mail_blacklist'' then Inr NotificationFailureType.MailBlacklist
      else if t = ''mail_recipient'' then Inr NotificationFailureType.MailRecipient
      else if t = ''mail_server'' then Inr NotificationFailureType.MailServer
      else if t = ''unknown'' then Inr NotificationFailureType.Unknown
      else if t = ''sms_number_missing'' then Inr NotificationFailureType.SmsNumberMissing
      else if t = ''sms_number_format'' then Inr NotificationFailureType.SmsNumberFormat
      else if t = ''sms_country_not_supported'' then Inr NotificationFailureType.SmsCountryNotSupported
      else if t = ''sms_registration_needed'' then Inr NotificationFailureType.SmsRegistrationNeeded
      else if t = ''sms_credit'' then Inr NotificationFailureType.SmsCredit
      else if t = ''sms_server'' then Inr NotificationFailureType.SmsServer
      else if t = ''sms_acc'' then Inr NotificationFailureType.SmsAcc
      else if t = ''sms_blacklist'' then Inr NotificationFailureType.SmsBlacklist
      else if t = ''sms_duplicate'' then Inr NotificationFailureType.SmsDuplicate
      else if t = ''sms_optout'' then Inr NotificationFailureType.SmsOptout
      else if t = ''sms_expired'' then Inr NotificationFailureType.SmsExpired
      else if t = ''sms_invalid_destination'' then Inr NotificationFailureType.SmsInvalidDestination
      else if t = ''sms_not_allowed'' then Inr NotificationFailureType.SmsNotAllowed
      else if t = ''sms_not_delivered'' then Inr NotificationFailureType.SmsNotDelivered
      else if t = ''sms_rejected'' then Inr NotificationFailureType.SmsRejected
      else Inl (''Unknown NotificationFailureType variant: '' @ s))"

definition NotificationFailureType_default :: NotificationFailureType where
  "NotificationFailureType_default = NotificationFailureType.Unknown"

interpretation notification_failure_type: text_enum NotificationFailureType_show NotificationFailureType_from_str
proof
  show "NotificationFailureType_from_str (NotificationFailureType_show x) = Inr x" for x
    by (cases x) (simp_all add: NotificationFailureType_from_str_def ascii_lower_def byte_of_def)
  show "NotificationFailureType_from_str s = Inr x \<Longrightarrow> to_lowercase s = NotificationFailureType_show x" for s x
    by (auto simp: NotificationFailureType_from_str_def Let_def split: if_splits)
  show "to_lowercase s = to_lowercase t \<Longrightarrow> NotificationFailureType_from_str s = Inr x \<Longrightarrow> NotificationFailureType_from_str t = Inr x"
    for s t x
    by (auto simp: NotificationFailureType_from_str_def Let_def split: if_splits)
qed

section \<open>MailMessageType\<close>

datatype MailMessageType = Email | Comment | Notification | Sms

fun MailMessageType_show :: "MailMessageType \<Rightarrow> string" where
  "MailMessageType_show MailMessageType.Email = ''email''"
| "MailMessageType_show MailMessageType.Comment = ''comment''"
| "MailMessageType_show MailMessageType.Notification = ''notification''"
| "MailMessageType_show MailMessageType.Sms = ''sms''"

definition MailMessageType_from_str :: "string \<Rightarrow> string + MailMessageType" where
  "MailMessageType_from_str s =
     (let t = to_lowercase s in
      if t = ''email'' then Inr MailMessageType.Email
      else if t = ''comment'' then Inr MailMessageType.Comment
      else if t = ''notification'' then Inr MailMessageType.Notification
      else if t = ''sms'' then Inr MailMessageType.Sms
      else Inl (''Unknown MailMessageType variant: '' @ s))"

definition MailMessageType_default :: MailMessageType where
  "MailMessageType_default = MailMessageType.Comment"

interpretation mail_message_type: text_enum MailMessageType_show MailMessageType_from_str
proof
  show "MailMessageType_from_str (MailMessageType_show x) = Inr x" for x
    by (cases x) (simp_all add: MailMessageType_from_str_def ascii_lower_def byte_of_def)
  show "MailMessageType_from_str s = Inr x \<Longrightarrow> to_lowercase s = MailMessageType_show x" for s x
    by (auto simp: MailMessageType_from_str_def Let_def split: if_splits)
  show "to_lowercase s = to_lowercase t \<Longrightarrow> MailMessageType_from_str s = Inr x \<Longrightarrow> MailMessageType_from_str t = Inr x"
    for s t x
    by (auto simp: MailMessageType_from_str_def Let_def split: if_splits)
qed

section \<open>MailNotificationType\<close>

datatype MailNotificationType = Inbox | Email | Sms

fun MailNotificationType_show :: "MailNotificationType \<Rightarrow> string" where
  "MailNotificationType_show MailNotificationType.Inbox = ''inbox''"
| "MailNotificationType_show MailNotificationType.Email = ''email''"
| "MailNotificationType_show MailNotificationType.Sms = ''sms''"

definition MailNotificationType_from_str :: "string \<Rightarrow> string + MailNotificationType" where
  "MailNotificationType_from_str s =
     (let t = to_lowercase s in
      if t = ''inbox'' then Inr MailNotificationType.Inbox
      else if t = ''email'' then Inr MailNotificationType.Email
      else if t = ''sms'' then Inr MailNotificationType.Sms
      else Inl (''Unknown MailNotificationType variant: '' @ s))"

definition MailNotificationType_default :: MailNotificationType where
  "MailNotificationType_default = MailNotificationType.Email"

interpretation mail_notification_type: text_enum MailNotificationType_show MailNotificationType_from_str
proof
  show "MailNotificationType_from_str (MailNotificationType_show x) = Inr x" for x
    by (cases x) (simp_all add: MailNotificationType_from_str_def ascii_lower_def byte_of_def)
  show "MailNotificationType_from_str s = Inr x \<Longrightarrow> to_lowercase s = MailNotificationType_show x" for s x
    by (auto simp: MailNotificationType_from_str_def Let_def split: if_splits)
  show "to_lowercase s = to_lowercase t \<Longrightarrow> MailNotificationType_from_str s = Inr x \<Longrightarrow> MailNotificationType_from_str t = Inr x"
    for s t x
    by (auto simp: MailNotificationType_from_str_def Let_def split: if_splits)
qed

section \<open>MailAliasContact\<close>

datatype MailAliasContact = Everyone | Partners | Followers

fun MailAliasContact_show :: "MailAliasContact \<Rightarrow> string" where
  "MailAliasContact_show MailAliasContact.Everyone = ''everyone''"
| "MailAliasContact_show MailAliasContact.Partners = ''partners''"
| "MailAliasContact_show MailAliasContact.Followers = ''followers''"

definition MailAliasContact_from_str :: "string \<Rightarrow> string + MailAliasContact" where
  "MailAliasContact_from_str s =
     (let t = to_lowercase s in
      if t = ''everyone'' then Inr MailAliasContact.Everyone
      else if t = ''partners'' then Inr MailAliasContact.Partners
      else if t = ''followers'' then Inr MailAliasContact.Followers
      else Inl (''Unknown MailAliasContact variant: '' @ s))"

definition MailAliasContact_default :: MailAliasContact where
  "MailAliasContact_default = MailAliasContact.Followers"

interpretation mail_alias_contact: text_enum MailAliasContact_show MailAliasContact_from_str
proof
  show "MailAliasContact_from_str (MailAliasContact_show x) = Inr x" for x
    by (cases x) (simp_all add: MailAliasContact_from_str_def ascii_lower_def byte_of_def)
  show "MailAliasContact_from_str s = Inr x \<Longrightarrow> to_lowercase s = MailAliasContact_show x" for s x
    by (auto simp: MailAliasContact_from_str_def Let_def split: if_splits)
  show "to_lowercase s = to_lowercase t \<Longrightarrow> MailAliasContact_from_str s = Inr x \<Longrightarrow> MailAliasContact_from_str t = Inr x"
    for s t x
    by (auto simp: MailAliasContact_from_str_def Let_def split: if_splits)
qed

section \<open>FetchmailState\<close>

datatype FetchmailState = Draft | Done

fun FetchmailState_show :: "FetchmailState \<Rightarrow> string" where
  "FetchmailState_show FetchmailState.Draft = ''draft''"
| "FetchmailState_show FetchmailState.Done = ''done''"

definition FetchmailState_from_str :: "string \<Rightarrow> string + FetchmailState" where
  "FetchmailState_from_str s =
     (let t = to_lowercase s in
      if t = ''draft'' then Inr FetchmailState.Draft
      else if t = ''done'' then Inr FetchmailState.Done
      else Inl (''Unknown FetchmailState variant: '' @ s))"

definition FetchmailState_default :: FetchmailState where
  "FetchmailState_default = FetchmailState.Draft"

interpretation fetchmail_state: text_enum FetchmailState_show FetchmailState_from_str
proof
  show "FetchmailState_from_str (FetchmailState_show x) = Inr x" for x
    by (cases x) (simp_all add: FetchmailState_from_str_def ascii_lower_def byte_of_def)
  show "FetchmailState_from_str s = Inr x \<Longrightarrow> to_lowercase s = FetchmailState_show x" for s x
    by (auto simp: FetchmailState_from_str_def Let_def split: if_splits)
  show "to_lowercase s = to_lowercase t \<Longrightarrow> FetchmailState_from_str s = Inr x \<Longrightarrow> FetchmailState_from_str t = Inr x"
    for s t x
    by (auto simp: FetchmailState_from_str_def Let_def split: if_splits)
qed

section \<open>SmtpAuthentication\<close>

datatype SmtpAuthentication = Login | Certificate

fun SmtpAuthentication_show :: "SmtpAuthentication \<Rightarrow> string" where
  "SmtpAuthentication_show SmtpAuthentication.Login = ''login''"
| "SmtpAuthentication_show SmtpAuthentication.Certificate = ''certificate''"

definition SmtpAuthentication_from_str :: "string \<Rightarrow> string + SmtpAuthentication" where
  "SmtpAuthentication_from_str s =
     (let t = to_lowercase s in
      if t = ''login'' then Inr SmtpAuthentication.Login
      else if t = ''certificate'' then Inr SmtpAuthentication.Certificate
      else Inl (''Unknown SmtpAuthentication variant: '' @ s))"

definition SmtpAuthentication_default :: SmtpAuthentication where
  "SmtpAuthentication_default = SmtpAuthentication.Login"

interpretation smtp_authentication: text_enum SmtpAuthentication_show SmtpAuthentication_from_str
proof
  show "SmtpAuthentication_from_str (SmtpAuthentication_show x) = Inr x" for x
    by (cases x) (simp_all add: SmtpAuthentication_from_str_def ascii_lower_def byte_of_def)
  show "SmtpAuthentication_from_str s = Inr x \<Longrightarrow> to_lowercase s = SmtpAuthentication_show x" for s x
    by (auto simp: SmtpAuthentication_from_str_def Let_def split: if_splits)
  show "to_lowercase s = to_lowercase t \<Longrightarrow> SmtpAuthentication_from_str s = Inr x \<Longrightarrow> SmtpAuthentication_from_str t = Inr x"
    for s t x
    by (auto simp: SmtpAuthentication_from_str_def Let_def split: if_splits)
qed

section \<open>SmtpEncryption\<close>

datatype SmtpEncryption = None' | Starttls | Ssl

fun SmtpEncryption_show :: "SmtpEncryption \<Rightarrow> string" where
  "SmtpEncryption_show SmtpEncryption.None' = ''none''"
| "SmtpEncryption_show SmtpEncryption.Starttls = ''starttls''"
| "SmtpEncryption_show SmtpEncryption.Ssl = ''ssl''"

definition SmtpEncryption_from_str :: "string \<Rightarrow> string + SmtpEncryption" where
  "SmtpEncryption_from_str s =
     (let t = to_lowercase s in
      if t = ''none'' then Inr SmtpEncryption.None'
      else if t = ''starttls'' then Inr SmtpEncryption.Starttls
      else if t = ''ssl'' then Inr SmtpEncryption.Ssl
      else Inl (''Unknown SmtpEncryption variant: '' @ s))"

definition SmtpEncryption_default :: SmtpEncryption where
  "SmtpEncryption_default = SmtpEncryption.None'"

interpretation smtp_encryption: text_enum SmtpEncryption_show SmtpEncryption_from_str
proof
  show "SmtpEncryption_from_str (SmtpEncryption_show x) = Inr x" for x
    by (cases x) (simp_all add: SmtpEncryption_from_str_def ascii_lower_def byte_of_def)
  show "SmtpEncryption_from_str s = Inr x \<Longrightarrow> to_lowercase s = SmtpEncryption_show x" for s x
    by (auto simp: SmtpEncryption_from_str_def Let_def split: if_splits)
  show "to_lowercase s = to_lowercase t \<Longrightarrow> SmtpEncryption_from_str s = Inr x \<Longrightarrow> SmtpEncryption_from_str t = Inr x"
    for s t x
    by (auto simp: SmtpEncryption_from_str_def Let_def split: if_splits)
qed

section \<open>MailModerationStatus\<close>

datatype MailModerationStatus = Pending | Accepted | RejectedModeration

fun MailModerationStatus_show :: "MailModerationStatus \<Rightarrow> string" where
  "MailModerationStatus_show MailModerationStatus.Pending = ''pending''"
| "MailModerationStatus_show MailModerationStatus.Accepted = ''accepted''"
| "MailModerationStatus_show MailModerationStatus.RejectedModeration = ''rejected_moderation''"

definition MailModerationStatus_from_str :: "string \<Rightarrow> string + MailModerationStatus" where
  "MailModerationStatus_from_str s =
     (let t = to_lowercase s in
      if t = ''pending'' then Inr MailModerationStatus.Pending
      else if t = ''accepted'' then Inr MailModerationStatus.Accepted
      else if t = ''rejected_moderation'' then Inr MailModerationStatus.RejectedModeration
      else Inl (''Unknown MailModerationStatus variant: '' @ s))"

definition MailModerationStatus_default :: MailModerationStatus where
  "MailModerationStatus_default = MailModerationStatus.Pending"

interpretation mail_moderation_status: text_enum MailModerationStatus_show MailModerationStatus_from_str
proof
  show "MailModerationStatus_from_str (MailModerationStatus_show x) = Inr x" for x
    by (cases x) (simp_all add: MailModerationStatus_from_str_def ascii_lower_def byte_of_def)
  show "MailModerationStatus_from_str s = Inr x \<Longrightarrow> to_lowercase s = MailModerationStatus_show x" for s x
    by (auto simp: MailModerationStatus_from_str_def Let_def split: if_splits)
  show "to_lowercase s = to_lowercase t \<Longrightarrow> MailModerationStatus_from_str s = Inr x \<Longrightarrow> MailModerationStatus_from_str t = Inr x"
    for s t x
    by (auto simp: MailModerationStatus_from_str_def Let_def split: if_splits)
qed

section \<open>MailPresenceStatus\<close>

datatype MailPresenceStatus = Online | Away | Offline

fun MailPresenceStatus_show :: "MailPresenceStatus \<Rightarrow> string" where
  "MailPresenceStatus_show MailPresenceStatus.Online = ''online''"
| "MailPresenceStatus_show MailPresenceStatus.Away = ''away''"
| "MailPresenceStatus_show MailPresenceStatus.Offline = ''offline''"

definition MailPresenceStatus_from_str :: "string \<Rightarrow> string + MailPresenceStatus" where
  "MailPresenceStatus_from_str s =
     (let t = to_lowercase s in
      if t = ''online'' then Inr MailPresenceStatus.Online
      else if t = ''away'' then Inr MailPresenceStatus.Away
      else if t = ''offline'' then Inr MailPresenceStatus.Offline
      else Inl (''Unknown MailPresenceStatus variant: '' @ s))"

definition MailPresenceStatus_default :: MailPresenceStatus where
  "MailPresenceStatus_default = MailPresenceStatus.Offline"

interpretation mail_presence_status: text_enum MailPresenceStatus_show MailPresenceStatus_from_str
proof
  show "MailPresenceStatus_from_str (MailPresenceStatus_show x) = Inr x" for x
    by (cases x) (simp_all add: MailPresenceStatus_from_str_def ascii_lower_def byte_of_def)
  show "MailPresenceStatus_from_str s = Inr x \<Longrightarrow> to_lowercase s = MailPresenceStatus_show x" for s x
    by (auto simp: MailPresenceStatus_from_str_def Let_def split: if_splits)
  show "to_lowercase s = to_lowercase t \<Longrightarrow> MailPresenceStatus_from_str s = Inr x \<Longrightarrow> MailPresenceStatus_from_str t = Inr x"
    for s t x
    by (auto simp: MailPresenceStatus_from_str_def Let_def split: if_splits)
qed

section \<open>DiscussChannelType\<close>

datatype DiscussChannelType = Chat | Channel | Group

fun DiscussChannelType_show :: "DiscussChannelType \<Rightarrow> string" where
  "DiscussChannelType_show DiscussChannelType.Chat = ''chat''"
| "DiscussChannelType_show DiscussChannelType.Channel = ''channel''"
| "DiscussChannelType_show DiscussChannelType.Group = ''group''"

definition DiscussChannelType_from_str :: "string \<Rightarrow> string + DiscussChannelType" where
  "DiscussChannelType_from_str s =
     (let t = to_lowercase s in
      if t = ''chat'' then Inr DiscussChannelType.Chat
      else if t = ''channel'' then Inr DiscussChannelType.Channel
      else if t = ''group'' then Inr DiscussChannelType.Group
      else Inl (''Unknown DiscussChannelType variant: '' @ s))"

definition DiscussChannelType_default :: DiscussChannelType where
  "DiscussChannelType_default = DiscussChannelType.Channel"

interpretation discuss_channel_type: text_enum DiscussChannelType_show DiscussChannelType_from_str
proof
  show "DiscussChannelType_from_str (DiscussChannelType_show x) = Inr x" for x
    by (cases x) (simp_all add: DiscussChannelType_from_str_def ascii_lower_def byte_of_def)
  show "DiscussChannelType_from_str s = Inr x \<Longrightarrow> to_lowercase s = DiscussChannelType_show x" for s x
    by (auto simp: DiscussChannelType_from_str_def Let_def split: if_splits)
  show "to_lowercase s = to_lowercase t \<Longrightarrow> DiscussChannelType_from_str s = Inr x \<Longrightarrow> DiscussChannelType_from_str t = Inr x"
    for s t x
    by (auto simp: DiscussChannelType_from_str_def Let_def split: if_splits)
qed

section \<open>MemberCustomNotifications\<close>

datatype MemberCustomNotifications = All | Mentions | NoNotif

fun MemberCustomNotifications_show :: "MemberCustomNotifications \<Rightarrow> string" where
  "MemberCustomNotifications_show MemberCustomNotifications.All = ''all''"
| "MemberCustomNotifications_show MemberCustomNotifications.Mentions = ''mentions''"
| "MemberCustomNotifications_show MemberCustomNotifications.NoNotif = ''no_notif''"

definition MemberCustomNotifications_from_str :: "string \<Rightarrow> string + MemberCustomNotifications" where
  "MemberCustomNotifications_from_str s =
     (let t = to_lowercase s in
      if t = ''all'' then Inr MemberCustomNotifications.All
      else if t = ''mentions'' then Inr MemberCustomNotifications.Mentions
      else if t = ''no_notif'' then Inr MemberCustomNotifications.NoNotif
      else Inl (''Unknown MemberCustomNotifications variant: '' @ s))"

definition MemberCustomNotifications_default :: MemberCustomNotifications where
  "MemberCustomNotifications_default = MemberCustomNotifications.All"

interpretation member_custom_notifications: text_enum MemberCustomNotifications_show MemberCustomNotifications_from_str
proof
  show "MemberCustomNotifications_from_str (MemberCustomNotifications_show x) = Inr x" for x
    by (cases x) (simp_all add: MemberCustomNotifications_from_str_def ascii_lower_def byte_of_def)
  show "MemberCustomNotifications_from_str s = Inr x \<Longrightarrow> to_lowercase s = MemberCustomNotifications_show x" for s x
    by (auto simp: MemberCustomNotifications_from_str_def Let_def split: if_splits)
  show "to_lowercase s = to_lowercase t \<Longrightarrow> MemberCustomNotifications_from_str s = Inr x \<Longrightarrow> MemberCustomNotifications_from_str t = Inr x"
    for s t x
    by (auto simp: MemberCustomNotifications_from_str_def Let_def split: if_splits)
qed

section \<open>SidebarFoldState\<close>

datatype SidebarFoldState = Open | Closed

fun SidebarFoldState_show :: "SidebarFoldState \<Rightarrow> string" where
  "SidebarFoldState_show SidebarFoldState.Open = ''open''"
| "SidebarFoldState_show SidebarFoldState.Closed = ''closed''"

definition SidebarFoldState_from_str :: "string \<Rightarrow> string + SidebarFoldState" where
  "SidebarFoldState_from_str s =
     (let t = to_lowercase s in
      if t = ''open'' then Inr SidebarFoldState.Open
      else if t = ''closed'' then Inr SidebarFoldState.Closed
      else Inl (''Unknown SidebarFoldState variant: '' @ s))"

definition SidebarFoldState_default :: SidebarFoldState where
  "SidebarFoldState_default = SidebarFoldState.Open"

interpretation sidebar_fold_state: text_enum SidebarFoldState_show SidebarFoldState_from_str
proof
  show "SidebarFoldState_from_str (SidebarFoldState_show x) = Inr x" for x
    by (cases x) (simp_all add: SidebarFoldState_from_str_def ascii_lower_def byte_of_def)
  show "SidebarFoldState_from_str s = Inr x \<Longrightarrow> to_lowercase s = SidebarFoldState_show x" for s x
    by (auto simp: SidebarFoldState_from_str_def Let_def split: if_splits)
  show "to_lowercase s = to_lowercase t \<Longrightarrow> SidebarFoldState_from_str s = Inr x \<Longrightarrow> SidebarFoldState_from_str t = Inr x"
    for s t x
    by (auto simp: SidebarFoldState_from_str_def Let_def split: if_splits)
qed

section \<open>MailActivityState\<close>

datatype MailActivityState = Overdue | Today | Planned | Done

fun MailActivityState_show :: "MailActivityState \<Rightarrow> string" where
  "MailActivityState_show MailActivityState.Overdue = ''overdue''"
| "MailActivityState_show MailActivityState.Today = ''today''"
| "MailActivityState_show MailActivityState.Planned = ''planned''"
| "MailActivityState_show MailActivityState.Done = ''done''"

definition MailActivityState_from_str :: "string \<Rightarrow> string + MailActivityState" where
  "MailActivityState_from_str s =
     (let t = to_lowercase s in
      if t = ''overdue'' then Inr MailActivityState.Overdue
      else if t = ''today'' then Inr MailActivityState.Today
      else if t = ''planned'' then Inr MailActivityState.Planned
      else if t = ''done'' then Inr MailActivityState.Done
      else Inl (''Unknown MailActivityState variant: '' @ s))"

definition MailActivityState_default :: MailActivityState where
  "MailActivityState_default = MailActivityState.Today"

interpretation mail_activity_state: text_enum MailActivityState_show MailActivityState_from_str
proof
  show "MailActivityState_from_str (MailActivityState_show x) = Inr x" for x
    by (cases x) (simp_all add: MailActivityState_from_str_def ascii_lower_def byte_of_def)
  show "MailActivityState_from_str s = Inr x \<Longrightarrow> to_lowercase s = MailActivityState_show x" for s x
    by (auto simp: MailActivityState_from_str_def Let_def split: if_splits)
  show "to_lowercase s = to_lowercase t \<Longrightarrow> MailActivityState_from_str s = Inr x \<Longrightarrow> MailActivityState_from_str t = Inr x"
    for s t x
    by (auto simp: MailActivityState_from_str_def Let_def split: if_splits)
qed

section \<open>MailActivityCategory\<close>

datatype MailActivityCategory = UploadInvoice | Phonecall | Meeting

fun MailActivityCategory_show :: "MailActivityCategory \<Rightarrow> string" where
  "MailActivityCategory_show MailActivityCategory.UploadInvoice = ''upload_invoice''"
| "MailActivityCategory_show MailActivityCategory.Phonecall = ''phonecall''"
| "MailActivityCategory_show MailActivityCategory.Meeting = ''meeting''"

definition MailActivityCategory_from_str :: "string \<Rightarrow> string + MailActivityCategory" where
  "MailActivityCategory_from_str s =
     (let t = to_lowercase s in
      if t = ''upload_invoice'' then Inr MailActivityCategory.UploadInvoice
      else if t = ''phonecall'' then Inr MailActivityCategory.Phonecall
      else if t = ''meeting'' then Inr MailActivityCategory.Meeting
      else Inl (''Unknown MailActivityCategory variant: '' @ s))"

definition MailActivityCategory_default :: MailActivityCategory where
  "MailActivityCategory_default = MailActivityCategory.Meeting"

interpretation mail_activity_category: text_enum MailActivityCategory_show MailActivityCategory_from_str
proof
  show "MailActivityCategory_from_str (MailActivityCategory_show x) = Inr x" for x
    by (cases x) (simp_all add: MailActivityCategory_from_str_def ascii_lower_def byte_of_def)
  show "MailActivityCategory_from_str s = Inr x \<Longrightarrow> to_lowercase s = MailActivityCategory_show x" for s x
    by (auto simp: MailActivityCategory_from_str_def Let_def split: if_splits)
  show "to_lowercase s = to_lowercase t \<Longrightarrow> MailActivityCategory_from_str s = Inr x \<Longrightarrow> MailActivityCategory_from_str t = Inr x"
    for s t x
    by (auto simp: MailActivityCategory_from_str_def Let_def split: if_splits)
qed

section \<open>MailActivityChainingType\<close>

datatype MailActivityChainingType = Suggest | Trigger

fun MailActivityChainingType_show :: "MailActivityChainingType \<Rightarrow> string" where
  "MailActivityChainingType_show MailActivityChainingType.Suggest = ''suggest''"
| "MailActivityChainingType_show MailActivityChainingType.Trigger = ''trigger''"

definition MailActivityChainingType_from_str :: "string \<Rightarrow> string + MailActivityChainingType" where
  "MailActivityChainingType_from_str s =
     (let t = to_lowercase s in
      if t = ''suggest'' then Inr MailActivityChainingType.Suggest
      else if t = ''trigger'' then Inr MailActivityChainingType.Trigger
      else Inl (''Unknown MailActivityChainingType variant: '' @ s))"

definition MailActivityChainingType_default :: MailActivityChainingType where
  "MailActivityChainingType_default = MailActivityChainingType.Suggest"

interpretation mail_activity_chaining_type: text_enum MailActivityChainingType_show MailActivityChainingType_from_str
proof
  show "MailActivityChainingType_from_str (MailActivityChainingType_show x) = Inr x" for x
    by (cases x) (simp_all add: MailActivityChainingType_from_str_def ascii_lower_def byte_of_def)
  show "MailActivityChainingType_from_str s = Inr x \<Longrightarrow> to_lowercase s = MailActivityChainingType_show x" for s x
    by (auto simp: MailActivityChainingType_from_str_def Let_def split: if_splits)
  show "to_lowercase s = to_lowercase t \<Longrightarrow> MailActivityChainingType_from_str s = Inr x \<Longrightarrow> MailActivityChainingType_from_str t = Inr x"
    for s t x
    by (auto simp: MailActivityChainingType_from_str_def Let_def split: if_splits)
qed

section \<open>MailActivityDelayFrom\<close>

datatype MailActivityDelayFrom = PlanDate | PreviousActivity

fun MailActivityDelayFrom_show :: "MailActivityDelayFrom \<Rightarrow> string" where
  "MailActivityDelayFrom_show MailActivityDelayFrom.PlanDate = ''plan_date''"
| "MailActivityDelayFrom_show MailActivityDelayFrom.PreviousActivity = ''previous_activity''"

definition MailActivityDelayFrom_from_str :: "string \<Rightarrow> string + MailActivityDelayFrom" where
  "MailActivityDelayFrom_from_str s =
     (let t = to_lowercase s in
      if t = ''plan_date'' then Inr MailActivityDelayFrom.PlanDate
      else if t = ''previous_activity'' then Inr MailActivityDelayFrom.PreviousActivity
      else Inl (''Unknown MailActivityDelayFrom variant: '' @ s))"

definition MailActivityDelayFrom_default :: MailActivityDelayFrom where
  "MailActivityDelayFrom_default = MailActivityDelayFrom.PreviousActivity"

interpretation mail_activity_delay_from: text_enum MailActivityDelayFrom_show MailActivityDelayFrom_from_str
proof
  show "MailActivityDelayFrom_from_str (MailActivityDelayFrom_show x) = Inr x" for x
    by (cases x) (simp_all add: MailActivityDelayFrom_from_str_def ascii_lower_def byte_of_def)
  show "MailActivityDelayFrom_from_str s = Inr x \<Longrightarrow> to_lowercase s = MailActivityDelayFrom_show x" for s x
    by (auto simp: MailActivityDelayFrom_from_str_def Let_def split: if_splits)
  show "to_lowercase s = to_lowercase t \<Longrightarrow> MailActivityDelayFrom_from_str s = Inr x \<Longrightarrow> MailActivityDelayFrom_from_str t = Inr x"
    for s t x
    by (auto simp: MailActivityDelayFrom_from_str_def Let_def split: if_splits)
qed

section \<open>MailActivityDelayUnit\<close>

datatype MailActivityDelayUnit = Days | Weeks | Months

fun MailActivityDelayUnit_show :: "MailActivityDelayUnit \<Rightarrow> string" where
  "MailActivityDelayUnit_show MailActivityDelayUnit.Days = ''days''"
| "MailActivityDelayUnit_show MailActivityDelayUnit.Weeks = ''weeks''"
| "MailActivityDelayUnit_show MailActivityDelayUnit.Months = ''months''"

definition MailActivityDelayUnit_from_str :: "string \<Rightarrow> string + MailActivityDelayUnit" where
  "MailActivityDelayUnit_from_str s =
     (let t = to_lowercase s in
      if t = ''days'' then Inr MailActivityDelayUnit.Days
      else if t = ''weeks'' then Inr MailActivityDelayUnit.Weeks
      else if t = ''months'' then Inr MailActivityDelayUnit.Months
      else Inl (''Unknown MailActivityDelayUnit variant: '' @ s))"

definition MailActivityDelayUnit_default :: MailActivityDelayUnit where
  "MailActivityDelayUnit_default = MailActivityDelayUnit.Days"

interpretation mail_activity_delay_unit: text_enum MailActivityDelayUnit_show MailActivityDelayUnit_from_str
proof
  show "MailActivityDelayUnit_from_str (MailActivityDelayUnit_show x) = Inr x" for x
    by (cases x) (simp_all add: MailActivityDelayUnit_from_str_def ascii_lower_def byte_of_def)
  show "MailActivityDelayUnit_from_str s = Inr x \<Longrightarrow> to_lowercase s = MailActivityDelayUnit_show x" for s x
    by (auto simp: MailActivityDelayUnit_from_str_def Let_def split: if_splits)
  show "to_lowercase s = to_lowercase t \<Longrightarrow> MailActivityDelayUnit_from_str s = Inr x \<Longrightarrow> MailActivityDelayUnit_from_str t = Inr x"
    for s t x
    by (auto simp: MailActivityDelayUnit_from_str_def Let_def split: if_splits)
qed

end
