(* ===== verification/Bus.thy ===== *)
theory Bus
  imports Prelude
begin

text \<open>
  The addressing of bus events: \<open>src/domain/event/constants.rs\<close>.  Channel keys are built from a
  model name and a uuid, and every event carries the \<open>bus.bus\<close> envelope of a channel, a message
  type and a payload.  The text of a uuid is the \<open>uuid\<close> crate's; \<open>uuid_format\<close> states what is relied
  on (different uuids print differently, and no printed uuid contains an underscore).
  JSON values are \<open>serde_json::Value\<close>, an object as its entries in the order the code writes them (the
  order carries no meaning); no number the code reads is fractional.
\<close>

datatype json =
    JNull
  | JBool bool
  | JNumber int
  | JString string
  | JArray "json list"
  | JObject "(string \<times> json) list"

definition jopt :: "('a \<Rightarrow> json) \<Rightarrow> 'a option \<Rightarrow> json" where
  "jopt f z = (case z of None \<Rightarrow> JNull | Some x \<Rightarrow> f x)"

definition MESSAGING_PLATFORM_COMPANY_ID :: uuid where
  "MESSAGING_PLATFORM_COMPANY_ID = 0"

section \<open>Channel keys\<close>

definition record_channel :: "(uuid \<Rightarrow> string) \<Rightarrow> string \<Rightarrow> uuid \<Rightarrow> string" where
  "record_channel U res_model res_id = res_model @ ''_'' @ U res_id"

definition partner_channel :: "(uuid \<Rightarrow> string) \<Rightarrow> uuid \<Rightarrow> string" where
  "partner_channel U partner_id = ''res.partner_'' @ U partner_id"

definition discuss_channel :: "(uuid \<Rightarrow> string) \<Rightarrow> uuid \<Rightarrow> string" where
  "discuss_channel U channel_id = ''discuss.channel_'' @ U channel_id"

definition guest_channel :: "(uuid \<Rightarrow> string) \<Rightarrow> uuid \<Rightarrow> string" where
  "guest_channel U guest_id = ''mail.guest_'' @ U guest_id"

definition bus_envelope :: "string \<Rightarrow> string \<Rightarrow> json \<Rightarrow> json" where
  "bus_envelope channel message_type pl =
     JObject [(''channel'', JString channel),
              (''message'', JObject [(''type'', JString message_type), (''payload'', pl)])]"

text \<open>A row of the outbox (\<open>backbone_outbox::OutboxRecord\<close>), as \<open>stage_bus_event\<close> fills it.\<close>

record event =
  event_type :: string
  aggregate_type :: string
  aggregate_id :: string
  company_id :: uuid
  payload :: json
  occurred_at :: time

definition event_channel :: "event \<Rightarrow> string option" where
  "event_channel e =
     (case payload e of
        JObject es \<Rightarrow> (case map_of es ''channel'' of Some (JString c) \<Rightarrow> Some c | _ \<Rightarrow> None)
      | _ \<Rightarrow> None)"

record UserEmailChangedPayload =
  user_id :: uuid
  previous_email :: string
  new_email :: string
  changed_at :: time

definition USER_EMAIL_CHANGED_EVENT :: string where
  "USER_EMAIL_CHANGED_EVENT = ''UserEmailChanged''"

section \<open>Channel keys are unambiguous\<close>

definition uuid_format :: "(uuid \<Rightarrow> string) \<Rightarrow> bool" where
  "uuid_format U \<longleftrightarrow> inj U \<and> (\<forall>x. CHR ''_'' \<notin> set (U x))"

lemma record_channel_split:
  assumes "uuid_format U"
  shows "rsplit_once (CHR ''_'') (record_channel U m r) = Some (m, U r)"
  using assms rsplit_once_eq [of "CHR ''_''" "U r" m]
  by (simp add: record_channel_def uuid_format_def)

lemma special_channels:
  "partner_channel U p = record_channel U ''res.partner'' p"
  "discuss_channel U c = record_channel U ''discuss.channel'' c"
  "guest_channel U g = record_channel U ''mail.guest'' g"
  by (simp_all add: partner_channel_def discuss_channel_def guest_channel_def record_channel_def)

lemma record_channel_inj:
  assumes "uuid_format U"
  shows "record_channel U m r = record_channel U m' r' \<longleftrightarrow> m = m' \<and> r = r'"
proof
  assume "record_channel U m r = record_channel U m' r'"
  with record_channel_split [OF assms, of m r] record_channel_split [OF assms, of m' r']
  have "m = m'" and "U r = U r'" by simp_all
  with assms show "m = m' \<and> r = r'" by (simp add: uuid_format_def inj_eq)
qed simp

lemma envelope_channel [simp]:
  "payload e = bus_envelope ch mt pl \<Longrightarrow> event_channel e = Some ch"
  by (simp add: event_channel_def bus_envelope_def)

end
