(* ===== verification/Store.thy ===== *)
theory Store
  imports Effects Vocab Bus
begin

text \<open>
  The database: one record field per table, a table as the list of its rows, with the columns the
  services read or write.  Each row type names the columns of the migration that creates the
  table.  SQL statements are functions on the database that return an error or a result and the
  new database; the constraints of the schema (primary and unique keys, foreign keys, enum casts,
  the triggers of the migrations) are part of the statements.

  The two trigger families on status columns are written from the migrations: the declared
  transitions (\<open>*_state_transition_check\<close>) and the monotonic guards
  (\<open>20260815220000_sms_monotonic_guard\<close>, with the escape of
  \<open>20260815220007_sm13_sweep_guard_escape\<close>).
\<close>

section \<open>Rows\<close>

record mail_message_row =
  msg_id :: uuid
  msg_subject :: "string option"
  msg_date :: time
  msg_body :: string
  msg_type :: MailMessageType
  msg_subtype_id :: "uuid option"
  msg_is_internal :: bool
  msg_author_id :: "uuid option"
  msg_author_guest_id :: "uuid option"
  msg_email_from :: "string option"
  msg_message_id :: "string option"
  msg_reply_to :: "string option"
  msg_model :: "string option"
  msg_res_id :: "uuid option"
  msg_record_name :: "string option"
  msg_pinned_at :: "time option"
  msg_deleted :: bool

record subtype_row =
  sub_id :: uuid
  sub_name :: string
  sub_default :: bool
  sub_deleted :: bool

record mail_row =
  mail_id :: uuid
  mail_message_id :: uuid
  mail_state :: MailState
  mail_failure_type :: "MailFailureType option"
  mail_failure_reason :: "string option"
  mail_scheduled_date :: "time option"
  mail_email_to :: "string option"
  mail_email_cc :: "string option"
  mail_reply_to :: "string option"
  mail_headers :: json

record notification_row =
  ntf_id :: uuid
  ntf_message_id :: uuid
  ntf_partner :: "uuid option"
  ntf_type :: MailNotificationType
  ntf_status :: MailNotificationStatus
  ntf_failure_type :: "NotificationFailureType option"
  ntf_failure_reason :: "string option"
  ntf_mail_id :: "uuid option"
  ntf_updated_at :: time
  ntf_deleted :: bool

record sms_row =
  sms_id :: uuid
  sms_uuid :: string
  sms_number :: string
  sms_body :: string
  sms_state :: SmsState
  sms_failure_type :: "SmsFailureType option"
  sms_error_message :: "string option"
  sms_mail_message_id :: "uuid option"
  sms_iap_status_code :: "int option"
  sms_updated_at :: time
  sms_swept_at :: "time option"

record tracker_row =
  trk_sms_uuid :: string
  trk_message_id :: "uuid option"
  trk_notification_id :: "uuid option"
  trk_state :: MailNotificationStatus

record guest_row =
  gst_id :: uuid
  gst_name :: string
  gst_active :: bool
  gst_last_connection :: time
  gst_deleted_at :: "time option"

record presence_row =
  prs_id :: uuid
  prs_user_id :: "uuid option"
  prs_guest_id :: "uuid option"
  prs_status :: MailPresenceStatus
  prs_last_poll :: time

record phone_blacklist_row =
  pbl_id :: uuid
  pbl_number :: string
  pbl_active :: bool

record fetchmail_server_row =
  fms_id :: uuid
  fms_active :: bool
  fms_state :: FetchmailState
  fms_token_hash :: string
  fms_default_thread_model :: "string option"
  fms_last_fetch_at :: "time option"
  fms_error_at :: "time option"
  fms_error_message :: "string option"
  fms_deleted :: bool

record gateway_allowed_row =
  gwa_server_id :: "uuid option"
  gwa_pattern :: string
  gwa_active :: bool
  gwa_deleted :: bool

record alias_domain_row =
  ald_id :: uuid
  ald_name :: string
  ald_deleted :: bool

record alias_row =
  als_id :: uuid
  als_name :: "string option"
  als_domain_id :: "uuid option"
  als_contact :: MailAliasContact
  als_model_id :: "uuid option"
  als_parent_model_id :: "uuid option"
  als_parent_thread_id :: "uuid option"
  als_user_id :: "uuid option"
  als_defaults :: "string option"
  als_force_thread_id :: "uuid option"
  als_reply_to_address :: "string option"
  als_deleted :: bool

record mail_server_row =
  srv_id :: uuid
  srv_name :: string
  srv_from_filter :: "string option"
  srv_smtp_host :: string
  srv_smtp_port :: int
  srv_smtp_authentication :: SmtpAuthentication
  srv_smtp_user :: "string option"
  srv_smtp_pass_ref :: "string option"
  srv_smtp_encryption :: SmtpEncryption
  srv_smtp_debug :: bool
  srv_sequence :: int
  srv_active :: bool
  srv_deleted :: bool

record mail_blacklist_row =
  mbl_id :: uuid
  mbl_email :: string
  mbl_active :: bool
  mbl_opt_out_reason_id :: "uuid option"

text \<open>\<open>metadata->>'created_at'\<close> is an ISO text, ordered like the instant it stands for.\<close>

record channel_row =
  chn_id :: uuid
  chn_name :: "string option"
  chn_type :: DiscussChannelType
  chn_description :: "string option"
  chn_uuid :: "string option"
  chn_access_mode :: "string option"
  chn_email_send :: bool
  chn_last_message_id :: "uuid option"
  chn_created_at :: time
  chn_deleted :: bool

text \<open>A \<open>timestamptz\<close> that may be \<open>'+infinity'\<close>.\<close>

datatype pg_time = At time | PosInfinity

record member_row =
  mbr_id :: uuid
  mbr_channel_id :: uuid
  mbr_partner_id :: "uuid option"
  mbr_guest_id :: "uuid option"
  mbr_fold_state :: "SidebarFoldState option"
  mbr_message_unread_counter :: int
  mbr_unread_counter :: int
  mbr_seen_message_id :: "uuid option"
  mbr_fetched_message_id :: "uuid option"
  mbr_new_message_separator :: "uuid option"
  mbr_last_seen_dt :: "time option"
  mbr_mute_until_dt :: "pg_time option"
  mbr_custom_notifications :: "MemberCustomNotifications option"
  mbr_is_pinned :: bool
  mbr_unpin_dt :: "time option"
  mbr_deleted :: bool

record reaction_row =
  rct_id :: uuid
  rct_message_id :: uuid
  rct_partner_id :: "uuid option"
  rct_guest_id :: "uuid option"
  rct_content :: string

record star_row =
  star_id :: uuid
  star_partner_id :: uuid
  star_message_id :: uuid

record message_attachment_row =
  mat_id :: uuid
  mat_message_id :: uuid
  mat_attachment_id :: uuid

record attachment_row =
  atc_id :: uuid
  atc_name :: string
  atc_mimetype :: "string option"
  atc_size :: "int option"
  atc_datas :: "string option"
  atc_checksum :: "string option"
  atc_access_token :: "uuid option"
  atc_owner_party_id :: "uuid option"
  atc_owner_guest_id :: "uuid option"
  atc_deleted :: bool

record follower_row =
  flw_id :: uuid
  flw_res_model :: string
  flw_res_id :: uuid
  flw_partner_id :: "uuid option"
  flw_subtype_ids :: "json option"

record notify_schedule_row =
  nsc_id :: uuid
  nsc_mail_message_id :: uuid
  nsc_notification_parameters :: "string option"
  nsc_scheduled_datetime :: time

record scheduled_message_row =
  smg_id :: uuid
  smg_subject :: "string option"
  smg_body :: string
  smg_scheduled_date :: time
  smg_composition_comment_option :: "string option"
  smg_model :: string
  smg_res_id :: uuid
  smg_author_party_id :: uuid
  smg_recipient_party_ids :: "json option"
  smg_is_note :: bool
  smg_notification_parameters :: "string option"
  smg_send_context :: "json option"

text \<open>A \<open>NaiveDate\<close> is its year, month and day.\<close>

type_synonym naive_date = "int \<times> nat \<times> nat"

record activity_row =
  act_id :: uuid
  act_res_model :: string
  act_res_id :: uuid
  act_type_id :: "uuid option"
  act_summary :: "string option"
  act_note :: "string option"
  act_date_deadline :: naive_date
  act_user_id :: uuid
  act_requested_user_id :: "uuid option"
  act_state :: MailActivityState
  act_active :: bool
  act_chained_next :: "json option"

record activity_type_row =
  aty_id :: uuid
  aty_chaining_type :: MailActivityChainingType
  aty_delay_count :: int
  aty_delay_unit :: MailActivityDelayUnit
  aty_delay_from :: MailActivityDelayFrom
  aty_default_user_id :: "uuid option"
  aty_active :: bool

record plan_template_row =
  ptl_id :: uuid
  ptl_plan_id :: uuid
  ptl_activity_type_id :: uuid
  ptl_summary :: "string option"
  ptl_note :: "string option"
  ptl_delay_count :: "int option"
  ptl_delay_unit :: "MailActivityDelayUnit option"
  ptl_user_id :: "uuid option"
  ptl_deleted :: bool

record db =
  messages :: "mail_message_row list"
  subtypes :: "subtype_row list"
  guests :: "guest_row list"
  presences :: "presence_row list"
  mails :: "mail_row list"
  notifications :: "notification_row list"
  smss :: "sms_row list"
  trackers :: "tracker_row list"
  phone_blacklists :: "phone_blacklist_row list"
  fetchmail_servers :: "fetchmail_server_row list"
  gateway_allowed :: "gateway_allowed_row list"
  alias_domains :: "alias_domain_row list"
  aliases :: "alias_row list"
  mail_servers :: "mail_server_row list"
  mail_blacklists :: "mail_blacklist_row list"
  channels :: "channel_row list"
  channel_members :: "member_row list"
  reactions :: "reaction_row list"
  stars :: "star_row list"
  message_attachments :: "message_attachment_row list"
  attachments :: "attachment_row list"
  followers :: "follower_row list"
  notify_schedules :: "notify_schedule_row list"
  scheduled_messages :: "scheduled_message_row list"
  activities :: "activity_row list"
  activity_types :: "activity_type_row list"
  plan_templates :: "plan_template_row list"
  outbox :: "event list"

section \<open>Statements\<close>

text \<open>\<open>UPDATE ... SET f WHERE p RETURNING ...\<close> with a row trigger: if the trigger raises on one row the
  whole statement fails.\<close>

definition sql_update ::
  "('r \<Rightarrow> bool) \<Rightarrow> ('r \<Rightarrow> 'r) \<Rightarrow> ('r \<Rightarrow> 'r \<Rightarrow> bool) \<Rightarrow> 'r list \<Rightarrow> db_error + 'r list \<times> 'r list" where
  "sql_update p f trigger_ok rows =
     (if list_all (\<lambda>r. p r \<longrightarrow> trigger_ok r (f r)) rows
      then Inr (map f (filter p rows), map (\<lambda>r. if p r then f r else r) rows)
      else Inl (CheckViolation ''trigger''))"

text \<open>\<open>LIMIT n\<close>: PostgreSQL refuses a negative count.\<close>

definition sql_limit :: "int \<Rightarrow> 'r list \<Rightarrow> db_error + 'r list" where
  "sql_limit n rows = (if n < 0 then Inl InvalidRowCount else Inr (take (nat n) rows))"

text \<open>\<open>btrim(v) <> ''\<close>, the declared CHECK on required text columns.\<close>

definition btrim_nonempty :: "string \<Rightarrow> bool" where
  "btrim_nonempty s \<longleftrightarrow> list_ex (\<lambda>c. c \<noteq> CHR '' '') s"

definition fk_ok :: "uuid list \<Rightarrow> uuid option \<Rightarrow> bool" where
  "fk_ok ids ref = (case ref of None \<Rightarrow> True | Some i \<Rightarrow> i \<in> set ids)"

section \<open>Status triggers\<close>

definition messaging_status_rank :: "string \<Rightarrow> nat option" where
  "messaging_status_rank v =
     (if v = ''ready'' then Some 0 else if v = ''outgoing'' then Some 0
      else if v = ''process'' then Some 1 else if v = ''pending'' then Some 2
      else if v = ''sent'' then Some 3 else if v = ''bounce'' then Some 100
      else if v = ''exception'' then Some 100 else if v = ''error'' then Some 100
      else if v = ''canceled'' then Some 100 else None)"

text \<open>SQL \<open>a < b\<close> on nullable ranks, as a WHERE clause or an IF reads it (NULL is not true).\<close>

definition rank_lt :: "nat option \<Rightarrow> nat option \<Rightarrow> bool" where
  "rank_lt a b = (case (a, b) of (Some x, Some y) \<Rightarrow> x < y | _ \<Rightarrow> False)"

definition mail_notification_monotonic_guard ::
  "MailNotificationStatus \<Rightarrow> MailNotificationStatus \<Rightarrow> bool" where
  "mail_notification_monotonic_guard old new \<longleftrightarrow>
     \<not> (new \<noteq> old \<and>
        rank_lt (messaging_status_rank (MailNotificationStatus_show new))
                (messaging_status_rank (MailNotificationStatus_show old)))"

definition mail_notifications_transitions :: "(string \<times> string) list" where
  "mail_notifications_transitions =
     [(''exception'', ''bounce''), (''exception'', ''pending''), (''pending'', ''bounce''),
      (''pending'', ''canceled''), (''pending'', ''exception''), (''pending'', ''sent''),
      (''process'', ''bounce''), (''process'', ''canceled''), (''process'', ''exception''),
      (''process'', ''pending''), (''process'', ''sent''), (''ready'', ''canceled''),
      (''ready'', ''exception''), (''ready'', ''pending''), (''ready'', ''process''),
      (''ready'', ''sent'')]"

definition mail_notifications_transition_check ::
  "MailNotificationStatus \<Rightarrow> MailNotificationStatus \<Rightarrow> bool" where
  "mail_notifications_transition_check old new \<longleftrightarrow>
     new = old \<or>
     (MailNotificationStatus_show old, MailNotificationStatus_show new)
       \<in> set mail_notifications_transitions"

definition notification_trigger_ok :: "notification_row \<Rightarrow> notification_row \<Rightarrow> bool" where
  "notification_trigger_ok r r' \<longleftrightarrow>
     mail_notification_monotonic_guard (ntf_status r) (ntf_status r') \<and>
     mail_notifications_transition_check (ntf_status r) (ntf_status r')"

definition mails_transitions :: "(string \<times> string) list" where
  "mails_transitions =
     [(''exception'', ''cancel''), (''exception'', ''outgoing''), (''exception'', ''sent''),
      (''outgoing'', ''cancel''), (''outgoing'', ''exception''), (''outgoing'', ''sent''),
      (''sent'', ''received'')]"

definition mails_state_transition_check :: "MailState \<Rightarrow> MailState \<Rightarrow> bool" where
  "mails_state_transition_check old new \<longleftrightarrow>
     new = old \<or> (MailState_show old, MailState_show new) \<in> set mails_transitions"

definition mail_trigger_ok :: "mail_row \<Rightarrow> mail_row \<Rightarrow> bool" where
  "mail_trigger_ok r r' \<longleftrightarrow> mails_state_transition_check (mail_state r) (mail_state r')"

definition sms_transitions :: "(string \<times> string) list" where
  "sms_transitions =
     [(''outgoing'', ''canceled''), (''outgoing'', ''process''), (''pending'', ''canceled''),
      (''pending'', ''error''), (''pending'', ''sent''), (''process'', ''canceled''),
      (''process'', ''error''), (''process'', ''outgoing''), (''process'', ''pending''),
      (''process'', ''sent'')]"

definition sms_state_transition_check :: "SmsState \<Rightarrow> SmsState \<Rightarrow> bool" where
  "sms_state_transition_check old new \<longleftrightarrow>
     new = old \<or> (SmsState_show old, SmsState_show new) \<in> set sms_transitions"

definition sms_state_monotonic_guard :: "sms_row \<Rightarrow> sms_row \<Rightarrow> bool" where
  "sms_state_monotonic_guard old new \<longleftrightarrow>
     \<not> (sms_state new \<noteq> sms_state old \<and>
        rank_lt (messaging_status_rank (SmsState_show (sms_state new)))
                (messaging_status_rank (SmsState_show (sms_state old))) \<and>
        \<not> (sms_swept_at old = None \<and> sms_swept_at new \<noteq> None))"

definition sms_trigger_ok :: "sms_row \<Rightarrow> sms_row \<Rightarrow> bool" where
  "sms_trigger_ok r r' \<longleftrightarrow>
     sms_state_monotonic_guard r r' \<and> sms_state_transition_check (sms_state r) (sms_state r')"

section \<open>Staging an event\<close>

definition stage_event :: "event \<Rightarrow> db \<Rightarrow> db_error + unit \<times> db" where
  "stage_event ev d = Inr ((), d\<lparr>outbox := outbox d @ [ev]\<rparr>)"

definition stage_bus_event ::
  "string \<Rightarrow> string \<Rightarrow> string \<Rightarrow> string \<Rightarrow> string \<Rightarrow> json \<Rightarrow> (db, 'o, db_error, unit) act" where
  "stage_bus_event etype atype aid channel mtype pl =
     bindA now_utc (\<lambda>now.
       stmt (stage_event
         \<lparr>event_type = etype, aggregate_type = atype, aggregate_id = aid,
          company_id = MESSAGING_PLATFORM_COMPANY_ID,
          payload = bus_envelope channel mtype pl, occurred_at = now\<rparr>))"

section \<open>Lemmas on statements\<close>

lemma sql_update_Inr:
  "sql_update p f ok rows = Inr (rs, rows') \<Longrightarrow>
   rs = map f (filter p rows) \<and> rows' = map (\<lambda>r. if p r then f r else r) rows \<and>
   (\<forall>r\<in>set rows. p r \<longrightarrow> ok r (f r))"
  by (auto simp: sql_update_def list_all_iff split: if_splits)

lemma sql_update_key:
  "sql_update p f ok rows = Inr (rs, rows') \<Longrightarrow> (\<And>r. key (f r) = key r) \<Longrightarrow>
   map key rows' = map key rows"
  by (auto dest!: sql_update_Inr)

lemma sql_update_no_match:
  "(\<forall>r\<in>set rows. \<not> p r) \<Longrightarrow> sql_update p f ok rows = Inr ([], rows)"
proof -
  assume h: "\<forall>r\<in>set rows. \<not> p r"
  then have "map (\<lambda>r. if p r then f r else r) rows = rows" by (intro map_idI) auto
  with h show ?thesis by (simp add: sql_update_def list_all_iff filter_False)
qed

lemma keeps_stage_bus_event [keeps_intros]:
  assumes "\<And>d ev. I d \<Longrightarrow> I (d\<lparr>outbox := outbox d @ [ev]\<rparr>)"
  shows "keeps I (stage_bus_event a b c e f g)"
  unfolding stage_bus_event_def
  by (intro keeps_intros keeps_stmt) (auto simp: stage_event_def intro: assms)

lemma stage_bus_event_run [act_simps]:
  assumes "\<not> aborted w" and "quiet v"
  shows "stage_bus_event et at aid ch mt pl v w =
    (Inr (), w\<lparr>tick := Suc (Suc (tick w)),
       db := (db w)\<lparr>outbox := outbox (db w) @
         [\<lparr>event_type = et, aggregate_type = at, aggregate_id = aid,
           company_id = MESSAGING_PLATFORM_COMPANY_ID, payload = bus_envelope ch mt pl,
           occurred_at = clock v (tick w)\<rparr>]\<rparr>\<rparr>)"
  using assms
  by (simp add: stage_bus_event_def bindA_def now_utc_def stmt_def stmt_now_def stage_event_def quiet_def)

lemma succeeds_bus:
  assumes "\<not> aborted w" and "quiet v"
  shows "succeeds v (stage_bus_event et at aid ch mt pl) w"
  using assms by (simp add: succeeds_def stage_bus_event_run)

lemma silent_bus [silent_intros]: "silent (stage_bus_event a b c e f g)"
  unfolding stage_bus_event_def by (intro silent_intros)

lemma straight_bus [straight_intros]: "straight (stage_bus_event a b c e f g)"
  unfolding stage_bus_event_def by (intro straight_intros)

lemma stage_bus_event_InrE:
  assumes "stage_bus_event et at aid ch mt pl v w = (Inr u, w')"
  obtains ev where "db w' = (db w)\<lparr>outbox := outbox (db w) @ [ev]\<rparr>" and "tx_step w w'"
    and "event_type ev = et" and "aggregate_type ev = at" and "aggregate_id ev = aid"
    and "event_channel ev = Some ch" and "payload ev = bus_envelope ch mt pl"
    and "company_id ev = MESSAGING_PLATFORM_COMPANY_ID"
proof -
  let ?ev = "\<lambda>now. \<lparr>event_type = et, aggregate_type = at, aggregate_id = aid,
    company_id = MESSAGING_PLATFORM_COMPANY_ID, payload = bus_envelope ch mt pl, occurred_at = now\<rparr>"
  from assms obtain now w1 where n: "now_utc v w = ((Inr now :: db_error + time), w1)"
    and s: "stmt (stage_event (?ev now)) v w1 = (Inr u, w')"
    unfolding stage_bus_event_def by (elim bindA_InrE) (rule that)
  from n have w1: "db w1 = db w" "tx_step w w1" by (auto elim: now_utc_InrE)
  from s have "stage_event (?ev now) (db w1) = Inr (u, db w')" and w2: "tx_step w1 w'"
    by (auto elim: stmt_InrE)
  then have d: "db w' = (db w)\<lparr>outbox := outbox (db w) @ [?ev now]\<rparr>"
    using w1(1) unfolding stage_event_def by (simp only: sum.inject prod.inject)
  from w1(2) w2 have "tx_step w w'" by (rule tx_step_trans)
  then show ?thesis by (intro that [OF d]) simp_all
qed

lemma rank_table [simp]:
  "messaging_status_rank ''ready'' = Some 0" "messaging_status_rank ''outgoing'' = Some 0"
  "messaging_status_rank ''process'' = Some 1" "messaging_status_rank ''pending'' = Some 2"
  "messaging_status_rank ''sent'' = Some 3" "messaging_status_rank ''bounce'' = Some 100"
  "messaging_status_rank ''exception'' = Some 100" "messaging_status_rank ''error'' = Some 100"
  "messaging_status_rank ''canceled'' = Some 100"
  by (simp_all add: messaging_status_rank_def)

text \<open>Every status of the two guarded columns has a rank.\<close>

lemma notification_rank: "\<exists>n. messaging_status_rank (MailNotificationStatus_show s) = Some n"
  by (cases s) simp_all

lemma sms_rank: "\<exists>n. messaging_status_rank (SmsState_show s) = Some n"
  by (cases s) simp_all

definition ntf_rank :: "MailNotificationStatus \<Rightarrow> nat" where
  "ntf_rank s = the (messaging_status_rank (MailNotificationStatus_show s))"

definition sms_rank_of :: "SmsState \<Rightarrow> nat" where
  "sms_rank_of s = the (messaging_status_rank (SmsState_show s))"

lemma rank_lt_ntf [simp]:
  "rank_lt (messaging_status_rank (MailNotificationStatus_show a))
           (messaging_status_rank (MailNotificationStatus_show b)) \<longleftrightarrow> ntf_rank a < ntf_rank b"
  using notification_rank [of a] notification_rank [of b]
  by (auto simp: rank_lt_def ntf_rank_def)

lemma rank_lt_sms [simp]:
  "rank_lt (messaging_status_rank (SmsState_show a))
           (messaging_status_rank (SmsState_show b)) \<longleftrightarrow> sms_rank_of a < sms_rank_of b"
  using sms_rank [of a] sms_rank [of b] by (auto simp: rank_lt_def sms_rank_of_def)

lemma ntf_rank_table [simp]:
  "ntf_rank MailNotificationStatus.Ready = 0" "ntf_rank MailNotificationStatus.Process = 1"
  "ntf_rank MailNotificationStatus.Pending = 2" "ntf_rank MailNotificationStatus.Sent = 3"
  "ntf_rank MailNotificationStatus.Bounce = 100" "ntf_rank MailNotificationStatus.Exception = 100"
  "ntf_rank MailNotificationStatus.Canceled = 100"
  by (simp_all add: ntf_rank_def)

lemma sms_rank_table [simp]:
  "sms_rank_of SmsState.Outgoing = 0" "sms_rank_of SmsState.Process = 1"
  "sms_rank_of SmsState.Pending = 2" "sms_rank_of SmsState.Sent = 3"
  "sms_rank_of SmsState.Error = 100" "sms_rank_of SmsState.Canceled = 100"
  by (simp_all add: sms_rank_of_def)

section \<open>The schema's constraints\<close>

text \<open>\<open>schema_ok\<close>: the primary, unique and foreign keys of the tables the queues are made of.
  \<open>sms_tracked\<close>: the rule of \<open>SmsQueueRepository::enqueue\<close>, that an sms has its tracker.\<close>

definition schema_ok :: "db \<Rightarrow> bool" where
  "schema_ok d \<longleftrightarrow>
     distinct (map msg_id (messages d)) \<and> distinct (map ntf_id (notifications d)) \<and>
     distinct (map mail_id (mails d)) \<and> distinct (map sms_id (smss d)) \<and>
     distinct (map sms_uuid (smss d)) \<and> distinct (map trk_sms_uuid (trackers d)) \<and>
     (\<forall>q\<in>set (mails d). mail_message_id q \<in> msg_id ` set (messages d)) \<and>
     (\<forall>n\<in>set (notifications d). ntf_message_id n \<in> msg_id ` set (messages d)) \<and>
     (\<forall>s\<in>set (smss d). fk_ok (map msg_id (messages d)) (sms_mail_message_id s)) \<and>
     (\<forall>t\<in>set (trackers d). fk_ok (map msg_id (messages d)) (trk_message_id t) \<and>
        fk_ok (map ntf_id (notifications d)) (trk_notification_id t))"

definition sms_tracked :: "db \<Rightarrow> bool" where
  "sms_tracked d \<longleftrightarrow> sms_uuid ` set (smss d) \<subseteq> trk_sms_uuid ` set (trackers d)"

lemma map_eq_Ball:
  assumes "map f xs = map f ys"
  shows "(\<forall>x\<in>set xs. P (f x)) \<longleftrightarrow> (\<forall>y\<in>set ys. P (f y))"
proof -
  have "(\<forall>x\<in>set zs. P (f x)) \<longleftrightarrow> list_all P (map f zs)" for zs by (simp add: list_all_iff)
  then show ?thesis using assms by simp
qed

lemma schema_ok_outbox [simp]: "schema_ok (d\<lparr>outbox := o'\<rparr>) \<longleftrightarrow> schema_ok d"
  by (simp add: schema_ok_def)

lemma sms_tracked_outbox [simp]: "sms_tracked (d\<lparr>outbox := o'\<rparr>) \<longleftrightarrow> sms_tracked d"
  by (simp add: sms_tracked_def)

lemma sms_tracked_others [simp]:
  "sms_tracked (d\<lparr>messages := ms\<rparr>) \<longleftrightarrow> sms_tracked d"
  "sms_tracked (d\<lparr>notifications := ns\<rparr>) \<longleftrightarrow> sms_tracked d"
  "sms_tracked (d\<lparr>mails := qs\<rparr>) \<longleftrightarrow> sms_tracked d"
  by (simp_all add: sms_tracked_def)

text \<open>Updating columns that are no keys keeps the constraints.\<close>

lemma schema_ok_notifications:
  assumes "schema_ok d"
    and "map (\<lambda>r. (ntf_id r, ntf_message_id r)) rows =
         map (\<lambda>r. (ntf_id r, ntf_message_id r)) (notifications d)"
  shows "schema_ok (d\<lparr>notifications := rows\<rparr>)"
proof -
  have i: "map ntf_id rows = map ntf_id (notifications d)"
    using arg_cong [OF assms(2), of "map fst"] by (simp add: comp_def)
  have "(\<forall>n\<in>set rows. ntf_message_id n \<in> msg_id ` set (messages d)) \<longleftrightarrow>
      (\<forall>n\<in>set (notifications d). ntf_message_id n \<in> msg_id ` set (messages d))"
    using map_eq_Ball [OF assms(2), of "\<lambda>p. snd p \<in> msg_id ` set (messages d)"] by simp
  with assms(1) i show ?thesis by (simp add: schema_ok_def)
qed

lemma schema_ok_mails:
  assumes "schema_ok d"
    and "map (\<lambda>r. (mail_id r, mail_message_id r)) rows =
         map (\<lambda>r. (mail_id r, mail_message_id r)) (mails d)"
  shows "schema_ok (d\<lparr>mails := rows\<rparr>)"
proof -
  have i: "map mail_id rows = map mail_id (mails d)"
    using arg_cong [OF assms(2), of "map fst"] by (simp add: comp_def)
  have "(\<forall>n\<in>set rows. mail_message_id n \<in> msg_id ` set (messages d)) \<longleftrightarrow>
      (\<forall>n\<in>set (mails d). mail_message_id n \<in> msg_id ` set (messages d))"
    using map_eq_Ball [OF assms(2), of "\<lambda>p. snd p \<in> msg_id ` set (messages d)"] by simp
  with assms(1) i show ?thesis by (simp add: schema_ok_def)
qed

lemma schema_ok_smss:
  assumes "schema_ok d"
    and "map (\<lambda>r. (sms_id r, sms_uuid r, sms_mail_message_id r)) rows =
         map (\<lambda>r. (sms_id r, sms_uuid r, sms_mail_message_id r)) (smss d)"
  shows "schema_ok (d\<lparr>smss := rows\<rparr>)"
proof -
  have i: "map sms_id rows = map sms_id (smss d)" "map sms_uuid rows = map sms_uuid (smss d)"
    using arg_cong [OF assms(2), of "map fst"] arg_cong [OF assms(2), of "map (fst \<circ> snd)"]
    by (simp_all add: comp_def)
  have "(\<forall>n\<in>set rows. fk_ok (map msg_id (messages d)) (sms_mail_message_id n)) \<longleftrightarrow>
      (\<forall>n\<in>set (smss d). fk_ok (map msg_id (messages d)) (sms_mail_message_id n))"
    using map_eq_Ball [OF assms(2), of "\<lambda>p. fk_ok (map msg_id (messages d)) (snd (snd p))"] by simp
  with assms(1) i show ?thesis by (simp add: schema_ok_def)
qed

lemma schema_ok_trackers:
  assumes "schema_ok d"
    and "map (\<lambda>r. (trk_sms_uuid r, trk_message_id r, trk_notification_id r)) rows =
         map (\<lambda>r. (trk_sms_uuid r, trk_message_id r, trk_notification_id r)) (trackers d)"
  shows "schema_ok (d\<lparr>trackers := rows\<rparr>)"
proof -
  have i: "map trk_sms_uuid rows = map trk_sms_uuid (trackers d)"
    using arg_cong [OF assms(2), of "map fst"] by (simp add: comp_def)
  have "(\<forall>t\<in>set rows. fk_ok (map msg_id (messages d)) (trk_message_id t) \<and>
        fk_ok (map ntf_id (notifications d)) (trk_notification_id t)) \<longleftrightarrow>
      (\<forall>t\<in>set (trackers d). fk_ok (map msg_id (messages d)) (trk_message_id t) \<and>
        fk_ok (map ntf_id (notifications d)) (trk_notification_id t))"
    using map_eq_Ball [OF assms(2), of "\<lambda>p. fk_ok (map msg_id (messages d)) (fst (snd p)) \<and>
      fk_ok (map ntf_id (notifications d)) (snd (snd p))"] by simp
  with assms(1) i show ?thesis by (simp add: schema_ok_def)
qed

section \<open>A concrete environment and database, for evaluation\<close>

definition plain_env :: env where
  "plain_env = \<lparr>rng = (\<lambda>n. n + 20), clock = int, fault = (\<lambda>_. False), ack_lost = (\<lambda>_. False),
     uuid_text = (\<lambda>i. replicate i (CHR ''1'')), uuid_simple = (\<lambda>i. replicate i (CHR ''1'')),
     time_text = (\<lambda>_. ''t''), str_debug = (\<lambda>s. s), row_locked = (\<lambda>_ _. False)\<rparr>"

definition empty_db :: db where
  "empty_db = \<lparr>messages = [], subtypes = [], guests = [], presences = [], mails = [],
     notifications = [], smss = [], trackers = [], phone_blacklists = [], fetchmail_servers = [],
     gateway_allowed = [], alias_domains = [], aliases = [], mail_servers = [],
     mail_blacklists = [], channels = [], channel_members = [], reactions = [], stars = [],
     message_attachments = [], attachments = [], followers = [], notify_schedules = [], scheduled_messages = [],
     activities = [], activity_types = [], plan_templates = [], outbox = []\<rparr>"

definition world_of :: "db \<Rightarrow> (db, 'o) world" where
  "world_of d = \<lparr>db = d, tick = 0, aborted = False, tx_start = 0, trace = []\<rparr>"

definition sample_message :: "uuid \<Rightarrow> mail_message_row" where
  "sample_message i = \<lparr>msg_id = i, msg_subject = None, msg_date = 0, msg_body = ''b'',
     msg_type = MailMessageType.Comment, msg_subtype_id = None, msg_is_internal = False,
     msg_author_id = None, msg_author_guest_id = None, msg_email_from = Some ''a@b'',
     msg_message_id = None, msg_reply_to = None, msg_model = None, msg_res_id = None,
     msg_record_name = None, msg_pinned_at = None, msg_deleted = False\<rparr>"

definition sample_mail :: "uuid \<Rightarrow> MailState \<Rightarrow> mail_row" where
  "sample_mail i st = \<lparr>mail_id = i, mail_message_id = 1, mail_state = st, mail_failure_type = None,
     mail_failure_reason = None, mail_scheduled_date = None, mail_email_to = Some ''x@y'',
     mail_email_cc = None, mail_reply_to = None, mail_headers = JObject [(''X'', JString ''v'')]\<rparr>"

definition sample_notification ::
  "uuid \<Rightarrow> uuid option \<Rightarrow> MailNotificationStatus \<Rightarrow> notification_row" where
  "sample_notification i m st = \<lparr>ntf_id = i, ntf_message_id = 1, ntf_partner = Some 2,
     ntf_type = MailNotificationType.Email, ntf_status = st, ntf_failure_type = None,
     ntf_failure_reason = None, ntf_mail_id = m, ntf_updated_at = 0, ntf_deleted = False\<rparr>"

end
