(* ===== verification/StateMachines.thy ===== *)
theory StateMachines
  imports Vocab
begin

text \<open>
  The generated workflow machines of \<open>src/domain/state_machine/\<close>.  The five files instantiate one
  template: an enumeration of states, one of transitions with their targets, the table
  \<open>can_transition\<close>, and operations on a struct that holds the current state.  A method taking
  \<open>&mut self\<close> returns its result and the new current state.  The operations of the template are
  written once over the tables (\<open>sm_...\<close>) and instantiated per machine; the locale
  \<open>workflow\<close> states what the tables promise and derives what the operations do.
\<close>

section \<open>The template's operations\<close>

datatype StateMachineError =
    InvalidState string
  | InvalidTransition string
  | TransitionNotAllowed (not_allowed: string) (not_allowed_from: string)
  | RoleNotAuthorized (role: string) (for_transition: string)
  | GuardFailed string
  | FinalStateReached string

definition sm_can_with_role ::
  "('s \<Rightarrow> 't \<Rightarrow> bool) \<Rightarrow> ('t \<Rightarrow> string list) \<Rightarrow> 's \<Rightarrow> 't \<Rightarrow> string \<Rightarrow> bool" where
  "sm_can_with_role can roles s t r =
     (if \<not> can s t then False
      else if roles t = [] then True
      else list_ex (\<lambda>q. q = r \<or> q = ''*'') (roles t))"

definition sm_transition ::
  "('s \<Rightarrow> 't \<Rightarrow> bool) \<Rightarrow> ('t \<Rightarrow> 's) \<Rightarrow> ('t \<Rightarrow> string) \<Rightarrow> ('s \<Rightarrow> string) \<Rightarrow>
   's \<Rightarrow> 't \<Rightarrow> (StateMachineError + 's) \<times> 's" where
  "sm_transition can target show_t show_s s t =
     (if \<not> can s t then (Inl (TransitionNotAllowed (show_t t) (show_s s)), s)
      else (Inr (target t), target t))"

definition sm_transition_with_role ::
  "('s \<Rightarrow> 't \<Rightarrow> bool) \<Rightarrow> ('t \<Rightarrow> 's) \<Rightarrow> ('t \<Rightarrow> string list) \<Rightarrow> ('t \<Rightarrow> string) \<Rightarrow> ('s \<Rightarrow> string) \<Rightarrow>
   's \<Rightarrow> 't \<Rightarrow> string \<Rightarrow> (StateMachineError + 's) \<times> 's" where
  "sm_transition_with_role can target roles show_t show_s s t r =
     (if \<not> can s t then (Inl (TransitionNotAllowed (show_t t) (show_s s)), s)
      else if \<not> sm_can_with_role can roles s t r then (Inl (RoleNotAuthorized r (show_t t)), s)
      else (Inr (target t), target t))"

definition sm_available :: "('s \<Rightarrow> 't \<Rightarrow> bool) \<Rightarrow> 't list \<Rightarrow> 's \<Rightarrow> 't list" where
  "sm_available can all s = filter (can s) all"

definition sm_available_for_role ::
  "('s \<Rightarrow> 't \<Rightarrow> bool) \<Rightarrow> ('t \<Rightarrow> string list) \<Rightarrow> 't list \<Rightarrow> 's \<Rightarrow> string \<Rightarrow> 't list" where
  "sm_available_for_role can roles all s r = filter (\<lambda>t. sm_can_with_role can roles s t r) all"

definition sm_transition_to_state ::
  "('s \<Rightarrow> 't \<Rightarrow> bool) \<Rightarrow> ('t \<Rightarrow> 's) \<Rightarrow> 't list \<Rightarrow> ('t \<Rightarrow> string) \<Rightarrow> ('s \<Rightarrow> string) \<Rightarrow>
   's \<Rightarrow> 's \<Rightarrow> (StateMachineError + 's) \<times> 's" where
  "sm_transition_to_state can target all show_t show_s s goal =
     (case find (\<lambda>t. target t = goal) (filter (can s) all) of
        Some t \<Rightarrow> sm_transition can target show_t show_s s t
      | None \<Rightarrow> (Inl (TransitionNotAllowed (show_s goal) (show_s s)), s))"

section \<open>The contract of a workflow\<close>

locale workflow =
  fixes can :: "'s \<Rightarrow> 't \<Rightarrow> bool"
    and target :: "'t \<Rightarrow> 's"
    and all :: "'t list"
    and roles :: "'t \<Rightarrow> string list"
    and show_t :: "'t \<Rightarrow> string"
    and show_s :: "'s \<Rightarrow> string"
  assumes all_listed: "t \<in> set all"
    and open_roles: "roles t = []"
    and moves: "can s t \<Longrightarrow> target t \<noteq> s"
begin

definition edge :: "'s \<Rightarrow> 's \<Rightarrow> bool" where
  "edge s s' \<longleftrightarrow> (\<exists>t. can s t \<and> target t = s')"

lemma role_irrelevant: "sm_can_with_role can roles s t r = can s t"
  by (simp add: sm_can_with_role_def open_roles)

lemma transition_with_role_eq:
  "sm_transition_with_role can target roles show_t show_s s t r =
   sm_transition can target show_t show_s s t"
  by (simp add: sm_transition_with_role_def sm_transition_def role_irrelevant)

lemma available_for_role_eq:
  "sm_available_for_role can roles all s r = sm_available can all s"
  by (simp add: sm_available_for_role_def sm_available_def role_irrelevant)

lemma transition_ok:
  "sm_transition can target show_t show_s s t = (Inr s', s'') \<longleftrightarrow>
   can s t \<and> s' = target t \<and> s'' = target t"
  by (auto simp: sm_transition_def)

lemma transition_refused:
  "\<not> can s t \<Longrightarrow> snd (sm_transition can target show_t show_s s t) = s"
  by (simp add: sm_transition_def)

lemma to_state_ok:
  "edge s goal \<Longrightarrow> sm_transition_to_state can target all show_t show_s s goal = (Inr goal, goal)"
proof -
  assume "edge s goal"
  then obtain t where "can s t" and "target t = goal" by (auto simp: edge_def)
  then have "find (\<lambda>t. target t = goal) (filter (can s) all) \<noteq> None"
    using all_listed by (auto simp: find_None_iff)
  then obtain u where u: "find (\<lambda>t. target t = goal) (filter (can s) all) = Some u" by blast
  then have "u \<in> set (filter (can s) all)" and "target u = goal"
    by (auto simp: find_Some_iff dest: nth_mem)
  with u show ?thesis by (simp add: sm_transition_to_state_def sm_transition_def)
qed

lemma to_state_refused:
  "\<not> edge s goal \<Longrightarrow> sm_transition_to_state can target all show_t show_s s goal =
     (Inl (TransitionNotAllowed (show_s goal) (show_s s)), s)"
proof -
  assume "\<not> edge s goal"
  then have "find (\<lambda>t. target t = goal) (filter (can s) all) = None"
    by (auto simp: edge_def find_None_iff)
  then show ?thesis by (simp add: sm_transition_to_state_def)
qed

lemma available_complete: "set (sm_available can all s) = {t. can s t}"
  using all_listed by (auto simp: sm_available_def)

lemma no_self_edge: "\<not> edge s s"
  using moves by (auto simp: edge_def)

end

section \<open>MailHooks\<close>

datatype MailHooksState = Outgoing | Sent | Received | Exception | Cancel

fun MailHooksState_show :: "MailHooksState \<Rightarrow> string" where
  "MailHooksState_show MailHooksState.Outgoing = ''outgoing''"
| "MailHooksState_show MailHooksState.Sent = ''sent''"
| "MailHooksState_show MailHooksState.Received = ''received''"
| "MailHooksState_show MailHooksState.Exception = ''exception''"
| "MailHooksState_show MailHooksState.Cancel = ''cancel''"

definition MailHooksState_from_str :: "string \<Rightarrow> StateMachineError + MailHooksState" where
  "MailHooksState_from_str s =
     (let t = to_lowercase s in
      if t = ''outgoing'' then Inr MailHooksState.Outgoing
      else if t = ''sent'' then Inr MailHooksState.Sent
      else if t = ''received'' then Inr MailHooksState.Received
      else if t = ''exception'' then Inr MailHooksState.Exception
      else if t = ''cancel'' then Inr MailHooksState.Cancel
      else Inl (InvalidState s))"

definition MailHooksState_default :: MailHooksState where
  "MailHooksState_default = MailHooksState.Outgoing"

definition MailHooksState_is_initial :: "MailHooksState \<Rightarrow> bool" where
  "MailHooksState_is_initial s \<longleftrightarrow> s = MailHooksState.Outgoing"

definition MailHooksState_is_final :: "MailHooksState \<Rightarrow> bool" where
  "MailHooksState_is_final s \<longleftrightarrow> s = MailHooksState.Sent \<or> s = MailHooksState.Received \<or> s = MailHooksState.Cancel"

definition MailHooksState_all :: "MailHooksState list" where
  "MailHooksState_all = [MailHooksState.Outgoing, MailHooksState.Sent, MailHooksState.Received, MailHooksState.Exception, MailHooksState.Cancel]"

datatype MailHooksTransition = SmtpAccepted | SmtpFailed | InboundAcknowledged | Requeued | Cancelled

fun MailHooksTransition_show :: "MailHooksTransition \<Rightarrow> string" where
  "MailHooksTransition_show MailHooksTransition.SmtpAccepted = ''smtp_accepted''"
| "MailHooksTransition_show MailHooksTransition.SmtpFailed = ''smtp_failed''"
| "MailHooksTransition_show MailHooksTransition.InboundAcknowledged = ''inbound_acknowledged''"
| "MailHooksTransition_show MailHooksTransition.Requeued = ''requeued''"
| "MailHooksTransition_show MailHooksTransition.Cancelled = ''cancelled''"

definition MailHooksTransition_from_str :: "string \<Rightarrow> StateMachineError + MailHooksTransition" where
  "MailHooksTransition_from_str s =
     (let t = to_lowercase s in
      if t = ''smtp_accepted'' then Inr MailHooksTransition.SmtpAccepted
      else if t = ''smtp_failed'' then Inr MailHooksTransition.SmtpFailed
      else if t = ''inbound_acknowledged'' then Inr MailHooksTransition.InboundAcknowledged
      else if t = ''requeued'' then Inr MailHooksTransition.Requeued
      else if t = ''cancelled'' then Inr MailHooksTransition.Cancelled
      else Inl (InvalidTransition s))"

fun MailHooks_target_state :: "MailHooksTransition \<Rightarrow> MailHooksState" where
  "MailHooks_target_state MailHooksTransition.SmtpAccepted = MailHooksState.Sent"
| "MailHooks_target_state MailHooksTransition.SmtpFailed = MailHooksState.Exception"
| "MailHooks_target_state MailHooksTransition.InboundAcknowledged = MailHooksState.Received"
| "MailHooks_target_state MailHooksTransition.Requeued = MailHooksState.Outgoing"
| "MailHooks_target_state MailHooksTransition.Cancelled = MailHooksState.Cancel"

definition MailHooksTransition_all :: "MailHooksTransition list" where
  "MailHooksTransition_all = [MailHooksTransition.SmtpAccepted, MailHooksTransition.SmtpFailed, MailHooksTransition.InboundAcknowledged, MailHooksTransition.Requeued, MailHooksTransition.Cancelled]"

definition MailHooks_allowed_roles :: "MailHooksTransition \<Rightarrow> string list" where
  "MailHooks_allowed_roles t = []"

definition MailHooks_can_transition :: "MailHooksState \<Rightarrow> MailHooksTransition \<Rightarrow> bool" where
  "MailHooks_can_transition s t =
     (if s = MailHooksState.Received \<or> s = MailHooksState.Cancel then False
      else case (s, t) of
        (MailHooksState.Outgoing, MailHooksTransition.SmtpAccepted) \<Rightarrow> True
      | (MailHooksState.Exception, MailHooksTransition.SmtpAccepted) \<Rightarrow> True
      | (MailHooksState.Outgoing, MailHooksTransition.SmtpFailed) \<Rightarrow> True
      | (MailHooksState.Sent, MailHooksTransition.InboundAcknowledged) \<Rightarrow> True
      | (MailHooksState.Exception, MailHooksTransition.Requeued) \<Rightarrow> True
      | (MailHooksState.Outgoing, MailHooksTransition.Cancelled) \<Rightarrow> True
      | (MailHooksState.Exception, MailHooksTransition.Cancelled) \<Rightarrow> True
      | _ \<Rightarrow> False)"

definition MailHooksStateMachine_new :: MailHooksState where
  "MailHooksStateMachine_new = MailHooksState_default"

definition MailHooksStateMachine_can_transition_with_role :: "MailHooksState \<Rightarrow> MailHooksTransition \<Rightarrow> string \<Rightarrow> bool" where
  "MailHooksStateMachine_can_transition_with_role = sm_can_with_role MailHooks_can_transition MailHooks_allowed_roles"

definition MailHooksStateMachine_transition :: "MailHooksState \<Rightarrow> MailHooksTransition \<Rightarrow> (StateMachineError + MailHooksState) \<times> MailHooksState" where
  "MailHooksStateMachine_transition = sm_transition MailHooks_can_transition MailHooks_target_state MailHooksTransition_show MailHooksState_show"

definition MailHooksStateMachine_transition_with_role ::
  "MailHooksState \<Rightarrow> MailHooksTransition \<Rightarrow> string \<Rightarrow> (StateMachineError + MailHooksState) \<times> MailHooksState" where
  "MailHooksStateMachine_transition_with_role =
     sm_transition_with_role MailHooks_can_transition MailHooks_target_state MailHooks_allowed_roles MailHooksTransition_show MailHooksState_show"

definition MailHooksStateMachine_available_transitions :: "MailHooksState \<Rightarrow> MailHooksTransition list" where
  "MailHooksStateMachine_available_transitions = sm_available MailHooks_can_transition MailHooksTransition_all"

definition MailHooksStateMachine_available_transitions_for_role :: "MailHooksState \<Rightarrow> string \<Rightarrow> MailHooksTransition list" where
  "MailHooksStateMachine_available_transitions_for_role = sm_available_for_role MailHooks_can_transition MailHooks_allowed_roles MailHooksTransition_all"

definition MailHooksStateMachine_transition_to_state ::
  "MailHooksState \<Rightarrow> MailHooksState \<Rightarrow> (StateMachineError + MailHooksState) \<times> MailHooksState" where
  "MailHooksStateMachine_transition_to_state = sm_transition_to_state MailHooks_can_transition MailHooks_target_state MailHooksTransition_all MailHooksTransition_show MailHooksState_show"

interpretation mail_hooks_state_text: text_enum MailHooksState_show MailHooksState_from_str
proof
  show "MailHooksState_from_str (MailHooksState_show x) = Inr x" for x
    by (cases x) (simp_all add: MailHooksState_from_str_def ascii_lower_def byte_of_def)
  show "MailHooksState_from_str s = Inr x \<Longrightarrow> to_lowercase s = MailHooksState_show x" for s x
    by (auto simp: MailHooksState_from_str_def Let_def split: if_splits)
  show "to_lowercase s = to_lowercase t \<Longrightarrow> MailHooksState_from_str s = Inr x \<Longrightarrow> MailHooksState_from_str t = Inr x"
    for s t x
    by (auto simp: MailHooksState_from_str_def Let_def split: if_splits)
qed

interpretation mail_hooks_transition_text: text_enum MailHooksTransition_show MailHooksTransition_from_str
proof
  show "MailHooksTransition_from_str (MailHooksTransition_show x) = Inr x" for x
    by (cases x) (simp_all add: MailHooksTransition_from_str_def ascii_lower_def byte_of_def)
  show "MailHooksTransition_from_str s = Inr x \<Longrightarrow> to_lowercase s = MailHooksTransition_show x" for s x
    by (auto simp: MailHooksTransition_from_str_def Let_def split: if_splits)
  show "to_lowercase s = to_lowercase t \<Longrightarrow> MailHooksTransition_from_str s = Inr x \<Longrightarrow> MailHooksTransition_from_str t = Inr x"
    for s t x
    by (auto simp: MailHooksTransition_from_str_def Let_def split: if_splits)
qed

interpretation mail_hooks: workflow MailHooks_can_transition MailHooks_target_state MailHooksTransition_all
  MailHooks_allowed_roles MailHooksTransition_show MailHooksState_show
proof
  show "t \<in> set MailHooksTransition_all" for t by (cases t) (simp_all add: MailHooksTransition_all_def)
  show "MailHooks_allowed_roles t = []" for t by (simp add: MailHooks_allowed_roles_def)
  show "MailHooks_can_transition s t \<Longrightarrow> MailHooks_target_state t \<noteq> s" for s t
    by (cases s; cases t) (simp_all add: MailHooks_can_transition_def)
qed

section \<open>SmsHooks\<close>

datatype SmsHooksState = Outgoing | Process | Pending | Sent | Error | Canceled

fun SmsHooksState_show :: "SmsHooksState \<Rightarrow> string" where
  "SmsHooksState_show SmsHooksState.Outgoing = ''outgoing''"
| "SmsHooksState_show SmsHooksState.Process = ''process''"
| "SmsHooksState_show SmsHooksState.Pending = ''pending''"
| "SmsHooksState_show SmsHooksState.Sent = ''sent''"
| "SmsHooksState_show SmsHooksState.Error = ''error''"
| "SmsHooksState_show SmsHooksState.Canceled = ''canceled''"

definition SmsHooksState_from_str :: "string \<Rightarrow> StateMachineError + SmsHooksState" where
  "SmsHooksState_from_str s =
     (let t = to_lowercase s in
      if t = ''outgoing'' then Inr SmsHooksState.Outgoing
      else if t = ''process'' then Inr SmsHooksState.Process
      else if t = ''pending'' then Inr SmsHooksState.Pending
      else if t = ''sent'' then Inr SmsHooksState.Sent
      else if t = ''error'' then Inr SmsHooksState.Error
      else if t = ''canceled'' then Inr SmsHooksState.Canceled
      else Inl (InvalidState s))"

definition SmsHooksState_default :: SmsHooksState where
  "SmsHooksState_default = SmsHooksState.Outgoing"

definition SmsHooksState_is_initial :: "SmsHooksState \<Rightarrow> bool" where
  "SmsHooksState_is_initial s \<longleftrightarrow> s = SmsHooksState.Outgoing"

definition SmsHooksState_is_final :: "SmsHooksState \<Rightarrow> bool" where
  "SmsHooksState_is_final s \<longleftrightarrow> s = SmsHooksState.Sent \<or> s = SmsHooksState.Canceled"

definition SmsHooksState_all :: "SmsHooksState list" where
  "SmsHooksState_all = [SmsHooksState.Outgoing, SmsHooksState.Process, SmsHooksState.Pending, SmsHooksState.Sent, SmsHooksState.Error, SmsHooksState.Canceled]"

datatype SmsHooksTransition = Pickup | IapAccepted | DeliveryConfirmed | SendFailed | StuckRequeued | Canceled

fun SmsHooksTransition_show :: "SmsHooksTransition \<Rightarrow> string" where
  "SmsHooksTransition_show SmsHooksTransition.Pickup = ''pickup''"
| "SmsHooksTransition_show SmsHooksTransition.IapAccepted = ''iap_accepted''"
| "SmsHooksTransition_show SmsHooksTransition.DeliveryConfirmed = ''delivery_confirmed''"
| "SmsHooksTransition_show SmsHooksTransition.SendFailed = ''send_failed''"
| "SmsHooksTransition_show SmsHooksTransition.StuckRequeued = ''stuck_requeued''"
| "SmsHooksTransition_show SmsHooksTransition.Canceled = ''canceled''"

definition SmsHooksTransition_from_str :: "string \<Rightarrow> StateMachineError + SmsHooksTransition" where
  "SmsHooksTransition_from_str s =
     (let t = to_lowercase s in
      if t = ''pickup'' then Inr SmsHooksTransition.Pickup
      else if t = ''iap_accepted'' then Inr SmsHooksTransition.IapAccepted
      else if t = ''delivery_confirmed'' then Inr SmsHooksTransition.DeliveryConfirmed
      else if t = ''send_failed'' then Inr SmsHooksTransition.SendFailed
      else if t = ''stuck_requeued'' then Inr SmsHooksTransition.StuckRequeued
      else if t = ''canceled'' then Inr SmsHooksTransition.Canceled
      else Inl (InvalidTransition s))"

fun SmsHooks_target_state :: "SmsHooksTransition \<Rightarrow> SmsHooksState" where
  "SmsHooks_target_state SmsHooksTransition.Pickup = SmsHooksState.Process"
| "SmsHooks_target_state SmsHooksTransition.IapAccepted = SmsHooksState.Pending"
| "SmsHooks_target_state SmsHooksTransition.DeliveryConfirmed = SmsHooksState.Sent"
| "SmsHooks_target_state SmsHooksTransition.SendFailed = SmsHooksState.Error"
| "SmsHooks_target_state SmsHooksTransition.StuckRequeued = SmsHooksState.Outgoing"
| "SmsHooks_target_state SmsHooksTransition.Canceled = SmsHooksState.Canceled"

definition SmsHooksTransition_all :: "SmsHooksTransition list" where
  "SmsHooksTransition_all = [SmsHooksTransition.Pickup, SmsHooksTransition.IapAccepted, SmsHooksTransition.DeliveryConfirmed, SmsHooksTransition.SendFailed, SmsHooksTransition.StuckRequeued, SmsHooksTransition.Canceled]"

definition SmsHooks_allowed_roles :: "SmsHooksTransition \<Rightarrow> string list" where
  "SmsHooks_allowed_roles t = []"

definition SmsHooks_can_transition :: "SmsHooksState \<Rightarrow> SmsHooksTransition \<Rightarrow> bool" where
  "SmsHooks_can_transition s t =
     (if s = SmsHooksState.Sent \<or> s = SmsHooksState.Canceled then False
      else case (s, t) of
        (SmsHooksState.Outgoing, SmsHooksTransition.Pickup) \<Rightarrow> True
      | (SmsHooksState.Process, SmsHooksTransition.IapAccepted) \<Rightarrow> True
      | (SmsHooksState.Process, SmsHooksTransition.DeliveryConfirmed) \<Rightarrow> True
      | (SmsHooksState.Pending, SmsHooksTransition.DeliveryConfirmed) \<Rightarrow> True
      | (SmsHooksState.Process, SmsHooksTransition.SendFailed) \<Rightarrow> True
      | (SmsHooksState.Pending, SmsHooksTransition.SendFailed) \<Rightarrow> True
      | (SmsHooksState.Process, SmsHooksTransition.StuckRequeued) \<Rightarrow> True
      | (SmsHooksState.Outgoing, SmsHooksTransition.Canceled) \<Rightarrow> True
      | (SmsHooksState.Process, SmsHooksTransition.Canceled) \<Rightarrow> True
      | (SmsHooksState.Pending, SmsHooksTransition.Canceled) \<Rightarrow> True
      | _ \<Rightarrow> False)"

definition SmsHooksStateMachine_new :: SmsHooksState where
  "SmsHooksStateMachine_new = SmsHooksState_default"

definition SmsHooksStateMachine_can_transition_with_role :: "SmsHooksState \<Rightarrow> SmsHooksTransition \<Rightarrow> string \<Rightarrow> bool" where
  "SmsHooksStateMachine_can_transition_with_role = sm_can_with_role SmsHooks_can_transition SmsHooks_allowed_roles"

definition SmsHooksStateMachine_transition :: "SmsHooksState \<Rightarrow> SmsHooksTransition \<Rightarrow> (StateMachineError + SmsHooksState) \<times> SmsHooksState" where
  "SmsHooksStateMachine_transition = sm_transition SmsHooks_can_transition SmsHooks_target_state SmsHooksTransition_show SmsHooksState_show"

definition SmsHooksStateMachine_transition_with_role ::
  "SmsHooksState \<Rightarrow> SmsHooksTransition \<Rightarrow> string \<Rightarrow> (StateMachineError + SmsHooksState) \<times> SmsHooksState" where
  "SmsHooksStateMachine_transition_with_role =
     sm_transition_with_role SmsHooks_can_transition SmsHooks_target_state SmsHooks_allowed_roles SmsHooksTransition_show SmsHooksState_show"

definition SmsHooksStateMachine_available_transitions :: "SmsHooksState \<Rightarrow> SmsHooksTransition list" where
  "SmsHooksStateMachine_available_transitions = sm_available SmsHooks_can_transition SmsHooksTransition_all"

definition SmsHooksStateMachine_available_transitions_for_role :: "SmsHooksState \<Rightarrow> string \<Rightarrow> SmsHooksTransition list" where
  "SmsHooksStateMachine_available_transitions_for_role = sm_available_for_role SmsHooks_can_transition SmsHooks_allowed_roles SmsHooksTransition_all"

definition SmsHooksStateMachine_transition_to_state ::
  "SmsHooksState \<Rightarrow> SmsHooksState \<Rightarrow> (StateMachineError + SmsHooksState) \<times> SmsHooksState" where
  "SmsHooksStateMachine_transition_to_state = sm_transition_to_state SmsHooks_can_transition SmsHooks_target_state SmsHooksTransition_all SmsHooksTransition_show SmsHooksState_show"

interpretation sms_hooks_state_text: text_enum SmsHooksState_show SmsHooksState_from_str
proof
  show "SmsHooksState_from_str (SmsHooksState_show x) = Inr x" for x
    by (cases x) (simp_all add: SmsHooksState_from_str_def ascii_lower_def byte_of_def)
  show "SmsHooksState_from_str s = Inr x \<Longrightarrow> to_lowercase s = SmsHooksState_show x" for s x
    by (auto simp: SmsHooksState_from_str_def Let_def split: if_splits)
  show "to_lowercase s = to_lowercase t \<Longrightarrow> SmsHooksState_from_str s = Inr x \<Longrightarrow> SmsHooksState_from_str t = Inr x"
    for s t x
    by (auto simp: SmsHooksState_from_str_def Let_def split: if_splits)
qed

interpretation sms_hooks_transition_text: text_enum SmsHooksTransition_show SmsHooksTransition_from_str
proof
  show "SmsHooksTransition_from_str (SmsHooksTransition_show x) = Inr x" for x
    by (cases x) (simp_all add: SmsHooksTransition_from_str_def ascii_lower_def byte_of_def)
  show "SmsHooksTransition_from_str s = Inr x \<Longrightarrow> to_lowercase s = SmsHooksTransition_show x" for s x
    by (auto simp: SmsHooksTransition_from_str_def Let_def split: if_splits)
  show "to_lowercase s = to_lowercase t \<Longrightarrow> SmsHooksTransition_from_str s = Inr x \<Longrightarrow> SmsHooksTransition_from_str t = Inr x"
    for s t x
    by (auto simp: SmsHooksTransition_from_str_def Let_def split: if_splits)
qed

interpretation sms_hooks: workflow SmsHooks_can_transition SmsHooks_target_state SmsHooksTransition_all
  SmsHooks_allowed_roles SmsHooksTransition_show SmsHooksState_show
proof
  show "t \<in> set SmsHooksTransition_all" for t by (cases t) (simp_all add: SmsHooksTransition_all_def)
  show "SmsHooks_allowed_roles t = []" for t by (simp add: SmsHooks_allowed_roles_def)
  show "SmsHooks_can_transition s t \<Longrightarrow> SmsHooks_target_state t \<noteq> s" for s t
    by (cases s; cases t) (simp_all add: SmsHooks_can_transition_def)
qed

section \<open>MailNotificationHooks\<close>

datatype MailNotificationHooksState = Ready | Process | Pending | Sent | Bounce | Exception | Canceled

fun MailNotificationHooksState_show :: "MailNotificationHooksState \<Rightarrow> string" where
  "MailNotificationHooksState_show MailNotificationHooksState.Ready = ''ready''"
| "MailNotificationHooksState_show MailNotificationHooksState.Process = ''process''"
| "MailNotificationHooksState_show MailNotificationHooksState.Pending = ''pending''"
| "MailNotificationHooksState_show MailNotificationHooksState.Sent = ''sent''"
| "MailNotificationHooksState_show MailNotificationHooksState.Bounce = ''bounce''"
| "MailNotificationHooksState_show MailNotificationHooksState.Exception = ''exception''"
| "MailNotificationHooksState_show MailNotificationHooksState.Canceled = ''canceled''"

definition MailNotificationHooksState_from_str :: "string \<Rightarrow> StateMachineError + MailNotificationHooksState" where
  "MailNotificationHooksState_from_str s =
     (let t = to_lowercase s in
      if t = ''ready'' then Inr MailNotificationHooksState.Ready
      else if t = ''process'' then Inr MailNotificationHooksState.Process
      else if t = ''pending'' then Inr MailNotificationHooksState.Pending
      else if t = ''sent'' then Inr MailNotificationHooksState.Sent
      else if t = ''bounce'' then Inr MailNotificationHooksState.Bounce
      else if t = ''exception'' then Inr MailNotificationHooksState.Exception
      else if t = ''canceled'' then Inr MailNotificationHooksState.Canceled
      else Inl (InvalidState s))"

definition MailNotificationHooksState_default :: MailNotificationHooksState where
  "MailNotificationHooksState_default = MailNotificationHooksState.Ready"

definition MailNotificationHooksState_is_initial :: "MailNotificationHooksState \<Rightarrow> bool" where
  "MailNotificationHooksState_is_initial s \<longleftrightarrow> s = MailNotificationHooksState.Ready"

definition MailNotificationHooksState_is_final :: "MailNotificationHooksState \<Rightarrow> bool" where
  "MailNotificationHooksState_is_final s \<longleftrightarrow> s = MailNotificationHooksState.Sent \<or> s = MailNotificationHooksState.Bounce \<or> s = MailNotificationHooksState.Canceled"

definition MailNotificationHooksState_all :: "MailNotificationHooksState list" where
  "MailNotificationHooksState_all = [MailNotificationHooksState.Ready, MailNotificationHooksState.Process, MailNotificationHooksState.Pending, MailNotificationHooksState.Sent, MailNotificationHooksState.Bounce, MailNotificationHooksState.Exception, MailNotificationHooksState.Canceled]"

datatype MailNotificationHooksTransition = DispatchStarted | SmtpAccepted | DeliveryConfirmed | InstantDelivered | Bounced | SendFailed | AcceptedUnpicked | DeliveredUnpicked | FailedUnpicked | Canceled

fun MailNotificationHooksTransition_show :: "MailNotificationHooksTransition \<Rightarrow> string" where
  "MailNotificationHooksTransition_show MailNotificationHooksTransition.DispatchStarted = ''dispatch_started''"
| "MailNotificationHooksTransition_show MailNotificationHooksTransition.SmtpAccepted = ''smtp_accepted''"
| "MailNotificationHooksTransition_show MailNotificationHooksTransition.DeliveryConfirmed = ''delivery_confirmed''"
| "MailNotificationHooksTransition_show MailNotificationHooksTransition.InstantDelivered = ''instant_delivered''"
| "MailNotificationHooksTransition_show MailNotificationHooksTransition.Bounced = ''bounced''"
| "MailNotificationHooksTransition_show MailNotificationHooksTransition.SendFailed = ''send_failed''"
| "MailNotificationHooksTransition_show MailNotificationHooksTransition.AcceptedUnpicked = ''accepted_unpicked''"
| "MailNotificationHooksTransition_show MailNotificationHooksTransition.DeliveredUnpicked = ''delivered_unpicked''"
| "MailNotificationHooksTransition_show MailNotificationHooksTransition.FailedUnpicked = ''failed_unpicked''"
| "MailNotificationHooksTransition_show MailNotificationHooksTransition.Canceled = ''canceled''"

definition MailNotificationHooksTransition_from_str :: "string \<Rightarrow> StateMachineError + MailNotificationHooksTransition" where
  "MailNotificationHooksTransition_from_str s =
     (let t = to_lowercase s in
      if t = ''dispatch_started'' then Inr MailNotificationHooksTransition.DispatchStarted
      else if t = ''smtp_accepted'' then Inr MailNotificationHooksTransition.SmtpAccepted
      else if t = ''delivery_confirmed'' then Inr MailNotificationHooksTransition.DeliveryConfirmed
      else if t = ''instant_delivered'' then Inr MailNotificationHooksTransition.InstantDelivered
      else if t = ''bounced'' then Inr MailNotificationHooksTransition.Bounced
      else if t = ''send_failed'' then Inr MailNotificationHooksTransition.SendFailed
      else if t = ''accepted_unpicked'' then Inr MailNotificationHooksTransition.AcceptedUnpicked
      else if t = ''delivered_unpicked'' then Inr MailNotificationHooksTransition.DeliveredUnpicked
      else if t = ''failed_unpicked'' then Inr MailNotificationHooksTransition.FailedUnpicked
      else if t = ''canceled'' then Inr MailNotificationHooksTransition.Canceled
      else Inl (InvalidTransition s))"

fun MailNotificationHooks_target_state :: "MailNotificationHooksTransition \<Rightarrow> MailNotificationHooksState" where
  "MailNotificationHooks_target_state MailNotificationHooksTransition.DispatchStarted = MailNotificationHooksState.Process"
| "MailNotificationHooks_target_state MailNotificationHooksTransition.SmtpAccepted = MailNotificationHooksState.Pending"
| "MailNotificationHooks_target_state MailNotificationHooksTransition.DeliveryConfirmed = MailNotificationHooksState.Sent"
| "MailNotificationHooks_target_state MailNotificationHooksTransition.InstantDelivered = MailNotificationHooksState.Sent"
| "MailNotificationHooks_target_state MailNotificationHooksTransition.Bounced = MailNotificationHooksState.Bounce"
| "MailNotificationHooks_target_state MailNotificationHooksTransition.SendFailed = MailNotificationHooksState.Exception"
| "MailNotificationHooks_target_state MailNotificationHooksTransition.AcceptedUnpicked = MailNotificationHooksState.Pending"
| "MailNotificationHooks_target_state MailNotificationHooksTransition.DeliveredUnpicked = MailNotificationHooksState.Sent"
| "MailNotificationHooks_target_state MailNotificationHooksTransition.FailedUnpicked = MailNotificationHooksState.Exception"
| "MailNotificationHooks_target_state MailNotificationHooksTransition.Canceled = MailNotificationHooksState.Canceled"

definition MailNotificationHooksTransition_all :: "MailNotificationHooksTransition list" where
  "MailNotificationHooksTransition_all = [MailNotificationHooksTransition.DispatchStarted, MailNotificationHooksTransition.SmtpAccepted, MailNotificationHooksTransition.DeliveryConfirmed, MailNotificationHooksTransition.InstantDelivered, MailNotificationHooksTransition.Bounced, MailNotificationHooksTransition.SendFailed, MailNotificationHooksTransition.AcceptedUnpicked, MailNotificationHooksTransition.DeliveredUnpicked, MailNotificationHooksTransition.FailedUnpicked, MailNotificationHooksTransition.Canceled]"

definition MailNotificationHooks_allowed_roles :: "MailNotificationHooksTransition \<Rightarrow> string list" where
  "MailNotificationHooks_allowed_roles t = []"

definition MailNotificationHooks_can_transition :: "MailNotificationHooksState \<Rightarrow> MailNotificationHooksTransition \<Rightarrow> bool" where
  "MailNotificationHooks_can_transition s t =
     (if s = MailNotificationHooksState.Sent \<or> s = MailNotificationHooksState.Bounce \<or> s = MailNotificationHooksState.Canceled then False
      else case (s, t) of
        (MailNotificationHooksState.Ready, MailNotificationHooksTransition.DispatchStarted) \<Rightarrow> True
      | (MailNotificationHooksState.Process, MailNotificationHooksTransition.SmtpAccepted) \<Rightarrow> True
      | (MailNotificationHooksState.Exception, MailNotificationHooksTransition.SmtpAccepted) \<Rightarrow> True
      | (MailNotificationHooksState.Pending, MailNotificationHooksTransition.DeliveryConfirmed) \<Rightarrow> True
      | (MailNotificationHooksState.Process, MailNotificationHooksTransition.InstantDelivered) \<Rightarrow> True
      | (MailNotificationHooksState.Pending, MailNotificationHooksTransition.Bounced) \<Rightarrow> True
      | (MailNotificationHooksState.Process, MailNotificationHooksTransition.Bounced) \<Rightarrow> True
      | (MailNotificationHooksState.Exception, MailNotificationHooksTransition.Bounced) \<Rightarrow> True
      | (MailNotificationHooksState.Process, MailNotificationHooksTransition.SendFailed) \<Rightarrow> True
      | (MailNotificationHooksState.Pending, MailNotificationHooksTransition.SendFailed) \<Rightarrow> True
      | (MailNotificationHooksState.Ready, MailNotificationHooksTransition.AcceptedUnpicked) \<Rightarrow> True
      | (MailNotificationHooksState.Ready, MailNotificationHooksTransition.DeliveredUnpicked) \<Rightarrow> True
      | (MailNotificationHooksState.Ready, MailNotificationHooksTransition.FailedUnpicked) \<Rightarrow> True
      | (MailNotificationHooksState.Ready, MailNotificationHooksTransition.Canceled) \<Rightarrow> True
      | (MailNotificationHooksState.Process, MailNotificationHooksTransition.Canceled) \<Rightarrow> True
      | (MailNotificationHooksState.Pending, MailNotificationHooksTransition.Canceled) \<Rightarrow> True
      | _ \<Rightarrow> False)"

definition MailNotificationHooksStateMachine_new :: MailNotificationHooksState where
  "MailNotificationHooksStateMachine_new = MailNotificationHooksState_default"

definition MailNotificationHooksStateMachine_can_transition_with_role :: "MailNotificationHooksState \<Rightarrow> MailNotificationHooksTransition \<Rightarrow> string \<Rightarrow> bool" where
  "MailNotificationHooksStateMachine_can_transition_with_role = sm_can_with_role MailNotificationHooks_can_transition MailNotificationHooks_allowed_roles"

definition MailNotificationHooksStateMachine_transition :: "MailNotificationHooksState \<Rightarrow> MailNotificationHooksTransition \<Rightarrow> (StateMachineError + MailNotificationHooksState) \<times> MailNotificationHooksState" where
  "MailNotificationHooksStateMachine_transition = sm_transition MailNotificationHooks_can_transition MailNotificationHooks_target_state MailNotificationHooksTransition_show MailNotificationHooksState_show"

definition MailNotificationHooksStateMachine_transition_with_role ::
  "MailNotificationHooksState \<Rightarrow> MailNotificationHooksTransition \<Rightarrow> string \<Rightarrow> (StateMachineError + MailNotificationHooksState) \<times> MailNotificationHooksState" where
  "MailNotificationHooksStateMachine_transition_with_role =
     sm_transition_with_role MailNotificationHooks_can_transition MailNotificationHooks_target_state MailNotificationHooks_allowed_roles MailNotificationHooksTransition_show MailNotificationHooksState_show"

definition MailNotificationHooksStateMachine_available_transitions :: "MailNotificationHooksState \<Rightarrow> MailNotificationHooksTransition list" where
  "MailNotificationHooksStateMachine_available_transitions = sm_available MailNotificationHooks_can_transition MailNotificationHooksTransition_all"

definition MailNotificationHooksStateMachine_available_transitions_for_role :: "MailNotificationHooksState \<Rightarrow> string \<Rightarrow> MailNotificationHooksTransition list" where
  "MailNotificationHooksStateMachine_available_transitions_for_role = sm_available_for_role MailNotificationHooks_can_transition MailNotificationHooks_allowed_roles MailNotificationHooksTransition_all"

definition MailNotificationHooksStateMachine_transition_to_state ::
  "MailNotificationHooksState \<Rightarrow> MailNotificationHooksState \<Rightarrow> (StateMachineError + MailNotificationHooksState) \<times> MailNotificationHooksState" where
  "MailNotificationHooksStateMachine_transition_to_state = sm_transition_to_state MailNotificationHooks_can_transition MailNotificationHooks_target_state MailNotificationHooksTransition_all MailNotificationHooksTransition_show MailNotificationHooksState_show"

interpretation mail_notification_hooks_state_text: text_enum MailNotificationHooksState_show MailNotificationHooksState_from_str
proof
  show "MailNotificationHooksState_from_str (MailNotificationHooksState_show x) = Inr x" for x
    by (cases x) (simp_all add: MailNotificationHooksState_from_str_def ascii_lower_def byte_of_def)
  show "MailNotificationHooksState_from_str s = Inr x \<Longrightarrow> to_lowercase s = MailNotificationHooksState_show x" for s x
    by (auto simp: MailNotificationHooksState_from_str_def Let_def split: if_splits)
  show "to_lowercase s = to_lowercase t \<Longrightarrow> MailNotificationHooksState_from_str s = Inr x \<Longrightarrow> MailNotificationHooksState_from_str t = Inr x"
    for s t x
    by (auto simp: MailNotificationHooksState_from_str_def Let_def split: if_splits)
qed

interpretation mail_notification_hooks_transition_text: text_enum MailNotificationHooksTransition_show MailNotificationHooksTransition_from_str
proof
  show "MailNotificationHooksTransition_from_str (MailNotificationHooksTransition_show x) = Inr x" for x
    by (cases x) (simp_all add: MailNotificationHooksTransition_from_str_def ascii_lower_def byte_of_def)
  show "MailNotificationHooksTransition_from_str s = Inr x \<Longrightarrow> to_lowercase s = MailNotificationHooksTransition_show x" for s x
    by (auto simp: MailNotificationHooksTransition_from_str_def Let_def split: if_splits)
  show "to_lowercase s = to_lowercase t \<Longrightarrow> MailNotificationHooksTransition_from_str s = Inr x \<Longrightarrow> MailNotificationHooksTransition_from_str t = Inr x"
    for s t x
    by (auto simp: MailNotificationHooksTransition_from_str_def Let_def split: if_splits)
qed

interpretation mail_notification_hooks: workflow MailNotificationHooks_can_transition MailNotificationHooks_target_state MailNotificationHooksTransition_all
  MailNotificationHooks_allowed_roles MailNotificationHooksTransition_show MailNotificationHooksState_show
proof
  show "t \<in> set MailNotificationHooksTransition_all" for t by (cases t) (simp_all add: MailNotificationHooksTransition_all_def)
  show "MailNotificationHooks_allowed_roles t = []" for t by (simp add: MailNotificationHooks_allowed_roles_def)
  show "MailNotificationHooks_can_transition s t \<Longrightarrow> MailNotificationHooks_target_state t \<noteq> s" for s t
    by (cases s; cases t) (simp_all add: MailNotificationHooks_can_transition_def)
qed

section \<open>MailPresenceHooks\<close>

datatype MailPresenceHooksState = Online | Away | Offline

fun MailPresenceHooksState_show :: "MailPresenceHooksState \<Rightarrow> string" where
  "MailPresenceHooksState_show MailPresenceHooksState.Online = ''online''"
| "MailPresenceHooksState_show MailPresenceHooksState.Away = ''away''"
| "MailPresenceHooksState_show MailPresenceHooksState.Offline = ''offline''"

definition MailPresenceHooksState_from_str :: "string \<Rightarrow> StateMachineError + MailPresenceHooksState" where
  "MailPresenceHooksState_from_str s =
     (let t = to_lowercase s in
      if t = ''online'' then Inr MailPresenceHooksState.Online
      else if t = ''away'' then Inr MailPresenceHooksState.Away
      else if t = ''offline'' then Inr MailPresenceHooksState.Offline
      else Inl (InvalidState s))"

definition MailPresenceHooksState_default :: MailPresenceHooksState where
  "MailPresenceHooksState_default = MailPresenceHooksState.Offline"

definition MailPresenceHooksState_is_initial :: "MailPresenceHooksState \<Rightarrow> bool" where
  "MailPresenceHooksState_is_initial s \<longleftrightarrow> s = MailPresenceHooksState.Offline"

definition MailPresenceHooksState_is_final :: "MailPresenceHooksState \<Rightarrow> bool" where
  "MailPresenceHooksState_is_final s \<longleftrightarrow> s = MailPresenceHooksState.Offline"

definition MailPresenceHooksState_all :: "MailPresenceHooksState list" where
  "MailPresenceHooksState_all = [MailPresenceHooksState.Online, MailPresenceHooksState.Away, MailPresenceHooksState.Offline]"

datatype MailPresenceHooksTransition = GoOnline | GoAway | GoOffline

fun MailPresenceHooksTransition_show :: "MailPresenceHooksTransition \<Rightarrow> string" where
  "MailPresenceHooksTransition_show MailPresenceHooksTransition.GoOnline = ''go_online''"
| "MailPresenceHooksTransition_show MailPresenceHooksTransition.GoAway = ''go_away''"
| "MailPresenceHooksTransition_show MailPresenceHooksTransition.GoOffline = ''go_offline''"

definition MailPresenceHooksTransition_from_str :: "string \<Rightarrow> StateMachineError + MailPresenceHooksTransition" where
  "MailPresenceHooksTransition_from_str s =
     (let t = to_lowercase s in
      if t = ''go_online'' then Inr MailPresenceHooksTransition.GoOnline
      else if t = ''go_away'' then Inr MailPresenceHooksTransition.GoAway
      else if t = ''go_offline'' then Inr MailPresenceHooksTransition.GoOffline
      else Inl (InvalidTransition s))"

fun MailPresenceHooks_target_state :: "MailPresenceHooksTransition \<Rightarrow> MailPresenceHooksState" where
  "MailPresenceHooks_target_state MailPresenceHooksTransition.GoOnline = MailPresenceHooksState.Online"
| "MailPresenceHooks_target_state MailPresenceHooksTransition.GoAway = MailPresenceHooksState.Away"
| "MailPresenceHooks_target_state MailPresenceHooksTransition.GoOffline = MailPresenceHooksState.Offline"

definition MailPresenceHooksTransition_all :: "MailPresenceHooksTransition list" where
  "MailPresenceHooksTransition_all = [MailPresenceHooksTransition.GoOnline, MailPresenceHooksTransition.GoAway, MailPresenceHooksTransition.GoOffline]"

definition MailPresenceHooks_allowed_roles :: "MailPresenceHooksTransition \<Rightarrow> string list" where
  "MailPresenceHooks_allowed_roles t = []"

definition MailPresenceHooks_can_transition :: "MailPresenceHooksState \<Rightarrow> MailPresenceHooksTransition \<Rightarrow> bool" where
  "MailPresenceHooks_can_transition s t =
     (case (s, t) of
        (MailPresenceHooksState.Away, MailPresenceHooksTransition.GoOnline) \<Rightarrow> True
      | (MailPresenceHooksState.Offline, MailPresenceHooksTransition.GoOnline) \<Rightarrow> True
      | (MailPresenceHooksState.Online, MailPresenceHooksTransition.GoAway) \<Rightarrow> True
      | (MailPresenceHooksState.Offline, MailPresenceHooksTransition.GoAway) \<Rightarrow> True
      | (MailPresenceHooksState.Online, MailPresenceHooksTransition.GoOffline) \<Rightarrow> True
      | (MailPresenceHooksState.Away, MailPresenceHooksTransition.GoOffline) \<Rightarrow> True
      | _ \<Rightarrow> False)"

definition MailPresenceHooksStateMachine_new :: MailPresenceHooksState where
  "MailPresenceHooksStateMachine_new = MailPresenceHooksState_default"

definition MailPresenceHooksStateMachine_can_transition_with_role :: "MailPresenceHooksState \<Rightarrow> MailPresenceHooksTransition \<Rightarrow> string \<Rightarrow> bool" where
  "MailPresenceHooksStateMachine_can_transition_with_role = sm_can_with_role MailPresenceHooks_can_transition MailPresenceHooks_allowed_roles"

definition MailPresenceHooksStateMachine_transition :: "MailPresenceHooksState \<Rightarrow> MailPresenceHooksTransition \<Rightarrow> (StateMachineError + MailPresenceHooksState) \<times> MailPresenceHooksState" where
  "MailPresenceHooksStateMachine_transition = sm_transition MailPresenceHooks_can_transition MailPresenceHooks_target_state MailPresenceHooksTransition_show MailPresenceHooksState_show"

definition MailPresenceHooksStateMachine_transition_with_role ::
  "MailPresenceHooksState \<Rightarrow> MailPresenceHooksTransition \<Rightarrow> string \<Rightarrow> (StateMachineError + MailPresenceHooksState) \<times> MailPresenceHooksState" where
  "MailPresenceHooksStateMachine_transition_with_role =
     sm_transition_with_role MailPresenceHooks_can_transition MailPresenceHooks_target_state MailPresenceHooks_allowed_roles MailPresenceHooksTransition_show MailPresenceHooksState_show"

definition MailPresenceHooksStateMachine_available_transitions :: "MailPresenceHooksState \<Rightarrow> MailPresenceHooksTransition list" where
  "MailPresenceHooksStateMachine_available_transitions = sm_available MailPresenceHooks_can_transition MailPresenceHooksTransition_all"

definition MailPresenceHooksStateMachine_available_transitions_for_role :: "MailPresenceHooksState \<Rightarrow> string \<Rightarrow> MailPresenceHooksTransition list" where
  "MailPresenceHooksStateMachine_available_transitions_for_role = sm_available_for_role MailPresenceHooks_can_transition MailPresenceHooks_allowed_roles MailPresenceHooksTransition_all"

definition MailPresenceHooksStateMachine_transition_to_state ::
  "MailPresenceHooksState \<Rightarrow> MailPresenceHooksState \<Rightarrow> (StateMachineError + MailPresenceHooksState) \<times> MailPresenceHooksState" where
  "MailPresenceHooksStateMachine_transition_to_state = sm_transition_to_state MailPresenceHooks_can_transition MailPresenceHooks_target_state MailPresenceHooksTransition_all MailPresenceHooksTransition_show MailPresenceHooksState_show"

interpretation mail_presence_hooks_state_text: text_enum MailPresenceHooksState_show MailPresenceHooksState_from_str
proof
  show "MailPresenceHooksState_from_str (MailPresenceHooksState_show x) = Inr x" for x
    by (cases x) (simp_all add: MailPresenceHooksState_from_str_def ascii_lower_def byte_of_def)
  show "MailPresenceHooksState_from_str s = Inr x \<Longrightarrow> to_lowercase s = MailPresenceHooksState_show x" for s x
    by (auto simp: MailPresenceHooksState_from_str_def Let_def split: if_splits)
  show "to_lowercase s = to_lowercase t \<Longrightarrow> MailPresenceHooksState_from_str s = Inr x \<Longrightarrow> MailPresenceHooksState_from_str t = Inr x"
    for s t x
    by (auto simp: MailPresenceHooksState_from_str_def Let_def split: if_splits)
qed

interpretation mail_presence_hooks_transition_text: text_enum MailPresenceHooksTransition_show MailPresenceHooksTransition_from_str
proof
  show "MailPresenceHooksTransition_from_str (MailPresenceHooksTransition_show x) = Inr x" for x
    by (cases x) (simp_all add: MailPresenceHooksTransition_from_str_def ascii_lower_def byte_of_def)
  show "MailPresenceHooksTransition_from_str s = Inr x \<Longrightarrow> to_lowercase s = MailPresenceHooksTransition_show x" for s x
    by (auto simp: MailPresenceHooksTransition_from_str_def Let_def split: if_splits)
  show "to_lowercase s = to_lowercase t \<Longrightarrow> MailPresenceHooksTransition_from_str s = Inr x \<Longrightarrow> MailPresenceHooksTransition_from_str t = Inr x"
    for s t x
    by (auto simp: MailPresenceHooksTransition_from_str_def Let_def split: if_splits)
qed

interpretation mail_presence_hooks: workflow MailPresenceHooks_can_transition MailPresenceHooks_target_state MailPresenceHooksTransition_all
  MailPresenceHooks_allowed_roles MailPresenceHooksTransition_show MailPresenceHooksState_show
proof
  show "t \<in> set MailPresenceHooksTransition_all" for t by (cases t) (simp_all add: MailPresenceHooksTransition_all_def)
  show "MailPresenceHooks_allowed_roles t = []" for t by (simp add: MailPresenceHooks_allowed_roles_def)
  show "MailPresenceHooks_can_transition s t \<Longrightarrow> MailPresenceHooks_target_state t \<noteq> s" for s t
    by (cases s; cases t) (simp_all add: MailPresenceHooks_can_transition_def)
qed

section \<open>MailActivityTypeHooks\<close>

datatype MailActivityTypeHooksState = Suggest | Trigger

fun MailActivityTypeHooksState_show :: "MailActivityTypeHooksState \<Rightarrow> string" where
  "MailActivityTypeHooksState_show MailActivityTypeHooksState.Suggest = ''suggest''"
| "MailActivityTypeHooksState_show MailActivityTypeHooksState.Trigger = ''trigger''"

definition MailActivityTypeHooksState_from_str :: "string \<Rightarrow> StateMachineError + MailActivityTypeHooksState" where
  "MailActivityTypeHooksState_from_str s =
     (let t = to_lowercase s in
      if t = ''suggest'' then Inr MailActivityTypeHooksState.Suggest
      else if t = ''trigger'' then Inr MailActivityTypeHooksState.Trigger
      else Inl (InvalidState s))"

definition MailActivityTypeHooksState_default :: MailActivityTypeHooksState where
  "MailActivityTypeHooksState_default = MailActivityTypeHooksState.Suggest"

definition MailActivityTypeHooksState_is_initial :: "MailActivityTypeHooksState \<Rightarrow> bool" where
  "MailActivityTypeHooksState_is_initial s \<longleftrightarrow> s = MailActivityTypeHooksState.Suggest"

definition MailActivityTypeHooksState_is_final :: "MailActivityTypeHooksState \<Rightarrow> bool" where
  "MailActivityTypeHooksState_is_final s \<longleftrightarrow> s = MailActivityTypeHooksState.Trigger"

definition MailActivityTypeHooksState_all :: "MailActivityTypeHooksState list" where
  "MailActivityTypeHooksState_all = [MailActivityTypeHooksState.Suggest, MailActivityTypeHooksState.Trigger]"

datatype MailActivityTypeHooksTransition = EnableTrigger

fun MailActivityTypeHooksTransition_show :: "MailActivityTypeHooksTransition \<Rightarrow> string" where
  "MailActivityTypeHooksTransition_show MailActivityTypeHooksTransition.EnableTrigger = ''enable_trigger''"

definition MailActivityTypeHooksTransition_from_str :: "string \<Rightarrow> StateMachineError + MailActivityTypeHooksTransition" where
  "MailActivityTypeHooksTransition_from_str s =
     (let t = to_lowercase s in
      if t = ''enable_trigger'' then Inr MailActivityTypeHooksTransition.EnableTrigger
      else Inl (InvalidTransition s))"

fun MailActivityTypeHooks_target_state :: "MailActivityTypeHooksTransition \<Rightarrow> MailActivityTypeHooksState" where
  "MailActivityTypeHooks_target_state MailActivityTypeHooksTransition.EnableTrigger = MailActivityTypeHooksState.Trigger"

definition MailActivityTypeHooksTransition_all :: "MailActivityTypeHooksTransition list" where
  "MailActivityTypeHooksTransition_all = [MailActivityTypeHooksTransition.EnableTrigger]"

definition MailActivityTypeHooks_allowed_roles :: "MailActivityTypeHooksTransition \<Rightarrow> string list" where
  "MailActivityTypeHooks_allowed_roles t = []"

definition MailActivityTypeHooks_can_transition :: "MailActivityTypeHooksState \<Rightarrow> MailActivityTypeHooksTransition \<Rightarrow> bool" where
  "MailActivityTypeHooks_can_transition s t =
     (if s = MailActivityTypeHooksState.Trigger then False
      else case (s, t) of
        (MailActivityTypeHooksState.Suggest, MailActivityTypeHooksTransition.EnableTrigger) \<Rightarrow> True
      | _ \<Rightarrow> False)"

definition MailActivityTypeHooksStateMachine_new :: MailActivityTypeHooksState where
  "MailActivityTypeHooksStateMachine_new = MailActivityTypeHooksState_default"

definition MailActivityTypeHooksStateMachine_can_transition_with_role :: "MailActivityTypeHooksState \<Rightarrow> MailActivityTypeHooksTransition \<Rightarrow> string \<Rightarrow> bool" where
  "MailActivityTypeHooksStateMachine_can_transition_with_role = sm_can_with_role MailActivityTypeHooks_can_transition MailActivityTypeHooks_allowed_roles"

definition MailActivityTypeHooksStateMachine_transition :: "MailActivityTypeHooksState \<Rightarrow> MailActivityTypeHooksTransition \<Rightarrow> (StateMachineError + MailActivityTypeHooksState) \<times> MailActivityTypeHooksState" where
  "MailActivityTypeHooksStateMachine_transition = sm_transition MailActivityTypeHooks_can_transition MailActivityTypeHooks_target_state MailActivityTypeHooksTransition_show MailActivityTypeHooksState_show"

definition MailActivityTypeHooksStateMachine_transition_with_role ::
  "MailActivityTypeHooksState \<Rightarrow> MailActivityTypeHooksTransition \<Rightarrow> string \<Rightarrow> (StateMachineError + MailActivityTypeHooksState) \<times> MailActivityTypeHooksState" where
  "MailActivityTypeHooksStateMachine_transition_with_role =
     sm_transition_with_role MailActivityTypeHooks_can_transition MailActivityTypeHooks_target_state MailActivityTypeHooks_allowed_roles MailActivityTypeHooksTransition_show MailActivityTypeHooksState_show"

definition MailActivityTypeHooksStateMachine_available_transitions :: "MailActivityTypeHooksState \<Rightarrow> MailActivityTypeHooksTransition list" where
  "MailActivityTypeHooksStateMachine_available_transitions = sm_available MailActivityTypeHooks_can_transition MailActivityTypeHooksTransition_all"

definition MailActivityTypeHooksStateMachine_available_transitions_for_role :: "MailActivityTypeHooksState \<Rightarrow> string \<Rightarrow> MailActivityTypeHooksTransition list" where
  "MailActivityTypeHooksStateMachine_available_transitions_for_role = sm_available_for_role MailActivityTypeHooks_can_transition MailActivityTypeHooks_allowed_roles MailActivityTypeHooksTransition_all"

definition MailActivityTypeHooksStateMachine_transition_to_state ::
  "MailActivityTypeHooksState \<Rightarrow> MailActivityTypeHooksState \<Rightarrow> (StateMachineError + MailActivityTypeHooksState) \<times> MailActivityTypeHooksState" where
  "MailActivityTypeHooksStateMachine_transition_to_state = sm_transition_to_state MailActivityTypeHooks_can_transition MailActivityTypeHooks_target_state MailActivityTypeHooksTransition_all MailActivityTypeHooksTransition_show MailActivityTypeHooksState_show"

interpretation mail_activity_type_hooks_state_text: text_enum MailActivityTypeHooksState_show MailActivityTypeHooksState_from_str
proof
  show "MailActivityTypeHooksState_from_str (MailActivityTypeHooksState_show x) = Inr x" for x
    by (cases x) (simp_all add: MailActivityTypeHooksState_from_str_def ascii_lower_def byte_of_def)
  show "MailActivityTypeHooksState_from_str s = Inr x \<Longrightarrow> to_lowercase s = MailActivityTypeHooksState_show x" for s x
    by (auto simp: MailActivityTypeHooksState_from_str_def Let_def split: if_splits)
  show "to_lowercase s = to_lowercase t \<Longrightarrow> MailActivityTypeHooksState_from_str s = Inr x \<Longrightarrow> MailActivityTypeHooksState_from_str t = Inr x"
    for s t x
    by (auto simp: MailActivityTypeHooksState_from_str_def Let_def split: if_splits)
qed

interpretation mail_activity_type_hooks_transition_text: text_enum MailActivityTypeHooksTransition_show MailActivityTypeHooksTransition_from_str
proof
  show "MailActivityTypeHooksTransition_from_str (MailActivityTypeHooksTransition_show x) = Inr x" for x
    by (cases x) (simp_all add: MailActivityTypeHooksTransition_from_str_def ascii_lower_def byte_of_def)
  show "MailActivityTypeHooksTransition_from_str s = Inr x \<Longrightarrow> to_lowercase s = MailActivityTypeHooksTransition_show x" for s x
    by (auto simp: MailActivityTypeHooksTransition_from_str_def Let_def split: if_splits)
  show "to_lowercase s = to_lowercase t \<Longrightarrow> MailActivityTypeHooksTransition_from_str s = Inr x \<Longrightarrow> MailActivityTypeHooksTransition_from_str t = Inr x"
    for s t x
    by (auto simp: MailActivityTypeHooksTransition_from_str_def Let_def split: if_splits)
qed

interpretation mail_activity_type_hooks: workflow MailActivityTypeHooks_can_transition MailActivityTypeHooks_target_state MailActivityTypeHooksTransition_all
  MailActivityTypeHooks_allowed_roles MailActivityTypeHooksTransition_show MailActivityTypeHooksState_show
proof
  show "t \<in> set MailActivityTypeHooksTransition_all" for t by (cases t) (simp_all add: MailActivityTypeHooksTransition_all_def)
  show "MailActivityTypeHooks_allowed_roles t = []" for t by (simp add: MailActivityTypeHooks_allowed_roles_def)
  show "MailActivityTypeHooks_can_transition s t \<Longrightarrow> MailActivityTypeHooks_target_state t \<noteq> s" for s t
    by (cases s; cases t) (simp_all add: MailActivityTypeHooks_can_transition_def)
qed

end
