(* ===== verification/Lattice.thy ===== *)
theory Lattice
  imports Store StateMachines
begin

text \<open>
  How the three descriptions of the status columns fit together: the workflow machines of
  \<open>src/domain/state_machine/\<close>, the transition triggers and the monotonic guards of the migrations.
  The machines and the triggers are generated from one declaration and agree; the monotonic guard
  is hand-written and is stricter.
\<close>

lemma edges_of_table:
  assumes "\<And>s. s \<in> set ss" and "\<And>t. t \<in> set ts"
    and "set tab = set (concat (map (\<lambda>s. map (\<lambda>t. (f s, f (target t))) (filter (can s) ts)) ss))"
  shows "(a, b) \<in> set tab \<longleftrightarrow>
         (\<exists>s t. can s t \<and> f s = a \<and> f (target t) = b)"
proof -
  have "(a, b) \<in> set tab \<longleftrightarrow>
      (\<exists>s\<in>set ss. \<exists>t\<in>set ts. can s t \<and> (f s, f (target t)) = (a, b))"
    unfolding assms(3) by auto
  then show ?thesis using assms(1,2) by auto
qed

lemma all_mail_states: "s \<in> set MailHooksState_all"
  by (cases s) (simp_all add: MailHooksState_all_def)

lemma all_notification_states: "s \<in> set MailNotificationHooksState_all"
  by (cases s) (simp_all add: MailNotificationHooksState_all_def)

lemma all_sms_states: "s \<in> set SmsHooksState_all"
  by (cases s) (simp_all add: SmsHooksState_all_def)

lemma mail_table:
  "set mails_transitions = set (concat (map (\<lambda>s. map (\<lambda>t.
     (MailHooksState_show s, MailHooksState_show (MailHooks_target_state t)))
     (filter (MailHooks_can_transition s) MailHooksTransition_all)) MailHooksState_all))"
  by code_simp

lemma notification_table:
  "set mail_notifications_transitions = set (concat (map (\<lambda>s. map (\<lambda>t.
     (MailNotificationHooksState_show s,
      MailNotificationHooksState_show (MailNotificationHooks_target_state t)))
     (filter (MailNotificationHooks_can_transition s) MailNotificationHooksTransition_all))
     MailNotificationHooksState_all))"
  by code_simp

lemma sms_table:
  "set sms_transitions = set (concat (map (\<lambda>s. map (\<lambda>t.
     (SmsHooksState_show s, SmsHooksState_show (SmsHooks_target_state t)))
     (filter (SmsHooks_can_transition s) SmsHooksTransition_all)) SmsHooksState_all))"
  by code_simp

lemma mail_edge_declared:
  "(a, b) \<in> set mails_transitions \<longleftrightarrow>
   (\<exists>s t. MailHooks_can_transition s t \<and> MailHooksState_show s = a \<and>
      MailHooksState_show (MailHooks_target_state t) = b)"
  by (rule edges_of_table [OF all_mail_states mail_hooks.all_listed mail_table])

lemma notification_edge_declared:
  "(a, b) \<in> set mail_notifications_transitions \<longleftrightarrow>
   (\<exists>s t. MailNotificationHooks_can_transition s t \<and> MailNotificationHooksState_show s = a \<and>
      MailNotificationHooksState_show (MailNotificationHooks_target_state t) = b)"
  by (rule edges_of_table [OF all_notification_states mail_notification_hooks.all_listed notification_table])

lemma sms_edge_declared:
  "(a, b) \<in> set sms_transitions \<longleftrightarrow>
   (\<exists>s t. SmsHooks_can_transition s t \<and> SmsHooksState_show s = a \<and>
      SmsHooksState_show (SmsHooks_target_state t) = b)"
  by (rule edges_of_table [OF all_sms_states sms_hooks.all_listed sms_table])

end
