(* ===== verification/MessagePipeline.thy ===== *)
theory MessagePipeline
  imports Store "HOL-Library.Multiset"
begin

text \<open>
  \<open>message_post\<close> (\<open>src/application/service/message_write_service.rs\<close>) and the SQL it orchestrates
  (\<open>src/infrastructure/persistence/message_pipeline_repository.rs\<close>): a message is minted, its
  recipients are grouped by channel and each group goes to the channel's strategy, and the bus
  events are staged, all in one transaction.  The monotonic advance of a notification's status,
  which the mail and sms queues also use, is here.
\<close>

section \<open>Repository\<close>

record NewMailMessageRow =
  nm_id :: uuid
  nm_subject :: "string option"
  nm_body :: string
  nm_message_type :: string
  nm_subtype_id :: "uuid option"
  nm_is_internal :: bool
  nm_author_id :: "uuid option"
  nm_author_guest_id :: "uuid option"
  nm_email_from :: "string option"
  nm_message_id :: "string option"
  nm_reply_to :: "string option"
  nm_model :: "string option"
  nm_res_id :: "uuid option"
  nm_record_name :: "string option"

record NewMailNotificationRow =
  nn_id :: uuid
  nn_mail_message_id :: uuid
  nn_res_partner_id :: "uuid option"
  nn_notification_type :: string
  nn_notification_status :: string
  nn_mail_mail_id_int :: "uuid option"

record NewMailQueueRow =
  nq_id :: uuid
  nq_mail_message_id :: uuid
  nq_email_to :: string
  nq_email_cc :: "string option"
  nq_reply_to :: "string option"
  nq_scheduled_date :: "time option"

record NewSmsRow =
  ns_id :: uuid
  ns_uuid :: string
  ns_number :: string
  ns_body :: string
  ns_mail_message_id :: "uuid option"
  ns_notification_id :: "uuid option"

definition message_ids :: "db \<Rightarrow> uuid list" where
  "message_ids d = map msg_id (messages d)"

definition resolve_subtype :: "uuid option \<Rightarrow> string option \<Rightarrow> db \<Rightarrow> uuid option" where
  "resolve_subtype subtype_id subtype_name d =
     (case subtype_id of
        Some i \<Rightarrow> map_option sub_id (find (\<lambda>s. sub_id s = i) (subtypes d))
      | None \<Rightarrow>
          (case subtype_name of
             Some nm \<Rightarrow> map_option sub_id (find (\<lambda>s. sub_name s = nm \<and> \<not> sub_deleted s)
                          (sort_key sub_id (subtypes d)))
           | None \<Rightarrow> map_option sub_id (find (\<lambda>s. sub_default s \<and> \<not> sub_deleted s)
                          (sort_key sub_id (subtypes d)))))"

definition insert_mail_message :: "NewMailMessageRow \<Rightarrow> time \<Rightarrow> db \<Rightarrow> db_error + unit \<times> db" where
  "insert_mail_message m now d =
     (case pg_enum_cast MailMessageType_show MailMessageType_from_str (nm_message_type m) of
        None \<Rightarrow> Inl (BadCast (nm_message_type m))
      | Some t \<Rightarrow>
          if nm_id m \<in> set (message_ids d) then Inl (UniqueViolation ''mail_messages_pkey'')
          else if nm_message_id m \<noteq> None \<and>
                  list_ex (\<lambda>r. msg_message_id r = nm_message_id m) (messages d)
            then Inl (UniqueViolation ''mail_message_message_id_uniq'')
          else if \<not> fk_ok (map sub_id (subtypes d)) (nm_subtype_id m)
            then Inl (ForeignKeyViolation ''fk_mail_messages_subtype_id'')
          else if \<not> fk_ok (map gst_id (guests d)) (nm_author_guest_id m)
            then Inl (ForeignKeyViolation ''fk_mail_messages_author_guest_id'')
          else Inr ((), d\<lparr>messages := messages d @
            [\<lparr>msg_id = nm_id m, msg_subject = nm_subject m, msg_date = now, msg_body = nm_body m,
              msg_type = t, msg_subtype_id = nm_subtype_id m, msg_is_internal = nm_is_internal m,
              msg_author_id = nm_author_id m, msg_author_guest_id = nm_author_guest_id m,
              msg_email_from = nm_email_from m, msg_message_id = nm_message_id m,
              msg_reply_to = nm_reply_to m, msg_model = nm_model m, msg_res_id = nm_res_id m,
              msg_record_name = nm_record_name m, msg_pinned_at = None,
              msg_deleted = False\<rparr>]\<rparr>))"

text \<open>The partial unique index \<open>mail_notification_message_partner_uniq\<close>: one inbox or email
  notification per message and partner.\<close>

definition notification_uniq_clash ::
  "uuid \<Rightarrow> uuid option \<Rightarrow> MailNotificationType \<Rightarrow> notification_row \<Rightarrow> bool" where
  "notification_uniq_clash m p t r \<longleftrightarrow>
     p \<noteq> None \<and> t \<in> {MailNotificationType.Inbox, MailNotificationType.Email} \<and>
     ntf_message_id r = m \<and> ntf_partner r = p \<and>
     ntf_type r \<in> {MailNotificationType.Inbox, MailNotificationType.Email}"

definition insert_mail_notification ::
  "NewMailNotificationRow \<Rightarrow> time \<Rightarrow> db \<Rightarrow> db_error + uuid \<times> db" where
  "insert_mail_notification n now d =
     (case (pg_enum_cast MailNotificationType_show MailNotificationType_from_str
              (nn_notification_type n),
            pg_enum_cast MailNotificationStatus_show MailNotificationStatus_from_str
              (nn_notification_status n)) of
        (None, _) \<Rightarrow> Inl (BadCast (nn_notification_type n))
      | (_, None) \<Rightarrow> Inl (BadCast (nn_notification_status n))
      | (Some t, Some st) \<Rightarrow>
          if nn_id n \<in> ntf_id ` set (notifications d)
            then Inl (UniqueViolation ''mail_notifications_pkey'')
          else if list_ex (notification_uniq_clash (nn_mail_message_id n) (nn_res_partner_id n) t)
                    (notifications d)
            then Inl (UniqueViolation ''mail_notification_message_partner_uniq'')
          else if nn_mail_message_id n \<notin> set (message_ids d)
            then Inl (ForeignKeyViolation ''fk_mail_notifications_mail_message_id'')
          else Inr (nn_id n, d\<lparr>notifications := notifications d @
            [\<lparr>ntf_id = nn_id n, ntf_message_id = nn_mail_message_id n,
              ntf_partner = nn_res_partner_id n, ntf_type = t, ntf_status = st,
              ntf_failure_type = None, ntf_failure_reason = None,
              ntf_mail_id = nn_mail_mail_id_int n, ntf_updated_at = now,
              ntf_deleted = False\<rparr>]\<rparr>))"

definition insert_mail :: "NewMailQueueRow \<Rightarrow> db \<Rightarrow> db_error + uuid \<times> db" where
  "insert_mail m d =
     (if nq_id m \<in> mail_id ` set (mails d) then Inl (UniqueViolation ''mails_pkey'')
      else if nq_mail_message_id m \<notin> set (message_ids d)
        then Inl (ForeignKeyViolation ''fk_mails_mail_message_id'')
      else Inr (nq_id m, d\<lparr>mails := mails d @
        [\<lparr>mail_id = nq_id m, mail_message_id = nq_mail_message_id m,
          mail_state = MailState.Outgoing, mail_failure_type = None, mail_failure_reason = None,
          mail_scheduled_date = nq_scheduled_date m, mail_email_to = Some (nq_email_to m),
          mail_email_cc = nq_email_cc m, mail_reply_to = nq_reply_to m,
          mail_headers = JObject []\<rparr>]\<rparr>))"

text \<open>The two statements that mint an sms and its tracker.  They are also \<open>SmsQueueRepository::enqueue\<close>,
  which has the same text.\<close>

definition insert_sms :: "NewSmsRow \<Rightarrow> time \<Rightarrow> db \<Rightarrow> db_error + unit \<times> db" where
  "insert_sms s now d =
     (if ns_id s \<in> sms_id ` set (smss d) then Inl (UniqueViolation ''sms_pkey'')
      else if ns_uuid s \<in> sms_uuid ` set (smss d) then Inl (UniqueViolation ''idx_sms_uuid'')
      else if \<not> (btrim_nonempty (ns_uuid s) \<and> btrim_nonempty (ns_number s) \<and>
                 btrim_nonempty (ns_body s))
        then Inl (CheckViolation ''ck_sms_required'')
      else if \<not> fk_ok (message_ids d) (ns_mail_message_id s)
        then Inl (ForeignKeyViolation ''fk_sms_mail_message_id'')
      else Inr ((), d\<lparr>smss := smss d @
        [\<lparr>sms_id = ns_id s, sms_uuid = ns_uuid s, sms_number = ns_number s, sms_body = ns_body s,
          sms_state = SmsState.Outgoing, sms_failure_type = None, sms_error_message = None,
          sms_mail_message_id = ns_mail_message_id s, sms_iap_status_code = None,
          sms_updated_at = now, sms_swept_at = None\<rparr>]\<rparr>))"

definition insert_tracker :: "NewSmsRow \<Rightarrow> db \<Rightarrow> db_error + unit \<times> db" where
  "insert_tracker s d =
     (if \<not> btrim_nonempty (ns_uuid s) then Inl (CheckViolation ''ck_sms_trackers_required'')
      else if ns_uuid s \<in> trk_sms_uuid ` set (trackers d) then Inr ((), d)
      else if \<not> fk_ok (message_ids d) (ns_mail_message_id s)
        then Inl (ForeignKeyViolation ''fk_sms_trackers_message_id'')
      else if \<not> fk_ok (map ntf_id (notifications d)) (ns_notification_id s)
        then Inl (ForeignKeyViolation ''fk_sms_trackers_notification_id'')
      else Inr ((), d\<lparr>trackers := trackers d @
        [\<lparr>trk_sms_uuid = ns_uuid s, trk_message_id = ns_mail_message_id s,
          trk_notification_id = ns_notification_id s,
          trk_state = MailNotificationStatus.Process\<rparr>]\<rparr>))"

definition insert_sms_with_tracker :: "NewSmsRow \<Rightarrow> (db, 'o, db_error, unit) act" where
  "insert_sms_with_tracker s =
     bindA (stmt_now (insert_sms s)) (\<lambda>_. stmt (insert_tracker s))"

text \<open>A cast in the SET list runs only for a row the WHERE clause matched.\<close>

definition cast_opt :: "(string \<Rightarrow> 'a option) \<Rightarrow> string option \<Rightarrow> db_error + 'a option" where
  "cast_opt c z =
     (case z of None \<Rightarrow> Inr None
      | Some s \<Rightarrow> (case c s of None \<Rightarrow> Inl (BadCast s) | Some x \<Rightarrow> Inr (Some x)))"

definition coalesce :: "'a option \<Rightarrow> 'a option \<Rightarrow> 'a option" where
  "coalesce a b = (case a of None \<Rightarrow> b | Some x \<Rightarrow> Some x)"

definition advance_match :: "uuid \<Rightarrow> string \<Rightarrow> notification_row \<Rightarrow> bool" where
  "advance_match nid target r \<longleftrightarrow>
     ntf_id r = nid \<and>
     rank_lt (messaging_status_rank (MailNotificationStatus_show (ntf_status r)))
             (messaging_status_rank target)"

definition advance_set ::
  "MailNotificationStatus \<Rightarrow> NotificationFailureType option \<Rightarrow> string option \<Rightarrow> time \<Rightarrow>
   notification_row \<Rightarrow> notification_row" where
  "advance_set st ft reason now r =
     r\<lparr>ntf_status := st, ntf_failure_type := coalesce ft (ntf_failure_type r),
       ntf_failure_reason := coalesce reason (ntf_failure_reason r), ntf_updated_at := now\<rparr>"

definition advance_notification_status ::
  "uuid \<Rightarrow> string \<Rightarrow> string option \<Rightarrow> string option \<Rightarrow> time \<Rightarrow> db \<Rightarrow> db_error + string option \<times> db" where
  "advance_notification_status nid target failure_type failure_reason now d =
     (if \<not> list_ex (advance_match nid target) (notifications d) then Inr (None, d)
      else case (pg_enum_cast MailNotificationStatus_show MailNotificationStatus_from_str target,
                 cast_opt (pg_enum_cast NotificationFailureType_show NotificationFailureType_from_str)
                   failure_type) of
             (None, _) \<Rightarrow> Inl (BadCast target)
           | (_, Inl e) \<Rightarrow> Inl e
           | (Some st, Inr ft) \<Rightarrow>
               (case sql_update (advance_match nid target) (advance_set st ft failure_reason now)
                       notification_trigger_ok (notifications d) of
                  Inl e \<Rightarrow> Inl e
                | Inr (rs, rows) \<Rightarrow>
                    Inr (case rs of [] \<Rightarrow> None
                         | r # _ \<Rightarrow> Some (MailNotificationStatus_show (ntf_status r)),
                         d\<lparr>notifications := rows\<rparr>)))"

definition find_notification_id_by_sms_uuid :: "string \<Rightarrow> db \<Rightarrow> uuid option" where
  "find_notification_id_by_sms_uuid u d =
     (case find (\<lambda>t. trk_sms_uuid t = u) (trackers d) of
        None \<Rightarrow> None | Some t \<Rightarrow> trk_notification_id t)"

definition notification_status :: "uuid \<Rightarrow> db \<Rightarrow> (uuid option \<times> string) option" where
  "notification_status nid d =
     map_option (\<lambda>r. (ntf_partner r, MailNotificationStatus_show (ntf_status r)))
       (find (\<lambda>r. ntf_id r = nid) (notifications d))"

section \<open>Service\<close>

datatype NotificationChannel = Inbox | Email | Sms

fun NotificationChannel_as_str :: "NotificationChannel \<Rightarrow> string" where
  "NotificationChannel_as_str NotificationChannel.Inbox = ''inbox''"
| "NotificationChannel_as_str NotificationChannel.Email = ''email''"
| "NotificationChannel_as_str NotificationChannel.Sms = ''sms''"

record PostRecipient =
  pr_partner :: "uuid option"
  pr_channel :: NotificationChannel
  pr_email :: "string option"
  pr_number :: "string option"

record MessagePostCommand =
  mp_body :: string
  mp_subject :: "string option"
  mp_message_type :: string
  mp_subtype_id :: "uuid option"
  mp_subtype_name :: "string option"
  mp_is_internal :: bool
  mp_author_id :: "uuid option"
  mp_author_guest_id :: "uuid option"
  mp_email_from :: "string option"
  mp_reply_to :: "string option"
  mp_model :: "string option"
  mp_res_id :: "uuid option"
  mp_record_name :: "string option"
  mp_recipients :: "PostRecipient list"

record MintedNotification =
  mn_id :: uuid
  mn_partner :: "uuid option"
  mn_type :: NotificationChannel
  mn_status :: string

record ChannelMint =
  cm_notifications :: "MintedNotification list"
  cm_mail_id :: "uuid option"
  cm_sms :: "(uuid \<times> string) list"

record PostedMessage =
  pm_message_id :: uuid
  pm_subtype_id :: "uuid option"
  pm_notifications :: "MintedNotification list"
  pm_mail_id :: "uuid option"
  pm_sms :: "(uuid \<times> string) list"

datatype MailError = MailDb db_error | MailInvalid string

record PostContext =
  pc_message_id :: uuid
  pc_body :: string
  pc_model :: "string option"
  pc_res_id :: "uuid option"
  pc_reply_to :: "string option"

fun push_group ::
  "PostRecipient \<Rightarrow> (NotificationChannel \<times> PostRecipient list) list \<Rightarrow>
   (NotificationChannel \<times> PostRecipient list) list" where
  "push_group r [] = [(pr_channel r, [r])]"
| "push_group r ((c, rs) # gs) =
     (if c = pr_channel r then (c, rs @ [r]) # gs else (c, rs) # push_group r gs)"

definition group_by_channel ::
  "PostRecipient list \<Rightarrow> (NotificationChannel \<times> PostRecipient list) list" where
  "group_by_channel recipients = fold push_group recipients []"

text \<open>\<open>{:?}\<close> of an \<open>Option<Uuid>\<close>.\<close>

definition debug_partner :: "(uuid \<Rightarrow> string) \<Rightarrow> uuid option \<Rightarrow> string" where
  "debug_partner U p = (case p of None \<Rightarrow> ''None'' | Some i \<Rightarrow> ''Some('' @ U i @ '')'')"

definition inbox_one ::
  "PostContext \<Rightarrow> MintedNotification list \<Rightarrow> PostRecipient \<Rightarrow>
   (db, 'o, MailError, MintedNotification list) act" where
  "inbox_one ctx acc r =
     bindA new_v4 (\<lambda>i.
     bindA (lift MailDb (stmt_now (insert_mail_notification
       \<lparr>nn_id = i, nn_mail_message_id = pc_message_id ctx, nn_res_partner_id = pr_partner r,
        nn_notification_type = ''inbox'', nn_notification_status = ''sent'',
        nn_mail_mail_id_int = None\<rparr>))) (\<lambda>_.
     ret (acc @ [\<lparr>mn_id = i, mn_partner = pr_partner r, mn_type = NotificationChannel.Inbox,
                  mn_status = ''sent''\<rparr>])))"

definition inbox_strategy ::
  "PostContext \<Rightarrow> PostRecipient list \<Rightarrow> (db, 'o, MailError, ChannelMint) act" where
  "inbox_strategy ctx recipients =
     bindA (foldA (inbox_one ctx) [] recipients) (\<lambda>ns.
     ret \<lparr>cm_notifications = ns, cm_mail_id = None, cm_sms = []\<rparr>)"

fun email_addresses :: "(uuid \<Rightarrow> string) \<Rightarrow> PostRecipient list \<Rightarrow> MailError + string list" where
  "email_addresses U [] = Inr []"
| "email_addresses U (r # rs) =
     (case pr_email r of
        None \<Rightarrow> Inl (MailInvalid (''email-channel recipient '' @ debug_partner U (pr_partner r) @
                                  '' has no email address''))
      | Some e \<Rightarrow> (case email_addresses U rs of Inl x \<Rightarrow> Inl x | Inr es \<Rightarrow> Inr (e # es)))"

definition email_one ::
  "PostContext \<Rightarrow> uuid \<Rightarrow> MintedNotification list \<Rightarrow> PostRecipient \<Rightarrow>
   (db, 'o, MailError, MintedNotification list) act" where
  "email_one ctx mid acc r =
     bindA new_v4 (\<lambda>i.
     bindA (lift MailDb (stmt_now (insert_mail_notification
       \<lparr>nn_id = i, nn_mail_message_id = pc_message_id ctx, nn_res_partner_id = pr_partner r,
        nn_notification_type = ''email'', nn_notification_status = ''ready'',
        nn_mail_mail_id_int = Some mid\<rparr>))) (\<lambda>_.
     ret (acc @ [\<lparr>mn_id = i, mn_partner = pr_partner r, mn_type = NotificationChannel.Email,
                  mn_status = ''ready''\<rparr>])))"

definition email_strategy ::
  "PostContext \<Rightarrow> PostRecipient list \<Rightarrow> (db, 'o, MailError, ChannelMint) act" where
  "email_strategy ctx recipients =
     bindA (ask uuid_text) (\<lambda>U.
     bindA (of_sum (email_addresses U recipients)) (\<lambda>addresses.
     if addresses = [] then ret \<lparr>cm_notifications = [], cm_mail_id = None, cm_sms = []\<rparr>
     else
       bindA new_v4 (\<lambda>mid.
       bindA (lift MailDb (stmt (insert_mail
         \<lparr>nq_id = mid, nq_mail_message_id = pc_message_id ctx,
          nq_email_to = join_with '', '' addresses, nq_email_cc = None,
          nq_reply_to = pc_reply_to ctx, nq_scheduled_date = None\<rparr>))) (\<lambda>_.
       bindA (foldA (email_one ctx mid) [] recipients) (\<lambda>ns.
       ret \<lparr>cm_notifications = ns, cm_mail_id = Some mid, cm_sms = []\<rparr>)))))"

definition sms_one ::
  "PostContext \<Rightarrow> MintedNotification list \<times> (uuid \<times> string) list \<Rightarrow> PostRecipient \<Rightarrow>
   (db, 'o, MailError, MintedNotification list \<times> (uuid \<times> string) list) act" where
  "sms_one ctx acc r =
     bindA (ask uuid_text) (\<lambda>U.
     case pr_number r of
       None \<Rightarrow> fail (MailInvalid (''sms-channel recipient '' @ debug_partner U (pr_partner r) @
                                 '' has no number''))
     | Some number \<Rightarrow>
         bindA new_v4 (\<lambda>nid.
         bindA (lift MailDb (stmt_now (insert_mail_notification
           \<lparr>nn_id = nid, nn_mail_message_id = pc_message_id ctx, nn_res_partner_id = pr_partner r,
            nn_notification_type = ''sms'', nn_notification_status = ''ready'',
            nn_mail_mail_id_int = None\<rparr>))) (\<lambda>_.
         bindA new_v4 (\<lambda>sid.
         bindA new_v4 (\<lambda>su.
         bindA (ask uuid_simple) (\<lambda>simple.
         bindA (lift MailDb (insert_sms_with_tracker
           \<lparr>ns_id = sid, ns_uuid = simple su, ns_number = number, ns_body = pc_body ctx,
            ns_mail_message_id = Some (pc_message_id ctx), ns_notification_id = Some nid\<rparr>)) (\<lambda>_.
         ret (fst acc @ [\<lparr>mn_id = nid, mn_partner = pr_partner r,
                          mn_type = NotificationChannel.Sms, mn_status = ''ready''\<rparr>],
              snd acc @ [(sid, simple su)]))))))))"

definition sms_strategy ::
  "PostContext \<Rightarrow> PostRecipient list \<Rightarrow> (db, 'o, MailError, ChannelMint) act" where
  "sms_strategy ctx recipients =
     bindA (foldA (sms_one ctx) ([], []) recipients) (\<lambda>acc.
     ret \<lparr>cm_notifications = fst acc, cm_mail_id = None, cm_sms = snd acc\<rparr>)"

fun dispatch_channel ::
  "PostContext \<Rightarrow> NotificationChannel \<Rightarrow> PostRecipient list \<Rightarrow> (db, 'o, MailError, ChannelMint) act" where
  "dispatch_channel ctx NotificationChannel.Inbox rs = inbox_strategy ctx rs"
| "dispatch_channel ctx NotificationChannel.Email rs = email_strategy ctx rs"
| "dispatch_channel ctx NotificationChannel.Sms rs = sms_strategy ctx rs"

definition post_group ::
  "PostContext \<Rightarrow> PostedMessage \<Rightarrow> NotificationChannel \<times> PostRecipient list \<Rightarrow>
   (db, 'o, MailError, PostedMessage) act" where
  "post_group ctx posted g =
     bindA (dispatch_channel ctx (fst g) (snd g)) (\<lambda>minted.
     ret (posted\<lparr>
       pm_notifications := pm_notifications posted @ cm_notifications minted,
       pm_mail_id := (if cm_mail_id minted \<noteq> None then cm_mail_id minted else pm_mail_id posted),
       pm_sms := pm_sms posted @ cm_sms minted\<rparr>))"

definition stage_sms_created ::
  "string \<Rightarrow> unit \<Rightarrow> uuid \<times> string \<Rightarrow> (db, 'o, MailError, unit) act" where
  "stage_sms_created ch u p =
     bindA (ask uuid_text) (\<lambda>U.
     lift MailDb (stage_bus_event ''SmsCreated'' ''Sms'' (U (fst p)) ch ''SmsCreated''
       (JObject [(''sms_id'', JString (U (fst p))), (''uuid'', JString (snd p))])))"

definition message_post_tx :: "MessagePostCommand \<Rightarrow> (db, 'o, MailError, PostedMessage) act" where
  "message_post_tx cmd =
     bindA (ask uuid_text) (\<lambda>U.
     bindA (lift MailDb (stmt (reading (resolve_subtype (mp_subtype_id cmd) (mp_subtype_name cmd)))))
       (\<lambda>subtype.
     bindA new_v4 (\<lambda>mid.
     bindA (lift MailDb (stmt_now (insert_mail_message
       \<lparr>nm_id = mid, nm_subject = mp_subject cmd, nm_body = mp_body cmd,
        nm_message_type = (if mp_message_type cmd = [] then ''comment'' else mp_message_type cmd),
        nm_subtype_id = subtype, nm_is_internal = mp_is_internal cmd,
        nm_author_id = mp_author_id cmd, nm_author_guest_id = mp_author_guest_id cmd,
        nm_email_from = mp_email_from cmd, nm_message_id = None, nm_reply_to = mp_reply_to cmd,
        nm_model = mp_model cmd, nm_res_id = mp_res_id cmd,
        nm_record_name = mp_record_name cmd\<rparr>))) (\<lambda>_.
     let ctx = \<lparr>pc_message_id = mid, pc_body = mp_body cmd, pc_model = mp_model cmd,
                pc_res_id = mp_res_id cmd, pc_reply_to = mp_reply_to cmd\<rparr>;
         posted0 = \<lparr>pm_message_id = mid, pm_subtype_id = subtype, pm_notifications = [],
                    pm_mail_id = None, pm_sms = []\<rparr>
     in
     bindA (foldA (post_group ctx) posted0 (group_by_channel (mp_recipients cmd))) (\<lambda>posted.
     let ch = (case (mp_model cmd, mp_res_id cmd) of
                 (Some m, Some r) \<Rightarrow> record_channel U m r
               | _ \<Rightarrow> ''mail.message_'' @ U mid)
     in
     bindA (lift MailDb (stage_bus_event ''MessagePosted'' ''MailMessage'' (U mid) ch ''MessagePosted''
       (JObject [(''message_id'', JString (U mid)),
                 (''message_type'', JString (mp_message_type cmd)),
                 (''model'', jopt JString (mp_model cmd)),
                 (''res_id'', jopt (\<lambda>r. JString (U r)) (mp_res_id cmd)),
                 (''notification_count'', JNumber (int (length (pm_notifications posted))))]))) (\<lambda>_.
     bindA (foldA (stage_sms_created ch) () (pm_sms posted)) (\<lambda>_.
     ret posted)))))))"

definition message_post :: "MessagePostCommand \<Rightarrow> (db, 'o, MailError, PostedMessage) act" where
  "message_post cmd =
     (if blank (mp_body cmd) then fail (MailInvalid ''message needs a body'')
      else if (mp_model cmd \<noteq> None) \<noteq> (mp_res_id cmd \<noteq> None)
        then fail (MailInvalid ''model and res_id travel together (the chatter edge is a pair)'')
      else in_tx MailDb (message_post_tx cmd))"

section \<open>Grouping\<close>

definition by_channel :: "(NotificationChannel \<times> PostRecipient list) list \<Rightarrow> bool" where
  "by_channel gs \<longleftrightarrow> list_all (\<lambda>(c, rs). list_all (\<lambda>r. pr_channel r = c) rs) gs"

lemma push_group_channels: "by_channel gs \<Longrightarrow> by_channel (push_group r gs)"
proof (induction r gs rule: push_group.induct)
  case (2 r c rs gs)
  then show ?case by (cases "c = pr_channel r") (simp_all add: by_channel_def)
qed (simp add: by_channel_def)

lemma push_group_mset:
  "mset (concat (map snd (push_group r gs))) = add_mset r (mset (concat (map snd gs)))"
  by (induction r gs rule: push_group.induct) auto

lemma push_group_fst:
  "set (map fst (push_group r gs)) = insert (pr_channel r) (set (map fst gs))"
  by (induction r gs rule: push_group.induct) auto

lemma push_group_distinct:
  "distinct (map fst gs) \<Longrightarrow> distinct (map fst (push_group r gs))"
proof (induction r gs rule: push_group.induct)
  case (1 r)
  then show ?case by simp
next
  case (2 r c rs gs)
  then show ?case
    using push_group_fst [of r gs] by (cases "c = pr_channel r") (simp_all del: set_map)
qed

lemma group_by_channel_props:
  "by_channel (group_by_channel rs) \<and>
   mset (concat (map snd (group_by_channel rs))) = mset rs \<and>
   distinct (map fst (group_by_channel rs))"
proof -
  have "by_channel (fold push_group rs gs) \<and>
      mset (concat (map snd (fold push_group rs gs))) = mset (concat (map snd gs)) + mset rs \<and>
      distinct (map fst (fold push_group rs gs))"
    if "by_channel gs" "distinct (map fst gs)" for gs
    using that
  proof (induction rs arbitrary: gs)
    case Nil
    then show ?case by simp
  next
    case (Cons r rs)
    from Cons.IH [OF push_group_channels [OF Cons.prems(1)] push_group_distinct [OF Cons.prems(2)]]
    show ?case by (simp add: push_group_mset)
  qed
  from this [of "[]"] show ?thesis by (simp add: group_by_channel_def by_channel_def)
qed

lemma group_nonempty: "g \<in> set (group_by_channel rs) \<Longrightarrow> snd g \<noteq> []"
proof -
  have push: "\<forall>g\<in>set gs. snd g \<noteq> [] \<Longrightarrow> \<forall>g\<in>set (push_group r gs). snd g \<noteq> []" for r gs
    by (induction r gs rule: push_group.induct) auto
  have "\<forall>g\<in>set gs. snd g \<noteq> [] \<Longrightarrow> \<forall>g\<in>set (fold push_group rs gs). snd g \<noteq> []" for gs
  proof (induction rs arbitrary: gs)
    case (Cons r rs)
    from Cons.IH [OF push [OF Cons.prems]] show ?case by simp
  qed simp
  from this [of "[]"] show "g \<in> set (group_by_channel rs) \<Longrightarrow> snd g \<noteq> []"
    by (simp add: group_by_channel_def)
qed

section \<open>What a post adds\<close>

fun channel_type :: "NotificationChannel \<Rightarrow> MailNotificationType" where
  "channel_type NotificationChannel.Inbox = MailNotificationType.Inbox"
| "channel_type NotificationChannel.Email = MailNotificationType.Email"
| "channel_type NotificationChannel.Sms = MailNotificationType.Sms"

fun channel_status :: "NotificationChannel \<Rightarrow> MailNotificationStatus" where
  "channel_status NotificationChannel.Inbox = MailNotificationStatus.Sent"
| "channel_status NotificationChannel.Email = MailNotificationStatus.Ready"
| "channel_status NotificationChannel.Sms = MailNotificationStatus.Ready"

definition wanted ::
  "uuid \<Rightarrow> PostRecipient \<Rightarrow> uuid \<times> uuid option \<times> MailNotificationType \<times> MailNotificationStatus" where
  "wanted mid r = (mid, pr_partner r, channel_type (pr_channel r), channel_status (pr_channel r))"

definition ntf_shape ::
  "notification_row \<Rightarrow> uuid \<times> uuid option \<times> MailNotificationType \<times> MailNotificationStatus" where
  "ntf_shape n = (ntf_message_id n, ntf_partner n, ntf_type n, ntf_status n)"

definition wanted_sms :: "PostContext \<Rightarrow> PostRecipient list \<Rightarrow> (string option \<times> string \<times> uuid option \<times> SmsState) list" where
  "wanted_sms ctx rs =
     map (\<lambda>r. (pr_number r, pc_body ctx, Some (pc_message_id ctx), SmsState.Outgoing))
       (filter (\<lambda>r. pr_channel r = NotificationChannel.Sms) rs)"

definition sms_shape :: "sms_row \<Rightarrow> string option \<times> string \<times> uuid option \<times> SmsState" where
  "sms_shape s = (Some (sms_number s), sms_body s, sms_mail_message_id s, sms_state s)"

definition queued_mail :: "PostContext \<Rightarrow> mail_row \<Rightarrow> bool" where
  "queued_mail ctx q \<longleftrightarrow>
     mail_message_id q = pc_message_id ctx \<and> mail_state q = MailState.Outgoing"

text \<open>\<open>grew Q ctx rs mns sm qids d d'\<close>: \<open>d'\<close> is \<open>d\<close> with the rows of recipients \<open>rs\<close> appended: a
  notification each (reported as \<open>mns\<close>, the email ones linked to a mail of \<open>Q\<close>), an sms per sms
  recipient (reported as \<open>sm\<close>), the mails \<open>qids\<close>, and any trackers.\<close>

definition grew ::
  "uuid set \<Rightarrow> PostContext \<Rightarrow> PostRecipient list \<Rightarrow> MintedNotification list \<Rightarrow> (uuid \<times> string) list \<Rightarrow> uuid list \<Rightarrow>
   db \<Rightarrow> db \<Rightarrow> bool" where
  "grew Q ctx rs mns sm qids d d' \<longleftrightarrow>
     (\<exists>ns qs ss ts.
        d' = d\<lparr>notifications := notifications d @ ns, mails := mails d @ qs,
               smss := smss d @ ss, trackers := trackers d @ ts\<rparr> \<and>
        map ntf_shape ns = map (wanted (pc_message_id ctx)) rs \<and>
        map ntf_id ns = map mn_id mns \<and>
        map mail_id qs = qids \<and> list_all (queued_mail ctx) qs \<and>
        map (\<lambda>s. (sms_id s, sms_uuid s)) ss = sm \<and>
        map sms_shape ss = wanted_sms ctx rs \<and>
        sms_uuid ` set ss \<subseteq> trk_sms_uuid ` set (trackers d @ ts) \<and>
        (\<forall>n\<in>set ns. ntf_type n = MailNotificationType.Email \<longrightarrow> (ntf_mail_id n \<in> Some ` Q)))"

lemma grew_refl: "grew Q ctx [] [] [] [] d d"
  by (auto simp: grew_def wanted_sms_def intro!: exI [of _ "[]"])

lemma grew_append:
  assumes "grew Q ctx rs1 m1 s1 q1 d d1" and "grew Q ctx rs2 m2 s2 q2 d1 d2"
  shows "grew Q ctx (rs1 @ rs2) (m1 @ m2) (s1 @ s2) (q1 @ q2) d d2"
proof -
  have w: "wanted_sms ctx (rs1 @ rs2) = wanted_sms ctx rs1 @ wanted_sms ctx rs2"
    by (simp add: wanted_sms_def)
  from assms(1) obtain n1 a1 b1 c1 where
    g1: "d1 = d\<lparr>notifications := notifications d @ n1, mails := mails d @ a1,
                smss := smss d @ b1, trackers := trackers d @ c1\<rparr>"
      "map ntf_shape n1 = map (wanted (pc_message_id ctx)) rs1" "map ntf_id n1 = map mn_id m1"
      "map mail_id a1 = q1" "list_all (queued_mail ctx) a1"
      "map (\<lambda>s. (sms_id s, sms_uuid s)) b1 = s1" "map sms_shape b1 = wanted_sms ctx rs1"
      "sms_uuid ` set b1 \<subseteq> trk_sms_uuid ` set (trackers d @ c1)"
      "\<forall>n\<in>set n1. ntf_type n = MailNotificationType.Email \<longrightarrow> (ntf_mail_id n \<in> Some ` Q)"
    unfolding grew_def by blast
  from assms(2) obtain n2 a2 b2 c2 where
    g2: "d2 = d1\<lparr>notifications := notifications d1 @ n2, mails := mails d1 @ a2,
                smss := smss d1 @ b2, trackers := trackers d1 @ c2\<rparr>"
      "map ntf_shape n2 = map (wanted (pc_message_id ctx)) rs2" "map ntf_id n2 = map mn_id m2"
      "map mail_id a2 = q2" "list_all (queued_mail ctx) a2"
      "map (\<lambda>s. (sms_id s, sms_uuid s)) b2 = s2" "map sms_shape b2 = wanted_sms ctx rs2"
      "sms_uuid ` set b2 \<subseteq> trk_sms_uuid ` set (trackers d1 @ c2)"
      "\<forall>n\<in>set n2. ntf_type n = MailNotificationType.Email \<longrightarrow> (ntf_mail_id n \<in> Some ` Q)"
    unfolding grew_def by blast
  show ?thesis
    unfolding grew_def
  proof (intro exI conjI)
    show "d2 = d\<lparr>notifications := notifications d @ (n1 @ n2), mails := mails d @ (a1 @ a2),
        smss := smss d @ (b1 @ b2), trackers := trackers d @ c1 @ c2\<rparr>"
      using g1(1) g2(1) by simp
    show "\<forall>n\<in>set (n1 @ n2). ntf_type n = MailNotificationType.Email \<longrightarrow>
        (ntf_mail_id n \<in> Some ` Q)"
      using g1(9) g2(9) by auto
    have "trackers d1 = trackers d @ c1" using g1(1) by simp
    then show "sms_uuid ` set (b1 @ b2) \<subseteq> trk_sms_uuid ` set (trackers d @ c1 @ c2)"
      using g1(8) g2(8) by auto
  qed (use g1 g2 w in simp_all)
qed

text \<open>One recipient of each channel, then the loops over a group.\<close>

lemma insert_mail_notification_Inr:
  assumes "insert_mail_notification n now d = Inr (i, d')"
  obtains r where "d' = d\<lparr>notifications := notifications d @ [r]\<rparr>" and "ntf_id r = nn_id n"
    and "ntf_message_id r = nn_mail_message_id n" and "ntf_partner r = nn_res_partner_id n"
    and "MailNotificationType_show (ntf_type r) = nn_notification_type n"
    and "MailNotificationStatus_show (ntf_status r) = nn_notification_status n"
    and "ntf_mail_id r = nn_mail_mail_id_int n"
proof -
  from assms obtain t st where
    c: "pg_enum_cast MailNotificationType_show MailNotificationType_from_str
          (nn_notification_type n) = Some t"
      "pg_enum_cast MailNotificationStatus_show MailNotificationStatus_from_str
          (nn_notification_status n) = Some st"
    by (auto simp: insert_mail_notification_def split: option.splits)
  then have "MailNotificationType_show t = nn_notification_type n"
    and "MailNotificationStatus_show st = nn_notification_status n"
    by (simp_all add: mail_notification_type.cast_iff mail_notification_status.cast_iff)
  with assms c show ?thesis
    by (intro that) (auto simp: insert_mail_notification_def split: if_splits)
qed

lemma channel_labels [simp]:
  "MailNotificationType_show t = ''inbox'' \<longleftrightarrow> t = MailNotificationType.Inbox"
  "MailNotificationType_show t = ''email'' \<longleftrightarrow> t = MailNotificationType.Email"
  "MailNotificationType_show t = ''sms'' \<longleftrightarrow> t = MailNotificationType.Sms"
  by (cases t; simp)+

lemma status_labels [simp]:
  "MailNotificationStatus_show st = ''sent'' \<longleftrightarrow> st = MailNotificationStatus.Sent"
  "MailNotificationStatus_show st = ''ready'' \<longleftrightarrow> st = MailNotificationStatus.Ready"
  by (cases st; simp)+

lemma grew_notification:
  assumes "d' = d\<lparr>notifications := notifications d @ [n]\<rparr>"
    and "ntf_shape n = wanted (pc_message_id ctx) r" and "ntf_id n = mn_id mn"
    and "pr_channel r \<noteq> NotificationChannel.Sms"
    and "ntf_type n = MailNotificationType.Email \<longrightarrow> (ntf_mail_id n \<in> Some ` Q)"
  shows "grew Q ctx [r] [mn] [] [] d d'"
  using assms unfolding grew_def wanted_sms_def
  by (intro exI [of _ "[n]"] exI [of _ "[]"]) simp

lemma inbox_one_Inr:
  assumes "inbox_one ctx acc r v w = (Inr acc', w')" and "pr_channel r = NotificationChannel.Inbox"
  shows "tx_step w w' \<and> (\<exists>mn. acc' = acc @ [mn] \<and> grew Q ctx [r] [mn] [] [] (db w) (db w'))"
  using assms unfolding inbox_one_def
  by (elim act_elims insert_mail_notification_Inr)
    (auto simp: ntf_shape_def wanted_def intro!: grew_notification intro: tx_step_trans)

lemma foldA_inbox:
  assumes "foldA (inbox_one ctx) acc rs v w = (Inr acc', w')"
    and "\<forall>r\<in>set rs. pr_channel r = NotificationChannel.Inbox"
  shows "tx_step w w' \<and> (\<exists>mns. acc' = acc @ mns \<and> grew Q ctx rs mns [] [] (db w) (db w'))"
  using assms
proof (induction rs arbitrary: acc w)
  case Nil
  then show ?case by (auto simp: ret_def grew_refl)
next
  case (Cons r rs)
  from Cons.prems(1) obtain acc1 w1 where
    1: "inbox_one ctx acc r v w = (Inr acc1, w1)"
      "foldA (inbox_one ctx) acc1 rs v w1 = (Inr acc', w')"
    by (auto elim: bindA_InrE)
  from inbox_one_Inr [OF 1(1)] Cons.prems(2) obtain mn where
    2: "tx_step w w1" "acc1 = acc @ [mn]" "grew Q ctx [r] [mn] [] [] (db w) (db w1)" by auto
  from Cons.IH [OF 1(2)] Cons.prems(2) obtain mns where
    3: "tx_step w1 w'" "acc' = acc1 @ mns" "grew Q ctx rs mns [] [] (db w1) (db w')" by auto
  from grew_append [OF 2(3) 3(3)] 2 3 show ?case by (auto intro: tx_step_trans)
qed

end
