(* ===== verification/MailHeaders.thy ===== *)
theory MailHeaders
  imports Bus
begin

text \<open>
  The transport seam of the mail queue and the guard on per-mail headers:
  \<open>src/application/service/mail_ports.rs\<close>.  A \<open>HashMap<String, String>\<close> is a map; a JSON object is
  the list of its entries.
\<close>

datatype MailHeaderError =
    NotAnObject string
  | EmptyName string
  | LineBreakInName string
  | LineBreakInValue string
  | NonStringValue string

definition CR :: char where "CR = CHR 0x0D"
definition LF :: char where "LF = CHR 0x0A"

definition line_break :: "string \<Rightarrow> bool" where
  "line_break s \<longleftrightarrow> list_ex (\<lambda>c. c = CR) s \<or> list_ex (\<lambda>c. c = LF) s"

definition validate_mail_header :: "string \<Rightarrow> string \<Rightarrow> MailHeaderError + unit" where
  "validate_mail_header name value =
     (if name = [] then Inl (EmptyName value)
      else if line_break name then Inl (LineBreakInName name)
      else if line_break value then Inl (LineBreakInValue name)
      else Inr ())"

fun mail_headers_entries ::
  "(string \<times> json) list \<Rightarrow> (string \<rightharpoonup> string) \<Rightarrow> MailHeaderError + (string \<rightharpoonup> string)" where
  "mail_headers_entries [] out = Inr out"
| "mail_headers_entries ((name, JString text) # es) out =
     (case validate_mail_header name text of
        Inl e \<Rightarrow> Inl e
      | Inr _ \<Rightarrow> mail_headers_entries es (out(name \<mapsto> text)))"
| "mail_headers_entries ((name, v) # es) out = Inl (NonStringValue name)"

fun mail_headers_from_json :: "json \<Rightarrow> MailHeaderError + (string \<rightharpoonup> string)" where
  "mail_headers_from_json (JObject es) = mail_headers_entries es Map.empty"
| "mail_headers_from_json JNull = Inl (NotAnObject ''null'')"
| "mail_headers_from_json (JBool _) = Inl (NotAnObject ''a boolean'')"
| "mail_headers_from_json (JNumber _) = Inl (NotAnObject ''a number'')"
| "mail_headers_from_json (JString _) = Inl (NotAnObject ''a string'')"
| "mail_headers_from_json (JArray _) = Inl (NotAnObject ''an array'')"

text \<open>The \<open>Display\<close> of a refusal; \<open>dbg\<close> is \<open>{:?}\<close> on a string.\<close>

fun MailHeaderError_show :: "(string \<Rightarrow> string) \<Rightarrow> MailHeaderError \<Rightarrow> string" where
  "MailHeaderError_show dbg (NotAnObject found) =
     ''headers must be a JSON object of string '' @ [CHR 0xE2, CHR 0x86, CHR 0x92] @
     '' string, found '' @ found"
| "MailHeaderError_show dbg (EmptyName v) = ''header name is empty (value '' @ dbg v @ '')''"
| "MailHeaderError_show dbg (LineBreakInName n) =
     ''header name '' @ dbg n @ '' contains a CR/LF line break '' @
     [CHR 0xE2, CHR 0x80, CHR 0x94] @ '' refused''"
| "MailHeaderError_show dbg (LineBreakInValue n) =
     ''header '' @ dbg n @ '' value contains a CR/LF line break '' @
     [CHR 0xE2, CHR 0x80, CHR 0x94] @ '' refused''"
| "MailHeaderError_show dbg (NonStringValue n) = ''header '' @ dbg n @ '' value is not a string''"

section \<open>The port\<close>

record MailSendRequest =
  sr_mail_id :: uuid
  sr_mail_message_id :: uuid
  sr_from :: string
  sr_to :: "string list"
  sr_subject :: "string option"
  sr_body_html :: string
  sr_in_reply_to :: "string option"
  sr_reply_to :: "string option"
  sr_headers :: "string \<rightharpoonup> string"

datatype MailSendOutcome = Accepted

record MailSendFailure =
  sf_failure_type :: string
  sf_message :: string

definition MailSendFailure_smtp :: "string \<Rightarrow> MailSendFailure" where
  "MailSendFailure_smtp message = \<lparr>sf_failure_type = ''mail_smtp'', sf_message = message\<rparr>"

text \<open>\<open>MailApiPort\<close>: what the transport answers, which may differ from call to call.\<close>

type_synonym mail_api_port = "nat \<Rightarrow> MailSendRequest \<Rightarrow> MailSendFailure + MailSendOutcome"

record NoopMailApi =
  noop_outcome :: MailSendOutcome
  noop_failure :: "MailSendFailure option"
  noop_requests :: "MailSendRequest list"

definition NoopMailApi_accepting :: NoopMailApi where
  "NoopMailApi_accepting = \<lparr>noop_outcome = Accepted, noop_failure = None, noop_requests = []\<rparr>"

definition NoopMailApi_failing :: "string \<Rightarrow> string \<Rightarrow> NoopMailApi" where
  "NoopMailApi_failing ft message =
     \<lparr>noop_outcome = Accepted,
      noop_failure = Some \<lparr>sf_failure_type = ft, sf_message = message\<rparr>, noop_requests = []\<rparr>"

definition NoopMailApi_send ::
  "MailSendRequest \<Rightarrow> NoopMailApi \<Rightarrow> (MailSendFailure + MailSendOutcome) \<times> NoopMailApi" where
  "NoopMailApi_send req api =
     (let api' = api\<lparr>noop_requests := noop_requests api @ [req]\<rparr>
      in case noop_failure api' of Some f \<Rightarrow> (Inl f, api') | None \<Rightarrow> (Inr (noop_outcome api'), api'))"

section \<open>The guard\<close>

definition safe_header :: "string \<Rightarrow> string \<Rightarrow> bool" where
  "safe_header name value \<longleftrightarrow> name \<noteq> [] \<and> CR \<notin> set name \<and> LF \<notin> set name \<and>
     CR \<notin> set value \<and> LF \<notin> set value"

lemma line_break_iff: "line_break s \<longleftrightarrow> CR \<in> set s \<or> LF \<in> set s"
  by (auto simp: line_break_def list_ex_iff)

lemma validate_iff: "validate_mail_header n x = Inr () \<longleftrightarrow> safe_header n x"
  by (auto simp: validate_mail_header_def safe_header_def line_break_iff)

lemma validate_Inl: "validate_mail_header n x = Inl e \<Longrightarrow> \<not> safe_header n x"
  by (auto simp: validate_mail_header_def safe_header_def line_break_iff split: if_splits)

definition string_value :: "json \<Rightarrow> string option" where
  "string_value j = (case j of JString s \<Rightarrow> Some s | _ \<Rightarrow> None)"

definition safe_entry :: "string \<times> json \<Rightarrow> bool" where
  "safe_entry e \<longleftrightarrow> (case string_value (snd e) of None \<Rightarrow> False | Some x \<Rightarrow> safe_header (fst e) x)"

definition entries_map :: "(string \<times> json) list \<Rightarrow> (string \<rightharpoonup> string)" where
  "entries_map es = map_of (rev (map (\<lambda>(n, j). (n, the (string_value j))) es))"

lemma safe_entry_simps [simp]:
  "safe_entry (n, JString x) \<longleftrightarrow> safe_header n x"
  "\<not> safe_entry (n, JNull)" "\<not> safe_entry (n, JBool b)" "\<not> safe_entry (n, JNumber i)"
  "\<not> safe_entry (n, JArray a)" "\<not> safe_entry (n, JObject ob)"
  by (simp_all add: safe_entry_def string_value_def)

lemma entries_Inr_iff:
  "mail_headers_entries es out = Inr m \<longleftrightarrow>
   list_all safe_entry es \<and> m = out ++ entries_map es"
proof (induction es out rule: mail_headers_entries.induct)
  case (1 out)
  then show ?case by (auto simp: entries_map_def)
next
  case (2 name x es out)
  have m: "out(name \<mapsto> x) ++ entries_map es = out ++ entries_map ((name, JString x) # es)"
    by (rule ext) (simp add: entries_map_def string_value_def map_add_def split: option.splits)
  show ?case
  proof (cases "validate_mail_header name x")
    case (Inl e)
    with validate_Inl [OF Inl] show ?thesis by simp
  next
    case (Inr u)
    with validate_iff [of name x] have "safe_header name x" by simp
    moreover have "mail_headers_entries es (out(name \<mapsto> x)) = Inr m \<longleftrightarrow>
        list_all safe_entry es \<and> m = out(name \<mapsto> x) ++ entries_map es"
      by (rule 2 [OF Inr])
    ultimately show ?thesis using Inr m by (simp del: fun_upd_apply)
  qed
qed simp_all

text \<open>The header guard accepts a JSON value exactly when it is an object whose entries are all
  single-line strings with non-empty single-line names, and then returns its entries unchanged.\<close>

lemma headers_accepted_iff:
  "(\<exists>m. mail_headers_from_json j = Inr m) \<longleftrightarrow> (\<exists>es. j = JObject es \<and> list_all safe_entry es)"
  by (cases j) (auto simp: entries_Inr_iff)

lemma headers_Inr:
  assumes "mail_headers_from_json j = Inr m" and "m k = Some x"
  shows "safe_header k x"
proof -
  from assms(1) obtain es where "list_all safe_entry es" "m = entries_map es"
    by (cases j) (auto simp: entries_Inr_iff)
  with assms(2) have "(k, x) \<in> set (map (\<lambda>(n, j). (n, the (string_value j))) es)"
    by (auto simp: entries_map_def dest: map_of_SomeD)
  then obtain y where y: "(k, y) \<in> set es" "x = the (string_value y)" by auto
  with \<open>list_all safe_entry es\<close> have "safe_entry (k, y)" by (auto simp: list_all_iff)
  with y(2) show ?thesis by (auto simp: safe_entry_def split: option.splits)
qed

end
