(* ===== verification/Drain.thy ===== *)
theory Drain
  imports Effects
begin

text \<open>
  The loop both queue services share (\<open>process_queue\<close> in \<open>mail_queue_write_service.rs\<close> and
  \<open>sms_write_service.rs\<close>): claim a batch in one transaction, stop when it is empty, hand the rows
  out one by one, stop after \<open>max_batches\<close> passes (0: no limit).  The loop has no bound of its own,
  so it is written with fuel, and running out of fuel is the value \<open>None\<close>.

  The locale \<open>drain\<close> is the contract between the loop and a queue: a claim takes its rows out of the
  queue, and processing a row hands out at most that row and puts nothing back.
\<close>

fun drain_loop ::
  "nat \<Rightarrow> ('d, 'o, 'e, 'r list) act \<Rightarrow> ('t \<Rightarrow> nat \<Rightarrow> 't) \<Rightarrow> ('t \<Rightarrow> 'r \<Rightarrow> ('d, 'o, 'e, 't) act) \<Rightarrow>
   nat \<Rightarrow> nat \<Rightarrow> 't \<Rightarrow> ('d, 'o, 'e, 't option) act" where
  "drain_loop 0 claim count step max_batches passes tot = ret None"
| "drain_loop (Suc fuel) claim count step max_batches passes tot =
     bindA claim (\<lambda>rows.
       if rows = [] then ret (Some tot)
       else bindA (foldA step (count tot (length rows)) rows) (\<lambda>tot'.
         if max_batches \<noteq> 0 \<and> max_batches \<le> Suc passes then ret (Some tot')
         else drain_loop fuel claim count step max_batches (Suc passes) tot'))"

text \<open>What a claim and a step keep, the loop keeps.\<close>

lemma drain_loop_triple:
  assumes "triple P claim (\<lambda>_. P) (\<lambda>_. P)" and "\<And>t x. triple P (step t x) (\<lambda>_. P) (\<lambda>_. P)"
  shows "triple P (drain_loop fuel claim count step mx passes t) (\<lambda>_. P) (\<lambda>_. P)"
proof (induction fuel arbitrary: passes t)
  case 0
  then show ?case by (simp add: triple_ret)
next
  case (Suc fuel)
  have "triple P (foldA step t' rows) (\<lambda>_. P) (\<lambda>_. P)" for t' rows
    by (rule triple_foldA) (rule assms(2))
  then show ?case
    unfolding drain_loop.simps
    by (intro triple_bind [OF assms(1)] triple_if triple_bind [of _ _ "\<lambda>_. P"] triple_ret Suc.IH)
qed

lemma keeps_drain_loop:
  "keeps I claim \<Longrightarrow> (\<And>t x. keeps I (step t x)) \<Longrightarrow>
   keeps I (drain_loop fuel claim count step mx passes t)"
  unfolding keeps_triple by (rule drain_loop_triple)

locale drain =
  fixes inv :: "'d \<Rightarrow> bool" and queued :: "'d \<Rightarrow> 'k set"
    and rid :: "'r \<Rightarrow> 'k" and key :: "'o \<Rightarrow> 'k"
    and claim :: "('d, 'o, 'e, 'r list) act"
    and count :: "'t \<Rightarrow> nat \<Rightarrow> 't" and step :: "'t \<Rightarrow> 'r \<Rightarrow> ('d, 'o, 'e, 't) act"
    and claims :: "'t \<Rightarrow> nat" and verdicts :: "'t \<Rightarrow> nat"
  assumes finite_queued: "finite (queued d)"
    and claim_any: "inv (db w) \<Longrightarrow> claim v w = (r, w') \<Longrightarrow>
      inv (db w') \<and> trace w' = trace w \<and> queued (db w') \<subseteq> queued (db w)"
    and claim_rows: "inv (db w) \<Longrightarrow> claim v w = (Inr rows, w') \<Longrightarrow>
      distinct (map rid rows) \<and> set (map rid rows) \<subseteq> queued (db w) - queued (db w')"
    and step_any: "inv (db w) \<Longrightarrow> step t x v w = (q, w') \<Longrightarrow>
      inv (db w') \<and> queued (db w') \<subseteq> queued (db w) \<and>
      (\<exists>os. trace w' = trace w @ os \<and> subseq (map key os) [rid x])"
    and step_tally: "step t x v w = (Inr t', w') \<Longrightarrow>
      claims t' = claims t \<and> verdicts t' = Suc (verdicts t)"
    and count_tally: "claims (count t n) = claims t + n \<and> verdicts (count t n) = verdicts t"
begin

lemma steps_any:
  assumes "inv (db w)" and "foldA step t xs v w = (r, w')"
  shows "inv (db w') \<and> queued (db w') \<subseteq> queued (db w) \<and>
    (\<exists>os. trace w' = trace w @ os \<and> subseq (map key os) (map rid xs))"
  using assms
proof (induction xs arbitrary: t w)
  case Nil
  then show ?case by (auto simp: ret_def)
next
  case (Cons x xs)
  obtain q w1 where s: "step t x v w = (q, w1)" by fastforce
  from step_any [OF Cons.prems(1) s] obtain os1 where
    1: "inv (db w1)" "queued (db w1) \<subseteq> queued (db w)" "trace w1 = trace w @ os1"
      "subseq (map key os1) [rid x]" by auto
  show ?case
  proof (cases q)
    case (Inl e)
    with s Cons.prems(2) have "w' = w1" by (simp add: bindA_def)
    moreover have "subseq (map key os1) (rid x # map rid xs)"
      using 1(4) by (rule subseq_order.trans) simp
    ultimately show ?thesis using 1 by auto
  next
    case (Inr t1)
    with s Cons.prems(2) have "foldA step t1 xs v w1 = (r, w')" by (simp add: bindA_def)
    from Cons.IH [OF 1(1) this] obtain os2 where
      2: "inv (db w')" "queued (db w') \<subseteq> queued (db w1)" "trace w' = trace w1 @ os2"
        "subseq (map key os2) (map rid xs)" by auto
    have "subseq (map key os1 @ map key os2) ([rid x] @ map rid xs)"
      using 1(4) 2(4) by (rule list_emb_append_mono)
    with 1 2 show ?thesis by (intro conjI exI [of _ "os1 @ os2"]) auto
  qed
qed

lemma steps_tally:
  assumes "foldA step t xs v w = (Inr t', w')"
  shows "claims t' = claims t \<and> verdicts t' = verdicts t + length xs"
  using assms
proof (induction xs arbitrary: t w)
  case (Cons x xs)
  then obtain t1 w1 where "step t x v w = (Inr t1, w1)" "foldA step t1 xs v w1 = (Inr t', w')"
    by (auto elim: bindA_InrE)
  with Cons.IH step_tally show ?case by fastforce
qed (simp add: ret_def)

text \<open>What is handed out was queued, is handed out once, and is not queued afterwards: whatever
  statement or acknowledgement fails on the way.\<close>

definition handed :: "('d, 'o) world \<Rightarrow> ('d, 'o) world \<Rightarrow> bool" where
  "handed w w' \<longleftrightarrow>
     inv (db w') \<and> queued (db w') \<subseteq> queued (db w) \<and>
     (\<exists>os. trace w' = trace w @ os \<and> distinct (map key os) \<and>
        set (map key os) \<subseteq> queued (db w) - queued (db w'))"

lemma handed_trans:
  assumes "handed w w1" and "handed w1 w2"
  shows "handed w w2"
proof -
  from assms(1) obtain os1 where 1: "queued (db w1) \<subseteq> queued (db w)" "trace w1 = trace w @ os1"
    "distinct (map key os1)" "set (map key os1) \<subseteq> queued (db w) - queued (db w1)"
    by (auto simp: handed_def)
  from assms(2) obtain os2 where 2: "inv (db w2)" "queued (db w2) \<subseteq> queued (db w1)"
    "trace w2 = trace w1 @ os2" "distinct (map key os2)"
    "set (map key os2) \<subseteq> queued (db w1) - queued (db w2)"
    by (auto simp: handed_def)
  have "set (map key os1) \<inter> set (map key os2) = {}" using 1(4) 2(5) by blast
  moreover have "set (map key os1) \<subseteq> queued (db w) - queued (db w2)" using 1(4) 2(2) by blast
  moreover have "set (map key os2) \<subseteq> queued (db w) - queued (db w2)" using 2(5) 1(1) by blast
  ultimately show ?thesis
    unfolding handed_def using 1 2 by (intro conjI exI [of _ "os1 @ os2"]) auto
qed

lemma claim_handed:
  assumes "inv (db w)" and "claim v w = (r, w')"
  shows "handed w w'"
  using claim_any [OF assms] by (auto simp: handed_def)

lemma pass_handed:
  assumes "inv (db w)" and c: "claim v w = (Inr rows, w1)"
    and s: "foldA step t rows v w1 = (r, w2)"
  shows "handed w w2"
proof -
  from claim_any [OF assms(1) c] have 1: "inv (db w1)" "trace w1 = trace w"
    "queued (db w1) \<subseteq> queued (db w)" by auto
  from steps_any [OF 1(1) s] obtain os where
    2: "inv (db w2)" "queued (db w2) \<subseteq> queued (db w1)" "trace w2 = trace w1 @ os"
      "subseq (map key os) (map rid rows)" by auto
  from claim_rows [OF assms(1) c] have 3: "distinct (map rid rows)"
    "set (map rid rows) \<subseteq> queued (db w) - queued (db w1)" by auto
  have "distinct (map key os)" using 2(4) 3(1) by (rule subseq_distinct)
  moreover have "set (map key os) \<subseteq> queued (db w) - queued (db w2)"
    using subseq_set [OF 2(4)] 3(2) 2(2) by blast
  ultimately show ?thesis
    unfolding handed_def using 1(2) 2(1,3) subset_trans [OF 2(2) 1(3)]
    by (intro conjI exI [of _ os]) simp_all
qed

lemma loop_handed:
  assumes "inv (db w)" and "drain_loop fuel claim count step mx passes t v w = (r, w')"
  shows "handed w w'"
  using assms
proof (induction fuel arbitrary: passes t w)
  case 0
  then show ?case by (auto simp: ret_def handed_def)
next
  case (Suc fuel)
  obtain q w1 where c: "claim v w = (q, w1)" by fastforce
  show ?case
  proof (cases q)
    case (Inl e)
    with Suc.prems c show ?thesis by (auto simp: bindA_def intro: claim_handed)
  next
    case (Inr rows)
    show ?thesis
    proof (cases "rows = []")
      case True
      with Suc.prems c Inr have "w' = w1" by (simp add: bindA_def ret_def)
      with claim_handed [OF Suc.prems(1) c] show ?thesis by simp
    next
      case False
      obtain p w2 where s: "foldA step (count t (length rows)) rows v w1 = (p, w2)" by fastforce
      from pass_handed [OF Suc.prems(1) c [unfolded Inr] s] have h: "handed w w2" .
      then have i: "inv (db w2)" by (simp add: handed_def)
      show ?thesis
      proof (cases p)
        case (Inl e)
        with Suc.prems(2) c Inr False s h show ?thesis by (simp add: bindA_def)
      next
        case p: (Inr t2)
        show ?thesis
        proof (cases "mx \<noteq> 0 \<and> mx \<le> Suc passes")
          case True
          with Suc.prems(2) c Inr False s p h show ?thesis by (simp add: bindA_def ret_def)
        next
          case cont: False
          with Suc.prems(2) c Inr False s p
          have "drain_loop fuel claim count step mx (Suc passes) t2 v w2 = (r, w')"
            by (simp add: bindA_def del: not_le) (auto split: if_splits)
          from handed_trans [OF h Suc.IH [OF i this]] show ?thesis .
        qed
      qed
    qed
  qed
qed

text \<open>Each pass takes a row out of the queue, so the number of queued rows bounds the passes.\<close>

lemma loop_returns:
  assumes "inv (db w)" and "card (queued (db w)) < fuel"
    and "drain_loop fuel claim count step mx passes t v w = (Inr res, w')"
  shows "res \<noteq> None"
  using assms
proof (induction fuel arbitrary: passes t w)
  case 0
  then show ?case by simp
next
  case (Suc fuel)
  from Suc.prems(3) obtain rows w1 where c: "claim v w = (Inr rows, w1)"
    and rest: "(if rows = [] then ret (Some t)
       else bindA (foldA step (count t (length rows)) rows) (\<lambda>tot'.
         if mx \<noteq> 0 \<and> mx \<le> Suc passes then ret (Some tot')
         else drain_loop fuel claim count step mx (Suc passes) tot')) v w1 = (Inr res, w')"
    by (auto elim: bindA_InrE)
  show ?case
  proof (cases "rows = []")
    case True
    with rest show ?thesis by (auto simp: ret_def)
  next
    case False
    with rest obtain t2 w2 where s: "foldA step (count t (length rows)) rows v w1 = (Inr t2, w2)"
      and tl: "(if mx \<noteq> 0 \<and> mx \<le> Suc passes then ret (Some t2)
         else drain_loop fuel claim count step mx (Suc passes) t2) v w2 = (Inr res, w')"
      by (auto elim: bindA_InrE)
    from claim_any [OF Suc.prems(1) c] have 1: "inv (db w1)" "queued (db w1) \<subseteq> queued (db w)"
      by auto
    from steps_any [OF 1(1) s] have 2: "inv (db w2)" "queued (db w2) \<subseteq> queued (db w1)" by auto
    from claim_rows [OF Suc.prems(1) c] False have "queued (db w1) \<noteq> queued (db w)"
      by (cases rows) auto
    with 1 2 have "queued (db w2) \<subset> queued (db w)" by blast
    then have "card (queued (db w2)) < card (queued (db w))"
      by (rule psubset_card_mono [OF finite_queued])
    with Suc.prems(2) have less: "card (queued (db w2)) < fuel" by simp
    show ?thesis
    proof (cases "mx \<noteq> 0 \<and> mx \<le> Suc passes")
      case True
      with tl show ?thesis by (auto simp: ret_def)
    next
      case False
      with tl have "drain_loop fuel claim count step mx (Suc passes) t2 v w2 = (Inr res, w')"
        by (simp only: if_False)
      with Suc.IH [OF 2(1) less] show ?thesis by blast
    qed
  qed
qed

text \<open>A drain that returns has a verdict for every row it claimed.\<close>

lemma loop_tally:
  assumes "drain_loop fuel claim count step mx passes t v w = (Inr (Some t'), w')"
    and "claims t = verdicts t"
  shows "claims t' = verdicts t'"
  using assms
proof (induction fuel arbitrary: passes t w)
  case 0
  then show ?case by (auto simp: ret_def)
next
  case (Suc fuel)
  from Suc.prems(1) obtain rows w1 where
    rest: "(if rows = [] then ret (Some t)
       else bindA (foldA step (count t (length rows)) rows) (\<lambda>tot'.
         if mx \<noteq> 0 \<and> mx \<le> Suc passes then ret (Some tot')
         else drain_loop fuel claim count step mx (Suc passes) tot')) v w1 = (Inr (Some t'), w')"
    by (auto elim: bindA_InrE)
  show ?case
  proof (cases "rows = []")
    case True
    with rest Suc.prems(2) show ?thesis by (auto simp: ret_def)
  next
    case False
    with rest obtain t2 w2 where s: "foldA step (count t (length rows)) rows v w1 = (Inr t2, w2)"
      and tl: "(if mx \<noteq> 0 \<and> mx \<le> Suc passes then ret (Some t2)
         else drain_loop fuel claim count step mx (Suc passes) t2) v w2 = (Inr (Some t'), w')"
      by (auto elim: bindA_InrE)
    from steps_tally [OF s] count_tally [of t "length rows"] Suc.prems(2)
    have e: "claims t2 = verdicts t2" by simp
    show ?thesis
    proof (cases "mx \<noteq> 0 \<and> mx \<le> Suc passes")
      case True
      with tl e show ?thesis by (auto simp: ret_def)
    next
      case False
      with tl have "drain_loop fuel claim count step mx (Suc passes) t2 v w2 = (Inr (Some t'), w')"
        by (simp only: if_False)
      with Suc.IH e show ?thesis by blast
    qed
  qed
qed

text \<open>A drain without a batch limit that returns has seen an empty claim.\<close>

lemma loop_exhausts:
  assumes "drain_loop fuel claim count step 0 passes t v w = (Inr (Some t'), w')"
  shows "\<exists>w1. claim v w1 = (Inr [], w')"
  using assms
proof (induction fuel arbitrary: passes t w)
  case 0
  then show ?case by (auto simp: ret_def)
next
  case (Suc fuel)
  from Suc.prems obtain rows w1 where c: "claim v w = (Inr rows, w1)" and
    rest: "(if rows = [] then ret (Some t)
       else bindA (foldA step (count t (length rows)) rows) (\<lambda>tot'.
         drain_loop fuel claim count step 0 (Suc passes) tot')) v w1 = (Inr (Some t'), w')"
    by (simp cong: if_cong) (erule bindA_InrE, blast)
  show ?case
  proof (cases "rows = []")
    case True
    with rest c show ?thesis by (auto simp: ret_def)
  next
    case False
    with rest obtain t2 w2 where "drain_loop fuel claim count step 0 (Suc passes) t2 v w2 =
        (Inr (Some t'), w')"
      by (auto elim: bindA_InrE)
    with Suc.IH show ?thesis by blast
  qed
qed

end

end
