(* ===== verification/MailQueue.thy ===== *)
theory MailQueue
  imports MessagePipeline MailHeaders Drain
begin

text \<open>
  The outgoing-email queue: the SQL of \<open>src/infrastructure/persistence/mail_queue_repository.rs\<close> and
  the service of \<open>src/application/service/mail_queue_write_service.rs\<close>.  The transport is the port
  the composing application supplies, a parameter; what is handed to it is the trace of the world.
  \<open>RETURNING\<close> gives the claimed rows in the order of the claim (PostgreSQL leaves it open; no
  property below depends on it).
\<close>

section \<open>Repository\<close>

record MailQueueRow =
  qr_id :: uuid
  qr_mail_message_id :: uuid
  qr_email_to :: "string option"
  qr_email_cc :: "string option"
  qr_reply_to :: "string option"
  qr_subject :: "string option"
  qr_body :: "string option"
  qr_email_from :: "string option"
  qr_message_id :: "string option"
  qr_headers :: json

definition mail_queue_enqueue ::
  "uuid \<Rightarrow> uuid \<Rightarrow> string \<Rightarrow> string option \<Rightarrow> string option \<Rightarrow> json \<Rightarrow> time option \<Rightarrow> db \<Rightarrow>
   db_error + unit \<times> db" where
  "mail_queue_enqueue i mid email_to email_cc reply_to headers scheduled_date d =
     (if i \<in> mail_id ` set (mails d) then Inl (UniqueViolation ''mails_pkey'')
      else if mid \<notin> set (message_ids d) then Inl (ForeignKeyViolation ''fk_mails_mail_message_id'')
      else Inr ((), d\<lparr>mails := mails d @
        [\<lparr>mail_id = i, mail_message_id = mid, mail_state = MailState.Outgoing,
          mail_failure_type = None, mail_failure_reason = None,
          mail_scheduled_date = scheduled_date, mail_email_to = Some email_to,
          mail_email_cc = email_cc, mail_reply_to = reply_to, mail_headers = headers\<rparr>]\<rparr>))"

definition mail_claimable :: "time \<Rightarrow> (uuid \<Rightarrow> bool) \<Rightarrow> mail_row \<Rightarrow> bool" where
  "mail_claimable now locked r \<longleftrightarrow>
     mail_state r = MailState.Outgoing \<and>
     (case mail_scheduled_date r of None \<Rightarrow> True | Some t \<Rightarrow> t \<le> now) \<and> \<not> locked (mail_id r)"

definition mail_claim_set :: "mail_row \<Rightarrow> mail_row" where
  "mail_claim_set r =
     r\<lparr>mail_state := MailState.Exception, mail_failure_type := Some MailFailureType.Unknown\<rparr>"

definition mail_queue_row :: "db \<Rightarrow> mail_row \<Rightarrow> MailQueueRow" where
  "mail_queue_row d r =
     (let msg = find (\<lambda>m. msg_id m = mail_message_id r) (messages d) in
      \<lparr>qr_id = mail_id r, qr_mail_message_id = mail_message_id r,
       qr_email_to = mail_email_to r, qr_email_cc = mail_email_cc r,
       qr_reply_to = mail_reply_to r,
       qr_subject = (case msg of None \<Rightarrow> None | Some m \<Rightarrow> msg_subject m),
       qr_body = map_option msg_body msg,
       qr_email_from = (case msg of None \<Rightarrow> None | Some m \<Rightarrow> msg_email_from m),
       qr_message_id = (case msg of None \<Rightarrow> None | Some m \<Rightarrow> msg_message_id m),
       qr_headers = mail_headers r\<rparr>)"

definition mail_claim_batch_for_drain ::
  "int \<Rightarrow> time \<Rightarrow> (uuid \<Rightarrow> bool) \<Rightarrow> db \<Rightarrow> db_error + MailQueueRow list \<times> db" where
  "mail_claim_batch_for_drain batch now locked d =
     (case sql_limit batch (sort_key mail_id (filter (mail_claimable now locked) (mails d))) of
        Inl e \<Rightarrow> Inl e
      | Inr claimed \<Rightarrow>
          (case sql_update (\<lambda>r. mail_id r \<in> mail_id ` set claimed) mail_claim_set mail_trigger_ok
                  (mails d) of
             Inl e \<Rightarrow> Inl e
           | Inr (_, rows) \<Rightarrow> Inr (map (mail_queue_row d) claimed, d\<lparr>mails := rows\<rparr>)))"

definition mail_open_match :: "uuid \<Rightarrow> mail_row \<Rightarrow> bool" where
  "mail_open_match i r \<longleftrightarrow>
     mail_id r = i \<and> (mail_state r = MailState.Outgoing \<or> mail_state r = MailState.Exception)"

definition mail_repo_mark_sent :: "uuid \<Rightarrow> db \<Rightarrow> db_error + bool \<times> db" where
  "mail_repo_mark_sent i d =
     (case sql_update (mail_open_match i)
             (\<lambda>r. r\<lparr>mail_state := MailState.Sent, mail_failure_type := None,
                    mail_failure_reason := None\<rparr>) mail_trigger_ok (mails d) of
        Inl e \<Rightarrow> Inl e
      | Inr (rs, rows) \<Rightarrow> Inr (rs \<noteq> [], d\<lparr>mails := rows\<rparr>))"

definition mail_repo_mark_failed ::
  "uuid \<Rightarrow> string \<Rightarrow> string option \<Rightarrow> db \<Rightarrow> db_error + bool \<times> db" where
  "mail_repo_mark_failed i failure_type reason d =
     (if \<not> list_ex (mail_open_match i) (mails d) then Inr (False, d)
      else case pg_enum_cast MailFailureType_show MailFailureType_from_str failure_type of
             None \<Rightarrow> Inl (BadCast failure_type)
           | Some ft \<Rightarrow>
               (case sql_update (mail_open_match i)
                       (\<lambda>r. r\<lparr>mail_state := MailState.Exception, mail_failure_type := Some ft,
                              mail_failure_reason := reason\<rparr>) mail_trigger_ok (mails d) of
                  Inl e \<Rightarrow> Inl e
                | Inr (rs, rows) \<Rightarrow> Inr (rs \<noteq> [], d\<lparr>mails := rows\<rparr>)))"

definition mail_repo_requeue :: "uuid \<Rightarrow> db \<Rightarrow> db_error + bool \<times> db" where
  "mail_repo_requeue i d =
     (case sql_update (\<lambda>r. mail_id r = i \<and> mail_state r = MailState.Exception)
             (\<lambda>r. r\<lparr>mail_state := MailState.Outgoing, mail_failure_type := None,
                    mail_failure_reason := None\<rparr>) mail_trigger_ok (mails d) of
        Inl e \<Rightarrow> Inl e
      | Inr (rs, rows) \<Rightarrow> Inr (rs \<noteq> [], d\<lparr>mails := rows\<rparr>))"

section \<open>Service\<close>

definition DEFAULT_MAIL_BATCH :: int where
  "DEFAULT_MAIL_BATCH = 1000"

datatype MailQueueError = MqDb db_error | MqInvalid string | MqHeader MailHeaderError

record MailDrainOutcome =
  md_claimed :: nat
  md_sent :: nat
  md_failed :: nat

definition enqueue_headers :: "json option \<Rightarrow> MailQueueError + json" where
  "enqueue_headers headers =
     (case headers of
        None \<Rightarrow> Inr (JObject [])
      | Some value \<Rightarrow>
          (case mail_headers_from_json value of Inl e \<Rightarrow> Inl (MqHeader e) | Inr _ \<Rightarrow> Inr value))"

definition mail_enqueue ::
  "uuid \<Rightarrow> string \<Rightarrow> string option \<Rightarrow> string option \<Rightarrow> json option \<Rightarrow> time option \<Rightarrow> string option \<Rightarrow>
   uuid option \<Rightarrow> (db, 'o, MailQueueError, uuid) act" where
  "mail_enqueue mid email_to email_cc reply_to headers scheduled_date model res_id =
     (if blank email_to then fail (MqInvalid ''email_to is required'')
      else
        bindA (of_sum (enqueue_headers headers)) (\<lambda>headers_json.
        bindA new_v4 (\<lambda>i.
        in_tx MqDb (
          bindA (ask uuid_text) (\<lambda>U.
          bindA (lift MqDb (stmt (mail_queue_enqueue i mid email_to email_cc reply_to headers_json
                   scheduled_date))) (\<lambda>_.
          let channel_key = (case (model, res_id) of
                               (Some m, Some r) \<Rightarrow> record_channel U m r
                             | _ \<Rightarrow> ''mail.message_'' @ U mid) in
          bindA (lift MqDb (stage_bus_event ''MailQueued'' ''Mail'' (U i) channel_key ''MailQueued''
            (JObject [(''mail_id'', JString (U i)), (''mail_message_id'', JString (U mid)),
                      (''email_to'', JString email_to)]))) (\<lambda>_.
          ret i)))))))"

definition normalize_failure_type :: "string \<Rightarrow> string" where
  "normalize_failure_type raw =
     (if raw = ''mail_smtp'' then ''mail_smtp''
      else if raw = ''mail_email_invalid'' then ''mail_email_invalid''
      else if raw = ''mail_bounce'' then ''mail_bounce''
      else if raw = ''mail_blacklist'' then ''mail_blacklist''
      else if raw = ''mail_recipient'' then ''mail_recipient''
      else if raw = ''mail_server'' then ''mail_server''
      else if raw = ''mail_email_missing'' then ''mail_recipient''
      else if raw = ''mail_from_invalid'' \<or> raw = ''mail_from_missing'' then ''mail_server''
      else ''unknown'')"

definition split_recipients :: "string option \<Rightarrow> string option \<Rightarrow> string list" where
  "split_recipients email_to cc =
     filter (\<lambda>a. a \<noteq> []) (map trim (concat (map (split_char (CHR '',''))
       (List.map_filter (\<lambda>x. x) [email_to, cc]))))"

definition linked_notifications :: "uuid \<Rightarrow> db \<Rightarrow> (uuid \<times> uuid option) list" where
  "linked_notifications i d =
     map (\<lambda>r. (ntf_id r, ntf_partner r)) (filter (\<lambda>r. ntf_mail_id r = Some i) (notifications d))"

definition advance_linked_one ::
  "uuid \<Rightarrow> string \<Rightarrow> string option \<Rightarrow> string option \<Rightarrow> unit \<Rightarrow> uuid \<times> uuid option \<Rightarrow>
   (db, 'o, MailQueueError, unit) act" where
  "advance_linked_one mid target failure_type reason u row =
     bindA (ask uuid_text) (\<lambda>U.
     bindA (lift MqDb (stmt_now (advance_notification_status (fst row) target failure_type reason)))
       (\<lambda>advanced.
     case advanced of
       None \<Rightarrow> ret ()
     | Some new_status \<Rightarrow>
         lift MqDb (stage_bus_event ''NotificationStatusChanged'' ''MailNotification'' (U (fst row))
           (case snd row of Some p \<Rightarrow> partner_channel U p | None \<Rightarrow> ''mail_'' @ U mid)
           ''NotificationStatusChanged''
           (JObject [(''notification_id'', JString (U (fst row))), (''mail_id'', JString (U mid)),
                     (''notification_status'', JString new_status)]))))"

definition advance_linked_notifications ::
  "uuid \<Rightarrow> string \<Rightarrow> string option \<Rightarrow> string option \<Rightarrow> (db, 'o, MailQueueError, unit) act" where
  "advance_linked_notifications mid target failure_type reason =
     bindA (lift MqDb (stmt (reading (linked_notifications mid)))) (\<lambda>rows.
     foldA (advance_linked_one mid target failure_type reason) () rows)"

definition mail_mark_sent :: "uuid \<Rightarrow> (db, 'o, MailQueueError, bool) act" where
  "mail_mark_sent i =
     in_tx MqDb (
       bindA (lift MqDb (stmt (mail_repo_mark_sent i))) (\<lambda>advanced.
       if advanced
       then bindA (advance_linked_notifications i ''pending'' None None) (\<lambda>_. ret advanced)
       else ret advanced))"

definition mail_mark_failed ::
  "uuid \<Rightarrow> string \<Rightarrow> string option \<Rightarrow> (db, 'o, MailQueueError, bool) act" where
  "mail_mark_failed i failure_type reason =
     in_tx MqDb (
       bindA (lift MqDb (stmt (mail_repo_mark_failed i failure_type reason))) (\<lambda>advanced.
       if advanced
       then bindA (advance_linked_notifications i ''exception'' (Some failure_type) reason)
              (\<lambda>_. ret advanced)
       else ret advanced))"

definition mail_requeue :: "uuid \<Rightarrow> (db, 'o, MailQueueError, bool) act" where
  "mail_requeue i = in_tx MqDb (lift MqDb (stmt (mail_repo_requeue i)))"

definition stage_mail_dispatch :: "unit \<Rightarrow> MailQueueRow \<Rightarrow> (db, 'o, MailQueueError, unit) act" where
  "stage_mail_dispatch u row =
     bindA (ask uuid_text) (\<lambda>U.
     lift MqDb (stage_bus_event ''MailDispatchRequested'' ''Mail'' (U (qr_id row))
       (''mail.message_'' @ U (qr_mail_message_id row)) ''MailDispatchRequested''
       (JObject [(''mail_id'', JString (U (qr_id row))),
                 (''mail_message_id'', JString (U (qr_mail_message_id row))),
                 (''email_to'', jopt JString (qr_email_to row)),
                 (''email_cc'', jopt JString (qr_email_cc row)),
                 (''reply_to'', jopt JString (qr_reply_to row))])))"

definition mail_claim_tx :: "int \<Rightarrow> (db, 'o, MailQueueError, MailQueueRow list) act" where
  "mail_claim_tx batch =
     in_tx MqDb (
       bindA now_utc (\<lambda>now.
       bindA (lift MqDb (stmt_locked (mail_claim_batch_for_drain batch now))) (\<lambda>rows.
       bindA (foldA stage_mail_dispatch () rows) (\<lambda>_.
       ret rows))))"

definition mail_send ::
  "mail_api_port \<Rightarrow> MailSendRequest \<Rightarrow>
   (db, MailSendRequest, MailQueueError, MailSendFailure + MailSendOutcome) act" where
  "mail_send port req =
     (\<lambda>v w. (Inr (port (tick w) req), w\<lparr>tick := Suc (tick w), trace := trace w @ [req]\<rparr>))"

definition mail_request :: "MailQueueRow \<Rightarrow> (string \<rightharpoonup> string) \<Rightarrow> MailSendRequest" where
  "mail_request row row_headers =
     \<lparr>sr_mail_id = qr_id row, sr_mail_message_id = qr_mail_message_id row,
      sr_from = (case qr_email_from row of None \<Rightarrow> [] | Some f \<Rightarrow> f),
      sr_to = split_recipients (qr_email_to row) (qr_email_cc row),
      sr_subject = qr_subject row,
      sr_body_html = (case qr_body row of None \<Rightarrow> [] | Some b \<Rightarrow> b),
      sr_in_reply_to = None, sr_reply_to = qr_reply_to row, sr_headers = row_headers\<rparr>"

definition mail_step ::
  "mail_api_port \<Rightarrow> MailDrainOutcome \<Rightarrow> MailQueueRow \<Rightarrow>
   (db, MailSendRequest, MailQueueError, MailDrainOutcome) act" where
  "mail_step port tot row =
     (case mail_headers_from_json (qr_headers row) of
        Inl refusal \<Rightarrow>
          bindA (ask str_debug) (\<lambda>dbg.
          bindA (mail_mark_failed (qr_id row) ''unknown''
            (Some (''malformed per-mail headers on the queue row: '' @ MailHeaderError_show dbg refusal)))
            (\<lambda>_. ret (tot\<lparr>md_failed := Suc (md_failed tot)\<rparr>)))
      | Inr row_headers \<Rightarrow>
          bindA (mail_send port (mail_request row row_headers)) (\<lambda>result.
          case result of
            Inr _ \<Rightarrow> bindA (mail_mark_sent (qr_id row))
                       (\<lambda>_. ret (tot\<lparr>md_sent := Suc (md_sent tot)\<rparr>))
          | Inl f \<Rightarrow> bindA (mail_mark_failed (qr_id row) (normalize_failure_type (sf_failure_type f))
                              (Some (sf_message f)))
                       (\<lambda>_. ret (tot\<lparr>md_failed := Suc (md_failed tot)\<rparr>))))"

definition mail_count :: "MailDrainOutcome \<Rightarrow> nat \<Rightarrow> MailDrainOutcome" where
  "mail_count tot n = tot\<lparr>md_claimed := md_claimed tot + n\<rparr>"

definition mail_process_queue ::
  "nat \<Rightarrow> mail_api_port \<Rightarrow> int \<Rightarrow> nat \<Rightarrow>
   (db, MailSendRequest, MailQueueError, MailDrainOutcome option) act" where
  "mail_process_queue fuel port batch max_batches =
     drain_loop fuel (mail_claim_tx batch) mail_count (mail_step port) max_batches 0
       \<lparr>md_claimed = 0, md_sent = 0, md_failed = 0\<rparr>"

section \<open>The queue as a drain\<close>

definition outgoing_mails :: "db \<Rightarrow> uuid set" where
  "outgoing_mails d = mail_id ` {r \<in> set (mails d). mail_state r = MailState.Outgoing}"

definition mails_distinct :: "db \<Rightarrow> bool" where
  "mails_distinct d \<longleftrightarrow> distinct (map mail_id (mails d))"

text \<open>\<open>shrinks S d\<close>: a database whose mail ids are distinct and whose outgoing mails are within \<open>S\<close>.\<close>

definition shrinks :: "uuid set \<Rightarrow> db \<Rightarrow> bool" where
  "shrinks S d \<longleftrightarrow> mails_distinct d \<and> outgoing_mails d \<subseteq> S"

lemma shrinks_others [simp]:
  "shrinks S (d\<lparr>outbox := o'\<rparr>) \<longleftrightarrow> shrinks S d"
  "shrinks S (d\<lparr>notifications := ns\<rparr>) \<longleftrightarrow> shrinks S d"
  by (simp_all add: shrinks_def mails_distinct_def outgoing_mails_def)

lemma shrinks_update:
  assumes "shrinks S d" and u: "sql_update p f ok (mails d) = Inr (rs, rows)"
    and "\<And>r. mail_id (f r) = mail_id r" and "\<And>r. mail_state (f r) \<noteq> MailState.Outgoing"
  shows "shrinks S (d\<lparr>mails := rows\<rparr>)"
proof -
  have "map mail_id rows = map mail_id (mails d)" using u assms(3) by (rule sql_update_key)
  moreover from sql_update_Inr [OF u] assms(3,4)
  have "outgoing_mails (d\<lparr>mails := rows\<rparr>) \<subseteq> outgoing_mails d"
    by (auto simp: outgoing_mails_def split: if_splits)
  ultimately show ?thesis using assms(1) by (auto simp: shrinks_def mails_distinct_def)
qed

lemma advance_notification_other:
  assumes "advance_notification_status n t ft rs now d = Inr (x, d')"
  obtains rows where "d' = d\<lparr>notifications := rows\<rparr>"
  using assms
  by (auto simp: advance_notification_status_def split: if_splits option.splits sum.splits
        intro: that [of "notifications d"] that)

lemma keeps_advance_linked:
  assumes "\<And>d ev. I d \<Longrightarrow> I (d\<lparr>outbox := outbox d @ [ev]\<rparr>)"
    and "\<And>n t ft rs now d x d'. I d \<Longrightarrow> advance_notification_status n t ft rs now d = Inr (x, d') \<Longrightarrow> I d'"
  shows "keeps I (advance_linked_notifications i target ft reason)"
  unfolding advance_linked_notifications_def advance_linked_one_def
  by (intro keeps_intros keeps_stmt_now allI impI) (auto intro: assms)

lemma keeps_shrinks_advance: "keeps (shrinks S) (advance_linked_notifications i target ft reason)"
  by (rule keeps_advance_linked) (auto elim!: advance_notification_other)

lemma keeps_shrinks_mark_sent: "keeps (shrinks S) (mail_mark_sent i)"
  unfolding mail_mark_sent_def
  by (intro keeps_intros keeps_shrinks_advance keeps_stmt)
    (auto simp: mail_repo_mark_sent_def split: sum.splits intro: shrinks_update)

lemma keeps_shrinks_mark_failed: "keeps (shrinks S) (mail_mark_failed i ft reason)"
  unfolding mail_mark_failed_def
  by (intro keeps_intros keeps_shrinks_advance keeps_stmt)
    (auto simp: mail_repo_mark_failed_def split: sum.splits option.splits if_splits
      intro: shrinks_update)

lemma keeps_mail_send: "keeps I (mail_send port req)"
  by (simp add: keeps_def mail_send_def)

lemma keeps_shrinks_step: "keeps (shrinks S) (mail_step port t row)"
  unfolding mail_step_def
  by (intro keeps_intros keeps_shrinks_mark_sent keeps_shrinks_mark_failed keeps_mail_send)

lemma silent_marks:
  "silent (mail_mark_sent i)" "silent (mail_mark_failed i ft reason)"
  unfolding mail_mark_sent_def mail_mark_failed_def advance_linked_notifications_def
    advance_linked_one_def
  by (intro silent_intros allI)+

lemma claim_statement:
  assumes "mail_claim_batch_for_drain batch now locked d = Inr (rows, d')"
  obtains claimed rows' where "rows = map (mail_queue_row d) claimed" and "d' = d\<lparr>mails := rows'\<rparr>"
    and "claimed = take (nat batch) (sort_key mail_id (filter (mail_claimable now locked) (mails d)))"
    and "rows' = map (\<lambda>r. if mail_id r \<in> mail_id ` set claimed then mail_claim_set r else r) (mails d)"
  using assms
  by (auto simp: mail_claim_batch_for_drain_def sql_limit_def split: sum.splits if_splits
        dest!: sql_update_Inr intro: that)

lemma qr_id_row [simp]: "qr_id (mail_queue_row d r) = mail_id r"
  by (simp add: mail_queue_row_def Let_def)

lemma mail_claim_set_simps [simp]:
  "mail_id (mail_claim_set r) = mail_id r" "mail_state (mail_claim_set r) = MailState.Exception"
  "mail_message_id (mail_claim_set r) = mail_message_id r"
  by (simp_all add: mail_claim_set_def)

lemma claim_takes:
  assumes "mail_claim_batch_for_drain batch now locked d = Inr (rows, d')" and "mails_distinct d"
  shows "distinct (map qr_id rows)" and "set (map qr_id rows) \<subseteq> outgoing_mails d - outgoing_mails d'"
    and "shrinks S d \<Longrightarrow> shrinks S d'"
    and "x \<in> set (map qr_id rows) \<Longrightarrow> \<not> locked x"
proof -
  from assms(1) obtain claimed rows' where
    c: "rows = map (mail_queue_row d) claimed" "d' = d\<lparr>mails := rows'\<rparr>"
      "claimed = take (nat batch) (sort_key mail_id (filter (mail_claimable now locked) (mails d)))"
      "rows' = map (\<lambda>r. if mail_id r \<in> mail_id ` set claimed then mail_claim_set r else r) (mails d)"
    by (rule claim_statement)
  have ids: "map qr_id rows = map mail_id claimed" using c(1) by simp
  have sub: "set claimed \<subseteq> set (filter (mail_claimable now locked) (mails d))"
    using c(3) set_take_subset [of "nat batch"] by fastforce
  have "distinct (map mail_id (filter (mail_claimable now locked) (mails d)))"
    using assms(2) by (simp add: mails_distinct_def distinct_map_filter)
  then have "distinct (map mail_id (sort_key mail_id (filter (mail_claimable now locked) (mails d))))"
    by (simp add: distinct_map)
  then have "distinct (take (nat batch)
      (map mail_id (sort_key mail_id (filter (mail_claimable now locked) (mails d)))))"
    by (rule distinct_take)
  then show "distinct (map qr_id rows)" using ids c(3) by (simp add: take_map)
  have "mail_id ` set claimed \<subseteq> outgoing_mails d"
    using sub by (auto simp: outgoing_mails_def mail_claimable_def)
  moreover have "mail_id ` set claimed \<inter> outgoing_mails d' = {}"
    using c(2,4) by (auto simp: outgoing_mails_def) (metis image_eqI)
  ultimately show "set (map qr_id rows) \<subseteq> outgoing_mails d - outgoing_mails d'"
    using ids by auto
  have "map mail_id rows' = map mail_id (mails d)" using c(4) by simp
  moreover have "outgoing_mails d' \<subseteq> outgoing_mails d"
    using c(2,4) by (auto simp: outgoing_mails_def split: if_splits)
  ultimately show "shrinks S d \<Longrightarrow> shrinks S d'"
    using c(2) by (auto simp: shrinks_def mails_distinct_def)
  show "x \<in> set (map qr_id rows) \<Longrightarrow> \<not> locked x"
    using ids sub by (auto simp: mail_claimable_def)
qed

lemma keeps_stage_dispatch:
  "(\<And>d ev. I d \<Longrightarrow> I (d\<lparr>outbox := outbox d @ [ev]\<rparr>)) \<Longrightarrow> keeps I (stage_mail_dispatch u row)"
  unfolding stage_mail_dispatch_def by (intro keeps_intros)

lemma keeps_shrinks_claim: "keeps (shrinks S) (mail_claim_tx batch)"
  unfolding mail_claim_tx_def
proof (intro keeps_intros keeps_stmt_locked keeps_stage_dispatch)
  fix now l d x d'
  assume s: "shrinks S d" and c: "mail_claim_batch_for_drain batch now l d = Inr (x, d')"
  from s have "mails_distinct d" by (simp add: shrinks_def)
  from claim_takes(3) [OF c this s] show "shrinks S d'" .
qed simp

lemma silent_claim: "silent (mail_claim_tx batch)"
  unfolding mail_claim_tx_def stage_mail_dispatch_def by (intro silent_intros)

lemma claim_tx_rows:
  assumes "mails_distinct (db w)" and "mail_claim_tx batch v w = (Inr rows, w')"
  shows "distinct (map qr_id rows) \<and>
    set (map qr_id rows) \<subseteq> outgoing_mails (db w) - outgoing_mails (db w')"
proof -
  let ?body = "bindA now_utc (\<lambda>now.
       bindA (lift MqDb (stmt_locked (mail_claim_batch_for_drain batch now))) (\<lambda>rows.
       bindA (foldA stage_mail_dispatch () rows) (\<lambda>_. ret rows)))"
  have "straight ?body"
    unfolding stage_mail_dispatch_def stage_bus_event_def by (intro straight_intros)
  with assms(2) obtain w1 where b: "?body v (begin_tx v w) = (Inr rows, w1)" and w1: "db w' = db w1"
    unfolding mail_claim_tx_def by (rule in_tx_straight)
  from b obtain now w2 w3 u where
    n: "now_utc v (begin_tx v w) = ((Inr now :: MailQueueError + time), w2)"
    and c: "lift MqDb (stmt_locked (mail_claim_batch_for_drain batch now)) v w2 = (Inr rows, w3)"
    and f: "foldA stage_mail_dispatch () rows v w3 = (Inr u, w1)"
    by (elim bindA_InrE ret_InrE) (hypsubst, rule that)
  have "keeps (\<lambda>d. mails d = mails (db w3)) (foldA stage_mail_dispatch () rows)"
    by (intro keeps_intros keeps_stage_dispatch) simp
  from keepsD [OF this, of w3 v] f w1 have m: "outgoing_mails (db w') = outgoing_mails (db w3)"
    by (simp add: outgoing_mails_def)
  from c obtain locked where
    "mail_claim_batch_for_drain batch now locked (db w2) = Inr (rows, db w3)"
    by (elim lift_InrE stmt_locked_InrE)
  moreover from n have "db w2 = db w" by (auto elim: now_utc_InrE)
  ultimately have "mail_claim_batch_for_drain batch now locked (db w) = Inr (rows, db w3)" by simp
  from claim_takes(1,2) [OF this assms(1)] m show ?thesis by simp
qed

lemma mail_step_trace:
  assumes "mail_step port t row v w = (r, w')"
  shows "\<exists>os. trace w' = trace w @ os \<and> subseq (map sr_mail_id os) [qr_id row]"
proof (cases "mail_headers_from_json (qr_headers row)")
  case (Inl e)
  have "silent (mail_step port t row)"
    unfolding mail_step_def Inl by (simp, intro silent_intros silent_marks)
  from silentD [OF this assms] show ?thesis by simp
next
  case (Inr hs)
  let ?req = "mail_request row hs"
  let ?after = "\<lambda>result. case result of
            Inr _ \<Rightarrow> bindA (mail_mark_sent (qr_id row))
                       (\<lambda>_. ret (t\<lparr>md_sent := Suc (md_sent t)\<rparr>))
          | Inl f \<Rightarrow> bindA (mail_mark_failed (qr_id row) (normalize_failure_type (sf_failure_type f))
                              (Some (sf_message f)))
                       (\<lambda>_. ret (t\<lparr>md_failed := Suc (md_failed t)\<rparr>))"
  have "silent (?after x)" for x by (intro silent_intros silent_marks)
  moreover have "mail_send port ?req v w =
      (Inr (port (tick w) ?req), w\<lparr>tick := Suc (tick w), trace := trace w @ [?req]\<rparr>)"
    by (simp add: mail_send_def)
  from bindA_run(1) [where m = "mail_send port ?req", OF this, of ?after] assms Inr have
    "?after (port (tick w) ?req) v (w\<lparr>tick := Suc (tick w), trace := trace w @ [?req]\<rparr>) = (r, w')"
    by (simp add: mail_step_def)
  ultimately have "trace w' = trace w @ [?req]" by (fastforce dest: silentD)
  then show ?thesis by (simp add: mail_request_def)
qed

lemma mail_step_tally:
  assumes "mail_step port t row v w = (Inr t', w')"
  shows "md_claimed t' = md_claimed t \<and> md_sent t' + md_failed t' = Suc (md_sent t + md_failed t)"
  using assms
  by (auto simp: mail_step_def mail_send_def ask_def elim!: bindA_InrE ret_InrE
        split: sum.splits)

lemma finite_outgoing [simp]: "finite (outgoing_mails d)"
  by (simp add: outgoing_mails_def)

interpretation mail_drain: drain mails_distinct outgoing_mails qr_id sr_mail_id
  "mail_claim_tx batch" mail_count "mail_step port" md_claimed "\<lambda>t. md_sent t + md_failed t"
  for batch port
proof unfold_locales
  show "finite (outgoing_mails d)" for d by simp
next
  fix w :: "(db, MailSendRequest) world" and v r w'
  assume d: "mails_distinct (db w)" and c: "mail_claim_tx batch v w = (r, w')"
  have "shrinks (outgoing_mails (db w)) (db w')"
    using keepsD [OF keeps_shrinks_claim, of "outgoing_mails (db w)" w batch v] d c
    by (simp add: shrinks_def)
  then show "mails_distinct (db w') \<and> trace w' = trace w \<and> outgoing_mails (db w') \<subseteq> outgoing_mails (db w)"
    using silentD [OF silent_claim c] by (simp add: shrinks_def)
next
  fix w :: "(db, MailSendRequest) world" and v rows w'
  assume "mails_distinct (db w)" and "mail_claim_tx batch v w = (Inr rows, w')"
  then show "distinct (map qr_id rows) \<and>
      set (map qr_id rows) \<subseteq> outgoing_mails (db w) - outgoing_mails (db w')"
    by (rule claim_tx_rows)
next
  fix w :: "(db, MailSendRequest) world" and t x v q w'
  assume d: "mails_distinct (db w)" and s: "mail_step port t x v w = (q, w')"
  have "shrinks (outgoing_mails (db w)) (db w')"
    using keepsD [OF keeps_shrinks_step, of "outgoing_mails (db w)" w port t x v] d s
    by (simp add: shrinks_def)
  then show "mails_distinct (db w') \<and> outgoing_mails (db w') \<subseteq> outgoing_mails (db w) \<and>
      (\<exists>os. trace w' = trace w @ os \<and> subseq (map sr_mail_id os) [qr_id x])"
    using mail_step_trace [OF s] by (simp add: shrinks_def)
next
  fix t x v w t' and w' :: "(db, MailSendRequest) world"
  assume "mail_step port t x v w = (Inr t', w')"
  then show "md_claimed t' = md_claimed t \<and> md_sent t' + md_failed t' = Suc (md_sent t + md_failed t)"
    by (rule mail_step_tally)
next
  show "md_claimed (mail_count t n) = md_claimed t + n \<and>
      md_sent (mail_count t n) + md_failed (mail_count t n) = md_sent t + md_failed t" for t n
    by (simp add: mail_count_def)
qed

section \<open>Properties of the drain\<close>

text \<open>C1: crash safety of the mail drain (MAIL-M2).  In every run of \<open>process_queue\<close>, whatever statement,
  commit or acknowledgement fails and whatever the transport answers, each mail handed to the
  transport was outgoing when the drain began, is handed over once, and is not outgoing when the
  drain ends: no later drain can pick it up again without a requeue.\<close>

theorem mail_drain_crash_safe:
  assumes "mails_distinct (db w)" and "mail_process_queue fuel port batch mx v w = (r, w')"
  shows "\<exists>sent. trace w' = trace w @ sent \<and> distinct (map sr_mail_id sent) \<and>
    set (map sr_mail_id sent) \<subseteq> outgoing_mails (db w) \<and>
    set (map sr_mail_id sent) \<inter> outgoing_mails (db w') = {}"
proof -
  from assms(2) have "mail_drain.handed w w'"
    unfolding mail_process_queue_def by (rule mail_drain.loop_handed [OF assms(1)])
  then show ?thesis by (auto simp: mail_drain.handed_def)
qed

text \<open>C9: the mail drain terminates.  Each pass takes a mail out of the queue, so with more fuel than
  there are outgoing mails the loop never runs out, whether or not it has a batch limit.\<close>

theorem mail_drain_terminates:
  assumes "mails_distinct (db w)" and "card (outgoing_mails (db w)) < fuel"
  shows "fst (mail_process_queue fuel port batch mx v w) \<noteq> Inr None"
proof
  assume "fst (mail_process_queue fuel port batch mx v w) = Inr None"
  then obtain w' where "mail_process_queue fuel port batch mx v w = (Inr None, w')"
    by (cases "mail_process_queue fuel port batch mx v w") simp
  with mail_drain.loop_returns [OF assms] show False
    unfolding mail_process_queue_def by blast
qed

text \<open>A mail drain that returns \<open>Ok\<close> has a verdict, sent or failed, for every mail it claimed.\<close>

lemma mail_drain_accounts:
  assumes "mail_process_queue fuel port batch mx v w = (Inr (Some t), w')"
  shows "md_sent t + md_failed t = md_claimed t"
  using mail_drain.loop_tally [OF assms [unfolded mail_process_queue_def]] by simp

text \<open>A drain without a batch limit empties the queue.  When no other transaction holds rows
  locked and the batch is positive, an outgoing mail left behind is one scheduled later than the
  clock the drain read last.\<close>

lemma mail_drain_empties:
  assumes "mail_process_queue fuel port batch 0 v w = (Inr (Some t), w')"
    and "0 < batch" and "\<forall>n i. \<not> row_locked v n i"
  shows "\<exists>n. \<forall>q\<in>set (mails (db w')). mail_state q = MailState.Outgoing \<longrightarrow>
    (\<exists>s. mail_scheduled_date q = Some s \<and> clock v n < s)"
proof -
  let ?body = "bindA now_utc (\<lambda>now.
       bindA (lift MqDb (stmt_locked (mail_claim_batch_for_drain batch now))) (\<lambda>rows.
       bindA (foldA stage_mail_dispatch () rows) (\<lambda>_. ret rows)))"
  from mail_drain.loop_exhausts [OF assms(1) [unfolded mail_process_queue_def]]
  obtain w1 where "mail_claim_tx batch v w1 = (Inr [], w')" by blast
  moreover have "straight ?body"
    unfolding stage_mail_dispatch_def stage_bus_event_def by (intro straight_intros)
  ultimately obtain w2 where b: "?body v (begin_tx v w1) = (Inr [], w2)" and w2: "db w' = db w2"
    unfolding mail_claim_tx_def by (rule in_tx_straight)
  from b obtain now w3 w4 u where
    n: "now_utc v (begin_tx v w1) = ((Inr now :: MailQueueError + time), w3)"
    and c: "lift MqDb (stmt_locked (mail_claim_batch_for_drain batch now)) v w3 = (Inr [], w4)"
    and f: "foldA stage_mail_dispatch () [] v w4 = (Inr u, w2)"
    by (elim bindA_InrE ret_InrE) (hypsubst, rule that)
  from n have now: "now = clock v (Suc (tick w1))" by (simp add: now_utc_def)
  from f have "db w' = db w4" using w2 by (simp add: ret_def)
  moreover from c have "mail_claim_batch_for_drain batch now (row_locked v (tick w3)) (db w3) = Inr ([], db w4)"
    by (auto simp: stmt_locked_def elim!: lift_InrE stmt_InrE)
  ultimately obtain claimed where "claimed = []" and
    "claimed = take (nat batch) (sort_key mail_id
       (filter (mail_claimable now (row_locked v (tick w3))) (mails (db w3))))"
    and "mails (db w') = map (\<lambda>r. if mail_id r \<in> mail_id ` set claimed then mail_claim_set r else r)
       (mails (db w3))"
    by (elim claim_statement) simp
  then have "filter (mail_claimable now (row_locked v (tick w3))) (mails (db w')) = []"
    using assms(2) by simp (metis length_sort list.size(3) length_0_conv)
  then show ?thesis
    using now assms(3)
    by (intro exI [of _ "Suc (tick w1)"])
      (auto simp: filter_empty_conv mail_claimable_def split: option.splits)
qed

text \<open>Nothing with a line break in a header reaches the transport: every request handed over by
  a drain has only single-line, named headers, whatever the \<open>headers\<close> column of the rows holds.\<close>

lemma mail_drain_headers_safe:
  assumes "mail_process_queue fuel port batch mx v w = (r, w')"
    and "trace w' = trace w @ sent" and "req \<in> set sent" and "sr_headers req k = Some x"
  shows "safe_header k x"
proof -
  let ?P = "\<lambda>w1 :: (db, MailSendRequest) world. \<exists>os. trace w1 = trace w @ os \<and>
    (\<forall>req\<in>set os. \<forall>k x. sr_headers req k = Some x \<longrightarrow> safe_header k x)"
  have quiet: "triple ?P m (\<lambda>_. ?P) (\<lambda>_. ?P)" if "silent m" for m :: "(db, MailSendRequest, 'a, 'b) act"
    unfolding triple_def
  proof (intro allI impI)
    fix v' w1 assume "?P w1"
    obtain q w2 where m: "m v' w1 = (q, w2)" by fastforce
    with silentD [OF that m] \<open>?P w1\<close>
    show "case m v' w1 of (Inl e, w') \<Rightarrow> ?P w' | (Inr x, w') \<Rightarrow> ?P w'"
      by (cases q) simp_all
  qed
  have send: "triple ?P (mail_send port (mail_request row hs)) (\<lambda>_. ?P) (\<lambda>_. ?P)"
    if "mail_headers_from_json (qr_headers row) = Inr hs" for row hs
    using headers_Inr [OF that]
    by (auto simp: triple_def mail_send_def mail_request_def)
  have "triple ?P (mail_step port t row) (\<lambda>_. ?P) (\<lambda>_. ?P)" for t row
  proof (cases "mail_headers_from_json (qr_headers row)")
    case (Inl e)
    have "silent (mail_step port t row)"
      unfolding mail_step_def Inl by (simp, intro silent_intros silent_marks)
    then show ?thesis by (rule quiet)
  next
    case (Inr hs)
    show ?thesis
      unfolding mail_step_def Inr sum.case
      by (rule triple_bind [OF send [OF Inr]], rule quiet) (intro silent_intros silent_marks)
  qed
  then have "triple ?P (mail_process_queue fuel port batch mx) (\<lambda>_. ?P) (\<lambda>_. ?P)"
    unfolding mail_process_queue_def by (rule drain_loop_triple [OF quiet [OF silent_claim]])
  moreover have "?P w" by simp
  ultimately have "?P w'" using assms(1) by (rule triple_run)
  with assms(2-4) show ?thesis by auto
qed

section \<open>Verdicts\<close>

text \<open>A mail that is sent stays sent under every operation of the queue.\<close>

definition sent_mails :: "db \<Rightarrow> uuid set" where
  "sent_mails d = {i. \<forall>r\<in>set (mails d). mail_id r = i \<longrightarrow> mail_state r = MailState.Sent} \<inter>
     mail_id ` set (mails d)"

lemma sent_mails_others [simp]:
  "sent_mails (d\<lparr>outbox := o'\<rparr>) = sent_mails d"
  "sent_mails (d\<lparr>notifications := ns\<rparr>) = sent_mails d"
  by (simp_all add: sent_mails_def)

lemma sent_update:
  assumes "S \<subseteq> sent_mails d" and u: "sql_update p f ok (mails d) = Inr (rs, rows)"
    and "\<And>r. mail_id (f r) = mail_id r" and "\<And>r. p r \<Longrightarrow> mail_state r \<noteq> MailState.Sent"
  shows "S \<subseteq> sent_mails (d\<lparr>mails := rows\<rparr>)"
proof
  fix i assume "i \<in> S"
  with assms(1) have i: "i \<in> mail_id ` set (mails d)"
    "\<forall>r\<in>set (mails d). mail_id r = i \<longrightarrow> mail_state r = MailState.Sent"
    by (auto simp: sent_mails_def)
  from sql_update_Inr [OF u] have r: "rows = map (\<lambda>r. if p r then f r else r) (mails d)" by simp
  have "\<forall>r\<in>set rows. mail_id r = i \<longrightarrow> mail_state r = MailState.Sent"
    using i(2) assms(3,4) r by auto
  moreover have "map mail_id rows = map mail_id (mails d)" using u assms(3) by (rule sql_update_key)
  then have "mail_id ` set rows = mail_id ` set (mails d)" by (metis set_map)
  ultimately show "i \<in> sent_mails (d\<lparr>mails := rows\<rparr>)" using i(1) by (simp add: sent_mails_def)
qed

lemma open_not_sent: "mail_open_match i r \<Longrightarrow> mail_state r \<noteq> MailState.Sent"
  by (auto simp: mail_open_match_def)

lemma sent_statements:
  "mail_repo_mark_sent i d = Inr (x, d') \<Longrightarrow> S \<subseteq> sent_mails d \<Longrightarrow> S \<subseteq> sent_mails d'"
  "mail_repo_mark_failed i ft reason d = Inr (x, d') \<Longrightarrow> S \<subseteq> sent_mails d \<Longrightarrow> S \<subseteq> sent_mails d'"
  "mail_repo_requeue i d = Inr (x, d') \<Longrightarrow> S \<subseteq> sent_mails d \<Longrightarrow> S \<subseteq> sent_mails d'"
proof -
  assume "mail_repo_mark_sent i d = Inr (x, d')" and s: "S \<subseteq> sent_mails d"
  then obtain rs rows where d: "d' = d\<lparr>mails := rows\<rparr>" and
    "sql_update (mail_open_match i) (\<lambda>r. r\<lparr>mail_state := MailState.Sent, mail_failure_type := None,
       mail_failure_reason := None\<rparr>) mail_trigger_ok (mails d) = Inr (rs, rows)"
    by (auto simp: mail_repo_mark_sent_def split: sum.splits)
  from sent_update [OF s this(2) _ open_not_sent] d show "S \<subseteq> sent_mails d'" by simp
next
  assume "mail_repo_mark_failed i ft reason d = Inr (x, d')" and s: "S \<subseteq> sent_mails d"
  then consider "d' = d" | f rs rows where "d' = d\<lparr>mails := rows\<rparr>" and
    "sql_update (mail_open_match i) (\<lambda>r. r\<lparr>mail_state := MailState.Exception, mail_failure_type := Some f,
       mail_failure_reason := reason\<rparr>) mail_trigger_ok (mails d) = Inr (rs, rows)"
    by (auto simp: mail_repo_mark_failed_def split: sum.splits option.splits if_splits)
  then show "S \<subseteq> sent_mails d'"
  proof cases
    case 1
    with s show ?thesis by simp
  next
    case 2
    from sent_update [OF s 2(2) _ open_not_sent] 2(1) show ?thesis by simp
  qed
next
  assume "mail_repo_requeue i d = Inr (x, d')" and s: "S \<subseteq> sent_mails d"
  then obtain rs rows where d: "d' = d\<lparr>mails := rows\<rparr>" and
    "sql_update (\<lambda>r. mail_id r = i \<and> mail_state r = MailState.Exception)
       (\<lambda>r. r\<lparr>mail_state := MailState.Outgoing, mail_failure_type := None,
       mail_failure_reason := None\<rparr>) mail_trigger_ok (mails d) = Inr (rs, rows)"
    by (auto simp: mail_repo_requeue_def split: sum.splits)
  from sent_update [OF s this(2)] d show "S \<subseteq> sent_mails d'" by simp
qed

lemma keeps_sent_advance: "keeps (\<lambda>d. S \<subseteq> sent_mails d) (advance_linked_notifications i t ft reason)"
proof (rule keeps_advance_linked)
  fix n t ft rs now d x d'
  assume "S \<subseteq> sent_mails d" and a: "advance_notification_status n t ft rs now d = Inr (x, d')"
  moreover from a obtain rows where "d' = d\<lparr>notifications := rows\<rparr>"
    by (rule advance_notification_other)
  ultimately show "S \<subseteq> sent_mails d'" by simp
qed simp

lemma keeps_sent_marks:
  "keeps (\<lambda>d. S \<subseteq> sent_mails d) (mail_mark_sent i)"
  "keeps (\<lambda>d. S \<subseteq> sent_mails d) (mail_mark_failed i ft reason)"
  "keeps (\<lambda>d. S \<subseteq> sent_mails d) (mail_requeue i)"
  unfolding mail_mark_sent_def mail_mark_failed_def mail_requeue_def
  by (intro keeps_intros keeps_stmt keeps_sent_advance, erule (1) sent_statements [rotated])+

lemma claim_sent:
  assumes "mail_claim_batch_for_drain batch now l d = Inr (x, d')" and "S \<subseteq> sent_mails d"
  shows "S \<subseteq> sent_mails d'"
  using assms(1)
proof (rule claim_statement)
  fix claimed rows'
  assume c: "d' = d\<lparr>mails := rows'\<rparr>"
    "claimed = take (nat batch) (sort_key mail_id (filter (mail_claimable now l) (mails d)))"
    "rows' = map (\<lambda>r. if mail_id r \<in> mail_id ` set claimed then mail_claim_set r else r) (mails d)"
  have "set claimed \<subseteq> set (filter (mail_claimable now l) (mails d))"
    using c(2) set_take_subset [of "nat batch"] by fastforce
  then have n: "mail_id r \<notin> sent_mails d" if "r \<in> set claimed" for r
    using that by (force simp: sent_mails_def mail_claimable_def)
  show "S \<subseteq> sent_mails d'"
  proof
    fix i assume "i \<in> S"
    with assms(2) have i: "i \<in> sent_mails d" by blast
    with n have "i \<notin> mail_id ` set claimed" by auto
    with i c(1,3) show "i \<in> sent_mails d'" by (auto simp: sent_mails_def image_iff)
  qed
qed

lemma keeps_sent_claim: "keeps (\<lambda>d. S \<subseteq> sent_mails d) (mail_claim_tx batch)"
  unfolding mail_claim_tx_def
proof (intro keeps_intros keeps_stmt_locked keeps_stage_dispatch)
  fix now l d x d'
  assume "S \<subseteq> sent_mails d" and "mail_claim_batch_for_drain batch now l d = Inr (x, d')"
  then show "S \<subseteq> sent_mails d'" by (rule claim_sent [rotated])
qed simp

text \<open>\<open>sent\<close> means sent.  A mail in state \<open>sent\<close> is still in state \<open>sent\<close> after any drain, any
  verdict (a redelivered or contradicting one included) and any requeue, under any faults.\<close>

lemma mail_sent_is_final:
  "keeps (\<lambda>d. S \<subseteq> sent_mails d) (mail_process_queue fuel port batch mx) \<and>
   keeps (\<lambda>d. S \<subseteq> sent_mails d) (mail_mark_sent i) \<and>
   keeps (\<lambda>d. S \<subseteq> sent_mails d) (mail_mark_failed i ft reason) \<and>
   keeps (\<lambda>d. S \<subseteq> sent_mails d) (mail_requeue i)"
  unfolding mail_process_queue_def mail_step_def
  by (intro conjI keeps_drain_loop keeps_sent_claim keeps_intros keeps_sent_marks keeps_mail_send)

section \<open>The properties at concrete inputs\<close>

definition mail_world :: "(db, MailSendRequest) world" where
  "mail_world = world_of (empty_db\<lparr>messages := [sample_message 1],
     mails := [sample_mail 7 MailState.Outgoing, sample_mail 8 MailState.Sent],
     notifications := [sample_notification 3 (Some 7) MailNotificationStatus.Ready]\<rparr>)"

definition mail_run ::
  "(MailQueueError + MailDrainOutcome option) \<times> (db, MailSendRequest) world" where
  "mail_run = mail_process_queue 3 (\<lambda>_ _. Inr MailSendOutcome.Accepted) 10 0 plain_env mail_world"

lemma mail_run_ok:
  "mail_process_queue 3 (\<lambda>_ _. Inr MailSendOutcome.Accepted) 10 0 plain_env mail_world =
     (Inr (Some (the (projr (fst mail_run)))), snd mail_run)"
proof -
  have "\<not> isl (fst mail_run)" "projr (fst mail_run) \<noteq> None" by code_simp+
  then show ?thesis unfolding mail_run_def by (cases "mail_process_queue 3 (\<lambda>_ _. Inr MailSendOutcome.Accepted) 10 0 plain_env mail_world") auto
qed

lemma mail_run_trace: "map sr_mail_id (trace (snd mail_run)) = [7]" "trace mail_world = []"
  by code_simp+

lemma mail_world_distinct: "mails_distinct (db mail_world)"
  by code_simp

lemma mail_drain_crash_safe_witness:
  "map sr_mail_id (trace (snd mail_run)) = [7] \<and> 7 \<notin> outgoing_mails (db (snd mail_run))"
  using mail_drain_crash_safe [OF mail_world_distinct mail_run_ok] mail_run_trace by auto

lemma mail_drain_terminates_witness: "fst mail_run \<noteq> Inr None"
  unfolding mail_run_def
proof (rule mail_drain_terminates [OF mail_world_distinct])
  show "card (outgoing_mails (db mail_world)) < 3" by code_simp
qed

lemma mail_drain_accounts_witness:
  "md_sent (the (projr (fst mail_run))) + md_failed (the (projr (fst mail_run))) = 1"
proof -
  have "md_claimed (the (projr (fst mail_run))) = 1" by code_simp
  with mail_drain_accounts [OF mail_run_ok] show ?thesis by simp
qed

lemma mail_drain_empties_witness:
  "\<exists>n. list_all (\<lambda>q. mail_state q = MailState.Outgoing \<longrightarrow>
     (\<exists>s. mail_scheduled_date q = Some s \<and> clock plain_env n < s)) (mails (db (snd mail_run)))"
  using mail_drain_empties [OF mail_run_ok] by (auto simp: list_all_iff plain_env_def)

lemma mail_drain_headers_safe_witness: "safe_header ''X'' ''v''"
proof -
  have "sr_headers (hd (trace (snd mail_run))) ''X'' = Some ''v''" by code_simp
  moreover have "hd (trace (snd mail_run)) \<in> set (trace (snd mail_run))" using mail_run_trace(1) by (cases "trace (snd mail_run)") auto
  ultimately show ?thesis using mail_drain_headers_safe [OF mail_run_ok] mail_run_trace(2) by simp
qed

end
