(* ===== verification/NotificationPump.thy ===== *)
theory NotificationPump
  imports MessagePipeline
begin

text \<open>
  What \<open>advance_notification_status\<close> (\<open>message_pipeline_repository.rs\<close>), the single writer of a
  notification's status after it is minted, does to the notifications: it touches one row, never
  regresses it, and leaves it at least as far as the target.
\<close>

definition ntf_advanced :: "notification_row \<Rightarrow> notification_row \<Rightarrow> bool" where
  "ntf_advanced r r' \<longleftrightarrow>
     ntf_id r' = ntf_id r \<and> ntf_message_id r' = ntf_message_id r \<and> ntf_partner r' = ntf_partner r \<and>
     ntf_type r' = ntf_type r \<and> ntf_mail_id r' = ntf_mail_id r \<and>
     (r' = r \<or> ntf_rank (ntf_status r) < ntf_rank (ntf_status r'))"

definition notifications_advanced :: "notification_row list \<Rightarrow> notification_row list \<Rightarrow> bool" where
  "notifications_advanced rs rs' \<longleftrightarrow> list_all2 ntf_advanced rs rs'"

lemma ntf_advanced_refl [simp]: "ntf_advanced r r"
  by (simp add: ntf_advanced_def)

lemma ntf_advanced_trans: "ntf_advanced a b \<Longrightarrow> ntf_advanced b c \<Longrightarrow> ntf_advanced a c"
  by (auto simp: ntf_advanced_def)

lemma notifications_advanced_refl [simp]: "notifications_advanced rs rs"
  by (simp add: notifications_advanced_def list_all2_refl)

lemma notifications_advanced_trans:
  "notifications_advanced a b \<Longrightarrow> notifications_advanced b c \<Longrightarrow> notifications_advanced a c"
  unfolding notifications_advanced_def by (rule list_all2_trans [OF ntf_advanced_trans])

lemma notifications_advanced_ids:
  "notifications_advanced rs rs' \<Longrightarrow>
   map (\<lambda>r. (ntf_id r, ntf_message_id r)) rs' = map (\<lambda>r. (ntf_id r, ntf_message_id r)) rs"
  unfolding notifications_advanced_def
  by (induction rs rs' rule: list_all2_induct) (auto simp: ntf_advanced_def)

lemma cast_notification_status:
  "pg_enum_cast MailNotificationStatus_show MailNotificationStatus_from_str t = Some st \<longleftrightarrow>
   t = MailNotificationStatus_show st"
  using mail_notification_status.cast_iff by auto

lemma rank_of_show: "messaging_status_rank (MailNotificationStatus_show st) = Some (ntf_rank st)"
  using notification_rank [of st] by (auto simp: ntf_rank_def)

lemma advance_match_show:
  "advance_match n (MailNotificationStatus_show st) r \<longleftrightarrow>
   ntf_id r = n \<and> ntf_rank (ntf_status r) < ntf_rank st"
  by (simp add: advance_match_def)

text \<open>The two ways an advance returns: no row matched, or one status was set.\<close>

lemma advance_Inr:
  assumes "advance_notification_status n target ft reason now d = Inr (res, d')"
  obtains "\<not> list_ex (advance_match n target) (notifications d)" and "res = None" and "d' = d"
  | st f where "target = MailNotificationStatus_show st"
      and "list_ex (advance_match n target) (notifications d)"
      and "d' = d\<lparr>notifications := map (\<lambda>r. if advance_match n target r
             then advance_set st f reason now r else r) (notifications d)\<rparr>"
      and "\<forall>r\<in>set (notifications d). advance_match n target r \<longrightarrow>
             notification_trigger_ok r (advance_set st f reason now r)"
      and "res = Some target"
proof (cases "list_ex (advance_match n target) (notifications d)")
  case False
  with assms have "res = None" and "d' = d" by (simp_all add: advance_notification_status_def)
  then show ?thesis by (rule that(1) [OF False])
next
  case True
  let ?cast = "pg_enum_cast MailNotificationStatus_show MailNotificationStatus_from_str target"
  let ?ft = "cast_opt (pg_enum_cast NotificationFailureType_show NotificationFailureType_from_str) ft"
  from assms True have c: "(case (?cast, ?ft) of
             (None, _) \<Rightarrow> Inl (BadCast target)
           | (_, Inl e) \<Rightarrow> Inl e
           | (Some st, Inr ft) \<Rightarrow>
               (case sql_update (advance_match n target) (advance_set st ft reason now)
                       notification_trigger_ok (notifications d) of
                  Inl e \<Rightarrow> Inl e
                | Inr (rs, rows) \<Rightarrow>
                    Inr (case rs of [] \<Rightarrow> None
                         | r # _ \<Rightarrow> Some (MailNotificationStatus_show (ntf_status r)),
                         d\<lparr>notifications := rows\<rparr>))) = Inr (res, d')"
    by (simp only: advance_notification_status_def not_not if_False simp_thms)
  from c obtain st where cast: "?cast = Some st" by (cases ?cast) simp_all
  from c cast obtain f where f: "?ft = Inr f" by (cases ?ft) simp_all
  from cast have st: "target = MailNotificationStatus_show st" by (simp only: cast_notification_status)
  let ?q = "sql_update (advance_match n target) (advance_set st f reason now)
      notification_trigger_ok (notifications d)"
  from c cast f obtain b where b: "?q = Inr b" by (cases ?q) simp_all
  obtain rs rows where rr: "b = (rs, rows)" by (cases b)
  from b rr have u: "?q = Inr (rs, rows)" by simp
  from c cast f u have d': "d' = d\<lparr>notifications := rows\<rparr>" and
    res: "res = (case rs of [] \<Rightarrow> None | r # _ \<Rightarrow> Some (MailNotificationStatus_show (ntf_status r)))"
    by simp_all
  from sql_update_Inr [OF u] have
    rs: "rs = map (advance_set st f reason now) (filter (advance_match n target) (notifications d))"
    and rows: "rows = map (\<lambda>r. if advance_match n target r then advance_set st f reason now r else r)
       (notifications d)"
    and ok: "\<forall>r\<in>set (notifications d). advance_match n target r \<longrightarrow>
       notification_trigger_ok r (advance_set st f reason now r)" by auto
  from True have "filter (advance_match n target) (notifications d) \<noteq> []"
    by (auto simp: list_ex_iff filter_empty_conv)
  then have "res = Some target"
    using rs res st by (cases "filter (advance_match n target) (notifications d)")
      (simp_all add: advance_set_def)
  with that(2) [OF st True _ ok] d' rows show ?thesis by simp
qed

lemma advance_advances:
  assumes "advance_notification_status n target ft reason now d = Inr (res, d')"
  shows "notifications_advanced (notifications d) (notifications d')"
    and "\<exists>rows. d' = d\<lparr>notifications := rows\<rparr>"
    and "target = MailNotificationStatus_show st \<Longrightarrow> r \<in> set (notifications d') \<Longrightarrow>
         ntf_id r = n \<Longrightarrow> ntf_rank st \<le> ntf_rank (ntf_status r)"
proof -
  show "notifications_advanced (notifications d) (notifications d')"
    using assms
  proof (rule advance_Inr)
    fix st f
    assume t: "target = MailNotificationStatus_show st" and
      d: "d' = d\<lparr>notifications := map (\<lambda>r. if advance_match n target r
             then advance_set st f reason now r else r) (notifications d)\<rparr>"
    have "ntf_advanced r (if advance_match n target r then advance_set st f reason now r else r)" for r
      by (simp add: t advance_match_show advance_set_def ntf_advanced_def)
    then show ?thesis
      unfolding notifications_advanced_def d by (simp add: list_all2_map_same)
  qed simp
  show "\<exists>rows. d' = d\<lparr>notifications := rows\<rparr>"
    using assms by (rule advance_Inr) (auto intro: exI [of _ "notifications d"])
  show "ntf_rank st \<le> ntf_rank (ntf_status r)"
    if "target = MailNotificationStatus_show st" "r \<in> set (notifications d')" "ntf_id r = n"
    using assms
  proof (rule advance_Inr)
    assume "\<not> list_ex (advance_match n target) (notifications d)" and "d' = d"
    with that show ?thesis by (auto simp: list_ex_iff advance_match_show not_less)
  next
    fix st' f
    assume t: "target = MailNotificationStatus_show st'" and
      d: "d' = d\<lparr>notifications := map (\<lambda>r. if advance_match n target r
             then advance_set st' f reason now r else r) (notifications d)\<rparr>"
    from t that(1) have e: "ntf_rank st' = ntf_rank st" by (simp add: ntf_rank_def)
    let ?g = "\<lambda>r0. if advance_match n target r0 then advance_set st' f reason now r0 else r0"
    from that(2) d have "r \<in> ?g ` set (notifications d)" by simp
    then obtain r0 where r: "r = ?g r0" by (rule imageE)
    show ?thesis
    proof (cases "advance_match n target r0")
      case True
      with r e show ?thesis by (simp add: advance_set_def)
    next
      case False
      with r have "r = r0" by simp
      with False that(3) e show ?thesis by (simp add: t advance_match_show not_less)
    qed
  qed
qed

text \<open>The pump is monotonic (SM-B6).  Whatever target it is given, a notification it touches moves
  strictly up the ladder ready, process, pending, sent, terminal and keeps its message, partner,
  channel and mail; every other notification and every other table is unchanged.\<close>

lemma notification_pump_monotonic:
  assumes "advance_notification_status n target ft reason now d = Inr (res, d')"
  shows "\<exists>rows. d' = d\<lparr>notifications := rows\<rparr> \<and>
    list_all2 (\<lambda>r r'. r' = r \<or> ntf_id r = n \<and> ntf_advanced r r') (notifications d) rows"
  using assms
proof (rule advance_Inr)
  assume "d' = d"
  then show ?thesis by (intro exI [of _ "notifications d"]) (simp add: list_all2_same)
next
  fix st f
  assume t: "target = MailNotificationStatus_show st" and
    d: "d' = d\<lparr>notifications := map (\<lambda>r. if advance_match n target r
           then advance_set st f reason now r else r) (notifications d)\<rparr>"
  let ?g = "\<lambda>r. if advance_match n target r then advance_set st f reason now r else r"
  have "?g r = r \<or> ntf_id r = n \<and> ntf_advanced r (?g r)" for r
    by (simp add: t advance_match_show advance_set_def ntf_advanced_def)
  then show ?thesis
    by (intro exI [of _ "map ?g (notifications d)"] conjI d list_all2_map_same)
qed

text \<open>A terminal notification is terminal: once a status is bounce, exception or canceled, no
  advance to any target changes the row, and the writer reports that nothing happened.\<close>

lemma terminal_notification_frozen:
  assumes "\<forall>r\<in>set (notifications d). ntf_id r = n \<longrightarrow> ntf_status r \<in>
      {MailNotificationStatus.Bounce, MailNotificationStatus.Exception, MailNotificationStatus.Canceled}"
  shows "advance_notification_status n target ft reason now d = Inr (None, d)"
proof -
  have "messaging_status_rank target = None \<or> the (messaging_status_rank target) \<le> 100"
    by (simp add: messaging_status_rank_def)
  with assms have "\<not> list_ex (advance_match n target) (notifications d)"
    by (fastforce simp: list_ex_iff advance_match_def rank_lt_def split: option.splits)
  then show ?thesis by (simp add: advance_notification_status_def)
qed

section \<open>The properties at concrete inputs\<close>

definition pump_db :: "MailNotificationStatus \<Rightarrow> db" where
  "pump_db st = empty_db\<lparr>notifications := [sample_notification 3 None st]\<rparr>"

lemma notification_pump_monotonic_witness:
  "\<exists>rows. snd (projr (advance_notification_status 3 ''sent'' None None 9 (pump_db MailNotificationStatus.Ready))) =
      (pump_db MailNotificationStatus.Ready)\<lparr>notifications := rows\<rparr> \<and>
    list_all2 (\<lambda>r r'. r' = r \<or> ntf_id r = 3 \<and> ntf_advanced r r')
      (notifications (pump_db MailNotificationStatus.Ready)) rows \<and>
    map ntf_status rows = [MailNotificationStatus.Sent]"
proof -
  let ?d = "pump_db MailNotificationStatus.Ready"
  let ?r = "advance_notification_status 3 ''sent'' None None 9 ?d"
  have "\<not> isl ?r" and s: "map ntf_status (notifications (snd (projr ?r))) = [MailNotificationStatus.Sent]"
    by code_simp+
  then have "?r = Inr (fst (projr ?r), snd (projr ?r))" by (cases ?r) simp_all
  from notification_pump_monotonic [OF this] s show ?thesis by auto
qed

lemma terminal_notification_frozen_witness:
  "advance_notification_status 3 ''sent'' None None 9 (pump_db MailNotificationStatus.Bounce) =
   Inr (None, pump_db MailNotificationStatus.Bounce)"
  by (rule terminal_notification_frozen) code_simp

end
