(* ===== verification/MailVerdicts.thy ===== *)
theory MailVerdicts
  imports MailQueue NotificationPump
begin

text \<open>
  Verdicts on queued mails and the notifications linked to them
  (\<open>mark_sent\<close>, \<open>mark_failed\<close>, \<open>requeue\<close>, \<open>enqueue\<close> of \<open>mail_queue_write_service.rs\<close>), and what the
  claim promises to concurrent drains.
\<close>

section \<open>The linked notifications\<close>

lemma stage_bus_same:
  "stage_bus_event et at aid ch mt pl v w = (Inr u, w') \<Longrightarrow>
   notifications (db w') = notifications (db w) \<and> mails (db w') = mails (db w)"
  by (erule stage_bus_event_InrE) simp

lemma advance_linked_one_Inr:
  assumes "advance_linked_one i target ft reason u p v w = (Inr u', w')"
    and "target = MailNotificationStatus_show st"
  shows "notifications_advanced (notifications (db w)) (notifications (db w')) \<and>
    mails (db w') = mails (db w) \<and>
    (\<forall>r\<in>set (notifications (db w')). ntf_id r = fst p \<longrightarrow> ntf_rank st \<le> ntf_rank (ntf_status r))"
proof -
  from assms(1) obtain adv w1 where
    a: "lift MqDb (stmt_now (advance_notification_status (fst p) target ft reason)) v w = (Inr adv, w1)"
    and rest: "(case adv of None \<Rightarrow> ret ()
     | Some new_status \<Rightarrow>
         lift MqDb (stage_bus_event ''NotificationStatusChanged'' ''MailNotification''
           (uuid_text v (fst p))
           (case snd p of Some p \<Rightarrow> partner_channel (uuid_text v) p | None \<Rightarrow> ''mail_'' @ uuid_text v i)
           ''NotificationStatusChanged''
           (JObject [(''notification_id'', JString (uuid_text v (fst p))),
                     (''mail_id'', JString (uuid_text v i)),
                     (''notification_status'', JString new_status)]))) v w1 = (Inr u', w')"
    unfolding advance_linked_one_def by (elim bindA_InrE ask_InrE) (hypsubst, rule that)
  from a have s: "advance_notification_status (fst p) target ft reason (tx_start w) (db w) =
      Inr (adv, db w1)" by (elim lift_InrE stmt_now_InrE)
  have same: "notifications (db w') = notifications (db w1) \<and> mails (db w') = mails (db w1)"
  proof (cases adv)
    case None
    with rest show ?thesis by (simp add: ret_def)
  next
    case (Some x)
    with rest show ?thesis by (simp only: option.case) (erule lift_InrE, erule stage_bus_same)
  qed
  from advance_advances(2) [OF s] have "mails (db w1) = mails (db w)" by auto
  with advance_advances(1) [OF s] advance_advances(3) [OF s assms(2)] same show ?thesis by auto
qed

lemma linked_ranks_up:
  assumes "notifications_advanced rs rs'" and "\<forall>r\<in>set rs. ntf_id r = n \<longrightarrow> k \<le> ntf_rank (ntf_status r)"
  shows "\<forall>r\<in>set rs'. ntf_id r = n \<longrightarrow> k \<le> ntf_rank (ntf_status r)"
  using assms unfolding notifications_advanced_def
proof (induction rs rs' rule: list_all2_induct)
  case (Cons r rs r' rs')
  then show ?case by (auto simp: ntf_advanced_def)
qed simp

lemma foldA_advance_linked:
  assumes "foldA (advance_linked_one i target ft reason) u ps v w = (Inr u', w')"
    and "target = MailNotificationStatus_show st"
  shows "notifications_advanced (notifications (db w)) (notifications (db w')) \<and>
    mails (db w') = mails (db w) \<and>
    (\<forall>p\<in>set ps. \<forall>r\<in>set (notifications (db w')).
       ntf_id r = fst p \<longrightarrow> ntf_rank st \<le> ntf_rank (ntf_status r))"
  using assms(1)
proof (induction ps arbitrary: u w)
  case Nil
  then show ?case by (simp add: ret_def)
next
  case (Cons p ps)
  from Cons.prems obtain u1 w1 where
    1: "advance_linked_one i target ft reason u p v w = (Inr u1, w1)"
      "foldA (advance_linked_one i target ft reason) u1 ps v w1 = (Inr u', w')"
    by (auto elim: bindA_InrE)
  from advance_linked_one_Inr [OF 1(1) assms(2)] have 2:
    "notifications_advanced (notifications (db w)) (notifications (db w1))"
    "mails (db w1) = mails (db w)"
    "\<forall>r\<in>set (notifications (db w1)). ntf_id r = fst p \<longrightarrow> ntf_rank st \<le> ntf_rank (ntf_status r)"
    by auto
  from Cons.IH [OF 1(2)] have 3:
    "notifications_advanced (notifications (db w1)) (notifications (db w'))"
    "mails (db w') = mails (db w1)"
    "\<forall>p\<in>set ps. \<forall>r\<in>set (notifications (db w')).
       ntf_id r = fst p \<longrightarrow> ntf_rank st \<le> ntf_rank (ntf_status r)" by auto
  from linked_ranks_up [OF 3(1) 2(3)] notifications_advanced_trans [OF 2(1) 3(1)] 2 3
  show ?case by simp
qed

lemma advanced_linked:
  assumes "notifications_advanced rs rs'" and "r' \<in> set rs'"
  obtains r where "r \<in> set rs" and "ntf_id r' = ntf_id r" and "ntf_mail_id r' = ntf_mail_id r"
  using assms unfolding notifications_advanced_def
  by (metis (no_types, lifting) in_set_conv_nth list_all2_conv_all_nth ntf_advanced_def)

lemma advance_linked_Inr:
  assumes "advance_linked_notifications i target ft reason v w = (Inr u, w')"
    and "target = MailNotificationStatus_show st"
  shows "notifications_advanced (notifications (db w)) (notifications (db w')) \<and>
    mails (db w') = mails (db w) \<and>
    (\<forall>r\<in>set (notifications (db w')). ntf_mail_id r = Some i \<longrightarrow> ntf_rank st \<le> ntf_rank (ntf_status r))"
proof -
  from assms(1) obtain ps w1 where
    1: "lift MqDb (stmt (reading (linked_notifications i))) v w = (Inr ps, w1)"
      "foldA (advance_linked_one i target ft reason) () ps v w1 = (Inr u, w')"
    unfolding advance_linked_notifications_def by (elim bindA_InrE) (rule that)
  from 1(1) have ps: "ps = linked_notifications i (db w)" "db w1 = db w"
    by (auto simp: reading_def elim!: lift_InrE stmt_InrE)
  from foldA_advance_linked [OF 1(2) assms(2)] ps(2) have 2:
    "notifications_advanced (notifications (db w)) (notifications (db w'))"
    "mails (db w') = mails (db w)"
    "\<forall>p\<in>set ps. \<forall>r\<in>set (notifications (db w')).
       ntf_id r = fst p \<longrightarrow> ntf_rank st \<le> ntf_rank (ntf_status r)" by auto
  have "ntf_rank st \<le> ntf_rank (ntf_status r')"
    if r': "r' \<in> set (notifications (db w'))" "ntf_mail_id r' = Some i" for r'
  proof -
    from advanced_linked [OF 2(1) r'(1)] obtain r where
      "r \<in> set (notifications (db w))" "ntf_id r' = ntf_id r" "ntf_mail_id r' = ntf_mail_id r" .
    with r'(2) have "(ntf_id r', ntf_partner r) \<in> set ps"
      unfolding ps(1) linked_notifications_def by force
    with 2(3) r'(1) show ?thesis by force
  qed
  with 2 show ?thesis by simp
qed

lemma straight_linked [straight_intros]: "straight (advance_linked_notifications i t ft reason)"
  unfolding advance_linked_notifications_def advance_linked_one_def by (intro straight_intros)

text \<open>Both callbacks: the guarded update of the mail, and the pump when it matched.\<close>

lemma mark_sent_Inr:
  assumes "mail_mark_sent i v w = (Inr b, w')"
  obtains d1 where "mail_repo_mark_sent i (db w) = Inr (b, d1)"
    and "mails (db w') = mails d1"
    and "notifications_advanced (notifications d1) (notifications (db w'))"
    and "b \<Longrightarrow> \<forall>r\<in>set (notifications (db w')). ntf_mail_id r = Some i \<longrightarrow> 2 \<le> ntf_rank (ntf_status r)"
    and "\<not> b \<Longrightarrow> db w' = d1"
proof -
  let ?body = "bindA (lift MqDb (stmt (mail_repo_mark_sent i))) (\<lambda>advanced.
       if advanced
       then bindA (advance_linked_notifications i ''pending'' None None) (\<lambda>_. ret advanced)
       else ret advanced)"
  have "straight ?body" by (intro straight_intros)
  with assms obtain w1 where b: "?body v (begin_tx v w) = (Inr b, w1)" and w1: "db w' = db w1"
    unfolding mail_mark_sent_def by (rule in_tx_straight)
  from b obtain b1 w2 where 1: "lift MqDb (stmt (mail_repo_mark_sent i)) v (begin_tx v w) = (Inr b1, w2)"
    and 2: "(if b1 then bindA (advance_linked_notifications i ''pending'' None None) (\<lambda>_. ret b1)
       else ret b1) v w2 = (Inr b, w1)" by (elim bindA_InrE) (rule that)
  from 1 have s: "mail_repo_mark_sent i (db w) = Inr (b1, db w2)" by (auto elim!: lift_InrE stmt_InrE)
  show ?thesis
  proof (cases b1)
    case False
    with 2 have "b = b1" "w1 = w2" by (simp_all add: ret_def)
    with s w1 False show ?thesis by (intro that [of "db w2"]) simp_all
  next
    case True
    from 2 True obtain u where b1: "b" and
      l: "advance_linked_notifications i ''pending'' None None v w2 = (Inr u, w1)"
      by (auto elim!: bindA_InrE ret_InrE)
    from advance_linked_Inr [OF l, of MailNotificationStatus.Pending] have
      "mails (db w1) = mails (db w2)"
      "notifications_advanced (notifications (db w2)) (notifications (db w1))"
      "\<forall>r\<in>set (notifications (db w1)). ntf_mail_id r = Some i \<longrightarrow> 2 \<le> ntf_rank (ntf_status r)"
      by simp_all
    with that [of "db w2"] s w1 True b1 show ?thesis by simp
  qed
qed

lemma mark_failed_Inr:
  assumes "mail_mark_failed i ft reason v w = (Inr b, w')"
  obtains d1 where "mail_repo_mark_failed i ft reason (db w) = Inr (b, d1)"
    and "mails (db w') = mails d1"
    and "notifications_advanced (notifications d1) (notifications (db w'))"
    and "b \<Longrightarrow> \<forall>r\<in>set (notifications (db w')). ntf_mail_id r = Some i \<longrightarrow> 100 \<le> ntf_rank (ntf_status r)"
    and "\<not> b \<Longrightarrow> db w' = d1"
proof -
  let ?body = "bindA (lift MqDb (stmt (mail_repo_mark_failed i ft reason))) (\<lambda>advanced.
       if advanced
       then bindA (advance_linked_notifications i ''exception'' (Some ft) reason) (\<lambda>_. ret advanced)
       else ret advanced)"
  have "straight ?body" by (intro straight_intros)
  with assms obtain w1 where b: "?body v (begin_tx v w) = (Inr b, w1)" and w1: "db w' = db w1"
    unfolding mail_mark_failed_def by (rule in_tx_straight)
  from b obtain b1 w2 where
    1: "lift MqDb (stmt (mail_repo_mark_failed i ft reason)) v (begin_tx v w) = (Inr b1, w2)"
    and 2: "(if b1 then bindA (advance_linked_notifications i ''exception'' (Some ft) reason) (\<lambda>_. ret b1)
       else ret b1) v w2 = (Inr b, w1)" by (elim bindA_InrE) (rule that)
  from 1 have s: "mail_repo_mark_failed i ft reason (db w) = Inr (b1, db w2)"
    by (auto elim!: lift_InrE stmt_InrE)
  show ?thesis
  proof (cases b1)
    case False
    with 2 have "b = b1" "w1 = w2" by (simp_all add: ret_def)
    with s w1 False show ?thesis by (intro that [of "db w2"]) simp_all
  next
    case True
    from 2 True obtain u where b1: "b" and
      l: "advance_linked_notifications i ''exception'' (Some ft) reason v w2 = (Inr u, w1)"
      by (auto elim!: bindA_InrE ret_InrE)
    from advance_linked_Inr [OF l, of MailNotificationStatus.Exception] have
      "mails (db w1) = mails (db w2)"
      "notifications_advanced (notifications (db w2)) (notifications (db w1))"
      "\<forall>r\<in>set (notifications (db w1)). ntf_mail_id r = Some i \<longrightarrow> 100 \<le> ntf_rank (ntf_status r)"
      by simp_all
    with that [of "db w2"] s w1 True b1 show ?thesis by simp
  qed
qed

section \<open>Properties of the callbacks\<close>

text \<open>A verdict reaches every recipient.  When \<open>mark_failed\<close> takes effect, each notification linked
  to the mail is terminal afterwards (bounce, exception or canceled); when \<open>mark_sent\<close> takes effect,
  each is pending or further.\<close>

lemma verdict_reaches_notifications:
  "(mail_mark_failed i ft reason v w = (Inr True, w') \<longrightarrow>
     (\<forall>r\<in>set (notifications (db w')). ntf_mail_id r = Some i \<longrightarrow> ntf_status r \<in>
        {MailNotificationStatus.Bounce, MailNotificationStatus.Exception, MailNotificationStatus.Canceled})) \<and>
   (mail_mark_sent i v w = (Inr True, w') \<longrightarrow>
     (\<forall>r\<in>set (notifications (db w')). ntf_mail_id r = Some i \<longrightarrow>
        ntf_status r \<notin> {MailNotificationStatus.Ready, MailNotificationStatus.Process}))"
proof (intro conjI impI ballI)
  have high: "100 \<le> ntf_rank s \<Longrightarrow> s \<in> {MailNotificationStatus.Bounce,
      MailNotificationStatus.Exception, MailNotificationStatus.Canceled}" for s
    by (cases s) simp_all
  fix r assume "mail_mark_failed i ft reason v w = (Inr True, w')"
    and "r \<in> set (notifications (db w'))" and "ntf_mail_id r = Some i"
  then have "100 \<le> ntf_rank (ntf_status r)" by (elim mark_failed_Inr) simp
  then show "ntf_status r \<in> {MailNotificationStatus.Bounce, MailNotificationStatus.Exception,
      MailNotificationStatus.Canceled}" by (rule high)
next
  have mid: "2 \<le> ntf_rank s \<Longrightarrow> s \<notin> {MailNotificationStatus.Ready, MailNotificationStatus.Process}" for s
    by (cases s) simp_all
  fix r assume "mail_mark_sent i v w = (Inr True, w')"
    and "r \<in> set (notifications (db w'))" and "ntf_mail_id r = Some i"
  then have "2 \<le> ntf_rank (ntf_status r)" by (elim mark_sent_Inr) simp
  then show "ntf_status r \<notin> {MailNotificationStatus.Ready, MailNotificationStatus.Process}" by (rule mid)
qed

lemma repo_mark_sent_Inr:
  assumes "mail_repo_mark_sent i d = Inr (b, d')"
  shows "(b \<longleftrightarrow> list_ex (mail_open_match i) (mails d)) \<and>
    d' = d\<lparr>mails := map (\<lambda>r. if mail_open_match i r
       then r\<lparr>mail_state := MailState.Sent, mail_failure_type := None, mail_failure_reason := None\<rparr>
       else r) (mails d)\<rparr>"
proof -
  from assms obtain rs rows where
    u: "sql_update (mail_open_match i) (\<lambda>r. r\<lparr>mail_state := MailState.Sent, mail_failure_type := None,
       mail_failure_reason := None\<rparr>) mail_trigger_ok (mails d) = Inr (rs, rows)"
    and b: "b = (rs \<noteq> [])" "d' = d\<lparr>mails := rows\<rparr>"
    by (auto simp: mail_repo_mark_sent_def split: sum.splits)
  from sql_update_Inr [OF u] b show ?thesis by (auto simp: filter_empty_conv list_ex_iff)
qed

text \<open>The sent callback is guarded by the state and idempotent.  It reports true exactly when the
  mail was outgoing or in exception, and then exactly that mail becomes sent with its failure
  cleared; a redelivered callback reports false and changes nothing.\<close>

lemma mark_sent_guarded:
  assumes "mail_mark_sent i v w = (Inr b, w')"
  shows "(b \<longleftrightarrow> list_ex (mail_open_match i) (mails (db w))) \<and>
    mails (db w') = map (\<lambda>r. if mail_open_match i r
       then r\<lparr>mail_state := MailState.Sent, mail_failure_type := None, mail_failure_reason := None\<rparr>
       else r) (mails (db w)) \<and>
    (\<forall>v' b' w''. mail_mark_sent i v' w' = (Inr b', w'') \<longrightarrow> \<not> b' \<and> db w'' = db w')"
proof -
  from assms obtain d1 where 1: "mail_repo_mark_sent i (db w) = Inr (b, d1)" "mails (db w') = mails d1"
    by (rule mark_sent_Inr)
  from repo_mark_sent_Inr [OF 1(1)] 1(2) have
    b: "b \<longleftrightarrow> list_ex (mail_open_match i) (mails (db w))" and
    m: "mails (db w') = map (\<lambda>r. if mail_open_match i r
       then r\<lparr>mail_state := MailState.Sent, mail_failure_type := None, mail_failure_reason := None\<rparr>
       else r) (mails (db w))" by simp_all
  have none: "\<not> list_ex (mail_open_match i) (mails (db w'))"
  proof -
    let ?g = "\<lambda>r. if mail_open_match i r
       then r\<lparr>mail_state := MailState.Sent, mail_failure_type := None, mail_failure_reason := None\<rparr> else r"
    have "\<not> mail_open_match i (?g r)" for r by (simp add: mail_open_match_def)
    then have "list_all (\<lambda>r. \<not> mail_open_match i r) (map ?g (mails (db w)))"
      unfolding list_all_iff set_map by (intro ballI, elim imageE) (simp only:)
    then show ?thesis unfolding m by (simp only: list_ex_iff list_all_iff) blast
  qed
  then have id: "map (\<lambda>r. if mail_open_match i r
       then r\<lparr>mail_state := MailState.Sent, mail_failure_type := None, mail_failure_reason := None\<rparr>
       else r) (mails (db w')) = mails (db w')"
    by (intro map_idI) (auto simp: list_ex_iff)
  have "\<not> b' \<and> db w'' = db w'" if "mail_mark_sent i v' w' = (Inr b', w'')" for v' b' w''
    using that
  proof (rule mark_sent_Inr)
    fix d2 assume r: "mail_repo_mark_sent i (db w') = Inr (b', d2)" and e: "\<not> b' \<Longrightarrow> db w'' = d2"
    from repo_mark_sent_Inr [OF r] none id have "\<not> b'" and "d2 = db w'" by simp_all
    with e show ?thesis by simp
  qed
  with b m show ?thesis by blast
qed

text \<open>A requeue is the only way back into the queue and takes only failed mails: it reports true
  exactly when the mail is in exception, makes exactly that mail outgoing with its failure cleared,
  and leaves the notifications (whose failure stays visible) and every other table alone.\<close>

lemma requeue_only_failed:
  assumes "mail_requeue i v w = (Inr b, w')"
  shows "(b \<longleftrightarrow> (\<exists>r\<in>set (mails (db w)). mail_id r = i \<and> mail_state r = MailState.Exception)) \<and>
    db w' = (db w)\<lparr>mails := map (\<lambda>r. if mail_id r = i \<and> mail_state r = MailState.Exception
           then r\<lparr>mail_state := MailState.Outgoing, mail_failure_type := None, mail_failure_reason := None\<rparr>
           else r) (mails (db w))\<rparr>"
proof -
  have "straight (lift MqDb (stmt (mail_repo_requeue i)))" by (intro straight_intros)
  with assms obtain w1 where 1: "lift MqDb (stmt (mail_repo_requeue i)) v (begin_tx v w) = (Inr b, w1)"
    and w1: "db w' = db w1" unfolding mail_requeue_def by (rule in_tx_straight)
  from 1 have "mail_repo_requeue i (db w) = Inr (b, db w1)" by (auto elim!: lift_InrE stmt_InrE)
  then obtain rs rows where
    u: "sql_update (\<lambda>r. mail_id r = i \<and> mail_state r = MailState.Exception)
             (\<lambda>r. r\<lparr>mail_state := MailState.Outgoing, mail_failure_type := None,
                    mail_failure_reason := None\<rparr>) mail_trigger_ok (mails (db w)) = Inr (rs, rows)"
    and b: "b = (rs \<noteq> [])" "db w1 = (db w)\<lparr>mails := rows\<rparr>"
    by (auto simp: mail_repo_requeue_def split: sum.splits)
  from sql_update_Inr [OF u] b w1 show ?thesis by (auto simp: filter_empty_conv)
qed

text \<open>Concurrent drains claim disjoint sets (MMB-4).  A claim skips every row another transaction
  holds locked, and a row of a committed claim is not claimable again, so two claims never hand out
  the same mail, whether the second runs beside the first or after it.\<close>

lemma claims_are_disjoint:
  assumes "mail_claim_batch_for_drain b1 now1 l1 d = Inr (rows1, d1)" and "mails_distinct d"
    and "mail_claim_batch_for_drain b2 now2 l2 d2 = Inr (rows2, d3)" and "mails_distinct d2"
    and "(\<forall>x\<in>set rows1. l2 (qr_id x)) \<or> outgoing_mails d2 \<subseteq> outgoing_mails d1"
  shows "set (map qr_id rows1) \<inter> set (map qr_id rows2) = {}"
  using assms(5)
proof
  assume "\<forall>x\<in>set rows1. l2 (qr_id x)"
  with claim_takes(4) [OF assms(3,4)] show ?thesis by fastforce
next
  assume "outgoing_mails d2 \<subseteq> outgoing_mails d1"
  with claim_takes(2) [OF assms(1,2)] claim_takes(2) [OF assms(3,4)] show ?thesis by blast
qed

text \<open>The failure vocabulary is closed.  Whatever code a transport reports, the code the drain
  writes is a value of both database enums it is cast to, so no adapter can make the drain fail with
  a cast error.\<close>

lemma failure_type_castable:
  "\<exists>m n. pg_enum_cast MailFailureType_show MailFailureType_from_str (normalize_failure_type raw) = Some m \<and>
     pg_enum_cast NotificationFailureType_show NotificationFailureType_from_str
       (normalize_failure_type raw) = Some n \<and>
     MailFailureType_show m = NotificationFailureType_show n"
proof -
  have "normalize_failure_type raw \<in> MailFailureType_show ` {MailFailureType.MailSmtp,
      MailFailureType.MailEmailInvalid, MailFailureType.MailBounce, MailFailureType.MailBlacklist,
      MailFailureType.MailRecipient, MailFailureType.MailServer, MailFailureType.Unknown}"
    unfolding normalize_failure_type_def by simp
  then obtain m where m: "normalize_failure_type raw = MailFailureType_show m"
    by (rule imageE)
  have "MailFailureType_show m \<in> NotificationFailureType_show ` {NotificationFailureType.MailSmtp,
      NotificationFailureType.MailEmailInvalid, NotificationFailureType.MailBounce,
      NotificationFailureType.MailBlacklist, NotificationFailureType.MailRecipient,
      NotificationFailureType.MailServer, NotificationFailureType.Unknown}"
    by (cases m) simp_all
  then obtain n where "MailFailureType_show m = NotificationFailureType_show n" by (rule imageE)
  with m show ?thesis
    by (intro exI [of _ m] exI [of _ n])
      (simp add: mail_failure_type.cast_iff notification_failure_type.cast_iff)
qed

section \<open>Monotonicity across the queue, and the way in\<close>

lemma repo_notifications:
  "mail_repo_mark_sent i d = Inr (x, d') \<Longrightarrow> notifications d' = notifications d"
  "mail_repo_mark_failed i ft reason d = Inr (x, d') \<Longrightarrow> notifications d' = notifications d"
  "mail_repo_requeue i d = Inr (x, d') \<Longrightarrow> notifications d' = notifications d"
  "mail_claim_batch_for_drain batch now l d = Inr (rows, d') \<Longrightarrow> notifications d' = notifications d"
  "mail_queue_enqueue i mid email_to cc rt hs sd d = Inr (u, d') \<Longrightarrow> notifications d' = notifications d"
  by (auto simp: mail_repo_mark_sent_def mail_repo_mark_failed_def mail_repo_requeue_def
      mail_claim_batch_for_drain_def mail_queue_enqueue_def
      split: sum.splits if_splits option.splits)

lemma keeps_advanced_linked:
  "keeps (\<lambda>d. notifications_advanced N (notifications d)) (advance_linked_notifications i t ft reason)"
  by (rule keeps_advance_linked) (auto dest: advance_advances(1) intro: notifications_advanced_trans)

lemma keeps_advanced_marks:
  "keeps (\<lambda>d. notifications_advanced N (notifications d)) (mail_mark_sent i)"
  "keeps (\<lambda>d. notifications_advanced N (notifications d)) (mail_mark_failed i ft reason)"
  "keeps (\<lambda>d. notifications_advanced N (notifications d)) (mail_requeue i)"
  unfolding mail_mark_sent_def mail_mark_failed_def mail_requeue_def
  by (intro keeps_intros keeps_stmt keeps_advanced_linked, simp only: repo_notifications)+

lemma keeps_advanced_claim: "keeps (\<lambda>d. notifications_advanced N (notifications d)) (mail_claim_tx batch)"
  unfolding mail_claim_tx_def
  by (intro keeps_intros keeps_stmt_locked keeps_stage_dispatch) (simp_all add: repo_notifications)

text \<open>The mail queue never regresses a notification.  After any drain, callback or requeue, under any
  faults and any answers of the transport, the notifications are those of before, in order, each
  unchanged or strictly further up the ladder; none is lost, added or re-addressed.\<close>

lemma mail_queue_monotonic:
  "keeps (\<lambda>d. notifications_advanced N (notifications d)) (mail_process_queue fuel port batch mx) \<and>
   keeps (\<lambda>d. notifications_advanced N (notifications d)) (mail_mark_sent i) \<and>
   keeps (\<lambda>d. notifications_advanced N (notifications d)) (mail_mark_failed i ft reason) \<and>
   keeps (\<lambda>d. notifications_advanced N (notifications d)) (mail_requeue i)"
  unfolding mail_process_queue_def mail_step_def
  by (intro conjI keeps_drain_loop keeps_advanced_claim keeps_intros keeps_advanced_marks keeps_mail_send)

lemma mail_queue_enqueue_Inr:
  assumes "mail_queue_enqueue i mid email_to cc rt hs sd d = Inr (u, d')"
  obtains q where "d' = d\<lparr>mails := mails d @ [q]\<rparr>" and "mail_id q = i" and "mail_message_id q = mid"
    and "mail_state q = MailState.Outgoing" and "mail_headers q = hs"
    and "mail_email_to q = Some email_to" and "mail_scheduled_date q = sd"
    and "i \<notin> mail_id ` set (mails d)" and "mid \<in> set (message_ids d)"
  using assms by (auto simp: mail_queue_enqueue_def intro!: that split: if_splits)

definition mail_enqueued ::
  "uuid \<Rightarrow> string \<Rightarrow> time option \<Rightarrow> uuid \<Rightarrow> db \<Rightarrow> db \<Rightarrow> bool" where
  "mail_enqueued mid email_to sd i d d' \<longleftrightarrow>
     (\<exists>q ev hs. d' = d\<lparr>mails := mails d @ [q], outbox := outbox d @ [ev]\<rparr> \<and> mail_id q = i \<and>
        mail_message_id q = mid \<and> mail_state q = MailState.Outgoing \<and>
        mail_email_to q = Some email_to \<and> mail_scheduled_date q = sd \<and>
        mail_headers_from_json (mail_headers q) = Inr hs \<and> event_type ev = ''MailQueued'' \<and>
        i \<notin> mail_id ` set (mails d))"

text \<open>The transaction of an enqueue, with the id \<open>i\<close> already drawn.\<close>

definition enqueue_tx ::
  "uuid \<Rightarrow> uuid \<Rightarrow> string \<Rightarrow> string option \<Rightarrow> string option \<Rightarrow> json \<Rightarrow> time option \<Rightarrow> string \<Rightarrow> (uuid \<Rightarrow> string) \<Rightarrow>
   (db, 'o, MailQueueError, uuid) act" where
  "enqueue_tx i mid email_to cc rt hs sd ch U =
     bindA (lift MqDb (stmt (mail_queue_enqueue i mid email_to cc rt hs sd))) (\<lambda>_.
     bindA (lift MqDb (stage_bus_event ''MailQueued'' ''Mail'' (U i) ch ''MailQueued''
           (JObject [(''mail_id'', JString (U i)), (''mail_message_id'', JString (U mid)),
                     (''email_to'', JString email_to)]))) (\<lambda>_. ret i))"

lemma mail_enqueue_refused:
  assumes "blank email_to \<or> (\<exists>e. enqueue_headers headers = Inl e)"
  shows "\<exists>e. mail_enqueue mid email_to cc rt headers sd model res v w = (Inl e, w)"
  using assms by (auto simp: mail_enqueue_def fail_def bindA_def of_sum_def)

lemma enqueue_tx_Inr:
  assumes "enqueue_tx i mid email_to cc rt hs sd ch U v w = (Inr x, w')" and "mail_headers_from_json hs = Inr m"
  shows "x = i \<and> mail_enqueued mid email_to sd i (db w) (db w')"
proof -
  from assms(1) obtain u u2 w2 where
    1: "lift MqDb (stmt (mail_queue_enqueue i mid email_to cc rt hs sd)) v w = (Inr u, w2)"
    and 2: "lift MqDb (stage_bus_event ''MailQueued'' ''Mail'' (U i) ch ''MailQueued''
          (JObject [(''mail_id'', JString (U i)), (''mail_message_id'', JString (U mid)),
                    (''email_to'', JString email_to)])) v w2 = (Inr u2, w')"
    and x: "x = i" unfolding enqueue_tx_def by (elim bindA_InrE ret_InrE) (hypsubst, rule that; assumption | rule refl)
  from 1 have "mail_queue_enqueue i mid email_to cc rt hs sd (db w) = Inr (u, db w2)"
    by (auto elim!: lift_InrE stmt_InrE)
  then obtain q where q: "db w2 = (db w)\<lparr>mails := mails (db w) @ [q]\<rparr>" "mail_id q = i"
    "mail_message_id q = mid" "mail_state q = MailState.Outgoing" "mail_headers q = hs"
    "mail_email_to q = Some email_to" "mail_scheduled_date q = sd"
    "i \<notin> mail_id ` set (mails (db w))" by (rule mail_queue_enqueue_Inr)
  from 2 obtain ev where ev: "db w' = (db w2)\<lparr>outbox := outbox (db w2) @ [ev]\<rparr>"
    "event_type ev = ''MailQueued''" by (elim lift_InrE stage_bus_event_InrE) (rule that)
  from q ev assms(2) have "mail_enqueued mid email_to sd i (db w) (db w')"
    unfolding mail_enqueued_def
    by (intro exI [of _ q] exI [of _ ev] exI [of _ m]) (simp del: set_map)
  with x show ?thesis by simp
qed

text \<open>An enqueue that succeeds appends one outgoing mail, whose headers the guard accepts, and one
  \<open>MailQueued\<close> event for it, in one commit; every refusal (blank recipient, refused headers, failed
  statement) writes nothing, and a commit whose acknowledgement is lost wrote all of it or nothing.\<close>

lemma mail_enqueue_spec:
  assumes "mail_enqueue mid email_to cc rt headers sd model res v w = (r, w')"
  shows "(\<forall>i. r = Inr i \<longrightarrow> \<not> blank email_to \<and> mail_enqueued mid email_to sd i (db w) (db w')) \<and>
    (\<forall>e. r = Inl e \<longrightarrow> db w' = db w \<or>
       e = MqDb Connection \<and> (\<exists>i. mail_enqueued mid email_to sd i (db w) (db w')))"
proof (cases "blank email_to \<or> (\<exists>e. enqueue_headers headers = Inl e)")
  case True
  from mail_enqueue_refused [OF this] assms show ?thesis by (metis Inl_Inr_False prod.inject)
next
  case False
  then obtain hs where hs: "enqueue_headers headers = Inr hs" by (cases "enqueue_headers headers") auto
  then obtain m where m: "mail_headers_from_json hs = Inr m"
    by (auto simp: enqueue_headers_def split: option.splits sum.splits)
  let ?w = "w\<lparr>tick := Suc (tick w)\<rparr>"
  let ?body = "enqueue_tx (rng v (tick w)) mid email_to cc rt hs sd
    (case (model, res) of (Some m, Some r) \<Rightarrow> record_channel (uuid_text v) m r
     | _ \<Rightarrow> ''mail.message_'' @ uuid_text v mid) (uuid_text v)"
  have run: "in_tx MqDb ?body v ?w = (r, w')"
    using assms False hs
    by (simp add: mail_enqueue_def bindA_def of_sum_def new_v4_def ask_def enqueue_tx_def in_tx_def Let_def)
  have st: "straight (?body :: (db, 'a, MailQueueError, uuid) act)" unfolding enqueue_tx_def by (intro straight_intros)
  from in_tx_atomic [OF run] have "db w' = db w \<or>
      (\<exists>i. mail_enqueued mid email_to sd i (db w) (db w') \<and> (r = Inr i \<or> r = Inl (MqDb Connection)))"
    by (auto dest!: enqueue_tx_Inr [OF _ m])
  moreover have "mail_enqueued mid email_to sd i (db w) (db w')" if "r = Inr i" for i
    using run [unfolded that] by (elim in_tx_straight [OF _ st]) (auto dest: enqueue_tx_Inr [OF _ m])
  ultimately show ?thesis using False by auto
qed

section \<open>The properties at concrete inputs\<close>

definition failed_run :: "(MailQueueError + bool) \<times> (db, MailSendRequest) world" where
  "failed_run = mail_mark_failed 7 ''mail_smtp'' None plain_env mail_world"

lemma failed_run_ok: "mail_mark_failed 7 ''mail_smtp'' None plain_env mail_world = (Inr True, snd failed_run)"
proof -
  have "fst failed_run = Inr True" by code_simp
  then show ?thesis unfolding failed_run_def by (metis prod.collapse)
qed

lemma verdict_reaches_notifications_witness:
  "list_all (\<lambda>r. ntf_mail_id r = Some 7 \<longrightarrow> ntf_status r \<in> {MailNotificationStatus.Bounce,
      MailNotificationStatus.Exception, MailNotificationStatus.Canceled}) (notifications (db (snd failed_run))) \<and>
   map ntf_mail_id (notifications (db (snd failed_run))) = [Some 7]"
proof
  show "list_all (\<lambda>r. ntf_mail_id r = Some 7 \<longrightarrow> ntf_status r \<in> {MailNotificationStatus.Bounce,
      MailNotificationStatus.Exception, MailNotificationStatus.Canceled}) (notifications (db (snd failed_run)))"
    using verdict_reaches_notifications [of 7 "''mail_smtp''" None plain_env mail_world "snd failed_run"]
      failed_run_ok by (simp add: list_all_iff)
  show "map ntf_mail_id (notifications (db (snd failed_run))) = [Some 7]" by code_simp
qed

lemma mark_sent_guarded_witness:
  "list_ex (mail_open_match 7) (mails (db mail_world)) \<and>
   map mail_state (mails (db (snd (mail_mark_sent 7 plain_env mail_world)))) = [MailState.Sent, MailState.Sent]"
proof -
  let ?r = "mail_mark_sent 7 plain_env mail_world"
  have "fst ?r = Inr True" by code_simp
  then have "?r = (Inr True, snd ?r)" by (metis prod.collapse)
  from mark_sent_guarded [OF this] have "list_ex (mail_open_match 7) (mails (db mail_world))" by simp
  moreover have "map mail_state (mails (db (snd ?r))) = [MailState.Sent, MailState.Sent]" by code_simp
  ultimately show ?thesis ..
qed

lemma requeue_only_failed_witness:
  "map mail_state (mails (db (snd (mail_requeue 7 plain_env (snd failed_run))))) =
     [MailState.Outgoing, MailState.Sent] \<and>
   db (snd (mail_requeue 8 plain_env mail_world)) = db mail_world"
proof
  show "map mail_state (mails (db (snd (mail_requeue 7 plain_env (snd failed_run))))) =
     [MailState.Outgoing, MailState.Sent]" by code_simp
  let ?r = "mail_requeue 8 plain_env mail_world"
  have "fst ?r = Inr False" by code_simp
  then have "?r = (Inr False, snd ?r)" by (metis prod.collapse)
  from requeue_only_failed [OF this]
  have n: "\<not> (\<exists>r\<in>set (mails (db mail_world)). mail_id r = 8 \<and> mail_state r = MailState.Exception)"
    and d: "db (snd ?r) = (db mail_world)\<lparr>mails := map (\<lambda>r. if mail_id r = 8 \<and> mail_state r = MailState.Exception
      then r\<lparr>mail_state := MailState.Outgoing, mail_failure_type := None, mail_failure_reason := None\<rparr>
      else r) (mails (db mail_world))\<rparr>" by auto
  from n have "map (\<lambda>r. if mail_id r = 8 \<and> mail_state r = MailState.Exception
      then r\<lparr>mail_state := MailState.Outgoing, mail_failure_type := None, mail_failure_reason := None\<rparr>
      else r) (mails (db mail_world)) = mails (db mail_world)" by (intro map_idI) auto
  with d show "db (snd ?r) = db mail_world" by simp
qed

definition two_mails :: db where
  "two_mails = empty_db\<lparr>messages := [sample_message 1],
     mails := [sample_mail 7 MailState.Outgoing, sample_mail 9 MailState.Outgoing]\<rparr>"

definition first_claim :: "MailQueueRow list \<times> db" where
  "first_claim = projr (mail_claim_batch_for_drain 1 5 (\<lambda>_. False) two_mails)"

definition second_claim :: "MailQueueRow list \<times> db" where
  "second_claim = projr (mail_claim_batch_for_drain 1 5 (\<lambda>_. False) (snd first_claim))"

lemma claims_are_disjoint_witness:
  "set (map qr_id (fst first_claim)) \<inter> set (map qr_id (fst second_claim)) = {} \<and>
   map qr_id (fst first_claim) = [7] \<and> map qr_id (fst second_claim) = [9]"
proof (intro conjI)
  let ?c1 = "mail_claim_batch_for_drain 1 5 (\<lambda>_. False) two_mails"
  let ?c2 = "mail_claim_batch_for_drain 1 5 (\<lambda>_. False) (snd first_claim)"
  have "\<not> isl ?c1" "\<not> isl ?c2" by code_simp+
  then have c: "?c1 = Inr (fst first_claim, snd first_claim)" "?c2 = Inr (fst second_claim, snd second_claim)"
    unfolding second_claim_def by (simp_all add: first_claim_def)
  have d: "mails_distinct two_mails" "mails_distinct (snd first_claim)" by code_simp+
  show "set (map qr_id (fst first_claim)) \<inter> set (map qr_id (fst second_claim)) = {}"
    by (rule claims_are_disjoint [OF c(1) d(1) c(2) d(2)]) simp
qed code_simp+

lemma mail_enqueue_spec_witness:
  "\<exists>i. mail_enqueued 1 ''x@y'' None i (db mail_world)
     (db (snd (mail_enqueue 1 ''x@y'' None None None None None None plain_env mail_world)))"
proof -
  let ?r = "mail_enqueue 1 ''x@y'' None None None None None None plain_env mail_world"
  have "\<not> isl (fst ?r)" by code_simp
  then have "?r = (Inr (projr (fst ?r)), snd ?r)" by (cases ?r) auto
  from mail_enqueue_spec [OF this] show ?thesis by blast
qed

end
