(* ===== verification/SmsQueue.thy ===== *)
theory SmsQueue
  imports NotificationPump Drain
begin

text \<open>
  The sms queue: the SQL of \<open>src/infrastructure/persistence/sms_queue_repository.rs\<close>, the provider seam
  of \<open>src/application/service/sms_ports.rs\<close> and the service of
  \<open>src/application/service/sms_write_service.rs\<close>.  The provider is a parameter; what it is handed is
  the trace of the world.  An update of an sms row sets its \<open>updated_at\<close> (the audit trigger).
\<close>

section \<open>The port\<close>

record SmsSendRequest =
  ss_uuid :: string
  ss_number :: string
  ss_body :: string

datatype SmsSendOutcome = Processing | Accepted | Delivered

record SmsSendFailure =
  fl_failure_type :: string
  fl_message :: string
  fl_iap_status_code :: "int option"

type_synonym sms_api_port = "nat \<Rightarrow> SmsSendRequest \<Rightarrow> SmsSendFailure + SmsSendOutcome"

record NoopSmsApi =
  nsa_outcome :: SmsSendOutcome
  nsa_failure :: "SmsSendFailure option"
  nsa_requests :: "SmsSendRequest list"

definition NoopSmsApi_with_outcome :: "SmsSendOutcome \<Rightarrow> NoopSmsApi" where
  "NoopSmsApi_with_outcome outcome =
     \<lparr>nsa_outcome = outcome, nsa_failure = None, nsa_requests = []\<rparr>"

definition NoopSmsApi_accepting :: NoopSmsApi where
  "NoopSmsApi_accepting =
     \<lparr>nsa_outcome = SmsSendOutcome.Accepted, nsa_failure = None, nsa_requests = []\<rparr>"

definition NoopSmsApi_failing :: "string \<Rightarrow> string \<Rightarrow> NoopSmsApi" where
  "NoopSmsApi_failing ft message =
     \<lparr>nsa_outcome = SmsSendOutcome.Accepted,
      nsa_failure = Some \<lparr>fl_failure_type = ft, fl_message = message, fl_iap_status_code = None\<rparr>,
      nsa_requests = []\<rparr>"

definition NoopSmsApi_send ::
  "SmsSendRequest \<Rightarrow> NoopSmsApi \<Rightarrow> (SmsSendFailure + SmsSendOutcome) \<times> NoopSmsApi" where
  "NoopSmsApi_send req api =
     (let api' = api\<lparr>nsa_requests := nsa_requests api @ [req]\<rparr>
      in case nsa_failure api' of Some f \<Rightarrow> (Inl f, api') | None \<Rightarrow> (Inr (nsa_outcome api'), api'))"

section \<open>Repository\<close>

record SmsQueueRow =
  sq_id :: uuid
  sq_uuid :: string
  sq_number :: string
  sq_body :: string
  sq_mail_message_id :: "uuid option"

definition sms_claim_set :: "time \<Rightarrow> sms_row \<Rightarrow> sms_row" where
  "sms_claim_set now r = r\<lparr>sms_state := SmsState.Process, sms_updated_at := now\<rparr>"

definition sms_queue_row :: "sms_row \<Rightarrow> SmsQueueRow" where
  "sms_queue_row r = \<lparr>sq_id = sms_id r, sq_uuid = sms_uuid r, sq_number = sms_number r,
     sq_body = sms_body r, sq_mail_message_id = sms_mail_message_id r\<rparr>"

definition sms_claimable :: "(uuid \<Rightarrow> bool) \<Rightarrow> sms_row \<Rightarrow> bool" where
  "sms_claimable locked r \<longleftrightarrow> sms_state r = SmsState.Outgoing \<and> \<not> locked (sms_id r)"

definition sms_claim_batch_for_drain ::
  "int \<Rightarrow> (uuid \<Rightarrow> bool) \<Rightarrow> time \<Rightarrow> db \<Rightarrow> db_error + SmsQueueRow list \<times> db" where
  "sms_claim_batch_for_drain batch locked now d =
     (case sql_limit batch (sort_key sms_id (filter (sms_claimable locked) (smss d))) of
        Inl e \<Rightarrow> Inl e
      | Inr claimed \<Rightarrow>
          (case sql_update (\<lambda>r. sms_id r \<in> sms_id ` set claimed) (sms_claim_set now) sms_trigger_ok
                  (smss d) of
             Inl e \<Rightarrow> Inl e
           | Inr (_, rows) \<Rightarrow> Inr (map sms_queue_row claimed, d\<lparr>smss := rows\<rparr>)))"

definition sms_outcome_set ::
  "SmsState \<Rightarrow> SmsFailureType option \<Rightarrow> string option \<Rightarrow> int option \<Rightarrow> time \<Rightarrow> sms_row \<Rightarrow> sms_row" where
  "sms_outcome_set st ft message code now r =
     r\<lparr>sms_state := st, sms_failure_type := ft, sms_error_message := message,
       sms_iap_status_code := code, sms_updated_at := now\<rparr>"

text \<open>The SET list of an outcome for the rows that matched: casts first, then the row triggers.\<close>

definition sms_outcome_update ::
  "(sms_row \<Rightarrow> bool) \<Rightarrow> string \<Rightarrow> string option \<Rightarrow> string option \<Rightarrow> int option \<Rightarrow> time \<Rightarrow> db \<Rightarrow>
   db_error + bool \<times> db" where
  "sms_outcome_update p target failure_type message code now d =
     (if \<not> list_ex p (smss d) then Inr (False, d)
      else case (pg_enum_cast SmsState_show SmsState_from_str target,
                 cast_opt (pg_enum_cast SmsFailureType_show SmsFailureType_from_str) failure_type) of
             (None, _) \<Rightarrow> Inl (BadCast target)
           | (_, Inl e) \<Rightarrow> Inl e
           | (Some st, Inr ft) \<Rightarrow>
               (case sql_update p (sms_outcome_set st ft message code now) sms_trigger_ok (smss d) of
                  Inl e \<Rightarrow> Inl e
                | Inr (rs, rows) \<Rightarrow> Inr (rs \<noteq> [], d\<lparr>smss := rows\<rparr>)))"

definition sms_apply_outcome ::
  "uuid \<Rightarrow> string \<Rightarrow> string option \<Rightarrow> string option \<Rightarrow> int option \<Rightarrow> time \<Rightarrow> db \<Rightarrow> db_error + bool \<times> db" where
  "sms_apply_outcome i target failure_type message code now d =
     sms_outcome_update (\<lambda>r. sms_id r = i \<and> sms_state r = SmsState.Process)
       target failure_type message code now d"

text \<open>The comparison \<open>state <> $2::sms_state\<close> casts the target as soon as a row passes the tests before it.\<close>

definition sms_apply_outcome_from ::
  "uuid \<Rightarrow> string \<Rightarrow> string option \<Rightarrow> string option \<Rightarrow> int option \<Rightarrow> SmsState list \<Rightarrow> time \<Rightarrow> db \<Rightarrow>
   db_error + bool \<times> db" where
  "sms_apply_outcome_from i target failure_type message code from_states now d =
     (if \<not> list_ex (\<lambda>r. sms_id r = i \<and> sms_state r \<in> set from_states) (smss d) then Inr (False, d)
      else case pg_enum_cast SmsState_show SmsState_from_str target of
             None \<Rightarrow> Inl (BadCast target)
           | Some st \<Rightarrow>
               sms_outcome_update
                 (\<lambda>r. sms_id r = i \<and> sms_state r \<in> set from_states \<and> sms_state r \<noteq> st)
                 target failure_type message code now d)"

definition mirror_tracker_state :: "string \<Rightarrow> string \<Rightarrow> db \<Rightarrow> db_error + unit \<times> db" where
  "mirror_tracker_state u tracker_state d =
     (if \<not> list_ex (\<lambda>t. trk_sms_uuid t = u) (trackers d) then Inr ((), d)
      else case pg_enum_cast MailNotificationStatus_show MailNotificationStatus_from_str tracker_state of
             None \<Rightarrow> Inl (BadCast tracker_state)
           | Some st \<Rightarrow> Inr ((), d\<lparr>trackers :=
               map (\<lambda>t. if trk_sms_uuid t = u then t\<lparr>trk_state := st\<rparr> else t) (trackers d)\<rparr>))"

definition sms_count_outgoing :: "db \<Rightarrow> int" where
  "sms_count_outgoing d = int (length (filter (\<lambda>r. sms_state r = SmsState.Outgoing) (smss d)))"

section \<open>Service\<close>

definition sms_state_to_notification_status :: "string \<Rightarrow> string option" where
  "sms_state_to_notification_status s =
     (if s = ''canceled'' then Some ''canceled''
      else if s = ''process'' then Some ''process''
      else if s = ''error'' then Some ''exception''
      else if s = ''outgoing'' then Some ''ready''
      else if s = ''sent'' then Some ''sent''
      else if s = ''pending'' then Some ''pending''
      else None)"

definition DEFAULT_SMS_BATCH :: int where
  "DEFAULT_SMS_BATCH = 500"

datatype SmsError = SmDb db_error | SmInvalid string

record DrainOutcome =
  do_claimed :: nat
  do_accepted :: nat
  do_delivered :: nat
  do_failed :: nat
  do_replayed :: nat

datatype OutcomeApplied = OaAccepted | OaDelivered | OaFailed | OaReplay

definition sms_enqueue ::
  "string \<Rightarrow> string \<Rightarrow> uuid option \<Rightarrow> uuid option \<Rightarrow> string option \<Rightarrow> uuid option \<Rightarrow>
   (db, 'o, SmsError, uuid \<times> string) act" where
  "sms_enqueue number body mail_message notification model res_id =
     (if blank number then fail (SmInvalid ''number is required'')
      else if blank body then fail (SmInvalid ''body is required'')
      else
        bindA new_v4 (\<lambda>i.
        bindA new_v4 (\<lambda>su.
        bindA (ask uuid_simple) (\<lambda>simple.
        let su = simple su in
        in_tx SmDb (
          bindA (ask uuid_text) (\<lambda>U.
          bindA (lift SmDb (insert_sms_with_tracker
            \<lparr>ns_id = i, ns_uuid = su, ns_number = number, ns_body = body,
             ns_mail_message_id = mail_message, ns_notification_id = notification\<rparr>)) (\<lambda>_.
          let channel_key = (case (model, res_id) of
                (Some m, Some r) \<Rightarrow> record_channel U m r
              | _ \<Rightarrow> ''mail.message_'' @ (case mail_message of None \<Rightarrow> [] | Some m \<Rightarrow> U m)) in
          bindA (lift SmDb (stage_bus_event ''SmsCreated'' ''Sms'' (U i) channel_key ''SmsCreated''
            (JObject [(''sms_id'', JString (U i)), (''uuid'', JString su),
                      (''number'', JString number)]))) (\<lambda>_.
          ret (i, su)))))))))"

fun outcome_columns ::
  "SmsSendFailure + SmsSendOutcome \<Rightarrow>
   string \<times> string option \<times> string option \<times> int option \<times> OutcomeApplied" where
  "outcome_columns (Inr SmsSendOutcome.Processing) = (''process'', None, None, None, OaReplay)"
| "outcome_columns (Inr SmsSendOutcome.Accepted) = (''pending'', None, None, None, OaAccepted)"
| "outcome_columns (Inr SmsSendOutcome.Delivered) = (''sent'', None, None, None, OaDelivered)"
| "outcome_columns (Inl f) =
     (''error'', Some (fl_failure_type f), Some (fl_message f), fl_iap_status_code f, OaFailed)"

text \<open>The pump of a verdict: the tracker mirror, the linked notification, its event.\<close>

definition sms_pump ::
  "string \<Rightarrow> uuid option \<Rightarrow> string \<Rightarrow> string option \<Rightarrow> string option \<Rightarrow> (db, 'o, SmsError, unit) act" where
  "sms_pump su mail_message state failure_type message =
     bindA (ask uuid_text) (\<lambda>U.
     let mapped = sms_state_to_notification_status state in
     bindA (lift SmDb (stmt (mirror_tracker_state su (case mapped of None \<Rightarrow> state | Some m \<Rightarrow> m)))) (\<lambda>_.
     case mapped of
       None \<Rightarrow> ret ()
     | Some status \<Rightarrow>
         bindA (lift SmDb (stmt (reading (find_notification_id_by_sms_uuid su)))) (\<lambda>found.
         case found of
           None \<Rightarrow> ret ()
         | Some nid \<Rightarrow>
             bindA (lift SmDb (stmt_now (advance_notification_status nid status failure_type message)))
               (\<lambda>advanced.
             case advanced of
               None \<Rightarrow> ret ()
             | Some new_status \<Rightarrow>
                 bindA (lift SmDb (stmt (reading (notification_status nid)))) (\<lambda>row.
                 let partner = (case row of None \<Rightarrow> None | Some (p, _) \<Rightarrow> p);
                     channel_key = (case partner of
                        Some p \<Rightarrow> partner_channel U p
                      | None \<Rightarrow> ''mail.message_'' @
                          U (case mail_message of None \<Rightarrow> 0 | Some m \<Rightarrow> m)) in
                 lift SmDb (stage_bus_event ''NotificationStatusChanged'' ''MailNotification'' (U nid)
                   channel_key ''NotificationStatusChanged''
                   (JObject [(''notification_id'', JString (U nid)), (''sms_uuid'', JString su),
                             (''notification_status'', JString new_status),
                             (''sms_state'', JString state)])))))))"

definition apply_outcome_in_tx ::
  "uuid \<Rightarrow> string \<Rightarrow> uuid option \<Rightarrow> SmsSendFailure + SmsSendOutcome \<Rightarrow>
   (db, 'o, SmsError, OutcomeApplied) act" where
  "apply_outcome_in_tx i su mail_message result =
     (let (state, failure_type, message, code, applied_when_new) = outcome_columns result in
      bindA (lift SmDb (stmt_now (sms_apply_outcome i state failure_type message code))) (\<lambda>advanced.
      bindA (sms_pump su mail_message state failure_type message) (\<lambda>_.
      ret (if advanced then applied_when_new else OaReplay))))"

definition sms_claim_tx :: "int \<Rightarrow> (db, 'o, SmsError, SmsQueueRow list) act" where
  "sms_claim_tx batch = in_tx SmDb (lift SmDb (stmt_locked_now (sms_claim_batch_for_drain batch)))"

definition sms_send ::
  "sms_api_port \<Rightarrow> SmsSendRequest \<Rightarrow> (db, SmsSendRequest, SmsError, SmsSendFailure + SmsSendOutcome) act" where
  "sms_send port req =
     (\<lambda>v w. (Inr (port (tick w) req), w\<lparr>tick := Suc (tick w), trace := trace w @ [req]\<rparr>))"

fun tally :: "OutcomeApplied \<Rightarrow> DrainOutcome \<Rightarrow> DrainOutcome" where
  "tally OaAccepted t = t\<lparr>do_accepted := Suc (do_accepted t)\<rparr>"
| "tally OaDelivered t = t\<lparr>do_delivered := Suc (do_delivered t)\<rparr>"
| "tally OaFailed t = t\<lparr>do_failed := Suc (do_failed t)\<rparr>"
| "tally OaReplay t = t\<lparr>do_replayed := Suc (do_replayed t)\<rparr>"

definition sms_step ::
  "sms_api_port \<Rightarrow> DrainOutcome \<Rightarrow> SmsQueueRow \<Rightarrow> (db, SmsSendRequest, SmsError, DrainOutcome) act" where
  "sms_step port tot row =
     bindA (sms_send port \<lparr>ss_uuid = sq_uuid row, ss_number = sq_number row, ss_body = sq_body row\<rparr>)
       (\<lambda>result.
     bindA (in_tx SmDb (apply_outcome_in_tx (sq_id row) (sq_uuid row) (sq_mail_message_id row) result))
       (\<lambda>applied. ret (tally applied tot)))"

definition sms_count :: "DrainOutcome \<Rightarrow> nat \<Rightarrow> DrainOutcome" where
  "sms_count tot n = tot\<lparr>do_claimed := do_claimed tot + n\<rparr>"

definition sms_process_queue ::
  "nat \<Rightarrow> sms_api_port \<Rightarrow> int \<Rightarrow> nat \<Rightarrow> (db, SmsSendRequest, SmsError, DrainOutcome option) act" where
  "sms_process_queue fuel port batch max_batches =
     drain_loop fuel (sms_claim_tx batch) sms_count (sms_step port) max_batches 0
       \<lparr>do_claimed = 0, do_accepted = 0, do_delivered = 0, do_failed = 0, do_replayed = 0\<rparr>"

definition sms_id_by_uuid :: "string \<Rightarrow> db \<Rightarrow> uuid option" where
  "sms_id_by_uuid u d = map_option sms_id (find (\<lambda>r. sms_uuid r = u) (smss d))"

definition advance_state ::
  "string \<Rightarrow> string \<Rightarrow> string option \<Rightarrow> string option \<Rightarrow> (db, 'o, SmsError, bool) act" where
  "advance_state su target failure_type message =
     in_tx SmDb (
       bindA (lift SmDb (stmt (reading (sms_id_by_uuid su)))) (\<lambda>found.
       case found of
         None \<Rightarrow> fail (SmInvalid (''no sms with uuid '' @ su))
       | Some i \<Rightarrow>
           bindA (lift SmDb (stmt_now (sms_apply_outcome_from i target failure_type message None
                    [SmsState.Process, SmsState.Pending]))) (\<lambda>advanced.
           if \<not> advanced then ret advanced
           else
             let mapped = sms_state_to_notification_status target in
             bindA (lift SmDb (stmt (mirror_tracker_state su
                      (case mapped of None \<Rightarrow> target | Some m \<Rightarrow> m)))) (\<lambda>_.
             case mapped of
               None \<Rightarrow> ret advanced
             | Some status \<Rightarrow>
                 bindA (lift SmDb (stmt (reading (find_notification_id_by_sms_uuid su)))) (\<lambda>n.
                 case n of
                   None \<Rightarrow> ret advanced
                 | Some nid \<Rightarrow>
                     bindA (lift SmDb (stmt_now
                       (advance_notification_status nid status failure_type message))) (\<lambda>_.
                     ret advanced))))))"

end
