(* ===== verification/SmsDrain.thy ===== *)
theory SmsDrain
  imports SmsQueue
begin

text \<open>
  The sms queue is a drain: the contract of \<open>Drain\<close> holds of the claim and of the step of
  \<open>sms_write_service.rs\<close>, and the drain's properties follow.
\<close>

section \<open>The queue as a drain\<close>

definition outgoing_sms :: "db \<Rightarrow> string set" where
  "outgoing_sms d = sms_uuid ` {r \<in> set (smss d). sms_state r = SmsState.Outgoing}"

definition sms_distinct :: "db \<Rightarrow> bool" where
  "sms_distinct d \<longleftrightarrow> distinct (map sms_id (smss d)) \<and> distinct (map sms_uuid (smss d))"

definition sms_shrinks :: "string set \<Rightarrow> db \<Rightarrow> bool" where
  "sms_shrinks S d \<longleftrightarrow> sms_distinct d \<and> outgoing_sms d \<subseteq> S"

lemma sms_shrinks_others [simp]:
  "sms_shrinks S (d\<lparr>outbox := o'\<rparr>) \<longleftrightarrow> sms_shrinks S d"
  "sms_shrinks S (d\<lparr>notifications := ns\<rparr>) \<longleftrightarrow> sms_shrinks S d"
  "sms_shrinks S (d\<lparr>trackers := ts\<rparr>) \<longleftrightarrow> sms_shrinks S d"
  by (simp_all add: sms_shrinks_def sms_distinct_def outgoing_sms_def)

lemma mirror_other:
  assumes "mirror_tracker_state su ts d = Inr (u, d')"
  obtains rows where "d' = d\<lparr>trackers := rows\<rparr>"
  using assms
  by (auto simp: mirror_tracker_state_def split: if_splits option.splits
      intro: that [of "trackers d"] that)

lemma keeps_sms_pump:
  assumes "\<And>d ev. I d \<Longrightarrow> I (d\<lparr>outbox := outbox d @ [ev]\<rparr>)"
    and "\<And>n t ft rs now d x d'. I d \<Longrightarrow> advance_notification_status n t ft rs now d = Inr (x, d') \<Longrightarrow> I d'"
    and "\<And>su ts d u d'. I d \<Longrightarrow> mirror_tracker_state su ts d = Inr (u, d') \<Longrightarrow> I d'"
  shows "keeps I (sms_pump su mm state ft message)"
proof -
  have m: "keeps I (stmt (mirror_tracker_state su ts) :: (db, 'o, db_error, unit) act)" for su ts
    by (rule keeps_stmt) (rule assms(3))
  have a: "keeps I (stmt_now (advance_notification_status n t ft rs) :: (db, 'o, db_error, string option) act)"
    for n t ft rs by (rule keeps_stmt_now) (rule assms(2))
  have e: "keeps I (stage_bus_event a b c x f g :: (db, 'o, db_error, unit) act)" for a b c x f g
    by (rule keeps_stage_bus_event) (rule assms(1))
  show ?thesis
    unfolding sms_pump_def Let_def by (intro keeps_intros m a e)
qed

lemma outcome_update_Inr:
  assumes "sms_outcome_update p target ft message code now d = Inr (b, d')"
  obtains "\<not> b" and "d' = d" and "\<not> list_ex p (smss d)"
  | st f where "b" and "target = SmsState_show st" and "list_ex p (smss d)"
      and "d' = d\<lparr>smss := map (\<lambda>r. if p r then sms_outcome_set st f message code now r else r) (smss d)\<rparr>"
      and "\<forall>r\<in>set (smss d). p r \<longrightarrow> sms_trigger_ok r (sms_outcome_set st f message code now r)"
proof (cases "list_ex p (smss d)")
  case False
  with assms have "\<not> b" "d' = d" by (simp_all add: sms_outcome_update_def)
  with that(1) False show ?thesis by blast
next
  case True
  let ?cast = "pg_enum_cast SmsState_show SmsState_from_str target"
  let ?ft = "cast_opt (pg_enum_cast SmsFailureType_show SmsFailureType_from_str) ft"
  from assms True have c: "(case (?cast, ?ft) of
             (None, _) \<Rightarrow> Inl (BadCast target)
           | (_, Inl e) \<Rightarrow> Inl e
           | (Some st, Inr ft) \<Rightarrow>
               (case sql_update p (sms_outcome_set st ft message code now) sms_trigger_ok (smss d) of
                  Inl e \<Rightarrow> Inl e
                | Inr (rs, rows) \<Rightarrow> Inr (rs \<noteq> [], d\<lparr>smss := rows\<rparr>))) = Inr (b, d')"
    by (simp only: sms_outcome_update_def not_not if_False simp_thms)
  from c obtain st where cast: "?cast = Some st" by (cases ?cast) simp_all
  from c cast obtain f where f: "?ft = Inr f" by (cases ?ft) simp_all
  from cast have st: "target = SmsState_show st" by (simp add: sms_state.cast_iff)
  let ?q = "sql_update p (sms_outcome_set st f message code now) sms_trigger_ok (smss d)"
  from c cast f obtain q where q: "?q = Inr q" by (cases ?q) simp_all
  obtain rs rows where rr: "q = (rs, rows)" by (cases q)
  from q rr have u: "?q = Inr (rs, rows)" by simp
  from c cast f u have d': "d' = d\<lparr>smss := rows\<rparr>" and b: "b = (rs \<noteq> [])" by simp_all
  from sql_update_Inr [OF u] have
    rs: "rs = map (sms_outcome_set st f message code now) (filter p (smss d))" and
    rows: "rows = map (\<lambda>r. if p r then sms_outcome_set st f message code now r else r) (smss d)" and
    ok: "\<forall>r\<in>set (smss d). p r \<longrightarrow> sms_trigger_ok r (sms_outcome_set st f message code now r)"
    by auto
  from True have "filter p (smss d) \<noteq> []" by (auto simp: list_ex_iff filter_empty_conv)
  with b rs have b by simp
  from that(2) [OF this st True d' [unfolded rows] ok] show ?thesis .
qed

lemma apply_outcome_Inr:
  assumes "sms_apply_outcome i target ft message code now d = Inr (b, d')"
  shows "b \<longleftrightarrow> (\<exists>r\<in>set (smss d). sms_id r = i \<and> sms_state r = SmsState.Process)"
    and "\<exists>rows. d' = d\<lparr>smss := rows\<rparr> \<and> list_all2 (\<lambda>r r'. r' = r \<or> sms_id r = i \<and>
       sms_state r = SmsState.Process \<and> (\<exists>st f. target = SmsState_show st \<and>
       r' = sms_outcome_set st f message code now r \<and> sms_trigger_ok r r')) (smss d) rows"
proof -
  let ?p = "\<lambda>r. sms_id r = i \<and> sms_state r = SmsState.Process"
  have u: "sms_outcome_update ?p target ft message code now d = Inr (b, d')"
    using assms by (simp add: sms_apply_outcome_def)
  show "b \<longleftrightarrow> (\<exists>r\<in>set (smss d). sms_id r = i \<and> sms_state r = SmsState.Process)"
    using u by (rule outcome_update_Inr) (auto simp: list_ex_iff)
  show "\<exists>rows. d' = d\<lparr>smss := rows\<rparr> \<and> list_all2 (\<lambda>r r'. r' = r \<or> sms_id r = i \<and>
       sms_state r = SmsState.Process \<and> (\<exists>st f. target = SmsState_show st \<and>
       r' = sms_outcome_set st f message code now r \<and> sms_trigger_ok r r')) (smss d) rows"
    using u
  proof (rule outcome_update_Inr)
    assume "d' = d"
    then show ?thesis by (intro exI [of _ "smss d"]) (simp add: list_all2_same)
  next
    fix st f
    let ?g = "\<lambda>r. if ?p r then sms_outcome_set st f message code now r else r"
    assume t: "target = SmsState_show st" and d: "d' = d\<lparr>smss := map ?g (smss d)\<rparr>" and
      ok: "\<forall>r\<in>set (smss d). ?p r \<longrightarrow> sms_trigger_ok r (sms_outcome_set st f message code now r)"
    show ?thesis
      by (intro exI [of _ "map ?g (smss d)"] conjI d list_all2_map_same) (use t ok in auto)
  qed
qed

lemma sms_outcome_set_simps [simp]:
  "sms_id (sms_outcome_set st f m c now r) = sms_id r"
  "sms_uuid (sms_outcome_set st f m c now r) = sms_uuid r"
  "sms_state (sms_outcome_set st f m c now r) = st"
  "sms_mail_message_id (sms_outcome_set st f m c now r) = sms_mail_message_id r"
  "sms_swept_at (sms_outcome_set st f m c now r) = sms_swept_at r"
  by (simp_all add: sms_outcome_set_def)

text \<open>What the row triggers allow when the sweep mark does not change.\<close>

lemma trigger_rank:
  assumes "sms_trigger_ok r r'" and "sms_swept_at r' = sms_swept_at r"
  shows "sms_rank_of (sms_state r) \<le> sms_rank_of (sms_state r')"
  using assms by (auto simp: sms_trigger_ok_def sms_state_monotonic_guard_def not_less)

lemma trigger_terminal:
  assumes "sms_trigger_ok r r'" and "sms_state r \<in> {SmsState.Sent, SmsState.Error, SmsState.Canceled}"
  shows "sms_state r' = sms_state r"
  using assms
  by (cases "sms_state r"; cases "sms_state r'")
    (simp_all add: sms_trigger_ok_def sms_state_transition_check_def sms_transitions_def)

definition sms_advanced :: "sms_row \<Rightarrow> sms_row \<Rightarrow> bool" where
  "sms_advanced r r' \<longleftrightarrow>
     sms_id r' = sms_id r \<and> sms_uuid r' = sms_uuid r \<and>
     sms_mail_message_id r' = sms_mail_message_id r \<and> sms_swept_at r' = sms_swept_at r \<and>
     sms_rank_of (sms_state r) \<le> sms_rank_of (sms_state r')"

definition sms_rows_advanced :: "sms_row list \<Rightarrow> sms_row list \<Rightarrow> bool" where
  "sms_rows_advanced rs rs' \<longleftrightarrow> list_all2 sms_advanced rs rs'"

lemma sms_rows_advanced_refl [simp]: "sms_rows_advanced rs rs"
  by (simp add: sms_rows_advanced_def sms_advanced_def list_all2_same)

lemma sms_rows_advanced_trans:
  "sms_rows_advanced a b \<Longrightarrow> sms_rows_advanced b c \<Longrightarrow> sms_rows_advanced a c"
proof -
  have t: "sms_advanced x y \<Longrightarrow> sms_advanced y z \<Longrightarrow> sms_advanced x z" for x y z
    by (auto simp: sms_advanced_def)
  show "sms_rows_advanced a b \<Longrightarrow> sms_rows_advanced b c \<Longrightarrow> sms_rows_advanced a c"
    unfolding sms_rows_advanced_def by (rule list_all2_trans [OF t])
qed

lemma sms_rows_advanced_keys:
  "sms_rows_advanced rs rs' \<Longrightarrow>
   map (\<lambda>r. (sms_id r, sms_uuid r, sms_mail_message_id r)) rs' =
   map (\<lambda>r. (sms_id r, sms_uuid r, sms_mail_message_id r)) rs"
  unfolding sms_rows_advanced_def
  by (induction rs rs' rule: list_all2_induct) (auto simp: sms_advanced_def)

lemma outgoing_rank: "sms_rank_of st = 0 \<longleftrightarrow> st = SmsState.Outgoing"
  by (cases st) simp_all

lemma advanced_shrinks:
  assumes "sms_rows_advanced (smss d) (smss d')" and "sms_shrinks S d"
  shows "sms_shrinks S d'"
proof -
  let ?rows = "smss d'"
  from sms_rows_advanced_keys [OF assms(1)] have k:
    "map (\<lambda>r. (sms_id r, sms_uuid r, sms_mail_message_id r)) ?rows =
     map (\<lambda>r. (sms_id r, sms_uuid r, sms_mail_message_id r)) (smss d)" .
  have i: "map sms_id ?rows = map sms_id (smss d)" "map sms_uuid ?rows = map sms_uuid (smss d)"
    using arg_cong [OF k, of "map fst"] arg_cong [OF k, of "map (fst \<circ> snd)"] by (simp_all add: comp_def)
  have "sms_uuid ` {r \<in> set rows. sms_state r = SmsState.Outgoing} \<subseteq>
      sms_uuid ` {r \<in> set rs. sms_state r = SmsState.Outgoing}"
    if "list_all2 sms_advanced rs rows" for rs rows
    using that
  proof (induction rs rows rule: list_all2_induct)
    case (Cons x xs y ys)
    then have "sms_state y = SmsState.Outgoing \<longrightarrow> sms_state x = SmsState.Outgoing"
      and "sms_uuid y = sms_uuid x"
      unfolding outgoing_rank [symmetric] by (auto simp: sms_advanced_def)
    with Cons.IH show ?case by auto
  qed simp
  from this [OF assms(1) [unfolded sms_rows_advanced_def]]
  have "sms_uuid ` {r \<in> set ?rows. sms_state r = SmsState.Outgoing} \<subseteq>
      sms_uuid ` {r \<in> set (smss d). sms_state r = SmsState.Outgoing}" .
  with assms(2) i show ?thesis by (auto simp: sms_shrinks_def sms_distinct_def outgoing_sms_def)
qed

text \<open>Every statement of the queue moves sms rows up or leaves them.\<close>

lemma apply_outcome_advances:
  assumes "sms_apply_outcome i target ft message code now d = Inr (b, d')"
  shows "sms_rows_advanced (smss d) (smss d')"
proof -
  from apply_outcome_Inr(2) [OF assms] obtain rows where d': "d' = d\<lparr>smss := rows\<rparr>" and
    l: "list_all2 (\<lambda>r r'. r' = r \<or> sms_id r = i \<and>
       sms_state r = SmsState.Process \<and> (\<exists>st f. target = SmsState_show st \<and>
       r' = sms_outcome_set st f message code now r \<and> sms_trigger_ok r r')) (smss d) rows" by blast
  have "sms_advanced r r'" if "r' = r \<or> sms_id r = i \<and>
       sms_state r = SmsState.Process \<and> (\<exists>st f. target = SmsState_show st \<and>
       r' = sms_outcome_set st f message code now r \<and> sms_trigger_ok r r')" for r r'
    using that trigger_rank [of r r'] by (auto simp: sms_advanced_def)
  with l have "list_all2 sms_advanced (smss d) rows" by (rule list_all2_mono)
  then show ?thesis by (simp add: d' sms_rows_advanced_def)
qed

lemma outcome_update_advances:
  assumes "sms_outcome_update p target ft message code now d = Inr (b, d')"
  shows "sms_rows_advanced (smss d) (smss d')"
  using assms
proof (rule outcome_update_Inr)
  fix st f
  let ?g = "\<lambda>r. if p r then sms_outcome_set st f message code now r else r"
  assume d: "d' = d\<lparr>smss := map ?g (smss d)\<rparr>" and
    ok: "\<forall>r\<in>set (smss d). p r \<longrightarrow> sms_trigger_ok r (sms_outcome_set st f message code now r)"
  have "sms_advanced r (?g r)" if "r \<in> set (smss d)" for r
    using ok that trigger_rank [of r "?g r"] by (auto simp: sms_advanced_def)
  then show ?thesis by (simp add: d sms_rows_advanced_def list_all2_map_same)
qed simp

lemma apply_outcome_from_cases:
  assumes "sms_apply_outcome_from i target ft message code froms now d = Inr (b, d')"
  obtains "\<not> b" and "d' = d"
  | st where "target = SmsState_show st" and
      "sms_outcome_update (\<lambda>r. sms_id r = i \<and> sms_state r \<in> set froms \<and> sms_state r \<noteq> st)
         target ft message code now d = Inr (b, d')"
  using assms unfolding sms_apply_outcome_from_def
  by (auto simp: sms_state.cast_iff split: if_splits option.splits intro: that)

lemma apply_outcome_from_advances:
  assumes "sms_apply_outcome_from i target ft message code froms now d = Inr (b, d')"
  shows "sms_rows_advanced (smss d) (smss d')"
  using assms by (rule apply_outcome_from_cases) (auto dest: outcome_update_advances)

lemma sms_claim_statement:
  assumes "sms_claim_batch_for_drain batch locked now d = Inr (rows, d')"
  obtains claimed where "rows = map sms_queue_row claimed"
    and "d' = d\<lparr>smss := map (\<lambda>r. if sms_id r \<in> sms_id ` set claimed then sms_claim_set now r else r) (smss d)\<rparr>"
    and "claimed = take (nat batch) (sort_key sms_id (filter (sms_claimable locked) (smss d)))"
  using assms
  by (auto simp: sms_claim_batch_for_drain_def sql_limit_def split: sum.splits if_splits
        dest!: sql_update_Inr intro: that)

lemma sms_claim_set_simps [simp]:
  "sms_id (sms_claim_set now r) = sms_id r" "sms_uuid (sms_claim_set now r) = sms_uuid r"
  "sms_state (sms_claim_set now r) = SmsState.Process"
  "sms_mail_message_id (sms_claim_set now r) = sms_mail_message_id r"
  "sms_swept_at (sms_claim_set now r) = sms_swept_at r"
  by (simp_all add: sms_claim_set_def)

lemma sq_row_simps [simp]: "sq_id (sms_queue_row r) = sms_id r" "sq_uuid (sms_queue_row r) = sms_uuid r"
  by (simp_all add: sms_queue_row_def)

lemma sms_claim_takes:
  assumes "sms_claim_batch_for_drain batch locked now d = Inr (rows, d')" and "sms_distinct d"
  shows "distinct (map sq_uuid rows)" and "set (map sq_uuid rows) \<subseteq> outgoing_sms d - outgoing_sms d'"
    and "sms_rows_advanced (smss d) (smss d')"
    and "x \<in> set (map sq_id rows) \<Longrightarrow> \<not> locked x"
proof -
  from assms(1) obtain claimed where
    c: "rows = map sms_queue_row claimed"
      "d' = d\<lparr>smss := map (\<lambda>r. if sms_id r \<in> sms_id ` set claimed then sms_claim_set now r else r) (smss d)\<rparr>"
      "claimed = take (nat batch) (sort_key sms_id (filter (sms_claimable locked) (smss d)))"
    by (rule sms_claim_statement)
  have ids: "map sq_uuid rows = map sms_uuid claimed" "map sq_id rows = map sms_id claimed"
    using c(1) by simp_all
  have sub: "set claimed \<subseteq> set (filter (sms_claimable locked) (smss d))"
    using c(3) set_take_subset [of "nat batch"] by fastforce
  have "distinct (map sms_uuid (filter (sms_claimable locked) (smss d)))"
    using assms(2) by (simp add: sms_distinct_def distinct_map_filter)
  then have "distinct (map sms_uuid (sort_key sms_id (filter (sms_claimable locked) (smss d))))"
    by (simp add: distinct_map)
  then have "distinct (take (nat batch)
      (map sms_uuid (sort_key sms_id (filter (sms_claimable locked) (smss d)))))"
    by (rule distinct_take)
  then show "distinct (map sq_uuid rows)" using ids c(3) by (simp add: take_map)
  have "sms_uuid ` set claimed \<subseteq> outgoing_sms d"
    using sub by (auto simp: outgoing_sms_def sms_claimable_def)
  moreover have "sms_uuid ` set claimed \<inter> outgoing_sms d' = {}"
  proof -
    have False if x: "x \<in> set claimed" and y: "y \<in> set (smss d)" "sms_uuid y = sms_uuid x"
      and n: "sms_id y \<notin> sms_id ` set claimed" for x y
    proof -
      from x sub have "x \<in> set (smss d)" by auto
      with y assms(2) have "y = x" by (auto simp: sms_distinct_def dest: distinct_key_unique)
      with n x show False by blast
    qed
    then show ?thesis using c(2) by (fastforce simp: outgoing_sms_def split: if_splits)
  qed
  ultimately show "set (map sq_uuid rows) \<subseteq> outgoing_sms d - outgoing_sms d'"
    using ids by auto
  let ?g = "\<lambda>r. if sms_id r \<in> sms_id ` set claimed then sms_claim_set now r else r"
  have "sms_advanced r (?g r)" if r: "r \<in> set (smss d)" for r
  proof (cases "sms_id r \<in> sms_id ` set claimed")
    case True
    then obtain x where x: "x \<in> set claimed" "sms_id x = sms_id r" by auto
    with sub have "x \<in> set (smss d)" "sms_state x = SmsState.Outgoing" by (auto simp: sms_claimable_def)
    with r x(2) assms(2) have "r = x" by (auto simp: sms_distinct_def dest: distinct_key_unique)
    with \<open>sms_state x = SmsState.Outgoing\<close> True show ?thesis by (simp add: sms_advanced_def)
  next
    case False
    then show ?thesis by (simp add: sms_advanced_def)
  qed
  then show "sms_rows_advanced (smss d) (smss d')"
    by (simp add: c(2) sms_rows_advanced_def list_all2_map_same)
  show "x \<in> set (map sq_id rows) \<Longrightarrow> \<not> locked x"
    using ids sub by (auto simp: sms_claimable_def)
qed

section \<open>The interpretation\<close>

text \<open>\<open>sms_since N d\<close>: the sms rows of \<open>d\<close> are those of \<open>N\<close>, each at the same state or further.\<close>

definition sms_since :: "sms_row list \<Rightarrow> db \<Rightarrow> bool" where
  "sms_since N d \<longleftrightarrow> sms_distinct d \<and> sms_rows_advanced N (smss d)"

lemma sms_since_refl: "sms_distinct d \<Longrightarrow> sms_since (smss d) d"
  by (simp add: sms_since_def)

lemma sms_since_step:
  assumes "sms_since N d" and "sms_rows_advanced (smss d) (smss d')"
  shows "sms_since N d'"
proof -
  from assms have "sms_shrinks (outgoing_sms d) d'"
    by (intro advanced_shrinks [OF assms(2)]) (simp add: sms_since_def sms_shrinks_def)
  with assms show ?thesis
    by (auto simp: sms_since_def sms_shrinks_def intro: sms_rows_advanced_trans)
qed

lemma sms_since_shrinks: "sms_since (smss d) d' \<Longrightarrow> sms_distinct d \<Longrightarrow>
   sms_distinct d' \<and> outgoing_sms d' \<subseteq> outgoing_sms d"
  using advanced_shrinks [of d d' "outgoing_sms d"] by (simp add: sms_since_def sms_shrinks_def)

lemma sms_since_others [simp]:
  "sms_since N (d\<lparr>outbox := o'\<rparr>) \<longleftrightarrow> sms_since N d"
  "sms_since N (d\<lparr>notifications := ns\<rparr>) \<longleftrightarrow> sms_since N d"
  "sms_since N (d\<lparr>trackers := ts\<rparr>) \<longleftrightarrow> sms_since N d"
  by (simp_all add: sms_since_def sms_distinct_def)

lemma keeps_since_pump: "keeps (sms_since N) (sms_pump su mm state ft message)"
  by (rule keeps_sms_pump) (auto dest: advance_advances(2) elim!: mirror_other)

lemma keeps_since_claim: "keeps (sms_since N) (sms_claim_tx batch)"
  unfolding sms_claim_tx_def
proof (intro keeps_intros keeps_stmt_locked_now)
  fix l t d x d'
  assume s: "sms_since N d" and c: "sms_claim_batch_for_drain batch l t d = Inr (x, d')"
  from s have "sms_distinct d" by (simp add: sms_since_def)
  from sms_since_step [OF s sms_claim_takes(3) [OF c this]] show "sms_since N d'" .
qed

lemma keeps_since_outcome: "keeps (sms_since N) (apply_outcome_in_tx i su mm result)"
  unfolding apply_outcome_in_tx_def Let_def
  by (intro keeps_intros keeps_stmt_now keeps_since_pump)
    (erule (1) sms_since_step [OF _ apply_outcome_advances])

lemma keeps_sms_send: "keeps I (sms_send port req)"
  by (simp add: keeps_def sms_send_def)

lemma keeps_since_step: "keeps (sms_since N) (sms_step port t row)"
  unfolding sms_step_def by (intro keeps_intros keeps_sms_send keeps_since_outcome)

lemma silent_outcome: "silent (apply_outcome_in_tx i su mm result)"
  unfolding apply_outcome_in_tx_def sms_pump_def Let_def
  by (simp only: case_prod_beta) (intro silent_intros)

lemma sms_step_trace:
  assumes "sms_step port t row v w = (r, w')"
  shows "\<exists>os. trace w' = trace w @ os \<and> subseq (map ss_uuid os) [sq_uuid row]"
proof -
  let ?req = "\<lparr>ss_uuid = sq_uuid row, ss_number = sq_number row, ss_body = sq_body row\<rparr>"
  let ?after = "\<lambda>result. bindA (in_tx SmDb (apply_outcome_in_tx (sq_id row) (sq_uuid row)
     (sq_mail_message_id row) result)) (\<lambda>applied. ret (tally applied t))"
  have "silent (?after x)" for x by (intro silent_intros silent_outcome)
  moreover have "sms_send port ?req v w =
      (Inr (port (tick w) ?req), w\<lparr>tick := Suc (tick w), trace := trace w @ [?req]\<rparr>)"
    by (simp add: sms_send_def)
  from bindA_run(1) [where m = "sms_send port ?req", OF this, of ?after] assms have
    "?after (port (tick w) ?req) v (w\<lparr>tick := Suc (tick w), trace := trace w @ [?req]\<rparr>) = (r, w')"
    by (simp add: sms_step_def)
  ultimately have "trace w' = trace w @ [?req]" by (fastforce dest: silentD)
  then show ?thesis by simp
qed

lemma tally_counts:
  "do_claimed (tally a t) = do_claimed t \<and>
   do_accepted (tally a t) + do_delivered (tally a t) + do_failed (tally a t) + do_replayed (tally a t) =
   Suc (do_accepted t + do_delivered t + do_failed t + do_replayed t)"
  by (cases a) simp_all

lemma sms_step_tally:
  assumes "sms_step port t row v w = (Inr t', w')"
  shows "\<exists>a. t' = tally a t"
  using assms unfolding sms_step_def by (elim bindA_InrE ret_InrE) blast

lemma sms_claim_tx_Inr:
  assumes "sms_claim_tx batch v w = (Inr rows, w')"
  obtains locked now where "sms_claim_batch_for_drain batch locked now (db w) = Inr (rows, db w')"
    and "\<exists>n. locked = row_locked v n"
proof -
  have "straight (lift SmDb (stmt_locked_now (sms_claim_batch_for_drain batch)))" by (intro straight_intros)
  with assms obtain w1 where
    1: "lift SmDb (stmt_locked_now (sms_claim_batch_for_drain batch)) v (begin_tx v w) = (Inr rows, w1)"
    and w1: "db w' = db w1" unfolding sms_claim_tx_def by (rule in_tx_straight)
  from 1 have "stmt_now (sms_claim_batch_for_drain batch (row_locked v (tick (begin_tx v w)))) v
      (begin_tx v w) = (Inr rows, w1)"
    by (elim lift_InrE) (simp add: stmt_locked_now_def)
  then have "sms_claim_batch_for_drain batch (row_locked v (tick (begin_tx v w)))
      (tx_start (begin_tx v w)) (db (begin_tx v w)) = Inr (rows, db w1)"
    by (rule stmt_now_InrE)
  with w1 show ?thesis by (intro that) auto
qed

lemma finite_outgoing_sms [simp]: "finite (outgoing_sms d)"
  by (simp add: outgoing_sms_def)

interpretation sms_drain: drain sms_distinct outgoing_sms sq_uuid ss_uuid
  "sms_claim_tx batch" sms_count "sms_step port" do_claimed
  "\<lambda>t. do_accepted t + do_delivered t + do_failed t + do_replayed t"
  for batch port
proof unfold_locales
  show "finite (outgoing_sms d)" for d by simp
next
  fix w :: "(db, SmsSendRequest) world" and v r w'
  assume d: "sms_distinct (db w)" and c: "sms_claim_tx batch v w = (r, w')"
  have "sms_since (smss (db w)) (db w')"
    using keepsD [OF keeps_since_claim sms_since_refl [OF d], of batch v] c by simp
  from sms_since_shrinks [OF this d] have "sms_distinct (db w') \<and> outgoing_sms (db w') \<subseteq> outgoing_sms (db w)" .
  moreover have "silent (sms_claim_tx batch)" unfolding sms_claim_tx_def by (intro silent_intros)
  ultimately show "sms_distinct (db w') \<and> trace w' = trace w \<and> outgoing_sms (db w') \<subseteq> outgoing_sms (db w)"
    using silentD c by blast
next
  fix w :: "(db, SmsSendRequest) world" and v rows w'
  assume d: "sms_distinct (db w)" and "sms_claim_tx batch v w = (Inr rows, w')"
  from this(2) show "distinct (map sq_uuid rows) \<and>
      set (map sq_uuid rows) \<subseteq> outgoing_sms (db w) - outgoing_sms (db w')"
    by (rule sms_claim_tx_Inr) (intro conjI sms_claim_takes [OF _ d])
next
  fix w :: "(db, SmsSendRequest) world" and t x v q w'
  assume d: "sms_distinct (db w)" and s: "sms_step port t x v w = (q, w')"
  have "sms_since (smss (db w)) (db w')"
    using keepsD [OF keeps_since_step sms_since_refl [OF d], of port t x v] s by simp
  from sms_since_shrinks [OF this d] sms_step_trace [OF s]
  show "sms_distinct (db w') \<and> outgoing_sms (db w') \<subseteq> outgoing_sms (db w) \<and>
      (\<exists>os. trace w' = trace w @ os \<and> subseq (map ss_uuid os) [sq_uuid x])" by simp
next
  fix t x v w t' and w' :: "(db, SmsSendRequest) world"
  assume "sms_step port t x v w = (Inr t', w')"
  then show "do_claimed t' = do_claimed t \<and>
      do_accepted t' + do_delivered t' + do_failed t' + do_replayed t' =
      Suc (do_accepted t + do_delivered t + do_failed t + do_replayed t)"
    using sms_step_tally tally_counts by metis
next
  show "do_claimed (sms_count t n) = do_claimed t + n \<and>
      do_accepted (sms_count t n) + do_delivered (sms_count t n) + do_failed (sms_count t n) +
        do_replayed (sms_count t n) =
      do_accepted t + do_delivered t + do_failed t + do_replayed t" for t n
    by (simp add: sms_count_def)
qed

section \<open>Properties of the drain\<close>

text \<open>C2: the sms drain sends at most once.  In every run, whatever fails and whatever the provider
  answers, each sms handed to the provider was outgoing when the drain began, is handed over once and
  is not outgoing when the drain ends.\<close>

theorem sms_drain_at_most_once:
  assumes "sms_distinct (db w)" and "sms_process_queue fuel port batch mx v w = (r, w')"
  shows "\<exists>sent. trace w' = trace w @ sent \<and> distinct (map ss_uuid sent) \<and>
    set (map ss_uuid sent) \<subseteq> outgoing_sms (db w) \<and>
    set (map ss_uuid sent) \<inter> outgoing_sms (db w') = {}"
proof -
  from assms(2) have "sms_drain.handed w w'"
    unfolding sms_process_queue_def by (rule sms_drain.loop_handed [OF assms(1)])
  then show ?thesis by (auto simp: sms_drain.handed_def)
qed

text \<open>The sms drain terminates: with more fuel than there are outgoing sms the loop never runs out.\<close>

lemma sms_drain_terminates:
  assumes "sms_distinct (db w)" and "card (outgoing_sms (db w)) < fuel"
  shows "fst (sms_process_queue fuel port batch mx v w) \<noteq> Inr None"
proof
  assume "fst (sms_process_queue fuel port batch mx v w) = Inr None"
  then obtain w' where "sms_process_queue fuel port batch mx v w = (Inr None, w')"
    by (cases "sms_process_queue fuel port batch mx v w") simp
  with sms_drain.loop_returns [OF assms] show False
    unfolding sms_process_queue_def by blast
qed

text \<open>An sms drain that returns \<open>Ok\<close> without a batch limit leaves no outgoing sms (when no other
  transaction holds rows locked and the batch is positive), and its outcome counts add up: every
  claimed row is counted as accepted, delivered, failed or replayed.\<close>

lemma sms_drain_empties:
  assumes "sms_process_queue fuel port batch 0 v w = (Inr (Some t), w')"
    and "0 < batch" and "\<forall>n i. \<not> row_locked v n i"
  shows "sms_count_outgoing (db w') = 0 \<and>
    do_claimed t = do_accepted t + do_delivered t + do_failed t + do_replayed t"
proof -
  have "do_claimed t = do_accepted t + do_delivered t + do_failed t + do_replayed t"
    using sms_drain.loop_tally [OF assms(1) [unfolded sms_process_queue_def]] by simp
  moreover from sms_drain.loop_exhausts [OF assms(1) [unfolded sms_process_queue_def]]
  obtain w1 where "sms_claim_tx batch v w1 = (Inr [], w')" by blast
  then have "sms_count_outgoing (db w') = 0"
  proof (rule sms_claim_tx_Inr)
    fix locked now
    assume c: "sms_claim_batch_for_drain batch locked now (db w1) = Inr ([], db w')" and
      "\<exists>n. locked = row_locked v n"
    with assms(3) have l: "\<not> locked i" for i by auto
    from c show ?thesis
    proof (rule sms_claim_statement)
      fix claimed
      assume "[] = map sms_queue_row claimed" and
        d: "db w' = (db w1)\<lparr>smss := map (\<lambda>r. if sms_id r \<in> sms_id ` set claimed then sms_claim_set now r else r)
          (smss (db w1))\<rparr>" and
        cl: "claimed = take (nat batch) (sort_key sms_id (filter (sms_claimable locked) (smss (db w1))))"
      then have n: "claimed = []" by simp
      with cl assms(2) have "filter (sms_claimable locked) (smss (db w1)) = []"
        by simp (metis length_sort list.size(3) length_0_conv)
      moreover from d n have "smss (db w') = smss (db w1)" by simp
      ultimately show ?thesis
        using l by (simp add: sms_count_outgoing_def filter_empty_conv sms_claimable_def)
    qed
  qed
  ultimately show ?thesis by simp
qed

section \<open>The properties at concrete inputs\<close>

definition sms_world :: "(db, SmsSendRequest) world" where
  "sms_world = world_of (empty_db\<lparr>messages := [sample_message 1],
     smss := [\<lparr>sms_id = 5, sms_uuid = ''u'', sms_number = ''n'', sms_body = ''b'',
       sms_state = SmsState.Outgoing, sms_failure_type = None, sms_error_message = None,
       sms_mail_message_id = Some 1, sms_iap_status_code = None, sms_updated_at = 0,
       sms_swept_at = None\<rparr>],
     trackers := [\<lparr>trk_sms_uuid = ''u'', trk_message_id = Some 1, trk_notification_id = None,
       trk_state = MailNotificationStatus.Process\<rparr>]\<rparr>)"

definition sms_run :: "(SmsError + DrainOutcome option) \<times> (db, SmsSendRequest) world" where
  "sms_run = sms_process_queue 2 (\<lambda>_ _. Inr SmsSendOutcome.Accepted) 10 0 plain_env sms_world"

lemma sms_run_ok:
  "sms_process_queue 2 (\<lambda>_ _. Inr SmsSendOutcome.Accepted) 10 0 plain_env sms_world =
     (Inr (Some (the (projr (fst sms_run)))), snd sms_run)"
proof -
  have "\<not> isl (fst sms_run)" "projr (fst sms_run) \<noteq> None" by code_simp+
  then show ?thesis unfolding sms_run_def
    by (cases "sms_process_queue 2 (\<lambda>_ _. Inr SmsSendOutcome.Accepted) 10 0 plain_env sms_world") auto
qed

lemma sms_world_distinct: "sms_distinct (db sms_world)"
  by code_simp

lemma sms_drain_at_most_once_witness:
  "map ss_uuid (trace (snd sms_run)) = [''u''] \<and> ''u'' \<notin> outgoing_sms (db (snd sms_run))"
proof -
  have "map ss_uuid (trace (snd sms_run)) = [''u'']" "trace sms_world = []" by code_simp+
  with sms_drain_at_most_once [OF sms_world_distinct sms_run_ok] show ?thesis by auto
qed

lemma sms_drain_terminates_witness: "fst sms_run \<noteq> Inr None"
  unfolding sms_run_def
proof (rule sms_drain_terminates [OF sms_world_distinct])
  show "card (outgoing_sms (db sms_world)) < 2" by code_simp
qed

lemma sms_drain_empties_witness:
  "sms_count_outgoing (db (snd sms_run)) = 0 \<and> do_claimed (the (projr (fst sms_run))) = 1"
proof
  show "sms_count_outgoing (db (snd sms_run)) = 0"
    using sms_drain_empties [OF sms_run_ok] by (simp add: plain_env_def)
  show "do_claimed (the (projr (fst sms_run))) = 1" by code_simp
qed

end
