(* ===== verification/SmsVerdicts.thy ===== *)
theory SmsVerdicts
  imports SmsDrain
begin

text \<open>
  Verdicts on sms: the one map between the two vocabularies, the late-verdict seam
  (\<open>advance_state\<close>), the lockstep of sms row, tracker and notification, and the invariants every
  operation of \<open>sms_write_service.rs\<close> keeps.
\<close>

section \<open>The map\<close>

fun notification_of :: "SmsState \<Rightarrow> MailNotificationStatus" where
  "notification_of SmsState.Canceled = MailNotificationStatus.Canceled"
| "notification_of SmsState.Process = MailNotificationStatus.Process"
| "notification_of SmsState.Error = MailNotificationStatus.Exception"
| "notification_of SmsState.Outgoing = MailNotificationStatus.Ready"
| "notification_of SmsState.Sent = MailNotificationStatus.Sent"
| "notification_of SmsState.Pending = MailNotificationStatus.Pending"

lemma map_show:
  "sms_state_to_notification_status (SmsState_show st) =
   Some (MailNotificationStatus_show (notification_of st))"
  by (cases st) (simp_all add: sms_state_to_notification_status_def)

text \<open>The map from sms states to notification statuses is total on sms states, injective, preserves the
  rank the monotonic triggers compare, and sends every sms transition the database declares, the
  sweep's process to outgoing aside, to a declared notification transition: an sms verdict never
  asks the pump for a status the notification table would refuse for its rank.\<close>

lemma status_map_sound:
  "(\<forall>st. \<exists>n. sms_state_to_notification_status (SmsState_show st) = Some (MailNotificationStatus_show n) \<and>
      ntf_rank n = sms_rank_of st) \<and>
   inj notification_of \<and>
   (\<forall>a b. sms_state_transition_check a b \<and> (a, b) \<noteq> (SmsState.Process, SmsState.Outgoing) \<longrightarrow>
      mail_notifications_transition_check (notification_of a) (notification_of b) \<and>
      mail_notification_monotonic_guard (notification_of a) (notification_of b))"
proof (intro conjI)
  show "\<forall>st. \<exists>n. sms_state_to_notification_status (SmsState_show st) =
      Some (MailNotificationStatus_show n) \<and> ntf_rank n = sms_rank_of st"
  proof
    fix st show "\<exists>n. sms_state_to_notification_status (SmsState_show st) =
      Some (MailNotificationStatus_show n) \<and> ntf_rank n = sms_rank_of st"
      by (intro exI conjI, rule map_show) (cases st; simp)
  qed
  show "inj notification_of"
  proof (rule injI)
    fix x y show "notification_of x = notification_of y \<Longrightarrow> x = y" by (cases x; cases y) simp_all
  qed
  have "sms_state_transition_check a b \<Longrightarrow> (a, b) \<noteq> (SmsState.Process, SmsState.Outgoing) \<Longrightarrow>
      mail_notifications_transition_check (notification_of a) (notification_of b) \<and>
      mail_notification_monotonic_guard (notification_of a) (notification_of b)" for a b
    by (cases a; cases b) (simp_all add: sms_state_transition_check_def sms_transitions_def
        mail_notifications_transition_check_def mail_notifications_transitions_def
        mail_notification_monotonic_guard_def rank_lt_def)
  then show "\<forall>a b. sms_state_transition_check a b \<and> (a, b) \<noteq> (SmsState.Process, SmsState.Outgoing) \<longrightarrow>
      mail_notifications_transition_check (notification_of a) (notification_of b) \<and>
      mail_notification_monotonic_guard (notification_of a) (notification_of b)" by blast
qed

text \<open>A failure type the sms row accepts is one the notification accepts too, so the pump cannot fail
  on the cast of a failure type that was written to the sms.\<close>

lemma sms_failure_type_castable:
  "\<exists>n. pg_enum_cast NotificationFailureType_show NotificationFailureType_from_str (SmsFailureType_show f) = Some n"
proof -
  have "SmsFailureType_show f \<in> NotificationFailureType_show ` {NotificationFailureType.SmsNumberMissing,
      NotificationFailureType.SmsNumberFormat, NotificationFailureType.SmsCountryNotSupported,
      NotificationFailureType.SmsRegistrationNeeded, NotificationFailureType.SmsCredit,
      NotificationFailureType.SmsServer, NotificationFailureType.SmsAcc,
      NotificationFailureType.SmsBlacklist, NotificationFailureType.SmsDuplicate,
      NotificationFailureType.SmsOptout, NotificationFailureType.Unknown}"
    by (cases f) simp_all
  then obtain n where "SmsFailureType_show f = NotificationFailureType_show n" by (rule imageE)
  then show ?thesis by (auto simp: notification_failure_type.cast_iff)
qed

section \<open>Invariants\<close>

lemma keeps_since_advance_state: "keeps (sms_since N) (advance_state su target ft message)"
proof -
  have m: "keeps (sms_since N) (stmt (mirror_tracker_state su ts) :: (db, 'o, db_error, unit) act)" for su ts
    by (rule keeps_stmt) (auto elim!: mirror_other)
  have a: "keeps (sms_since N) (stmt_now (advance_notification_status n t ft rs) :: (db, 'o, db_error, string option) act)"
    for n t ft rs by (rule keeps_stmt_now) (auto dest: advance_advances(2))
  have f: "keeps (sms_since N) (stmt_now (sms_apply_outcome_from i t ft m c fs) :: (db, 'o, db_error, bool) act)"
    for i t ft m c fs
    by (rule keeps_stmt_now) (erule (1) sms_since_step [OF _ apply_outcome_from_advances])
  show ?thesis
    unfolding advance_state_def Let_def by (intro keeps_intros m a f)
qed

lemma sms_statement_notifications:
  "sms_outcome_update p target ft message code now d = Inr (b, d') \<Longrightarrow> notifications d' = notifications d"
  "sms_claim_batch_for_drain batch l now d = Inr (x, d') \<Longrightarrow> notifications d' = notifications d"
  "mirror_tracker_state su ts d = Inr (u, d') \<Longrightarrow> notifications d' = notifications d"
proof -
  show "sms_outcome_update p target ft message code now d = Inr (b, d') \<Longrightarrow> notifications d' = notifications d"
    by (erule outcome_update_Inr) simp_all
  show "sms_claim_batch_for_drain batch l now d = Inr (x, d') \<Longrightarrow> notifications d' = notifications d"
    by (erule sms_claim_statement) simp
  show "mirror_tracker_state su ts d = Inr (u, d') \<Longrightarrow> notifications d' = notifications d"
    by (erule mirror_other) simp
qed

lemma apply_from_notifications:
  "sms_apply_outcome_from i target ft message code fs now d = Inr (b, d') \<Longrightarrow> notifications d' = notifications d"
  by (erule apply_outcome_from_cases) (simp_all add: sms_statement_notifications)

lemma keeps_advanced_sms:
  fixes N
  defines "I \<equiv> \<lambda>d. notifications_advanced N (notifications d)"
  shows "keeps I (sms_claim_tx batch)" "keeps I (apply_outcome_in_tx i su mm result)"
    "keeps I (advance_state su target ft message)"
proof -
  have m: "keeps I (stmt (mirror_tracker_state su ts) :: (db, 'x, db_error, unit) act)" for su ts
    by (rule keeps_stmt) (simp add: I_def sms_statement_notifications)
  have a: "keeps I (stmt_now (advance_notification_status n t ft rs) :: (db, 'x, db_error, string option) act)"
    for n t ft rs
    by (rule keeps_stmt_now) (auto simp: I_def dest: advance_advances(1) intro: notifications_advanced_trans)
  have f: "keeps I (stmt_now (sms_apply_outcome_from i t ft m c fs) :: (db, 'x, db_error, bool) act)"
    for i t ft m c fs by (rule keeps_stmt_now) (simp add: I_def apply_from_notifications)
  have o: "keeps I (stmt_now (sms_apply_outcome i t ft m c) :: (db, 'x, db_error, bool) act)" for i t ft m c
    by (rule keeps_stmt_now) (simp add: I_def sms_apply_outcome_def sms_statement_notifications)
  have p: "keeps I (sms_pump su mm state ft message :: (db, 'x, SmsError, unit) act)" for su mm state ft message
    by (rule keeps_sms_pump) (auto simp: I_def sms_statement_notifications
        dest: advance_advances(1) intro: notifications_advanced_trans)
  show "keeps I (sms_claim_tx batch)"
    unfolding sms_claim_tx_def
    by (intro keeps_intros keeps_stmt_locked_now) (simp add: I_def sms_statement_notifications)
  show "keeps I (apply_outcome_in_tx i su mm result)"
    unfolding apply_outcome_in_tx_def Let_def by (simp only: case_prod_beta) (intro keeps_intros o p)
  show "keeps I (advance_state su target ft message)"
    unfolding advance_state_def Let_def by (intro keeps_intros m a f)
qed

text \<open>Neither the drain nor a late verdict regresses anything.  In every run of \<open>process_queue\<close> and
  \<open>advance_state\<close>, each sms row is left where it was or further up its ladder (its identity and sweep
  mark unchanged), and each notification likewise.\<close>

lemma sms_queue_monotonic:
  "keeps (sms_since N) (sms_process_queue fuel port batch mx) \<and>
   keeps (sms_since N) (advance_state su target ft message) \<and>
   keeps (\<lambda>d. notifications_advanced M (notifications d)) (sms_process_queue fuel port batch mx) \<and>
   keeps (\<lambda>d. notifications_advanced M (notifications d)) (advance_state su target ft message)"
  unfolding sms_process_queue_def
  by (intro conjI keeps_drain_loop keeps_since_claim keeps_since_step keeps_since_advance_state
      keeps_advanced_sms) (unfold sms_step_def, intro keeps_intros keeps_sms_send keeps_advanced_sms)

lemma schema_keeps_statements:
  "schema_ok d \<Longrightarrow> sms_rows_advanced (smss d) rows \<Longrightarrow> schema_ok (d\<lparr>smss := rows\<rparr>)"
  by (rule schema_ok_smss) (auto dest: sms_rows_advanced_keys)

lemma mirror_keys:
  assumes "mirror_tracker_state su ts d = Inr (u, d')"
  obtains rows where "d' = d\<lparr>trackers := rows\<rparr>"
    and "map (\<lambda>r. (trk_sms_uuid r, trk_message_id r, trk_notification_id r)) rows =
         map (\<lambda>r. (trk_sms_uuid r, trk_message_id r, trk_notification_id r)) (trackers d)"
  using assms
  by (auto simp: mirror_tracker_state_def split: if_splits option.splits
      intro: that [of "trackers d"] that)

text \<open>The invariant of the whole store the queues share.\<close>

definition store_ok :: "db \<Rightarrow> bool" where
  "store_ok d \<longleftrightarrow> schema_ok d \<and> sms_tracked d"

lemma store_ok_outbox [simp]: "store_ok (d\<lparr>outbox := o'\<rparr>) \<longleftrightarrow> store_ok d"
  by (simp add: store_ok_def)

lemma store_ok_smss:
  assumes "store_ok d" and "sms_rows_advanced (smss d) rows"
  shows "store_ok (d\<lparr>smss := rows\<rparr>)"
proof -
  have "map sms_uuid rows = map sms_uuid (smss d)"
    using arg_cong [OF sms_rows_advanced_keys [OF assms(2)], of "map (fst \<circ> snd)"] by (simp add: comp_def)
  then have "sms_uuid ` set rows = sms_uuid ` set (smss d)" by (metis set_map)
  with assms schema_keeps_statements show ?thesis by (simp add: store_ok_def sms_tracked_def)
qed

lemma store_ok_advance:
  assumes "store_ok d" and a: "advance_notification_status n t ft rs now d = Inr (x, d')"
  shows "store_ok d'"
proof -
  from advance_advances(2) [OF a] obtain rows where d': "d' = d\<lparr>notifications := rows\<rparr>" by blast
  with advance_advances(1) [OF a] have "notifications_advanced (notifications d) rows" by simp
  from schema_ok_notifications [OF _ notifications_advanced_ids [OF this]] assms(1) d'
  show ?thesis by (simp add: store_ok_def)
qed

lemma store_ok_mirror:
  assumes "store_ok d" and "mirror_tracker_state su ts d = Inr (u, d')"
  shows "store_ok d'"
  using assms(2)
proof (rule mirror_keys)
  fix rows
  assume d': "d' = d\<lparr>trackers := rows\<rparr>" and
    k: "map (\<lambda>r. (trk_sms_uuid r, trk_message_id r, trk_notification_id r)) rows =
        map (\<lambda>r. (trk_sms_uuid r, trk_message_id r, trk_notification_id r)) (trackers d)"
  have "map trk_sms_uuid rows = map trk_sms_uuid (trackers d)"
    using arg_cong [OF k, of "map fst"] by (simp add: comp_def)
  then have "trk_sms_uuid ` set rows = trk_sms_uuid ` set (trackers d)" by (metis set_map)
  with assms(1) schema_ok_trackers [OF _ k] show ?thesis by (simp add: d' store_ok_def sms_tracked_def)
qed

lemma store_ok_outcomes:
  "store_ok d \<Longrightarrow> sms_outcome_update p target ft message code now d = Inr (b, d') \<Longrightarrow> store_ok d'"
  "store_ok d \<Longrightarrow> sms_apply_outcome_from i target ft message code fs now d = Inr (b, d') \<Longrightarrow> store_ok d'"
proof -
  show u: "store_ok d \<Longrightarrow> sms_outcome_update p target ft message code now d = Inr (b, d') \<Longrightarrow> store_ok d'"
    for p b d' d
  proof -
    assume s: "store_ok d" and u: "sms_outcome_update p target ft message code now d = Inr (b, d')"
    from u obtain rows where "d' = d\<lparr>smss := rows\<rparr>"
      by (rule outcome_update_Inr) (simp_all add: exI [of _ "smss d"] that [of "smss d"] that)
    with store_ok_smss [OF s] outcome_update_advances [OF u] show "store_ok d'" by simp
  qed
  show "store_ok d \<Longrightarrow> sms_apply_outcome_from i target ft message code fs now d = Inr (b, d') \<Longrightarrow> store_ok d'"
    by (erule apply_outcome_from_cases) (auto intro: u)
qed

section \<open>The late-verdict seam\<close>

lemma mirror_sets:
  assumes "mirror_tracker_state su (MailNotificationStatus_show n) d = Inr (u, d')"
  shows "\<forall>t\<in>set (trackers d'). trk_sms_uuid t = su \<longrightarrow> trk_state t = n"
  using assms
  by (auto simp: mirror_tracker_state_def cast_notification_status list_ex_iff
      split: if_splits option.splits)

lemma apply_from_true:
  assumes "sms_apply_outcome_from i (SmsState_show st) ft message code fs now d = Inr (True, d')"
  shows "\<exists>f. d' = d\<lparr>smss := map (\<lambda>r. if sms_id r = i \<and> sms_state r \<in> set fs \<and> sms_state r \<noteq> st
           then sms_outcome_set st f message code now r else r) (smss d)\<rparr> \<and>
    (\<exists>r\<in>set (smss d). sms_id r = i \<and> sms_state r \<in> set fs \<and> sms_state r \<noteq> st)"
  using assms
proof (rule apply_outcome_from_cases)
  fix st'
  assume t: "SmsState_show st = SmsState_show st'"
    and u: "sms_outcome_update (\<lambda>r. sms_id r = i \<and> sms_state r \<in> set fs \<and> sms_state r \<noteq> st')
         (SmsState_show st) ft message code now d = Inr (True, d')"
  from t have e: "st' = st" by (simp add: sms_state.label_inj)
  from u show ?thesis
  proof (rule outcome_update_Inr)
    fix st2 f
    assume "SmsState_show st = SmsState_show st2"
      and ex: "list_ex (\<lambda>r. sms_id r = i \<and> sms_state r \<in> set fs \<and> sms_state r \<noteq> st') (smss d)"
      and d': "d' = d\<lparr>smss := map (\<lambda>r. if sms_id r = i \<and> sms_state r \<in> set fs \<and> sms_state r \<noteq> st'
           then sms_outcome_set st2 f message code now r else r) (smss d)\<rparr>"
    moreover from this(1) have "st2 = st" by (simp add: sms_state.label_inj)
    ultimately show ?thesis using e by (auto simp: list_ex_iff)
  qed simp
qed simp

lemma advance_state_effect:
  assumes "advance_state su (SmsState_show st) ft message v w = (Inr b, w')"
    and "sms_distinct (db w)"
  shows "(\<not> b \<longrightarrow> db w' = db w) \<and>
    (b \<longrightarrow>
      (\<exists>r\<in>set (smss (db w)). sms_uuid r = su \<and> sms_state r \<noteq> st \<and>
         sms_state r \<in> {SmsState.Process, SmsState.Pending}) \<and>
      (\<forall>r\<in>set (smss (db w')). sms_uuid r = su \<longrightarrow> sms_state r = st) \<and>
      (\<forall>t\<in>set (trackers (db w')). trk_sms_uuid t = su \<longrightarrow> trk_state t = notification_of st) \<and>
      (\<forall>n. find_notification_id_by_sms_uuid su (db w') = Some n \<longrightarrow>
         (\<forall>r\<in>set (notifications (db w')). ntf_id r = n \<longrightarrow>
            ntf_rank (notification_of st) \<le> ntf_rank (ntf_status r))))"
proof -
  let ?m = "MailNotificationStatus_show (notification_of st)"
  let ?fs = "[SmsState.Process, SmsState.Pending]"
  let ?tail = "\<lambda>adv. bindA (lift SmDb (stmt (mirror_tracker_state su ?m))) (\<lambda>_.
     bindA (lift SmDb (stmt (reading (find_notification_id_by_sms_uuid su)))) (\<lambda>n.
     case n of None \<Rightarrow> ret adv
     | Some nid \<Rightarrow> bindA (lift SmDb (stmt_now (advance_notification_status nid ?m ft message)))
         (\<lambda>_. ret adv)))"
  let ?body = "bindA (lift SmDb (stmt (reading (sms_id_by_uuid su)))) (\<lambda>found.
       case found of
         None \<Rightarrow> fail (SmInvalid (''no sms with uuid '' @ su))
       | Some i \<Rightarrow>
           bindA (lift SmDb (stmt_now (sms_apply_outcome_from i (SmsState_show st) ft message None ?fs)))
             (\<lambda>advanced. if \<not> advanced then ret advanced else ?tail advanced))"
  have eq: "advance_state su (SmsState_show st) ft message = in_tx SmDb ?body"
    unfolding advance_state_def map_show Let_def option.case ..
  have "straight ?body" by (intro straight_intros)
  with assms(1) [unfolded eq] obtain w1 where
    "?body v (begin_tx v w) = (Inr b, w1)" and w1: "db w' = db w1" by (rule in_tx_straight)
  then obtain found w2 where
    f: "lift SmDb (stmt (reading (sms_id_by_uuid su))) v (begin_tx v w) = (Inr found, w2)" and
    rest: "(case found of
         None \<Rightarrow> fail (SmInvalid (''no sms with uuid '' @ su))
       | Some i \<Rightarrow>
           bindA (lift SmDb (stmt_now (sms_apply_outcome_from i (SmsState_show st) ft message None ?fs)))
             (\<lambda>advanced. if \<not> advanced then ret advanced else ?tail advanced)) v w2 = (Inr b, w1)"
    by (elim bindA_InrE) (rule that)
  from f have found: "found = sms_id_by_uuid su (db w)" "db w2 = db w"
    by (auto simp: reading_def elim!: lift_InrE stmt_InrE)
  from rest obtain i where i: "found = Some i" by (cases found) (auto simp: fail_def)
  from found(1) i have "map_option sms_id (find (\<lambda>r. sms_uuid r = su) (smss (db w))) = Some i"
    unfolding sms_id_by_uuid_def by (rule subst)
  then obtain r0 where "find (\<lambda>r. sms_uuid r = su) (smss (db w)) = Some r0"
    and id: "sms_id r0 = i" by auto
  with id have r0: "r0 \<in> set (smss (db w))" "sms_uuid r0 = su" "sms_id r0 = i"
    by (auto simp: find_Some_iff)
  from rest i obtain adv w3 where
    a: "lift SmDb (stmt_now (sms_apply_outcome_from i (SmsState_show st) ft message None ?fs)) v w2 = (Inr adv, w3)"
    and t: "(if \<not> adv then ret adv else ?tail adv) v w3 = (Inr b, w1)"
    by (simp only: option.case) (elim bindA_InrE, rule that)
  from a found(2) obtain now where
    s: "sms_apply_outcome_from i (SmsState_show st) ft message None ?fs now (db w) = Inr (adv, db w3)"
    by (elim lift_InrE stmt_now_InrE) simp
  show ?thesis
  proof (cases adv)
    case False
    with t have "\<not> b" "w1 = w3" by (simp_all add: ret_def)
    moreover from s False have "db w3 = db w"
      by (elim apply_outcome_from_cases) (auto elim!: outcome_update_Inr)
    ultimately show ?thesis using w1 by simp
  next
    case True
    with t have "?tail adv v w3 = (Inr b, w1)" by (simp only: not_True_eq_False if_False)
    then obtain u w4 n w5 where
      m: "lift SmDb (stmt (mirror_tracker_state su ?m)) v w3 = (Inr u, w4)" and
      n: "lift SmDb (stmt (reading (find_notification_id_by_sms_uuid su))) v w4 = (Inr n, w5)" and
      p: "(case n of None \<Rightarrow> ret adv
         | Some nid \<Rightarrow> bindA (lift SmDb (stmt_now (advance_notification_status nid ?m ft message)))
             (\<lambda>_. ret adv)) v w5 = (Inr b, w1)"
      by (elim bindA_InrE) (rule that)
    from m have m: "mirror_tracker_state su ?m (db w3) = Inr (u, db w4)"
      by (elim lift_InrE stmt_InrE)
    from n have n: "n = find_notification_id_by_sms_uuid su (db w4)" "db w5 = db w4"
      by (auto simp: reading_def elim!: lift_InrE stmt_InrE)
    have p: "b \<and> smss (db w1) = smss (db w4) \<and> trackers (db w1) = trackers (db w4) \<and>
        (\<forall>k. n = Some k \<longrightarrow> (\<forall>r\<in>set (notifications (db w1)). ntf_id r = k \<longrightarrow>
           ntf_rank (notification_of st) \<le> ntf_rank (ntf_status r)))"
    proof (cases n)
      case None
      with p n(2) True show ?thesis by (simp add: ret_def)
    next
      case (Some k)
      with p obtain x w6 where
        x: "lift SmDb (stmt_now (advance_notification_status k ?m ft message)) v w5 = (Inr x, w6)"
        and e: "b = adv" "w1 = w6" by (simp only: option.case) (elim bindA_InrE ret_InrE, rule that)
      from x n(2) obtain now2 where
        x: "advance_notification_status k ?m ft message now2 (db w4) = Inr (x, db w6)"
        by (elim lift_InrE stmt_now_InrE) simp
      from advance_advances(2) [OF x] advance_advances(3) [OF x refl] e True Some
      show ?thesis by auto
    qed
    from s True have s: "sms_apply_outcome_from i (SmsState_show st) ft message None ?fs now (db w) =
        Inr (True, db w3)" by simp
    from apply_from_true [OF s] obtain fl r1 where
      d3: "db w3 = (db w)\<lparr>smss := map (\<lambda>r. if sms_id r = i \<and> sms_state r \<in> set ?fs \<and> sms_state r \<noteq> st
           then sms_outcome_set st fl message None now r else r) (smss (db w))\<rparr>" and
      r1: "r1 \<in> set (smss (db w))" "sms_id r1 = i" "sms_state r1 \<in> set ?fs" "sms_state r1 \<noteq> st" by blast
    have "r1 = r0"
      using assms(2) r0 r1(1,2) by (auto simp: sms_distinct_def dest: distinct_key_unique)
    with r0 r1 have src: "\<exists>r\<in>set (smss (db w)). sms_uuid r = su \<and> sms_state r \<noteq> st \<and>
        sms_state r \<in> {SmsState.Process, SmsState.Pending}" by auto
    from m obtain rows where d4: "db w4 = (db w3)\<lparr>trackers := rows\<rparr>" by (rule mirror_other)
    have st: "sms_state r = st" if r: "r \<in> set (smss (db w'))" "sms_uuid r = su" for r
    proof -
      from r(1) p w1 d4 d3 have "r \<in> (\<lambda>r. if sms_id r = i \<and> sms_state r \<in> set ?fs \<and> sms_state r \<noteq> st
           then sms_outcome_set st fl message None now r else r) ` set (smss (db w))" by simp
      then obtain q where q: "q \<in> set (smss (db w))" and
        rq: "r = (if sms_id q = i \<and> sms_state q \<in> set ?fs \<and> sms_state q \<noteq> st
           then sms_outcome_set st fl message None now q else q)" by (rule imageE)
      from rq r(2) have "sms_uuid q = su" by (simp split: if_splits)
      with q r0 assms(2) have "q = r0" by (auto simp: sms_distinct_def dest: distinct_key_unique)
      with rq r0(3) r1(3,4) \<open>r1 = r0\<close> show ?thesis by simp
    qed
    have tr: "\<forall>t\<in>set (trackers (db w')). trk_sms_uuid t = su \<longrightarrow> trk_state t = notification_of st"
      using mirror_sets [OF m] p w1 by simp
    have "find_notification_id_by_sms_uuid su (db w') = n"
      using n(1) p w1 by (simp add: find_notification_id_by_sms_uuid_def)
    with p src st tr w1 show ?thesis by simp
  qed
qed

text \<open>A provider's retry is harmless: after a verdict that \<open>advance_state\<close> applied, the same verdict
  again reports false and writes nothing, whatever happened to the failure columns of the request.\<close>

lemma advance_state_idempotent:
  assumes "advance_state su (SmsState_show st) ft message v w = (Inr True, w')"
    and "sms_distinct (db w)"
    and "advance_state su (SmsState_show st) ft2 message2 v2 w' = (Inr b, w'')"
  shows "\<not> b \<and> db w'' = db w'"
proof -
  have "sms_since (smss (db w)) (db w')"
    using keepsD [OF keeps_since_advance_state sms_since_refl [OF assms(2)], of su "SmsState_show st" ft message v]
      assms(1) by simp
  then have d: "sms_distinct (db w')" by (simp add: sms_since_def)
  from advance_state_effect [OF assms(1,2)] advance_state_effect [OF assms(3) d] show ?thesis by blast
qed

text \<open>C8: a late verdict keeps sms, tracker and notification in lockstep.  When \<open>advance_state\<close> reports
  true, the sms was in process or pending (and not in the target state) and is in the target state, its tracker shows the mapped
  status, and the linked notification is at the mapped status or further; when it reports false,
  nothing was written.\<close>

theorem advance_state_lockstep:
  assumes "advance_state su (SmsState_show st) ft message v w = (Inr b, w')"
    and "sms_distinct (db w)"
  shows "(\<not> b \<longrightarrow> db w' = db w) \<and>
    (b \<longrightarrow>
      (\<exists>r\<in>set (smss (db w)). sms_uuid r = su \<and> sms_state r \<noteq> st \<and>
         sms_state r \<in> {SmsState.Process, SmsState.Pending}) \<and>
      (\<forall>r\<in>set (smss (db w')). sms_uuid r = su \<longrightarrow> sms_state r = st) \<and>
      (\<forall>t\<in>set (trackers (db w')). trk_sms_uuid t = su \<longrightarrow> trk_state t = notification_of st) \<and>
      (\<forall>n. find_notification_id_by_sms_uuid su (db w') = Some n \<longrightarrow>
         (\<forall>r\<in>set (notifications (db w')). ntf_id r = n \<longrightarrow>
            ntf_rank (notification_of st) \<le> ntf_rank (ntf_status r))))"
  by (rule advance_state_effect [OF assms])

section \<open>The store's invariant\<close>

lemma store_ok_claim:
  assumes "store_ok d" and c: "sms_claim_batch_for_drain batch l now d = Inr (rows, d')"
  shows "store_ok d'"
proof -
  from assms(1) have "sms_distinct d" by (simp add: store_ok_def schema_ok_def sms_distinct_def)
  from sms_claim_takes(3) [OF c this] have "sms_rows_advanced (smss d) (smss d')" .
  moreover from c obtain rs where "d' = d\<lparr>smss := rs\<rparr>" by (rule sms_claim_statement)
  ultimately show ?thesis using store_ok_smss [OF assms(1)] by simp
qed

lemma keeps_store_outcome: "keeps store_ok (apply_outcome_in_tx i su mm result)"
proof -
  have o: "keeps store_ok (stmt_now (sms_apply_outcome i t ft m c) :: (db, 'x, db_error, bool) act)" for i t ft m c
    unfolding sms_apply_outcome_def by (rule keeps_stmt_now) (rule store_ok_outcomes(1))
  have p: "keeps store_ok (sms_pump su mm state ft message :: (db, 'x, SmsError, unit) act)" for su mm state ft message
    by (rule keeps_sms_pump) (simp, rule store_ok_advance, assumption+, rule store_ok_mirror)
  show ?thesis
    unfolding apply_outcome_in_tx_def Let_def by (simp only: case_prod_beta) (intro keeps_intros o p)
qed

lemma keeps_store_advance_state: "keeps store_ok (advance_state su target ft message)"
proof -
  have m: "keeps store_ok (stmt (mirror_tracker_state su ts) :: (db, 'x, db_error, unit) act)" for su ts
    by (rule keeps_stmt) (rule store_ok_mirror)
  have a: "keeps store_ok (stmt_now (advance_notification_status n t ft rs) :: (db, 'x, db_error, string option) act)"
    for n t ft rs by (rule keeps_stmt_now) (rule store_ok_advance)
  have f: "keeps store_ok (stmt_now (sms_apply_outcome_from i t ft m c fs) :: (db, 'x, db_error, bool) act)"
    for i t ft m c fs by (rule keeps_stmt_now) (rule store_ok_outcomes(2))
  show ?thesis unfolding advance_state_def Let_def by (intro keeps_intros m a f)
qed

text \<open>The drain and the late-verdict seam keep the store's constraints: keys and references of all
  tables, and a tracker for every sms, in every run.\<close>

lemma sms_store_invariant:
  "keeps store_ok (sms_process_queue fuel port batch mx) \<and>
   keeps store_ok (advance_state su target ft message)"
proof
  have "keeps store_ok (sms_claim_tx batch :: (db, SmsSendRequest, SmsError, SmsQueueRow list) act)"
    unfolding sms_claim_tx_def by (intro keeps_intros keeps_stmt_locked_now) (rule store_ok_claim)
  then show "keeps store_ok (sms_process_queue fuel port batch mx)"
    unfolding sms_process_queue_def sms_step_def
    by (intro keeps_drain_loop keeps_intros keeps_sms_send keeps_store_outcome)
  show "keeps store_ok (advance_state su target ft message)" by (rule keeps_store_advance_state)
qed

section \<open>Where the code and its comments part\<close>

definition race_db :: "MailNotificationStatus \<Rightarrow> db" where
  "race_db st = empty_db\<lparr>messages := [sample_message 1],
     notifications := [sample_notification 3 None st],
     smss := [\<lparr>sms_id = 5, sms_uuid = ''u'', sms_number = ''n'', sms_body = ''b'',
       sms_state = SmsState.Outgoing, sms_failure_type = None, sms_error_message = None,
       sms_mail_message_id = Some 1, sms_iap_status_code = None, sms_updated_at = 0,
       sms_swept_at = None\<rparr>],
     trackers := [\<lparr>trk_sms_uuid = ''u'', trk_message_id = Some 1, trk_notification_id = Some 3,
       trk_state = MailNotificationStatus.Process\<rparr>]\<rparr>"

text \<open>The interleaving the late-verdict seam exists for: the drainer claims, the delivery report
  arrives, and only then the drainer applies the provider's first answer.\<close>

definition race_world :: "(db, SmsSendRequest) world" where
  "race_world = snd (advance_state ''u'' ''sent'' None None plain_env
     (snd (sms_claim_tx 1 plain_env (world_of (race_db MailNotificationStatus.Ready)))))"

definition race_result :: "SmsSendFailure + SmsSendOutcome \<Rightarrow>
  (SmsError + OutcomeApplied) \<times> (db, SmsSendRequest) world" where
  "race_result answer = in_tx SmDb (apply_outcome_in_tx 5 ''u'' (Some 1) answer) plain_env race_world"

text \<open>A replayed verdict is not a no-op.  When the delivery report overtakes the drainer, the drainer's
  late \<open>Accepted\<close> leaves the sms at sent and reports a replay, but mirrors its own stale state onto the
  tracker, which falls back from sent to pending although nothing else moved.\<close>

lemma replay_regresses_tracker:
  "fst (race_result (Inr SmsSendOutcome.Accepted)) = Inr OaReplay \<and>
   map sms_state (smss (db (snd (race_result (Inr SmsSendOutcome.Accepted))))) = [SmsState.Sent] \<and>
   map trk_state (trackers (db race_world)) = [MailNotificationStatus.Sent] \<and>
   map trk_state (trackers (db (snd (race_result (Inr SmsSendOutcome.Accepted))))) =
     [MailNotificationStatus.Pending]"
  by code_simp

text \<open>In the same interleaving a late failure is no replay either: the pump asks for sent to
  exception, which the transition trigger refuses, so the outcome transaction, and with it the whole
  drain pass, ends in a database error.\<close>

lemma late_failure_aborts_drain:
  "fst (race_result (Inl \<lparr>fl_failure_type = ''sms_server'', fl_message = ''m'', fl_iap_status_code = None\<rparr>)) =
   Inl (SmDb (CheckViolation ''trigger''))"
  by code_simp

text \<open>A regression through the late-verdict seam is refused by the database, not ignored: with the sms
  at pending, \<open>advance_state\<close> to process matches the row and ends in a trigger error.\<close>

lemma advance_state_regression_errs:
  "fst (advance_state ''u'' ''process'' None None plain_env
     (world_of ((race_db MailNotificationStatus.Pending)\<lparr>smss :=
        map (\<lambda>r. r\<lparr>sms_state := SmsState.Pending\<rparr>) (smss (race_db MailNotificationStatus.Pending))\<rparr>)
      :: (db, SmsSendRequest) world)) = Inl (SmDb (CheckViolation ''trigger''))"
  by code_simp

section \<open>The properties at concrete inputs\<close>

definition late_world :: "(db, SmsSendRequest) world" where
  "late_world = snd (sms_claim_tx 1 plain_env (world_of (race_db MailNotificationStatus.Ready)))"

definition late_run :: "(SmsError + bool) \<times> (db, SmsSendRequest) world" where
  "late_run = advance_state ''u'' (SmsState_show SmsState.Sent) None None plain_env late_world"

definition late_again :: "(SmsError + bool) \<times> (db, SmsSendRequest) world" where
  "late_again = advance_state ''u'' (SmsState_show SmsState.Sent) None None plain_env (snd late_run)"

lemma late_run_ok:
  "advance_state ''u'' (SmsState_show SmsState.Sent) None None plain_env late_world = (Inr True, snd late_run)"
  "advance_state ''u'' (SmsState_show SmsState.Sent) None None plain_env (snd late_run) =
     (Inr False, snd late_again)"
proof -
  have "fst late_run = Inr True" "fst late_again = Inr False" by code_simp+
  then show "advance_state ''u'' (SmsState_show SmsState.Sent) None None plain_env late_world = (Inr True, snd late_run)"
    "advance_state ''u'' (SmsState_show SmsState.Sent) None None plain_env (snd late_run) =
     (Inr False, snd late_again)"
    unfolding late_again_def by (auto simp: late_run_def prod_eq_iff)
qed

lemma late_world_distinct: "sms_distinct (db late_world)"
  by code_simp

lemma status_map_sound_witness:
  "sms_state_to_notification_status ''process'' = Some ''process'' \<and>
   mail_notifications_transition_check (notification_of SmsState.Process) (notification_of SmsState.Sent)"
proof
  show "sms_state_to_notification_status ''process'' = Some ''process''" by code_simp
  have "sms_state_transition_check SmsState.Process SmsState.Sent" by code_simp
  with status_map_sound
  show "mail_notifications_transition_check (notification_of SmsState.Process) (notification_of SmsState.Sent)"
    by (metis Pair_inject SmsState.distinct(9) SmsState.distinct)
qed

lemma advance_state_idempotent_witness: "db (snd late_again) = db (snd late_run)"
  using advance_state_idempotent [OF late_run_ok(1) late_world_distinct late_run_ok(2)] by blast

lemma advance_state_lockstep_witness:
  "list_all (\<lambda>t. trk_state t = notification_of SmsState.Sent) (trackers (db (snd late_run))) \<and>
   map trk_sms_uuid (trackers (db (snd late_run))) = [''u'']"
proof
  show u: "map trk_sms_uuid (trackers (db (snd late_run))) = [''u'']" by code_simp
  have "\<forall>t\<in>set (trackers (db (snd late_run))). trk_sms_uuid t = ''u'' \<longrightarrow> trk_state t = notification_of SmsState.Sent"
    using advance_state_lockstep [OF late_run_ok(1) late_world_distinct] by simp
  moreover have "\<forall>t\<in>set (trackers (db (snd late_run))). trk_sms_uuid t = ''u''"
    using arg_cong [OF u, of set] by auto
  ultimately show "list_all (\<lambda>t. trk_state t = notification_of SmsState.Sent) (trackers (db (snd late_run)))"
    by (simp add: list_all_iff)
qed

end
