(* ===== verification/Hex.thy ===== *)
theory Hex
  imports Prelude "HOL-Library.Word"
begin

unbundle bit_operations_syntax

text \<open>
  Bytes, their lower-case hex text, and the comparison of byte strings that folds the differences of
  all positions, as the webhook and the inbound gateway use them on secrets.
\<close>

type_synonym bytes = "8 word list"

definition is_ascii_hexdigit :: "char \<Rightarrow> bool" where
  "is_ascii_hexdigit c \<longleftrightarrow> is_ascii_digit c \<or> (65 \<le> byte_of c \<and> byte_of c \<le> 70) \<or>
     (97 \<le> byte_of c \<and> byte_of c \<le> 102)"

text \<open>\<open>char::to_digit(16)\<close>, a \<open>u32\<close>.\<close>

definition to_digit16 :: "char \<Rightarrow> 32 word option" where
  "to_digit16 c =
     (if is_ascii_digit c then Some (of_nat (byte_of c - 48))
      else if 97 \<le> byte_of c \<and> byte_of c \<le> 102 then Some (of_nat (byte_of c - 87))
      else if 65 \<le> byte_of c \<and> byte_of c \<le> 70 then Some (of_nat (byte_of c - 55))
      else None)"

fun const_eq_diff :: "8 word \<Rightarrow> bytes \<Rightarrow> bytes \<Rightarrow> 8 word" where
  "const_eq_diff diff (x # xs) (y # ys) = const_eq_diff (diff OR (x XOR y)) xs ys"
| "const_eq_diff diff _ _ = diff"

lemma const_eq_diff_zero:
  "length a = length b \<Longrightarrow> const_eq_diff d a b = 0 \<longleftrightarrow> d = 0 \<and> a = b"
proof (induction a b arbitrary: d rule: list_induct2)
  case (Cons x xs y ys)
  have "d OR (x XOR y) = 0 \<longleftrightarrow> d = 0 \<and> x = y"
    by (auto simp: bit_eq_iff bit_simps)
  with Cons.IH show ?case by simp
qed simp

text \<open>Lower-case hex, the form a provider signs with, and the reading of it.\<close>

definition hex_digit :: "8 word \<Rightarrow> char" where
  "hex_digit n = (if n < 10 then char_of (unat n + 48) else char_of (unat n + 87))"

definition hex_of :: "bytes \<Rightarrow> string" where
  "hex_of bs = concat (map (\<lambda>b. [hex_digit (drop_bit 4 b), hex_digit (b AND 15)]) bs)"

lemma and_15: "(b :: 8 word) AND 15 = take_bit 4 b"
  by (simp add: take_bit_eq_mask mask_eq_exp_minus_1)

lemma nibbles_small: "drop_bit 4 (b :: 8 word) < 16" "(b :: 8 word) AND 15 < 16"
proof -
  have "unat (drop_bit 4 b) = unat b div 16" by (simp add: drop_bit_eq_div unat_div)
  moreover have "unat b < 256" using unsigned_less [of b, where 'a = nat] by simp
  ultimately show "drop_bit 4 b < 16" by (simp add: word_less_nat_alt)
  show "b AND 15 < 16" unfolding and_15 using take_bit_nat_less_exp [of 4 "unat b"]
    by (simp add: word_less_nat_alt unsigned_take_bit_eq)
qed

lemma hex_of_simps [simp]:
  "hex_of [] = []" "hex_of (b # bs) = hex_digit (drop_bit 4 b) # hex_digit (b AND 15) # hex_of bs"
  by (simp_all add: hex_of_def)

end
