(* ===== verification/SmsWebhook.thy ===== *)
theory SmsWebhook
  imports SmsVerdicts Hex
begin

unbundle bit_operations_syntax

text \<open>
  The delivery-status webhook: \<open>src/application/service/sms_status_webhook_service.rs\<close>.  The crates it
  calls are parameters: \<open>mac\<close> is HMAC-SHA256 (32 bytes), \<open>from_slice\<close> is serde's reading of the payload.
\<close>

definition MAX_SKEW_SECS :: int where
  "MAX_SKEW_SECS = 300"

datatype WebhookError = WVerify string | WInvalid string | WDb db_error | WSms SmsError

datatype WebhookOutcome = Advanced | Replay

record WebhookPayload =
  wp_timestamp :: time
  wp_sms_uuid :: string
  wp_status :: string
  wp_failure_type :: "string option"
  wp_error_message :: "string option"

definition webhook_sms_state :: "(string \<Rightarrow> string) \<Rightarrow> WebhookPayload \<Rightarrow> WebhookError + string" where
  "webhook_sms_state dbg p =
     (if wp_status p = ''process'' \<or> wp_status p = ''pending'' \<or> wp_status p = ''sent'' \<or>
         wp_status p = ''error'' then Inr (wp_status p)
      else Inl (WInvalid (''status must be process|pending|sent|error, got '' @ dbg (wp_status p))))"

fun hex_pairs :: "string \<Rightarrow> bytes option" where
  "hex_pairs (a # b # s) =
     (case to_digit16 a of
        None \<Rightarrow> None
      | Some hi \<Rightarrow>
          (case to_digit16 b of
             None \<Rightarrow> None
           | Some lo \<Rightarrow>
               (case hex_pairs s of
                  None \<Rightarrow> None
                | Some bs \<Rightarrow> Some (ucast (push_bit 4 hi OR lo) # bs))))"
| "hex_pairs s = Some []"

definition parse_hex32 :: "string \<Rightarrow> bytes option" where
  "parse_hex32 s =
     (if length s \<noteq> 64 \<or> \<not> list_all is_ascii_hexdigit s then None else hex_pairs s)"

definition const_eq :: "bytes \<Rightarrow> bytes \<Rightarrow> bool" where
  "const_eq a b \<longleftrightarrow> const_eq_diff 0 a b = 0"

text \<open>\<open>(now - t).num_seconds().abs()\<close>: whole seconds, truncated.\<close>

definition skew_seconds :: "time \<Rightarrow> time \<Rightarrow> int" where
  "skew_seconds now t = \<bar>now - t\<bar> div NANOS_PER_SEC"

definition webhook_verify ::
  "(bytes \<Rightarrow> bytes \<Rightarrow> bytes) \<Rightarrow> bytes \<Rightarrow> bytes \<Rightarrow> string option \<Rightarrow> WebhookError + unit" where
  "webhook_verify mac secret raw_body signature_header =
     (case signature_header of
        None \<Rightarrow> Inl (WVerify ''missing X-Signature'')
      | Some header \<Rightarrow>
          (case parse_hex32 header of
             None \<Rightarrow> Inl (WVerify ''X-Signature is not 64 hex chars'')
           | Some given \<Rightarrow>
               if const_eq (mac secret raw_body) given then Inr ()
               else Inl (WVerify ''signature mismatch'')))"

definition webhook_handle ::
  "(bytes \<Rightarrow> bytes \<Rightarrow> bytes) \<Rightarrow> (bytes \<Rightarrow> string + WebhookPayload) \<Rightarrow> bytes \<Rightarrow> bytes \<Rightarrow> string option \<Rightarrow>
   (db, 'o, WebhookError, WebhookOutcome) act" where
  "webhook_handle mac from_slice secret raw_body signature_header =
     bindA (of_sum (webhook_verify mac secret raw_body signature_header)) (\<lambda>_.
     case from_slice raw_body of
       Inl e \<Rightarrow> fail (WInvalid (''body: '' @ e))
     | Inr pl \<Rightarrow>
         bindA now_utc (\<lambda>now.
         if skew_seconds now (wp_timestamp pl) > MAX_SKEW_SECS
         then fail (WVerify (''timestamp outside '' @ [CHR 0xC2, CHR 0xB1] @ ''5min window''))
         else
           bindA (ask str_debug) (\<lambda>dbg.
           bindA (of_sum (webhook_sms_state dbg pl)) (\<lambda>state.
           bindA (lift WSms (advance_state (wp_sms_uuid pl) state (wp_failure_type pl)
                    (wp_error_message pl))) (\<lambda>advanced.
           ret (if advanced then Advanced else Replay))))))"

section \<open>The comparison and the digits\<close>

text \<open>The constant-time comparison is equality: on digests of equal length \<open>const_eq\<close> is true exactly
  when every byte agrees, although it never exits early.\<close>

lemma const_eq_iff:
  assumes "length a = length b"
  shows "const_eq a b \<longleftrightarrow> a = b"
  using const_eq_diff_zero [OF assms] by (simp add: const_eq_def)

lemma digits_checked:
  "list_all (\<lambda>k. to_digit16 (hex_digit (of_nat k)) = Some (of_nat k) \<and>
     is_ascii_hexdigit (hex_digit (of_nat k))) [0..<16]"
  by (simp add: upt_rec to_digit16_def hex_digit_def is_ascii_digit_def is_ascii_hexdigit_def byte_of_def)

lemma to_digit_hex:
  assumes "(n :: 8 word) < 16"
  shows "to_digit16 (hex_digit n) = Some (ucast n)" and "is_ascii_hexdigit (hex_digit n)"
proof -
  from assms have "unat n < 16" by (simp add: word_less_nat_alt)
  then have "unat n \<in> set [0..<16]" by simp
  with digits_checked have "to_digit16 (hex_digit (of_nat (unat n))) = Some (of_nat (unat n)) \<and>
      is_ascii_hexdigit (hex_digit (of_nat (unat n)))" unfolding list_all_iff by blast
  then show "to_digit16 (hex_digit n) = Some (ucast n)" and "is_ascii_hexdigit (hex_digit n)"
    by simp_all
qed

lemma nibbles_join:
  "ucast (push_bit 4 (ucast (drop_bit 4 (b :: 8 word)) :: 32 word) OR ucast (b AND 15)) = b"
  unfolding and_15 by (rule bit_word_eqI) (auto simp: bit_simps)

lemma hex_pairs_of: "hex_pairs (hex_of bs) = Some bs"
  by (induction bs) (simp_all add: to_digit_hex nibbles_small nibbles_join)

lemma hex_of_digits: "list_all is_ascii_hexdigit (hex_of bs) \<and> length (hex_of bs) = 2 * length bs"
  by (induction bs) (simp_all add: to_digit_hex nibbles_small)

lemma parse_length:
  assumes "parse_hex32 s = Some x"
  shows "length x = 32 \<and> length s = 64 \<and> list_all is_ascii_hexdigit s"
proof -
  have pairs: "hex_pairs s = Some x \<Longrightarrow> even (length s) \<Longrightarrow> 2 * length x = length s" for s x
    by (induction s arbitrary: x rule: hex_pairs.induct) (auto split: option.splits)
  from assms have h: "length s = 64" "list_all is_ascii_hexdigit s" "hex_pairs s = Some x"
    by (auto simp: parse_hex32_def split: if_splits)
  with pairs [OF h(3)] show ?thesis by simp
qed

text \<open>Reading back a signature: the hex text of 32 bytes parses to those bytes; and whatever parses has
  64 hex digits and gives 32 bytes, so \<open>const_eq\<close> always compares digests of equal length.\<close>

lemma parse_hex32_spec:
  "(length bs = 32 \<longrightarrow> parse_hex32 (hex_of bs) = Some bs) \<and>
   (\<forall>s x. parse_hex32 s = Some x \<longrightarrow> length x = 32 \<and> length s = 64 \<and> list_all is_ascii_hexdigit s)"
proof (intro conjI impI)
  assume "length bs = 32"
  then show "parse_hex32 (hex_of bs) = Some bs"
    using hex_of_digits [of bs] by (simp add: parse_hex32_def hex_pairs_of)
qed (use parse_length in blast)

section \<open>Fail closed\<close>

text \<open>C10: no write before verification.  If a callback leaves any trace in the database, then it carried a
  well-formed signature that is the MAC of exactly the received bytes, its payload parsed, its
  timestamp was within the window (less than 301 seconds off, either way) of the clock read then,
  and its status was one of the four the seam accepts.\<close>

theorem webhook_writes_only_verified:
  assumes "webhook_handle mac from_slice secret raw sig v w = (r, w')" and "db w' \<noteq> db w"
    and "length (mac secret raw) = 32"
  shows "\<exists>header p. sig = Some header \<and> parse_hex32 header = Some (mac secret raw) \<and>
    from_slice raw = Inr p \<and> \<bar>clock v (tick w) - wp_timestamp p\<bar> < 301 * NANOS_PER_SEC \<and>
    wp_status p \<in> {''process'', ''pending'', ''sent'', ''error''}"
proof (cases "webhook_verify mac secret raw sig")
  case (Inl e)
  with assms show ?thesis by (simp add: webhook_handle_def bindA_def of_sum_def)
next
  case (Inr u)
  then obtain header given where h: "sig = Some header" "parse_hex32 header = Some given"
    "const_eq (mac secret raw) given"
    by (auto simp: webhook_verify_def split: option.splits if_splits)
  have "length given = 32" using h(2) parse_length by blast
  with h(3) assms(3) const_eq_diff_zero [of "mac secret raw" given 0] have g: "given = mac secret raw"
    by (simp add: const_eq_def)
  show ?thesis
  proof (cases "from_slice raw")
    case (Inl e)
    with Inr assms show ?thesis by (simp add: webhook_handle_def bindA_def of_sum_def fail_def)
  next
    case p: (Inr p)
    have k: "\<not> MAX_SKEW_SECS < skew_seconds (clock v (tick w)) (wp_timestamp p)"
      and st: "\<exists>s. webhook_sms_state (str_debug v) p = Inr s"
      using Inr p assms(1,2)
      by (auto simp: webhook_handle_def bindA_def of_sum_def fail_def now_utc_def ask_def
          split: if_splits sum.splits)
    from k have "\<bar>clock v (tick w) - wp_timestamp p\<bar> div NANOS_PER_SEC < 301"
      by (simp add: MAX_SKEW_SECS_def skew_seconds_def)
    then have "\<bar>clock v (tick w) - wp_timestamp p\<bar> < 301 * NANOS_PER_SEC"
      by (simp add: NANOS_PER_SEC_def)
    moreover from st have "wp_status p \<in> {''process'', ''pending'', ''sent'', ''error''}"
      by (auto simp: webhook_sms_state_def split: if_splits)
    ultimately show ?thesis using h g p by blast
  qed
qed

section \<open>The properties at concrete inputs\<close>

lemma const_eq_iff_witness: "\<not> const_eq [1, 2] [1, 3] \<and> const_eq [1, 2] [1, 2]"
  using const_eq_iff [of "[1, 2]" "[1, 3]"] const_eq_iff [of "[1, 2]" "[1, 2]"] by simp

lemma parse_hex32_spec_witness:
  "parse_hex32 (hex_of (replicate 32 171)) = Some (replicate 32 171)"
  using parse_hex32_spec [of "replicate 32 171"] by simp

text \<open>A delivery report signed with a sample code: the outcome is written.\<close>

definition report_run :: "(WebhookError + WebhookOutcome) \<times> (db, SmsSendRequest) world" where
  "report_run = webhook_handle (\<lambda>_ _. replicate 32 171)
     (\<lambda>_. Inr \<lparr>wp_timestamp = 0, wp_sms_uuid = ''u'', wp_status = ''sent'',
              wp_failure_type = None, wp_error_message = None\<rparr>)
     [] [] (Some (hex_of (replicate 32 171))) plain_env late_world"

lemma webhook_writes_only_verified_witness:
  "db (snd report_run) \<noteq> db late_world \<and>
   (\<exists>header. Some (hex_of (replicate 32 171)) = Some header \<and> parse_hex32 header = Some (replicate 32 171))"
proof
  have "map sms_state (smss (db (snd report_run))) \<noteq> map sms_state (smss (db late_world))" by code_simp
  then show n: "db (snd report_run) \<noteq> db late_world" by auto
  show "\<exists>header. Some (hex_of (replicate 32 171)) = Some header \<and> parse_hex32 header = Some (replicate 32 171)"
    using webhook_writes_only_verified [OF _ n, of "\<lambda>_ _. replicate 32 171" _ "[]" "[]" _ plain_env "fst report_run"]
    unfolding report_run_def prod.collapse by (simp only: length_replicate simp_thms) blast
qed

end
