(* ===== verification/Gc.thy ===== *)
theory Gc
  imports SmsVerdicts
begin

text \<open>
  Retention jobs and the stuck-process sweep: \<open>src/application/service/gc_service.rs\<close> over
  \<open>src/infrastructure/persistence/gc_repository.rs\<close>.  The audit triggers keep \<open>updated_at\<close> set, so the
  \<open>COALESCE\<close> of the predicates is that column.  A day is 24 hours (the session runs in UTC).  A DELETE
  is refused when a row of another table still references a deleted one: \<open>sms_trackers\<close> references
  \<open>mail_notifications\<close> (migration \<open>20260831220007\<close>, no \<open>ON DELETE\<close> action).
\<close>

section \<open>Repository\<close>

definition MINUTE :: int where "MINUTE = 60 * NANOS_PER_SEC"
definition HOUR :: int where "HOUR = 60 * MINUTE"
definition DAY :: int where "DAY = 24 * HOUR"

text \<open>\<open>NOW() - make_interval(unit => n::int)\<close>: the cast to \<open>int\<close> and the range of \<open>timestamptz\<close>.\<close>

definition PG_MIN_TIME :: int where "PG_MIN_TIME = - 210866803200 * NANOS_PER_SEC"
definition PG_END_TIME :: int where "PG_END_TIME = 9224318016000 * NANOS_PER_SEC"

definition minus_interval :: "time \<Rightarrow> int \<Rightarrow> int \<Rightarrow> db_error + time" where
  "minus_interval now n unit =
     (if n < - (2 ^ 31) \<or> 2 ^ 31 \<le> n then Inl (BadCast ''integer out of range'')
      else if now - n * unit < PG_MIN_TIME \<or> PG_END_TIME \<le> now - n * unit
        then Inl (BadCast ''timestamp out of range'')
      else Inr (now - n * unit))"

definition expired_notification :: "time \<Rightarrow> notification_row \<Rightarrow> bool" where
  "expired_notification bound r \<longleftrightarrow> ntf_updated_at r < bound"

definition repo_notification_gc :: "int \<Rightarrow> time \<Rightarrow> db \<Rightarrow> db_error + nat \<times> db" where
  "repo_notification_gc retention_days now d =
     (case minus_interval now retention_days DAY of
        Inl e \<Rightarrow> Inl e
      | Inr bound \<Rightarrow>
          let dead = filter (expired_notification bound) (notifications d) in
          if list_ex (\<lambda>t. trk_notification_id t \<in> Some ` ntf_id ` set dead) (trackers d)
          then Inl (ForeignKeyViolation ''fk_sms_trackers_notification_id'')
          else Inr (length dead, d\<lparr>notifications :=
                 filter (\<lambda>r. \<not> expired_notification bound r) (notifications d)\<rparr>))"

definition repo_presence_gc :: "int \<Rightarrow> time \<Rightarrow> db \<Rightarrow> db_error + nat \<times> db" where
  "repo_presence_gc stale_hours now d =
     (case minus_interval now stale_hours HOUR of
        Inl e \<Rightarrow> Inl e
      | Inr bound \<Rightarrow>
          Inr (length (filter (\<lambda>r. prs_last_poll r < bound) (presences d)),
               d\<lparr>presences := filter (\<lambda>r. \<not> prs_last_poll r < bound) (presences d)\<rparr>))"

definition stale_guest :: "time \<Rightarrow> guest_row \<Rightarrow> bool" where
  "stale_guest bound r \<longleftrightarrow> gst_active r \<and> gst_last_connection r < bound"

definition repo_guest_gc :: "int \<Rightarrow> time \<Rightarrow> db \<Rightarrow> db_error + nat \<times> db" where
  "repo_guest_gc stale_minutes now d =
     (case minus_interval now stale_minutes MINUTE of
        Inl e \<Rightarrow> Inl e
      | Inr bound \<Rightarrow>
          Inr (length (filter (stale_guest bound) (guests d)),
               d\<lparr>guests := map (\<lambda>r. if stale_guest bound r
                 then r\<lparr>gst_active := False, gst_deleted_at := Some now\<rparr> else r) (guests d)\<rparr>))"

definition stuck_sms :: "time \<Rightarrow> sms_row \<Rightarrow> bool" where
  "stuck_sms bound r \<longleftrightarrow> sms_state r = SmsState.Process \<and> sms_updated_at r < bound"

text \<open>\<open>age_minutes\<close> is what the driver decodes as \<open>f64\<close> of \<open>EXTRACT(EPOCH ...) / 60.0\<close>, floored, with 0
  where it cannot (PostgreSQL 14 and later give a \<open>numeric\<close> there).\<close>

definition find_stuck_process ::
  "(int \<Rightarrow> int) \<Rightarrow> int \<Rightarrow> time \<Rightarrow> db \<Rightarrow> db_error + (uuid list \<times> int) \<times> db" where
  "find_stuck_process age_minutes threshold now d =
     (case minus_interval now threshold MINUTE of
        Inl e \<Rightarrow> Inl e
      | Inr bound \<Rightarrow>
          let rows = sort_key sms_updated_at (filter (stuck_sms bound) (smss d));
              ages = map (\<lambda>r. age_minutes (now - sms_updated_at r)) rows
          in Inr ((map sms_id rows, if ages = [] then 0 else Max (set ages)), d))"

definition requeue_match :: "uuid list \<Rightarrow> sms_row \<Rightarrow> bool" where
  "requeue_match ids r \<longleftrightarrow>
     sms_id r \<in> set ids \<and> sms_state r = SmsState.Process \<and> sms_swept_at r = None"

definition requeue_set :: "time \<Rightarrow> sms_row \<Rightarrow> sms_row" where
  "requeue_set now r =
     r\<lparr>sms_state := SmsState.Outgoing, sms_updated_at := now, sms_swept_at := Some now\<rparr>"

definition requeue_stuck_process :: "uuid list \<Rightarrow> time \<Rightarrow> db \<Rightarrow> db_error + nat \<times> db" where
  "requeue_stuck_process ids now d =
     (if ids = [] then Inr (0, d)
      else case sql_update (requeue_match ids) (requeue_set now) sms_trigger_ok (smss d) of
             Inl e \<Rightarrow> Inl e
           | Inr (rs, rows) \<Rightarrow> Inr (length rs, d\<lparr>smss := rows\<rparr>))"

definition reapable_sms :: "time \<Rightarrow> sms_row \<Rightarrow> bool" where
  "reapable_sms bound r \<longleftrightarrow>
     sms_state r \<in> {SmsState.Sent, SmsState.Error, SmsState.Canceled} \<and> sms_updated_at r < bound"

definition repo_sms_gc :: "int \<Rightarrow> time \<Rightarrow> db \<Rightarrow> db_error + nat \<times> db" where
  "repo_sms_gc retention_days now d =
     (case minus_interval now retention_days DAY of
        Inl e \<Rightarrow> Inl e
      | Inr bound \<Rightarrow>
          Inr (length (filter (reapable_sms bound) (smss d)),
               d\<lparr>smss := filter (\<lambda>r. \<not> reapable_sms bound r) (smss d)\<rparr>))"

section \<open>Service\<close>

record GcService =
  notification_retention_days :: int
  presence_stale_hours :: int
  guest_stale_minutes :: int
  stuck_threshold_minutes :: int

definition SMS_OPS_CHANNEL :: string where
  "SMS_OPS_CHANNEL = ''sms.queue_ops''"

definition notification_gc :: "GcService \<Rightarrow> (db, 'o, db_error, nat) act" where
  "notification_gc s = in_tx id (stmt_now (repo_notification_gc (notification_retention_days s)))"

definition presence_gc :: "GcService \<Rightarrow> (db, 'o, db_error, nat) act" where
  "presence_gc s = in_tx id (stmt_now (repo_presence_gc (presence_stale_hours s)))"

definition guest_gc :: "GcService \<Rightarrow> (db, 'o, db_error, nat) act" where
  "guest_gc s = in_tx id (stmt_now (repo_guest_gc (guest_stale_minutes s)))"

definition sms_gc :: "int \<Rightarrow> (db, 'o, db_error, nat) act" where
  "sms_gc retention_days = in_tx id (stmt_now (repo_sms_gc retention_days))"

definition sweep_alert ::
  "(uuid \<Rightarrow> string) \<Rightarrow> uuid list \<Rightarrow> int \<Rightarrow> nat \<Rightarrow> (db, 'o, db_error, unit) act" where
  "sweep_alert U ids oldest_minutes requeued =
     stage_bus_event ''SmsStuckProcessDetected'' ''Sms'' (U (hd ids)) SMS_OPS_CHANNEL
       ''sms.sweep_stuck_process''
       (JObject [(''sms_ids'', JArray (map (\<lambda>i. JString (U i)) ids)),
                 (''stuck_for_minutes'', JNumber oldest_minutes),
                 (''requeued'', JBool (requeued > 0))])"

definition sweep_found ::
  "(uuid \<Rightarrow> string) \<Rightarrow> uuid list \<times> int \<Rightarrow> (db, 'o, db_error, uuid list \<times> nat) act" where
  "sweep_found U found =
     (let (ids, oldest_minutes) = found in
      if ids = [] then ret (ids, 0)
      else
        bindA (stmt_now (requeue_stuck_process ids)) (\<lambda>requeued.
        bindA (sweep_alert U ids oldest_minutes requeued) (\<lambda>_.
        ret (ids, requeued))))"

definition sweep_stuck_process ::
  "(int \<Rightarrow> int) \<Rightarrow> GcService \<Rightarrow> (db, 'o, db_error, uuid list \<times> nat) act" where
  "sweep_stuck_process age_minutes s =
     in_tx id (
       bindA (ask uuid_text) (\<lambda>U.
       bindA (stmt_now (find_stuck_process age_minutes (stuck_threshold_minutes s))) (sweep_found U)))"

section \<open>Reaping\<close>

lemma in_tx_one:
  assumes "in_tx up (stmt_now q) v w = (Inr x, w')"
  obtains now where "q now (db w) = Inr (x, db w')"
proof -
  have "straight (stmt_now q)" by (intro straight_intros)
  with assms obtain w1 where "stmt_now q v (begin_tx v w) = (Inr x, w1)" "db w' = db w1"
    by (rule in_tx_straight)
  then show ?thesis by (auto elim!: stmt_now_InrE intro: that)
qed

lemma repo_sms_gc_Inr:
  assumes "repo_sms_gc days now d = Inr (n, d')"
  obtains bound where "d' = d\<lparr>smss := filter (\<lambda>r. \<not> reapable_sms bound r) (smss d)\<rparr>"
    and "n = length (filter (reapable_sms bound) (smss d))"
  using assms by (auto simp: repo_sms_gc_def split: sum.splits intro: that)

lemma repo_notification_gc_Inr:
  assumes "repo_notification_gc days now d = Inr (n, d')"
  obtains bound where
    "\<not> list_ex (\<lambda>t. trk_notification_id t \<in> Some ` ntf_id ` set (filter (expired_notification bound)
         (notifications d))) (trackers d)"
    and "d' = d\<lparr>notifications := filter (\<lambda>r. \<not> expired_notification bound r) (notifications d)\<rparr>"
    and "n = length (filter (expired_notification bound) (notifications d))"
  using assms
  by (auto simp: repo_notification_gc_def Let_def simp del: set_filter split: sum.splits if_splits
      intro: that)

text \<open>The sms reaper takes only finished rows.  When \<open>sms_gc\<close> returns, every sms that was outgoing, in
  process or pending is still there, what is gone was sent, failed or canceled and older than the
  bound, the count is the number of rows gone, and nothing else changed (the trackers and
  notifications keep their history).\<close>

lemma sms_gc_reaps_terminal:
  assumes "sms_gc days v w = (Inr n, w')"
  shows "\<exists>bound. db w' = (db w)\<lparr>smss := filter (\<lambda>r. \<not> reapable_sms bound r) (smss (db w))\<rparr> \<and>
    n = length (smss (db w)) - length (smss (db w')) \<and>
    (\<forall>r\<in>set (smss (db w)). sms_state r \<in> {SmsState.Outgoing, SmsState.Process, SmsState.Pending} \<longrightarrow>
       r \<in> set (smss (db w')))"
proof -
  from assms obtain now where "repo_sms_gc days now (db w) = Inr (n, db w')"
    unfolding sms_gc_def by (rule in_tx_one)
  then obtain bound where d: "db w' = (db w)\<lparr>smss := filter (\<lambda>r. \<not> reapable_sms bound r) (smss (db w))\<rparr>"
    and n: "n = length (filter (reapable_sms bound) (smss (db w)))"
    by (rule repo_sms_gc_Inr)
  from sum_length_filter_compl [of "reapable_sms bound" "smss (db w)"] n d
  have "n = length (smss (db w)) - length (smss (db w'))" by simp
  with d show ?thesis by (intro exI [of _ bound]) (auto simp: reapable_sms_def)
qed

text \<open>The notification reaper and sms tracking collide.  As soon as one expired notification has an sms
  tracker, \<open>notification_gc\<close> cannot succeed: the foreign key of \<open>sms_trackers\<close> refuses the statement and
  nothing is reaped, expired notifications without a tracker included.\<close>

lemma notification_gc_blocked:
  assumes "r \<in> set (notifications (db w))" and "t \<in> set (trackers (db w))"
    and "trk_notification_id t = Some (ntf_id r)"
    and "\<forall>n. ntf_updated_at r < clock v n - notification_retention_days s * DAY"
    and "notification_gc s v w = (x, w')"
  shows "(\<forall>n. x \<noteq> Inr n) \<and> db w' = db w"
proof -
  have q: "\<forall>y. repo_notification_gc (notification_retention_days s) (clock v (tick w)) (db w) \<noteq> Inr y"
  proof (cases "minus_interval (clock v (tick w)) (notification_retention_days s) DAY")
    case (Inl e)
    then show ?thesis by (simp add: repo_notification_gc_def)
  next
    case (Inr bound)
    then have b: "bound = clock v (tick w) - notification_retention_days s * DAY"
      by (auto simp: minus_interval_def split: if_splits)
    with assms(1,4) have "r \<in> set (filter (expired_notification bound) (notifications (db w)))"
      by (simp add: expired_notification_def)
    with assms(2,3) have
      "list_ex (\<lambda>t. trk_notification_id t \<in> Some ` ntf_id ` set (filter (expired_notification bound)
         (notifications (db w)))) (trackers (db w))"
      unfolding list_ex_iff by blast
    with Inr show ?thesis by (simp add: repo_notification_gc_def del: set_filter)
  qed
  have "\<nexists>y w1. stmt_now (repo_notification_gc (notification_retention_days s)) v (begin_tx v w) = (Inr y, w1)"
    using q by (auto elim!: stmt_now_InrE)
  with in_tx_atomic [OF assms(5) [unfolded notification_gc_def]] have "db w' = db w" by blast
  moreover have "x \<noteq> Inr n" for n
  proof
    assume "x = Inr n"
    with assms(5) have "notification_gc s v w = (Inr n, w')" by simp
    with q in_tx_Inr [of id "stmt_now (repo_notification_gc (notification_retention_days s))" v w n w']
    show False by (auto simp: notification_gc_def elim!: stmt_now_InrE)
  qed
  ultimately show ?thesis by simp
qed

text \<open>Without such a tracker the notification reaper is exact: what is gone is what is older than the
  bound, and the count is the number of rows gone.\<close>

lemma notification_gc_exact:
  assumes "notification_gc s v w = (Inr n, w')"
  shows "\<exists>bound. notifications (db w') =
      filter (\<lambda>r. \<not> expired_notification bound r) (notifications (db w)) \<and>
    n + length (notifications (db w')) = length (notifications (db w)) \<and>
    (\<forall>t\<in>set (trackers (db w)). \<forall>r\<in>set (notifications (db w)).
       trk_notification_id t = Some (ntf_id r) \<longrightarrow> r \<in> set (notifications (db w')))"
proof -
  from assms obtain now where q: "repo_notification_gc (notification_retention_days s) now (db w) =
      Inr (n, db w')" unfolding notification_gc_def by (rule in_tx_one)
  then obtain bound where
    k: "\<not> list_ex (\<lambda>t. trk_notification_id t \<in> Some ` ntf_id ` set (filter (expired_notification bound)
         (notifications (db w)))) (trackers (db w))" and
    d: "db w' = (db w)\<lparr>notifications := filter (\<lambda>r. \<not> expired_notification bound r) (notifications (db w))\<rparr>"
      "n = length (filter (expired_notification bound) (notifications (db w)))"
    by (rule repo_notification_gc_Inr)
  from k have "\<not> expired_notification bound r" if "t \<in> set (trackers (db w))"
    "r \<in> set (notifications (db w))" "trk_notification_id t = Some (ntf_id r)" for t r
    using that by (auto simp: list_ex_iff)
  with d sum_length_filter_compl [of "expired_notification bound" "notifications (db w)"]
  show ?thesis by (intro exI [of _ bound]) auto
qed

section \<open>The sweep\<close>

lemma requeue_set_simps [simp]:
  "sms_id (requeue_set now r) = sms_id r" "sms_uuid (requeue_set now r) = sms_uuid r"
  "sms_mail_message_id (requeue_set now r) = sms_mail_message_id r"
  "sms_state (requeue_set now r) = SmsState.Outgoing" "sms_swept_at (requeue_set now r) = Some now"
  by (simp_all add: requeue_set_def)

lemma requeue_Inr:
  assumes "requeue_stuck_process ids now d = Inr (n, d')"
  shows "d' = d\<lparr>smss := map (\<lambda>r. if requeue_match ids r then requeue_set now r else r) (smss d)\<rparr> \<and>
    n = length (filter (requeue_match ids) (smss d))"
proof (cases "ids = []")
  case True
  with assms have "n = 0" "d' = d" by (simp_all add: requeue_stuck_process_def)
  moreover have none: "\<not> requeue_match ids r" for r using True by (simp add: requeue_match_def)
  ultimately show ?thesis by (simp add: none)
next
  case False
  with assms obtain rs rows where
    "sql_update (requeue_match ids) (requeue_set now) sms_trigger_ok (smss d) = Inr (rs, rows)"
    "n = length rs" "d' = d\<lparr>smss := rows\<rparr>"
    by (auto simp: requeue_stuck_process_def split: sum.splits)
  with sql_update_Inr [OF this(1)] show ?thesis by simp
qed

text \<open>What a sweep that returns did: the stuck rows, their requeue, the alert.\<close>

definition swept :: "time \<Rightarrow> time \<Rightarrow> uuid list \<Rightarrow> nat \<Rightarrow> db \<Rightarrow> db \<Rightarrow> bool" where
  "swept bound now ids n d d' \<longleftrightarrow>
     ids = map sms_id (sort_key sms_updated_at (filter (stuck_sms bound) (smss d))) \<and>
     n = length (filter (requeue_match ids) (smss d)) \<and>
     (\<exists>evs. d' = d\<lparr>smss := map (\<lambda>r. if requeue_match ids r then requeue_set now r else r) (smss d),
                   outbox := outbox d @ evs\<rparr> \<and>
        map (\<lambda>e. (event_type e, event_channel e)) evs =
          (if ids = [] then [] else [(''SmsStuckProcessDetected'', Some SMS_OPS_CHANNEL)]))"

lemma minus_interval_Inr: "minus_interval now n unit = Inr bound \<Longrightarrow> bound = now - n * unit"
  by (simp add: minus_interval_def split: if_splits)

lemma find_stuck_process_Inr:
  assumes "find_stuck_process age thr now d = Inr (found, d')"
  shows "d' = d \<and> fst found = map sms_id (sort_key sms_updated_at (filter (stuck_sms (now - thr * MINUTE)) (smss d)))"
  using assms by (auto simp: find_stuck_process_def Let_def split: sum.splits dest: minus_interval_Inr)

lemma straight_sweep [straight_intros]: "straight (sweep_alert U ids m n)" "straight (sweep_found U found)"
proof -
  show a: "straight (sweep_alert U ids m n)" for ids m n
    unfolding sweep_alert_def by (rule straight_bus)
  show "straight (sweep_found U found)"
    unfolding sweep_found_def Let_def by (cases found) (simp only: prod.case, intro straight_intros a)
qed

lemma sweep_found_Inr:
  assumes "sweep_found U found v w = (Inr (ids, n), w')"
    and "fst found = map sms_id (sort_key sms_updated_at (filter (stuck_sms bound) (smss (db w))))"
  shows "swept bound (tx_start w) ids n (db w) (db w')"
proof (cases found)
  case (Pair found_ids old)
  show ?thesis
  proof (cases "found_ids = []")
    case True
    with assms(1) Pair have "ids = []" "n = 0" "w' = w" by (simp_all add: sweep_found_def ret_def)
    moreover have "\<not> requeue_match [] r" for r by (simp add: requeue_match_def)
    ultimately show ?thesis using assms(2) True Pair by (simp add: swept_def)
  next
    case False
    with assms(1) Pair have run: "bindA (stmt_now (requeue_stuck_process found_ids)) (\<lambda>requeued.
        bindA (sweep_alert U found_ids old requeued) (\<lambda>_. ret (found_ids, requeued))) v w = (Inr (ids, n), w')"
      by (simp add: sweep_found_def)
    then obtain req w1 where q: "stmt_now (requeue_stuck_process found_ids) v w = ((Inr req :: db_error + nat), w1)"
      and run2: "bindA (sweep_alert U found_ids old req) (\<lambda>_. ret (found_ids, req)) v w1 = (Inr (ids, n), w')"
      by (rule bindA_InrE)
    from run2 obtain u w2 where e: "sweep_alert U found_ids old req v w1 = ((Inr u :: db_error + unit), w2)"
      and r: "ret (found_ids, req) v w2 = ((Inr (ids, n) :: db_error + _), w')" by (rule bindA_InrE)
    from r have rr: "ids = found_ids" "n = req" "w' = w2" by (simp_all add: ret_def)
    from q have "requeue_stuck_process found_ids (tx_start w) (db w) = Inr (req, db w1)" by (rule stmt_now_InrE)
    note rq = requeue_Inr [OF this]
    from e obtain ev where "db w2 = (db w1)\<lparr>outbox := outbox (db w1) @ [ev]\<rparr>"
      "event_type ev = ''SmsStuckProcessDetected''" "event_channel ev = Some SMS_OPS_CHANNEL"
      unfolding sweep_alert_def by (rule stage_bus_event_InrE)
    with rq rr False assms(2) Pair show ?thesis
      unfolding swept_def by (intro conjI exI [of _ "[ev]"]) simp_all
  qed
qed

lemma sweep_unfold:
  "sweep_stuck_process age s v w =
     in_tx id (bindA (stmt_now (find_stuck_process age (stuck_threshold_minutes s))) (sweep_found (uuid_text v))) v w"
  by (simp only: sweep_stuck_process_def in_tx_def bindA_ask)

lemma sweep_Inr:
  assumes "sweep_stuck_process age s v w = (Inr (ids, n), w')"
  shows "swept (clock v (tick w) - stuck_threshold_minutes s * MINUTE) (clock v (tick w)) ids n (db w) (db w')"
proof -
  let ?body = "bindA (stmt_now (find_stuck_process age (stuck_threshold_minutes s))) (sweep_found (uuid_text v))"
  from assms have run: "in_tx id ?body v w = (Inr (ids, n), w')" by (simp only: sweep_unfold)
  moreover have "straight ?body" by (intro straight_intros)
  ultimately obtain w1 where b: "?body v (begin_tx v w) = (Inr (ids, n), w1)" and w1: "db w' = db w1"
    by (rule in_tx_straight)
  from b obtain found w2 where
    f: "stmt_now (find_stuck_process age (stuck_threshold_minutes s)) v (begin_tx v w) =
        ((Inr found :: db_error + uuid list \<times> int), w2)" and
    rest: "sweep_found (uuid_text v) found v w2 = (Inr (ids, n), w1)" by (rule bindA_InrE)
  from f have q: "find_stuck_process age (stuck_threshold_minutes s) (clock v (tick w)) (db w) = Inr (found, db w2)"
    and t: "tx_start w2 = clock v (tick w)" by (auto simp: tx_step_def elim!: stmt_now_InrE)
  note q = find_stuck_process_Inr [OF q]
  then have "db w2 = db w" by simp
  with sweep_found_Inr [OF rest, of "clock v (tick w) - stuck_threshold_minutes s * MINUTE"] q t w1 show ?thesis
    by simp
qed

text \<open>The requeue passes both triggers of the table, so nothing but a failing statement or a threshold
  outside the range of an interval stops a sweep.\<close>

lemma requeue_passes: "requeue_match ids r \<Longrightarrow> sms_trigger_ok r (requeue_set now r)"
  by (simp add: requeue_match_def sms_trigger_ok_def sms_state_monotonic_guard_def sms_state_transition_check_def
      sms_transitions_def)

lemma sweep_succeeds:
  assumes "quiet v" and "minus_interval (clock v (tick w)) (stuck_threshold_minutes s) MINUTE = Inr bound"
  shows "\<not> isl (fst (sweep_stuck_process age s v w))"
proof -
  have "succeeds v (sweep_stuck_process age s) w"
    unfolding succeeds_def sweep_unfold
    unfolding succeeds_def [symmetric] sweep_found_def Let_def sweep_alert_def
    using assms
    by (intro succeeds_in_tx succeeds_bind succeeds_stmt_now)
      (auto simp: find_stuck_process_def Let_def requeue_stuck_process_def sql_update_def list_all_iff
         requeue_passes intro!: succeeds_bind succeeds_stmt_now succeeds_bus succeeds_basic split: prod.split)
  then show ?thesis by (auto simp: succeeds_def)
qed

text \<open>C11: the sweep requeues exactly the stuck, once-only rows.  With \<open>now\<close> the clock at the start of its
  transaction and \<open>bound\<close> the configured number of minutes before it, a sweep that returns reports the ids of
  all rows in process written before the bound, oldest first; those of them never swept before are outgoing again,
  stamped and marked with \<open>now\<close>, and counted; the operators' channel gets one alert exactly when something was
  stuck; nothing else in the database changes.  A sweep that fails wrote nothing, unless the acknowledgement of the
  commit was lost, and without failing statements it fails only for a threshold that is no interval.\<close>

theorem sweep_effect:
  assumes "sweep_stuck_process age s v w = (r, w')" and "sms_distinct (db w)"
    and "now = clock v (tick w)" and "bound = now - stuck_threshold_minutes s * MINUTE"
  shows "(case r of
      Inl e \<Rightarrow> ((\<forall>n. \<not> ack_lost v n) \<longrightarrow> db w' = db w) \<and>
        (quiet v \<longrightarrow> isl (minus_interval now (stuck_threshold_minutes s) MINUTE))
    | Inr (ids, n) \<Rightarrow>
        ids = map sms_id (sort_key sms_updated_at (filter (stuck_sms bound) (smss (db w)))) \<and>
        n = length (filter (\<lambda>r. stuck_sms bound r \<and> sms_swept_at r = None) (smss (db w))) \<and>
        (\<exists>evs. db w' = (db w)\<lparr>
             smss := map (\<lambda>r. if stuck_sms bound r \<and> sms_swept_at r = None then requeue_set now r else r) (smss (db w)),
             outbox := outbox (db w) @ evs\<rparr> \<and>
           map (\<lambda>e. (event_type e, event_channel e)) evs =
             (if ids = [] then [] else [(''SmsStuckProcessDetected'', Some SMS_OPS_CHANNEL)])))"
proof (cases r)
  case (Inl e)
  from assms(1) have t: "in_tx id (bindA (stmt_now (find_stuck_process age (stuck_threshold_minutes s)))
      (sweep_found (uuid_text v))) v w = (Inl e, w')" unfolding Inl sweep_unfold .
  have "isl (minus_interval now (stuck_threshold_minutes s) MINUTE)" if "quiet v"
    using sweep_succeeds [OF that, of w s _ age] assms(1,3) Inl
    by (cases "minus_interval now (stuck_threshold_minutes s) MINUTE") auto
  with in_tx_Inl [OF t] Inl show ?thesis by simp
next
  case (Inr a)
  obtain ids n where a: "a = (ids, n)" by fastforce
  have s: "swept bound now ids n (db w) (db w')"
    using sweep_Inr [of age s v w ids n w'] assms(1,3,4) by (simp add: Inr a)
  then have i: "set ids = sms_id ` {r \<in> set (smss (db w)). stuck_sms bound r}"
    by (auto simp: swept_def)
  have m: "requeue_match ids r \<longleftrightarrow> stuck_sms bound r \<and> sms_swept_at r = None"
    if r: "r \<in> set (smss (db w))" for r
  proof
    assume q: "requeue_match ids r"
    with i obtain x where "x \<in> set (smss (db w))" "stuck_sms bound x" "sms_id x = sms_id r"
      by (auto simp: requeue_match_def)
    with r assms(2) have "x = r" by (auto simp: sms_distinct_def dest: distinct_key_unique)
    with q \<open>stuck_sms bound x\<close> show "stuck_sms bound r \<and> sms_swept_at r = None"
      by (simp add: requeue_match_def)
  next
    assume "stuck_sms bound r \<and> sms_swept_at r = None"
    with r i show "requeue_match ids r" by (auto simp: requeue_match_def stuck_sms_def)
  qed
  have rows: "map (\<lambda>r. if requeue_match ids r then requeue_set now r else r) (smss (db w)) =
      map (\<lambda>r. if stuck_sms bound r \<and> sms_swept_at r = None then requeue_set now r else r) (smss (db w))"
    by (rule map_cong) (simp_all add: m)
  have count: "filter (requeue_match ids) (smss (db w)) =
      filter (\<lambda>r. stuck_sms bound r \<and> sms_swept_at r = None) (smss (db w))"
    by (rule filter_cong) (simp_all add: m)
  show ?thesis unfolding Inr a sum.case prod.case using s [unfolded swept_def rows count] .
qed

definition unswept :: "db \<Rightarrow> nat" where
  "unswept d = length (filter (\<lambda>r. sms_swept_at r = None) (smss d))"

text \<open>The mark is part of what the drain and the verdicts leave alone.\<close>

lemma rows_advanced_marks: "sms_rows_advanced rs rs' \<Longrightarrow> map sms_swept_at rs' = map sms_swept_at rs"
  unfolding sms_rows_advanced_def by (induction rs rs' rule: list_all2_induct) (auto simp: sms_advanced_def)

lemma length_filter_key:
  assumes "map f ys = map f xs"
  shows "length (filter (\<lambda>y. f y = k) ys) = length (filter (\<lambda>x. f x = k) xs)"
proof -
  have l: "length (filter (\<lambda>x. f x = k) zs) = length (filter (\<lambda>z. z = k) (map f zs))" for zs
    by (simp add: filter_map comp_def)
  show ?thesis by (simp only: l assms)
qed

lemma since_unswept: "sms_since N d \<Longrightarrow> unswept d = length (filter (\<lambda>r. sms_swept_at r = None) N)"
  unfolding sms_since_def unswept_def by (auto dest: rows_advanced_marks intro: length_filter_key)

lemma requeue_unswept:
  "length (filter (\<lambda>r. sms_swept_at r = None) (map (\<lambda>r. if requeue_match ids r then requeue_set now r else r) rs)) +
   length (filter (requeue_match ids) rs) = length (filter (\<lambda>r. sms_swept_at r = None) rs)"
  by (induction rs) (auto simp: requeue_match_def)

text \<open>An sms is requeued at most once in its life.  A sweep that returns moves as many rows from
  unmarked to marked as it reports requeued, and no run of the drain or of a late verdict, whatever
  its outcome, changes how many are unmarked; so the requeues reported over a whole history add up to
  at most the number of rows, and a row that gets stuck again stays where it is.\<close>

lemma sweep_bounded:
  assumes "sms_distinct (db w)"
  shows "(\<forall>ids n w'. sweep_stuck_process age s v w = (Inr (ids, n), w') \<longrightarrow>
            unswept (db w') + n = unswept (db w)) \<and>
         unswept (db (snd (sms_process_queue fuel port batch mx v w))) = unswept (db w) \<and>
         unswept (db (snd (advance_state su target ft message v w))) = unswept (db w)"
proof (intro conjI allI impI)
  fix ids n w' assume "sweep_stuck_process age s v w = (Inr (ids, n), w')"
  then obtain bound now where "swept bound now ids n (db w) (db w')" by (blast dest: sweep_Inr)
  then show "unswept (db w') + n = unswept (db w)"
    using requeue_unswept [of ids now "smss (db w)"] by (auto simp: swept_def unswept_def)
next
  have "keeps (sms_since (smss (db w))) (sms_process_queue fuel port batch mx)"
    unfolding sms_process_queue_def by (intro keeps_drain_loop keeps_since_claim keeps_since_step)
  from since_unswept [OF keepsD [OF this sms_since_refl [OF assms]]]
  show "unswept (db (snd (sms_process_queue fuel port batch mx v w))) = unswept (db w)"
    by (simp add: unswept_def)
next
  from since_unswept [OF keepsD [OF keeps_since_advance_state sms_since_refl [OF assms]]]
  show "unswept (db (snd (advance_state su target ft message v w))) = unswept (db w)"
    by (simp add: unswept_def)
qed

section \<open>The properties at concrete inputs\<close>

definition gc_config :: GcService where
  "gc_config = \<lparr>notification_retention_days = 1, presence_stale_hours = 1, guest_stale_minutes = 1,
     stuck_threshold_minutes = 1\<rparr>"

text \<open>A clock that reads two days after the rows were written.\<close>

definition later_env :: env where
  "later_env = plain_env\<lparr>clock := (\<lambda>_. 2 * DAY)\<rparr>"

definition gc_world :: "(db, SmsSendRequest) world" where
  "gc_world = late_world\<lparr>db := (db late_world)\<lparr>notifications :=
     [sample_notification 3 None MailNotificationStatus.Ready, sample_notification 4 None MailNotificationStatus.Sent]\<rparr>\<rparr>"

definition reaped :: "(db_error + nat) \<times> (db, SmsSendRequest) world" where
  "reaped = sms_gc 1 later_env gc_world"

definition swept_run :: "(db_error + uuid list \<times> nat) \<times> (db, SmsSendRequest) world" where
  "swept_run = sweep_stuck_process (\<lambda>_. 0) gc_config later_env gc_world"

lemma sms_gc_reaps_terminal_witness:
  "sms_state (hd (smss (db gc_world))) = SmsState.Process \<and>
   hd (smss (db gc_world)) \<in> set (smss (db (snd reaped)))"
proof
  have "\<not> isl (fst reaped)" by code_simp
  then have "sms_gc 1 later_env gc_world = (Inr (projr (fst reaped)), snd reaped)"
    unfolding reaped_def by (cases "sms_gc 1 later_env gc_world") auto
  from sms_gc_reaps_terminal [OF this] have k: "\<forall>r\<in>set (smss (db gc_world)).
    sms_state r \<in> {SmsState.Outgoing, SmsState.Process, SmsState.Pending} \<longrightarrow> r \<in> set (smss (db (snd reaped)))" by blast
  show p: "sms_state (hd (smss (db gc_world))) = SmsState.Process" by code_simp
  have "smss (db gc_world) \<noteq> []" by code_simp
  with k p show "hd (smss (db gc_world)) \<in> set (smss (db (snd reaped)))" by simp
qed

lemma notification_gc_blocked_witness:
  "db (snd (notification_gc gc_config later_env gc_world)) = db gc_world"
proof -
  let ?r = "hd (notifications (db gc_world))" and ?t = "hd (trackers (db gc_world))"
  have ne: "notifications (db gc_world) \<noteq> []" "trackers (db gc_world) \<noteq> []" by code_simp+
  have "trk_notification_id ?t = Some (ntf_id ?r)" by code_simp
  moreover have "ntf_updated_at ?r < 2 * DAY - notification_retention_days gc_config * DAY" by code_simp
  ultimately show ?thesis
    using notification_gc_blocked [of ?r gc_world ?t later_env gc_config, OF _ _ _ _ surjective_pairing] ne
    by (simp add: later_env_def)
qed

lemma notification_gc_exact_witness:
  "map ntf_id (notifications (db (snd (notification_gc gc_config later_env
     (gc_world\<lparr>db := (db gc_world)\<lparr>trackers := []\<rparr>\<rparr>))))) = [] \<and>
   fst (notification_gc gc_config later_env (gc_world\<lparr>db := (db gc_world)\<lparr>trackers := []\<rparr>\<rparr>)) = Inr 2"
proof
  let ?w = "gc_world\<lparr>db := (db gc_world)\<lparr>trackers := []\<rparr>\<rparr>"
  let ?r = "notification_gc gc_config later_env ?w"
  show n: "fst ?r = Inr 2" by code_simp
  then have "?r = (Inr 2, snd ?r)" by (metis prod.collapse)
  from notification_gc_exact [OF this] have "2 + length (notifications (db (snd ?r))) = length (notifications (db ?w))"
    by blast
  moreover have "length (notifications (db ?w)) = 2" by code_simp
  ultimately show "map ntf_id (notifications (db (snd ?r))) = []" by simp
qed

lemma swept_run_ok: "sweep_stuck_process (\<lambda>_. 0) gc_config later_env gc_world = (Inr ([5], 1), snd swept_run)"
proof -
  have "fst swept_run = Inr ([5], 1)" by code_simp
  then show ?thesis unfolding swept_run_def by (metis prod.collapse)
qed

lemma gc_world_distinct: "sms_distinct (db gc_world)"
  by code_simp

lemma sweep_effect_witness:
  "filter (stuck_sms (2 * DAY - MINUTE)) (smss (db gc_world)) \<noteq> [] \<and>
   map (\<lambda>r. (sms_id r, sms_state r, sms_updated_at r)) (smss (db (snd swept_run))) = [(5, SmsState.Outgoing, 2 * DAY)] \<and>
   map event_type (outbox (db (snd swept_run))) = [''SmsStuckProcessDetected'']"
proof -
  have c: "2 * DAY = clock later_env (tick gc_world)" "2 * DAY - MINUTE = 2 * DAY - stuck_threshold_minutes gc_config * MINUTE"
    by (simp_all add: later_env_def gc_config_def)
  note e = sweep_effect [OF swept_run_ok gc_world_distinct c, unfolded sum.case prod.case]
  from conjunct2 [OF conjunct2 [OF e]] obtain evs where
    d: "db (snd swept_run) = (db gc_world)\<lparr>
         smss := map (\<lambda>r. if stuck_sms (2 * DAY - MINUTE) r \<and> sms_swept_at r = None then requeue_set (2 * DAY) r else r) (smss (db gc_world)),
         outbox := outbox (db gc_world) @ evs\<rparr>" and
    v: "map (\<lambda>e. (event_type e, event_channel e)) evs =
      (if [5] = ([] :: uuid list) then [] else [(''SmsStuckProcessDetected'', Some SMS_OPS_CHANNEL)])"
    by (elim exE conjE) (rule that)
  have "map (\<lambda>r. (sms_id r, sms_state r, sms_updated_at r)) (map (\<lambda>r. if stuck_sms (2 * DAY - MINUTE) r \<and>
      sms_swept_at r = None then requeue_set (2 * DAY) r else r) (smss (db gc_world))) = [(5, SmsState.Outgoing, 2 * DAY)]"
    by code_simp
  moreover have "outbox (db gc_world) = []" by code_simp
  moreover have "map event_type evs = [''SmsStuckProcessDetected'']" using v by auto
  moreover have "filter (stuck_sms (2 * DAY - MINUTE)) (smss (db gc_world)) \<noteq> []"
    using conjunct1 [OF e] by (metis list.distinct(1) list.map(1) sort_key_simps(1))
  ultimately show ?thesis unfolding d by simp
qed

lemma sweep_bounded_witness: "unswept (db (snd swept_run)) = 0 \<and> unswept (db gc_world) = 1"
proof -
  have "unswept (db (snd swept_run)) + 1 = unswept (db gc_world)"
    using sweep_bounded [OF gc_world_distinct, of "\<lambda>_. 0" gc_config later_env] swept_run_ok by blast
  moreover have "unswept (db gc_world) = 1" by code_simp
  ultimately show ?thesis by simp
qed

end
