(* ===== verification/MessageDelivery.thy ===== *)
theory MessageDelivery
  imports MessagePipeline
begin

text \<open>
  What \<open>message_post\<close> promises: one notification per recipient, one queue row for all the email
  recipients of a message, one sms (with its tracker) per sms recipient, the bus events, and all
  of it or nothing.
\<close>

section \<open>The channel strategies\<close>

lemma grew_mono: "grew Q ctx rs mns sm qids d d' \<Longrightarrow> Q \<subseteq> Q' \<Longrightarrow> grew Q' ctx rs mns sm qids d d'"
  unfolding grew_def by (elim exE conjE) (intro exI conjI, assumption+, blast)

lemma email_one_Inr:
  assumes "email_one ctx q acc r v w = (Inr acc', w')" and "pr_channel r = NotificationChannel.Email"
  shows "tx_step w w' \<and> (\<exists>mn. acc' = acc @ [mn] \<and> grew {q} ctx [r] [mn] [] [] (db w) (db w'))"
  using assms unfolding email_one_def
  by (elim act_elims insert_mail_notification_Inr)
    (auto simp: ntf_shape_def wanted_def intro!: grew_notification intro: tx_step_trans)

lemma foldA_email:
  assumes "foldA (email_one ctx q) acc rs v w = (Inr acc', w')"
    and "\<forall>r\<in>set rs. pr_channel r = NotificationChannel.Email"
  shows "tx_step w w' \<and> (\<exists>mns. acc' = acc @ mns \<and> grew {q} ctx rs mns [] [] (db w) (db w'))"
  using assms
proof (induction rs arbitrary: acc w)
  case Nil
  then show ?case by (auto simp: ret_def grew_refl)
next
  case (Cons r rs)
  from Cons.prems(1) obtain acc1 w1 where
    1: "email_one ctx q acc r v w = (Inr acc1, w1)"
      "foldA (email_one ctx q) acc1 rs v w1 = (Inr acc', w')"
    by (auto elim: bindA_InrE)
  from email_one_Inr [OF 1(1)] Cons.prems(2) obtain mn where
    2: "tx_step w w1" "acc1 = acc @ [mn]" "grew {q} ctx [r] [mn] [] [] (db w) (db w1)" by auto
  from Cons.IH [OF 1(2)] Cons.prems(2) obtain mns where
    3: "tx_step w1 w'" "acc' = acc1 @ mns" "grew {q} ctx rs mns [] [] (db w1) (db w')" by auto
  from grew_append [OF 2(3) 3(3)] 2 3 show ?case by (auto intro: tx_step_trans)
qed

lemma insert_mail_Inr:
  assumes "insert_mail m d = Inr (i, d')"
  obtains r where "d' = d\<lparr>mails := mails d @ [r]\<rparr>" and "mail_id r = nq_id m"
    and "mail_message_id r = nq_mail_message_id m" and "mail_state r = MailState.Outgoing"
    and "mail_email_to r = Some (nq_email_to m)"
  using assms by (auto simp: insert_mail_def intro!: that split: if_splits)

lemma email_addresses_Inr: "email_addresses U rs = Inr es \<Longrightarrow> map Some es = map pr_email rs"
  by (induction rs arbitrary: es) (auto split: option.splits sum.splits)

lemma email_strategy_Inr:
  assumes "email_strategy ctx rs v w = (Inr m, w')"
    and "\<forall>r\<in>set rs. pr_channel r = NotificationChannel.Email"
  shows "tx_step w w' \<and> cm_sms m = [] \<and>
    (\<exists>qids. qids = (case cm_mail_id m of None \<Rightarrow> [] | Some q \<Rightarrow> [q]) \<and> (qids = [] \<longleftrightarrow> rs = []) \<and>
       grew (set qids) ctx rs (cm_notifications m) [] qids (db w) (db w'))"
proof -
  from assms(1) obtain es where
    es: "email_addresses (uuid_text v) rs = Inr es" and
    body: "(if es = [] then ret \<lparr>cm_notifications = [], cm_mail_id = None, cm_sms = []\<rparr>
     else
       bindA new_v4 (\<lambda>mid.
       bindA (lift MailDb (stmt (insert_mail
         \<lparr>nq_id = mid, nq_mail_message_id = pc_message_id ctx,
          nq_email_to = join_with '', '' es, nq_email_cc = None,
          nq_reply_to = pc_reply_to ctx, nq_scheduled_date = None\<rparr>))) (\<lambda>_.
       bindA (foldA (email_one ctx mid) [] rs) (\<lambda>ns.
       ret \<lparr>cm_notifications = ns, cm_mail_id = Some mid, cm_sms = []\<rparr>)))) v w = (Inr m, w')"
    unfolding email_strategy_def by (auto elim!: bindA_InrE simp: ask_def of_sum_def)
  from email_addresses_Inr [OF es] have ne: "es = [] \<longleftrightarrow> rs = []" by auto
  show ?thesis
  proof (cases "es = []")
    case True
    with body ne show ?thesis by (auto simp: ret_def grew_refl)
  next
    case False
    from body False obtain q w1 w2 w3 ns i where
      1: "new_v4 v w = ((Inr q :: MailError + uuid), w1)" and
      2: "lift MailDb (stmt (insert_mail
         \<lparr>nq_id = q, nq_mail_message_id = pc_message_id ctx,
          nq_email_to = join_with '', '' es, nq_email_cc = None,
          nq_reply_to = pc_reply_to ctx, nq_scheduled_date = None\<rparr>)) v w1 = (Inr i, w2)" and
      3: "foldA (email_one ctx q) [] rs v w2 = (Inr ns, w3)" and
      4: "m = \<lparr>cm_notifications = ns, cm_mail_id = Some q, cm_sms = []\<rparr>" "w' = w3"
      by (auto elim!: bindA_InrE ret_InrE)
    from 1 have s1: "db w1 = db w" "tx_step w w1" by (auto elim: new_v4_InrE)
    from 2 obtain row where s2: "tx_step w1 w2"
      and d2: "db w2 = (db w1)\<lparr>mails := mails (db w1) @ [row]\<rparr>"
      and row: "mail_id row = q" "mail_message_id row = pc_message_id ctx"
        "mail_state row = MailState.Outgoing"
      by (elim lift_InrE stmt_InrE insert_mail_Inr) simp
    have g0: "grew {q} ctx [] [] [] [q] (db w) (db w2)"
      unfolding grew_def using d2 s1 row
      by (intro exI [of _ "[]"] exI [of _ "[row]"] conjI) (auto simp: wanted_sms_def queued_mail_def)
    from foldA_email [OF 3 assms(2)] obtain mns where
      f: "tx_step w2 w3" "ns = mns" "grew {q} ctx rs mns [] [] (db w2) (db w3)" by auto
    from grew_append [OF g0 f(3)] have "grew {q} ctx rs mns [] [q] (db w) (db w3)" by simp
    with f 4 s1 s2 False ne show ?thesis by (auto intro: tx_step_trans)
  qed
qed

lemma insert_sms_Inr:
  assumes "insert_sms n now d = Inr (u, d')"
  obtains r where "d' = d\<lparr>smss := smss d @ [r]\<rparr>"
    and "sms_id r = ns_id n" and "sms_uuid r = ns_uuid n" and "sms_number r = ns_number n"
    and "sms_body r = ns_body n" and "sms_state r = SmsState.Outgoing"
    and "sms_mail_message_id r = ns_mail_message_id n"
  using assms by (auto simp: insert_sms_def intro!: that split: if_splits)

lemma insert_tracker_Inr:
  assumes "insert_tracker n d = Inr (u, d')"
  obtains ts where "d' = d\<lparr>trackers := trackers d @ ts\<rparr>"
    and "ns_uuid n \<in> trk_sms_uuid ` set (trackers d @ ts)"
  using assms
  by (auto simp: insert_tracker_def split: if_splits intro: that [of "[]"] that)

lemma insert_sms_with_tracker_Inr:
  assumes "insert_sms_with_tracker n v w = (Inr u, w')"
  obtains r ts where "db w' = (db w)\<lparr>smss := smss (db w) @ [r], trackers := trackers (db w) @ ts\<rparr>"
    and "tx_step w w'" and "sms_id r = ns_id n" and "sms_uuid r = ns_uuid n"
    and "sms_number r = ns_number n" and "sms_body r = ns_body n" and "sms_state r = SmsState.Outgoing"
    and "sms_mail_message_id r = ns_mail_message_id n"
    and "ns_uuid n \<in> trk_sms_uuid ` set (trackers (db w) @ ts)"
proof -
  from assms obtain u1 w1 where
    1: "stmt_now (insert_sms n) v w = ((Inr u1 :: db_error + unit), w1)" and
    2: "stmt (insert_tracker n) v w1 = (Inr u, w')"
    unfolding insert_sms_with_tracker_def by (elim bindA_InrE) (rule that)
  from 1 have s1: "tx_step w w1" and i: "insert_sms n (tx_start w) (db w) = Inr (u1, db w1)"
    by (auto elim: stmt_now_InrE)
  from i obtain r where r: "db w1 = (db w)\<lparr>smss := smss (db w) @ [r]\<rparr>"
    "sms_id r = ns_id n" "sms_uuid r = ns_uuid n" "sms_number r = ns_number n"
    "sms_body r = ns_body n" "sms_state r = SmsState.Outgoing"
    "sms_mail_message_id r = ns_mail_message_id n"
    by (rule insert_sms_Inr)
  from 2 have s2: "tx_step w1 w'" and t: "insert_tracker n (db w1) = Inr (u, db w')"
    by (auto elim: stmt_InrE)
  from t obtain ts where "db w' = (db w1)\<lparr>trackers := trackers (db w1) @ ts\<rparr>"
    "ns_uuid n \<in> trk_sms_uuid ` set (trackers (db w1) @ ts)"
    by (rule insert_tracker_Inr)
  with r s1 s2 show ?thesis by (intro that [of ts r]) (auto intro: tx_step_trans)
qed

lemma sms_one_Inr:
  assumes "sms_one ctx acc r v w = (Inr acc', w')" and "pr_channel r = NotificationChannel.Sms"
  shows "tx_step w w' \<and> (\<exists>mn s. acc' = (fst acc @ [mn], snd acc @ [s]) \<and>
    grew {} ctx [r] [mn] [s] [] (db w) (db w'))"
proof -
  from assms(1) obtain number where n: "pr_number r = Some number"
    by (auto simp: sms_one_def bindA_def ask_def fail_def split: option.splits)
  from assms(1) n obtain nid w1 j w2 sid w3 su w4 u w5 where
    1: "new_v4 v w = ((Inr nid :: MailError + uuid), w1)" and
    2: "lift MailDb (stmt_now (insert_mail_notification
           \<lparr>nn_id = nid, nn_mail_message_id = pc_message_id ctx, nn_res_partner_id = pr_partner r,
            nn_notification_type = ''sms'', nn_notification_status = ''ready'',
            nn_mail_mail_id_int = None\<rparr>)) v w1 = (Inr j, w2)" and
    3: "new_v4 v w2 = ((Inr sid :: MailError + uuid), w3)" and
    4: "new_v4 v w3 = ((Inr su :: MailError + uuid), w4)" and
    5: "lift MailDb (insert_sms_with_tracker
           \<lparr>ns_id = sid, ns_uuid = uuid_simple v su, ns_number = number, ns_body = pc_body ctx,
            ns_mail_message_id = Some (pc_message_id ctx), ns_notification_id = Some nid\<rparr>) v w4 =
        (Inr u, w5)" and
    6: "acc' = (fst acc @ [\<lparr>mn_id = nid, mn_partner = pr_partner r,
                          mn_type = NotificationChannel.Sms, mn_status = ''ready''\<rparr>],
              snd acc @ [(sid, uuid_simple v su)])" "w' = w5"
    by (auto simp: sms_one_def elim!: bindA_InrE ask_InrE ret_InrE)
  from 1 3 4 have s: "db w1 = db w" "tx_step w w1" "db w3 = db w2" "tx_step w2 w3"
    "db w4 = db w3" "tx_step w3 w4" by (auto elim: new_v4_InrE)
  from 2 obtain n1 where s2: "tx_step w1 w2"
    and d2: "db w2 = (db w1)\<lparr>notifications := notifications (db w1) @ [n1]\<rparr>"
    and n1: "ntf_id n1 = nid" "ntf_message_id n1 = pc_message_id ctx" "ntf_partner n1 = pr_partner r"
      "ntf_type n1 = MailNotificationType.Sms" "ntf_status n1 = MailNotificationStatus.Ready"
    by (elim lift_InrE stmt_now_InrE insert_mail_notification_Inr) simp
  from 5 obtain s1 ts where s5: "tx_step w4 w5"
    and d5: "db w5 = (db w4)\<lparr>smss := smss (db w4) @ [s1], trackers := trackers (db w4) @ ts\<rparr>"
    and s1: "sms_id s1 = sid" "sms_uuid s1 = uuid_simple v su" "sms_number s1 = number"
      "sms_body s1 = pc_body ctx" "sms_state s1 = SmsState.Outgoing"
      "sms_mail_message_id s1 = Some (pc_message_id ctx)"
      "sms_uuid s1 \<in> trk_sms_uuid ` set (trackers (db w4) @ ts)"
    by (elim lift_InrE insert_sms_with_tracker_Inr) simp
  have "tx_step w w'" using s s2 s5 6(2) by (simp add: tx_step_def)
  moreover have "grew {} ctx [r] [\<lparr>mn_id = nid, mn_partner = pr_partner r,
      mn_type = NotificationChannel.Sms, mn_status = ''ready''\<rparr>] [(sid, uuid_simple v su)] []
      (db w) (db w')"
    unfolding grew_def using d2 d5 s n1 s1 6(2) assms(2) n
    by (intro exI [of _ "[n1]"] exI [of _ "[]"] exI [of _ "[s1]"] exI [of _ ts] conjI)
      (auto simp: ntf_shape_def wanted_def wanted_sms_def sms_shape_def)
  ultimately show ?thesis using 6(1) by blast
qed

lemma foldA_sms:
  assumes "foldA (sms_one ctx) acc rs v w = (Inr acc', w')"
    and "\<forall>r\<in>set rs. pr_channel r = NotificationChannel.Sms"
  shows "tx_step w w' \<and> (\<exists>mns ss. acc' = (fst acc @ mns, snd acc @ ss) \<and>
    grew {} ctx rs mns ss [] (db w) (db w'))"
  using assms
proof (induction rs arbitrary: acc w)
  case Nil
  then show ?case
    by (auto simp: ret_def grew_refl intro!: exI [of _ "[]"] exI [of _ "acc"] prod_eqI)
next
  case (Cons r rs)
  from Cons.prems(1) obtain acc1 w1 where
    1: "sms_one ctx acc r v w = (Inr acc1, w1)"
      "foldA (sms_one ctx) acc1 rs v w1 = (Inr acc', w')"
    by (auto elim: bindA_InrE)
  from sms_one_Inr [OF 1(1)] Cons.prems(2) obtain mn s where
    2: "tx_step w w1" "acc1 = (fst acc @ [mn], snd acc @ [s])"
      "grew {} ctx [r] [mn] [s] [] (db w) (db w1)" by auto
  from Cons.IH [OF 1(2)] Cons.prems(2) obtain mns ss where
    3: "tx_step w1 w'" "acc' = (fst acc1 @ mns, snd acc1 @ ss)"
      "grew {} ctx rs mns ss [] (db w1) (db w')" by auto
  from grew_append [OF 2(3) 3(3)] 2 3 show ?case by (auto intro: tx_step_trans)
qed

lemma dispatch_channel_Inr:
  assumes "dispatch_channel ctx c rs v w = (Inr m, w')" and "\<forall>r\<in>set rs. pr_channel r = c"
  shows "tx_step w w' \<and>
    (\<exists>qids. qids = (case cm_mail_id m of None \<Rightarrow> [] | Some q \<Rightarrow> [q]) \<and>
       (qids = [] \<longleftrightarrow> rs = [] \<or> c \<noteq> NotificationChannel.Email) \<and>
       grew (set qids) ctx rs (cm_notifications m) (cm_sms m) qids (db w) (db w'))"
proof (cases c)
  case Inbox
  with assms obtain ns where "foldA (inbox_one ctx) [] rs v w = (Inr ns, w')"
    and "m = \<lparr>cm_notifications = ns, cm_mail_id = None, cm_sms = []\<rparr>"
    by (auto simp: inbox_strategy_def elim!: bindA_InrE ret_InrE)
  with foldA_inbox [of ctx "[]" rs v w ns w' "{}"] assms(2) Inbox show ?thesis by auto
next
  case Email
  with assms email_strategy_Inr [of ctx rs v w m w'] show ?thesis by auto
next
  case Sms
  with assms obtain acc where "foldA (sms_one ctx) ([], []) rs v w = (Inr acc, w')"
    and "m = \<lparr>cm_notifications = fst acc, cm_mail_id = None, cm_sms = snd acc\<rparr>"
    by (auto simp: sms_strategy_def elim!: bindA_InrE ret_InrE)
  with foldA_sms [of ctx "([], [])" rs v w acc w'] assms(2) Sms show ?thesis by auto
qed

lemma post_group_Inr:
  assumes "post_group ctx p g v w = (Inr p', w')" and "\<forall>r\<in>set (snd g). pr_channel r = fst g"
    and "snd g \<noteq> []"
  shows "tx_step w w' \<and> pm_message_id p' = pm_message_id p \<and> pm_subtype_id p' = pm_subtype_id p \<and>
    (\<exists>mns ss qids. pm_notifications p' = pm_notifications p @ mns \<and> pm_sms p' = pm_sms p @ ss \<and>
       length qids = (if fst g = NotificationChannel.Email then 1 else 0) \<and>
       pm_mail_id p' = (if qids = [] then pm_mail_id p else Some (last qids)) \<and>
       grew (set qids) ctx (snd g) mns ss qids (db w) (db w'))"
proof -
  from assms(1) obtain m where m: "dispatch_channel ctx (fst g) (snd g) v w = (Inr m, w')"
    and p': "p' = p\<lparr>
       pm_notifications := pm_notifications p @ cm_notifications m,
       pm_mail_id := (if cm_mail_id m \<noteq> None then cm_mail_id m else pm_mail_id p),
       pm_sms := pm_sms p @ cm_sms m\<rparr>"
    unfolding post_group_def by (auto elim!: bindA_InrE ret_InrE)
  from dispatch_channel_Inr [OF m assms(2)] obtain qids where
    d: "tx_step w w'" "qids = (case cm_mail_id m of None \<Rightarrow> [] | Some q \<Rightarrow> [q])"
      "qids = [] \<longleftrightarrow> snd g = [] \<or> fst g \<noteq> NotificationChannel.Email"
      "grew (set qids) ctx (snd g) (cm_notifications m) (cm_sms m) qids (db w) (db w')" by blast
  have l: "length qids = (if fst g = NotificationChannel.Email then 1 else 0)"
    using d(2,3) assms(3) by (cases "cm_mail_id m") simp_all
  have i: "pm_mail_id p' = (if qids = [] then pm_mail_id p else Some (last qids))"
    using d(2) p' by (cases "cm_mail_id m") simp_all
  show ?thesis
    by (intro conjI exI [of _ "cm_notifications m"] exI [of _ "cm_sms m"] exI [of _ qids])
      (use d l i p' in simp_all)
qed

lemma foldA_post_group:
  assumes "foldA (post_group ctx) p gs v w = (Inr p', w')"
    and "by_channel gs" and "\<forall>g\<in>set gs. snd g \<noteq> []"
  shows "tx_step w w' \<and> pm_message_id p' = pm_message_id p \<and> pm_subtype_id p' = pm_subtype_id p \<and>
    (\<exists>mns ss qids. pm_notifications p' = pm_notifications p @ mns \<and> pm_sms p' = pm_sms p @ ss \<and>
       length qids = length (filter (\<lambda>g. fst g = NotificationChannel.Email) gs) \<and>
       pm_mail_id p' = (if qids = [] then pm_mail_id p else Some (last qids)) \<and>
       grew (set qids) ctx (concat (map snd gs)) mns ss qids (db w) (db w'))"
  using assms
proof (induction gs arbitrary: p w)
  case Nil
  then show ?case by (auto simp: ret_def grew_refl)
next
  case (Cons g gs)
  from Cons.prems(1) obtain p1 w1 where
    1: "post_group ctx p g v w = (Inr p1, w1)" "foldA (post_group ctx) p1 gs v w1 = (Inr p', w')"
    by (auto elim: bindA_InrE)
  from Cons.prems(2) have b: "\<forall>r\<in>set (snd g). pr_channel r = fst g" "by_channel gs"
    by (auto simp: by_channel_def list_all_iff)
  from post_group_Inr [OF 1(1) b(1)] Cons.prems(3) obtain m1 s1 q1 where
    2: "tx_step w w1" "pm_message_id p1 = pm_message_id p" "pm_subtype_id p1 = pm_subtype_id p"
      "pm_notifications p1 = pm_notifications p @ m1" "pm_sms p1 = pm_sms p @ s1"
      "length q1 = (if fst g = NotificationChannel.Email then 1 else 0)"
      "pm_mail_id p1 = (if q1 = [] then pm_mail_id p else Some (last q1))"
      "grew (set q1) ctx (snd g) m1 s1 q1 (db w) (db w1)" by auto
  from Cons.IH [OF 1(2) b(2)] Cons.prems(3) obtain m2 s2 q2 where
    3: "tx_step w1 w'" "pm_message_id p' = pm_message_id p1" "pm_subtype_id p' = pm_subtype_id p1"
      "pm_notifications p' = pm_notifications p1 @ m2" "pm_sms p' = pm_sms p1 @ s2"
      "length q2 = length (filter (\<lambda>g. fst g = NotificationChannel.Email) gs)"
      "pm_mail_id p' = (if q2 = [] then pm_mail_id p1 else Some (last q2))"
      "grew (set q2) ctx (concat (map snd gs)) m2 s2 q2 (db w1) (db w')" by auto
  have "grew (set (q1 @ q2)) ctx (snd g @ concat (map snd gs)) (m1 @ m2) (s1 @ s2) (q1 @ q2)
      (db w) (db w')"
    by (rule grew_append [OF grew_mono [OF 2(8)] grew_mono [OF 3(8)]]) auto
  moreover have "tx_step w w'" using 2(1) 3(1) by (rule tx_step_trans)
  moreover have "pm_mail_id p' = (if q1 @ q2 = [] then pm_mail_id p else Some (last (q1 @ q2)))"
    using 2(7) 3(7) by simp
  moreover have "length (q1 @ q2) =
      length (filter (\<lambda>g. fst g = NotificationChannel.Email) (g # gs))"
    using 2(6) 3(6) by simp
  ultimately show ?case
    by (intro conjI exI [of _ "m1 @ m2"] exI [of _ "s1 @ s2"] exI [of _ "q1 @ q2"])
      (use 2(2-5) 3(2-5) in simp_all)
qed

section \<open>The whole post\<close>

lemma insert_mail_message_Inr:
  assumes "insert_mail_message m now d = Inr (u, d')"
  obtains r where "d' = d\<lparr>messages := messages d @ [r]\<rparr>" and "msg_id r = nm_id m"
    and "msg_body r = nm_body m" and "msg_model r = nm_model m" and "msg_res_id r = nm_res_id m"
    and "msg_subtype_id r = nm_subtype_id m" and "msg_author_id r = nm_author_id m"
    and "MailMessageType_show (msg_type r) = nm_message_type m"
proof -
  from assms obtain t where
    t: "pg_enum_cast MailMessageType_show MailMessageType_from_str (nm_message_type m) = Some t"
    by (auto simp: insert_mail_message_def split: option.splits)
  then have "MailMessageType_show t = nm_message_type m" by (simp add: mail_message_type.cast_iff)
  with assms t show ?thesis
    by (intro that) (auto simp: insert_mail_message_def split: if_splits)
qed

definition sms_created_event :: "env \<Rightarrow> string \<Rightarrow> uuid \<times> string \<Rightarrow> event \<Rightarrow> bool" where
  "sms_created_event v ch s ev \<longleftrightarrow>
     event_type ev = ''SmsCreated'' \<and> aggregate_type ev = ''Sms'' \<and>
     aggregate_id ev = uuid_text v (fst s) \<and> event_channel ev = Some ch"

lemma stage_sms_created_Inr:
  assumes "stage_sms_created ch u s v w = (Inr u', w')"
  obtains ev where "db w' = (db w)\<lparr>outbox := outbox (db w) @ [ev]\<rparr>" and "tx_step w w'"
    and "sms_created_event v ch s ev"
  using assms unfolding stage_sms_created_def
  by (elim bindA_InrE ask_InrE lift_InrE stage_bus_event_InrE)
    (simp add: sms_created_event_def that)

lemma foldA_sms_created:
  assumes "foldA (stage_sms_created ch) u ss v w = (Inr u', w')"
  shows "tx_step w w' \<and> (\<exists>evs. db w' = (db w)\<lparr>outbox := outbox (db w) @ evs\<rparr> \<and>
    list_all2 (sms_created_event v ch) ss evs)"
  using assms
proof (induction ss arbitrary: u w)
  case Nil
  then show ?case by (auto simp: ret_def intro!: exI [of _ "[]"])
next
  case (Cons s ss)
  from Cons.prems obtain u1 w1 where 1: "stage_sms_created ch u s v w = (Inr u1, w1)"
    and 2: "foldA (stage_sms_created ch) u1 ss v w1 = (Inr u', w')" by (auto elim: bindA_InrE)
  from 1 obtain ev where e: "db w1 = (db w)\<lparr>outbox := outbox (db w) @ [ev]\<rparr>" "tx_step w w1"
    "sms_created_event v ch s ev" by (rule stage_sms_created_Inr)
  from Cons.IH [OF 2] obtain evs where
    "tx_step w1 w'" "db w' = (db w1)\<lparr>outbox := outbox (db w1) @ evs\<rparr>"
    "list_all2 (sms_created_event v ch) ss evs" by auto
  with e show ?case by (auto intro: tx_step_trans intro!: exI [of _ "ev # evs"])
qed

text \<open>The effect of a successful post on the database, as one relation: the message, the rows of
  its recipients (grouped), the events.\<close>

definition post_channel :: "env \<Rightarrow> MessagePostCommand \<Rightarrow> uuid \<Rightarrow> string" where
  "post_channel v cmd mid =
     (case (mp_model cmd, mp_res_id cmd) of
        (Some m, Some r) \<Rightarrow> record_channel (uuid_text v) m r
      | _ \<Rightarrow> ''mail.message_'' @ uuid_text v mid)"

definition post_context :: "MessagePostCommand \<Rightarrow> uuid \<Rightarrow> PostContext" where
  "post_context cmd mid =
     \<lparr>pc_message_id = mid, pc_body = mp_body cmd, pc_model = mp_model cmd,
      pc_res_id = mp_res_id cmd, pc_reply_to = mp_reply_to cmd\<rparr>"

definition posted_message :: "MessagePostCommand \<Rightarrow> PostedMessage \<Rightarrow> mail_message_row \<Rightarrow> bool" where
  "posted_message cmd p m \<longleftrightarrow>
     msg_id m = pm_message_id p \<and> msg_body m = mp_body cmd \<and> msg_model m = mp_model cmd \<and>
     msg_res_id m = mp_res_id cmd \<and> msg_subtype_id m = pm_subtype_id p \<and>
     msg_author_id m = mp_author_id cmd \<and>
     MailMessageType_show (msg_type m) =
       (if mp_message_type cmd = [] then ''comment'' else mp_message_type cmd)"

definition post_effect ::
  "env \<Rightarrow> MessagePostCommand \<Rightarrow> PostedMessage \<Rightarrow> db \<Rightarrow> db \<Rightarrow> bool" where
  "post_effect v cmd p d d' \<longleftrightarrow>
     pm_subtype_id p = resolve_subtype (mp_subtype_id cmd) (mp_subtype_name cmd) d \<and>
     (\<exists>m d1 qids ev evs.
        posted_message cmd p m \<and>
        length qids \<le> 1 \<and> pm_mail_id p = (if qids = [] then None else Some (last qids)) \<and>
        grew (set qids) (post_context cmd (pm_message_id p))
          (concat (map snd (group_by_channel (mp_recipients cmd))))
          (pm_notifications p) (pm_sms p) qids (d\<lparr>messages := messages d @ [m]\<rparr>) d1 \<and>
        d' = d1\<lparr>outbox := outbox d1 @ ev # evs\<rparr> \<and>
        event_type ev = ''MessagePosted'' \<and> aggregate_type ev = ''MailMessage'' \<and>
        aggregate_id ev = uuid_text v (pm_message_id p) \<and>
        event_channel ev = Some (post_channel v cmd (pm_message_id p)) \<and>
        list_all2 (sms_created_event v (post_channel v cmd (pm_message_id p))) (pm_sms p) evs)"

lemma one_email_group:
  assumes "distinct (map fst gs)"
  shows "length (filter (\<lambda>g. fst g = NotificationChannel.Email) gs) \<le> 1"
  using assms
proof (induction gs)
  case (Cons g gs)
  show ?case
  proof (cases "fst g = NotificationChannel.Email")
    case True
    with Cons.prems have "filter (\<lambda>g. fst g = NotificationChannel.Email) gs = []"
      by (auto simp: filter_empty_conv image_iff)
    with True show ?thesis by simp
  next
    case False
    with Cons show ?thesis by simp
  qed
qed simp

lemma message_post_tx_folded:
  "message_post_tx cmd v =
     (bindA (lift MailDb (stmt (reading (resolve_subtype (mp_subtype_id cmd) (mp_subtype_name cmd)))))
       (\<lambda>subtype.
     bindA new_v4 (\<lambda>mid.
     bindA (lift MailDb (stmt_now (insert_mail_message
       \<lparr>nm_id = mid, nm_subject = mp_subject cmd, nm_body = mp_body cmd,
        nm_message_type = (if mp_message_type cmd = [] then ''comment'' else mp_message_type cmd),
        nm_subtype_id = subtype, nm_is_internal = mp_is_internal cmd,
        nm_author_id = mp_author_id cmd, nm_author_guest_id = mp_author_guest_id cmd,
        nm_email_from = mp_email_from cmd, nm_message_id = None, nm_reply_to = mp_reply_to cmd,
        nm_model = mp_model cmd, nm_res_id = mp_res_id cmd,
        nm_record_name = mp_record_name cmd\<rparr>))) (\<lambda>_.
     bindA (foldA (post_group (post_context cmd mid))
         \<lparr>pm_message_id = mid, pm_subtype_id = subtype, pm_notifications = [],
          pm_mail_id = None, pm_sms = []\<rparr> (group_by_channel (mp_recipients cmd))) (\<lambda>posted.
     bindA (lift MailDb (stage_bus_event ''MessagePosted'' ''MailMessage'' (uuid_text v mid)
         (post_channel v cmd mid) ''MessagePosted''
       (JObject [(''message_id'', JString (uuid_text v mid)),
                 (''message_type'', JString (mp_message_type cmd)),
                 (''model'', jopt JString (mp_model cmd)),
                 (''res_id'', jopt (\<lambda>r. JString (uuid_text v r)) (mp_res_id cmd)),
                 (''notification_count'', JNumber (int (length (pm_notifications posted))))]))) (\<lambda>_.
     bindA (foldA (stage_sms_created (post_channel v cmd mid)) () (pm_sms posted)) (\<lambda>_.
     ret posted)))))) v)"
  unfolding message_post_tx_def post_context_def post_channel_def Let_def
  by (subst bindA_def) (simp add: ask_def)

lemma message_post_tx_Inr:
  assumes "message_post_tx cmd v w = (Inr p, w')"
  shows "tx_step w w' \<and> post_effect v cmd p (db w) (db w')"
proof -
  let ?st = "resolve_subtype (mp_subtype_id cmd) (mp_subtype_name cmd)"
  from assms obtain sid w1 mid w2 u w3 q w4 u2 w5 u3 w6 where
    1: "lift MailDb (stmt (reading ?st)) v w = (Inr sid, w1)" and
    2: "new_v4 v w1 = ((Inr mid :: MailError + uuid), w2)" and
    3: "lift MailDb (stmt_now (insert_mail_message
       \<lparr>nm_id = mid, nm_subject = mp_subject cmd, nm_body = mp_body cmd,
        nm_message_type = (if mp_message_type cmd = [] then ''comment'' else mp_message_type cmd),
        nm_subtype_id = sid, nm_is_internal = mp_is_internal cmd,
        nm_author_id = mp_author_id cmd, nm_author_guest_id = mp_author_guest_id cmd,
        nm_email_from = mp_email_from cmd, nm_message_id = None, nm_reply_to = mp_reply_to cmd,
        nm_model = mp_model cmd, nm_res_id = mp_res_id cmd,
        nm_record_name = mp_record_name cmd\<rparr>)) v w2 = (Inr u, w3)" and
    4: "foldA (post_group (post_context cmd mid))
          \<lparr>pm_message_id = mid, pm_subtype_id = sid, pm_notifications = [],
           pm_mail_id = None, pm_sms = []\<rparr> (group_by_channel (mp_recipients cmd)) v w3 = (Inr q, w4)" and
    5: "lift MailDb (stage_bus_event ''MessagePosted'' ''MailMessage'' (uuid_text v mid)
          (post_channel v cmd mid) ''MessagePosted''
       (JObject [(''message_id'', JString (uuid_text v mid)),
                 (''message_type'', JString (mp_message_type cmd)),
                 (''model'', jopt JString (mp_model cmd)),
                 (''res_id'', jopt (\<lambda>r. JString (uuid_text v r)) (mp_res_id cmd)),
                 (''notification_count'', JNumber (int (length (pm_notifications q))))])) v w4 =
        (Inr u2, w5)" and
    6: "foldA (stage_sms_created (post_channel v cmd mid)) () (pm_sms q) v w5 = (Inr u3, w6)" and
    7: "p = q" "w' = w6"
    unfolding message_post_tx_folded
    by (elim bindA_InrE ask_InrE ret_InrE) (hypsubst, rule that, (assumption | rule refl)+)
  have g: "by_channel (group_by_channel (mp_recipients cmd))"
    "\<forall>g\<in>set (group_by_channel (mp_recipients cmd)). snd g \<noteq> []"
    "distinct (map fst (group_by_channel (mp_recipients cmd)))"
    using group_by_channel_props group_nonempty by blast+
  from 1 have s1: "sid = ?st (db w)" "db w1 = db w" "tx_step w w1"
    by (auto simp: reading_def elim!: lift_InrE stmt_InrE)
  from 2 have s2: "db w2 = db w1" "tx_step w1 w2" by (auto elim: new_v4_InrE)
  from 3 obtain m where s3: "tx_step w2 w3" "db w3 = (db w2)\<lparr>messages := messages (db w2) @ [m]\<rparr>"
    and m: "msg_id m = mid" "msg_body m = mp_body cmd" "msg_model m = mp_model cmd"
      "msg_res_id m = mp_res_id cmd" "msg_subtype_id m = sid" "msg_author_id m = mp_author_id cmd"
      "MailMessageType_show (msg_type m) =
         (if mp_message_type cmd = [] then ''comment'' else mp_message_type cmd)"
    by (elim lift_InrE stmt_now_InrE insert_mail_message_Inr) simp
  from foldA_post_group [OF 4 g(1,2)] obtain qids where s4: "tx_step w3 w4"
    "pm_message_id q = mid" "pm_subtype_id q = sid"
    "length qids = length (filter (\<lambda>g. fst g = NotificationChannel.Email)
                             (group_by_channel (mp_recipients cmd)))"
    "pm_mail_id q = (if qids = [] then None else Some (last qids))"
    "grew (set qids) (post_context cmd mid) (concat (map snd (group_by_channel (mp_recipients cmd))))
       (pm_notifications q) (pm_sms q) qids (db w3) (db w4)" by auto
  from 5 obtain ev where s5: "tx_step w4 w5" "db w5 = (db w4)\<lparr>outbox := outbox (db w4) @ [ev]\<rparr>"
    "event_type ev = ''MessagePosted''" "aggregate_type ev = ''MailMessage''"
    "aggregate_id ev = uuid_text v mid" "event_channel ev = Some (post_channel v cmd mid)"
    by (elim lift_InrE stage_bus_event_InrE) (rule that)
  from foldA_sms_created [OF 6] obtain evs where s6: "tx_step w5 w6"
    "db w6 = (db w5)\<lparr>outbox := outbox (db w5) @ evs\<rparr>"
    "list_all2 (sms_created_event v (post_channel v cmd mid)) (pm_sms q) evs" by auto
  have step: "tx_step w w'"
    using s1(3) s2(2) s3(1) s4(1) s5(1) s6(1) 7(2) by (simp add: tx_step_def)
  have "post_effect v cmd q (db w) (db w6)"
    unfolding post_effect_def s4(2)
  proof (intro conjI exI)
    show "pm_subtype_id q = ?st (db w)" using s4(3) s1(1) by simp
    show "posted_message cmd q m" using m s4(2,3) by (simp add: posted_message_def)
    show "length qids \<le> 1" using s4(4) one_email_group [OF g(3)] by simp
    show "grew (set qids) (post_context cmd mid)
        (concat (map snd (group_by_channel (mp_recipients cmd))))
        (pm_notifications q) (pm_sms q) qids ((db w)\<lparr>messages := messages (db w) @ [m]\<rparr>) (db w4)"
      using s4(6) unfolding s3(2) s2(1) s1(2) .
    show "db w6 = (db w4)\<lparr>outbox := outbox (db w4) @ ev # evs\<rparr>"
      unfolding s6(2) s5(2) by simp
  qed (fact s4(5) s5(3-6) s6(3))+
  with step show ?thesis by (simp only: 7)
qed

text \<open>A validation failure touches nothing; otherwise the post is the transaction.\<close>

lemma message_post_valid:
  assumes "message_post cmd v w = (Inr p, w')"
  shows "\<not> blank (mp_body cmd) \<and> (mp_model cmd = None \<longleftrightarrow> mp_res_id cmd = None) \<and>
    in_tx MailDb (message_post_tx cmd) v w = (Inr p, w')"
  using assms by (auto simp: message_post_def fail_def split: if_splits)

lemma message_post_effect:
  assumes "message_post cmd v w = (Inr p, w')"
  shows "post_effect v cmd p (db w) (db w') \<and> trace w' = trace w"
proof -
  from message_post_valid [OF assms] have t: "in_tx MailDb (message_post_tx cmd) v w = (Inr p, w')"
    by simp
  have "\<not> aborted w1" if "message_post_tx cmd v (begin_tx v w) = (Inr p, w1)" for w1
    using message_post_tx_Inr [OF that] by (simp add: tx_step_def)
  from in_tx_InrE [OF t this] obtain w1 where
    "message_post_tx cmd v (begin_tx v w) = (Inr p, w1)" "db w' = db w1" "trace w' = trace w1" .
  with message_post_tx_Inr [of cmd v "begin_tx v w" p w1] show ?thesis
    by (simp add: tx_step_def)
qed

section \<open>Properties\<close>

lemma grouped_recipients: "mset (concat (map snd (group_by_channel rs))) = mset rs"
  using group_by_channel_props by blast

lemma post_effect_rows:
  assumes "post_effect v cmd p d d'"
  obtains m ns qs ss ts qids evs rs where
    "posted_message cmd p m" and "mset rs = mset (mp_recipients cmd)"
    and "d' = d\<lparr>messages := messages d @ [m], notifications := notifications d @ ns,
           mails := mails d @ qs, smss := smss d @ ss, trackers := trackers d @ ts,
           outbox := outbox d @ evs\<rparr>"
    and "map ntf_shape ns = map (wanted (pm_message_id p)) rs"
    and "map ntf_id ns = map mn_id (pm_notifications p)"
    and "map mail_id qs = qids" and "length qids \<le> 1"
    and "pm_mail_id p = (if qids = [] then None else Some (last qids))"
    and "list_all (queued_mail (post_context cmd (pm_message_id p))) qs"
    and "map (\<lambda>s. (sms_id s, sms_uuid s)) ss = pm_sms p"
    and "map sms_shape ss = wanted_sms (post_context cmd (pm_message_id p)) rs"
    and "sms_uuid ` set ss \<subseteq> trk_sms_uuid ` set (trackers d @ ts)"
    and "\<forall>n\<in>set ns. ntf_type n = MailNotificationType.Email \<longrightarrow> ntf_mail_id n \<in> Some ` set qids"
proof -
  let ?rs = "concat (map snd (group_by_channel (mp_recipients cmd)))"
  from assms obtain m d1 qids ev evs where
    m: "posted_message cmd p m" and q: "length qids \<le> 1"
      "pm_mail_id p = (if qids = [] then None else Some (last qids))" and
    g: "grew (set qids) (post_context cmd (pm_message_id p)) ?rs
          (pm_notifications p) (pm_sms p) qids (d\<lparr>messages := messages d @ [m]\<rparr>) d1" and
    d': "d' = d1\<lparr>outbox := outbox d1 @ ev # evs\<rparr>"
    unfolding post_effect_def by blast
  from g obtain ns qs ss ts where
    d1: "d1 = (d\<lparr>messages := messages d @ [m]\<rparr>)\<lparr>notifications := notifications d @ ns,
           mails := mails d @ qs, smss := smss d @ ss, trackers := trackers d @ ts\<rparr>" and
    rows: "map ntf_shape ns = map (wanted (pm_message_id p)) ?rs"
      "map ntf_id ns = map mn_id (pm_notifications p)"
      "map mail_id qs = qids" "list_all (queued_mail (post_context cmd (pm_message_id p))) qs"
      "map (\<lambda>s. (sms_id s, sms_uuid s)) ss = pm_sms p"
      "map sms_shape ss = wanted_sms (post_context cmd (pm_message_id p)) ?rs"
      "sms_uuid ` set ss \<subseteq> trk_sms_uuid ` set (trackers d @ ts)"
      "\<forall>n\<in>set ns. ntf_type n = MailNotificationType.Email \<longrightarrow> ntf_mail_id n \<in> Some ` set qids"
    unfolding grew_def by (auto simp: post_context_def)
  have "d' = d\<lparr>messages := messages d @ [m], notifications := notifications d @ ns,
           mails := mails d @ qs, smss := smss d @ ss, trackers := trackers d @ ts,
           outbox := outbox d @ ev # evs\<rparr>"
    unfolding d' d1 by simp
  from that [OF m grouped_recipients this rows(1-3) q rows(4-8)] show ?thesis .
qed

text \<open>C4: a successful post delivers to every recipient exactly once.  The notifications it appends
  carry, as a multiset, exactly the recipients of the command, each with its own channel and that
  channel's initial status (inbox sent, email and sms ready), and are the ones it reports.\<close>

theorem message_post_delivers:
  assumes "message_post cmd v w = (Inr p, w')"
  shows "\<exists>ns. notifications (db w') = notifications (db w) @ ns \<and>
    map ntf_id ns = map mn_id (pm_notifications p) \<and>
    mset (map ntf_shape ns) = mset (map (wanted (pm_message_id p)) (mp_recipients cmd))"
proof -
  from message_post_effect [OF assms] have "post_effect v cmd p (db w) (db w')" by simp
  then show ?thesis
  proof (rule post_effect_rows)
    fix ns rs m qs ss ts evs
    assume rs: "mset rs = mset (mp_recipients cmd)" and
      d: "db w' = (db w)\<lparr>messages := messages (db w) @ [m], notifications := notifications (db w) @ ns,
           mails := mails (db w) @ qs, smss := smss (db w) @ ss, trackers := trackers (db w) @ ts,
           outbox := outbox (db w) @ evs\<rparr>" and
      n: "map ntf_shape ns = map (wanted (pm_message_id p)) rs"
        "map ntf_id ns = map mn_id (pm_notifications p)"
    from d have "notifications (db w') = notifications (db w) @ ns" by simp
    moreover have "mset (map ntf_shape ns) = mset (map (wanted (pm_message_id p)) (mp_recipients cmd))"
      unfolding n(1) mset_map rs ..
    ultimately show ?thesis using n(2) by blast
  qed
qed

text \<open>C5: a successful post queues what the channels need.  All email recipients share one outgoing mail,
  every email notification is linked to a mail of this post, and every sms recipient with a number
  has an outgoing sms with the body of the message.\<close>

theorem message_post_queues:
  assumes "message_post cmd v w = (Inr p, w')"
  shows "\<exists>ns qs ss. notifications (db w') = notifications (db w) @ ns \<and>
    mails (db w') = mails (db w) @ qs \<and> smss (db w') = smss (db w) @ ss \<and> length qs \<le> 1 \<and>
    (\<forall>q\<in>set qs. pm_mail_id p = Some (mail_id q) \<and> mail_message_id q = pm_message_id p \<and>
       mail_state q = MailState.Outgoing) \<and>
    (\<forall>n\<in>set ns. ntf_type n = MailNotificationType.Email \<longrightarrow> ntf_mail_id n \<in> Some ` mail_id ` set qs) \<and>
    map (\<lambda>s. (sms_id s, sms_uuid s)) ss = pm_sms p \<and>
    mset (map sms_shape ss) = mset (map
      (\<lambda>r. (pr_number r, mp_body cmd, Some (pm_message_id p), SmsState.Outgoing))
      (filter (\<lambda>r. pr_channel r = NotificationChannel.Sms) (mp_recipients cmd)))"
proof -
  from message_post_effect [OF assms] have "post_effect v cmd p (db w) (db w')" by simp
  then show ?thesis
  proof (rule post_effect_rows)
    fix ns rs m qs ss ts evs qids
    assume rs: "mset rs = mset (mp_recipients cmd)" and
      d: "db w' = (db w)\<lparr>messages := messages (db w) @ [m], notifications := notifications (db w) @ ns,
           mails := mails (db w) @ qs, smss := smss (db w) @ ss, trackers := trackers (db w) @ ts,
           outbox := outbox (db w) @ evs\<rparr>" and
      q: "map mail_id qs = qids" "length qids \<le> 1"
        "pm_mail_id p = (if qids = [] then None else Some (last qids))"
        "list_all (queued_mail (post_context cmd (pm_message_id p))) qs" and
      s: "map (\<lambda>s. (sms_id s, sms_uuid s)) ss = pm_sms p"
        "map sms_shape ss = wanted_sms (post_context cmd (pm_message_id p)) rs" and
      n: "\<forall>n\<in>set ns. ntf_type n = MailNotificationType.Email \<longrightarrow> ntf_mail_id n \<in> Some ` set qids"
    have l: "length qs \<le> 1" using q(1,2) by (metis length_map)
    have one: "\<forall>q\<in>set qs. pm_mail_id p = Some (mail_id q) \<and> mail_message_id q = pm_message_id p \<and>
       mail_state q = MailState.Outgoing"
    proof
      fix x assume x: "x \<in> set qs"
      with l have "qs = [x]" by (cases qs) auto
      with q(1,3,4) show "pm_mail_id p = Some (mail_id x) \<and> mail_message_id x = pm_message_id p \<and>
         mail_state x = MailState.Outgoing"
        by (auto simp: queued_mail_def post_context_def)
    qed
    have sms: "mset (map sms_shape ss) = mset (map
      (\<lambda>r. (pr_number r, mp_body cmd, Some (pm_message_id p), SmsState.Outgoing))
      (filter (\<lambda>r. pr_channel r = NotificationChannel.Sms) (mp_recipients cmd)))"
      unfolding s(2) wanted_sms_def mset_map mset_filter rs by (simp add: post_context_def)
    have link: "\<forall>n\<in>set ns. ntf_type n = MailNotificationType.Email \<longrightarrow>
        ntf_mail_id n \<in> Some ` mail_id ` set qs"
      using n q(1) by (metis set_map)
    show ?thesis
      by (intro exI [of _ ns] exI [of _ qs] exI [of _ ss] conjI l one sms link s(1)) (simp_all add: d)
  qed
qed

lemma message_post_all_or_nothing:
  assumes "message_post cmd v w = (r, w')"
  shows "(db w' = db w \<or> (\<exists>p. post_effect v cmd p (db w) (db w'))) \<and>
    (\<forall>e. r = Inl e \<longrightarrow> (\<forall>n. \<not> ack_lost v n) \<longrightarrow> db w' = db w)"
proof (cases "blank (mp_body cmd) \<or> (mp_model cmd \<noteq> None) \<noteq> (mp_res_id cmd \<noteq> None)")
  case True
  with assms show ?thesis by (auto simp: message_post_def fail_def split: if_splits)
next
  case False
  with assms have t: "in_tx MailDb (message_post_tx cmd) v w = (r, w')"
    by (simp add: message_post_def)
  have "db w' = db w \<or> (\<exists>p. post_effect v cmd p (db w) (db w'))"
    using in_tx_atomic [OF t] message_post_tx_Inr [of cmd v "begin_tx v w"] by fastforce
  moreover have "db w' = db w" if "r = Inl e" "\<forall>n. \<not> ack_lost v n" for e
    using in_tx_Inl [of MailDb "message_post_tx cmd" v w e w'] t that by simp
  ultimately show ?thesis by blast
qed

text \<open>C3: a post is all or nothing.  Whatever fails, the database is either untouched or has the full
  effect of the post; and unless the acknowledgement of the commit is lost, an error means untouched.\<close>

theorem message_post_atomic:
  assumes "message_post cmd v w = (r, w')"
  shows "(db w' = db w \<or> (\<exists>p. post_effect v cmd p (db w) (db w'))) \<and>
    (\<forall>e. r = Inl e \<longrightarrow> (\<forall>n. \<not> ack_lost v n) \<longrightarrow> db w' = db w)"
  using message_post_all_or_nothing [OF assms] .

text \<open>A successful post stages exactly its events: one \<open>MessagePosted\<close> for the message, on the channel
  of the record it is about, then one \<open>SmsCreated\<close> per queued sms, in order and on that channel.\<close>

lemma message_post_events:
  assumes "message_post cmd v w = (Inr p, w')"
  shows "\<exists>ev evs. outbox (db w') = outbox (db w) @ ev # evs \<and> event_type ev = ''MessagePosted'' \<and>
    aggregate_id ev = uuid_text v (pm_message_id p) \<and>
    map (\<lambda>e. (event_type e, aggregate_id e)) evs =
      map (\<lambda>s. (''SmsCreated'', uuid_text v (fst s))) (pm_sms p) \<and>
    (\<forall>e\<in>set (ev # evs). event_channel e = Some (post_channel v cmd (pm_message_id p)))"
proof -
  from message_post_effect [OF assms] obtain m d1 qids ev evs where
    g: "grew (set qids) (post_context cmd (pm_message_id p))
          (concat (map snd (group_by_channel (mp_recipients cmd))))
          (pm_notifications p) (pm_sms p) qids ((db w)\<lparr>messages := messages (db w) @ [m]\<rparr>) d1" and
    d': "db w' = d1\<lparr>outbox := outbox d1 @ ev # evs\<rparr>" and
    e: "event_type ev = ''MessagePosted''" "aggregate_id ev = uuid_text v (pm_message_id p)"
      "event_channel ev = Some (post_channel v cmd (pm_message_id p))" and
    l: "list_all2 (sms_created_event v (post_channel v cmd (pm_message_id p))) (pm_sms p) evs"
    unfolding post_effect_def by blast
  from g have "outbox d1 = outbox (db w)" by (auto simp: grew_def)
  moreover from l have "map (\<lambda>e. (event_type e, aggregate_id e)) evs =
      map (\<lambda>s. (''SmsCreated'', uuid_text v (fst s))) (pm_sms p) \<and>
      (\<forall>e\<in>set evs. event_channel e = Some (post_channel v cmd (pm_message_id p)))"
    by (induction rule: list_all2_induct) (simp_all add: sms_created_event_def)
  ultimately show ?thesis
    using d' e by (intro exI [of _ ev] exI [of _ evs]) simp
qed

text \<open>No sms is left without its tracker: a post keeps the invariant that every sms row has a tracker
  row under its uuid, in every run, although the two are written by separate statements.\<close>

lemma message_post_tracked: "keeps sms_tracked (message_post cmd)"
  unfolding keeps_def
proof (intro allI impI)
  fix v and w :: "(db, 'o) world"
  assume t: "sms_tracked (db w)"
  obtain r w' where run: "message_post cmd v w = (r, w')" by fastforce
  from message_post_all_or_nothing [OF run] consider "db w' = db w"
    | p where "post_effect v cmd p (db w) (db w')" by blast
  then have "sms_tracked (db w')"
  proof cases
    case 1
    with t show ?thesis by simp
  next
    case 2
    then show ?thesis
      by (rule post_effect_rows) (use t in \<open>auto simp: sms_tracked_def\<close>)
  qed
  with run show "sms_tracked (db (snd (message_post cmd v w)))" by simp
qed

section \<open>The schema's constraints are kept\<close>

lemma fk_ok_mono: "fk_ok ids x \<Longrightarrow> set ids \<subseteq> set ids' \<Longrightarrow> fk_ok ids' x"
  by (auto simp: fk_ok_def split: option.splits)

lemma schema_ok_insert_message:
  assumes "insert_mail_message m now d = Inr (u, d')" and "schema_ok d"
  shows "schema_ok d'"
proof -
  from assms(1) obtain r where d': "d' = d\<lparr>messages := messages d @ [r]\<rparr>" and id: "msg_id r = nm_id m"
    by (rule insert_mail_message_Inr)
  from assms(1) have "nm_id m \<notin> set (message_ids d)"
    by (auto simp: insert_mail_message_def split: option.splits if_splits)
  with id have "msg_id r \<notin> msg_id ` set (messages d)" by (simp add: message_ids_def)
  then show ?thesis
    using assms(2) unfolding d' schema_ok_def
    by (auto intro: fk_ok_mono)
qed

lemma schema_ok_insert_notification:
  assumes "insert_mail_notification n now d = Inr (u, d')" and "schema_ok d"
  shows "schema_ok d'"
proof -
  from assms(1) obtain r where d': "d' = d\<lparr>notifications := notifications d @ [r]\<rparr>" and
    r: "ntf_id r = nn_id n" "ntf_message_id r = nn_mail_message_id n"
    by (rule insert_mail_notification_Inr)
  from assms(1) have "nn_id n \<notin> ntf_id ` set (notifications d)"
    "nn_mail_message_id n \<in> set (message_ids d)"
    by (auto simp: insert_mail_notification_def split: option.splits if_splits)
  with r show ?thesis
    using assms(2) unfolding d' schema_ok_def
    by (auto simp: message_ids_def intro: fk_ok_mono)
qed

lemma schema_ok_insert_mail:
  assumes "insert_mail m d = Inr (u, d')" and "schema_ok d"
  shows "schema_ok d'"
proof -
  from assms(1) have "nq_id m \<notin> mail_id ` set (mails d)" "nq_mail_message_id m \<in> set (message_ids d)"
    by (auto simp: insert_mail_def split: if_splits)
  moreover from assms(1) obtain r where d': "d' = d\<lparr>mails := mails d @ [r]\<rparr>" and
    "mail_id r = nq_id m" "mail_message_id r = nq_mail_message_id m"
    by (rule insert_mail_Inr)
  ultimately show ?thesis
    using assms(2) unfolding d' schema_ok_def by (auto simp: message_ids_def)
qed

lemma schema_ok_insert_sms:
  assumes "insert_sms n now d = Inr (u, d')" and "schema_ok d"
  shows "schema_ok d'"
proof -
  from assms(1) have "ns_id n \<notin> sms_id ` set (smss d)" "ns_uuid n \<notin> sms_uuid ` set (smss d)"
    "fk_ok (message_ids d) (ns_mail_message_id n)"
    by (auto simp: insert_sms_def split: if_splits)
  moreover from assms(1) obtain r where d': "d' = d\<lparr>smss := smss d @ [r]\<rparr>" and
    "sms_id r = ns_id n" "sms_uuid r = ns_uuid n" "sms_mail_message_id r = ns_mail_message_id n"
    by (rule insert_sms_Inr)
  ultimately show ?thesis
    using assms(2) unfolding d' schema_ok_def by (auto simp: message_ids_def)
qed

lemma schema_ok_insert_tracker:
  assumes "insert_tracker n d = Inr (u, d')" and "schema_ok d"
  shows "schema_ok d'"
proof (cases "ns_uuid n \<in> trk_sms_uuid ` set (trackers d)")
  case True
  with assms show ?thesis by (auto simp: insert_tracker_def split: if_splits)
next
  case False
  with assms(1) have "fk_ok (message_ids d) (ns_mail_message_id n)"
    "fk_ok (map ntf_id (notifications d)) (ns_notification_id n)" and
    d': "d' = d\<lparr>trackers := trackers d @
        [\<lparr>trk_sms_uuid = ns_uuid n, trk_message_id = ns_mail_message_id n,
          trk_notification_id = ns_notification_id n,
          trk_state = MailNotificationStatus.Process\<rparr>]\<rparr>"
    by (simp_all add: insert_tracker_def split: if_splits)
  with assms(2) False show ?thesis
    unfolding d' schema_ok_def by (simp add: message_ids_def)
qed

text \<open>What a database invariant has to satisfy for a post to keep it: every insert the pipeline performs
  keeps it.\<close>

locale post_invariant =
  fixes I :: "db \<Rightarrow> bool"
  assumes outbox: "I d \<Longrightarrow> I (d\<lparr>outbox := o'\<rparr>)"
    and message: "insert_mail_message m now d = Inr (u, d') \<Longrightarrow> I d \<Longrightarrow> I d'"
    and notification: "insert_mail_notification n now d = Inr (i, d') \<Longrightarrow> I d \<Longrightarrow> I d'"
    and mail: "insert_mail q d = Inr (j, d') \<Longrightarrow> I d \<Longrightarrow> I d'"
    and sms: "insert_sms s now d = Inr (u, d') \<Longrightarrow> I d \<Longrightarrow> I d'"
    and tracker: "insert_tracker s d = Inr (u, d') \<Longrightarrow> I d \<Longrightarrow> I d'"
begin

lemma keeps_bus: "keeps I (stage_bus_event a b c x f g)"
  by (rule keeps_stage_bus_event) (rule outbox)

lemma keeps_message: "keeps I (stmt_now (insert_mail_message q))"
  by (rule keeps_stmt_now) (erule (1) message [rotated])

lemma keeps_notification: "keeps I (stmt_now (insert_mail_notification n))"
  by (rule keeps_stmt_now) (erule (1) notification [rotated])

lemma keeps_mail: "keeps I (stmt (insert_mail q))"
  by (rule keeps_stmt) (erule (1) mail [rotated])

lemma keeps_sms: "keeps I (insert_sms_with_tracker n)"
  unfolding insert_sms_with_tracker_def
  by (intro keeps_intros keeps_stmt keeps_stmt_now; (erule (1) sms [rotated] | erule (1) tracker [rotated]))

lemma keeps_dispatch: "keeps I (dispatch_channel ctx c rs)"
  by (cases c; simp only: dispatch_channel.simps inbox_strategy_def email_strategy_def
        sms_strategy_def inbox_one_def [abs_def] email_one_def [abs_def] sms_one_def [abs_def];
      intro keeps_intros keeps_notification keeps_mail keeps_sms)

lemma keeps_post: "keeps I (message_post cmd)"
  unfolding message_post_def message_post_tx_def post_group_def stage_sms_created_def Let_def
  by (intro keeps_intros keeps_bus keeps_message keeps_dispatch)

end

interpretation schema: post_invariant schema_ok
  by unfold_locales (simp, (erule (1) schema_ok_insert_message schema_ok_insert_notification
      schema_ok_insert_mail schema_ok_insert_sms schema_ok_insert_tracker)+)

text \<open>A post keeps the constraints of the schema (primary, unique and foreign keys of messages,
  notifications, mails, sms and trackers), in every run and at every moment of it.\<close>

lemma message_post_schema: "keeps schema_ok (message_post cmd)"
  by (rule schema.keeps_post)

section \<open>The properties at concrete inputs\<close>

definition sample_post :: MessagePostCommand where
  "sample_post = \<lparr>mp_body = ''hi'', mp_subject = None, mp_message_type = [], mp_subtype_id = None,
     mp_subtype_name = None, mp_is_internal = False, mp_author_id = None, mp_author_guest_id = None,
     mp_email_from = None, mp_reply_to = None, mp_model = None, mp_res_id = None,
     mp_record_name = None,
     mp_recipients =
       [\<lparr>pr_partner = Some 2, pr_channel = NotificationChannel.Email, pr_email = Some ''x@y'',
         pr_number = None\<rparr>,
        \<lparr>pr_partner = Some 3, pr_channel = NotificationChannel.Sms, pr_email = None,
         pr_number = Some ''+621''\<rparr>]\<rparr>"

definition sample_posted :: "(MailError + PostedMessage) \<times> (db, nat) world" where
  "sample_posted = message_post sample_post plain_env (world_of empty_db)"

lemma sample_post_ok: "message_post sample_post plain_env (world_of empty_db) =
    (Inr (projr (fst sample_posted)), snd sample_posted)"
proof -
  have "\<not> isl (fst sample_posted)" by code_simp
  then show ?thesis unfolding sample_posted_def by (rule run_Inr)
qed

lemma message_post_delivers_witness:
  "(\<exists>ns. notifications (db (snd sample_posted)) = ns \<and>
      mset (map ntf_shape ns) = mset (map (wanted (pm_message_id (projr (fst sample_posted))))
        (mp_recipients sample_post))) \<and> length (notifications (db (snd sample_posted))) = 2"
proof
  have "notifications (db (world_of empty_db :: (db, nat) world)) = []" by code_simp
  with message_post_delivers [OF sample_post_ok]
  show "\<exists>ns. notifications (db (snd sample_posted)) = ns \<and>
      mset (map ntf_shape ns) = mset (map (wanted (pm_message_id (projr (fst sample_posted))))
        (mp_recipients sample_post))" by auto
  show "length (notifications (db (snd sample_posted))) = 2" by code_simp
qed

lemma message_post_queues_witness:
  "map (\<lambda>s. (sms_id s, sms_uuid s)) (smss (db (snd sample_posted))) = pm_sms (projr (fst sample_posted)) \<and>
   length (mails (db (snd sample_posted))) = 1"
proof
  have "smss (db (world_of empty_db :: (db, nat) world)) = []" by code_simp
  with message_post_queues [OF sample_post_ok]
  show "map (\<lambda>s. (sms_id s, sms_uuid s)) (smss (db (snd sample_posted))) = pm_sms (projr (fst sample_posted))"
    by auto
  show "length (mails (db (snd sample_posted))) = 1" by code_simp
qed

lemma message_post_events_witness:
  "\<exists>ev evs. outbox (db (snd sample_posted)) = ev # evs \<and> event_type ev = ''MessagePosted'' \<and>
     map event_type evs = [''SmsCreated'']"
proof -
  have "outbox (db (world_of empty_db :: (db, nat) world)) = []" by code_simp
  with message_post_events [OF sample_post_ok] obtain ev evs where
    e: "outbox (db (snd sample_posted)) = ev # evs" "event_type ev = ''MessagePosted''" by auto
  have "map event_type (tl (outbox (db (snd sample_posted)))) = [''SmsCreated'']" by code_simp
  with e show ?thesis by auto
qed

text \<open>A post whose last statement finds the connection gone leaves the database as it was.\<close>

definition broken_env :: env where
  "broken_env = plain_env\<lparr>fault := (\<lambda>n. n = 12)\<rparr>"

lemma message_post_atomic_witness:
  "isl (fst (message_post sample_post broken_env (world_of empty_db :: (db, nat) world))) \<and>
   db (snd (message_post sample_post broken_env (world_of empty_db :: (db, nat) world))) = empty_db"
proof -
  let ?r = "message_post sample_post broken_env (world_of empty_db :: (db, nat) world)"
  have l: "isl (fst ?r)" by code_simp
  have a: "\<forall>n. \<not> ack_lost broken_env n" by (simp add: broken_env_def plain_env_def)
  from l have "fst ?r = Inl (projl (fst ?r))" by (cases "fst ?r") simp_all
  with message_post_atomic [OF surjective_pairing, of sample_post broken_env
      "world_of empty_db :: (db, nat) world"] a
  have "db (snd ?r) = db (world_of empty_db :: (db, nat) world)" by blast
  with l show ?thesis by (simp add: world_of_def)
qed

end
