(* ===== verification/Addresses.thy ===== *)
theory Addresses
  imports Effects Store
begin

text \<open>
  Mail addresses and the choice of the outbound server:
  \<open>src/application/service/mail_server_query_service.rs\<close> over
  \<open>src/infrastructure/persistence/smtp_selection_repository.rs\<close>, and the alias lookup of
  \<open>src/application/service/alias_write_service.rs\<close> over
  \<open>src/infrastructure/persistence/alias_resolution_repository.rs\<close>.  SQL's \<open>lower\<close> depends on the
  collation of the database and is a parameter.  A \<open>LIMIT 1\<close> without an order returns the first match
  in the order of the table.
\<close>

section \<open>Splitting an address\<close>

definition split_address :: "string \<Rightarrow> (string \<times> string) option" where
  "split_address address =
     (case rsplit_once (CHR ''@'') address of
        None \<Rightarrow> None
      | Some (a, b) \<Rightarrow>
          let local_part = to_ascii_lowercase (trim a);
              domain = to_ascii_lowercase (trim b)
          in if local_part = [] \<or> domain = [] then None else Some (local_part, domain))"

text \<open>The domain never contains an @, so joining the halves and splitting again is the identity
  when the halves carry no white space around them.\<close>

lemma split_address_parts:
  assumes "split_address s = Some (l, dm)"
  shows "l \<noteq> []" and "dm \<noteq> []" and "CHR ''@'' \<notin> set dm"
    and "to_ascii_lowercase l = l" and "to_ascii_lowercase dm = dm"
proof -
  from assms obtain a b where r: "rsplit_once (CHR ''@'') s = Some (a, b)" and
    ld: "l = to_ascii_lowercase (trim a)" "dm = to_ascii_lowercase (trim b)" "l \<noteq> []" "dm \<noteq> []"
    by (auto simp: split_address_def Let_def split: option.splits if_splits)
  from rsplit_once_Some [OF r] have "CHR ''@'' \<notin> set (trim b)" using set_trim [of b] by blast
  then show "CHR ''@'' \<notin> set dm" unfolding ld(2)
    by (auto simp: to_ascii_lowercase_def dest: ascii_lower_at [THEN iffD1, OF sym])
  show "l \<noteq> []" "dm \<noteq> []" by (fact ld)+
  show "to_ascii_lowercase l = l" "to_ascii_lowercase dm = dm" by (simp_all add: ld)
qed

section \<open>The server ladder\<close>

text \<open>\<open>trim\<close> of SQL removes blanks only; \<open>string_to_array('', ',')\<close> is empty.\<close>

definition sql_trim :: "string \<Rightarrow> string" where
  "sql_trim s = rev (dropWhile (\<lambda>c. c = CHR '' '') (rev (dropWhile (\<lambda>c. c = CHR '' '') s)))"

definition filter_entries :: "(string \<Rightarrow> string) \<Rightarrow> string \<Rightarrow> string list" where
  "filter_entries sql_lower f =
     (if f = [] then [] else map (\<lambda>e. sql_lower (sql_trim e)) (split_char (CHR '','') f))"

definition entry_rung :: "string \<Rightarrow> string \<Rightarrow> string \<Rightarrow> nat option" where
  "entry_rung local_part domain entry =
     (if entry = local_part @ ''@'' @ domain then Some 0
      else if entry = ''@'' @ domain \<or> entry = domain then Some 1
      else None)"

text \<open>One row per server and filter entry, with its rung; a server without a filter is one row.\<close>

definition ranked_rows ::
  "(string \<Rightarrow> string) \<Rightarrow> string \<Rightarrow> string \<Rightarrow> mail_server_row \<Rightarrow> (nat \<times> mail_server_row) list" where
  "ranked_rows sql_lower local_part domain s =
     (case srv_from_filter s of
        None \<Rightarrow> [(2, s)]
      | Some f \<Rightarrow> List.map_filter (\<lambda>e. map_option (\<lambda>n. (n, s)) (entry_rung local_part domain e))
                    (filter_entries sql_lower f))"

definition ladder_le :: "nat \<times> mail_server_row \<Rightarrow> nat \<times> mail_server_row \<Rightarrow> bool" where
  "ladder_le p q \<longleftrightarrow>
     fst p < fst q \<or> fst p = fst q \<and>
       (srv_sequence (snd p) < srv_sequence (snd q) \<or>
        srv_sequence (snd p) = srv_sequence (snd q) \<and> srv_id (snd p) \<le> srv_id (snd q))"

definition ladder_rows :: "(string \<Rightarrow> string) \<Rightarrow> string \<Rightarrow> string \<Rightarrow> db \<Rightarrow> (nat \<times> mail_server_row) list" where
  "ladder_rows sql_lower local_part domain d =
     concat (map (ranked_rows sql_lower local_part domain)
       (filter (\<lambda>s. srv_active s \<and> \<not> srv_deleted s) (mail_servers d)))"

record SmtpEndpoint =
  se_server_id :: uuid
  se_name :: string
  se_from_filter :: "string option"
  se_smtp_host :: string
  se_smtp_port :: int
  se_smtp_authentication :: string
  se_smtp_user :: "string option"
  se_smtp_pass_ref :: "string option"
  se_smtp_encryption :: string
  se_smtp_debug :: bool

definition smtp_endpoint :: "mail_server_row \<Rightarrow> SmtpEndpoint" where
  "smtp_endpoint s =
     \<lparr>se_server_id = srv_id s, se_name = srv_name s, se_from_filter = srv_from_filter s,
      se_smtp_host = srv_smtp_host s, se_smtp_port = srv_smtp_port s,
      se_smtp_authentication = SmtpAuthentication_show (srv_smtp_authentication s),
      se_smtp_user = srv_smtp_user s, se_smtp_pass_ref = srv_smtp_pass_ref s,
      se_smtp_encryption = SmtpEncryption_show (srv_smtp_encryption s),
      se_smtp_debug = srv_smtp_debug s\<rparr>"

definition repo_resolve_endpoint ::
  "(string \<Rightarrow> string) \<Rightarrow> string \<Rightarrow> string \<Rightarrow> db \<Rightarrow> SmtpEndpoint option" where
  "repo_resolve_endpoint sql_lower local_part domain d =
     map_option (\<lambda>p. smtp_endpoint (snd p))
       (first_by ladder_le (ladder_rows sql_lower local_part domain d))"

datatype MailServerQueryError = MsDb db_error | MsInvalid string

definition resolve_endpoint ::
  "(string \<Rightarrow> string) \<Rightarrow> string \<Rightarrow> (db, 'o, MailServerQueryError, SmtpEndpoint option) act" where
  "resolve_endpoint sql_lower from_email =
     (case split_address from_email of
        None \<Rightarrow> fail (MsInvalid from_email)
      | Some (local_part, domain) \<Rightarrow>
          bindA (lift MsDb acquire) (\<lambda>_.
          lift MsDb (query (reading (repo_resolve_endpoint sql_lower local_part domain)))))"

section \<open>The best row\<close>

lemma ladder_total: "ladder_le x y \<or> ladder_le y x"
  unfolding ladder_le_def by arith

lemma ladder_trans: "ladder_le x y \<Longrightarrow> ladder_le y z \<Longrightarrow> ladder_le x z"
  unfolding ladder_le_def by arith

lemma ladder_rows_iff:
  "(n, s) \<in> set (ladder_rows L l dm d) \<longleftrightarrow>
   s \<in> set (mail_servers d) \<and> srv_active s \<and> \<not> srv_deleted s \<and>
   (case srv_from_filter s of
      None \<Rightarrow> n = 2
    | Some f \<Rightarrow> \<exists>e\<in>set (filter_entries L f). entry_rung l dm e = Some n)"
  by (auto simp: ladder_rows_def ranked_rows_def map_filter_def split: option.splits)
    (force simp: image_iff)+

text \<open>\<open>serves_at L l dm s n\<close>: server \<open>s\<close> can send for \<open>l@dm\<close>, at rung \<open>n\<close> of the ladder (0: the address is
  listed, 1: its domain is, 2: no filter).\<close>

definition serves_at :: "(string \<Rightarrow> string) \<Rightarrow> string \<Rightarrow> string \<Rightarrow> mail_server_row \<Rightarrow> nat \<Rightarrow> bool" where
  "serves_at L l dm s n \<longleftrightarrow> srv_active s \<and> \<not> srv_deleted s \<and>
     (case srv_from_filter s of
        None \<Rightarrow> n = 2
      | Some f \<Rightarrow> n = 0 \<and> l @ ''@'' @ dm \<in> set (filter_entries L f) \<or>
                  n = 1 \<and> (''@'' @ dm \<in> set (filter_entries L f) \<or> dm \<in> set (filter_entries L f)))"

lemma ladder_serves:
  assumes "l \<noteq> []" and "CHR ''@'' \<notin> set dm"
  shows "(n, s) \<in> set (ladder_rows L l dm d) \<longleftrightarrow> s \<in> set (mail_servers d) \<and> serves_at L l dm s n"
proof -
  have "l @ ''@'' @ dm \<noteq> ''@'' @ dm" using assms(1) by simp
  moreover have "l @ ''@'' @ dm \<noteq> dm" by simp
  ultimately have "(\<exists>e\<in>set es. entry_rung l dm e = Some n) \<longleftrightarrow>
      n = 0 \<and> l @ ''@'' @ dm \<in> set es \<or> n = 1 \<and> (''@'' @ dm \<in> set es \<or> dm \<in> set es)" for es n
    by (auto simp: entry_rung_def split: if_splits)
  then show ?thesis unfolding ladder_rows_iff serves_at_def by (auto split: option.splits)
qed

text \<open>The outbound server is the best one.  An address without both halves is refused.  Otherwise a
  lookup that returns finds no server exactly when no active server serves the address, and the one
  it finds serves it at the lowest rung any server does, with the lowest sequence and then the lowest
  id among those; nothing is written.\<close>

lemma resolve_endpoint_best:
  assumes "resolve_endpoint L from v w = (r, w')"
  shows "db w' = db w \<and> (split_address from = None \<longrightarrow> r = Inl (MsInvalid from)) \<and>
    (\<forall>l dm. split_address from = Some (l, dm) \<longrightarrow>
      (r = Inr None \<longrightarrow> (\<forall>s\<in>set (mail_servers (db w)). \<forall>n. \<not> serves_at L l dm s n)) \<and>
      (\<forall>e. r = Inr (Some e) \<longrightarrow> (\<exists>s n. e = smtp_endpoint s \<and> s \<in> set (mail_servers (db w)) \<and>
         serves_at L l dm s n \<and>
         (\<forall>s'\<in>set (mail_servers (db w)). \<forall>n'. serves_at L l dm s' n' \<longrightarrow> ladder_le (n, s) (n', s')))))"
proof (cases "split_address from")
  case None
  with assms show ?thesis by (simp add: resolve_endpoint_def fail_def)
next
  case (Some p)
  obtain l dm where p: "p = (l, dm)" by (cases p)
  have "keeps (\<lambda>d. d = db w) (resolve_endpoint L from)"
    unfolding resolve_endpoint_def by (intro keeps_intros)
  from keepsD [OF this, of w v] assms have k: "db w' = db w" by simp
  have run: "x = repo_resolve_endpoint L l dm (db w)" if "r = Inr x" for x
    using assms Some p that
    by (auto simp: resolve_endpoint_def reading_def elim!: bindA_InrE lift_InrE acquire_InrE query_InrE)
  note parts = split_address_parts [OF Some [unfolded p]]
  have none: "\<forall>s\<in>set (mail_servers (db w)). \<forall>n. \<not> serves_at L l dm s n" if "r = Inr None"
    using run [OF that] ladder_serves [OF parts(1,3), of _ _ L "db w"]
    by (auto simp: repo_resolve_endpoint_def)
  have some: "\<exists>s n. e = smtp_endpoint s \<and> s \<in> set (mail_servers (db w)) \<and> serves_at L l dm s n \<and>
      (\<forall>s'\<in>set (mail_servers (db w)). \<forall>n'. serves_at L l dm s' n' \<longrightarrow> ladder_le (n, s) (n', s'))"
    if "r = Inr (Some e)" for e
  proof -
    from run [OF that] obtain n s where m: "first_by ladder_le (ladder_rows L l dm (db w)) = Some (n, s)"
      and e: "e = smtp_endpoint s"
      by (cases "first_by ladder_le (ladder_rows L l dm (db w))") (auto simp: repo_resolve_endpoint_def)
    have "(n, s) \<in> set (ladder_rows L l dm (db w)) \<and> (\<forall>q\<in>set (ladder_rows L l dm (db w)). ladder_le (n, s) q)"
      by (rule first_by_least [OF m ladder_total ladder_trans])
    with e ladder_serves [OF parts(1,3)] show ?thesis by blast
  qed
  from k Some p none some show ?thesis by simp
qed

section \<open>Aliases\<close>

record AliasRow =
  ar_id :: uuid
  ar_alias_name :: string
  ar_alias_domain_id :: "uuid option"
  ar_alias_contact :: string
  ar_alias_model_id :: "uuid option"
  ar_alias_parent_model_id :: "uuid option"
  ar_alias_parent_thread_id :: "uuid option"
  ar_alias_user_id :: "uuid option"
  ar_alias_defaults :: "string option"
  ar_alias_force_thread_id :: "uuid option"
  ar_alias_reply_to_address :: "string option"

definition alias_match :: "string \<Rightarrow> uuid option \<Rightarrow> alias_row \<Rightarrow> bool" where
  "alias_match nm dm r \<longleftrightarrow> als_name r = Some nm \<and> als_domain_id r = dm \<and> \<not> als_deleted r"

definition repo_resolve_alias :: "string \<Rightarrow> uuid option \<Rightarrow> db \<Rightarrow> AliasRow option" where
  "repo_resolve_alias nm dm d =
     map_option (\<lambda>r.
       \<lparr>ar_id = als_id r, ar_alias_name = nm, ar_alias_domain_id = als_domain_id r,
        ar_alias_contact = MailAliasContact_show (als_contact r), ar_alias_model_id = als_model_id r,
        ar_alias_parent_model_id = als_parent_model_id r,
        ar_alias_parent_thread_id = als_parent_thread_id r, ar_alias_user_id = als_user_id r,
        ar_alias_defaults = als_defaults r, ar_alias_force_thread_id = als_force_thread_id r,
        ar_alias_reply_to_address = als_reply_to_address r\<rparr>)
       (find (alias_match nm dm) (aliases d))"

datatype AliasError = AlDb db_error | AlInvalid string

definition alias_resolve :: "string \<Rightarrow> uuid option \<Rightarrow> (db, 'o, AliasError, AliasRow option) act" where
  "alias_resolve alias_name alias_domain_id =
     (let nm = to_ascii_lowercase (trim alias_name) in
      if nm = [] then fail (AlInvalid ''alias_name is required'')
      else
        bindA (lift AlDb acquire) (\<lambda>_.
        lift AlDb (query (reading (repo_resolve_alias nm alias_domain_id)))))"

lemma alias_resolve_Inr:
  assumes "alias_resolve nm dm v w = (Inr (Some a), w')"
  shows "db w' = db w \<and> (\<exists>r\<in>set (aliases (db w)). ar_id a = als_id r \<and>
    als_name r = Some (to_ascii_lowercase (trim nm)) \<and> als_domain_id r = dm \<and> \<not> als_deleted r)"
proof (cases "to_ascii_lowercase (trim nm) = []")
  case True
  with assms show ?thesis by (simp add: alias_resolve_def fail_def)
next
  case False
  with assms have "db w' = db w \<and> Some a = repo_resolve_alias (to_ascii_lowercase (trim nm)) dm (db w)"
    by (auto simp: alias_resolve_def reading_def elim!: bindA_InrE lift_InrE acquire_InrE query_InrE)
  then show ?thesis
    by (cases "find (alias_match (to_ascii_lowercase (trim nm)) dm) (aliases (db w))")
      (auto simp: repo_resolve_alias_def find_Some_iff alias_match_def)
qed

section \<open>The properties at concrete inputs\<close>

definition sample_server :: "uuid \<Rightarrow> string option \<Rightarrow> mail_server_row" where
  "sample_server i f = \<lparr>srv_id = i, srv_name = ''s'', srv_from_filter = f, srv_smtp_host = ''h'',
     srv_smtp_port = 25, srv_smtp_authentication = SmtpAuthentication.Login, srv_smtp_user = None,
     srv_smtp_pass_ref = None, srv_smtp_encryption = SmtpEncryption.None', srv_smtp_debug = False,
     srv_sequence = 10, srv_active = True, srv_deleted = False\<rparr>"

definition server_world :: "(db, nat) world" where
  "server_world = world_of (empty_db\<lparr>mail_servers :=
     [sample_server 1 None, sample_server 2 (Some ''c.d, @b''), sample_server 3 (Some ''x@b'')]\<rparr>)"

definition server_run :: "(MailServerQueryError + SmtpEndpoint option) \<times> (db, nat) world" where
  "server_run = resolve_endpoint to_ascii_lowercase ''X@B'' plain_env server_world"

lemma resolve_endpoint_best_witness:
  "map_option se_server_id (projr (fst server_run)) = Some 3 \<and>
   (\<exists>s n. srv_id s = 3 \<and> serves_at to_ascii_lowercase ''x'' ''b'' s n)"
proof
  show i: "map_option se_server_id (projr (fst server_run)) = Some 3" by code_simp
  have "\<not> isl (fst server_run)" by code_simp
  moreover from i obtain e where "projr (fst server_run) = Some e" "se_server_id e = 3" by auto
  ultimately have e: "fst server_run = Inr (Some e)" "se_server_id e = 3"
    by (cases "fst server_run"; simp)+
  have s: "split_address ''X@B'' = Some (''x'', ''b'')" by code_simp
  from resolve_endpoint_best [of to_ascii_lowercase "''X@B''" plain_env server_world "fst server_run" "snd server_run"] s e(1)
  obtain sv n where "e = smtp_endpoint sv" "serves_at to_ascii_lowercase ''x'' ''b'' sv n" by (auto simp: server_run_def)
  with e(2) show "\<exists>s n. srv_id s = 3 \<and> serves_at to_ascii_lowercase ''x'' ''b'' s n"
    by (auto simp: smtp_endpoint_def)
qed

end
