(* ===== verification/Inbound.thy ===== *)
theory Inbound
  imports MessageDelivery Addresses Hex
begin

text \<open>
  The inbound mail gateway: \<open>src/application/service/mail_inbound_service.rs\<close> over
  \<open>src/infrastructure/persistence/inbound_repository.rs\<close>.  SHA-256 (crate \<open>sha2\<close>) and SQL's \<open>lower\<close> are
  parameters.  The authentication runs on an acquired connection; everything after it is one
  transaction per message.
\<close>

section \<open>The repository\<close>

record InboundServerRow =
  is_id :: uuid
  is_active :: bool
  is_state :: string
  is_token_hash :: string
  is_default_thread_model :: "string option"

definition find_server :: "uuid \<Rightarrow> db \<Rightarrow> InboundServerRow option" where
  "find_server server_id d =
     map_option (\<lambda>r.
       \<lparr>is_id = fms_id r, is_active = fms_active r, is_state = FetchmailState_show (fms_state r),
        is_token_hash = fms_token_hash r, is_default_thread_model = fms_default_thread_model r\<rparr>)
       (find (\<lambda>r. fms_id r = server_id \<and> \<not> fms_deleted r) (fetchmail_servers d))"

definition sender_allowed :: "(string \<Rightarrow> string) \<Rightarrow> uuid \<Rightarrow> string \<Rightarrow> db \<Rightarrow> bool" where
  "sender_allowed sql_lower server_id envelope_from d =
     (let from = to_ascii_lowercase (trim envelope_from);
          domain = (case rsplit_once (CHR ''@'') from of None \<Rightarrow> from | Some (a, b) \<Rightarrow> b)
      in 0 < length (filter (\<lambda>r.
           gwa_active r \<and> \<not> gwa_deleted r \<and>
           (gwa_server_id r = None \<or> gwa_server_id r = Some server_id) \<and>
           sql_lower (gwa_pattern r) \<in> {from, domain, CHR ''@'' # domain})
         (gateway_allowed d)))"

definition find_by_message_id :: "string \<Rightarrow> db \<Rightarrow> uuid option" where
  "find_by_message_id mid d =
     map_option msg_id (find (\<lambda>r. msg_message_id r = Some mid) (messages d))"

definition find_parent_thread :: "string \<Rightarrow> db \<Rightarrow> (string option \<times> uuid option) option" where
  "find_parent_thread parent_message_id d =
     map_option (\<lambda>r. (msg_model r, msg_res_id r))
       (find (\<lambda>r. msg_message_id r = Some parent_message_id \<and> msg_model r \<noteq> None) (messages d))"

definition learn_thread_model :: "uuid \<Rightarrow> db \<Rightarrow> string option" where
  "learn_thread_model res_id d =
     Option.bind (find (\<lambda>r. msg_res_id r = Some res_id \<and> msg_model r \<noteq> None) (messages d)) msg_model"

definition find_domain_id_by_name :: "(string \<Rightarrow> string) \<Rightarrow> string \<Rightarrow> db \<Rightarrow> uuid option" where
  "find_domain_id_by_name sql_lower domain d =
     map_option ald_id
       (find (\<lambda>r. sql_lower (ald_name r) = sql_lower domain \<and> \<not> ald_deleted r) (alias_domains d))"

definition touch_server_success :: "uuid \<Rightarrow> time \<Rightarrow> db \<Rightarrow> db_error + unit \<times> db" where
  "touch_server_success server_id at d =
     Inr ((), d\<lparr>fetchmail_servers := map (\<lambda>r. if fms_id r = server_id
       then r\<lparr>fms_last_fetch_at := Some at, fms_error_at := None, fms_error_message := None\<rparr>
       else r) (fetchmail_servers d)\<rparr>)"

section \<open>Messages and outcomes\<close>

definition GATEWAY_OPS_CHANNEL :: string where
  "GATEWAY_OPS_CHANNEL = ''mail.gateway_ops''"

datatype MailInboundError = Auth | InInvalid string | InDb db_error

record InboundMessage =
  im_message_id :: "string option"
  im_from :: string
  im_to :: "string list"
  im_subject :: "string option"
  im_body_html :: string
  im_in_reply_to :: "string option"

datatype InboundOutcome =
    Routed uuid "string option" "uuid option"
  | Duplicate uuid
  | Rejected
  | Dropped

definition sha256_hex :: "(string \<Rightarrow> bytes) \<Rightarrow> string \<Rightarrow> string" where
  "sha256_hex sha input = hex_of (sha input)"

definition str_bytes :: "string \<Rightarrow> bytes" where
  "str_bytes s = map (\<lambda>c. of_nat (byte_of c)) s"

definition inbound_const_eq :: "string \<Rightarrow> string \<Rightarrow> bool" where
  "inbound_const_eq a b =
     (if length a \<noteq> length b then False else const_eq_diff 0 (str_bytes a) (str_bytes b) = 0)"

section \<open>Routing\<close>

text \<open>One round of the loop over the recipients; \<open>None\<close> is its \<open>continue\<close>.\<close>

definition alias_model ::
  "string option \<Rightarrow> uuid \<Rightarrow> (db, 'o, MailInboundError, (string \<times> uuid) option) act" where
  "alias_model dflt target =
     bindA (lift InDb (stmt (reading (learn_thread_model target)))) (\<lambda>learnt.
     ret (case (case learnt of Some m \<Rightarrow> Some m | None \<Rightarrow> dflt) of
            None \<Rightarrow> None
          | Some model \<Rightarrow> Some (model, target)))"

definition alias_hop ::
  "string option \<Rightarrow> string \<Rightarrow> uuid \<Rightarrow> (db, 'o, MailInboundError, (string \<times> uuid) option) act" where
  "alias_hop dflt local_part domain_id =
     bindA (lift InDb (stmt (reading (repo_resolve_alias local_part (Some domain_id))))) (\<lambda>al.
     case al of
       None \<Rightarrow> ret None
     | Some alias \<Rightarrow>
         (case (case ar_alias_force_thread_id alias of
                  Some t \<Rightarrow> Some t | None \<Rightarrow> ar_alias_parent_thread_id alias) of
            None \<Rightarrow> ret None
          | Some target \<Rightarrow> alias_model dflt target))"

definition alias_step ::
  "(string \<Rightarrow> string) \<Rightarrow> string option \<Rightarrow> string \<Rightarrow>
   (db, 'o, MailInboundError, (string \<times> uuid) option) act" where
  "alias_step sql_lower dflt addr =
     (case split_address addr of
        None \<Rightarrow> ret None
      | Some (local_part, domain) \<Rightarrow>
          bindA (lift InDb (stmt (reading (find_domain_id_by_name sql_lower domain)))) (\<lambda>di.
          case di of
            None \<Rightarrow> ret None
          | Some domain_id \<Rightarrow> alias_hop dflt local_part domain_id))"

fun route_aliases ::
  "(string \<Rightarrow> string) \<Rightarrow> string option \<Rightarrow> string list \<Rightarrow>
   (db, 'o, MailInboundError, string option \<times> uuid option) act" where
  "route_aliases sql_lower dflt [] = ret (dflt, None)"
| "route_aliases sql_lower dflt (addr # addrs) =
     bindA (alias_step sql_lower dflt addr) (\<lambda>hit.
     case hit of
       Some (model, target) \<Rightarrow> ret (Some model, Some target)
     | None \<Rightarrow> route_aliases sql_lower dflt addrs)"

definition route ::
  "(string \<Rightarrow> string) \<Rightarrow> string option \<Rightarrow> InboundMessage \<Rightarrow>
   (db, 'o, MailInboundError, string option \<times> uuid option) act" where
  "route sql_lower dflt msg =
     (case im_in_reply_to msg of
        None \<Rightarrow> route_aliases sql_lower dflt (im_to msg)
      | Some parent_id \<Rightarrow>
          bindA (lift InDb (stmt (reading (find_parent_thread parent_id)))) (\<lambda>p.
          case p of
            Some t \<Rightarrow> ret t
          | None \<Rightarrow> route_aliases sql_lower dflt (im_to msg)))"

section \<open>The pipeline\<close>

definition jstr_opt :: "string option \<Rightarrow> json" where
  "jstr_opt = jopt JString"

definition stage_rejected :: "uuid \<Rightarrow> InboundMessage \<Rightarrow> (db, 'o, MailInboundError, unit) act" where
  "stage_rejected server_id msg =
     bindA (ask uuid_text) (\<lambda>U.
     lift InDb (stage_bus_event ''InboundEmailRejected'' ''FetchmailServer'' (U server_id)
       GATEWAY_OPS_CHANNEL ''InboundEmailRejected''
       (JObject [(''server_id'', JString (U server_id)), (''email_from'', JString (im_from msg)),
                 (''message_id'', jstr_opt (im_message_id msg))])))"

definition stage_dropped :: "uuid \<Rightarrow> InboundMessage \<Rightarrow> (db, 'o, MailInboundError, unit) act" where
  "stage_dropped server_id msg =
     bindA (ask uuid_text) (\<lambda>U.
     lift InDb (stage_bus_event ''InboundEmailDropped'' ''FetchmailServer'' (U server_id)
       GATEWAY_OPS_CHANNEL ''InboundEmailDropped''
       (JObject [(''server_id'', JString (U server_id)), (''email_from'', JString (im_from msg)),
                 (''to'', JArray (map JString (im_to msg))),
                 (''reason'', JString ''no_parent_no_alias_no_default_model'')])))"

definition inbound_row ::
  "uuid \<Rightarrow> InboundMessage \<Rightarrow> string \<Rightarrow> uuid option \<Rightarrow> NewMailMessageRow" where
  "inbound_row i msg model res_id =
     \<lparr>nm_id = i, nm_subject = im_subject msg, nm_body = im_body_html msg,
      nm_message_type = ''email'', nm_subtype_id = None, nm_is_internal = False,
      nm_author_id = None, nm_author_guest_id = None, nm_email_from = Some (im_from msg),
      nm_message_id = im_message_id msg, nm_reply_to = None, nm_model = Some model,
      nm_res_id = res_id, nm_record_name = None\<rparr>"

definition routed_channel :: "(uuid \<Rightarrow> string) \<Rightarrow> string \<Rightarrow> uuid option \<Rightarrow> string" where
  "routed_channel U model res_id =
     (case res_id of Some rid \<Rightarrow> record_channel U model rid | None \<Rightarrow> GATEWAY_OPS_CHANNEL)"

definition stage_routed ::
  "uuid \<Rightarrow> uuid \<Rightarrow> InboundMessage \<Rightarrow> string \<Rightarrow> uuid option \<Rightarrow> (db, 'o, MailInboundError, unit) act" where
  "stage_routed server_id i msg model res_id =
     bindA (ask uuid_text) (\<lambda>U.
     lift InDb (stage_bus_event ''InboundEmailRouted'' ''MailMessage'' (U i)
       (routed_channel U model res_id) ''InboundEmailRouted''
       (JObject [(''message_row'', JString (U i)), (''model'', JString model),
                 (''res_id'', jopt (\<lambda>r. JString (U r)) res_id),
                 (''email_from'', JString (im_from msg)), (''server_id'', JString (U server_id))])))"

definition unique_violation :: "db_error \<Rightarrow> bool" where
  "unique_violation e = (case e of UniqueViolation _ \<Rightarrow> True | _ \<Rightarrow> False)"

definition inbound_store ::
  "uuid \<Rightarrow> InboundMessage \<Rightarrow> string \<Rightarrow> uuid option \<Rightarrow> (db, 'o, MailInboundError, InboundOutcome) act" where
  "inbound_store server_id msg model res_id =
     bindA new_v4 (\<lambda>i.
     bindA (attempt (stmt_now (insert_mail_message (inbound_row i msg model res_id)))) (\<lambda>r.
     case r of
       Inl e \<Rightarrow>
         if unique_violation e \<and> im_message_id msg \<noteq> None
         then
           bindA (lift InDb (stmt (reading (find_by_message_id
                    (case im_message_id msg of Some mid \<Rightarrow> mid | None \<Rightarrow> []))))) (\<lambda>found.
           ret (Duplicate (case found of Some existing \<Rightarrow> existing | None \<Rightarrow> i)))
         else fail (InDb e)
     | Inr _ \<Rightarrow>
         bindA (stage_routed server_id i msg model res_id) (\<lambda>_.
         bindA now_utc (\<lambda>now.
         bindA (lift InDb (stmt (touch_server_success server_id now))) (\<lambda>_.
         ret (Routed i (Some model) res_id))))))"

definition dedup_probe :: "InboundMessage \<Rightarrow> (db, 'o, MailInboundError, uuid option) act" where
  "dedup_probe msg =
     (case im_message_id msg of
        None \<Rightarrow> ret None
      | Some mid \<Rightarrow> lift InDb (stmt (reading (find_by_message_id mid))))"

text \<open>The steps of \<open>process_in_tx\<close> from the routing on, from the allowlist on, and all of them.\<close>

definition process_allowed ::
  "(string \<Rightarrow> string) \<Rightarrow> uuid \<Rightarrow> string option \<Rightarrow> InboundMessage \<Rightarrow>
   (db, 'o, MailInboundError, InboundOutcome) act" where
  "process_allowed sql_lower server_id dflt msg =
     bindA (route sql_lower dflt msg) (\<lambda>t.
     case fst t of
       None \<Rightarrow> bindA (stage_dropped server_id msg) (\<lambda>_. ret Dropped)
     | Some m \<Rightarrow> inbound_store server_id msg m (snd t))"

definition process_fresh ::
  "(string \<Rightarrow> string) \<Rightarrow> uuid \<Rightarrow> string option \<Rightarrow> InboundMessage \<Rightarrow>
   (db, 'o, MailInboundError, InboundOutcome) act" where
  "process_fresh sql_lower server_id dflt msg =
     bindA (lift InDb (stmt (reading (sender_allowed sql_lower server_id (im_from msg))))) (\<lambda>ok.
     if \<not> ok then bindA (stage_rejected server_id msg) (\<lambda>_. ret Rejected)
     else process_allowed sql_lower server_id dflt msg)"

definition process_in_tx ::
  "(string \<Rightarrow> string) \<Rightarrow> uuid \<Rightarrow> string option \<Rightarrow> InboundMessage \<Rightarrow>
   (db, 'o, MailInboundError, InboundOutcome) act" where
  "process_in_tx sql_lower server_id dflt msg =
     bindA (dedup_probe msg) (\<lambda>dup.
     case dup of
       Some existing \<Rightarrow> ret (Duplicate existing)
     | None \<Rightarrow> process_fresh sql_lower server_id dflt msg)"

definition inbound_auth ::
  "(string \<Rightarrow> bytes) \<Rightarrow> uuid \<Rightarrow> string \<Rightarrow> (db, 'o, MailInboundError, string option) act" where
  "inbound_auth sha server_id token =
     bindA (lift InDb acquire) (\<lambda>_.
     bindA (lift InDb (query (reading (find_server server_id)))) (\<lambda>s.
     case s of
       None \<Rightarrow> fail Auth
     | Some server \<Rightarrow>
         if \<not> is_active server then fail Auth
         else if \<not> inbound_const_eq (sha256_hex sha token) (to_ascii_lowercase (is_token_hash server))
           then fail Auth
         else ret (is_default_thread_model server)))"

definition process_inbound ::
  "(string \<Rightarrow> string) \<Rightarrow> (string \<Rightarrow> bytes) \<Rightarrow> uuid \<Rightarrow> string \<Rightarrow> InboundMessage \<Rightarrow>
   (db, 'o, MailInboundError, InboundOutcome) act" where
  "process_inbound sql_lower sha server_id token msg =
     (if blank (im_from msg) \<or> im_to msg = [] then fail (InInvalid ''from and to are required'')
      else
        bindA (inbound_auth sha server_id token) (\<lambda>dflt.
        in_tx InDb (process_in_tx sql_lower server_id dflt msg)))"

section \<open>The token check\<close>

definition authorised :: "(string \<Rightarrow> bytes) \<Rightarrow> db \<Rightarrow> uuid \<Rightarrow> string \<Rightarrow> bool" where
  "authorised sha d server_id token \<longleftrightarrow>
     (case find (\<lambda>r. fms_id r = server_id \<and> \<not> fms_deleted r) (fetchmail_servers d) of
        None \<Rightarrow> False
      | Some r \<Rightarrow> fms_active r \<and> to_ascii_lowercase (fms_token_hash r) = hex_of (sha token))"

lemma str_bytes_inj [simp]: "str_bytes a = str_bytes b \<longleftrightarrow> a = b"
proof -
  have b: "byte_of c < 256" for c
    by (metis byte_of_def mod_less_divisor of_char_mod_256 zero_less_numeral)
  have "inj (\<lambda>c. of_nat (byte_of c) :: 8 word)"
  proof (rule injI)
    fix x y assume "(of_nat (byte_of x) :: 8 word) = of_nat (byte_of y)"
    then have "unat (of_nat (byte_of x) :: 8 word) = unat (of_nat (byte_of y) :: 8 word)" by simp
    with b [of x] b [of y] have "byte_of x = byte_of y" by (simp add: unat_of_nat)
    then show "x = y" by (simp add: byte_of_def)
  qed
  then show ?thesis by (simp add: str_bytes_def inj_map_eq_map)
qed

lemma inbound_const_eq_iff [simp]: "inbound_const_eq a b \<longleftrightarrow> a = b"
proof (cases "length a = length b")
  case True
  then have "length (str_bytes a) = length (str_bytes b)" by (simp add: str_bytes_def)
  with True const_eq_diff_zero [of "str_bytes a" "str_bytes b" 0] show ?thesis
    by (simp add: inbound_const_eq_def)
qed (auto simp: inbound_const_eq_def)

definition auth_refused :: "(db, 'o, MailInboundError, string option) act" where
  "auth_refused = bindA (lift InDb acquire) (\<lambda>_. bindA (lift InDb (query (reading (\<lambda>_. ())))) (\<lambda>_. fail Auth))"

lemma unauthorised_auth:
  assumes "\<not> authorised sha (db w) server_id token"
  shows "inbound_auth sha server_id token v w = auth_refused v w"
  using assms
  by (auto simp: inbound_auth_def auth_refused_def authorised_def find_server_def sha256_hex_def
      bindA_def lift_def acquire_def query_def query_now_def reading_def fail_def split: option.splits)

lemma auth_refused_runs:
  "db (snd (auth_refused v w)) = db w \<and> trace (snd (auth_refused v w)) = trace w \<and>
   isl (fst (auth_refused v w))"
  by (auto simp: auth_refused_def bindA_def lift_def acquire_def query_def query_now_def reading_def
      fail_def split: option.splits)

lemma inbound_auth_Inr:
  assumes "inbound_auth sha server_id token v w = (Inr dflt, w')"
  shows "db w' = db w \<and> authorised sha (db w) server_id token \<and>
    map_option is_default_thread_model (find_server server_id (db w)) = Some dflt"
proof -
  have "authorised sha (db w) server_id token"
  proof (rule ccontr)
    assume "\<not> authorised sha (db w) server_id token"
    from unauthorised_auth [OF this, of v] auth_refused_runs [of v w] assms show False
      by (cases "auth_refused v w") auto
  qed
  then show ?thesis using assms
    by (auto simp: inbound_auth_def reading_def elim!: bindA_InrE lift_InrE acquire_InrE query_InrE
        fail_InrE ret_InrE split: option.splits if_splits)
qed

text \<open>C12: fail closed, without an oracle.  A request whose server is unknown, deleted or inactive, or whose
  token is wrong, writes nothing and returns no outcome; and any two such requests with the same
  message get the same answer and leave the same world, so the answer does not tell which of the
  reasons applied.  Conversely an outcome was only ever given to an authorised request.\<close>

theorem inbound_auth_closed:
  assumes "\<not> authorised sha (db w) server_id token" and "\<not> authorised sha (db w) server_id' token'"
  shows "process_inbound L sha server_id token msg v w = process_inbound L sha server_id' token' msg v w \<and>
    db (snd (process_inbound L sha server_id token msg v w)) = db w \<and>
    isl (fst (process_inbound L sha server_id token msg v w))"
  using auth_refused_runs [of v w] unauthorised_auth [OF assms(1), of v] unauthorised_auth [OF assms(2), of v]
  by (cases "auth_refused v w") (auto simp: process_inbound_def bindA_def fail_def split: sum.splits)

section \<open>Routing is a ladder\<close>

definition thread_model :: "string option \<Rightarrow> db \<Rightarrow> uuid \<Rightarrow> string option" where
  "thread_model dflt d t = (case learn_thread_model t d of Some m \<Rightarrow> Some m | None \<Rightarrow> dflt)"

definition alias_thread :: "AliasRow \<Rightarrow> uuid option" where
  "alias_thread a =
     (case ar_alias_force_thread_id a of Some t \<Rightarrow> Some t | None \<Rightarrow> ar_alias_parent_thread_id a)"

definition hop_target :: "string option \<Rightarrow> db \<Rightarrow> string \<Rightarrow> uuid \<Rightarrow> (string \<times> uuid) option" where
  "hop_target dflt d l di =
     Option.bind (repo_resolve_alias l (Some di) d) (\<lambda>a.
     Option.bind (alias_thread a) (\<lambda>t. map_option (\<lambda>m. (m, t)) (thread_model dflt d t)))"

definition alias_target ::
  "(string \<Rightarrow> string) \<Rightarrow> string option \<Rightarrow> db \<Rightarrow> string \<Rightarrow> (string \<times> uuid) option" where
  "alias_target L dflt d addr =
     Option.bind (split_address addr) (\<lambda>(l, dm).
     Option.bind (find_domain_id_by_name L dm d) (hop_target dflt d l))"

definition routing ::
  "(string \<Rightarrow> string) \<Rightarrow> string option \<Rightarrow> InboundMessage \<Rightarrow> db \<Rightarrow> string option \<times> uuid option" where
  "routing L dflt msg d =
     (case Option.bind (im_in_reply_to msg) (\<lambda>p. find_parent_thread p d) of
        Some t \<Rightarrow> t
      | None \<Rightarrow>
          (case List.map_filter (alias_target L dflt d) (im_to msg) of
             (m, t) # _ \<Rightarrow> (Some m, Some t)
           | [] \<Rightarrow> (dflt, None)))"

lemma alias_model_Inr:
  assumes "alias_model dflt t v w = (Inr x, w')"
  shows "db w' = db w \<and> tx_step w w' \<and> x = map_option (\<lambda>m. (m, t)) (thread_model dflt (db w) t)"
  using assms unfolding alias_model_def
  by (elim bindA_InrE reading_stmt_InrE ret_InrE) (simp add: thread_model_def split: option.splits)

lemma alias_hop_Inr:
  assumes "alias_hop dflt l di v w = (Inr x, w')"
  shows "db w' = db w \<and> tx_step w w' \<and> x = hop_target dflt (db w) l di"
proof -
  from assms obtain w1 where w1: "db w1 = db w" "tx_step w w1" and
    rest: "(case repo_resolve_alias l (Some di) (db w) of
       None \<Rightarrow> ret None
     | Some alias \<Rightarrow> (case alias_thread alias of None \<Rightarrow> ret None
          | Some target \<Rightarrow> alias_model dflt target)) v w1 = (Inr x, w')"
    unfolding alias_hop_def alias_thread_def
    by (elim bindA_InrE reading_stmt_InrE) (simp only:)
  show ?thesis
  proof (cases "Option.bind (repo_resolve_alias l (Some di) (db w)) alias_thread")
    case None
    with rest w1 show ?thesis
      by (cases "repo_resolve_alias l (Some di) (db w)") (auto simp: hop_target_def elim: ret_InrE)
  next
    case (Some t)
    then obtain a where a: "repo_resolve_alias l (Some di) (db w) = Some a" "alias_thread a = Some t"
      by (auto simp: Option.bind_eq_Some_conv)
    with rest have "alias_model dflt t v w1 = (Inr x, w')" by simp
    from alias_model_Inr [OF this] w1 a show ?thesis
      by (auto simp: hop_target_def intro: tx_step_trans)
  qed
qed

lemma alias_step_Inr:
  assumes "alias_step L dflt addr v w = (Inr x, w')"
  shows "db w' = db w \<and> tx_step w w' \<and> x = alias_target L dflt (db w) addr"
proof (cases "split_address addr")
  case None
  with assms show ?thesis by (auto simp: alias_step_def alias_target_def elim: ret_InrE)
next
  case sp: (Some p)
  obtain l dm where p: "p = (l, dm)" by (cases p)
  from assms sp p obtain w1 where w1: "db w1 = db w" "tx_step w w1" and
    rest: "(case find_domain_id_by_name L dm (db w) of None \<Rightarrow> ret None
      | Some di \<Rightarrow> alias_hop dflt l di) v w1 = (Inr x, w')"
    by (auto simp: alias_step_def elim!: bindA_InrE reading_stmt_InrE)
  show ?thesis
  proof (cases "find_domain_id_by_name L dm (db w)")
    case None
    with rest w1 sp p show ?thesis by (auto simp: alias_target_def elim: ret_InrE)
  next
    case (Some di)
    with rest have "alias_hop dflt l di v w1 = (Inr x, w')" by simp
    from alias_hop_Inr [OF this] w1 Some sp p show ?thesis
      by (auto simp: alias_target_def intro: tx_step_trans)
  qed
qed

lemma route_aliases_Inr:
  assumes "route_aliases L dflt addrs v w = (Inr x, w')"
  shows "db w' = db w \<and> tx_step w w' \<and>
    x = (case List.map_filter (alias_target L dflt (db w)) addrs of
           (m, t) # _ \<Rightarrow> (Some m, Some t) | [] \<Rightarrow> (dflt, None))"
  using assms
proof (induction addrs arbitrary: w)
  case Nil
  then show ?case by (auto simp: map_filter_def elim: ret_InrE)
next
  case (Cons addr addrs)
  then obtain hit w1 where hit: "alias_step L dflt addr v w = (Inr hit, w1)" and
    rest: "(case hit of Some (m, t) \<Rightarrow> ret (Some m, Some t) | None \<Rightarrow> route_aliases L dflt addrs) v w1 = (Inr x, w')"
    by (auto elim: bindA_InrE)
  from alias_step_Inr [OF hit] have s: "db w1 = db w" "tx_step w w1" "alias_target L dflt (db w) addr = hit"
    by simp_all
  show ?case
  proof (cases hit)
    case None
    with rest have "route_aliases L dflt addrs v w1 = (Inr x, w')" by simp
    from Cons.IH [OF this] s None show ?thesis by (auto simp: map_filter_def intro: tx_step_trans)
  next
    case (Some p)
    with rest s show ?thesis by (cases p) (auto simp: map_filter_def elim: ret_InrE)
  qed
qed

lemma route_Inr:
  assumes "route L dflt msg v w = (Inr x, w')"
  shows "db w' = db w \<and> tx_step w w' \<and> x = routing L dflt msg (db w)"
proof (cases "im_in_reply_to msg")
  case None
  with assms route_aliases_Inr [of L dflt "im_to msg" v w x w'] show ?thesis
    by (simp add: route_def routing_def)
next
  case (Some p)
  with assms obtain w1 where w1: "db w1 = db w" "tx_step w w1" and
    rest: "(case find_parent_thread p (db w) of Some t \<Rightarrow> ret t
       | None \<Rightarrow> route_aliases L dflt (im_to msg)) v w1 = (Inr x, w')"
    by (auto simp: route_def elim!: bindA_InrE reading_stmt_InrE)
  show ?thesis
  proof (cases "find_parent_thread p (db w)")
    case None
    with rest have "route_aliases L dflt (im_to msg) v w1 = (Inr x, w')" by simp
    from route_aliases_Inr [OF this] w1 None Some show ?thesis
      by (auto simp: routing_def intro: tx_step_trans)
  next
    case p: (Some t)
    with rest w1 Some show ?thesis by (auto simp: routing_def elim: ret_InrE)
  qed
qed

section \<open>What an outcome did\<close>

definition touched :: "uuid \<Rightarrow> fetchmail_server_row list \<Rightarrow> fetchmail_server_row list \<Rightarrow> bool" where
  "touched server_id rows rows' \<longleftrightarrow> (\<exists>at. rows' = map (\<lambda>r. if fms_id r = server_id
     then r\<lparr>fms_last_fetch_at := Some at, fms_error_at := None, fms_error_message := None\<rparr> else r) rows)"

definition stored_row :: "InboundMessage \<Rightarrow> uuid \<Rightarrow> string option \<Rightarrow> uuid option \<Rightarrow> mail_message_row \<Rightarrow> bool" where
  "stored_row msg i model res_id r \<longleftrightarrow>
     msg_id r = i \<and> msg_message_id r = im_message_id msg \<and> msg_type r = MailMessageType.Email \<and>
     msg_subject r = im_subject msg \<and> msg_body r = im_body_html msg \<and>
     msg_email_from r = Some (im_from msg) \<and> msg_author_id r = None \<and> msg_author_guest_id r = None \<and>
     msg_model r = model \<and> msg_res_id r = res_id"

definition verdict_event :: "string \<Rightarrow> string \<Rightarrow> event \<Rightarrow> bool" where
  "verdict_event et ch ev \<longleftrightarrow> event_type ev = et \<and> event_channel ev = Some ch"

text \<open>\<open>inbound_spec\<close>: the contract of one message, as a relation between the database before, the
  outcome and the database after.\<close>

definition known :: "InboundMessage \<Rightarrow> db \<Rightarrow> uuid option" where
  "known msg d = Option.bind (im_message_id msg) (\<lambda>mid. find_by_message_id mid d)"

definition inbound_spec ::
  "(string \<Rightarrow> string) \<Rightarrow> (uuid \<Rightarrow> string) \<Rightarrow> uuid \<Rightarrow> string option \<Rightarrow> InboundMessage \<Rightarrow>
   db \<Rightarrow> InboundOutcome \<Rightarrow> db \<Rightarrow> bool" where
  "inbound_spec L U server_id dflt msg d outcome d' \<longleftrightarrow>
     (case outcome of
        Duplicate i \<Rightarrow> known msg d = Some i \<and> d' = d
      | Rejected \<Rightarrow> known msg d = None \<and> \<not> sender_allowed L server_id (im_from msg) d \<and>
          (\<exists>ev. d' = d\<lparr>outbox := outbox d @ [ev]\<rparr> \<and>
             verdict_event ''InboundEmailRejected'' GATEWAY_OPS_CHANNEL ev)
      | Dropped \<Rightarrow> known msg d = None \<and> sender_allowed L server_id (im_from msg) d \<and>
          fst (routing L dflt msg d) = None \<and>
          (\<exists>ev. d' = d\<lparr>outbox := outbox d @ [ev]\<rparr> \<and>
             verdict_event ''InboundEmailDropped'' GATEWAY_OPS_CHANNEL ev)
      | Routed i model res_id \<Rightarrow> known msg d = None \<and> sender_allowed L server_id (im_from msg) d \<and>
          routing L dflt msg d = (model, res_id) \<and> i \<notin> set (message_ids d) \<and>
          (\<exists>m r ev fs. model = Some m \<and> stored_row msg i model res_id r \<and>
             verdict_event ''InboundEmailRouted'' (routed_channel U m res_id) ev \<and>
             touched server_id (fetchmail_servers d) fs \<and>
             d' = d\<lparr>messages := messages d @ [r], outbox := outbox d @ [ev], fetchmail_servers := fs\<rparr>))"

lemma insert_inbound_Inr:
  assumes "insert_mail_message (inbound_row i msg m res) now d = Inr (u, d')"
  shows "i \<notin> set (message_ids d) \<and>
    (\<exists>r. stored_row msg i (Some m) res r \<and> d' = d\<lparr>messages := messages d @ [r]\<rparr>)"
proof -
  have "pg_enum_cast MailMessageType_show MailMessageType_from_str ''email'' = Some MailMessageType.Email"
    by code_simp
  with assms have "i \<notin> set (message_ids d) \<and> d' = d\<lparr>messages := messages d @
      [\<lparr>msg_id = i, msg_subject = im_subject msg, msg_date = now, msg_body = im_body_html msg,
        msg_type = MailMessageType.Email, msg_subtype_id = None, msg_is_internal = False,
        msg_author_id = None, msg_author_guest_id = None, msg_email_from = Some (im_from msg),
        msg_message_id = im_message_id msg, msg_reply_to = None, msg_model = Some m,
        msg_res_id = res, msg_record_name = None, msg_pinned_at = None, msg_deleted = False\<rparr>]\<rparr>"
    by (simp add: insert_mail_message_def inbound_row_def split: if_splits)
  then show ?thesis by (intro conjI exI) (auto simp: stored_row_def)
qed

lemma touch_server_success_Inr:
  assumes "touch_server_success server_id now d = Inr (u, d')"
  shows "\<exists>fs. touched server_id (fetchmail_servers d) fs \<and> d' = d\<lparr>fetchmail_servers := fs\<rparr>"
  using assms unfolding touch_server_success_def touched_def by blast

lemma stage_verdict_Inr:
  assumes "bindA (ask uuid_text) (\<lambda>U. lift InDb (stage_bus_event et at (A U) (C U) et (P U))) v w = (Inr u, w')"
  shows "\<exists>ev. db w' = (db w)\<lparr>outbox := outbox (db w) @ [ev]\<rparr> \<and> tx_step w w' \<and>
    verdict_event et (C (uuid_text v)) ev"
  using assms by (auto simp: bindA_ask verdict_event_def elim!: lift_InrE stage_bus_event_InrE)

lemma inbound_store_Inr:
  assumes "inbound_store server_id msg m res v w = (Inr out, w')"
    and "known msg (db w) = None" and "sender_allowed L server_id (im_from msg) (db w)"
    and "routing L dflt msg (db w) = (Some m, res)"
  shows "tx_step w w' \<and> inbound_spec L (uuid_text v) server_id dflt msg (db w) out (db w')"
proof -
  from assms(1) obtain i w1 r w2 where 1: "new_v4 v w = ((Inr i :: MailInboundError + uuid), w1)"
    and 2: "stmt_now (insert_mail_message (inbound_row i msg m res)) v w1 = (r, w2)"
    and 3: "(case r of
       Inl e \<Rightarrow>
         if unique_violation e \<and> im_message_id msg \<noteq> None
         then
           bindA (lift InDb (stmt (reading (find_by_message_id
                    (case im_message_id msg of Some mid \<Rightarrow> mid | None \<Rightarrow> []))))) (\<lambda>found.
           ret (Duplicate (case found of Some existing \<Rightarrow> existing | None \<Rightarrow> i)))
         else fail (InDb e)
     | Inr _ \<Rightarrow>
         bindA (stage_routed server_id i msg m res) (\<lambda>_.
         bindA now_utc (\<lambda>now.
         bindA (lift InDb (stmt (touch_server_success server_id now))) (\<lambda>_.
         ret (Routed i (Some m) res))))) v w2 = (Inr out, w')"
    unfolding inbound_store_def attempt_def by (elim bindA_InrE) (auto simp: prod_eq_iff)
  from 1 have w1: "db w1 = db w" "tx_step w w1" by (auto elim: new_v4_InrE)
  show ?thesis
  proof (cases r)
    case (Inl e)
    with 2 have "aborted w2" by (auto simp: stmt_now_def split: if_splits sum.splits)
    with Inl 3 show ?thesis
      by (auto simp: fail_def bindA_def lift_def stmt_def stmt_now_def split: if_splits)
  next
    case (Inr u)
    with 2 obtain now where ins: "insert_mail_message (inbound_row i msg m res) now (db w1) = Inr (u, db w2)"
      and w2: "tx_step w1 w2" by (auto elim: stmt_now_InrE)
    from 3 Inr obtain u1 w3 w4 w5 now1 where a: "stage_routed server_id i msg m res v w2 = (Inr u1, w3)"
      and b: "db w4 = db w3" "tx_step w3 w4"
      and c: "touch_server_success server_id now1 (db w4) = Inr ((), db w')" "tx_step w4 w'"
      and out: "out = Routed i (Some m) res"
      by (auto elim!: bindA_InrE lift_InrE now_utc_InrE stmt_InrE ret_InrE)
    from stage_verdict_Inr [OF a [unfolded stage_routed_def]] obtain ev where
      e: "db w3 = (db w2)\<lparr>outbox := outbox (db w2) @ [ev]\<rparr>" "tx_step w2 w3"
        "verdict_event ''InboundEmailRouted'' (routed_channel (uuid_text v) m res) ev" by blast
    from insert_inbound_Inr [OF ins] obtain q where q: "stored_row msg i (Some m) res q"
      "db w2 = (db w)\<lparr>messages := messages (db w) @ [q]\<rparr>" "i \<notin> set (message_ids (db w))"
      unfolding w1 by blast
    have "tx_step w w'" using w1 w2 e(2) b c by (blast intro: tx_step_trans)
    moreover from touch_server_success_Inr [OF c(1)] obtain fs where
      fs: "touched server_id (fetchmail_servers (db w)) fs"
        "db w' = (db w)\<lparr>messages := messages (db w) @ [q], outbox := outbox (db w) @ [ev],
           fetchmail_servers := fs\<rparr>"
      unfolding b(1) e(1) q(2) by auto
    ultimately show ?thesis unfolding out inbound_spec_def InboundOutcome.case
      using assms(2-4) q e(3) fs by blast
  qed
qed

lemma dedup_probe_Inr:
  assumes "dedup_probe msg v w = (Inr x, w')"
  shows "db w' = db w \<and> tx_step w w' \<and> x = known msg (db w)"
  using assms
  by (cases "im_message_id msg") (auto simp: dedup_probe_def known_def elim!: ret_InrE reading_stmt_InrE)

lemma process_allowed_Inr:
  assumes "process_allowed L server_id dflt msg v w = (Inr out, w')"
    and "known msg (db w) = None" and "sender_allowed L server_id (im_from msg) (db w)"
  shows "tx_step w w' \<and> inbound_spec L (uuid_text v) server_id dflt msg (db w) out (db w')"
proof -
  from assms(1) obtain t w1 where 1: "route L dflt msg v w = (Inr t, w1)" and
    rest: "(case fst t of None \<Rightarrow> bindA (stage_dropped server_id msg) (\<lambda>_. ret Dropped)
      | Some m \<Rightarrow> inbound_store server_id msg m (snd t)) v w1 = (Inr out, w')"
    unfolding process_allowed_def by (rule bindA_InrE)
  from route_Inr [OF 1] have w1: "db w1 = db w" "tx_step w w1" "t = routing L dflt msg (db w)" by simp_all
  show ?thesis
  proof (cases "fst t")
    case None
    with rest obtain u where out: "out = Dropped" and s: "stage_dropped server_id msg v w1 = (Inr u, w')"
      by (auto elim!: bindA_InrE ret_InrE)
    from stage_verdict_Inr [OF s [unfolded stage_dropped_def]]
    show ?thesis using None w1 assms(2,3) by (auto simp: inbound_spec_def out intro: tx_step_trans)
  next
    case (Some m)
    with rest have "inbound_store server_id msg m (snd t) v w1 = (Inr out, w')" by simp
    from inbound_store_Inr [OF this, of L dflt] Some w1 assms(2,3) show ?thesis
      by (auto simp: prod_eq_iff intro: tx_step_trans)
  qed
qed

lemma process_fresh_Inr:
  assumes "process_fresh L server_id dflt msg v w = (Inr out, w')" and "known msg (db w) = None"
  shows "tx_step w w' \<and> inbound_spec L (uuid_text v) server_id dflt msg (db w) out (db w')"
proof -
  from assms(1) obtain ok w1 where
    1: "lift InDb (stmt (reading (sender_allowed L server_id (im_from msg)))) v w = (Inr ok, w1)" and
    rest: "(if \<not> ok then bindA (stage_rejected server_id msg) (\<lambda>_. ret Rejected)
       else process_allowed L server_id dflt msg) v w1 = (Inr out, w')"
    unfolding process_fresh_def by (rule bindA_InrE)
  from 1 have w1: "db w1 = db w" "tx_step w w1" "ok = sender_allowed L server_id (im_from msg) (db w)"
    by (auto elim: reading_stmt_InrE)
  show ?thesis
  proof (cases ok)
    case False
    with rest obtain u where out: "out = Rejected" and s: "stage_rejected server_id msg v w1 = (Inr u, w')"
      by (auto elim!: bindA_InrE ret_InrE)
    from stage_verdict_Inr [OF s [unfolded stage_rejected_def]]
    show ?thesis using False w1 assms(2) by (auto simp: inbound_spec_def out intro: tx_step_trans)
  next
    case True
    with rest have "process_allowed L server_id dflt msg v w1 = (Inr out, w')" by simp
    from process_allowed_Inr [OF this] True w1 assms(2) show ?thesis by (auto intro: tx_step_trans)
  qed
qed

lemma process_in_tx_Inr:
  assumes "process_in_tx L server_id dflt msg v w = (Inr out, w')"
  shows "tx_step w w' \<and> inbound_spec L (uuid_text v) server_id dflt msg (db w) out (db w')"
proof -
  from assms obtain dup w1 where 1: "dedup_probe msg v w = (Inr dup, w1)" and
    rest: "(case dup of Some existing \<Rightarrow> ret (Duplicate existing)
      | None \<Rightarrow> process_fresh L server_id dflt msg) v w1 = (Inr out, w')"
    unfolding process_in_tx_def by (rule bindA_InrE)
  from dedup_probe_Inr [OF 1] have w1: "db w1 = db w" "tx_step w w1" "known msg (db w) = dup" by simp_all
  show ?thesis
  proof (cases dup)
    case (Some i)
    with rest w1 show ?thesis by (auto simp: inbound_spec_def elim!: ret_InrE)
  next
    case None
    with rest have "process_fresh L server_id dflt msg v w1 = (Inr out, w')" by simp
    from process_fresh_Inr [OF this] None w1 show ?thesis by (auto intro: tx_step_trans)
  qed
qed

lemma process_inbound_spec:
  assumes "process_inbound L sha server_id token msg v w = (Inr out, w')"
  shows "authorised sha (db w) server_id token \<and>
    (\<exists>server. find_server server_id (db w) = Some server \<and>
       inbound_spec L (uuid_text v) server_id (is_default_thread_model server) msg (db w) out (db w'))"
proof -
  from assms obtain dflt w1 where a: "inbound_auth sha server_id token v w = (Inr dflt, w1)" and
    t: "in_tx InDb (process_in_tx L server_id dflt msg) v w1 = (Inr out, w')"
    by (auto simp: process_inbound_def fail_def split: if_splits elim: bindA_InrE)
  from t obtain w2 where b: "process_in_tx L server_id dflt msg v (begin_tx v w1) = (Inr out, w2)"
    and e: "db w' = db w2"
    using in_tx_Inr [OF t] process_in_tx_Inr by (fastforce simp: tx_step_def)
  from process_in_tx_Inr [OF b] e inbound_auth_Inr [OF a] show ?thesis by auto
qed

text \<open>C13: one message, one outcome.  A call that returns an outcome came from an authorised server, and it
  took the database from the one before to the one \<open>inbound_spec\<close> prescribes for that outcome: a
  duplicate changes nothing, a rejected or dropped message leaves only its event, a routed one adds
  exactly one message where the routing ladder puts it, one event on that record's channel and the
  bookkeeping of its server.\<close>

theorem inbound_outcomes:
  assumes "process_inbound L sha server_id token msg v w = (Inr out, w')"
  shows "authorised sha (db w) server_id token \<and>
    (\<exists>server. find_server server_id (db w) = Some server \<and>
       inbound_spec L (uuid_text v) server_id (is_default_thread_model server) msg (db w) out (db w'))"
  by (rule process_inbound_spec [OF assms])

section \<open>Redelivery\<close>

lemma known_after:
  assumes "known msg d = None" and "stored_row msg i model res r" and "im_message_id msg \<noteq> None"
  shows "known msg (d\<lparr>messages := messages d @ [r], outbox := o', fetchmail_servers := fs\<rparr>) = Some i"
proof -
  have "find P (xs @ [x]) = Some x" if "find P xs = None" "P x" for P xs and x :: mail_message_row
    using that by (induction xs) (auto split: if_splits)
  with assms show ?thesis by (auto simp: known_def find_by_message_id_def stored_row_def)
qed

text \<open>Without faults an authorised, well-formed message always gets an outcome: the lookups cannot fail,
  and the insert can only meet a message id the probe has ruled out, or a row with the fresh uuid.\<close>

lemma succeeds_stage:
  "\<not> aborted w \<Longrightarrow> quiet v \<Longrightarrow>
   succeeds v (bindA (ask f) (\<lambda>U. lift InDb (stage_bus_event a (b U) (c U) (d U) e (g U)))) w"
  by (intro succeeds_bind succeeds_basic succeeds_lift succeeds_bus)

lemma succeeds_route_aliases:
  fixes w :: "(db, 'o) world"
  assumes "quiet v" and "\<not> aborted w"
  shows "succeeds v (route_aliases L dflt addrs) w"
proof -
  have m: "succeeds v (alias_model dflt t :: (db, 'o, _, _) act) w" if "\<not> aborted w" for t w
    unfolding alias_model_def using assms(1) that
    by (intro succeeds_bind succeeds_lift succeeds_reading succeeds_basic)
  have h: "succeeds v (alias_hop dflt l di :: (db, 'o, _, _) act) w" if "\<not> aborted w" for l di w
    unfolding alias_hop_def using assms(1) that
    by (intro succeeds_bind succeeds_lift succeeds_reading) (auto intro: succeeds_basic m split: option.splits)
  have s: "succeeds v (alias_step L dflt addr :: (db, 'o, _, _) act) w" if "\<not> aborted w" for addr w
  proof (cases "split_address addr")
    case None
    with that show ?thesis by (simp add: alias_step_def succeeds_basic)
  next
    case (Some p)
    then show ?thesis unfolding alias_step_def using assms(1) that
      by (cases p) (auto intro!: succeeds_bind succeeds_lift succeeds_reading
          intro: succeeds_basic h split: option.splits)
  qed
  show ?thesis using assms(2)
  proof (induction addrs arbitrary: w)
    case Nil
    then show ?case by (simp add: succeeds_basic)
  next
    case (Cons addr addrs)
    then show ?case
      by (auto intro!: succeeds_bind [OF s] intro: succeeds_basic split: option.splits)
  qed
qed

lemma succeeds_route:
  assumes "quiet v" and "\<not> aborted w"
  shows "succeeds v (route L dflt msg) w"
  using assms unfolding route_def
  by (auto intro!: succeeds_bind succeeds_lift succeeds_reading intro: succeeds_basic succeeds_route_aliases
      split: option.splits)

lemma succeeds_store:
  fixes w :: "(db, 'o) world"
  assumes q: "quiet v" and "\<not> aborted w" and "known msg (db w) = None"
    and "\<forall>n. rng v n \<notin> set (message_ids (db w))"
  shows "succeeds v (inbound_store server_id msg m res) w"
proof -
  have cast: "pg_enum_cast MailMessageType_show MailMessageType_from_str ''email'' = Some MailMessageType.Email"
    by code_simp
  from assms(3) have "msg_message_id r \<noteq> im_message_id msg" if "im_message_id msg \<noteq> None" "r \<in> set (messages (db w))" for r
    using that by (auto simp: known_def find_by_message_id_def find_None_iff)
  with cast assms(4) have "\<exists>p. insert_mail_message (inbound_row (rng v (tick w)) msg m res) now (db w) = Inr p" for now
    by (auto simp: insert_mail_message_def inbound_row_def fk_ok_def list_ex_iff)
  then have ins: "succeeds v (stmt_now (insert_mail_message (inbound_row (rng v (tick w)) msg m res))) w1"
    if "\<not> aborted w1" "db w1 = db w" for w1 :: "(db, 'o) world"
    using that q by (intro succeeds_stmt_now) auto
  have store: "succeeds v (bindA (stage_routed server_id i msg m res) (\<lambda>_.
         bindA now_utc (\<lambda>now.
         bindA (lift InDb (stmt (touch_server_success server_id now))) (\<lambda>_.
         ret (Routed i (Some m) res))))) w1" if "\<not> aborted w1" for i and w1 :: "(db, 'o) world"
    unfolding stage_routed_def using q that
    by (intro succeeds_bind [OF succeeds_stage] succeeds_bind [OF succeeds_basic(4)] succeeds_bind
        succeeds_lift succeeds_stmt succeeds_basic(1)) (auto simp: touch_server_success_def)
  show ?thesis unfolding inbound_store_def
  proof (rule succeeds_bind [OF succeeds_basic(3)])
    fix i and w1 :: "(db, 'o) world"
    assume n: "(new_v4 :: (db, 'o, MailInboundError, uuid) act) v w = (Inr i, w1)"
    then have "i = rng v (tick w)" "db w1 = db w" "\<not> aborted w1"
      using assms(2) by (auto elim: new_v4_InrE simp: tx_step_def)
    with ins [of w1] store show "succeeds v (bindA (attempt (stmt_now (insert_mail_message (inbound_row i msg m res))))
        (\<lambda>r. case r of
           Inl e \<Rightarrow>
             if unique_violation e \<and> im_message_id msg \<noteq> None
             then
               bindA (lift InDb (stmt (reading (find_by_message_id
                        (case im_message_id msg of Some mid \<Rightarrow> mid | None \<Rightarrow> []))))) (\<lambda>found.
               ret (Duplicate (case found of Some existing \<Rightarrow> existing | None \<Rightarrow> i)))
             else fail (InDb e)
         | Inr _ \<Rightarrow>
             bindA (stage_routed server_id i msg m res) (\<lambda>_.
             bindA now_utc (\<lambda>now.
             bindA (lift InDb (stmt (touch_server_success server_id now))) (\<lambda>_.
             ret (Routed i (Some m) res)))))) w1"
      by (intro succeeds_bind_attempt) simp_all
  qed (rule assms(2))
qed

lemma succeeds_process:
  fixes w :: "(db, 'o) world"
  assumes q: "quiet v" and "\<not> aborted w" and "\<forall>n. rng v n \<notin> set (message_ids (db w))"
  shows "succeeds v (process_in_tx L server_id dflt msg) w"
proof -
  have allowed: "succeeds v (process_allowed L server_id dflt msg) w1"
    if a: "\<not> aborted w1" "db w1 = db w" "known msg (db w) = None" for w1 :: "(db, 'o) world"
    unfolding process_allowed_def
  proof (rule succeeds_bind [OF succeeds_route [OF q a(1)]])
    fix t and w2 :: "(db, 'o) world"
    assume r: "route L dflt msg v w1 = (Inr t, w2)" and "\<not> aborted w2"
    from route_Inr [OF r] a have "db w2 = db w" by simp
    with \<open>\<not> aborted w2\<close> a assms(3) q show "succeeds v (case fst t of
        None \<Rightarrow> bindA (stage_dropped server_id msg) (\<lambda>_. ret Dropped)
      | Some m \<Rightarrow> inbound_store server_id msg m (snd t)) w2"
      by (cases "fst t") (auto simp: stage_dropped_def intro!: succeeds_bind [OF succeeds_stage]
          succeeds_basic(1) succeeds_store)
  qed
  have fresh: "succeeds v (process_fresh L server_id dflt msg) w1"
    if a: "\<not> aborted w1" "db w1 = db w" "known msg (db w) = None" for w1 :: "(db, 'o) world"
    unfolding process_fresh_def
  proof (rule succeeds_bind [OF succeeds_lift [OF succeeds_reading(1) [OF a(1) q]]])
    fix ok and w2 :: "(db, 'o) world"
    assume "lift InDb (stmt (reading (sender_allowed L server_id (im_from msg)))) v w1 = (Inr ok, w2)"
      and "\<not> aborted w2"
    with a show "succeeds v (if \<not> ok then bindA (stage_rejected server_id msg) (\<lambda>_. ret Rejected)
       else process_allowed L server_id dflt msg) w2"
      by (auto simp: stage_rejected_def elim!: reading_stmt_InrE
          intro!: succeeds_bind [OF succeeds_stage] succeeds_basic(1) q allowed)
  qed
  have probe: "succeeds v (dedup_probe msg) w"
    by (cases "im_message_id msg")
      (simp_all add: dedup_probe_def succeeds_basic succeeds_lift succeeds_reading assms(1,2))
  show ?thesis unfolding process_in_tx_def
  proof (rule succeeds_bind [OF probe])
    fix dup and w1 :: "(db, 'o) world"
    assume d: "dedup_probe msg v w = (Inr dup, w1)" and "\<not> aborted w1"
    have "db w1 = db w" "known msg (db w) = dup" using dedup_probe_Inr [OF d] by simp_all
    with \<open>\<not> aborted w1\<close> show "succeeds v (case dup of Some existing \<Rightarrow> ret (Duplicate existing)
        | None \<Rightarrow> process_fresh L server_id dflt msg) w1"
      by (cases dup) (auto intro: succeeds_basic fresh)
  qed
qed

text \<open>C14: the gateway answers.  With no database fault and a uuid generator that gives unused ids, every
  authorised, well-formed message gets an outcome; it is the one \<open>inbound_spec\<close> determines: a duplicate
  exactly when the message id is stored, else rejected exactly when the sender is not on the allowlist,
  else dropped exactly when the ladder finds no model.\<close>

theorem inbound_total:
  fixes w :: "(db, 'o) world"
  assumes "quiet v" and "\<forall>n. rng v n \<notin> set (message_ids (db w))" and "\<not> aborted w"
    and "authorised sha (db w) server_id token" and "\<not> blank (im_from msg)" and "im_to msg \<noteq> []"
    and "find_server server_id (db w) = Some server"
  shows "\<exists>out w'. process_inbound L sha server_id token msg v w = (Inr out, w') \<and>
    (known msg (db w) \<noteq> None \<longleftrightarrow> (\<exists>i. out = Duplicate i)) \<and>
    (known msg (db w) = None \<and> \<not> sender_allowed L server_id (im_from msg) (db w) \<longleftrightarrow> out = Rejected) \<and>
    (known msg (db w) = None \<and> sender_allowed L server_id (im_from msg) (db w) \<and>
       fst (routing L (is_default_thread_model server) msg (db w)) = None \<longleftrightarrow> out = Dropped)"
proof -
  have auth: "succeeds v (inbound_auth sha server_id token) w"
    using assms(1,3,4,7) unfolding inbound_auth_def
    by (auto simp: succeeds_def bindA_def lift_def acquire_def query_def query_now_def reading_def
        quiet_def ret_def authorised_def find_server_def sha256_hex_def split: option.splits)
  have tx: "succeeds v (in_tx InDb (process_in_tx L server_id dflt msg)) w1"
    if "db w1 = db w" for dflt and w1 :: "(db, 'o) world"
    using that assms(1,2) by (intro succeeds_in_tx succeeds_process) simp_all
  have "succeeds v (process_inbound L sha server_id token msg) w"
    using auth assms(5,6) unfolding process_inbound_def
    by (auto intro!: succeeds_bind tx dest: inbound_auth_Inr)
  then obtain out w' where r: "process_inbound L sha server_id token msg v w = (Inr out, w')"
    by (auto simp: succeeds_def)
  from process_inbound_spec [OF r] assms(7) have
    "inbound_spec L (uuid_text v) server_id (is_default_thread_model server) msg (db w) out (db w')" by simp
  with r show ?thesis
    by (intro exI [of _ out] exI [of _ w']) (cases out, auto simp: inbound_spec_def)
qed

text \<open>A relay may redeliver.  After a message with a message id was routed, every later delivery of it
  that returns an outcome, through any server, returns \<open>Duplicate\<close> with the row stored first, and writes
  nothing.\<close>

lemma inbound_redelivery:
  assumes "process_inbound L sha server_id token msg v w = (Inr (Routed i model res), w1)"
    and "im_message_id msg = Some mid" and "db w2 = db w1" and "im_message_id msg' = Some mid"
    and "process_inbound L' sha' server_id' token' msg' v' w2 = (Inr out, w3)"
  shows "out = Duplicate i \<and> db w3 = db w2"
proof -
  have "known msg (db w1) = Some i"
    using process_inbound_spec [OF assms(1)] assms(2)
    by (auto simp: inbound_spec_def dest: known_after)
  moreover have "known msg' d = known msg d" for d using assms(2,4) by (simp add: known_def)
  ultimately have k: "known msg' (db w2) = Some i" using assms(3) by simp
  from process_inbound_spec [OF assms(5)] obtain dflt where
    "inbound_spec L' (uuid_text v') server_id' dflt msg' (db w2) out (db w3)" by blast
  with k show ?thesis by (cases out) (simp_all add: inbound_spec_def)
qed

text \<open>The lost race.  When a rival has stored the same message id between the probe and the insert, the
  insert fails on the unique index and the service looks the winner up on the same transaction, which
  PostgreSQL refuses after a failed statement: the outcome is a database error, never \<open>Duplicate\<close>.\<close>

lemma inbound_race_errs:
  assumes "quiet v" and "\<not> aborted w" and "im_message_id msg = Some mid"
    and "r \<in> set (messages (db w))" and "msg_message_id r = Some mid"
  shows "fst (inbound_store server_id msg model res v w) = Inl (InDb TxAborted)"
proof -
  have "pg_enum_cast MailMessageType_show MailMessageType_from_str ''email'' = Some MailMessageType.Email"
    by code_simp
  moreover have "list_ex (\<lambda>q. msg_message_id q = Some mid) (messages (db w))"
    using assms(4,5) by (auto simp: list_ex_iff)
  ultimately have "\<exists>c. insert_mail_message (inbound_row i msg model res) now (db w) = Inl (UniqueViolation c)"
    for i now using assms(3) by (auto simp: insert_mail_message_def inbound_row_def)
  then obtain c where "insert_mail_message (inbound_row (rng v (tick w)) msg model res) (tx_start w) (db w) =
      Inl (UniqueViolation c)" by blast
  with assms(1-3) show ?thesis
    by (simp add: inbound_store_def bindA_def new_v4_def attempt_def stmt_now_def stmt_def lift_def
        unique_violation_def quiet_def)
qed

section \<open>Invariants of the gateway\<close>

definition message_ids_unique :: "db \<Rightarrow> bool" where
  "message_ids_unique d \<longleftrightarrow> distinct (List.map_filter msg_message_id (messages d))"

locale gateway_invariant = post_invariant +
  assumes touch: "touch_server_success server_id at d = Inr (u, d') \<Longrightarrow> I d \<Longrightarrow> I d'"
begin

lemma keeps_route_aliases: "keeps I (route_aliases L dflt addrs)"
  by (induction addrs)
    (auto simp: alias_step_def alias_hop_def alias_model_def intro!: keeps_intros split: prod.splits)

lemma keeps_store: "keeps I (inbound_store server_id msg m res)"
  unfolding inbound_store_def stage_routed_def
  by (intro keeps_intros keeps_bus keeps_message keeps_stmt) (erule (1) touch)

lemma keeps_inbound: "keeps I (process_inbound L sha server_id token msg)"
  unfolding process_inbound_def inbound_auth_def process_in_tx_def process_fresh_def process_allowed_def
    dedup_probe_def route_def stage_rejected_def stage_dropped_def
  by (intro keeps_intros keeps_bus keeps_store keeps_route_aliases)

end

lemma schema_ok_touch:
  "touch_server_success server_id at d = Inr (u, d') \<Longrightarrow> schema_ok d \<Longrightarrow> schema_ok d'"
  by (auto simp: touch_server_success_def schema_ok_def)

interpretation gateway_schema: gateway_invariant schema_ok
  by unfold_locales (rule schema_ok_touch)

lemma map_filter_append1: "List.map_filter f (xs @ [x]) =
    List.map_filter f xs @ (case f x of None \<Rightarrow> [] | Some y \<Rightarrow> [y])"
  by (simp add: map_filter_def split: option.splits)

lemma message_ids_unique_same:
  "messages d' = messages d \<Longrightarrow> message_ids_unique d' \<longleftrightarrow> message_ids_unique d"
  by (simp add: message_ids_unique_def)

lemma message_ids_unique_insert:
  assumes "insert_mail_message m now d = Inr (u, d')" and "message_ids_unique d"
  shows "message_ids_unique d'"
proof -
  from assms(1) have "\<exists>r. messages d' = messages d @ [r] \<and>
      (\<forall>i. msg_message_id r = Some i \<longrightarrow> (\<forall>q\<in>set (messages d). msg_message_id q \<noteq> Some i))"
    by (auto simp: insert_mail_message_def list_ex_iff split: option.splits if_splits)
  then obtain r where "messages d' = messages d @ [r]"
    "\<And>i. msg_message_id r = Some i \<Longrightarrow> \<forall>q\<in>set (messages d). msg_message_id q \<noteq> Some i" by blast
  with assms(2) show ?thesis
    by (auto simp: message_ids_unique_def map_filter_append1 map_filter_def split: option.splits)
qed

interpretation dedup: gateway_invariant message_ids_unique
proof unfold_locales
  show "message_ids_unique (d\<lparr>outbox := o'\<rparr>)" if "message_ids_unique d" for d o'
    using that by (simp add: message_ids_unique_def)
  show "message_ids_unique d'" if "insert_mail_message m now d = Inr (u, d')" "message_ids_unique d"
    for m now d u d' using that by (rule message_ids_unique_insert)
  show "message_ids_unique d'" if "insert_mail_notification n now d = Inr (i, d')" "message_ids_unique d"
    for n now d i d' using that by (elim insert_mail_notification_Inr) (simp add: message_ids_unique_def)
  show "message_ids_unique d'" if "insert_mail q d = Inr (j, d')" "message_ids_unique d"
    for q d j d' using that by (elim insert_mail_Inr) (simp add: message_ids_unique_def)
  show "message_ids_unique d'" if "insert_sms s now d = Inr (u, d')" "message_ids_unique d"
    for s now d u d' using that by (elim insert_sms_Inr) (simp add: message_ids_unique_def)
  show "message_ids_unique d'" if "insert_tracker s d = Inr (u, d')" "message_ids_unique d"
    for s d u d'
    using that by (auto simp: insert_tracker_def message_ids_unique_def split: if_splits)
  show "message_ids_unique d'" if "touch_server_success i at d = Inr (u, d')" "message_ids_unique d"
    for i at d u d' using that by (auto simp: touch_server_success_def message_ids_unique_def)
qed

text \<open>Posting a message and receiving one both keep the message ids of the store distinct, in every run,
  and the keys and references of the schema.\<close>

lemma message_ids_invariant:
  "keeps message_ids_unique (process_inbound L sha server_id token msg) \<and>
   keeps message_ids_unique (message_post cmd) \<and>
   keeps schema_ok (process_inbound L sha server_id token msg)"
  using dedup.keeps_inbound dedup.keeps_post gateway_schema.keeps_inbound by blast

section \<open>The properties at concrete inputs\<close>

definition sample_inbound :: InboundMessage where
  "sample_inbound = \<lparr>im_message_id = Some ''<1@c.d>'', im_from = ''Ann@C.d'', im_to = [''x'', ''Sales@b.e''],
     im_subject = None, im_body_html = ''hi'', im_in_reply_to = Some ''<0@c.d>''\<rparr>"

definition gateway_server :: fetchmail_server_row where
  "gateway_server = \<lparr>fms_id = 1, fms_active = True, fms_state = FetchmailState.Done,
     fms_token_hash = hex_of [171], fms_default_thread_model = Some ''crm.lead'',
     fms_last_fetch_at = None, fms_error_at = None, fms_error_message = None, fms_deleted = False\<rparr>"

definition gateway_db :: db where
  "gateway_db = empty_db\<lparr>fetchmail_servers := [gateway_server],
     gateway_allowed := [\<lparr>gwa_server_id = None, gwa_pattern = ''@c.d'', gwa_active = True, gwa_deleted = False\<rparr>],
     alias_domains := [\<lparr>ald_id = 5, ald_name = ''B.e'', ald_deleted = False\<rparr>],
     aliases := [\<lparr>als_id = 6, als_name = Some ''sales'', als_domain_id = Some 5,
       als_contact = MailAliasContact.Everyone, als_model_id = None, als_parent_model_id = None,
       als_parent_thread_id = Some 7, als_user_id = None, als_defaults = None,
       als_force_thread_id = None, als_reply_to_address = None, als_deleted = False\<rparr>]\<rparr>"

definition sample_sha :: "string \<Rightarrow> bytes" where
  "sample_sha s = (if s = ''token'' then [171] else [0])"

definition deliver :: "InboundMessage \<Rightarrow> (db, nat) world \<Rightarrow> (MailInboundError + InboundOutcome) \<times> (db, nat) world" where
  "deliver msg w = process_inbound to_ascii_lowercase sample_sha 1 ''token'' msg plain_env w"

definition first_delivery :: "(MailInboundError + InboundOutcome) \<times> (db, nat) world" where
  "first_delivery = deliver sample_inbound (world_of gateway_db)"

lemma first_delivery_Inr: "fst first_delivery = Inr (Routed 29 (Some ''crm.lead'') (Some 7))"
  by code_simp

lemma deliver_run: "deliver msg w = (r, w') \<Longrightarrow>
    process_inbound to_ascii_lowercase sample_sha 1 ''token'' msg plain_env w = (r, w')"
  by (simp add: deliver_def)

lemma first_delivery_run:
  "process_inbound to_ascii_lowercase sample_sha 1 ''token'' sample_inbound plain_env (world_of gateway_db) =
     (Inr (Routed 29 (Some ''crm.lead'') (Some 7)), snd first_delivery)"
  using first_delivery_Inr by (metis deliver_def first_delivery_def prod.collapse)

lemma inbound_auth_closed_witness:
  "process_inbound to_ascii_lowercase sample_sha 1 ''wrong'' sample_inbound plain_env (world_of gateway_db :: (db, nat) world) =
   process_inbound to_ascii_lowercase sample_sha 9 ''token'' sample_inbound plain_env (world_of gateway_db)"
proof -
  have "\<not> authorised sample_sha gateway_db 1 ''wrong''" by code_simp
  moreover have "\<not> authorised sample_sha gateway_db 9 ''token''" by code_simp
  ultimately show ?thesis
    using inbound_auth_closed [of sample_sha "world_of gateway_db :: (db, nat) world" 1 "''wrong''" 9 "''token''"]
    by (simp add: world_of_def)
qed

lemma inbound_outcomes_witness:
  "\<exists>server. find_server 1 gateway_db = Some server \<and>
     inbound_spec to_ascii_lowercase (uuid_text plain_env) 1 (is_default_thread_model server) sample_inbound
       gateway_db (Routed 29 (Some ''crm.lead'') (Some 7)) (db (snd first_delivery))"
  using inbound_outcomes [OF first_delivery_run] by (simp add: world_of_def)

definition second_delivery :: "(MailInboundError + InboundOutcome) \<times> (db, nat) world" where
  "second_delivery = deliver sample_inbound (snd first_delivery)"

lemma inbound_redelivery_witness: "fst second_delivery = Inr (Duplicate 29)"
proof -
  have "\<not> isl (fst second_delivery)" by code_simp
  then have r: "process_inbound to_ascii_lowercase sample_sha 1 ''token'' sample_inbound plain_env (snd first_delivery) =
      (Inr (projr (fst second_delivery)), snd second_delivery)"
    by (cases second_delivery) (auto simp: second_delivery_def deliver_def isl_def)
  have "im_message_id sample_inbound = Some ''<1@c.d>''" by (simp add: sample_inbound_def)
  from inbound_redelivery [OF first_delivery_run this refl this r]
  have "projr (fst second_delivery) = Duplicate 29" by simp
  with r show ?thesis by (metis deliver_def fst_conv second_delivery_def)
qed

lemma inbound_race_errs_witness:
  "fst (inbound_store 1 sample_inbound ''crm.lead'' (Some 7) plain_env (snd first_delivery)) = Inl (InDb TxAborted)"
proof -
  have "\<exists>r\<in>set (messages (db (snd first_delivery))). msg_message_id r = Some ''<1@c.d>''" by code_simp
  then obtain r where "r \<in> set (messages (db (snd first_delivery)))" "msg_message_id r = Some ''<1@c.d>''" by blast
  moreover have "\<not> aborted (snd first_delivery)" by code_simp
  ultimately show ?thesis
    by (intro inbound_race_errs) (simp_all add: quiet_def plain_env_def sample_inbound_def)
qed

lemma inbound_total_witness:
  "\<exists>out w'. process_inbound to_ascii_lowercase sample_sha 1 ''token'' sample_inbound plain_env
     (world_of gateway_db :: (db, nat) world) = (Inr out, w')"
proof -
  have s: "find_server 1 gateway_db = Some (the (find_server 1 gateway_db))" by code_simp
  have a: "authorised sample_sha gateway_db 1 ''token''" by code_simp
  have b: "\<not> blank (im_from sample_inbound)" by code_simp
  have "quiet plain_env" "\<forall>n. rng plain_env n \<notin> set (message_ids gateway_db)" "im_to sample_inbound \<noteq> []"
    by (simp_all add: quiet_def plain_env_def gateway_db_def empty_db_def message_ids_def sample_inbound_def)
  with s a b inbound_total [of plain_env "world_of gateway_db :: (db, nat) world" sample_sha 1 "''token''" sample_inbound]
  show ?thesis by (simp add: world_of_def) blast
qed

end
