(* ===== verification/Acl.thy ===== *)
theory Acl
  imports Store
begin

text \<open>
  Who may read and post: \<open>src/application/service/chatter_acl.rs\<close>.  A resolver decides from the identity,
  the thread and, through its pool argument, the database; the host's own resolver is a parameter.
  The locale \<open>closed_resolver\<close> is the contract of the resolvers the module ships: they open a partner's
  own wall and the listed public models, to partners only.
\<close>

datatype MessagingIdentity = User uuid | Guest uuid

fun identity_channel :: "(uuid \<Rightarrow> string) \<Rightarrow> MessagingIdentity \<Rightarrow> string" where
  "identity_channel U (User p) = partner_channel U p"
| "identity_channel U (Guest g) = guest_channel U g"

fun identity_partner_id :: "MessagingIdentity \<Rightarrow> uuid option" where
  "identity_partner_id (User p) = Some p"
| "identity_partner_id (Guest g) = None"

fun identity_guest_id :: "MessagingIdentity \<Rightarrow> uuid option" where
  "identity_guest_id (Guest g) = Some g"
| "identity_guest_id (User p) = None"

record ThreadAccessResolver =
  can_read :: "db \<Rightarrow> MessagingIdentity \<Rightarrow> string \<Rightarrow> uuid \<Rightarrow> bool"
  can_post :: "db \<Rightarrow> MessagingIdentity \<Rightarrow> string \<Rightarrow> uuid \<Rightarrow> bool"

definition is_own_partner_wall :: "MessagingIdentity \<Rightarrow> string \<Rightarrow> uuid \<Rightarrow> bool" where
  "is_own_partner_wall identity model res_id \<longleftrightarrow>
     model = ''res.partner'' \<and> identity_partner_id identity = Some res_id"

definition DenyHostDocs :: ThreadAccessResolver where
  "DenyHostDocs = \<lparr>can_read = (\<lambda>_. is_own_partner_wall), can_post = (\<lambda>_. is_own_partner_wall)\<rparr>"

definition static_allows :: "string list \<Rightarrow> MessagingIdentity \<Rightarrow> string \<Rightarrow> uuid \<Rightarrow> bool" where
  "static_allows open_models identity model res_id \<longleftrightarrow>
     is_own_partner_wall identity model res_id \<or>
     list_ex (\<lambda>m. m = model) open_models \<and> identity_partner_id identity \<noteq> None"

definition StaticThreadAccess :: "string list \<Rightarrow> ThreadAccessResolver" where
  "StaticThreadAccess open_models =
     \<lparr>can_read = (\<lambda>_. static_allows open_models), can_post = (\<lambda>_. static_allows open_models)\<rparr>"

text \<open>The slot is an \<open>RwLock\<close>; a poisoned lock is recovered, so poisoning changes no answer.\<close>

record ThreadAclSlot =
  slot_inner :: ThreadAccessResolver
  slot_poisoned :: bool

definition slot_default :: ThreadAclSlot where
  "slot_default = \<lparr>slot_inner = DenyHostDocs, slot_poisoned = False\<rparr>"

definition slot_install :: "ThreadAccessResolver \<Rightarrow> ThreadAclSlot \<Rightarrow> ThreadAclSlot" where
  "slot_install resolver slot = slot\<lparr>slot_inner := resolver\<rparr>"

definition slot_current :: "ThreadAclSlot \<Rightarrow> ThreadAccessResolver" where
  "slot_current slot = slot_inner slot"

definition slot_resolver :: "ThreadAclSlot \<Rightarrow> ThreadAccessResolver" where
  "slot_resolver slot =
     \<lparr>can_read = (\<lambda>d i m r. can_read (slot_current slot) d i m r),
      can_post = (\<lambda>d i m r. can_post (slot_current slot) d i m r)\<rparr>"

section \<open>The contract of the shipped resolvers\<close>

locale closed_resolver =
  fixes R :: ThreadAccessResolver and open_to_partners :: "string \<Rightarrow> bool"
  assumes reads: "can_read R d i m r \<longleftrightarrow>
      is_own_partner_wall i m r \<or> open_to_partners m \<and> identity_partner_id i \<noteq> None"
    and posts: "can_post R d i m r \<longleftrightarrow> can_read R d i m r"
begin

lemma guest_denied: "\<not> can_read R d (Guest g) m r \<and> \<not> can_post R d (Guest g) m r"
  by (simp add: posts reads is_own_partner_wall_def)

lemma own_wall: "can_read R d (User p) ''res.partner'' p \<and> can_post R d (User p) ''res.partner'' p"
  by (simp add: posts reads is_own_partner_wall_def)

lemma closed_model:
  "\<not> open_to_partners m \<Longrightarrow> m \<noteq> ''res.partner'' \<Longrightarrow> \<not> can_read R d i m r \<and> \<not> can_post R d i m r"
  by (simp add: posts reads is_own_partner_wall_def)

lemma ignores_database: "can_read R d i m r = can_read R d' i m r \<and> can_post R d i m r = can_post R d' i m r"
  unfolding posts by (simp add: reads)

end

interpretation deny: closed_resolver DenyHostDocs "\<lambda>_. False"
  by unfold_locales (simp_all add: DenyHostDocs_def)

interpretation static: closed_resolver "StaticThreadAccess ms" "\<lambda>m. m \<in> set ms" for ms
  by unfold_locales (auto simp: StaticThreadAccess_def static_allows_def list_ex_iff)

interpretation fresh_slot: closed_resolver "slot_resolver slot_default" "\<lambda>_. False"
  by unfold_locales (simp_all add: slot_resolver_def slot_current_def slot_default_def DenyHostDocs_def)

lemma slot_install_current [simp]: "slot_resolver (slot_install R slot) = R"
  by (simp add: slot_resolver_def slot_install_def slot_current_def)

text \<open>Closed by default.  Under the default slot and under any static allowlist, a guest may neither read
  nor post on any thread, a partner may always do both on their own wall, and every other thread of a
  model that is not listed is closed to everybody; the answers never depend on the database.  Installing
  a resolver replaces the decision entirely.\<close>

lemma shipped_resolvers_closed:
  "(\<forall>ms d g m r. \<not> can_read (StaticThreadAccess ms) d (Guest g) m r \<and>
      \<not> can_post (StaticThreadAccess ms) d (Guest g) m r) \<and>
   (\<forall>ms d p. can_read (StaticThreadAccess ms) d (User p) ''res.partner'' p \<and>
      can_post (StaticThreadAccess ms) d (User p) ''res.partner'' p) \<and>
   (\<forall>d i m r. can_read (slot_resolver slot_default) d i m r \<longrightarrow> m = ''res.partner'' \<and> i = User r) \<and>
   (\<forall>d i m r. can_post (slot_resolver slot_default) d i m r \<longrightarrow> m = ''res.partner'' \<and> i = User r) \<and>
   (\<forall>ms d i m r. m \<notin> set ms \<and> m \<noteq> ''res.partner'' \<longrightarrow> \<not> can_read (StaticThreadAccess ms) d i m r) \<and>
   (\<forall>R slot. slot_resolver (slot_install R slot) = R)"
proof (intro conjI allI)
  fix d i m r
  show "can_read (slot_resolver slot_default) d i m r \<longrightarrow> m = ''res.partner'' \<and> i = User r"
    "can_post (slot_resolver slot_default) d i m r \<longrightarrow> m = ''res.partner'' \<and> i = User r"
    by (cases i; simp add: fresh_slot.posts fresh_slot.reads is_own_partner_wall_def)+
qed (use static.guest_denied static.own_wall static.closed_model in auto)

lemma shipped_resolvers_closed_witness:
  "\<not> can_read (StaticThreadAccess [''project'']) empty_db (User 1) ''crm.lead'' 2 \<and>
   can_read (StaticThreadAccess [''project'']) empty_db (User 1) ''project'' 2"
proof
  have "''crm.lead'' \<notin> set [''project''] \<and> ''crm.lead'' \<noteq> ''res.partner''" by simp
  with shipped_resolvers_closed
  show "\<not> can_read (StaticThreadAccess [''project'']) empty_db (User 1) ''crm.lead'' 2" by blast
  show "can_read (StaticThreadAccess [''project'']) empty_db (User 1) ''project'' 2" by code_simp
qed

end
