(* ===== verification/Channels.thy ===== *)
theory Channels
  imports Acl Addresses
begin

text \<open>
  Discussion channels: \<open>src/application/service/channel_write_service.rs\<close> and
  \<open>src/infrastructure/persistence/channel_repository.rs\<close>.  Each verb is one transaction; the creator of a
  channel becomes its first member in the transaction that inserts the channel.  Constraints of the
  schema: unique invitation uuids, one membership per channel and partner or guest (also counting
  removed ones), references to channels, guests and messages.
\<close>

section \<open>The repository\<close>

record NewChannelRow =
  nc_id :: uuid
  nc_name :: "string option"
  nc_channel_type :: string
  nc_uuid :: "string option"
  nc_default_access_mode :: "string option"
  nc_email_send :: bool

definition insert_channel :: "NewChannelRow \<Rightarrow> time \<Rightarrow> db \<Rightarrow> db_error + unit \<times> db" where
  "insert_channel c now d =
     (case pg_enum_cast DiscussChannelType_show DiscussChannelType_from_str (nc_channel_type c) of
        None \<Rightarrow> Inl (BadCast (nc_channel_type c))
      | Some t \<Rightarrow>
          if nc_id c \<in> set (map chn_id (channels d)) then Inl (UniqueViolation ''discuss_channels_pkey'')
          else if nc_uuid c \<noteq> None \<and> list_ex (\<lambda>r. chn_uuid r = nc_uuid c) (channels d)
            then Inl (UniqueViolation ''idx_discuss_channels_uuid'')
          else Inr ((), d\<lparr>channels := channels d @
            [\<lparr>chn_id = nc_id c, chn_name = nc_name c, chn_type = t, chn_description = None,
              chn_uuid = nc_uuid c, chn_access_mode = nc_default_access_mode c,
              chn_email_send = nc_email_send c, chn_last_message_id = None, chn_created_at = now,
              chn_deleted = False\<rparr>]\<rparr>))"

definition new_member :: "uuid \<Rightarrow> uuid \<Rightarrow> MessagingIdentity \<Rightarrow> bool \<Rightarrow> member_row" where
  "new_member i channel_id identity pinned =
     \<lparr>mbr_id = i, mbr_channel_id = channel_id, mbr_partner_id = identity_partner_id identity,
      mbr_guest_id = identity_guest_id identity, mbr_fold_state = None,
      mbr_message_unread_counter = 0, mbr_unread_counter = 0, mbr_seen_message_id = None,
      mbr_fetched_message_id = None, mbr_new_message_separator = None, mbr_last_seen_dt = None,
      mbr_mute_until_dt = None, mbr_custom_notifications = None, mbr_is_pinned = pinned,
      mbr_unpin_dt = None, mbr_deleted = False\<rparr>"

definition same_seat :: "uuid \<Rightarrow> MessagingIdentity \<Rightarrow> member_row \<Rightarrow> bool" where
  "same_seat channel_id identity r \<longleftrightarrow>
     mbr_channel_id r = channel_id \<and> mbr_partner_id r = identity_partner_id identity \<and>
     mbr_guest_id r = identity_guest_id identity"

text \<open>The two partial unique indexes on the members.\<close>

definition seat_clash :: "member_row \<Rightarrow> member_row \<Rightarrow> bool" where
  "seat_clash m r \<longleftrightarrow> mbr_channel_id r = mbr_channel_id m \<and>
     (mbr_partner_id m \<noteq> None \<and> mbr_partner_id r = mbr_partner_id m \<or>
      mbr_guest_id m \<noteq> None \<and> mbr_guest_id r = mbr_guest_id m)"

definition member_fk :: "member_row \<Rightarrow> db \<Rightarrow> db_error option" where
  "member_fk m d =
     (if mbr_channel_id m \<notin> set (map chn_id (channels d))
        then Some (ForeignKeyViolation ''fk_discuss_channel_members_channel_id'')
      else if \<not> fk_ok (map gst_id (guests d)) (mbr_guest_id m)
        then Some (ForeignKeyViolation ''fk_discuss_channel_members_guest_id'')
      else None)"

definition insert_member :: "member_row \<Rightarrow> db \<Rightarrow> db_error + unit \<times> db" where
  "insert_member m d =
     (if mbr_id m \<in> set (map mbr_id (channel_members d))
        then Inl (UniqueViolation ''discuss_channel_members_pkey'')
      else if list_ex (seat_clash m) (channel_members d)
        then Inl (UniqueViolation ''discuss_channel_member_uniq'')
      else case member_fk m d of
        Some e \<Rightarrow> Inl e
      | None \<Rightarrow> Inr ((), d\<lparr>channel_members := channel_members d @ [m]\<rparr>))"

definition insert_creator_member ::
  "uuid \<Rightarrow> MessagingIdentity \<Rightarrow> (db, 'o, db_error, uuid) act" where
  "insert_creator_member channel_id identity =
     bindA new_v4 (\<lambda>i.
     bindA (stmt (insert_member (new_member i channel_id identity True))) (\<lambda>_. ret i))"

definition live_partner :: "uuid \<Rightarrow> member_row \<Rightarrow> bool" where
  "live_partner channel_id m \<longleftrightarrow>
     mbr_channel_id m = channel_id \<and> \<not> mbr_deleted m \<and> mbr_partner_id m \<noteq> None"

definition chat_matches :: "uuid list \<Rightarrow> db \<Rightarrow> channel_row \<Rightarrow> bool" where
  "chat_matches partner_ids d c \<longleftrightarrow>
     chn_type c = DiscussChannelType.Chat \<and> \<not> chn_deleted c \<and>
     \<not> list_ex (\<lambda>m. live_partner (chn_id c) m \<and> \<not> mbr_partner_id m \<in> set (map Some partner_ids))
         (channel_members d) \<and>
     length (filter (live_partner (chn_id c)) (channel_members d)) = length partner_ids"

definition find_chat_by_member_set :: "uuid list \<Rightarrow> db \<Rightarrow> uuid option" where
  "find_chat_by_member_set partner_ids d =
     map_option chn_id
       (first_by (\<lambda>a b. chn_created_at a \<le> chn_created_at b) (filter (chat_matches partner_ids d) (channels d)))"

definition live_channel :: "uuid \<Rightarrow> channel_row \<Rightarrow> bool" where
  "live_channel channel_id c \<longleftrightarrow> chn_id c = channel_id \<and> \<not> chn_deleted c"

definition repo_channel_type :: "uuid \<Rightarrow> db \<Rightarrow> string option" where
  "repo_channel_type channel_id d =
     map_option (\<lambda>c. DiscussChannelType_show (chn_type c)) (find (live_channel channel_id) (channels d))"

definition open_to_join :: "uuid \<Rightarrow> db \<Rightarrow> bool option" where
  "open_to_join channel_id d =
     map_option (\<lambda>c. DiscussChannelType_show (chn_type c) = ''channel'' \<and> chn_access_mode c = Some ''public'')
       (find (live_channel channel_id) (channels d))"

definition coalesce :: "'a option \<Rightarrow> 'a option \<Rightarrow> 'a option" where
  "coalesce a b = (case a of Some x \<Rightarrow> Some x | None \<Rightarrow> b)"

definition update_channel_fields ::
  "uuid \<Rightarrow> string option \<Rightarrow> string option \<Rightarrow> bool option \<Rightarrow> db \<Rightarrow> db_error + unit \<times> db" where
  "update_channel_fields channel_id name description email_send d =
     Inr ((), d\<lparr>channels := map (\<lambda>c. if chn_id c = channel_id
       then c\<lparr>chn_name := coalesce name (chn_name c),
              chn_description := coalesce description (chn_description c),
              chn_email_send := (case email_send of Some b \<Rightarrow> b | None \<Rightarrow> chn_email_send c)\<rparr>
       else c) (channels d)\<rparr>)"

definition set_last_message :: "uuid \<Rightarrow> uuid \<Rightarrow> db \<Rightarrow> db_error + unit \<times> db" where
  "set_last_message channel_id message_id d =
     (if channel_id \<in> set (map chn_id (channels d)) \<and> message_id \<notin> set (map msg_id (messages d))
      then Inl (ForeignKeyViolation ''fk_discuss_channels_last_message_id'')
      else Inr ((), d\<lparr>channels := map (\<lambda>c. if chn_id c = channel_id
        then c\<lparr>chn_last_message_id := Some message_id\<rparr> else c) (channels d)\<rparr>))"

definition repo_set_message_pinned ::
  "uuid \<Rightarrow> bool \<Rightarrow> time \<Rightarrow> db \<Rightarrow> db_error + unit \<times> db" where
  "repo_set_message_pinned message_id pinned now d =
     Inr ((), d\<lparr>messages := map (\<lambda>m. if msg_id m = message_id
       then m\<lparr>msg_pinned_at := (if pinned then Some now else None)\<rparr> else m) (messages d)\<rparr>)"

definition soft_delete_channel :: "uuid \<Rightarrow> db \<Rightarrow> db_error + unit \<times> db" where
  "soft_delete_channel channel_id d =
     Inr ((), d\<lparr>channels := map (\<lambda>c. if live_channel channel_id c then c\<lparr>chn_deleted := True\<rparr> else c)
       (channels d)\<rparr>)"

section \<open>The service\<close>

datatype ChannelError = ChDb db_error | ChInvalid string | ChNotFound uuid

record CreateChannelCommand =
  cc_name :: "string option"
  cc_channel_type :: string
  cc_uuid :: "string option"
  cc_default_access_mode :: "string option"
  cc_email_send :: bool
  cc_creator :: "MessagingIdentity option"

definition must_exist :: "uuid \<Rightarrow> (db, 'o, ChannelError, unit) act" where
  "must_exist channel_id =
     bindA (lift ChDb (stmt (reading (repo_channel_type channel_id)))) (\<lambda>t.
     case t of None \<Rightarrow> fail (ChNotFound channel_id) | Some _ \<Rightarrow> ret ())"

definition stage_channel ::
  "string \<Rightarrow> uuid \<Rightarrow> string \<Rightarrow> ((uuid \<Rightarrow> string) \<Rightarrow> json) \<Rightarrow> (db, 'o, ChannelError, unit) act" where
  "stage_channel etype channel_id mtype pl =
     bindA (ask uuid_text) (\<lambda>U.
     lift ChDb (stage_bus_event etype ''DiscussChannel'' (U channel_id) (discuss_channel U channel_id)
       mtype (pl U)))"

definition channel_create_type :: "(string \<Rightarrow> string) \<Rightarrow> string \<Rightarrow> ChannelError + string" where
  "channel_create_type dbg t =
     (if t = [] \<or> t = ''channel'' then Inr ''channel''
      else if t = ''chat'' then Inr ''chat''
      else if t = ''group'' then Inr ''group''
      else Inl (ChInvalid (''unknown channel_type '' @ dbg t)))"

definition channel_create_checks :: "(string \<Rightarrow> string) \<Rightarrow> CreateChannelCommand \<Rightarrow> ChannelError + string" where
  "channel_create_checks dbg cmd =
     (case channel_create_type dbg (cc_channel_type cmd) of
        Inl e \<Rightarrow> Inl e
      | Inr t \<Rightarrow>
          if t = ''chat''
            then Inl (ChInvalid ''chats are minted via get_or_create_chat, not create (1:1 dedup)'')
          else (case cc_default_access_mode cmd of
                  None \<Rightarrow> Inr t
                | Some mode \<Rightarrow>
                    if mode = ''public'' \<or> mode = ''private'' \<or> mode = ''group'' then Inr t
                    else Inl (ChInvalid (''unknown default_access_mode '' @ dbg mode))))"

definition create_row :: "string \<Rightarrow> CreateChannelCommand \<Rightarrow> uuid \<Rightarrow> NewChannelRow" where
  "create_row t cmd i =
       \<lparr>nc_id = i, nc_name = cc_name cmd, nc_channel_type = t, nc_uuid = cc_uuid cmd,
        nc_default_access_mode = cc_default_access_mode cmd, nc_email_send = cc_email_send cmd\<rparr>"

definition channel_create_tx ::
  "string \<Rightarrow> CreateChannelCommand \<Rightarrow> (db, 'o, ChannelError, uuid) act" where
  "channel_create_tx t cmd =
     bindA new_v4 (\<lambda>i.
     bindA (lift ChDb (stmt_now (insert_channel (create_row t cmd i)))) (\<lambda>_.
     bindA (case cc_creator cmd of
              None \<Rightarrow> ret ()
            | Some creator \<Rightarrow> bindA (lift ChDb (insert_creator_member i creator)) (\<lambda>_. ret ())) (\<lambda>_.
     bindA (stage_channel ''DiscussChannelCreated'' i ''discuss.channel/insert''
       (\<lambda>U. JObject [(''channel_id'', JString (U i)), (''channel_type'', JString t),
                      (''name'', jopt JString (cc_name cmd))])) (\<lambda>_.
     ret i))))"

definition channel_create :: "CreateChannelCommand \<Rightarrow> (db, 'o, ChannelError, uuid) act" where
  "channel_create cmd =
     bindA (ask str_debug) (\<lambda>dbg.
     bindA (of_sum (channel_create_checks dbg cmd)) (\<lambda>t. in_tx ChDb (channel_create_tx t cmd)))"

definition chat_row :: "uuid \<Rightarrow> NewChannelRow" where
  "chat_row i = \<lparr>nc_id = i, nc_name = None, nc_channel_type = ''chat'', nc_uuid = None,
     nc_default_access_mode = None, nc_email_send = False\<rparr>"

definition chat_mint :: "uuid \<Rightarrow> uuid \<Rightarrow> (db, 'o, ChannelError, uuid \<times> bool) act" where
  "chat_mint partner_a partner_b =
     bindA new_v4 (\<lambda>i.
     bindA (lift ChDb (stmt_now (insert_channel (chat_row i)))) (\<lambda>_.
     bindA (lift ChDb (insert_creator_member i (User partner_a))) (\<lambda>_.
     bindA (lift ChDb (insert_creator_member i (User partner_b))) (\<lambda>_.
     bindA (stage_channel ''DiscussChannelCreated'' i ''discuss.channel/insert''
       (\<lambda>U. JObject [(''channel_id'', JString (U i)), (''channel_type'', JString ''chat''),
                      (''members'', JArray [JString (U partner_a), JString (U partner_b)])])) (\<lambda>_.
     ret (i, True))))))"

definition get_or_create_chat :: "uuid \<Rightarrow> uuid \<Rightarrow> (db, 'o, ChannelError, uuid \<times> bool) act" where
  "get_or_create_chat partner_a partner_b =
     (if partner_a = partner_b
      then fail (ChInvalid
        ''a 1:1 chat needs two distinct partners (Odoo allows self-chat via a different path; not ported)'')
      else
        bindA (in_tx ChDb (lift ChDb (stmt (reading (find_chat_by_member_set [partner_a, partner_b]))))) (\<lambda>f.
        case f of
          Some i \<Rightarrow> ret (i, False)
        | None \<Rightarrow>
            in_tx ChDb (
              bindA (lift ChDb (stmt (reading (find_chat_by_member_set [partner_a, partner_b])))) (\<lambda>f.
              case f of Some i \<Rightarrow> ret (i, False) | None \<Rightarrow> chat_mint partner_a partner_b))))"

definition update_fields ::
  "uuid \<Rightarrow> string option \<Rightarrow> string option \<Rightarrow> bool option \<Rightarrow> (db, 'o, ChannelError, unit) act" where
  "update_fields channel_id name description email_send =
     (if name = None \<and> description = None \<and> email_send = None then fail (ChInvalid ''nothing to update'')
      else in_tx ChDb (
        bindA (must_exist channel_id) (\<lambda>_.
        bindA (lift ChDb (stmt (update_channel_fields channel_id name description email_send))) (\<lambda>_.
        stage_channel ''DiscussChannelUpdated'' channel_id ''discuss.channel/update''
          (\<lambda>U. JObject [(''channel_id'', JString (U channel_id)), (''name'', jopt JString name),
                         (''description'', jopt JString description),
                         (''email_send'', jopt JBool email_send)])))))"

definition message_edge :: "uuid \<Rightarrow> db \<Rightarrow> (string option \<times> uuid option) option" where
  "message_edge message_id d =
     map_option (\<lambda>m. (msg_model m, msg_res_id m)) (find (\<lambda>m. msg_id m = message_id) (messages d))"

definition stage_pin :: "uuid \<Rightarrow> uuid \<Rightarrow> bool \<Rightarrow> (db, 'o, ChannelError, unit) act" where
  "stage_pin channel_id message_id pinned =
     bindA (ask uuid_text) (\<lambda>U.
     lift ChDb (stage_bus_event ''MessagePinnedChanged'' ''MailMessage'' (U message_id)
       (discuss_channel U channel_id) (if pinned then ''mail.message/pin'' else ''mail.message/unpin'')
       (JObject [(''channel_id'', JString (U channel_id)), (''message_id'', JString (U message_id)),
                 (''pinned'', JBool pinned)])))"

definition set_message_pinned :: "uuid \<Rightarrow> uuid \<Rightarrow> bool \<Rightarrow> (db, 'o, ChannelError, unit) act" where
  "set_message_pinned channel_id message_id pinned =
     in_tx ChDb (
       bindA (must_exist channel_id) (\<lambda>_.
       bindA (lift ChDb (stmt (reading (message_edge message_id)))) (\<lambda>owner.
       if owner = Some (Some ''discuss.channel'', Some channel_id)
       then
         bindA (lift ChDb (stmt_now (repo_set_message_pinned message_id pinned))) (\<lambda>_.
         stage_pin channel_id message_id pinned)
       else
         bindA (ask uuid_text) (\<lambda>U.
         fail (ChInvalid (''message '' @ U message_id @ '' does not belong to channel '' @ U channel_id))))))"

definition channel_archive :: "uuid \<Rightarrow> (db, 'o, ChannelError, unit) act" where
  "channel_archive channel_id =
     in_tx ChDb (
       bindA (must_exist channel_id) (\<lambda>_.
       bindA (lift ChDb (stmt (soft_delete_channel channel_id))) (\<lambda>_.
       stage_channel ''DiscussChannelDeleted'' channel_id ''discuss.channel/delete''
         (\<lambda>U. JObject [(''channel_id'', JString (U channel_id))]))))"

section \<open>Invariants of the channel tables\<close>

definition channel_key :: "channel_row \<Rightarrow> uuid \<times> DiscussChannelType \<times> string option" where
  "channel_key c = (chn_id c, chn_type c, chn_uuid c)"

definition seat_key :: "member_row \<Rightarrow> uuid \<times> uuid \<times> uuid option \<times> uuid option" where
  "seat_key m = (mbr_id m, mbr_channel_id m, mbr_partner_id m, mbr_guest_id m)"

definition message_key ::
  "mail_message_row \<Rightarrow> uuid \<times> string option \<times> string option \<times> uuid option \<times> time" where
  "message_key m = (msg_id m, msg_message_id m, msg_model m, msg_res_id m, msg_date m)"

text \<open>What an invariant has to satisfy for the channel and the member verbs to keep it: the verbs insert
  channels and members, and otherwise only change columns outside the keys.\<close>

locale channel_invariant =
  fixes I :: "db \<Rightarrow> bool"
  assumes outbox_kept: "I d \<Longrightarrow> I (d\<lparr>outbox := o'\<rparr>)"
    and channels_kept: "I d \<Longrightarrow> map channel_key cs = map channel_key (channels d) \<Longrightarrow> I (d\<lparr>channels := cs\<rparr>)"
    and members_kept: "I d \<Longrightarrow> map seat_key ms = map seat_key (channel_members d) \<Longrightarrow> I (d\<lparr>channel_members := ms\<rparr>)"
    and messages_kept: "I d \<Longrightarrow> map message_key qs = map message_key (messages d) \<Longrightarrow> I (d\<lparr>messages := qs\<rparr>)"
    and channel_insert: "insert_channel c now d = Inr (u, d') \<Longrightarrow> I d \<Longrightarrow> I d'"
    and member_insert: "insert_member (new_member k h i p) d = Inr (u, d') \<Longrightarrow> I d \<Longrightarrow> I d'"
begin

lemma keeps_insert_channel: "keeps I (stmt_now (insert_channel c))"
  by (rule keeps_stmt_now) (erule (1) channel_insert [rotated])

lemma keeps_insert_member: "keeps I (stmt (insert_member (new_member k c i p)))"
  by (rule keeps_stmt) (erule (1) member_insert [rotated])

lemma keeps_creator: "keeps I (insert_creator_member i c)"
  unfolding insert_creator_member_def by (intro keeps_intros keeps_insert_member)

lemma keeps_channel_event: "keeps I (stage_bus_event a b c x f g)"
  by (rule keeps_stage_bus_event) (rule outbox_kept)

lemma keeps_stage_channel: "keeps I (stage_channel a b c g)"
  unfolding stage_channel_def by (intro keeps_intros keeps_channel_event)

lemma keeps_channel_update: "keeps I (stmt (update_channel_fields i n x e))"
  by (rule keeps_stmt) (auto simp: update_channel_fields_def channel_key_def intro!: channels_kept)

lemma keeps_channel_delete: "keeps I (stmt (soft_delete_channel i))"
  by (rule keeps_stmt) (auto simp: soft_delete_channel_def channel_key_def intro!: channels_kept)

lemma keeps_pin: "keeps I (stmt_now (repo_set_message_pinned i b))"
  by (rule keeps_stmt_now) (auto simp: repo_set_message_pinned_def message_key_def intro!: messages_kept)

lemma keeps_channel_verbs:
  "keeps I (channel_create cmd)" "keeps I (get_or_create_chat a b)" "keeps I (update_fields i n x e)"
  "keeps I (set_message_pinned i j p)" "keeps I (channel_archive i)"
  unfolding channel_create_def channel_create_tx_def get_or_create_chat_def chat_mint_def update_fields_def
    set_message_pinned_def channel_archive_def must_exist_def stage_pin_def
  by (intro keeps_intros keeps_insert_channel keeps_creator keeps_stage_channel keeps_channel_update
      keeps_channel_delete keeps_pin keeps_channel_event)+

end

lemma insert_channel_Inr:
  assumes "insert_channel c now d = Inr (u, d')"
  obtains r where "d' = d\<lparr>channels := channels d @ [r]\<rparr>" and "chn_id r = nc_id c"
    and "chn_name r = nc_name c" and "DiscussChannelType_show (chn_type r) = nc_channel_type c"
    and "chn_uuid r = nc_uuid c" and "chn_access_mode r = nc_default_access_mode c"
    and "\<not> chn_deleted r" and "nc_id c \<notin> set (map chn_id (channels d))"
    and "\<forall>s q. nc_uuid c = Some s \<and> q \<in> set (channels d) \<longrightarrow> chn_uuid q \<noteq> Some s"
proof -
  from assms obtain t where
    t: "pg_enum_cast DiscussChannelType_show DiscussChannelType_from_str (nc_channel_type c) = Some t"
    by (auto simp: insert_channel_def split: option.splits)
  then have "DiscussChannelType_show t = nc_channel_type c" by (simp add: discuss_channel_type.cast_iff)
  with assms t show ?thesis
    by (intro that) (auto simp: insert_channel_def list_ex_iff split: if_splits)
qed

lemma insert_member_Inr:
  assumes "insert_member m d = Inr (u, d')"
  shows "d' = d\<lparr>channel_members := channel_members d @ [m]\<rparr> \<and> mbr_id m \<notin> set (map mbr_id (channel_members d)) \<and>
    (\<forall>r\<in>set (channel_members d). \<not> seat_clash m r) \<and> mbr_channel_id m \<in> set (map chn_id (channels d)) \<and>
    fk_ok (map gst_id (guests d)) (mbr_guest_id m)"
  using assms
  by (auto simp: insert_member_def member_fk_def list_ex_iff split: option.splits if_splits)

text \<open>\<open>channel_schema\<close>: the keys, unique indexes and references of the two tables.\<close>

definition partner_seats :: "member_row list \<Rightarrow> (uuid \<times> uuid option) list" where
  "partner_seats ms = map (\<lambda>m. (mbr_channel_id m, mbr_partner_id m)) (filter (\<lambda>m. mbr_partner_id m \<noteq> None) ms)"

definition guest_seats :: "member_row list \<Rightarrow> (uuid \<times> uuid option) list" where
  "guest_seats ms = map (\<lambda>m. (mbr_channel_id m, mbr_guest_id m)) (filter (\<lambda>m. mbr_guest_id m \<noteq> None) ms)"

definition channel_schema :: "db \<Rightarrow> bool" where
  "channel_schema d \<longleftrightarrow>
     distinct (map chn_id (channels d)) \<and> distinct (map mbr_id (channel_members d)) \<and>
     distinct (partner_seats (channel_members d)) \<and> distinct (guest_seats (channel_members d)) \<and>
     (\<forall>m\<in>set (channel_members d). mbr_channel_id m \<in> set (map chn_id (channels d)) \<and>
        fk_ok (map gst_id (guests d)) (mbr_guest_id m)) \<and>
     (\<forall>m\<in>set (channel_members d). (mbr_partner_id m = None) \<noteq> (mbr_guest_id m = None))"

lemma seat_key_cong:
  assumes "map seat_key ms = map seat_key ms'"
  shows "map mbr_id ms = map mbr_id ms'" "partner_seats ms = partner_seats ms'" "guest_seats ms = guest_seats ms'"
    "(\<forall>m\<in>set ms. P (mbr_channel_id m) (mbr_partner_id m) (mbr_guest_id m)) =
     (\<forall>m\<in>set ms'. P (mbr_channel_id m) (mbr_partner_id m) (mbr_guest_id m))"
proof -
  show "map mbr_id ms = map mbr_id ms'"
    using arg_cong [OF assms, of "map fst"] by (simp add: comp_def seat_key_def)
  have "partner_seats xs = map (\<lambda>(_, c, p, _). (c, p)) (filter (\<lambda>(_, _, p, _). p \<noteq> None) (map seat_key xs))" for xs
    by (simp add: partner_seats_def filter_map comp_def seat_key_def)
  with assms show "partner_seats ms = partner_seats ms'" by simp
  have "guest_seats xs = map (\<lambda>(_, c, _, g). (c, g)) (filter (\<lambda>(_, _, _, g). g \<noteq> None) (map seat_key xs))" for xs
    by (simp add: guest_seats_def filter_map comp_def seat_key_def)
  with assms show "guest_seats ms = guest_seats ms'" by simp
  show "(\<forall>m\<in>set ms. P (mbr_channel_id m) (mbr_partner_id m) (mbr_guest_id m)) =
     (\<forall>m\<in>set ms'. P (mbr_channel_id m) (mbr_partner_id m) (mbr_guest_id m))"
    using map_eq_Ball [OF assms, of "\<lambda>(_, c, q, g). P c q g"] by (simp add: seat_key_def)
qed

lemma channel_schema_insert_member:
  assumes "insert_member m d = Inr (u, d')" and "channel_schema d"
    and "(mbr_partner_id m = None) \<noteq> (mbr_guest_id m = None)"
  shows "channel_schema d'"
proof -
  note i = insert_member_Inr [OF assms(1)]
  have "(mbr_channel_id m, mbr_partner_id m) \<notin> set (partner_seats (channel_members d))" if "mbr_partner_id m \<noteq> None"
    using i that by (auto simp: partner_seats_def seat_clash_def)
  moreover have "(mbr_channel_id m, mbr_guest_id m) \<notin> set (guest_seats (channel_members d))" if "mbr_guest_id m \<noteq> None"
    using i that by (auto simp: guest_seats_def seat_clash_def)
  ultimately show ?thesis using assms(2,3) i
    by (auto simp: channel_schema_def partner_seats_def guest_seats_def)
qed

interpretation channel_schema: channel_invariant channel_schema
proof unfold_locales
  show "channel_schema (d\<lparr>channels := cs\<rparr>)"
    if "channel_schema d" "map channel_key cs = map channel_key (channels d)" for d cs
  proof -
    have "map chn_id cs = map chn_id (channels d)"
      using arg_cong [OF that(2), of "map fst"] by (simp add: comp_def channel_key_def)
    with that(1) show ?thesis by (simp add: channel_schema_def flip: set_map)
  qed
  show "channel_schema (d\<lparr>channel_members := ms\<rparr>)"
    if "channel_schema d" "map seat_key ms = map seat_key (channel_members d)" for d ms
    using that(1) seat_key_cong(1-3) [OF that(2)]
      seat_key_cong(4) [OF that(2), of "\<lambda>c q g. c \<in> chn_id ` set (channels d) \<and> fk_ok (map gst_id (guests d)) g"]
      seat_key_cong(4) [OF that(2), of "\<lambda>c q g. (q = None) \<noteq> (g = None)"]
    by (simp add: channel_schema_def)
  show "channel_schema d'" if "insert_channel c now d = Inr (u, d')" "channel_schema d" for c now d u d'
    using that by (elim insert_channel_Inr) (auto simp: channel_schema_def)
  show "channel_schema d'" if "insert_member (new_member k c i p) d = Inr (u, d')" "channel_schema d" for k c i p d u d'
    using that by (rule channel_schema_insert_member) (cases i; simp add: new_member_def)
qed (simp_all add: channel_schema_def)

text \<open>\<open>types_extend d0 d\<close>: every channel of \<open>d0\<close> is still there, with its type.\<close>

definition types_extend :: "db \<Rightarrow> db \<Rightarrow> bool" where
  "types_extend d0 d \<longleftrightarrow> (\<forall>c\<in>set (channels d0). \<exists>c'\<in>set (channels d). chn_id c' = chn_id c \<and> chn_type c' = chn_type c)"

interpretation fixed_types: channel_invariant "types_extend d0" for d0
proof unfold_locales
  show "types_extend d0 (d\<lparr>channels := cs\<rparr>)"
    if "types_extend d0 d" "map channel_key cs = map channel_key (channels d)" for d cs
  proof -
    have "(chn_id c, chn_type c) \<in> (\<lambda>(i, t, _). (i, t)) ` set (map channel_key cs)" if "c \<in> set (channels d)" for c
      using that unfolding \<open>map channel_key cs = map channel_key (channels d)\<close>
      by (force simp: channel_key_def image_iff)
    with \<open>types_extend d0 d\<close> show ?thesis by (force simp: types_extend_def channel_key_def)
  qed
  show "types_extend d0 d'" if "insert_channel c now d = Inr (u, d')" "types_extend d0 d" for c now d u d'
    using that by (elim insert_channel_Inr) (auto simp: types_extend_def)
  show "types_extend d0 d'" if "insert_member (new_member k c i p) d = Inr (u, d')" "types_extend d0 d" for k c i p d u d'
    using that by (auto simp: types_extend_def dest!: insert_member_Inr)
qed (auto simp: types_extend_def)

text \<open>The channel verbs keep the keys, unique seats and references of channels and members in every run,
  and no verb ever changes the type of a channel or loses one.\<close>

lemma channel_verbs_invariant:
  "keeps channel_schema (channel_create cmd) \<and> keeps channel_schema (get_or_create_chat a b) \<and>
   keeps channel_schema (update_fields i n x e) \<and> keeps channel_schema (set_message_pinned i j p) \<and>
   keeps channel_schema (channel_archive i) \<and>
   keeps (types_extend d0) (channel_create cmd) \<and> keeps (types_extend d0) (get_or_create_chat a b) \<and>
   keeps (types_extend d0) (update_fields i n x e) \<and> keeps (types_extend d0) (set_message_pinned i j p) \<and>
   keeps (types_extend d0) (channel_archive i)"
  by (intro conjI channel_schema.keeps_channel_verbs fixed_types.keeps_channel_verbs)

section \<open>Chats\<close>

lemma insert_creator_member_Inr:
  assumes "insert_creator_member c i v w = (Inr j, w')"
  shows "tx_step w w' \<and> insert_member (new_member j c i True) (db w) = Inr ((), db w')"
  using assms unfolding insert_creator_member_def
  by (elim bindA_InrE new_v4_InrE stmt_InrE ret_InrE) (auto intro: tx_step_trans)

lemma stage_channel_Inr:
  assumes "stage_channel et i mt pl v w = (Inr u, w')"
  shows "\<exists>ev. db w' = (db w)\<lparr>outbox := outbox (db w) @ [ev]\<rparr> \<and> tx_step w w' \<and> event_type ev = et \<and>
    event_channel ev = Some (discuss_channel (uuid_text v) i)"
  using assms by (auto simp: stage_channel_def bindA_ask elim!: lift_InrE stage_bus_event_InrE)

definition chat_room :: "uuid \<Rightarrow> channel_row \<Rightarrow> bool" where
  "chat_room i c \<longleftrightarrow> chn_id c = i \<and> chn_type c = DiscussChannelType.Chat \<and> \<not> chn_deleted c"

lemma insert_chat_Inr:
  assumes "insert_channel (chat_row i) now d = Inr (u, d')"
  shows "\<exists>c. d' = d\<lparr>channels := channels d @ [c]\<rparr> \<and> chat_room i c \<and> i \<notin> set (map chn_id (channels d))"
proof -
  from assms obtain c where c: "d' = d\<lparr>channels := channels d @ [c]\<rparr>" "chn_id c = nc_id (chat_row i)"
    "DiscussChannelType_show (chn_type c) = nc_channel_type (chat_row i)" "\<not> chn_deleted c"
    "nc_id (chat_row i) \<notin> set (map chn_id (channels d))"
    by (rule insert_channel_Inr)
  note c = this [unfolded chat_row_def NewChannelRow.simps]
  from c(3) have "chn_type c = DiscussChannelType.Chat" by (cases "chn_type c") simp_all
  with c(2,4) have "chat_room i c" by (simp add: chat_room_def)
  with c(1,5) show ?thesis by blast
qed

lemma chat_mint_Inr:
  assumes "chat_mint a b v w = (Inr r, w')"
  shows "\<exists>i c j k ev. r = (i, True) \<and> chat_room i c \<and> i \<notin> set (map chn_id (channels (db w))) \<and>
    db w' = (db w)\<lparr>channels := channels (db w) @ [c],
      channel_members := channel_members (db w) @ [new_member j i (User a) True, new_member k i (User b) True],
      outbox := outbox (db w) @ [ev]\<rparr> \<and> event_type ev = ''DiscussChannelCreated'' \<and>
    event_channel ev = Some (discuss_channel (uuid_text v) i) \<and> tx_step w w'"
proof -
  from assms obtain i w1 u1 w2 j w3 k w4 u5 w5 where
    1: "new_v4 v w = ((Inr i :: ChannelError + uuid), w1)" and
    2: "lift ChDb (stmt_now (insert_channel (chat_row i))) v w1 = (Inr u1, w2)" and
    3: "lift ChDb (insert_creator_member i (User a)) v w2 = (Inr j, w3)" and
    4: "lift ChDb (insert_creator_member i (User b)) v w3 = (Inr k, w4)" and
    5: "stage_channel ''DiscussChannelCreated'' i ''discuss.channel/insert''
       (\<lambda>U. JObject [(''channel_id'', JString (U i)), (''channel_type'', JString ''chat''),
                      (''members'', JArray [JString (U a), JString (U b)])]) v w4 = (Inr u5, w5)" and
    r: "r = (i, True)" "w' = w5"
    unfolding chat_mint_def by (elim bindA_InrE ret_InrE) (rule that)
  from 1 have w1: "db w1 = db w" "tx_step w w1" by (auto elim: new_v4_InrE)
  from 2 obtain c where c: "db w2 = (db w1)\<lparr>channels := channels (db w1) @ [c]\<rparr>" "chat_room i c"
    "i \<notin> set (map chn_id (channels (db w1)))" "tx_step w1 w2"
    by (elim lift_InrE stmt_now_InrE) (blast dest: insert_chat_Inr)
  from 3 have m1: "db w3 = (db w2)\<lparr>channel_members := channel_members (db w2) @ [new_member j i (User a) True]\<rparr>"
    "tx_step w2 w3" by (auto dest!: insert_creator_member_Inr insert_member_Inr elim: lift_InrE)
  from 4 have m2: "db w4 = (db w3)\<lparr>channel_members := channel_members (db w3) @ [new_member k i (User b) True]\<rparr>"
    "tx_step w3 w4" by (auto dest!: insert_creator_member_Inr insert_member_Inr elim: lift_InrE)
  from stage_channel_Inr [OF 5] obtain ev where ev: "db w5 = (db w4)\<lparr>outbox := outbox (db w4) @ [ev]\<rparr>"
    "tx_step w4 w5" "event_type ev = ''DiscussChannelCreated''"
    "event_channel ev = Some (discuss_channel (uuid_text v) i)" by blast
  have "tx_step w w5" using w1 c(4) m1 m2 ev by (blast intro: tx_step_trans)
  with w1 c m1 m2 ev r show ?thesis by (intro exI [of _ i] exI [of _ c] exI [of _ j] exI [of _ k] exI [of _ ev]) simp
qed

text \<open>\<open>pair_chat d i a b\<close>: \<open>i\<close> is a live chat whose live partners are exactly \<open>a\<close> and \<open>b\<close>.\<close>

definition pair_chat :: "db \<Rightarrow> uuid \<Rightarrow> uuid \<Rightarrow> uuid \<Rightarrow> bool" where
  "pair_chat d i a b \<longleftrightarrow> (\<exists>c\<in>set (channels d). chat_room i c) \<and>
     (\<lambda>m. mbr_partner_id m) ` {m \<in> set (channel_members d). live_partner i m} = {Some a, Some b}"

definition members_refer :: "db \<Rightarrow> bool" where
  "members_refer d \<longleftrightarrow> (\<forall>m\<in>set (channel_members d). mbr_channel_id m \<in> set (map chn_id (channels d)))"

lemma channel_schema_refers: "channel_schema d \<Longrightarrow> members_refer d"
  by (simp add: channel_schema_def members_refer_def)

lemma partner_seat_unique:
  assumes "channel_schema d" and "x \<in> set (channel_members d)" and "y \<in> set (channel_members d)"
    and "mbr_channel_id x = mbr_channel_id y" and "mbr_partner_id x = mbr_partner_id y" and "mbr_partner_id x \<noteq> None"
  shows "x = y"
proof -
  let ?ps = "filter (\<lambda>m. mbr_partner_id m \<noteq> None) (channel_members d)"
  from assms(1) have "distinct (map (\<lambda>m. (mbr_channel_id m, mbr_partner_id m)) ?ps)"
    by (simp add: channel_schema_def partner_seats_def)
  then have "inj_on (\<lambda>m. (mbr_channel_id m, mbr_partner_id m)) (set ?ps)" by (simp add: distinct_map)
  then show ?thesis by (rule inj_onD) (use assms in auto)
qed

text \<open>Under the schema, the anti-join and the count of \<open>find_chat_by_member_set\<close> say that the live partners
  are exactly the two.\<close>

lemma chat_matches_iff:
  assumes "channel_schema d" and "a \<noteq> b"
  shows "chat_matches [a, b] d c \<longleftrightarrow> chn_type c = DiscussChannelType.Chat \<and> \<not> chn_deleted c \<and>
    (\<lambda>m. mbr_partner_id m) ` {m \<in> set (channel_members d). live_partner (chn_id c) m} = {Some a, Some b}"
proof -
  let ?L = "filter (live_partner (chn_id c)) (channel_members d)"
  have "inj_on mbr_partner_id (set ?L)"
    by (rule inj_onI) (auto simp: live_partner_def intro: partner_seat_unique [OF assms(1)])
  moreover have "distinct ?L" using assms(1) by (simp add: channel_schema_def distinct_map)
  ultimately have len: "length ?L = card (mbr_partner_id ` set ?L)"
    using distinct_card [of ?L] by (simp only: card_image)
  have set: "set ?L = {m \<in> set (channel_members d). live_partner (chn_id c) m}" by auto
  have sub: "\<not> list_ex (\<lambda>m. live_partner (chn_id c) m \<and> \<not> mbr_partner_id m \<in> set (map Some [a, b])) (channel_members d) \<longleftrightarrow>
      mbr_partner_id ` set ?L \<subseteq> {Some a, Some b}" by (auto simp: list_ex_iff)
  have "mbr_partner_id ` set ?L \<subseteq> {Some a, Some b} \<and> card (mbr_partner_id ` set ?L) = 2 \<longleftrightarrow>
      mbr_partner_id ` set ?L = {Some a, Some b}"
  proof -
    have two: "card {Some a, Some b} = 2" using assms(2) by simp
    show ?thesis using two card_subset_eq [of "{Some a, Some b}" "mbr_partner_id ` set ?L"] by auto
  qed
  moreover have "length [a, b] = 2" by simp
  ultimately show ?thesis unfolding chat_matches_def sub len set [symmetric] by metis
qed

lemma pair_chat_commute: "pair_chat d i a b = pair_chat d i b a"
  by (simp add: pair_chat_def insert_commute)

lemma chat_matches_commute: "chat_matches [a, b] d = chat_matches [b, a] d"
  by (auto simp: chat_matches_def fun_eq_iff list_ex_iff)

lemma find_chat_commute: "find_chat_by_member_set [a, b] d = find_chat_by_member_set [b, a] d"
  by (simp add: find_chat_by_member_set_def chat_matches_commute)

lemma find_chat_Some:
  assumes "find_chat_by_member_set [a, b] d = Some i" and "channel_schema d" and "a \<noteq> b"
  shows "pair_chat d i a b"
proof -
  from assms(1) obtain c where c: "first_by (\<lambda>a b. chn_created_at a \<le> chn_created_at b)
      (filter (chat_matches [a, b] d) (channels d)) = Some c" "chn_id c = i"
    by (auto simp: find_chat_by_member_set_def)
  have "c \<in> set (filter (chat_matches [a, b] d) (channels d)) \<and>
      (\<forall>x\<in>set (filter (chat_matches [a, b] d) (channels d)). chn_created_at c \<le> chn_created_at x)"
    by (rule first_by_least [OF c(1)]) auto
  then have "c \<in> set (channels d)" "chat_matches [a, b] d c" by auto
  with c(2) chat_matches_iff [OF assms(2,3), of c] show ?thesis
    by (auto simp: pair_chat_def chat_room_def)
qed

lemma chat_minted:
  assumes "channel_schema d" and "a \<noteq> b" and "i \<notin> set (map chn_id (channels d))" and "chat_room i c"
    and d': "d' = d\<lparr>channels := channels d @ [c],
      channel_members := channel_members d @ [new_member j i (User a) True, new_member k i (User b) True],
      outbox := o'\<rparr>"
  shows "pair_chat d' i a b" and "filter (chat_matches [a, b] d') (channels d') = filter (chat_matches [a, b] d) (channels d) @ [c]"
proof -
  have old: "\<not> live_partner i m" if "m \<in> set (channel_members d)" for m
    using channel_schema_refers [OF assms(1)] assms(3) that by (auto simp: members_refer_def live_partner_def)
  have new: "live_partner i' (new_member j' i (User p) True) \<longleftrightarrow> i' = i" for i' j' p
    by (auto simp: live_partner_def new_member_def)
  have "{m \<in> set (channel_members d'). live_partner i m} = {new_member j i (User a) True, new_member k i (User b) True}"
    using old new unfolding d' by auto
  then show "pair_chat d' i a b" using assms(4) unfolding pair_chat_def d' by (auto simp: new_member_def)
  have c: "chn_id c = i" using assms(4) by (simp add: chat_room_def)
  have "chat_matches [a, b] d' c"
    using assms(2,4) old new c unfolding chat_matches_def d'
    by (auto simp: chat_room_def list_ex_iff new_member_def filter_empty_conv)
  moreover have "chat_matches [a, b] d' q \<longleftrightarrow> chat_matches [a, b] d q" if "q \<in> set (channels d)" for q
  proof -
    from that assms(3) have "chn_id q \<noteq> i" by auto
    then show ?thesis using new unfolding chat_matches_def d' by (auto simp: list_ex_iff)
  qed
  ultimately show "filter (chat_matches [a, b] d') (channels d') = filter (chat_matches [a, b] d) (channels d) @ [c]"
    unfolding d' by (auto simp: cong: filter_cong)
qed

lemma get_or_create_chat_found:
  assumes "get_or_create_chat p q e u = (Inr r, u')" and "find_chat_by_member_set [p, q] (db u) = Some j"
  shows "db u' = db u \<and> r = (j, False)"
proof -
  from assms(1) have "p \<noteq> q" by (auto simp: get_or_create_chat_def fail_def)
  with assms(1) obtain f u1 where
    1: "in_tx ChDb (lift ChDb (stmt (reading (find_chat_by_member_set [p, q])))) e u = (Inr f, u1)" and
    2: "(case f of Some i \<Rightarrow> ret (i, False) | None \<Rightarrow> in_tx ChDb (
            bindA (lift ChDb (stmt (reading (find_chat_by_member_set [p, q])))) (\<lambda>f.
            case f of Some i \<Rightarrow> ret (i, False) | None \<Rightarrow> chat_mint p q))) e u1 = (Inr r, u')"
    unfolding get_or_create_chat_def by (auto elim: bindA_InrE)
  from 1 have "db u1 = db u" "f = Some j" using assms(2)
    by (auto elim!: in_tx_straight intro!: straight_intros elim: reading_stmt_InrE)
  with 2 show ?thesis by (auto elim: ret_InrE)
qed

lemma get_or_create_chat_made:
  assumes "get_or_create_chat a b v w = (Inr (i, created), w1)" and "find_chat_by_member_set [a, b] (db w) = None"
  shows "created \<and> (\<exists>c j k ev. chat_room i c \<and> i \<notin> set (map chn_id (channels (db w))) \<and>
    db w1 = (db w)\<lparr>channels := channels (db w) @ [c],
      channel_members := channel_members (db w) @ [new_member j i (User a) True, new_member k i (User b) True],
      outbox := outbox (db w) @ [ev]\<rparr>)"
proof -
  let ?mint = "bindA (lift ChDb (stmt (reading (find_chat_by_member_set [a, b])))) (\<lambda>f.
            case f of Some i \<Rightarrow> ret (i, False) | None \<Rightarrow> chat_mint a b)"
  from assms(1) have "a \<noteq> b" by (auto simp: get_or_create_chat_def fail_def)
  with assms(1) obtain f u1 where
    1: "in_tx ChDb (lift ChDb (stmt (reading (find_chat_by_member_set [a, b])))) v w = (Inr f, u1)" and
    2: "(case f of Some i \<Rightarrow> ret (i, False) | None \<Rightarrow> in_tx ChDb ?mint) v u1 = (Inr (i, created), w1)"
    unfolding get_or_create_chat_def by (auto elim: bindA_InrE)
  from 1 have u1: "db u1 = db w" "f = None" using assms(2)
    by (auto elim!: in_tx_straight intro!: straight_intros elim: reading_stmt_InrE)
  have st: "straight (?mint :: (db, 'a, ChannelError, uuid \<times> bool) act)"
    unfolding chat_mint_def insert_creator_member_def stage_channel_def by (intro straight_intros)
  from 2 u1 obtain u2 where "?mint v (begin_tx v u1) = (Inr (i, created), u2)" and w1: "db w1 = db u2"
    by (auto elim: in_tx_straight [OF _ st])
  then obtain u3 where "chat_mint a b v u3 = (Inr (i, created), u2)" and u3: "db u3 = db w"
    using assms(2) u1 by (auto elim!: bindA_InrE reading_stmt_InrE)
  from chat_mint_Inr [OF this(1)] show ?thesis unfolding w1 u3 by blast
qed

text \<open>C15: one chat per pair.  A call that returns \<open>(i, created)\<close> leaves \<open>i\<close> a live chat whose live partners are
  exactly the two; it wrote something exactly when it reports \<open>created\<close>; and any later call for the same
  pair, in either order, returns the same chat, not created, and writes nothing.\<close>

theorem get_or_create_chat_once:
  assumes "get_or_create_chat a b v w = (Inr (i, created), w1)" and "channel_schema (db w)"
    and "db w2 = db w1" and "x = a \<and> y = b \<or> x = b \<and> y = a"
    and "get_or_create_chat x y v' w2 = (Inr (i', created'), w3)"
  shows "pair_chat (db w1) i a b \<and> (created \<longleftrightarrow> db w1 \<noteq> db w) \<and> i' = i \<and> \<not> created' \<and> db w3 = db w2"
proof -
  have ab: "a \<noteq> b" using assms(1) by (auto simp: get_or_create_chat_def fail_def)
  have again: "db w3 = db w2 \<and> i' = j \<and> \<not> created'" if "find_chat_by_member_set [a, b] (db w1) = Some j" for j
    using get_or_create_chat_found [OF assms(5), of j] that assms(3,4) find_chat_commute [of a b] by auto
  show ?thesis
  proof (cases "find_chat_by_member_set [a, b] (db w)")
    case (Some j)
    with get_or_create_chat_found [OF assms(1)] have 1: "db w1 = db w" "i = j" "\<not> created" by simp_all
    with again Some find_chat_Some [OF Some assms(2) ab] show ?thesis by simp
  next
    case None
    from get_or_create_chat_made [OF assms(1) None] obtain c j k ev where cr: "created" "chat_room i c"
      "i \<notin> set (map chn_id (channels (db w)))" and
      d': "db w1 = (db w)\<lparr>channels := channels (db w) @ [c],
      channel_members := channel_members (db w) @ [new_member j i (User a) True, new_member k i (User b) True],
      outbox := outbox (db w) @ [ev]\<rparr>" by blast
    note m = chat_minted [OF assms(2) ab cr(3,2) d']
    from None have "filter (chat_matches [a, b] (db w)) (channels (db w)) = []"
      by (simp add: find_chat_by_member_set_def)
    with m(2) cr(2) have "find_chat_by_member_set [a, b] (db w1) = Some i"
      by (simp add: find_chat_by_member_set_def chat_room_def)
    moreover have "channels (db w1) \<noteq> channels (db w)" unfolding d' by simp
    then have "db w1 \<noteq> db w" by auto
    ultimately show ?thesis using again m(1) cr(1) by blast
  qed
qed

lemma pg_chat_cast: "pg_enum_cast DiscussChannelType_show DiscussChannelType_from_str ''chat'' = Some DiscussChannelType.Chat"
  by code_simp

text \<open>The race of two first chats.  Nothing in the schema stops a second chat for the same pair: the
  unique indexes are per channel, and the loser's channel is new.  If a rival's chat for the pair was
  committed after the lookup, the mint that follows succeeds and leaves two matching chats.\<close>

lemma chat_race_duplicates:
  assumes "quiet v" and "\<not> aborted w" and "channel_schema (db w)" and "a \<noteq> b"
    and "find_chat_by_member_set [a, b] (db w) = Some j"
    and "\<forall>n. rng v n \<notin> set (map chn_id (channels (db w)))"
    and "\<forall>n. rng v n \<notin> set (map mbr_id (channel_members (db w)))" and "inj (rng v)"
  shows "\<exists>i w'. chat_mint a b v w = (Inr (i, True), w') \<and> i \<noteq> j \<and>
    pair_chat (db w') i a b \<and>
    {i, j} \<subseteq> chn_id ` set (filter (chat_matches [a, b] (db w')) (channels (db w')))"
proof -
  let ?i = "rng v (tick w)"
  have ne: "\<forall>r\<in>set (channel_members (db w)). mbr_channel_id r \<noteq> ?i"
    using channel_schema_refers [OF assms(3)] assms(6) unfolding members_refer_def by metis
  have inj: "rng v m \<noteq> rng v n" if "m \<noteq> n" for m n using assms(8) that by (auto dest: injD)
  have "\<exists>r w'. chat_mint a b v w = (Inr r, w')"
    using assms(1,2,4,6,7) ne inj
    by (auto simp: chat_mint_def bindA_def lift_def new_v4_def stmt_now_def stmt_def quiet_def insert_channel_def
        chat_row_def pg_chat_cast insert_creator_member_def insert_member_def member_fk_def fk_ok_def
        new_member_def seat_clash_def list_ex_iff stage_channel_def ask_def stage_bus_event_def now_utc_def
        stage_event_def ret_def)
  then obtain r w' where m: "chat_mint a b v w = (Inr r, w')" by blast
  from chat_mint_Inr [OF m] obtain i c k l ev where r: "r = (i, True)" and c: "chat_room i c"
    "i \<notin> set (map chn_id (channels (db w)))" and
    d': "db w' = (db w)\<lparr>channels := channels (db w) @ [c],
      channel_members := channel_members (db w) @ [new_member k i (User a) True, new_member l i (User b) True],
      outbox := outbox (db w) @ [ev]\<rparr>" by blast
  note mm = chat_minted [OF assms(3,4) c(2,1) d']
  from assms(5) obtain q where q: "first_by (\<lambda>a b. chn_created_at a \<le> chn_created_at b)
      (filter (chat_matches [a, b] (db w)) (channels (db w))) = Some q" "chn_id q = j"
    by (auto simp: find_chat_by_member_set_def)
  have "q \<in> set (filter (chat_matches [a, b] (db w)) (channels (db w))) \<and>
      (\<forall>x\<in>set (filter (chat_matches [a, b] (db w)) (channels (db w))). chn_created_at q \<le> chn_created_at x)"
    by (rule first_by_least [OF q(1)]) auto
  then have "q \<in> set (filter (chat_matches [a, b] (db w)) (channels (db w)))" by blast
  moreover have "i \<noteq> j" using calculation q(2) c(2) by auto
  moreover have "chn_id ` set (filter (chat_matches [a, b] (db w')) (channels (db w'))) =
      insert i (chn_id ` set (filter (chat_matches [a, b] (db w)) (channels (db w))))"
    unfolding mm(2) using c(1) by (auto simp: chat_room_def)
  ultimately show ?thesis using m r mm(1) q(2) by blast
qed

section \<open>Creating, pinning, archiving\<close>

lemma insert_creator_Inr:
  assumes "(case cr of None \<Rightarrow> ret () | Some c \<Rightarrow> bindA (lift ChDb (insert_creator_member i c)) (\<lambda>_. ret ())) v w =
      (Inr u, w')"
  shows "tx_step w w' \<and> (\<exists>ms. db w' = (db w)\<lparr>channel_members := channel_members (db w) @ ms\<rparr> \<and>
    (cr = None \<longrightarrow> ms = []) \<and> (\<forall>c. cr = Some c \<longrightarrow> (\<exists>j. ms = [new_member j i c True])))"
proof (cases cr)
  case None
  with assms show ?thesis by (auto elim: ret_InrE)
next
  case (Some c)
  with assms obtain j where "insert_creator_member i c v w = (Inr j, w')"
    by (auto elim!: bindA_InrE lift_InrE ret_InrE)
  then show ?thesis using Some by (auto dest!: insert_creator_member_Inr insert_member_Inr)
qed

text \<open>A created channel has the requested kind, which is never a chat, an access mode the service knows,
  and its creator, if any, as its only member, all in the transaction that announces it on the channel's
  own bus channel.\<close>

lemma channel_create_effect:
  assumes "channel_create cmd v w = (Inr i, w')"
  shows "\<exists>c ms ev. db w' = (db w)\<lparr>channels := channels (db w) @ [c],
        channel_members := channel_members (db w) @ ms, outbox := outbox (db w) @ [ev]\<rparr> \<and>
    chn_id c = i \<and> i \<notin> set (map chn_id (channels (db w))) \<and> \<not> chn_deleted c \<and>
    chn_type c \<in> {DiscussChannelType.Channel, DiscussChannelType.Group} \<and>
    (cc_channel_type cmd \<noteq> [] \<longrightarrow> DiscussChannelType_show (chn_type c) = cc_channel_type cmd) \<and>
    chn_access_mode c = cc_default_access_mode cmd \<and>
    cc_default_access_mode cmd \<in> {None, Some ''public'', Some ''private'', Some ''group''} \<and>
    (\<forall>m\<in>set ms. \<exists>cr. cc_creator cmd = Some cr \<and> same_seat i cr m \<and> \<not> mbr_deleted m) \<and>
    length ms = (if cc_creator cmd = None then 0 else 1) \<and>
    event_type ev = ''DiscussChannelCreated'' \<and> event_channel ev = Some (discuss_channel (uuid_text v) i)"
proof -
  from assms obtain t where t: "channel_create_checks (str_debug v) cmd = Inr t"
    and tx: "in_tx ChDb (channel_create_tx t cmd) v w = (Inr i, w')"
    unfolding channel_create_def by (auto simp: bindA_ask elim!: bindA_InrE of_sum_InrE)
  have "t = ''channel'' \<and> cc_channel_type cmd \<in> {[], ''channel''} \<or> t = ''group'' \<and> cc_channel_type cmd = ''group''"
    and mode: "cc_default_access_mode cmd \<in> {None, Some ''public'', Some ''private'', Some ''group''}"
    using t by (auto simp: channel_create_checks_def channel_create_type_def split: if_splits option.splits sum.splits)
  have st: "straight (channel_create_tx t cmd :: (db, 'a, ChannelError, uuid) act)"
    unfolding channel_create_tx_def stage_channel_def insert_creator_member_def by (intro straight_intros)
  from tx obtain w0 where body: "channel_create_tx t cmd v (begin_tx v w) = (Inr i, w0)" and e: "db w' = db w0"
    by (auto elim: in_tx_straight [OF _ st])
  from body obtain i' w1 u2 w2 u3 w3 u4 w4 where
    1: "new_v4 v (begin_tx v w) = ((Inr i' :: ChannelError + uuid), w1)" and
    2: "lift ChDb (stmt_now (insert_channel (create_row t cmd i'))) v w1 = (Inr u2, w2)" and
    3: "(case cc_creator cmd of None \<Rightarrow> ret ()
          | Some creator \<Rightarrow> bindA (lift ChDb (insert_creator_member i' creator)) (\<lambda>_. ret ())) v w2 = (Inr u3, w3)" and
    4: "stage_channel ''DiscussChannelCreated'' i' ''discuss.channel/insert''
       (\<lambda>U. JObject [(''channel_id'', JString (U i')), (''channel_type'', JString t),
                      (''name'', jopt JString (cc_name cmd))]) v w3 = (Inr u4, w4)" and "i = i'" and w4: "w0 = w4"
    unfolding channel_create_tx_def by (elim bindA_InrE ret_InrE) (rule that)
  note 1 = 1 [folded \<open>i = i'\<close>] and 2 = 2 [folded \<open>i = i'\<close>] and 3 = 3 [folded \<open>i = i'\<close>] and 4 = 4 [folded \<open>i = i'\<close> w4]
  from 1 have w1: "db w1 = db w" by (auto elim: new_v4_InrE)
  from 2 have "insert_channel (create_row t cmd i) (tx_start w1) (db w) = Inr (u2, db w2)"
    unfolding w1 [symmetric] by (elim lift_InrE stmt_now_InrE)
  then obtain c where "db w2 = (db w)\<lparr>channels := channels (db w) @ [c]\<rparr>" "chn_id c = nc_id (create_row t cmd i)"
    "DiscussChannelType_show (chn_type c) = nc_channel_type (create_row t cmd i)" "\<not> chn_deleted c"
    "nc_id (create_row t cmd i) \<notin> set (map chn_id (channels (db w)))"
    "chn_access_mode c = nc_default_access_mode (create_row t cmd i)" by (rule insert_channel_Inr)
  note c = this [unfolded create_row_def NewChannelRow.simps]
  from insert_creator_Inr [OF 3] obtain ms where ms: "db w3 = (db w2)\<lparr>channel_members := channel_members (db w2) @ ms\<rparr>"
    "cc_creator cmd = None \<longrightarrow> ms = []" "\<forall>c. cc_creator cmd = Some c \<longrightarrow> (\<exists>j. ms = [new_member j i c True])"
    by (elim conjE exE) (rule that)
  from stage_channel_Inr [OF 4] obtain ev where ev: "db w0 = (db w3)\<lparr>outbox := outbox (db w3) @ [ev]\<rparr>"
    "event_type ev = ''DiscussChannelCreated''" "event_channel ev = Some (discuss_channel (uuid_text v) i)" by blast
  have d: "db w' = (db w)\<lparr>channels := channels (db w) @ [c],
        channel_members := channel_members (db w) @ ms, outbox := outbox (db w) @ [ev]\<rparr>"
    by (simp add: e ev(1) ms(1) c(1))
  have ty: "chn_type c \<in> {DiscussChannelType.Channel, DiscussChannelType.Group}"
    "cc_channel_type cmd \<noteq> [] \<longrightarrow> DiscussChannelType_show (chn_type c) = cc_channel_type cmd"
    using c(3) \<open>t = ''channel'' \<and> _ \<or> _\<close> by (cases "chn_type c"; auto)+
  have mem: "(\<forall>m\<in>set ms. \<exists>cr. cc_creator cmd = Some cr \<and> same_seat i cr m \<and> \<not> mbr_deleted m)"
    "length ms = (if cc_creator cmd = None then 0 else 1)"
    using ms(2,3) by (cases "cc_creator cmd"; auto simp: same_seat_def new_member_def)+
  show ?thesis using d c(2,4,5,6) ty mode mem ev(2,3) by blast
qed

lemma must_exist_InrE:
  assumes "must_exist i v w = (Inr u, w')"
  obtains c where "find (live_channel i) (channels (db w)) = Some c" and "db w' = db w" and "tx_step w w'"
  using assms unfolding must_exist_def repo_channel_type_def
  by (auto elim!: bindA_InrE reading_stmt_InrE ret_InrE fail_InrE split: option.splits)

lemma stage_pin_Inr:
  assumes "stage_pin i j p v w = (Inr u, w')"
  shows "\<exists>ev. db w' = (db w)\<lparr>outbox := outbox (db w) @ [ev]\<rparr> \<and>
    event_channel ev = Some (discuss_channel (uuid_text v) i)"
  using assms by (auto simp: stage_pin_def bindA_ask elim!: lift_InrE stage_bus_event_InrE)

text \<open>Pinning reaches only the channel's own messages.  A pin or unpin that succeeds found the channel
  live and the message posted in that channel, and changed nothing but that message's pin and the
  outbox.\<close>

lemma set_message_pinned_effect:
  assumes "set_message_pinned i j p v w = (Inr u, w')"
  shows "(\<exists>c\<in>set (channels (db w)). live_channel i c) \<and>
    message_edge j (db w) = Some (Some ''discuss.channel'', Some i) \<and>
    (\<exists>now ev. db w' = (db w)\<lparr>messages := map (\<lambda>m. if msg_id m = j
       then m\<lparr>msg_pinned_at := (if p then Some now else None)\<rparr> else m) (messages (db w)),
       outbox := outbox (db w) @ [ev]\<rparr> \<and> event_channel ev = Some (discuss_channel (uuid_text v) i))"
proof -
  let ?pin = "bindA (lift ChDb (stmt_now (repo_set_message_pinned j p))) (\<lambda>_. stage_pin i j p)"
  let ?refuse = "bindA (ask uuid_text) (\<lambda>U.
         fail (ChInvalid (''message '' @ U j @ '' does not belong to channel '' @ U i)))"
  let ?body = "bindA (must_exist i) (\<lambda>_.
       bindA (lift ChDb (stmt (reading (message_edge j)))) (\<lambda>owner.
       if owner = Some (Some ''discuss.channel'', Some i) then ?pin else ?refuse))"
  have st: "straight ?body" unfolding must_exist_def stage_pin_def by (intro straight_intros)
  from assms obtain w0 where b: "?body v (begin_tx v w) = (Inr u, w0)" and e: "db w' = db w0"
    unfolding set_message_pinned_def by (rule in_tx_straight [OF _ st])
  from b obtain u1 w1 owner w2 where 1: "must_exist i v (begin_tx v w) = (Inr u1, w1)" and
    2: "lift ChDb (stmt (reading (message_edge j))) v w1 = (Inr owner, w2)" and
    3: "(if owner = Some (Some ''discuss.channel'', Some i) then ?pin else ?refuse) v w2 = (Inr u, w0)"
    by (elim bindA_InrE) (rule that)
  from 1 obtain c where c: "find (live_channel i) (channels (db w)) = Some c" and w1: "db w1 = db w"
    by (rule must_exist_InrE) simp
  from 2 have w2: "db w2 = db w" and o: "owner = message_edge j (db w)"
    using w1 by (auto elim!: reading_stmt_InrE)
  have owner: "owner = Some (Some ''discuss.channel'', Some i)"
    using 3 by (auto simp: bindA_ask fail_def split: if_splits)
  from 3 owner obtain u3 w3 where p1: "stmt_now (repo_set_message_pinned j p) v w2 = (Inr u3, w3)" and
    p2: "stage_pin i j p v w3 = (Inr u, w0)"
    by (auto elim!: bindA_InrE lift_InrE)
  from p1 have "db w3 = (db w2)\<lparr>messages := map (\<lambda>m. if msg_id m = j
       then m\<lparr>msg_pinned_at := (if p then Some (tx_start w2) else None)\<rparr> else m) (messages (db w2))\<rparr>"
    by (elim stmt_now_InrE) (auto simp: repo_set_message_pinned_def)
  moreover from stage_pin_Inr [OF p2] obtain ev where ev: "db w0 = (db w3)\<lparr>outbox := outbox (db w3) @ [ev]\<rparr>"
    "event_channel ev = Some (discuss_channel (uuid_text v) i)" by (elim conjE exE) (rule that)
  ultimately have "db w' = (db w)\<lparr>messages := map (\<lambda>m. if msg_id m = j
       then m\<lparr>msg_pinned_at := (if p then Some (tx_start w2) else None)\<rparr> else m) (messages (db w)),
       outbox := outbox (db w) @ [ev]\<rparr>" by (simp add: e w2)
  moreover have "\<exists>c\<in>set (channels (db w)). live_channel i c" using c by (auto simp: find_Some_iff)
  moreover have "message_edge j (db w) = Some (Some ''discuss.channel'', Some i)" using owner o by simp
  ultimately show ?thesis using ev(2) by (intro conjI exI)
qed

section \<open>The properties at concrete inputs\<close>

definition chat_run :: "(ChannelError + uuid \<times> bool) \<times> (db, nat) world" where
  "chat_run = get_or_create_chat 1 2 plain_env (world_of empty_db)"

definition chat_again :: "(ChannelError + uuid \<times> bool) \<times> (db, nat) world" where
  "chat_again = get_or_create_chat 2 1 plain_env (snd chat_run)"

lemma chat_runs: "fst chat_run = Inr (25, True)" "\<not> isl (fst chat_again)"
  by code_simp+

lemma empty_channel_schema: "channel_schema (db (world_of empty_db))"
  by (simp add: channel_schema_def world_of_def empty_db_def partner_seats_def guest_seats_def)

lemma get_or_create_chat_once_witness:
  "pair_chat (db (snd chat_run)) 25 1 2 \<and> fst chat_again = Inr (25, False)"
proof -
  have 1: "get_or_create_chat 1 2 plain_env (world_of empty_db) = (Inr (25, True), snd chat_run)"
    using chat_runs(1) by (simp add: chat_run_def prod_eq_iff)
  have 2: "get_or_create_chat 2 1 plain_env (snd chat_run) =
      (Inr (fst (projr (fst chat_again)), snd (projr (fst chat_again))), snd chat_again)"
    using chat_runs(2) by (cases "fst chat_again") (simp_all add: chat_again_def prod_eq_iff)
  have "pair_chat (db (snd chat_run)) 25 1 2 \<and> fst (projr (fst chat_again)) = 25 \<and> \<not> snd (projr (fst chat_again))"
    using get_or_create_chat_once [OF 1 empty_channel_schema refl _ 2] by simp
  then have "(fst (projr (fst chat_again)), snd (projr (fst chat_again))) = (25, False)" by simp
  with 2 have "fst chat_again = Inr (25, False)" unfolding chat_again_def by (metis fst_conv)
  with \<open>pair_chat _ _ _ _ \<and> _\<close> show ?thesis by blast
qed

definition late_env :: env where
  "late_env = plain_env\<lparr>rng := \<lambda>n. n + 100\<rparr>"

lemma chat_race_duplicates_witness:
  "\<exists>i. fst (chat_mint 1 2 late_env (snd chat_run)) = Inr (i, True) \<and> i \<noteq> 25"
proof -
  have k: "keeps channel_schema (get_or_create_chat 1 2 :: (db, nat, _, _) act)"
    by (rule channel_schema.keeps_channel_verbs)
  have s: "channel_schema (db (snd chat_run))"
    using keepsD [OF k empty_channel_schema] by (simp add: chat_run_def)
  have a: "\<not> aborted (snd chat_run)" by code_simp
  have f: "find_chat_by_member_set [1, 2] (db (snd chat_run)) = Some 25" by code_simp
  have c: "list_all (\<lambda>c. chn_id c < 100) (channels (db (snd chat_run))) \<and>
      list_all (\<lambda>m. mbr_id m < 100) (channel_members (db (snd chat_run)))" by code_simp
  then have "\<forall>n. rng late_env n \<notin> set (map chn_id (channels (db (snd chat_run))))"
    "\<forall>n. rng late_env n \<notin> set (map mbr_id (channel_members (db (snd chat_run))))"
    by (auto simp: list_all_iff late_env_def)
  moreover have "quiet late_env" "inj (rng late_env)" by (simp_all add: quiet_def late_env_def plain_env_def inj_def)
  ultimately obtain i w' where "chat_mint 1 2 late_env (snd chat_run) = (Inr (i, True), w')" "i \<noteq> 25"
    using chat_race_duplicates [of late_env "snd chat_run" 1 2 25] a s f by auto
  then show ?thesis by auto
qed

definition group_run :: "(ChannelError + uuid) \<times> (db, nat) world" where
  "group_run = channel_create \<lparr>cc_name = None, cc_channel_type = ''group'', cc_uuid = None,
     cc_default_access_mode = Some ''private'', cc_email_send = False, cc_creator = Some (User 4)\<rparr>
     plain_env (world_of empty_db)"

lemma group_runs: "fst group_run = Inr 21"
  by code_simp

lemma channel_create_effect_witness:
  "\<exists>c\<in>set (channels (db (snd group_run))). chn_id c = 21 \<and> chn_type c = DiscussChannelType.Group"
proof -
  have "channel_create \<lparr>cc_name = None, cc_channel_type = ''group'', cc_uuid = None,
     cc_default_access_mode = Some ''private'', cc_email_send = False, cc_creator = Some (User 4)\<rparr>
     plain_env (world_of empty_db) = (Inr 21, snd group_run)"
    using group_runs by (simp add: group_run_def prod_eq_iff)
  from channel_create_effect [OF this] show ?thesis by (elim exE conjE) (auto split: if_splits)
qed

definition pin_world :: "(db, nat) world" where
  "pin_world = world_of (db (snd group_run)\<lparr>messages :=
     [(sample_message 3)\<lparr>msg_model := Some ''discuss.channel'', msg_res_id := Some 21\<rparr>]\<rparr>)"

lemma set_message_pinned_effect_witness:
  "message_edge 3 (db pin_world) = Some (Some ''discuss.channel'', Some 21)"
proof -
  have "\<not> isl (fst (set_message_pinned 21 3 True plain_env pin_world))" by code_simp
  then obtain u w' where "set_message_pinned 21 3 True plain_env pin_world = (Inr u, w')"
    by (metis old.unit.exhaust prod.collapse sum.collapse(2))
  from set_message_pinned_effect [OF this] show ?thesis by blast
qed

end
