(* ===== verification/Members.thy ===== *)
theory Members
  imports Channels
begin

text \<open>
  Membership of discussion channels: \<open>src/application/service/channel_member_write_service.rs\<close> and
  \<open>src/infrastructure/persistence/channel_member_repository.rs\<close>.  A member is addressed by a channel and
  an identity; a removed membership keeps its row, marked deleted.  The read pointer moves under
  \<open>FOR NO KEY UPDATE SKIP LOCKED\<close>.
\<close>

section \<open>The repository\<close>

definition seat :: "uuid \<Rightarrow> MessagingIdentity \<Rightarrow> member_row \<Rightarrow> bool" where
  "seat channel_id identity r \<longleftrightarrow> same_seat channel_id identity r \<and> \<not> mbr_deleted r"

definition member_id :: "uuid \<Rightarrow> MessagingIdentity \<Rightarrow> db \<Rightarrow> uuid option" where
  "member_id channel_id identity d = map_option mbr_id (find (seat channel_id identity) (channel_members d))"

definition member_id_locked ::
  "uuid \<Rightarrow> MessagingIdentity \<Rightarrow> (uuid \<Rightarrow> bool) \<Rightarrow> db \<Rightarrow> db_error + uuid option \<times> db" where
  "member_id_locked channel_id identity locked d =
     Inr (map_option mbr_id
       (find (\<lambda>r. seat channel_id identity r \<and> \<not> locked (mbr_id r)) (channel_members d)), d)"

definition message_date :: "db \<Rightarrow> uuid \<Rightarrow> time option" where
  "message_date d i = map_option msg_date (find (\<lambda>m. msg_id m = i) (messages d))"

text \<open>\<open>(SELECT date ... new) > (SELECT date ... old)\<close>; a missing row makes the comparison NULL.\<close>

definition later_message :: "db \<Rightarrow> uuid \<Rightarrow> uuid option \<Rightarrow> bool" where
  "later_message d new old =
     (case old of
        None \<Rightarrow> True
      | Some o' \<Rightarrow>
          (case (message_date d new, message_date d o') of (Some a, Some b) \<Rightarrow> a > b | _ \<Rightarrow> False))"

definition update_members ::
  "(member_row \<Rightarrow> bool) \<Rightarrow> (member_row \<Rightarrow> member_row) \<Rightarrow> db_error option \<Rightarrow> db \<Rightarrow> db_error + bool \<times> db" where
  "update_members p f err d =
     (if \<not> list_ex p (channel_members d) then Inr (False, d)
      else case err of
        Some e \<Rightarrow> Inl e
      | None \<Rightarrow> Inr (True, d\<lparr>channel_members := map (\<lambda>r. if p r then f r else r) (channel_members d)\<rparr>))"

definition message_fk :: "string \<Rightarrow> uuid \<Rightarrow> db \<Rightarrow> db_error option" where
  "message_fk c i d = (if i \<in> set (map msg_id (messages d)) then None else Some (ForeignKeyViolation c))"

definition advance_seen :: "uuid \<Rightarrow> uuid \<Rightarrow> time \<Rightarrow> db \<Rightarrow> db_error + bool \<times> db" where
  "advance_seen m message_id now d =
     update_members (\<lambda>r. mbr_id r = m \<and> later_message d message_id (mbr_seen_message_id r))
       (\<lambda>r. r\<lparr>mbr_seen_message_id := Some message_id, mbr_message_unread_counter := 0,
               mbr_unread_counter := 0, mbr_last_seen_dt := Some now\<rparr>)
       (message_fk ''fk_discuss_channel_members_seen_message_id'' message_id d) d"

definition advance_fetched :: "uuid \<Rightarrow> uuid \<Rightarrow> db \<Rightarrow> db_error + bool \<times> db" where
  "advance_fetched m message_id d =
     update_members (\<lambda>r. mbr_id r = m \<and> later_message d message_id (mbr_fetched_message_id r))
       (\<lambda>r. r\<lparr>mbr_fetched_message_id := Some message_id\<rparr>)
       (message_fk ''fk_discuss_channel_members_fetched_message_id'' message_id d) d"

definition set_separator :: "uuid \<Rightarrow> uuid \<Rightarrow> db \<Rightarrow> db_error + bool \<times> db" where
  "set_separator m message_id d =
     update_members (\<lambda>r. mbr_id r = m)
       (\<lambda>r. r\<lparr>mbr_new_message_separator := Some message_id, mbr_message_unread_counter := 0,
               mbr_unread_counter := 0\<rparr>)
       (message_fk ''fk_discuss_channel_members_new_message_separator'' message_id d) d"

definition resurrect_member :: "uuid \<Rightarrow> MessagingIdentity \<Rightarrow> db \<Rightarrow> db_error + bool \<times> db" where
  "resurrect_member channel_id identity d =
     update_members (\<lambda>r. same_seat channel_id identity r \<and> mbr_deleted r) (\<lambda>r. r\<lparr>mbr_deleted := False\<rparr>) None d"

text \<open>\<open>ON CONFLICT DO NOTHING\<close>.\<close>

definition insert_member_unless :: "member_row \<Rightarrow> db \<Rightarrow> db_error + bool \<times> db" where
  "insert_member_unless m d =
     (case insert_member m d of
        Inl (UniqueViolation _) \<Rightarrow> Inr (False, d)
      | Inl e \<Rightarrow> Inl e
      | Inr (_, d') \<Rightarrow> Inr (True, d'))"

definition upsert_join :: "uuid \<Rightarrow> MessagingIdentity \<Rightarrow> (db, 'o, db_error, bool) act" where
  "upsert_join channel_id identity =
     bindA (stmt (resurrect_member channel_id identity)) (\<lambda>n.
     if n then ret True
     else
       bindA new_v4 (\<lambda>i.
       stmt (insert_member_unless (new_member i channel_id identity False))))"

definition soft_delete_member :: "uuid \<Rightarrow> db \<Rightarrow> db_error + bool \<times> db" where
  "soft_delete_member m d =
     update_members (\<lambda>r. mbr_id r = m \<and> \<not> mbr_deleted r) (\<lambda>r. r\<lparr>mbr_deleted := True\<rparr>) None d"

definition repo_set_mute :: "uuid \<Rightarrow> time option \<Rightarrow> bool \<Rightarrow> db \<Rightarrow> db_error + bool \<times> db" where
  "repo_set_mute m until forever d =
     update_members (\<lambda>r. mbr_id r = m)
       (\<lambda>r. r\<lparr>mbr_mute_until_dt := (if forever then Some PosInfinity else map_option At until)\<rparr>) None d"

definition repo_set_custom_notifications :: "uuid \<Rightarrow> string option \<Rightarrow> db \<Rightarrow> db_error + bool \<times> db" where
  "repo_set_custom_notifications m val d =
     (case val of
        None \<Rightarrow> update_members (\<lambda>r. mbr_id r = m) (\<lambda>r. r\<lparr>mbr_custom_notifications := None\<rparr>) None d
      | Some s \<Rightarrow>
          (case pg_enum_cast MemberCustomNotifications_show MemberCustomNotifications_from_str s of
             None \<Rightarrow> Inl (BadCast s)
           | Some c \<Rightarrow> update_members (\<lambda>r. mbr_id r = m) (\<lambda>r. r\<lparr>mbr_custom_notifications := Some c\<rparr>) None d))"

definition repo_set_pinned :: "uuid \<Rightarrow> bool \<Rightarrow> time \<Rightarrow> db \<Rightarrow> db_error + bool \<times> db" where
  "repo_set_pinned m pinned now d =
     update_members (\<lambda>r. mbr_id r = m)
       (\<lambda>r. r\<lparr>mbr_is_pinned := pinned, mbr_unpin_dt := (if pinned then None else Some now)\<rparr>) None d"

definition repo_set_fold_state :: "uuid \<Rightarrow> string option \<Rightarrow> db \<Rightarrow> db_error + bool \<times> db" where
  "repo_set_fold_state m fs d =
     (case fs of
        None \<Rightarrow> update_members (\<lambda>r. mbr_id r = m) (\<lambda>r. r\<lparr>mbr_fold_state := None\<rparr>) None d
      | Some s \<Rightarrow>
          (case pg_enum_cast SidebarFoldState_show SidebarFoldState_from_str s of
             None \<Rightarrow> Inl (BadCast s)
           | Some c \<Rightarrow> update_members (\<lambda>r. mbr_id r = m) (\<lambda>r. r\<lparr>mbr_fold_state := Some c\<rparr>) None d))"

section \<open>The service\<close>

datatype MemberError = MbDb db_error | MbInvalid string | NotMember uuid | NotJoinable uuid

text \<open>The common opening of the verbs: the member's row, or \<open>NotMember\<close>.\<close>

definition as_member ::
  "uuid \<Rightarrow> MessagingIdentity \<Rightarrow> (uuid \<Rightarrow> (db, 'o, MemberError, 'a) act) \<Rightarrow> (db, 'o, MemberError, 'a) act" where
  "as_member channel_id identity f =
     bindA (lift MbDb (stmt (reading (member_id channel_id identity)))) (\<lambda>m.
     case m of None \<Rightarrow> fail (NotMember channel_id) | Some i \<Rightarrow> f i)"

definition as_claimed_member ::
  "uuid \<Rightarrow> MessagingIdentity \<Rightarrow> (uuid \<Rightarrow> (db, 'o, MemberError, 'a) act) \<Rightarrow> (db, 'o, MemberError, 'a) act" where
  "as_claimed_member channel_id identity f =
     bindA (lift MbDb (stmt_locked (member_id_locked channel_id identity))) (\<lambda>m.
     case m of None \<Rightarrow> fail (NotMember channel_id) | Some i \<Rightarrow> f i)"

definition member_event ::
  "string \<Rightarrow> uuid \<Rightarrow> uuid \<Rightarrow> string \<Rightarrow> ((uuid \<Rightarrow> string) \<Rightarrow> json) \<Rightarrow> (db, 'o, MemberError, unit) act" where
  "member_event etype aid channel_id mtype pl =
     bindA (ask uuid_text) (\<lambda>U.
     lift MbDb (stage_bus_event etype ''DiscussChannelMember'' (U aid) (discuss_channel U channel_id) mtype (pl U)))"

definition mark_as_read :: "uuid \<Rightarrow> MessagingIdentity \<Rightarrow> uuid \<Rightarrow> (db, 'o, MemberError, bool) act" where
  "mark_as_read channel_id identity message_id =
     in_tx MbDb (as_claimed_member channel_id identity (\<lambda>m.
       bindA (lift MbDb (stmt_now (advance_seen m message_id))) (\<lambda>advanced.
       bindA (if advanced
              then member_event ''MemberSeenAdvanced'' m channel_id ''discuss.channel.member/seen''
                (\<lambda>U. JObject [(''channel_id'', JString (U channel_id)), (''member_id'', JString (U m)),
                               (''seen_message_id'', JString (U message_id))])
              else ret ()) (\<lambda>_.
       ret advanced))))"

definition mark_fetched :: "uuid \<Rightarrow> MessagingIdentity \<Rightarrow> uuid \<Rightarrow> (db, 'o, MemberError, bool) act" where
  "mark_fetched channel_id identity message_id =
     in_tx MbDb (as_claimed_member channel_id identity (\<lambda>m.
       lift MbDb (stmt (advance_fetched m message_id))))"

definition set_new_message_separator :: "uuid \<Rightarrow> MessagingIdentity \<Rightarrow> uuid \<Rightarrow> (db, 'o, MemberError, unit) act" where
  "set_new_message_separator channel_id identity message_id =
     in_tx MbDb (as_member channel_id identity (\<lambda>m.
       bindA (lift MbDb (stmt (set_separator m message_id))) (\<lambda>_. ret ())))"

definition join_gate :: "uuid \<Rightarrow> MessagingIdentity \<Rightarrow> (db, 'o, MemberError, unit) act" where
  "join_gate channel_id identity =
     bindA (lift MbDb (stmt (reading (member_id channel_id identity)))) (\<lambda>m.
     if m \<noteq> None then ret ()
     else
       bindA (lift MbDb (stmt (reading (open_to_join channel_id)))) (\<lambda>o'.
       if o' \<noteq> Some True then fail (NotJoinable channel_id) else ret ()))"

definition jpartner :: "(uuid \<Rightarrow> string) \<Rightarrow> MessagingIdentity \<Rightarrow> json" where
  "jpartner U identity = jopt (\<lambda>p. JString (U p)) (identity_partner_id identity)"

definition join :: "uuid \<Rightarrow> MessagingIdentity \<Rightarrow> (db, 'o, MemberError, bool) act" where
  "join channel_id identity =
     in_tx MbDb (
       bindA (join_gate channel_id identity) (\<lambda>_.
       bindA (lift MbDb (upsert_join channel_id identity)) (\<lambda>joined.
       bindA (if joined
              then member_event ''MemberJoined'' channel_id channel_id ''discuss.channel/member_added''
                (\<lambda>U. JObject [(''channel_id'', JString (U channel_id)), (''partner_id'', jpartner U identity)])
              else ret ()) (\<lambda>_.
       ret joined))))"

definition leave :: "uuid \<Rightarrow> MessagingIdentity \<Rightarrow> (db, 'o, MemberError, bool) act" where
  "leave channel_id identity =
     in_tx MbDb (as_member channel_id identity (\<lambda>m.
       bindA (lift MbDb (stmt (soft_delete_member m))) (\<lambda>left.
       bindA (if left
              then member_event ''MemberLeft'' m channel_id ''discuss.channel/member_removed''
                (\<lambda>U. JObject [(''channel_id'', JString (U channel_id)), (''partner_id'', jpartner U identity)])
              else ret ()) (\<lambda>_.
       ret left))))"

definition set_mute :: "uuid \<Rightarrow> MessagingIdentity \<Rightarrow> time option \<Rightarrow> bool \<Rightarrow> (db, 'o, MemberError, unit) act" where
  "set_mute channel_id identity until forever =
     in_tx MbDb (as_member channel_id identity (\<lambda>m.
       bindA (lift MbDb (stmt (repo_set_mute m until forever))) (\<lambda>_. ret ())))"

definition custom_notifications_check :: "(string \<Rightarrow> string) \<Rightarrow> string option \<Rightarrow> MemberError + unit" where
  "custom_notifications_check dbg val =
     (case val of
        None \<Rightarrow> Inr ()
      | Some s \<Rightarrow>
          if s = ''all'' \<or> s = ''mentions'' \<or> s = ''no_notif'' then Inr ()
          else Inl (MbInvalid (''custom_notifications must be all|mentions|no_notif, got '' @ dbg s)))"

definition set_custom_notifications ::
  "uuid \<Rightarrow> MessagingIdentity \<Rightarrow> string option \<Rightarrow> (db, 'o, MemberError, unit) act" where
  "set_custom_notifications channel_id identity val =
     bindA (ask str_debug) (\<lambda>dbg.
     bindA (of_sum (custom_notifications_check dbg val)) (\<lambda>_.
     in_tx MbDb (as_member channel_id identity (\<lambda>m.
       bindA (lift MbDb (stmt (repo_set_custom_notifications m val))) (\<lambda>_. ret ())))))"

definition set_pinned :: "uuid \<Rightarrow> MessagingIdentity \<Rightarrow> bool \<Rightarrow> (db, 'o, MemberError, unit) act" where
  "set_pinned channel_id identity pinned =
     in_tx MbDb (as_member channel_id identity (\<lambda>m.
       bindA (lift MbDb (stmt_now (repo_set_pinned m pinned))) (\<lambda>_. ret ())))"

definition fold_state_check :: "(string \<Rightarrow> string) \<Rightarrow> string option \<Rightarrow> MemberError + unit" where
  "fold_state_check dbg fs =
     (case fs of
        None \<Rightarrow> Inr ()
      | Some f \<Rightarrow>
          if f = ''open'' \<or> f = ''closed'' then Inr ()
          else Inl (MbInvalid (''fold_state must be open|closed, got '' @ dbg f)))"

definition set_fold_state :: "uuid \<Rightarrow> MessagingIdentity \<Rightarrow> string option \<Rightarrow> (db, 'o, MemberError, unit) act" where
  "set_fold_state channel_id identity fs =
     bindA (ask str_debug) (\<lambda>dbg.
     bindA (of_sum (fold_state_check dbg fs)) (\<lambda>_.
     in_tx MbDb (as_member channel_id identity (\<lambda>m.
       bindA (lift MbDb (stmt (repo_set_fold_state m fs))) (\<lambda>_. ret ())))))"

section \<open>Invariants\<close>

lemma update_members_Inr:
  assumes "update_members p f err d = Inr (b, d')"
  shows "(b \<longleftrightarrow> (\<exists>r\<in>set (channel_members d). p r)) \<and>
    d' = d\<lparr>channel_members := map (\<lambda>r. if p r then f r else r) (channel_members d)\<rparr>"
proof (cases "list_ex p (channel_members d)")
  case True
  with assms show ?thesis by (auto simp: update_members_def list_ex_iff split: option.splits if_splits)
next
  case False
  then have "map (\<lambda>r. if p r then f r else r) (channel_members d) = channel_members d"
    by (intro map_idI) (auto simp: list_ex_iff)
  with assms False show ?thesis by (auto simp: update_members_def list_ex_iff)
qed

lemma update_members_False: "update_members p f err d = Inr (b, d') \<Longrightarrow> \<not> b \<Longrightarrow> d' = d"
  by (auto simp: update_members_def split: if_splits option.splits)

lemma insert_member_unless_Inr:
  "insert_member_unless m d = Inr (b, d') \<Longrightarrow>
   (\<not> b \<and> d' = d \<or> b \<and> insert_member m d = Inr ((), d'))"
  by (auto simp: insert_member_unless_def split: sum.splits prod.splits db_error.splits)

definition seen_moves :: "db \<Rightarrow> uuid option \<Rightarrow> uuid option \<Rightarrow> bool" where
  "seen_moves d s s' \<longleftrightarrow> s' = s \<or> (\<exists>n. s' = Some n \<and> later_message d n s)"

text \<open>The contract of the member verbs: they stage events, add seats, and change member rows outside the
  seat, the seen pointer only forward.\<close>

locale member_invariant =
  fixes I :: "db \<Rightarrow> bool"
  assumes outbox_kept: "I d \<Longrightarrow> I (d\<lparr>outbox := o'\<rparr>)"
    and member_insert: "insert_member (new_member k h i p) d = Inr (u, d') \<Longrightarrow> I d \<Longrightarrow> I d'"
    and members_moved: "I d \<Longrightarrow>
      (\<And>r. seat_key (f r) = seat_key r \<and> seen_moves d (mbr_seen_message_id r) (mbr_seen_message_id (f r))) \<Longrightarrow>
      I (d\<lparr>channel_members := map f (channel_members d)\<rparr>)"
begin

lemma keeps_update_members:
  assumes "\<And>r. p r \<Longrightarrow> seat_key (f r) = seat_key r \<and> seen_moves d (mbr_seen_message_id r) (mbr_seen_message_id (f r))"
  shows "update_members p f err d = Inr (b, d') \<Longrightarrow> I d \<Longrightarrow> I d'"
  using assms by (auto dest!: update_members_Inr intro!: members_moved simp: seen_moves_def)

lemma keeps_upsert_join: "keeps I (upsert_join c i)"
  unfolding upsert_join_def
proof (intro keeps_intros keeps_stmt)
  show "I d'" if "I d" "resurrect_member c i d = Inr (x, d')" for d x d'
    using that unfolding resurrect_member_def
    by (elim keeps_update_members [rotated]) (simp_all add: seat_key_def seen_moves_def)
  show "I d'" if "I d" "insert_member_unless (new_member j c i False) d = Inr (x, d')" for j d x d'
    using that by (auto dest!: insert_member_unless_Inr intro: member_insert)
qed

lemma keeps_member_event: "keeps I (member_event a b c e g)"
  unfolding member_event_def by (intro keeps_intros keeps_stage_bus_event outbox_kept)

lemma keeps_member_reads:
  "(\<And>m. keeps I (f m)) \<Longrightarrow> keeps I (as_member c i f)"
  "(\<And>m. keeps I (f m)) \<Longrightarrow> keeps I (as_claimed_member c i f)"
  unfolding as_member_def as_claimed_member_def
  by (intro keeps_intros keeps_stmt_locked; simp add: member_id_locked_def)+

lemma keeps_member_stmts:
  "keeps I (stmt_now (advance_seen m j))" "keeps I (stmt (advance_fetched m j))"
  "keeps I (stmt (set_separator m j))" "keeps I (stmt (soft_delete_member m))"
  "keeps I (stmt (repo_set_mute m t b))" "keeps I (stmt (repo_set_custom_notifications m s))"
  "keeps I (stmt_now (repo_set_pinned m b))" "keeps I (stmt (repo_set_fold_state m s))"
  unfolding advance_seen_def advance_fetched_def set_separator_def soft_delete_member_def repo_set_mute_def
    repo_set_custom_notifications_def repo_set_pinned_def repo_set_fold_state_def
  by (rule keeps_stmt_now keeps_stmt; auto simp: seat_key_def seen_moves_def elim!: keeps_update_members [rotated]
      split: option.splits)+

lemma keeps_member_verbs:
  "keeps I (mark_as_read c i j)" "keeps I (mark_fetched c i j)" "keeps I (set_new_message_separator c i j)"
  "keeps I (join c i)" "keeps I (leave c i)" "keeps I (set_mute c i t b)"
  "keeps I (set_custom_notifications c i s)" "keeps I (set_pinned c i b)" "keeps I (set_fold_state c i s)"
  unfolding mark_as_read_def mark_fetched_def set_new_message_separator_def join_def join_gate_def leave_def
    set_mute_def set_custom_notifications_def set_pinned_def set_fold_state_def
  by (intro keeps_intros keeps_member_reads keeps_member_stmts keeps_member_event keeps_upsert_join)+

end

text \<open>Whatever the channel verbs keep by their contract, the member verbs keep by theirs.\<close>

sublocale channel_invariant \<subseteq> seats: member_invariant I
proof unfold_locales
  show "I (d\<lparr>channel_members := map f (channel_members d)\<rparr>)"
    if "I d" "\<And>r. seat_key (f r) = seat_key r \<and> seen_moves d (mbr_seen_message_id r) (mbr_seen_message_id (f r))" for d f
    using that by (intro members_kept) (simp_all add: comp_def)
qed (auto intro: outbox_kept member_insert)

text \<open>\<open>seen_forward d0\<close>: the messages of \<open>d0\<close> are unchanged, every membership row of \<open>d0\<close> is still there with
  its seat, and its seen pointer stands or has moved to a later message.\<close>

definition seen_forward :: "db \<Rightarrow> db \<Rightarrow> bool" where
  "seen_forward d0 d \<longleftrightarrow> messages d = messages d0 \<and>
     (\<forall>r\<in>set (channel_members d0). \<exists>r'\<in>set (channel_members d). seat_key r' = seat_key r \<and>
        seen_moves d0 (mbr_seen_message_id r) (mbr_seen_message_id r'))"

lemma later_message_iff:
  "later_message d n s \<longleftrightarrow> s = None \<or>
     (\<exists>o' a b. s = Some o' \<and> message_date d n = Some a \<and> message_date d o' = Some b \<and> b < a)"
  by (simp add: later_message_def split: option.split)

lemma seen_moves_trans: "seen_moves d s s' \<Longrightarrow> seen_moves d s' s'' \<Longrightarrow> seen_moves d s s''"
  unfolding seen_moves_def later_message_iff by force

lemma seen_moves_cong: "messages d = messages d0 \<Longrightarrow> seen_moves d = seen_moves d0"
  by (simp add: seen_moves_def fun_eq_iff later_message_def message_date_def cong: option.case_cong)

interpretation forward: member_invariant "seen_forward d0" for d0
proof unfold_locales
  show "seen_forward d0 d'" if "insert_member (new_member k h i p) d = Inr (u, d')" "seen_forward d0 d" for k h i p d u d'
    using that by (auto simp: seen_forward_def dest!: insert_member_Inr)
  show "seen_forward d0 (d\<lparr>channel_members := map f (channel_members d)\<rparr>)"
    if i: "seen_forward d0 d" and
      f: "\<And>r. seat_key (f r) = seat_key r \<and> seen_moves d (mbr_seen_message_id r) (mbr_seen_message_id (f r))" for d f
  proof -
    have m: "messages d = messages d0" using i by (simp add: seen_forward_def)
    have "\<exists>r'\<in>set (channel_members d). seat_key (f r') = seat_key r \<and>
        seen_moves d0 (mbr_seen_message_id r) (mbr_seen_message_id (f r'))" if "r \<in> set (channel_members d0)" for r
      using i that f unfolding seen_forward_def seen_moves_cong [OF m] by (metis seen_moves_trans)
    with m show ?thesis by (simp add: seen_forward_def)
  qed
qed (simp add: seen_forward_def)

text \<open>C16: every member verb, in every run, keeps the unique seats and references of the memberships, loses no
  membership row, and never moves a read pointer to a message that is not later than the one it stood at.\<close>

theorem member_verbs_invariant:
  "keeps channel_schema (mark_as_read c i j) \<and> keeps channel_schema (mark_fetched c i j) \<and>
   keeps channel_schema (set_new_message_separator c i j) \<and> keeps channel_schema (join c i) \<and>
   keeps channel_schema (leave c i) \<and> keeps channel_schema (set_mute c i t b) \<and>
   keeps channel_schema (set_custom_notifications c i s) \<and> keeps channel_schema (set_pinned c i b) \<and>
   keeps channel_schema (set_fold_state c i s) \<and>
   keeps (seen_forward d0) (mark_as_read c i j) \<and> keeps (seen_forward d0) (mark_fetched c i j) \<and>
   keeps (seen_forward d0) (set_new_message_separator c i j) \<and> keeps (seen_forward d0) (join c i) \<and>
   keeps (seen_forward d0) (leave c i) \<and> keeps (seen_forward d0) (set_mute c i t b) \<and>
   keeps (seen_forward d0) (set_custom_notifications c i s) \<and> keeps (seen_forward d0) (set_pinned c i b) \<and>
   keeps (seen_forward d0) (set_fold_state c i s)"
  by (intro conjI channel_schema.seats.keeps_member_verbs forward.keeps_member_verbs)

section \<open>Reading\<close>

lemma find_seat:
  "find (seat c i) ms = None \<longleftrightarrow> (\<forall>r\<in>set ms. \<not> seat c i r)"
  "find (seat c i) ms = Some r \<Longrightarrow> r \<in> set ms \<and> seat c i r"
  by (auto simp: find_None_iff dest: find_SomeD)

lemma member_id_locked_Inr:
  assumes "member_id_locked c i l d = Inr (m, d')"
  shows "d' = d \<and> (m = None \<longrightarrow> (\<forall>r\<in>set (channel_members d). \<not> seat c i r \<or> l (mbr_id r))) \<and>
    (\<forall>k. m = Some k \<longrightarrow> (\<exists>r\<in>set (channel_members d). mbr_id r = k \<and> seat c i r))"
  using assms unfolding member_id_locked_def
  by (cases "find (\<lambda>r. seat c i r \<and> \<not> l (mbr_id r)) (channel_members d)")
    (auto simp: find_None_iff dest: find_SomeD)

lemma as_claimed_member_InrE:
  assumes "as_claimed_member c i f v w = (Inr x, w')"
  obtains r w1 where "r \<in> set (channel_members (db w))" and "seat c i r" and "db w1 = db w"
    and "tx_step w w1" and "f (mbr_id r) v w1 = (Inr x, w')"
proof -
  from assms obtain m w1 where 1: "lift MbDb (stmt_locked (member_id_locked c i)) v w = (Inr m, w1)" and
    2: "(case m of None \<Rightarrow> fail (NotMember c) | Some k \<Rightarrow> f k) v w1 = (Inr x, w')"
    unfolding as_claimed_member_def by (rule bindA_InrE)
  from 2 obtain k where k: "m = Some k" "f k v w1 = (Inr x, w')" by (cases m) (auto elim: fail_InrE)
  from 1 obtain l where "member_id_locked c i l (db w) = Inr (m, db w1)" "tx_step w w1"
    by (elim lift_InrE stmt_locked_InrE) (rule that)
  moreover note member_id_locked_Inr [OF this(1)]
  ultimately show ?thesis using k that by blast
qed

lemma as_member_InrE:
  assumes "as_member c i f v w = (Inr x, w')"
  obtains r w1 where "r \<in> set (channel_members (db w))" and "seat c i r" and "db w1 = db w"
    and "tx_step w w1" and "f (mbr_id r) v w1 = (Inr x, w')"
proof -
  from assms obtain m w1 where 1: "lift MbDb (stmt (reading (member_id c i))) v w = (Inr m, w1)" and
    2: "(case m of None \<Rightarrow> fail (NotMember c) | Some k \<Rightarrow> f k) v w1 = (Inr x, w')"
    unfolding as_member_def by (rule bindA_InrE)
  from 2 obtain k where k: "m = Some k" "f k v w1 = (Inr x, w')" by (cases m) (auto elim: fail_InrE)
  from 1 have s: "m = member_id c i (db w)" "db w1 = db w" "tx_step w w1" by (auto elim: reading_stmt_InrE)
  with k(1) obtain r where "find (seat c i) (channel_members (db w)) = Some r" "k = mbr_id r"
    by (auto simp: member_id_def)
  with find_seat(2) k(2) s(2,3) that show ?thesis by blast
qed

lemma straight_member_reads:
  "(\<And>m. straight (f m)) \<Longrightarrow> straight (as_member c i f)"
  "(\<And>m. straight (f m)) \<Longrightarrow> straight (as_claimed_member c i f)"
  "straight (member_event a b c' e g)"
  unfolding as_member_def as_claimed_member_def member_event_def by (intro straight_intros; simp)+

lemma member_event_Inr:
  assumes "member_event et m c mt pl v w = (Inr u, w')"
  shows "\<exists>ev. db w' = (db w)\<lparr>outbox := outbox (db w) @ [ev]\<rparr> \<and> tx_step w w' \<and> event_type ev = et \<and>
    event_channel ev = Some (discuss_channel (uuid_text v) c)"
  using assms by (auto simp: member_event_def bindA_ask elim!: lift_InrE stage_bus_event_InrE)

text \<open>The row after an advance of the read pointer.\<close>

definition read_up_to :: "uuid \<Rightarrow> uuid \<Rightarrow> time \<Rightarrow> member_row \<Rightarrow> member_row" where
  "read_up_to m j now r = (if mbr_id r = m
     then r\<lparr>mbr_seen_message_id := Some j, mbr_message_unread_counter := 0, mbr_unread_counter := 0,
            mbr_last_seen_dt := Some now\<rparr>
     else r)"

lemma map_read_up_to:
  assumes "distinct (map mbr_id ms)" and "r \<in> set ms" and "later_message d j (mbr_seen_message_id r)"
  shows "map (\<lambda>q. if mbr_id q = mbr_id r \<and> later_message d j (mbr_seen_message_id q)
      then q\<lparr>mbr_seen_message_id := Some j, mbr_message_unread_counter := 0, mbr_unread_counter := 0,
             mbr_last_seen_dt := Some now\<rparr>
      else q) ms = map (read_up_to (mbr_id r) j now) ms"
proof (rule map_cong)
  fix q assume "q \<in> set ms"
  then have "mbr_id q = mbr_id r \<Longrightarrow> q = r" using assms(1,2) by (simp add: distinct_map inj_on_def)
  with assms(3) show "(if mbr_id q = mbr_id r \<and> later_message d j (mbr_seen_message_id q)
      then q\<lparr>mbr_seen_message_id := Some j, mbr_message_unread_counter := 0, mbr_unread_counter := 0,
             mbr_last_seen_dt := Some now\<rparr>
      else q) = read_up_to (mbr_id r) j now q" by (auto simp: read_up_to_def)
qed simp

lemma advance_seen_Inr:
  assumes "advance_seen (mbr_id r) j now d = Inr (b, d')" and "distinct (map mbr_id (channel_members d))"
    and "r \<in> set (channel_members d)"
  shows "(b \<longleftrightarrow> later_message d j (mbr_seen_message_id r)) \<and> (\<not> b \<longrightarrow> d' = d) \<and>
    (b \<longrightarrow> j \<in> set (map msg_id (messages d)) \<and>
       d' = d\<lparr>channel_members := map (read_up_to (mbr_id r) j now) (channel_members d)\<rparr>)"
proof -
  let ?p = "\<lambda>q. mbr_id q = mbr_id r \<and> later_message d j (mbr_seen_message_id q)"
  have one: "q = r" if "q \<in> set (channel_members d)" "mbr_id q = mbr_id r" for q
    using assms(2,3) that by (simp add: distinct_map inj_on_def)
  note u = update_members_Inr [OF assms(1) [unfolded advance_seen_def]]
  have b: "b \<longleftrightarrow> later_message d j (mbr_seen_message_id r)" using u one assms(3) by blast
  moreover have "d' = d" if "\<not> b"
    using assms(1) that update_members_False unfolding advance_seen_def by blast
  moreover have "j \<in> set (map msg_id (messages d))" if b
    using assms(1) that b assms(3)
    by (auto simp: advance_seen_def update_members_def message_fk_def list_ex_iff split: if_splits)
  moreover have "d' = d\<lparr>channel_members := map (read_up_to (mbr_id r) j now) (channel_members d)\<rparr>" if b
    using u map_read_up_to [OF assms(2,3)] b that by simp
  ultimately show ?thesis by blast
qed

definition seen_event :: "uuid \<Rightarrow> uuid \<Rightarrow> uuid \<Rightarrow> (db, 'o, MemberError, unit) act" where
  "seen_event c j m = member_event ''MemberSeenAdvanced'' m c ''discuss.channel.member/seen''
     (\<lambda>U. JObject [(''channel_id'', JString (U c)), (''member_id'', JString (U m)),
                    (''seen_message_id'', JString (U j))])"

lemma mark_as_read_Inr:
  assumes "mark_as_read c i j v w = (Inr b, w')"
  shows "\<exists>r\<in>set (channel_members (db w)). \<exists>now d2. seat c i r \<and>
    advance_seen (mbr_id r) j now (db w) = Inr (b, d2) \<and>
    (if b then \<exists>ev. db w' = d2\<lparr>outbox := outbox d2 @ [ev]\<rparr> \<and> event_type ev = ''MemberSeenAdvanced'' \<and>
          event_channel ev = Some (discuss_channel (uuid_text v) c) else db w' = d2)"
proof -
  let ?body = "as_claimed_member c i (\<lambda>m.
       bindA (lift MbDb (stmt_now (advance_seen m j))) (\<lambda>advanced.
       bindA (if advanced then seen_event c j m else ret ()) (\<lambda>_. ret advanced)))"
  have st: "straight ?body" unfolding seen_event_def by (intro straight_member_reads straight_intros)
  from assms obtain w0 where "?body v (begin_tx v w) = (Inr b, w0)" and e: "db w' = db w0"
    unfolding mark_as_read_def seen_event_def [symmetric] by (rule in_tx_straight [OF _ st])
  then obtain r w1 where r: "r \<in> set (channel_members (db w))" "seat c i r" "db w1 = db w" and
    f: "bindA (lift MbDb (stmt_now (advance_seen (mbr_id r) j))) (\<lambda>advanced.
       bindA (if advanced then seen_event c j (mbr_id r) else ret ()) (\<lambda>_. ret advanced)) v w1 = (Inr b, w0)"
    by (auto elim: as_claimed_member_InrE)
  from f obtain w2 u where s: "stmt_now (advance_seen (mbr_id r) j) v w1 = (Inr b, w2)" and
    n: "(if b then seen_event c j (mbr_id r) else ret ()) v w2 = (Inr u, w0)"
    by (elim bindA_InrE lift_InrE ret_InrE) (simp only: that)
  from s have "advance_seen (mbr_id r) j (tx_start w1) (db w) = Inr (b, db w2)"
    unfolding r(3) [symmetric] by (rule stmt_now_InrE)
  moreover have "if b then \<exists>ev. db w' = (db w2)\<lparr>outbox := outbox (db w2) @ [ev]\<rparr> \<and>
      event_type ev = ''MemberSeenAdvanced'' \<and> event_channel ev = Some (discuss_channel (uuid_text v) c)
      else db w' = db w2"
    using n e by (cases b) (auto simp: seen_event_def ret_def dest!: member_event_Inr)
  ultimately show ?thesis using r by blast
qed

text \<open>Marking as read needs a live membership.  It reports whether the message is later than the one the
  pointer stood at (or is the first), and then the pointer stands at that existing message, the unread
  counters are zero and one event announces it on the channel; otherwise nothing is written.\<close>

lemma mark_as_read_effect:
  assumes "mark_as_read c i j v w = (Inr b, w')" and "channel_schema (db w)"
  shows "\<exists>r\<in>set (channel_members (db w)). seat c i r \<and>
    (b \<longleftrightarrow> later_message (db w) j (mbr_seen_message_id r)) \<and> (\<not> b \<longrightarrow> db w' = db w) \<and>
    (b \<longrightarrow> j \<in> set (map msg_id (messages (db w))) \<and>
      (\<exists>now ev. db w' = (db w)\<lparr>channel_members := map (read_up_to (mbr_id r) j now) (channel_members (db w)),
         outbox := outbox (db w) @ [ev]\<rparr> \<and> event_type ev = ''MemberSeenAdvanced'' \<and>
         event_channel ev = Some (discuss_channel (uuid_text v) c)))"
proof -
  from mark_as_read_Inr [OF assms(1)] obtain r now d2 where r: "r \<in> set (channel_members (db w))" "seat c i r" and
    s: "advance_seen (mbr_id r) j now (db w) = Inr (b, d2)" and
    n: "if b then \<exists>ev. db w' = d2\<lparr>outbox := outbox d2 @ [ev]\<rparr> \<and> event_type ev = ''MemberSeenAdvanced'' \<and>
          event_channel ev = Some (discuss_channel (uuid_text v) c) else db w' = d2"
    by (elim exE conjE bexE) (rule that)
  have "distinct (map mbr_id (channel_members (db w)))" using assms(2) by (simp add: channel_schema_def)
  note a = advance_seen_Inr [OF s this r(1)]
  show ?thesis
  proof (cases b)
    case False
    with a n r show ?thesis by auto
  next
    case True
    with a n have "\<exists>ev. db w' = (db w)\<lparr>channel_members := map (read_up_to (mbr_id r) j now) (channel_members (db w)),
         outbox := outbox (db w) @ [ev]\<rparr> \<and> event_type ev = ''MemberSeenAdvanced'' \<and>
         event_channel ev = Some (discuss_channel (uuid_text v) c)" by auto
    with a True r show ?thesis by blast
  qed
qed

text \<open>While another transaction holds the membership row, marking as read or fetched does not skip
  silently: the caller, a member, is told \<open>NotMember\<close>, and nothing is written.\<close>

lemma mark_as_read_locked_errs:
  assumes "quiet v" and "\<forall>n. \<forall>r\<in>set (channel_members (db w)). seat c i r \<longrightarrow> row_locked v n (mbr_id r)"
  shows "fst (mark_as_read c i j v w) = Inl (NotMember c) \<and> db (snd (mark_as_read c i j v w)) = db w \<and>
    fst (mark_fetched c i j v w) = Inl (NotMember c) \<and> db (snd (mark_fetched c i j v w)) = db w"
proof -
  have "member_id_locked c i (row_locked v n) (db w) = Inr (None, db w)" for n
    using assms(2) by (auto simp: member_id_locked_def find_None_iff)
  then have "fst (in_tx MbDb (as_claimed_member c i f) v w) = Inl (NotMember c) \<and>
      db (snd (in_tx MbDb (as_claimed_member c i f) v w)) = db w" for f :: "uuid \<Rightarrow> (db, 'a, MemberError, bool) act"
    using assms(1)
    by (simp add: in_tx_def as_claimed_member_def bindA_def lift_def stmt_locked_def stmt_def stmt_now_def
        quiet_def fail_def)
  then show ?thesis unfolding mark_as_read_def mark_fetched_def by blast
qed

section \<open>Joining and leaving\<close>

lemma new_member_simps [simp]:
  "mbr_id (new_member k c i p) = k" "mbr_channel_id (new_member k c i p) = c"
  "mbr_guest_id (new_member k c i p) = identity_guest_id i" "same_seat c i (new_member k c i p)"
  "\<not> mbr_deleted (new_member k c i p)"
  by (simp_all add: new_member_def same_seat_def)

lemma seat_clash_iff:
  assumes "channel_schema d" and "r \<in> set (channel_members d)"
  shows "seat_clash (new_member k c i p) r \<longleftrightarrow> same_seat c i r"
  using assms by (cases i) (auto simp: channel_schema_def seat_clash_def same_seat_def new_member_def)

lemma seat_unique:
  assumes "channel_schema d" and "r \<in> set (channel_members d)" and "r' \<in> set (channel_members d)"
    and "same_seat c i r" and "same_seat c i r'"
  shows "r = r'"
proof -
  let ?key = "\<lambda>m. (mbr_channel_id m, mbr_guest_id m)" and ?gs = "filter (\<lambda>m. mbr_guest_id m \<noteq> None) (channel_members d)"
  have "r = r'" if "mbr_partner_id r = None"
  proof -
    from assms that have "r \<in> set ?gs" "r' \<in> set ?gs" "?key r = ?key r'"
      by (auto simp: channel_schema_def same_seat_def)
    moreover have "distinct (map ?key ?gs)" using assms(1) by (simp add: channel_schema_def guest_seats_def)
    ultimately show ?thesis by (simp add: distinct_map inj_on_def)
  qed
  moreover have "r = r'" if "mbr_partner_id r \<noteq> None"
    using assms that by (intro partner_seat_unique [OF assms(1-3)]) (auto simp: same_seat_def)
  ultimately show ?thesis by blast
qed

text \<open>What the insertion of a join does: the removed seat is revived; else a row is added, unless the seat or
  the row id is taken.\<close>

definition removed_seat :: "uuid \<Rightarrow> MessagingIdentity \<Rightarrow> member_row \<Rightarrow> bool" where
  "removed_seat c i r \<longleftrightarrow> same_seat c i r \<and> mbr_deleted r"

definition revive :: "uuid \<Rightarrow> MessagingIdentity \<Rightarrow> member_row \<Rightarrow> member_row" where
  "revive c i r = (if removed_seat c i r then r\<lparr>mbr_deleted := False\<rparr> else r)"

lemma resurrect_Inr:
  assumes "resurrect_member c i d = Inr (b, d')"
  shows "(b \<longleftrightarrow> (\<exists>r\<in>set (channel_members d). removed_seat c i r)) \<and>
    d' = (if b then d\<lparr>channel_members := map (revive c i) (channel_members d)\<rparr> else d)"
proof -
  have m: "map (\<lambda>r. if same_seat c i r \<and> mbr_deleted r then r\<lparr>mbr_deleted := False\<rparr> else r) ms = map (revive c i) ms" for ms
    by (simp add: revive_def removed_seat_def)
  note u = update_members_Inr [OF assms [unfolded resurrect_member_def], unfolded m]
  moreover have "d' = d" if "\<not> b"
    using assms that update_members_False unfolding resurrect_member_def by blast
  ultimately show ?thesis by (simp add: removed_seat_def)
qed

lemma insert_unless_seat:
  assumes "insert_member_unless (new_member k c i p) d = Inr (b, d')" and "channel_schema d"
  shows "if b then d' = d\<lparr>channel_members := channel_members d @ [new_member k c i p]\<rparr> \<and>
           (\<forall>r\<in>set (channel_members d). \<not> same_seat c i r)
    else d' = d \<and> ((\<exists>r\<in>set (channel_members d). same_seat c i r) \<or> k \<in> set (map mbr_id (channel_members d)))"
proof (cases b)
  case True
  with insert_member_unless_Inr [OF assms(1)] have m: "insert_member (new_member k c i p) d = Inr ((), d')" by simp
  with True insert_member_Inr [OF m] seat_clash_iff [OF assms(2)] show ?thesis by auto
next
  case False
  with insert_member_unless_Inr [OF assms(1)] have "d' = d" by simp
  moreover have "(\<exists>r\<in>set (channel_members d). same_seat c i r) \<or> k \<in> set (map mbr_id (channel_members d))"
  proof (rule ccontr)
    assume "\<not> ?thesis"
    then have "insert_member (new_member k c i p) d \<noteq> Inl (UniqueViolation q)" for q
      using seat_clash_iff [OF assms(2)]
      by (auto simp: insert_member_def member_fk_def list_ex_iff split: option.splits if_splits)
    then show False using assms(1) False by (auto simp: insert_member_unless_def split: sum.splits db_error.splits)
  qed
  ultimately show ?thesis using False by simp
qed

lemma upsert_join_Inr:
  assumes "upsert_join c i v w = (Inr b, w')" and "channel_schema (db w)"
  shows "if \<exists>r\<in>set (channel_members (db w)). removed_seat c i r
    then b \<and> db w' = (db w)\<lparr>channel_members := map (revive c i) (channel_members (db w))\<rparr>
    else \<exists>n. if b then db w' = (db w)\<lparr>channel_members := channel_members (db w) @ [new_member (rng v n) c i False]\<rparr> \<and>
                (\<forall>r\<in>set (channel_members (db w)). \<not> same_seat c i r)
           else db w' = db w \<and> ((\<exists>r\<in>set (channel_members (db w)). same_seat c i r) \<or>
              rng v n \<in> set (map mbr_id (channel_members (db w))))"
proof -
  from assms(1) obtain n w1 where 1: "stmt (resurrect_member c i) v w = (Inr n, w1)" and
    2: "(if n then ret True else bindA new_v4 (\<lambda>k. stmt (insert_member_unless (new_member k c i False)))) v w1 = (Inr b, w')"
    unfolding upsert_join_def by (rule bindA_InrE)
  from 1 have r: "resurrect_member c i (db w) = Inr (n, db w1)" by (auto elim: stmt_InrE)
  show ?thesis
  proof (cases n)
    case True
    with 2 resurrect_Inr [OF r] show ?thesis by (auto simp: ret_def)
  next
    case False
    with resurrect_Inr [OF r] have no: "\<not> (\<exists>r\<in>set (channel_members (db w)). removed_seat c i r)" and w1: "db w1 = db w"
      by simp_all
    from 2 False obtain k w2 where n: "new_v4 v w1 = ((Inr k :: db_error + uuid), w2)" and
      i: "stmt (insert_member_unless (new_member k c i False)) v w2 = (Inr b, w')"
      by (auto elim: bindA_InrE)
    from n have k: "db w2 = db w" "k = rng v (tick w1)" using w1 by (auto elim: new_v4_InrE)
    from i have "insert_member_unless (new_member k c i False) (db w) = Inr (b, db w')"
      unfolding k(1) [symmetric] by (rule stmt_InrE)
    from insert_unless_seat [OF this assms(2)] no k(2) show ?thesis by (simp only: if_False) blast
  qed
qed

lemma join_gate_Inr:
  assumes "join_gate c i v w = (Inr u, w')"
  shows "db w' = db w \<and>
    ((\<exists>r\<in>set (channel_members (db w)). seat c i r) \<or> open_to_join c (db w) = Some True)"
proof -
  from assms obtain m w1 where 1: "lift MbDb (stmt (reading (member_id c i))) v w = (Inr m, w1)" and
    2: "(if m \<noteq> None then ret () else
       bindA (lift MbDb (stmt (reading (open_to_join c)))) (\<lambda>o'.
       if o' \<noteq> Some True then fail (NotJoinable c) else ret ())) v w1 = (Inr u, w')"
    unfolding join_gate_def by (rule bindA_InrE)
  from 1 have s: "m = member_id c i (db w)" "db w1 = db w" by (auto elim: reading_stmt_InrE)
  show ?thesis
  proof (cases "m = None")
    case True
    with 2 obtain o' w2 where "lift MbDb (stmt (reading (open_to_join c))) v w1 = (Inr o', w2)"
      "(if o' \<noteq> Some True then fail (NotJoinable c) else ret ()) v w2 = (Inr u, w')"
      by (auto elim: bindA_InrE)
    with s show ?thesis by (auto elim!: reading_stmt_InrE ret_InrE split: if_splits simp: fail_def)
  next
    case False
    with 2 have "w' = w1" by (simp add: ret_def)
    moreover from False s(1) have "\<exists>r\<in>set (channel_members (db w)). seat c i r"
      by (cases "find (seat c i) (channel_members (db w))") (auto simp: member_id_def dest: find_seat(2))
    ultimately show ?thesis using s by simp
  qed
qed

definition joined_event :: "uuid \<Rightarrow> MessagingIdentity \<Rightarrow> (db, 'o, MemberError, unit) act" where
  "joined_event c i = member_event ''MemberJoined'' c c ''discuss.channel/member_added''
     (\<lambda>U. JObject [(''channel_id'', JString (U c)), (''partner_id'', jpartner U i)])"

lemma join_Inr:
  fixes w :: "(db, 'o) world"
  assumes "join c i v w = (Inr b, w')" and "channel_schema (db w)"
  shows "\<exists>(w1 :: (db, 'o) world) w2. db w1 = db w \<and> upsert_join c i v w1 = (Inr b, w2) \<and>
    ((\<exists>r\<in>set (channel_members (db w)). seat c i r) \<or> open_to_join c (db w) = Some True) \<and>
    (if b then \<exists>ev. db w' = (db w2)\<lparr>outbox := outbox (db w2) @ [ev]\<rparr> \<and> event_type ev = ''MemberJoined'' \<and>
          event_channel ev = Some (discuss_channel (uuid_text v) c) else db w' = db w2)"
proof -
  let ?body = "bindA (join_gate c i) (\<lambda>_.
       bindA (lift MbDb (upsert_join c i)) (\<lambda>joined.
       bindA (if joined then joined_event c i else ret ()) (\<lambda>_. ret joined)))"
  have st: "straight ?body" unfolding join_gate_def upsert_join_def joined_event_def
    by (intro straight_intros straight_member_reads)
  from assms(1) obtain w0 where "?body v (begin_tx v w) = (Inr b, w0)" and e: "db w' = db w0"
    unfolding join_def joined_event_def [symmetric] by (rule in_tx_straight [OF _ st])
  then obtain u1 w1 w2 u where 1: "join_gate c i v (begin_tx v w) = (Inr u1, w1)" and
    2: "upsert_join c i v w1 = (Inr b, w2)" and 3: "(if b then joined_event c i else ret ()) v w2 = (Inr u, w0)"
    by (elim bindA_InrE lift_InrE ret_InrE) (simp only: that)
  have "if b then \<exists>ev. db w' = (db w2)\<lparr>outbox := outbox (db w2) @ [ev]\<rparr> \<and> event_type ev = ''MemberJoined'' \<and>
          event_channel ev = Some (discuss_channel (uuid_text v) c) else db w' = db w2"
    using 3 e by (cases b) (auto simp: joined_event_def ret_def dest!: member_event_Inr)
  with join_gate_Inr [OF 1, simplified] 2 show ?thesis by (intro exI [of _ w1] exI [of _ w2] conjI) simp_all
qed

text \<open>C17: joining.  A join that succeeds reports whether the identity was not yet a live member; then the
  channel was a live public channel, a removed membership came back or one row was added, and one event
  announces it; a member's join changes nothing.  After it the identity is a live member.\<close>

theorem join_effect:
  fixes w :: "(db, 'o) world"
  assumes "join c i v w = (Inr b, w')" and "channel_schema (db w)"
    and "\<forall>n. rng v n \<notin> set (map mbr_id (channel_members (db w)))"
  shows "(\<exists>r\<in>set (channel_members (db w')). seat c i r) \<and>
    (b \<longleftrightarrow> (\<forall>r\<in>set (channel_members (db w)). \<not> seat c i r)) \<and> (\<not> b \<longrightarrow> db w' = db w) \<and>
    (b \<longrightarrow> open_to_join c (db w) = Some True \<and>
      (\<exists>ev. outbox (db w') = outbox (db w) @ [ev] \<and> event_type ev = ''MemberJoined'' \<and>
         event_channel ev = Some (discuss_channel (uuid_text v) c)))"
proof -
  let ?ms = "channel_members (db w)"
  from join_Inr [OF assms(1,2)] obtain w1 w2 :: "(db, 'o) world" where w1: "db w1 = db w" and 2: "upsert_join c i v w1 = (Inr b, w2)" and
    gate: "(\<exists>r\<in>set ?ms. seat c i r) \<or> open_to_join c (db w) = Some True" and
    ev: "if b then \<exists>ev. db w' = (db w2)\<lparr>outbox := outbox (db w2) @ [ev]\<rparr> \<and> event_type ev = ''MemberJoined'' \<and>
          event_channel ev = Some (discuss_channel (uuid_text v) c) else db w' = db w2"
    by (elim exE conjE) (rule that)
  note up = upsert_join_Inr [OF 2, unfolded w1, OF assms(2)]
  show ?thesis
  proof (cases "\<exists>r\<in>set ?ms. removed_seat c i r")
    case True
    then obtain r where r: "r \<in> set ?ms" "same_seat c i r" "mbr_deleted r" by (auto simp: removed_seat_def)
    have "seat c i (revive c i r)" using r by (simp add: revive_def removed_seat_def seat_def same_seat_def)
    moreover from True up have "b" "db w2 = (db w)\<lparr>channel_members := map (revive c i) ?ms\<rparr>" by simp_all
    moreover have "\<forall>q\<in>set ?ms. \<not> seat c i q" using seat_unique [OF assms(2) _ r(1) _ r(2)] r(3) by (auto simp: seat_def)
    ultimately show ?thesis using ev gate r(1) by auto
  next
    case False
    with up obtain n where n: "if b then db w2 = (db w)\<lparr>channel_members := ?ms @ [new_member (rng v n) c i False]\<rparr> \<and>
                (\<forall>r\<in>set ?ms. \<not> same_seat c i r)
           else db w2 = db w \<and> ((\<exists>r\<in>set ?ms. same_seat c i r) \<or> rng v n \<in> set (map mbr_id ?ms))"
      by (simp only: if_False) (elim exE)
    with False assms(3) ev gate show ?thesis by (cases b) (auto simp: seat_def removed_seat_def)
  qed
qed

lemma join_needs_door:
  assumes "join c i v w = (Inr b, w')"
  shows "(\<exists>r\<in>set (channel_members (db w)). seat c i r) \<or> open_to_join c (db w) = Some True"
proof -
  from in_tx_Inr [OF assms [unfolded join_def]] obtain u w1 where "join_gate c i v (begin_tx v w) = (Inr u, w1)"
    by (auto elim: bindA_InrE)
  from join_gate_Inr [OF this] show ?thesis by simp
qed

definition left_event :: "uuid \<Rightarrow> MessagingIdentity \<Rightarrow> uuid \<Rightarrow> (db, 'o, MemberError, unit) act" where
  "left_event c i m = member_event ''MemberLeft'' m c ''discuss.channel/member_removed''
     (\<lambda>U. JObject [(''channel_id'', JString (U c)), (''partner_id'', jpartner U i)])"

lemma leave_Inr:
  assumes "leave c i v w = (Inr b, w')"
  shows "\<exists>r d2. r \<in> set (channel_members (db w)) \<and> seat c i r \<and> soft_delete_member (mbr_id r) (db w) = Inr (b, d2) \<and>
    (b \<longrightarrow> (\<exists>ev. db w' = d2\<lparr>outbox := outbox d2 @ [ev]\<rparr> \<and> event_type ev = ''MemberLeft'' \<and>
          event_channel ev = Some (discuss_channel (uuid_text v) c)))"
proof -
  let ?body = "as_member c i (\<lambda>m.
       bindA (lift MbDb (stmt (soft_delete_member m))) (\<lambda>left.
       bindA (if left then left_event c i m else ret ()) (\<lambda>_. ret left)))"
  have st: "straight ?body" unfolding left_event_def by (intro straight_member_reads straight_intros)
  from assms(1) obtain w0 where "?body v (begin_tx v w) = (Inr b, w0)" and e: "db w' = db w0"
    unfolding leave_def left_event_def [symmetric] by (rule in_tx_straight [OF _ st])
  then obtain r w1 where r: "r \<in> set (channel_members (db w))" "seat c i r" "db w1 = db w" and
    f: "bindA (lift MbDb (stmt (soft_delete_member (mbr_id r)))) (\<lambda>left.
       bindA (if left then left_event c i (mbr_id r) else ret ()) (\<lambda>_. ret left)) v w1 = (Inr b, w0)"
    by (auto elim: as_member_InrE)
  from f obtain w2 u where s: "stmt (soft_delete_member (mbr_id r)) v w1 = (Inr b, w2)" and
    n: "(if b then left_event c i (mbr_id r) else ret ()) v w2 = (Inr u, w0)"
    by (elim bindA_InrE lift_InrE ret_InrE) (simp only: that)
  from s have "soft_delete_member (mbr_id r) (db w) = Inr (b, db w2)"
    unfolding r(3) [symmetric] by (rule stmt_InrE)
  moreover have "b \<longrightarrow> (\<exists>ev. db w' = (db w2)\<lparr>outbox := outbox (db w2) @ [ev]\<rparr> \<and>
      event_type ev = ''MemberLeft'' \<and> event_channel ev = Some (discuss_channel (uuid_text v) c))"
    using n e by (auto simp: left_event_def dest!: member_event_Inr)
  ultimately show ?thesis using r(1,2) by blast
qed

text \<open>The members without a seat.\<close>

definition removed :: "uuid \<Rightarrow> MessagingIdentity \<Rightarrow> member_row \<Rightarrow> member_row" where
  "removed c i r = (if same_seat c i r then r\<lparr>mbr_deleted := True\<rparr> else r)"

lemma removed_unseated: "\<not> seat c i (removed c i r)"
  by (simp add: removed_def seat_def)

lemma soft_delete_Inr:
  assumes "soft_delete_member (mbr_id r) d = Inr (b, d')" and "channel_schema d"
    and "r \<in> set (channel_members d)" and "seat c i r"
  shows "b \<and> d' = d\<lparr>channel_members := map (removed c i) (channel_members d)\<rparr>"
proof -
  have one: "mbr_id q = mbr_id r \<longleftrightarrow> same_seat c i q" if "q \<in> set (channel_members d)" for q
  proof
    assume "mbr_id q = mbr_id r"
    then have "q = r" using assms(2,3) that by (simp add: channel_schema_def distinct_map inj_on_def)
    with assms(4) show "same_seat c i q" by (simp add: seat_def)
  next
    assume "same_seat c i q"
    then show "mbr_id q = mbr_id r"
      using seat_unique [OF assms(2) that assms(3), of c i] assms(4) by (auto simp: seat_def)
  qed
  have "\<not> mbr_deleted q" if "q \<in> set (channel_members d)" "same_seat c i q" for q
    using seat_unique [OF assms(2) that(1) assms(3) that(2)] assms(4) by (simp add: seat_def)
  with update_members_Inr [OF assms(1) [unfolded soft_delete_member_def]] one assms(3,4)
  show ?thesis by (auto simp: seat_def removed_def intro!: map_cong)
qed

text \<open>Leaving is final without an open door.  A leave that succeeds removes exactly the caller's live
  membership, keeping its row, and one event announces it; afterwards no live membership is left, and a
  join of a channel that is not an open public one fails.\<close>

lemma leave_effect:
  assumes "leave c i v w = (Inr b, w')" and "channel_schema (db w)"
  shows "b \<and> (\<exists>ev. db w' = (db w)\<lparr>channel_members := map (removed c i) (channel_members (db w)),
        outbox := outbox (db w) @ [ev]\<rparr> \<and> event_type ev = ''MemberLeft'' \<and>
        event_channel ev = Some (discuss_channel (uuid_text v) c)) \<and>
    (\<forall>r\<in>set (channel_members (db w')). \<not> seat c i r) \<and>
    (open_to_join c (db w) \<noteq> Some True \<longrightarrow> db w2 = db w' \<longrightarrow> (\<forall>b' w3. join c i v' w2 \<noteq> (Inr b', w3)))"
proof -
  from leave_Inr [OF assms(1)] obtain r d2 where r: "r \<in> set (channel_members (db w))" "seat c i r" and
    s: "soft_delete_member (mbr_id r) (db w) = Inr (b, d2)" and
    ev: "b \<longrightarrow> (\<exists>ev. db w' = d2\<lparr>outbox := outbox d2 @ [ev]\<rparr> \<and> event_type ev = ''MemberLeft'' \<and>
          event_channel ev = Some (discuss_channel (uuid_text v) c))" by (elim exE conjE) (rule that)
  note d = soft_delete_Inr [OF s assms(2) r]
  with ev obtain ev where w': "db w' = (db w)\<lparr>channel_members := map (removed c i) (channel_members (db w)),
        outbox := outbox (db w) @ [ev]\<rparr>" "event_type ev = ''MemberLeft''"
        "event_channel ev = Some (discuss_channel (uuid_text v) c)" by auto
  have none: "\<forall>r\<in>set (channel_members (db w')). \<not> seat c i r" unfolding w' by (simp add: removed_unseated)
  have "join c i v' w2' \<noteq> (Inr b', w3)"
    if "open_to_join c (db w) \<noteq> Some True" "db w2' = db w'" for w2' :: "(db, 'b) world" and b' w3
  proof
    assume j: "join c i v' w2' = (Inr b', w3)"
    have "open_to_join c (db w2') = open_to_join c (db w)" by (simp add: that(2) w' open_to_join_def)
    with that none join_needs_door [OF j] show False by simp
  qed
  with d w' none show ?thesis by blast
qed

section \<open>The properties at concrete inputs\<close>

text \<open>A public channel with its creator, partner 4, and two messages.\<close>

definition room_world :: "(db, nat) world" where
  "room_world = world_of (db (snd (channel_create \<lparr>cc_name = Some ''general'', cc_channel_type = ''channel'',
     cc_uuid = None, cc_default_access_mode = Some ''public'', cc_email_send = False,
     cc_creator = Some (User 4)\<rparr> plain_env (world_of empty_db :: (db, nat) world)))
     \<lparr>messages := [(sample_message 2)\<lparr>msg_date := 5\<rparr>, (sample_message 3)\<lparr>msg_date := 9\<rparr>]\<rparr>)"

lemma room_schema: "channel_schema (db room_world)"
  by code_simp

lemma room_ids: "\<forall>n. rng late_env n \<notin> set (map mbr_id (channel_members (db room_world)))"
proof -
  have "list_all (\<lambda>m. mbr_id m < 100) (channel_members (db room_world))" by code_simp
  then show ?thesis by (auto simp: list_all_iff late_env_def)
qed

definition read_run :: "(MemberError + bool) \<times> (db, nat) world" where
  "read_run = mark_as_read 21 (User 4) 3 plain_env room_world"

definition reread_run :: "(MemberError + bool) \<times> (db, nat) world" where
  "reread_run = mark_as_read 21 (User 4) 2 plain_env (snd read_run)"

definition join_run :: "(MemberError + bool) \<times> (db, nat) world" where
  "join_run = join 21 (User 7) late_env room_world"

definition leave_run :: "(MemberError + bool) \<times> (db, nat) world" where
  "leave_run = leave 21 (User 4) plain_env room_world"

lemma member_runs: "fst read_run = Inr True" "fst reread_run = Inr False" "fst join_run = Inr True" "fst leave_run = Inr True"
  by code_simp+

lemma read_schema: "channel_schema (db (snd read_run))"
proof -
  have k: "keeps channel_schema (mark_as_read 21 (User 4) 3 :: (db, nat, _, _) act)"
    by (rule channel_schema.seats.keeps_member_verbs)
  show ?thesis using keepsD [OF k room_schema] by (simp add: read_run_def)
qed

text \<open>Reading the older message 2 after message 3 leaves the pointer at 3.\<close>

lemma mark_as_read_effect_witness:
  "\<exists>r\<in>set (channel_members (db (snd read_run))). seat 21 (User 4) r \<and>
     \<not> later_message (db (snd read_run)) 2 (mbr_seen_message_id r) \<and> db (snd reread_run) = db (snd read_run)"
proof -
  have "mark_as_read 21 (User 4) 2 plain_env (snd read_run) = (Inr False, snd reread_run)"
    using member_runs(2) by (simp add: reread_run_def prod_eq_iff)
  from mark_as_read_effect [OF this read_schema] show ?thesis by blast
qed

lemma mark_as_read_locked_errs_witness:
  "find (seat 21 (User 4)) (channel_members (db room_world)) \<noteq> None \<and>
   fst (mark_as_read 21 (User 4) 3 (plain_env\<lparr>row_locked := (\<lambda>_ _. True)\<rparr>) room_world) = Inl (NotMember 21)"
proof (rule conjI)
  show "find (seat 21 (User 4)) (channel_members (db room_world)) \<noteq> None" by code_simp
  show "fst (mark_as_read 21 (User 4) 3 (plain_env\<lparr>row_locked := (\<lambda>_ _. True)\<rparr>) room_world) = Inl (NotMember 21)"
    using mark_as_read_locked_errs [of "plain_env\<lparr>row_locked := (\<lambda>_ _. True)\<rparr>" room_world 21 "User 4" 3]
    by (simp add: quiet_def plain_env_def)
qed

lemma join_effect_witness:
  "\<exists>r\<in>set (channel_members (db (snd join_run))). seat 21 (User 7) r"
proof -
  have "join 21 (User 7) late_env room_world = (Inr True, snd join_run)"
    using member_runs(3) by (simp add: join_run_def prod_eq_iff)
  from join_effect [OF this room_schema room_ids] show ?thesis by blast
qed

definition private_world :: "(db, nat) world" where
  "private_world = world_of ((db room_world)\<lparr>channels := map (\<lambda>c. c\<lparr>chn_access_mode := Some ''private''\<rparr>) (channels (db room_world))\<rparr>)"

lemma leave_effect_witness:
  "\<forall>b' w3. join 21 (User 4) plain_env (snd (leave 21 (User 4) plain_env private_world)) \<noteq> (Inr b', w3)"
proof -
  have "fst (leave 21 (User 4) plain_env private_world) = Inr True" by code_simp
  then have 1: "leave 21 (User 4) plain_env private_world = (Inr True, snd (leave 21 (User 4) plain_env private_world))"
    by (simp add: prod_eq_iff)
  have 2: "channel_schema (db private_world)" by code_simp
  have 3: "open_to_join 21 (db private_world) \<noteq> Some True" by code_simp
  from leave_effect [OF 1 2] 3 show ?thesis by blast
qed

end
