(* ===== verification/Activities.thy ===== *)
theory Activities
  imports MessageDelivery
begin

text \<open>
  Scheduled activities: \<open>src/application/service/activity_write_service.rs\<close> and
  \<open>src/infrastructure/persistence/activity_repository.rs\<close>.  An activity is archived by being done, which
  posts a note on the document and, for a triggering type, schedules the next activity of the row's
  spec.  Calendar dates are \<open>chrono::NaiveDate\<close>, written as year, month and day; what the code asks of
  chrono and of the uuid parser is the parameter \<open>crates\<close>.
\<close>

section \<open>Dates\<close>

text \<open>\<open>overflow_checks\<close> is the build profile: with it an overflowing \<open>i32\<close> operation panics, without it wraps.
  \<open>add_days\<close> is \<open>date + Duration\<close>, \<open>None\<close> when it panics because the result is out of range.\<close>

record crates =
  overflow_checks :: bool
  add_days :: "naive_date \<Rightarrow> int \<Rightarrow> naive_date option"
  from_ymd_opt :: "int \<Rightarrow> nat \<Rightarrow> nat \<Rightarrow> naive_date option"
  date_text :: "naive_date \<Rightarrow> string"
  parse_date :: "string \<Rightarrow> naive_date option"
  parse_uuid :: "string \<Rightarrow> uuid option"

definition i32 :: "crates \<Rightarrow> int \<Rightarrow> int option" where
  "i32 K x =
     (if - (2 ^ 31) \<le> x \<and> x < 2 ^ 31 then Some x
      else if overflow_checks K then None
      else Some ((x + 2 ^ 31) mod 2 ^ 32 - 2 ^ 31))"

fun date_less :: "naive_date \<Rightarrow> naive_date \<Rightarrow> bool" where
  "date_less (y, m, d) (y', m', d') \<longleftrightarrow> y < y' \<or> y = y' \<and> (m < m' \<or> m = m' \<and> d < d')"

definition days_in_month :: "int \<Rightarrow> nat \<Rightarrow> nat" where
  "days_in_month year month =
     (if month \<in> {1, 3, 5, 7, 8, 10, 12} then 31
      else if month \<in> {4, 6, 9, 11} then 30
      else if month = 2 then
        (if (year mod 4 = 0 \<and> year mod 100 \<noteq> 0) \<or> year mod 400 = 0 then 29 else 28)
      else 31)"

fun shift_months :: "crates \<Rightarrow> naive_date \<Rightarrow> int \<Rightarrow> naive_date option" where
  "shift_months K (y, m, d) n =
     Option.bind (i32 K (y * 12)) (\<lambda>a.
     Option.bind (i32 K (a + int m)) (\<lambda>b.
     Option.bind (i32 K (b - 1)) (\<lambda>c.
     Option.bind (i32 K (c + n)) (\<lambda>months.
       let year = months div 12;
           month = nat (months mod 12 + 1);
           day = min d (days_in_month year month)
       in Some (case from_ymd_opt K year month day of Some r \<Rightarrow> r | None \<Rightarrow> (y, m, d))))))"

definition shift_date :: "crates \<Rightarrow> naive_date \<Rightarrow> int \<Rightarrow> string option \<Rightarrow> naive_date option" where
  "shift_date K base n unit =
     (if unit = Some ''weeks'' then add_days K base (7 * n)
      else if unit = Some ''months'' then shift_months K base n
      else add_days K base n)"

section \<open>The repository\<close>

record ActivityRow =
  ar_id :: uuid
  ar_res_model :: string
  ar_res_id :: uuid
  ar_activity_type_id :: "uuid option"
  ar_summary :: "string option"
  ar_note :: "string option"
  ar_user_id :: uuid
  ar_date_deadline :: naive_date
  ar_active :: bool
  ar_chained_next_activity :: "json option"

record ActivityTypeRow =
  at_id :: uuid
  at_chaining_type :: string
  at_delay_count :: int
  at_delay_unit :: string
  at_delay_from :: string
  at_default_user_id :: "uuid option"
  at_active :: bool

record PlanTemplateRow =
  pt_id :: uuid
  pt_activity_type_id :: uuid
  pt_summary :: "string option"
  pt_note :: "string option"
  pt_delay_count :: "int option"
  pt_delay_unit :: "string option"
  pt_user_id :: "uuid option"

record NewActivityRow =
  na_id :: uuid
  na_res_model :: string
  na_res_id :: uuid
  na_activity_type_id :: "uuid option"
  na_summary :: "string option"
  na_note :: "string option"
  na_date_deadline :: naive_date
  na_user_id :: uuid
  na_requested_user_id :: "uuid option"
  na_state :: string
  na_chained_next_activity :: "json option"

text \<open>PostgreSQL's \<open>date\<close> starts on 24 November 4714 BC.\<close>

definition insert_activity :: "NewActivityRow \<Rightarrow> db \<Rightarrow> db_error + uuid \<times> db" where
  "insert_activity a d =
     (case pg_enum_cast MailActivityState_show MailActivityState_from_str (na_state a) of
        None \<Rightarrow> Inl (BadCast (na_state a))
      | Some st \<Rightarrow>
          if date_less (na_date_deadline a) (-4713, 11, 24) then Inl (BadCast ''date out of range'')
          else if \<not> btrim_nonempty (na_res_model a)
            then Inl (CheckViolation ''ck_mail_activities_res_model_required__required'')
          else if na_id a \<in> set (map act_id (activities d)) then Inl (UniqueViolation ''mail_activities_pkey'')
          else if \<not> fk_ok (map aty_id (activity_types d)) (na_activity_type_id a)
            then Inl (ForeignKeyViolation ''fk_mail_activities_activity_type_id'')
          else Inr (na_id a, d\<lparr>activities := activities d @
            [\<lparr>act_id = na_id a, act_res_model = na_res_model a, act_res_id = na_res_id a,
              act_type_id = na_activity_type_id a, act_summary = na_summary a, act_note = na_note a,
              act_date_deadline = na_date_deadline a, act_user_id = na_user_id a,
              act_requested_user_id = na_requested_user_id a, act_state = st, act_active = True,
              act_chained_next = na_chained_next_activity a\<rparr>]\<rparr>))"

definition activity_view :: "activity_row \<Rightarrow> ActivityRow" where
  "activity_view r =
     \<lparr>ar_id = act_id r, ar_res_model = act_res_model r, ar_res_id = act_res_id r,
      ar_activity_type_id = act_type_id r, ar_summary = act_summary r, ar_note = act_note r,
      ar_user_id = act_user_id r, ar_date_deadline = act_date_deadline r, ar_active = act_active r,
      ar_chained_next_activity = act_chained_next r\<rparr>"

definition find_activity :: "uuid \<Rightarrow> db \<Rightarrow> ActivityRow option" where
  "find_activity i d = map_option activity_view (find (\<lambda>r. act_id r = i) (activities d))"

definition find_activity_type :: "uuid \<Rightarrow> db \<Rightarrow> ActivityTypeRow option" where
  "find_activity_type i d = map_option (\<lambda>r.
     \<lparr>at_id = aty_id r, at_chaining_type = MailActivityChainingType_show (aty_chaining_type r),
      at_delay_count = aty_delay_count r, at_delay_unit = MailActivityDelayUnit_show (aty_delay_unit r),
      at_delay_from = MailActivityDelayFrom_show (aty_delay_from r),
      at_default_user_id = aty_default_user_id r, at_active = aty_active r\<rparr>)
     (find (\<lambda>r. aty_id r = i) (activity_types d))"

definition archive_row :: "uuid \<Rightarrow> activity_row \<Rightarrow> activity_row" where
  "archive_row i r = (if act_id r = i \<and> act_active r
     then r\<lparr>act_active := False, act_state := MailActivityState.Done\<rparr> else r)"

definition archive_done :: "uuid \<Rightarrow> db \<Rightarrow> db_error + bool \<times> db" where
  "archive_done i d =
     Inr (list_ex (\<lambda>r. act_id r = i \<and> act_active r) (activities d),
          d\<lparr>activities := map (archive_row i) (activities d)\<rparr>)"

definition project_state :: "uuid \<Rightarrow> naive_date \<Rightarrow> db \<Rightarrow> db_error + unit \<times> db" where
  "project_state i today d =
     Inr ((), d\<lparr>activities := map (\<lambda>r. if act_id r = i \<and> act_active r
       then r\<lparr>act_state := (if date_less (act_date_deadline r) today then MailActivityState.Overdue
              else if act_date_deadline r = today then MailActivityState.Today
              else MailActivityState.Planned)\<rparr> else r) (activities d)\<rparr>)"

definition list_plan_templates :: "uuid \<Rightarrow> db \<Rightarrow> PlanTemplateRow list" where
  "list_plan_templates plan_id d =
     map (\<lambda>r. \<lparr>pt_id = ptl_id r, pt_activity_type_id = ptl_activity_type_id r, pt_summary = ptl_summary r,
       pt_note = ptl_note r, pt_delay_count = ptl_delay_count r,
       pt_delay_unit = map_option MailActivityDelayUnit_show (ptl_delay_unit r), pt_user_id = ptl_user_id r\<rparr>)
     (sort_key ptl_id (filter (\<lambda>r. ptl_plan_id r = plan_id \<and> \<not> ptl_deleted r) (plan_templates d)))"

section \<open>The service\<close>

datatype ActivityError = AcDb db_error | AcInvalid string | AcNotFound string

record ScheduleActivity =
  sa_res_model :: string
  sa_res_id :: uuid
  sa_activity_type_id :: "uuid option"
  sa_summary :: "string option"
  sa_note :: "string option"
  sa_date_deadline :: naive_date
  sa_user_id :: uuid
  sa_requested_user_id :: "uuid option"
  sa_chained_next_activity :: "json option"

definition projected_state :: "naive_date \<Rightarrow> naive_date \<Rightarrow> string" where
  "projected_state deadline today =
     (if date_less deadline today then ''overdue''
      else if deadline = today then ''today''
      else ''planned'')"

definition new_activity :: "uuid \<Rightarrow> ScheduleActivity \<Rightarrow> naive_date \<Rightarrow> NewActivityRow" where
  "new_activity i cmd today =
     \<lparr>na_id = i, na_res_model = sa_res_model cmd, na_res_id = sa_res_id cmd,
      na_activity_type_id = sa_activity_type_id cmd, na_summary = sa_summary cmd, na_note = sa_note cmd,
      na_date_deadline = sa_date_deadline cmd, na_user_id = sa_user_id cmd,
      na_requested_user_id = sa_requested_user_id cmd,
      na_state = projected_state (sa_date_deadline cmd) today,
      na_chained_next_activity = sa_chained_next_activity cmd\<rparr>"

definition activity_insert :: "ScheduleActivity \<Rightarrow> naive_date \<Rightarrow> (db, 'o, ActivityError, uuid) act" where
  "activity_insert cmd today =
     bindA new_v4 (\<lambda>i.
     bindA (lift AcDb (stmt (insert_activity (new_activity i cmd today)))) (\<lambda>_. ret i))"

definition activity_event ::
  "string \<Rightarrow> uuid \<Rightarrow> string \<Rightarrow> uuid \<Rightarrow> ((uuid \<Rightarrow> string) \<Rightarrow> json) \<Rightarrow> (db, 'o, ActivityError, unit) act" where
  "activity_event et i model res pl =
     bindA (ask uuid_text) (\<lambda>U.
     lift AcDb (stage_bus_event et ''MailActivity'' (U i) (record_channel U model res) et (pl U)))"

definition scheduled_payload ::
  "crates \<Rightarrow> uuid \<Rightarrow> (string \<times> uuid) option \<Rightarrow> ScheduleActivity \<Rightarrow> (uuid \<Rightarrow> string) \<Rightarrow> json" where
  "scheduled_payload K i origin cmd U =
     JObject ([(''activity_id'', JString (U i))] @
       (case origin of None \<Rightarrow> [] | Some (k, o') \<Rightarrow> [(k, JString (U o'))]) @
       [(''res_model'', JString (sa_res_model cmd)), (''res_id'', JString (U (sa_res_id cmd))),
        (''user_id'', JString (U (sa_user_id cmd))),
        (''date_deadline'', JString (date_text K (sa_date_deadline cmd)))])"

text \<open>Insert an activity and announce it; \<open>origin\<close> is the plan or the activity it comes from.\<close>

definition schedule_one ::
  "crates \<Rightarrow> (string \<times> uuid) option \<Rightarrow> ScheduleActivity \<Rightarrow> naive_date \<Rightarrow> (db, 'o, ActivityError, uuid) act" where
  "schedule_one K origin cmd today =
     bindA (activity_insert cmd today) (\<lambda>i.
     bindA (activity_event ''ActivityScheduled'' i (sa_res_model cmd) (sa_res_id cmd)
              (scheduled_payload K i origin cmd)) (\<lambda>_. ret i))"

definition schedule :: "crates \<Rightarrow> ScheduleActivity \<Rightarrow> naive_date \<Rightarrow> (db, 'o, ActivityError, uuid) act" where
  "schedule K cmd today =
     (if blank (sa_res_model cmd) then fail (AcInvalid ''res_model is required'')
      else in_tx AcDb (schedule_one K None cmd today))"

definition template_command :: "string \<Rightarrow> uuid \<Rightarrow> uuid \<Rightarrow> naive_date \<Rightarrow> PlanTemplateRow \<Rightarrow> ScheduleActivity" where
  "template_command model res fallback deadline t =
     \<lparr>sa_res_model = model, sa_res_id = res, sa_activity_type_id = Some (pt_activity_type_id t),
      sa_summary = pt_summary t, sa_note = pt_note t, sa_date_deadline = deadline,
      sa_user_id = (case pt_user_id t of Some u \<Rightarrow> u | None \<Rightarrow> fallback),
      sa_requested_user_id = None, sa_chained_next_activity = None\<rparr>"

definition template_deadline :: "crates \<Rightarrow> naive_date \<Rightarrow> PlanTemplateRow \<Rightarrow> naive_date option" where
  "template_deadline K today t =
     shift_date K today (case pt_delay_count t of Some n \<Rightarrow> n | None \<Rightarrow> 0) (pt_delay_unit t)"

definition plan_step ::
  "crates \<Rightarrow> uuid \<Rightarrow> string \<Rightarrow> uuid \<Rightarrow> uuid \<Rightarrow> naive_date \<Rightarrow> uuid list \<Rightarrow> PlanTemplateRow \<Rightarrow>
   (db, 'o, ActivityError, uuid list) act" where
  "plan_step K plan_id model res fallback today ids t =
     (case template_deadline K today t of
        None \<Rightarrow> fail (AcDb (Panicked ''date shift''))
      | Some deadline \<Rightarrow>
          bindA (schedule_one K (Some (''plan_id'', plan_id)) (template_command model res fallback deadline t) deadline)
            (\<lambda>i. ret (ids @ [i])))"

definition plan_tx ::
  "crates \<Rightarrow> uuid \<Rightarrow> string \<Rightarrow> uuid \<Rightarrow> uuid \<Rightarrow> naive_date \<Rightarrow> (db, 'o, ActivityError, uuid list) act" where
  "plan_tx K plan_id model res fallback today =
     bindA (lift AcDb (stmt (reading (list_plan_templates plan_id)))) (\<lambda>ts.
     if ts = []
     then bindA (ask uuid_text) (\<lambda>U. fail (AcNotFound (''plan '' @ U plan_id @ '' has no templates'')))
     else foldA (plan_step K plan_id model res fallback today) [] ts)"

definition schedule_plan ::
  "crates \<Rightarrow> uuid \<Rightarrow> string \<Rightarrow> uuid \<Rightarrow> uuid \<Rightarrow> naive_date \<Rightarrow> (db, 'o, ActivityError, uuid list) act" where
  "schedule_plan K plan_id model res fallback today = in_tx AcDb (plan_tx K plan_id model res fallback today)"

text \<open>\<open>spec[k].as_str()\<close>: indexing anything but an object gives \<open>Null\<close>.\<close>

definition spec_str :: "json \<Rightarrow> string \<Rightarrow> string option" where
  "spec_str spec k =
     (case spec of
        JObject es \<Rightarrow> (case map_of es k of Some (JString s) \<Rightarrow> Some s | _ \<Rightarrow> None)
      | _ \<Rightarrow> None)"

definition chained_command :: "crates \<Rightarrow> ActivityRow \<Rightarrow> json \<Rightarrow> naive_date \<Rightarrow> ScheduleActivity" where
  "chained_command K a spec today =
     \<lparr>sa_res_model = ar_res_model a, sa_res_id = ar_res_id a,
      sa_activity_type_id = Option.bind (spec_str spec ''activity_type_id'') (parse_uuid K),
      sa_summary = spec_str spec ''summary'', sa_note = spec_str spec ''note'',
      sa_date_deadline = (case Option.bind (spec_str spec ''date_deadline'') (parse_date K) of
        Some d \<Rightarrow> d | None \<Rightarrow> today),
      sa_user_id = (case Option.bind (spec_str spec ''user_id'') (parse_uuid K) of
        Some u \<Rightarrow> u | None \<Rightarrow> ar_user_id a),
      sa_requested_user_id = None, sa_chained_next_activity = None\<rparr>"

definition create_chained_next :: "crates \<Rightarrow> ActivityRow \<Rightarrow> naive_date \<Rightarrow> (db, 'o, ActivityError, uuid option) act" where
  "create_chained_next K a today =
     (case ar_chained_next_activity a of
        None \<Rightarrow> ret None
      | Some spec \<Rightarrow>
          bindA (schedule_one K (Some (''chained_from'', ar_id a)) (chained_command K a spec today) today)
            (\<lambda>i. ret (Some i)))"

definition done_note :: "uuid \<Rightarrow> ActivityRow \<Rightarrow> string option \<Rightarrow> NewMailMessageRow" where
  "done_note i a feedback =
     \<lparr>nm_id = i, nm_subject = None, nm_body = (case feedback of Some f \<Rightarrow> f | None \<Rightarrow> ''Activity done''),
      nm_message_type = ''notification'', nm_subtype_id = None, nm_is_internal = True,
      nm_author_id = Some (ar_user_id a), nm_author_guest_id = None, nm_email_from = None,
      nm_message_id = None, nm_reply_to = None, nm_model = Some (ar_res_model a),
      nm_res_id = Some (ar_res_id a), nm_record_name = None\<rparr>"

definition note_event :: "ActivityRow \<Rightarrow> uuid \<Rightarrow> uuid \<Rightarrow> (db, 'o, ActivityError, unit) act" where
  "note_event a activity_id i =
     bindA (ask uuid_text) (\<lambda>U.
     lift AcDb (stage_bus_event ''MessagePosted'' ''MailMessage'' (U i)
       (record_channel U (ar_res_model a) (ar_res_id a)) ''MessagePosted''
       (JObject [(''message_id'', JString (U i)), (''message_type'', JString ''notification''),
                 (''model'', JString (ar_res_model a)), (''res_id'', JString (U (ar_res_id a))),
                 (''activity_done'', JString (U activity_id))])))"

definition post_note :: "ActivityRow \<Rightarrow> uuid \<Rightarrow> string option \<Rightarrow> (db, 'o, ActivityError, unit) act" where
  "post_note a activity_id feedback =
     bindA new_v4 (\<lambda>i.
     bindA (lift AcDb (stmt_now (insert_mail_message (done_note i a feedback)))) (\<lambda>_.
     note_event a activity_id i))"

definition chain_next :: "crates \<Rightarrow> ActivityRow \<Rightarrow> naive_date \<Rightarrow> (db, 'o, ActivityError, uuid option) act" where
  "chain_next K a today =
     (case ar_activity_type_id a of
        None \<Rightarrow> ret None
      | Some type_id \<Rightarrow>
          bindA (lift AcDb (stmt (reading (find_activity_type type_id)))) (\<lambda>ty.
          case ty of
            None \<Rightarrow> ret None
          | Some atype \<Rightarrow>
              if at_chaining_type atype = ''trigger'' then create_chained_next K a today else ret None))"

definition announce_done :: "ActivityRow \<Rightarrow> uuid \<Rightarrow> uuid option \<Rightarrow> (db, 'o, ActivityError, unit) act" where
  "announce_done a activity_id nxt =
     activity_event ''ActivityDone'' activity_id (ar_res_model a) (ar_res_id a)
       (\<lambda>U. JObject [(''activity_id'', JString (U activity_id)),
                      (''chained_next_activity_id'', jopt (\<lambda>i. JString (U i)) nxt)])"

definition done_pump :: "crates \<Rightarrow> ActivityRow \<Rightarrow> uuid \<Rightarrow> naive_date \<Rightarrow> (db, 'o, ActivityError, uuid option) act" where
  "done_pump K a activity_id today =
     bindA (chain_next K a today) (\<lambda>nxt.
     bindA (announce_done a activity_id nxt) (\<lambda>_. ret nxt))"

definition done_tx ::
  "crates \<Rightarrow> uuid \<Rightarrow> string option \<Rightarrow> naive_date \<Rightarrow> (db, 'o, ActivityError, bool \<times> uuid option) act" where
  "done_tx K activity_id feedback today =
     bindA (lift AcDb (stmt (reading (find_activity activity_id)))) (\<lambda>f.
     case f of
       None \<Rightarrow> bindA (ask uuid_text) (\<lambda>U. fail (AcNotFound (''activity '' @ U activity_id)))
     | Some a \<Rightarrow>
         bindA (post_note a activity_id feedback) (\<lambda>_.
         bindA (lift AcDb (stmt (archive_done activity_id))) (\<lambda>newly_done.
         if newly_done
         then bindA (done_pump K a activity_id today) (\<lambda>nxt. ret (True, nxt))
         else ret (False, None))))"

definition action_done ::
  "crates \<Rightarrow> uuid \<Rightarrow> string option \<Rightarrow> naive_date \<Rightarrow> (db, 'o, ActivityError, bool \<times> uuid option) act" where
  "action_done K activity_id feedback today = in_tx AcDb (done_tx K activity_id feedback today)"

section \<open>Months\<close>

fun valid_date :: "naive_date \<Rightarrow> bool" where
  "valid_date (y, m, d) \<longleftrightarrow> 1 \<le> m \<and> m \<le> 12 \<and> 1 \<le> d \<and> d \<le> days_in_month y m"

fun month_index :: "naive_date \<Rightarrow> int" where
  "month_index (y, m, d) = y * 12 + int m - 1"

definition chrono_year :: "int \<Rightarrow> bool" where
  "chrono_year y \<longleftrightarrow> - 262143 \<le> y \<and> y \<le> 262142"

text \<open>What chrono documents of \<open>from_ymd_opt\<close>.\<close>

definition ymd_documented :: "crates \<Rightarrow> bool" where
  "ymd_documented K \<longleftrightarrow>
     (\<forall>y m d. from_ymd_opt K y m d = (if chrono_year y \<and> valid_date (y, m, d) then Some (y, m, d) else None))"

lemma days_in_month_range: "28 \<le> days_in_month y m \<and> days_in_month y m \<le> 31"
  by (simp add: days_in_month_def)

lemma month_index_inverse:
  assumes "1 \<le> m" and "m \<le> 12"
  shows "month_index (y, m, d) div 12 = y" "nat (month_index (y, m, d) mod 12 + 1) = m"
proof -
  have "month_index (y, m, d) = (int m - 1) + y * 12" by simp
  moreover have "0 \<le> int m - 1" "int m - 1 < 12" using assms by linarith+
  ultimately have "month_index (y, m, d) div 12 = y" "month_index (y, m, d) mod 12 = int m - 1"
    by (simp_all only: div_mult_self1 mod_mult_self1 div_pos_pos_trivial mod_pos_pos_trivial)
  then show "month_index (y, m, d) div 12 = y" "nat (month_index (y, m, d) mod 12 + 1) = m" by simp_all
qed

lemma shift_months_run:
  assumes "ymd_documented K" and "valid_date (y, m, d)" and "chrono_year y" and "chrono_year ((month_index (y, m, d) + n) div 12)"
  shows "let t = month_index (y, m, d) + n; y' = t div 12; m' = nat (t mod 12 + 1) in
    shift_months K (y, m, d) n = Some (y', m', min d (days_in_month y' m')) \<and>
    valid_date (y', m', min d (days_in_month y' m')) \<and> month_index (y', m', min d (days_in_month y' m')) = t"
proof -
  let ?t = "month_index (y, m, d) + n"
  have t: "?t = 12 * (?t div 12) + ?t mod 12" "0 \<le> ?t mod 12" "?t mod 12 < 12" by simp_all
  have m: "1 \<le> m" "m \<le> 12" "1 \<le> d" using assms(2) by simp_all
  have r: "i32 K (y * 12) = Some (y * 12)" "i32 K (y * 12 + int m) = Some (y * 12 + int m)"
    "i32 K (y * 12 + int m - 1) = Some (y * 12 + int m - 1)" "i32 K (y * 12 + int m - 1 + n) = Some ?t"
    using assms(3,4) m t by (auto simp: i32_def chrono_year_def)
  have v: "valid_date (?t div 12, nat (?t mod 12 + 1), min d (days_in_month (?t div 12) (nat (?t mod 12 + 1))))"
    using t(2,3) m(3) days_in_month_range [of "?t div 12" "nat (?t mod 12 + 1)"] by (auto simp: min_def)
  have "month_index (?t div 12, nat (?t mod 12 + 1), x) = ?t" for x
    using t by simp
  with r v assms(1,4) show ?thesis by (simp add: Let_def ymd_documented_def)
qed

text \<open>C23: the month shift is the clamped one.  For a valid date and a target month chrono can represent, it
  lands in exactly the month \<open>n\<close> months away, on the same day or the last day of that month; shifting back
  returns to the month it came from, on the very same day when that is at most the 28th and never on a
  later one.\<close>

theorem shift_months_clamps:
  assumes "ymd_documented K" and "valid_date (y, m, d)" and "chrono_year y"
    and "chrono_year ((month_index (y, m, d) + n) div 12)"
  shows "\<exists>y' m' d' d''. shift_months K (y, m, d) n = Some (y', m', d') \<and> valid_date (y', m', d') \<and>
    month_index (y', m', d') = month_index (y, m, d) + n \<and> d' = min d (days_in_month y' m') \<and>
    shift_months K (y', m', d') (- n) = Some (y, m, d'') \<and> d'' = min d' (days_in_month y m) \<and>
    d'' \<le> d \<and> (d \<le> 28 \<longrightarrow> d'' = d)"
proof -
  let ?t = "month_index (y, m, d) + n"
  let ?y = "?t div 12" and ?m = "nat (?t mod 12 + 1)"
  let ?d = "min d (days_in_month ?y ?m)"
  note there = shift_months_run [OF assms, unfolded Let_def]
  then have v: "valid_date (?y, ?m, ?d)" and i: "month_index (?y, ?m, ?d) = ?t" by blast+
  have "1 \<le> m" "m \<le> 12" using assms(2) by simp_all
  note inv = month_index_inverse [OF this, of y d]
  have b: "month_index (?y, ?m, ?d) + - n = month_index (y, m, d)" using i by simp
  have "chrono_year ((month_index (?y, ?m, ?d) + - n) div 12)" unfolding b inv by (rule assms(3))
  from shift_months_run [OF assms(1) v assms(4) this, unfolded Let_def b inv]
  have "shift_months K (?y, ?m, ?d) (- n) = Some (y, m, min ?d (days_in_month y m))" by blast
  moreover have "min ?d (days_in_month y m) \<le> d" "d \<le> 28 \<longrightarrow> min ?d (days_in_month y m) = d"
    using days_in_month_range [of y m] days_in_month_range [of ?y ?m] by auto
  ultimately show ?thesis using there by blast
qed

section \<open>Done is archived\<close>

text \<open>What an invariant has to satisfy for the activity operations to keep it.\<close>

locale activity_invariant =
  fixes I :: "db \<Rightarrow> bool"
  assumes outbox_kept: "I d \<Longrightarrow> I (d\<lparr>outbox := o'\<rparr>)"
    and note_insert: "insert_mail_message (done_note i a f) now d = Inr (u, d') \<Longrightarrow> I d \<Longrightarrow> I d'"
    and activity_added: "insert_activity (new_activity i cmd today) d = Inr (j, d') \<Longrightarrow> I d \<Longrightarrow> I d'"
    and archived: "I d \<Longrightarrow> I (d\<lparr>activities := map (archive_row i) (activities d)\<rparr>)"
begin

lemma keeps_event: "keeps I (activity_event a i m r g)"
  unfolding activity_event_def by (intro keeps_intros keeps_stage_bus_event outbox_kept)

lemma keeps_schedule_one: "keeps I (schedule_one K z cmd today)"
  unfolding schedule_one_def activity_insert_def
  by (intro keeps_intros keeps_event keeps_stmt) (erule (1) activity_added [rotated])

lemma keeps_archive: "keeps I (stmt (archive_done i))"
  by (rule keeps_stmt) (auto simp: archive_done_def intro: archived)

lemma keeps_note: "keeps I (post_note a i f)"
  unfolding post_note_def note_event_def
  by (intro keeps_intros keeps_stage_bus_event outbox_kept keeps_stmt_now) (erule (1) note_insert [rotated])

lemma keeps_activity_verbs:
  "keeps I (schedule K cmd today)" "keeps I (schedule_plan K p model res u today)"
  "keeps I (action_done K i f today)"
  unfolding schedule_def schedule_plan_def plan_tx_def plan_step_def action_done_def done_tx_def done_pump_def
    chain_next_def create_chained_next_def announce_done_def
  by (intro keeps_intros keeps_schedule_one keeps_archive keeps_note keeps_event)+

end

definition done_archived :: "db \<Rightarrow> bool" where
  "done_archived d \<longleftrightarrow>
     (\<forall>a\<in>set (activities d). act_state a = MailActivityState.Done \<longleftrightarrow> \<not> act_active a)"

definition activity_schema :: "db \<Rightarrow> bool" where
  "activity_schema d \<longleftrightarrow> schema_ok d \<and> distinct (map act_id (activities d)) \<and>
     (\<forall>a\<in>set (activities d). fk_ok (map aty_id (activity_types d)) (act_type_id a) \<and> btrim_nonempty (act_res_model a))"

lemma insert_activity_Inr:
  assumes "insert_activity a d = Inr (j, d')"
  obtains st r where "MailActivityState_show st = na_state a" and "j = na_id a" and "na_id a \<notin> set (map act_id (activities d))"
    and "fk_ok (map aty_id (activity_types d)) (na_activity_type_id a)" and "btrim_nonempty (na_res_model a)"
    and "d' = d\<lparr>activities := activities d @ [r]\<rparr>"
    and "r = \<lparr>act_id = na_id a, act_res_model = na_res_model a, act_res_id = na_res_id a,
              act_type_id = na_activity_type_id a, act_summary = na_summary a, act_note = na_note a,
              act_date_deadline = na_date_deadline a, act_user_id = na_user_id a,
              act_requested_user_id = na_requested_user_id a, act_state = st, act_active = True,
              act_chained_next = na_chained_next_activity a\<rparr>"
  using assms unfolding insert_activity_def
  by (auto simp: mail_activity_state.cast_iff simp del: set_map split: option.splits if_splits)

interpretation done_archived: activity_invariant done_archived
proof unfold_locales
  show "done_archived d'" if "insert_mail_message (done_note i a f) now d = Inr (u, d')" "done_archived d"
    for i a f now d u d'
    using that by (elim insert_mail_message_Inr) (simp add: done_archived_def)
  show "done_archived d'" if "insert_activity (new_activity i cmd today) d = Inr (j, d')" "done_archived d"
    for i cmd today d j d'
  proof -
    from that(1) obtain st r where "MailActivityState_show st = projected_state (sa_date_deadline cmd) today"
      "d' = d\<lparr>activities := activities d @ [r]\<rparr>" "act_state r = st" "act_active r"
      by (rule insert_activity_Inr) (simp add: new_activity_def)
    moreover from this(1) have "st \<noteq> MailActivityState.Done" by (auto simp: projected_state_def split: if_splits)
    ultimately show ?thesis using that(2) by (simp add: done_archived_def)
  qed
  show "done_archived (d\<lparr>activities := map (archive_row i) (activities d)\<rparr>)" if "done_archived d" for d i
  proof -
    have "act_state (archive_row i a) = MailActivityState.Done \<longleftrightarrow> \<not> act_active (archive_row i a)"
      if "a \<in> set (activities d)" for a
      using \<open>done_archived d\<close> that by (simp add: done_archived_def archive_row_def)
    then show ?thesis by (simp add: done_archived_def)
  qed
qed (simp add: done_archived_def)

interpretation activity_schema: activity_invariant activity_schema
proof unfold_locales
  show "activity_schema d'" if "insert_mail_message (done_note i a f) now d = Inr (u, d')" "activity_schema d"
    for i a f now d u d'
  proof -
    from that have "schema_ok d'" unfolding activity_schema_def by (auto intro: schema_ok_insert_message)
    with that show ?thesis by (elim insert_mail_message_Inr) (simp add: activity_schema_def)
  qed
  show "activity_schema d'" if "insert_activity (new_activity i cmd today) d = Inr (j, d')" "activity_schema d"
    for i cmd today d j d'
    by (rule insert_activity_Inr [OF that(1)]) (use that(2) in \<open>auto simp: activity_schema_def schema_ok_def new_activity_def\<close>)
  show "activity_schema (d\<lparr>activities := map (archive_row i) (activities d)\<rparr>)" if "activity_schema d" for d i
  proof -
    have "act_id (archive_row i a) = act_id a" "act_type_id (archive_row i a) = act_type_id a"
      "act_res_model (archive_row i a) = act_res_model a" for a by (simp_all add: archive_row_def)
    with that show ?thesis by (simp add: activity_schema_def schema_ok_def comp_def)
  qed
qed (simp add: activity_schema_def)

text \<open>In every run of every activity operation an activity is in state done exactly when it is archived,
  and the keys, the reference to the type and the required model of the activities are kept.\<close>

lemma done_iff_archived:
  "keeps done_archived (schedule K cmd today) \<and> keeps done_archived (schedule_plan K p model res u today) \<and>
   keeps done_archived (action_done K i f today) \<and>
   keeps activity_schema (schedule K cmd today) \<and> keeps activity_schema (schedule_plan K p model res u today) \<and>
   keeps activity_schema (action_done K i f today)"
  by (intro conjI done_archived.keeps_activity_verbs activity_schema.keeps_activity_verbs)

section \<open>What the operations do\<close>

text \<open>\<open>scheduled K cmd today d d' i\<close>: exactly one activity, with the fields of the command and the projected
  state, and its event were added.\<close>

definition activity_of :: "uuid \<Rightarrow> ScheduleActivity \<Rightarrow> naive_date \<Rightarrow> activity_row \<Rightarrow> bool" where
  "activity_of i cmd today r \<longleftrightarrow> act_id r = i \<and> act_res_model r = sa_res_model cmd \<and> act_res_id r = sa_res_id cmd \<and>
     act_type_id r = sa_activity_type_id cmd \<and> act_user_id r = sa_user_id cmd \<and>
     act_date_deadline r = sa_date_deadline cmd \<and> act_active r \<and>
     MailActivityState_show (act_state r) = projected_state (sa_date_deadline cmd) today"

definition scheduled :: "ScheduleActivity \<Rightarrow> naive_date \<Rightarrow> db \<Rightarrow> db \<Rightarrow> uuid \<Rightarrow> bool" where
  "scheduled cmd today d d' i \<longleftrightarrow> (\<exists>r ev. activity_of i cmd today r \<and> i \<notin> set (map act_id (activities d)) \<and>
     d' = d\<lparr>activities := activities d @ [r], outbox := outbox d @ [ev]\<rparr> \<and> event_type ev = ''ActivityScheduled'')"

lemma straight_activity [straight_intros]:
  "straight (schedule_one K z cmd today)" "straight (post_note a i f)" "straight (activity_event e i m r g)"
  unfolding schedule_one_def activity_insert_def activity_event_def post_note_def note_event_def
  by (intro straight_intros)+

lemma activity_event_Inr:
  assumes "activity_event et i m r pl v w = (Inr u, w')"
  shows "tx_step w w' \<and> (\<exists>ev. db w' = (db w)\<lparr>outbox := outbox (db w) @ [ev]\<rparr> \<and> event_type ev = et \<and>
    event_channel ev = Some (record_channel (uuid_text v) m r))"
  using assms by (auto simp: activity_event_def bindA_ask elim!: lift_InrE stage_bus_event_InrE)

lemma insert_new_activity:
  assumes "insert_activity (new_activity i cmd today) d = Inr (j, d')"
  shows "\<exists>r. d' = d\<lparr>activities := activities d @ [r]\<rparr> \<and> activity_of i cmd today r \<and> i \<notin> set (map act_id (activities d))"
proof (rule insert_activity_Inr [OF assms], intro exI conjI)
  fix r assume "d' = d\<lparr>activities := activities d @ [r]\<rparr>"
  then show "d' = d\<lparr>activities := activities d @ [r]\<rparr>" .
qed (simp_all add: new_activity_def activity_of_def)

lemma schedule_one_Inr:
  assumes "schedule_one K z cmd today v w = (Inr i, w')"
  shows "scheduled cmd today (db w) (db w') i"
proof -
  from assms obtain w1 u where 1: "activity_insert cmd today v w = (Inr i, w1)" and
    2: "activity_event ''ActivityScheduled'' i (sa_res_model cmd) (sa_res_id cmd) (scheduled_payload K i z cmd) v w1 = (Inr u, w')"
    unfolding schedule_one_def by (elim bindA_InrE ret_InrE) (simp only: that)
  from 1 obtain w0 j where "db w0 = db w" and s: "stmt (insert_activity (new_activity i cmd today)) v w0 = (Inr j, w1)"
    unfolding activity_insert_def by (elim bindA_InrE new_v4_InrE lift_InrE ret_InrE) (simp only: that)
  from s have "insert_activity (new_activity i cmd today) (db w) = Inr (j, db w1)"
    using \<open>db w0 = db w\<close> by (auto elim: stmt_InrE)
  from insert_new_activity [OF this] obtain r where "db w1 = (db w)\<lparr>activities := activities (db w) @ [r]\<rparr>"
    "activity_of i cmd today r" "i \<notin> set (map act_id (activities (db w)))" by (elim exE conjE) (rule that)
  note r = this
  from activity_event_Inr [OF 2] obtain ev where "db w' = (db w1)\<lparr>outbox := outbox (db w1) @ [ev]\<rparr>"
    "event_type ev = ''ActivityScheduled''" by blast
  with r show ?thesis unfolding scheduled_def by (intro exI [of _ r] exI [of _ ev]) simp
qed

text \<open>\<open>planned\<close>: the activity a template of a plan turns into.\<close>

definition planned :: "crates \<Rightarrow> string \<Rightarrow> uuid \<Rightarrow> uuid \<Rightarrow> naive_date \<Rightarrow> PlanTemplateRow \<Rightarrow> activity_row \<Rightarrow> bool" where
  "planned K model res fallback today t r \<longleftrightarrow> act_active r \<and> act_res_model r = model \<and> act_res_id r = res \<and>
     act_type_id r = Some (pt_activity_type_id t) \<and>
     act_user_id r = (case pt_user_id t of Some u \<Rightarrow> u | None \<Rightarrow> fallback) \<and>
     template_deadline K today t = Some (act_date_deadline r)"

lemma plan_step_Inr:
  assumes "plan_step K p model res u today ids t v w = (Inr ids', w')"
  shows "\<exists>r ev. planned K model res u today t r \<and> act_state r = MailActivityState.Today \<and> ids' = ids @ [act_id r] \<and>
    db w' = (db w)\<lparr>activities := activities (db w) @ [r], outbox := outbox (db w) @ [ev]\<rparr> \<and>
    event_type ev = ''ActivityScheduled''"
proof -
  from assms obtain dl where dl: "template_deadline K today t = Some dl"
    by (cases "template_deadline K today t") (auto simp: plan_step_def fail_def)
  with assms obtain i where "schedule_one K (Some (''plan_id'', p)) (template_command model res u dl t) dl v w = (Inr i, w')"
    and ids: "ids' = ids @ [i]"
    unfolding plan_step_def by (simp only: option.case) (elim bindA_InrE ret_InrE, simp only: that)
  from schedule_one_Inr [OF this(1)] obtain r ev where r: "activity_of i (template_command model res u dl t) dl r"
    "db w' = (db w)\<lparr>activities := activities (db w) @ [r], outbox := outbox (db w) @ [ev]\<rparr>"
    "event_type ev = ''ActivityScheduled''" unfolding scheduled_def by blast
  have "\<not> date_less dl dl" by (cases dl) simp
  with r(1) have "act_state r = MailActivityState.Today"
    by (cases "act_state r") (simp_all add: activity_of_def projected_state_def template_command_def)
  moreover from r(1) dl have "planned K model res u today t r" "i = act_id r"
    by (simp_all add: activity_of_def planned_def template_command_def)
  ultimately show ?thesis using r(2,3) ids by blast
qed

lemma foldA_plan_step:
  "foldA (plan_step K p model res u today) ids ts v w = (Inr ids', w') \<Longrightarrow>
   \<exists>rs evs. list_all2 (planned K model res u today) ts rs \<and> (\<forall>r\<in>set rs. act_state r = MailActivityState.Today) \<and>
     ids' = ids @ map act_id rs \<and> length evs = length ts \<and> (\<forall>ev\<in>set evs. event_type ev = ''ActivityScheduled'') \<and>
     db w' = (db w)\<lparr>activities := activities (db w) @ rs, outbox := outbox (db w) @ evs\<rparr>"
proof (induction ts arbitrary: ids w)
  case Nil
  then show ?case by (intro exI [of _ "[]"]) (simp add: ret_def)
next
  case (Cons t ts)
  then obtain ids1 w1 where 1: "plan_step K p model res u today ids t v w = (Inr ids1, w1)" and
    2: "foldA (plan_step K p model res u today) ids1 ts v w1 = (Inr ids', w')" by (auto elim: bindA_InrE)
  from plan_step_Inr [OF 1] obtain r ev where r: "planned K model res u today t r" "act_state r = MailActivityState.Today"
    "ids1 = ids @ [act_id r]" "event_type ev = ''ActivityScheduled''" and
    w1: "db w1 = (db w)\<lparr>activities := activities (db w) @ [r], outbox := outbox (db w) @ [ev]\<rparr>" by blast
  from Cons.IH [OF 2] obtain rs evs where rs: "list_all2 (planned K model res u today) ts rs"
    "\<forall>r\<in>set rs. act_state r = MailActivityState.Today" "ids' = ids1 @ map act_id rs" "length evs = length ts"
    "\<forall>ev\<in>set evs. event_type ev = ''ActivityScheduled''" and
    w': "db w' = (db w1)\<lparr>activities := activities (db w1) @ rs, outbox := outbox (db w1) @ evs\<rparr>" by blast
  show ?case using r rs by (intro exI [of _ "r # rs"] exI [of _ "ev # evs"]) (simp add: w' w1)
qed

text \<open>Scheduling a plan.  A call that returns found templates and added, in one transaction and in the order
  of the templates, one activity per template: on the document, of the template's type, for the template's
  user or the fallback, due on the shifted date; and one event each.  Every one of them is recorded as
  due today, however far its deadline is away.\<close>

lemma schedule_plan_effect:
  assumes "schedule_plan K p model res u today v w = (Inr ids, w')"
  shows "let ts = list_plan_templates p (db w) in ts \<noteq> [] \<and>
    (\<exists>rs evs. list_all2 (planned K model res u today) ts rs \<and> ids = map act_id rs \<and>
       (\<forall>r\<in>set rs. act_state r = MailActivityState.Today) \<and>
       length evs = length ts \<and> (\<forall>ev\<in>set evs. event_type ev = ''ActivityScheduled'') \<and>
       db w' = (db w)\<lparr>activities := activities (db w) @ rs, outbox := outbox (db w) @ evs\<rparr>)"
proof -
  have st: "straight (plan_tx K p model res u today :: (db, 'a, ActivityError, uuid list) act)"
    unfolding plan_tx_def plan_step_def by (intro straight_intros)
  from assms obtain w0 where b: "plan_tx K p model res u today v (begin_tx v w) = (Inr ids, w0)" and e: "db w' = db w0"
    unfolding schedule_plan_def by (rule in_tx_straight [OF _ st])
  from b obtain ts w1 where ts: "lift AcDb (stmt (reading (list_plan_templates p))) v (begin_tx v w) = (Inr ts, w1)" and
    f: "(if ts = [] then bindA (ask uuid_text) (\<lambda>U. fail (AcNotFound (''plan '' @ U p @ '' has no templates'')))
     else foldA (plan_step K p model res u today) [] ts) v w1 = (Inr ids, w0)"
    unfolding plan_tx_def by (rule bindA_InrE)
  from ts have ts: "ts = list_plan_templates p (db w)" and w1: "db w1 = db w" by (auto elim: reading_stmt_InrE)
  from f have ne: "ts \<noteq> []" by (auto simp: bindA_ask fail_def)
  with f have "foldA (plan_step K p model res u today) [] ts v w1 = (Inr ids, w0)" by simp
  from foldA_plan_step [OF this] ne show ?thesis unfolding Let_def ts e w1 by auto
qed

section \<open>Being done\<close>

definition note_of :: "activity_row \<Rightarrow> string option \<Rightarrow> mail_message_row \<Rightarrow> bool" where
  "note_of a feedback q \<longleftrightarrow> msg_body q = (case feedback of Some f \<Rightarrow> f | None \<Rightarrow> ''Activity done'') \<and>
     msg_author_id q = Some (act_user_id a) \<and> msg_model q = Some (act_res_model a) \<and>
     msg_res_id q = Some (act_res_id a) \<and> msg_type q = MailMessageType.Notification"

lemma post_note_Inr:
  assumes "post_note (activity_view a) i f v w = (Inr u, w')"
  shows "\<exists>q ev. note_of a f q \<and> event_type ev = ''MessagePosted'' \<and>
    db w' = (db w)\<lparr>messages := messages (db w) @ [q], outbox := outbox (db w) @ [ev]\<rparr>"
proof -
  from assms obtain k w1 u2 w2 where 1: "new_v4 v w = ((Inr k :: ActivityError + uuid), w1)" and
    2: "stmt_now (insert_mail_message (done_note k (activity_view a) f)) v w1 = (Inr u2, w2)" and
    3: "note_event (activity_view a) i k v w2 = (Inr u, w')"
    unfolding post_note_def by (elim bindA_InrE lift_InrE) (rule that)
  from 1 have "db w1 = db w" by (auto elim: new_v4_InrE)
  with 2 have "insert_mail_message (done_note k (activity_view a) f) (tx_start w1) (db w) = Inr (u2, db w2)"
    by (auto elim: stmt_now_InrE)
  then obtain q where q: "db w2 = (db w)\<lparr>messages := messages (db w) @ [q]\<rparr>" and
    "msg_body q = nm_body (done_note k (activity_view a) f)" "msg_model q = nm_model (done_note k (activity_view a) f)"
    "msg_res_id q = nm_res_id (done_note k (activity_view a) f)" "msg_author_id q = nm_author_id (done_note k (activity_view a) f)"
    "MailMessageType_show (msg_type q) = nm_message_type (done_note k (activity_view a) f)"
    by (rule insert_mail_message_Inr)
  then have "note_of a f q" unfolding note_of_def done_note_def activity_view_def
    by (cases "msg_type q") simp_all
  moreover from 3 obtain ev where "db w' = (db w2)\<lparr>outbox := outbox (db w2) @ [ev]\<rparr>" "event_type ev = ''MessagePosted''"
    by (auto simp: note_event_def bindA_ask elim!: lift_InrE stage_bus_event_InrE)
  ultimately show ?thesis unfolding q by (intro exI [of _ q] exI [of _ ev]) simp
qed

text \<open>The next activity of the chain: only for a triggering type and a row that carries a spec.\<close>

definition chains :: "db \<Rightarrow> activity_row \<Rightarrow> bool" where
  "chains d a \<longleftrightarrow> act_chained_next a \<noteq> None \<and>
     (\<exists>i t. act_type_id a = Some i \<and> find (\<lambda>r. aty_id r = i) (activity_types d) = Some t \<and>
        aty_chaining_type t = MailActivityChainingType.Trigger)"

lemma chain_next_Inr:
  assumes "chain_next K (activity_view a) today v w = (Inr nxt, w')"
  shows "(nxt \<noteq> None \<longleftrightarrow> chains (db w) a) \<and>
    (case nxt of None \<Rightarrow> db w' = db w
     | Some n \<Rightarrow> \<exists>spec. act_chained_next a = Some spec \<and>
         scheduled (chained_command K (activity_view a) spec today) today (db w) (db w') n)"
proof (cases "act_type_id a")
  case None
  with assms show ?thesis by (simp add: chain_next_def activity_view_def ret_def chains_def)
next
  case (Some ti)
  let ?t = "find (\<lambda>r. aty_id r = ti) (activity_types (db w))"
  from assms Some obtain ty w1 where 1: "lift AcDb (stmt (reading (find_activity_type ti))) v w = (Inr ty, w1)" and
    2: "(case ty of None \<Rightarrow> ret None | Some atype \<Rightarrow>
          if at_chaining_type atype = ''trigger'' then create_chained_next K (activity_view a) today else ret None) v w1 = (Inr nxt, w')"
    unfolding chain_next_def by (simp add: activity_view_def) (rule bindA_InrE)
  from 1 have w1: "db w1 = db w" and ty: "ty = find_activity_type ti (db w)" by (auto elim: reading_stmt_InrE)
  show ?thesis
  proof (cases "\<exists>t. ?t = Some t \<and> aty_chaining_type t = MailActivityChainingType.Trigger")
    case False
    then have "\<not> chains (db w) a" using Some by (simp add: chains_def)
    moreover have "nxt = None \<and> w' = w1"
    proof (cases ?t)
      case None
      with 2 ty show ?thesis by (simp add: find_activity_type_def ret_def)
    next
      case (Some t)
      with False have "aty_chaining_type t = MailActivityChainingType.Suggest" by (cases "aty_chaining_type t") auto
      with 2 ty Some show ?thesis by (simp add: find_activity_type_def ret_def)
    qed
    ultimately show ?thesis using w1 by simp
  next
    case True
    then have c: "create_chained_next K (activity_view a) today v w1 = (Inr nxt, w')"
      using 2 ty by (auto simp: find_activity_type_def)
    show ?thesis
    proof (cases "act_chained_next a")
      case None
      with c have "nxt = None" "w' = w1" by (simp_all add: create_chained_next_def activity_view_def ret_def)
      with None w1 show ?thesis by (simp add: chains_def)
    next
      case spec: (Some spec)
      with c obtain n where n: "nxt = Some n" "schedule_one K (Some (''chained_from'', act_id a))
          (chained_command K (activity_view a) spec today) today v w1 = (Inr n, w')"
        unfolding create_chained_next_def activity_view_def ActivityRow.simps option.case spec
        by (elim bindA_InrE ret_InrE) (simp only: that)
      from schedule_one_Inr [OF n(2)] True spec Some n(1) w1 show ?thesis by (simp add: chains_def)
    qed
  qed
qed

lemma archive_row_id: "map act_id (map (archive_row i) as) = map act_id as"
  by (simp add: archive_row_def)

lemma archive_done_Inr:
  assumes "archive_done i d = Inr (b, d')" and "find (\<lambda>r. act_id r = i) (activities d) = Some a"
    and "distinct (map act_id (activities d))"
  shows "(b \<longleftrightarrow> act_active a) \<and> d' = d\<lparr>activities := map (archive_row i) (activities d)\<rparr>"
proof -
  have a: "a \<in> set (activities d)" "act_id a = i" using find_SomeD [OF assms(2)] by simp_all
  have "r = a" if "r \<in> set (activities d)" "act_id r = i" for r
    using assms(3) a that by (simp add: distinct_map inj_on_def)
  with a have "list_ex (\<lambda>r. act_id r = i \<and> act_active r) (activities d) \<longleftrightarrow> act_active a"
    unfolding list_ex_iff by blast
  moreover have "b = list_ex (\<lambda>r. act_id r = i \<and> act_active r) (activities d)"
    "d' = d\<lparr>activities := map (archive_row i) (activities d)\<rparr>"
    using assms(1) unfolding archive_done_def by (simp_all only: sum.inject prod.inject)
  ultimately show ?thesis by blast
qed

lemma done_pump_Inr:
  assumes "done_pump K (activity_view a) i today v w = (Inr nxt, w')"
  shows "\<exists>d1 ev. (nxt \<noteq> None \<longleftrightarrow> chains (db w) a) \<and>
    (case nxt of None \<Rightarrow> d1 = db w
     | Some n \<Rightarrow> \<exists>spec. act_chained_next a = Some spec \<and>
         scheduled (chained_command K (activity_view a) spec today) today (db w) d1 n) \<and>
    db w' = d1\<lparr>outbox := outbox d1 @ [ev]\<rparr> \<and> event_type ev = ''ActivityDone''"
proof -
  from assms obtain w1 u where 1: "chain_next K (activity_view a) today v w = (Inr nxt, w1)" and
    2: "announce_done (activity_view a) i nxt v w1 = (Inr u, w')"
    unfolding done_pump_def by (elim bindA_InrE ret_InrE) (simp only: that)
  from activity_event_Inr [OF 2 [unfolded announce_done_def]] obtain ev where
    "db w' = (db w1)\<lparr>outbox := outbox (db w1) @ [ev]\<rparr>" "event_type ev = ''ActivityDone''" by blast
  with chain_next_Inr [OF 1] show ?thesis by blast
qed

lemma straight_done: "straight (done_tx K i f today)"
  unfolding done_tx_def done_pump_def chain_next_def create_chained_next_def announce_done_def
  by (intro straight_intros)

lemma done_tx_Inr:
  assumes "done_tx K i f today v w = (Inr (b, nxt), w')"
  shows "\<exists>a d1 d2. find (\<lambda>r. act_id r = i) (activities (db w)) = Some a \<and>
    (\<exists>q ev. note_of a f q \<and> event_type ev = ''MessagePosted'' \<and>
       d1 = (db w)\<lparr>messages := messages (db w) @ [q], outbox := outbox (db w) @ [ev]\<rparr>) \<and>
    archive_done i d1 = Inr (b, d2) \<and>
    (if b then \<exists>w2. db w2 = d2 \<and> done_pump K (activity_view a) i today v w2 = (Inr nxt, w') else nxt = None \<and> db w' = d2)"
proof -
  from assms obtain g w1 where 1: "lift AcDb (stmt (reading (find_activity i))) v w = (Inr g, w1)" and
    2: "(case g of None \<Rightarrow> bindA (ask uuid_text) (\<lambda>U. fail (AcNotFound (''activity '' @ U i)))
     | Some a \<Rightarrow> bindA (post_note a i f) (\<lambda>_.
         bindA (lift AcDb (stmt (archive_done i))) (\<lambda>newly_done.
         if newly_done then bindA (done_pump K a i today) (\<lambda>nxt. ret (True, nxt)) else ret (False, None)))) v w1 = (Inr (b, nxt), w')"
    unfolding done_tx_def by (rule bindA_InrE)
  from 1 have w1: "db w1 = db w" "g = find_activity i (db w)" by (auto elim: reading_stmt_InrE)
  from 2 obtain av where g: "g = Some av" by (cases g) (auto simp: bindA_ask fail_def)
  with w1(2) obtain a where a: "find (\<lambda>r. act_id r = i) (activities (db w)) = Some a" "av = activity_view a"
    by (cases "find (\<lambda>r. act_id r = i) (activities (db w))") (simp_all add: find_activity_def)
  from 2 obtain u w2 c w3 where p: "post_note (activity_view a) i f v w1 = (Inr u, w2)" and
    s: "stmt (archive_done i) v w2 = (Inr c, w3)" and
    r: "(if c then bindA (done_pump K (activity_view a) i today) (\<lambda>nxt. ret (True, nxt)) else ret (False, None)) v w3 = (Inr (b, nxt), w')"
    unfolding g option.case a(2) by (elim bindA_InrE lift_InrE) (rule that)
  from s have s: "archive_done i (db w2) = Inr (c, db w3)" by (rule stmt_InrE)
  from r have "b = c \<and> (if b then \<exists>w2. db w2 = db w3 \<and> done_pump K (activity_view a) i today v w2 = (Inr nxt, w')
      else nxt = None \<and> db w' = db w3)"
    by (cases c) (auto elim!: bindA_InrE ret_InrE)
  with a(1) post_note_Inr [OF p, unfolded w1(1)] s show ?thesis by blast
qed

text \<open>C24: being done.  A call that returns found the activity and posted its note on the document.  It reports
  whether the activity was still active; exactly then the activity is archived, and exactly when the type
  triggers and the row carries a spec the next activity is added, as the spec says, with its event; an
  activity that was already done gets the note again and nothing else.\<close>

theorem action_done_effect:
  assumes "action_done K i f today v w = (Inr (b, nxt), w')" and "activity_schema (db w)"
  shows "\<exists>a q rs evs. find (\<lambda>r. act_id r = i) (activities (db w)) = Some a \<and> note_of a f q \<and> (b \<longleftrightarrow> act_active a) \<and>
    db w' = (db w)\<lparr>messages := messages (db w) @ [q],
      activities := map (archive_row i) (activities (db w)) @ rs, outbox := outbox (db w) @ evs\<rparr> \<and>
    (nxt \<noteq> None \<longleftrightarrow> b \<and> chains (db w) a) \<and>
    (case nxt of None \<Rightarrow> rs = []
     | Some n \<Rightarrow> \<exists>spec r. act_chained_next a = Some spec \<and> rs = [r] \<and>
         activity_of n (chained_command K (activity_view a) spec today) today r) \<and>
    map event_type evs = ''MessagePosted'' #
      (if b then (if nxt = None then [] else [''ActivityScheduled'']) @ [''ActivityDone''] else [])"
proof -
  from assms(1) obtain w0 where "done_tx K i f today v (begin_tx v w) = (Inr (b, nxt), w0)" and e: "db w' = db w0"
    unfolding action_done_def by (rule in_tx_straight [OF _ straight_done])
  from done_tx_Inr [OF this(1)] obtain a d1 d2 q ev where a: "find (\<lambda>r. act_id r = i) (activities (db w)) = Some a"
    and n: "note_of a f q" "event_type ev = ''MessagePosted''" and
    d1: "d1 = (db w)\<lparr>messages := messages (db w) @ [q], outbox := outbox (db w) @ [ev]\<rparr>" and
    s: "archive_done i d1 = Inr (b, d2)" and
    p: "if b then \<exists>w2. db w2 = d2 \<and> done_pump K (activity_view a) i today v w2 = (Inr nxt, w0) else nxt = None \<and> db w0 = d2"
    unfolding begin_tx_simps by blast
  have ad: "(b \<longleftrightarrow> act_active a) \<and> d2 = d1\<lparr>activities := map (archive_row i) (activities d1)\<rparr>"
    using archive_done_Inr [OF s, of a] a assms(2) by (simp add: d1 activity_schema_def)
  show ?thesis
  proof (cases b)
    case False
    with p ad have "db w' = (db w)\<lparr>messages := messages (db w) @ [q],
      activities := map (archive_row i) (activities (db w)) @ [], outbox := outbox (db w) @ [ev]\<rparr>" "nxt = None"
      by (simp_all add: e d1)
    with a n ad False show ?thesis by (intro exI [of _ a] exI [of _ q] exI [of _ "[]"] exI [of _ "[ev]"]) simp
  next
    case True
    with p obtain w2 where w2: "db w2 = d2" and dp: "done_pump K (activity_view a) i today v w2 = (Inr nxt, w0)" by auto
    from done_pump_Inr [OF dp] obtain d3 ev3 where x: "nxt \<noteq> None \<longleftrightarrow> chains d2 a" and
      c: "case nxt of None \<Rightarrow> d3 = d2 | Some n \<Rightarrow> \<exists>spec. act_chained_next a = Some spec \<and>
         scheduled (chained_command K (activity_view a) spec today) today d2 d3 n" and
      w0: "db w0 = d3\<lparr>outbox := outbox d3 @ [ev3]\<rparr>" "event_type ev3 = ''ActivityDone''" unfolding w2 by blast
    have ch: "chains d2 a = chains (db w) a" using ad by (simp add: chains_def d1)
    show ?thesis
    proof (cases nxt)
      case None
      with c ad w0 have "db w' = (db w)\<lparr>messages := messages (db w) @ [q],
        activities := map (archive_row i) (activities (db w)) @ [], outbox := outbox (db w) @ [ev, ev3]\<rparr>"
        by (simp add: e d1)
      with a n ad True None x ch w0(2) show ?thesis
        by (intro exI [of _ a] exI [of _ q] exI [of _ "[]"] exI [of _ "[ev, ev3]"]) simp
    next
      case (Some k)
      with c obtain spec r ev2 where sp: "act_chained_next a = Some spec"
        "activity_of k (chained_command K (activity_view a) spec today) today r"
        "d3 = d2\<lparr>activities := activities d2 @ [r], outbox := outbox d2 @ [ev2]\<rparr>" "event_type ev2 = ''ActivityScheduled''"
        unfolding scheduled_def by auto
      with ad w0 have "db w' = (db w)\<lparr>messages := messages (db w) @ [q],
        activities := map (archive_row i) (activities (db w)) @ [r], outbox := outbox (db w) @ [ev, ev2, ev3]\<rparr>"
        by (simp add: e d1)
      with a n ad True Some x ch w0(2) sp(1,2,4) show ?thesis
        by (intro exI [of _ a] exI [of _ q] exI [of _ "[r]"] exI [of _ "[ev, ev2, ev3]"]) simp
    qed
  qed
qed

section \<open>The properties at concrete inputs\<close>

definition sample_crates :: crates where
  "sample_crates = \<lparr>overflow_checks = False,
     add_days = (\<lambda>(y, m, d) n. let k = int d + n in if 1 \<le> k \<and> k \<le> 28 then Some (y, m, nat k) else None),
     from_ymd_opt = (\<lambda>y m d. if chrono_year y \<and> valid_date (y, m, d) then Some (y, m, d) else None),
     date_text = (\<lambda>_. ''d''), parse_date = (\<lambda>_. None), parse_uuid = (\<lambda>_. None)\<rparr>"

text \<open>31 January plus one month is 29 February in a leap year, and back again the 29 January.\<close>

lemma shift_months_clamps_witness:
  "shift_months sample_crates (2024, 1, 31) 1 = Some (2024, 2, 29) \<and>
   shift_months sample_crates (2024, 2, 29) (- 1) = Some (2024, 1, 29)"
proof -
  have "ymd_documented sample_crates" by (simp add: ymd_documented_def sample_crates_def)
  moreover have "valid_date (2024, 1, 31)" "chrono_year 2024" "chrono_year ((month_index (2024, 1, 31) + 1) div 12)"
    by code_simp+
  ultimately obtain y' m' d' d'' where r: "shift_months sample_crates (2024, 1, 31) 1 = Some (y', m', d')"
    "shift_months sample_crates (y', m', d') (- 1) = Some (2024, 1, d'')" "d'' = min d' (days_in_month 2024 1)"
    using shift_months_clamps [of sample_crates 2024 1 31 1] by metis
  have "shift_months sample_crates (2024, 1, 31) 1 = Some (2024, 2, 29)" by code_simp
  moreover from this r(1) have "y' = 2024" "m' = 2" "d' = 29" by simp_all
  moreover have "min 29 (days_in_month 2024 1) = 29" by code_simp
  ultimately show ?thesis using r(2,3) by metis
qed

definition plan_world :: "(db, nat) world" where
  "plan_world = world_of (empty_db\<lparr>
     activity_types := [\<lparr>aty_id = 5, aty_chaining_type = MailActivityChainingType.Trigger, aty_delay_count = 0,
       aty_delay_unit = MailActivityDelayUnit.Days, aty_delay_from = MailActivityDelayFrom.PlanDate,
       aty_default_user_id = None, aty_active = True\<rparr>],
     plan_templates := [\<lparr>ptl_id = 2, ptl_plan_id = 1, ptl_activity_type_id = 5, ptl_summary = None, ptl_note = None,
       ptl_delay_count = Some 7, ptl_delay_unit = Some MailActivityDelayUnit.Days, ptl_user_id = None, ptl_deleted = False\<rparr>],
     activities := [\<lparr>act_id = 9, act_res_model = ''m'', act_res_id = 3, act_type_id = Some 5, act_summary = None,
       act_note = None, act_date_deadline = (2024, 1, 2), act_user_id = 4, act_requested_user_id = None,
       act_state = MailActivityState.Today, act_active = True, act_chained_next = Some (JObject [])\<rparr>]\<rparr>)"

definition plan_run :: "(ActivityError + uuid list) \<times> (db, nat) world" where
  "plan_run = schedule_plan sample_crates 1 ''m'' 3 4 (2024, 1, 2) plain_env plan_world"

definition done_run :: "(ActivityError + bool \<times> uuid option) \<times> (db, nat) world" where
  "done_run = action_done sample_crates 9 None (2024, 1, 2) plain_env plan_world"

lemma activity_runs: "fst plan_run = Inr [22]" "fst done_run = Inr (True, Some 28)"
  by code_simp+

lemma plan_schema: "activity_schema (db plan_world)"
  by code_simp

text \<open>The activity of the template is due a week later and still recorded as due today.\<close>

lemma schedule_plan_effect_witness:
  "\<exists>r\<in>set (activities (db (snd plan_run))). act_id r = 22 \<and> act_state r = MailActivityState.Today"
proof -
  have "schedule_plan sample_crates 1 ''m'' 3 4 (2024, 1, 2) plain_env plan_world = (Inr [22], snd plan_run)"
    using activity_runs(1) by (simp add: plan_run_def prod_eq_iff)
  from schedule_plan_effect [OF this, unfolded Let_def] obtain rs evs where
    "[22] = map act_id rs" "\<forall>r\<in>set rs. act_state r = MailActivityState.Today"
    "db (snd plan_run) = (db plan_world)\<lparr>activities := activities (db plan_world) @ rs, outbox := outbox (db plan_world) @ evs\<rparr>"
    by (elim conjE exE) (rule that)
  then show ?thesis by auto
qed

lemma action_done_effect_witness:
  "\<exists>r\<in>set (activities (db (snd done_run))). act_id r = 28 \<and> act_active r"
proof -
  have "action_done sample_crates 9 None (2024, 1, 2) plain_env plan_world = (Inr (True, Some 28), snd done_run)"
    using activity_runs(2) by (simp add: done_run_def prod_eq_iff)
  from action_done_effect [OF this plan_schema] obtain a q rs evs where
    d: "db (snd done_run) = (db plan_world)\<lparr>messages := messages (db plan_world) @ [q],
      activities := map (archive_row 9) (activities (db plan_world)) @ rs, outbox := outbox (db plan_world) @ evs\<rparr>" and
    c: "case Some 28 of None \<Rightarrow> rs = []
     | Some n \<Rightarrow> \<exists>spec r. act_chained_next a = Some spec \<and> rs = [r] \<and>
         activity_of n (chained_command sample_crates (activity_view a) spec (2024, 1, 2)) (2024, 1, 2) r"
    by (elim exE conjE) (rule that)
  from c obtain r where "rs = [r]" "act_id r = 28" "act_active r" by (auto simp: activity_of_def)
  with d show ?thesis by simp
qed

end
