(* ===== verification/Followers.thy ===== *)
theory Followers
  imports Store
begin

text \<open>
  Followers of documents: \<open>src/application/service/follower_write_service.rs\<close> and
  \<open>src/infrastructure/persistence/follower_repository.rs\<close>.  A partner follows a document at most once (a
  partial unique index); what a second subscription does is the caller's policy.  The row id comes from
  the database's \<open>gen_random_uuid()\<close>.  PostgreSQL's order of \<open>jsonb_agg(DISTINCT v)\<close> is the parameter \<open>agg\<close>.
\<close>

datatype ExistingPolicy = Skip | Force | Replace | Update

datatype SubscribeOutcome = Inserted | Updated | Skipped

definition follows :: "string \<Rightarrow> uuid \<Rightarrow> uuid \<Rightarrow> follower_row \<Rightarrow> bool" where
  "follows res_model res_id partner_id r \<longleftrightarrow>
     flw_res_model r = res_model \<and> flw_res_id r = res_id \<and> flw_partner_id r = Some partner_id"

definition subtypes_json :: "(uuid \<Rightarrow> string) \<Rightarrow> uuid list \<Rightarrow> json" where
  "subtypes_json U subtype_ids = JArray (map (\<lambda>i. JString (U i)) subtype_ids)"

text \<open>\<open>INSERT ... ON CONFLICT (res_model, res_id, partner_id) DO NOTHING RETURNING id\<close>.\<close>

definition insert_follower ::
  "uuid \<Rightarrow> string \<Rightarrow> uuid \<Rightarrow> uuid \<Rightarrow> json \<Rightarrow> db \<Rightarrow> db_error + uuid option \<times> db" where
  "insert_follower i res_model res_id partner_id sts d =
     (if \<not> btrim_nonempty res_model then Inl (CheckViolation ''ck_mail_followers_res_model_required__required'')
      else if list_ex (follows res_model res_id partner_id) (followers d) then Inr (None, d)
      else if i \<in> set (map flw_id (followers d)) then Inl (UniqueViolation ''mail_followers_pkey'')
      else Inr (Some i, d\<lparr>followers := followers d @
        [\<lparr>flw_id = i, flw_res_model = res_model, flw_res_id = res_id, flw_partner_id = Some partner_id,
          flw_subtype_ids = Some sts\<rparr>]\<rparr>))"

definition set_subtypes ::
  "string \<Rightarrow> uuid \<Rightarrow> uuid \<Rightarrow> (json option \<Rightarrow> json) \<Rightarrow> db \<Rightarrow> db_error + unit \<times> db" where
  "set_subtypes res_model res_id partner_id f d =
     Inr ((), d\<lparr>followers := map (\<lambda>r. if follows res_model res_id partner_id r
       then r\<lparr>flw_subtype_ids := Some (f (flw_subtype_ids r))\<rparr> else r) (followers d)\<rparr>)"

text \<open>\<open>jsonb_array_elements(old || given)\<close>: a NULL operand gives no rows; an operand that is no array counts as
  one element.\<close>

definition json_items :: "json \<Rightarrow> json list" where
  "json_items j = (case j of JArray xs \<Rightarrow> xs | _ \<Rightarrow> [j])"

definition merged_subtypes :: "(json list \<Rightarrow> json list) \<Rightarrow> json \<Rightarrow> json option \<Rightarrow> json" where
  "merged_subtypes agg given old =
     (case old of None \<Rightarrow> JArray [] | Some o' \<Rightarrow> JArray (agg (json_items o' @ json_items given)))"

definition repo_subscribe ::
  "(json list \<Rightarrow> json list) \<Rightarrow> string \<Rightarrow> uuid \<Rightarrow> uuid \<Rightarrow> uuid list \<Rightarrow> ExistingPolicy \<Rightarrow>
   (db, 'o, db_error, SubscribeOutcome) act" where
  "repo_subscribe agg res_model res_id partner_id subtype_ids policy =
     bindA (ask (\<lambda>v. subtypes_json (uuid_text v) subtype_ids)) (\<lambda>sts.
     bindA new_v4 (\<lambda>i.
     bindA (stmt (insert_follower i res_model res_id partner_id sts)) (\<lambda>inserted.
     if inserted \<noteq> None then ret Inserted
     else case policy of
       Skip \<Rightarrow> ret Skipped
     | Update \<Rightarrow> bindA (stmt (set_subtypes res_model res_id partner_id (merged_subtypes agg sts))) (\<lambda>_. ret Updated)
     | _ \<Rightarrow> bindA (stmt (set_subtypes res_model res_id partner_id (\<lambda>_. sts))) (\<lambda>_. ret Updated))))"

definition repo_unsubscribe :: "string \<Rightarrow> uuid \<Rightarrow> uuid list \<Rightarrow> db \<Rightarrow> db_error + nat \<times> db" where
  "repo_unsubscribe res_model res_id partner_ids d =
     (let gone = (\<lambda>r. flw_res_model r = res_model \<and> flw_res_id r = res_id \<and>
                      flw_partner_id r \<in> set (map Some partner_ids))
      in Inr (length (filter gone (followers d)), d\<lparr>followers := filter (\<lambda>r. \<not> gone r) (followers d)\<rparr>))"

text \<open>The subtype list is read as a value that is not NULL; a NULL one panics.\<close>

definition list_followers :: "string \<Rightarrow> uuid \<Rightarrow> db \<Rightarrow> db_error + (uuid \<times> json) list \<times> db" where
  "list_followers res_model res_id d =
     (let rows = filter (\<lambda>r. flw_res_model r = res_model \<and> flw_res_id r = res_id \<and> flw_partner_id r \<noteq> None) (followers d)
      in if list_ex (\<lambda>r. flw_subtype_ids r = None) rows then Inl (Panicked ''subtype_ids'')
         else Inr (map (\<lambda>r. (the (flw_partner_id r), the (flw_subtype_ids r))) rows, d))"

section \<open>The service\<close>

datatype FollowerError = FlDb db_error | FlInvalid string

definition policy_text :: "ExistingPolicy \<Rightarrow> string" where
  "policy_text p = (case p of Skip \<Rightarrow> ''skip'' | Force \<Rightarrow> ''force'' | Replace \<Rightarrow> ''replace'' | Update \<Rightarrow> ''update'')"

definition follower_event ::
  "string \<Rightarrow> string \<Rightarrow> uuid \<Rightarrow> ((uuid \<Rightarrow> string) \<Rightarrow> string) \<Rightarrow> ((uuid \<Rightarrow> string) \<Rightarrow> (string \<times> json) list) \<Rightarrow>
   (db, 'o, FollowerError, unit) act" where
  "follower_event et res_model res_id aid extra =
     bindA (ask uuid_text) (\<lambda>U.
     lift FlDb (stage_bus_event et ''MailFollowers'' (aid U) (record_channel U res_model res_id) et
       (JObject ([(''res_model'', JString res_model), (''res_id'', JString (U res_id))] @ extra U))))"

definition subscribe ::
  "(json list \<Rightarrow> json list) \<Rightarrow> string \<Rightarrow> uuid \<Rightarrow> uuid \<Rightarrow> uuid list \<Rightarrow> ExistingPolicy \<Rightarrow>
   (db, 'o, FollowerError, SubscribeOutcome) act" where
  "subscribe agg res_model res_id partner_id subtype_ids policy =
     (if blank res_model then fail (FlInvalid ''res_model is required'')
      else in_tx FlDb (
        bindA (lift FlDb (repo_subscribe agg res_model res_id partner_id subtype_ids policy)) (\<lambda>outcome.
        bindA (if outcome \<noteq> Skipped
               then follower_event ''FollowerSubscribed'' res_model res_id
                 (\<lambda>U. res_model @ ''/'' @ U res_id @ ''/'' @ U partner_id)
                 (\<lambda>U. [(''partner_id'', JString (U partner_id)), (''subtype_ids'', subtypes_json U subtype_ids),
                        (''policy'', JString (policy_text policy))])
               else ret ()) (\<lambda>_. ret outcome))))"

definition unsubscribe :: "string \<Rightarrow> uuid \<Rightarrow> uuid list \<Rightarrow> (db, 'o, FollowerError, nat) act" where
  "unsubscribe res_model res_id partner_ids =
     (if partner_ids = [] then ret 0
      else in_tx FlDb (
        bindA (lift FlDb (stmt (repo_unsubscribe res_model res_id partner_ids))) (\<lambda>removed.
        bindA (if 0 < removed
               then follower_event ''FollowerUnsubscribed'' res_model res_id (\<lambda>U. res_model @ ''/'' @ U res_id)
                 (\<lambda>U. [(''partner_ids'', JArray (map (\<lambda>p. JString (U p)) partner_ids))])
               else ret ()) (\<lambda>_. ret removed))))"

section \<open>Subscriptions as a map\<close>

text \<open>The abstract state: the subtype list of each partner on each document.\<close>

definition subscription :: "db \<Rightarrow> string \<times> uuid \<times> uuid \<Rightarrow> json option option" where
  "subscription d k = map_option flw_subtype_ids (find (follows (fst k) (fst (snd k)) (snd (snd k))) (followers d))"

definition subscribed ::
  "(json list \<Rightarrow> json list) \<Rightarrow> ExistingPolicy \<Rightarrow> json \<Rightarrow> json option option \<Rightarrow> json option" where
  "subscribed agg policy given old =
     (case old of
        None \<Rightarrow> Some given
      | Some o' \<Rightarrow> (case policy of Skip \<Rightarrow> o' | Update \<Rightarrow> Some (merged_subtypes agg given o') | _ \<Rightarrow> Some given))"

definition outcome_of :: "ExistingPolicy \<Rightarrow> json option option \<Rightarrow> SubscribeOutcome" where
  "outcome_of policy old = (if old = None then Inserted else if policy = Skip then Skipped else Updated)"

definition one_follower :: "db \<Rightarrow> bool" where
  "one_follower d \<longleftrightarrow> distinct (map flw_id (followers d)) \<and>
     distinct (map (\<lambda>r. (flw_res_model r, flw_res_id r, flw_partner_id r)) (filter (\<lambda>r. flw_partner_id r \<noteq> None) (followers d)))"

lemma follows_key: "follows (fst k) (fst (snd k)) (snd (snd k)) r \<longleftrightarrow>
    (flw_res_model r, flw_res_id r, flw_partner_id r) = (fst k, fst (snd k), Some (snd (snd k)))"
  by (auto simp: follows_def)

lemma subscription_None:
  "subscription d (m, r, p) = None \<longleftrightarrow> \<not> list_ex (follows m r p) (followers d)"
  by (auto simp: subscription_def find_None_iff list_ex_iff)

lemma insert_follower_Inr:
  assumes "insert_follower i m r p s d = Inr (z, d')"
  shows "if subscription d (m, r, p) = None
    then z \<noteq> None \<and> subscription d' = (subscription d)((m, r, p) \<mapsto> Some s) \<and> (one_follower d \<longrightarrow> one_follower d')
    else z = None \<and> d' = d"
proof (cases "list_ex (follows m r p) (followers d)")
  case True
  with assms show ?thesis by (auto simp: insert_follower_def subscription_None split: if_splits)
next
  case False
  let ?row = "\<lparr>flw_id = i, flw_res_model = m, flw_res_id = r, flw_partner_id = Some p, flw_subtype_ids = Some s\<rparr>"
  from assms False have d': "d' = d\<lparr>followers := followers d @ [?row]\<rparr>" and z: "z = Some i"
    and i: "i \<notin> set (map flw_id (followers d))"
    by (auto simp: insert_follower_def split: if_splits)
  have none: "find (follows m r p) (followers d) = None" using False by (auto simp: find_None_iff list_ex_iff)
  have "subscription d' k = ((subscription d)((m, r, p) \<mapsto> Some s)) k" for k
  proof (cases "k = (m, r, p)")
    case True
    with none show ?thesis by (simp add: subscription_def d' find_append follows_def)
  next
    case neq: False
    then have "\<not> follows (fst k) (fst (snd k)) (snd (snd k)) ?row" by (cases k) (auto simp: follows_def)
    with neq show ?thesis by (simp add: subscription_def d' find_append split: option.split)
  qed
  moreover have "one_follower d'" if "one_follower d"
    using that i False by (auto simp: one_follower_def d' list_ex_iff follows_def)
  ultimately show ?thesis using False z by (auto simp: subscription_None)
qed

lemma follower_rows: "followers (d\<lparr>followers := rs\<rparr>) = rs"
  by simp

lemma insert_follower_outbox: "insert_follower i m r p s d = Inr (z, d') \<Longrightarrow> outbox d' = outbox d"
  by (auto simp: insert_follower_def split: if_splits)

lemma set_subtypes_outbox: "set_subtypes m r p f d = Inr (u, d') \<Longrightarrow> outbox d' = outbox d"
  by (auto simp: set_subtypes_def)

lemma set_subtypes_Inr:
  assumes "set_subtypes m r p f d = Inr (u, d')" and "subscription d (m, r, p) = Some s"
  shows "subscription d' = (subscription d)((m, r, p) \<mapsto> Some (f s)) \<and> (one_follower d \<longrightarrow> one_follower d')"
proof -
  let ?g = "\<lambda>q. if follows m r p q then q\<lparr>flw_subtype_ids := Some (f (flw_subtype_ids q))\<rparr> else q"
  from assms(1) have d': "d' = d\<lparr>followers := map ?g (followers d)\<rparr>" by (simp add: set_subtypes_def)
  have g: "follows a b c (?g q) = follows a b c q" for a b c q by (simp add: follows_def)
  have "subscription d' k = ((subscription d)((m, r, p) \<mapsto> Some (f s))) k" for k
  proof -
    have "find (follows (fst k) (fst (snd k)) (snd (snd k))) (followers d') =
        map_option ?g (find (follows (fst k) (fst (snd k)) (snd (snd k))) (followers d))"
      unfolding d' follower_rows by (rule find_map_same) (rule g)
    moreover have "flw_subtype_ids (?g q) = (if k = (m, r, p) then Some (f (flw_subtype_ids q)) else flw_subtype_ids q)"
      if "find (follows (fst k) (fst (snd k)) (snd (snd k))) (followers d) = Some q" for q
      using find_SomeD [OF that] by (cases k) (auto simp: follows_def)
    ultimately show ?thesis using assms(2)
      by (cases "find (follows (fst k) (fst (snd k)) (snd (snd k))) (followers d)")
        (auto simp: subscription_def split: if_splits)
  qed
  moreover have "one_follower d'" if "one_follower d"
  proof -
    have "map flw_id (followers d') = map flw_id (followers d)" by (simp add: d')
    moreover have "map (\<lambda>r. (flw_res_model r, flw_res_id r, flw_partner_id r)) (filter (\<lambda>r. flw_partner_id r \<noteq> None) (followers d')) =
        map (\<lambda>r. (flw_res_model r, flw_res_id r, flw_partner_id r)) (filter (\<lambda>r. flw_partner_id r \<noteq> None) (followers d))"
      by (simp add: d' filter_map comp_def)
    ultimately show ?thesis using that unfolding one_follower_def by metis
  qed
  ultimately show ?thesis by blast
qed

lemma repo_subscribe_Inr:
  assumes "repo_subscribe agg m r p ids policy v w = (Inr out, w')"
  defines "old \<equiv> subscription (db w) (m, r, p)"
  shows "out = outcome_of policy old \<and> tx_step w w' \<and> outbox (db w') = outbox (db w) \<and>
    subscription (db w') = (subscription (db w))((m, r, p) \<mapsto> subscribed agg policy (subtypes_json (uuid_text v) ids) old) \<and>
    (one_follower (db w) \<longrightarrow> one_follower (db w'))"
proof -
  let ?s = "subtypes_json (uuid_text v) ids"
  let ?then = "\<lambda>inserted. if inserted \<noteq> None then ret Inserted
     else case policy of
       Skip \<Rightarrow> ret Skipped
     | Update \<Rightarrow> bindA (stmt (set_subtypes m r p (merged_subtypes agg ?s))) (\<lambda>_. ret Updated)
     | _ \<Rightarrow> bindA (stmt (set_subtypes m r p (\<lambda>_. ?s))) (\<lambda>_. ret Updated)"
  from assms(1) obtain i w1 ins w2 where 1: "new_v4 v w = ((Inr i :: db_error + uuid), w1)" and
    2: "stmt (insert_follower i m r p ?s) v w1 = (Inr ins, w2)" and 3: "?then ins v w2 = (Inr out, w')"
    unfolding repo_subscribe_def bindA_ask by (elim bindA_InrE) (rule that)
  from 1 have w1: "db w1 = db w" "tx_step w w1" by (auto elim: new_v4_InrE)
  from 2 have i: "insert_follower i m r p ?s (db w) = Inr (ins, db w2)" and s2: "tx_step w1 w2"
    unfolding w1(1) [symmetric] by (auto elim: stmt_InrE)
  note i' = insert_follower_Inr [OF i] and o' = insert_follower_outbox [OF i]
  show ?thesis
  proof (cases old)
    case None
    with i' have "ins \<noteq> None" unfolding old_def by auto
    with 3 have "out = Inserted" "w' = w2" by (simp_all add: ret_def)
    with None i' o' w1(2) s2 show ?thesis
      unfolding old_def by (auto simp: outcome_of_def subscribed_def intro: tx_step_trans)
  next
    case (Some t)
    then have ins: "ins = None" "db w2 = db w" using i' unfolding old_def by auto
    have st: "subscription (db w) (m, r, p) = Some t" using Some by (simp add: old_def)
    then have skip: "subscription (db w) = (subscription (db w))((m, r, p) \<mapsto> t)" by auto
    have w12: "tx_step w w2" using w1(2) s2 by (rule tx_step_trans)
    have set: "out = Updated \<and> tx_step w w' \<and> outbox (db w') = outbox (db w) \<and>
        subscription (db w') = (subscription (db w))((m, r, p) \<mapsto> Some (f t)) \<and> (one_follower (db w) \<longrightarrow> one_follower (db w'))"
      if "bindA (stmt (set_subtypes m r p f)) (\<lambda>_. ret Updated) v w2 = (Inr out, w')" for f
    proof -
      from that obtain u where s: "stmt (set_subtypes m r p f) v w2 = (Inr u, w')" and "out = Updated"
        by (elim bindA_InrE ret_InrE) (simp only: that)
      from s have "set_subtypes m r p f (db w) = Inr (u, db w')" "tx_step w2 w'" by (auto elim: stmt_InrE simp: ins(2))
      moreover note set_subtypes_outbox [OF this(1)]
      ultimately show ?thesis using \<open>out = Updated\<close> set_subtypes_Inr st w12 by (blast intro: tx_step_trans)
    qed
    show ?thesis
    proof (cases policy)
      case Skip
      with 3 ins w12 skip Some show ?thesis by (simp add: ret_def outcome_of_def subscribed_def)
    next
      case Force
      with 3 ins set [of "\<lambda>_. ?s"] Some show ?thesis by (simp add: outcome_of_def subscribed_def)
    next
      case Replace
      with 3 ins set [of "\<lambda>_. ?s"] Some show ?thesis by (simp add: outcome_of_def subscribed_def)
    next
      case Update
      with 3 ins set [of "merged_subtypes agg ?s"] Some show ?thesis by (simp add: outcome_of_def subscribed_def)
    qed
  qed
qed

lemma follower_event_Inr:
  assumes "follower_event et m r aid ex v w = (Inr u, w')"
  shows "\<exists>ev. db w' = (db w)\<lparr>outbox := outbox (db w) @ [ev]\<rparr> \<and> event_type ev = et \<and>
    event_channel ev = Some (record_channel (uuid_text v) m r)"
  using assms by (auto simp: follower_event_def bindA_ask elim!: lift_InrE stage_bus_event_InrE)

lemma subscription_outbox [simp]: "subscription (d\<lparr>outbox := o'\<rparr>) = subscription d" "one_follower (d\<lparr>outbox := o'\<rparr>) = one_follower d"
  by (simp_all add: subscription_def fun_eq_iff one_follower_def)

text \<open>C25: subscribing refines one update of the map of subscriptions.  A new follower gets the given subtypes;
  an existing one keeps its list under skip, gets the given list under force and replace, and under update
  the merge of both, which for a follower without a list is the empty list; one event announces every
  outcome but skip; and every other subscription stands.\<close>

theorem subscribe_refines:
  assumes "subscribe agg m r p ids policy v w = (Inr out, w')"
  shows "out = outcome_of policy (subscription (db w) (m, r, p)) \<and>
    subscription (db w') = (subscription (db w))((m, r, p) \<mapsto>
      subscribed agg policy (subtypes_json (uuid_text v) ids) (subscription (db w) (m, r, p))) \<and>
    (one_follower (db w) \<longrightarrow> one_follower (db w')) \<and>
    (\<exists>evs. outbox (db w') = outbox (db w) @ evs \<and> length evs = (if out = Skipped then 0 else 1) \<and>
       (\<forall>ev\<in>set evs. event_type ev = ''FollowerSubscribed'' \<and>
          event_channel ev = Some (record_channel (uuid_text v) m r)))"
proof -
  let ?note = "follower_event ''FollowerSubscribed'' m r (\<lambda>U. m @ ''/'' @ U r @ ''/'' @ U p)
     (\<lambda>U. [(''partner_id'', JString (U p)), (''subtype_ids'', subtypes_json U ids), (''policy'', JString (policy_text policy))])"
  let ?body = "bindA (lift FlDb (repo_subscribe agg m r p ids policy)) (\<lambda>outcome.
        bindA (if outcome \<noteq> Skipped then ?note else ret ()) (\<lambda>_. ret outcome))"
  have st: "straight ?body" unfolding repo_subscribe_def follower_event_def
    by (intro straight_intros) (cases policy; simp; intro straight_intros)
  from assms obtain w0 where b: "?body v (begin_tx v w) = (Inr out, w0)" and e: "db w' = db w0"
    unfolding subscribe_def by (auto simp: fail_def split: if_splits elim: in_tx_straight [OF _ st])
  from b obtain w1 u where 1: "repo_subscribe agg m r p ids policy v (begin_tx v w) = (Inr out, w1)" and
    2: "(if out \<noteq> Skipped then ?note else ret ()) v w1 = (Inr u, w0)"
    by (elim bindA_InrE lift_InrE ret_InrE) (simp only: that)
  note s = repo_subscribe_Inr [OF 1, simplified]
  show ?thesis
  proof (cases "out = Skipped")
    case True
    with 2 s e show ?thesis by (simp add: ret_def)
  next
    case False
    with 2 have 2: "?note v w1 = (Inr u, w0)" by simp
    from follower_event_Inr [OF 2] obtain ev where ev: "db w0 = (db w1)\<lparr>outbox := outbox (db w1) @ [ev]\<rparr>"
      "event_type ev = ''FollowerSubscribed''" "event_channel ev = Some (record_channel (uuid_text v) m r)" by blast
    have "subscription (db w') = subscription (db w1)" "one_follower (db w') = one_follower (db w1)"
      "outbox (db w') = outbox (db w1) @ [ev]" by (simp_all add: e ev(1))
    with s False ev(2,3) show ?thesis by (intro conjI exI [of _ "[ev]"]) auto
  qed
qed

text \<open>Unsubscribing removes exactly the given partners' subscriptions to the document.\<close>

lemma repo_unsubscribe_Inr:
  assumes "repo_unsubscribe m r ps d = Inr (n, d')"
  shows "subscription d' = (\<lambda>k. if fst k = m \<and> fst (snd k) = r \<and> snd (snd k) \<in> set ps then None else subscription d k) \<and>
    (one_follower d \<longrightarrow> one_follower d')"
proof -
  let ?gone = "\<lambda>q. flw_res_model q = m \<and> flw_res_id q = r \<and> flw_partner_id q \<in> set (map Some ps)"
  from assms have d': "d' = d\<lparr>followers := filter (\<lambda>q. \<not> ?gone q) (followers d)\<rparr>"
    by (simp add: repo_unsubscribe_def Let_def)
  have "subscription d' k = (if fst k = m \<and> fst (snd k) = r \<and> snd (snd k) \<in> set ps then None else subscription d k)" for k
  proof -
    let ?f = "follows (fst k) (fst (snd k)) (snd (snd k))"
    have "(\<not> ?gone q \<and> ?f q) \<longleftrightarrow> (if fst k = m \<and> fst (snd k) = r \<and> snd (snd k) \<in> set ps then False else ?f q)" for q
      by (auto simp: follows_def)
    then have "find ?f (followers d') = (if fst k = m \<and> fst (snd k) = r \<and> snd (snd k) \<in> set ps then None else find ?f (followers d))"
      unfolding d' follower_rows find_filter by (simp add: find_None_iff)
    then show ?thesis by (simp add: subscription_def)
  qed
  moreover have "one_follower d'" if "one_follower d"
  proof -
    have "filter (\<lambda>q. flw_partner_id q \<noteq> None) (filter (\<lambda>q. \<not> ?gone q) (followers d)) =
        filter (\<lambda>q. \<not> ?gone q) (filter (\<lambda>q. flw_partner_id q \<noteq> None) (followers d))"
      unfolding filter_filter by (rule filter_cong) auto
    with that show ?thesis unfolding one_follower_def d' follower_rows
      by (simp only: distinct_map_filter simp_thms)
  qed
  ultimately show ?thesis by blast
qed

text \<open>The readers of a document.\<close>

lemma map_filter_partners:
  "map the (map flw_partner_id (filter (\<lambda>r. P r \<and> flw_partner_id r \<noteq> None) rs)) =
   List.map_filter flw_partner_id (filter P rs)"
  by (induction rs) (auto simp: List.map_filter_simps split: option.split)

lemma list_followers_Inr:
  assumes "list_followers model res d = Inr (fs, d')"
  shows "d' = d \<and> map fst fs = List.map_filter flw_partner_id
    (filter (\<lambda>r. flw_res_model r = model \<and> flw_res_id r = res) (followers d))"
  using assms map_filter_partners [of "\<lambda>r. flw_res_model r = model \<and> flw_res_id r = res" "followers d"]
  by (auto simp: list_followers_def Let_def comp_def conj_assoc split: if_splits)

section \<open>The property at a concrete input\<close>

definition follow_world :: "(db, nat) world" where
  "follow_world = world_of (empty_db\<lparr>followers := [\<lparr>flw_id = 1, flw_res_model = ''m'', flw_res_id = 3,
     flw_partner_id = Some 7, flw_subtype_ids = None\<rparr>]\<rparr>)"

definition follow_run :: "(FollowerError + SubscribeOutcome) \<times> (db, nat) world" where
  "follow_run = subscribe remdups ''m'' 3 7 [5] Update plain_env follow_world"

text \<open>A follower whose subtype list is NULL does not get the subtype 5 by an update, but the empty list.\<close>

lemma subscribe_refines_witness:
  "subscription (db (snd follow_run)) (''m'', 3, 7) = Some (Some (JArray []))"
proof -
  have "fst follow_run = Inr Updated" by code_simp
  then have "subscribe remdups ''m'' 3 7 [5] Update plain_env follow_world = (Inr Updated, snd follow_run)"
    by (simp add: follow_run_def prod_eq_iff)
  from subscribe_refines [OF this] have "subscription (db (snd follow_run)) (''m'', 3, 7) =
      Some (subscribed remdups Update (subtypes_json (uuid_text plain_env) [5]) (subscription (db follow_world) (''m'', 3, 7)))"
    by (metis fun_upd_same)
  moreover have "subscription (db follow_world) (''m'', 3, 7) = Some None" by code_simp
  ultimately show ?thesis by (simp add: subscribed_def merged_subtypes_def)
qed

end
