(* ===== verification/Schedule.thy ===== *)
theory Schedule
  imports MessageDelivery Acl Followers
begin

text \<open>
  Deferred messages: \<open>src/application/service/schedule_write_service.rs\<close> and
  \<open>src/infrastructure/persistence/schedule_repository.rs\<close>.  M8 delays the follower notifications of a posted
  message, M9 the post itself; in both the row's existence is the pending state.  The M9 dispatch claims
  and deletes on one transaction while each post commits on a connection of its own; \<open>beside\<close> and
  \<open>in_outer_tx\<close> write that down.  The parser of uuids and the text of an instant are parameters.
\<close>

section \<open>Two transactions at once\<close>

text \<open>Run on another connection: the open transaction is neither aborted nor restarted by it.\<close>

definition beside :: "('d, 'o, 'e, 'a) act \<Rightarrow> ('d, 'o, 'e, 'a) act" where
  "beside m = (\<lambda>v w. (fst (m v w), (snd (m v w))\<lparr>aborted := aborted w, tx_start := tx_start w\<rparr>))"

text \<open>A transaction beside which others commit: rolling it back undoes only its own writes.\<close>

definition in_outer_tx ::
  "('d \<Rightarrow> 'd \<Rightarrow> 'd) \<Rightarrow> (db_error \<Rightarrow> 'e) \<Rightarrow> ('d, 'o, 'e, 'a) act \<Rightarrow> ('d, 'o, 'e, 'a) act" where
  "in_outer_tx undo up body = (\<lambda>v w.
     if fault v (tick w) then (Inl (up Connection), w\<lparr>tick := Suc (tick w)\<rparr>)
     else case body v (begin_tx v w) of
            (Inl e, w') \<Rightarrow> (Inl e, w'\<lparr>db := undo (db w) (db w'), aborted := False\<rparr>)
          | (Inr x, w') \<Rightarrow> commit up (undo (db w) (db w')) x v w')"

text \<open>What a pure read of the current database answers (the host's access resolver).\<close>

definition peek :: "('d \<Rightarrow> 'a) \<Rightarrow> ('d, 'o, 'e, 'a) act" where
  "peek f = (\<lambda>v w. (Inr (f (db w)), w))"

section \<open>The repository\<close>

record ClaimedNotifySchedule =
  cn_id :: uuid
  cn_mail_message_id :: uuid
  cn_notification_parameters :: "string option"

record ClaimedScheduledMessage =
  cs_id :: uuid
  cs_subject :: "string option"
  cs_body :: string
  cs_composition_comment_option :: "string option"
  cs_model :: string
  cs_res_id :: uuid
  cs_author_party_id :: uuid
  cs_recipient_party_ids :: "json option"
  cs_is_note :: bool
  cs_notification_parameters :: "string option"
  cs_send_context :: "json option"

definition repo_arm_notify ::
  "uuid \<Rightarrow> uuid \<Rightarrow> string option \<Rightarrow> time \<Rightarrow> db \<Rightarrow> db_error + unit \<times> db" where
  "repo_arm_notify i message params at d =
     (if i \<in> set (map nsc_id (notify_schedules d)) then Inl (UniqueViolation ''mail_message_schedules_pkey'')
      else if message \<notin> set (map msg_id (messages d))
        then Inl (ForeignKeyViolation ''fk_mail_message_schedules_mail_message_id'')
      else Inr ((), d\<lparr>notify_schedules := notify_schedules d @
        [\<lparr>nsc_id = i, nsc_mail_message_id = message, nsc_notification_parameters = params,
          nsc_scheduled_datetime = at\<rparr>]\<rparr>))"

definition delete_schedule :: "uuid \<Rightarrow> db \<Rightarrow> db" where
  "delete_schedule i d = d\<lparr>notify_schedules := filter (\<lambda>r. nsc_id r \<noteq> i) (notify_schedules d)\<rparr>"

definition repo_cancel_notify :: "uuid \<Rightarrow> db \<Rightarrow> db_error + bool \<times> db" where
  "repo_cancel_notify i d = Inr (list_ex (\<lambda>r. nsc_id r = i) (notify_schedules d), delete_schedule i d)"

definition scheduled_author_for_update :: "uuid \<Rightarrow> db \<Rightarrow> uuid option option" where
  "scheduled_author_for_update i d =
     map_option (\<lambda>r. Some (smg_author_party_id r)) (find (\<lambda>r. smg_id r = i) (scheduled_messages d))"

definition delete_pending :: "uuid \<Rightarrow> db \<Rightarrow> db" where
  "delete_pending i d = d\<lparr>scheduled_messages := filter (\<lambda>r. smg_id r \<noteq> i) (scheduled_messages d)\<rparr>"

definition repo_cancel_scheduled_message :: "uuid \<Rightarrow> db \<Rightarrow> db_error + bool \<times> db" where
  "repo_cancel_scheduled_message i d = Inr (list_ex (\<lambda>r. smg_id r = i) (scheduled_messages d), delete_pending i d)"

definition due_schedules :: "time \<Rightarrow> (uuid \<Rightarrow> bool) \<Rightarrow> db \<Rightarrow> notify_schedule_row list" where
  "due_schedules now locked d =
     sort_key nsc_scheduled_datetime
       (filter (\<lambda>r. nsc_scheduled_datetime r \<le> now \<and> \<not> locked (nsc_id r)) (notify_schedules d))"

definition claim_due_notify ::
  "time \<Rightarrow> int \<Rightarrow> (uuid \<Rightarrow> bool) \<Rightarrow> db \<Rightarrow> db_error + ClaimedNotifySchedule list \<times> db" where
  "claim_due_notify now limit locked d =
     (case sql_limit limit (due_schedules now locked d) of
        Inl e \<Rightarrow> Inl e
      | Inr rows \<Rightarrow> Inr (map (\<lambda>r. \<lparr>cn_id = nsc_id r, cn_mail_message_id = nsc_mail_message_id r,
          cn_notification_parameters = nsc_notification_parameters r\<rparr>) rows, d))"

definition delete_notify :: "uuid \<Rightarrow> db \<Rightarrow> db_error + unit \<times> db" where
  "delete_notify i d = Inr ((), delete_schedule i d)"

definition repo_arm_scheduled_message :: "scheduled_message_row \<Rightarrow> db \<Rightarrow> db_error + unit \<times> db" where
  "repo_arm_scheduled_message m d =
     (if \<not> btrim_nonempty (smg_body m) then Inl (CheckViolation ''ck_mail_scheduled_messages_body_required__required'')
      else if \<not> btrim_nonempty (smg_model m) then Inl (CheckViolation ''ck_mail_scheduled_messages_model_required__required'')
      else if smg_id m \<in> set (map smg_id (scheduled_messages d)) then Inl (UniqueViolation ''mail_scheduled_messages_pkey'')
      else Inr ((), d\<lparr>scheduled_messages := scheduled_messages d @ [m]\<rparr>))"

definition claimed_message :: "scheduled_message_row \<Rightarrow> ClaimedScheduledMessage" where
  "claimed_message r =
     \<lparr>cs_id = smg_id r, cs_subject = smg_subject r, cs_body = smg_body r,
      cs_composition_comment_option = smg_composition_comment_option r, cs_model = smg_model r,
      cs_res_id = smg_res_id r, cs_author_party_id = smg_author_party_id r,
      cs_recipient_party_ids = smg_recipient_party_ids r, cs_is_note = smg_is_note r,
      cs_notification_parameters = smg_notification_parameters r, cs_send_context = smg_send_context r\<rparr>"

definition due_pending :: "time \<Rightarrow> (uuid \<Rightarrow> bool) \<Rightarrow> db \<Rightarrow> scheduled_message_row list" where
  "due_pending now locked d =
     sort_key smg_scheduled_date
       (filter (\<lambda>r. smg_scheduled_date r \<le> now \<and> \<not> locked (smg_id r)) (scheduled_messages d))"

definition claim_due_scheduled_messages ::
  "time \<Rightarrow> int \<Rightarrow> (uuid \<Rightarrow> bool) \<Rightarrow> db \<Rightarrow> db_error + ClaimedScheduledMessage list \<times> db" where
  "claim_due_scheduled_messages now limit locked d =
     (case sql_limit limit (due_pending now locked d) of
        Inl e \<Rightarrow> Inl e
      | Inr rows \<Rightarrow> Inr (map claimed_message rows, d))"

definition delete_scheduled_message :: "uuid \<Rightarrow> db \<Rightarrow> db_error + unit \<times> db" where
  "delete_scheduled_message i d = Inr ((), delete_pending i d)"

definition thread_of_message :: "uuid \<Rightarrow> db \<Rightarrow> (string option \<times> uuid option) option" where
  "thread_of_message i d = map_option (\<lambda>m. (msg_model m, msg_res_id m)) (find (\<lambda>m. msg_id m = i) (messages d))"

definition latest_author_wall_message :: "uuid \<Rightarrow> db \<Rightarrow> uuid option" where
  "latest_author_wall_message author d =
     map_option msg_id (first_by (\<lambda>a b. msg_date b \<le> msg_date a)
       (filter (\<lambda>m. msg_model m = Some ''res.partner'' \<and> msg_res_id m = Some author \<and> msg_author_id m = Some author)
         (messages d)))"

section \<open>Notify later\<close>

datatype ScheduleError =
    ScDb db_error
  | ScInvalid string
  | ScNotFound uuid
  | CannotPost string uuid
  | NotAuthor uuid

definition arm_notify :: "uuid \<Rightarrow> time \<Rightarrow> string option \<Rightarrow> (db, 'o, ScheduleError, uuid) act" where
  "arm_notify message at params =
     bindA now_utc (\<lambda>now.
     if at \<le> now
     then fail (ScInvalid ''scheduled_datetime must be in the future (a past schedule is just a post)'')
     else
       bindA new_v4 (\<lambda>i.
       bindA (ask (\<lambda>v. (uuid_text v, time_text v))) (\<lambda>(U, T).
       in_tx ScDb (
         bindA (lift ScDb (stmt (repo_arm_notify i message params at))) (\<lambda>_.
         bindA (lift ScDb (stage_bus_event ''MailMessageScheduleCreated'' ''MailMessageSchedule'' (U i)
           (''mail.schedule_'' @ U i) ''mail.message.schedule/insert''
           (JObject [(''schedule_id'', JString (U i)), (''mail_message_id'', JString (U message)),
                     (''scheduled_datetime'', JString (T at))]))) (\<lambda>_. ret i))))))"

definition cancel_notify :: "uuid \<Rightarrow> (db, 'o, ScheduleError, unit) act" where
  "cancel_notify i =
     in_tx ScDb (
       bindA (lift ScDb (stmt (repo_cancel_notify i))) (\<lambda>found.
       if found then ret () else fail (ScNotFound i)))"

definition follower_notification :: "uuid \<Rightarrow> uuid \<Rightarrow> uuid \<Rightarrow> NewMailNotificationRow" where
  "follower_notification i message partner =
     \<lparr>nn_id = i, nn_mail_message_id = message, nn_res_partner_id = Some partner,
      nn_notification_type = ''inbox'', nn_notification_status = ''sent'', nn_mail_mail_id_int = None\<rparr>"

definition notify_one :: "uuid \<Rightarrow> unit \<Rightarrow> uuid \<times> json \<Rightarrow> (db, 'o, ScheduleError, unit) act" where
  "notify_one message u f =
     bindA new_v4 (\<lambda>i.
     bindA (lift ScDb (stmt_now (insert_mail_notification (follower_notification i message (fst f))))) (\<lambda>_. ret ()))"

definition notify_followers :: "uuid \<Rightarrow> (string option \<times> uuid option) option \<Rightarrow> (db, 'o, ScheduleError, unit) act" where
  "notify_followers message thread =
     (case thread of
        Some (Some model, Some res_id) \<Rightarrow>
          bindA (lift ScDb (stmt (list_followers model res_id))) (\<lambda>fs. foldA (notify_one message) () fs)
      | _ \<Rightarrow> ret ())"

definition notify_step :: "unit \<Rightarrow> ClaimedNotifySchedule \<Rightarrow> (db, 'o, ScheduleError, unit) act" where
  "notify_step u s =
     bindA (lift ScDb (stmt (reading (thread_of_message (cn_mail_message_id s))))) (\<lambda>thread.
     bindA (notify_followers (cn_mail_message_id s) thread) (\<lambda>_.
     lift ScDb (stmt (delete_notify (cn_id s)))))"

definition notify_tx :: "int \<Rightarrow> (db, 'o, ScheduleError, nat) act" where
  "notify_tx batch_limit =
     bindA now_utc (\<lambda>now.
     bindA (lift ScDb (stmt_locked (claim_due_notify now batch_limit))) (\<lambda>due.
     bindA (foldA notify_step () due) (\<lambda>_. ret (length due))))"

definition dispatch_due_notify :: "int \<Rightarrow> (db, 'o, ScheduleError, nat) act" where
  "dispatch_due_notify batch_limit = in_tx ScDb (notify_tx batch_limit)"

section \<open>Post later\<close>

record ArmScheduled =
  am_author_party_id :: uuid
  am_model :: string
  am_res_id :: uuid
  am_body :: string
  am_subject :: "string option"
  am_scheduled_date :: time
  am_recipient_party_ids :: "json option"
  am_is_note :: bool

definition armed_row :: "uuid \<Rightarrow> ArmScheduled \<Rightarrow> scheduled_message_row" where
  "armed_row i a =
     \<lparr>smg_id = i, smg_subject = am_subject a, smg_body = am_body a, smg_scheduled_date = am_scheduled_date a,
      smg_composition_comment_option = None, smg_model = am_model a, smg_res_id = am_res_id a,
      smg_author_party_id = am_author_party_id a, smg_recipient_party_ids = am_recipient_party_ids a,
      smg_is_note = am_is_note a, smg_notification_parameters = None, smg_send_context = None\<rparr>"

definition arm_tx :: "uuid \<Rightarrow> ArmScheduled \<Rightarrow> (db, 'o, ScheduleError, uuid) act" where
  "arm_tx i a =
     bindA (lift ScDb (stmt (repo_arm_scheduled_message (armed_row i a)))) (\<lambda>_.
     bindA (ask (\<lambda>v. (uuid_text v, time_text v))) (\<lambda>(U, T).
     bindA (lift ScDb (stage_bus_event ''MailScheduledMessageCreated'' ''MailScheduledMessage'' (U i)
       (partner_channel U (am_author_party_id a)) ''mail.scheduled.message/insert''
       (JObject [(''scheduled_message_id'', JString (U i)), (''model'', JString (am_model a)),
                 (''res_id'', JString (U (am_res_id a))), (''author_party_id'', JString (U (am_author_party_id a))),
                 (''scheduled_date'', JString (T (am_scheduled_date a)))]))) (\<lambda>_. ret i)))"

definition arm_scheduled_message :: "ThreadAccessResolver \<Rightarrow> ArmScheduled \<Rightarrow> (db, 'o, ScheduleError, uuid) act" where
  "arm_scheduled_message acl a =
     (if blank (am_body a) then fail (ScInvalid ''body is required'')
      else
        bindA now_utc (\<lambda>now.
        if am_scheduled_date a \<le> now then fail (ScInvalid ''scheduled_date must be in the future'')
        else
          bindA (peek (\<lambda>d. can_post acl d (User (am_author_party_id a)) (am_model a) (am_res_id a))) (\<lambda>ok.
          if \<not> ok then fail (CannotPost (am_model a) (am_res_id a))
          else bindA new_v4 (\<lambda>i. in_tx ScDb (arm_tx i a)))))"

definition cancel_check :: "uuid \<Rightarrow> uuid \<Rightarrow> uuid option option \<Rightarrow> ScheduleError + unit" where
  "cancel_check i author found =
     (case found of
        None \<Rightarrow> Inl (ScNotFound i)
      | Some a \<Rightarrow> if a \<noteq> Some author then Inl (NotAuthor i) else Inr ())"

definition cancel_scheduled_message :: "uuid \<Rightarrow> uuid \<Rightarrow> (db, 'o, ScheduleError, unit) act" where
  "cancel_scheduled_message i author =
     in_tx ScDb (
       bindA (lift ScDb (stmt (reading (scheduled_author_for_update i)))) (\<lambda>found.
       bindA (of_sum (cancel_check i author found)) (\<lambda>_.
       bindA (lift ScDb (stmt (repo_cancel_scheduled_message i))) (\<lambda>gone.
       if gone then ret () else fail (ScNotFound i)))))"

definition recipients_of :: "(string \<Rightarrow> uuid option) \<Rightarrow> json option \<Rightarrow> PostRecipient list" where
  "recipients_of parse_uuid j =
     (case j of
        Some (JArray ps) \<Rightarrow>
          map (\<lambda>p. \<lparr>pr_partner = Some p, pr_channel = NotificationChannel.Inbox, pr_email = None, pr_number = None\<rparr>)
            (List.map_filter (\<lambda>p. case p of JString s \<Rightarrow> parse_uuid s | _ \<Rightarrow> None) ps)
      | _ \<Rightarrow> [])"

definition post_of :: "(string \<Rightarrow> uuid option) \<Rightarrow> ClaimedScheduledMessage \<Rightarrow> MessagePostCommand" where
  "post_of parse_uuid m =
     \<lparr>mp_body = cs_body m, mp_subject = cs_subject m,
      mp_message_type = (if cs_is_note m then ''notification'' else ''comment''),
      mp_subtype_id = None, mp_subtype_name = None, mp_is_internal = cs_is_note m,
      mp_author_id = Some (cs_author_party_id m), mp_author_guest_id = None, mp_email_from = None,
      mp_reply_to = None, mp_model = Some (cs_model m), mp_res_id = Some (cs_res_id m),
      mp_record_name = None, mp_recipients = recipients_of parse_uuid (cs_recipient_party_ids m)\<rparr>"

definition dispatch_one ::
  "ThreadAccessResolver \<Rightarrow> (string \<Rightarrow> uuid option) \<Rightarrow> ClaimedScheduledMessage \<Rightarrow> (db, 'o, ScheduleError, bool) act" where
  "dispatch_one acl parse_uuid m =
     bindA (peek (\<lambda>d. can_post acl d (User (cs_author_party_id m)) (cs_model m) (cs_res_id m))) (\<lambda>ok.
     if \<not> ok then ret False
     else
       bindA (attempt (message_post (post_of parse_uuid m))) (\<lambda>r. ret (\<not> isl r)))"

definition failure_note :: "uuid \<Rightarrow> uuid \<Rightarrow> NewMailMessageRow" where
  "failure_note i author =
     \<lparr>nm_id = i, nm_subject = Some ''Scheduled message not posted'',
      nm_body = ''A scheduled message could not be posted (permission was revoked or the target is gone).'',
      nm_message_type = ''notification'', nm_subtype_id = None, nm_is_internal = True,
      nm_author_id = None, nm_author_guest_id = None, nm_email_from = None, nm_message_id = None,
      nm_reply_to = None, nm_model = Some ''res.partner'', nm_res_id = Some author, nm_record_name = None\<rparr>"

definition mint_failure_note :: "uuid \<Rightarrow> (db, 'o, db_error, uuid option) act" where
  "mint_failure_note author =
     bindA new_v4 (\<lambda>i.
     bindA (attempt (stmt_now (insert_mail_message (failure_note i author)))) (\<lambda>r.
     ret (case r of Inl _ \<Rightarrow> None | Inr _ \<Rightarrow> Some i)))"

definition poster_message_id :: "uuid \<Rightarrow> (db, 'o, db_error, uuid option) act" where
  "poster_message_id author =
     bindA (attempt (stmt (reading (latest_author_wall_message author)))) (\<lambda>r.
     case r of
       Inr (Some i) \<Rightarrow> ret (Some i)
     | _ \<Rightarrow> mint_failure_note author)"

text \<open>Without a carrier message the transaction is dropped; the errors are swallowed.\<close>

definition notify_author_tx :: "uuid \<Rightarrow> uuid \<Rightarrow> (db, 'o, db_error, unit) act" where
  "notify_author_tx note_id author =
     bindA (poster_message_id author) (\<lambda>posted.
     case posted of
       None \<Rightarrow> fail Connection
     | Some wall \<Rightarrow>
         bindA (attempt (stmt_now (insert_mail_notification (follower_notification note_id wall author)))) (\<lambda>_. ret ()))"

definition notify_author_of_failure :: "uuid \<Rightarrow> (db, 'o, ScheduleError, unit) act" where
  "notify_author_of_failure author =
     bindA new_v4 (\<lambda>note_id.
     bindA (attempt (in_tx (\<lambda>e. e) (notify_author_tx note_id author))) (\<lambda>_. ret ()))"

definition scheduled_step ::
  "ThreadAccessResolver \<Rightarrow> (string \<Rightarrow> uuid option) \<Rightarrow> nat \<times> nat \<Rightarrow> ClaimedScheduledMessage \<Rightarrow>
   (db, 'o, ScheduleError, nat \<times> nat) act" where
  "scheduled_step acl parse_uuid counts m =
     bindA (lift ScDb (stmt (delete_scheduled_message (cs_id m)))) (\<lambda>_.
     bindA (beside (dispatch_one acl parse_uuid m)) (\<lambda>ok.
     if ok then ret (Suc (fst counts), snd counts)
     else bindA (beside (notify_author_of_failure (cs_author_party_id m))) (\<lambda>_.
          ret (fst counts, Suc (snd counts)))))"

definition scheduled_tx ::
  "ThreadAccessResolver \<Rightarrow> (string \<Rightarrow> uuid option) \<Rightarrow> int \<Rightarrow> (db, 'o, ScheduleError, nat \<times> nat) act" where
  "scheduled_tx acl parse_uuid batch_limit =
     bindA now_utc (\<lambda>now.
     bindA (lift ScDb (stmt_locked (claim_due_scheduled_messages now batch_limit))) (\<lambda>due.
     foldA (scheduled_step acl parse_uuid) (0, 0) due))"

definition undo_claim :: "db \<Rightarrow> db \<Rightarrow> db" where
  "undo_claim d0 d = d\<lparr>scheduled_messages := scheduled_messages d0\<rparr>"

definition dispatch_due_scheduled ::
  "ThreadAccessResolver \<Rightarrow> (string \<Rightarrow> uuid option) \<Rightarrow> int \<Rightarrow> (db, 'o, ScheduleError, nat \<times> nat) act" where
  "dispatch_due_scheduled acl parse_uuid batch_limit =
     in_outer_tx undo_claim ScDb (scheduled_tx acl parse_uuid batch_limit)"

section \<open>The dispatch of delayed notifications\<close>

text \<open>The partners following the thread of a message, and what the dispatch of its schedule adds.\<close>

definition thread_followers :: "db \<Rightarrow> uuid \<Rightarrow> uuid list" where
  "thread_followers d message =
     (case thread_of_message message d of
        Some (Some model, Some res_id) \<Rightarrow> List.map_filter flw_partner_id
          (filter (\<lambda>r. flw_res_model r = model \<and> flw_res_id r = res_id) (followers d))
      | _ \<Rightarrow> [])"

definition told :: "notification_row \<Rightarrow> uuid \<times> uuid option \<times> MailNotificationType \<times> MailNotificationStatus" where
  "told n = (ntf_message_id n, ntf_partner n, ntf_type n, ntf_status n)"

definition telling :: "uuid \<Rightarrow> uuid \<Rightarrow> uuid \<times> uuid option \<times> MailNotificationType \<times> MailNotificationStatus" where
  "telling message p = (message, Some p, MailNotificationType.Inbox, MailNotificationStatus.Sent)"

definition tells :: "db \<Rightarrow> db \<Rightarrow> (uuid \<times> uuid option \<times> MailNotificationType \<times> MailNotificationStatus) list \<Rightarrow> bool" where
  "tells d d' ts \<longleftrightarrow> (\<exists>ns. d' = d\<lparr>notifications := notifications d @ ns\<rparr> \<and> map told ns = ts)"

lemma tells_Nil: "tells d d []"
  unfolding tells_def by (intro exI [of _ "[]"]) simp

lemma tells_append:
  assumes "tells d d1 ts" and "tells d1 d2 ts'"
  shows "tells d d2 (ts @ ts')"
proof -
  from assms obtain ns ns' where "d1 = d\<lparr>notifications := notifications d @ ns\<rparr>" "map told ns = ts"
    "d2 = d1\<lparr>notifications := notifications d1 @ ns'\<rparr>" "map told ns' = ts'"
    unfolding tells_def by (elim exE conjE) (rule that)
  then show ?thesis unfolding tells_def by (intro exI [of _ "ns @ ns'"]) simp
qed

lemma tells_reads:
  assumes "tells d d' ts"
  shows "messages d' = messages d" "followers d' = followers d" "notify_schedules d' = notify_schedules d"
  using assms by (auto simp: tells_def)

lemma insert_follower_notification:
  assumes "insert_mail_notification (follower_notification i m p) now d = Inr (j, d')"
  shows "tells d d' [telling m p]"
  using assms
  by (elim insert_mail_notification_Inr)
    (auto simp: tells_def told_def telling_def follower_notification_def
      mail_notification_type.cast_iff [symmetric] intro!: exI)

lemma notify_one_Inr:
  assumes "notify_one m u f v w = (Inr x, w')"
  shows "tells (db w) (db w') [telling m (fst f)] \<and> tx_step w w'"
  using assms unfolding notify_one_def
  by (elim act_elims) (auto dest: insert_follower_notification intro: tx_step_trans)

lemma notify_fold_Inr:
  "foldA (notify_one m) u fs v w = (Inr x, w') \<Longrightarrow>
   tells (db w) (db w') (map (\<lambda>f. telling m (fst f)) fs) \<and> tx_step w w'"
proof (induction fs arbitrary: u w)
  case Nil
  then show ?case by (simp add: ret_def tells_Nil)
next
  case (Cons f fs)
  from Cons.prems obtain y w1 where 1: "notify_one m u f v w = (Inr y, w1)"
    and 2: "foldA (notify_one m) y fs v w1 = (Inr x, w')"
    by (auto elim: bindA_InrE)
  from notify_one_Inr [OF 1] Cons.IH [OF 2] show ?case
    by (auto dest: tells_append intro: tx_step_trans)
qed

lemma notify_followers_Inr:
  assumes "notify_followers m (thread_of_message m (db w)) v w = (Inr x, w')"
  shows "tells (db w) (db w') (map (telling m) (thread_followers (db w) m)) \<and> tx_step w w'"
proof (cases "\<exists>model res. thread_of_message m (db w) = Some (Some model, Some res)")
  case False
  with assms have "w' = w" "thread_followers (db w) m = []"
    by (auto simp: notify_followers_def thread_followers_def ret_def split: option.splits)
  then show ?thesis by (simp add: tells_Nil)
next
  case True
  then obtain model res where t: "thread_of_message m (db w) = Some (Some model, Some res)" by blast
  with assms obtain fs w1 where 1: "stmt (list_followers model res) v w = (Inr fs, w1)"
    and 2: "foldA (notify_one m) () fs v w1 = (Inr x, w')"
    by (auto simp: notify_followers_def elim!: bindA_InrE lift_InrE)
  from 1 have l: "list_followers model res (db w) = Inr (fs, db w1)" and s: "tx_step w w1" by (auto elim: stmt_InrE)
  from list_followers_Inr [OF l] t have "db w1 = db w" "map fst fs = thread_followers (db w) m"
    by (simp_all add: thread_followers_def)
  then show ?thesis using notify_fold_Inr [OF 2] s
    by (metis (no_types, lifting) comp_def map_eq_conv map_map tx_step_trans)
qed

lemma thread_followers_frame [simp]:
  "thread_followers (d\<lparr>notifications := ns\<rparr>) = thread_followers d"
  "thread_followers (d\<lparr>notify_schedules := ss\<rparr>) = thread_followers d"
proof -
  have same: "thread_followers d' = thread_followers d" if "messages d' = messages d" "followers d' = followers d" for d'
    by (rule ext) (simp only: thread_followers_def thread_of_message_def that)
  show "thread_followers (d\<lparr>notifications := ns\<rparr>) = thread_followers d"
    "thread_followers (d\<lparr>notify_schedules := ss\<rparr>) = thread_followers d" by (rule same; simp)+
qed

definition dispatched :: "db \<Rightarrow> ClaimedNotifySchedule list \<Rightarrow> db \<Rightarrow> bool" where
  "dispatched d due d' \<longleftrightarrow>
     (\<exists>ns. d' = d\<lparr>notifications := notifications d @ ns,
        notify_schedules := filter (\<lambda>r. nsc_id r \<notin> cn_id ` set due) (notify_schedules d)\<rparr> \<and>
        map told ns = concat (map (\<lambda>s. map (telling (cn_mail_message_id s))
          (thread_followers d (cn_mail_message_id s))) due))"

lemma dispatched_Nil: "dispatched d [] d"
  unfolding dispatched_def by (intro exI [of _ "[]"]) (simp add: filter_True)

lemma notify_step_Inr:
  assumes "notify_step u s v w = (Inr x, w')"
  shows "\<exists>d1. tells (db w) d1 (map (telling (cn_mail_message_id s)) (thread_followers (db w) (cn_mail_message_id s))) \<and>
    db w' = delete_schedule (cn_id s) d1 \<and> tx_step w w'"
proof -
  from assms obtain thread w1 y w2 where
    1: "lift ScDb (stmt (reading (thread_of_message (cn_mail_message_id s)))) v w = (Inr thread, w1)" and
    2: "notify_followers (cn_mail_message_id s) thread v w1 = (Inr y, w2)" and
    3: "lift ScDb (stmt (delete_notify (cn_id s))) v w2 = (Inr x, w')"
    unfolding notify_step_def by (elim bindA_InrE) (rule that)
  from 1 have t: "thread = thread_of_message (cn_mail_message_id s) (db w1)" and w1: "db w1 = db w" "tx_step w w1"
    by (auto elim: reading_stmt_InrE)
  from 3 have "db w' = delete_schedule (cn_id s) (db w2)" "tx_step w2 w'"
    by (auto simp: delete_notify_def elim!: lift_InrE stmt_InrE)
  with notify_followers_Inr [OF 2 [unfolded t]] w1 show ?thesis
    by (intro exI [of _ "db w2"]) (auto intro: tx_step_trans)
qed

lemma dispatched_Cons:
  assumes "tells d d1 (map (telling (cn_mail_message_id s)) (thread_followers d (cn_mail_message_id s)))"
    and "dispatched (delete_schedule (cn_id s) d1) due d'"
  shows "dispatched d (s # due) d'"
proof -
  from assms(1) obtain ns where d1: "d1 = d\<lparr>notifications := notifications d @ ns\<rparr>"
    and ns: "map told ns = map (telling (cn_mail_message_id s)) (thread_followers d (cn_mail_message_id s))"
    unfolding tells_def by blast
  let ?d2 = "delete_schedule (cn_id s) d1"
  have f: "thread_followers ?d2 = thread_followers d" by (simp add: d1 delete_schedule_def)
  from assms(2) [unfolded dispatched_def f] obtain ns' where
    d': "d' = ?d2\<lparr>notifications := notifications ?d2 @ ns',
      notify_schedules := filter (\<lambda>r. nsc_id r \<notin> cn_id ` set due) (notify_schedules ?d2)\<rparr>"
    and ns': "map told ns' = concat (map (\<lambda>s. map (telling (cn_mail_message_id s)) (thread_followers d (cn_mail_message_id s))) due)"
    by blast
  show ?thesis unfolding dispatched_def
  proof (intro exI [of _ "ns @ ns'"] conjI)
    show "map told (ns @ ns') = concat (map (\<lambda>s. map (telling (cn_mail_message_id s)) (thread_followers d (cn_mail_message_id s))) (s # due))"
      by (simp add: ns ns')
    show "d' = d\<lparr>notifications := notifications d @ ns @ ns',
       notify_schedules := filter (\<lambda>r. nsc_id r \<notin> cn_id ` set (s # due)) (notify_schedules d)\<rparr>"
      by (auto simp: d' d1 delete_schedule_def intro!: arg_cong [of _ _ "\<lambda>x. db.notify_schedules_update (\<lambda>_. x) _"] filter_cong)
  qed
qed

lemma notify_steps_Inr:
  "foldA notify_step u due v w = (Inr x, w') \<Longrightarrow> dispatched (db w) due (db w') \<and> tx_step w w'"
proof (induction due arbitrary: u w)
  case Nil
  then show ?case by (simp add: ret_def dispatched_Nil)
next
  case (Cons s due)
  from Cons.prems obtain y w1 where 1: "notify_step u s v w = (Inr y, w1)"
    and 2: "foldA notify_step y due v w1 = (Inr x, w')"
    by (auto elim: bindA_InrE)
  from notify_step_Inr [OF 1] obtain d1 where
    "tells (db w) d1 (map (telling (cn_mail_message_id s)) (thread_followers (db w) (cn_mail_message_id s)))"
    "db w1 = delete_schedule (cn_id s) d1" "tx_step w w1" by blast
  with Cons.IH [OF 2] show ?case by (metis dispatched_Cons tx_step_trans)
qed

lemma straight_notify [straight_intros]: "straight (notify_tx n)"
  unfolding notify_tx_def notify_step_def notify_followers_def notify_one_def
  by (intro straight_intros) (auto split: option.split intro!: straight_intros)

lemma notify_tx_Inr:
  assumes "notify_tx limit v w = (Inr n, w')"
  obtains now locked claimed where "claim_due_notify now limit locked (db w) = Inr (claimed, db w)"
    and "now = clock v (tick w)" and "dispatched (db w) claimed (db w')" and "n = length claimed"
proof -
  from assms obtain now w1 claimed w2 u where 1: "now_utc v w = ((Inr now :: ScheduleError + time), w1)" and
    2: "lift ScDb (stmt_locked (claim_due_notify now limit)) v w1 = (Inr claimed, w2)" and
    3: "foldA notify_step () claimed v w2 = (Inr u, w')" and n: "n = length claimed"
    unfolding notify_tx_def by (elim bindA_InrE ret_InrE) (simp only: that)
  from 1 have w1: "db w1 = db w" "now = clock v (tick w)" by (auto simp: now_utc_def)
  from 2 obtain locked where c: "claim_due_notify now limit locked (db w) = Inr (claimed, db w2)"
    unfolding w1(1) [symmetric] by (auto elim!: lift_InrE stmt_locked_InrE)
  then have w2: "db w2 = db w" by (auto simp: claim_due_notify_def split: sum.splits)
  from notify_steps_Inr [OF 3] show ?thesis using c w1(2) n unfolding w2 by (auto intro: that)
qed

lemma claim_due_notify_Inr:
  assumes "claim_due_notify now limit locked d = Inr (claimed, d')"
  shows "0 \<le> limit \<and> claimed = map (\<lambda>r. \<lparr>cn_id = nsc_id r, cn_mail_message_id = nsc_mail_message_id r,
    cn_notification_parameters = nsc_notification_parameters r\<rparr>) (take (nat limit) (due_schedules now locked d))"
  using assms by (auto simp: claim_due_notify_def sql_limit_def split: if_splits)

text \<open>The dispatch of delayed notifications claims due schedules in the order of their times, up to the
  batch limit, and for each of them tells every follower of the message's thread once, in the inbox; it
  deletes exactly the claimed schedules, and reports their number.  Nothing else in the database changes.\<close>

definition notify_dispatched :: "int \<Rightarrow> time \<Rightarrow> nat \<Rightarrow> db \<Rightarrow> db \<Rightarrow> bool" where
  "notify_dispatched limit now n d d' \<longleftrightarrow>
     (\<exists>locked due ns. 0 \<le> limit \<and> due = take (nat limit) (due_schedules now locked d) \<and> n = length due \<and>
        d' = d\<lparr>notifications := notifications d @ ns,
          notify_schedules := filter (\<lambda>r. nsc_id r \<notin> nsc_id ` set due) (notify_schedules d)\<rparr> \<and>
        map told ns = concat (map (\<lambda>s. map (telling (nsc_mail_message_id s))
          (thread_followers d (nsc_mail_message_id s))) due))"

lemma notify_tx_dispatched:
  assumes "notify_tx limit v w = (Inr n, w')"
  shows "notify_dispatched limit (clock v (tick w)) n (db w) (db w')"
proof -
  from notify_tx_Inr [OF assms] obtain now locked claimed where
    c: "claim_due_notify now limit locked (db w) = Inr (claimed, db w)" and now: "now = clock v (tick w)" and
    d: "dispatched (db w) claimed (db w')" and n: "n = length claimed"
    by blast
  let ?due = "take (nat limit) (due_schedules now locked (db w))"
  note c' = claim_due_notify_Inr [OF c]
  then have i: "cn_id ` set claimed = nsc_id ` set ?due" by (simp add: image_image)
  from d obtain ns where
    ns: "db w' = (db w)\<lparr>notifications := notifications (db w) @ ns,
        notify_schedules := filter (\<lambda>r. nsc_id r \<notin> nsc_id ` set ?due) (notify_schedules (db w))\<rparr>"
      "map told ns = concat (map (\<lambda>s. map (telling (cn_mail_message_id s)) (thread_followers (db w) (cn_mail_message_id s))) claimed)"
    unfolding dispatched_def i by blast
  with c' n show ?thesis unfolding now [symmetric] notify_dispatched_def
    by (intro exI [of _ locked] exI [of _ ?due] exI [of _ ns]) (simp add: comp_def)
qed

section \<open>Invariants\<close>

lemma keeps_peek [keeps_intros]: "keeps I (peek f)"
  by (simp add: keeps_def peek_def)

lemma keeps_beside [keeps_intros]: "keeps I m \<Longrightarrow> keeps I (beside m)"
  by (simp add: keeps_def beside_def)

lemma keeps_in_outer_tx:
  assumes "keeps I body" and undo: "\<And>d0 d. I d0 \<Longrightarrow> I d \<Longrightarrow> I (undo d0 d)"
  shows "keeps I (in_outer_tx undo up body)"
  unfolding keeps_def
proof (intro allI impI)
  fix v and w :: "('a, 'b) world"
  assume i: "I (db w)"
  obtain r w1 where b: "body v (begin_tx v w) = (r, w1)" by fastforce
  with keepsD [OF assms(1), of "begin_tx v w" v] i have "I (db w1)" by simp
  with b i undo show "I (db (snd (in_outer_tx undo up body v w)))"
    by (cases r) (simp_all add: in_outer_tx_def)
qed

text \<open>What an invariant has to satisfy for every operation of the service to keep it.\<close>

locale schedule_invariant = post_invariant +
  assumes notify_armed: "repo_arm_notify i m params at d = Inr (u, d') \<Longrightarrow> I d \<Longrightarrow> I d'"
    and pending_armed: "repo_arm_scheduled_message r d = Inr (u, d') \<Longrightarrow> I d \<Longrightarrow> I d'"
    and notify_gone: "I d \<Longrightarrow> I (delete_schedule i d)"
    and pending_gone: "I d \<Longrightarrow> I (delete_pending i d)"
    and claim_undone: "I d \<Longrightarrow> I d' \<Longrightarrow> I (undo_claim d d')"
begin

lemma keeps_claims:
  "keeps I (stmt_locked (claim_due_notify now limit))"
  "keeps I (stmt_locked (claim_due_scheduled_messages now limit))"
  by (rule keeps_stmt_locked; auto simp: claim_due_notify_def claim_due_scheduled_messages_def split: sum.splits)+

lemma keeps_deletes:
  "keeps I (stmt (delete_notify i))" "keeps I (stmt (delete_scheduled_message i))"
  "keeps I (stmt (repo_cancel_notify i))" "keeps I (stmt (repo_cancel_scheduled_message i))"
  by (rule keeps_stmt; auto simp: delete_notify_def delete_scheduled_message_def repo_cancel_notify_def
        repo_cancel_scheduled_message_def intro: notify_gone pending_gone)+

lemma keeps_arms:
  "keeps I (stmt (repo_arm_notify i m params at))" "keeps I (stmt (repo_arm_scheduled_message r))"
  by (rule keeps_stmt, erule (1) notify_armed [rotated] pending_armed [rotated])+

lemma keeps_list_followers: "keeps I (stmt (list_followers model res))"
  by (rule keeps_stmt) (auto simp: list_followers_def Let_def split: if_splits)

lemma keeps_notify_step: "keeps I (notify_step u s)"
  unfolding notify_step_def notify_followers_def notify_one_def
  by (intro keeps_intros keeps_notification keeps_deletes)
    (auto split: option.split intro!: keeps_intros keeps_list_followers keeps_notification)

lemma keeps_scheduled_step: "keeps I (scheduled_step acl pu c m)"
proof -
  have "keeps I (poster_message_id a)" for a
    unfolding poster_message_id_def mint_failure_note_def
    by (intro keeps_intros) (auto split: sum.split option.split intro!: keeps_intros keeps_message)
  then show ?thesis
    unfolding scheduled_step_def dispatch_one_def notify_author_of_failure_def notify_author_tx_def
    by (intro keeps_intros keeps_deletes keeps_post keeps_notification)
qed

lemma keeps_schedule_verbs:
  "keeps I (arm_notify m at params)" "keeps I (cancel_notify i)" "keeps I (dispatch_due_notify limit)"
  "keeps I (arm_scheduled_message acl a)" "keeps I (cancel_scheduled_message i author)"
  "keeps I (dispatch_due_scheduled acl pu limit)"
  unfolding arm_notify_def cancel_notify_def dispatch_due_notify_def notify_tx_def arm_scheduled_message_def
    arm_tx_def cancel_scheduled_message_def dispatch_due_scheduled_def scheduled_tx_def
  by (intro keeps_intros keeps_in_outer_tx keeps_bus keeps_arms keeps_deletes keeps_claims keeps_notify_step
      keeps_scheduled_step claim_undone; assumption?)+

end

text \<open>The partial unique index: a partner has at most one inbox or email notification of a message.\<close>

definition inboxed :: "notification_row \<Rightarrow> bool" where
  "inboxed n \<longleftrightarrow> ntf_partner n \<noteq> None \<and> ntf_type n \<in> {MailNotificationType.Inbox, MailNotificationType.Email}"

definition notified_once :: "db \<Rightarrow> bool" where
  "notified_once d \<longleftrightarrow> distinct (map (\<lambda>n. (ntf_message_id n, ntf_partner n)) (filter inboxed (notifications d)))"

definition schedule_schema :: "db \<Rightarrow> bool" where
  "schedule_schema d \<longleftrightarrow> schema_ok d \<and> distinct (map nsc_id (notify_schedules d)) \<and>
     distinct (map smg_id (scheduled_messages d)) \<and>
     (\<forall>r\<in>set (notify_schedules d). nsc_mail_message_id r \<in> msg_id ` set (messages d)) \<and>
     (\<forall>r\<in>set (scheduled_messages d). btrim_nonempty (smg_body r) \<and> btrim_nonempty (smg_model r))"

lemma notified_once_same: "notifications d' = notifications d \<Longrightarrow> notified_once d' \<longleftrightarrow> notified_once d"
  by (simp add: notified_once_def)

lemma notified_once_insert:
  assumes "insert_mail_notification n now d = Inr (i, d')" and "notified_once d"
  shows "notified_once d'"
proof -
  from assms(1) obtain r where d': "d' = d\<lparr>notifications := notifications d @ [r]\<rparr>" and
    r: "ntf_message_id r = nn_mail_message_id n" "ntf_partner r = nn_res_partner_id n"
      "MailNotificationType_show (ntf_type r) = nn_notification_type n"
    by (rule insert_mail_notification_Inr)
  from assms(1) r(3) have "\<not> list_ex (notification_uniq_clash (nn_mail_message_id n) (nn_res_partner_id n) (ntf_type r)) (notifications d)"
    by (auto simp: insert_mail_notification_def mail_notification_type.cast_iff mail_notification_type.label_inj
        split: option.splits if_splits)
  then have "(ntf_message_id r, ntf_partner r) \<notin> (\<lambda>n. (ntf_message_id n, ntf_partner n)) ` set (filter inboxed (notifications d))"
    if "inboxed r"
    using that r by (auto simp: list_ex_iff notification_uniq_clash_def inboxed_def)
  with assms(2) show ?thesis by (simp add: notified_once_def d')
qed

interpretation notified_once: schedule_invariant notified_once
proof unfold_locales
  show "notified_once d'" if "insert_mail_message m now d = Inr (u, d')" "notified_once d" for m now d u d'
    using that by (elim insert_mail_message_Inr) (simp add: notified_once_def)
  show "notified_once d'" if "insert_mail_notification n now d = Inr (i, d')" "notified_once d" for n now d i d'
    using that by (rule notified_once_insert)
  show "notified_once d'" if "insert_mail q d = Inr (j, d')" "notified_once d" for q d j d'
    using that by (elim insert_mail_Inr) (simp add: notified_once_def)
  show "notified_once d'" if "insert_sms s now d = Inr (u, d')" "notified_once d" for s now d u d'
    using that by (elim insert_sms_Inr) (simp add: notified_once_def)
  show "notified_once d'" if "insert_tracker s d = Inr (u, d')" "notified_once d" for s d u d'
    using that by (elim insert_tracker_Inr) (simp add: notified_once_def)
qed (auto simp: notified_once_def repo_arm_notify_def repo_arm_scheduled_message_def delete_schedule_def
       delete_pending_def undo_claim_def split: if_splits)

lemma schedule_schema_messages:
  assumes "schedule_schema d" and "schema_ok d'" and "msg_id ` set (messages d) \<subseteq> msg_id ` set (messages d')"
    and "notify_schedules d' = notify_schedules d" and "scheduled_messages d' = scheduled_messages d"
  shows "schedule_schema d'"
  using assms by (auto simp: schedule_schema_def)

interpretation schedule_schema: schedule_invariant schedule_schema
proof unfold_locales
  show "schedule_schema d'" if "insert_mail_message m now d = Inr (u, d')" "schedule_schema d" for m now d u d'
    using that(2) schema_ok_insert_message [OF that(1)]
    by (rule schedule_schema_messages; use that in \<open>auto simp: schedule_schema_def elim!: insert_mail_message_Inr\<close>)
  show "schedule_schema d'" if "insert_mail_notification n now d = Inr (i, d')" "schedule_schema d" for n now d i d'
    using that(2) schema_ok_insert_notification [OF that(1)]
    by (rule schedule_schema_messages; use that in \<open>auto simp: schedule_schema_def elim!: insert_mail_notification_Inr\<close>)
  show "schedule_schema d'" if "insert_mail q d = Inr (j, d')" "schedule_schema d" for q d j d'
    using that(2) schema_ok_insert_mail [OF that(1)]
    by (rule schedule_schema_messages; use that in \<open>auto simp: schedule_schema_def elim!: insert_mail_Inr\<close>)
  show "schedule_schema d'" if "insert_sms s now d = Inr (u, d')" "schedule_schema d" for s now d u d'
    using that(2) schema_ok_insert_sms [OF that(1)]
    by (rule schedule_schema_messages; use that in \<open>auto simp: schedule_schema_def elim!: insert_sms_Inr\<close>)
  show "schedule_schema d'" if "insert_tracker s d = Inr (u, d')" "schedule_schema d" for s d u d'
    using that(2) schema_ok_insert_tracker [OF that(1)]
    by (rule schedule_schema_messages; use that in \<open>auto simp: schedule_schema_def elim!: insert_tracker_Inr\<close>)
qed (auto simp: schedule_schema_def schema_ok_def repo_arm_notify_def repo_arm_scheduled_message_def delete_schedule_def
       delete_pending_def undo_claim_def distinct_map_filter split: if_splits)

definition schedule_constraints :: "db \<Rightarrow> bool" where
  "schedule_constraints d \<longleftrightarrow> schedule_schema d \<and> notified_once d"

lemma keeps_both: "keeps I m \<Longrightarrow> keeps J m \<Longrightarrow> keeps (\<lambda>d. I d \<and> J d) m"
  by (simp add: keeps_def)

text \<open>Every run of every operation of deferred messages keeps the keys, references and required texts of
  the two tables and of the queues, and that no partner is told of a message twice (in the inbox and by
  email together at most once).\<close>

lemma schedule_verbs_invariant:
  "keeps schedule_constraints (arm_notify m at params) \<and> keeps schedule_constraints (cancel_notify i) \<and>
   keeps schedule_constraints (dispatch_due_notify limit) \<and>
   keeps schedule_constraints (arm_scheduled_message acl a) \<and>
   keeps schedule_constraints (cancel_scheduled_message i author) \<and>
   keeps schedule_constraints (dispatch_due_scheduled acl pu limit) \<and>
   keeps schedule_constraints (message_post cmd)"
  unfolding schedule_constraints_def [abs_def]
  by (intro conjI keeps_both notified_once.keeps_schedule_verbs schedule_schema.keeps_schedule_verbs
      notified_once.keeps_post schedule_schema.keeps_post)

section \<open>A schedule that blocks the dispatch\<close>

text \<open>A follower who was already told of the message when it was posted makes the insert of the dispatch
  violate the partial unique index, which rolls the whole batch back.\<close>

lemma notified_once_clash:
  assumes "notified_once (d\<lparr>notifications := notifications d @ ns\<rparr>)" and "q \<in> set (notifications d)" and "inboxed q"
    and "n \<in> set ns" and "inboxed n"
  shows "(ntf_message_id n, ntf_partner n) \<noteq> (ntf_message_id q, ntf_partner q)"
  using assms by (auto simp: notified_once_def)

lemma poisoned_batch_rolls_back:
  assumes "notified_once (db w)" and "dispatch_due_notify limit v w = (r, w')"
    and "\<And>locked. (\<And>i. \<not> locked i) \<Longrightarrow> s \<in> set (take (nat limit) (due_schedules (clock v (Suc (tick w))) locked (db w)))"
    and "\<And>k i. \<not> row_locked v k i"
    and "q \<in> set (notifications (db w))" and "inboxed q" and "ntf_message_id q = nsc_mail_message_id s"
    and "ntf_partner q = Some p" and "p \<in> set (thread_followers (db w) (nsc_mail_message_id s))"
  shows "isl r \<and> db w' = db w"
proof -
  have no: False if "notify_tx limit v (begin_tx v w) = (Inr n, w0)" for n w0
  proof -
    have "keeps notified_once (notify_tx limit :: (db, 'a, ScheduleError, nat) act)"
      unfolding notify_tx_def
      by (intro keeps_intros notified_once.keeps_claims notified_once.keeps_notify_step)
    from keepsD [OF this, of "begin_tx v w" v] that assms(1) have once: "notified_once (db w0)" by simp
    from that obtain now w1 claimed w2 u where 1: "now_utc v (begin_tx v w) = ((Inr now :: ScheduleError + time), w1)" and
      2: "lift ScDb (stmt_locked (claim_due_notify now limit)) v w1 = (Inr claimed, w2)" and
      3: "foldA notify_step () claimed v w2 = (Inr u, w0)"
      unfolding notify_tx_def by (elim bindA_InrE ret_InrE) (simp only: that)
    from 1 have w1: "db w1 = db w" "now = clock v (Suc (tick w))" by (auto simp: now_utc_def)
    from 2 have c: "claim_due_notify now limit (row_locked v (tick w1)) (db w) = Inr (claimed, db w2)"
      unfolding w1(1) [symmetric] stmt_locked_def by (auto elim!: lift_InrE stmt_InrE)
    then have w2: "db w2 = db w" by (auto simp: claim_due_notify_def split: sum.splits)
    from claim_due_notify_Inr [OF c] assms(3) [of "row_locked v (tick w1)", folded w1(2)] assms(4)
    obtain c where c: "c \<in> set claimed" "cn_mail_message_id c = nsc_mail_message_id s" by force
    from notify_steps_Inr [OF 3] obtain ns where
      d: "db w0 = (db w)\<lparr>notifications := notifications (db w) @ ns,
        notify_schedules := filter (\<lambda>r. nsc_id r \<notin> cn_id ` set claimed) (notify_schedules (db w))\<rparr>" and
      t: "map told ns = concat (map (\<lambda>s. map (telling (cn_mail_message_id s)) (thread_followers (db w) (cn_mail_message_id s))) claimed)"
      unfolding dispatched_def w2 by blast
    from c assms(9) have "telling (nsc_mail_message_id s) p \<in> set (map told ns)"
      unfolding t by (auto intro!: bexI [of _ c])
    then obtain n where n: "n \<in> set ns" "told n = telling (nsc_mail_message_id s) p" by auto
    then have "inboxed n" by (simp add: told_def telling_def inboxed_def)
    moreover have "notified_once ((db w)\<lparr>notifications := notifications (db w) @ ns\<rparr>)"
      using once by (simp add: notified_once_def d)
    ultimately show False
      using notified_once_clash [of "db w" ns q n] n assms(5-8) by (simp add: told_def telling_def)
  qed
  have "db w' = db w" using in_tx_cases [OF assms(2) [unfolded dispatch_due_notify_def]] no by blast
  moreover have "isl r"
  proof (cases r)
    case (Inr n)
    with assms(2) have "in_tx ScDb (notify_tx limit) v w = (Inr n, w')" by (simp add: dispatch_due_notify_def)
    then obtain w0 where "notify_tx limit v (begin_tx v w) = (Inr n, w0)"
      by (rule in_tx_straight [OF _ straight_notify])
    then show ?thesis using no by blast
  qed simp
  ultimately show ?thesis by blast
qed

section \<open>The dispatch of delayed posts\<close>

text \<open>\<open>noted author d d'\<close>: at most one note on the author's wall and one inbox notification to the author were
  added.  \<open>fires\<close> is the abstract dispatch of a batch: each message in turn leaves the table and is either
  posted in full, its author being allowed at that moment, or skipped with at most a note to the author.\<close>

definition noted :: "uuid \<Rightarrow> db \<Rightarrow> db \<Rightarrow> bool" where
  "noted author d d' \<longleftrightarrow>
     (\<exists>ms ns. d' = d\<lparr>messages := messages d @ ms, notifications := notifications d @ ns\<rparr> \<and>
        length ms \<le> 1 \<and> length ns \<le> 1 \<and>
        (\<forall>m\<in>set ms. msg_model m = Some ''res.partner'' \<and> msg_res_id m = Some author \<and> msg_author_id m = None) \<and>
        (\<forall>n\<in>set ns. ntf_partner n = Some author \<and> ntf_type n = MailNotificationType.Inbox))"

inductive fires ::
  "env \<Rightarrow> ThreadAccessResolver \<Rightarrow> (string \<Rightarrow> uuid option) \<Rightarrow> db \<Rightarrow> ClaimedScheduledMessage list \<Rightarrow> nat \<Rightarrow> nat \<Rightarrow> db \<Rightarrow> bool"
  for v :: env and acl :: ThreadAccessResolver and pu :: "string \<Rightarrow> uuid option" where
  finished: "fires v acl pu d [] 0 0 d"
| posted: "can_post acl (delete_pending (cs_id m) d) (User (cs_author_party_id m)) (cs_model m) (cs_res_id m) \<Longrightarrow>
     post_effect v (post_of pu m) p (delete_pending (cs_id m) d) d1 \<Longrightarrow>
     fires v acl pu d1 ms n k d' \<Longrightarrow> fires v acl pu d (m # ms) (Suc n) k d'"
| skipped: "noted (cs_author_party_id m) (delete_pending (cs_id m) d) d1 \<Longrightarrow>
     fires v acl pu d1 ms n k d' \<Longrightarrow> fires v acl pu d (m # ms) n (Suc k) d'"

inductive_cases fires_ConsE: "fires v acl pu d (m # ms) n k d'"
inductive_simps fires_Nil [simp]: "fires v acl pu d [] n k d'"

lemma noted_refl: "noted a d d"
  unfolding noted_def by (intro exI [of _ "[]"]) simp

lemma fires_counts: "fires v acl pu d ms n k d' \<Longrightarrow> n + k = length ms"
  by (induction rule: fires.induct) simp_all

lemma post_effect_pending: "post_effect v cmd p d d' \<Longrightarrow> scheduled_messages d' = scheduled_messages d"
  by (auto simp: post_effect_def grew_def)

text \<open>Exactly the claimed messages leave the table.\<close>

lemma fires_pending:
  "fires v acl pu d ms n k d' \<Longrightarrow>
   scheduled_messages d' = filter (\<lambda>r. smg_id r \<notin> cs_id ` set ms) (scheduled_messages d)"
proof (induction rule: fires.induct)
  case (finished d)
  then show ?case by (simp add: filter_True)
next
  case (posted m d p d1 ms n k d')
  then show ?case by (auto simp: delete_pending_def dest!: post_effect_pending intro: filter_cong)
next
  case (skipped m d d1 ms n k d')
  then show ?case by (auto simp: delete_pending_def noted_def intro: filter_cong)
qed

text \<open>An author who is never allowed has nothing posted.\<close>

lemma fires_denied:
  "fires v acl pu d ms n k d' \<Longrightarrow>
   (\<And>d m. m \<in> set ms \<Longrightarrow> \<not> can_post acl d (User (cs_author_party_id m)) (cs_model m) (cs_res_id m)) \<Longrightarrow> n = 0"
  by (induction rule: fires.induct) auto

lemma message_post_err:
  assumes "message_post cmd v w = (Inl e, w')" and "\<forall>n. \<not> ack_lost v n"
  shows "db w' = db w"
  using assms in_tx_Inl [of MailDb "message_post_tx cmd" v w e w']
  by (auto simp: message_post_def fail_def split: if_splits)

lemma dispatch_one_Inr:
  assumes "dispatch_one acl pu m v w = (Inr ok, w')" and "\<forall>n. \<not> ack_lost v n"
  shows "if ok then can_post acl (db w) (User (cs_author_party_id m)) (cs_model m) (cs_res_id m) \<and>
      (\<exists>p. post_effect v (post_of pu m) p (db w) (db w')) else db w' = db w"
proof (cases "can_post acl (db w) (User (cs_author_party_id m)) (cs_model m) (cs_res_id m)")
  case False
  with assms(1) show ?thesis by (auto simp: dispatch_one_def bindA_def peek_def ret_def)
next
  case True
  obtain r w1 where m: "message_post (post_of pu m) v w = (r, w1)" by fastforce
  with True assms(1) have "ok \<longleftrightarrow> \<not> isl r" "w' = w1"
    by (simp_all add: dispatch_one_def bindA_def peek_def attempt_def ret_def)
  with m True message_post_effect [of "post_of pu m" v w _ w1] message_post_err [of "post_of pu m" v w _ w1] assms(2)
  show ?thesis by (cases r) auto
qed

lemma attempt_stmt_now_Inr:
  assumes "attempt (stmt_now q) v w = (Inr r, w')"
  shows "case r of Inl e \<Rightarrow> db w' = db w | Inr x \<Rightarrow> q (tx_start w) (db w) = Inr (x, db w')"
  using assms by (auto simp: attempt_def stmt_now_def split: sum.splits if_splits)

lemma attempt_stmt_reading_Inr:
  assumes "attempt (stmt (reading f)) v w = (Inr r, w')"
  shows "db w' = db w"
  using assms by (auto simp: attempt_def stmt_def stmt_now_def reading_def split: if_splits)

lemma mint_failure_note_Inr:
  assumes "mint_failure_note a v w = (Inr z, w')"
  shows "\<exists>ms. db w' = (db w)\<lparr>messages := messages (db w) @ ms\<rparr> \<and> length ms \<le> 1 \<and>
    (\<forall>m\<in>set ms. msg_model m = Some ''res.partner'' \<and> msg_res_id m = Some a \<and> msg_author_id m = None)"
proof -
  from assms obtain i w1 r w2 where 1: "new_v4 v w = ((Inr i :: db_error + uuid), w1)" and
    2: "attempt (stmt_now (insert_mail_message (failure_note i a))) v w1 = ((Inr r :: db_error + _), w2)" and "w' = w2"
    unfolding mint_failure_note_def by (elim bindA_InrE ret_InrE) (rule that; simp)
  moreover from 1 have "db w1 = db w" by (auto elim: new_v4_InrE)
  moreover note attempt_stmt_now_Inr [OF 2]
  ultimately show ?thesis
  proof (cases r)
    case (Inl e)
    with \<open>db w1 = db w\<close> \<open>w' = w2\<close> attempt_stmt_now_Inr [OF 2] show ?thesis
      by (intro exI [of _ "[]"]) simp
  next
    case (Inr u)
    with attempt_stmt_now_Inr [OF 2] \<open>db w1 = db w\<close> \<open>w' = w2\<close>
    have "insert_mail_message (failure_note i a) (tx_start w1) (db w) = Inr (u, db w')" by simp
    then show ?thesis
      by (rule insert_mail_message_Inr) (intro exI [of _ "[_]"], simp add: failure_note_def)
  qed
qed

lemma poster_message_id_Inr:
  assumes "poster_message_id a v w = (Inr z, w')"
  shows "\<exists>ms. db w' = (db w)\<lparr>messages := messages (db w) @ ms\<rparr> \<and> length ms \<le> 1 \<and>
    (\<forall>m\<in>set ms. msg_model m = Some ''res.partner'' \<and> msg_res_id m = Some a \<and> msg_author_id m = None)"
proof -
  from assms obtain r w1 where 1: "attempt (stmt (reading (latest_author_wall_message a))) v w = ((Inr r :: db_error + _), w1)"
    and 2: "(case r of Inr (Some i) \<Rightarrow> ret (Some i) | _ \<Rightarrow> mint_failure_note a) v w1 = (Inr z, w')"
    unfolding poster_message_id_def by (rule bindA_InrE)
  have w1: "db w1 = db w" using attempt_stmt_reading_Inr [OF 1] .
  show ?thesis
  proof (cases "\<exists>i. r = Inr (Some i)")
    case True
    with 2 w1 show ?thesis by (intro exI [of _ "[]"]) (auto simp: ret_def)
  next
    case False
    with 2 have "mint_failure_note a v w1 = (Inr z, w')" by (auto split: sum.splits option.splits)
    from mint_failure_note_Inr [OF this] w1 show ?thesis by simp
  qed
qed

lemma notify_author_tx_Inr:
  assumes "notify_author_tx i a v w = (Inr x, w')"
  shows "noted a (db w) (db w')"
proof -
  from assms obtain z w1 where 1: "poster_message_id a v w = (Inr z, w1)" and
    2: "(case z of None \<Rightarrow> fail Connection
     | Some wall \<Rightarrow> bindA (attempt (stmt_now (insert_mail_notification (follower_notification i wall a)))) (\<lambda>_. ret ())) v w1 = (Inr x, w')"
    unfolding notify_author_tx_def by (rule bindA_InrE)
  from 2 obtain wall where z: "z = Some wall" by (cases z) (auto simp: fail_def)
  from 2 [unfolded z option.case] obtain r w2 where 3: "attempt (stmt_now (insert_mail_notification (follower_notification i wall a))) v w1 = ((Inr r :: db_error + _), w2)"
    and "w' = w2" by (elim bindA_InrE ret_InrE) (rule that; simp)
  from poster_message_id_Inr [OF 1] obtain ms where
    ms: "db w1 = (db w)\<lparr>messages := messages (db w) @ ms\<rparr>" "length ms \<le> 1"
      "\<forall>m\<in>set ms. msg_model m = Some ''res.partner'' \<and> msg_res_id m = Some a \<and> msg_author_id m = None" by blast
  show ?thesis
  proof (cases r)
    case (Inl e)
    with attempt_stmt_now_Inr [OF 3] \<open>w' = w2\<close> ms show ?thesis
      unfolding noted_def by (intro exI [of _ ms] exI [of _ "[]"]) simp
  next
    case (Inr j)
    with attempt_stmt_now_Inr [OF 3] \<open>w' = w2\<close>
    have "insert_mail_notification (follower_notification i wall a) (tx_start w1) (db w1) = Inr (j, db w')" by simp
    then obtain n where "db w' = (db w1)\<lparr>notifications := notifications (db w1) @ [n]\<rparr>" "ntf_partner n = Some a"
      "ntf_type n = MailNotificationType.Inbox"
      by (rule insert_mail_notification_Inr)
        (simp add: follower_notification_def flip: mail_notification_type.cast_iff)
    with ms show ?thesis unfolding noted_def by (intro exI [of _ ms] exI [of _ "[n]"]) simp
  qed
qed

lemma notify_author_noted:
  assumes "notify_author_of_failure a v w = (r, w')"
  shows "noted a (db w) (db w')"
proof -
  obtain q w2 where t: "in_tx (\<lambda>e. e) (notify_author_tx (rng v (tick w)) a) v (w\<lparr>tick := Suc (tick w)\<rparr>) = (q, w2)"
    by fastforce
  with assms have "w' = w2" by (simp add: notify_author_of_failure_def bindA_def new_v4_def attempt_def ret_def)
  from t show ?thesis
  proof (cases rule: in_tx_cases)
    case 1
    with \<open>w' = w2\<close> show ?thesis by (simp add: noted_refl)
  next
    case (2 x w1)
    from notify_author_tx_Inr [OF 2(1)] 2(2) \<open>w' = w2\<close> show ?thesis by simp
  qed
qed

lemma beside_InrE:
  assumes "beside m v w = (r, w')"
  obtains w1 where "m v w = (r, w1)" and "db w' = db w1" and "aborted w' = aborted w"
  using assms by (cases "m v w") (auto simp: beside_def)

lemma straight_beside [straight_intros]: "straight (beside m)"
  by (auto simp: straight_def beside_def)

lemma scheduled_step_Inr:
  assumes "scheduled_step acl pu c m v w = (Inr c', w')" and "\<forall>n. \<not> ack_lost v n"
    and "fires v acl pu (db w') ms n k d'"
  shows "\<exists>n' k'. fires v acl pu (db w) (m # ms) n' k' d' \<and> fst c + n' = fst c' + n \<and> snd c + k' = snd c' + k"
proof -
  from assms(1) obtain u w1 ok w2 where 1: "lift ScDb (stmt (delete_scheduled_message (cs_id m))) v w = (Inr u, w1)" and
    2: "beside (dispatch_one acl pu m) v w1 = (Inr ok, w2)" and
    3: "(if ok then ret (Suc (fst c), snd c)
     else bindA (beside (notify_author_of_failure (cs_author_party_id m))) (\<lambda>_.
          ret (fst c, Suc (snd c)))) v w2 = (Inr c', w')"
    unfolding scheduled_step_def by (elim bindA_InrE) (rule that)
  from 1 have w1: "db w1 = delete_pending (cs_id m) (db w)"
    by (auto simp: delete_scheduled_message_def elim!: lift_InrE stmt_InrE)
  from 2 obtain w3 where d: "dispatch_one acl pu m v w1 = (Inr ok, w3)" and w2: "db w2 = db w3" by (rule beside_InrE)
  note d = dispatch_one_Inr [OF d assms(2), folded w2, unfolded w1]
  show ?thesis
  proof (cases ok)
    case True
    with 3 have c': "c' = (Suc (fst c), snd c)" "w' = w2" by (simp_all add: ret_def)
    from d True obtain p where "can_post acl (delete_pending (cs_id m) (db w)) (User (cs_author_party_id m)) (cs_model m) (cs_res_id m)"
      "post_effect v (post_of pu m) p (delete_pending (cs_id m) (db w)) (db w2)" by auto
    from fires.posted [OF this assms(3) [unfolded c'(2)]] c'(1) show ?thesis
      by (intro exI [of _ "Suc n"] exI [of _ k]) simp
  next
    case False
    with 3 have 3: "bindA (beside (notify_author_of_failure (cs_author_party_id m))) (\<lambda>_.
          ret (fst c, Suc (snd c))) v w2 = (Inr c', w')" by simp
    then obtain x w4 where b: "beside (notify_author_of_failure (cs_author_party_id m)) v w2 = (Inr x, w4)"
      and c': "c' = (fst c, Suc (snd c))" "w' = w4"
      by (elim bindA_InrE ret_InrE) (rule that)
    from b obtain w5 where "notify_author_of_failure (cs_author_party_id m) v w2 = (Inr x, w5)" "db w4 = db w5"
      by (rule beside_InrE)
    with notify_author_noted have "noted (cs_author_party_id m) (db w2) (db w')" unfolding c'(2) by metis
    moreover have "db w2 = delete_pending (cs_id m) (db w)" using d False by simp
    ultimately have "noted (cs_author_party_id m) (delete_pending (cs_id m) (db w)) (db w')" by simp
    from fires.skipped [OF this assms(3)] c'(1) show ?thesis
      by (intro exI [of _ n] exI [of _ "Suc k"]) simp
  qed
qed

lemma scheduled_steps_Inr:
  assumes "\<forall>n. \<not> ack_lost v n"
  shows "foldA (scheduled_step acl pu) c ms v w = (Inr c', w') \<Longrightarrow>
    \<exists>n k. fires v acl pu (db w) ms n k (db w') \<and> fst c' = fst c + n \<and> snd c' = snd c + k"
proof (induction ms arbitrary: c w)
  case Nil
  then show ?case by (auto simp: ret_def)
next
  case (Cons m ms)
  from Cons.prems obtain c1 w1 where 1: "scheduled_step acl pu c m v w = (Inr c1, w1)" and
    2: "foldA (scheduled_step acl pu) c1 ms v w1 = (Inr c', w')"
    by (auto elim: bindA_InrE)
  from Cons.IH [OF 2] obtain n k where f: "fires v acl pu (db w1) ms n k (db w')"
    and c: "fst c' = fst c1 + n" "snd c' = snd c1 + k" by blast
  from scheduled_step_Inr [OF 1 assms f] obtain n' k' where "fires v acl pu (db w) (m # ms) n' k' (db w')"
    "fst c + n' = fst c1 + n" "snd c + k' = snd c1 + k" by blast
  with c show ?case by (intro exI [of _ n'] exI [of _ k']) simp
qed

lemma in_outer_tx_Inl:
  assumes "in_outer_tx undo up body v w = (Inl e, w')" and "\<forall>n. \<not> ack_lost v n"
  shows "db w' = db w \<or> (\<exists>d. db w' = undo (db w) d)"
proof (cases "fault v (tick w)")
  case True
  with assms show ?thesis by (auto simp: in_outer_tx_def)
next
  case no_fault: False
  obtain q w1 where b: "body v (begin_tx v w) = (q, w1)" by fastforce
  with assms no_fault show ?thesis
    by (cases q) (auto simp: in_outer_tx_def commit_def Let_def split: if_splits)
qed

lemma in_outer_tx_Inr:
  assumes "in_outer_tx undo up body v w = (Inr x, w')" and "straight body"
  obtains w1 where "body v (begin_tx v w) = (Inr x, w1)" and "db w' = db w1"
proof (cases "fault v (tick w)")
  case True
  with assms show ?thesis by (auto simp: in_outer_tx_def)
next
  case no_fault: False
  obtain q w1 where b: "body v (begin_tx v w) = (q, w1)" by fastforce
  with straightD [OF assms(2), of v "begin_tx v w" _ w1] assms(1) no_fault that show ?thesis
    by (cases q) (auto simp: in_outer_tx_def commit_def Let_def split: if_splits)
qed


section \<open>Cancelling\<close>

text \<open>Only its author cancels a pending message: any run that changes the database removed exactly that
  message, and the caller was its author.\<close>

lemma cancel_only_author:
  assumes "cancel_scheduled_message i author v w = (r, w')" and "db w' \<noteq> db w"
  shows "scheduled_author_for_update i (db w) = Some (Some author) \<and> db w' = delete_pending i (db w)"
  using assms(1) unfolding cancel_scheduled_message_def
proof (cases rule: in_tx_cases)
  case 1
  with assms(2) show ?thesis by simp
next
  case (2 x w0)
  from 2(1) obtain found w1 u w2 gone w3 where
    a: "lift ScDb (stmt (reading (scheduled_author_for_update i))) v (begin_tx v w) = (Inr found, w1)" and
    b: "of_sum (cancel_check i author found) v w1 = (Inr u, w2)" and
    c: "lift ScDb (stmt (repo_cancel_scheduled_message i)) v w2 = (Inr gone, w3)" and
    d: "(if gone then ret () else fail (ScNotFound i)) v w3 = (Inr x, w0)"
    by (elim bindA_InrE) (rule that)
  from a have f: "found = scheduled_author_for_update i (db w)" "db w1 = db w" by (auto elim: reading_stmt_InrE)
  from b have "found = Some (Some author)" "w2 = w1"
    by (auto simp: of_sum_def cancel_check_def split: option.splits if_splits)
  moreover from c have "db w3 = delete_pending i (db w2)"
    by (auto simp: repo_cancel_scheduled_message_def elim!: lift_InrE stmt_InrE)
  moreover from d have "w0 = w3" by (cases gone) (simp_all add: ret_def fail_def)
  ultimately show ?thesis using 2(2) f by simp
qed

section \<open>Arming, cancelling and telling\<close>

text \<open>\<open>outcome v w q P\<close>: the run \<open>q\<close> from \<open>w\<close> either answers a value and left a database allowed by \<open>P\<close>, or
  answers an error and left the database alone.  The exception is a COMMIT whose acknowledgement was lost: the
  answer is a connection error although the transaction was applied.\<close>

definition outcome ::
  "env \<Rightarrow> (db, 'o) world \<Rightarrow> (ScheduleError + 'a) \<times> (db, 'o) world \<Rightarrow> ('a \<Rightarrow> db \<Rightarrow> db \<Rightarrow> bool) \<Rightarrow> bool" where
  "outcome v w q P \<longleftrightarrow>
     (case q of
        (Inr x, w') \<Rightarrow> P x (db w) (db w')
      | (Inl e, w') \<Rightarrow> db w' = db w \<or>
          e = ScDb Connection \<and> (\<exists>n. ack_lost v n) \<and> (\<exists>x. P x (db w) (db w')))"

lemma outcome_tick: "outcome v (w\<lparr>tick := n\<rparr>) q P \<longleftrightarrow> outcome v w q P"
  by (cases q; cases "fst q") (simp_all add: outcome_def)

lemma outcome_in_tx:
  assumes "straight body" and "\<And>x w1. body v (begin_tx v w) = (Inr x, w1) \<Longrightarrow> P x (db w) (db w1)"
  shows "outcome v w (in_tx ScDb body v w) P"
proof -
  obtain r w' where q: "in_tx ScDb body v w = (r, w')" by fastforce
  show ?thesis
  proof (cases r)
    case (Inr x)
    from q [unfolded Inr] assms(1) obtain w1 where "body v (begin_tx v w) = (Inr x, w1)" "db w' = db w1"
      by (rule in_tx_straight)
    with assms(2) Inr q show ?thesis by (simp add: outcome_def)
  next
    case (Inl e)
    with q in_tx_Inl [of ScDb body v w e w'] in_tx_atomic [OF q] assms(2) show ?thesis
      by (auto simp: outcome_def)
  qed
qed

text \<open>What each verb may do.\<close>

definition notify_armed :: "env \<Rightarrow> uuid \<Rightarrow> time \<Rightarrow> string option \<Rightarrow> time \<Rightarrow> uuid \<Rightarrow> db \<Rightarrow> db \<Rightarrow> bool" where
  "notify_armed v message at params now i d d' \<longleftrightarrow>
     now < at \<and> message \<in> msg_id ` set (messages d) \<and> i \<notin> nsc_id ` set (notify_schedules d) \<and>
     (\<exists>ev. d' = d\<lparr>notify_schedules := notify_schedules d @
          [\<lparr>nsc_id = i, nsc_mail_message_id = message, nsc_notification_parameters = params,
            nsc_scheduled_datetime = at\<rparr>], outbox := outbox d @ [ev]\<rparr> \<and>
        event_type ev = ''MailMessageScheduleCreated'' \<and>
        event_channel ev = Some (''mail.schedule_'' @ uuid_text v i))"

definition post_armed :: "env \<Rightarrow> ThreadAccessResolver \<Rightarrow> ArmScheduled \<Rightarrow> time \<Rightarrow> uuid \<Rightarrow> db \<Rightarrow> db \<Rightarrow> bool" where
  "post_armed v acl a now i d d' \<longleftrightarrow>
     \<not> blank (am_body a) \<and> now < am_scheduled_date a \<and>
     can_post acl d (User (am_author_party_id a)) (am_model a) (am_res_id a) \<and>
     i \<notin> smg_id ` set (scheduled_messages d) \<and>
     (\<exists>ev. d' = d\<lparr>scheduled_messages := scheduled_messages d @ [armed_row i a], outbox := outbox d @ [ev]\<rparr> \<and>
        event_type ev = ''MailScheduledMessageCreated'' \<and>
        event_channel ev = Some (partner_channel (uuid_text v) (am_author_party_id a)))"

definition notify_cancelled :: "uuid \<Rightarrow> db \<Rightarrow> db \<Rightarrow> bool" where
  "notify_cancelled i d d' \<longleftrightarrow> i \<in> nsc_id ` set (notify_schedules d) \<and> d' = delete_schedule i d"

definition post_cancelled :: "uuid \<Rightarrow> uuid \<Rightarrow> db \<Rightarrow> db \<Rightarrow> bool" where
  "post_cancelled i author d d' \<longleftrightarrow>
     scheduled_author_for_update i d = Some (Some author) \<and> d' = delete_pending i d"

lemma arm_notify_unfold:
  "arm_notify message at params v w =
     (if at \<le> clock v (tick w)
      then (Inl (ScInvalid ''scheduled_datetime must be in the future (a past schedule is just a post)''),
        w\<lparr>tick := Suc (tick w)\<rparr>)
      else in_tx ScDb (
         bindA (lift ScDb (stmt (repo_arm_notify (rng v (Suc (tick w))) message params at))) (\<lambda>_.
         bindA (lift ScDb (stage_bus_event ''MailMessageScheduleCreated'' ''MailMessageSchedule'' (uuid_text v (rng v (Suc (tick w))))
           (''mail.schedule_'' @ uuid_text v (rng v (Suc (tick w)))) ''mail.message.schedule/insert''
           (JObject [(''schedule_id'', JString (uuid_text v (rng v (Suc (tick w))))), (''mail_message_id'', JString (uuid_text v message)),
                     (''scheduled_datetime'', JString (time_text v at))]))) (\<lambda>_. ret (rng v (Suc (tick w)))))) v
        (w\<lparr>tick := Suc (Suc (tick w))\<rparr>))"
  by (simp add: arm_notify_def bindA_run(1) [OF now_utc_run] bindA_run(1) [OF new_v4_run] bindA_ask fail_run)

lemma arm_scheduled_unfold:
  "arm_scheduled_message acl a v w =
     (if blank (am_body a) then (Inl (ScInvalid ''body is required''), w)
      else if am_scheduled_date a \<le> clock v (tick w)
        then (Inl (ScInvalid ''scheduled_date must be in the future''), w\<lparr>tick := Suc (tick w)\<rparr>)
      else if \<not> can_post acl (db w) (User (am_author_party_id a)) (am_model a) (am_res_id a)
        then (Inl (CannotPost (am_model a) (am_res_id a)), w\<lparr>tick := Suc (tick w)\<rparr>)
      else in_tx ScDb (arm_tx (rng v (Suc (tick w))) a) v (w\<lparr>tick := Suc (Suc (tick w))\<rparr>))"
  by (simp add: arm_scheduled_message_def bindA_run(1) [OF now_utc_run] bindA_run(1) [OF new_v4_run] fail_run)
    (simp add: bindA_def peek_def fail_def new_v4_def)

lemma notify_armed_outcome:
  "outcome v w (arm_notify m at params v w) (notify_armed v m at params (clock v (tick w)))"
proof (cases "at \<le> clock v (tick w)")
  case True
  then show ?thesis by (simp add: outcome_def arm_notify_unfold)
next
  case False
  have "outcome v (w\<lparr>tick := Suc (Suc (tick w))\<rparr>) (arm_notify m at params v w)
      (notify_armed v m at params (clock v (tick w)))"
    unfolding arm_notify_unfold if_not_P [OF False]
  proof (rule outcome_in_tx)
    fix x w1
    assume "bindA (lift ScDb (stmt (repo_arm_notify (rng v (Suc (tick w))) m params at))) (\<lambda>_.
         bindA (lift ScDb (stage_bus_event ''MailMessageScheduleCreated'' ''MailMessageSchedule'' (uuid_text v (rng v (Suc (tick w))))
           (''mail.schedule_'' @ uuid_text v (rng v (Suc (tick w)))) ''mail.message.schedule/insert''
           (JObject [(''schedule_id'', JString (uuid_text v (rng v (Suc (tick w))))), (''mail_message_id'', JString (uuid_text v m)),
                     (''scheduled_datetime'', JString (time_text v at))]))) (\<lambda>_. ret (rng v (Suc (tick w)))))
        v (begin_tx v (w\<lparr>tick := Suc (Suc (tick w))\<rparr>)) = (Inr x, w1)"
    then obtain u w2 u2 w3 where
      1: "lift ScDb (stmt (repo_arm_notify (rng v (Suc (tick w))) m params at)) v (begin_tx v (w\<lparr>tick := Suc (Suc (tick w))\<rparr>)) = (Inr u, w2)" and
      2: "lift ScDb (stage_bus_event ''MailMessageScheduleCreated'' ''MailMessageSchedule'' (uuid_text v (rng v (Suc (tick w))))
           (''mail.schedule_'' @ uuid_text v (rng v (Suc (tick w)))) ''mail.message.schedule/insert''
           (JObject [(''schedule_id'', JString (uuid_text v (rng v (Suc (tick w))))), (''mail_message_id'', JString (uuid_text v m)),
                     (''scheduled_datetime'', JString (time_text v at))])) v w2 = (Inr u2, w3)" and
      3: "ret (rng v (Suc (tick w))) v w3 = ((Inr x :: ScheduleError + uuid), w1)"
      by (elim bindA_InrE) (rule that)
    from 3 have x: "x = rng v (Suc (tick w))" "w1 = w3" by (auto simp: ret_def)
    from 1 have a: "repo_arm_notify x m params at (db w) = Inr (u, db w2)"
      by (auto simp: x elim!: lift_InrE stmt_InrE)
    from 2 obtain ev where e: "db w1 = (db w2)\<lparr>outbox := outbox (db w2) @ [ev]\<rparr>"
        "event_type ev = ''MailMessageScheduleCreated''" "event_channel ev = Some (''mail.schedule_'' @ uuid_text v x)"
      by (elim lift_InrE stage_bus_event_InrE) (rule that; simp only: x)
    from a have w2: "db w2 = (db w)\<lparr>notify_schedules := notify_schedules (db w) @
        [\<lparr>nsc_id = x, nsc_mail_message_id = m, nsc_notification_parameters = params, nsc_scheduled_datetime = at\<rparr>]\<rparr>"
      "m \<in> msg_id ` set (messages (db w))" "x \<notin> nsc_id ` set (notify_schedules (db w))"
      by (simp_all add: repo_arm_notify_def split: if_splits)
    from e w2 False show "notify_armed v m at params (clock v (tick w)) x (db (w\<lparr>tick := Suc (Suc (tick w))\<rparr>)) (db w1)"
      unfolding notify_armed_def by (intro conjI exI [of _ ev]) simp_all
  qed (intro straight_intros)
  then show ?thesis by (simp only: outcome_tick)
qed

lemma post_armed_outcome:
  "outcome v w (arm_scheduled_message acl a v w) (post_armed v acl a (clock v (tick w)))"
proof (cases "blank (am_body a) \<or> am_scheduled_date a \<le> clock v (tick w) \<or>
    \<not> can_post acl (db w) (User (am_author_party_id a)) (am_model a) (am_res_id a)")
  case True
  then show ?thesis by (auto simp: outcome_def arm_scheduled_unfold)
next
  case False
  then have "arm_scheduled_message acl a v w =
      in_tx ScDb (arm_tx (rng v (Suc (tick w))) a) v (w\<lparr>tick := Suc (Suc (tick w))\<rparr>)"
    by (simp add: arm_scheduled_unfold)
  moreover have "outcome v (w\<lparr>tick := Suc (Suc (tick w))\<rparr>)
      (in_tx ScDb (arm_tx (rng v (Suc (tick w))) a) v (w\<lparr>tick := Suc (Suc (tick w))\<rparr>))
      (post_armed v acl a (clock v (tick w)))"
  proof (rule outcome_in_tx)
    fix x w1
    assume "arm_tx (rng v (Suc (tick w))) a v (begin_tx v (w\<lparr>tick := Suc (Suc (tick w))\<rparr>)) = (Inr x, w1)"
    then obtain u w2 u2 w3 where
      1: "lift ScDb (stmt (repo_arm_scheduled_message (armed_row (rng v (Suc (tick w))) a))) v (begin_tx v (w\<lparr>tick := Suc (Suc (tick w))\<rparr>)) = (Inr u, w2)" and
      2: "lift ScDb (stage_bus_event ''MailScheduledMessageCreated'' ''MailScheduledMessage'' (uuid_text v (rng v (Suc (tick w))))
       (partner_channel (uuid_text v) (am_author_party_id a)) ''mail.scheduled.message/insert''
       (JObject [(''scheduled_message_id'', JString (uuid_text v (rng v (Suc (tick w))))), (''model'', JString (am_model a)),
                 (''res_id'', JString (uuid_text v (am_res_id a))), (''author_party_id'', JString (uuid_text v (am_author_party_id a))),
                 (''scheduled_date'', JString (time_text v (am_scheduled_date a)))])) v w2 = (Inr u2, w3)" and
      3: "ret (rng v (Suc (tick w))) v w3 = ((Inr x :: ScheduleError + uuid), w1)"
      unfolding arm_tx_def by (elim bindA_InrE ask_InrE) (simp only: prod.case, elim bindA_InrE, rule that)
    from 3 have x: "x = rng v (Suc (tick w))" "w1 = w3" by (auto simp: ret_def)
    from 1 have a: "repo_arm_scheduled_message (armed_row x a) (db w) = Inr (u, db w2)"
      by (auto simp: x elim!: lift_InrE stmt_InrE)
    from 2 obtain ev where e: "db w1 = (db w2)\<lparr>outbox := outbox (db w2) @ [ev]\<rparr>"
        "event_type ev = ''MailScheduledMessageCreated''"
        "event_channel ev = Some (partner_channel (uuid_text v) (am_author_party_id a))"
      by (elim lift_InrE stage_bus_event_InrE) (rule that; simp only: x)
    from a have w2: "db w2 = (db w)\<lparr>scheduled_messages := scheduled_messages (db w) @ [armed_row x a]\<rparr>"
      "x \<notin> smg_id ` set (scheduled_messages (db w))"
      by (simp_all add: repo_arm_scheduled_message_def armed_row_def split: if_splits)
    from e w2 False show "post_armed v acl a (clock v (tick w)) x (db (w\<lparr>tick := Suc (Suc (tick w))\<rparr>)) (db w1)"
      unfolding post_armed_def by (intro conjI exI [of _ ev]) simp_all
  qed (auto simp: arm_tx_def intro!: straight_intros)
  ultimately show ?thesis by (simp only: outcome_tick)
qed

lemma notify_cancelled_outcome:
  "outcome v w (cancel_notify i v w) (\<lambda>_. notify_cancelled i)"
  unfolding cancel_notify_def
  by (intro outcome_in_tx straight_intros)
    (auto simp: notify_cancelled_def repo_cancel_notify_def list_ex_iff fail_def ret_def split: if_splits
      elim!: bindA_InrE lift_InrE stmt_InrE)

lemma post_cancelled_outcome:
  "outcome v w (cancel_scheduled_message i author v w) (\<lambda>_. post_cancelled i author)"
  unfolding cancel_scheduled_message_def
  by (intro outcome_in_tx straight_intros)
    (auto simp: post_cancelled_def repo_cancel_scheduled_message_def cancel_check_def fail_def ret_def reading_def
      split: if_splits option.splits elim!: bindA_InrE lift_InrE stmt_InrE of_sum_InrE)

lemma dispatched_outcome:
  "outcome v w (dispatch_due_notify limit v w) (notify_dispatched limit (clock v (Suc (tick w))))"
  unfolding dispatch_due_notify_def
  by (rule outcome_in_tx [OF straight_notify]) (auto dest: notify_tx_dispatched)

text \<open>When nothing fails, the conditions under which a verb may act are also those under which it does.\<close>

lemma arm_notify_quiet:
  assumes "quiet v" and "clock v (tick w) < at" and "m \<in> msg_id ` set (messages (db w))"
    and "rng v (Suc (tick w)) \<notin> nsc_id ` set (notify_schedules (db w))"
  shows "\<not> isl (fst (arm_notify m at params v w))"
proof -
  have n: "\<not> at \<le> clock v (tick w)" using assms(2) by simp
  have "succeeds v (arm_notify m at params) w"
    unfolding succeeds_def arm_notify_unfold if_not_P [OF n]
    unfolding succeeds_def [symmetric] using assms
    by (intro succeeds_in_tx succeeds_bind succeeds_lift succeeds_stmt succeeds_bus succeeds_basic)
      (auto simp: repo_arm_notify_def)
  then show ?thesis by (auto simp: succeeds_def)
qed

lemma arm_scheduled_quiet:
  assumes "quiet v" and "\<not> blank (am_body a)" and "clock v (tick w) < am_scheduled_date a"
    and "can_post acl (db w) (User (am_author_party_id a)) (am_model a) (am_res_id a)"
    and "btrim_nonempty (am_body a)" and "btrim_nonempty (am_model a)"
    and "rng v (Suc (tick w)) \<notin> smg_id ` set (scheduled_messages (db w))"
  shows "\<not> isl (fst (arm_scheduled_message acl a v w))"
proof -
  have e: "arm_scheduled_message acl a v w = in_tx ScDb (arm_tx (rng v (Suc (tick w))) a) v (w\<lparr>tick := Suc (Suc (tick w))\<rparr>)"
    using assms by (simp add: arm_scheduled_unfold)
  have "succeeds v (arm_scheduled_message acl a) w"
    unfolding succeeds_def e
    unfolding succeeds_def [symmetric] arm_tx_def using assms
    by (intro succeeds_in_tx succeeds_bind succeeds_lift succeeds_stmt succeeds_basic)
      (auto simp: repo_arm_scheduled_message_def armed_row_def intro!: succeeds_bind succeeds_lift succeeds_bus succeeds_basic split: prod.split)
  then show ?thesis by (auto simp: succeeds_def)
qed

lemma cancel_notify_quiet:
  assumes "quiet v"
  shows "fst (cancel_notify i v w) = (if i \<in> nsc_id ` set (notify_schedules (db w)) then Inr () else Inl (ScNotFound i))"
  using assms
  by (auto simp: cancel_notify_def in_tx_def bindA_def lift_def stmt_def stmt_now_def quiet_def repo_cancel_notify_def
      list_ex_iff ret_def fail_def)

lemma cancel_scheduled_quiet:
  assumes "quiet v"
  shows "fst (cancel_scheduled_message i author v w) =
    (case scheduled_author_for_update i (db w) of
       None \<Rightarrow> Inl (ScNotFound i)
     | Some a \<Rightarrow> if a = Some author then Inr () else Inl (NotAuthor i))"
proof (cases "find (\<lambda>r. smg_id r = i) (scheduled_messages (db w))")
  case None
  with assms show ?thesis
    by (simp add: cancel_scheduled_message_def in_tx_def bindA_def lift_def stmt_def stmt_now_def quiet_def reading_def
        of_sum_def cancel_check_def scheduled_author_for_update_def)
next
  case (Some r)
  then have "list_ex (\<lambda>r. smg_id r = i) (scheduled_messages (db w))"
    by (auto simp: find_Some_iff list_ex_iff)
  with assms Some show ?thesis
    by (simp add: cancel_scheduled_message_def in_tx_def bindA_def lift_def stmt_def stmt_now_def quiet_def reading_def
        of_sum_def cancel_check_def repo_cancel_scheduled_message_def scheduled_author_for_update_def ret_def)
qed

text \<open>C7: arming, cancelling and telling do what they promise and nothing else, under every pattern of failing
  statements.  Each run either answers an error and leaves the database alone (but for a COMMIT whose
  acknowledgement is lost), or it did exactly this.  Arming a notification: the time is after the clock read at
  the call, the message exists, one row with a fresh key is appended and announced on its channel.  Arming a post:
  the text is not blank, the date is after the clock, the author may post on the document, the row that is
  appended is the request's and the event goes to the author's channel.  Cancelling removes exactly the named
  row, a pending post only on behalf of its author.  The dispatch of notifications takes due schedules in order of
  their times, up to the limit, tells each follower of each message once, and removes exactly these schedules.
  When no statement fails, a request that meets the conditions is carried out, and a cancelling is answered
  NotFound, NotAuthor or Ok by the row as it is.\<close>

theorem schedule_verbs_effect:
  "outcome v w (arm_notify m at params v w) (notify_armed v m at params (clock v (tick w))) \<and>
   outcome v w (arm_scheduled_message acl a v w) (post_armed v acl a (clock v (tick w))) \<and>
   outcome v w (cancel_notify i v w) (\<lambda>_. notify_cancelled i) \<and>
   outcome v w (cancel_scheduled_message i author v w) (\<lambda>_. post_cancelled i author) \<and>
   outcome v w (dispatch_due_notify limit v w) (notify_dispatched limit (clock v (Suc (tick w)))) \<and>
   (quiet v \<longrightarrow>
      (clock v (tick w) < at \<and> m \<in> msg_id ` set (messages (db w)) \<and>
         rng v (Suc (tick w)) \<notin> nsc_id ` set (notify_schedules (db w)) \<longrightarrow>
       \<not> isl (fst (arm_notify m at params v w))) \<and>
      (\<not> blank (am_body a) \<and> btrim_nonempty (am_body a) \<and> btrim_nonempty (am_model a) \<and>
         clock v (tick w) < am_scheduled_date a \<and>
         can_post acl (db w) (User (am_author_party_id a)) (am_model a) (am_res_id a) \<and>
         rng v (Suc (tick w)) \<notin> smg_id ` set (scheduled_messages (db w)) \<longrightarrow>
       \<not> isl (fst (arm_scheduled_message acl a v w))) \<and>
      fst (cancel_notify i v w) =
        (if i \<in> nsc_id ` set (notify_schedules (db w)) then Inr () else Inl (ScNotFound i)) \<and>
      fst (cancel_scheduled_message i author v w) =
        (case scheduled_author_for_update i (db w) of
           None \<Rightarrow> Inl (ScNotFound i)
         | Some z \<Rightarrow> if z = Some author then Inr () else Inl (NotAuthor i)))"
  by (intro conjI impI notify_armed_outcome post_armed_outcome notify_cancelled_outcome post_cancelled_outcome
      dispatched_outcome arm_notify_quiet arm_scheduled_quiet cancel_notify_quiet cancel_scheduled_quiet; simp)

section \<open>The note to the author\<close>

text \<open>The note of a second failure is lost when the author has written on the own wall: the inbox
  notification is attached to that message again, which the unique index refuses.\<close>

lemma second_failure_untold:
  assumes "latest_author_wall_message author (db w) = Some m"
    and "list_ex (notification_uniq_clash m (Some author) MailNotificationType.Inbox) (notifications (db w))"
    and "notify_author_of_failure author v w = (r, w')" and "quiet v" and "\<not> aborted w"
  shows "r = Inr () \<and> db w' = db w"
proof -
  let ?row = "\<lambda>i. follower_notification i m author"
  have e: "\<exists>e. insert_mail_notification (?row i) now (db w) = Inl e" for i now
    using assms(2) mail_notification_type.cast_iff [of "''inbox''" MailNotificationType.Inbox]
    by (auto simp: insert_mail_notification_def follower_notification_def list_ex_iff notification_uniq_clash_def
        split: option.splits)
  let ?w1 = "w\<lparr>tick := Suc (tick w)\<rparr>"
  let ?w2 = "(begin_tx v ?w1)\<lparr>tick := Suc (tick (begin_tx v ?w1)), db := db w\<rparr>"
  have p: "poster_message_id author v (begin_tx v ?w1) = (Inr (Some m), ?w2)"
    using assms(1,4) by (simp add: poster_message_id_def bindA_def attempt_def stmt_def stmt_now_def reading_def
        quiet_def ret_def)
  obtain x where "insert_mail_notification (?row (rng v (tick w))) (tx_start ?w2) (db w) = Inl x" using e by blast
  then have "notify_author_tx (rng v (tick w)) author v (begin_tx v ?w1) = (Inr (), ?w2\<lparr>tick := Suc (tick ?w2), aborted := True\<rparr>)"
    using p assms(4) by (simp add: notify_author_tx_def bindA_def attempt_def stmt_now_def quiet_def ret_def)
  then show ?thesis
    using assms(3,4) by (auto simp: notify_author_of_failure_def bindA_def new_v4_def attempt_def in_tx_def
        commit_def quiet_def ret_def)
qed

section \<open>The properties at concrete inputs\<close>

definition schedule_world :: "(db, nat) world" where
  "schedule_world = world_of (empty_db\<lparr>
     messages := [(sample_message 1)\<lparr>msg_model := Some ''m'', msg_res_id := Some 3\<rparr>],
     followers := [\<lparr>flw_id = 1, flw_res_model = ''m'', flw_res_id = 3, flw_partner_id = Some 7,
       flw_subtype_ids = Some (JArray [])\<rparr>],
     notify_schedules := [\<lparr>nsc_id = 5, nsc_mail_message_id = 1, nsc_notification_parameters = None,
       nsc_scheduled_datetime = 0\<rparr>],
     scheduled_messages := [(armed_row 6 \<lparr>am_author_party_id = 4, am_model = ''res.partner'', am_res_id = 4,
       am_body = ''b'', am_subject = None, am_scheduled_date = 0, am_recipient_party_ids = None, am_is_note = False\<rparr>)]\<rparr>)"

definition sample_arm :: ArmScheduled where
  "sample_arm = \<lparr>am_author_party_id = 4, am_model = ''res.partner'', am_res_id = 4, am_body = ''b'',
     am_subject = None, am_scheduled_date = 9, am_recipient_party_ids = None, am_is_note = False\<rparr>"

lemma schedule_verbs_effect_witness:
  "\<not> isl (fst (arm_scheduled_message DenyHostDocs sample_arm plain_env schedule_world)) \<and>
   map smg_id (scheduled_messages (db (snd (arm_scheduled_message DenyHostDocs sample_arm plain_env schedule_world)))) = [6, 21] \<and>
   fst (cancel_scheduled_message 6 8 plain_env schedule_world) = Inl (NotAuthor 6)"
proof -
  have q: "quiet plain_env" by (simp add: quiet_def plain_env_def)
  have r: "\<not> blank (am_body sample_arm) \<and> btrim_nonempty (am_body sample_arm) \<and> btrim_nonempty (am_model sample_arm) \<and>
      clock plain_env (tick schedule_world) < am_scheduled_date sample_arm \<and>
      can_post DenyHostDocs (db schedule_world) (User (am_author_party_id sample_arm)) (am_model sample_arm) (am_res_id sample_arm) \<and>
      rng plain_env (Suc (tick schedule_world)) \<notin> smg_id ` set (scheduled_messages (db schedule_world))"
    by code_simp
  have a: "scheduled_author_for_update 6 (db schedule_world) = Some (Some 4)" by code_simp
  note e = schedule_verbs_effect [where v = plain_env and w = schedule_world and acl = DenyHostDocs and a = sample_arm
      and i = 6 and author = 8]
  from e q r have n: "\<not> isl (fst (arm_scheduled_message DenyHostDocs sample_arm plain_env schedule_world))" by blast
  moreover from e q a have "fst (cancel_scheduled_message 6 8 plain_env schedule_world) = Inl (NotAuthor 6)" by simp
  moreover have "map smg_id (scheduled_messages (db (snd (arm_scheduled_message DenyHostDocs sample_arm plain_env schedule_world)))) = [6, 21]"
    by code_simp
  ultimately show ?thesis by blast
qed

text \<open>When the closing COMMIT fails, the post is out and the message is still pending.\<close>

definition cut_env :: env where
  "cut_env = plain_env\<lparr>fault := (\<lambda>n. n = 11)\<rparr>"

definition scheduled_run :: "(ScheduleError + nat \<times> nat) \<times> (db, nat) world" where
  "scheduled_run = dispatch_due_scheduled DenyHostDocs (\<lambda>_. None) 10 cut_env schedule_world"


end
