(* ===== verification/MessageEdits.thy ===== *)
theory MessageEdits
  imports MessagePipeline Acl
begin

text \<open>
  Edits, stars and reactions: \<open>src/application/service/message_edit_service.rs\<close>,
  \<open>src/application/service/reaction_write_service.rs\<close> and their repositories.  Stars and reactions are sets of
  rows under a unique key; both toggles delete first and insert what was not there, which the locale
  \<open>toggle_table\<close> states once.
\<close>

section \<open>Toggling a row\<close>

definition toggle_rows ::
  "(db \<Rightarrow> db_error + bool \<times> db) \<Rightarrow> (uuid \<Rightarrow> db \<Rightarrow> db_error + bool \<times> db) \<Rightarrow> (db, 'o, db_error, bool) act" where
  "toggle_rows del ins =
     bindA (stmt del) (\<lambda>deleted.
     if deleted then ret False else bindA new_v4 (\<lambda>i. stmt (ins i)))"

text \<open>The table as the set of its keys, in a database with well-formed rows; an insert is refused silently
  when the row's id is in use.\<close>

locale toggle_table =
  fixes valid :: "db \<Rightarrow> bool" and rows :: "db \<Rightarrow> 'k set" and ids :: "db \<Rightarrow> uuid set"
    and del :: "'k \<Rightarrow> db \<Rightarrow> db_error + bool \<times> db" and ins :: "'k \<Rightarrow> uuid \<Rightarrow> db \<Rightarrow> db_error + bool \<times> db"
  assumes del_valid: "del k d = Inr (b, d') \<Longrightarrow> valid d \<Longrightarrow> valid d'"
    and ins_valid: "ins k i d = Inr (b, d') \<Longrightarrow> valid d \<Longrightarrow> valid d'"
    and del_rows: "del k d = Inr (b, d') \<Longrightarrow> (b \<longleftrightarrow> k \<in> rows d) \<and> rows d' = rows d - {k}"
    and ins_rows: "ins k i d = Inr (b, d') \<Longrightarrow> valid d \<Longrightarrow> k \<notin> rows d \<Longrightarrow>
      (b \<longleftrightarrow> i \<notin> ids d) \<and> rows d' = (if b then insert k (rows d) else rows d)"
    and del_ids: "del k d = Inr (False, d') \<Longrightarrow> ids d' = ids d"
begin

lemma toggle_Inr:
  assumes "toggle_rows (del k) (ins k) v w = (Inr b, w')" and "valid (db w)"
  shows "tx_step w w' \<and> valid (db w') \<and> rows (db w') = (if b then insert k (rows (db w)) else rows (db w) - {k}) \<and>
    (b \<longrightarrow> k \<notin> rows (db w)) \<and> (k \<notin> rows (db w) \<and> rng v (Suc (tick w)) \<notin> ids (db w) \<longrightarrow> b)"
proof -
  from assms(1) obtain deleted w1 where 1: "stmt (del k) v w = (Inr deleted, w1)" and
    2: "(if deleted then ret False else bindA new_v4 (\<lambda>i. stmt (ins k i))) v w1 = (Inr b, w')"
    unfolding toggle_rows_def by (rule bindA_InrE)
  from 1 have d: "del k (db w) = Inr (deleted, db w1)" and s: "tx_step w w1" by (auto elim: stmt_InrE)
  from 1 have t: "tick w1 = Suc (tick w)" by (auto simp: stmt_def stmt_now_def split: if_splits sum.splits)
  note dr = del_rows [OF d] and va = del_valid [OF d assms(2)]
  show ?thesis
  proof (cases deleted)
    case True
    with 2 have "b = False" "w' = w1" by (simp_all add: ret_def)
    with dr True s va show ?thesis by simp
  next
    case False
    with 2 have "bindA new_v4 (\<lambda>i. stmt (ins k i)) v w1 = (Inr b, w')" by simp
    then obtain i w2 where n: "new_v4 v w1 = ((Inr i :: db_error + uuid), w2)" and
      3: "stmt (ins k i) v w2 = (Inr b, w')" by (rule bindA_InrE)
    from n have w2: "db w2 = db w1" "tx_step w1 w2" and i: "i = rng v (Suc (tick w))" using t by (auto elim: new_v4_InrE)
    from 3 have e: "ins k i (db w1) = Inr (b, db w')" and "tx_step w2 w'"
      unfolding w2(1) [symmetric] by (auto elim: stmt_InrE)
    moreover have "rows (db w1) = rows (db w)" "k \<notin> rows (db w)" using dr False by auto
    moreover have "ids (db w1) = ids (db w)" using del_ids d False by simp
    ultimately show ?thesis using ins_rows [OF e va] ins_valid [OF e va] s w2(2) i by (auto intro: tx_step_trans)
  qed
qed

text \<open>Toggling twice leaves the table as it was.\<close>

lemma toggle_twice:
  assumes "toggle_rows (del k) (ins k) v w = (Inr b, w1)" and "toggle_rows (del k) (ins k) v w1 = (Inr c, w')"
    and "b" and "valid (db w)"
  shows "\<not> c \<and> rows (db w') = rows (db w)"
  using toggle_Inr [OF assms(1,4)] toggle_Inr [OF assms(2)] assms(3) by auto

end

section \<open>The repositories\<close>

definition message_authors :: "uuid \<Rightarrow> db \<Rightarrow> (uuid option \<times> uuid option) option" where
  "message_authors message d =
     map_option (\<lambda>m. (msg_author_id m, msg_author_guest_id m))
       (find (\<lambda>m. msg_id m = message \<and> \<not> msg_deleted m) (messages d))"

definition edited :: "uuid \<Rightarrow> string option \<Rightarrow> string option \<Rightarrow> mail_message_row \<Rightarrow> mail_message_row" where
  "edited message subject body m =
     (if msg_id m = message
      then m\<lparr>msg_subject := (case subject of None \<Rightarrow> msg_subject m | s \<Rightarrow> s),
             msg_body := (case body of None \<Rightarrow> msg_body m | Some b \<Rightarrow> b)\<rparr>
      else m)"

definition repo_update_content ::
  "uuid \<Rightarrow> string option \<Rightarrow> string option \<Rightarrow> db \<Rightarrow> db_error + bool \<times> db" where
  "repo_update_content message subject body d =
     Inr (list_ex (\<lambda>m. msg_id m = message) (messages d),
          d\<lparr>messages := map (edited message subject body) (messages d)\<rparr>)"

text \<open>\<open>fetch_one\<close>: no row is an error; \<open>model || '_' || res_id\<close> is NULL when either is.\<close>

definition message_channel_key :: "(uuid \<Rightarrow> string) \<Rightarrow> uuid \<Rightarrow> db \<Rightarrow> db_error + string option \<times> db" where
  "message_channel_key U message d =
     (case find (\<lambda>m. msg_id m = message) (messages d) of
        None \<Rightarrow> Inl RowNotFound
      | Some m \<Rightarrow> Inr (case (msg_model m, msg_res_id m) of
            (Some model, Some r) \<Rightarrow> Some (model @ ''_'' @ U r)
          | _ \<Rightarrow> None, d))"

definition star_of :: "star_row \<Rightarrow> uuid \<times> uuid" where
  "star_of r = (star_partner_id r, star_message_id r)"

definition delete_star :: "uuid \<times> uuid \<Rightarrow> db \<Rightarrow> db_error + bool \<times> db" where
  "delete_star k d =
     Inr (list_ex (\<lambda>r. star_of r = k) (stars d), d\<lparr>stars := filter (\<lambda>r. star_of r \<noteq> k) (stars d)\<rparr>)"

text \<open>\<open>ON CONFLICT DO NOTHING\<close> covers the primary and the unique key, not the reference.\<close>

definition insert_star :: "uuid \<times> uuid \<Rightarrow> uuid \<Rightarrow> db \<Rightarrow> db_error + bool \<times> db" where
  "insert_star k i d =
     (if i \<in> star_id ` set (stars d) \<or> k \<in> star_of ` set (stars d) then Inr (False, d)
      else if snd k \<notin> set (message_ids d) then Inl (ForeignKeyViolation ''fk_mail_message_stars_message_id'')
      else Inr (True, d\<lparr>stars := stars d @ [\<lparr>star_id = i, star_partner_id = fst k, star_message_id = snd k\<rparr>]\<rparr>))"

definition reaction_thread :: "uuid \<Rightarrow> db \<Rightarrow> (string option \<times> uuid option) option" where
  "reaction_thread message d =
     map_option (\<lambda>m. (msg_model m, msg_res_id m))
       (find (\<lambda>m. msg_id m = message \<and> \<not> msg_deleted m) (messages d))"

text \<open>A reaction is keyed by message, partner, guest and content.\<close>

type_synonym reaction_key = "uuid \<times> uuid option \<times> uuid option \<times> string"

definition reaction_of :: "reaction_row \<Rightarrow> reaction_key" where
  "reaction_of r = (rct_message_id r, rct_partner_id r, rct_guest_id r, rct_content r)"

definition delete_reaction :: "reaction_key \<Rightarrow> db \<Rightarrow> db_error + bool \<times> db" where
  "delete_reaction k d =
     Inr (list_ex (\<lambda>r. reaction_of r = k) (reactions d), d\<lparr>reactions := filter (\<lambda>r. reaction_of r \<noteq> k) (reactions d)\<rparr>)"

text \<open>The partial unique indexes: per message and content one row of a partner, one of a guest.\<close>

fun reaction_clash :: "reaction_key \<Rightarrow> reaction_row \<Rightarrow> bool" where
  "reaction_clash (m, p, g, c) r \<longleftrightarrow> rct_message_id r = m \<and> rct_content r = c \<and>
     (p \<noteq> None \<and> rct_partner_id r = p \<or> g \<noteq> None \<and> rct_guest_id r = g)"

fun insert_reaction :: "reaction_key \<Rightarrow> uuid \<Rightarrow> db \<Rightarrow> db_error + bool \<times> db" where
  "insert_reaction (m, p, g, c) i d =
     (if \<not> btrim_nonempty c then Inl (CheckViolation ''ck_mail_message_reactions_content_required__required'')
      else if i \<in> rct_id ` set (reactions d) \<or> list_ex (reaction_clash (m, p, g, c)) (reactions d) then Inr (False, d)
      else if m \<notin> set (message_ids d) then Inl (ForeignKeyViolation ''fk_mail_message_reactions_message_id'')
      else if \<not> fk_ok (map gst_id (guests d)) g then Inl (ForeignKeyViolation ''fk_mail_message_reactions_guest_id'')
      else Inr (True, d\<lparr>reactions := reactions d @
        [\<lparr>rct_id = i, rct_message_id = m, rct_partner_id = p, rct_guest_id = g, rct_content = c\<rparr>]\<rparr>))"

section \<open>The services\<close>

datatype MessageEditError =
    EdDb db_error
  | EdInvalid string
  | EdNotFound uuid
  | EdForbidden uuid
  | NeedsPartner

definition is_author :: "MessagingIdentity \<Rightarrow> uuid option \<times> uuid option \<Rightarrow> bool" where
  "is_author identity authors =
     (case identity of User p \<Rightarrow> fst authors = Some p | Guest g \<Rightarrow> snd authors = Some g)"

definition edit_gate :: "uuid \<Rightarrow> MessagingIdentity \<Rightarrow> bool \<Rightarrow> (uuid option \<times> uuid option) option \<Rightarrow> MessageEditError + unit" where
  "edit_gate message identity is_admin authors =
     (case authors of
        None \<Rightarrow> Inl (EdNotFound message)
      | Some a \<Rightarrow> if \<not> is_admin \<and> \<not> is_author identity a then Inl (EdForbidden message) else Inr ())"

definition stage_edited :: "uuid \<Rightarrow> string option \<Rightarrow> bool \<Rightarrow> bool \<Rightarrow> (db, 'o, MessageEditError, unit) act" where
  "stage_edited message key s b =
     bindA (ask uuid_text) (\<lambda>U.
     lift EdDb (stage_bus_event ''MessageEdited'' ''MailMessage'' (U message)
       (case key of Some k \<Rightarrow> k | None \<Rightarrow> ''mail.message_'' @ U message) ''mail.message/update''
       (JObject [(''message_id'', JString (U message)), (''subject_changed'', JBool s), (''body_changed'', JBool b)])))"

definition edit_tx ::
  "uuid \<Rightarrow> MessagingIdentity \<Rightarrow> bool \<Rightarrow> string option \<Rightarrow> string option \<Rightarrow> (db, 'o, MessageEditError, bool) act" where
  "edit_tx message identity is_admin subject body =
     bindA (lift EdDb (stmt (reading (message_authors message)))) (\<lambda>authors.
     bindA (of_sum (edit_gate message identity is_admin authors)) (\<lambda>_.
     bindA (lift EdDb (stmt (repo_update_content message subject body))) (\<lambda>changed.
     bindA (ask uuid_text) (\<lambda>U.
     bindA (lift EdDb (stmt (message_channel_key U message))) (\<lambda>key.
     bindA (stage_edited message key (subject \<noteq> None) (body \<noteq> None)) (\<lambda>_. ret changed))))))"

definition update_content ::
  "uuid \<Rightarrow> MessagingIdentity \<Rightarrow> bool \<Rightarrow> string option \<Rightarrow> string option \<Rightarrow> (db, 'o, MessageEditError, bool) act" where
  "update_content message identity is_admin subject body =
     (if subject = None \<and> body = None then fail (EdInvalid ''nothing to edit'')
      else in_tx EdDb (edit_tx message identity is_admin subject body))"

definition stage_star :: "uuid \<Rightarrow> uuid \<Rightarrow> bool \<Rightarrow> (db, 'o, MessageEditError, unit) act" where
  "stage_star message p starred =
     bindA (ask uuid_text) (\<lambda>U.
     lift EdDb (stage_bus_event ''MessageStarToggled'' ''MailMessageStar'' (U message)
       (partner_channel U p) ''mail.message/toggle_star''
       (JObject [(''message_id'', JString (U message)), (''partner_id'', JString (U p)), (''starred'', JBool starred)])))"

definition toggle_star :: "uuid \<Rightarrow> MessagingIdentity \<Rightarrow> (db, 'o, MessageEditError, bool) act" where
  "toggle_star message identity =
     (case identity_partner_id identity of
        None \<Rightarrow> fail NeedsPartner
      | Some p \<Rightarrow> in_tx EdDb (
          bindA (lift EdDb (toggle_rows (delete_star (p, message)) (insert_star (p, message)))) (\<lambda>starred.
          bindA (stage_star message p starred) (\<lambda>_. ret starred))))"

datatype ReactionError =
    RcDb db_error
  | RcInvalid string
  | NeedsIdentity
  | RcNotFound uuid

definition reaction_channel :: "(uuid \<Rightarrow> string) \<Rightarrow> uuid \<Rightarrow> string option \<times> uuid option \<Rightarrow> string" where
  "reaction_channel U message thread =
     (case thread of
        (Some m, Some r) \<Rightarrow> if m = ''discuss.channel'' then discuss_channel U r else ''mail.message_'' @ U message
      | _ \<Rightarrow> ''mail.message_'' @ U message)"

definition stage_reaction ::
  "uuid \<Rightarrow> string option \<times> uuid option \<Rightarrow> MessagingIdentity \<Rightarrow> string \<Rightarrow> bool \<Rightarrow> (db, 'o, ReactionError, unit) act" where
  "stage_reaction message thread identity content reacted =
     bindA (ask uuid_text) (\<lambda>U.
     lift RcDb (stage_bus_event ''ReactionToggled'' ''MailMessageReaction'' (U message)
       (reaction_channel U message thread) ''mail.message/update''
       (JObject [(''message_id'', JString (U message)),
                 (''partner_id'', jopt (\<lambda>p. JString (U p)) (identity_partner_id identity)),
                 (''guest_id'', jopt (\<lambda>g. JString (U g)) (identity_guest_id identity)),
                 (''content'', JString content), (''reacted'', JBool reacted)])))"

definition identity_reaction :: "uuid \<Rightarrow> MessagingIdentity \<Rightarrow> string \<Rightarrow> reaction_key" where
  "identity_reaction message identity content =
     (message, identity_partner_id identity, identity_guest_id identity, content)"

definition reaction_tx :: "uuid \<Rightarrow> MessagingIdentity \<Rightarrow> string \<Rightarrow> (db, 'o, ReactionError, bool) act" where
  "reaction_tx message identity content =
     bindA (lift RcDb (stmt (reading (reaction_thread message)))) (\<lambda>z.
     case z of
       None \<Rightarrow> fail (RcNotFound message)
     | Some thread \<Rightarrow>
         bindA (lift RcDb (toggle_rows (delete_reaction (identity_reaction message identity content))
                            (insert_reaction (identity_reaction message identity content)))) (\<lambda>reacted.
         bindA (stage_reaction message thread identity content reacted) (\<lambda>_. ret reacted)))"

definition reaction_toggle :: "uuid \<Rightarrow> MessagingIdentity \<Rightarrow> string \<Rightarrow> (db, 'o, ReactionError, bool) act" where
  "reaction_toggle message identity content =
     (if identity_partner_id identity = None \<and> identity_guest_id identity = None then fail NeedsIdentity
      else if blank content \<or> 64 < length content then fail (RcInvalid ''content must be 1..=64 chars'')
      else in_tx RcDb (reaction_tx message identity content))"

section \<open>The two tables\<close>

text \<open>Every reaction row is of one identity; then a toggle is on the set of reactions of identities.\<close>

definition one_reactor :: "db \<Rightarrow> bool" where
  "one_reactor d \<longleftrightarrow> (\<forall>r\<in>set (reactions d). (rct_partner_id r = None) \<noteq> (rct_guest_id r = None))"

fun reaction_key_of :: "uuid \<times> MessagingIdentity \<times> string \<Rightarrow> reaction_key" where
  "reaction_key_of (m, i, c) = identity_reaction m i c"

definition reacted :: "db \<Rightarrow> (uuid \<times> MessagingIdentity \<times> string) set" where
  "reacted d = {k. reaction_key_of k \<in> reaction_of ` set (reactions d)}"

definition starred :: "db \<Rightarrow> (uuid \<times> uuid) set" where
  "starred d = star_of ` set (stars d)"

lemma reaction_key_of_eq [simp]: "reaction_key_of k = reaction_key_of l \<longleftrightarrow> k = l"
  by (cases k rule: reaction_key_of.cases; cases l rule: reaction_key_of.cases;
      cases "fst (snd k)"; cases "fst (snd l)") (auto simp: identity_reaction_def)

lemma reaction_key_parts:
  "reaction_key_of k = (m, p, g, c) \<Longrightarrow> (p = None) \<noteq> (g = None)"
  by (cases k rule: reaction_key_of.cases; cases "fst (snd k)") (auto simp: identity_reaction_def)

lemma reaction_clash_iff:
  assumes "one_reactor d" and "r \<in> set (reactions d)"
  shows "reaction_clash (reaction_key_of k) r \<longleftrightarrow> reaction_of r = reaction_key_of k"
proof -
  obtain m p g c where k: "reaction_key_of k = (m, p, g, c)" by (cases "reaction_key_of k")
  have "(rct_partner_id r = None) \<noteq> (rct_guest_id r = None)" using assms by (simp add: one_reactor_def)
  then show ?thesis using reaction_key_parts [OF k] unfolding k reaction_of_def by auto
qed

lemma list_ex_key: "list_ex (\<lambda>r. key r = k) rs \<longleftrightarrow> k \<in> key ` set rs"
  by (auto simp: list_ex_iff)

lemma image_filter_key: "key ` set (filter (\<lambda>r. key r \<noteq> k) rs) = key ` set rs - {k}"
  by auto

interpretation star: toggle_table "\<lambda>_. True" starred "\<lambda>d. star_id ` set (stars d)" delete_star insert_star
  by unfold_locales (auto simp: starred_def delete_star_def insert_star_def star_of_def list_ex_iff split: if_splits)

interpretation reaction: toggle_table one_reactor reacted "\<lambda>d. rct_id ` set (reactions d)"
  "\<lambda>k. delete_reaction (reaction_key_of k)" "\<lambda>k. insert_reaction (reaction_key_of k)"
proof unfold_locales
  fix k i d b and d' :: db
  obtain m p g c where k: "reaction_key_of k = (m, p, g, c)" by (cases "reaction_key_of k")
  show "one_reactor d'" if "delete_reaction (reaction_key_of k) d = Inr (b, d')" "one_reactor d"
    using that by (auto simp: delete_reaction_def one_reactor_def)
  show "one_reactor d'" if "insert_reaction (reaction_key_of k) i d = Inr (b, d')" "one_reactor d"
    using that reaction_key_parts [OF k] by (auto simp: k one_reactor_def split: if_splits)
  show "b = (k \<in> reacted d) \<and> reacted d' = reacted d - {k}" if "delete_reaction (reaction_key_of k) d = Inr (b, d')"
  proof -
    from that have d': "d' = d\<lparr>reactions := filter (\<lambda>r. reaction_of r \<noteq> reaction_key_of k) (reactions d)\<rparr>"
      and b: "b \<longleftrightarrow> reaction_key_of k \<in> reaction_of ` set (reactions d)"
      unfolding delete_reaction_def list_ex_key by simp_all
    have "reaction_of ` set (reactions d') = reaction_of ` set (reactions d) - {reaction_key_of k}"
      unfolding d' by (simp add: image_filter_key del: set_filter)
    with b show ?thesis unfolding reacted_def
      by (auto simp only: mem_Collect_eq Diff_iff singleton_iff reaction_key_of_eq)
  qed
  show "b = (i \<notin> rct_id ` set (reactions d)) \<and> reacted d' = (if b then insert k (reacted d) else reacted d)"
    if "insert_reaction (reaction_key_of k) i d = Inr (b, d')" "one_reactor d" "k \<notin> reacted d"
  proof -
    have "\<not> list_ex (reaction_clash (m, p, g, c)) (reactions d)"
      using that(2,3) reaction_clash_iff [of d _ k]
      unfolding list_ex_iff reacted_def k [symmetric] mem_Collect_eq by (metis image_eqI)
    moreover have "reacted (d\<lparr>reactions := reactions d @ [\<lparr>rct_id = i, rct_message_id = m, rct_partner_id = p,
        rct_guest_id = g, rct_content = c\<rparr>]\<rparr>) = insert k (reacted d)"
    proof -
      have "reaction_of \<lparr>rct_id = i, rct_message_id = m, rct_partner_id = p, rct_guest_id = g, rct_content = c\<rparr> = reaction_key_of k"
        by (simp add: reaction_of_def k)
      then show ?thesis unfolding reacted_def by (auto simp del: reaction_key_of.simps)
    qed
    ultimately show ?thesis using that(1) by (auto simp: k split: if_splits)
  qed
  show "rct_id ` set (reactions d') = rct_id ` set (reactions d)" if "delete_reaction (reaction_key_of k) d = Inr (False, d')"
    using that by (auto simp: delete_reaction_def list_ex_iff)
qed

section \<open>What the services do\<close>

lemma toggle_rows_rel:
  assumes "toggle_rows del ins v w = (Inr b, w')" and "\<And>d c d'. del d = Inr (c, d') \<Longrightarrow> R d d'"
    and "\<And>i d c d'. ins i d = Inr (c, d') \<Longrightarrow> R d d'" and "\<And>x y z. R x y \<Longrightarrow> R y z \<Longrightarrow> R x z"
  shows "R (db w) (db w')"
proof -
  from assms(1) obtain deleted w1 where 1: "stmt del v w = (Inr deleted, w1)" and
    2: "(if deleted then ret False else bindA new_v4 (\<lambda>i. stmt (ins i))) v w1 = (Inr b, w')"
    unfolding toggle_rows_def by (rule bindA_InrE)
  from 1 have r: "R (db w) (db w1)" by (auto elim: stmt_InrE intro: assms(2))
  show ?thesis
  proof (cases deleted)
    case True
    with 2 r show ?thesis by (simp add: ret_def)
  next
    case False
    with 2 have "R (db w1) (db w')" by (auto elim!: act_elims dest: assms(3))
    with r show ?thesis by (rule assms(4))
  qed
qed

lemma reaction_rows_frame:
  assumes "toggle_rows (delete_reaction k) (insert_reaction k) v w = (Inr b, w')"
  shows "\<exists>rs. db w' = (db w)\<lparr>reactions := rs\<rparr>"
  using assms
proof (rule toggle_rows_rel [where R = "\<lambda>d d'. \<exists>rs. d' = d\<lparr>reactions := rs\<rparr>"])
  show "\<exists>rs. d' = d\<lparr>reactions := rs\<rparr>" if "delete_reaction k d = Inr (c, d')" for d c d'
    using that by (auto simp: delete_reaction_def)
  show "\<exists>rs. d' = d\<lparr>reactions := rs\<rparr>" if "insert_reaction k i d = Inr (c, d')" for i d c d'
  proof (cases "d' = d")
    case True
    then show ?thesis by (intro exI [of _ "reactions d"]) simp
  next
    case False
    with that show ?thesis by (cases k) (auto split: if_splits)
  qed
qed auto

lemma message_authors_Some:
  "message_authors m d = Some a \<Longrightarrow>
   \<exists>r\<in>set (messages d). msg_id r = m \<and> \<not> msg_deleted r \<and> a = (msg_author_id r, msg_author_guest_id r)"
  by (auto simp: message_authors_def dest: find_SomeD)

lemma edit_tx_Inr:
  assumes "edit_tx m identity is_admin s b v w = (Inr c, w')"
  shows "(\<exists>r\<in>set (messages (db w)). msg_id r = m \<and> \<not> msg_deleted r \<and>
      (is_admin \<or> is_author identity (msg_author_id r, msg_author_guest_id r))) \<and> c \<and>
    (\<exists>ev. db w' = (db w)\<lparr>messages := map (edited m s b) (messages (db w)), outbox := outbox (db w) @ [ev]\<rparr> \<and>
       event_type ev = ''MessageEdited'' \<and> aggregate_id ev = uuid_text v m)"
proof -
  from assms obtain authors w1 u w2 w3 key w4 u' where
    1: "lift EdDb (stmt (reading (message_authors m))) v w = (Inr authors, w1)" and
    2: "of_sum (edit_gate m identity is_admin authors) v w1 = (Inr u, w2)" and
    3: "lift EdDb (stmt (repo_update_content m s b)) v w2 = (Inr c, w3)" and
    4: "lift EdDb (stmt (message_channel_key (uuid_text v) m)) v w3 = (Inr key, w4)" and
    5: "stage_edited m key (s \<noteq> None) (b \<noteq> None) v w4 = (Inr u', w')"
    unfolding edit_tx_def bindA_ask by (elim bindA_InrE ret_InrE) (simp only: bindA_ask that)
  from 1 have a: "authors = message_authors m (db w)" and w1: "db w1 = db w" by (auto elim: reading_stmt_InrE)
  from 2 have w2: "w2 = w1" and g: "edit_gate m identity is_admin authors = Inr u" by (auto simp: of_sum_def)
  from g a obtain r where r: "r \<in> set (messages (db w))" "msg_id r = m" "\<not> msg_deleted r"
    "is_admin \<or> is_author identity (msg_author_id r, msg_author_guest_id r)"
    by (auto simp: edit_gate_def dest!: message_authors_Some split: option.splits if_splits)
  from 3 have w3: "db w3 = (db w)\<lparr>messages := map (edited m s b) (messages (db w))\<rparr>"
    and c: "c \<longleftrightarrow> list_ex (\<lambda>r. msg_id r = m) (messages (db w))"
    unfolding w2 w1 [symmetric] by (auto simp: repo_update_content_def elim!: lift_InrE stmt_InrE)
  from 4 have "message_channel_key (uuid_text v) m (db w3) = Inr (key, db w4)" by (auto elim!: lift_InrE stmt_InrE)
  then have w4: "db w4 = db w3" by (auto simp: message_channel_key_def split: option.splits)
  from 5 obtain ev where "db w' = (db w4)\<lparr>outbox := outbox (db w4) @ [ev]\<rparr>" "event_type ev = ''MessageEdited''"
    "aggregate_id ev = uuid_text v m"
    unfolding stage_edited_def bindA_ask by (elim lift_InrE stage_bus_event_InrE) (rule that)
  then show ?thesis using r c unfolding w4 w3 by (auto simp: list_ex_iff)
qed

lemma straight_edit [straight_intros]: "straight (edit_tx m identity is_admin s b)"
  unfolding edit_tx_def stage_edited_def by (intro straight_intros)

text \<open>C18: only the author, or an admin route, edits a message.  Whenever an edit answers or leaves a trace in
  the database, something was to be edited, the message is live and the caller its author or an admin; and
  the database differs exactly in the given texts of that message and in one announcing event.\<close>

theorem update_content_effect:
  assumes "update_content m identity is_admin s b v w = (r, w')" and "\<not> isl r \<or> db w' \<noteq> db w"
  shows "(s \<noteq> None \<or> b \<noteq> None) \<and>
    (\<exists>q\<in>set (messages (db w)). msg_id q = m \<and> \<not> msg_deleted q \<and>
       (is_admin \<or> is_author identity (msg_author_id q, msg_author_guest_id q))) \<and>
    (\<exists>ev. db w' = (db w)\<lparr>messages := map (edited m s b) (messages (db w)), outbox := outbox (db w) @ [ev]\<rparr> \<and>
       event_type ev = ''MessageEdited'' \<and> aggregate_id ev = uuid_text v m)"
proof -
  from assms have ne: "s \<noteq> None \<or> b \<noteq> None" by (auto simp: update_content_def fail_def split: if_splits)
  with assms(1) have t: "in_tx EdDb (edit_tx m identity is_admin s b) v w = (r, w')" by (auto simp: update_content_def)
  have "\<exists>c w0. edit_tx m identity is_admin s b v (begin_tx v w) = (Inr c, w0) \<and> db w' = db w0"
  proof (cases r)
    case (Inl e)
    with assms(2) have "db w' \<noteq> db w" by simp
    with t show ?thesis by (auto elim: in_tx_cases)
  next
    case (Inr c)
    from t [unfolded Inr] show ?thesis by (rule in_tx_straight [OF _ straight_edit]) blast
  qed
  then obtain c w0 where e: "edit_tx m identity is_admin s b v (begin_tx v w) = (Inr c, w0)" and d: "db w' = db w0" by blast
  from edit_tx_Inr [OF e] ne show ?thesis unfolding d by simp
qed

lemma reaction_thread_Some:
  "reaction_thread m d = Some t \<Longrightarrow> \<exists>r\<in>set (messages d). msg_id r = m \<and> \<not> msg_deleted r"
  by (auto simp: reaction_thread_def dest: find_SomeD)

lemma reacted_outbox [simp]: "reacted (d\<lparr>outbox := o'\<rparr>) = reacted d" "one_reactor (d\<lparr>outbox := o'\<rparr>) = one_reactor d"
  by (simp_all add: reacted_def one_reactor_def)

text \<open>A reaction is toggled on a live message only, for a content of 1 to 64 bytes: it is taken away when
  the identity has reacted with that content and added otherwise (unless the fresh id is in use, when it
  answers that there is none); the answer is whether it stands; and apart from the reactions only the
  announcing event is written.\<close>

lemma reaction_toggle_effect:
  assumes "reaction_toggle m identity c v w = (Inr b, w')" and "one_reactor (db w)"
  shows "\<not> blank c \<and> length c \<le> 64 \<and> (\<exists>r\<in>set (messages (db w)). msg_id r = m \<and> \<not> msg_deleted r) \<and>
    reacted (db w') = (if b then insert (m, identity, c) (reacted (db w)) else reacted (db w) - {(m, identity, c)}) \<and>
    (b \<longrightarrow> (m, identity, c) \<notin> reacted (db w)) \<and>
    ((m, identity, c) \<notin> reacted (db w) \<and> (\<forall>n. rng v n \<notin> rct_id ` set (reactions (db w))) \<longrightarrow> b) \<and>
    one_reactor (db w') \<and>
    (\<exists>rs ev. db w' = (db w)\<lparr>reactions := rs, outbox := outbox (db w) @ [ev]\<rparr> \<and> event_type ev = ''ReactionToggled'')"
proof -
  let ?k = "identity_reaction m identity c"
  have st: "straight (reaction_tx m identity c :: (db, 'a, ReactionError, bool) act)"
    unfolding reaction_tx_def toggle_rows_def stage_reaction_def by (intro straight_intros)
  from assms(1) have c: "\<not> blank c" "length c \<le> 64" and t: "in_tx RcDb (reaction_tx m identity c) v w = (Inr b, w')"
    by (auto simp: reaction_toggle_def fail_def split: if_splits)
  from t obtain w0 where x: "reaction_tx m identity c v (begin_tx v w) = (Inr b, w0)" and e: "db w' = db w0"
    by (rule in_tx_straight [OF _ st])
  from x obtain z w1 where 1: "lift RcDb (stmt (reading (reaction_thread m))) v (begin_tx v w) = (Inr z, w1)" and
    2: "(case z of
       None \<Rightarrow> fail (RcNotFound m)
     | Some thread \<Rightarrow>
         bindA (lift RcDb (toggle_rows (delete_reaction ?k) (insert_reaction ?k))) (\<lambda>reacted.
         bindA (stage_reaction m thread identity c reacted) (\<lambda>_. ret reacted))) v w1 = (Inr b, w0)"
    unfolding reaction_tx_def by (rule bindA_InrE)
  from 1 have z: "z = reaction_thread m (db w)" and w1: "db w1 = db w" by (auto elim: reading_stmt_InrE)
  from 2 obtain thread where zs: "z = Some thread" by (cases z) (auto simp: fail_def)
  from 2 [unfolded zs option.case] obtain w2 u where
    3: "toggle_rows (delete_reaction ?k) (insert_reaction ?k) v w1 = (Inr b, w2)" and
    4: "stage_reaction m thread identity c b v w2 = (Inr u, w0)"
    by (elim bindA_InrE lift_InrE ret_InrE) (simp only: that)
  from 4 obtain ev where ev: "db w0 = (db w2)\<lparr>outbox := outbox (db w2) @ [ev]\<rparr>" "event_type ev = ''ReactionToggled''"
    unfolding stage_reaction_def bindA_ask by (elim lift_InrE stage_bus_event_InrE) (rule that)
  note tg = reaction.toggle_Inr [of "(m, identity, c)" v w1 b w2, unfolded reaction_key_of.simps, OF 3, unfolded w1, OF assms(2)]
  from reaction_rows_frame [OF 3] obtain rs where "db w2 = (db w)\<lparr>reactions := rs\<rparr>" unfolding w1 by blast
  then have fr: "\<exists>rs ev. db w' = (db w)\<lparr>reactions := rs, outbox := outbox (db w) @ [ev]\<rparr> \<and> event_type ev = ''ReactionToggled''"
    using ev unfolding e by (intro exI [of _ rs] exI [of _ ev]) simp
  have "reacted (db w') = reacted (db w2)" "one_reactor (db w') = one_reactor (db w2)" unfolding e ev(1) by simp_all
  with tg c fr reaction_thread_Some [of m "db w" thread] z zs show ?thesis
    by (intro conjI) auto
qed

text \<open>Stars belong to partners: a star is added when it was not there and removed when it was.\<close>

lemma toggle_star_effect:
  assumes "toggle_star m identity v w = (Inr b, w')"
  shows "\<exists>p. identity = User p \<and>
    starred (db w') = (if b then insert (p, m) (starred (db w)) else starred (db w) - {(p, m)}) \<and>
    (b \<longrightarrow> (p, m) \<notin> starred (db w))"
proof -
  from assms obtain p where p: "identity = User p"
    by (cases identity) (auto simp: toggle_star_def fail_def)
  let ?body = "bindA (lift EdDb (toggle_rows (delete_star (p, m)) (insert_star (p, m)))) (\<lambda>starred.
    bindA (stage_star m p starred) (\<lambda>_. ret starred))"
  have st: "straight ?body" unfolding toggle_rows_def stage_star_def by (intro straight_intros)
  from assms p obtain w0 where x: "?body v (begin_tx v w) = (Inr b, w0)" and e: "db w' = db w0"
    by (auto simp: toggle_star_def elim: in_tx_straight [OF _ st])
  from x obtain w1 u where 1: "toggle_rows (delete_star (p, m)) (insert_star (p, m)) v (begin_tx v w) = (Inr b, w1)"
    and 2: "stage_star m p b v w1 = (Inr u, w0)"
    by (elim bindA_InrE lift_InrE ret_InrE) (simp only: that)
  from 2 have "starred (db w') = starred (db w1)"
    unfolding e stage_star_def bindA_ask by (elim lift_InrE stage_bus_event_InrE) (simp add: starred_def)
  with star.toggle_Inr [OF 1] p show ?thesis by simp
qed

section \<open>The properties at concrete inputs\<close>

definition edit_world :: "(db, nat) world" where
  "edit_world = world_of (empty_db\<lparr>messages := [(sample_message 1)\<lparr>msg_author_id := Some 4\<rparr>]\<rparr>)"

definition edit_run :: "(MessageEditError + bool) \<times> (db, nat) world" where
  "edit_run = update_content 1 (User 4) False None (Some ''c'') plain_env edit_world"

definition reaction_run :: "(ReactionError + bool) \<times> (db, nat) world" where
  "reaction_run = reaction_toggle 1 (User 4) ''+1'' plain_env edit_world"

lemma update_content_effect_witness:
  "map msg_body (messages (db (snd edit_run))) = [''c''] \<and>
   isl (fst (update_content 1 (User 5) False None (Some ''c'') plain_env edit_world))"
proof -
  have "fst edit_run = Inr True" by code_simp
  then have "update_content 1 (User 4) False None (Some ''c'') plain_env edit_world = (Inr True, snd edit_run)"
    by (simp add: edit_run_def prod_eq_iff)
  from update_content_effect [OF this] obtain ev where
    "db (snd edit_run) = (db edit_world)\<lparr>messages := map (edited 1 None (Some ''c'')) (messages (db edit_world)),
       outbox := outbox (db edit_world) @ [ev]\<rparr>" by auto
  moreover have "map msg_body (map (edited 1 None (Some ''c'')) (messages (db edit_world))) = [''c'']" by code_simp
  moreover have "isl (fst (update_content 1 (User 5) False None (Some ''c'') plain_env edit_world))" by code_simp
  ultimately show ?thesis by simp
qed

lemma reaction_toggle_effect_witness:
  "reacted (db (snd reaction_run)) = {(1, User 4, ''+1'')}"
proof -
  have "fst reaction_run = Inr True" by code_simp
  then have r: "reaction_toggle 1 (User 4) ''+1'' plain_env edit_world = (Inr True, snd reaction_run)"
    by (simp add: reaction_run_def prod_eq_iff)
  have e: "reactions (db edit_world) = []" by code_simp
  then have "one_reactor (db edit_world)" by (simp add: one_reactor_def)
  from reaction_toggle_effect [OF r this] e show ?thesis by (simp add: reacted_def)
qed

end
