(* ===== verification/Queries.thy ===== *)
theory Queries
  imports MessageDelivery Members Followers "HOL-Library.Product_Lexorder"
begin

text \<open>
  The read side: \<open>src/application/service/message_query_service.rs\<close>, \<open>channel_query_service.rs\<close>,
  \<open>recipient_query_service.rs\<close> and the queries of \<open>chatter_repository.rs\<close> and \<open>channel_repository.rs\<close> they run.
  Every fetch passes a gate written in code before its query.  Parameters: the uuid parser; PostgreSQL's
  \<open>ILIKE\<close>, the collation of names, and the order of \<open>SELECT DISTINCT\<close>.  Uuids order as the numbers they are.
\<close>

section \<open>Messages\<close>

record FetchedMessage =
  fm_id :: uuid
  fm_subject :: "string option"
  fm_body :: string
  fm_message_type :: string
  fm_author_id :: "uuid option"
  fm_author_guest_id :: "uuid option"
  fm_email_from :: "string option"
  fm_model :: "string option"
  fm_res_id :: "uuid option"
  fm_record_name :: "string option"
  fm_is_internal :: bool
  fm_pinned_at :: "time option"
  fm_attachment_ids :: "uuid list"

text \<open>The attachment ids travel as the texts of a JSON array.\<close>

record wire =
  to_text :: "uuid \<Rightarrow> string"
  of_text :: "string \<Rightarrow> uuid option"

definition message_attachment_ids :: "wire \<Rightarrow> uuid \<Rightarrow> db \<Rightarrow> uuid list" where
  "message_attachment_ids W i d =
     List.map_filter (of_text W) (map (to_text W)
       (sort (map mat_attachment_id (filter (\<lambda>a. mat_message_id a = i) (message_attachments d)))))"

definition map_fetched :: "wire \<Rightarrow> db \<Rightarrow> mail_message_row \<Rightarrow> FetchedMessage" where
  "map_fetched W d m =
     \<lparr>fm_id = msg_id m, fm_subject = msg_subject m, fm_body = msg_body m,
      fm_message_type = MailMessageType_show (msg_type m), fm_author_id = msg_author_id m,
      fm_author_guest_id = msg_author_guest_id m, fm_email_from = msg_email_from m,
      fm_model = msg_model m, fm_res_id = msg_res_id m, fm_record_name = msg_record_name m,
      fm_is_internal = msg_is_internal m, fm_pinned_at = msg_pinned_at m,
      fm_attachment_ids = message_attachment_ids W (msg_id m) d\<rparr>"

definition message_order :: "mail_message_row \<Rightarrow> time \<times> uuid" where
  "message_order m = (msg_date m, msg_id m)"

text \<open>\<open>(m.date, m.id) > (SELECT ... WHERE x.id = $3)\<close>: a cursor that is no message compares as NULL.\<close>

definition after_cursor :: "db \<Rightarrow> uuid option \<Rightarrow> mail_message_row \<Rightarrow> bool" where
  "after_cursor d after_id m =
     (case after_id of
        None \<Rightarrow> True
      | Some i \<Rightarrow> (case find (\<lambda>x. msg_id x = i) (messages d) of
            None \<Rightarrow> False
          | Some x \<Rightarrow> message_order x < message_order m))"

definition in_thread :: "string \<Rightarrow> uuid \<Rightarrow> mail_message_row \<Rightarrow> bool" where
  "in_thread model res_id m \<longleftrightarrow> \<not> msg_deleted m \<and> msg_model m = Some model \<and> msg_res_id m = Some res_id"

definition thread_rows :: "string \<Rightarrow> uuid \<Rightarrow> uuid option \<Rightarrow> db \<Rightarrow> mail_message_row list" where
  "thread_rows model res_id after_id d =
     sort_key message_order (filter (\<lambda>m. in_thread model res_id m \<and> after_cursor d after_id m) (messages d))"

definition fetch_rows :: "wire \<Rightarrow> int \<Rightarrow> (db \<Rightarrow> mail_message_row list) \<Rightarrow> db \<Rightarrow> db_error + FetchedMessage list \<times> db" where
  "fetch_rows W limit rows d =
     (case sql_limit limit (rows d) of Inl e \<Rightarrow> Inl e | Inr ms \<Rightarrow> Inr (map (map_fetched W d) ms, d))"

definition thread_messages ::
  "wire \<Rightarrow> string \<Rightarrow> uuid \<Rightarrow> uuid option \<Rightarrow> int \<Rightarrow> db \<Rightarrow> db_error + FetchedMessage list \<times> db" where
  "thread_messages W model res_id after_id limit = fetch_rows W limit (thread_rows model res_id after_id)"

definition channel_messages :: "wire \<Rightarrow> uuid \<Rightarrow> uuid option \<Rightarrow> int \<Rightarrow> db \<Rightarrow> db_error + FetchedMessage list \<times> db" where
  "channel_messages W channel_id = thread_messages W ''discuss.channel'' channel_id"

definition inbox_of :: "uuid \<Rightarrow> notification_row \<Rightarrow> bool" where
  "inbox_of partner_id n \<longleftrightarrow>
     ntf_partner n = Some partner_id \<and> ntf_type n = MailNotificationType.Inbox \<and> \<not> ntf_deleted n"

definition latest_first :: "(mail_message_row \<Rightarrow> bool) \<Rightarrow> db \<Rightarrow> mail_message_row list" where
  "latest_first p d = rev (sort_key message_order (filter (\<lambda>m. \<not> msg_deleted m \<and> p m) (messages d)))"

definition inbox_messages :: "wire \<Rightarrow> uuid \<Rightarrow> int \<Rightarrow> db \<Rightarrow> db_error + FetchedMessage list \<times> db" where
  "inbox_messages W partner_id limit d =
     fetch_rows W limit (latest_first (\<lambda>m. msg_id m \<in> set (map ntf_message_id (filter (inbox_of partner_id) (notifications d))))) d"

definition starred_messages :: "wire \<Rightarrow> uuid \<Rightarrow> int \<Rightarrow> db \<Rightarrow> db_error + FetchedMessage list \<times> db" where
  "starred_messages W partner_id limit d =
     fetch_rows W limit (latest_first (\<lambda>m. msg_id m \<in> set (map star_message_id
       (filter (\<lambda>s. star_partner_id s = partner_id) (stars d))))) d"

definition repo_inbox_unread_count :: "uuid \<Rightarrow> db \<Rightarrow> nat" where
  "repo_inbox_unread_count partner_id d =
     length (filter (\<lambda>n. inbox_of partner_id n \<and> ntf_status n = MailNotificationStatus.Ready) (notifications d))"

text \<open>The counter is an INTEGER column read as \<open>i64\<close>: any row to be read panics.\<close>

definition repo_channel_unread_counts :: "uuid \<Rightarrow> db \<Rightarrow> db_error + (uuid \<times> int) list \<times> db" where
  "repo_channel_unread_counts partner_id d =
     (let rows = filter (\<lambda>r. mbr_partner_id r = Some partner_id \<and> \<not> mbr_deleted r \<and> 0 < mbr_message_unread_counter r)
                   (channel_members d)
      in if rows = [] then Inr ([], d) else Inl (Panicked ''message_unread_counter''))"

definition message_thread :: "uuid \<Rightarrow> db \<Rightarrow> (string option \<times> uuid option) option" where
  "message_thread i d =
     map_option (\<lambda>m. (msg_model m, msg_res_id m)) (find (\<lambda>m. msg_id m = i \<and> \<not> msg_deleted m) (messages d))"

definition thread_authors :: "(uuid list \<Rightarrow> uuid list) \<Rightarrow> string \<Rightarrow> uuid \<Rightarrow> db \<Rightarrow> uuid list" where
  "thread_authors distinct_rows model res_id d =
     distinct_rows (List.map_filter msg_author_id (filter (in_thread model res_id) (messages d)))"

section \<open>The message queries\<close>

datatype MessageQueryError = MqDb db_error | MqForbidden string uuid | MqNotAMember

definition on_connection :: "(db \<Rightarrow> db_error + 'a \<times> db) \<Rightarrow> (db, 'o, MessageQueryError, 'a) act" where
  "on_connection q = bindA (lift MqDb acquire) (\<lambda>_. lift MqDb (query q))"

definition require_member :: "uuid \<Rightarrow> MessagingIdentity \<Rightarrow> (db, 'o, MessageQueryError, unit) act" where
  "require_member channel_id identity =
     bindA (on_connection (reading (member_id channel_id identity))) (\<lambda>m.
     case m of Some _ \<Rightarrow> ret () | None \<Rightarrow> fail MqNotAMember)"

definition gated :: "(db \<Rightarrow> bool) \<Rightarrow> 'e \<Rightarrow> (db, 'o, 'e, 'a) act \<Rightarrow> (db, 'o, 'e, 'a) act" where
  "gated gate e m = (\<lambda>v w. if gate (db w) then m v w else fail e v w)"

definition fetch_thread ::
  "ThreadAccessResolver \<Rightarrow> wire \<Rightarrow> int \<Rightarrow> MessagingIdentity \<Rightarrow> string \<Rightarrow> uuid \<Rightarrow> uuid option \<Rightarrow>
   (db, 'o, MessageQueryError, FetchedMessage list) act" where
  "fetch_thread acl W page_limit identity model res_id after_id =
     gated (\<lambda>d. can_read acl d identity model res_id) (MqForbidden model res_id)
       (on_connection (thread_messages W model res_id after_id page_limit))"

definition fetch_channel ::
  "wire \<Rightarrow> int \<Rightarrow> MessagingIdentity \<Rightarrow> uuid \<Rightarrow> uuid option \<Rightarrow> (db, 'o, MessageQueryError, FetchedMessage list) act" where
  "fetch_channel W page_limit identity channel_id after_id =
     bindA (require_member channel_id identity) (\<lambda>_.
     on_connection (channel_messages W channel_id after_id page_limit))"

definition fetch_inbox :: "wire \<Rightarrow> int \<Rightarrow> MessagingIdentity \<Rightarrow> (db, 'o, MessageQueryError, FetchedMessage list) act" where
  "fetch_inbox W page_limit identity =
     (case identity of
        Guest _ \<Rightarrow> fail (MqForbidden ''res.partner'' 0)
      | User p \<Rightarrow> on_connection (inbox_messages W p page_limit))"

definition fetch_starred :: "wire \<Rightarrow> int \<Rightarrow> MessagingIdentity \<Rightarrow> (db, 'o, MessageQueryError, FetchedMessage list) act" where
  "fetch_starred W page_limit identity =
     (case identity of
        Guest _ \<Rightarrow> fail (MqForbidden ''res.partner'' 0)
      | User p \<Rightarrow> on_connection (starred_messages W p page_limit))"

definition inbox_unread_count :: "MessagingIdentity \<Rightarrow> (db, 'o, MessageQueryError, nat) act" where
  "inbox_unread_count identity =
     (case identity of
        Guest _ \<Rightarrow> ret 0
      | User p \<Rightarrow> on_connection (reading (repo_inbox_unread_count p)))"

definition channel_unread_counts :: "MessagingIdentity \<Rightarrow> (db, 'o, MessageQueryError, (uuid \<times> int) list) act" where
  "channel_unread_counts identity =
     (case identity of
        Guest _ \<Rightarrow> ret []
      | User p \<Rightarrow> on_connection (repo_channel_unread_counts p))"

definition member_or_false :: "uuid \<Rightarrow> MessagingIdentity \<Rightarrow> (db, 'o, MessageQueryError, bool) act" where
  "member_or_false channel_id identity =
     bindA (attempt (require_member channel_id identity)) (\<lambda>r.
     case r of
       Inr _ \<Rightarrow> ret True
     | Inl e \<Rightarrow> if e = MqNotAMember then ret False else fail e)"

definition can_read_message ::
  "ThreadAccessResolver \<Rightarrow> MessagingIdentity \<Rightarrow> uuid \<Rightarrow> (db, 'o, MessageQueryError, bool) act" where
  "can_read_message acl identity message_id =
     bindA (on_connection (reading (message_thread message_id))) (\<lambda>thread.
     case thread of
       Some (Some model, Some res_id) \<Rightarrow>
         if model = ''discuss.channel'' then member_or_false res_id identity
         else (\<lambda>v w. (Inr (can_read acl (db w) identity model res_id), w))
     | _ \<Rightarrow> ret False)"

section \<open>The channel queries\<close>

record ChannelSearchHit =
  hit_channel_id :: uuid
  hit_name :: "string option"
  hit_channel_type :: string
  hit_is_member :: bool

definition list_members :: "uuid \<Rightarrow> db \<Rightarrow> (uuid \<times> uuid option \<times> uuid option) list" where
  "list_members channel_id d =
     map (\<lambda>r. (mbr_id r, mbr_partner_id r, mbr_guest_id r))
       (sort_key mbr_id (filter (\<lambda>r. mbr_channel_id r = channel_id \<and> \<not> mbr_deleted r) (channel_members d)))"

text \<open>The newest pin first; ties keep the order of the table.\<close>

definition pinned_message_ids :: "uuid \<Rightarrow> db \<Rightarrow> uuid list" where
  "pinned_message_ids channel_id d =
     map msg_id (sort_key (\<lambda>m. - the (msg_pinned_at m))
       (filter (\<lambda>m. in_thread ''discuss.channel'' channel_id m \<and> msg_pinned_at m \<noteq> None) (messages d)))"

record sql_text =
  ilike :: "string \<Rightarrow> string \<Rightarrow> bool"
  name_rank :: "string option \<Rightarrow> nat"

definition search_term :: "string \<Rightarrow> string option" where
  "search_term t = (if trim t = [] then None else Some (trim t))"

definition searchable :: "sql_text \<Rightarrow> string option \<Rightarrow> channel_row \<Rightarrow> bool" where
  "searchable Q t c \<longleftrightarrow> \<not> chn_deleted c \<and>
     chn_type c \<in> {DiscussChannelType.Channel, DiscussChannelType.Group} \<and>
     (case t of None \<Rightarrow> True | Some s \<Rightarrow> (case chn_name c of None \<Rightarrow> False | Some n \<Rightarrow> ilike Q n s))"

definition channel_hit :: "db \<Rightarrow> MessagingIdentity \<Rightarrow> channel_row \<Rightarrow> ChannelSearchHit list" where
  "channel_hit d identity c =
     (let ms = filter (seat (chn_id c) identity) (channel_members d);
          hit = (\<lambda>b. \<lparr>hit_channel_id = chn_id c, hit_name = chn_name c,
                       hit_channel_type = DiscussChannelType_show (chn_type c), hit_is_member = b\<rparr>)
      in if ms \<noteq> [] then map (\<lambda>_. hit True) ms
         else if chn_access_mode c = Some ''public'' \<and> identity_partner_id identity \<noteq> None then [hit False]
         else [])"

definition search_channels ::
  "sql_text \<Rightarrow> MessagingIdentity \<Rightarrow> string \<Rightarrow> int \<Rightarrow> db \<Rightarrow> db_error + ChannelSearchHit list \<times> db" where
  "search_channels Q identity t limit d =
     (case sql_limit limit (sort_key (\<lambda>h. (\<not> hit_is_member h, name_rank Q (hit_name h)))
             (concat (map (channel_hit d identity) (filter (searchable Q (search_term t)) (channels d))))) of
        Inl e \<Rightarrow> Inl e
      | Inr hs \<Rightarrow> Inr (hs, d))"

definition membership_channel_ids :: "MessagingIdentity \<Rightarrow> db \<Rightarrow> uuid list" where
  "membership_channel_ids identity d =
     concat (map (\<lambda>c. map (\<lambda>_. chn_id c) (filter (seat (chn_id c) identity) (channel_members d)))
       (filter (\<lambda>c. \<not> chn_deleted c) (channels d)))"

definition find_public_by_uuid :: "string \<Rightarrow> db \<Rightarrow> (uuid \<times> string option \<times> string) option" where
  "find_public_by_uuid u d =
     map_option (\<lambda>c. (chn_id c, chn_name c, DiscussChannelType_show (chn_type c)))
       (find (\<lambda>c. chn_uuid c = Some u \<and> chn_access_mode c = Some ''public'' \<and> \<not> chn_deleted c) (channels d))"

datatype ChannelQueryError = CqDb db_error | CqNotAMember

definition cq_connection :: "(db \<Rightarrow> db_error + 'a \<times> db) \<Rightarrow> (db, 'o, ChannelQueryError, 'a) act" where
  "cq_connection q = bindA (lift CqDb acquire) (\<lambda>_. lift CqDb (query q))"

definition cq_require_member :: "uuid \<Rightarrow> MessagingIdentity \<Rightarrow> (db, 'o, ChannelQueryError, unit) act" where
  "cq_require_member channel_id identity =
     bindA (cq_connection (reading (member_id channel_id identity))) (\<lambda>m.
     case m of Some _ \<Rightarrow> ret () | None \<Rightarrow> fail CqNotAMember)"

definition channel_members_query ::
  "MessagingIdentity \<Rightarrow> uuid \<Rightarrow> (db, 'o, ChannelQueryError, (uuid \<times> uuid option \<times> uuid option) list) act" where
  "channel_members_query identity channel_id =
     bindA (cq_require_member channel_id identity) (\<lambda>_. cq_connection (reading (list_members channel_id)))"

definition pinned_messages :: "MessagingIdentity \<Rightarrow> uuid \<Rightarrow> (db, 'o, ChannelQueryError, uuid list) act" where
  "pinned_messages identity channel_id =
     bindA (cq_require_member channel_id identity) (\<lambda>_. cq_connection (reading (pinned_message_ids channel_id)))"

definition channel_search ::
  "sql_text \<Rightarrow> int \<Rightarrow> MessagingIdentity \<Rightarrow> string option \<Rightarrow> (db, 'o, ChannelQueryError, ChannelSearchHit list) act" where
  "channel_search Q search_limit identity t =
     lift CqDb (query (search_channels Q identity (case t of None \<Rightarrow> [] | Some s \<Rightarrow> s) search_limit))"

section \<open>Suggested recipients\<close>

record SuggestedRecipient =
  sr_partner_id :: uuid
  sr_reason :: string

datatype RecipientQueryError = RqDb db_error | RqForbidden string uuid | RqNeedsPartner

definition suggestion :: "string \<Rightarrow> uuid \<Rightarrow> SuggestedRecipient" where
  "suggestion reason p = \<lparr>sr_partner_id = p, sr_reason = reason\<rparr>"

definition suggest_author ::
  "(uuid \<times> json) list \<Rightarrow> SuggestedRecipient list \<Rightarrow> uuid \<Rightarrow> SuggestedRecipient list" where
  "suggest_author fs out author =
     (if list_ex (\<lambda>f. fst f = author) fs then out else out @ [suggestion ''author'' author])"

definition suggestions :: "(uuid \<times> json) list \<Rightarrow> uuid list \<Rightarrow> SuggestedRecipient list" where
  "suggestions fs authors = foldl (suggest_author fs) (map (suggestion ''follower'' \<circ> fst) fs) authors"

definition suggested ::
  "ThreadAccessResolver \<Rightarrow> (uuid list \<Rightarrow> uuid list) \<Rightarrow> MessagingIdentity \<Rightarrow> string \<Rightarrow> uuid \<Rightarrow>
   (db, 'o, RecipientQueryError, SuggestedRecipient list) act" where
  "suggested acl distinct_rows identity model res_id =
     gated (\<lambda>d. can_read acl d identity model res_id) (RqForbidden model res_id)
       (bindA (lift RqDb acquire) (\<lambda>_.
        bindA (lift RqDb (query (list_followers model res_id))) (\<lambda>fs.
        bindA (lift RqDb (query (reading (thread_authors distinct_rows model res_id)))) (\<lambda>authors.
        ret (suggestions fs authors)))))"

section \<open>Paging through a thread\<close>

lemma on_connection_Inr:
  assumes "on_connection q v w = (Inr x, w')"
  shows "q (db w) = Inr (x, db w')"
proof -
  from assms obtain u w1 where 1: "acquire v w = ((Inr u :: db_error + unit), w1)" and 2: "query q v w1 = (Inr x, w')"
    unfolding on_connection_def by (elim bindA_InrE lift_InrE) (rule that)
  from 1 have "db w1 = db w" by (auto elim: acquire_InrE)
  with 2 show ?thesis by (auto elim: query_InrE)
qed

lemma on_connection_reading:
  "on_connection (reading f) v w = (Inr x, w') \<Longrightarrow> x = f (db w) \<and> db w' = db w"
  by (drule on_connection_Inr) (auto simp: reading_def)

lemma sorted_fst:
  fixes f :: "'a \<Rightarrow> 'b::linorder \<times> 'c::linorder"
  shows "sorted (map f xs) \<Longrightarrow> sorted (map (\<lambda>x. fst (f x)) xs)"
  by (induction xs) (auto simp: less_eq_prod_def less_imp_le)

lemma gated_Inr: "gated g e m v w = (Inr x, w') \<Longrightarrow> g (db w) \<and> m v w = (Inr x, w')"
  by (auto simp: gated_def fail_def split: if_splits)

lemma fetch_rows_Inr:
  "fetch_rows W n rows d = Inr (ms, d') \<Longrightarrow> d' = d \<and> 0 \<le> n \<and> ms = map (map_fetched W d) (take (nat n) (rows d))"
  by (auto simp: fetch_rows_def sql_limit_def split: if_splits)

lemma message_order_inj:
  "distinct (map msg_id ms) \<Longrightarrow> x \<in> set ms \<Longrightarrow> y \<in> set ms \<Longrightarrow> message_order x = message_order y \<Longrightarrow> x = y"
  using distinct_key_unique [of msg_id ms x y] by (simp add: message_order_def)

text \<open>In a strictly sorted list the elements above a bound are a suffix.\<close>

lemma filter_above:
  fixes f :: "'a \<Rightarrow> 'b::linorder"
  assumes "sorted (map f xs)"
  shows "\<exists>k. filter (\<lambda>x. b < f x) xs = drop k xs"
  using assms
proof (induction xs)
  case (Cons x xs)
  show ?case
  proof (cases "b < f x")
    case True
    with Cons.prems have "\<forall>y\<in>set xs. b < f y" by (fastforce intro: order_less_le_trans)
    with True have "filter (\<lambda>x. b < f x) (x # xs) = drop 0 (x # xs)" by (simp add: filter_id_conv)
    then show ?thesis ..
  next
    case False
    with Cons obtain k where "filter (\<lambda>x. b < f x) xs = drop k xs" by auto
    with False have "filter (\<lambda>x. b < f x) (x # xs) = drop (Suc k) (x # xs)" by simp
    then show ?thesis ..
  qed
qed simp

lemma filter_above_nth:
  fixes f :: "'a \<Rightarrow> 'b::linorder"
  assumes "sorted (map f xs)" and "distinct (map f xs)" and "k < length xs"
  shows "filter (\<lambda>x. f (xs ! k) < f x) xs = drop (Suc k) xs"
  using assms
proof (induction xs arbitrary: k)
  case (Cons x xs)
  show ?case
  proof (cases k)
    case 0
    with Cons.prems have "\<forall>y\<in>set xs. f x < f y" by (auto simp: order_less_le)
    with 0 show ?thesis by (simp add: filter_id_conv)
  next
    case (Suc j)
    with Cons.prems have "f x \<le> f (xs ! j)" by simp
    then have "\<not> f (xs ! j) < f x" by (simp add: not_less)
    with Suc Cons show ?thesis by simp
  qed
qed simp

lemma thread_rows_cursor:
  assumes "find (\<lambda>x. msg_id x = i) (messages d) = Some x"
  shows "thread_rows model r (Some i) d = filter (\<lambda>m. message_order x < message_order m) (thread_rows model r None d)"
  using assms by (simp add: thread_rows_def after_cursor_def filter_sort [symmetric] conj_commute)

lemma thread_rows_sorted:
  assumes "distinct (map msg_id (messages d))"
  shows "sorted (map message_order (thread_rows model r c d))" "distinct (map message_order (thread_rows model r c d))"
    "set (thread_rows model r c d) \<subseteq> {m \<in> set (messages d). in_thread model r m}"
proof -
  show "sorted (map message_order (thread_rows model r c d))" by (simp add: thread_rows_def)
  show s: "set (thread_rows model r c d) \<subseteq> {m \<in> set (messages d). in_thread model r m}" by (auto simp: thread_rows_def)
  have "distinct (thread_rows model r c d)"
    using assms by (simp add: thread_rows_def distinct_map)
  then show "distinct (map message_order (thread_rows model r c d))"
    using s message_order_inj [OF assms] by (auto simp: distinct_map inj_on_def)
qed

lemma thread_rows_suffix: "\<exists>k. thread_rows model r c d = drop k (thread_rows model r None d)"
proof (cases c)
  case None
  then show ?thesis by (intro exI [of _ 0]) simp
next
  case (Some i)
  show ?thesis
  proof (cases "find (\<lambda>x. msg_id x = i) (messages d)")
    case None
    with Some have "thread_rows model r c d = []" by (simp add: thread_rows_def after_cursor_def)
    then show ?thesis by (intro exI [of _ "length (thread_rows model r None d)"]) simp
  next
    case (Some x)
    have "sorted (map message_order (thread_rows model r None d))" by (simp add: thread_rows_def)
    from filter_above [OF this] show ?thesis unfolding \<open>c = Some i\<close> thread_rows_cursor [OF Some] .
  qed
qed

lemma thread_rows_next:
  assumes "distinct (map msg_id (messages d))" and "k < length (thread_rows model r None d)"
  shows "thread_rows model r (Some (msg_id (thread_rows model r None d ! k))) d = drop (Suc k) (thread_rows model r None d)"
proof -
  let ?L = "thread_rows model r None d"
  have "?L ! k \<in> set (messages d)" using thread_rows_sorted(3) [OF assms(1)] assms(2) nth_mem by blast
  then have "find (\<lambda>x. msg_id x = msg_id (?L ! k)) (messages d) = Some (?L ! k)"
    by (rule find_distinct [OF assms(1)]) simp
  from thread_rows_cursor [OF this] filter_above_nth [OF thread_rows_sorted(1,2) [OF assms(1)] assms(2)]
  show ?thesis by simp
qed

text \<open>C19: a thread is read by readers only, and its pages tile it.  Whatever the cursor, a page is a run of at
  most the page limit of the thread's live messages in the order of date and id; and reading on from the
  last message of a page continues exactly where that page ended, so nothing is skipped or shown twice.\<close>

theorem fetch_thread_pages:
  assumes "fetch_thread acl W n identity model r c v w = (Inr p, w')" and "p \<noteq> []"
    and "fetch_thread acl W n identity model r (Some (fm_id (last p))) v1 w1 = (Inr q, w'')" and "db w1 = db w"
    and "distinct (map msg_id (messages (db w)))"
  defines "rows \<equiv> thread_rows model r None (db w)"
  shows "can_read acl (db w) identity model r \<and> db w' = db w \<and> db w'' = db w \<and>
    (\<forall>m\<in>set rows. in_thread model r m) \<and> sorted (map message_order rows) \<and>
    (\<exists>k. p = map (map_fetched W (db w)) (take (nat n) (drop k rows)) \<and>
         q = map (map_fetched W (db w)) (take (nat n) (drop (k + length p) rows)))"
proof -
  from gated_Inr [OF assms(1) [unfolded fetch_thread_def]] have g: "can_read acl (db w) identity model r"
    and f: "on_connection (thread_messages W model r c n) v w = (Inr p, w')" by blast+
  from fetch_rows_Inr [OF on_connection_Inr [OF f, unfolded thread_messages_def]]
  have w': "db w' = db w" and p: "p = map (map_fetched W (db w)) (take (nat n) (thread_rows model r c (db w)))" by blast+
  from gated_Inr [OF assms(3) [unfolded fetch_thread_def]]
  have f': "on_connection (thread_messages W model r (Some (fm_id (last p))) n) v1 w1 = (Inr q, w'')" by blast
  from fetch_rows_Inr [OF on_connection_Inr [OF f', unfolded thread_messages_def]]
  have w'': "db w'' = db w" and q: "q = map (map_fetched W (db w)) (take (nat n) (thread_rows model r (Some (fm_id (last p))) (db w)))"
    unfolding assms(4) by blast+
  obtain k where k: "thread_rows model r c (db w) = drop k rows" using thread_rows_suffix unfolding rows_def by blast
  let ?t = "take (nat n) (drop k rows)"
  have t: "?t \<noteq> []" and lp: "length p = length ?t" using assms(2) p k by auto
  let ?j = "k + length p - 1"
  have "length ?t \<noteq> 0" using t by simp
  then have s: "k + (length ?t - 1) = ?j" using lp by linarith
  have j: "?j < length rows" "last ?t = rows ! ?j"
    unfolding s [symmetric] using t by (auto simp: last_conv_nth)
  have "fm_id (last p) = msg_id (rows ! ?j)" using p k t j(2) by (simp add: last_map map_fetched_def)
  with thread_rows_next [OF assms(5), of ?j model r] j(1)
  have "thread_rows model r (Some (fm_id (last p))) (db w) = drop (Suc ?j) rows" by (simp add: rows_def)
  moreover have "Suc ?j = k + length p" using t lp by (cases "length p") auto
  ultimately have "q = map (map_fetched W (db w)) (take (nat n) (drop (k + length p) rows))" using q by simp
  moreover have "p = map (map_fetched W (db w)) ?t" using p k by simp
  moreover have "sorted (map message_order rows)" "\<forall>m\<in>set rows. in_thread model r m"
    using thread_rows_sorted [OF assms(5), of model r None] unfolding rows_def by blast+
  ultimately show ?thesis using g w' w'' by (intro conjI exI [of _ k])
qed

section \<open>Reading a single message\<close>

lemma require_member_Inr:
  assumes "require_member i identity v w = (Inr u, w')"
  shows "member_id i identity (db w) \<noteq> None \<and> db w' = db w"
proof -
  from assms obtain m w1 where 1: "on_connection (reading (member_id i identity)) v w = (Inr m, w1)" and
    2: "(case m of Some _ \<Rightarrow> ret () | None \<Rightarrow> fail MqNotAMember) v w1 = (Inr u, w')"
    unfolding require_member_def by (rule bindA_InrE)
  from on_connection_reading [OF 1] have "m = member_id i identity (db w)" "db w1 = db w" by simp_all
  moreover from 2 obtain a where "m = Some a" by (cases m) (auto simp: fail_def)
  moreover from this 2 have "w' = w1" by (simp add: ret_def)
  ultimately show ?thesis by (metis option.distinct(1))
qed

text \<open>The gate of a single message is closed by default.  It opens only for a live message with a document:
  in a discussion channel for a live member, elsewhere for whom the resolver lets read the document.\<close>

lemma can_read_message_closed:
  assumes "can_read_message acl identity i v w = (Inr True, w')"
  shows "\<exists>m\<in>set (messages (db w)). \<exists>model r. msg_id m = i \<and> in_thread model r m \<and>
    (if model = ''discuss.channel'' then \<exists>s\<in>set (channel_members (db w)). seat r identity s
     else can_read acl (db w) identity model r)"
proof -
  let ?gate = "\<lambda>thread. case thread of
       Some (Some model, Some res_id) \<Rightarrow>
         if model = ''discuss.channel'' then member_or_false res_id identity
         else (\<lambda>v w. (Inr (can_read acl (db w) identity model res_id), w))
     | _ \<Rightarrow> ret False"
  from assms obtain thread w1 where 1: "on_connection (reading (message_thread i)) v w = (Inr thread, w1)" and
    2: "?gate thread v w1 = (Inr True, w')"
    unfolding can_read_message_def by (rule bindA_InrE)
  from on_connection_reading [OF 1] have t: "thread = message_thread i (db w)" and w1: "db w1 = db w" by simp_all
  from 2 obtain model r where mr: "thread = Some (Some model, Some r)" by (auto simp: ret_def split: option.splits)
  then obtain m where m: "m \<in> set (messages (db w))" "msg_id m = i" "in_thread model r m"
    unfolding t message_thread_def by (auto simp: in_thread_def dest: find_SomeD)
  show ?thesis
  proof (cases "model = ''discuss.channel''")
    case False
    with 2 mr w1 m show ?thesis by auto
  next
    case True
    with 2 mr have "member_or_false r identity v w1 = (Inr True, w')" by simp
    then obtain u w2 where "require_member r identity v w1 = (Inr u, w2)"
      unfolding member_or_false_def
      by (cases "require_member r identity v w1")
        (auto simp: bindA_def attempt_def ret_def fail_def split: sum.splits if_splits)
    from require_member_Inr [OF this] have "find (seat r identity) (channel_members (db w)) \<noteq> None"
      by (simp add: member_id_def w1)
    then obtain s where "s \<in> set (channel_members (db w))" "seat r identity s" by (auto simp: find_None_iff)
    with m True show ?thesis by (intro bexI [of _ m] exI [of _ model] exI [of _ r]) auto
  qed
qed

section \<open>Searching channels\<close>

text \<open>C20: a search shows what its caller may see.  Every hit is a live channel or group; it is marked as a
  membership exactly when the caller has a live seat in it; without one it is public and the caller is a
  partner, so a guest finds own channels only; memberships come first, and the limit is kept.\<close>

theorem channel_search_visible:
  assumes "channel_search Q n identity t v w = (Inr hs, w')"
  shows "db w' = db w \<and> int (length hs) \<le> n \<and> sorted (map (\<lambda>h. \<not> hit_is_member h) hs) \<and>
    (\<forall>h\<in>set hs. \<exists>c\<in>set (channels (db w)). hit_channel_id h = chn_id c \<and> \<not> chn_deleted c \<and>
       chn_type c \<in> {DiscussChannelType.Channel, DiscussChannelType.Group} \<and>
       (hit_is_member h \<longleftrightarrow> (\<exists>s\<in>set (channel_members (db w)). seat (chn_id c) identity s)) \<and>
       (hit_is_member h \<or> chn_access_mode c = Some ''public'' \<and> identity_partner_id identity \<noteq> None))"
proof -
  let ?t = "case t of None \<Rightarrow> [] | Some s \<Rightarrow> s"
  let ?all = "concat (map (channel_hit (db w) identity) (filter (searchable Q (search_term ?t)) (channels (db w))))"
  let ?sorted = "sort_key (\<lambda>h. (\<not> hit_is_member h, name_rank Q (hit_name h))) ?all"
  from assms have "search_channels Q identity ?t n (db w) = Inr (hs, db w')"
    unfolding channel_search_def by (auto elim!: lift_InrE query_InrE)
  then have d: "db w' = db w" and n: "0 \<le> n" and hs: "hs = take (nat n) ?sorted"
    by (auto simp: search_channels_def sql_limit_def split: if_splits)
  have "sorted (map (\<lambda>h. (\<not> hit_is_member h, name_rank Q (hit_name h))) ?sorted)" by simp
  from sorted_fst [OF this] have "sorted (take (nat n) (map (\<lambda>h. \<not> hit_is_member h) ?sorted))"
    by (simp add: sorted_wrt_take)
  then have "sorted (map (\<lambda>h. \<not> hit_is_member h) hs)" by (simp add: hs take_map)
  moreover have "\<exists>c\<in>set (channels (db w)). hit_channel_id h = chn_id c \<and> \<not> chn_deleted c \<and>
       chn_type c \<in> {DiscussChannelType.Channel, DiscussChannelType.Group} \<and>
       (hit_is_member h \<longleftrightarrow> (\<exists>s\<in>set (channel_members (db w)). seat (chn_id c) identity s)) \<and>
       (hit_is_member h \<or> chn_access_mode c = Some ''public'' \<and> identity_partner_id identity \<noteq> None)"
    if "h \<in> set hs" for h
  proof -
    from that have "h \<in> set ?all" unfolding hs by (auto dest: in_set_takeD)
    then obtain c where c: "c \<in> set (channels (db w))" "searchable Q (search_term ?t) c" "h \<in> set (channel_hit (db w) identity c)"
      by auto
    from c(3) have "hit_channel_id h = chn_id c \<and> (hit_is_member h \<longleftrightarrow> (\<exists>s\<in>set (channel_members (db w)). seat (chn_id c) identity s)) \<and>
       (hit_is_member h \<or> chn_access_mode c = Some ''public'' \<and> identity_partner_id identity \<noteq> None)"
      by (auto simp: channel_hit_def Let_def filter_empty_conv split: if_splits)
    moreover from c(2) have "\<not> chn_deleted c \<and> chn_type c \<in> {DiscussChannelType.Channel, DiscussChannelType.Group}"
      by (simp add: searchable_def)
    ultimately show ?thesis using c(1) by (intro bexI [of _ c]) auto
  qed
  moreover have "int (length hs) \<le> n" using n by (simp add: hs)
  ultimately show ?thesis using d by blast
qed

section \<open>Suggesting recipients\<close>

lemma foldl_suggest:
  "foldl (suggest_author fs) out authors =
   out @ map (suggestion ''author'') (filter (\<lambda>a. a \<notin> fst ` set fs) authors)"
proof (induction authors arbitrary: out)
  case (Cons a authors)
  have "list_ex (\<lambda>f. fst f = a) fs \<longleftrightarrow> a \<in> fst ` set fs" by (auto simp: list_ex_iff)
  with Cons.IH show ?case by (simp add: suggest_author_def)
qed simp

text \<open>\<open>SELECT DISTINCT\<close>: each value once, in an order of PostgreSQL's choice.\<close>

definition distinct_documented :: "(uuid list \<Rightarrow> uuid list) \<Rightarrow> bool" where
  "distinct_documented f \<longleftrightarrow> (\<forall>xs. set (f xs) = set xs \<and> distinct (f xs))"

lemma map_filter_Some_iff: "x \<in> set (List.map_filter f xs) \<longleftrightarrow> (\<exists>y\<in>set xs. f y = Some x)"
  by (induction xs) (auto simp: List.map_filter_simps split: option.split)

lemma distinct_followers:
  assumes "one_follower d"
  shows "distinct (List.map_filter flw_partner_id (filter (\<lambda>r. flw_res_model r = model \<and> flw_res_id r = res) (followers d)))"
proof -
  let ?key = "\<lambda>r. (flw_res_model r, flw_res_id r, flw_partner_id r)"
  let ?rs = "filter (\<lambda>r. flw_res_model r = model \<and> flw_res_id r = res) (filter (\<lambda>r. flw_partner_id r \<noteq> None) (followers d))"
  have "distinct (map ?key ?rs)" using assms unfolding one_follower_def by (blast intro: distinct_map_filter)
  then have "distinct ?rs" and i: "inj_on ?key (set ?rs)" unfolding distinct_map by blast+
  have "inj_on (the \<circ> flw_partner_id) (set ?rs)"
  proof (rule inj_onI)
    fix x y assume xy: "x \<in> set ?rs" "y \<in> set ?rs" "(the \<circ> flw_partner_id) x = (the \<circ> flw_partner_id) y"
    then have "?key x = ?key y" by auto
    then show "x = y" using xy by (intro inj_onD [OF i])
  qed
  with \<open>distinct ?rs\<close> have "distinct (map (the \<circ> flw_partner_id) ?rs)" by (simp add: distinct_map)
  then show ?thesis by (simp add: List.map_filter_def conj_commute conj_left_commute)
qed

text \<open>The suggested recipients of a thread are its followers and the partners who wrote live messages in it,
  each exactly once, followers first and under that reason; they are shown to readers of the thread only.\<close>

lemma suggested_recipients:
  assumes "suggested acl distinct_rows identity model r v w = (Inr out, w')"
    and "one_follower (db w)" and "distinct_documented distinct_rows"
  defines "fs \<equiv> {p. \<exists>f\<in>set (followers (db w)). flw_res_model f = model \<and> flw_res_id f = r \<and> flw_partner_id f = Some p}"
    and "authors \<equiv> {a. \<exists>m\<in>set (messages (db w)). in_thread model r m \<and> msg_author_id m = Some a}"
  shows "can_read acl (db w) identity model r \<and> distinct (map sr_partner_id out) \<and>
    set (map sr_partner_id out) = fs \<union> authors \<and>
    (\<forall>s\<in>set out. sr_reason s = (if sr_partner_id s \<in> fs then ''follower'' else ''author'')) \<and>
    (\<exists>k. set (map sr_partner_id (take k out)) = fs)"
proof -
  let ?body = "bindA (lift RqDb acquire) (\<lambda>_. bindA (lift RqDb (query (list_followers model r))) (\<lambda>fs.
    bindA (lift RqDb (query (reading (thread_authors distinct_rows model r)))) (\<lambda>authors. ret (suggestions fs authors))))"
  from gated_Inr [OF assms(1) [unfolded suggested_def]] have g: "can_read acl (db w) identity model r"
    and b: "?body v w = (Inr out, w')" by blast+
  from b obtain u w1 l w2 as where 1: "acquire v w = ((Inr u :: db_error + unit), w1)" and
    2: "query (list_followers model r) v w1 = (Inr l, w2)" and
    3: "query (reading (thread_authors distinct_rows model r)) v w2 = (Inr as, w')" and out: "out = suggestions l as"
    by (elim bindA_InrE lift_InrE ret_InrE) (simp only: that)
  from 1 have w1: "db w1 = db w" by (auto elim: acquire_InrE)
  from 2 have l: "list_followers model r (db w) = Inr (l, db w2)" unfolding w1 [symmetric] by (auto elim: query_InrE)
  then have w2: "db w2 = db w" and ml: "map fst l = List.map_filter flw_partner_id
      (filter (\<lambda>q. flw_res_model q = model \<and> flw_res_id q = r) (followers (db w)))"
    using list_followers_Inr [OF l] by blast+
  from 3 have "as = thread_authors distinct_rows model r (db w)"
    by (auto simp: reading_def w2 elim!: query_InrE)
  then have as: "set as = authors" "distinct as"
    using assms(3) by (auto simp: thread_authors_def distinct_documented_def map_filter_Some_iff authors_def)
  have fs: "fst ` set l = fs" "distinct (map fst l)"
    using ml distinct_followers [OF assms(2), of model r]
    by (auto simp: fs_def map_filter_Some_iff simp flip: set_map)
  have o': "out = map (suggestion ''follower'' \<circ> fst) l @ map (suggestion ''author'') (filter (\<lambda>a. a \<notin> fs) as)"
    unfolding out suggestions_def foldl_suggest fs(1) ..
  then have m: "map sr_partner_id out = map fst l @ filter (\<lambda>a. a \<notin> fs) as"
    by (simp add: suggestion_def comp_def)
  have "distinct (map sr_partner_id out)" unfolding m using fs as(2) by auto
  moreover have "set (map sr_partner_id out) = fs \<union> authors" unfolding m using fs(1) as(1) by auto
  moreover have "sr_reason s = (if sr_partner_id s \<in> fs then ''follower'' else ''author'')" if "s \<in> set out" for s
  proof -
    from that consider f where "f \<in> set l" "s = suggestion ''follower'' (fst f)"
      | a where "a \<notin> fs" "s = suggestion ''author'' a" unfolding o' by auto
    then show ?thesis using fs(1) by cases (auto simp: suggestion_def)
  qed
  moreover have "set (map sr_partner_id (take (length l) out)) = fs"
    using fs(1) unfolding take_map [symmetric] m by simp
  ultimately show ?thesis using g by blast
qed

section \<open>Counters\<close>

text \<open>The inbox badge counts inbox notifications in state ready, but a post mints them in state sent: no post
  ever raises the count.\<close>

lemma unread_append: "repo_inbox_unread_count p (d\<lparr>notifications := notifications d @ ns\<rparr>) =
    repo_inbox_unread_count p d + length (filter (\<lambda>n. inbox_of p n \<and> ntf_status n = MailNotificationStatus.Ready) ns)"
  by (simp add: repo_inbox_unread_count_def)

lemma unread_others:
  "notifications d' = notifications d \<Longrightarrow> repo_inbox_unread_count p d' = repo_inbox_unread_count p d"
  by (simp add: repo_inbox_unread_count_def)

lemma post_unread_unchanged:
  assumes "message_post cmd v w = (Inr pm, w')"
  shows "repo_inbox_unread_count p (db w') = repo_inbox_unread_count p (db w)"
proof -
  from message_post_effect [OF assms] have "post_effect v cmd pm (db w) (db w')" by blast
  then show ?thesis
  proof (rule post_effect_rows)
    fix m ns qs ss ts qids evs rs
    assume d: "db w' = (db w)\<lparr>messages := messages (db w) @ [m], notifications := notifications (db w) @ ns,
           mails := mails (db w) @ qs, smss := smss (db w) @ ss, trackers := trackers (db w) @ ts,
           outbox := outbox (db w) @ evs\<rparr>" and n: "map ntf_shape ns = map (wanted (pm_message_id pm)) rs"
    have "\<not> (inbox_of p n \<and> ntf_status n = MailNotificationStatus.Ready)" if "n \<in> set ns" for n
    proof -
      have "ntf_shape n \<in> set (map (wanted (pm_message_id pm)) rs)" using that unfolding n [symmetric] by simp
      then obtain r where "ntf_shape n = wanted (pm_message_id pm) r" by auto
      then have "ntf_type n = channel_type (pr_channel r)" "ntf_status n = channel_status (pr_channel r)"
        by (simp_all add: ntf_shape_def wanted_def)
      then show ?thesis by (cases "pr_channel r") (auto simp: inbox_of_def)
    qed
    then have "filter (\<lambda>n. inbox_of p n \<and> ntf_status n = MailNotificationStatus.Ready) ns = []"
      by (auto simp: filter_empty_conv)
    then show ?thesis by (simp add: repo_inbox_unread_count_def d)
  qed
qed

text \<open>The sidebar counters answer only callers without unread channels; any other read panics.\<close>

lemma channel_counts_panic:
  assumes "r \<in> set (channel_members d)" and "mbr_partner_id r = Some p" and "\<not> mbr_deleted r"
    and "0 < mbr_message_unread_counter r"
  shows "repo_channel_unread_counts p d = Inl (Panicked ''message_unread_counter'')"
  using assms by (auto simp: repo_channel_unread_counts_def Let_def filter_empty_conv)

section \<open>The properties at concrete inputs\<close>

definition plain_wire :: wire where
  "plain_wire = \<lparr>to_text = (\<lambda>i. replicate i (CHR ''1'')), of_text = (\<lambda>s. Some (length s))\<rparr>"

definition read_world :: "(db, nat) world" where
  "read_world = world_of (empty_db\<lparr>
     messages := map (\<lambda>i. (sample_message i)\<lparr>msg_model := Some ''res.partner'', msg_res_id := Some 4,
       msg_author_id := Some 9\<rparr>) [1, 2, 3],
     followers := [\<lparr>flw_id = 1, flw_res_model = ''res.partner'', flw_res_id = 4, flw_partner_id = Some 7,
       flw_subtype_ids = Some (JArray [])\<rparr>],
     channels := [\<lparr>chn_id = 5, chn_name = Some ''g'', chn_type = DiscussChannelType.Group, chn_description = None,
       chn_uuid = None, chn_access_mode = Some ''public'', chn_email_send = False, chn_last_message_id = None,
       chn_created_at = 0, chn_deleted = False\<rparr>]\<rparr>)"

definition read_page :: "uuid option \<Rightarrow> (MessageQueryError + FetchedMessage list) \<times> (db, nat) world" where
  "read_page c = fetch_thread DenyHostDocs plain_wire 2 (User 4) ''res.partner'' 4 c plain_env read_world"

lemma fetch_thread_pages_witness:
  "map fm_id (projr (fst (read_page None))) = [1, 2] \<and> map fm_id (projr (fst (read_page (Some 2)))) = [3] \<and>
   can_read DenyHostDocs (db read_world) (User 4) ''res.partner'' 4"
proof -
  let ?p = "projr (fst (read_page None))" and ?q = "projr (fst (read_page (Some 2)))"
  have run: "fetch_thread DenyHostDocs plain_wire 2 (User 4) ''res.partner'' 4 c plain_env read_world =
      (Inr (projr (fst (read_page c))), snd (read_page c))" if "\<not> isl (fst (read_page c))" for c
    using that unfolding read_page_def by (rule run_Inr)
  have "\<not> isl (fst (read_page None))" "\<not> isl (fst (read_page (Some 2)))" by code_simp+
  note 1 = run [OF this(1)] and 2 = run [OF this(2)]
  have i: "map fm_id ?p = [1, 2]" "map fm_id ?q = [3]" by code_simp+
  then have "?p \<noteq> []" "fm_id (last ?p) = 2" by (auto simp: map_eq_Cons_conv)
  moreover have "distinct (map msg_id (messages (db read_world)))" by code_simp
  ultimately have "can_read DenyHostDocs (db read_world) (User 4) ''res.partner'' 4"
    using fetch_thread_pages [OF 1, of plain_env read_world ?q "snd (read_page (Some 2))"] 2 by simp
  with i show ?thesis by blast
qed

definition search_run :: "(ChannelQueryError + ChannelSearchHit list) \<times> (db, nat) world" where
  "search_run = channel_search \<lparr>ilike = (=), name_rank = (\<lambda>_. 0)\<rparr> 20 (User 4) None plain_env read_world"

text \<open>A public group is offered by the search and refused by the join.\<close>

lemma channel_search_visible_witness:
  "map hit_is_member (projr (fst search_run)) = [False] \<and>
   fst (join 5 (User 4) plain_env read_world) = Inl (NotJoinable 5) \<and>
   list_all (\<lambda>h. \<exists>c\<in>set (channels (db read_world)). hit_channel_id h = chn_id c) (projr (fst search_run))"
proof -
  have "\<not> isl (fst search_run)" by code_simp
  then have "channel_search \<lparr>ilike = (=), name_rank = (\<lambda>_. 0)\<rparr> 20 (User 4) None plain_env read_world =
      (Inr (projr (fst search_run)), snd search_run)"
    unfolding search_run_def by (rule run_Inr)
  from channel_search_visible [OF this]
  have "list_all (\<lambda>h. \<exists>c\<in>set (channels (db read_world)). hit_channel_id h = chn_id c) (projr (fst search_run))"
    unfolding list_all_iff by blast
  moreover have "map hit_is_member (projr (fst search_run)) = [False]" by code_simp
  moreover have "fst (join 5 (User 4) plain_env read_world) = Inl (NotJoinable 5)" by code_simp
  ultimately show ?thesis by blast
qed

lemma can_read_message_closed_witness:
  "\<exists>m\<in>set (messages (db read_world)). msg_id m = 1"
proof -
  have "fst (can_read_message DenyHostDocs (User 4) 1 plain_env read_world) = Inr True" by code_simp
  then obtain w' where "can_read_message DenyHostDocs (User 4) 1 plain_env read_world = (Inr True, w')"
    by (metis prod.collapse)
  from can_read_message_closed [OF this] show ?thesis by blast
qed

definition suggest_run :: "(RecipientQueryError + SuggestedRecipient list) \<times> (db, nat) world" where
  "suggest_run = suggested DenyHostDocs remdups (User 4) ''res.partner'' 4 plain_env read_world"

lemma suggested_recipients_witness:
  "map sr_partner_id (projr (fst suggest_run)) = [7, 9] \<and> distinct (map sr_partner_id (projr (fst suggest_run)))"
proof -
  have "\<not> isl (fst suggest_run)" by code_simp
  then have r: "suggested DenyHostDocs remdups (User 4) ''res.partner'' 4 plain_env read_world =
      (Inr (projr (fst suggest_run)), snd suggest_run)"
    unfolding suggest_run_def by (rule run_Inr)
  have "one_follower (db read_world)" by (simp add: one_follower_def read_world_def world_of_def)
  moreover have "distinct_documented remdups" by (simp add: distinct_documented_def)
  ultimately have "distinct (map sr_partner_id (projr (fst suggest_run)))" using suggested_recipients [OF r] by blast
  moreover have "map sr_partner_id (projr (fst suggest_run)) = [7, 9]" by code_simp
  ultimately show ?thesis by blast
qed

end
