(* ===== verification/Blacklists.thy ===== *)
theory Blacklists
  imports Store
begin

text \<open>
  The two suppression lists: \<open>mail_blacklist_write_service.rs\<close> with \<open>mail_blacklist_verb_repository.rs\<close>,
  and \<open>phone_blacklist_write_service.rs\<close> with \<open>phone_blacklist_verb_repository.rs\<close>.  Each table holds at
  most one row for a key; a removal archives the row, an addition makes it active again.  The locale
  \<open>suppression_list\<close> states what the four statements promise; it is interpreted on both tables.

  \<open>str::to_lowercase\<close> and the database's \<open>lower\<close> fold with the tables of Unicode and of a collation, which
  are not part of the sources: they are the parameters of \<open>text_fold\<close>.  \<open>folds_agree\<close> states what the code
  relies on, that folded text is left alone by the database.
\<close>

section \<open>Outcomes\<close>

record UpsertState =
  us_row_id :: uuid
  us_existed :: bool
  us_was_active :: bool

record ArchiveState =
  ar_row_id :: uuid
  ar_was_active :: bool
  ar_changed :: bool

datatype AddOutcome =
    NewlyListed uuid
  | Reactivated uuid
  | AlreadyListed uuid

datatype RemoveOutcome =
    Removed uuid
  | AlreadyInactive uuid
  | NotListed

fun add_row_id :: "AddOutcome \<Rightarrow> uuid" where
  "add_row_id (NewlyListed i) = i"
| "add_row_id (Reactivated i) = i"
| "add_row_id (AlreadyListed i) = i"

fun remove_row_id :: "RemoveOutcome \<Rightarrow> uuid option" where
  "remove_row_id (Removed i) = Some i"
| "remove_row_id (AlreadyInactive i) = Some i"
| "remove_row_id NotListed = None"

definition add_outcome :: "UpsertState \<Rightarrow> AddOutcome" where
  "add_outcome s =
     (if \<not> us_existed s then NewlyListed (us_row_id s)
      else if us_was_active s then AlreadyListed (us_row_id s)
      else Reactivated (us_row_id s))"

definition remove_outcome :: "ArchiveState option \<Rightarrow> RemoveOutcome" where
  "remove_outcome z =
     (case z of
        None \<Rightarrow> NotListed
      | Some s \<Rightarrow> if ar_changed s then Removed (ar_row_id s) else AlreadyInactive (ar_row_id s))"

section \<open>The statements on \<open>mail_blacklists\<close>\<close>

text \<open>A \<open>BEFORE INSERT\<close> trigger (\<open>20261017150000_mail_blacklist_fold_email\<close>) folds the address with the
  database's \<open>lower\<close>, so the conflict is looked for under the folded text, while \<open>prev\<close> looks for the
  address as it was given.\<close>

record text_fold =
  to_lower :: "string \<Rightarrow> string"
  pg_lower :: "string \<Rightarrow> string"

definition mail_upsert_active ::
  "text_fold \<Rightarrow> uuid option \<Rightarrow> string \<Rightarrow> uuid \<Rightarrow> db \<Rightarrow> db_error + UpsertState \<times> db" where
  "mail_upsert_active T reason email new_id d =
     (let prev = find (\<lambda>r. mbl_email r = email) (mail_blacklists d);
          stored = pg_lower T email;
          state = (\<lambda>i. \<lparr>us_row_id = i, us_existed = (prev \<noteq> None),
                        us_was_active = (case prev of None \<Rightarrow> False | Some p \<Rightarrow> mbl_active p)\<rparr>)
      in case find (\<lambda>r. mbl_email r = stored) (mail_blacklists d) of
        None \<Rightarrow>
          if new_id \<in> mbl_id ` set (mail_blacklists d) then Inl (UniqueViolation ''mail_blacklists_pkey'')
          else Inr (state new_id,
            d\<lparr>mail_blacklists := mail_blacklists d @
                [\<lparr>mbl_id = new_id, mbl_email = stored, mbl_active = True, mbl_opt_out_reason_id = reason\<rparr>]\<rparr>)
      | Some p \<Rightarrow>
          Inr (state (mbl_id p),
            d\<lparr>mail_blacklists := map (\<lambda>r. if mbl_email r = stored
                then r\<lparr>mbl_active := True,
                       mbl_opt_out_reason_id := (case reason of None \<Rightarrow> mbl_opt_out_reason_id r | _ \<Rightarrow> reason)\<rparr>
                else r) (mail_blacklists d)\<rparr>))"

definition mail_archive_if_active :: "string \<Rightarrow> db \<Rightarrow> db_error + ArchiveState option \<times> db" where
  "mail_archive_if_active email d =
     Inr (map_option (\<lambda>p. \<lparr>ar_row_id = mbl_id p, ar_was_active = mbl_active p,
              ar_changed = list_ex (\<lambda>r. mbl_email r = email \<and> mbl_active r) (mail_blacklists d)\<rparr>)
            (find (\<lambda>r. mbl_email r = email) (mail_blacklists d)),
          d\<lparr>mail_blacklists := map (\<lambda>r. if mbl_email r = email \<and> mbl_active r then r\<lparr>mbl_active := False\<rparr> else r)
              (mail_blacklists d)\<rparr>)"

definition mail_exists_active :: "string \<Rightarrow> db \<Rightarrow> bool" where
  "mail_exists_active email d \<longleftrightarrow> list_ex (\<lambda>r. mbl_email r = email \<and> mbl_active r) (mail_blacklists d)"

definition active_emails :: "string list \<Rightarrow> db \<Rightarrow> string list" where
  "active_emails emails d =
     map mbl_email (filter (\<lambda>r. mbl_active r \<and> mbl_email r \<in> set emails) (mail_blacklists d))"

section \<open>The statements on \<open>phone_blacklists\<close>\<close>

definition phone_upsert_active :: "string \<Rightarrow> uuid \<Rightarrow> db \<Rightarrow> db_error + UpsertState \<times> db" where
  "phone_upsert_active number new_id d =
     (case find (\<lambda>r. pbl_number r = number) (phone_blacklists d) of
        None \<Rightarrow>
          if new_id \<in> pbl_id ` set (phone_blacklists d) then Inl (UniqueViolation ''phone_blacklists_pkey'')
          else Inr (\<lparr>us_row_id = new_id, us_existed = False, us_was_active = False\<rparr>,
            d\<lparr>phone_blacklists := phone_blacklists d @
                [\<lparr>pbl_id = new_id, pbl_number = number, pbl_active = True\<rparr>]\<rparr>)
      | Some p \<Rightarrow>
          Inr (\<lparr>us_row_id = pbl_id p, us_existed = True, us_was_active = pbl_active p\<rparr>,
            d\<lparr>phone_blacklists := map (\<lambda>r. if pbl_number r = number then r\<lparr>pbl_active := True\<rparr> else r)
                (phone_blacklists d)\<rparr>))"

definition phone_archive_if_active :: "string \<Rightarrow> db \<Rightarrow> db_error + ArchiveState option \<times> db" where
  "phone_archive_if_active number d =
     Inr (map_option (\<lambda>p. \<lparr>ar_row_id = pbl_id p, ar_was_active = pbl_active p,
              ar_changed = list_ex (\<lambda>r. pbl_number r = number \<and> pbl_active r) (phone_blacklists d)\<rparr>)
            (find (\<lambda>r. pbl_number r = number) (phone_blacklists d)),
          d\<lparr>phone_blacklists := map (\<lambda>r. if pbl_number r = number \<and> pbl_active r then r\<lparr>pbl_active := False\<rparr> else r)
              (phone_blacklists d)\<rparr>)"

definition phone_exists_active :: "string \<Rightarrow> db \<Rightarrow> bool" where
  "phone_exists_active number d \<longleftrightarrow> list_ex (\<lambda>r. pbl_number r = number \<and> pbl_active r) (phone_blacklists d)"

definition active_numbers :: "string list \<Rightarrow> db \<Rightarrow> string list" where
  "active_numbers numbers d =
     map pbl_number (filter (\<lambda>r. pbl_active r \<and> pbl_number r \<in> set numbers) (phone_blacklists d))"

section \<open>The services\<close>

definition list_add :: "(uuid \<Rightarrow> db \<Rightarrow> db_error + UpsertState \<times> db) \<Rightarrow> (db, 'o, db_error, AddOutcome) act" where
  "list_add upsert =
     bindA acquire (\<lambda>_. bindA new_v4 (\<lambda>i. bindA (query (upsert i)) (\<lambda>s. ret (add_outcome s))))"

definition list_remove ::
  "(db \<Rightarrow> db_error + ArchiveState option \<times> db) \<Rightarrow> (db, 'o, db_error, RemoveOutcome) act" where
  "list_remove archive = bindA acquire (\<lambda>_. bindA (query archive) (\<lambda>z. ret (remove_outcome z)))"

definition list_read :: "(db \<Rightarrow> 'a) \<Rightarrow> (db, 'o, db_error, 'a) act" where
  "list_read f = bindA acquire (\<lambda>_. query (reading f))"

datatype MailBlacklistError =
    MbDb db_error
  | MbInvalid string

definition canonical_email :: "text_fold \<Rightarrow> string \<Rightarrow> MailBlacklistError + string" where
  "canonical_email T raw =
     (let folded = to_lower T (trim raw)
      in if folded = [] then Inl (MbInvalid ''blacklist email is blank (empty or whitespace)'') else Inr folded)"

definition mail_blacklist_add ::
  "text_fold \<Rightarrow> string \<Rightarrow> uuid option \<Rightarrow> (db, 'o, MailBlacklistError, AddOutcome) act" where
  "mail_blacklist_add T email reason =
     bindA (of_sum (canonical_email T email)) (\<lambda>k. lift MbDb (list_add (mail_upsert_active T reason k)))"

definition mail_blacklist_remove ::
  "text_fold \<Rightarrow> string \<Rightarrow> (db, 'o, MailBlacklistError, RemoveOutcome) act" where
  "mail_blacklist_remove T email =
     bindA (of_sum (canonical_email T email)) (\<lambda>k. lift MbDb (list_remove (mail_archive_if_active k)))"

definition mail_is_listed :: "text_fold \<Rightarrow> string \<Rightarrow> (db, 'o, MailBlacklistError, bool) act" where
  "mail_is_listed T email =
     bindA (of_sum (canonical_email T email)) (\<lambda>k. lift MbDb (list_read (mail_exists_active k)))"

text \<open>\<open>collect::<Result<_, _>>()\<close>: the first error, or all the values.\<close>

fun collect_results :: "('a \<Rightarrow> 'e + 'b) \<Rightarrow> 'a list \<Rightarrow> 'e + 'b list" where
  "collect_results f [] = Inr []"
| "collect_results f (x # xs) =
     (case f x of
        Inl e \<Rightarrow> Inl e
      | Inr y \<Rightarrow> (case collect_results f xs of Inl e \<Rightarrow> Inl e | Inr ys \<Rightarrow> Inr (y # ys)))"

definition mail_listed_among ::
  "text_fold \<Rightarrow> string list \<Rightarrow> (db, 'o, MailBlacklistError, string set) act" where
  "mail_listed_among T emails =
     (if emails = [] then ret {}
      else bindA (of_sum (collect_results (canonical_email T) emails)) (\<lambda>ks.
           bindA (lift MbDb (list_read (active_emails ks))) (\<lambda>found. ret (set found))))"

text \<open>\<open>E164Number\<close> is a wrapper of its text; \<open>from_canonical\<close> checks the text in debug builds only.\<close>

datatype E164Number = E164Number (e164_text: string)

definition from_canonical :: "string \<Rightarrow> E164Number" where
  "from_canonical canonical = E164Number canonical"

definition phone_blacklist_add :: "E164Number \<Rightarrow> (db, 'o, db_error, AddOutcome) act" where
  "phone_blacklist_add number = list_add (phone_upsert_active (e164_text number))"

definition phone_blacklist_remove :: "E164Number \<Rightarrow> (db, 'o, db_error, RemoveOutcome) act" where
  "phone_blacklist_remove number = list_remove (phone_archive_if_active (e164_text number))"

definition phone_is_listed :: "E164Number \<Rightarrow> (db, 'o, db_error, bool) act" where
  "phone_is_listed number = list_read (phone_exists_active (e164_text number))"

definition phone_listed_among :: "E164Number list \<Rightarrow> (db, 'o, db_error, E164Number set) act" where
  "phone_listed_among numbers =
     (if numbers = [] then ret {}
      else bindA (list_read (active_numbers (map e164_text numbers))) (\<lambda>found. ret (from_canonical ` set found)))"


section \<open>The contract of a suppression list\<close>

text \<open>The statement of a verb that answered.\<close>

lemma list_add_InrE:
  assumes "list_add upsert v w = (Inr a, w')"
  obtains s where "upsert (rng v (Suc (tick w))) (db w) = Inr (s, db w')" and "a = add_outcome s"
proof -
  from assms obtain u :: unit and w1 i w2 s w3 where
    1: "acquire v w = ((Inr u :: db_error + unit), w1)" and 2: "new_v4 v w1 = ((Inr i :: db_error + uuid), w2)" and
    3: "query (upsert i) v w2 = (Inr s, w3)" and 4: "ret (add_outcome s) v w3 = ((Inr a :: db_error + AddOutcome), w')"
    unfolding list_add_def by (elim bindA_InrE) (rule that)
  from 1 2 have w2: "db w2 = db w" and i: "i = rng v (Suc (tick w))" by (auto elim!: acquire_InrE new_v4_InrE)
  from 4 have a: "a = add_outcome s" and w': "w' = w3" by (auto elim: ret_InrE)
  from 3 have "upsert i (db w) = Inr (s, db w')" unfolding w' w2 [symmetric] by (rule query_InrE)
  with a i that show ?thesis by simp
qed

lemma list_remove_InrE:
  assumes "list_remove archive v w = (Inr a, w')"
  obtains z where "archive (db w) = Inr (z, db w')" and "a = remove_outcome z"
proof -
  from assms obtain u :: unit and w1 z w2 where
    1: "acquire v w = ((Inr u :: db_error + unit), w1)" and 2: "query archive v w1 = (Inr z, w2)" and
    3: "ret (remove_outcome z) v w2 = ((Inr a :: db_error + RemoveOutcome), w')"
    unfolding list_remove_def by (elim bindA_InrE) (rule that)
  from 1 have w1: "db w1 = db w" by (auto elim: acquire_InrE)
  from 3 have a: "a = remove_outcome z" and w': "w' = w2" by (auto elim: ret_InrE)
  from 2 have "archive (db w) = Inr (z, db w')" unfolding w' w1 [symmetric] by (rule query_InrE)
  with a that show ?thesis by simp
qed

lemma list_read_Inr:
  assumes "list_read f v w = (Inr x, w')"
  shows "x = f (db w) \<and> db w' = db w"
proof -
  from assms obtain u :: unit and w1 where
    1: "acquire v w = ((Inr u :: db_error + unit), w1)" and 2: "query (reading f) v w1 = (Inr x, w')"
    unfolding list_read_def by (rule bindA_InrE)
  from 1 have w1: "db w1 = db w" by (auto elim: acquire_InrE)
  from 2 have "reading f (db w1) = Inr (x, db w')" by (rule query_InrE)
  then show ?thesis unfolding w1 by (auto simp: reading_def)
qed


text \<open>A list seen as a map from its keys to the row's id and whether the row is active.\<close>

definition row_table :: "('r \<Rightarrow> 'k) \<Rightarrow> ('r \<Rightarrow> uuid) \<Rightarrow> ('r \<Rightarrow> bool) \<Rightarrow> 'r list \<Rightarrow> 'k \<Rightarrow> (uuid \<times> bool) option" where
  "row_table key idf act rs k = map_option (\<lambda>r. (idf r, act r)) (find (\<lambda>r. key r = k) rs)"

definition active_keys :: "('k \<Rightarrow> (uuid \<times> bool) option) \<Rightarrow> 'k set" where
  "active_keys t = {k. \<exists>i. t k = Some (i, True)}"

lemma active_keys_upd [simp]:
  "active_keys (t(k \<mapsto> (i, True))) = insert k (active_keys t)"
  "active_keys (t(k \<mapsto> (i, False))) = active_keys t - {k}"
  by (auto simp: active_keys_def)

locale suppression_list =
  fixes key_ok :: "'k \<Rightarrow> bool" and valid :: "db \<Rightarrow> bool" and tbl :: "db \<Rightarrow> 'k \<Rightarrow> (uuid \<times> bool) option" and frame :: "db \<Rightarrow> db"
    and upsert :: "'k \<Rightarrow> uuid \<Rightarrow> db \<Rightarrow> db_error + UpsertState \<times> db"
    and archive :: "'k \<Rightarrow> db \<Rightarrow> db_error + ArchiveState option \<times> db"
    and exists_active :: "'k \<Rightarrow> db \<Rightarrow> bool"
    and among :: "'k list \<Rightarrow> db \<Rightarrow> 'k list"
  assumes upsert_valid: "key_ok k \<Longrightarrow> valid d \<Longrightarrow> upsert k i d = Inr (s, d') \<Longrightarrow> valid d' \<and> frame d' = frame d"
    and upsert_tbl: "key_ok k \<Longrightarrow> valid d \<Longrightarrow> upsert k i d = Inr (s, d') \<Longrightarrow> tbl d' = (tbl d)(k \<mapsto> (us_row_id s, True))"
    and upsert_state: "key_ok k \<Longrightarrow> valid d \<Longrightarrow> upsert k i d = Inr (s, d') \<Longrightarrow>
      s = (case tbl d k of
             None \<Rightarrow> \<lparr>us_row_id = i, us_existed = False, us_was_active = False\<rparr>
           | Some (r, b) \<Rightarrow> \<lparr>us_row_id = r, us_existed = True, us_was_active = b\<rparr>)"
    and archive_valid: "valid d \<Longrightarrow> archive k d = Inr (z, d') \<Longrightarrow> valid d' \<and> frame d' = frame d"
    and archive_tbl: "valid d \<Longrightarrow> archive k d = Inr (z, d') \<Longrightarrow>
      tbl d' = (case tbl d k of None \<Rightarrow> tbl d | Some (r, b) \<Rightarrow> (tbl d)(k \<mapsto> (r, False)))"
    and archive_state: "valid d \<Longrightarrow> archive k d = Inr (z, d') \<Longrightarrow>
      z = map_option (\<lambda>(r, b). \<lparr>ar_row_id = r, ar_was_active = b, ar_changed = b\<rparr>) (tbl d k)"
    and exists_iff: "valid d \<Longrightarrow> exists_active k d \<longleftrightarrow> k \<in> active_keys (tbl d)"
    and among_set: "valid d \<Longrightarrow> set (among ks d) = set ks \<inter> active_keys (tbl d)"
begin

text \<open>What each verb answers and leaves behind.  A key keeps its row for ever.\<close>

lemma add_Inr:
  assumes "list_add (upsert k) v w = (Inr a, w')" and "key_ok k" and "valid (db w)"
  shows "valid (db w') \<and> frame (db w') = frame (db w) \<and> tbl (db w') = (tbl (db w))(k \<mapsto> (add_row_id a, True)) \<and>
    (case tbl (db w) k of
       None \<Rightarrow> a = NewlyListed (rng v (Suc (tick w)))
     | Some (r, b) \<Rightarrow> a = (if b then AlreadyListed r else Reactivated r))"
proof -
  from assms(1) obtain s where q: "upsert k (rng v (Suc (tick w))) (db w) = Inr (s, db w')" and a: "a = add_outcome s"
    by (rule list_add_InrE)
  from upsert_valid [OF assms(2,3) q] upsert_tbl [OF assms(2,3) q] upsert_state [OF assms(2,3) q]
  show ?thesis by (auto simp: a add_outcome_def split: option.splits)
qed

lemma remove_Inr:
  assumes "list_remove (archive k) v w = (Inr a, w')" and "valid (db w)"
  shows "valid (db w') \<and> frame (db w') = frame (db w) \<and>
    (case tbl (db w) k of
       None \<Rightarrow> a = NotListed \<and> tbl (db w') = tbl (db w)
     | Some (r, b) \<Rightarrow> a = (if b then Removed r else AlreadyInactive r) \<and> tbl (db w') = (tbl (db w))(k \<mapsto> (r, False)))"
proof -
  from assms(1) obtain z where q: "archive k (db w) = Inr (z, db w')" and a: "a = remove_outcome z"
    by (rule list_remove_InrE)
  from archive_valid [OF assms(2) q] archive_tbl [OF assms(2) q] archive_state [OF assms(2) q]
  show ?thesis by (auto simp: a remove_outcome_def split: option.splits)
qed

lemma add_active:
  assumes "list_add (upsert k) v w = (Inr a, w')" and "key_ok k" and "valid (db w)"
  shows "active_keys (tbl (db w')) = insert k (active_keys (tbl (db w)))"
  using add_Inr [OF assms] by simp

lemma remove_active:
  assumes "list_remove (archive k) v w = (Inr a, w')" and "valid (db w)"
  shows "active_keys (tbl (db w')) = active_keys (tbl (db w)) - {k}"
  using remove_Inr [OF assms] by (auto simp: active_keys_def split: option.splits if_splits)

lemma is_listed_Inr:
  assumes "list_read (exists_active k) v w = (Inr b, w')" and "valid (db w)"
  shows "(b \<longleftrightarrow> k \<in> active_keys (tbl (db w))) \<and> db w' = db w"
  using list_read_Inr [OF assms(1)] exists_iff [OF assms(2)] by simp

lemma among_Inr:
  assumes "list_read (among ks) v w = (Inr xs, w')" and "valid (db w)"
  shows "set xs = set ks \<inter> active_keys (tbl (db w)) \<and> db w' = db w"
  using list_read_Inr [OF assms(1)] among_set [OF assms(2)] by simp

end

subsection \<open>Rows under one key\<close>

lemma row_table_None: "row_table key idf act rs k = None \<longleftrightarrow> find (\<lambda>r. key r = k) rs = None"
  by (simp add: row_table_def)

lemma row_table_append:
  "find (\<lambda>r. key r = k) rs = None \<Longrightarrow> key x = k \<Longrightarrow>
   row_table key idf act (rs @ [x]) = (row_table key idf act rs)(k \<mapsto> (idf x, act x))"
  by (rule ext) (auto simp: row_table_def find_append split: option.splits)

lemma row_table_map:
  assumes "\<And>r. key (g r) = key r" and "\<And>r. idf (g r) = idf r" and "\<And>r. key r \<noteq> k \<Longrightarrow> act (g r) = act r"
    and "\<And>r. key r = k \<Longrightarrow> act (g r) = b"
  shows "row_table key idf act (map g rs) =
    (case row_table key idf act rs k of
       None \<Rightarrow> row_table key idf act rs
     | Some (i, _) \<Rightarrow> (row_table key idf act rs)(k \<mapsto> (i, b)))"
proof (rule ext)
  fix j
  have f: "find (\<lambda>r. key r = j) (map g rs) = map_option g (find (\<lambda>r. key r = j) rs)"
    by (rule find_map_upd) (rule assms(1))
  show "row_table key idf act (map g rs) j =
    (case row_table key idf act rs k of
       None \<Rightarrow> row_table key idf act rs
     | Some (i, _) \<Rightarrow> (row_table key idf act rs)(k \<mapsto> (i, b))) j"
  proof (cases "j = k")
    case True
    show ?thesis unfolding True row_table_def f [unfolded True]
      using assms(2,4) by (auto dest!: find_SomeD split: option.splits)
  next
    case False
    then have "find (\<lambda>r. key r = j) rs = Some r \<Longrightarrow> act (g r) = act r" for r
      by (intro assms(3)) (auto dest: find_SomeD)
    with False assms(2) show ?thesis
      by (cases "find (\<lambda>r. key r = j) rs") (auto simp: row_table_def f split: option.splits)
  qed
qed

lemma row_table_active:
  assumes "distinct (map key rs)"
  shows "k \<in> active_keys (row_table key idf act rs) \<longleftrightarrow> (\<exists>r\<in>set rs. key r = k \<and> act r)"
proof
  assume "k \<in> active_keys (row_table key idf act rs)"
  then show "\<exists>r\<in>set rs. key r = k \<and> act r" by (auto simp: active_keys_def row_table_def dest: find_SomeD)
next
  assume "\<exists>r\<in>set rs. key r = k \<and> act r"
  then obtain r where "r \<in> set rs" "key r = k" "act r" by blast
  with find_distinct [OF assms] show "k \<in> active_keys (row_table key idf act rs)"
    by (simp add: active_keys_def row_table_def)
qed

lemma find_unique_ex:
  "distinct (map key rs) \<Longrightarrow> find (\<lambda>r. key r = k) rs = Some p \<Longrightarrow> (\<exists>r\<in>set rs. key r = k \<and> act r) \<longleftrightarrow> act p"
  by (auto simp: find_distinct dest: find_SomeD)

subsection \<open>Both tables keep it\<close>

definition mail_table :: "db \<Rightarrow> string \<Rightarrow> (uuid \<times> bool) option" where
  "mail_table d = row_table mbl_email mbl_id mbl_active (mail_blacklists d)"

definition mail_unique :: "db \<Rightarrow> bool" where
  "mail_unique d \<longleftrightarrow> distinct (map mbl_email (mail_blacklists d)) \<and> distinct (map mbl_id (mail_blacklists d))"

definition phone_table :: "db \<Rightarrow> string \<Rightarrow> (uuid \<times> bool) option" where
  "phone_table d = row_table pbl_number pbl_id pbl_active (phone_blacklists d)"

definition phone_unique :: "db \<Rightarrow> bool" where
  "phone_unique d \<longleftrightarrow> distinct (map pbl_number (phone_blacklists d)) \<and> distinct (map pbl_id (phone_blacklists d))"


lemma mail_keys_map:
  assumes "\<And>r. mbl_email (g r) = mbl_email r" and "\<And>r. mbl_id (g r) = mbl_id r"
  shows "mail_unique (d\<lparr>mail_blacklists := map g (mail_blacklists d)\<rparr>) = mail_unique d"
  using assms by (simp add: mail_unique_def comp_def)

lemma mail_unique_app: "mail_unique (d\<lparr>mail_blacklists := mail_blacklists d @ [r]\<rparr>) \<longleftrightarrow>
    mail_unique d \<and> mbl_email r \<notin> mbl_email ` set (mail_blacklists d) \<and> mbl_id r \<notin> mbl_id ` set (mail_blacklists d)"
  by (auto simp: mail_unique_def)

interpretation mail_list: suppression_list "\<lambda>k. pg_lower T k = k" mail_unique mail_table "\<lambda>d. d\<lparr>mail_blacklists := []\<rparr>"
  "mail_upsert_active T reason" mail_archive_if_active mail_exists_active active_emails for T reason
proof
  fix d d' k i s
  assume k: "pg_lower T k = k" and u: "mail_unique d" and q: "mail_upsert_active T reason k i d = Inr (s, d')"
  show "mail_unique d' \<and> d'\<lparr>mail_blacklists := []\<rparr> = d\<lparr>mail_blacklists := []\<rparr>"
    using u q k unfolding mail_upsert_active_def Let_def
    by (cases "find (\<lambda>r. mbl_email r = k) (mail_blacklists d)")
      (auto simp: mail_keys_map mail_unique_app find_None_iff split: if_splits)
  show "mail_table d' = (mail_table d)(k \<mapsto> (us_row_id s, True))"
    using q k unfolding mail_upsert_active_def Let_def mail_table_def
    by (auto simp: row_table_append row_table_map [where k = k and b = True] row_table_def split: option.splits if_splits)
  show "s = (case mail_table d k of None \<Rightarrow> \<lparr>us_row_id = i, us_existed = False, us_was_active = False\<rparr>
      | Some (r, b) \<Rightarrow> \<lparr>us_row_id = r, us_existed = True, us_was_active = b\<rparr>)"
    using q k by (auto simp: mail_upsert_active_def Let_def mail_table_def row_table_def split: option.splits if_splits)
next
  fix d d' k z
  assume u: "mail_unique d" and q: "mail_archive_if_active k d = Inr (z, d')"
  show "mail_unique d' \<and> d'\<lparr>mail_blacklists := []\<rparr> = d\<lparr>mail_blacklists := []\<rparr>"
    using u q unfolding mail_archive_if_active_def by (auto simp: mail_keys_map)
  show "mail_table d' = (case mail_table d k of None \<Rightarrow> mail_table d
      | Some (r, b) \<Rightarrow> (mail_table d)(k \<mapsto> (r, False)))"
    using q unfolding mail_archive_if_active_def mail_table_def
    by (auto simp: row_table_map [where k = k and b = False] split: option.splits)
  show "z = map_option (\<lambda>(r, b). \<lparr>ar_row_id = r, ar_was_active = b, ar_changed = b\<rparr>) (mail_table d k)"
    using q u unfolding mail_archive_if_active_def mail_table_def row_table_def mail_unique_def list_ex_iff
    by (cases "find (\<lambda>r. mbl_email r = k) (mail_blacklists d)") (auto simp: find_unique_ex)
next
  fix d k
  assume u: "mail_unique d"
  then show "mail_exists_active k d \<longleftrightarrow> k \<in> active_keys (mail_table d)"
    by (auto simp: mail_exists_active_def mail_table_def mail_unique_def row_table_active list_ex_iff)
next
  fix d ks
  assume u: "mail_unique d"
  then show "set (active_emails ks d) = set ks \<inter> active_keys (mail_table d)"
    by (auto simp: active_emails_def mail_table_def mail_unique_def row_table_active)
qed

lemma phone_keys_map:
  assumes "\<And>r. pbl_number (g r) = pbl_number r" and "\<And>r. pbl_id (g r) = pbl_id r"
  shows "phone_unique (d\<lparr>phone_blacklists := map g (phone_blacklists d)\<rparr>) = phone_unique d"
  using assms by (simp add: phone_unique_def comp_def)

lemma phone_unique_app: "phone_unique (d\<lparr>phone_blacklists := phone_blacklists d @ [r]\<rparr>) \<longleftrightarrow>
    phone_unique d \<and> pbl_number r \<notin> pbl_number ` set (phone_blacklists d) \<and> pbl_id r \<notin> pbl_id ` set (phone_blacklists d)"
  by (auto simp: phone_unique_def)

interpretation phone_list: suppression_list "\<lambda>_. True" phone_unique phone_table "\<lambda>d. d\<lparr>phone_blacklists := []\<rparr>"
  phone_upsert_active phone_archive_if_active phone_exists_active active_numbers
proof
  fix d d' k i s
  assume u: "phone_unique d" and q: "phone_upsert_active k i d = Inr (s, d')"
  show "phone_unique d' \<and> d'\<lparr>phone_blacklists := []\<rparr> = d\<lparr>phone_blacklists := []\<rparr>"
    using u q unfolding phone_upsert_active_def
    by (cases "find (\<lambda>r. pbl_number r = k) (phone_blacklists d)")
      (auto simp: phone_keys_map phone_unique_app find_None_iff split: if_splits)
  show "phone_table d' = (phone_table d)(k \<mapsto> (us_row_id s, True))"
    using q unfolding phone_upsert_active_def phone_table_def
    by (auto simp: row_table_append row_table_map [where k = k and b = True] row_table_def split: option.splits if_splits)
  show "s = (case phone_table d k of None \<Rightarrow> \<lparr>us_row_id = i, us_existed = False, us_was_active = False\<rparr>
      | Some (r, b) \<Rightarrow> \<lparr>us_row_id = r, us_existed = True, us_was_active = b\<rparr>)"
    using q by (auto simp: phone_upsert_active_def phone_table_def row_table_def split: option.splits if_splits)
next
  fix d d' k z
  assume u: "phone_unique d" and q: "phone_archive_if_active k d = Inr (z, d')"
  show "phone_unique d' \<and> d'\<lparr>phone_blacklists := []\<rparr> = d\<lparr>phone_blacklists := []\<rparr>"
    using u q unfolding phone_archive_if_active_def by (auto simp: phone_keys_map)
  show "phone_table d' = (case phone_table d k of None \<Rightarrow> phone_table d
      | Some (r, b) \<Rightarrow> (phone_table d)(k \<mapsto> (r, False)))"
    using q unfolding phone_archive_if_active_def phone_table_def
    by (auto simp: row_table_map [where k = k and b = False] split: option.splits)
  show "z = map_option (\<lambda>(r, b). \<lparr>ar_row_id = r, ar_was_active = b, ar_changed = b\<rparr>) (phone_table d k)"
    using q u unfolding phone_archive_if_active_def phone_table_def row_table_def phone_unique_def list_ex_iff
    by (cases "find (\<lambda>r. pbl_number r = k) (phone_blacklists d)") (auto simp: find_unique_ex)
next
  fix d k
  assume u: "phone_unique d"
  then show "phone_exists_active k d \<longleftrightarrow> k \<in> active_keys (phone_table d)"
    by (auto simp: phone_exists_active_def phone_table_def phone_unique_def row_table_active list_ex_iff)
next
  fix d ks
  assume u: "phone_unique d"
  then show "set (active_numbers ks d) = set ks \<inter> active_keys (phone_table d)"
    by (auto simp: active_numbers_def phone_table_def phone_unique_def row_table_active)
qed

section \<open>Sequences of verbs\<close>

datatype list_verb =
    MailListing string "uuid option"
  | MailUnlisting string

fun mail_verb :: "text_fold \<Rightarrow> list_verb \<Rightarrow> (db, 'o, MailBlacklistError, unit) act" where
  "mail_verb T (MailListing e reason) = bindA (mail_blacklist_add T e reason) (\<lambda>_. ret ())"
| "mail_verb T (MailUnlisting e) = bindA (mail_blacklist_remove T e) (\<lambda>_. ret ())"

definition mail_verbs :: "text_fold \<Rightarrow> list_verb list \<Rightarrow> (db, 'o, MailBlacklistError, unit) act" where
  "mail_verbs T = foldA (\<lambda>_. mail_verb T) ()"

text \<open>The abstract list is the set of its folded addresses.\<close>

fun spec_verb :: "text_fold \<Rightarrow> list_verb \<Rightarrow> string set \<Rightarrow> string set" where
  "spec_verb T (MailListing e reason) S = insert (to_lower T (trim e)) S"
| "spec_verb T (MailUnlisting e) S = S - {to_lower T (trim e)}"

definition mail_listed :: "db \<Rightarrow> string set" where
  "mail_listed d = active_keys (mail_table d)"

definition rows_stay :: "('k \<Rightarrow> (uuid \<times> bool) option) \<Rightarrow> ('k \<Rightarrow> (uuid \<times> bool) option) \<Rightarrow> bool" where
  "rows_stay t t' \<longleftrightarrow> (\<forall>k i. (\<exists>b. t k = Some (i, b)) \<longrightarrow> (\<exists>b. t' k = Some (i, b)))"

lemma rows_stay_refl [simp]: "rows_stay t t"
  by (auto simp: rows_stay_def)

lemma rows_stay_trans: "rows_stay t t' \<Longrightarrow> rows_stay t' t'' \<Longrightarrow> rows_stay t t''"
  by (auto simp: rows_stay_def)

text \<open>The reason a listing was given with, once recorded, is never erased.\<close>

definition reasons_stay :: "db \<Rightarrow> db \<Rightarrow> bool" where
  "reasons_stay d d' \<longleftrightarrow>
     (\<forall>r\<in>set (mail_blacklists d). \<exists>r'\<in>set (mail_blacklists d'). mbl_id r' = mbl_id r \<and> mbl_email r' = mbl_email r \<and>
        (mbl_opt_out_reason_id r \<noteq> None \<longrightarrow> mbl_opt_out_reason_id r' \<noteq> None))"

definition folds_agree :: "text_fold \<Rightarrow> bool" where
  "folds_agree T \<longleftrightarrow> (\<forall>s. pg_lower T (to_lower T s) = to_lower T s)"

lemma canonical_email_Inr: "canonical_email T e = Inr k \<longleftrightarrow> k = to_lower T (trim e) \<and> k \<noteq> []"
  by (auto simp: canonical_email_def Let_def)

lemma mail_verb_Inr:
  assumes "mail_verb T c v w = (Inr u, w')" and "mail_unique (db w)" and "folds_agree T"
  shows "mail_unique (db w') \<and> mail_listed (db w') = spec_verb T c (mail_listed (db w)) \<and>
    rows_stay (mail_table (db w)) (mail_table (db w')) \<and>
    (db w')\<lparr>mail_blacklists := []\<rparr> = (db w)\<lparr>mail_blacklists := []\<rparr>"
proof (cases c)
  case (MailListing e reason)
  with assms(1) obtain a where "mail_blacklist_add T e reason v w = (Inr a, w')"
    by (auto elim!: bindA_InrE ret_InrE)
  then have l: "list_add (mail_upsert_active T reason (to_lower T (trim e))) v w = (Inr a, w')"
    unfolding mail_blacklist_add_def by (auto simp: canonical_email_Inr elim!: bindA_InrE of_sum_InrE lift_InrE)
  from assms(3) have f: "pg_lower T (to_lower T (trim e)) = to_lower T (trim e)" by (simp add: folds_agree_def)
  from mail_list.add_Inr [OF l f assms(2)] mail_list.add_active [OF l f assms(2)] MailListing show ?thesis
    by (auto simp: mail_listed_def rows_stay_def split: option.splits if_splits)
next
  case (MailUnlisting e)
  with assms(1) obtain a where "mail_blacklist_remove T e v w = (Inr a, w')"
    by (auto elim!: bindA_InrE ret_InrE)
  then have l: "list_remove (mail_archive_if_active (to_lower T (trim e))) v w = (Inr a, w')"
    unfolding mail_blacklist_remove_def by (auto simp: canonical_email_Inr elim!: bindA_InrE of_sum_InrE lift_InrE)
  from mail_list.remove_Inr [OF l assms(2)] mail_list.remove_active [OF l assms(2)] MailUnlisting show ?thesis
    by (auto simp: mail_listed_def rows_stay_def split: option.splits if_splits)
qed

lemma mail_verbs_Inr:
  assumes "mail_verbs T cs v w = (Inr u, w')" and "mail_unique (db w)" and "folds_agree T"
  shows "mail_unique (db w') \<and> mail_listed (db w') = fold (spec_verb T) cs (mail_listed (db w)) \<and>
    rows_stay (mail_table (db w)) (mail_table (db w')) \<and>
    (db w')\<lparr>mail_blacklists := []\<rparr> = (db w)\<lparr>mail_blacklists := []\<rparr>"
  using assms unfolding mail_verbs_def
proof (induction cs arbitrary: w u)
  case Nil
  then show ?case by (auto elim: ret_InrE)
next
  case (Cons c cs)
  from Cons.prems(1) obtain s w1 where c: "mail_verb T c v w = (Inr s, w1)" and
    cs: "foldA (\<lambda>_. mail_verb T) s cs v w1 = (Inr u, w')" by (auto elim: bindA_InrE)
  note 1 = mail_verb_Inr [OF c Cons.prems(2,3)]
  from cs have "foldA (\<lambda>_. mail_verb T) () cs v w1 = (Inr u, w')" by simp
  note Cons.IH [OF this _ Cons.prems(3)] 1
  then show ?case by (auto intro: rows_stay_trans)
qed

text \<open>C21: the email list behaves as a set of folded addresses.  After any sequence of additions and removals
  that all answered, an address tests as listed exactly when the last verb on its folded form, if any, was
  an addition (or it was listed before); the test writes nothing, no row is ever lost or replaced, the
  uniqueness of the table is kept and no other table is touched.\<close>

theorem mail_blacklist_refines:
  assumes "mail_verbs T cs v w = (Inr u, w1)" and "mail_is_listed T e v' w1 = (Inr b, w')"
    and "mail_unique (db w)" and "folds_agree T"
  shows "(b \<longleftrightarrow> to_lower T (trim e) \<in> fold (spec_verb T) cs (mail_listed (db w))) \<and>
    mail_unique (db w') \<and> rows_stay (mail_table (db w)) (mail_table (db w')) \<and>
    db w' = (db w)\<lparr>mail_blacklists := mail_blacklists (db w')\<rparr>"
proof -
  note 1 = mail_verbs_Inr [OF assms(1,3,4)]
  then have u: "mail_unique (db w1)" by simp
  from assms(2) have "list_read (mail_exists_active (to_lower T (trim e))) v' w1 = (Inr b, w')"
    unfolding mail_is_listed_def by (auto simp: canonical_email_Inr elim!: bindA_InrE of_sum_InrE lift_InrE)
  from mail_list.is_listed_Inr [OF this u]
  have b: "b \<longleftrightarrow> to_lower T (trim e) \<in> mail_listed (db w1)" and w': "db w' = db w1" by (simp_all add: mail_listed_def)
  from 1 have "(db w1)\<lparr>mail_blacklists := []\<rparr> = (db w)\<lparr>mail_blacklists := []\<rparr>" by simp
  then have "(db w1)\<lparr>mail_blacklists := []\<rparr>\<lparr>mail_blacklists := mail_blacklists (db w1)\<rparr> =
    (db w)\<lparr>mail_blacklists := []\<rparr>\<lparr>mail_blacklists := mail_blacklists (db w1)\<rparr>" by (rule arg_cong)
  then have "db w1 = (db w)\<lparr>mail_blacklists := mail_blacklists (db w1)\<rparr>" by simp
  with 1 b w' show ?thesis by simp
qed

section \<open>Reasons, and the phone list\<close>

lemma reasons_stay_map:
  assumes "\<And>r. mbl_email (g r) = mbl_email r \<and> mbl_id (g r) = mbl_id r \<and>
      (mbl_opt_out_reason_id r \<noteq> None \<longrightarrow> mbl_opt_out_reason_id (g r) \<noteq> None)"
  shows "reasons_stay d (d\<lparr>mail_blacklists := map g (mail_blacklists d)\<rparr>)"
  using assms by (auto simp: reasons_stay_def)

lemma mail_upsert_reasons: "mail_upsert_active T reason k i d = Inr (s, d') \<Longrightarrow> reasons_stay d d'"
  unfolding mail_upsert_active_def Let_def
  by (cases "find (\<lambda>r. mbl_email r = pg_lower T k) (mail_blacklists d)")
    (auto simp: reasons_stay_def [of d "d\<lparr>mail_blacklists := _ @ _\<rparr>"] intro!: reasons_stay_map split: if_splits option.splits)

lemma mail_archive_reasons: "mail_archive_if_active k d = Inr (z, d') \<Longrightarrow> reasons_stay d d'"
  unfolding mail_archive_if_active_def by (auto intro!: reasons_stay_map)

lemma mail_blacklist_keeps_reasons:
  "mail_blacklist_add T e reason v w = (Inr a, w') \<Longrightarrow> reasons_stay (db w) (db w')"
  "mail_blacklist_remove T e v w = (Inr z, w') \<Longrightarrow> reasons_stay (db w) (db w')"
  unfolding mail_blacklist_add_def mail_blacklist_remove_def
  by (auto elim!: bindA_InrE of_sum_InrE lift_InrE list_add_InrE list_remove_InrE
      intro: mail_upsert_reasons mail_archive_reasons)

text \<open>The phone list keeps the same contract; a number added is listed and stays so until it is removed.\<close>

lemma phone_add_then_listed:
  assumes "phone_blacklist_add n v w = (Inr a, w1)" and "phone_is_listed m v' w1 = (Inr b, w2)"
    and "phone_unique (db w)"
  shows "b \<longleftrightarrow> m = n \<or> e164_text m \<in> active_keys (phone_table (db w))"
proof -
  note a = assms(1) [unfolded phone_blacklist_add_def]
  from phone_list.add_Inr [OF a TrueI assms(3)] have u: "phone_unique (db w1)" by simp
  from phone_list.add_active [OF a TrueI assms(3)] phone_list.is_listed_Inr [OF assms(2) [unfolded phone_is_listed_def] u]
  show ?thesis by (auto intro: E164Number.expand)
qed

lemma phone_remove_then_unlisted:
  assumes "phone_blacklist_remove n v w = (Inr a, w1)" and "phone_is_listed n v' w1 = (Inr b, w2)"
    and "phone_unique (db w)"
  shows "\<not> b"
proof -
  note a = assms(1) [unfolded phone_blacklist_remove_def]
  from phone_list.remove_Inr [OF a assms(3)] have u: "phone_unique (db w1)" by simp
  from phone_list.remove_active [OF a assms(3)] phone_list.is_listed_Inr [OF assms(2) [unfolded phone_is_listed_def] u]
  show ?thesis by simp
qed

lemma phone_listed_among_Inr:
  assumes "phone_listed_among ns v w = (Inr S, w')" and "phone_unique (db w)"
  shows "S = {n \<in> set ns. e164_text n \<in> active_keys (phone_table (db w))} \<and> db w' = db w"
proof (cases "ns = []")
  case True
  with assms(1) show ?thesis by (auto simp: phone_listed_among_def ret_def)
next
  case False
  with assms(1) obtain xs w1 where
    l: "list_read (active_numbers (map e164_text ns)) v w = ((Inr xs :: db_error + string list), w1)" and
    r: "S = from_canonical ` set xs" "w' = w1"
    by (auto simp: phone_listed_among_def elim!: bindA_InrE ret_InrE)
  note f = phone_list.among_Inr [OF l assms(2)]
  have "from_canonical ` (e164_text ` set ns \<inter> A) = (\<lambda>n. n) ` {n \<in> set ns. e164_text n \<in> A}" for A
    by (auto simp: from_canonical_def image_iff intro!: bexI [of _ "e164_text _"])
  with f r show ?thesis by simp
qed

section \<open>A concrete run\<close>

definition list_world :: "(db, nat) world" where
  "list_world = world_of (empty_db\<lparr>mail_blacklists :=
     [\<lparr>mbl_id = 100, mbl_email = ''old@x.org'', mbl_active = True, mbl_opt_out_reason_id = Some 7\<rparr>]\<rparr>)"

definition list_script :: "list_verb list" where
  "list_script = [MailListing '' A@X.org'' None, MailUnlisting ''OLD@x.org'', MailListing ''b@x.org'' (Some 8),
     MailUnlisting ''b@x.org'']"

definition ascii_fold :: text_fold where
  "ascii_fold = \<lparr>to_lower = to_ascii_lowercase, pg_lower = to_ascii_lowercase\<rparr>"

definition list_run :: "(MailBlacklistError + unit) \<times> (db, nat) world" where
  "list_run = mail_verbs ascii_fold list_script plain_env list_world"

definition probe_run :: "(MailBlacklistError + bool) \<times> (db, nat) world" where
  "probe_run = mail_is_listed ascii_fold ''a@x.ORG '' plain_env (snd list_run)"

lemma mail_blacklist_refines_witness:
  "fst probe_run = Inr True \<and> map mbl_active (mail_blacklists (db (snd list_run))) = [False, True, False] \<and>
   ''a@x.org'' \<in> fold (spec_verb ascii_fold) list_script (mail_listed (db list_world))"
proof -
  have "fst list_run = Inr ()" by code_simp
  then have 1: "mail_verbs ascii_fold list_script plain_env list_world = (Inr (), snd list_run)"
    by (simp add: list_run_def prod_eq_iff)
  have p: "fst probe_run = Inr True" by code_simp
  then have 2: "mail_is_listed ascii_fold ''a@x.ORG '' plain_env (snd list_run) = (Inr True, snd probe_run)"
    by (simp add: probe_run_def prod_eq_iff)
  have "mail_unique (db list_world)" by code_simp
  moreover have "folds_agree ascii_fold" by (simp add: folds_agree_def ascii_fold_def)
  ultimately have "fst probe_run = Inr True \<longrightarrow> to_lower ascii_fold (trim ''a@x.ORG '') \<in> fold (spec_verb ascii_fold) list_script (mail_listed (db list_world))"
    using mail_blacklist_refines [OF 1 2] by simp
  with p
  have "to_lower ascii_fold (trim ''a@x.ORG '') \<in> fold (spec_verb ascii_fold) list_script (mail_listed (db list_world))"
    by simp
  moreover have "to_lower ascii_fold (trim ''a@x.ORG '') = ''a@x.org''" by code_simp
  moreover have "map mbl_active (mail_blacklists (db (snd list_run))) = [False, True, False]" by code_simp
  ultimately show ?thesis using p by simp
qed

end
