(* ===== verification/PhoneValidation.thy ===== *)
theory PhoneValidation
  imports Blacklists
begin

text \<open>
  Phone validation: \<open>phone_ports.rs\<close> (the host's phone book behind a slot that refuses until one is
  installed) and \<open>phone_validation_service.rs\<close> (the formatter, the candidate walk, the live verb).

  The crate \<open>phonenumber\<close> is not part of the sources: the record \<open>phonenumber\<close> holds the functions the
  service calls, and nothing is assumed of them.  A book is any action; the canned book of the tests is
  \<open>NoopPhoneBook\<close>.
\<close>

section \<open>The phone book\<close>

datatype PhoneSourceError =
    PsDb db_error
  | NotComposed string

record PhoneCandidate =
  pc_raw :: string
  pc_country_hint :: "string option"

definition international :: "string \<Rightarrow> PhoneCandidate" where
  "international raw = \<lparr>pc_raw = raw, pc_country_hint = None\<rparr>"

definition national :: "string \<Rightarrow> string \<Rightarrow> PhoneCandidate" where
  "national raw country_hint = \<lparr>pc_raw = raw, pc_country_hint = Some country_hint\<rparr>"

type_synonym 'o PhoneBook = "string \<Rightarrow> uuid \<Rightarrow> (db, 'o, PhoneSourceError, PhoneCandidate list) act"

definition RefusingPhoneBook :: "'o PhoneBook" where
  "RefusingPhoneBook model res_id =
     bindA (ask uuid_text) (\<lambda>U. fail (NotComposed
       (''no PhoneBookPort is installed; refusing candidate lookup for '' @ model @ ''/'' @ U res_id @
        '' '' @ [CHR 0xE2, CHR 0x80, CHR 0x94] @ '' compose one via MessagingModule::set_phone_book'')))"

definition NoopPhoneBook :: "PhoneCandidate list \<Rightarrow> 'o PhoneBook" where
  "NoopPhoneBook cs model res_id = ret cs"

record 'o PhoneBookSlot =
  book_inner :: "'o PhoneBook"
  book_poisoned :: bool

definition book_default :: "'o PhoneBookSlot" where
  "book_default = \<lparr>book_inner = RefusingPhoneBook, book_poisoned = False\<rparr>"

definition book_install :: "'o PhoneBook \<Rightarrow> 'o PhoneBookSlot \<Rightarrow> 'o PhoneBookSlot" where
  "book_install book slot = slot\<lparr>book_inner := book\<rparr>"

definition book_current :: "'o PhoneBookSlot \<Rightarrow> 'o PhoneBook" where
  "book_current slot = book_inner slot"

definition slot_candidates :: "'o PhoneBookSlot \<Rightarrow> 'o PhoneBook" where
  "slot_candidates slot model res_id = book_current slot model res_id"

section \<open>The formatter\<close>

definition is_canonical_e164 :: "string \<Rightarrow> bool" where
  "is_canonical_e164 s \<longleftrightarrow>
     (case s of
        p # c # rest \<Rightarrow> p = CHR ''+'' \<and> is_ascii_digit c \<and> c \<noteq> CHR ''0'' \<and>
          6 \<le> length rest \<and> length rest \<le> 14 \<and> list_all is_ascii_digit rest
      | _ \<Rightarrow> False)"

datatype PhoneFormatError =
    Empty string
  | NotANumber string string
  | InvalidCountryHint string string
  | MissingCountryHint string
  | TooLong string
  | TooShort string
  | InvalidForCountry string string

definition normalize_hint :: "string \<Rightarrow> string option" where
  "normalize_hint hint =
     (let up = to_ascii_uppercase (trim hint)
      in if length up = 2 \<and> list_all is_ascii_alphabetic up then Some up else None)"

text \<open>The errors of the parser the service tells apart; \<open>LibOther\<close> carries the text of any other.\<close>

datatype ParseError =
    LibTooLong
  | LibTooShortNsn
  | LibTooShortAfterIdd
  | LibInvalidCountryCode
  | LibOther string

record ('c, 'n) phonenumber =
  id_from_str :: "string \<Rightarrow> 'c option"
  lib_parse :: "'c option \<Rightarrow> string \<Rightarrow> ParseError + 'n"
  lib_code :: "'n \<Rightarrow> nat"
  lib_national_text :: "'n \<Rightarrow> string"
  lib_is_valid :: "'n \<Rightarrow> bool"
  lib_format :: "'n \<Rightarrow> string"
  lib_str_debug :: "string \<Rightarrow> string"

fun map_parse_error :: "ParseError \<Rightarrow> string \<Rightarrow> string option \<Rightarrow> PhoneFormatError" where
  "map_parse_error LibTooLong raw hint_country = TooLong raw"
| "map_parse_error LibTooShortNsn raw hint_country = TooShort raw"
| "map_parse_error LibTooShortAfterIdd raw hint_country = TooShort raw"
| "map_parse_error LibInvalidCountryCode raw (Some country) = InvalidForCountry raw country"
| "map_parse_error LibInvalidCountryCode raw None = NotANumber raw ''invalid country code''"
| "map_parse_error (LibOther t) raw hint_country = NotANumber raw t"

definition parsed_country_or_prefix :: "('c, 'n) phonenumber \<Rightarrow> 'n \<Rightarrow> string" where
  "parsed_country_or_prefix L n = CHR ''+'' # nat_text (lib_code L n)"

definition phone_country ::
  "('c, 'n) phonenumber \<Rightarrow> string \<Rightarrow> string option \<Rightarrow> PhoneFormatError + (string \<times> 'c) option" where
  "phone_country L raw country_hint =
     (if prefix ''+'' raw then Inr None
      else case country_hint of
        None \<Rightarrow> Inl (MissingCountryHint raw)
      | Some hint \<Rightarrow>
          (case normalize_hint hint of
             None \<Rightarrow> Inl (InvalidCountryHint raw hint)
           | Some normalized \<Rightarrow>
               (case id_from_str L normalized of
                  None \<Rightarrow> Inl (InvalidCountryHint raw normalized)
                | Some i \<Rightarrow> Inr (Some (normalized, i)))))"

definition checked_format ::
  "('c, 'n) phonenumber \<Rightarrow> string \<Rightarrow> (string \<times> 'c) option \<Rightarrow> 'n \<Rightarrow> PhoneFormatError + E164Number" where
  "checked_format L raw country parsed =
     (let total_digits = length (nat_text (lib_code L parsed)) + length (lib_national_text L parsed);
          canonical = lib_format L parsed
      in if total_digits > 15 then Inl (TooLong raw)
         else if total_digits < 7 then Inl (TooShort raw)
         else if \<not> lib_is_valid L parsed then
           Inl (InvalidForCountry raw
             (case country of Some (n, _) \<Rightarrow> n | None \<Rightarrow> parsed_country_or_prefix L parsed))
         else if \<not> is_canonical_e164 canonical then
           Inl (NotANumber raw (''formatted to non-canonical '' @ lib_str_debug L canonical))
         else Inr (E164Number canonical))"

definition phone_format ::
  "('c, 'n) phonenumber \<Rightarrow> string \<Rightarrow> string option \<Rightarrow> PhoneFormatError + E164Number" where
  "phone_format L raw0 country_hint =
     (let raw = trim raw0
      in if raw = [] then Inl (Empty raw)
         else case phone_country L raw country_hint of
           Inl e \<Rightarrow> Inl e
         | Inr country \<Rightarrow>
             (case lib_parse L (map_option snd country) raw of
                Inl e \<Rightarrow> Inl (map_parse_error e raw (map_option fst country))
              | Inr parsed \<Rightarrow> checked_format L raw country parsed))"

section \<open>The candidate walk\<close>

fun candidate_walk ::
  "('c, 'n) phonenumber \<Rightarrow> nat \<Rightarrow> (nat \<times> PhoneFormatError) list \<Rightarrow> PhoneCandidate list \<Rightarrow>
   (nat \<times> PhoneFormatError) list + E164Number" where
  "candidate_walk L index trail [] = Inl trail"
| "candidate_walk L index trail (candidate # cs) =
     (case phone_format L (pc_raw candidate) (pc_country_hint candidate) of
        Inr number \<Rightarrow> Inr number
      | Inl e \<Rightarrow> candidate_walk L (Suc index) (trail @ [(index, e)]) cs)"

definition sanitize_candidates ::
  "('c, 'n) phonenumber \<Rightarrow> PhoneCandidate list \<Rightarrow> (nat \<times> PhoneFormatError) list + E164Number" where
  "sanitize_candidates L candidates = candidate_walk L 0 [] candidates"

record SanitizedPhone =
  san_number :: E164Number
  san_blacklisted :: bool

datatype PhoneValidationError =
    PvSource PhoneSourceError
  | PvWalk "(nat \<times> PhoneFormatError) list"
  | PvBlacklist db_error

definition sanitized_for ::
  "('c, 'n) phonenumber \<Rightarrow> 'o PhoneBookSlot \<Rightarrow> string \<Rightarrow> uuid \<Rightarrow>
   (db, 'o, PhoneValidationError, SanitizedPhone) act" where
  "sanitized_for L slot model res_id =
     bindA (lift PvSource (slot_candidates slot model res_id)) (\<lambda>candidates.
     bindA (lift PvWalk (of_sum (sanitize_candidates L candidates))) (\<lambda>number.
     bindA (lift PvBlacklist (phone_is_listed number)) (\<lambda>blacklisted.
     ret \<lparr>san_number = number, san_blacklisted = blacklisted\<rparr>)))"

definition check :: "E164Number \<Rightarrow> (db, 'o, db_error, bool) act" where
  "check number = phone_is_listed number"

definition check_all :: "E164Number list \<Rightarrow> (db, 'o, db_error, E164Number set) act" where
  "check_all numbers = phone_listed_among numbers"

section \<open>What the formatter promises\<close>

fun refused_raw :: "PhoneFormatError \<Rightarrow> string" where
  "refused_raw (Empty raw) = raw"
| "refused_raw (NotANumber raw d) = raw"
| "refused_raw (InvalidCountryHint raw h) = raw"
| "refused_raw (MissingCountryHint raw) = raw"
| "refused_raw (TooLong raw) = raw"
| "refused_raw (TooShort raw) = raw"
| "refused_raw (InvalidForCountry raw c) = raw"

lemma refused_map_parse_error [simp]: "refused_raw (map_parse_error e raw c) = raw"
  by (cases "(e, raw, c)" rule: map_parse_error.cases) simp_all

text \<open>A formatted number is canonical and valid for the library; a refusal names the trimmed input.\<close>

lemma phone_format_Inr:
  assumes "phone_format L raw hint = Inr n"
  shows "is_canonical_e164 (e164_text n) \<and>
    (\<exists>c parsed. lib_parse L c (trim raw) = Inr parsed \<and> lib_is_valid L parsed \<and> e164_text n = lib_format L parsed \<and>
       (c = None \<longleftrightarrow> prefix ''+'' (trim raw)))"
  using assms
  by (fastforce simp: phone_format_def checked_format_def phone_country_def Let_def
      split: if_splits sum.splits option.splits)

lemma phone_format_Inl:
  assumes "phone_format L raw hint = Inl e"
  shows "refused_raw e = trim raw"
  using assms
  by (auto simp: phone_format_def checked_format_def phone_country_def Let_def
      split: if_splits sum.splits option.splits)

text \<open>A number already in international form is read the same under every hint.\<close>

lemma phone_format_ignores_hint: "prefix ''+'' (trim raw) \<Longrightarrow> phone_format L raw h = phone_format L raw h'"
  by (simp add: phone_format_def phone_country_def Let_def)

section \<open>What the walk promises\<close>

definition tried :: "('c, 'n) phonenumber \<Rightarrow> PhoneCandidate \<Rightarrow> PhoneFormatError + E164Number" where
  "tried L c = phone_format L (pc_raw c) (pc_country_hint c)"

text \<open>The reference: the first candidate that formats, or all refusals with their positions.\<close>

definition first_valid ::
  "('c, 'n) phonenumber \<Rightarrow> PhoneCandidate list \<Rightarrow> (nat \<times> PhoneFormatError) list + E164Number" where
  "first_valid L cs =
     (case find (\<lambda>c. \<not> isl (tried L c)) cs of
        Some c \<Rightarrow> Inr (projr (tried L c))
      | None \<Rightarrow> Inl (zip [0..<length cs] (map (\<lambda>c. projl (tried L c)) cs)))"

lemma candidate_walk_eq:
  "candidate_walk L i trail cs =
     (case find (\<lambda>c. \<not> isl (tried L c)) cs of
        Some c \<Rightarrow> Inr (projr (tried L c))
      | None \<Rightarrow> Inl (trail @ zip [i..<i + length cs] (map (\<lambda>c. projl (tried L c)) cs)))"
proof (induction cs arbitrary: i trail)
  case Nil
  then show ?case by simp
next
  case (Cons c cs)
  have u: "[i..<i + length (c # cs)] = i # [Suc i..<Suc i + length cs]" by (simp add: upt_conv_Cons del: upt_Suc)
  show ?case unfolding u
    by (cases "phone_format L (pc_raw c) (pc_country_hint c)")
      (simp_all add: Cons.IH tried_def del: upt_Suc split: option.splits)
qed

lemma sanitize_first_valid: "sanitize_candidates L cs = first_valid L cs"
  by (simp add: sanitize_candidates_def candidate_walk_eq first_valid_def split: option.splits)

lemma first_valid_Inr:
  "first_valid L cs = Inr n \<longleftrightarrow> (\<exists>i<length cs. tried L (cs ! i) = Inr n \<and> (\<forall>j<i. isl (tried L (cs ! j))))"
proof -
  have c: "(\<not> isl (tried L c) \<and> projr (tried L c) = n) = (tried L c = Inr n)" for c by (auto simp: isl_def)
  have "first_valid L cs = Inr n \<longleftrightarrow>
      (\<exists>c. find (\<lambda>c. \<not> isl (tried L c)) cs = Some c \<and> projr (tried L c) = n)"
    by (simp add: first_valid_def split: option.splits)
  also have "\<dots> \<longleftrightarrow> (\<exists>i<length cs. (\<not> isl (tried L (cs ! i)) \<and> projr (tried L (cs ! i)) = n) \<and>
      (\<forall>j<i. isl (tried L (cs ! j))))"
    unfolding find_Some_iff by auto
  finally show ?thesis unfolding c .
qed

text \<open>C22: the live verb answers with the number of the first candidate the formatter accepts, in canonical form,
  and with the standing of exactly that number on the active list; every earlier candidate was refused.  It
  fails for want of a number only with the full trail, one refusal per candidate in order.  It writes nothing
  beyond what the host's book does.\<close>

theorem sanitized_for_effect:
  assumes "slot_candidates slot model r v w = (Inr cs, w1)"
    and "sanitized_for L slot model r v w = (res, w')" and "phone_unique (db w1)"
  shows "db w' = db w1 \<and>
    (case res of
       Inr p \<Rightarrow> is_canonical_e164 (e164_text (san_number p)) \<and>
         (\<exists>i<length cs. tried L (cs ! i) = Inr (san_number p) \<and> (\<forall>j<i. isl (tried L (cs ! j)))) \<and>
         (san_blacklisted p \<longleftrightarrow>
           (\<exists>row\<in>set (phone_blacklists (db w1)). pbl_number row = e164_text (san_number p) \<and> pbl_active row))
     | Inl (PvWalk trail) \<Rightarrow> length trail = length cs \<and>
         (\<forall>i<length cs. fst (trail ! i) = i \<and> tried L (cs ! i) = Inl (snd (trail ! i)))
     | Inl (PvBlacklist e) \<Rightarrow> e = Connection
     | Inl (PvSource e) \<Rightarrow> False)"
proof (cases "sanitize_candidates L cs")
  case (Inl trail)
  with assms(1,2) have "res = Inl (PvWalk trail)" "w' = w1"
    by (simp_all add: sanitized_for_def bindA_def lift_def of_sum_def)
  moreover from Inl have "\<forall>c\<in>set cs. isl (tried L c)" and
    "trail = zip [0..<length cs] (map (\<lambda>c. projl (tried L c)) cs)"
    by (auto simp: sanitize_first_valid first_valid_def find_None_iff split: option.splits)
  ultimately show ?thesis by auto
next
  case (Inr n)
  obtain b w2 where l: "phone_is_listed n v w1 = (b, w2)" by fastforce
  from assms(1,2) Inr l have r: "res = (case b of Inl e \<Rightarrow> Inl (PvBlacklist e)
      | Inr x \<Rightarrow> Inr \<lparr>san_number = n, san_blacklisted = x\<rparr>)" "w' = w2"
    by (auto simp: sanitized_for_def bindA_def lift_def of_sum_def ret_def split: sum.splits)
  from Inr obtain i where i: "i < length cs" "tried L (cs ! i) = Inr n" "\<forall>j<i. isl (tried L (cs ! j))"
    by (auto simp: sanitize_first_valid first_valid_Inr)
  then have c: "is_canonical_e164 (e164_text n)" by (auto simp: tried_def dest: phone_format_Inr)
  show ?thesis
  proof (cases b)
    case (Inl e)
    with l r show ?thesis
      by (auto simp: phone_is_listed_def list_read_def bindA_def acquire_def query_def query_now_def reading_def
          split: if_splits)
  next
    case (Inr x)
    with phone_list.is_listed_Inr [OF l [unfolded Inr phone_is_listed_def] assms(3)] r i c assms(3) show ?thesis
      by (auto simp: phone_table_def phone_unique_def row_table_active)
  qed
qed

text \<open>Until a host installs a book, the verb refuses and touches nothing.\<close>

lemma sanitized_for_default:
  "\<exists>t. sanitized_for L book_default model r v w = (Inl (PvSource (NotComposed t)), w)"
  by (simp add: sanitized_for_def slot_candidates_def book_current_def book_default_def RefusingPhoneBook_def
      bindA_def lift_def ask_def fail_def)

section \<open>A concrete run\<close>

definition toy_lib :: "(nat, string) phonenumber" where
  "toy_lib = \<lparr>id_from_str = (\<lambda>s. if s = ''ID'' then Some 62 else None),
     lib_parse = (\<lambda>c s. if set s \<subseteq> set ''+0123456789'' then Inr (filter is_ascii_digit s) else Inl (LibOther ''not a number'')),
     lib_code = (\<lambda>_. 62), lib_national_text = (\<lambda>n. n), lib_is_valid = (\<lambda>n. True),
     lib_format = (\<lambda>n. ''+62'' @ n), lib_str_debug = (\<lambda>s. s)\<rparr>"

definition phone_slot :: "nat PhoneBookSlot" where
  "phone_slot = book_install (NoopPhoneBook [international ''call me'', national '' 8123456'' '' id '',
     international ''+8999999'']) book_default"

definition phone_world :: "(db, nat) world" where
  "phone_world = world_of (empty_db\<lparr>phone_blacklists :=
     [\<lparr>pbl_id = 1, pbl_number = ''+628123456'', pbl_active = True\<rparr>]\<rparr>)"

definition phone_run :: "(PhoneValidationError + SanitizedPhone) \<times> (db, nat) world" where
  "phone_run = sanitized_for toy_lib phone_slot ''res.partner'' 9 plain_env phone_world"

lemma sanitized_for_effect_witness:
  "fst phone_run = Inr \<lparr>san_number = E164Number ''+628123456'', san_blacklisted = True\<rparr> \<and>
   is_canonical_e164 ''+628123456'' \<and> db (snd phone_run) = db phone_world"
proof -
  have 1: "slot_candidates phone_slot ''res.partner'' 9 plain_env phone_world =
      (Inr [international ''call me'', national '' 8123456'' '' id '', international ''+8999999''], phone_world)"
    by (simp add: slot_candidates_def book_current_def phone_slot_def book_install_def NoopPhoneBook_def ret_def)
  have f: "fst phone_run = Inr \<lparr>san_number = E164Number ''+628123456'', san_blacklisted = True\<rparr>" by code_simp
  then have 2: "sanitized_for toy_lib phone_slot ''res.partner'' 9 plain_env phone_world =
      (Inr \<lparr>san_number = E164Number ''+628123456'', san_blacklisted = True\<rparr>, snd phone_run)"
    by (simp add: phone_run_def prod_eq_iff)
  have "phone_unique (db phone_world)" by code_simp
  from sanitized_for_effect [OF 1 2 this] f show ?thesis by simp
qed

end
