(* ===== verification/Realtime.thy ===== *)
theory Realtime
  imports Acl "HOL-Library.Product_Lexorder"
begin

text \<open>
  The realtime feed of one replica: \<open>src/realtime/registry.rs\<close> (the replay ring, the fan-out, the count of
  streams) and \<open>src/realtime/tailer.rs\<close> (the loop that reads the outbox).

  A \<open>RealtimeRegistry\<close> holds the ring, the events handed to the broadcast sender so far (what a receiver
  makes of them is the channel's business), and the streams held per identity.  The outbox is the list
  of its rows; the database clock and the clock of the process are the environment's.
\<close>

section \<open>The registry\<close>

record TailedEvent =
  te_id :: uuid
  te_channel :: string
  te_message_type :: string
  te_payload :: json
  te_occurred_at :: time

definition RING_CAPACITY :: nat where
  "RING_CAPACITY = 4096"

record RealtimeRegistry =
  reg_sent :: "TailedEvent list"
  reg_ring :: "TailedEvent list"
  reg_connections :: "string \<Rightarrow> nat option"

definition registry_new :: RealtimeRegistry where
  "registry_new = \<lparr>reg_sent = [], reg_ring = [], reg_connections = (\<lambda>_. None)\<rparr>"

function pop_excess :: "'a list \<Rightarrow> 'a list" where
  "pop_excess ring = (if length ring > RING_CAPACITY then pop_excess (tl ring) else ring)"
  by pat_completeness auto
termination by (relation "measure length") auto

declare pop_excess.simps [simp del]

text \<open>The two halves of \<open>publish\<close>: the ring under its lock, then the broadcast.\<close>

definition remember :: "TailedEvent \<Rightarrow> RealtimeRegistry \<Rightarrow> RealtimeRegistry" where
  "remember e reg = reg\<lparr>reg_ring := pop_excess (reg_ring reg @ [e])\<rparr>"

definition broadcast :: "TailedEvent \<Rightarrow> RealtimeRegistry \<Rightarrow> RealtimeRegistry" where
  "broadcast e reg = reg\<lparr>reg_sent := reg_sent reg @ [e]\<rparr>"

definition publish :: "TailedEvent \<Rightarrow> RealtimeRegistry \<Rightarrow> RealtimeRegistry" where
  "publish e reg = broadcast e (remember e reg)"

text \<open>A receiver sees what is sent after it subscribed: its position in \<open>reg_sent\<close>.\<close>

definition subscribe_feed :: "RealtimeRegistry \<Rightarrow> nat" where
  "subscribe_feed reg = length (reg_sent reg)"

fun position :: "('a \<Rightarrow> bool) \<Rightarrow> 'a list \<Rightarrow> nat option" where
  "position p [] = None"
| "position p (x # xs) = (if p x then Some 0 else map_option Suc (position p xs))"

definition replay_after :: "uuid option \<Rightarrow> RealtimeRegistry \<Rightarrow> TailedEvent list" where
  "replay_after last_id reg =
     (let start = (case Option.bind last_id (\<lambda>i. position (\<lambda>e. te_id e = i) (reg_ring reg)) of
                     Some pos \<Rightarrow> pos + 1
                   | None \<Rightarrow> 0)
      in drop start (reg_ring reg))"

definition reserve_connection :: "string \<Rightarrow> nat \<Rightarrow> RealtimeRegistry \<Rightarrow> (nat + unit) \<times> RealtimeRegistry" where
  "reserve_connection identity_key cap reg =
     (let current = (case reg_connections reg identity_key of None \<Rightarrow> 0 | Some n \<Rightarrow> n)
      in if current \<ge> cap then (Inl current, reg)
         else (Inr (), reg\<lparr>reg_connections := (reg_connections reg)(identity_key \<mapsto> current + 1)\<rparr>))"

definition release_connection :: "string \<Rightarrow> RealtimeRegistry \<Rightarrow> RealtimeRegistry" where
  "release_connection identity_key reg =
     (case reg_connections reg identity_key of
        None \<Rightarrow> reg
      | Some n \<Rightarrow>
          reg\<lparr>reg_connections := (reg_connections reg)(identity_key := (if n - 1 = 0 then None else Some (n - 1)))\<rparr>)"

fun identity_key :: "(uuid \<Rightarrow> string) \<Rightarrow> MessagingIdentity \<Rightarrow> string" where
  "identity_key U (User p) = ''p:'' @ U p"
| "identity_key U (Guest g) = ''g:'' @ U g"

section \<open>The tailer\<close>

definition is_key_byte :: "char \<Rightarrow> bool" where
  "is_key_byte b \<longleftrightarrow> is_ascii_alphabetic b \<or> is_ascii_digit b \<or> b = CHR ''_'' \<or> b = CHR ''.'' \<or> b = CHR ''-''"

definition valid_channel_key :: "string \<Rightarrow> bool" where
  "valid_channel_key channel \<longleftrightarrow> channel \<noteq> [] \<and> length channel \<le> 128 \<and> list_all is_key_byte channel"

definition parse_record_key :: "(string \<Rightarrow> uuid option) \<Rightarrow> string \<Rightarrow> (string \<times> uuid) option" where
  "parse_record_key parse_str channel =
     (case rsplit_once (CHR ''_'') channel of
        None \<Rightarrow> None
      | Some (model, i) \<Rightarrow> map_option (Pair model) (parse_str i))"

text \<open>\<open>Value::get\<close> and \<open>Value::as_str\<close>.\<close>

fun json_get :: "json \<Rightarrow> string \<Rightarrow> json option" where
  "json_get (JObject es) k = map_of es k"
| "json_get _ k = None"

fun json_as_str :: "json \<Rightarrow> string option" where
  "json_as_str (JString s) = Some s"
| "json_as_str _ = None"

definition extract_event :: "uuid \<Rightarrow> time \<Rightarrow> json \<Rightarrow> TailedEvent option" where
  "extract_event i t pl =
     Option.bind (json_get pl ''channel'') (\<lambda>c. Option.bind (json_as_str c) (\<lambda>channel.
     if \<not> valid_channel_key channel then None
     else Option.bind (json_get pl ''message'') (\<lambda>message.
          Option.bind (json_get message ''type'') (\<lambda>mt. Option.bind (json_as_str mt) (\<lambda>message_type.
          Option.bind (json_get message ''payload'') (\<lambda>inner.
          Some \<lparr>te_id = i, te_channel = channel, te_message_type = message_type, te_payload = inner,
                te_occurred_at = t\<rparr>))))))"

text \<open>The columns the tailer reads of \<open>outbox_events\<close>.\<close>

record tail_row =
  tr_id :: uuid
  tr_occurred_at :: time
  tr_payload :: json

record TailerConfig =
  window_seconds :: int
  poll_ms :: nat

definition tailer_default :: TailerConfig where
  "tailer_default = \<lparr>window_seconds = 55, poll_ms = 1000\<rparr>"

record tailer =
  tl_seen :: "uuid \<Rightarrow> time option"
  tl_registry :: RealtimeRegistry

definition retain_seen :: "time \<Rightarrow> (uuid \<Rightarrow> time option) \<Rightarrow> uuid \<Rightarrow> time option" where
  "retain_seen horizon seen =
     (\<lambda>i. case seen i of None \<Rightarrow> None | Some ts \<Rightarrow> if ts > horizon then Some ts else None)"

definition window_rows :: "int \<Rightarrow> time \<Rightarrow> tail_row list \<Rightarrow> tail_row list" where
  "window_rows secs now rows =
     sort_key (\<lambda>r. (tr_occurred_at r, tr_id r)) (filter (\<lambda>r. tr_occurred_at r > now - secs * NANOS_PER_SEC) rows)"

fun publish_new :: "tailer \<Rightarrow> nat \<Rightarrow> tail_row list \<Rightarrow> tailer \<times> nat" where
  "publish_new st published [] = (st, published)"
| "publish_new st published (row # rows) =
     (if tl_seen st (tr_id row) \<noteq> None then publish_new st published rows
      else let st' = st\<lparr>tl_seen := (tl_seen st)(tr_id row \<mapsto> tr_occurred_at row)\<rparr>
           in case extract_event (tr_id row) (tr_occurred_at row) (tr_payload row) of
                None \<Rightarrow> publish_new st' published rows
              | Some e \<Rightarrow> publish_new (st'\<lparr>tl_registry := publish e (tl_registry st')\<rparr>) (published + 1) rows)"

text \<open>The pruned map is kept when the query fails: \<open>seen\<close> is borrowed mutably.\<close>

definition poll_once ::
  "int \<Rightarrow> tailer \<Rightarrow> env \<Rightarrow> (tail_row list, 'o) world \<Rightarrow> (db_error + nat) \<times> tailer \<times> (tail_row list, 'o) world" where
  "poll_once secs st v w =
     (let horizon = clock v (tick w) - secs * NANOS_PER_SEC;
          st1 = st\<lparr>tl_seen := retain_seen horizon (tl_seen st)\<rparr>;
          w1 = w\<lparr>tick := Suc (tick w)\<rparr>
      in case query_now (\<lambda>now rows. Inr (window_rows secs now rows, rows)) v w1 of
           (Inl e, w2) \<Rightarrow> (Inl e, st1, w2)
         | (Inr rows, w2) \<Rightarrow> (case publish_new st1 0 rows of (st2, n) \<Rightarrow> (Inr n, st2, w2)))"

text \<open>One turn of the spawned loop: a failing poll is logged and the loop goes on.\<close>

definition tailer_turn :: "TailerConfig \<Rightarrow> tailer \<Rightarrow> env \<Rightarrow> (tail_row list, 'o) world \<Rightarrow> tailer \<times> (tail_row list, 'o) world" where
  "tailer_turn config st v w = snd (poll_once (window_seconds config) st v w)"

section \<open>The ring\<close>

lemma pop_excess_drop: "pop_excess ring = drop (length ring - RING_CAPACITY) ring"
proof (induction ring rule: pop_excess.induct)
  case (1 ring)
  show ?case
  proof (cases "length ring > RING_CAPACITY")
    case True
    with 1 show ?thesis by (cases ring) (auto simp: pop_excess.simps [of "_ # _"] Suc_diff_le)
  next
    case False
    then show ?thesis by (simp add: pop_excess.simps)
  qed
qed

lemma pop_excess_append:
  "pop_excess (pop_excess xs @ ys) = pop_excess (xs @ ys)"
  by (cases "length xs \<le> RING_CAPACITY") (simp_all add: pop_excess_drop add.commute)

lemma publish_simps [simp]:
  "reg_sent (publish e reg) = reg_sent reg @ [e]"
  "reg_ring (publish e reg) = pop_excess (reg_ring reg @ [e])"
  "reg_connections (publish e reg) = reg_connections reg"
  by (simp_all add: publish_def broadcast_def remember_def)

lemma position_Some:
  "position p xs = Some i \<longleftrightarrow> i < length xs \<and> p (xs ! i) \<and> (\<forall>j<i. \<not> p (xs ! j))"
proof (induction xs arbitrary: i)
  case (Cons x xs)
  then show ?case by (cases i) (auto simp: less_Suc_eq_0_disj)
qed simp

lemma position_None: "position p xs = None \<longleftrightarrow> (\<forall>x\<in>set xs. \<not> p x)"
  by (induction xs) auto

lemma fold_publish [simp]:
  "reg_sent (fold publish evs reg) = reg_sent reg @ evs"
  "reg_connections (fold publish evs reg) = reg_connections reg"
  by (induction evs arbitrary: reg) simp_all

lemma fold_publish_ring:
  "reg_ring reg = pop_excess log \<Longrightarrow> reg_ring (fold publish evs reg) = pop_excess (log @ evs)"
proof (induction evs arbitrary: reg log)
  case (Cons e evs)
  from Cons.prems have "reg_ring (publish e reg) = pop_excess (log @ [e])" by (simp add: pop_excess_append)
  from Cons.IH [OF this] show ?case by simp
qed simp

section \<open>A poll\<close>

definition row_event :: "tail_row \<Rightarrow> TailedEvent option" where
  "row_event r = extract_event (tr_id r) (tr_occurred_at r) (tr_payload r)"

lemma row_event_id: "row_event r = Some e \<Longrightarrow> te_id e = tr_id r"
  by (auto simp: row_event_def extract_event_def bind_eq_Some_conv split: if_splits)

definition new_rows :: "(uuid \<Rightarrow> time option) \<Rightarrow> tail_row list \<Rightarrow> tail_row list" where
  "new_rows seen rows = filter (\<lambda>r. seen (tr_id r) = None) rows"

definition seen_after :: "(uuid \<Rightarrow> time option) \<Rightarrow> tail_row list \<Rightarrow> uuid \<Rightarrow> time option" where
  "seen_after seen rows = map_of (map (\<lambda>r. (tr_id r, tr_occurred_at r)) rows) ++ seen"

lemma publish_new_eq:
  assumes "distinct (map tr_id rows)"
  shows "publish_new st n rows =
    (let evs = List.map_filter row_event (new_rows (tl_seen st) rows)
     in (\<lparr>tl_seen = seen_after (tl_seen st) rows, tl_registry = fold publish evs (tl_registry st)\<rparr>, n + length evs))"
  using assms
proof (induction rows arbitrary: st n)
  case Nil
  then show ?case by (simp add: seen_after_def new_rows_def Let_def)
next
  case (Cons r rows)
  then have d: "distinct (map tr_id rows)" and nr: "\<forall>x\<in>set rows. tr_id x \<noteq> tr_id r" by (auto, metis image_eqI)
  show ?case
  proof (cases "tl_seen st (tr_id r)")
    case None
    let ?seen = "(tl_seen st)(tr_id r \<mapsto> tr_occurred_at r)"
    have f: "new_rows ?seen rows = new_rows (tl_seen st) rows"
      unfolding new_rows_def using nr by (intro filter_cong) auto
    have "map_of (map (\<lambda>r. (tr_id r, tr_occurred_at r)) rows) (tr_id r) = None"
      using nr by (auto simp: map_of_eq_None_iff)
    then have s: "seen_after ?seen rows = seen_after (tl_seen st) (r # rows)"
      using None by (intro ext) (auto simp: seen_after_def map_add_def split: option.splits)
    have n: "new_rows (tl_seen st) (r # rows) = r # new_rows (tl_seen st) rows"
      using None by (simp add: new_rows_def)
    show ?thesis
      using None by (cases "row_event r") (simp_all add: row_event_def [symmetric] Cons.IH [OF d] f s n Let_def
          List.map_filter_simps)
  next
    case (Some t)
    then have s: "seen_after (tl_seen st) (r # rows) = seen_after (tl_seen st) rows"
      by (intro ext) (auto simp: seen_after_def map_add_def split: option.splits)
    from Some have n: "new_rows (tl_seen st) (r # rows) = new_rows (tl_seen st) rows" by (simp add: new_rows_def)
    show ?thesis using Some by (simp add: Cons.IH [OF d] s n)
  qed
qed

lemma set_window_rows:
  "set (window_rows secs now rows) = {r \<in> set rows. tr_occurred_at r > now - secs * NANOS_PER_SEC}"
  by (simp add: window_rows_def)

lemma distinct_window_rows:
  "distinct (map tr_id rows) \<Longrightarrow> distinct (map tr_id (window_rows secs now rows))"
  by (auto simp: window_rows_def distinct_map intro: inj_on_subset)

text \<open>The two ways of a poll.\<close>

lemma poll_once_cases:
  assumes "poll_once secs st v w = (res, st', w')" and "distinct (map tr_id (db w))"
  obtains (failed) e where "res = Inl e"
      "st' = st\<lparr>tl_seen := retain_seen (clock v (tick w) - secs * NANOS_PER_SEC) (tl_seen st)\<rparr>"
  | (polled) rows seen evs where
      "rows = window_rows secs (clock v (Suc (tick w))) (db w)"
      "seen = retain_seen (clock v (tick w) - secs * NANOS_PER_SEC) (tl_seen st)"
      "evs = List.map_filter row_event (new_rows seen rows)" "res = Inr (length evs)"
      "st' = \<lparr>tl_seen = seen_after seen rows, tl_registry = fold publish evs (tl_registry st)\<rparr>"
proof (cases "fault v (Suc (tick w))")
  case True
  with assms(1) show ?thesis by (intro failed) (auto simp: poll_once_def query_now_def Let_def)
next
  case False
  note d = distinct_window_rows [OF assms(2), of secs "clock v (Suc (tick w))"]
  from False assms(1) show ?thesis
    by (intro polled) (auto simp: poll_once_def query_now_def Let_def publish_new_eq [OF d])
qed

section \<open>The tailer beside the writers\<close>

text \<open>
  Other transactions commit and delete outbox rows between the polls.  A row becomes visible at its commit,
  whenever it occurred; no id is used twice.  The clocks are arbitrary, unless the run is \<open>ordered\<close>: then
  the database clock a query reads is not behind the process clock of the same poll, nor behind the database
  clock of an earlier one.
\<close>

record tail_sys =
  sys_rows :: "tail_row list"
  sys_used :: "uuid set"
  sys_time :: time
  sys_tailer :: tailer

inductive tail_step :: "bool \<Rightarrow> int \<Rightarrow> tail_sys \<Rightarrow> tail_sys \<Rightarrow> bool" for ordered secs where
  commit: "distinct (map tr_id new) \<Longrightarrow> set (map tr_id new) \<inter> sys_used s = {} \<Longrightarrow>
    tail_step ordered secs s (s\<lparr>sys_rows := filter keep (sys_rows s) @ new, sys_used := sys_used s \<union> set (map tr_id new)\<rparr>)"
| poll: "poll_once secs (sys_tailer s) v (w :: (tail_row list, unit) world) = (res, st, w') \<Longrightarrow> db w = sys_rows s \<Longrightarrow>
    (ordered \<Longrightarrow> clock v (tick w) \<le> clock v (Suc (tick w)) \<and> sys_time s \<le> clock v (Suc (tick w))) \<Longrightarrow>
    tail_step ordered secs s (s\<lparr>sys_tailer := st, sys_time := clock v (Suc (tick w))\<rparr>)"

definition published_events :: "tail_sys \<Rightarrow> TailedEvent list" where
  "published_events s = reg_sent (tl_registry (sys_tailer s))"

definition known :: "tail_sys \<Rightarrow> uuid \<Rightarrow> time option" where
  "known s = tl_seen (sys_tailer s)"

lemmas sys_parts = published_events_def known_def

text \<open>A known row has its own time and its event is out; in an ordered run a published row is known or past the
  window, and nothing was published twice.\<close>

definition row_ok :: "bool \<Rightarrow> int \<Rightarrow> tail_sys \<Rightarrow> tail_row \<Rightarrow> bool" where
  "row_ok ordered secs s r \<longleftrightarrow>
     (\<forall>t. known s (tr_id r) = Some t \<longrightarrow>
        t = tr_occurred_at r \<and> (\<forall>e. row_event r = Some e \<longrightarrow> e \<in> set (published_events s))) \<and>
     (ordered \<longrightarrow> tr_id r \<in> te_id ` set (published_events s) \<longrightarrow>
        known s (tr_id r) \<noteq> None \<or> tr_occurred_at r \<le> sys_time s - secs * NANOS_PER_SEC)"

definition tail_ok :: "bool \<Rightarrow> int \<Rightarrow> tail_sys \<Rightarrow> bool" where
  "tail_ok ordered secs s \<longleftrightarrow>
     distinct (map tr_id (sys_rows s)) \<and> tr_id ` set (sys_rows s) \<subseteq> sys_used s \<and>
     (ordered \<longrightarrow> distinct (map te_id (published_events s))) \<and> te_id ` set (published_events s) \<subseteq> sys_used s \<and>
     dom (known s) \<subseteq> sys_used s \<and> (\<forall>r\<in>set (sys_rows s). row_ok ordered secs s r)"

lemma tail_ok_init:
  assumes "distinct (map tr_id rows)" and "tr_id ` set rows \<subseteq> used"
  shows "tail_ok ordered secs \<lparr>sys_rows = rows, sys_used = used, sys_time = t,
    sys_tailer = \<lparr>tl_seen = (\<lambda>_. None), tl_registry = registry_new\<rparr>\<rparr>"
  using assms by (simp add: tail_ok_def row_ok_def sys_parts registry_new_def)

lemma tail_ok_commit:
  assumes "tail_ok ordered secs s" and "distinct (map tr_id new)" and "set (map tr_id new) \<inter> sys_used s = {}"
  shows "tail_ok ordered secs (s\<lparr>sys_rows := filter keep (sys_rows s) @ new, sys_used := sys_used s \<union> set (map tr_id new)\<rparr>)"
proof -
  let ?s = "s\<lparr>sys_rows := filter keep (sys_rows s) @ new, sys_used := sys_used s \<union> set (map tr_id new)\<rparr>"
  have same: "published_events ?s = published_events s" "known ?s = known s" "\<And>r. row_ok ordered secs ?s r = row_ok ordered secs s r"
    by (simp_all add: sys_parts row_ok_def)
  have fresh: "row_ok ordered secs s r" if "r \<in> set new" for r
  proof -
    from that assms(3) have "tr_id r \<notin> sys_used s" by auto
    then have "known s (tr_id r) = None" "tr_id r \<notin> te_id ` set (published_events s)"
      using assms(1) by (auto simp: tail_ok_def)
    then show ?thesis by (simp add: row_ok_def)
  qed
  have "distinct (map tr_id (filter keep (sys_rows s) @ new))"
    using assms by (auto simp: tail_ok_def distinct_map_filter)
  with assms(1) fresh show ?thesis unfolding tail_ok_def same by auto
qed

text \<open>The rows of the window that were not seen are those whose event was never published.\<close>

lemma unseen_unpublished:
  assumes "tail_ok True secs s" and "r \<in> set (window_rows secs now (sys_rows s))" and "sys_time s \<le> now"
    and "a \<le> now" and "retain_seen (a - secs * NANOS_PER_SEC) (known s) (tr_id r) = None"
  shows "tr_id r \<notin> te_id ` set (published_events s)"
proof
  assume p: "tr_id r \<in> te_id ` set (published_events s)"
  from assms(2) have r: "r \<in> set (sys_rows s)" "tr_occurred_at r > now - secs * NANOS_PER_SEC"
    by (simp_all add: set_window_rows)
  with assms(1) have ok: "row_ok True secs s r" by (simp add: tail_ok_def)
  with p r(2) assms(3) obtain t where t: "known s (tr_id r) = Some t" by (auto simp: row_ok_def)
  with ok have "t = tr_occurred_at r" by (simp add: row_ok_def)
  with assms(4,5) t r(2) show False by (simp add: retain_seen_def split: if_splits)
qed

text \<open>After pruning and a poll, what is known is what was known and is young enough, and the window.\<close>

lemma seen_after_Some:
  assumes "distinct (map tr_id rows)" and "r \<in> set rows"
  shows "seen_after seen rows (tr_id r) = (case seen (tr_id r) of None \<Rightarrow> Some (tr_occurred_at r) | z \<Rightarrow> z)"
proof -
  from assms have "map_of (map (\<lambda>r. (tr_id r, tr_occurred_at r)) rows) (tr_id r) = Some (tr_occurred_at r)"
    by (intro map_of_is_SomeI) (auto simp: comp_def)
  then show ?thesis by (auto simp: seen_after_def map_add_def split: option.splits)
qed

lemma seen_after_other: "tr_id r \<notin> tr_id ` set rows \<Longrightarrow> seen_after seen rows (tr_id r) = seen (tr_id r)"
  by (auto simp: seen_after_def map_add_def map_of_eq_None_iff image_image split: option.splits)

lemma dom_seen_after: "dom (seen_after seen rows) = dom seen \<union> tr_id ` set rows"
  by (auto simp: seen_after_def dom_map_of_conv_image_fst image_image)

lemma event_ids: "te_id ` set (List.map_filter row_event rs) \<subseteq> tr_id ` set rs"
  by (induction rs) (auto simp: List.map_filter_simps row_event_id split: option.splits)

lemma event_of_row: "r \<in> set rs \<Longrightarrow> row_event r = Some e \<Longrightarrow> e \<in> set (List.map_filter row_event rs)"
  by (induction rs) (auto simp: List.map_filter_simps split: option.splits)

lemma distinct_events: "distinct (map tr_id rs) \<Longrightarrow> distinct (map te_id (List.map_filter row_event rs))"
proof (induction rs)
  case (Cons r rs)
  then show ?case using event_ids [of rs]
    by (auto simp: List.map_filter_simps row_event_id split: option.splits)
qed (simp add: List.map_filter_simps)

lemma tail_ok_poll:
  assumes "tail_ok ordered secs s" and "poll_once secs (sys_tailer s) v w = (res, st, w')" and "db w = sys_rows s"
    and "ordered \<Longrightarrow> clock v (tick w) \<le> clock v (Suc (tick w)) \<and> sys_time s \<le> clock v (Suc (tick w))"
  shows "tail_ok ordered secs (s\<lparr>sys_tailer := st, sys_time := clock v (Suc (tick w))\<rparr>)"
proof -
  let ?a = "clock v (tick w)" and ?now = "clock v (Suc (tick w))"
  let ?s = "s\<lparr>sys_tailer := st, sys_time := ?now\<rparr>"
  let ?seen = "retain_seen (?a - secs * NANOS_PER_SEC) (known s)"
  from assms(1,3) have d: "distinct (map tr_id (db w))" by (simp add: tail_ok_def)
  have "dom ?seen \<subseteq> dom (known s)" by (auto simp: retain_seen_def split: option.splits if_splits)
  with assms(1) have kept: "dom ?seen \<subseteq> sys_used s" by (simp add: tail_ok_def order_trans)
  have pruned: "tr_occurred_at r \<le> ?now - secs * NANOS_PER_SEC"
    if ordered "r \<in> set (sys_rows s)" "tr_id r \<in> te_id ` set (published_events s)" "?seen (tr_id r) = None" for r
  proof (rule ccontr)
    assume "\<not> ?thesis"
    with that(2) have r: "r \<in> set (window_rows secs ?now (sys_rows s))" by (simp add: set_window_rows)
    from assms(1) that(1) have "tail_ok True secs s" by simp
    from unseen_unpublished [OF this r _ _ that(4)] that(1,3) assms(4) show False by simp
  qed
  have old: "t = tr_occurred_at r \<and> (\<forall>e. row_event r = Some e \<longrightarrow> e \<in> set (published_events s))"
    if "r \<in> set (sys_rows s)" "?seen (tr_id r) = Some t" for r t
    using assms(1) that by (auto simp: tail_ok_def row_ok_def retain_seen_def split: option.splits if_splits)
  from assms(2) d show ?thesis
  proof (cases rule: poll_once_cases)
    case (failed e)
    then have p: "published_events ?s = published_events s" "known ?s = ?seen" by (simp_all add: sys_parts)
    have "row_ok ordered secs ?s r" if "r \<in> set (sys_rows s)" for r
      unfolding row_ok_def p using old [OF that] pruned [OF _ that] by auto
    with assms(1) kept show ?thesis unfolding tail_ok_def p by simp
  next
    case (polled rows seen evs)
    let ?new = "new_rows ?seen rows"
    have rows: "rows = window_rows secs ?now (sys_rows s)" and seen: "seen = ?seen"
      and evs: "evs = List.map_filter row_event ?new" using polled assms(3) by (simp_all add: known_def)
    have p: "published_events ?s = published_events s @ evs" "known ?s = seen_after ?seen rows"
      using polled seen by (simp_all add: sys_parts)
    have dr: "distinct (map tr_id rows)" using d assms(3) by (simp add: rows distinct_window_rows)
    then have dn: "distinct (map tr_id ?new)" by (simp add: new_rows_def distinct_map_filter)
    have sub: "set rows \<subseteq> set (sys_rows s)" by (auto simp: rows set_window_rows)
    have new: "tr_id r \<notin> te_id ` set (published_events s)" if ordered "r \<in> set ?new" for r
    proof -
      from assms(1) that(1) have "tail_ok True secs s" by simp
      from unseen_unpublished [OF this, of r ?now ?a] that assms(4) show ?thesis by (auto simp: new_rows_def rows)
    qed
    have ids: "te_id ` set evs \<subseteq> tr_id ` set ?new" unfolding evs by (rule event_ids)
    have "x \<notin> te_id ` set (published_events s)" if ordered "x \<in> te_id ` set evs" for x
    proof -
      from subsetD [OF ids that(2)] obtain r where "x = tr_id r" "r \<in> set ?new" by (rule imageE)
      with new that(1) show ?thesis by simp
    qed
    then have "te_id ` set (published_events s) \<inter> te_id ` set evs = {}" if ordered
      using that by (auto simp only: disjoint_iff)
    then have dp: "ordered \<longrightarrow> distinct (map te_id (published_events s @ evs))"
      using assms(1) distinct_events [OF dn] by (simp add: tail_ok_def evs)
    have rows_used: "tr_id ` set rows \<subseteq> sys_used s"
      using image_mono [OF sub, of tr_id] assms(1) by (simp add: tail_ok_def order_trans)
    have "tr_id ` set ?new \<subseteq> tr_id ` set rows" by (auto simp: new_rows_def)
    with ids rows_used have "te_id ` set evs \<subseteq> sys_used s" by (meson order_trans)
    with rows_used have used: "te_id ` set (published_events s @ evs) \<subseteq> sys_used s" "dom (seen_after ?seen rows) \<subseteq> sys_used s"
      using assms(1) kept by (auto simp: tail_ok_def dom_seen_after)
    have "row_ok ordered secs ?s r" if r: "r \<in> set (sys_rows s)" for r
    proof (cases "r \<in> set rows")
      case True
      note k = seen_after_Some [OF dr True, of ?seen]
      show ?thesis
      proof (cases "?seen (tr_id r)")
        case None
        with True have "r \<in> set ?new" by (simp add: new_rows_def)
        then have "\<forall>e. row_event r = Some e \<longrightarrow> e \<in> set evs" by (auto simp: evs event_of_row)
        with k None show ?thesis unfolding row_ok_def p by simp
      next
        case (Some t)
        with k old [OF r Some] show ?thesis unfolding row_ok_def p by simp
      qed
    next
      case False
      have nr: "tr_id r \<notin> tr_id ` set rows"
      proof
        assume "tr_id r \<in> tr_id ` set rows"
        then obtain r' where "r' \<in> set rows" "tr_id r' = tr_id r" by auto
        with sub r False assms(1) distinct_key_unique [of tr_id "sys_rows s" r' r] show False
          by (auto simp: tail_ok_def)
      qed
      then have "tr_id r \<notin> te_id ` set evs" using ids by (auto simp: new_rows_def)
      with seen_after_other [OF nr, of ?seen] old [OF r] pruned [OF _ r] show ?thesis
        unfolding row_ok_def p by auto
    qed
    with assms(1) dp used show ?thesis unfolding tail_ok_def p by simp
  qed
qed

lemma tail_ok_step: "tail_step ordered secs s s' \<Longrightarrow> tail_ok ordered secs s \<Longrightarrow> tail_ok ordered secs s'"
proof (induction rule: tail_step.induct)
  case (commit new s keep)
  then show ?case by (intro tail_ok_commit)
next
  case (poll s v w res st w')
  then show ?case by (intro tail_ok_poll)
qed

lemma tail_ok_steps: "(tail_step ordered secs)\<^sup>*\<^sup>* s0 s \<Longrightarrow> tail_ok ordered secs s0 \<Longrightarrow> tail_ok ordered secs s"
  by (induction rule: rtranclp_induct) (auto intro: tail_ok_step)

definition tail_start :: "tail_row list \<Rightarrow> uuid set \<Rightarrow> time \<Rightarrow> tail_sys" where
  "tail_start rows used t = \<lparr>sys_rows = rows, sys_used = used, sys_time = t,
     sys_tailer = \<lparr>tl_seen = (\<lambda>_. None), tl_registry = registry_new\<rparr>\<rparr>"

text \<open>C26: what the tailer publishes beside the writers, whatever commits and deletions happen between the polls
  and whichever polls fail.  A poll that succeeds leaves no row of its window behind, whatever the clocks read:
  every row the query can see that carries a well-formed bus event has been published by the end of it, and
  nothing is published that is not the event of a row.  In an ordered run, that is as long as the database clock of
  a poll is neither behind the process clock of the same poll nor behind an earlier reading of it, no row is
  ever published twice.  Without this hypothesis on the two clocks a row can be published twice
  (\<open>skewed_clocks_republish\<close>), and a row that leaves the window between two polls is never published
  (\<open>stalled_tailer_skips\<close>).\<close>

theorem tailer_publication:
  assumes "(tail_step ordered secs)\<^sup>*\<^sup>* (tail_start rows used t) s" and "distinct (map tr_id rows)" and "tr_id ` set rows \<subseteq> used"
    and "poll_once secs (sys_tailer s) v (w :: (tail_row list, unit) world) = (Inr n, st, w')" and "db w = sys_rows s"
  shows "(\<forall>r\<in>set (sys_rows s). \<forall>e. tr_occurred_at r > clock v (Suc (tick w)) - secs * NANOS_PER_SEC \<and> row_event r = Some e \<longrightarrow>
       e \<in> set (reg_sent (tl_registry st))) \<and>
    (\<exists>evs. reg_sent (tl_registry st) = reg_sent (tl_registry (sys_tailer s)) @ evs \<and> n = length evs \<and>
       set evs \<subseteq> {e. \<exists>r\<in>set (sys_rows s). row_event r = Some e} \<and> distinct (map te_id evs)) \<and>
    (ordered \<and> clock v (tick w) \<le> clock v (Suc (tick w)) \<and> sys_time s \<le> clock v (Suc (tick w)) \<longrightarrow>
       distinct (map te_id (reg_sent (tl_registry st))))"
proof -
  have ok: "tail_ok ordered secs s"
    by (rule tail_ok_steps [OF assms(1)]) (simp add: tail_start_def tail_ok_init assms(2,3))
  then have loose: "tail_ok False secs s" by (auto simp: tail_ok_def row_ok_def)
  let ?s = "s\<lparr>sys_tailer := st, sys_time := clock v (Suc (tick w))\<rparr>"
  note ok' = tail_ok_poll [OF loose assms(4,5)]
  from ok assms(5) have d: "distinct (map tr_id (db w))" by (simp add: tail_ok_def)
  have "e \<in> set (reg_sent (tl_registry st))"
    if r: "r \<in> set (sys_rows s)" "tr_occurred_at r > clock v (Suc (tick w)) - secs * NANOS_PER_SEC" "row_event r = Some e" for r e
  proof -
    have "known ?s (tr_id r) \<noteq> None"
      using assms(4) d
    proof (cases rule: poll_once_cases)
      case (polled rows' seen evs)
      with r(1,2) assms(5) have "r \<in> set rows'" by (simp add: set_window_rows)
      with seen_after_Some [of rows' r seen] distinct_window_rows [OF d] polled show ?thesis
        by (auto simp: known_def split: option.splits)
    qed simp
    with ok' r(1,3) show ?thesis by (auto simp: tail_ok_def row_ok_def sys_parts)
  qed
  moreover have "\<exists>evs. reg_sent (tl_registry st) = reg_sent (tl_registry (sys_tailer s)) @ evs \<and> n = length evs \<and>
       set evs \<subseteq> {e. \<exists>r\<in>set (sys_rows s). row_event r = Some e} \<and> distinct (map te_id evs)"
    using assms(4) d
  proof (cases rule: poll_once_cases)
    case (polled rows' seen evs)
    have "distinct (map tr_id (new_rows seen rows'))"
      using distinct_window_rows [OF d] by (simp add: polled(1) new_rows_def distinct_map_filter)
    moreover have "set (new_rows seen rows') \<subseteq> set (sys_rows s)"
      using assms(5) by (auto simp: polled(1) new_rows_def set_window_rows)
    ultimately show ?thesis using polled
      by (intro exI [of _ evs]) (auto simp: distinct_events, auto simp: List.map_filter_def)
  qed simp
  moreover have "distinct (map te_id (reg_sent (tl_registry st)))"
    if "ordered \<and> clock v (tick w) \<le> clock v (Suc (tick w)) \<and> sys_time s \<le> clock v (Suc (tick w))"
    using tail_ok_poll [OF ok assms(4,5)] that by (simp add: tail_ok_def sys_parts)
  ultimately show ?thesis by blast
qed

section \<open>What the bus envelope becomes\<close>

text \<open>An event staged by \<open>stage_bus_event\<close> is extracted as it was meant, unless its channel key breaks the grammar;
  keys built by the constructors keep the grammar when the model name and the text of the uuid do.\<close>

lemma extract_envelope:
  "extract_event i t (bus_envelope ch mt pl) =
     (if valid_channel_key ch
      then Some \<lparr>te_id = i, te_channel = ch, te_message_type = mt, te_payload = pl, te_occurred_at = t\<rparr> else None)"
  by (simp add: extract_event_def bus_envelope_def)

lemma record_channel_valid:
  assumes "list_all is_key_byte m" and "list_all is_key_byte (U r)" and "length m + length (U r) \<le> 127"
  shows "valid_channel_key (record_channel U m r)"
  using assms by (simp add: valid_channel_key_def record_channel_def is_key_byte_def [of "CHR ''_''"])

lemma parse_record_channel:
  assumes "uuid_format U" and "parse_str (U r) = Some r"
  shows "parse_record_key parse_str (record_channel U m r) = Some (m, r)"
  using record_channel_split [OF assms(1), of m r] assms(2) by (simp add: parse_record_key_def)

section \<open>What the overlap does not cover\<close>

definition sample_tail_row :: "uuid \<Rightarrow> time \<Rightarrow> tail_row" where
  "sample_tail_row i t = \<lparr>tr_id = i, tr_occurred_at = t,
     tr_payload = bus_envelope ''res.partner_1'' ''mail.message/insert'' (JNumber 1)\<rparr>"

definition fresh_tailer :: tailer where
  "fresh_tailer = \<lparr>tl_seen = (\<lambda>_. None), tl_registry = registry_new\<rparr>"

text \<open>The poll that starts at tick \<open>n\<close>, with the process clock \<open>a\<close> and the database clock \<open>b\<close>, in seconds.\<close>

definition poll_env :: "int \<Rightarrow> int \<Rightarrow> nat \<Rightarrow> env" where
  "poll_env a b n = plain_env\<lparr>clock := (\<lambda>k. (if k = n then a else b) * NANOS_PER_SEC)\<rparr>"

definition rows_world :: "nat \<Rightarrow> tail_row list \<Rightarrow> (tail_row list, unit) world" where
  "rows_world n rows = \<lparr>db = rows, tick = n, aborted = False, tx_start = 0, trace = []\<rparr>"

definition poll_at :: "int \<Rightarrow> int \<Rightarrow> tail_row list \<Rightarrow> tailer \<Rightarrow> (db_error + nat) \<times> tailer \<times> (tail_row list, unit) world" where
  "poll_at a b rows st = poll_once 55 st (poll_env a b 0) (rows_world 0 rows)"

definition sent_after :: "(db_error + nat) \<times> tailer \<times> (tail_row list, unit) world \<Rightarrow> uuid list" where
  "sent_after p = map te_id (reg_sent (tl_registry (fst (snd p))))"

text \<open>A replica that stalls for longer than the window never publishes the rows that meanwhile fell out of it,
  although every poll succeeds.\<close>

lemma stalled_tailer_skips:
  "fst (poll_at 0 0 [] fresh_tailer) = Inr 0 \<and>
   sent_after (poll_at 100 100 [sample_tail_row 1 (10 * NANOS_PER_SEC)] (fst (snd (poll_at 0 0 [] fresh_tailer)))) = [] \<and>
   row_event (sample_tail_row 1 (10 * NANOS_PER_SEC)) \<noteq> None"
  by code_simp

text \<open>With the process clock ahead of the database clock a row is pruned while the query still returns it, and
  is published twice.\<close>

lemma skewed_clocks_republish:
  "sent_after (poll_at 60 54 [sample_tail_row 1 0] (fst (snd (poll_at 0 0 [sample_tail_row 1 0] fresh_tailer)))) = [1, 1]"
  by code_simp

section \<open>A concrete run\<close>

definition tail_sys0 :: tail_sys where
  "tail_sys0 = tail_start [sample_tail_row 1 0] {1} 0"

definition tail_poll1 :: "(db_error + nat) \<times> tailer \<times> (tail_row list, unit) world" where
  "tail_poll1 = poll_at 0 0 [sample_tail_row 1 0] fresh_tailer"

definition tail_sys1 :: tail_sys where
  "tail_sys1 = tail_sys0\<lparr>sys_tailer := fst (snd tail_poll1), sys_time := 0\<rparr>"

definition tail_sys2 :: tail_sys where
  "tail_sys2 = tail_sys1\<lparr>sys_rows := filter (\<lambda>_. True) (sys_rows tail_sys1) @ [sample_tail_row 2 5],
     sys_used := sys_used tail_sys1 \<union> set (map tr_id [sample_tail_row 2 5])\<rparr>"

definition tail_poll2 :: "(db_error + nat) \<times> tailer \<times> (tail_row list, unit) world" where
  "tail_poll2 = poll_at 3 4 [sample_tail_row 1 0, sample_tail_row 2 5] (sys_tailer tail_sys2)"

lemma tail_run: "(tail_step True 55)\<^sup>*\<^sup>* (tail_start [sample_tail_row 1 0] {1} 0) tail_sys2"
proof -
  have "poll_once 55 (sys_tailer tail_sys0) (poll_env 0 0 0) (rows_world 0 [sample_tail_row 1 0]) =
      (fst tail_poll1, fst (snd tail_poll1), snd (snd tail_poll1))"
    by (simp add: tail_poll1_def poll_at_def tail_sys0_def tail_start_def fresh_tailer_def)
  from tail_step.poll [OF this] have 1: "tail_step True 55 tail_sys0 tail_sys1"
    by (simp add: tail_sys1_def tail_sys0_def tail_start_def rows_world_def poll_env_def)
  have "tail_step True 55 tail_sys1 tail_sys2"
    unfolding tail_sys2_def
    by (rule tail_step.commit) (simp_all add: tail_sys1_def tail_sys0_def tail_start_def sample_tail_row_def)
  with 1 show ?thesis unfolding tail_sys0_def [symmetric] by (meson rtranclp.rtrancl_refl rtranclp.rtrancl_into_rtrancl)
qed

lemma tailer_publication_witness:
  "fst tail_poll2 = Inr 1 \<and> distinct (map te_id (reg_sent (tl_registry (fst (snd tail_poll2))))) \<and>
   the (row_event (sample_tail_row 2 5)) \<in> set (reg_sent (tl_registry (fst (snd tail_poll2))))"
proof -
  have f: "fst tail_poll2 = Inr 1" by code_simp
  then have p: "poll_once 55 (sys_tailer tail_sys2) (poll_env 3 4 0) (rows_world 0 [sample_tail_row 1 0, sample_tail_row 2 5]) =
      (Inr 1, fst (snd tail_poll2), snd (snd tail_poll2))"
    by (simp add: tail_poll2_def poll_at_def prod_eq_iff)
  have rows: "sys_rows tail_sys2 = [sample_tail_row 1 0, sample_tail_row 2 5]" and t: "sys_time tail_sys2 = 0"
    by (simp_all add: tail_sys2_def tail_sys1_def tail_sys0_def tail_start_def)
  have e: "row_event (sample_tail_row 2 5) = Some (the (row_event (sample_tail_row 2 5)))" by code_simp
  from tailer_publication [OF tail_run _ _ p] rows t e f show ?thesis
    by (simp add: rows_world_def poll_env_def NANOS_PER_SEC_def sample_tail_row_def [of _ 5] sample_tail_row_def [of _ 0])
qed

end
