(* ===== verification/Wire.thy ===== *)
theory Wire
  imports Acl
begin

text \<open>
  Requests and responses at the edge, and the two middlewares that resolve who calls:
  \<open>src/presentation/middleware/user_scope.rs\<close> (a bearer token to a partner) and
  \<open>src/presentation/middleware/guest_context.rs\<close> (the wire identity).

  A header is what \<open>HeaderMap::get\<close> and \<open>to_str\<close> give for its name: absent or not text is \<open>None\<close>.  The
  validation of a token is the crate \<open>backbone_auth\<close>'s (\<open>jwt\<close> gives the subject of a valid token), the parse of
  a uuid the crate \<open>uuid\<close>'s (\<open>parse\<close>); both are parameters.
\<close>

section \<open>Requests and responses\<close>

datatype WireIdentity = Identified MessagingIdentity | Anonymous

record Request =
  req_header :: "string \<Rightarrow> string option"
  ext_partner :: "uuid option"
  ext_admin :: "bool option"
  ext_identity :: "WireIdentity option"

datatype response_body = JsonBody json | TextBody string

record Response =
  res_status :: nat
  res_body :: response_body
  res_cookie :: "string option"

definition json_response :: "nat \<Rightarrow> json \<Rightarrow> Response" where
  "json_response st j = \<lparr>res_status = st, res_body = JsonBody j, res_cookie = None\<rparr>"

definition json_err :: "string \<Rightarrow> json" where
  "json_err msg = JObject [(''error'', JString msg)]"

definition ok_json :: "json \<Rightarrow> Response" where
  "ok_json j = json_response 200 j"

definition unauthorized :: Response where
  "unauthorized = json_response 401 (JObject [(''error'', JString ''authentication required'')])"

definition forbidden :: "string \<Rightarrow> Response" where
  "forbidden reason = json_response 403 (JObject [(''error'', JString reason)])"

definition invalid_token :: Response where
  "invalid_token = \<lparr>res_status = 401, res_body = TextBody ''invalid or expired bearer token'', res_cookie = None\<rparr>"

definition wire_identity :: "WireIdentity \<Rightarrow> MessagingIdentity option" where
  "wire_identity w = (case w of Identified i \<Rightarrow> Some i | Anonymous \<Rightarrow> None)"

definition wire_partner_id :: "WireIdentity \<Rightarrow> uuid option" where
  "wire_partner_id w = Option.bind (wire_identity w) identity_partner_id"

definition wire_is_guest :: "WireIdentity \<Rightarrow> bool" where
  "wire_is_guest w \<longleftrightarrow> (case wire_identity w of Some (Guest g) \<Rightarrow> True | _ \<Rightarrow> False)"

definition require_identity :: "WireIdentity \<Rightarrow> Response + MessagingIdentity" where
  "require_identity w = (case wire_identity w of None \<Rightarrow> Inl unauthorized | Some i \<Rightarrow> Inr i)"

section \<open>The middlewares\<close>

definition strip_prefix :: "string \<Rightarrow> string \<Rightarrow> string option" where
  "strip_prefix p s = (if prefix p s then Some (drop (length p) s) else None)"

fun find_map :: "('a \<Rightarrow> 'b option) \<Rightarrow> 'a list \<Rightarrow> 'b option" where
  "find_map f [] = None"
| "find_map f (x # xs) = (case f x of Some y \<Rightarrow> Some y | None \<Rightarrow> find_map f xs)"

record UserScope =
  jwt :: "string \<Rightarrow> string option"
  admin_partners :: "uuid list"

definition scope_is_admin :: "UserScope \<Rightarrow> uuid \<Rightarrow> bool" where
  "scope_is_admin scope partner \<longleftrightarrow> list_ex (\<lambda>p. p = partner) (admin_partners scope)"

text \<open>\<open>Inl\<close>: the middleware answers itself; \<open>Inr\<close>: the request goes on.\<close>

definition user_scope :: "(string \<Rightarrow> uuid option) \<Rightarrow> UserScope \<Rightarrow> Request \<Rightarrow> Response + Request" where
  "user_scope parse scope req =
     (case Option.bind (req_header req ''authorization'') (strip_prefix ''Bearer '') of
        None \<Rightarrow> Inr req
      | Some token \<Rightarrow>
          (case jwt scope token of
             None \<Rightarrow> Inl invalid_token
           | Some sub \<Rightarrow>
               (case parse sub of
                  None \<Rightarrow> Inl invalid_token
                | Some partner \<Rightarrow>
                    Inr (req\<lparr>ext_partner := Some partner, ext_admin := Some (scope_is_admin scope partner)\<rparr>))))"

definition dgid_cookie :: "string \<Rightarrow> string option" where
  "dgid_cookie cookies =
     find_map (\<lambda>c. case strip_prefix ''dgid='' c of
                     Some v \<Rightarrow> if v \<noteq> [] then Some v else None
                   | None \<Rightarrow> None)
       (map trim (split_char (CHR '';'') cookies))"

definition guest_context :: "(string \<Rightarrow> uuid option) \<Rightarrow> Request \<Rightarrow> Request" where
  "guest_context parse req0 =
     (let req = (if ext_admin req0 = None then req0\<lparr>ext_admin := Some False\<rparr> else req0)
      in case ext_partner req of
           Some partner_id \<Rightarrow> req\<lparr>ext_identity := Some (Identified (User partner_id))\<rparr>
         | None \<Rightarrow>
             (case Option.bind (Option.bind (req_header req ''cookie'') dgid_cookie) parse of
                Some guest_id \<Rightarrow> req\<lparr>ext_identity := Some (Identified (Guest guest_id))\<rparr>
              | None \<Rightarrow> req\<lparr>ext_identity := Some Anonymous\<rparr>))"

text \<open>The stack of the guarded surface: a fresh request through both.\<close>

definition fresh_request :: "(string \<Rightarrow> string option) \<Rightarrow> Request" where
  "fresh_request h = \<lparr>req_header = h, ext_partner = None, ext_admin = None, ext_identity = None\<rparr>"

definition resolve_request ::
  "(string \<Rightarrow> uuid option) \<Rightarrow> UserScope \<Rightarrow> (string \<Rightarrow> string option) \<Rightarrow> Response + Request" where
  "resolve_request parse scope h =
     (case user_scope parse scope (fresh_request h) of
        Inl r \<Rightarrow> Inl r
      | Inr req \<Rightarrow> Inr (guest_context parse req))"

section \<open>Who is let in as whom\<close>

definition bearer :: "(string \<Rightarrow> string option) \<Rightarrow> string option" where
  "bearer h = Option.bind (h ''authorization'') (strip_prefix ''Bearer '')"

text \<open>C30: the edge lets nobody pass as a partner without a valid token.  A request resolves to a partner exactly
  when its bearer token is valid and names that partner, and has the admin flag only when that partner is on
  the list; a bearer token that is not valid is answered 401 and never falls to a guest; a guest is
  whoever presents the guest's id in the cookie; and every request that goes on has an identity and a flag.\<close>

theorem identity_resolution:
  "case resolve_request parse scope h of
     Inl r \<Rightarrow> r = invalid_token \<and> (\<exists>t. bearer h = Some t \<and> Option.bind (jwt scope t) parse = None)
   | Inr req \<Rightarrow>
       (\<forall>p. ext_identity req = Some (Identified (User p)) \<longleftrightarrow>
          (\<exists>t sub. bearer h = Some t \<and> jwt scope t = Some sub \<and> parse sub = Some p)) \<and>
       (\<forall>g. ext_identity req = Some (Identified (Guest g)) \<longleftrightarrow>
          bearer h = None \<and> (\<exists>cs v. h ''cookie'' = Some cs \<and> dgid_cookie cs = Some v \<and> parse v = Some g)) \<and>
       ext_identity req \<noteq> None \<and>
       (\<exists>b. ext_admin req = Some b \<and>
          (b \<longrightarrow> (\<exists>p. ext_identity req = Some (Identified (User p)) \<and> p \<in> set (admin_partners scope))))"
  by (cases "bearer h"; cases "Option.bind (h ''cookie'') dgid_cookie")
    (auto simp: resolve_request_def user_scope_def guest_context_def fresh_request_def Let_def bearer_def
      scope_is_admin_def list_ex_iff split: option.splits bind_splits)

section \<open>A concrete request\<close>

definition sample_scope :: UserScope where
  "sample_scope = \<lparr>jwt = (\<lambda>t. if t = ''good'' then Some ''u7'' else None), admin_partners = [7]\<rparr>"

definition sample_parse :: "string \<Rightarrow> uuid option" where
  "sample_parse s = (if s = ''u7'' then Some 7 else if s = ''g9'' then Some 9 else None)"

definition sample_headers :: "string \<Rightarrow> string option" where
  "sample_headers n = (if n = ''authorization'' then Some ''Bearer good'' else if n = ''cookie'' then Some ''a=b; dgid=g9'' else None)"

lemma identity_resolution_witness:
  "\<exists>req. resolve_request sample_parse sample_scope sample_headers = Inr req \<and>
     ext_identity req = Some (Identified (User 7)) \<and> ext_admin req = Some True \<and> 7 \<in> set (admin_partners sample_scope)"
proof -
  obtain req where r: "resolve_request sample_parse sample_scope sample_headers = Inr req"
    and a: "ext_admin req = Some True"
    by (simp add: resolve_request_def user_scope_def guest_context_def fresh_request_def bearer_def Let_def sample_scope_def
        sample_headers_def sample_parse_def strip_prefix_def scope_is_admin_def)
  have "\<exists>t sub. bearer sample_headers = Some t \<and> jwt sample_scope t = Some sub \<and> sample_parse sub = Some 7"
    by (simp add: bearer_def sample_headers_def strip_prefix_def sample_scope_def sample_parse_def)
  with identity_resolution [where parse = sample_parse and scope = sample_scope and h = sample_headers] r a show ?thesis by auto metis
qed

end
