(* ===== verification/Stream.thy ===== *)
theory Stream
  imports Realtime Queries Hex Wire
begin

text \<open>
  The stream a client holds: \<open>src/realtime/session.rs\<close> (the proof of a live connection) and
  \<open>src/realtime/sse.rs\<close> (admission, replay, the per-connection allowlist).

  HMAC-SHA256 and base64 are other crates: the record \<open>crypto\<close> holds the functions the code calls.
  \<open>base64_ok\<close> is what it relies on of the encoding (a decoder inverts it, and its alphabet has no dot).
  Identities are bound by \<open>identity_key\<close>.
\<close>

section \<open>The session proof\<close>

record crypto =
  hmac_sha256 :: "bytes \<Rightarrow> bytes \<Rightarrow> bytes"
  b64 :: "bytes \<Rightarrow> string"
  ub64 :: "string \<Rightarrow> bytes option"

definition base64_ok :: "crypto \<Rightarrow> bool" where
  "base64_ok C \<longleftrightarrow> (\<forall>x. ub64 C (b64 C x) = Some x \<and> CHR ''.'' \<notin> set (b64 C x))"

definition as_bytes :: "string \<Rightarrow> bytes" where
  "as_bytes s = map (\<lambda>c. of_nat (byte_of c)) s"

definition of_bytes :: "bytes \<Rightarrow> string" where
  "of_bytes bs = map (\<lambda>b. char_of (unat b)) bs"

definition SESSION_TTL_SECS :: int where
  "SESSION_TTL_SECS = 3600"

text \<open>\<open>DateTime::timestamp\<close>: whole seconds.\<close>

definition timestamp :: "time \<Rightarrow> int" where
  "timestamp t = t div NANOS_PER_SEC"

definition session_payload :: "string \<Rightarrow> int \<Rightarrow> string" where
  "session_payload i exp = i @ ''|'' @ int_text exp"

definition mint_session_token ::
  "(uuid \<Rightarrow> string) \<Rightarrow> crypto \<Rightarrow> bytes \<Rightarrow> MessagingIdentity \<Rightarrow> int \<Rightarrow> time \<Rightarrow> string" where
  "mint_session_token U C secret identity ttl_secs now =
     (let i = identity_key U identity;
          exp = timestamp now + ttl_secs;
          sig = hmac_sha256 C secret (as_bytes (session_payload i exp))
      in b64 C (as_bytes i) @ ''.'' @ b64 C (as_bytes (int_text exp)) @ ''.'' @ b64 C sig)"

definition session_const_eq :: "bytes \<Rightarrow> bytes \<Rightarrow> bool" where
  "session_const_eq a b \<longleftrightarrow> length a = length b \<and> const_eq_diff 0 a b = 0"

text \<open>Text that is not UTF-8 is refused by \<open>String::from_utf8\<close>; it would be refused by the comparison with the
  key, or by the parse of the number, as well, so the bytes are taken as they are.\<close>

definition verify_session_token ::
  "(uuid \<Rightarrow> string) \<Rightarrow> crypto \<Rightarrow> bytes \<Rightarrow> string \<Rightarrow> MessagingIdentity \<Rightarrow> time \<Rightarrow> bool" where
  "verify_session_token U C secret token identity now =
     (case split_char (CHR ''.'') token of
        [id_b64, exp_b64, sig_b64] \<Rightarrow>
          (case (ub64 C id_b64, ub64 C exp_b64, ub64 C sig_b64) of
             (Some id_raw, Some exp_raw, Some sig_given) \<Rightarrow>
               of_bytes id_raw = identity_key U identity \<and>
               (case parse_i64 (of_bytes exp_raw) of
                  None \<Rightarrow> False
                | Some exp \<Rightarrow> \<not> timestamp now > exp \<and>
                    session_const_eq (hmac_sha256 C secret (as_bytes (session_payload (of_bytes id_raw) exp))) sig_given)
           | _ \<Rightarrow> False)
      | _ \<Rightarrow> False)"

lemma of_as_bytes [simp]: "of_bytes (as_bytes s) = s"
proof -
  have "char_of (unat (of_nat (byte_of c) :: 8 word)) = c" for c
    by (simp add: byte_of_def unat_of_nat take_bit_eq_mod)
  then show ?thesis by (simp add: of_bytes_def as_bytes_def comp_def)
qed

lemma session_const_eq_iff: "session_const_eq a b \<longleftrightarrow> a = b"
  by (auto simp: session_const_eq_def const_eq_diff_zero)

lemma identity_key_inj: "inj U \<Longrightarrow> identity_key U i = identity_key U j \<longleftrightarrow> i = j"
  by (cases i; cases j) (auto simp: inj_eq)

lemma split_three:
  assumes "d \<notin> set a" and "d \<notin> set b" and "d \<notin> set c"
  shows "split_char d (a @ d # b @ d # c) = [a, b, c]"
  using assms by (simp add: split_char_append_sep split_char_no_sep)

text \<open>C27: a session proof is good for its identity until it expires, and for nothing else.  What is minted
  verifies for the same identity and secret as long as the clock has not passed its expiry; and whatever
  token verifies for an identity carries the MAC of that identity with an expiry that has not passed, so no
  token verifies for two identities.\<close>

theorem session_proof:
  assumes "base64_ok C" and "inj U"
  shows "(timestamp now' \<le> timestamp now + ttl \<and> - (2 ^ 63) \<le> timestamp now + ttl \<and> timestamp now + ttl < 2 ^ 63 \<longrightarrow>
      verify_session_token U C secret (mint_session_token U C secret i ttl now) i now') \<and>
    (verify_session_token U C secret token i now' \<longrightarrow>
      (\<exists>exp. timestamp now' \<le> exp \<and>
         ub64 C (last (split_char (CHR ''.'') token)) =
           Some (hmac_sha256 C secret (as_bytes (session_payload (identity_key U i) exp)))) \<and>
      (\<forall>j s t. verify_session_token U C s token j t \<longrightarrow> j = i))"
proof (intro conjI impI allI)
  assume "timestamp now' \<le> timestamp now + ttl \<and> - (2 ^ 63) \<le> timestamp now + ttl \<and> timestamp now + ttl < 2 ^ 63"
  with assms(1) show "verify_session_token U C secret (mint_session_token U C secret i ttl now) i now'"
    by (simp add: verify_session_token_def mint_session_token_def Let_def split_three base64_ok_def parse_i64_text
        session_const_eq_iff)
next
  assume "verify_session_token U C secret token i now'"
  then show "\<exists>exp. timestamp now' \<le> exp \<and>
      ub64 C (last (split_char (CHR ''.'') token)) =
        Some (hmac_sha256 C secret (as_bytes (session_payload (identity_key U i) exp)))"
    by (fastforce simp: verify_session_token_def session_const_eq_iff not_less split: list.splits option.splits)
next
  fix j s t
  assume "verify_session_token U C secret token i now'" "verify_session_token U C s token j t"
  then have "identity_key U i = identity_key U j"
    by (auto simp: verify_session_token_def split: list.splits option.splits)
  with assms(2) show "j = i" by (simp add: identity_key_inj)
qed

section \<open>The allowlist of a connection\<close>

definition MAX_STREAMS_PER_IDENTITY :: nat where
  "MAX_STREAMS_PER_IDENTITY = 4"

definition MAX_MEMBERSHIP_CHANNELS :: nat where
  "MAX_MEMBERSHIP_CHANNELS = 64"

record Allowlist =
  allow_own :: string
  allow_membership :: "string list"

fun allow_loop :: "(uuid \<Rightarrow> string) \<Rightarrow> string list \<Rightarrow> uuid list \<Rightarrow> string list" where
  "allow_loop U acc [] = acc"
| "allow_loop U acc (i # ids) =
     (if length acc \<ge> MAX_MEMBERSHIP_CHANNELS then acc else allow_loop U (List.insert (discuss_channel U i) acc) ids)"

text \<open>A lookup that fails leaves the membership empty.\<close>

definition allow_build :: "(uuid \<Rightarrow> string) \<Rightarrow> MessagingIdentity \<Rightarrow> db_error + uuid list \<Rightarrow> Allowlist" where
  "allow_build U identity ids =
     \<lparr>allow_own = identity_channel U identity,
      allow_membership = (case ids of Inr is \<Rightarrow> allow_loop U [] is | Inl e \<Rightarrow> [])\<rparr>"

definition permits ::
  "(string \<Rightarrow> uuid option) \<Rightarrow> ThreadAclSlot \<Rightarrow> MessagingIdentity \<Rightarrow> Allowlist \<Rightarrow> db \<Rightarrow> TailedEvent \<Rightarrow> bool" where
  "permits parse acl identity allow d event \<longleftrightarrow>
     (if te_channel event = allow_own allow then True
      else if te_channel event \<in> set (allow_membership allow) then True
      else case parse_record_key parse (te_channel event) of
             Some (model, res_id) \<Rightarrow> can_read (slot_resolver acl) d identity model res_id
           | None \<Rightarrow> False)"

section \<open>The stream\<close>

datatype frame =
    SessionFrame string
  | EventFrame TailedEvent

text \<open>What \<open>recv\<close> of the broadcast receiver answers.\<close>

datatype received =
    Event TailedEvent
  | Lagged nat
  | Closed

text \<open>The task that feeds the client.  Each input comes with the database the resolver sees at that moment;
  \<open>gone n\<close> says that the client is gone when the frame number \<open>n\<close> is sent.\<close>

fun forward_live ::
  "(db \<Rightarrow> TailedEvent \<Rightarrow> bool) \<Rightarrow> (nat \<Rightarrow> bool) \<Rightarrow> nat \<Rightarrow> (db \<times> received) list \<Rightarrow> frame list" where
  "forward_live allowed gone n [] = []"
| "forward_live allowed gone n ((d, Event e) # rs) =
     (if allowed d e
      then (if gone n then [] else EventFrame e # forward_live allowed gone (Suc n) rs)
      else forward_live allowed gone n rs)"
| "forward_live allowed gone n ((d, Lagged k) # rs) = forward_live allowed gone n rs"
| "forward_live allowed gone n ((d, Closed) # rs) = []"

fun forward_replay ::
  "(db \<Rightarrow> TailedEvent \<Rightarrow> bool) \<Rightarrow> (nat \<Rightarrow> bool) \<Rightarrow> nat \<Rightarrow> (db \<times> TailedEvent) list \<Rightarrow> (db \<times> received) list \<Rightarrow> frame list" where
  "forward_replay allowed gone n [] rs = forward_live allowed gone n rs"
| "forward_replay allowed gone n ((d, e) # es) rs =
     (if allowed d e
      then (if gone n then [] else EventFrame e # forward_replay allowed gone (Suc n) es rs)
      else forward_replay allowed gone n es rs)"

definition stream_task ::
  "string \<Rightarrow> (db \<Rightarrow> TailedEvent \<Rightarrow> bool) \<Rightarrow> (nat \<Rightarrow> bool) \<Rightarrow> (db \<times> TailedEvent) list \<Rightarrow> (db \<times> received) list \<Rightarrow> frame list" where
  "stream_task proof_token allowed gone replay live =
     (if gone 0 then [] else SessionFrame proof_token # forward_replay allowed gone 1 replay live)"

text \<open>Admission: a slot is reserved, the watermark read, the replay taken, then the feed subscribed.\<close>

definition watermark :: "(string \<Rightarrow> uuid option) \<Rightarrow> Request \<Rightarrow> uuid option" where
  "watermark parse req = Option.bind (req_header req ''last-event-id'') parse"

definition too_many_streams :: Response where
  "too_many_streams = json_response 429
     (json_err (''too many concurrent streams for this identity (max '' @ nat_text MAX_STREAMS_PER_IDENTITY @ '')''))"

definition stream_admit ::
  "(uuid \<Rightarrow> string) \<Rightarrow> WireIdentity \<Rightarrow> RealtimeRegistry \<Rightarrow> (Response + MessagingIdentity) \<times> RealtimeRegistry" where
  "stream_admit U wire reg =
     (case require_identity wire of
        Inl r \<Rightarrow> (Inl unauthorized, reg)
      | Inr i \<Rightarrow>
          (case reserve_connection (identity_key U i) MAX_STREAMS_PER_IDENTITY reg of
             (Inl n, reg') \<Rightarrow> (Inl too_many_streams, reg')
           | (Inr u, reg') \<Rightarrow> (Inr i, reg')))"

section \<open>What reaches the wire\<close>

fun event_frames :: "frame list \<Rightarrow> TailedEvent list" where
  "event_frames [] = []"
| "event_frames (SessionFrame t # fs) = event_frames fs"
| "event_frames (EventFrame e # fs) = e # event_frames fs"

definition offered :: "(db \<times> TailedEvent) list \<Rightarrow> (db \<times> received) list \<Rightarrow> (db \<times> TailedEvent) list" where
  "offered replay live = replay @ List.map_filter (\<lambda>(d, r). case r of Event e \<Rightarrow> Some (d, e) | _ \<Rightarrow> None) live"

text \<open>\<open>sent_frames gone n ps fs\<close>: of the events \<open>ps\<close>, whose frames are numbered from \<open>n\<close> on, a prefix was sent, all of them
  while the client was there; it stops short only because the client was gone for the next one.\<close>

definition sent_frames :: "(nat \<Rightarrow> bool) \<Rightarrow> nat \<Rightarrow> TailedEvent list \<Rightarrow> frame list \<Rightarrow> bool" where
  "sent_frames gone n ps fs \<longleftrightarrow>
     (\<exists>k \<le> length ps. fs = map EventFrame (take k ps) \<and> (\<forall>j<k. \<not> gone (n + j)) \<and> (k < length ps \<longrightarrow> gone (n + k)))"

lemma sent_frames_Nil: "sent_frames gone n [] []"
  by (simp add: sent_frames_def)

lemma sent_frames_gone: "gone n \<Longrightarrow> sent_frames gone n ps []"
  unfolding sent_frames_def by (intro exI [of _ 0]) simp

lemma sent_frames_Cons:
  assumes "sent_frames gone (Suc n) ps fs" and "\<not> gone n"
  shows "sent_frames gone n (e # ps) (EventFrame e # fs)"
proof -
  from assms(1) obtain k where "k \<le> length ps" "fs = map EventFrame (take k ps)" "\<forall>j<k. \<not> gone (Suc n + j)"
    "k < length ps \<longrightarrow> gone (Suc n + k)" unfolding sent_frames_def by blast
  with assms(2) show ?thesis unfolding sent_frames_def by (intro exI [of _ "Suc k"]) (auto simp: less_Suc_eq_0_disj)
qed

definition before_close :: "(db \<times> received) list \<Rightarrow> (db \<times> received) list" where
  "before_close live = takeWhile (\<lambda>(d, r). r \<noteq> Closed) live"

lemma forward_live_sent:
  "sent_frames gone n (map snd (filter (\<lambda>(d, e). P d e) (offered [] (before_close rs)))) (forward_live P gone n rs)"
  by (induction P gone n rs rule: forward_live.induct)
    (auto simp: offered_def before_close_def List.map_filter_simps sent_frames_Nil sent_frames_gone sent_frames_Cons)

lemma forward_replay_sent:
  "sent_frames gone n (map snd (filter (\<lambda>(d, e). P d e) (offered es (before_close rs)))) (forward_replay P gone n es rs)"
proof (induction P gone n es rs rule: forward_replay.induct)
  case (1 P gone n rs)
  then show ?case using forward_live_sent [of gone n P rs] by (simp add: offered_def)
qed (auto simp: offered_def sent_frames_gone sent_frames_Cons)

lemma event_frames_map [simp]: "event_frames (map EventFrame es) = es"
  by (induction es) simp_all

lemma allow_loop_set: "set (allow_loop U acc ids) \<subseteq> set acc \<union> discuss_channel U ` set ids"
  by (induction U acc ids rule: allow_loop.induct) (auto split: if_splits)

lemma allow_loop_length: "length acc \<le> MAX_MEMBERSHIP_CHANNELS \<Longrightarrow> length (allow_loop U acc ids) \<le> MAX_MEMBERSHIP_CHANNELS"
  by (induction U acc ids rule: allow_loop.induct) (auto simp: List.insert_def)

lemma membership_channel_seat:
  "i \<in> set (membership_channel_ids identity d) \<longleftrightarrow>
     (\<exists>c\<in>set (channels d). chn_id c = i \<and> \<not> chn_deleted c) \<and> (\<exists>m\<in>set (channel_members d). seat i identity m)"
  by (force simp: membership_channel_ids_def)

lemma identity_channel_record:
  "identity_channel U (User p) = record_channel U ''res.partner'' p"
  "identity_channel U (Guest g) = record_channel U ''mail.guest'' g"
  by (simp_all add: special_channels)


text \<open>The membership is the one at connection: a member who has left since still receives the channel.\<close>

lemma stale_membership:
  assumes "c \<in> set (membership_channel_ids identity d0)" and "length (membership_channel_ids identity d0) = 1"
    and "te_channel e = discuss_channel U c"
  shows "permits parse acl identity (allow_build U identity (Inr (membership_channel_ids identity d0))) d e"
proof -
  from assms(1,2) have "membership_channel_ids identity d0 = [c]" by (auto simp: length_Suc_conv)
  with assms(3) show ?thesis by (simp add: permits_def allow_build_def MAX_MEMBERSHIP_CHANNELS_def)
qed

section \<open>The number of streams\<close>

text \<open>Streams open and close in any order; a closed stream's guard gives its slot back.\<close>

inductive stream_step ::
  "(uuid \<Rightarrow> string) \<Rightarrow> RealtimeRegistry \<times> MessagingIdentity list \<Rightarrow> RealtimeRegistry \<times> MessagingIdentity list \<Rightarrow> bool" for U where
  admitted: "stream_admit U wire reg = (Inr i, reg') \<Longrightarrow> stream_step U (reg, held) (reg', i # held)"
| refused: "stream_admit U wire reg = (Inl r, reg') \<Longrightarrow> stream_step U (reg, held) (reg', held)"
| closed: "i \<in> set held \<Longrightarrow> stream_step U (reg, held) (release_connection (identity_key U i) reg, remove1 i held)"
| published: "stream_step U (reg, held) (publish e reg, held)"

definition slots_ok :: "(uuid \<Rightarrow> string) \<Rightarrow> RealtimeRegistry \<times> MessagingIdentity list \<Rightarrow> bool" where
  "slots_ok U s \<longleftrightarrow> (\<forall>i. count_list (snd s) i \<le> MAX_STREAMS_PER_IDENTITY \<and>
     reg_connections (fst s) (identity_key U i) =
       (if count_list (snd s) i = 0 then None else Some (count_list (snd s) i)))"

lemma count_remove1: "count_list (remove1 x xs) y = (if x = y then count_list xs y - 1 else count_list xs y)"
  by (induction xs) auto

lemma slots_ok_step:
  assumes "stream_step U s s'" and "inj U" and "slots_ok U s"
  shows "slots_ok U s'"
  using assms(1,3)
proof (induction rule: stream_step.induct)
  case (admitted wire reg i reg' held)
  then have ok: "\<And>j. count_list held j \<le> MAX_STREAMS_PER_IDENTITY" "\<And>j. reg_connections reg (identity_key U j) =
      (if count_list held j = 0 then None else Some (count_list held j))" by (simp_all add: slots_ok_def)
  from admitted have r: "reserve_connection (identity_key U i) MAX_STREAMS_PER_IDENTITY reg = (Inr (), reg')"
    by (auto simp: stream_admit_def split: sum.splits prod.splits)
  then show ?case using ok assms(2)
    by (auto simp: slots_ok_def reserve_connection_def Let_def identity_key_inj split: if_splits option.splits)
next
  case (refused wire reg r reg' held)
  then have "reg' = reg"
    by (auto simp: stream_admit_def reserve_connection_def Let_def split: sum.splits prod.splits if_splits option.splits)
  with refused show ?case by simp
next
  case (closed i held reg)
  then have "count_list held i \<noteq> 0" by (simp add: count_list_0_iff)
  with closed assms(2) show ?case
    by (auto simp: slots_ok_def release_connection_def count_remove1 identity_key_inj le_diff_conv intro: le_SucI)
next
  case (published reg held e)
  then show ?case by (simp add: slots_ok_def)
qed

lemma slots_ok_steps: "(stream_step U)\<^sup>*\<^sup>* s0 s \<Longrightarrow> inj U \<Longrightarrow> slots_ok U s0 \<Longrightarrow> slots_ok U s"
  by (induction rule: rtranclp_induct) (auto intro: slots_ok_step)

text \<open>No identity ever holds more than four streams, and one is refused exactly at the fourth.\<close>

lemma stream_cap:
  assumes "(stream_step U)\<^sup>*\<^sup>* (registry_new, []) (reg, held)" and "inj U"
  shows "count_list held i \<le> MAX_STREAMS_PER_IDENTITY \<and>
    (fst (stream_admit U (Identified i) reg) = Inl too_many_streams \<longleftrightarrow> count_list held i = MAX_STREAMS_PER_IDENTITY)"
proof -
  have "slots_ok U (registry_new, [])" by (simp add: slots_ok_def registry_new_def)
  from slots_ok_steps [OF assms this] have "count_list held i \<le> MAX_STREAMS_PER_IDENTITY"
    "reg_connections reg (identity_key U i) = (if count_list held i = 0 then None else Some (count_list held i))"
    by (simp_all add: slots_ok_def)
  then show ?thesis
    by (auto simp: stream_admit_def require_identity_def wire_identity_def reserve_connection_def Let_def
        MAX_STREAMS_PER_IDENTITY_def split: if_splits)
qed

section \<open>Reconnecting\<close>

text \<open>The tailer's \<open>publish\<close> runs on another thread; its two halves are separate steps of the feed.\<close>

inductive feed_step :: "RealtimeRegistry \<times> TailedEvent option \<Rightarrow> RealtimeRegistry \<times> TailedEvent option \<Rightarrow> bool" where
  remembered: "feed_step (reg, None) (remember e reg, Some e)"
| sent: "feed_step (reg, Some e) (broadcast e reg, None)"

definition ring_ok :: "RealtimeRegistry \<times> TailedEvent option \<Rightarrow> bool" where
  "ring_ok s \<longleftrightarrow> reg_ring (fst s) = pop_excess (reg_sent (fst s) @ (case snd s of None \<Rightarrow> [] | Some e \<Rightarrow> [e]))"

lemma ring_ok_step: "feed_step s s' \<Longrightarrow> ring_ok s \<Longrightarrow> ring_ok s'"
  by (induction rule: feed_step.induct) (auto simp: ring_ok_def remember_def broadcast_def pop_excess_append)

lemma ring_ok_steps: "feed_step\<^sup>*\<^sup>* s s' \<Longrightarrow> ring_ok s \<Longrightarrow> ring_ok s'"
  by (induction rule: rtranclp_induct) (auto intro: ring_ok_step)

lemma sent_grows: "feed_step\<^sup>*\<^sup>* s s' \<Longrightarrow> \<exists>more. reg_sent (fst s') = reg_sent (fst s) @ more"
proof (induction rule: rtranclp_induct)
  case (step y z)
  from step.hyps(2) step.IH show ?case by (auto elim!: feed_step.cases simp: remember_def broadcast_def)
qed simp

lemma dropWhile_nth:
  "n < length xs \<Longrightarrow> (\<And>j. j < n \<Longrightarrow> P (xs ! j)) \<Longrightarrow> \<not> P (xs ! n) \<Longrightarrow> dropWhile P xs = drop n xs"
proof (induction xs arbitrary: n)
  case (Cons x xs)
  show ?case
  proof (cases n)
    case 0
    with Cons.prems show ?thesis by simp
  next
    case (Suc m)
    with Cons.prems(2) [of 0] have "P x" by simp
    moreover have "P (xs ! j)" if "j < m" for j using that Cons.prems(2) [of "Suc j"] Suc by simp
    then have "dropWhile P xs = drop m xs" using Cons.prems(1,3) Suc by (intro Cons.IH) simp_all
    ultimately show ?thesis by (simp add: Suc)
  qed
qed simp

text \<open>Everything published so far, the event whose broadcast is outstanding included.  \<open>behind last_id n L\<close> is what a
  client that saw \<open>last_id\<close> lacks of the log \<open>L\<close>, when the ring it asks holds the end of the first \<open>n\<close> events.\<close>

definition event_log :: "RealtimeRegistry \<times> TailedEvent option \<Rightarrow> TailedEvent list" where
  "event_log s = reg_sent (fst s) @ (case snd s of None \<Rightarrow> [] | Some e \<Rightarrow> [e])"

definition behind :: "uuid option \<Rightarrow> nat \<Rightarrow> TailedEvent list \<Rightarrow> TailedEvent list" where
  "behind last_id n L =
     (case last_id of
        Some i \<Rightarrow> (if i \<in> te_id ` set (pop_excess (take n L)) then tl (dropWhile (\<lambda>e. te_id e \<noteq> i) L)
                  else drop (n - RING_CAPACITY) L)
      | None \<Rightarrow> drop (n - RING_CAPACITY) L)"

lemma log_grows: "feed_step\<^sup>*\<^sup>* s s' \<Longrightarrow> \<exists>rest. event_log s' = event_log s @ rest"
proof (induction rule: rtranclp_induct)
  case (step y z)
  from step.hyps(2) step.IH show ?case
    by (auto elim!: feed_step.cases simp: event_log_def remember_def broadcast_def)
qed simp

lemma ring_log: "feed_step\<^sup>*\<^sup>* (registry_new, None) s \<Longrightarrow> reg_ring (fst s) = pop_excess (event_log s)"
  using ring_ok_steps [of "(registry_new, None)" s]
  by (simp add: ring_ok_def event_log_def registry_new_def pop_excess.simps)

lemma replay_behind:
  assumes ring: "reg_ring reg = pop_excess L" and d: "distinct (map te_id L)"
  shows "replay_after last_id reg @ rest = behind last_id (length L) (L @ rest)"
proof -
  let ?k = "length L - RING_CAPACITY"
  have all: "reg_ring reg @ rest = drop ?k (L @ rest)"
    by (cases "?k = 0") (simp_all add: ring pop_excess_drop)
  have found: "drop (Suc p) (reg_ring reg) @ rest = tl (dropWhile (\<lambda>e. te_id e \<noteq> i) (L @ rest))"
    if p: "position (\<lambda>e. te_id e = i) (reg_ring reg) = Some p" for p i
  proof -
    from p have q: "p < length (reg_ring reg)" "te_id (reg_ring reg ! p) = i" by (simp_all add: position_Some)
    let ?n = "?k + p"
    have n: "?n < length L" "L ! ?n = reg_ring reg ! p" "reg_ring reg = drop ?k L"
      using q(1) by (simp_all add: ring pop_excess_drop)
    have "te_id ((L @ rest) ! j) \<noteq> i" if "j < ?n" for j
      using that n(1,2) q(2) d nth_eq_iff_index_eq [of "map te_id L" j ?n] by (simp add: nth_append)
    moreover have "te_id ((L @ rest) ! ?n) = i" using n(1,2) q(2) by (simp add: nth_append)
    ultimately have "dropWhile (\<lambda>e. te_id e \<noteq> i) (L @ rest) = drop ?n (L @ rest)"
      using n(1) by (intro dropWhile_nth) simp_all
    then have "tl (dropWhile (\<lambda>e. te_id e \<noteq> i) (L @ rest)) = drop (Suc ?n) (L @ rest)"
      by (simp only: drop_Suc tl_drop)
    then show ?thesis using n(1) by (simp add: n(3) add.commute)
  qed
  show ?thesis
  proof (cases last_id)
    case None
    then show ?thesis using all by (simp add: replay_after_def behind_def)
  next
    case (Some i)
    show ?thesis
    proof (cases "position (\<lambda>e. te_id e = i) (reg_ring reg)")
      case None
      then have "i \<notin> te_id ` set (pop_excess L)" by (auto simp: position_None ring)
      with None Some all show ?thesis by (simp add: replay_after_def behind_def)
    next
      case (Some p)
      then have "i \<in> te_id ` set (pop_excess L)" by (auto simp: position_Some ring intro!: image_eqI nth_mem)
      with found [OF Some] Some \<open>last_id = Some i\<close> show ?thesis
        by (simp add: replay_after_def behind_def)
    qed
  qed
qed

text \<open>C29: what a client that reconnects with the id of the last event it saw gets, with the tailer publishing all
  the while.  The replay is read at \<open>s1\<close>, the feed subscribed at \<open>s2\<close>, and \<open>s3\<close> is any later moment; \<open>n1\<close> events
  were in the ring's log at \<open>s1\<close> and \<open>n2\<close> had been broadcast at \<open>s2\<close>.  The feed is what is broadcast to the
  subscription (a receiver that lags loses some of it).  When nothing is published between the two readings, so
  that \<open>n1 = n2\<close>, the replay followed by the feed is the sequence of all events behind the given id, none lost and none
  repeated; with no id, or one that left the ring, it is the sequence from the start of the window on.  Otherwise
  exactly the events broadcast between the two readings are missing, or exactly one is repeated: the one that
  was in the ring but not yet broadcast at both readings.\<close>

theorem stream_resume:
  assumes "feed_step\<^sup>*\<^sup>* (registry_new, None) s1" and "feed_step\<^sup>*\<^sup>* s1 s2" and "feed_step\<^sup>*\<^sup>* s2 s3"
    and "distinct (map te_id (event_log s1))"
    and "n1 = length (event_log s1)" and "n2 = subscribe_feed (fst s2)"
    and "replay = replay_after last_id (fst s1)" and "feed = drop n2 (reg_sent (fst s3))"
  shows "(n1 = n2 \<longrightarrow> replay @ feed = behind last_id n1 (reg_sent (fst s3))) \<and>
    (n1 < n2 \<longrightarrow> replay @ drop n1 (take n2 (reg_sent (fst s3))) @ feed = behind last_id n1 (reg_sent (fst s3))) \<and>
    (n2 < n1 \<longrightarrow> n1 = Suc n2 \<and> snd s1 \<noteq> None \<and> snd s2 = snd s1 \<and>
       (feed \<noteq> [] \<longrightarrow> snd s1 = Some (hd feed) \<and> replay @ tl feed = behind last_id n1 (reg_sent (fst s3))))"
proof -
  let ?L1 = "event_log s1" and ?L3 = "reg_sent (fst s3)"
  note ring = ring_log [OF assms(1)]
  from log_grows [OF assms(2)] obtain m2 where m2: "event_log s2 = ?L1 @ m2" ..
  from log_grows [OF assms(3)] obtain m3 where m3: "event_log s3 = event_log s2 @ m3" ..
  from sent_grows [OF assms(2)] obtain k2 where k2: "reg_sent (fst s2) = reg_sent (fst s1) @ k2" ..
  from sent_grows [OF assms(3)] obtain k3 where k3: "?L3 = reg_sent (fst s2) @ k3" ..
  have n2: "n2 = length (reg_sent (fst s2))" by (simp add: assms(6) subscribe_feed_def)
  have pre: "?L3 = ?L1 @ drop n1 ?L3" if "n1 \<le> length ?L3"
  proof -
    have "take n1 ?L3 = take n1 (event_log s3)" using that by (simp add: event_log_def)
    also have "\<dots> = ?L1" by (simp add: m3 m2 assms(5))
    finally show ?thesis by (metis append_take_drop_id)
  qed
  have whole: "replay @ drop n1 ?L3 = behind last_id n1 ?L3" if "n1 \<le> length ?L3"
    using replay_behind [OF ring assms(4), of last_id "drop n1 ?L3"] pre [OF that] assms(5,7) by simp
  have l3: "n2 \<le> length ?L3" by (simp add: k3 n2)
  have c1: "replay @ drop n1 (take n2 ?L3) @ feed = behind last_id n1 ?L3" if "n1 \<le> n2"
  proof -
    have "drop n1 ?L3 = drop n1 (take n2 ?L3 @ drop n2 ?L3)" by (simp only: append_take_drop_id)
    also have "\<dots> = drop n1 (take n2 ?L3) @ drop (n1 - length (take n2 ?L3)) (drop n2 ?L3)" by (rule drop_append)
    also have "n1 - length (take n2 ?L3) = 0" using that l3 by simp
    also have "drop 0 (drop n2 ?L3) = drop n2 ?L3" by simp
    finally show ?thesis using whole that l3 by (simp add: assms(8))
  qed
  have c2: "n1 = Suc n2 \<and> snd s1 \<noteq> None \<and> snd s2 = snd s1 \<and>
      (feed \<noteq> [] \<longrightarrow> snd s1 = Some (hd feed) \<and> replay @ tl feed = behind last_id n1 ?L3)" if "n2 < n1"
  proof -
    from that obtain e where e: "snd s1 = Some e" and k: "k2 = []" and n: "n1 = Suc n2"
      by (auto simp: n2 k2 assms(5) event_log_def split: option.splits)
    then have "snd s2 = Some e" using m2 k2 by (auto simp: event_log_def split: option.splits)
    moreover have "snd s1 = Some (hd feed) \<and> replay @ tl feed = behind last_id n1 ?L3" if f: "feed \<noteq> []"
    proof -
      from f have l: "n1 \<le> length ?L3" by (simp add: assms(8) n)
      have "hd feed = ?L3 ! n2" using f by (simp add: assms(8) hd_drop_conv_nth)
      also have "\<dots> = ?L1 ! n2" using pre [OF l] assms(5) n by (metis lessI nth_append)
      also have "\<dots> = e" using e k by (simp add: event_log_def n2 k2)
      finally have "hd feed = e" .
      moreover have "tl feed = drop n1 ?L3" by (simp add: assms(8) n drop_Suc tl_drop)
      ultimately show ?thesis using e whole [OF l] by simp
    qed
    ultimately show ?thesis using e n by simp
  qed
  show ?thesis using c1 c2 by auto
qed

section \<open>When a publication is under way\<close>

definition sample_event :: "uuid \<Rightarrow> TailedEvent" where
  "sample_event i = \<lparr>te_id = i, te_channel = ''res.partner_1'', te_message_type = ''m'', te_payload = JNull, te_occurred_at = 0\<rparr>"

text \<open>The replay is taken, then the feed subscribed, without a common lock: an event published in between is in
  neither, and one whose broadcast is outstanding is in both.\<close>

lemma connect_race_drops:
  "replay_after None registry_new @ drop (subscribe_feed (publish (sample_event 1) registry_new))
     (reg_sent (publish (sample_event 2) (publish (sample_event 1) registry_new))) = [sample_event 2]"
  by code_simp

lemma connect_race_repeats:
  "replay_after None (remember (sample_event 1) registry_new) @
   drop (subscribe_feed (remember (sample_event 1) registry_new))
     (reg_sent (broadcast (sample_event 1) (remember (sample_event 1) registry_new))) = [sample_event 1, sample_event 1]"
  by code_simp

section \<open>Concrete runs\<close>

definition letters_of :: "bytes \<Rightarrow> string" where
  "letters_of bs = concat (map (\<lambda>b. [char_of (65 + unat b div 16), char_of (65 + unat b mod 16)]) bs)"

fun of_letters :: "string \<Rightarrow> bytes option" where
  "of_letters [] = Some []"
| "of_letters [x] = None"
| "of_letters (x # y # s) = map_option (Cons (of_nat ((byte_of x - 65) * 16 + (byte_of y - 65)))) (of_letters s)"

definition sample_crypto :: crypto where
  "sample_crypto = \<lparr>hmac_sha256 = (\<lambda>k m. k @ rev m), b64 = letters_of, ub64 = of_letters\<rparr>"

lemma sample_crypto_ok: "base64_ok sample_crypto"
proof -
  have b: "unat b div 16 < 16" for b :: "8 word"
    using unsigned_less [of b, where 'a = nat] by simp
  have l: "of_letters (letters_of bs) = Some bs" for bs
  proof (induction bs)
    case (Cons c bs)
    have "unat c div 16 * 16 + unat c mod 16 = unat c" by simp
    then have "of_nat (unat c div 16 * 16 + unat c mod 16) = c" by simp
    with Cons b [of c] show ?case by (simp add: letters_of_def byte_of_def)
  qed (simp add: letters_of_def)
  have "CHR ''.'' \<notin> set (letters_of bs)" for bs
  proof -
    have "CHR ''.'' \<noteq> char_of (65 + n)" if "n < 16" for n :: nat
    proof
      assume "CHR ''.'' = char_of (65 + n)"
      then have "char_of (65 + n) = CHR ''.''" by (rule sym)
      then have "(of_char (char_of (65 + n) :: char) :: nat) = of_char (CHR ''.'')" by simp
      with that show False by simp
    qed
    then have "CHR ''.'' \<noteq> char_of (65 + unat c div 16) \<and> CHR ''.'' \<noteq> char_of (65 + unat c mod 16)" for c :: "8 word"
      using b [of c] by simp
    then show ?thesis by (induction bs) (simp_all add: letters_of_def)
  qed
  with l show ?thesis by (simp add: base64_ok_def sample_crypto_def)
qed

definition unary :: "uuid \<Rightarrow> string" where
  "unary i = replicate i (CHR ''1'')"

lemma inj_unary: "inj unary"
  unfolding unary_def by (rule injI) (metis length_replicate)

definition sample_token :: string where
  "sample_token = mint_session_token unary sample_crypto [7] (User 3) SESSION_TTL_SECS 0"

lemma session_proof_witness:
  "verify_session_token unary sample_crypto [7] sample_token (User 3) (3600 * NANOS_PER_SEC) \<and>
   \<not> verify_session_token unary sample_crypto [7] sample_token (Guest 3) 0"
proof -
  have "verify_session_token unary sample_crypto [7] sample_token (User 3) (3600 * NANOS_PER_SEC)"
    using session_proof [OF sample_crypto_ok inj_unary, where now = 0 and now' = "3600 * NANOS_PER_SEC" and ttl = SESSION_TTL_SECS]
    by (simp add: sample_token_def timestamp_def SESSION_TTL_SECS_def NANOS_PER_SEC_def)
  with session_proof [OF sample_crypto_ok inj_unary, where i = "User 3" and token = sample_token] show ?thesis by blast
qed

definition stream_db :: db where
  "stream_db = (db read_world)\<lparr>channel_members := [\<lparr>mbr_id = 1, mbr_channel_id = 5, mbr_partner_id = Some 3, mbr_guest_id = None,
     mbr_fold_state = None, mbr_message_unread_counter = 0, mbr_unread_counter = 0, mbr_seen_message_id = None,
     mbr_fetched_message_id = None, mbr_new_message_separator = None, mbr_last_seen_dt = None, mbr_mute_until_dt = None,
     mbr_custom_notifications = None, mbr_is_pinned = False, mbr_unpin_dt = None, mbr_deleted = False\<rparr>]\<rparr>"

definition parse_unary :: "string \<Rightarrow> uuid option" where
  "parse_unary s = (if list_all (\<lambda>c. c = CHR ''1'') s then Some (length s) else None)"

definition channel_event :: "uuid \<Rightarrow> string \<Rightarrow> TailedEvent" where
  "channel_event i c = (sample_event i)\<lparr>te_channel := c\<rparr>"

definition stream_offer :: "(db \<times> TailedEvent) list" where
  "stream_offer = map (Pair stream_db) [channel_event 1 (partner_channel unary 3), channel_event 2 (partner_channel unary 4),
     channel_event 3 (discuss_channel unary 5)]"

definition stream_out :: "TailedEvent list" where
  "stream_out = event_frames (stream_task ''tok'' (permits parse_unary slot_default (User 3)
     (allow_build unary (User 3) (Inr (membership_channel_ids (User 3) stream_db)))) (\<lambda>n. n \<ge> 5) stream_offer
     [(stream_db, Lagged 2), (stream_db, Event (channel_event 4 (discuss_channel unary 6)))])"


definition reg_one :: RealtimeRegistry where
  "reg_one = broadcast (sample_event 1) (remember (sample_event 1) registry_new)"

definition reg_two :: RealtimeRegistry where
  "reg_two = broadcast (sample_event 2) (remember (sample_event 2) reg_one)"

definition reg_three :: RealtimeRegistry where
  "reg_three = broadcast (sample_event 3) (remember (sample_event 3) reg_two)"

lemma feed_publish: "feed_step\<^sup>*\<^sup>* (reg, None) (broadcast e (remember e reg), None)"
  by (meson feed_step.intros rtranclp.rtrancl_into_rtrancl rtranclp.rtrancl_refl)

lemma stream_resume_witness:
  "map te_id (replay_after (Some 1) reg_two @ drop (subscribe_feed reg_two) (reg_sent reg_three)) = [2, 3] \<and>
   replay_after (Some 1) reg_two @ drop (subscribe_feed reg_two) (reg_sent reg_three) =
     behind (Some 1) 2 (reg_sent reg_three) \<and>
   map te_id (behind (Some 1) 2 (reg_sent reg_three)) = [2, 3]"
proof -
  have 1: "feed_step\<^sup>*\<^sup>* (registry_new, None) (reg_two, None)"
    using feed_publish [of registry_new "sample_event 1"] feed_publish [of reg_one "sample_event 2"]
    unfolding reg_two_def reg_one_def by (rule rtranclp_trans)
  have 2: "feed_step\<^sup>*\<^sup>* (reg_two, None) (reg_three, None)" unfolding reg_three_def by (rule feed_publish)
  have d: "distinct (map te_id (event_log (reg_two, None)))" by code_simp
  have n: "length (event_log (reg_two, None)) = 2" "subscribe_feed reg_two = 2" by code_simp+
  from stream_resume [OF 1 rtranclp.rtrancl_refl 2 d refl refl refl refl, of "Some 1"] n
  have "replay_after (Some 1) reg_two @ drop (subscribe_feed reg_two) (reg_sent reg_three) =
     behind (Some 1) 2 (reg_sent reg_three)" by simp
  moreover have "map te_id (replay_after (Some 1) reg_two @ drop (subscribe_feed reg_two) (reg_sent reg_three)) = [2, 3]"
    "map te_id (behind (Some 1) 2 (reg_sent reg_three)) = [2, 3]"
    by code_simp+
  ultimately show ?thesis by blast
qed

end
