(* ===== verification/ThreadChatter.thy ===== *)
theory ThreadChatter
  imports Followers Schedule Queries
begin

text \<open>
  The facade a host module calls for chatter on its documents:
  \<open>src/application/service/thread_chatter_service.rs\<close>.  It composes the poster (MessagePipeline), the queries
  (Queries), the followers (Followers) and the schedules (Schedule).  Posting asks the resolver here, reading
  and scheduling ask it in their services; following and unfollowing do not ask it.
\<close>

datatype ChatterError =
    CtDb db_error
  | CtCannotPost string uuid
  | CtCannotRead string uuid
  | CtInvalid string
  | CtMail MailError
  | CtSchedule ScheduleError
  | CtQuery MessageQueryError
  | CtFollower FollowerError

text \<open>\<open>MessagePostCommand { ..Default::default() }\<close> as the facade fills it.\<close>

definition thread_post_command ::
  "MessagingIdentity \<Rightarrow> string \<Rightarrow> uuid \<Rightarrow> string \<Rightarrow> string option \<Rightarrow> bool \<Rightarrow> MessagePostCommand" where
  "thread_post_command identity model res_id body subject is_note =
     \<lparr>mp_body = body, mp_subject = subject, mp_message_type = (if is_note then ''notification'' else ''comment''),
      mp_subtype_id = None, mp_subtype_name = None, mp_is_internal = is_note,
      mp_author_id = identity_partner_id identity, mp_author_guest_id = identity_guest_id identity,
      mp_email_from = None, mp_reply_to = None, mp_model = Some model, mp_res_id = Some res_id,
      mp_record_name = None, mp_recipients = []\<rparr>"

definition chatter_post ::
  "ThreadAccessResolver \<Rightarrow> MessagingIdentity \<Rightarrow> string \<Rightarrow> uuid \<Rightarrow> string \<Rightarrow> string option \<Rightarrow> bool \<Rightarrow>
   (db, 'o, ChatterError, PostedMessage) act" where
  "chatter_post acl identity model res_id body subject is_note =
     gated (\<lambda>d. can_post acl d identity model res_id) (CtCannotPost model res_id)
       (lift CtMail (message_post (thread_post_command identity model res_id body subject is_note)))"

definition read_thread ::
  "ThreadAccessResolver \<Rightarrow> wire \<Rightarrow> int \<Rightarrow> MessagingIdentity \<Rightarrow> string \<Rightarrow> uuid \<Rightarrow> uuid option \<Rightarrow>
   (db, 'o, ChatterError, FetchedMessage list) act" where
  "read_thread acl W page_limit identity model res_id after_id =
     lift CtQuery (fetch_thread acl W page_limit identity model res_id after_id)"

definition follow ::
  "(json list \<Rightarrow> json list) \<Rightarrow> uuid \<Rightarrow> string \<Rightarrow> uuid \<Rightarrow> (db, 'o, ChatterError, SubscribeOutcome) act" where
  "follow agg partner_id model res_id = lift CtFollower (subscribe agg model res_id partner_id [] Skip)"

definition unfollow :: "uuid \<Rightarrow> string \<Rightarrow> uuid \<Rightarrow> (db, 'o, ChatterError, nat) act" where
  "unfollow partner_id model res_id = lift CtFollower (unsubscribe model res_id [partner_id])"

definition schedule_post ::
  "ThreadAccessResolver \<Rightarrow> uuid \<Rightarrow> string \<Rightarrow> uuid \<Rightarrow> string \<Rightarrow> string option \<Rightarrow> time \<Rightarrow> bool \<Rightarrow>
   (db, 'o, ChatterError, uuid) act" where
  "schedule_post acl author model res_id body subject scheduled_date is_note =
     lift CtSchedule (arm_scheduled_message acl
       \<lparr>am_author_party_id = author, am_model = model, am_res_id = res_id, am_body = body, am_subject = subject,
        am_scheduled_date = scheduled_date, am_recipient_party_ids = None, am_is_note = is_note\<rparr>)"

definition chatter_dispatch_scheduled ::
  "ThreadAccessResolver \<Rightarrow> (string \<Rightarrow> uuid option) \<Rightarrow> int \<Rightarrow> (db, 'o, ChatterError, nat \<times> nat) act" where
  "chatter_dispatch_scheduled acl parse_uuid batch_limit =
     lift CtSchedule (dispatch_due_scheduled acl parse_uuid batch_limit)"

definition chatter_dispatch_notify :: "int \<Rightarrow> (db, 'o, ChatterError, nat) act" where
  "chatter_dispatch_notify batch_limit = lift CtSchedule (dispatch_due_notify batch_limit)"

end
