(* ===== verification/Refusals.thy ===== *)
theory Refusals
  imports Effects
begin

text \<open>
  What an action that answers an error has written.  \<open>looks m\<close>: the action never changes the database;
  \<open>refuses bad m\<close>: when it answers an error that is not \<open>bad\<close>, the database is as it was.  A transaction
  refuses whatever its body does, because an error rolls it back; only the error of a COMMIT whose
  acknowledgement was lost (a \<open>Connection\<close> error) leaves the question open.
\<close>

named_theorems looks_intros
named_theorems refuses_intros

definition looks :: "('d, 'o, 'e, 'a) act \<Rightarrow> bool" where
  "looks m \<longleftrightarrow> (\<forall>v w. db (snd (m v w)) = db w)"

definition refuses :: "('e \<Rightarrow> bool) \<Rightarrow> ('d, 'o, 'e, 'a) act \<Rightarrow> bool" where
  "refuses bad m \<longleftrightarrow> (\<forall>v w e w'. m v w = (Inl e, w') \<longrightarrow> db w' = db w \<or> bad e)"

lemma looksD: "looks m \<Longrightarrow> m v w = (r, w') \<Longrightarrow> db w' = db w"
  unfolding looks_def by (metis snd_conv)

lemma refusesD: "refuses bad m \<Longrightarrow> m v w = (Inl e, w') \<Longrightarrow> \<not> bad e \<Longrightarrow> db w' = db w"
  unfolding refuses_def by blast

lemma looks_basic [looks_intros]:
  "looks (ret x)" "looks (fail e)" "looks (of_sum r)" "looks (ask f)" "looks new_v4" "looks now_utc" "looks acquire"
  by (simp_all add: looks_def ret_def fail_def of_sum_def ask_def new_v4_def now_utc_def acquire_def)

lemma looks_query_reading [looks_intros]: "looks (query (reading f))"
  by (simp add: looks_def query_def query_now_def reading_def)

lemma looks_query:
  assumes "\<And>d x d'. q d = Inr (x, d') \<Longrightarrow> d' = d"
  shows "looks (query q)"
  unfolding looks_def query_def query_now_def by (auto split: sum.split dest: assms)

lemma looks_lift [looks_intros]: "looks m \<Longrightarrow> looks (lift up m)"
  by (auto simp: looks_def lift_def split: prod.split sum.split) (metis snd_conv)+

lemma looks_bind [looks_intros]:
  assumes "looks m" and "\<And>x. looks (f x)"
  shows "looks (bindA m f)"
  unfolding looks_def
proof (intro allI)
  fix v w
  obtain r w1 where m: "m v w = (r, w1)" by fastforce
  from looksD [OF assms(1) m] have "db w1 = db w" .
  moreover have "db (snd (f x v w1)) = db w1" for x using assms(2) by (simp add: looks_def)
  ultimately show "db (snd (bindA m f v w)) = db w" using m by (cases r) (simp_all add: bindA_def)
qed

lemma looks_attempt [looks_intros]: "looks m \<Longrightarrow> looks (attempt m)"
  by (simp add: looks_def attempt_def)

lemma looks_if [looks_intros]: "(c \<Longrightarrow> looks a) \<Longrightarrow> (\<not> c \<Longrightarrow> looks b) \<Longrightarrow> looks (if c then a else b)"
  by simp

lemma looks_option [looks_intros]:
  "(z = None \<Longrightarrow> looks n) \<Longrightarrow> (\<And>y. z = Some y \<Longrightarrow> looks (s y)) \<Longrightarrow> looks (case z of None \<Rightarrow> n | Some y \<Rightarrow> s y)"
  by (cases z) simp_all

lemma refuses_looks: "looks m \<Longrightarrow> refuses bad m"
  by (auto simp: refuses_def dest: looksD)

lemma refuses_in_tx [refuses_intros]:
  assumes "bad (up Connection)"
  shows "refuses bad (in_tx up body)"
  unfolding refuses_def
proof (intro allI impI)
  fix v w e w' assume "in_tx up body v w = (Inl e, w')"
  then show "db w' = db w \<or> bad e" using assms by (auto dest: in_tx_atomic)
qed

lemma refuses_query [refuses_intros]: "refuses bad (query_now q)" "refuses bad (query p)"
  by (auto simp: refuses_def query_def query_now_def split: if_splits sum.splits)

lemma refuses_basic [refuses_intros]:
  "refuses bad (ret x)" "refuses bad (fail e)" "refuses bad (of_sum r)" "refuses bad (ask f)"
  by (intro refuses_looks looks_intros)+

lemma refuses_lift [refuses_intros]: "refuses (\<lambda>e. bad (up e)) m \<Longrightarrow> refuses bad (lift up m)"
  by (auto simp: refuses_def lift_def split: prod.splits sum.splits)

text \<open>What runs first only looks; then the rest decides.\<close>

lemma refuses_bind [refuses_intros]:
  assumes "looks m" and "\<And>x. refuses bad (f x)"
  shows "refuses bad (bindA m f)"
  unfolding refuses_def
proof (intro allI impI)
  fix v w e w' assume run: "bindA m f v w = (Inl e, w')"
  obtain r w1 where m: "m v w = (r, w1)" by fastforce
  from looksD [OF assms(1) m] have w1: "db w1 = db w" .
  show "db w' = db w \<or> bad e"
  proof (cases r)
    case (Inl e1)
    with run m w1 show ?thesis by (auto simp: bindA_def)
  next
    case (Inr x)
    with run m have "f x v w1 = (Inl e, w')" by (simp add: bindA_def)
    with assms(2) [of x] have "db w' = db w1 \<or> bad e" unfolding refuses_def by blast
    with w1 show ?thesis by simp
  qed
qed

text \<open>A value handed on unchanged.\<close>

lemma refuses_bind_ret [refuses_intros]: "refuses bad m \<Longrightarrow> refuses bad (bindA m (\<lambda>x. ret (g x)))"
  by (auto simp: refuses_def bindA_def ret_def split: prod.splits sum.splits)

lemma refuses_if [refuses_intros]:
  "(c \<Longrightarrow> refuses bad a) \<Longrightarrow> (\<not> c \<Longrightarrow> refuses bad b) \<Longrightarrow> refuses bad (if c then a else b)"
  by simp

lemma refuses_option [refuses_intros]:
  "(z = None \<Longrightarrow> refuses bad n) \<Longrightarrow> (\<And>y. z = Some y \<Longrightarrow> refuses bad (s y)) \<Longrightarrow>
   refuses bad (case z of None \<Rightarrow> n | Some y \<Rightarrow> s y)"
  by (cases z) simp_all

lemma refuses_pair [refuses_intros]: "(\<And>a b. p = (a, b) \<Longrightarrow> refuses bad (h a b)) \<Longrightarrow> refuses bad (case p of (a, b) \<Rightarrow> h a b)"
  by (cases p) simp

end
