(* ===== verification/ThreadRoutes.thy ===== *)
theory ThreadRoutes
  imports ThreadChatter Wire Refusals
begin

text \<open>
  The thread routes: \<open>src/presentation/http/thread_routes.rs\<close>.  A handler takes the wire identity the guest
  middleware left and the decoded body (the decoding is serde's; axum answers a body that does not decode
  itself) and gives a response.  The module's shared state is the record \<open>app\<close>: the access resolver, and
  what of PostgreSQL and of the error displays is a parameter.
\<close>

section \<open>Handlers and error tables\<close>

record app =
  app_acl :: ThreadAclSlot
  app_wire :: wire
  app_agg :: "json list \<Rightarrow> json list"
  app_distinct_rows :: "uuid list \<Rightarrow> uuid list"
  app_sql_text :: sql_text
  app_db_text :: "db_error \<Rightarrow> string"

definition acl_of :: "app \<Rightarrow> ThreadAccessResolver" where
  "acl_of app = slot_resolver (app_acl app)"

definition PAGE_LIMIT :: int where
  "PAGE_LIMIT = 30"

definition SEARCH_LIMIT :: int where
  "SEARCH_LIMIT = 20"

type_synonym 'o handler = "env \<Rightarrow> (db, 'o) world \<Rightarrow> Response \<times> (db, 'o) world"

definition answer :: "Response \<Rightarrow> 'o handler" where
  "answer r = (\<lambda>v w. (r, w))"

text \<open>\<open>match service.await { Ok(x) => ..., Err(e) => ... }\<close>.\<close>

definition respond ::
  "(db, 'o, 'e, 'a) act \<Rightarrow> (env \<Rightarrow> 'a \<Rightarrow> Response) \<Rightarrow> (env \<Rightarrow> 'e \<Rightarrow> Response) \<Rightarrow> 'o handler" where
  "respond m done' failed = (\<lambda>v w. case m v w of (Inr x, w') \<Rightarrow> (done' v x, w') | (Inl e, w') \<Rightarrow> (failed v e, w'))"

text \<open>The two guards of the handlers: any identity, or a partner.\<close>

definition identified :: "WireIdentity \<Rightarrow> (MessagingIdentity \<Rightarrow> 'o handler) \<Rightarrow> 'o handler" where
  "identified w h = (case require_identity w of Inl r \<Rightarrow> answer unauthorized | Inr i \<Rightarrow> h i)"

definition as_partner :: "WireIdentity \<Rightarrow> (uuid \<Rightarrow> 'o handler) \<Rightarrow> 'o handler" where
  "as_partner w h = (case wire_partner_id w of None \<Rightarrow> answer unauthorized | Some p \<Rightarrow> h p)"

definition db_err :: "db_error \<Rightarrow> Response" where
  "db_err e = json_response 500 (json_err ''internal error'')"

fun query_err :: "env \<Rightarrow> MessageQueryError \<Rightarrow> Response" where
  "query_err v (MqForbidden m i) = json_response 403 (json_err (''no read access to '' @ m @ '' '' @ uuid_text v i))"
| "query_err v MqNotAMember = json_response 403 (json_err ''not a channel member'')"
| "query_err v (MqDb e) = db_err e"

definition chatter_err :: "env \<Rightarrow> ChatterError \<Rightarrow> Response" where
  "chatter_err v e =
     (case e of
        CtCannotPost m i \<Rightarrow> json_response 403 (json_err (''cannot post on '' @ m @ '' '' @ uuid_text v i))
      | CtCannotRead m i \<Rightarrow> json_response 403 (json_err (''cannot read '' @ m @ '' '' @ uuid_text v i))
      | CtInvalid m \<Rightarrow> json_response 422 (json_err m)
      | CtDb e \<Rightarrow> db_err e
      | CtQuery e \<Rightarrow> query_err v e
      | _ \<Rightarrow> json_response 500 (json_err ''internal error''))"

fun recipient_err :: "env \<Rightarrow> RecipientQueryError \<Rightarrow> Response" where
  "recipient_err v (RqForbidden m i) = json_response 403 (json_err (''no read access to '' @ m @ '' '' @ uuid_text v i))"
| "recipient_err v RqNeedsPartner = unauthorized"
| "recipient_err v (RqDb e) = db_err e"

section \<open>What is serialised\<close>

definition juuid :: "env \<Rightarrow> uuid \<Rightarrow> json" where
  "juuid v i = JString (uuid_text v i)"

definition message_json :: "env \<Rightarrow> FetchedMessage \<Rightarrow> json" where
  "message_json v m = JObject
     [(''id'', juuid v (fm_id m)), (''subject'', jopt JString (fm_subject m)), (''body'', JString (fm_body m)),
      (''message_type'', JString (fm_message_type m)), (''author_id'', jopt (juuid v) (fm_author_id m)),
      (''author_guest_id'', jopt (juuid v) (fm_author_guest_id m)), (''email_from'', jopt JString (fm_email_from m)),
      (''model'', jopt JString (fm_model m)), (''res_id'', jopt (juuid v) (fm_res_id m)),
      (''record_name'', jopt JString (fm_record_name m)), (''is_internal'', JBool (fm_is_internal m)),
      (''pinned_at'', jopt (\<lambda>t. JString (time_text v t)) (fm_pinned_at m)),
      (''attachment_ids'', JArray (map (juuid v) (fm_attachment_ids m)))]"

definition messages_ok :: "env \<Rightarrow> FetchedMessage list \<Rightarrow> Response" where
  "messages_ok v ms = ok_json (JArray (map (message_json v) ms))"

definition recipient_json :: "env \<Rightarrow> SuggestedRecipient \<Rightarrow> json" where
  "recipient_json v r = JObject [(''partner_id'', juuid v (sr_partner_id r)), (''reason'', JString (sr_reason r))]"

section \<open>The handlers\<close>

record FetchThreadBody =
  ft_model :: string
  ft_res_id :: uuid
  ft_after_id :: "uuid option"

record FetchChannelBody =
  fc_channel_id :: uuid
  fc_after_id :: "uuid option"

record RecipientsBody =
  rb_model :: string
  rb_res_id :: uuid

record PostBody =
  pb_model :: string
  pb_res_id :: uuid
  pb_body :: string
  pb_subject :: "string option"
  pb_is_note :: "bool option"

record FollowBody =
  fb_model :: string
  fb_res_id :: uuid

record ScheduleBody =
  sb_model :: string
  sb_res_id :: uuid
  sb_body :: string
  sb_subject :: "string option"
  sb_scheduled_date :: time
  sb_is_note :: "bool option"

text \<open>\<open>unwrap_or(false)\<close>.\<close>

definition or_false :: "bool option \<Rightarrow> bool" where
  "or_false b \<longleftrightarrow> b = Some True"

definition fetch_thread_route :: "app \<Rightarrow> WireIdentity \<Rightarrow> FetchThreadBody \<Rightarrow> 'o handler" where
  "fetch_thread_route app wire body = identified wire (\<lambda>i.
     respond (fetch_thread (acl_of app) (app_wire app) PAGE_LIMIT i (ft_model body) (ft_res_id body) (ft_after_id body))
       messages_ok query_err)"

definition fetch_channel_route :: "app \<Rightarrow> WireIdentity \<Rightarrow> FetchChannelBody \<Rightarrow> 'o handler" where
  "fetch_channel_route app wire body = identified wire (\<lambda>i.
     respond (fetch_channel (app_wire app) PAGE_LIMIT i (fc_channel_id body) (fc_after_id body)) messages_ok query_err)"

definition fetch_inbox_route :: "app \<Rightarrow> WireIdentity \<Rightarrow> 'o handler" where
  "fetch_inbox_route app wire = identified wire (\<lambda>i.
     respond (fetch_inbox (app_wire app) PAGE_LIMIT i) messages_ok query_err)"

definition fetch_starred_route :: "app \<Rightarrow> WireIdentity \<Rightarrow> 'o handler" where
  "fetch_starred_route app wire = identified wire (\<lambda>i.
     respond (fetch_starred (app_wire app) PAGE_LIMIT i) messages_ok query_err)"

definition inbox_unread_route :: "WireIdentity \<Rightarrow> 'o handler" where
  "inbox_unread_route wire = identified wire (\<lambda>i.
     respond (inbox_unread_count i) (\<lambda>v n. ok_json (JObject [(''count'', JNumber (int n))])) query_err)"

definition channel_unread_route :: "WireIdentity \<Rightarrow> 'o handler" where
  "channel_unread_route wire = identified wire (\<lambda>i.
     respond (channel_unread_counts i)
       (\<lambda>v rows. ok_json (JObject [(''channels'', JArray (map (\<lambda>(c, n).
          JObject [(''channel_id'', juuid v c), (''unread'', JNumber n)]) rows))])) query_err)"

definition suggested_recipients_route :: "app \<Rightarrow> WireIdentity \<Rightarrow> RecipientsBody \<Rightarrow> 'o handler" where
  "suggested_recipients_route app wire body = identified wire (\<lambda>i.
     respond (suggested (acl_of app) (app_distinct_rows app) i (rb_model body) (rb_res_id body))
       (\<lambda>v rs. ok_json (JArray (map (recipient_json v) rs))) recipient_err)"

definition post_to_thread_route :: "app \<Rightarrow> WireIdentity \<Rightarrow> PostBody \<Rightarrow> 'o handler" where
  "post_to_thread_route app wire body = identified wire (\<lambda>i.
     respond (chatter_post (acl_of app) i (pb_model body) (pb_res_id body) (pb_body body) (pb_subject body)
         (or_false (pb_is_note body)))
       (\<lambda>v p. ok_json (JObject [(''message_id'', juuid v (pm_message_id p)),
                               (''notifications'', JNumber (int (length (pm_notifications p))))]))
       chatter_err)"

definition follow_thread_route :: "app \<Rightarrow> WireIdentity \<Rightarrow> FollowBody \<Rightarrow> 'o handler" where
  "follow_thread_route app wire body = as_partner wire (\<lambda>p.
     respond (follow (app_agg app) p (fb_model body) (fb_res_id body))
       (\<lambda>v _. ok_json (JObject [(''followed'', JBool True)])) chatter_err)"

definition unfollow_thread_route :: "WireIdentity \<Rightarrow> FollowBody \<Rightarrow> 'o handler" where
  "unfollow_thread_route wire body = as_partner wire (\<lambda>p.
     respond (unfollow p (fb_model body) (fb_res_id body))
       (\<lambda>v n. ok_json (JObject [(''removed'', JNumber (int n))])) chatter_err)"

definition schedule_thread_post_route :: "app \<Rightarrow> WireIdentity \<Rightarrow> ScheduleBody \<Rightarrow> 'o handler" where
  "schedule_thread_post_route app wire body = as_partner wire (\<lambda>p.
     respond (schedule_post (acl_of app) p (sb_model body) (sb_res_id body) (sb_body body) (sb_subject body)
         (sb_scheduled_date body) (or_false (sb_is_note body)))
       (\<lambda>v i. ok_json (JObject [(''scheduled_message_id'', juuid v i)])) chatter_err)"

text \<open>The error texts of \<open>ScheduleError\<close>; \<open>T\<close> is sqlx's own display.\<close>

fun show_schedule_error :: "(db_error \<Rightarrow> string) \<Rightarrow> env \<Rightarrow> ScheduleError \<Rightarrow> string" where
  "show_schedule_error T v (ScDb e) = ''db: '' @ T e"
| "show_schedule_error T v (ScInvalid m) = ''invalid input: '' @ m"
| "show_schedule_error T v (ScNotFound i) = ''not found: schedule '' @ uuid_text v i"
| "show_schedule_error T v (CannotPost m i) = ''forbidden: cannot post on '' @ m @ '' '' @ uuid_text v i"
| "show_schedule_error T v (NotAuthor i) = ''forbidden: scheduled message '' @ uuid_text v i @ '' is not yours''"

definition cancel_err :: "app \<Rightarrow> env \<Rightarrow> ScheduleError \<Rightarrow> Response" where
  "cancel_err app v e =
     (case e of
        ScNotFound i \<Rightarrow> json_response 404 (json_err ''no such scheduled message'')
      | ScInvalid m \<Rightarrow> json_response 422 (json_err m)
      | NotAuthor i \<Rightarrow> json_response 403 (json_err ''not your scheduled message'')
      | _ \<Rightarrow> json_response 500 (json_err (show_schedule_error (app_db_text app) v e)))"

definition cancel_scheduled_route :: "app \<Rightarrow> WireIdentity \<Rightarrow> uuid \<Rightarrow> 'o handler" where
  "cancel_scheduled_route app wire i = as_partner wire (\<lambda>author.
     respond (cancel_scheduled_message i author)
       (\<lambda>v _. ok_json (JObject [(''canceled'', JBool True)])) (cancel_err app))"

end
