(* ===== verification/Personas.thy ===== *)
theory Personas
  imports Members
begin

text \<open>
  Presence, typing and guests: \<open>presence_write_service.rs\<close> with \<open>presence_repository.rs\<close>, \<open>typing_service.rs\<close>,
  and \<open>guest_write_service.rs\<close> with \<open>guest_repository.rs\<close> (under \<open>src/application/service\<close> and
  \<open>src/infrastructure/persistence\<close>).  A presence row belongs to one partner or one guest (two partial unique
  indexes); a write inserts the row unless something clashes and then updates it.  The typing indicator stores
  nothing.  A guest is minted by anybody, and renamed by itself only.
\<close>

section \<open>Presence\<close>

text \<open>\<open>INSERT ... ON CONFLICT DO NOTHING\<close> has no target: a clash on any unique index skips the insert.\<close>

definition presence_clash :: "uuid \<Rightarrow> uuid option \<Rightarrow> uuid option \<Rightarrow> presence_row \<Rightarrow> bool" where
  "presence_clash i uid guest_id r \<longleftrightarrow>
     prs_id r = i \<or> (uid \<noteq> None \<and> prs_user_id r = uid) \<or> (guest_id \<noteq> None \<and> prs_guest_id r = guest_id)"

definition insert_presence ::
  "uuid \<Rightarrow> uuid option \<Rightarrow> uuid option \<Rightarrow> MailPresenceStatus \<Rightarrow> time \<Rightarrow> db \<Rightarrow> db_error + unit \<times> db" where
  "insert_presence i uid guest_id status now d =
     (if list_ex (presence_clash i uid guest_id) (presences d) then Inr ((), d)
      else if \<not> fk_ok (map gst_id (guests d)) guest_id then Inl (ForeignKeyViolation ''fk_mail_presences_guest_id'')
      else Inr ((), d\<lparr>presences := presences d @
        [\<lparr>prs_id = i, prs_user_id = uid, prs_guest_id = guest_id, prs_status = status, prs_last_poll = now\<rparr>]\<rparr>))"

text \<open>The trigger on the status column declares every pair of different statuses.\<close>

definition mail_presences_transitions :: "(MailPresenceStatus \<times> MailPresenceStatus) list" where
  "mail_presences_transitions =
     [(MailPresenceStatus.Away, MailPresenceStatus.Offline), (MailPresenceStatus.Away, MailPresenceStatus.Online),
      (MailPresenceStatus.Offline, MailPresenceStatus.Away), (MailPresenceStatus.Offline, MailPresenceStatus.Online),
      (MailPresenceStatus.Online, MailPresenceStatus.Away), (MailPresenceStatus.Online, MailPresenceStatus.Offline)]"

definition mail_presences_transition_check :: "presence_row \<Rightarrow> presence_row \<Rightarrow> bool" where
  "mail_presences_transition_check old new \<longleftrightarrow>
     prs_status new = prs_status old \<or> (prs_status old, prs_status new) \<in> set mail_presences_transitions"

definition update_presence ::
  "uuid option \<Rightarrow> uuid option \<Rightarrow> MailPresenceStatus \<Rightarrow> time \<Rightarrow> db \<Rightarrow> db_error + unit \<times> db" where
  "update_presence uid guest_id status now d =
     (case sql_update (\<lambda>r. prs_user_id r = uid \<and> prs_guest_id r = guest_id)
             (\<lambda>r. r\<lparr>prs_status := status, prs_last_poll := now\<rparr>) mail_presences_transition_check (presences d) of
        Inl e \<Rightarrow> Inl e
      | Inr (rs, rows) \<Rightarrow> Inr ((), d\<lparr>presences := rows\<rparr>))"

definition refresh_last_poll :: "uuid option \<Rightarrow> uuid option \<Rightarrow> (db, 'o, db_error, unit) act" where
  "refresh_last_poll uid guest_id =
     bindA new_v4 (\<lambda>i.
     bindA (stmt_now (insert_presence i uid guest_id MailPresenceStatus.Online)) (\<lambda>_.
     stmt_now (update_presence uid guest_id MailPresenceStatus.Online)))"

text \<open>The cast \<open>$4::mail_presence_status\<close> takes the label as it is.\<close>

definition pg_presence_status :: "string \<Rightarrow> db_error + MailPresenceStatus" where
  "pg_presence_status s =
     (case filter (\<lambda>x. MailPresenceStatus_show x = s)
             [MailPresenceStatus.Online, MailPresenceStatus.Away, MailPresenceStatus.Offline] of
        [] \<Rightarrow> Inl (BadCast ''mail_presence_status'')
      | x # _ \<Rightarrow> Inr x)"

definition set_status :: "uuid option \<Rightarrow> uuid option \<Rightarrow> string \<Rightarrow> (db, 'o, db_error, unit) act" where
  "set_status uid guest_id status =
     bindA new_v4 (\<lambda>i.
     bindA (stmt_now (\<lambda>now d. case pg_presence_status status of
              Inl e \<Rightarrow> Inl e | Inr s \<Rightarrow> insert_presence i uid guest_id s now d)) (\<lambda>_.
     stmt_now (\<lambda>now d. case pg_presence_status status of
       Inl e \<Rightarrow> Inl e | Inr s \<Rightarrow> update_presence uid guest_id s now d)))"

datatype PresenceError = PrDb db_error | PrInvalid string | ProofRequired

definition identity_columns :: "MessagingIdentity \<Rightarrow> uuid option \<times> uuid option" where
  "identity_columns identity =
     (case identity of User partner_id \<Rightarrow> (Some partner_id, None) | Guest guest_id \<Rightarrow> (None, Some guest_id))"

definition update_bus_presence :: "MessagingIdentity \<Rightarrow> bool \<Rightarrow> (db, 'o, PresenceError, unit) act" where
  "update_bus_presence identity session_proof_valid =
     (if \<not> session_proof_valid then fail ProofRequired
      else in_tx PrDb (case identity_columns identity of (u, g) \<Rightarrow> lift PrDb (refresh_last_poll u g)))"

definition uuid_nil :: uuid where
  "uuid_nil = 0"

definition persona_fields :: "(uuid \<Rightarrow> string) \<Rightarrow> MessagingIdentity \<Rightarrow> (string \<times> json) list" where
  "persona_fields U identity =
     [(''partner_id'', jopt (\<lambda>p. JString (U p)) (identity_partner_id identity)),
      (''guest_id'', jopt (\<lambda>g. JString (U g)) (identity_guest_id identity))]"

definition im_status_payload :: "(uuid \<Rightarrow> string) \<Rightarrow> MessagingIdentity \<Rightarrow> string \<Rightarrow> json" where
  "im_status_payload U identity status = JObject (persona_fields U identity @ [(''im_status'', JString status)])"

definition set_manual_im_status :: "MessagingIdentity \<Rightarrow> string \<Rightarrow> (db, 'o, PresenceError, unit) act" where
  "set_manual_im_status identity status =
     (if \<not> (status = ''online'' \<or> status = ''away'' \<or> status = ''offline'')
      then bindA (ask str_debug) (\<lambda>dbg. fail (PrInvalid (''im_status must be online|away|offline, got '' @ dbg status)))
      else in_tx PrDb (case identity_columns identity of (u, g) \<Rightarrow>
        bindA (lift PrDb (set_status u g status)) (\<lambda>_.
        bindA (ask uuid_text) (\<lambda>U.
        lift PrDb (stage_bus_event ''ImStatusUpdated'' ''MailPresence''
          (U (case identity_partner_id identity of Some p \<Rightarrow> p | None \<Rightarrow> uuid_nil))
          (identity_channel U identity) ''bus.bus/im_status_updated'' (im_status_payload U identity status))))))"

section \<open>Typing\<close>

datatype TypingError = TyDb db_error | TyNotMember uuid

definition notify_typing :: "uuid \<Rightarrow> MessagingIdentity \<Rightarrow> bool \<Rightarrow> (db, 'o, TypingError, unit) act" where
  "notify_typing channel_id identity typing =
     in_tx TyDb (
       bindA (lift TyDb (stmt (reading (member_id channel_id identity)))) (\<lambda>m.
       if m = None then fail (TyNotMember channel_id)
       else bindA (ask uuid_text) (\<lambda>U.
         lift TyDb (stage_bus_event ''TypingNotification'' ''DiscussChannel'' (U channel_id) (discuss_channel U channel_id)
           (if typing then ''discuss.channel/typing'' else ''discuss.channel/typing_stopped'')
           (JObject ([(''channel_id'', JString (U channel_id))] @ persona_fields U identity @
              [(''typing'', JBool typing)]))))))"

section \<open>Guests\<close>

definition guest_check :: "string \<Rightarrow> db_error option" where
  "guest_check name =
     (if btrim_nonempty name then None else Some (CheckViolation ''ck_mail_guests_name_required__required''))"

definition insert_guest :: "uuid \<Rightarrow> string \<Rightarrow> time \<Rightarrow> db \<Rightarrow> db_error + unit \<times> db" where
  "insert_guest guest_id name now d =
     (case guest_check name of
        Some e \<Rightarrow> Inl e
      | None \<Rightarrow>
          if guest_id \<in> set (map gst_id (guests d)) then Inl (UniqueViolation ''mail_guests_pkey'')
          else Inr ((), d\<lparr>guests := guests d @
            [\<lparr>gst_id = guest_id, gst_name = name, gst_active = True, gst_last_connection = now, gst_deleted_at = None\<rparr>]\<rparr>))"

definition live_guest :: "uuid \<Rightarrow> guest_row \<Rightarrow> bool" where
  "live_guest guest_id r \<longleftrightarrow> gst_id r = guest_id \<and> gst_active r \<and> gst_deleted_at r = None"

definition repo_update_name :: "uuid \<Rightarrow> string \<Rightarrow> time \<Rightarrow> db \<Rightarrow> db_error + bool \<times> db" where
  "repo_update_name guest_id new_name now d =
     (if \<not> list_ex (live_guest guest_id) (guests d) then Inr (False, d)
      else case guest_check new_name of
        Some e \<Rightarrow> Inl e
      | None \<Rightarrow> Inr (True, d\<lparr>guests := map (\<lambda>r. if live_guest guest_id r
          then r\<lparr>gst_name := new_name, gst_last_connection := now\<rparr> else r) (guests d)\<rparr>))"

definition repo_touch :: "uuid \<Rightarrow> time \<Rightarrow> db \<Rightarrow> db_error + unit \<times> db" where
  "repo_touch guest_id now d =
     Inr ((), d\<lparr>guests := map (\<lambda>r. if gst_id r = guest_id \<and> gst_active r
       then r\<lparr>gst_last_connection := now\<rparr> else r) (guests d)\<rparr>)"

datatype GuestError = GuDb db_error | GuInvalid string | GuNotFound uuid | GuForbidden

text \<open>\<open>subsec_nanos % 100_000\<close>; a clock before the epoch counts as 0.\<close>

definition rand_suffix :: "time \<Rightarrow> nat" where
  "rand_suffix t = (if t < 0 then 0 else nat (t mod NANOS_PER_SEC)) mod 100000"

definition guest_name :: "string option \<Rightarrow> (db, 'o, GuestError, string) act" where
  "guest_name name =
     (case name of
        Some n \<Rightarrow> if \<not> blank n \<and> length n \<le> 64 then ret n
                  else bindA now_utc (\<lambda>t. ret (''Guest '' @ nat_text (rand_suffix t)))
      | None \<Rightarrow> bindA now_utc (\<lambda>t. ret (''Guest '' @ nat_text (rand_suffix t))))"

definition mint :: "string option \<Rightarrow> (db, 'o, GuestError, uuid) act" where
  "mint name0 =
     bindA (guest_name name0) (\<lambda>name.
     bindA new_v4 (\<lambda>guest_id.
     in_tx GuDb (
       bindA (lift GuDb (stmt_now (insert_guest guest_id name))) (\<lambda>_.
       bindA (ask uuid_text) (\<lambda>U.
       bindA (lift GuDb (stage_bus_event ''GuestCreated'' ''MailGuest'' (U guest_id) (guest_channel U guest_id)
         ''mail.guest/insert'' (JObject [(''guest_id'', JString (U guest_id)), (''name'', JString name)]))) (\<lambda>_.
       ret guest_id))))))"

definition update_name :: "uuid \<Rightarrow> string \<Rightarrow> MessagingIdentity \<Rightarrow> (db, 'o, GuestError, unit) act" where
  "update_name guest_id new_name caller =
     (if blank new_name \<or> length new_name > 64 then fail (GuInvalid ''name must be 1..=64 chars'')
      else if caller \<noteq> Guest guest_id then fail GuForbidden
      else in_tx GuDb (
        bindA (lift GuDb (stmt_now (repo_update_name guest_id new_name))) (\<lambda>found.
        if \<not> found then fail (GuNotFound guest_id)
        else bindA (ask uuid_text) (\<lambda>U.
          lift GuDb (stage_bus_event ''GuestRenamed'' ''MailGuest'' (U guest_id) (guest_channel U guest_id)
            ''mail.guest/update'' (JObject [(''guest_id'', JString (U guest_id))]))))))"

definition touch :: "uuid \<Rightarrow> (db, 'o, GuestError, unit) act" where
  "touch guest_id = lift GuDb (query_now (repo_touch guest_id))"

section \<open>Presence as a map\<close>

text \<open>The abstract state: the status of each persona that has one.\<close>

fun persona :: "presence_row \<Rightarrow> MessagingIdentity option" where
  "persona r = (case (prs_user_id r, prs_guest_id r) of
     (Some p, None) \<Rightarrow> Some (User p)
   | (None, Some g) \<Rightarrow> Some (Guest g)
   | _ \<Rightarrow> None)"

definition presence_ok :: "db \<Rightarrow> bool" where
  "presence_ok d \<longleftrightarrow> distinct (map prs_id (presences d)) \<and> distinct (map persona (presences d)) \<and>
     (\<forall>r\<in>set (presences d). persona r \<noteq> None \<and> fk_ok (map gst_id (guests d)) (prs_guest_id r))"

definition presence_map :: "db \<Rightarrow> MessagingIdentity \<Rightarrow> MailPresenceStatus option" where
  "presence_map d i = map_option prs_status (find (\<lambda>r. persona r = Some i) (presences d))"

lemma persona_columns:
  "persona r = Some i \<longleftrightarrow> prs_user_id r = identity_partner_id i \<and> prs_guest_id r = identity_guest_id i"
  by (cases i) (auto split: option.splits)

declare persona.simps [simp del]

lemma identity_columns_simps: "identity_columns i = (identity_partner_id i, identity_guest_id i)"
  by (cases i) (simp_all add: identity_columns_def)

lemma persona_clash:
  assumes "persona r \<noteq> None" and "prs_id r \<noteq> k"
  shows "presence_clash k (identity_partner_id i) (identity_guest_id i) r \<longleftrightarrow> persona r = Some i"
  using assms by (cases i) (auto simp: presence_clash_def persona.simps split: option.splits)

lemma presence_map_None: "presence_map d i = None \<longleftrightarrow> (\<forall>r\<in>set (presences d). persona r \<noteq> Some i)"
  by (auto simp: presence_map_def find_None_iff)

lemma insert_presence_Inr:
  assumes "insert_presence k (identity_partner_id i) (identity_guest_id i) st now d = Inr (u, d')"
    and ok: "presence_ok d" and k: "k \<notin> prs_id ` set (presences d)"
  shows "presence_ok d' \<and> d' = d\<lparr>presences := presences d'\<rparr> \<and>
    presence_map d' = (if presence_map d i = None then (presence_map d)(i \<mapsto> st) else presence_map d)"
proof -
  let ?row = "\<lparr>prs_id = k, prs_user_id = identity_partner_id i, prs_guest_id = identity_guest_id i, prs_status = st, prs_last_poll = now\<rparr>"
  have row: "persona ?row = Some i" by (simp add: persona_columns)
  have "presence_clash k (identity_partner_id i) (identity_guest_id i) r \<longleftrightarrow> persona r = Some i" if "r \<in> set (presences d)" for r
    using that ok k by (intro persona_clash) (auto simp: presence_ok_def)
  then have clash: "list_ex (presence_clash k (identity_partner_id i) (identity_guest_id i)) (presences d) \<longleftrightarrow> presence_map d i \<noteq> None"
    by (auto simp: list_ex_iff presence_map_None)
  show ?thesis
  proof (cases "presence_map d i = None")
    case False
    with assms(1) clash ok show ?thesis by (auto simp: insert_presence_def)
  next
    case True
    with assms(1) clash have d': "d' = d\<lparr>presences := presences d @ [?row]\<rparr>" and fk: "fk_ok (map gst_id (guests d)) (identity_guest_id i)"
      by (auto simp: insert_presence_def split: if_splits)
    have "presence_map d' j = ((presence_map d)(i \<mapsto> st)) j" for j
      using True row by (cases "find (\<lambda>r. persona r = Some i) (presences d)")
        (auto simp: presence_map_def d' find_append split: option.split)
    moreover have "presence_ok d'"
      using ok k fk True row by (auto simp: presence_ok_def d' presence_map_None image_iff)
    ultimately show ?thesis using True by (auto simp: d')
  qed
qed

lemma presence_transitions_total: "mail_presences_transition_check r r'"
  by (cases "prs_status r"; cases "prs_status r'")
    (simp_all add: mail_presences_transition_check_def mail_presences_transitions_def)

lemma update_presence_Inr:
  assumes "update_presence (identity_partner_id i) (identity_guest_id i) st now d = Inr (u, d')" and ok: "presence_ok d"
  shows "presence_ok d' \<and> d' = d\<lparr>presences := presences d'\<rparr> \<and>
    presence_map d' = (if presence_map d i = None then presence_map d else (presence_map d)(i \<mapsto> st))"
proof -
  let ?f = "\<lambda>r. r\<lparr>prs_status := st, prs_last_poll := now\<rparr>"
  let ?g = "\<lambda>r. if persona r = Some i then ?f r else r"
  have f: "persona (?f r) = persona r" for r by (simp add: persona.simps)
  then have g: "persona (?g r) = persona r" "prs_id (?g r) = prs_id r" "prs_guest_id (?g r) = prs_guest_id r" for r by simp_all
  from assms(1) have d': "d' = d\<lparr>presences := map ?g (presences d)\<rparr>"
    by (auto simp: update_presence_def persona_columns [symmetric] split: sum.splits dest!: sql_update_Inr)
  have "presence_map d' j = (if presence_map d i = None then presence_map d else (presence_map d)(i \<mapsto> st)) j" for j
  proof -
    have "find (\<lambda>r. persona r = Some j) (presences d') = map_option ?g (find (\<lambda>r. persona r = Some j) (presences d))"
      unfolding d' by (simp add: find_map_same g del: if_split)
    then have "presence_map d' j = map_option (\<lambda>r. prs_status (?g r)) (find (\<lambda>r. persona r = Some j) (presences d))"
      by (simp add: presence_map_def option.map_comp comp_def)
    also have "\<dots> = (if j = i then map_option (\<lambda>_. st) (presence_map d i) else presence_map d j)"
      by (cases "find (\<lambda>r. persona r = Some j) (presences d)") (auto simp: presence_map_def dest: find_SomeD)
    finally show ?thesis by auto
  qed
  moreover have "presence_ok d'"
    using ok f by (auto simp: presence_ok_def d' comp_def g(1,2) cong: if_cong)
  ultimately show ?thesis by (simp add: d' fun_eq_iff)
qed

text \<open>Both repository writes, after the fresh id: the map is updated at the persona.\<close>

definition presence_written :: "MessagingIdentity \<Rightarrow> MailPresenceStatus \<Rightarrow> db \<Rightarrow> db \<Rightarrow> bool" where
  "presence_written i st d d' \<longleftrightarrow> presence_ok d' \<and> presence_map d' = (presence_map d)(i \<mapsto> st) \<and>
     d' = d\<lparr>presences := presences d'\<rparr>"

lemma presence_write_Inr:
  assumes "insert_presence k (identity_partner_id i) (identity_guest_id i) st now d = Inr (u, d1)"
    and "update_presence (identity_partner_id i) (identity_guest_id i) st now' d1 = Inr (u', d2)"
    and "presence_ok d" and "k \<notin> prs_id ` set (presences d)"
  shows "presence_written i st d d2"
proof -
  note 1 = insert_presence_Inr [OF assms(1,3,4)]
  with update_presence_Inr [OF assms(2)] have 2: "presence_ok d2 \<and> d2 = d1\<lparr>presences := presences d2\<rparr> \<and>
    presence_map d2 = (if presence_map d1 i = None then presence_map d1 else (presence_map d1)(i \<mapsto> st))" by blast
  have "d2 = d\<lparr>presences := presences d2\<rparr>" using 1 2 by (metis db.update_convs(4) db.surjective)
  then show ?thesis using 1 2 by (auto simp: presence_written_def split: if_splits)
qed

lemma refresh_last_poll_Inr:
  assumes "refresh_last_poll (identity_partner_id i) (identity_guest_id i) v w = (Inr u, w')"
    and ok: "presence_ok (db w)" and fresh: "\<forall>n. rng v n \<notin> prs_id ` set (presences (db w))"
  shows "presence_written i MailPresenceStatus.Online (db w) (db w')"
proof -
  from assms(1) obtain k w1 u1 w2 where k: "new_v4 v w = ((Inr k :: db_error + uuid), w1)"
    and 1: "stmt_now (insert_presence k (identity_partner_id i) (identity_guest_id i) MailPresenceStatus.Online) v w1 = (Inr u1, w2)"
    and 2: "stmt_now (update_presence (identity_partner_id i) (identity_guest_id i) MailPresenceStatus.Online) v w2 = (Inr u, w')"
    unfolding refresh_last_poll_def by (elim bindA_InrE) (rule that)
  from k have w1: "db w1 = db w" and "k = rng v (tick w)" by (auto elim: new_v4_InrE)
  with fresh have kn: "k \<notin> prs_id ` set (presences (db w))" by metis
  from stmt_now_InrE [OF 1] w1 have 1: "insert_presence k (identity_partner_id i) (identity_guest_id i) MailPresenceStatus.Online (tx_start w1) (db w) =
    Inr (u1, db w2)" by metis
  from stmt_now_InrE [OF 2] have "update_presence (identity_partner_id i) (identity_guest_id i) MailPresenceStatus.Online (tx_start w2) (db w2) =
    Inr (u, db w')" by metis
  with 1 ok kn show ?thesis by (blast intro: presence_write_Inr)
qed

lemma pg_presence_status_show: "pg_presence_status s = Inr st \<longleftrightarrow> s = MailPresenceStatus_show st"
  by (cases st) (auto simp: pg_presence_status_def)

lemma set_status_Inr:
  assumes "set_status (identity_partner_id i) (identity_guest_id i) s v w = (Inr u, w')"
    and ok: "presence_ok (db w)" and fresh: "\<forall>n. rng v n \<notin> prs_id ` set (presences (db w))"
  shows "\<exists>st. s = MailPresenceStatus_show st \<and> presence_written i st (db w) (db w')"
proof -
  let ?ins = "\<lambda>k now d. case pg_presence_status s of Inl e \<Rightarrow> Inl e
    | Inr st \<Rightarrow> insert_presence k (identity_partner_id i) (identity_guest_id i) st now d"
  let ?upd = "\<lambda>now d. case pg_presence_status s of Inl e \<Rightarrow> Inl e
    | Inr st \<Rightarrow> update_presence (identity_partner_id i) (identity_guest_id i) st now d"
  from assms(1) obtain k w1 u1 w2 where k: "new_v4 v w = ((Inr k :: db_error + uuid), w1)"
    and 1: "stmt_now (?ins k) v w1 = (Inr u1, w2)" and 2: "stmt_now ?upd v w2 = (Inr u, w')"
    unfolding set_status_def by (elim bindA_InrE) (rule that)
  from k have w1: "db w1 = db w" and "k = rng v (tick w)" by (auto elim: new_v4_InrE)
  with fresh have kn: "k \<notin> prs_id ` set (presences (db w))" by metis
  from stmt_now_InrE [OF 1] w1 have 1: "?ins k (tx_start w1) (db w) = Inr (u1, db w2)" by metis
  from stmt_now_InrE [OF 2] have 2: "?upd (tx_start w2) (db w2) = Inr (u, db w')" by metis
  from 1 obtain st where st: "pg_presence_status s = Inr st" by (auto split: sum.splits)
  from 1 2 ok kn have "presence_written i st (db w) (db w')" unfolding st by (auto intro: presence_write_Inr)
  with st show ?thesis by (auto simp: pg_presence_status_show)
qed

text \<open>C31: presence refines one update of the map from personas to statuses.  A poll with a valid proof puts the
  caller online; a manual status puts the caller where it says and announces it on the caller's own channel;
  every other persona keeps its status, each persona has at most one row, nothing else is written, and a
  call that fails without a lost acknowledgement writes nothing.\<close>

theorem presence_refines:
  assumes "presence_ok (db w)" and "\<forall>n. rng v n \<notin> prs_id ` set (presences (db w))"
  shows "(update_bus_presence i valid v w = (r, w') \<longrightarrow>
      isl r \<and> db w' = db w \<or> valid \<and> presence_written i MailPresenceStatus.Online (db w) (db w')) \<and>
    (set_manual_im_status i s v w = (r, w') \<longrightarrow> isl r \<and> db w' = db w \<or>
      (\<exists>st d ev. s = MailPresenceStatus_show st \<and> presence_written i st (db w) d \<and>
         db w' = d\<lparr>outbox := outbox d @ [ev]\<rparr> \<and> event_channel ev = Some (identity_channel (uuid_text v) i) \<and>
         event_type ev = ''ImStatusUpdated''))"
proof (intro conjI impI)
  assume run: "update_bus_presence i valid v w = (r, w')"
  show "isl r \<and> db w' = db w \<or> valid \<and> presence_written i MailPresenceStatus.Online (db w) (db w')"
  proof (cases valid)
    case False
    with run show ?thesis by (auto simp: update_bus_presence_def fail_def)
  next
    case True
    let ?body = "lift PrDb (refresh_last_poll (identity_partner_id i) (identity_guest_id i))"
    from run True have "in_tx PrDb ?body v w = (r, w')" by (simp add: update_bus_presence_def identity_columns_simps)
    moreover have "straight ?body" unfolding refresh_last_poll_def by (intro straight_intros)
    ultimately show ?thesis
    proof (rule in_tx_straight_cases)
      fix x w1 assume b: "?body v (begin_tx v w) = (Inr x, w1)" and d: "db w' = db w1"
      from b have "refresh_last_poll (identity_partner_id i) (identity_guest_id i) v (begin_tx v w) = (Inr x, w1)"
        by (rule lift_InrE)
      from refresh_last_poll_Inr [OF this] assms True d show ?thesis by simp
    qed simp
  qed
next
  assume run: "set_manual_im_status i s v w = (r, w')"
  let ?U = "uuid_text v"
  let ?ev = "stage_bus_event ''ImStatusUpdated'' ''MailPresence''
    (?U (case identity_partner_id i of Some p \<Rightarrow> p | None \<Rightarrow> uuid_nil))
    (identity_channel ?U i) ''bus.bus/im_status_updated'' (im_status_payload ?U i s)"
  let ?set = "set_status (identity_partner_id i) (identity_guest_id i) s"
  let ?Q = "\<exists>st d ev. s = MailPresenceStatus_show st \<and> presence_written i st (db w) d \<and>
         db w' = d\<lparr>outbox := outbox d @ [ev]\<rparr> \<and> event_channel ev = Some (identity_channel ?U i) \<and>
         event_type ev = ''ImStatusUpdated''"
  show "isl r \<and> db w' = db w \<or> ?Q"
  proof (cases "s = ''online'' \<or> s = ''away'' \<or> s = ''offline''")
    case False
    with run show ?thesis by (auto simp: set_manual_im_status_def bindA_ask fail_def)
  next
    case True
    let ?body = "bindA (lift PrDb ?set) (\<lambda>_. bindA (ask uuid_text) (\<lambda>U.
        lift PrDb (stage_bus_event ''ImStatusUpdated'' ''MailPresence''
          (U (case identity_partner_id i of Some p \<Rightarrow> p | None \<Rightarrow> uuid_nil))
          (identity_channel U i) ''bus.bus/im_status_updated'' (im_status_payload U i s))))"
    from run True have "in_tx PrDb ?body v w = (r, w')" by (auto simp: set_manual_im_status_def identity_columns_simps)
    moreover have "straight ?body" unfolding set_status_def by (intro straight_intros)
    ultimately show ?thesis
    proof (rule in_tx_straight_cases)
      fix x w1 assume b: "?body v (begin_tx v w) = (Inr x, w1)" and d: "db w' = db w1"
      from b obtain w0 u where 1: "?set v (begin_tx v w) = (Inr u, w0)" and 2: "?ev v w0 = (Inr x, w1)"
        unfolding bindA_ask by (elim bindA_InrE lift_InrE ask_InrE) (simp only: that)
      from set_status_Inr [OF 1] assms obtain st where st: "s = MailPresenceStatus_show st" "presence_written i st (db w) (db w0)"
        by auto
      from 2 obtain ev where "db w1 = (db w0)\<lparr>outbox := outbox (db w0) @ [ev]\<rparr>" "event_type ev = ''ImStatusUpdated''"
        "event_channel ev = Some (identity_channel ?U i)" by (rule stage_bus_event_InrE)
      with st d have ?Q by metis
      then show ?thesis ..
    qed simp
  qed
qed

text \<open>Only a live member types; what is written is one event, on the channel's stream.\<close>

lemma notify_typing_effect:
  assumes "notify_typing c i typing v w = (r, w')"
  shows "isl r \<and> db w' = db w \<or>
    (\<exists>m ev. m \<in> set (channel_members (db w)) \<and> seat c i m \<and> db w' = (db w)\<lparr>outbox := outbox (db w) @ [ev]\<rparr> \<and>
       event_type ev = ''TypingNotification'' \<and> event_channel ev = Some (discuss_channel (uuid_text v) c))"
proof -
  let ?ev = "\<lambda>U. lift TyDb (stage_bus_event ''TypingNotification'' ''DiscussChannel'' (U c) (discuss_channel U c)
           (if typing then ''discuss.channel/typing'' else ''discuss.channel/typing_stopped'')
           (JObject ([(''channel_id'', JString (U c))] @ persona_fields U i @ [(''typing'', JBool typing)])))"
  let ?rest = "\<lambda>m. if m = None then fail (TyNotMember c) else bindA (ask uuid_text) ?ev"
  let ?body = "bindA (lift TyDb (stmt (reading (member_id c i)))) ?rest"
  have "straight ?body" by (intro straight_intros)
  with assms show ?thesis unfolding notify_typing_def
  proof (rule in_tx_straight_cases)
    fix x w1 assume b: "?body v (begin_tx v w) = (Inr x, w1)" and d: "db w' = db w1"
    from b obtain m w0 where 1: "lift TyDb (stmt (reading (member_id c i))) v (begin_tx v w) = (Inr m, w0)"
      and 2: "?rest m v w0 = (Inr x, w1)" by (rule bindA_InrE)
    from 1 have m: "m = member_id c i (db w)" "db w0 = db w" by (auto elim!: reading_stmt_InrE)
    from 2 have ne: "m \<noteq> None" and 3: "?ev (uuid_text v) v w0 = (Inr x, w1)" by (auto simp: fail_def bindA_ask split: if_splits)
    from ne m obtain q where "q \<in> set (channel_members (db w))" "seat c i q"
      by (auto simp: member_id_def dest: find_SomeD)
    moreover from 3 obtain ev where "db w1 = (db w0)\<lparr>outbox := outbox (db w0) @ [ev]\<rparr>" "event_type ev = ''TypingNotification''"
      "event_channel ev = Some (discuss_channel (uuid_text v) c)" by (elim lift_InrE stage_bus_event_InrE)
    ultimately show ?thesis using m d by metis
  qed simp
qed

section \<open>Guests\<close>

text \<open>A guest's row under its id, and the required name.\<close>

definition guests_ok :: "db \<Rightarrow> bool" where
  "guests_ok d \<longleftrightarrow> distinct (map gst_id (guests d)) \<and> (\<forall>r\<in>set (guests d). btrim_nonempty (gst_name r))"

definition guest_at :: "db \<Rightarrow> uuid \<Rightarrow> guest_row option" where
  "guest_at d g = find (\<lambda>r. gst_id r = g) (guests d)"

lemma guest_at_row: "distinct (map gst_id (guests d)) \<Longrightarrow> r \<in> set (guests d) \<Longrightarrow> guest_at d (gst_id r) = Some r"
  unfolding guest_at_def by (rule find_distinct) simp_all

definition guest_live :: "db \<Rightarrow> uuid \<Rightarrow> bool" where
  "guest_live d g \<longleftrightarrow> (\<exists>r. guest_at d g = Some r \<and> gst_active r \<and> gst_deleted_at r = None)"

lemma list_ex_live:
  assumes "distinct (map gst_id (guests d))"
  shows "list_ex (live_guest g) (guests d) \<longleftrightarrow> guest_live d g"
  using guest_at_row [OF assms] by (fastforce simp: list_ex_iff live_guest_def guest_live_def guest_at_def dest: find_SomeD)

lemma insert_guest_Inr:
  assumes "insert_guest g n now d = Inr (u, d')" and "guests_ok d"
  obtains rows where "d' = d\<lparr>guests := rows\<rparr>" and "guests_ok d'" and "guest_at d g = None"
    and "guest_at d' = (guest_at d)(g \<mapsto> \<lparr>gst_id = g, gst_name = n, gst_active = True, gst_last_connection = now, gst_deleted_at = None\<rparr>)"
proof -
  let ?row = "\<lparr>gst_id = g, gst_name = n, gst_active = True, gst_last_connection = now, gst_deleted_at = None\<rparr>"
  from assms(1) have d': "d' = d\<lparr>guests := guests d @ [?row]\<rparr>" and g: "g \<notin> set (map gst_id (guests d))" and n: "btrim_nonempty n"
    by (auto simp: insert_guest_def guest_check_def split: if_splits)
  from g have "find (\<lambda>r. gst_id r = g) (guests d) = None" by (auto simp: find_None_iff)
  with assms(2) g n show ?thesis
    by (intro that [OF d']) (auto simp: d' guests_ok_def guest_at_def find_append fun_eq_iff split: option.split)
qed

lemma repo_update_name_True:
  assumes "repo_update_name g n now d = Inr (True, d')" and ok: "guests_ok d"
  obtains rows where "d' = d\<lparr>guests := rows\<rparr>" and "guest_live d g" and "guests_ok d'"
    and "guest_at d' = (guest_at d)(g \<mapsto> (the (guest_at d g))\<lparr>gst_name := n, gst_last_connection := now\<rparr>)"
proof -
  let ?g = "\<lambda>r. if live_guest g r then r\<lparr>gst_name := n, gst_last_connection := now\<rparr> else r"
  from assms have d': "d' = d\<lparr>guests := map ?g (guests d)\<rparr>" and live: "guest_live d g" and n: "btrim_nonempty n"
    by (auto simp: repo_update_name_def guests_ok_def list_ex_live guest_check_def split: if_splits)
  have id: "gst_id (?g r) = gst_id r" for r by simp
  have "guest_at d' k = map_option ?g (guest_at d k)" for k
    unfolding guest_at_def d' by (simp add: find_map_same id del: if_split)
  moreover from live obtain r where r: "guest_at d g = Some r" "gst_active r" "gst_deleted_at r = None"
    by (auto simp: guest_live_def)
  moreover have "gst_id q = k" if "guest_at d k = Some q" for k q using that by (auto simp: guest_at_def dest: find_SomeD)
  ultimately have "guest_at d' k = ((guest_at d)(g \<mapsto> r\<lparr>gst_name := n, gst_last_connection := now\<rparr>)) k" for k
    by (cases "guest_at d k") (auto simp: live_guest_def)
  moreover have "guests_ok d'" using ok n by (auto simp: guests_ok_def d' comp_def id cong: if_cong)
  ultimately show ?thesis using that [OF d' live] r(1) by (simp add: fun_eq_iff)
qed

text \<open>A rename is done by the guest itself, while it is live, and touches its name and its liveness stamp only;
  a mint adds one live guest under a new id, with the given name if it is acceptable, and with a non-blank
  one in any case.  Both announce it with one event on the guest's channel.\<close>

lemma update_name_effect:
  assumes "update_name g n caller v w = (r, w')" and "guests_ok (db w)"
  shows "isl r \<and> db w' = db w \<or>
    caller = Guest g \<and> guest_live (db w) g \<and> guests_ok (db w') \<and>
    (\<exists>now ev rows. db w' = (db w)\<lparr>guests := rows, outbox := outbox (db w) @ [ev]\<rparr> \<and> event_type ev = ''GuestRenamed'' \<and>
       guest_at (db w') = (guest_at (db w))(g \<mapsto> (the (guest_at (db w) g))\<lparr>gst_name := n, gst_last_connection := now\<rparr>))"
proof (cases "blank n \<or> length n > 64 \<or> caller \<noteq> Guest g")
  case True
  with assms(1) show ?thesis by (auto simp: update_name_def fail_def split: if_splits)
next
  case False
  let ?ev = "\<lambda>U. lift GuDb (stage_bus_event ''GuestRenamed'' ''MailGuest'' (U g) (guest_channel U g)
            ''mail.guest/update'' (JObject [(''guest_id'', JString (U g))]))"
  let ?rest = "\<lambda>found. if \<not> found then fail (GuNotFound g) else bindA (ask uuid_text) ?ev"
  let ?body = "bindA (lift GuDb (stmt_now (repo_update_name g n))) ?rest"
  from assms(1) False have "in_tx GuDb ?body v w = (r, w')" by (simp add: update_name_def)
  moreover have "straight ?body" by (intro straight_intros)
  ultimately show ?thesis
  proof (rule in_tx_straight_cases)
    fix x w1 assume b: "?body v (begin_tx v w) = (Inr x, w1)" and d: "db w' = db w1"
    from b obtain found w0 where 1: "lift GuDb (stmt_now (repo_update_name g n)) v (begin_tx v w) = (Inr found, w0)"
      and 2: "?rest found v w0 = (Inr x, w1)" by (rule bindA_InrE)
    from 2 have f: found and 3: "?ev (uuid_text v) v w0 = (Inr x, w1)" by (auto simp: fail_def bindA_ask split: if_splits)
    from 1 f obtain now where "repo_update_name g n now (db w) = Inr (True, db w0)" by (elim lift_InrE stmt_now_InrE) auto
    then obtain rows where w0: "db w0 = (db w)\<lparr>guests := rows\<rparr>"
      and live: "guest_live (db w) g" and ok0: "guests_ok (db w0)"
      and at: "guest_at (db w0) = (guest_at (db w))(g \<mapsto> (the (guest_at (db w) g))\<lparr>gst_name := n, gst_last_connection := now\<rparr>)"
      using assms(2) by (rule repo_update_name_True)
    from 3 obtain ev where ev: "db w1 = (db w0)\<lparr>outbox := outbox (db w0) @ [ev]\<rparr>" "event_type ev = ''GuestRenamed''"
      by (elim lift_InrE stage_bus_event_InrE)
    have w': "db w' = (db w)\<lparr>guests := rows, outbox := outbox (db w) @ [ev]\<rparr>" by (simp add: d ev(1) w0)
    have "guest_at (db w') = guest_at (db w0)" "guests_ok (db w') = guests_ok (db w0)"
      by (simp_all add: w' w0 guest_at_def guests_ok_def fun_eq_iff)
    with live ok0 at False ev(2) w' show ?thesis by metis
  qed simp
qed

lemma mint_effect:
  assumes "mint name v w = (r, w')" and "guests_ok (db w)"
  shows "isl r \<and> db w' = db w \<or>
    (\<exists>g n now ev rows. guest_at (db w) g = None \<and> guests_ok (db w') \<and>
       db w' = (db w)\<lparr>guests := rows, outbox := outbox (db w) @ [ev]\<rparr> \<and> event_type ev = ''GuestCreated'' \<and>
       guest_at (db w') = (guest_at (db w))(g \<mapsto> \<lparr>gst_id = g, gst_name = n, gst_active = True, gst_last_connection = now,
         gst_deleted_at = None\<rparr>) \<and> (r = Inr g \<or> isl r))"
proof -
  let ?ev = "\<lambda>g n U. stage_bus_event ''GuestCreated'' ''MailGuest'' (U g) (guest_channel U g)
         ''mail.guest/insert'' (JObject [(''guest_id'', JString (U g)), (''name'', JString n)])"
  let ?tx = "\<lambda>g n. bindA (lift GuDb (stmt_now (insert_guest g n))) (\<lambda>_.
       bindA (ask uuid_text) (\<lambda>U. bindA (lift GuDb (?ev g n U)) (\<lambda>_. ret g)))"
  have "\<exists>n w0. guest_name name v w = (Inr n, w0) \<and> db w0 = db w"
    unfolding guest_name_def ret_def bindA_def now_utc_def by (cases name) simp_all
  then obtain n w0 where n: "guest_name name v w = (Inr n, w0)" and w0: "db w0 = db w" by blast
  define g where "g = rng v (tick w0)"
  have "in_tx GuDb (?tx g n) v (w0\<lparr>tick := Suc (tick w0)\<rparr>) = (r, w')"
    using assms(1) n by (simp add: mint_def bindA_def new_v4_def g_def)
  moreover have "straight (?tx g n)" by (intro straight_intros)
  ultimately show ?thesis
  proof (rule in_tx_straight_cases)
    fix x w1 assume b: "?tx g n v (begin_tx v (w0\<lparr>tick := Suc (tick w0)\<rparr>)) = (Inr x, w1)" and d: "db w' = db w1" and r: "r = Inr x \<or> isl r"
    from b obtain u w2 u' where 1: "stmt_now (insert_guest g n) v (begin_tx v (w0\<lparr>tick := Suc (tick w0)\<rparr>)) = (Inr u, w2)"
      and 2: "?ev g n (uuid_text v) v w2 = (Inr u', w1)" and x: "x = g"
      unfolding bindA_ask by (elim bindA_InrE lift_InrE ask_InrE ret_InrE) (simp only: that)
    from 1 w0 obtain now where "insert_guest g n now (db w) = Inr (u, db w2)" by (elim stmt_now_InrE) auto
    then obtain rows where w2: "db w2 = (db w)\<lparr>guests := rows\<rparr>" and ok: "guests_ok (db w2)" and new: "guest_at (db w) g = None"
      and at: "guest_at (db w2) = (guest_at (db w))(g \<mapsto> \<lparr>gst_id = g, gst_name = n, gst_active = True, gst_last_connection = now,
         gst_deleted_at = None\<rparr>)" using assms(2) by (rule insert_guest_Inr)
    from 2 obtain ev where ev: "db w1 = (db w2)\<lparr>outbox := outbox (db w2) @ [ev]\<rparr>" "event_type ev = ''GuestCreated''"
      by (elim stage_bus_event_InrE)
    have w': "db w' = (db w)\<lparr>guests := rows, outbox := outbox (db w) @ [ev]\<rparr>" by (simp add: d ev(1) w2)
    have same: "guest_at (db w') = guest_at (db w2)" "guests_ok (db w') = guests_ok (db w2)"
      by (simp_all add: w' w2 guest_at_def guests_ok_def fun_eq_iff)
    from r x have "r = Inr g \<or> isl r" by simp
    with ok new at ev(2) w' same show ?thesis by metis
  qed (simp add: w0)
qed

section \<open>The property at a concrete input\<close>

definition guest_world :: "(db, nat) world" where
  "guest_world = world_of (empty_db\<lparr>guests := [\<lparr>gst_id = 5, gst_name = ''G'', gst_active = True,
     gst_last_connection = 0, gst_deleted_at = None\<rparr>],
     presences := [\<lparr>prs_id = 1, prs_user_id = Some 5, prs_guest_id = None, prs_status = MailPresenceStatus.Online,
       prs_last_poll = 0\<rparr>]\<rparr>)"

definition away_run :: "(PresenceError + unit) \<times> (db, nat) world" where
  "away_run = set_manual_im_status (Guest 5) ''away'' plain_env guest_world"

text \<open>The guest 5 goes away; the partner with the same number stays online.\<close>

lemma presence_refines_witness:
  "presence_map (db (snd away_run)) (Guest 5) = Some MailPresenceStatus.Away \<and>
   presence_map (db (snd away_run)) (User 5) = Some MailPresenceStatus.Online"
proof -
  have run: "set_manual_im_status (Guest 5) ''away'' plain_env guest_world = (fst away_run, snd away_run)"
    by (simp add: away_run_def)
  have ok: "presence_ok (db guest_world)"
    by (simp add: presence_ok_def guest_world_def world_of_def empty_db_def persona.simps fk_ok_def)
  have "\<forall>n. rng plain_env n \<notin> prs_id ` set (presences (db guest_world))"
    by (simp add: plain_env_def guest_world_def world_of_def empty_db_def)
  from presence_refines [OF ok this, of "Guest 5" _ "fst away_run" "snd away_run" "''away''"] run
  have "isl (fst away_run) \<or>
    (\<exists>st d ev. ''away'' = MailPresenceStatus_show st \<and> presence_written (Guest 5) st (db guest_world) d \<and>
       db (snd away_run) = d\<lparr>outbox := outbox d @ [ev]\<rparr>)" by blast
  moreover have "\<not> isl (fst away_run)" by code_simp
  ultimately obtain st d ev where st: "''away'' = MailPresenceStatus_show st"
    and p: "presence_written (Guest 5) st (db guest_world) d" and e: "db (snd away_run) = d\<lparr>outbox := outbox d @ [ev]\<rparr>" by blast
  from st have "st = MailPresenceStatus.Away" by (cases st) simp_all
  moreover from p e have "presence_map (db (snd away_run)) = (presence_map (db guest_world))(Guest 5 \<mapsto> st)"
    by (simp add: presence_written_def presence_map_def fun_eq_iff)
  moreover have "presence_map (db guest_world) (User 5) = Some MailPresenceStatus.Online" by code_simp
  ultimately show ?thesis by simp
qed

end
