(* ===== verification/ChannelRoutes.thy ===== *)
theory ChannelRoutes
  imports ThreadRoutes Personas MessageEdits
begin

text \<open>
  The discuss routes: \<open>src/presentation/http/channel_routes.rs\<close>, over the services of Channels, Members,
  Personas, Queries and MessageEdits.  The membership gates are the services' own; the two routes that edit a
  channel list its members first, which only a member may.
\<close>

section \<open>Error tables\<close>

fun member_err :: "env \<Rightarrow> MemberError \<Rightarrow> Response" where
  "member_err v (NotMember i) = json_response 403 (json_err (''not a member of channel '' @ uuid_text v i))"
| "member_err v (NotJoinable i) = json_response 403 (json_err (''channel '' @ uuid_text v i @ '' is not open to join''))"
| "member_err v (MbInvalid m) = json_response 422 (json_err m)"
| "member_err v (MbDb e) = db_err e"

fun channel_err :: "env \<Rightarrow> ChannelError \<Rightarrow> Response" where
  "channel_err v (ChNotFound i) = json_response 404 (json_err (''no such channel '' @ uuid_text v i))"
| "channel_err v (ChInvalid m) = json_response 422 (json_err m)"
| "channel_err v (ChDb e) = db_err e"

fun channel_query_err :: "env \<Rightarrow> ChannelQueryError \<Rightarrow> Response" where
  "channel_query_err v CqNotAMember = forbidden ''not a channel member''"
| "channel_query_err v (CqDb e) = db_err e"

fun typing_err :: "env \<Rightarrow> TypingError \<Rightarrow> Response" where
  "typing_err v (TyNotMember i) = json_response 403 (json_err (''not a member of channel '' @ uuid_text v i))"
| "typing_err v (TyDb e) = db_err e"

fun reaction_err :: "env \<Rightarrow> ReactionError \<Rightarrow> Response" where
  "reaction_err v (RcNotFound i) = json_response 404 (json_err (''no such message '' @ uuid_text v i))"
| "reaction_err v (RcInvalid m) = json_response 422 (json_err m)"
| "reaction_err v NeedsIdentity = unauthorized"
| "reaction_err v (RcDb e) = db_err e"

fun edit_err :: "string \<Rightarrow> env \<Rightarrow> MessageEditError \<Rightarrow> Response" where
  "edit_err reason v (EdNotFound i) = json_response 404 (json_err (''no such message '' @ uuid_text v i))"
| "edit_err reason v (EdForbidden i) = forbidden reason"
| "edit_err reason v NeedsPartner = unauthorized"
| "edit_err reason v (EdInvalid m) = json_response 422 (json_err m)"
| "edit_err reason v (EdDb e) = db_err e"

definition flag_ok :: "string \<Rightarrow> env \<Rightarrow> bool \<Rightarrow> Response" where
  "flag_ok key v b = ok_json (JObject [(key, JBool b)])"

section \<open>Creating and editing channels\<close>

record CreateChannelBody =
  cb_name :: "string option"
  cb_channel_type :: string
  cb_default_access_mode :: "string option"
  cb_email_send :: "bool option"

definition create_channel_route :: "WireIdentity \<Rightarrow> CreateChannelBody \<Rightarrow> 'o handler" where
  "create_channel_route wire body = identified wire (\<lambda>i.
     if wire_is_guest wire then answer (json_response 403 (json_err ''guests cannot create channels''))
     else respond (bindA new_v4 (\<lambda>u. bindA (ask uuid_text) (\<lambda>U. channel_create
            \<lparr>cc_name = cb_name body, cc_channel_type = cb_channel_type body, cc_uuid = Some (U u),
             cc_default_access_mode = cb_default_access_mode body, cc_email_send = or_false (cb_email_send body),
             cc_creator = Some i\<rparr>)))
          (\<lambda>v c. ok_json (JObject [(''channel_id'', juuid v c)])) channel_err)"

definition open_chat_route :: "WireIdentity \<Rightarrow> uuid \<Rightarrow> 'o handler" where
  "open_chat_route wire partner = as_partner wire (\<lambda>me.
     respond (get_or_create_chat me partner)
       (\<lambda>v (c, created). ok_json (JObject [(''channel_id'', juuid v c), (''created'', JBool created)])) channel_err)"

record ChannelUpdateBody =
  ub_name :: "string option"
  ub_description :: "string option"
  ub_email_send :: "bool option"

text \<open>\<open>if let Err(e) = members(...) { return query_err(e) }\<close>, then the edit.\<close>

definition members_first :: "MessagingIdentity \<Rightarrow> uuid \<Rightarrow> 'o handler \<Rightarrow> 'o handler" where
  "members_first i channel_id h = (\<lambda>v w. case channel_members_query i channel_id v w of
     (Inl e, w') \<Rightarrow> (channel_query_err v e, w')
   | (Inr _, w') \<Rightarrow> h v w')"

definition update_channel_route :: "WireIdentity \<Rightarrow> uuid \<Rightarrow> ChannelUpdateBody \<Rightarrow> 'o handler" where
  "update_channel_route wire channel_id body = identified wire (\<lambda>i. members_first i channel_id
     (respond (update_fields channel_id (ub_name body) (ub_description body) (ub_email_send body))
       (\<lambda>v _. flag_ok ''updated'' v True) channel_err))"

definition pin_message_route :: "WireIdentity \<Rightarrow> uuid \<Rightarrow> uuid \<Rightarrow> bool \<Rightarrow> 'o handler" where
  "pin_message_route wire channel_id message pinned = identified wire (\<lambda>i. members_first i channel_id
     (respond (set_message_pinned channel_id message pinned) (\<lambda>v _. flag_ok ''pinned'' v pinned) channel_err))"

section \<open>Member verbs\<close>

definition mark_seen_route :: "WireIdentity \<Rightarrow> uuid \<Rightarrow> uuid \<Rightarrow> 'o handler" where
  "mark_seen_route wire channel_id message = identified wire (\<lambda>i.
     respond (mark_as_read channel_id i message) (flag_ok ''advanced'') member_err)"

definition mark_fetched_route :: "WireIdentity \<Rightarrow> uuid \<Rightarrow> uuid \<Rightarrow> 'o handler" where
  "mark_fetched_route wire channel_id message = identified wire (\<lambda>i.
     respond (mark_fetched channel_id i message) (flag_ok ''advanced'') member_err)"

definition set_separator_route :: "WireIdentity \<Rightarrow> uuid \<Rightarrow> uuid \<Rightarrow> 'o handler" where
  "set_separator_route wire channel_id message = identified wire (\<lambda>i.
     respond (set_new_message_separator channel_id i message) (\<lambda>v _. flag_ok ''set'' v True) member_err)"

definition join_channel_route :: "WireIdentity \<Rightarrow> uuid \<Rightarrow> 'o handler" where
  "join_channel_route wire channel_id = identified wire (\<lambda>i.
     respond (join channel_id i) (flag_ok ''joined'') member_err)"

definition leave_channel_route :: "WireIdentity \<Rightarrow> uuid \<Rightarrow> 'o handler" where
  "leave_channel_route wire channel_id = identified wire (\<lambda>i.
     respond (leave channel_id i) (flag_ok ''left'') member_err)"

record MuteBody =
  mb_until :: "time option"
  mb_forever :: "bool option"

definition mute_channel_route :: "WireIdentity \<Rightarrow> uuid \<Rightarrow> MuteBody option \<Rightarrow> 'o handler" where
  "mute_channel_route wire channel_id body = identified wire (\<lambda>i.
     case (case body of Some b \<Rightarrow> (mb_until b, or_false (mb_forever b)) | None \<Rightarrow> (None, False)) of
       (until, forever) \<Rightarrow> respond (set_mute channel_id i until forever)
         (\<lambda>v _. flag_ok ''muted'' v (until \<noteq> None \<or> forever)) member_err)"

definition set_notifications_route :: "WireIdentity \<Rightarrow> uuid \<Rightarrow> string option option \<Rightarrow> 'o handler" where
  "set_notifications_route wire channel_id body = identified wire (\<lambda>i.
     let value = Option.bind body (\<lambda>b. b)
     in respond (set_custom_notifications channel_id i value)
          (\<lambda>v _. ok_json (JObject [(''custom_notifications'', jopt JString value)])) member_err)"

definition set_member_pin_route :: "WireIdentity \<Rightarrow> uuid \<Rightarrow> bool \<Rightarrow> 'o handler" where
  "set_member_pin_route wire channel_id pinned = identified wire (\<lambda>i.
     respond (set_pinned channel_id i pinned) (\<lambda>v _. flag_ok ''pinned'' v pinned) member_err)"

definition set_fold_route :: "WireIdentity \<Rightarrow> uuid \<Rightarrow> string option option \<Rightarrow> 'o handler" where
  "set_fold_route wire channel_id body = identified wire (\<lambda>i.
     let fold = Option.bind body (\<lambda>b. b)
     in respond (set_fold_state channel_id i fold)
          (\<lambda>v _. ok_json (JObject [(''fold_state'', jopt JString fold)])) member_err)"

definition notify_typing_route :: "WireIdentity \<Rightarrow> uuid \<Rightarrow> bool \<Rightarrow> 'o handler" where
  "notify_typing_route wire channel_id typing = identified wire (\<lambda>i.
     respond (notify_typing channel_id i typing) (\<lambda>v _. flag_ok ''ok'' v True) typing_err)"

section \<open>Search and reads\<close>

definition hit_json :: "env \<Rightarrow> ChannelSearchHit \<Rightarrow> json" where
  "hit_json v h = JObject [(''channel_id'', juuid v (hit_channel_id h)), (''name'', jopt JString (hit_name h)),
     (''channel_type'', JString (hit_channel_type h)), (''is_member'', JBool (hit_is_member h))]"

definition search_channels_route :: "app \<Rightarrow> WireIdentity \<Rightarrow> string option \<Rightarrow> 'o handler" where
  "search_channels_route app wire t = identified wire (\<lambda>i.
     respond (channel_search (app_sql_text app) SEARCH_LIMIT i t)
       (\<lambda>v hits. ok_json (JObject [(''channels'', JArray (map (hit_json v) hits))])) channel_query_err)"

definition member_json :: "env \<Rightarrow> uuid \<times> uuid option \<times> uuid option \<Rightarrow> json" where
  "member_json v = (\<lambda>(m, p, g). JObject [(''member_id'', juuid v m), (''partner_id'', jopt (juuid v) p),
     (''guest_id'', jopt (juuid v) g)])"

definition channel_members_route :: "WireIdentity \<Rightarrow> uuid \<Rightarrow> 'o handler" where
  "channel_members_route wire channel_id = identified wire (\<lambda>i.
     respond (channel_members_query i channel_id)
       (\<lambda>v rows. ok_json (JObject [(''members'', JArray (map (member_json v) rows))])) channel_query_err)"

definition pinned_messages_route :: "WireIdentity \<Rightarrow> uuid \<Rightarrow> 'o handler" where
  "pinned_messages_route wire channel_id = identified wire (\<lambda>i.
     respond (pinned_messages i channel_id)
       (\<lambda>v ids. ok_json (JObject [(''message_ids'', JArray (map (juuid v) ids))])) channel_query_err)"

section \<open>Message verbs\<close>

definition toggle_reaction_route :: "WireIdentity \<Rightarrow> uuid \<Rightarrow> string \<Rightarrow> 'o handler" where
  "toggle_reaction_route wire message content = identified wire (\<lambda>i.
     respond (reaction_toggle message i content) (flag_ok ''reacted'') reaction_err)"

definition edit_message_route ::
  "WireIdentity \<Rightarrow> bool \<Rightarrow> uuid \<Rightarrow> string option \<Rightarrow> string option \<Rightarrow> 'o handler" where
  "edit_message_route wire is_admin message subject body = identified wire (\<lambda>i.
     respond (update_content message i is_admin subject body) (flag_ok ''changed'')
       (edit_err ''only the author (or an admin route) may edit''))"

definition toggle_star_route :: "WireIdentity \<Rightarrow> uuid \<Rightarrow> 'o handler" where
  "toggle_star_route wire message = identified wire (\<lambda>i.
     respond (toggle_star message i) (flag_ok ''starred'') (edit_err ''only the author may edit''))"

end
