(* ===== verification/Attachments.thy ===== *)
theory Attachments
  imports MessageEdits
begin

text \<open>
  Attachments: \<open>src/application/service/attachment_write_service.rs\<close> and
  \<open>src/infrastructure/persistence/attachment_repository.rs\<close>.  A file is registered by a partner or a guest, who
  owns it; only the owner (or an admin) links it to messages, unlinks it and mints or clears its access token.
  To link it, one must have written the message as well.  The owner is looked up on the pool, before the
  transaction.
\<close>

section \<open>The repository\<close>

definition insert_attachment ::
  "uuid \<Rightarrow> string \<Rightarrow> string option \<Rightarrow> int option \<Rightarrow> string option \<Rightarrow> string option \<Rightarrow> uuid option \<Rightarrow> uuid option \<Rightarrow>
   db \<Rightarrow> db_error + unit \<times> db" where
  "insert_attachment i name mimetype sz datas checksum owner_party owner_guest d =
     (if \<not> btrim_nonempty name then Inl (CheckViolation ''ck_mail_attachments_name_required__required'')
      else if i \<in> set (map atc_id (attachments d)) then Inl (UniqueViolation ''mail_attachments_pkey'')
      else if \<not> fk_ok (map gst_id (guests d)) owner_guest then Inl (ForeignKeyViolation ''fk_mail_attachments_owner_guest_id'')
      else Inr ((), d\<lparr>attachments := attachments d @
        [\<lparr>atc_id = i, atc_name = name, atc_mimetype = mimetype, atc_size = sz, atc_datas = datas,
          atc_checksum = checksum, atc_access_token = None, atc_owner_party_id = owner_party,
          atc_owner_guest_id = owner_guest, atc_deleted = False\<rparr>]\<rparr>))"

definition links_pair :: "uuid \<Rightarrow> uuid \<Rightarrow> message_attachment_row \<Rightarrow> bool" where
  "links_pair message a r \<longleftrightarrow> mat_message_id r = message \<and> mat_attachment_id r = a"

definition repo_attach :: "uuid \<Rightarrow> uuid \<Rightarrow> uuid \<Rightarrow> db \<Rightarrow> db_error + bool \<times> db" where
  "repo_attach i message a d =
     (if list_ex (links_pair message a) (message_attachments d) then Inr (False, d)
      else if i \<in> set (map mat_id (message_attachments d)) then Inl (UniqueViolation ''mail_message_attachments_pkey'')
      else if message \<notin> set (map msg_id (messages d))
        then Inl (ForeignKeyViolation ''fk_mail_message_attachments_message_id'')
      else if a \<notin> set (map atc_id (attachments d))
        then Inl (ForeignKeyViolation ''fk_mail_message_attachments_attachment_id'')
      else Inr (True, d\<lparr>message_attachments := message_attachments d @
        [\<lparr>mat_id = i, mat_message_id = message, mat_attachment_id = a\<rparr>]\<rparr>))"

definition repo_detach :: "uuid \<Rightarrow> uuid \<Rightarrow> db \<Rightarrow> db_error + bool \<times> db" where
  "repo_detach message a d =
     Inr (list_ex (links_pair message a) (message_attachments d),
          d\<lparr>message_attachments := filter (\<lambda>r. \<not> links_pair message a r) (message_attachments d)\<rparr>)"

definition owners :: "uuid \<Rightarrow> db \<Rightarrow> (uuid option \<times> uuid option) option" where
  "owners a d = map_option (\<lambda>r. (atc_owner_party_id r, atc_owner_guest_id r))
     (find (\<lambda>r. atc_id r = a \<and> \<not> atc_deleted r) (attachments d))"

text \<open>The unique index on the token lets any number of rows have none.\<close>

definition set_access_token :: "uuid \<Rightarrow> uuid option \<Rightarrow> db \<Rightarrow> db_error + unit \<times> db" where
  "set_access_token a token d =
     (if a \<in> set (map atc_id (attachments d)) \<and>
         list_ex (\<lambda>r. token \<noteq> None \<and> atc_id r \<noteq> a \<and> atc_access_token r = token) (attachments d)
      then Inl (UniqueViolation ''idx_mail_attachments_access_token'')
      else Inr ((), d\<lparr>attachments := map (\<lambda>r. if atc_id r = a then r\<lparr>atc_access_token := token\<rparr> else r) (attachments d)\<rparr>))"

section \<open>The service\<close>

datatype AttachmentError =
    AtDb db_error
  | AtInvalid string
  | AtNotFound uuid
  | AtForbidden uuid
  | NeedsOwner
  | NotMessageAuthor uuid

definition owner_gate :: "uuid \<Rightarrow> MessagingIdentity \<Rightarrow> bool \<Rightarrow> (db, 'o, AttachmentError, unit) act" where
  "owner_gate a identity is_admin =
     (if is_admin then ret ()
      else bindA (lift AtDb (query (reading (owners a)))) (\<lambda>os.
        case os of
          None \<Rightarrow> fail (AtNotFound a)
        | Some o' \<Rightarrow> if is_author identity o' then ret () else fail (AtForbidden a)))"

definition attachment_event ::
  "string \<Rightarrow> string \<Rightarrow> uuid \<Rightarrow> ((uuid \<Rightarrow> string) \<Rightarrow> string) \<Rightarrow> string \<Rightarrow> ((uuid \<Rightarrow> string) \<Rightarrow> (string \<times> json) list) \<Rightarrow>
   (db, 'o, AttachmentError, unit) act" where
  "attachment_event et aggregate a channel mt extra =
     bindA (ask uuid_text) (\<lambda>U. lift AtDb (stage_bus_event et aggregate (U a) (channel U) mt
       (JObject ([(''attachment_id'', JString (U a))] @ extra U))))"

definition register ::
  "MessagingIdentity \<Rightarrow> string \<Rightarrow> string option \<Rightarrow> int option \<Rightarrow> string option \<Rightarrow> string option \<Rightarrow>
   (db, 'o, AttachmentError, uuid) act" where
  "register identity name mimetype sz datas checksum =
     (if blank name \<or> length name > 255 then fail (AtInvalid ''name must be 1..=255 chars'')
      else if (case sz of Some n \<Rightarrow> n < 0 | None \<Rightarrow> False) then fail (AtInvalid ''size cannot be negative'')
      else let party = identity_partner_id identity; guest = identity_guest_id identity in
        if party = None \<and> guest = None then fail NeedsOwner
        else bindA new_v4 (\<lambda>i. in_tx AtDb (
          bindA (lift AtDb (stmt (insert_attachment i name mimetype sz datas checksum party guest))) (\<lambda>_.
          bindA (attachment_event ''AttachmentCreated'' ''MailAttachment'' i (\<lambda>U. identity_channel U identity) ''mail.attachment/insert''
            (\<lambda>U. [(''name'', JString name), (''size'', jopt JNumber sz),
                   (''owner_party_id'', jopt (\<lambda>p. JString (U p)) party), (''owner_guest_id'', jopt (\<lambda>g. JString (U g)) guest)])) (\<lambda>_.
          ret i)))))"

definition author_gate :: "uuid \<Rightarrow> MessagingIdentity \<Rightarrow> bool \<Rightarrow> (db, 'o, AttachmentError, unit) act" where
  "author_gate message identity is_admin =
     (if is_admin then ret ()
      else bindA (lift AtDb (stmt (reading (message_authors message)))) (\<lambda>authors.
        case authors of
          None \<Rightarrow> bindA (ask uuid_text) (\<lambda>U. fail (AtInvalid (''no such message '' @ U message)))
        | Some a \<Rightarrow> if is_author identity a then ret () else fail (NotMessageAuthor message)))"

definition attach_to_message :: "MessagingIdentity \<Rightarrow> bool \<Rightarrow> uuid \<Rightarrow> uuid \<Rightarrow> (db, 'o, AttachmentError, bool) act" where
  "attach_to_message identity is_admin message a =
     bindA (owner_gate a identity is_admin) (\<lambda>_. in_tx AtDb (
       bindA (author_gate message identity is_admin) (\<lambda>_.
       bindA new_v4 (\<lambda>i.
       bindA (lift AtDb (stmt (repo_attach i message a))) (\<lambda>attached.
       bindA (attachment_event ''AttachmentAttached'' ''MailMessageAttachment'' a (\<lambda>U. record_channel U ''mail.message'' message)
         ''mail.attachment/attach'' (\<lambda>U. [(''message_id'', JString (U message))])) (\<lambda>_.
       ret attached))))))"

definition detach_from_message :: "MessagingIdentity \<Rightarrow> bool \<Rightarrow> uuid \<Rightarrow> uuid \<Rightarrow> (db, 'o, AttachmentError, bool) act" where
  "detach_from_message identity is_admin message a =
     bindA (owner_gate a identity is_admin) (\<lambda>_. in_tx AtDb (
       bindA (lift AtDb (stmt (repo_detach message a))) (\<lambda>detached.
       bindA (attachment_event ''AttachmentDetached'' ''MailMessageAttachment'' a (\<lambda>U. record_channel U ''mail.message'' message)
         ''mail.attachment/detach'' (\<lambda>U. [(''message_id'', JString (U message))])) (\<lambda>_.
       ret detached))))"

definition mint_access_token :: "MessagingIdentity \<Rightarrow> bool \<Rightarrow> uuid \<Rightarrow> (db, 'o, AttachmentError, uuid) act" where
  "mint_access_token identity is_admin a =
     bindA (owner_gate a identity is_admin) (\<lambda>_.
     bindA new_v4 (\<lambda>token. in_tx AtDb (
       bindA (lift AtDb (stmt (set_access_token a (Some token)))) (\<lambda>_.
       bindA (attachment_event ''AttachmentTokenMinted'' ''MailAttachment'' a (\<lambda>U. identity_channel U identity)
         ''mail.attachment/token_minted'' (\<lambda>U. [])) (\<lambda>_.
       ret token)))))"

definition clear_access_token :: "MessagingIdentity \<Rightarrow> bool \<Rightarrow> uuid \<Rightarrow> (db, 'o, AttachmentError, unit) act" where
  "clear_access_token identity is_admin a =
     bindA (owner_gate a identity is_admin) (\<lambda>_. in_tx AtDb (
       bindA (lift AtDb (stmt (set_access_token a None))) (\<lambda>_.
       attachment_event ''AttachmentTokenCleared'' ''MailAttachment'' a (\<lambda>U. identity_channel U identity)
         ''mail.attachment/token_cleared'' (\<lambda>U. []))))"

section \<open>What the verbs do\<close>

definition owns :: "MessagingIdentity \<Rightarrow> db \<Rightarrow> uuid \<Rightarrow> bool" where
  "owns identity d a \<longleftrightarrow> (\<exists>r\<in>set (attachments d). atc_id r = a \<and> \<not> atc_deleted r \<and>
     is_author identity (atc_owner_party_id r, atc_owner_guest_id r))"

definition wrote :: "MessagingIdentity \<Rightarrow> db \<Rightarrow> uuid \<Rightarrow> bool" where
  "wrote identity d message \<longleftrightarrow> (\<exists>m\<in>set (messages d). msg_id m = message \<and> \<not> msg_deleted m \<and>
     is_author identity (msg_author_id m, msg_author_guest_id m))"

definition message_links :: "db \<Rightarrow> (uuid \<times> uuid) set" where
  "message_links d = (\<lambda>r. (mat_message_id r, mat_attachment_id r)) ` set (message_attachments d)"

definition access_token :: "db \<Rightarrow> uuid \<Rightarrow> uuid option" where
  "access_token d a = Option.bind (find (\<lambda>r. atc_id r = a) (attachments d)) atc_access_token"

definition tokens_unique :: "attachment_row list \<Rightarrow> bool" where
  "tokens_unique rs \<longleftrightarrow> (\<forall>r\<in>set rs. \<forall>q\<in>set rs.
     atc_access_token r = atc_access_token q \<longrightarrow> atc_access_token r = None \<or> atc_id r = atc_id q)"

definition owned_row :: "uuid list \<Rightarrow> attachment_row \<Rightarrow> bool" where
  "owned_row gs r \<longleftrightarrow> btrim_nonempty (atc_name r) \<and> fk_ok gs (atc_owner_guest_id r) \<and>
     (atc_owner_party_id r = None) \<noteq> (atc_owner_guest_id r = None)"

definition links_ok :: "uuid list \<Rightarrow> uuid list \<Rightarrow> message_attachment_row list \<Rightarrow> bool" where
  "links_ok ms as ls \<longleftrightarrow> distinct (map (\<lambda>r. (mat_message_id r, mat_attachment_id r)) ls) \<and>
     (\<forall>r\<in>set ls. mat_message_id r \<in> set ms \<and> mat_attachment_id r \<in> set as)"

definition attachments_ok :: "db \<Rightarrow> bool" where
  "attachments_ok d \<longleftrightarrow> distinct (map atc_id (attachments d)) \<and> tokens_unique (attachments d) \<and>
     list_all (owned_row (map gst_id (guests d))) (attachments d) \<and>
     links_ok (map msg_id (messages d)) (map atc_id (attachments d)) (message_attachments d)"

lemma attachments_ok_outbox [simp]: "attachments_ok (d\<lparr>outbox := o'\<rparr>) = attachments_ok d"
  by (simp add: attachments_ok_def)

lemma links_pair_link: "list_ex (links_pair m a) (message_attachments d) \<longleftrightarrow> (m, a) \<in> message_links d"
  by (auto simp: list_ex_iff links_pair_def message_links_def)

lemma tokens_unique_none: "atc_access_token r = None \<Longrightarrow> tokens_unique rs \<Longrightarrow> tokens_unique (rs @ [r])"
  by (auto simp: tokens_unique_def)

lemma tokens_unique_upd:
  assumes "tokens_unique rs" and "t \<noteq> None \<Longrightarrow> a \<in> set (map atc_id rs) \<Longrightarrow> \<forall>r\<in>set rs. atc_id r \<noteq> a \<longrightarrow> atc_access_token r \<noteq> t"
  shows "tokens_unique (map (\<lambda>r. if atc_id r = a then r\<lparr>atc_access_token := t\<rparr> else r) rs)"
  using assms unfolding tokens_unique_def by (cases t) auto

lemma links_ok_more: "links_ok ms as ls \<Longrightarrow> links_ok ms (as @ as') ls"
  by (auto simp: links_ok_def)

lemma links_ok_filter: "links_ok ms as ls \<Longrightarrow> links_ok ms as (filter P ls)"
  by (auto simp: links_ok_def distinct_map_filter)

lemma ok_insert_attachment:
  assumes "attachments_ok d"
    and "insert_attachment i n mt sz dt cs (identity_partner_id x) (identity_guest_id x) d = Inr (u, d')"
  shows "attachments_ok d'"
proof -
  from assms(2) have d': "d' = d\<lparr>attachments := attachments d @ [\<lparr>atc_id = i, atc_name = n, atc_mimetype = mt, atc_size = sz,
      atc_datas = dt, atc_checksum = cs, atc_access_token = None, atc_owner_party_id = identity_partner_id x,
      atc_owner_guest_id = identity_guest_id x, atc_deleted = False\<rparr>]\<rparr>"
    and new: "btrim_nonempty n" "i \<notin> set (map atc_id (attachments d))" "fk_ok (map gst_id (guests d)) (identity_guest_id x)"
    by (auto simp: insert_attachment_def split: if_splits)
  have "(identity_partner_id x = None) \<noteq> (identity_guest_id x = None)" by (cases x) simp_all
  with assms(1) new show ?thesis
    by (auto simp: attachments_ok_def d' owned_row_def intro: tokens_unique_none links_ok_more)
qed

lemma ok_repo_attach:
  assumes "attachments_ok d" and "repo_attach i m a d = Inr (b, d')"
  shows "attachments_ok d'"
proof (cases "(m, a) \<in> message_links d")
  case True
  with assms show ?thesis by (simp add: repo_attach_def links_pair_link)
next
  case False
  with assms(2) have d': "d' = d\<lparr>message_attachments := message_attachments d @ [\<lparr>mat_id = i, mat_message_id = m, mat_attachment_id = a\<rparr>]\<rparr>"
    and fk: "m \<in> set (map msg_id (messages d))" "a \<in> set (map atc_id (attachments d))"
    by (auto simp: repo_attach_def links_pair_link split: if_splits)
  from False fk have "links_ok (map msg_id (messages d)) (map atc_id (attachments d)) (message_attachments d @
      [\<lparr>mat_id = i, mat_message_id = m, mat_attachment_id = a\<rparr>])"
    if "links_ok (map msg_id (messages d)) (map atc_id (attachments d)) (message_attachments d)"
    using that by (auto simp: links_ok_def message_links_def)
  with assms(1) show ?thesis by (simp add: attachments_ok_def d')
qed

lemma ok_repo_detach:
  assumes "attachments_ok d" and "repo_detach m a d = Inr (b, d')"
  shows "attachments_ok d'"
  using assms by (auto simp: repo_detach_def attachments_ok_def intro: links_ok_filter)

lemma set_access_token_Inr:
  assumes "set_access_token a t d = Inr (u, d')"
  shows "d' = d\<lparr>attachments := map (\<lambda>r. if atc_id r = a then r\<lparr>atc_access_token := t\<rparr> else r) (attachments d)\<rparr> \<and>
    (attachments_ok d \<longrightarrow> attachments_ok d')"
proof -
  let ?g = "\<lambda>r. if atc_id r = a then r\<lparr>atc_access_token := t\<rparr> else r"
  from assms have d': "d' = d\<lparr>attachments := map ?g (attachments d)\<rparr>"
    and u: "a \<in> set (map atc_id (attachments d)) \<Longrightarrow> t \<noteq> None \<Longrightarrow> \<forall>r\<in>set (attachments d). atc_id r \<noteq> a \<longrightarrow> atc_access_token r \<noteq> t"
    by (auto simp: set_access_token_def list_ex_iff split: if_splits)
  have id: "atc_id (?g r) = atc_id r" and own: "owned_row gs (?g r) = owned_row gs r" for r gs by (simp_all add: owned_row_def)
  have "tokens_unique (map ?g (attachments d))" if "tokens_unique (attachments d)" using that u by (rule tokens_unique_upd)
  then show ?thesis by (simp add: d' attachments_ok_def comp_def id own list.pred_map del: if_split)
qed

lemma access_token_upd:
  "access_token (d\<lparr>attachments := map (\<lambda>r. if atc_id r = a then r\<lparr>atc_access_token := t\<rparr> else r) (attachments d)\<rparr>) b =
   (if b = a \<and> a \<in> set (map atc_id (attachments d)) then t else access_token d b)"
proof -
  have "find (\<lambda>r. atc_id r = b) (map (\<lambda>r. if atc_id r = a then r\<lparr>atc_access_token := t\<rparr> else r) (attachments d)) =
      map_option (\<lambda>r. if atc_id r = a then r\<lparr>atc_access_token := t\<rparr> else r) (find (\<lambda>r. atc_id r = b) (attachments d))"
    by (rule find_map_upd) simp
  moreover have "a \<in> set (map atc_id (attachments d)) \<longleftrightarrow> find (\<lambda>r. atc_id r = a) (attachments d) \<noteq> None"
    by (metis find_None_key set_map)
  ultimately show ?thesis
    by (cases "find (\<lambda>r. atc_id r = b) (attachments d)") (auto simp: access_token_def dest: find_SomeD)
qed

lemma owner_gate_run:
  assumes "owner_gate a x adm v w = (r, w')"
  shows "db w' = db w \<and> (isl r \<or> adm \<or> owns x (db w) a)"
proof (cases adm)
  case False
  then have g: "owner_gate a x adm = bindA (lift AtDb (query (reading (owners a)))) (\<lambda>os.
      case os of None \<Rightarrow> fail (AtNotFound a) | Some o' \<Rightarrow> if is_author x o' then ret () else fail (AtForbidden a))"
    by (simp add: owner_gate_def)
  have own: "owns x (db w) a" if "owners a (db w) = Some o'" "is_author x o'" for o'
    using that by (auto simp: owners_def owns_def dest!: find_SomeD)
  show ?thesis
    using assms unfolding g bindA_def lift_def query_def query_now_def reading_def
    by (auto simp: fail_def ret_def dest: own split: if_splits option.splits)
next
  case True
  with assms show ?thesis by (auto simp: owner_gate_def ret_def)
qed

lemma attachment_event_InrE:
  assumes "attachment_event et ag a ch mt ex v w = (Inr u, w')"
  obtains ev where "db w' = (db w)\<lparr>outbox := outbox (db w) @ [ev]\<rparr>" and "event_type ev = et"
    and "payload ev = bus_envelope (ch (uuid_text v)) mt (JObject ([(''attachment_id'', JString (uuid_text v a))] @ ex (uuid_text v)))"
proof -
  from assms have "stage_bus_event et ag (uuid_text v a) (ch (uuid_text v)) mt
      (JObject ([(''attachment_id'', JString (uuid_text v a))] @ ex (uuid_text v))) v w = (Inr u, w')"
    unfolding attachment_event_def bindA_ask by (rule lift_InrE)
  then show ?thesis by (rule stage_bus_event_InrE) (rule that)
qed

lemma straight_attachment [straight_intros]:
  "straight (attachment_event et ag a ch mt ex)" "straight (author_gate m x adm)"
  unfolding attachment_event_def author_gate_def
  by (intro straight_intros; simp split: option.split; intro conjI allI impI straight_intros)+

lemma author_gate_Inr:
  assumes "author_gate m x adm v w = (Inr u, w')"
  shows "db w' = db w \<and> (adm \<or> wrote x (db w) m)"
proof (cases adm)
  case True
  with assms show ?thesis by (simp add: author_gate_def ret_def)
next
  case False
  let ?rest = "\<lambda>authors. case authors of
      None \<Rightarrow> bindA (ask uuid_text) (\<lambda>U. fail (AtInvalid (''no such message '' @ U m)))
    | Some a \<Rightarrow> if is_author x a then ret () else fail (NotMessageAuthor m)"
  from assms False have "bindA (lift AtDb (stmt (reading (message_authors m)))) ?rest v w = (Inr u, w')"
    by (simp only: author_gate_def if_False)
  then obtain authors w1 where 1: "lift AtDb (stmt (reading (message_authors m))) v w = (Inr authors, w1)"
    and 2: "?rest authors v w1 = (Inr u, w')" by (rule bindA_InrE)
  from 1 have a: "authors = message_authors m (db w)" "db w1 = db w" by (auto elim: reading_stmt_InrE)
  from 2 obtain p where "authors = Some p" "is_author x p" "w' = w1"
    by (auto simp: bindA_ask fail_def ret_def split: option.splits if_splits)
  with a message_authors_Some [of m "db w" p] show ?thesis by (auto simp: wrote_def)
qed

lemma gated_cases:
  assumes "bindA (owner_gate a x adm) (\<lambda>_. k) v w = (r, w')"
  obtains "isl r" and "db w' = db w"
  | w1 where "adm \<or> owns x (db w) a" and "db w1 = db w" and "k v w1 = (r, w')"
proof -
  obtain g w1 where g: "owner_gate a x adm v w = (g, w1)" by fastforce
  from owner_gate_run [OF g] have w1: "db w1 = db w" and ok: "isl g \<or> adm \<or> owns x (db w) a" by auto
  show ?thesis
  proof (cases g)
    case (Inl e)
    with assms g w1 show ?thesis by (intro that(1)) (auto simp: bindA_def)
  next
    case (Inr u)
    with assms g w1 ok show ?thesis by (intro that(2) [of w1]) (auto simp: bindA_def)
  qed
qed

lemma announced_Inr:
  assumes "bindA (lift AtDb (stmt q)) (\<lambda>y. bindA (attachment_event et ag a ch mt ex) (\<lambda>_. ret (f y))) v w = (Inr z, w')"
  obtains y d ev where "q (db w) = Inr (y, d)" and "db w' = d\<lparr>outbox := outbox d @ [ev]\<rparr>" and "z = f y" and "event_type ev = et"
proof -
  from assms obtain y w1 u where 1: "stmt q v w = (Inr y, w1)" and 2: "attachment_event et ag a ch mt ex v w1 = (Inr u, w')"
    and z: "z = f y" by (elim bindA_InrE lift_InrE ret_InrE) (simp only: that)
  from 1 have "q (db w) = Inr (y, db w1)" by (rule stmt_InrE)
  moreover from 2 obtain ev where "db w' = (db w1)\<lparr>outbox := outbox (db w1) @ [ev]\<rparr>" "event_type ev = et"
    by (rule attachment_event_InrE)
  ultimately show ?thesis using z that by blast
qed

lemma straight_announced:
  "straight (bindA (lift AtDb (stmt q)) (\<lambda>y. bindA (attachment_event et ag a ch mt ex) (\<lambda>_. ret (f y))))"
  by (intro straight_intros)

lemma repo_attach_Inr:
  assumes "repo_attach i m a d = Inr (b, d')" and "attachments_ok d"
  shows "message_links d' = insert (m, a) (message_links d) \<and> b = ((m, a) \<notin> message_links d) \<and> attachments_ok d' \<and>
    attachments d' = attachments d"
  using assms ok_repo_attach [OF assms(2,1)] unfolding repo_attach_def links_pair_link
  by (auto simp: message_links_def split: if_splits)

lemma repo_detach_Inr:
  assumes "repo_detach m a d = Inr (b, d')" and "attachments_ok d"
  shows "message_links d' = message_links d - {(m, a)} \<and> b = ((m, a) \<in> message_links d) \<and> attachments_ok d' \<and>
    attachments d' = attachments d"
  using assms ok_repo_detach [OF assms(2,1)] unfolding repo_detach_def links_pair_link
  by (auto simp: message_links_def links_pair_def)

lemma outbox_frame [simp]:
  "message_links (d\<lparr>outbox := o'\<rparr>) = message_links d" "access_token (d\<lparr>outbox := o'\<rparr>) = access_token d"
  by (simp_all add: message_links_def access_token_def fun_eq_iff)

lemma attach_run:
  assumes "attach_to_message x adm m a v w = (r, w')" and ok: "attachments_ok (db w)"
  shows "isl r \<and> db w' = db w \<or>
    (adm \<or> owns x (db w) a \<and> wrote x (db w) m) \<and> attachments_ok (db w') \<and> attachments (db w') = attachments (db w) \<and>
    message_links (db w') = insert (m, a) (message_links (db w)) \<and> (r = Inr ((m, a) \<notin> message_links (db w)) \<or> isl r)"
  using assms(1) unfolding attach_to_message_def
proof (rule gated_cases)
  let ?put = "\<lambda>i. bindA (lift AtDb (stmt (repo_attach i m a))) (\<lambda>attached.
       bindA (attachment_event ''AttachmentAttached'' ''MailMessageAttachment'' a (\<lambda>U. record_channel U ''mail.message'' m)
         ''mail.attachment/attach'' (\<lambda>U. [(''message_id'', JString (U m))])) (\<lambda>_. ret attached))"
  let ?body = "bindA (author_gate m x adm) (\<lambda>_. bindA new_v4 ?put)"
  fix w1 assume own: "adm \<or> owns x (db w) a" and w1: "db w1 = db w" and run: "in_tx AtDb ?body v w1 = (r, w')"
  have "straight ?body" by (intro straight_intros)
  with run show ?thesis
  proof (rule in_tx_straight_cases)
    fix b w2 assume body: "?body v (begin_tx v w1) = (Inr b, w2)" and d: "db w' = db w2" and r: "r = Inr b \<or> isl r"
    from body obtain u w3 i w4 where 1: "author_gate m x adm v (begin_tx v w1) = (Inr u, w3)"
      and 2: "new_v4 v w3 = ((Inr i :: AttachmentError + uuid), w4)" and 3: "?put i v w4 = (Inr b, w2)"
      by (elim bindA_InrE [of "author_gate m x adm"] bindA_InrE [of new_v4]) (rule that)
    from author_gate_Inr [OF 1] w1 have w3: "db w3 = db w" and wr: "adm \<or> wrote x (db w) m" by simp_all
    from 2 w3 have w4: "db w4 = db w" by (auto elim: new_v4_InrE)
    from 3 obtain y d1 ev where q: "repo_attach i m a (db w4) = Inr (y, d1)" and e: "db w2 = d1\<lparr>outbox := outbox d1 @ [ev]\<rparr>"
      and b: "b = y" by (rule announced_Inr)
    from repo_attach_Inr [OF q [unfolded w4] ok] own wr r b d e show ?thesis by auto
  qed (simp add: w1)
qed simp

lemma detach_run:
  assumes "detach_from_message x adm m a v w = (r, w')" and ok: "attachments_ok (db w)"
  shows "isl r \<and> db w' = db w \<or>
    (adm \<or> owns x (db w) a) \<and> attachments_ok (db w') \<and> attachments (db w') = attachments (db w) \<and>
    message_links (db w') = message_links (db w) - {(m, a)} \<and> (r = Inr ((m, a) \<in> message_links (db w)) \<or> isl r)"
  using assms(1) unfolding detach_from_message_def
proof (rule gated_cases)
  let ?body = "bindA (lift AtDb (stmt (repo_detach m a))) (\<lambda>detached.
       bindA (attachment_event ''AttachmentDetached'' ''MailMessageAttachment'' a (\<lambda>U. record_channel U ''mail.message'' m)
         ''mail.attachment/detach'' (\<lambda>U. [(''message_id'', JString (U m))])) (\<lambda>_. ret detached))"
  fix w1 assume own: "adm \<or> owns x (db w) a" and w1: "db w1 = db w" and run: "in_tx AtDb ?body v w1 = (r, w')"
  from run straight_announced show ?thesis
  proof (rule in_tx_straight_cases)
    fix b w2 assume body: "?body v (begin_tx v w1) = (Inr b, w2)" and d: "db w' = db w2" and r: "r = Inr b \<or> isl r"
    from body obtain y d1 ev where q: "repo_detach m a (db (begin_tx v w1)) = Inr (y, d1)"
      and e: "db w2 = d1\<lparr>outbox := outbox d1 @ [ev]\<rparr>" and b: "b = y" by (rule announced_Inr)
    from q w1 have "repo_detach m a (db w) = Inr (y, d1)" by simp
    from repo_detach_Inr [OF this ok] own r b d e show ?thesis by auto
  qed (simp add: w1)
qed simp

lemma set_token_effect:
  assumes "set_access_token a t d = Inr (u, d')" and "attachments_ok d"
  shows "attachments_ok d' \<and> message_links d' = message_links d \<and>
    access_token d' = (\<lambda>b. if b = a \<and> a \<in> set (map atc_id (attachments d)) then t else access_token d b)"
proof -
  let ?rows = "map (\<lambda>r. if atc_id r = a then r\<lparr>atc_access_token := t\<rparr> else r) (attachments d)"
  from set_access_token_Inr [OF assms(1)] assms(2) have d': "d' = d\<lparr>attachments := ?rows\<rparr>" and ok: "attachments_ok d'" by auto
  have "message_links d' = message_links d" by (simp add: d' message_links_def)
  moreover have "access_token d' b = (if b = a \<and> a \<in> set (map atc_id (attachments d)) then t else access_token d b)" for b
    unfolding d' by (rule access_token_upd)
  ultimately show ?thesis using ok by (intro conjI ext)
qed

lemma mint_token_run:
  assumes "mint_access_token x adm a v w = (r, w')" and ok: "attachments_ok (db w)"
  shows "isl r \<and> db w' = db w \<or>
    (adm \<or> owns x (db w) a) \<and> attachments_ok (db w') \<and> message_links (db w') = message_links (db w) \<and>
    (\<exists>t. (r = Inr t \<or> isl r) \<and> access_token (db w') =
       (\<lambda>b. if b = a \<and> a \<in> set (map atc_id (attachments (db w))) then Some t else access_token (db w) b))"
  using assms(1) unfolding mint_access_token_def
proof (rule gated_cases)
  let ?body = "\<lambda>t. bindA (lift AtDb (stmt (set_access_token a (Some t)))) (\<lambda>_.
       bindA (attachment_event ''AttachmentTokenMinted'' ''MailAttachment'' a (\<lambda>U. identity_channel U x)
         ''mail.attachment/token_minted'' (\<lambda>U. [])) (\<lambda>_. ret t))"
  fix w1 assume own: "adm \<or> owns x (db w) a" and w1: "db w1 = db w" and "bindA new_v4 (\<lambda>t. in_tx AtDb (?body t)) v w1 = (r, w')"
  then have run: "in_tx AtDb (?body (rng v (tick w1))) v (w1\<lparr>tick := Suc (tick w1)\<rparr>) = (r, w')" by (simp add: bindA_def new_v4_def)
  have "straight (?body t)" for t by (rule straight_announced)
  with run show ?thesis
  proof (rule in_tx_straight_cases)
    fix t w2 assume body: "?body (rng v (tick w1)) v (begin_tx v (w1\<lparr>tick := Suc (tick w1)\<rparr>)) = (Inr t, w2)"
      and d: "db w' = db w2" and r: "r = Inr t \<or> isl r"
    from body obtain y d1 ev where q: "set_access_token a (Some (rng v (tick w1))) (db (begin_tx v (w1\<lparr>tick := Suc (tick w1)\<rparr>))) = Inr (y, d1)"
      and e: "db w2 = d1\<lparr>outbox := outbox d1 @ [ev]\<rparr>" and t: "t = rng v (tick w1)" by (rule announced_Inr)
    from q w1 t have "set_access_token a (Some t) (db w) = Inr (y, d1)" by simp
    from set_token_effect [OF this ok] own r d e show ?thesis by (intro disjI2) auto
  qed (simp add: w1)
qed simp

lemma clear_token_run:
  assumes "clear_access_token x adm a v w = (r, w')" and ok: "attachments_ok (db w)"
  shows "isl r \<and> db w' = db w \<or>
    (adm \<or> owns x (db w) a) \<and> attachments_ok (db w') \<and> message_links (db w') = message_links (db w) \<and>
    access_token (db w') = (\<lambda>b. if b = a \<and> a \<in> set (map atc_id (attachments (db w))) then None else access_token (db w) b)"
  using assms(1) unfolding clear_access_token_def
proof (rule gated_cases)
  let ?ev = "attachment_event ''AttachmentTokenCleared'' ''MailAttachment'' a (\<lambda>U. identity_channel U x)
         ''mail.attachment/token_cleared'' (\<lambda>U. [])"
  let ?body = "bindA (lift AtDb (stmt (set_access_token a None))) (\<lambda>_. ?ev)"
  fix w1 assume own: "adm \<or> owns x (db w) a" and w1: "db w1 = db w" and run: "in_tx AtDb ?body v w1 = (r, w')"
  have "straight ?body" by (intro straight_intros)
  with run show ?thesis
  proof (rule in_tx_straight_cases)
    fix b w2 assume body: "?body v (begin_tx v w1) = (Inr b, w2)" and d: "db w' = db w2"
    from body obtain y w3 where 1: "stmt (set_access_token a None) v (begin_tx v w1) = (Inr y, w3)" and 2: "?ev v w3 = (Inr b, w2)"
      by (elim bindA_InrE lift_InrE) (simp only: that)
    from stmt_InrE [OF 1] w1 have "set_access_token a None (db w) = Inr (y, db w3)" by (metis begin_tx_simps(1))
    note eff = set_token_effect [OF this ok]
    from 2 obtain ev where "db w2 = (db w3)\<lparr>outbox := outbox (db w3) @ [ev]\<rparr>" by (rule attachment_event_InrE)
    with eff own d show ?thesis by (intro disjI2) auto
  qed (simp add: w1)
qed simp


text \<open>An admin minting a token for a file that is not there is answered a token, which nothing carries.\<close>

lemma mint_missing_answers:
  assumes "quiet v" and "\<not> aborted w" and "attachments (db w) = []"
  shows "\<exists>t. fst (mint_access_token x True a v w) = Inr t \<and> access_token (db (snd (mint_access_token x True a v w))) = (\<lambda>_. None)"
  using assms
  by (simp add: mint_access_token_def owner_gate_def bindA_def ret_def new_v4_def in_tx_def lift_def stmt_def stmt_now_def
      quiet_def set_access_token_def attachment_event_def ask_def stage_bus_event_def now_utc_def stage_event_def commit_def
      begin_tx_def access_token_def fun_eq_iff)

text \<open>A registered file belongs to who registered it.\<close>

lemma register_effect:
  assumes "register x n mt sz dt cs v w = (Inr i, w')" and ok: "attachments_ok (db w)"
  shows "attachments_ok (db w') \<and> owns x (db w') i \<and> i \<notin> set (map atc_id (attachments (db w))) \<and>
    message_links (db w') = message_links (db w)"
proof -
  let ?p = "identity_partner_id x" and ?g = "identity_guest_id x"
  let ?body = "\<lambda>i. bindA (lift AtDb (stmt (insert_attachment i n mt sz dt cs ?p ?g))) (\<lambda>_.
          bindA (attachment_event ''AttachmentCreated'' ''MailAttachment'' i (\<lambda>U. identity_channel U x) ''mail.attachment/insert''
            (\<lambda>U. [(''name'', JString n), (''size'', jopt JNumber sz),
                   (''owner_party_id'', jopt (\<lambda>p. JString (U p)) ?p), (''owner_guest_id'', jopt (\<lambda>g. JString (U g)) ?g)])) (\<lambda>_.
          ret i))"
  from assms(1) have "bindA new_v4 (\<lambda>i. in_tx AtDb (?body i)) v w = (Inr i, w')"
    by (auto simp: register_def Let_def fail_def split: if_splits option.splits)
  then have run: "in_tx AtDb (?body (rng v (tick w))) v (w\<lparr>tick := Suc (tick w)\<rparr>) = (Inr i, w')" by (simp add: bindA_def new_v4_def)
  from run straight_announced obtain w1 where body: "?body (rng v (tick w)) v (begin_tx v (w\<lparr>tick := Suc (tick w)\<rparr>)) = (Inr i, w1)"
    and d: "db w' = db w1" by (rule in_tx_straight)
  from body obtain y d1 ev where q: "insert_attachment (rng v (tick w)) n mt sz dt cs ?p ?g (db (begin_tx v (w\<lparr>tick := Suc (tick w)\<rparr>))) = Inr (y, d1)"
    and e: "db w1 = d1\<lparr>outbox := outbox d1 @ [ev]\<rparr>" and i: "i = rng v (tick w)" by (rule announced_Inr)
  from q i have q: "insert_attachment i n mt sz dt cs ?p ?g (db w) = Inr (y, d1)" by simp
  have "is_author x (?p, ?g)" by (cases x) (simp_all add: is_author_def)
  with q have "owns x d1 i \<and> i \<notin> set (map atc_id (attachments (db w))) \<and> message_links d1 = message_links (db w)"
    by (auto simp: insert_attachment_def owns_def message_links_def split: if_splits)
  with ok_insert_attachment [OF ok q] show ?thesis by (simp add: d e owns_def)
qed

section \<open>The property at a concrete input\<close>

definition files_world :: "(db, nat) world" where
  "files_world = world_of (empty_db\<lparr>messages := [(sample_message 1)\<lparr>msg_author_id := Some 7\<rparr>, sample_message 2],
     attachments := [\<lparr>atc_id = 4, atc_name = ''f'', atc_mimetype = None, atc_size = Some 3, atc_datas = None, atc_checksum = None,
       atc_access_token = None, atc_owner_party_id = Some 7, atc_owner_guest_id = None, atc_deleted = False\<rparr>]\<rparr>)"

definition attach_sample :: "uuid \<Rightarrow> (AttachmentError + bool) \<times> (db, nat) world" where
  "attach_sample m = attach_to_message (User 7) False m 4 plain_env files_world"


end
