(* ===== verification/EdgeRoutes.thy ===== *)
theory EdgeRoutes
  imports ChannelRoutes Attachments Inbound SmsWebhook Stream
begin

text \<open>
  The other routes: attachments, guests, presence, the public bootstrap and the two webhooks
  (\<open>attachment_routes.rs\<close>, \<open>guest_routes.rs\<close>, \<open>presence_routes.rs\<close>, \<open>public_routes.rs\<close>,
  \<open>inbound_routes.rs\<close> and \<open>webhook_routes.rs\<close> under \<open>src/presentation/http\<close>).  The rate limits in front of them
  are the crate \<open>backbone_rate_limit\<close>'s and not modelled.
\<close>

section \<open>Attachments\<close>

fun attachment_err :: "env \<Rightarrow> AttachmentError \<Rightarrow> Response" where
  "attachment_err v (AtNotFound i) = json_response 404 (json_err (''no such attachment '' @ uuid_text v i))"
| "attachment_err v (AtForbidden i) = json_response 403 (json_err ''attachment is not yours'')"
| "attachment_err v (NotMessageAuthor i) = json_response 403 (json_err ''message is not yours'')"
| "attachment_err v NeedsOwner = unauthorized"
| "attachment_err v (AtInvalid m) = json_response 422 (json_err m)"
| "attachment_err v (AtDb e) = db_err e"

record RegisterBody =
  rg_name :: string
  rg_mimetype :: "string option"
  rg_size :: "int option"
  rg_datas :: "string option"
  rg_checksum :: "string option"

definition register_route :: "WireIdentity \<Rightarrow> RegisterBody \<Rightarrow> 'o handler" where
  "register_route wire body = identified wire (\<lambda>i.
     respond (register i (rg_name body) (rg_mimetype body) (rg_size body) (rg_datas body) (rg_checksum body))
       (\<lambda>v a. ok_json (JObject [(''attachment_id'', juuid v a)])) attachment_err)"

definition attach_route :: "WireIdentity \<Rightarrow> bool \<Rightarrow> uuid \<Rightarrow> uuid \<Rightarrow> 'o handler" where
  "attach_route wire is_admin a message = identified wire (\<lambda>i.
     respond (attach_to_message i is_admin message a) (flag_ok ''attached'') attachment_err)"

definition detach_route :: "WireIdentity \<Rightarrow> bool \<Rightarrow> uuid \<Rightarrow> uuid \<Rightarrow> 'o handler" where
  "detach_route wire is_admin a message = identified wire (\<lambda>i.
     respond (detach_from_message i is_admin message a) (flag_ok ''detached'') attachment_err)"

definition mint_token_route :: "WireIdentity \<Rightarrow> bool \<Rightarrow> uuid \<Rightarrow> 'o handler" where
  "mint_token_route wire is_admin a = identified wire (\<lambda>i.
     respond (mint_access_token i is_admin a) (\<lambda>v t. ok_json (JObject [(''access_token'', juuid v t)])) attachment_err)"

definition clear_token_route :: "WireIdentity \<Rightarrow> bool \<Rightarrow> uuid \<Rightarrow> 'o handler" where
  "clear_token_route wire is_admin a = identified wire (\<lambda>i.
     respond (clear_access_token i is_admin a) (\<lambda>v _. flag_ok ''cleared'' v True) attachment_err)"

section \<open>Presence\<close>

fun presence_err :: "env \<Rightarrow> PresenceError \<Rightarrow> Response" where
  "presence_err v ProofRequired = json_response 403 (json_err ''presence update requires a live SSE session proof'')"
| "presence_err v (PrInvalid m) = json_response 422 (json_err m)"
| "presence_err v (PrDb e) = db_err e"

definition set_status_route :: "WireIdentity \<Rightarrow> string \<Rightarrow> 'o handler" where
  "set_status_route wire status = identified wire (\<lambda>i.
     respond (set_manual_im_status i status) (\<lambda>v _. ok_json (JObject [(''status'', JString status)])) presence_err)"

text \<open>The proof is checked against the clock; no header counts as an empty proof.\<close>

definition bus_presence_route :: "crypto \<Rightarrow> bytes \<Rightarrow> WireIdentity \<Rightarrow> string option \<Rightarrow> 'o handler" where
  "bus_presence_route C secret wire header = identified wire (\<lambda>i.
     respond (bindA (ask uuid_text) (\<lambda>U. bindA now_utc (\<lambda>now. update_bus_presence i
         (verify_session_token U C secret (case header of Some p \<Rightarrow> p | None \<Rightarrow> []) i now))))
       (\<lambda>v _. flag_ok ''ok'' v True) presence_err)"

section \<open>Guests and the public bootstrap\<close>

definition guest_cookie :: "(uuid \<Rightarrow> string) \<Rightarrow> uuid \<Rightarrow> string" where
  "guest_cookie U g = ''dgid='' @ U g @ ''; Path=/; HttpOnly; SameSite=Lax; Max-Age=2592000''"

definition mint_err :: "env \<Rightarrow> GuestError \<Rightarrow> Response" where
  "mint_err v e =
     (case e of
        GuInvalid m \<Rightarrow> json_response 422 (json_err m)
      | GuDb e \<Rightarrow> db_err e
      | _ \<Rightarrow> json_response 500 (json_err ''internal error''))"

definition mint_guest_route :: "WireIdentity \<Rightarrow> string option option \<Rightarrow> 'o handler" where
  "mint_guest_route wire body =
     (if wire_identity wire \<noteq> None then answer unauthorized
      else respond (mint (Option.bind body (\<lambda>b. b)))
        (\<lambda>v g. (ok_json (JObject [(''guest_id'', juuid v g)]))\<lparr>res_cookie := Some (guest_cookie (uuid_text v) g)\<rparr>) mint_err)"

fun rename_err :: "env \<Rightarrow> GuestError \<Rightarrow> Response" where
  "rename_err v (GuNotFound i) = json_response 404 (json_err (''no such guest '' @ uuid_text v i))"
| "rename_err v GuForbidden = unauthorized"
| "rename_err v (GuInvalid m) = json_response 422 (json_err m)"
| "rename_err v (GuDb e) = db_err e"

definition update_name_route :: "WireIdentity \<Rightarrow> string \<Rightarrow> 'o handler" where
  "update_name_route wire new_name =
     (case wire_identity wire of
        None \<Rightarrow> answer unauthorized
      | Some caller \<Rightarrow>
          (case identity_guest_id caller of
             None \<Rightarrow> answer unauthorized
           | Some g \<Rightarrow> respond (update_name g new_name caller) (\<lambda>v _. flag_ok ''renamed'' v True) rename_err))"

text \<open>The bootstrap mints a guest for an anonymous caller, after the channel was found.\<close>

definition bootstrap_payload ::
  "env \<Rightarrow> uuid \<times> string option \<times> string \<Rightarrow> string option \<Rightarrow> uuid \<Rightarrow> json" where
  "bootstrap_payload v channel mode g =
     JObject [(''channel_id'', juuid v (fst channel)), (''channel_name'', jopt JString (fst (snd channel))),
       (''channel_type'', JString (snd (snd channel))), (''mode'', jopt JString mode), (''guest_id'', juuid v g)]"

definition bootstrap_persona ::
  "WireIdentity \<Rightarrow> uuid \<times> string option \<times> string \<Rightarrow> string option \<Rightarrow> 'o handler" where
  "bootstrap_persona wire channel mode =
     (case wire_identity wire of
        Some (Guest g) \<Rightarrow> (\<lambda>v w. (ok_json (bootstrap_payload v channel mode g), w))
      | _ \<Rightarrow> respond (mint None)
          (\<lambda>v g. (ok_json (bootstrap_payload v channel mode g))\<lparr>res_cookie := Some (guest_cookie (uuid_text v) g)\<rparr>)
          (\<lambda>v e. json_response 500 (json_err ''internal error'')))"

definition bootstrap_route :: "WireIdentity \<Rightarrow> string \<Rightarrow> string option \<Rightarrow> 'o handler" where
  "bootstrap_route wire channel_uuid mode =
     (if wire_identity wire \<noteq> None \<and> \<not> wire_is_guest wire then answer unauthorized
      else (\<lambda>v w. case query (reading (find_public_by_uuid channel_uuid)) v w of
        (Inl e, w') \<Rightarrow> (db_err e, w')
      | (Inr None, w') \<Rightarrow> (json_response 404 (json_err ''no such channel''), w')
      | (Inr (Some channel), w') \<Rightarrow> bootstrap_persona wire channel mode v w'))"

section \<open>The webhooks\<close>

definition bearer_token :: "string option \<Rightarrow> string option" where
  "bearer_token authorization =
     Option.bind authorization (\<lambda>value.
     Option.bind (case strip_prefix ''Bearer '' value of Some t \<Rightarrow> Some t | None \<Rightarrow> strip_prefix ''bearer '' value) (\<lambda>t.
     if t = [] then None else Some t))"

fun inbound_label :: "InboundOutcome \<Rightarrow> string" where
  "inbound_label (Routed i m r) = ''routed''"
| "inbound_label (Duplicate i) = ''duplicate''"
| "inbound_label Rejected = ''rejected''"
| "inbound_label Dropped = ''dropped''"

fun inbound_err :: "env \<Rightarrow> MailInboundError \<Rightarrow> Response" where
  "inbound_err v Auth = json_response 401 (json_err ''unauthorized'')"
| "inbound_err v (InInvalid m) = json_response 422 (json_err m)"
| "inbound_err v (InDb e) = db_err e"

text \<open>\<open>decode\<close> is serde's reading of the body.\<close>

definition mail_inbound_route ::
  "(string \<Rightarrow> string) \<Rightarrow> (string \<Rightarrow> bytes) \<Rightarrow> (bytes \<Rightarrow> string + InboundMessage) \<Rightarrow>
   uuid \<Rightarrow> string option \<Rightarrow> bytes \<Rightarrow> 'o handler" where
  "mail_inbound_route sql_lower sha decode server_id authorization body =
     (case decode body of
        Inl e \<Rightarrow> answer (json_response 400 (json_err (''unparseable body: '' @ e)))
      | Inr msg \<Rightarrow>
          (case bearer_token authorization of
             None \<Rightarrow> answer (json_response 401 (json_err ''unauthorized''))
           | Some token \<Rightarrow> respond (process_inbound sql_lower sha server_id token msg)
               (\<lambda>v out. ok_json (JObject [(''outcome'', JString (inbound_label out))])) inbound_err))"

fun webhook_err :: "env \<Rightarrow> WebhookError \<Rightarrow> Response" where
  "webhook_err v (WVerify m) = json_response 401 (json_err ''verification failed'')"
| "webhook_err v (WInvalid m) = json_response 422 (json_err m)"
| "webhook_err v (WDb e) = db_err e"
| "webhook_err v (WSms e) = json_response 500 (json_err ''internal error'')"

definition outcome_label :: "WebhookOutcome \<Rightarrow> string" where
  "outcome_label x = (case x of Advanced \<Rightarrow> ''advanced'' | Replay \<Rightarrow> ''replay'')"

text \<open>\<open>secret\<close> is the environment variable as read for the request.\<close>

definition sms_status_route ::
  "(bytes \<Rightarrow> bytes \<Rightarrow> bytes) \<Rightarrow> (bytes \<Rightarrow> string + WebhookPayload) \<Rightarrow> string option \<Rightarrow> bytes \<Rightarrow>
   string option \<Rightarrow> 'o handler" where
  "sms_status_route mac from_slice secret body signature =
     (case secret of
        Some (c # cs) \<Rightarrow> respond (webhook_handle mac from_slice (str_bytes (c # cs)) body signature)
          (\<lambda>v out. ok_json (JObject [(''outcome'', JString (outcome_label out))])) webhook_err
      | _ \<Rightarrow> answer (json_response 503 (json_err ''webhook not configured'')))"

end
