(* ===== verification/Surface.thy ===== *)
theory Surface
  imports EdgeRoutes
begin

text \<open>
  The guarded surface as a whole: the routers the composers build, and what holds of every route.  Each
  constructor is one route of a composer with its path parameters and decoded body; the paths themselves are
  axum's business.
\<close>

section \<open>The routers\<close>

datatype thread_request =
    FetchThread FetchThreadBody
  | FetchChannel FetchChannelBody
  | FetchInbox
  | FetchStarred
  | InboxUnread
  | ChannelUnread
  | SuggestedRecipients RecipientsBody
  | PostToThread PostBody
  | FollowThread FollowBody
  | UnfollowThread FollowBody
  | ScheduleThreadPost ScheduleBody
  | CancelScheduled uuid

fun thread_router :: "app \<Rightarrow> WireIdentity \<Rightarrow> thread_request \<Rightarrow> 'o handler" where
  "thread_router app wire (FetchThread b) = fetch_thread_route app wire b"
| "thread_router app wire (FetchChannel b) = fetch_channel_route app wire b"
| "thread_router app wire FetchInbox = fetch_inbox_route app wire"
| "thread_router app wire FetchStarred = fetch_starred_route app wire"
| "thread_router app wire InboxUnread = inbox_unread_route wire"
| "thread_router app wire ChannelUnread = channel_unread_route wire"
| "thread_router app wire (SuggestedRecipients b) = suggested_recipients_route app wire b"
| "thread_router app wire (PostToThread b) = post_to_thread_route app wire b"
| "thread_router app wire (FollowThread b) = follow_thread_route app wire b"
| "thread_router app wire (UnfollowThread b) = unfollow_thread_route wire b"
| "thread_router app wire (ScheduleThreadPost b) = schedule_thread_post_route app wire b"
| "thread_router app wire (CancelScheduled i) = cancel_scheduled_route app wire i"

datatype channel_request =
    CreateChannel CreateChannelBody
  | OpenChat uuid
  | UpdateChannel uuid ChannelUpdateBody
  | JoinChannel uuid
  | LeaveChannel uuid
  | MuteChannel uuid "MuteBody option"
  | SetNotifications uuid "string option option"
  | SetMemberPin uuid bool
  | SetFold uuid "string option option"
  | MarkSeen uuid uuid
  | MarkFetched uuid uuid
  | SetSeparator uuid uuid
  | NotifyTyping uuid bool
  | PinMessage uuid uuid bool
  | ChannelMembers uuid
  | PinnedMessages uuid
  | ToggleReaction uuid string
  | EditMessage uuid "string option" "string option"
  | ToggleStar uuid
  | SearchChannels "string option"

fun channel_router :: "app \<Rightarrow> WireIdentity \<Rightarrow> bool \<Rightarrow> channel_request \<Rightarrow> 'o handler" where
  "channel_router app wire admin (CreateChannel b) = create_channel_route wire b"
| "channel_router app wire admin (OpenChat p) = open_chat_route wire p"
| "channel_router app wire admin (UpdateChannel c b) = update_channel_route wire c b"
| "channel_router app wire admin (JoinChannel c) = join_channel_route wire c"
| "channel_router app wire admin (LeaveChannel c) = leave_channel_route wire c"
| "channel_router app wire admin (MuteChannel c b) = mute_channel_route wire c b"
| "channel_router app wire admin (SetNotifications c b) = set_notifications_route wire c b"
| "channel_router app wire admin (SetMemberPin c b) = set_member_pin_route wire c b"
| "channel_router app wire admin (SetFold c b) = set_fold_route wire c b"
| "channel_router app wire admin (MarkSeen c m) = mark_seen_route wire c m"
| "channel_router app wire admin (MarkFetched c m) = mark_fetched_route wire c m"
| "channel_router app wire admin (SetSeparator c m) = set_separator_route wire c m"
| "channel_router app wire admin (NotifyTyping c b) = notify_typing_route wire c b"
| "channel_router app wire admin (PinMessage c m b) = pin_message_route wire c m b"
| "channel_router app wire admin (ChannelMembers c) = channel_members_route wire c"
| "channel_router app wire admin (PinnedMessages c) = pinned_messages_route wire c"
| "channel_router app wire admin (ToggleReaction m c) = toggle_reaction_route wire m c"
| "channel_router app wire admin (EditMessage m s b) = edit_message_route wire admin m s b"
| "channel_router app wire admin (ToggleStar m) = toggle_star_route wire m"
| "channel_router app wire admin (SearchChannels t) = search_channels_route app wire t"

datatype attachment_request =
    Register RegisterBody
  | Attach uuid uuid
  | Detach uuid uuid
  | MintToken uuid
  | ClearToken uuid

fun attachment_router :: "WireIdentity \<Rightarrow> bool \<Rightarrow> attachment_request \<Rightarrow> 'o handler" where
  "attachment_router wire admin (Register b) = register_route wire b"
| "attachment_router wire admin (Attach a m) = attach_route wire admin a m"
| "attachment_router wire admin (Detach a m) = detach_route wire admin a m"
| "attachment_router wire admin (MintToken a) = mint_token_route wire admin a"
| "attachment_router wire admin (ClearToken a) = clear_token_route wire admin a"

datatype presence_request =
    SetStatus string
  | BusPresence "string option"

fun presence_router :: "crypto \<Rightarrow> bytes \<Rightarrow> WireIdentity \<Rightarrow> presence_request \<Rightarrow> 'o handler" where
  "presence_router C secret wire (SetStatus s) = set_status_route wire s"
| "presence_router C secret wire (BusPresence h) = bus_presence_route C secret wire h"

section \<open>A refusal writes nothing\<close>

text \<open>\<open>restrained h\<close>: an answer of the 400 class leaves the database as it was.\<close>

named_theorems restrained_intros

definition restrained :: "'o handler \<Rightarrow> bool" where
  "restrained h \<longleftrightarrow> (\<forall>v w r w'. h v w = (r, w') \<longrightarrow> 400 \<le> res_status r \<and> res_status r < 500 \<longrightarrow> db w' = db w)"

lemma restrainedD: "restrained h \<Longrightarrow> h v w = (r, w') \<Longrightarrow> 400 \<le> res_status r \<Longrightarrow> res_status r < 500 \<Longrightarrow> db w' = db w"
  unfolding restrained_def by blast

lemma status_simps [simp]: "res_status (json_response st j) = st" "res_status (ok_json j) = 200"
  "res_status unauthorized = 401" "res_status (forbidden m) = 403" "res_status (db_err e) = 500"
  "res_status (flag_ok k v b) = 200" "res_status (messages_ok v ms) = 200"
  by (simp_all add: json_response_def ok_json_def unauthorized_def forbidden_def db_err_def flag_ok_def messages_ok_def)

lemma restrained_answer [restrained_intros]: "restrained (answer r)"
  by (auto simp: restrained_def answer_def)

lemma restrained_identified [restrained_intros]: "(\<And>i. restrained (h i)) \<Longrightarrow> restrained (identified wire h)"
  by (cases wire) (auto simp: identified_def require_identity_def wire_identity_def intro: restrained_answer)

lemma restrained_as_partner [restrained_intros]: "(\<And>p. restrained (h p)) \<Longrightarrow> restrained (as_partner wire h)"
  by (auto simp: as_partner_def intro: restrained_answer split: option.split)

lemma restrained_if [restrained_intros]: "(c \<Longrightarrow> restrained a) \<Longrightarrow> (\<not> c \<Longrightarrow> restrained b) \<Longrightarrow> restrained (if c then a else b)"
  by simp

lemma restrained_pair [restrained_intros]: "(\<And>a b. restrained (h a b)) \<Longrightarrow> restrained (case p of (a, b) \<Rightarrow> h a b)"
  by (cases p) simp

lemma restrained_respond [restrained_intros]:
  assumes "\<And>v. refuses (\<lambda>e. \<not> res_status (failed v e) < 500) m" and "\<And>v x. res_status (done' v x) = 200"
  shows "restrained (respond m done' failed)"
  unfolding restrained_def
proof (intro allI impI)
  fix v w r w' assume run: "respond m done' failed v w = (r, w')" and st: "400 \<le> res_status r \<and> res_status r < 500"
  obtain q w1 where m: "m v w = (q, w1)" by fastforce
  show "db w' = db w"
  proof (cases q)
    case (Inl e)
    with run m have r: "r = failed v e" "w' = w1" by (simp_all add: respond_def)
    with refusesD [OF assms(1) [of v] m [unfolded Inl]] st show ?thesis by simp
  next
    case (Inr x)
    with run m st assms(2) show ?thesis by (auto simp: respond_def)
  qed
qed

lemma looks_members: "looks (channel_members_query i c)"
  unfolding channel_members_query_def cq_require_member_def cq_connection_def by (intro looks_intros)

lemma restrained_members_first [restrained_intros]:
  assumes "restrained h"
  shows "restrained (members_first i c h)"
  unfolding restrained_def
proof (intro allI impI)
  fix v w r w' assume run: "members_first i c h v w = (r, w')" and st: "400 \<le> res_status r \<and> res_status r < 500"
  obtain q w1 where m: "channel_members_query i c v w = (q, w1)" by fastforce
  note w1 = looksD [OF looks_members m]
  show "db w' = db w"
  proof (cases q)
    case (Inl e)
    with run m w1 show ?thesis by (simp add: members_first_def)
  next
    case (Inr x)
    with run m have "h v w1 = (r, w')" by (simp add: members_first_def)
    with restrainedD [OF assms] st w1 show ?thesis by simp
  qed
qed

lemma looks_gated [looks_intros]: "looks m \<Longrightarrow> looks (gated g e m)"
  by (auto simp: looks_def gated_def fail_def)

lemma refuses_gated [refuses_intros]: "refuses bad m \<Longrightarrow> refuses bad (gated g e m)"
  by (auto simp: refuses_def gated_def fail_def)

lemma looks_peek [looks_intros]: "looks (peek f)"
  by (simp add: looks_def peek_def)

lemma looks_stmt_reading [looks_intros]: "looks (stmt (reading f))"
  by (simp add: looks_def stmt_def stmt_now_def reading_def)

lemma looks_in_tx [looks_intros]:
  assumes "looks m"
  shows "looks (in_tx up m)"
  unfolding looks_def
proof (intro allI)
  fix v w
  obtain r w' where run: "in_tx up m v w = (r, w')" by fastforce
  then have "db w' = db w" by (rule in_tx_cases) (auto dest: looksD [OF assms])
  with run show "db (snd (in_tx up m v w)) = db w" by simp
qed

lemma refuses_message_post [refuses_intros]: "bad (MailDb Connection) \<Longrightarrow> refuses bad (message_post cmd)"
  unfolding message_post_def by (intro refuses_intros)

lemma refuses_identity [refuses_intros]:
  "(\<And>p. i = User p \<Longrightarrow> refuses bad (f p)) \<Longrightarrow> (\<And>g. i = Guest g \<Longrightarrow> refuses bad (h g)) \<Longrightarrow>
   refuses bad (case i of User p \<Rightarrow> f p | Guest g \<Rightarrow> h g)"
  by (cases i) simp_all

lemma looks_list_followers [looks_intros]: "looks (query (list_followers m r))"
  by (rule looks_query) (auto dest: list_followers_Inr)

lemma restrained_reads:
  "restrained (fetch_thread_route app wire tb)"
  "restrained (fetch_channel_route app wire cb)"
  "restrained (fetch_inbox_route app wire)"
  "restrained (fetch_starred_route app wire)"
  "restrained (inbox_unread_route wire)"
  "restrained (channel_unread_route wire)"
  "restrained (suggested_recipients_route app wire rb)"
  unfolding fetch_thread_route_def fetch_thread_def fetch_channel_route_def fetch_channel_def fetch_inbox_route_def
    fetch_inbox_def fetch_starred_route_def fetch_starred_def inbox_unread_route_def inbox_unread_count_def
    channel_unread_route_def channel_unread_counts_def suggested_recipients_route_def suggested_def on_connection_def
    require_member_def
  by (intro restrained_intros; (intro refuses_intros looks_intros)?; simp)+

lemma restrained_thread_writes:
  "restrained (post_to_thread_route app wire pb)"
  "restrained (follow_thread_route app wire fb)"
  "restrained (unfollow_thread_route wire fb)"
  "restrained (schedule_thread_post_route app wire sb)"
  "restrained (cancel_scheduled_route app wire i)"
  unfolding post_to_thread_route_def chatter_post_def follow_thread_route_def follow_def subscribe_def
    unfollow_thread_route_def unfollow_def unsubscribe_def schedule_thread_post_route_def schedule_post_def
    arm_scheduled_message_def cancel_scheduled_route_def cancel_scheduled_message_def
  by (intro restrained_intros; (intro refuses_intros looks_intros)?; simp add: chatter_err_def cancel_err_def)+

lemma restrained_member_verbs:
  "restrained (join_channel_route wire c)"
  "restrained (leave_channel_route wire c)"
  "restrained (mute_channel_route wire c mb)"
  "restrained (set_notifications_route wire c z)"
  "restrained (set_member_pin_route wire c b)"
  "restrained (set_fold_route wire c z)"
  "restrained (mark_seen_route wire c m)"
  "restrained (mark_fetched_route wire c m)"
  "restrained (set_separator_route wire c m)"
  "restrained (notify_typing_route wire c b)"
  unfolding join_channel_route_def join_def leave_channel_route_def leave_def mute_channel_route_def set_mute_def
    set_notifications_route_def set_custom_notifications_def set_member_pin_route_def set_pinned_def set_fold_route_def
    set_fold_state_def mark_seen_route_def mark_as_read_def mark_fetched_route_def mark_fetched_def set_separator_route_def
    set_new_message_separator_def notify_typing_route_def notify_typing_def Let_def
  by (intro restrained_intros; (intro refuses_intros looks_intros)?; simp)+

lemma restrained_channel_verbs:
  "restrained (create_channel_route wire cb)"
  "restrained (open_chat_route wire p)"
  "restrained (update_channel_route wire c ub)"
  "restrained (pin_message_route wire c m b)"
  "restrained (channel_members_route wire c)"
  "restrained (pinned_messages_route wire c)"
  "restrained (search_channels_route app wire t)"
  "restrained (toggle_reaction_route wire m ct)"
  "restrained (edit_message_route wire admin m s bd)"
  "restrained (toggle_star_route wire m)"
  unfolding create_channel_route_def channel_create_def open_chat_route_def get_or_create_chat_def update_channel_route_def
    update_fields_def pin_message_route_def set_message_pinned_def channel_members_route_def pinned_messages_route_def
    pinned_messages_def channel_members_query_def cq_require_member_def cq_connection_def search_channels_route_def
    channel_search_def toggle_reaction_route_def reaction_toggle_def edit_message_route_def update_content_def
    toggle_star_route_def toggle_star_def
  by (intro restrained_intros; (intro refuses_intros looks_intros)?; simp split: prod.split)+

lemma looks_owner_gate [looks_intros]: "looks (owner_gate a i admin)"
  unfolding owner_gate_def by (intro looks_intros)

lemma restrained_attachment_verbs:
  "restrained (register_route wire rg)"
  "restrained (attach_route wire admin a m)"
  "restrained (detach_route wire admin a m)"
  "restrained (mint_token_route wire admin a)"
  "restrained (clear_token_route wire admin a)"
  unfolding register_route_def register_def attach_route_def attach_to_message_def detach_route_def detach_from_message_def
    mint_token_route_def mint_access_token_def clear_token_route_def clear_access_token_def Let_def
  by (intro restrained_intros; (intro refuses_intros looks_intros)?; simp)+

lemma restrained_presence_verbs:
  "restrained (set_status_route wire s)"
  "restrained (bus_presence_route C secret wire h)"
  unfolding set_status_route_def set_manual_im_status_def bus_presence_route_def update_bus_presence_def
  by (intro restrained_intros; (intro refuses_intros looks_intros)?; simp)+

lemma restrained_thread_router: "restrained (thread_router app wire t)"
  by (cases t) (simp_all add: restrained_reads restrained_thread_writes)

lemma restrained_channel_router: "restrained (channel_router app wire admin c)"
  by (cases c) (simp_all add: restrained_member_verbs restrained_channel_verbs)

lemma restrained_attachment_router: "restrained (attachment_router wire admin a)"
  by (cases a) (simp_all add: restrained_attachment_verbs)

lemma restrained_presence_router: "restrained (presence_router C secret wire p)"
  by (cases p) (simp_all add: restrained_presence_verbs)

lemmas restrained_routers = restrained_thread_router restrained_channel_router restrained_attachment_router
  restrained_presence_router

text \<open>C33: a refusal writes nothing.  Whatever route of the guarded surface is called, by whomever and whatever
  statements fail on the way, an answer of the 400 class (not identified, not allowed, not found, invalid)
  leaves the database exactly as it was.\<close>

theorem refusal_writes_nothing:
  "(thread_router app wire t v w = (r, w') \<or> channel_router app wire admin c v w = (r, w') \<or>
    attachment_router wire admin a v w = (r, w') \<or> presence_router C secret wire p v w = (r, w')) \<longrightarrow>
   400 \<le> res_status r \<longrightarrow> res_status r < 500 \<longrightarrow> db w' = db w"
  using restrained_routers [unfolded restrained_def] by metis

section \<open>Nobody is nobody\<close>

lemma identified_Anonymous [simp]: "identified Anonymous h = answer unauthorized"
  by (simp add: identified_def require_identity_def wire_identity_def)

lemma as_partner_Anonymous [simp]: "as_partner Anonymous h = answer unauthorized"
  by (simp add: as_partner_def wire_partner_id_def wire_identity_def)

lemma as_partner_Guest: "as_partner (Identified (Guest g)) h = answer unauthorized"
  by (simp add: as_partner_def wire_partner_id_def wire_identity_def)

text \<open>C34: an anonymous caller gets nothing from the guarded surface.  Every thread, channel, attachment and
  presence route answers 401 before it touches the database.\<close>

theorem anonymous_is_refused:
  "thread_router app Anonymous t v w = (unauthorized, w) \<and>
   channel_router app Anonymous admin c v w = (unauthorized, w) \<and>
   attachment_router Anonymous admin a v w = (unauthorized, w) \<and>
   presence_router C secret Anonymous p v w = (unauthorized, w)"
proof -
  have "thread_router app Anonymous t v w = (unauthorized, w)"
    by (cases t) (simp_all add: answer_def fetch_thread_route_def fetch_channel_route_def fetch_inbox_route_def fetch_starred_route_def
      inbox_unread_route_def channel_unread_route_def suggested_recipients_route_def post_to_thread_route_def
      follow_thread_route_def unfollow_thread_route_def schedule_thread_post_route_def cancel_scheduled_route_def)
  moreover have "channel_router app Anonymous admin c v w = (unauthorized, w)"
    by (cases c) (simp_all add: answer_def create_channel_route_def open_chat_route_def update_channel_route_def join_channel_route_def
      leave_channel_route_def mute_channel_route_def set_notifications_route_def set_member_pin_route_def set_fold_route_def
      mark_seen_route_def mark_fetched_route_def set_separator_route_def notify_typing_route_def pin_message_route_def
      channel_members_route_def pinned_messages_route_def toggle_reaction_route_def edit_message_route_def
      toggle_star_route_def search_channels_route_def)
  moreover have "attachment_router Anonymous admin a v w = (unauthorized, w)"
    by (cases a) (simp_all add: answer_def register_route_def attach_route_def detach_route_def mint_token_route_def clear_token_route_def)
  moreover have "presence_router C secret Anonymous p v w = (unauthorized, w)"
    by (cases p) (simp_all add: answer_def set_status_route_def bus_presence_route_def)
  ultimately show ?thesis by simp
qed

section \<open>The guest's credential\<close>

text \<open>Printable ASCII without blanks is what a uuid's text is made of; \<open>trim\<close> leaves it alone.\<close>

definition graphic :: "string \<Rightarrow> bool" where
  "graphic s \<longleftrightarrow> list_all (\<lambda>c. 0x21 \<le> byte_of c \<and> byte_of c \<le> 0x7E) s"

lemma strip_codes_id:
  assumes "\<forall>w\<in>set ws. w \<noteq> [] \<longrightarrow> hd w \<notin> set s"
  shows "strip_codes ws s = s"
proof -
  have "find (\<lambda>w. w \<noteq> [] \<and> prefix w s) ws = None"
    using assms by (auto simp: find_None_iff prefix_def)
  then show ?thesis by (subst strip_codes.simps) simp
qed

lemma ws_codes_not_graphic: "list_all (\<lambda>w. w \<noteq> [] \<and> list_all (\<lambda>c. \<not> (0x21 \<le> byte_of c \<and> byte_of c \<le> 0x7E)) w) ws_codes"
  by code_simp

lemma trim_graphic:
  assumes "graphic s"
  shows "trim s = s"
proof -
  have far: "c \<notin> set s" if "w \<in> set ws_codes" "c \<in> set w" for w c
    using assms ws_codes_not_graphic that unfolding graphic_def list_all_iff by fast
  then have 1: "strip_codes ws_codes s = s" by (intro strip_codes_id) auto
  from far have "strip_codes (map rev ws_codes) (rev s) = rev s"
    by (intro strip_codes_id) (auto simp: hd_rev dest: last_in_set)
  with 1 show ?thesis by (simp add: trim_def)
qed

lemma graphic_append [simp]: "graphic (s @ t) \<longleftrightarrow> graphic s \<and> graphic t"
  by (simp add: graphic_def)

lemma graphic_dgid: "graphic ''dgid=''"
  by code_simp

definition credential_text :: "string \<Rightarrow> bool" where
  "credential_text t \<longleftrightarrow> t \<noteq> [] \<and> graphic t \<and> CHR '';'' \<notin> set t"

lemma dgid_cookie_guest:
  assumes "credential_text t"
  shows "dgid_cookie (''dgid='' @ t) = Some t"
proof -
  have "split_char (CHR '';'') (''dgid='' @ t) = [''dgid='' @ t]"
    using assms by (intro split_char_no_sep) (simp add: credential_text_def)
  moreover have "trim (''dgid='' @ t) = ''dgid='' @ t"
    using assms graphic_dgid by (intro trim_graphic) (simp add: credential_text_def del: append_Cons)
  ultimately show ?thesis using assms unfolding dgid_cookie_def by (simp add: credential_text_def strip_prefix_def)
qed

definition cookie_only :: "string \<Rightarrow> string \<Rightarrow> string option" where
  "cookie_only c n = (if n = ''cookie'' then Some c else None)"

lemma guest_cookie_identifies:
  assumes "credential_text t" and "parse t = Some g"
  shows "\<exists>req. resolve_request parse scope (cookie_only (''dgid='' @ t)) = Inr req \<and> ext_identity req = Some (Identified (Guest g))"
proof -
  note c = dgid_cookie_guest [OF assms(1)]
  show ?thesis
    using c assms(2)
    by (simp add: resolve_request_def user_scope_def fresh_request_def cookie_only_def guest_context_def Let_def)
qed

text \<open>The listing of the members of a channel shows each guest's id, which is the guest's credential, to every
  member; whoever sends it back is that guest.\<close>

lemma member_listed:
  assumes "channel_members_route (Identified i) c v w = (r, w')" and "res_status r = 200"
    and "m \<in> set (channel_members (db w))" and "mbr_channel_id m = c" and "\<not> mbr_deleted m"
  shows "\<exists>js. res_body r = JsonBody (JObject [(''members'', JArray js)]) \<and>
    member_json v (mbr_id m, mbr_partner_id m, mbr_guest_id m) \<in> set js"
proof -
  obtain q w1 where q: "channel_members_query i c v w = (q, w1)" by fastforce
  show ?thesis
  proof (cases q)
    case (Inl e)
    with assms(1,2) q show ?thesis
      by (cases e) (auto simp: channel_members_route_def identified_def require_identity_def wire_identity_def respond_def)
  next
    case (Inr rows)
    with assms(1) q have r: "r = ok_json (JObject [(''members'', JArray (map (member_json v) rows))])"
      by (auto simp: channel_members_route_def identified_def require_identity_def wire_identity_def respond_def)
    from q Inr obtain u w0 where 1: "cq_require_member c i v w = (Inr u, w0)"
      and 2: "cq_connection (reading (list_members c)) v w0 = (Inr rows, w1)"
      unfolding channel_members_query_def by (auto elim: bindA_InrE)
    have "looks (cq_require_member c i)" unfolding cq_require_member_def cq_connection_def by (intro looks_intros)
    from looksD [OF this 1] have "db w0 = db w" .
    with 2 have "rows = list_members c (db w)"
      by (auto simp: cq_connection_def reading_def elim!: bindA_InrE lift_InrE query_InrE acquire_InrE)
    with assms(3-5) have "(mbr_id m, mbr_partner_id m, mbr_guest_id m) \<in> set rows" by (auto simp: list_members_def)
    with r show ?thesis by (simp add: ok_json_def json_response_def)
  qed
qed

lemma guest_credential_disclosed:
  assumes "channel_members_route (Identified i) c v w = (r, w')" and "res_status r = 200"
    and "m \<in> set (channel_members (db w))" and "mbr_channel_id m = c" and "\<not> mbr_deleted m" and "mbr_guest_id m = Some g"
    and "credential_text (uuid_text v g)" and "parse (uuid_text v g) = Some g"
  shows "\<exists>js fs t req. res_body r = JsonBody (JObject [(''members'', JArray js)]) \<and> JObject fs \<in> set js \<and>
    (''guest_id'', JString t) \<in> set fs \<and>
    resolve_request parse scope (cookie_only (''dgid='' @ t)) = Inr req \<and> ext_identity req = Some (Identified (Guest g))"
proof -
  from member_listed [OF assms(1-5)] obtain js where js: "res_body r = JsonBody (JObject [(''members'', JArray js)])"
    and m: "member_json v (mbr_id m, mbr_partner_id m, Some g) \<in> set js" using assms(6) by auto
  from guest_cookie_identifies [where parse = parse and scope = scope, OF assms(7,8)] obtain req where
    "resolve_request parse scope (cookie_only (''dgid='' @ uuid_text v g)) = Inr req" "ext_identity req = Some (Identified (Guest g))" by blast
  moreover from m have "JObject [(''member_id'', juuid v (mbr_id m)), (''partner_id'', jopt (juuid v) (mbr_partner_id m)),
      (''guest_id'', JString (uuid_text v g))] \<in> set js" by (simp add: member_json_def jopt_def juuid_def)
  ultimately show ?thesis using js by (metis list.set_intros(1,2))
qed

text \<open>C35: minting a guest and coming back.  A mint is for callers without an identity; when it succeeds the
  database has one new live guest, and the cookie set in the answer, sent back as browsers do, resolves to
  exactly that guest.\<close>

theorem guest_mint_roundtrip:
  assumes "mint_guest_route wire body v w = (r, w')" and "res_status r = 200" and "guests_ok (db w)"
    and "\<forall>g. credential_text (uuid_text v g) \<and> parse (uuid_text v g) = Some g"
  shows "wire_identity wire = None \<and> (\<exists>g c req. res_cookie r = Some c \<and> guest_at (db w) g = None \<and> guest_live (db w') g \<and>
    guests_ok (db w') \<and> resolve_request parse scope (cookie_only (hd (split_char (CHR '';'') c))) = Inr req \<and>
    ext_identity req = Some (Identified (Guest g)))"
proof -
  have none: "wire_identity wire = None" using assms(1,2) by (auto simp: mint_guest_route_def answer_def split: if_splits)
  obtain q w1 where q: "mint (Option.bind body (\<lambda>b. b)) v w = (q, w1)" by fastforce
  have "\<not> isl q"
    using assms(1,2) none q by (cases q) (auto simp: mint_guest_route_def respond_def mint_err_def split: GuestError.splits)
  then obtain g where g: "q = Inr g" by (cases q) auto
  from assms(1) none q g have r: "res_cookie r = Some (guest_cookie (uuid_text v) g)" and w': "w' = w1"
    by (auto simp: mint_guest_route_def respond_def)
  from mint_effect [OF q assms(3)] g obtain n now where new: "guest_at (db w) g = None" "guests_ok (db w1)"
    and at: "guest_at (db w1) g = Some \<lparr>gst_id = g, gst_name = n, gst_active = True, gst_last_connection = now, gst_deleted_at = None\<rparr>"
    by auto
  have "split_char (CHR '';'') (guest_cookie (uuid_text v) g) =
      (''dgid='' @ uuid_text v g) # split_char (CHR '';'') '' Path=/; HttpOnly; SameSite=Lax; Max-Age=2592000''"
    using assms(4) split_char_append_sep [of "CHR '';''" "''dgid='' @ uuid_text v g"]
    by (simp add: guest_cookie_def split_char_no_sep credential_text_def)
  then have "hd (split_char (CHR '';'') (guest_cookie (uuid_text v) g)) = ''dgid='' @ uuid_text v g" by simp
  moreover from guest_cookie_identifies [where parse = parse and scope = scope] assms(4) obtain req where
    "resolve_request parse scope (cookie_only (''dgid='' @ uuid_text v g)) = Inr req" "ext_identity req = Some (Identified (Guest g))"
    by blast
  ultimately show ?thesis using none new at r w' by (auto simp: guest_live_def)
qed

text \<open>The bootstrap shows live public channels only; everything else is the same 404, and a guest who comes with
  a cookie keeps the persona.\<close>

lemma bootstrap_public:
  assumes "bootstrap_route wire u mode v w = (r, w')" and "res_status r = 200"
  shows "\<exists>c\<in>set (channels (db w)). chn_uuid c = Some u \<and> chn_access_mode c = Some ''public'' \<and> \<not> chn_deleted c \<and>
    (\<exists>g. res_body r = JsonBody (bootstrap_payload v (chn_id c, chn_name c, DiscussChannelType_show (chn_type c)) mode g) \<and>
       (case wire_identity wire of Some i \<Rightarrow> i = Guest g \<and> db w' = db w \<and> res_cookie r = None | None \<Rightarrow> res_cookie r \<noteq> None))"
proof -
  obtain q w1 where q: "query (reading (find_public_by_uuid u)) v w = (q, w1)" by fastforce
  have guestish: "wire_identity wire = None \<or> (\<exists>g. wire_identity wire = Some (Guest g))"
    using assms by (cases wire) (auto simp: bootstrap_route_def answer_def wire_is_guest_def wire_identity_def
      split: if_splits MessagingIdentity.splits)
  from assms q guestish obtain ch where f: "q = Inr (Some ch)" and p: "bootstrap_persona wire ch mode v w1 = (r, w')"
    by (cases q) (auto simp: bootstrap_route_def wire_is_guest_def split: option.splits)
  from q f have "find_public_by_uuid u (db w) = Some ch" and w1: "db w1 = db w"
    by (auto elim!: query_InrE simp: reading_def)
  then obtain c where c: "c \<in> set (channels (db w))" "chn_uuid c = Some u" "chn_access_mode c = Some ''public''" "\<not> chn_deleted c"
    and ch: "ch = (chn_id c, chn_name c, DiscussChannelType_show (chn_type c))"
    by (auto simp: find_public_by_uuid_def dest!: find_SomeD)
  have "\<exists>g. res_body r = JsonBody (bootstrap_payload v ch mode g) \<and>
       (case wire_identity wire of Some i \<Rightarrow> i = Guest g \<and> db w' = db w \<and> res_cookie r = None | None \<Rightarrow> res_cookie r \<noteq> None)"
  proof (cases "wire_identity wire")
    case None
    with p assms(2) show ?thesis
      by (auto simp: bootstrap_persona_def respond_def ok_json_def json_response_def split: prod.splits sum.splits)
  next
    case (Some i)
    with guestish obtain g where "i = Guest g" by auto
    with Some p w1 show ?thesis by (auto simp: bootstrap_persona_def ok_json_def json_response_def)
  qed
  with c ch show ?thesis by auto
qed

text \<open>The inbound webhook gives one answer to every delivery that is not authorised.\<close>

lemma inbound_no_oracle:
  assumes "decode body = Inr msg" and "bearer_token authorization = Some token" and "\<not> blank (im_from msg)" and "im_to msg \<noteq> []"
    and "\<not> authorised sha (db w) server token"
  shows "mail_inbound_route sql_lower sha decode server authorization body v w =
    respond auth_refused (\<lambda>v (out :: string option). ok_json JNull) inbound_err v w"
proof -
  obtain e w1 where e: "auth_refused v w = (Inl e :: MailInboundError + string option, w1)"
    using auth_refused_runs [of v w] by (metis prod.collapse sum.collapse(1))
  have "process_inbound sql_lower sha server token msg v w = (Inl e, w1)"
    using assms(3-5) e by (simp add: process_inbound_def bindA_def unauthorised_auth)
  with assms(1,2) e show ?thesis by (simp add: mail_inbound_route_def respond_def)
qed

section \<open>The properties at concrete inputs\<close>

definition plain_app :: app where
  "plain_app = \<lparr>app_acl = slot_default, app_wire = plain_wire, app_agg = (\<lambda>xs. xs), app_distinct_rows = remdups,
     app_sql_text = \<lparr>ilike = (=), name_rank = (\<lambda>_. 0)\<rparr>, app_db_text = (\<lambda>_. ''error'')\<rparr>"

definition join_answer :: "Response \<times> (db, nat) world" where
  "join_answer = channel_router plain_app (Identified (User 7)) False (JoinChannel 5) plain_env (world_of empty_db)"

text \<open>Joining a channel that does not exist is a 403.\<close>

lemma refusal_writes_nothing_witness:
  "res_status (fst join_answer) = 403 \<and> db (snd join_answer) = empty_db"
proof -
  have s: "res_status (fst join_answer) = 403" by code_simp
  have "channel_router plain_app (Identified (User 7)) False (JoinChannel 5) plain_env (world_of empty_db) =
      (fst join_answer, snd join_answer)" by (simp add: join_answer_def)
  with s refusal_writes_nothing [of plain_app "Identified (User 7)" "FetchInbox" plain_env "world_of empty_db"
      "fst join_answer" "snd join_answer" False "JoinChannel 5" "ClearToken 1" sample_crypto "[]" "SetStatus ''x''"]
  show ?thesis by (simp add: world_of_def)
qed

definition text_env :: env where
  "text_env = plain_env\<lparr>uuid_text := \<lambda>i. replicate (Suc i) (CHR ''1'')\<rparr>"

definition mint_answer :: "Response \<times> (db, nat) world" where
  "mint_answer = mint_guest_route Anonymous (Some (Some ''Ann'')) text_env (world_of empty_db)"

lemma guest_mint_roundtrip_witness:
  "\<exists>g c req. res_cookie (fst mint_answer) = Some c \<and> guest_live (db (snd mint_answer)) g \<and>
    resolve_request (\<lambda>s. Some (length s - 1)) sample_scope (cookie_only (hd (split_char (CHR '';'') c))) = Inr req \<and>
    ext_identity req = Some (Identified (Guest g))"
proof -
  have run: "mint_guest_route Anonymous (Some (Some ''Ann'')) text_env (world_of empty_db) = (fst mint_answer, snd mint_answer)"
    by (simp add: mint_answer_def)
  have "\<not> isl (fst (mint (Some ''Ann'') text_env (world_of empty_db :: (db, nat) world)))" by code_simp
  then have s: "res_status (fst mint_answer) = 200"
    by (auto simp: mint_answer_def mint_guest_route_def wire_identity_def respond_def split: prod.splits sum.splits)
  have ok: "guests_ok (db (world_of empty_db))" by (simp add: guests_ok_def world_of_def empty_db_def)
  have t: "credential_text (uuid_text text_env g)" for g
  proof -
    have c: "graphic [CHR ''1'']" "CHR '';'' \<noteq> CHR ''1''" by code_simp+
    then show ?thesis by (auto simp: text_env_def credential_text_def graphic_def list_all_iff split: if_splits)
  qed
  have "\<forall>g. credential_text (uuid_text text_env g) \<and> Some (length (uuid_text text_env g) - 1) = Some g"
    using t by (simp add: text_env_def)
  from guest_mint_roundtrip [where parse = "\<lambda>s. Some (length s - 1)" and scope = sample_scope, OF run s ok this]
  show ?thesis by blast
qed

end
