(* ===== verification/Module.thy ===== *)
theory Module
  imports Surface PhoneValidation
begin

text \<open>
  The module as it is built: \<open>src/lib.ext.rs\<close>.  The build gives every gated service the same access slot and the
  phone validation an empty phone book; a host installs its own afterwards.  Of the built services the
  record \<open>app\<close> holds what the handlers read; the services themselves have no state beside the pool.
\<close>

record 'o module =
  mod_app :: app
  mod_phone_book :: "'o PhoneBookSlot"

text \<open>\<open>parts\<close> holds the parameters of the model; its slot is overwritten.\<close>

definition module_build :: "app \<Rightarrow> 'o module" where
  "module_build parts = \<lparr>mod_app = parts\<lparr>app_acl := slot_default\<rparr>, mod_phone_book = book_default\<rparr>"

definition set_thread_acl :: "ThreadAccessResolver \<Rightarrow> 'o module \<Rightarrow> 'o module" where
  "set_thread_acl resolver m = m\<lparr>mod_app := (mod_app m)\<lparr>app_acl := slot_install resolver (app_acl (mod_app m))\<rparr>\<rparr>"

definition set_phone_book :: "'o PhoneBook \<Rightarrow> 'o module \<Rightarrow> 'o module" where
  "set_phone_book book m = m\<lparr>mod_phone_book := book_install book (mod_phone_book m)\<rparr>"

definition set_static_thread_access :: "string list \<Rightarrow> 'o module \<Rightarrow> 'o module" where
  "set_static_thread_access open_models m =
     m\<lparr>mod_app := (mod_app m)\<lparr>app_acl := slot_install (StaticThreadAccess open_models) (app_acl (mod_app m))\<rparr>\<rparr>"

section \<open>The document a request is about\<close>

fun gated_document :: "thread_request \<Rightarrow> (string \<times> uuid) option" where
  "gated_document (FetchThread b) = Some (ft_model b, ft_res_id b)"
| "gated_document (SuggestedRecipients b) = Some (rb_model b, rb_res_id b)"
| "gated_document (PostToThread b) = Some (pb_model b, pb_res_id b)"
| "gated_document (ScheduleThreadPost b) = Some (sb_model b, sb_res_id b)"
| "gated_document _ = None"

definition closed_to :: "app \<Rightarrow> MessagingIdentity \<Rightarrow> string \<Rightarrow> uuid \<Rightarrow> bool" where
  "closed_to app i m r \<longleftrightarrow> (\<forall>d. \<not> can_read (acl_of app) d i m r \<and> \<not> can_post (acl_of app) d i m r)"

lemma thread_gate:
  assumes "gated_document req = Some (m, r)" and "closed_to app i m r" and "thread_router app (Identified i) req v w = (a, w')"
  shows "res_status a \<noteq> 200 \<and> db w' = db w"
  using assms
  by (cases req; cases i)
    (auto simp: closed_to_def fetch_thread_route_def suggested_recipients_route_def post_to_thread_route_def
      schedule_thread_post_route_def identified_def as_partner_def require_identity_def wire_identity_def wire_partner_id_def
      respond_def answer_def gated_def fetch_thread_def suggested_def chatter_post_def schedule_post_def arm_scheduled_message_def
      fail_def lift_def bindA_def peek_def now_utc_def chatter_err_def split: if_splits)

lemma fresh_module_acl: "acl_of (mod_app (module_build parts)) = slot_resolver slot_default"
  by (simp add: acl_of_def module_build_def)

lemma static_module_acl: "acl_of (mod_app (set_static_thread_access ms M)) = StaticThreadAccess ms"
  by (simp add: acl_of_def set_static_thread_access_def)

lemma host_module_acl: "acl_of (mod_app (set_thread_acl R M)) = R"
  by (simp add: acl_of_def set_thread_acl_def)

lemma fresh_module_closed_to:
  "\<not> (m = ''res.partner'' \<and> i = User r) \<Longrightarrow> closed_to (mod_app (module_build parts)) i m r"
  by (cases i) (auto simp: closed_to_def fresh_module_acl fresh_slot.posts fresh_slot.reads is_own_partner_wall_def)

lemma static_module_closed_to:
  "m \<notin> set ms \<Longrightarrow> \<not> (m = ''res.partner'' \<and> i = User r) \<Longrightarrow> closed_to (mod_app (set_static_thread_access ms M)) i m r"
  by (cases i) (auto simp: closed_to_def static_module_acl static.posts static.reads is_own_partner_wall_def)

text \<open>C36: documents of a host are closed until the host opens them.  On a module as built, or with a static list
  of open models that the document's model is not on, no request to read a thread, to see its recipients, to
  post on it or to schedule a post succeeds or writes, except on the caller's own wall; a guest is refused
  everywhere, whatever is listed.\<close>

theorem host_documents_closed:
  assumes "gated_document req = Some (m, r)" and "\<not> (m = ''res.partner'' \<and> i = User r)"
    and "app = mod_app (module_build parts) \<or>
         (\<exists>ms M. app = mod_app (set_static_thread_access ms M) \<and> (m \<notin> set ms \<or> (\<exists>g. i = Guest g)))"
    and "thread_router app (Identified i) req v w = (a, w')"
  shows "res_status a \<noteq> 200 \<and> db w' = db w"
proof (rule thread_gate [OF assms(1) _ assms(4)])
  from assms(3) show "closed_to app i m r"
  proof (elim disjE exE conjE)
    assume "app = mod_app (module_build parts)"
    with fresh_module_closed_to [OF assms(2)] show ?thesis by simp
  next
    fix ms M assume "app = mod_app (set_static_thread_access ms M)" "m \<notin> set ms"
    with static_module_closed_to [OF _ assms(2)] show ?thesis by simp
  next
    fix ms M g assume "app = mod_app (set_static_thread_access ms M)" "i = Guest g"
    with static.guest_denied show ?thesis by (simp add: closed_to_def static_module_acl)
  qed
qed

text \<open>Following is not gated: it succeeds on a document the caller can neither read nor post on.\<close>

lemma follow_not_gated:
  "follow_thread_route app (Identified (User p)) b = follow_thread_route app' (Identified (User p)) b"
  if "app_agg app = app_agg app'"
  using that by (simp add: follow_thread_route_def)

text \<open>The phone validation of a module as built refuses every lookup.\<close>

lemma fresh_module_phone_refuses: "isl (fst (sanitized_for L (mod_phone_book (module_build parts)) model r v w))"
  by (simp add: module_build_def sanitized_for_def slot_candidates_def book_current_def book_default_def RefusingPhoneBook_def
      bindA_def lift_def fail_def ask_def)

section \<open>The properties at concrete inputs\<close>

definition fresh_read :: "Response \<times> (db, nat) world" where
  "fresh_read = thread_router (mod_app (module_build plain_app :: nat module)) (Identified (User 4))
     (FetchThread \<lparr>ft_model = ''crm.lead'', ft_res_id = 4, ft_after_id = None\<rparr>) plain_env (world_of empty_db)"

lemma host_documents_closed_witness:
  "res_status (fst fresh_read) \<noteq> 200 \<and> db (snd fresh_read) = empty_db"
proof -
  have "thread_router (mod_app (module_build plain_app :: nat module)) (Identified (User 4))
     (FetchThread \<lparr>ft_model = ''crm.lead'', ft_res_id = 4, ft_after_id = None\<rparr>) plain_env (world_of empty_db) =
     (fst fresh_read, snd fresh_read)" by (simp add: fresh_read_def)
  from host_documents_closed [OF _ _ disjI1 [OF refl] this, of "''crm.lead''" 4] show ?thesis by (simp add: world_of_def)
qed

end
