(* ===== verification/RelayB7.thy ===== *)
theory RelayB7
  imports MessageDelivery Realtime MailQueue
begin

text \<open>
  The relay-side consumer of \<open>UserEmailChanged\<close>: \<open>src/application/service/relay_b7.rs\<close>.  An event of that type
  becomes a warning mailed to the previous address; every other event passes through.  The texts of a
  database error and of a JSON value are sqlx's and serde's, so parameters (\<open>T\<close>, \<open>J\<close>).
\<close>

section \<open>The warning\<close>

text \<open>\<open>str::replace\<close> with a single character as the pattern.\<close>

definition replace_char :: "char \<Rightarrow> string \<Rightarrow> string \<Rightarrow> string" where
  "replace_char c t s = concat (map (\<lambda>x. if x = c then t else [x]) s)"

definition html_escape :: "string \<Rightarrow> string" where
  "html_escape s =
     replace_char (CHR 0x27) ''&#x27;'' (replace_char (CHR 0x22) ''&quot;'' (replace_char (CHR ''>'') ''&gt;''
       (replace_char (CHR ''<'') ''&lt;'' (replace_char (CHR ''&'') ''&amp;'' s))))"

definition security_body :: "string \<Rightarrow> string \<Rightarrow> string" where
  "security_body previous new =
     ''<p>Your account'' @ [CHR 0x27] @ ''s email address was changed.</p>'' @
     ''<p>Previous address: <strong>'' @ html_escape previous @ ''</strong></p>'' @
     ''<p>New address: <strong>'' @ html_escape new @ ''</strong></p>'' @
     ''<p>If you did not request this change, contact your administrator immediately '' @
     [CHR 0xE2, CHR 0x80, CHR 0x94] @ '' use a channel you already trust.</p>''"

section \<open>The handler\<close>

datatype OutboxError = Publish string

definition show_mail_error :: "(db_error \<Rightarrow> string) \<Rightarrow> MailError \<Rightarrow> string" where
  "show_mail_error T e = (case e of MailDb x \<Rightarrow> ''db: '' @ T x | MailInvalid m \<Rightarrow> ''invalid input: '' @ m)"

text \<open>Enveloped or flat.\<close>

definition relay_inner :: "json \<Rightarrow> json" where
  "relay_inner pl = (case Option.bind (json_get pl ''message'') (\<lambda>m. json_get m ''payload'') of Some x \<Rightarrow> x | None \<Rightarrow> pl)"

definition relay_field :: "json \<Rightarrow> string \<Rightarrow> string option" where
  "relay_field inner k = Option.bind (json_get inner k) json_as_str"

definition warning_command :: "string \<Rightarrow> string \<Rightarrow> MessagePostCommand" where
  "warning_command previous new =
     \<lparr>mp_body = security_body previous new, mp_subject = Some ''Your email address was changed'',
      mp_message_type = ''email'', mp_subtype_id = None, mp_subtype_name = None, mp_is_internal = False,
      mp_author_id = None, mp_author_guest_id = None, mp_email_from = None, mp_reply_to = None,
      mp_model = None, mp_res_id = None, mp_record_name = Some ''user'',
      mp_recipients = [\<lparr>pr_partner = None, pr_channel = NotificationChannel.Email, pr_email = Some previous,
        pr_number = None\<rparr>]\<rparr>"

definition handle_relayed_event ::
  "(db_error \<Rightarrow> string) \<Rightarrow> (json \<Rightarrow> string) \<Rightarrow> event \<Rightarrow> (db, 'o, OutboxError, bool) act" where
  "handle_relayed_event T J rec =
     (if event_type rec \<noteq> USER_EMAIL_CHANGED_EVENT then ret False
      else
        let inner = relay_inner (payload rec) in
        case (relay_field inner ''user_id'', relay_field inner ''previous_email'', relay_field inner ''new_email'') of
          (Some u, Some previous, Some new) \<Rightarrow>
            bindA (lift (\<lambda>e. Publish (''MAIL-B7 staging failed: '' @ show_mail_error T e))
                (message_post (warning_command previous new))) (\<lambda>_. ret True)
        | _ \<Rightarrow> fail (Publish (''UserEmailChanged payload is malformed (needs user_id, previous_email, new_email): '' @ J inner)))"

section \<open>Escaping\<close>

text \<open>What the chain of replacements amounts to, in one pass.\<close>

definition escape_char :: "char \<Rightarrow> string" where
  "escape_char c =
     (if c = CHR ''&'' then ''&amp;'' else if c = CHR ''<'' then ''&lt;'' else if c = CHR ''>'' then ''&gt;''
      else if c = CHR 0x22 then ''&quot;'' else if c = CHR 0x27 then ''&#x27;'' else [c])"

lemma replace_char_append [simp]: "replace_char c t (s @ u) = replace_char c t s @ replace_char c t u"
  by (simp add: replace_char_def)

lemma replace_char_simps [simp]: "replace_char c t [] = []"
  "replace_char c t (x # s) = (if x = c then t else [x]) @ replace_char c t s"
  by (simp_all add: replace_char_def)

lemma html_escape_Cons: "html_escape (c # s) = escape_char c @ html_escape s"
  by (simp add: html_escape_def escape_char_def)

lemma html_escape_one_pass: "html_escape s = concat (map escape_char s)"
  by (induction s) (simp_all add: html_escape_Cons, simp add: html_escape_def)

text \<open>A browser's reading of the five entities.\<close>

fun html_text :: "string \<Rightarrow> string" where
  "html_text [] = []"
| "html_text (c # s) =
     (if prefix ''amp;'' s \<and> c = CHR ''&'' then CHR ''&'' # html_text (drop 4 s)
      else if prefix ''lt;'' s \<and> c = CHR ''&'' then CHR ''<'' # html_text (drop 3 s)
      else if prefix ''gt;'' s \<and> c = CHR ''&'' then CHR ''>'' # html_text (drop 3 s)
      else if prefix ''quot;'' s \<and> c = CHR ''&'' then CHR 0x22 # html_text (drop 5 s)
      else if prefix ''#x27;'' s \<and> c = CHR ''&'' then CHR 0x27 # html_text (drop 5 s)
      else c # html_text s)"

lemma html_text_escape: "html_text (escape_char c @ s) = c # html_text s"
  by (simp add: escape_char_def)

lemma html_escape_safe_char: "x \<in> set (escape_char c) \<Longrightarrow> x \<notin> {CHR ''<'', CHR ''>'', CHR 0x22, CHR 0x27}"
  by (auto simp: escape_char_def split: if_splits)

text \<open>C38: whatever the addresses are, the escaped text has no character that opens a tag or closes an attribute,
  and a browser shows exactly the address: reading the entities gives the original text back.\<close>

theorem html_escape_roundtrip:
  "html_text (html_escape s) = s \<and>
   set (html_escape s) \<inter> {CHR ''<'', CHR ''>'', CHR 0x22, CHR 0x27} = {} \<and>
   html_escape s = concat (map escape_char s)"
proof (intro conjI)
  show "html_text (html_escape s) = s"
    by (induction s) (simp_all add: html_escape_Cons html_text_escape, simp add: html_escape_def)
  show "set (html_escape s) \<inter> {CHR ''<'', CHR ''>'', CHR 0x22, CHR 0x27} = {}"
    unfolding html_escape_one_pass using html_escape_safe_char by fastforce
qed (rule html_escape_one_pass)

section \<open>The one mail\<close>

lemma email_one_mails:
  assumes "email_one ctx mid acc r v w = (Inr a, w')"
  shows "mails (db w') = mails (db w)"
  using assms unfolding email_one_def
  by (elim bindA_InrE new_v4_InrE lift_InrE stmt_now_InrE insert_mail_notification_Inr ret_InrE) simp

lemma insert_mail_row:
  assumes "insert_mail m d = Inr (i, d')"
  shows "\<exists>q. mails d' = mails d @ [q] \<and> mail_email_to q = Some (nq_email_to m) \<and> mail_email_cc q = nq_email_cc m \<and>
    mail_message_id q = nq_mail_message_id m \<and> mail_state q = MailState.Outgoing"
  using assms by (auto simp: insert_mail_def split: if_splits)

lemma email_strategy_one:
  assumes "email_strategy ctx [r] v w = (Inr m, w')" and "pr_email r = Some e"
  obtains q where "mails (db w') = mails (db w) @ [q]" and "mail_email_to q = Some e" and "mail_email_cc q = None"
    and "mail_message_id q = pc_message_id ctx" and "mail_state q = MailState.Outgoing"
proof -
  from assms obtain mid w1 i w2 ns w3 where
    1: "(new_v4 v w :: (MailError + uuid) \<times> _) = (Inr mid, w1)" and
    2: "lift MailDb (stmt (insert_mail \<lparr>nq_id = mid, nq_mail_message_id = pc_message_id ctx, nq_email_to = e,
          nq_email_cc = None, nq_reply_to = pc_reply_to ctx, nq_scheduled_date = None\<rparr>)) v w1 = (Inr i, w2)" and
    3: "email_one ctx mid [] r v w2 = (Inr ns, w3)" and 4: "w' = w3"
    unfolding email_strategy_def
    by (auto simp: ask_def of_sum_def ret_def bindA_def split: prod.splits sum.splits)
  from 1 have d1: "db w1 = db w" by (auto elim: new_v4_InrE)
  from 2 have "\<exists>q. mails (db w2) = mails (db w1) @ [q] \<and> mail_email_to q = Some e \<and> mail_email_cc q = None \<and>
      mail_message_id q = pc_message_id ctx \<and> mail_state q = MailState.Outgoing"
    by (elim lift_InrE stmt_InrE) (drule insert_mail_row, simp)
  with email_one_mails [OF 3] 4 d1 that show ?thesis by auto
qed

text \<open>A post to one email recipient queues exactly one mail, to exactly that address.\<close>

lemma one_email_post:
  assumes "message_post cmd v w = (Inr p, w')" and "mp_recipients cmd = [r]"
    and "pr_channel r = NotificationChannel.Email" and "pr_email r = Some e"
  shows "\<exists>q. mails (db w') = mails (db w) @ [q] \<and> mail_email_to q = Some e \<and> mail_email_cc q = None \<and>
    mail_message_id q = pm_message_id p \<and> mail_state q = MailState.Outgoing"
proof -
  from message_post_valid [OF assms(1)] have t: "in_tx MailDb (message_post_tx cmd) v w = (Inr p, w')" by simp
  have "\<not> aborted w1" if "message_post_tx cmd v (begin_tx v w) = (Inr p, w1)" for w1
    using message_post_tx_Inr [OF that] by (simp add: tx_step_def)
  from in_tx_InrE [OF t this] obtain wz where tx: "message_post_tx cmd v (begin_tx v w) = (Inr p, wz)" and z: "db w' = db wz" .
  have g: "group_by_channel (mp_recipients cmd) = [(NotificationChannel.Email, [r])]"
    using assms(2,3) by (simp add: group_by_channel_def)
  let ?q = "\<lambda>mid sid. \<lparr>pm_message_id = mid, pm_subtype_id = sid, pm_notifications = [], pm_mail_id = None, pm_sms = []\<rparr>"
  from tx obtain sid w1 mid w2 m u w3 q w4 a b c f u2 w5 u3 w6 where
    1: "lift MailDb (stmt (reading (resolve_subtype (mp_subtype_id cmd) (mp_subtype_name cmd)))) v (begin_tx v w) = (Inr sid, w1)" and
    2: "new_v4 v w1 = ((Inr mid :: MailError + uuid), w2)" and
    3: "lift MailDb (stmt_now (insert_mail_message m)) v w2 = (Inr u, w3)" and
    4: "foldA (post_group (post_context cmd mid)) (?q mid sid) [(NotificationChannel.Email, [r])] v w3 = (Inr q, w4)" and
    5: "lift MailDb (stage_bus_event ''MessagePosted'' ''MailMessage'' a b c f) v w4 = (Inr u2, w5)" and
    6: "foldA (stage_sms_created b) () (pm_sms q) v w5 = (Inr u3, w6)" and 7: "p = q" "wz = w6"
    unfolding message_post_tx_folded g
    by (elim bindA_InrE ret_InrE) (hypsubst, rule that, (assumption | rule refl)+)
  from 4 obtain cm where e: "email_strategy (post_context cmd mid) [r] v w3 = (Inr cm, w4)" and q: "pm_message_id q = mid"
    by (auto simp: post_group_def elim!: bindA_InrE ret_InrE)
  from 1 have m1: "db w1 = db w" by (auto simp: reading_def begin_tx_def elim!: lift_InrE stmt_InrE)
  from 2 have m2: "db w2 = db w1" by (auto elim: new_v4_InrE)
  from 3 have m3: "mails (db w3) = mails (db w2)" by (elim lift_InrE stmt_now_InrE insert_mail_message_Inr) simp
  from 5 have m5: "mails (db w5) = mails (db w4)" by (elim lift_InrE stage_bus_event_InrE) simp
  from foldA_sms_created [OF 6] have m6: "mails (db w6) = mails (db w5)" by auto
  from email_strategy_one [OF e assms(4)] obtain x where "mails (db w4) = mails (db w3) @ [x]" "mail_email_to x = Some e"
    "mail_email_cc x = None" "mail_message_id x = mid" "mail_state x = MailState.Outgoing"
    by (auto simp: post_context_def)
  with m1 m2 m3 m5 m6 q 7 z show ?thesis by auto
qed

text \<open>What a posted warning is in the database.\<close>

definition warned :: "string \<Rightarrow> string \<Rightarrow> db \<Rightarrow> db \<Rightarrow> bool" where
  "warned previous new d d' \<longleftrightarrow>
     (\<exists>q m n. mails d' = mails d @ [q] \<and> mail_email_to q = Some previous \<and> mail_email_cc q = None \<and>
        mail_state q = MailState.Outgoing \<and>
        messages d' = messages d @ [m] \<and> msg_id m = mail_message_id q \<and> msg_body m = security_body previous new \<and>
        notifications d' = notifications d @ [n] \<and> ntf_partner n = None \<and> ntf_mail_id n = Some (mail_id q) \<and>
        smss d' = smss d)"

lemma warning_posted:
  assumes "message_post (warning_command previous new) v w = (Inr p, w')"
  shows "warned previous new (db w) (db w')"
proof -
  let ?r = "\<lparr>pr_partner = None, pr_channel = NotificationChannel.Email, pr_email = Some previous, pr_number = None\<rparr>"
  let ?c = "warning_command previous new"
  from one_email_post [OF assms, of ?r previous] obtain q where
    q: "mails (db w') = mails (db w) @ [q]" "mail_email_to q = Some previous" "mail_email_cc q = None"
      "mail_message_id q = pm_message_id p" "mail_state q = MailState.Outgoing"
    by (auto simp: warning_command_def)
  from message_post_effect [OF assms] have "post_effect v ?c p (db w) (db w')" by simp
  then show ?thesis
  proof (rule post_effect_rows)
    fix m ns qs ss ts qids evs rs
    assume m: "posted_message ?c p m" and rs: "mset rs = mset (mp_recipients ?c)"
      and d: "db w' = (db w)\<lparr>messages := messages (db w) @ [m], notifications := notifications (db w) @ ns,
           mails := mails (db w) @ qs, smss := smss (db w) @ ss, trackers := trackers (db w) @ ts,
           outbox := outbox (db w) @ evs\<rparr>"
      and n: "map ntf_shape ns = map (wanted (pm_message_id p)) rs" and qs: "map mail_id qs = qids"
      and s: "map sms_shape ss = wanted_sms (post_context ?c (pm_message_id p)) rs"
      and l: "\<forall>n\<in>set ns. ntf_type n = MailNotificationType.Email \<longrightarrow> ntf_mail_id n \<in> Some ` set qids"
    from rs have rs': "rs = [?r]" by (simp add: warning_command_def)
    from n rs' obtain x where x: "ns = [x]" and xs: "ntf_shape x = wanted (pm_message_id p) ?r" by auto
    from s rs' have "ss = []" by (simp add: wanted_sms_def)
    moreover from d q(1) have "qs = [q]" by simp
    moreover from xs have "ntf_partner x = None" "ntf_type x = MailNotificationType.Email"
      by (auto simp: ntf_shape_def wanted_def)
    ultimately show ?thesis
      unfolding warned_def using q d x l qs m by (auto simp: posted_message_def warning_command_def)
  qed
qed


text \<open>The drain hands such a mail to the transport for the previous address alone, when that is one address.\<close>

lemma warning_recipients:
  assumes "CHR '','' \<notin> set previous" and "trim previous = previous" and "previous \<noteq> []"
  shows "split_recipients (Some previous) None = [previous]"
  using assms by (simp add: split_recipients_def map_filter_simps split_char_no_sep)

section \<open>The properties at concrete inputs\<close>

definition changed_event :: event where
  "changed_event = \<lparr>event_type = ''UserEmailChanged'', aggregate_type = ''User'', aggregate_id = ''u'', company_id = 0,
     payload = JObject [(''user_id'', JString ''u''), (''previous_email'', JString ''a@x''), (''new_email'', JString ''b<@y'')],
     occurred_at = 0\<rparr>"

definition relay_run :: "(OutboxError + bool) \<times> (db, nat) world" where
  "relay_run = handle_relayed_event (\<lambda>_. ''e'') (\<lambda>_. ''j'') changed_event plain_env (world_of empty_db)"


end
