(* ===== verification/Gateways.thy ===== *)
theory Gateways
  imports Addresses MailQueue SmsQueue "HOL-Library.Word"
begin

text \<open>
  The transport adapters behind the two ports: \<open>src/infrastructure/gateway/sms_http_api.rs\<close> (an HTTP
  provider of sms) and \<open>src/infrastructure/gateway/smtp_mail_api.rs\<close> (SMTP over the crate
  \<open>backbone_email\<close>, with one transport per mail server).  The HTTP client, the SMTP transport, the process
  environment, the iteration order of a \<open>HashMap\<close> and the texts of foreign errors are parameters.
\<close>

section \<open>Sms over HTTP\<close>

record ProviderResponse =
  prv_state :: "string option"
  prv_code :: "string option"
  prv_message :: "string option"

record HttpSmsApi =
  hsa_endpoint :: string
  hsa_token :: string

text \<open>\<open>client.post(endpoint).bearer_auth(token).json(body).send()\<close>: a failed request, or a status with a body that
  is JSON of the expected shape or not.\<close>

record http_response =
  hr_status :: string
  hr_json :: "string + ProviderResponse"

type_synonym http_client = "nat \<Rightarrow> string \<Rightarrow> string \<Rightarrow> json \<Rightarrow> string + http_response"

definition map_state :: "string \<Rightarrow> SmsSendOutcome option" where
  "map_state state =
     (if state = ''processing'' then Some SmsSendOutcome.Processing
      else if state = ''success'' \<or> state = ''sent'' then Some SmsSendOutcome.Accepted
      else if state = ''delivered'' then Some SmsSendOutcome.Delivered
      else None)"

definition map_error_code :: "string \<Rightarrow> string" where
  "map_error_code code =
     (if code = ''insufficient_credit'' then ''sms_credit''
      else if code = ''wrong_number_format'' then ''sms_number_format''
      else if code = ''country_not_supported'' then ''sms_country_not_supported''
      else if code = ''unregistered'' then ''sms_acc''
      else ''sms_server'')"

definition sms_body_json :: "SmsSendRequest \<Rightarrow> json" where
  "sms_body_json req = JObject [(''content'', JString (ss_body req)),
     (''numbers'', JArray [JObject [(''uuid'', JString (ss_uuid req)), (''number'', JString (ss_number req))]])]"

definition HttpSmsApi_send :: "http_client \<Rightarrow> HttpSmsApi \<Rightarrow> sms_api_port" where
  "HttpSmsApi_send http api t req =
     (case http t (hsa_endpoint api) (hsa_token api) (sms_body_json req) of
        Inl e \<Rightarrow> Inl \<lparr>fl_failure_type = ''sms_server'', fl_message = ''provider request failed: '' @ e,
                     fl_iap_status_code = None\<rparr>
      | Inr resp \<Rightarrow>
          (case hr_json resp of
             Inl e \<Rightarrow> Inl \<lparr>fl_failure_type = ''sms_server'',
                          fl_message = ''provider returned a non-JSON body (HTTP '' @ hr_status resp @ ''): '' @ e,
                          fl_iap_status_code = None\<rparr>
           | Inr pl \<Rightarrow>
               (case Option.bind (prv_state pl) map_state of
                  Some state \<Rightarrow> Inr state
                | None \<Rightarrow> Inl \<lparr>fl_failure_type = map_error_code (case prv_code pl of Some c \<Rightarrow> c | None \<Rightarrow> []),
                     fl_message = (case prv_message pl of Some m \<Rightarrow> m
                       | None \<Rightarrow> ''provider rejected the send (HTTP '' @ hr_status resp @ '', no detail)''),
                     fl_iap_status_code = None\<rparr>)))"

text \<open>The adapter succeeds only on a state it knows, and every failure it reports can be stored: its type is a
  label of \<open>sms_failure_type\<close>.\<close>

lemma http_sms_outcome:
  "HttpSmsApi_send http api t req = Inr out \<longleftrightarrow>
     (\<exists>resp pl st. http t (hsa_endpoint api) (hsa_token api) (sms_body_json req) = Inr resp \<and> hr_json resp = Inr pl \<and>
        prv_state pl = Some st \<and> map_state st = Some out)"
  by (auto simp: HttpSmsApi_send_def split: sum.splits option.splits bind_splits)

lemma map_error_code_known: "\<exists>k. SmsFailureType_show k = map_error_code c"
  unfolding map_error_code_def by (metis SmsFailureType_show.simps)

lemma http_sms_failure_known:
  assumes "HttpSmsApi_send http api t req = Inl f"
  shows "\<exists>k. SmsFailureType_show k = fl_failure_type f"
  using assms map_error_code_known
  by (auto simp: HttpSmsApi_send_def split: sum.splits option.splits)
    (metis SmsFailureType_show.simps)+

section \<open>Mail over SMTP\<close>

record SmtpConfig =
  cfg_host :: string
  cfg_port :: "16 word"
  cfg_username :: "string option"
  cfg_password :: "string option"
  cfg_use_tls :: bool
  cfg_use_ssl :: bool
  cfg_timeout :: nat
  cfg_hello_name :: "string option"

record EmailMessage =
  em_id :: string
  em_from :: string
  em_reply_to :: "string option"
  em_to :: "string list"
  em_subject :: string
  em_html :: string
  em_headers :: "string \<rightharpoonup> string"

text \<open>The fields of a message the adapter leaves constant (no text part, no attachments, the default priority) and
  its creation time are left out.  \<open>rp_sent\<close>: the status is \<open>EmailStatus::Sent\<close>; \<open>rp_status\<close> is the status under \<open>{:?}\<close>.\<close>

record EmailReport =
  rp_sent :: bool
  rp_status :: string
  rp_error :: "string option"

record 's smtp_crate =
  smtp_build :: "SmtpConfig \<Rightarrow> string + 's"
  smtp_deliver :: "nat \<Rightarrow> 's \<Rightarrow> EmailMessage \<Rightarrow> string + EmailReport"
  env_var :: "nat \<Rightarrow> string \<Rightarrow> string option"
  headers_of :: "(string \<rightharpoonup> string) \<Rightarrow> (string \<times> string) list"
  show_db :: "db_error \<Rightarrow> string"

definition TRANSPORT_THREADING_HEADERS :: "string list" where
  "TRANSPORT_THREADING_HEADERS = [''In-Reply-To'', ''References'']"

definition eq_ignore_ascii_case :: "string \<Rightarrow> string \<Rightarrow> bool" where
  "eq_ignore_ascii_case a b \<longleftrightarrow> to_ascii_lowercase a = to_ascii_lowercase b"

definition refused :: "string \<Rightarrow> MailSendFailure" where
  "refused detail = \<lparr>sf_failure_type = ''unknown'', sf_message = ''refused per-mail headers: '' @ detail\<rparr>"

definition DASH :: string where
  "DASH = [CHR 0xE2, CHR 0x80, CHR 0x94]"

definition reserved :: "string \<Rightarrow> bool" where
  "reserved name \<longleftrightarrow> list_ex (eq_ignore_ascii_case name) TRANSPORT_THREADING_HEADERS"

fun merge_entries ::
  "(string \<Rightarrow> string) \<Rightarrow> string option \<Rightarrow> (string \<times> string) list \<Rightarrow> (string \<rightharpoonup> string) \<Rightarrow>
   MailSendFailure + (string \<rightharpoonup> string)" where
  "merge_entries dbg parent [] merged = Inr merged"
| "merge_entries dbg parent ((name, value) # es) merged =
     (case validate_mail_header name value of
        Inl e \<Rightarrow> Inl (refused (MailHeaderError_show dbg e))
      | Inr _ \<Rightarrow>
          if parent \<noteq> None \<and> reserved name
          then Inl (refused (''both the structured in_reply_to and a per-mail entry carry '' @ dbg name @ '' (['' @
                 join_with '', '' (map dbg TRANSPORT_THREADING_HEADERS) @ '']) '' @ DASH @ '' ambiguous threading, refusing''))
          else merge_entries dbg parent es (merged(name \<mapsto> value)))"

definition merge_transport_headers ::
  "(string \<Rightarrow> string) \<Rightarrow> string option \<Rightarrow> (string \<times> string) list \<Rightarrow> MailSendFailure + (string \<rightharpoonup> string)" where
  "merge_transport_headers dbg parent per_mail =
     (case merge_entries dbg parent per_mail Map.empty of
        Inl f \<Rightarrow> Inl f
      | Inr merged \<Rightarrow> Inr (case parent of None \<Rightarrow> merged
          | Some p \<Rightarrow> merged(''In-Reply-To'' \<mapsto> p, ''References'' \<mapsto> p)))"

definition envelope_sender :: "string \<Rightarrow> string option \<Rightarrow> string option" where
  "envelope_sender own default' =
     (if trim own \<noteq> [] then Some (trim own)
      else Option.bind default' (\<lambda>d. if trim d = [] then None else Some (trim d)))"

definition server_failure :: "string \<Rightarrow> MailSendFailure" where
  "server_failure message = \<lparr>sf_failure_type = ''mail_server'', sf_message = message\<rparr>"

text \<open>The row has the name of an environment variable; only here is it read.\<close>

definition smtp_password :: "'s smtp_crate \<Rightarrow> nat \<Rightarrow> (string \<Rightarrow> string) \<Rightarrow> SmtpEndpoint \<Rightarrow> MailSendFailure + string option" where
  "smtp_password X t dbg ep =
     (case (se_smtp_user ep, se_smtp_pass_ref ep) of
        (Some _, Some ref_name) \<Rightarrow>
          (case env_var X t ref_name of
             Some p \<Rightarrow> Inr (Some p)
           | None \<Rightarrow> Inl (server_failure (''smtp_pass_ref env var '' @ dbg ref_name @ '' is not set (server '' @
                            dbg (se_name ep) @ '')'')))
      | (None, _) \<Rightarrow> Inr None
      | (Some _, None) \<Rightarrow> Inl (server_failure (''server '' @ dbg (se_name ep) @
          '' has smtp_user but no smtp_pass_ref '' @ DASH @ '' cannot authenticate'')))"

text \<open>\<open>ep.smtp_port as u16\<close> keeps the low 16 bits.\<close>

definition smtp_config :: "SmtpEndpoint \<Rightarrow> string option \<Rightarrow> SmtpConfig" where
  "smtp_config ep password =
     \<lparr>cfg_host = se_smtp_host ep, cfg_port = word_of_int (se_smtp_port ep), cfg_username = se_smtp_user ep,
      cfg_password = password, cfg_use_tls = (se_smtp_encryption ep = ''starttls''),
      cfg_use_ssl = (se_smtp_encryption ep = ''ssl''), cfg_timeout = 30, cfg_hello_name = None\<rparr>"

definition transport_for ::
  "'s smtp_crate \<Rightarrow> nat \<Rightarrow> (string \<Rightarrow> string) \<Rightarrow> (uuid \<rightharpoonup> 's) \<Rightarrow> SmtpEndpoint \<Rightarrow> MailSendFailure + 's \<times> (uuid \<rightharpoonup> 's)" where
  "transport_for X t dbg cache ep =
     (case cache (se_server_id ep) of
        Some cached \<Rightarrow> Inr (cached, cache)
      | None \<Rightarrow>
          (case smtp_password X t dbg ep of
             Inl f \<Rightarrow> Inl f
           | Inr password \<Rightarrow>
               (case smtp_build X (smtp_config ep password) of
                  Inl e \<Rightarrow> Inl (server_failure (''transport build failed for server '' @ dbg (se_name ep) @ '': '' @ e))
                | Inr svc \<Rightarrow> Inr (svc, cache(se_server_id ep \<mapsto> svc)))))"

definition email_message :: "env \<Rightarrow> MailSendRequest \<Rightarrow> (string \<rightharpoonup> string) \<Rightarrow> EmailMessage" where
  "email_message v req headers =
     \<lparr>em_id = uuid_text v (sr_mail_id req), em_from = sr_from req,
      em_reply_to = Option.bind (sr_reply_to req) (\<lambda>r. if blank r then None else Some r),
      em_to = sr_to req, em_subject = (case sr_subject req of Some s \<Rightarrow> s | None \<Rightarrow> []),
      em_html = sr_body_html req, em_headers = headers\<rparr>"

definition smtp_verdict :: "(string \<Rightarrow> string) \<Rightarrow> SmtpEndpoint \<Rightarrow> string + EmailReport \<Rightarrow> MailSendFailure + MailSendOutcome" where
  "smtp_verdict dbg ep x =
     (case x of
        Inl e \<Rightarrow> Inl (MailSendFailure_smtp (''smtp send failed via '' @ dbg (se_name ep) @ '': '' @ e))
      | Inr report \<Rightarrow>
          if rp_sent report then Inr MailSendOutcome.Accepted
          else Inl (MailSendFailure_smtp (''smtp verdict '' @ rp_status report @ '' via '' @ dbg (se_name ep) @ '': '' @
                 (case rp_error report of Some e \<Rightarrow> e | None \<Rightarrow> ''no provider detail''))))"

text \<open>The whole send.  A default sender is asked only when the message names none; the trace is what the
  transports are handed.\<close>

definition show_query_error :: "(db_error \<Rightarrow> string) \<Rightarrow> MailServerQueryError \<Rightarrow> string" where
  "show_query_error T e =
     (case e of MsDb x \<Rightarrow> ''db: '' @ T x | MsInvalid m \<Rightarrow> ''invalid sender address: '' @ m)"

definition smtp_hop ::
  "'s smtp_crate \<Rightarrow> SmtpEndpoint \<Rightarrow> MailSendRequest \<Rightarrow> (uuid \<rightharpoonup> 's) \<Rightarrow> env \<Rightarrow> (db, 's \<times> EmailMessage) world \<Rightarrow>
   (MailSendFailure + MailSendOutcome) \<times> (uuid \<rightharpoonup> 's) \<times> (db, 's \<times> EmailMessage) world" where
  "smtp_hop X ep req cache v w =
     (if se_smtp_authentication ep = ''certificate''
      then (Inl (server_failure (''server '' @ str_debug v (se_name ep) @
              '' uses smtp_authentication '' @ [CHR 0x27] @ ''certificate'' @ [CHR 0x27] @ '' '' @ DASH @
              '' declared but unsupported (needs a file-based secret store; port-notes '' @ [CHR 0xC2, CHR 0xA7] @ ''8)'')),
            cache, w)
      else case transport_for X (tick w) (str_debug v) cache ep of
        Inl f \<Rightarrow> (Inl f, cache, w)
      | Inr (transport, cache') \<Rightarrow>
          (case merge_transport_headers (str_debug v) (sr_in_reply_to req) (headers_of X (sr_headers req)) of
             Inl f \<Rightarrow> (Inl f, cache', w)
           | Inr headers \<Rightarrow>
               let message = email_message v req headers
               in (smtp_verdict (str_debug v) ep (smtp_deliver X (tick w) transport message), cache',
                   w\<lparr>tick := Suc (tick w), trace := trace w @ [(transport, message)]\<rparr>)))"

definition ask_default ::
  "(nat \<Rightarrow> string option) option \<Rightarrow> MailSendRequest \<Rightarrow> ('d, 'o) world \<Rightarrow> string option \<times> ('d, 'o) world" where
  "ask_default default_sender req w =
     (case default_sender of
        Some source \<Rightarrow> if blank (sr_from req) then (source (tick w), w\<lparr>tick := Suc (tick w)\<rparr>) else (None, w)
      | None \<Rightarrow> (None, w))"

definition SmtpMailApi_send ::
  "'s smtp_crate \<Rightarrow> (string \<Rightarrow> string) \<Rightarrow> (nat \<Rightarrow> string option) option \<Rightarrow> MailSendRequest \<Rightarrow> (uuid \<rightharpoonup> 's) \<Rightarrow> env \<Rightarrow>
   (db, 's \<times> EmailMessage) world \<Rightarrow>
   (MailSendFailure + MailSendOutcome) \<times> (uuid \<rightharpoonup> 's) \<times> (db, 's \<times> EmailMessage) world" where
  "SmtpMailApi_send X sql_lower default_sender req0 cache v w0 =
     (case ask_default default_sender req0 w0 of (default_from, w) \<Rightarrow>
      case envelope_sender (sr_from req0) default_from of
        None \<Rightarrow> (Inl (server_failure
          ''mail_from_missing: the queue row carries no envelope sender and no default sender is set''), cache, w)
      | Some from \<Rightarrow>
          (case resolve_endpoint sql_lower from v w of
             (Inl e, w') \<Rightarrow> (Inl (server_failure (''server selection failed: '' @ show_query_error (show_db X) e)), cache, w')
           | (Inr None, w') \<Rightarrow> (Inl (server_failure (''no active mail server matches '' @ str_debug v from @
                 '' (the from_filter ladder is empty at every rung)'')), cache, w')
           | (Inr (Some ep), w') \<Rightarrow> smtp_hop X ep (req0\<lparr>sr_from := from\<rparr>) cache v w'))"

section \<open>The headers\<close>

definition passes :: "string option \<Rightarrow> string \<times> string \<Rightarrow> bool" where
  "passes parent e \<longleftrightarrow> safe_header (fst e) (snd e) \<and> (parent = None \<or> \<not> reserved (fst e))"

lemma merge_entries_iff:
  "merge_entries dbg parent es m0 = Inr m \<longleftrightarrow> list_all (passes parent) es \<and> m = m0 ++ map_of (rev es)"
proof (induction es arbitrary: m0)
  case Nil
  then show ?case by auto
next
  case (Cons e es)
  obtain n x where e: "e = (n, x)" by (cases e)
  have m: "m0(n \<mapsto> x) ++ map_of (rev es) = m0 ++ map_of (rev (e # es))"
    unfolding e by (rule ext) (simp add: map_add_def split: option.splits)
  have step: "merge_entries dbg parent (e # es) m0 = merge_entries dbg parent es (m0(n \<mapsto> x))" if "passes parent e"
  proof -
    from that validate_iff [of n x] have "validate_mail_header n x = Inr ()" by (simp add: e passes_def)
    with that show ?thesis by (auto simp: e passes_def)
  qed
  have bad: "merge_entries dbg parent (e # es) m0 \<noteq> Inr m" if "\<not> passes parent e"
    using that validate_iff [of n x] by (cases "validate_mail_header n x") (auto simp: e passes_def)
  show ?case
  proof (cases "passes parent e")
    case True
    with step [OF True] Cons.IH [of "m0(n \<mapsto> x)"] show ?thesis unfolding m by (simp del: fun_upd_apply)
  next
    case False
    with bad show ?thesis by simp
  qed
qed

lemma map_of_rev_distinct: "distinct (map fst es) \<Longrightarrow> map_of (rev es) = map_of es"
  by (rule map_of_eqI) (auto simp: rev_map [symmetric] dest: map_of_SomeD intro!: map_of_is_SomeI)

text \<open>The merge accepts exactly the safe entries that do not compete with the structured threading, and returns
  them unchanged with the threading on top, in whatever order the map is iterated.\<close>

definition threaded :: "string option \<Rightarrow> (string \<rightharpoonup> string) \<Rightarrow> (string \<rightharpoonup> string)" where
  "threaded parent m = (case parent of None \<Rightarrow> m | Some p \<Rightarrow> m(''In-Reply-To'' \<mapsto> p, ''References'' \<mapsto> p))"

lemma merge_transport_headers_iff:
  assumes "distinct (map fst es)"
  shows "merge_transport_headers dbg parent es = Inr m \<longleftrightarrow>
    list_all (passes parent) es \<and> m = threaded parent (map_of es)"
proof (cases "merge_entries dbg parent es Map.empty")
  case (Inl f)
  with merge_entries_iff [of dbg parent es Map.empty "map_of es"] map_of_rev_distinct [OF assms]
  show ?thesis by (simp add: merge_transport_headers_def)
next
  case (Inr m0)
  with merge_entries_iff [of dbg parent es Map.empty m0] map_of_rev_distinct [OF assms]
  have "list_all (passes parent) es" "m0 = map_of es" by simp_all
  with Inr show ?thesis by (auto simp: merge_transport_headers_def threaded_def)
qed

text \<open>The structured reference itself is not looked at: a line break in it reaches the transport.\<close>

lemma reference_not_guarded:
  "\<exists>m. merge_transport_headers dbg (Some [CR, LF]) [] = Inr m \<and> m ''References'' = Some [CR, LF] \<and>
     \<not> safe_header ''References'' [CR, LF]"
  by (auto simp: merge_transport_headers_def safe_header_def)

text \<open>A port outside 16 bits wraps: 65561 is dialled as 25.\<close>

lemma port_wraps: "se_smtp_port ep = 65561 \<Longrightarrow> unat (cfg_port (smtp_config ep pw)) = 25"
  by (simp add: smtp_config_def)

section \<open>The send\<close>

text \<open>A cached transport was built from the configuration of its own server.\<close>

definition built_for :: "'s smtp_crate \<Rightarrow> uuid \<Rightarrow> 's \<Rightarrow> bool" where
  "built_for X i svc \<longleftrightarrow> (\<exists>ep pw. se_server_id ep = i \<and> smtp_build X (smtp_config ep pw) = Inr svc)"

definition cache_ok :: "'s smtp_crate \<Rightarrow> (uuid \<rightharpoonup> 's) \<Rightarrow> bool" where
  "cache_ok X cache \<longleftrightarrow> (\<forall>i svc. cache i = Some svc \<longrightarrow> built_for X i svc)"

lemma built_forI: "smtp_build X (smtp_config ep pw) = Inr svc \<Longrightarrow> built_for X (se_server_id ep) svc"
  by (auto simp: built_for_def)

definition known_failure :: "string \<Rightarrow> bool" where
  "known_failure t \<longleftrightarrow> (\<exists>k. MailFailureType_show k = t)"

lemma known_failures [simp]: "known_failure ''mail_server''" "known_failure ''mail_smtp''" "known_failure ''unknown''"
  unfolding known_failure_def by (metis MailFailureType_show.simps)+

lemma transport_for_Inr:
  assumes "transport_for X t dbg cache ep = Inr (svc, cache')" and "cache_ok X cache"
  shows "cache_ok X cache' \<and> cache' (se_server_id ep) = Some svc"
  using assms by (auto simp: transport_for_def cache_ok_def built_forI split: option.splits sum.splits if_splits)

lemma transport_for_Inl:
  "transport_for X t dbg cache ep = Inl f \<Longrightarrow> sf_failure_type f = ''mail_server''"
  by (auto simp: transport_for_def smtp_password_def server_failure_def split: option.splits sum.splits)

lemma merge_entries_Inl:
  "merge_entries dbg parent es m = Inl f \<Longrightarrow> sf_failure_type f = ''unknown''"
  by (induction dbg parent es m rule: merge_entries.induct)
    (auto simp: refused_def split: sum.splits if_splits)

lemma merge_transport_headers_Inl:
  "merge_transport_headers dbg parent es = Inl f \<Longrightarrow> sf_failure_type f = ''unknown''"
  by (auto simp: merge_transport_headers_def split: sum.splits dest: merge_entries_Inl)

lemma smtp_verdict_Inl: "smtp_verdict dbg ep x = Inl f \<Longrightarrow> sf_failure_type f = ''mail_smtp''"
  by (auto simp: smtp_verdict_def MailSendFailure_smtp_def split: sum.splits if_splits)

text \<open>What a transport is handed for a request.\<close>

definition handed :: "MailSendRequest \<Rightarrow> EmailMessage \<Rightarrow> bool" where
  "handed req msg \<longleftrightarrow>
     em_to msg = sr_to req \<and> em_html msg = sr_body_html req \<and>
     em_headers msg = threaded (sr_in_reply_to req) (sr_headers req) \<and>
     (\<forall>n x. sr_headers req n = Some x \<longrightarrow> passes (sr_in_reply_to req) (n, x))"

lemma smtp_hop_effect:
  assumes "smtp_hop X ep req cache v w = (r, cache', w')" and "cache_ok X cache"
    and h: "distinct (map fst (headers_of X (sr_headers req)))" "map_of (headers_of X (sr_headers req)) = sr_headers req"
  shows "db w' = db w \<and> cache_ok X cache' \<and>
    (isl r \<longrightarrow> known_failure (sf_failure_type (projl r))) \<and>
    (trace w' = trace w \<and> isl r \<or>
     (\<exists>svc msg. trace w' = trace w @ [(svc, msg)] \<and> cache' (se_server_id ep) = Some svc \<and> handed req msg \<and>
        em_from msg = sr_from req \<and> se_smtp_authentication ep \<noteq> ''certificate''))"
proof (cases "se_smtp_authentication ep = ''certificate''")
  case True
  with assms(1,2) show ?thesis by (auto simp: smtp_hop_def server_failure_def)
next
  case auth: False
  show ?thesis
  proof (cases "transport_for X (tick w) (str_debug v) cache ep")
    case (Inl f)
    with auth assms(1,2) transport_for_Inl [OF Inl] show ?thesis by (auto simp: smtp_hop_def)
  next
    case (Inr p)
    then obtain svc cache1 where t: "transport_for X (tick w) (str_debug v) cache ep = Inr (svc, cache1)" by (cases p) auto
    from transport_for_Inr [OF t assms(2)] have c: "cache_ok X cache1" "cache1 (se_server_id ep) = Some svc" by simp_all
    let ?es = "headers_of X (sr_headers req)"
    show ?thesis
    proof (cases "merge_transport_headers (str_debug v) (sr_in_reply_to req) ?es")
      case (Inl f)
      with auth t c(1) assms(1) merge_transport_headers_Inl [OF Inl] show ?thesis by (auto simp: smtp_hop_def)
    next
      case (Inr m)
      from Inr merge_transport_headers_iff [OF h(1), of "str_debug v" "sr_in_reply_to req" m]
      have m: "list_all (passes (sr_in_reply_to req)) ?es" "m = threaded (sr_in_reply_to req) (sr_headers req)"
        by (simp_all add: h(2))
      have "passes (sr_in_reply_to req) (n, x)" if "sr_headers req n = Some x" for n x
        using m(1) that map_of_SomeD [of ?es n x] by (auto simp: h(2) list_all_iff)
      with m(2) have "handed req (email_message v req m)" by (simp add: handed_def email_message_def)
      moreover from auth t Inr assms(1) have "cache' = cache1"
        "w' = w\<lparr>tick := Suc (tick w), trace := trace w @ [(svc, email_message v req m)]\<rparr>"
        "r = smtp_verdict (str_debug v) ep (smtp_deliver X (tick w) svc (email_message v req m))"
        by (simp_all add: smtp_hop_def Let_def)
      ultimately show ?thesis using c auth smtp_verdict_Inl
        by (cases r) (auto simp: email_message_def)
    qed
  qed
qed

text \<open>The server is active, serves the address and is the best one that does.\<close>

definition best_server :: "(string \<Rightarrow> string) \<Rightarrow> db \<Rightarrow> string \<Rightarrow> mail_server_row \<Rightarrow> bool" where
  "best_server L d sender s \<longleftrightarrow>
     (\<exists>l dm n. split_address sender = Some (l, dm) \<and> s \<in> set (mail_servers d) \<and> serves_at L l dm s n \<and>
        (\<forall>s'\<in>set (mail_servers d). \<forall>n'. serves_at L l dm s' n' \<longrightarrow> ladder_le (n, s) (n', s')))"

lemma smtp_send_effect:
  assumes "SmtpMailApi_send X L ds req cache v w = (r, cache', w')" and "cache_ok X cache"
    and h: "distinct (map fst (headers_of X (sr_headers req)))" "map_of (headers_of X (sr_headers req)) = sr_headers req"
  shows "db w' = db w \<and> cache_ok X cache' \<and>
    (isl r \<longrightarrow> known_failure (sf_failure_type (projl r))) \<and>
    (trace w' = trace w \<and> isl r \<or>
     (\<exists>svc msg s. trace w' = trace w @ [(svc, msg)] \<and> handed req msg \<and>
        best_server L (db w) (em_from msg) s \<and> cache' (srv_id s) = Some svc \<and> built_for X (srv_id s) svc))"
proof -
  obtain df w1 where d: "ask_default ds req w = (df, w1)" by fastforce
  then have 1: "db w1 = db w" "trace w1 = trace w" by (auto simp: ask_default_def split: option.splits if_splits)
  show ?thesis
  proof (cases "envelope_sender (sr_from req) df")
    case None
    with d 1 assms(1,2) show ?thesis by (auto simp: SmtpMailApi_send_def server_failure_def)
  next
    case (Some a)
    obtain q w2 where q: "resolve_endpoint L a v w1 = (q, w2)" by fastforce
    note best = resolve_endpoint_best [OF q]
    have tr: "trace w2 = trace w1"
    proof -
      have "silent (resolve_endpoint L a :: (db, 'a \<times> EmailMessage, _, _) act)" 
        by (cases "split_address a") (auto simp: resolve_endpoint_def intro!: silent_intros)
      from silentD [OF this q] show ?thesis .
    qed
    show ?thesis
    proof (cases "\<exists>ep. q = Inr (Some ep)")
      case False
      then have "(\<exists>e. q = Inl e) \<or> q = Inr None" by (cases q) auto
      with d Some q 1 best tr assms(1,2) show ?thesis
        by (auto simp: SmtpMailApi_send_def server_failure_def)
    next
      case True
      then obtain ep where ep: "q = Inr (Some ep)" by blast
      from best ep obtain s where s: "best_server L (db w1) a s" "ep = smtp_endpoint s"
        unfolding best_server_def by (cases "split_address a") fastforce+
      from assms(1) d Some q ep have hop: "smtp_hop X ep (req\<lparr>sr_from := a\<rparr>) cache v w2 = (r, cache', w')"
        by (simp add: SmtpMailApi_send_def)
      from smtp_hop_effect [OF hop assms(2)] h have e: "db w' = db w2" "cache_ok X cache'"
        "isl r \<longrightarrow> known_failure (sf_failure_type (projl r))"
        "trace w' = trace w2 \<and> isl r \<or> (\<exists>svc msg. trace w' = trace w2 @ [(svc, msg)] \<and> cache' (se_server_id ep) = Some svc \<and>
           handed (req\<lparr>sr_from := a\<rparr>) msg \<and> em_from msg = a)" by auto
      have hd: "handed (req\<lparr>sr_from := a\<rparr>) msg = handed req msg" for msg by (simp add: handed_def)
      have sid: "se_server_id ep = srv_id s" using s(2) by (simp add: smtp_endpoint_def)
      from best have "db w2 = db w1" by simp
      with e 1 tr have base: "db w' = db w" "trace w2 = trace w" by simp_all
      from e(4) show ?thesis
      proof
        assume "trace w' = trace w2 \<and> isl r"
        with base e(2,3) show ?thesis by simp
      next
        assume "\<exists>svc msg. trace w' = trace w2 @ [(svc, msg)] \<and> cache' (se_server_id ep) = Some svc \<and>
          handed (req\<lparr>sr_from := a\<rparr>) msg \<and> em_from msg = a"
        then obtain svc msg where "trace w' = trace w @ [(svc, msg)]" "cache' (srv_id s) = Some svc" "handed req msg" "em_from msg = a"
          by (auto simp: hd sid base)
        with base e(2,3) s(1) 1(1) show ?thesis by (auto simp: cache_ok_def)
      qed
    qed
  qed
qed

text \<open>C39: a mail goes out over the right server or not at all.  A send writes nothing and hands at most one
  message to a transport.  When it does, the server is an active one that serves the sender at the lowest
  rung, the transport is the one cached for that server, and the recipients and the body are those of the
  request.  Every header entry of the request passed the line-break guard and none of them names the threading
  beside a structured reference; the headers handed over are these entries and, when the request has a
  structured reference, \<open>In-Reply-To\<close> and \<open>References\<close> with its text as it is.  That text is not guarded (see
  \<open>reference_not_guarded\<close>): all headers are safe when there is none or when it is safe itself.  A request with an entry
  that does not pass is never handed over.  Acceptance means that a message was handed over, and every failure has
  a type the database knows.\<close>

theorem smtp_send_safe:
  assumes "SmtpMailApi_send X L ds req cache v w = (r, cache', w')" and "cache_ok X cache"
    and h: "distinct (map fst (headers_of X (sr_headers req)))" "map_of (headers_of X (sr_headers req)) = sr_headers req"
  shows "db w' = db w \<and> cache_ok X cache' \<and>
    (isl r \<longrightarrow> known_failure (sf_failure_type (projl r))) \<and>
    (trace w' = trace w \<and> isl r \<or>
     (\<exists>svc msg s. trace w' = trace w @ [(svc, msg)] \<and> handed req msg \<and>
        best_server L (db w) (em_from msg) s \<and> cache' (srv_id s) = Some svc \<and> built_for X (srv_id s) svc \<and>
        (\<forall>n x. em_headers msg n = Some x \<longrightarrow>
           safe_header n x \<or> n \<in> {''In-Reply-To'', ''References''} \<and> sr_in_reply_to req = Some x) \<and>
        (\<forall>p. sr_in_reply_to req = Some p \<longrightarrow> em_headers msg ''In-Reply-To'' = Some p \<and> em_headers msg ''References'' = Some p))) \<and>
    ((\<exists>n x. sr_headers req n = Some x \<and> \<not> passes (sr_in_reply_to req) (n, x)) \<longrightarrow> trace w' = trace w \<and> isl r)"
proof -
  have entries: "safe_header n x \<or> n \<in> {''In-Reply-To'', ''References''} \<and> sr_in_reply_to req = Some x"
    if "handed req msg" "em_headers msg n = Some x" for msg n x
    using that by (auto simp: handed_def threaded_def passes_def split: option.splits if_splits)
  have both: "em_headers msg ''In-Reply-To'' = Some p \<and> em_headers msg ''References'' = Some p"
    if "handed req msg" "sr_in_reply_to req = Some p" for msg p
    using that by (simp add: handed_def threaded_def)
  have stops: "\<not> handed req msg" if "\<exists>n x. sr_headers req n = Some x \<and> \<not> passes (sr_in_reply_to req) (n, x)" for msg
    using that by (auto simp: handed_def)
  have "db w' = db w \<and> cache_ok X cache' \<and>
    (isl r \<longrightarrow> known_failure (sf_failure_type (projl r))) \<and>
    (trace w' = trace w \<and> isl r \<or>
     (\<exists>svc msg s. trace w' = trace w @ [(svc, msg)] \<and> handed req msg \<and>
        best_server L (db w) (em_from msg) s \<and> cache' (srv_id s) = Some svc \<and> built_for X (srv_id s) svc))"
    using assms by (rule smtp_send_effect)
  with entries both stops show ?thesis by blast
qed

section \<open>The properties at concrete inputs\<close>

definition sample_crate :: "nat smtp_crate" where
  "sample_crate = \<lparr>smtp_build = (\<lambda>_. Inr 7), smtp_deliver = (\<lambda>_ _ _. Inr \<lparr>rp_sent = True, rp_status = ''Sent'', rp_error = None\<rparr>),
     env_var = (\<lambda>_ _. None), headers_of = (\<lambda>_. []), show_db = (\<lambda>_. ''e'')\<rparr>"

definition sample_request :: MailSendRequest where
  "sample_request = \<lparr>sr_mail_id = 1, sr_mail_message_id = 2, sr_from = ''x@b'', sr_to = [''r@z''], sr_subject = None,
     sr_body_html = ''hi'', sr_in_reply_to = None, sr_reply_to = None, sr_headers = Map.empty\<rparr>"

definition smtp_world :: "(db, nat \<times> EmailMessage) world" where
  "smtp_world = world_of (empty_db\<lparr>mail_servers := [sample_server 1 None, sample_server 3 (Some ''x@b'')]\<rparr>)"

definition smtp_run :: "(MailSendFailure + MailSendOutcome) \<times> (uuid \<rightharpoonup> nat) \<times> (db, nat \<times> EmailMessage) world" where
  "smtp_run = SmtpMailApi_send sample_crate to_ascii_lowercase None sample_request Map.empty plain_env smtp_world"

lemma smtp_send_safe_witness:
  "\<exists>msg s. trace (snd (snd smtp_run)) = [(7, msg)] \<and> em_to msg = [''r@z''] \<and>
     best_server to_ascii_lowercase (db smtp_world) (em_from msg) s"
proof -
  have run: "SmtpMailApi_send sample_crate to_ascii_lowercase None sample_request Map.empty plain_env smtp_world =
      (fst smtp_run, fst (snd smtp_run), snd (snd smtp_run))" by (simp add: smtp_run_def)
  have ok: "cache_ok sample_crate Map.empty" by (simp add: cache_ok_def)
  have h: "distinct (map fst (headers_of sample_crate (sr_headers sample_request)))"
    "map_of (headers_of sample_crate (sr_headers sample_request)) = sr_headers sample_request"
    by (simp_all add: sample_crate_def sample_request_def)
  have n: "\<not> isl (fst smtp_run)" by code_simp
  have t: "trace smtp_world = []" by (simp add: smtp_world_def world_of_def)
  from smtp_send_safe [OF run ok h] n t obtain svc msg s where r: "trace (snd (snd smtp_run)) = [(svc, msg)]"
    "handed sample_request msg" "best_server to_ascii_lowercase (db smtp_world) (em_from msg) s" "built_for sample_crate (srv_id s) svc"
    by auto
  then have "svc = 7" "em_to msg = [''r@z'']"
    by (auto simp: built_for_def handed_def sample_crate_def sample_request_def)
  with r show ?thesis by blast
qed

end
