(* ===== verification/RowValues.thy ===== *)
theory RowValues
  imports Vocab Bus
begin

text \<open>
  What the generated entities share: the audit metadata of \<open>src/domain/entity/mod.rs\<close>, and the use \<open>apply_patch\<close> makes of
  \<open>serde_json::from_value\<close>.  Reading a JSON value at the type of a field is serde's and is a parameter (\<open>decoders\<close>);
  an \<open>f64\<close> is only ever copied.
\<close>

section \<open>Audit metadata\<close>

record AuditMetadata =
  am_created_at :: "time option"
  am_updated_at :: "time option"
  am_deleted_at :: "time option"
  am_created_by :: "uuid option"
  am_updated_by :: "uuid option"
  am_deleted_by :: "uuid option"

definition audit_default :: AuditMetadata where
  "audit_default = \<lparr>am_created_at = None, am_updated_at = None, am_deleted_at = None, am_created_by = None,
     am_updated_by = None, am_deleted_by = None\<rparr>"

text \<open>The operations take the instant \<open>Utc::now()\<close> as an argument.\<close>

definition audit_new :: "time \<Rightarrow> AuditMetadata" where
  "audit_new now = audit_default\<lparr>am_created_at := Some now\<rparr>"

definition audit_with_creator :: "time \<Rightarrow> uuid \<Rightarrow> AuditMetadata" where
  "audit_with_creator now creator = audit_default\<lparr>am_created_at := Some now, am_created_by := Some creator\<rparr>"

definition audit_touch :: "time \<Rightarrow> AuditMetadata \<Rightarrow> AuditMetadata" where
  "audit_touch now a = a\<lparr>am_updated_at := Some now\<rparr>"

definition audit_touch_by :: "time \<Rightarrow> uuid \<Rightarrow> AuditMetadata \<Rightarrow> AuditMetadata" where
  "audit_touch_by now u a = a\<lparr>am_updated_at := Some now, am_updated_by := Some u\<rparr>"

definition audit_soft_delete :: "time \<Rightarrow> AuditMetadata \<Rightarrow> AuditMetadata" where
  "audit_soft_delete now a = a\<lparr>am_deleted_at := Some now\<rparr>"

definition audit_soft_delete_by :: "time \<Rightarrow> uuid \<Rightarrow> AuditMetadata \<Rightarrow> AuditMetadata" where
  "audit_soft_delete_by now u a = a\<lparr>am_deleted_at := Some now, am_deleted_by := Some u\<rparr>"

definition audit_restore :: "AuditMetadata \<Rightarrow> AuditMetadata" where
  "audit_restore a = a\<lparr>am_deleted_at := None, am_deleted_by := None\<rparr>"

definition audit_is_deleted :: "AuditMetadata \<Rightarrow> bool" where
  "audit_is_deleted a \<longleftrightarrow> am_deleted_at a \<noteq> None"

definition audit_is_active :: "AuditMetadata \<Rightarrow> bool" where
  "audit_is_active a \<longleftrightarrow> am_deleted_at a = None"

lemma audit_lifecycle:
  "audit_is_deleted (audit_soft_delete now a)" "audit_is_deleted (audit_soft_delete_by now u a)"
  "audit_is_active (audit_restore a)" "audit_is_active a \<longleftrightarrow> \<not> audit_is_deleted a" "audit_is_active (audit_new now)"
  by (simp_all add: audit_is_deleted_def audit_soft_delete_def audit_soft_delete_by_def audit_is_active_def
      audit_restore_def audit_new_def audit_default_def)

lemma audit_restore_undoes:
  "am_deleted_by a = None \<Longrightarrow> audit_is_active a \<Longrightarrow> audit_restore (audit_soft_delete_by now u a) = a"
  by (simp add: audit_restore_def audit_soft_delete_by_def audit_is_active_def)

section \<open>Reading a field\<close>

typedecl f64

text \<open>\<open>serde_json::from_value\<close> at the types of the fields, and \<open>Uuid::parse_str\<close>.\<close>

record decoders =
  parse_uuid :: "string \<Rightarrow> uuid option"
  read_uuid :: "json \<Rightarrow> uuid option"
  read_string :: "json \<Rightarrow> string option"
  read_bool :: "json \<Rightarrow> bool option"
  read_i32 :: "json \<Rightarrow> int option"
  read_f64 :: "json \<Rightarrow> f64 option"
  read_time :: "json \<Rightarrow> time option"
  read_date :: "json \<Rightarrow> (int \<times> nat \<times> nat) option"
  read_variant :: "json \<Rightarrow> string option"

text \<open>An enumeration is read by the label of the variant.\<close>

definition de_enum :: "decoders \<Rightarrow> (string \<Rightarrow> 'a option) \<Rightarrow> json \<Rightarrow> 'a option" where
  "de_enum D cast j = Option.bind (read_variant D j) cast"

definition de_option :: "(json \<Rightarrow> 'a option) \<Rightarrow> json \<Rightarrow> 'a option option" where
  "de_option de j = (case j of JNull \<Rightarrow> Some None | _ \<Rightarrow> map_option Some (de j))"

text \<open>\<open>if let Ok(v) = from_value(value) { self.field = v; }\<close>.\<close>

definition patch :: "'v option \<Rightarrow> ('v \<Rightarrow> 'e) \<Rightarrow> 'e \<Rightarrow> 'e" where
  "patch read write e = (case read of Some v \<Rightarrow> write v | None \<Rightarrow> e)"

lemma patch_same [simp]: "patch read (\<lambda>_. e) e = e"
  by (simp add: patch_def split: option.split)

lemma patch_distrib: "g (patch read write e) = patch read (\<lambda>v. g (write v)) (g e)"
  by (simp add: patch_def split: option.split)

text \<open>The entries of the map are applied in the order in which it is iterated.\<close>

definition patch_all :: "(string \<Rightarrow> json \<Rightarrow> 'e \<Rightarrow> 'e) \<Rightarrow> (string \<times> json) list \<Rightarrow> 'e \<Rightarrow> 'e" where
  "patch_all field es e = fold (\<lambda>(k, v). field k v) es e"

lemma patch_all_keeps:
  assumes "\<And>k v e. g (field k v e) = g e"
  shows "g (patch_all field es e) = g e"
  unfolding patch_all_def using assms by (induction es arbitrary: e) auto

text \<open>\<open>ok_or_else(|| "... is required")?\<close>.\<close>

definition require :: "string \<Rightarrow> 'a option \<Rightarrow> ('a \<Rightarrow> string + 'b) \<Rightarrow> string + 'b" where
  "require name x k = (case x of None \<Rightarrow> Inl (name @ '' is required'') | Some v \<Rightarrow> k v)"

definition or_else :: "'a option \<Rightarrow> 'a \<Rightarrow> 'a" where
  "or_else x d = (case x of Some v \<Rightarrow> v | None \<Rightarrow> d)"

lemma require_Inr: "require n x k = Inr b \<longleftrightarrow> (\<exists>v. x = Some v \<and> k v = Inr b)"
  by (auto simp: require_def split: option.splits)

end
