(* ===== verification/EntitiesChannels.thy ===== *)
theory EntitiesChannels
  imports RowValues StateMachines
begin

text \<open>
  The generated entities of \<open>src/domain/entity/\<close>:
  \<open>discuss_channel\<close>, \<open>discuss_channel_member\<close>, \<open>mail_guest\<close>,
  \<open>mail_presence\<close>, \<open>mail_followers\<close>.
  Each has its row, the constructor, the partial update, the builder and the
  tables the repository layer reads.  \<open>i\<close> is the fresh uuid of \<open>Uuid::new_v4()\<close> and \<open>now\<close> the instant of
  \<open>Utc::now()\<close>; the setters and getters of single fields are those of the records.
\<close>

section \<open>DiscussChannel\<close>

record DiscussChannel =
  DiscussChannel_id :: uuid
  DiscussChannel_name :: "string option"
  DiscussChannel_channel_type :: DiscussChannelType
  DiscussChannel_description :: "string option"
  DiscussChannel_uuid :: "string option"
  DiscussChannel_default_access_mode :: "string option"
  DiscussChannel_avatar_128 :: "string option"
  DiscussChannel_email_send :: bool
  DiscussChannel_moderation :: bool
  DiscussChannel_group_public_id :: "uuid option"
  DiscussChannel_alias_id :: "uuid option"
  DiscussChannel_last_message_id :: "uuid option"
  DiscussChannel_metadata :: AuditMetadata

definition DiscussChannel_new ::
  "DiscussChannelType \<Rightarrow> bool \<Rightarrow> bool \<Rightarrow> uuid \<Rightarrow> DiscussChannel" where
  "DiscussChannel_new channel_type' email_send' moderation' i =
     \<lparr>DiscussChannel_id = i, DiscussChannel_name = None, DiscussChannel_channel_type = channel_type',
      DiscussChannel_description = None, DiscussChannel_uuid = None, DiscussChannel_default_access_mode = None,
      DiscussChannel_avatar_128 = None, DiscussChannel_email_send = email_send',
      DiscussChannel_moderation = moderation', DiscussChannel_group_public_id = None, DiscussChannel_alias_id = None,
      DiscussChannel_last_message_id = None, DiscussChannel_metadata = audit_default\<rparr>"

definition DiscussChannel_is_deleted :: "DiscussChannel \<Rightarrow> bool" where
  "DiscussChannel_is_deleted e \<longleftrightarrow> am_deleted_at (DiscussChannel_metadata e) \<noteq> None"

definition DiscussChannel_is_active :: "DiscussChannel \<Rightarrow> bool" where
  "DiscussChannel_is_active e \<longleftrightarrow> am_deleted_at (DiscussChannel_metadata e) = None"

definition DiscussChannel_set_entity_id :: "decoders \<Rightarrow> string \<Rightarrow> DiscussChannel \<Rightarrow> DiscussChannel" where
  "DiscussChannel_set_entity_id D s e = patch (parse_uuid D s) (\<lambda>u. e\<lparr>DiscussChannel_id := u\<rparr>) e"

definition DiscussChannel_patch_field :: "decoders \<Rightarrow> string \<Rightarrow> json \<Rightarrow> DiscussChannel \<Rightarrow> DiscussChannel" where
  "DiscussChannel_patch_field D k v e =
     (if k = ''name'' then patch (de_option (read_string D) v) (\<lambda>x. e\<lparr>DiscussChannel_name := x\<rparr>) e
      else if k = ''channel_type'' then patch (de_enum D (pg_enum_cast DiscussChannelType_show DiscussChannelType_from_str) v) (\<lambda>x. e\<lparr>DiscussChannel_channel_type := x\<rparr>) e
      else if k = ''description'' then patch (de_option (read_string D) v) (\<lambda>x. e\<lparr>DiscussChannel_description := x\<rparr>) e
      else if k = ''uuid'' then patch (de_option (read_string D) v) (\<lambda>x. e\<lparr>DiscussChannel_uuid := x\<rparr>) e
      else if k = ''default_access_mode'' then patch (de_option (read_string D) v) (\<lambda>x. e\<lparr>DiscussChannel_default_access_mode := x\<rparr>) e
      else if k = ''avatar_128'' then patch (de_option (read_string D) v) (\<lambda>x. e\<lparr>DiscussChannel_avatar_128 := x\<rparr>) e
      else if k = ''email_send'' then patch (read_bool D v) (\<lambda>x. e\<lparr>DiscussChannel_email_send := x\<rparr>) e
      else if k = ''moderation'' then patch (read_bool D v) (\<lambda>x. e\<lparr>DiscussChannel_moderation := x\<rparr>) e
      else if k = ''group_public_id'' then patch (de_option (read_uuid D) v) (\<lambda>x. e\<lparr>DiscussChannel_group_public_id := x\<rparr>) e
      else if k = ''alias_id'' then patch (de_option (read_uuid D) v) (\<lambda>x. e\<lparr>DiscussChannel_alias_id := x\<rparr>) e
      else if k = ''last_message_id'' then patch (de_option (read_uuid D) v) (\<lambda>x. e\<lparr>DiscussChannel_last_message_id := x\<rparr>) e
      else e)"

definition DiscussChannel_apply_patch :: "decoders \<Rightarrow> (string \<times> json) list \<Rightarrow> DiscussChannel \<Rightarrow> DiscussChannel" where
  "DiscussChannel_apply_patch D = patch_all (DiscussChannel_patch_field D)"

definition DiscussChannel_write_protected_fields :: "string list" where
  "DiscussChannel_write_protected_fields = [''channel_type'']"

definition DiscussChannel_column_types :: "(string \<times> string) list" where
  "DiscussChannel_column_types =
    [(''id'', ''uuid''), (''group_public_id'', ''uuid''), (''alias_id'', ''uuid''), (''last_message_id'', ''uuid''),
     (''channel_type'', ''discuss_channel_type'')]"

record DiscussChannelBuilder =
  DiscussChannelBuilder_name :: "string option"
  DiscussChannelBuilder_channel_type :: "DiscussChannelType option"
  DiscussChannelBuilder_description :: "string option"
  DiscussChannelBuilder_uuid :: "string option"
  DiscussChannelBuilder_default_access_mode :: "string option"
  DiscussChannelBuilder_avatar_128 :: "string option"
  DiscussChannelBuilder_email_send :: "bool option"
  DiscussChannelBuilder_moderation :: "bool option"
  DiscussChannelBuilder_group_public_id :: "uuid option"
  DiscussChannelBuilder_alias_id :: "uuid option"
  DiscussChannelBuilder_last_message_id :: "uuid option"

definition DiscussChannel_build :: "DiscussChannelBuilder \<Rightarrow> uuid \<Rightarrow> time \<Rightarrow> string + DiscussChannel" where
  "DiscussChannel_build b i now =
     Inr \<lparr>DiscussChannel_id = i, DiscussChannel_name = DiscussChannelBuilder_name b,
         DiscussChannel_channel_type = or_else (DiscussChannelBuilder_channel_type b) DiscussChannelType_default,
         DiscussChannel_description = DiscussChannelBuilder_description b,
         DiscussChannel_uuid = DiscussChannelBuilder_uuid b,
         DiscussChannel_default_access_mode = DiscussChannelBuilder_default_access_mode b,
         DiscussChannel_avatar_128 = DiscussChannelBuilder_avatar_128 b,
         DiscussChannel_email_send = or_else (DiscussChannelBuilder_email_send b) False,
         DiscussChannel_moderation = or_else (DiscussChannelBuilder_moderation b) False,
         DiscussChannel_group_public_id = DiscussChannelBuilder_group_public_id b,
         DiscussChannel_alias_id = DiscussChannelBuilder_alias_id b,
         DiscussChannel_last_message_id = DiscussChannelBuilder_last_message_id b,
         DiscussChannel_metadata = audit_default\<rparr>"

lemma DiscussChannel_apply_patch_keeps:
  "DiscussChannel_id (DiscussChannel_apply_patch D es e) = DiscussChannel_id e"
  "DiscussChannel_metadata (DiscussChannel_apply_patch D es e) = DiscussChannel_metadata e"
  unfolding DiscussChannel_apply_patch_def
  by (rule patch_all_keeps, simp add: DiscussChannel_patch_field_def
      if_distrib [of DiscussChannel_id] patch_distrib [of DiscussChannel_id]
      if_distrib [of DiscussChannel_metadata] patch_distrib [of DiscussChannel_metadata])+

lemma DiscussChannel_build_total: "\<exists>e. DiscussChannel_build b i now = Inr e"
  by (auto simp: DiscussChannel_build_def require_Inr)

section \<open>DiscussChannelMember\<close>

record DiscussChannelMember =
  DiscussChannelMember_id :: uuid
  DiscussChannelMember_channel_id :: uuid
  DiscussChannelMember_partner_id :: "uuid option"
  DiscussChannelMember_guest_id :: "uuid option"
  DiscussChannelMember_fold_state :: "SidebarFoldState option"
  DiscussChannelMember_fetched_message_id :: "uuid option"
  DiscussChannelMember_new_message_separator :: "uuid option"
  DiscussChannelMember_custom_notifications :: "MemberCustomNotifications option"
  DiscussChannelMember_mute_until_dt :: "time option"
  DiscussChannelMember_unpin_dt :: "time option"
  DiscussChannelMember_last_seen_dt :: "time option"
  DiscussChannelMember_message_unread_counter :: int
  DiscussChannelMember_unread_counter :: int
  DiscussChannelMember_message_follower_counter :: int
  DiscussChannelMember_seen_message_id :: "uuid option"
  DiscussChannelMember_last_interest_dt :: "time option"
  DiscussChannelMember_is_pinned :: bool
  DiscussChannelMember_metadata :: AuditMetadata

definition DiscussChannelMember_new ::
  "uuid \<Rightarrow> int \<Rightarrow> int \<Rightarrow> int \<Rightarrow> bool \<Rightarrow> uuid \<Rightarrow>
  DiscussChannelMember" where
  "DiscussChannelMember_new channel_id' message_unread_counter' unread_counter' message_follower_counter' is_pinned' i =
     \<lparr>DiscussChannelMember_id = i, DiscussChannelMember_channel_id = channel_id',
      DiscussChannelMember_partner_id = None, DiscussChannelMember_guest_id = None,
      DiscussChannelMember_fold_state = None, DiscussChannelMember_fetched_message_id = None,
      DiscussChannelMember_new_message_separator = None, DiscussChannelMember_custom_notifications = None,
      DiscussChannelMember_mute_until_dt = None, DiscussChannelMember_unpin_dt = None,
      DiscussChannelMember_last_seen_dt = None,
      DiscussChannelMember_message_unread_counter = message_unread_counter',
      DiscussChannelMember_unread_counter = unread_counter',
      DiscussChannelMember_message_follower_counter = message_follower_counter',
      DiscussChannelMember_seen_message_id = None, DiscussChannelMember_last_interest_dt = None,
      DiscussChannelMember_is_pinned = is_pinned', DiscussChannelMember_metadata = audit_default\<rparr>"

definition DiscussChannelMember_is_deleted :: "DiscussChannelMember \<Rightarrow> bool" where
  "DiscussChannelMember_is_deleted e \<longleftrightarrow> am_deleted_at (DiscussChannelMember_metadata e) \<noteq> None"

definition DiscussChannelMember_is_active :: "DiscussChannelMember \<Rightarrow> bool" where
  "DiscussChannelMember_is_active e \<longleftrightarrow> am_deleted_at (DiscussChannelMember_metadata e) = None"

definition DiscussChannelMember_set_entity_id :: "decoders \<Rightarrow> string \<Rightarrow> DiscussChannelMember \<Rightarrow> DiscussChannelMember" where
  "DiscussChannelMember_set_entity_id D s e = patch (parse_uuid D s) (\<lambda>u. e\<lparr>DiscussChannelMember_id := u\<rparr>) e"

definition DiscussChannelMember_patch_field :: "decoders \<Rightarrow> string \<Rightarrow> json \<Rightarrow> DiscussChannelMember \<Rightarrow> DiscussChannelMember" where
  "DiscussChannelMember_patch_field D k v e =
     (if k = ''channel_id'' then patch (read_uuid D v) (\<lambda>x. e\<lparr>DiscussChannelMember_channel_id := x\<rparr>) e
      else if k = ''partner_id'' then patch (de_option (read_uuid D) v) (\<lambda>x. e\<lparr>DiscussChannelMember_partner_id := x\<rparr>) e
      else if k = ''guest_id'' then patch (de_option (read_uuid D) v) (\<lambda>x. e\<lparr>DiscussChannelMember_guest_id := x\<rparr>) e
      else if k = ''fold_state'' then patch (de_option (de_enum D (pg_enum_cast SidebarFoldState_show SidebarFoldState_from_str)) v) (\<lambda>x. e\<lparr>DiscussChannelMember_fold_state := x\<rparr>) e
      else if k = ''fetched_message_id'' then patch (de_option (read_uuid D) v) (\<lambda>x. e\<lparr>DiscussChannelMember_fetched_message_id := x\<rparr>) e
      else if k = ''new_message_separator'' then patch (de_option (read_uuid D) v) (\<lambda>x. e\<lparr>DiscussChannelMember_new_message_separator := x\<rparr>) e
      else if k = ''custom_notifications'' then patch (de_option (de_enum D (pg_enum_cast MemberCustomNotifications_show MemberCustomNotifications_from_str)) v) (\<lambda>x. e\<lparr>DiscussChannelMember_custom_notifications := x\<rparr>) e
      else if k = ''mute_until_dt'' then patch (de_option (read_time D) v) (\<lambda>x. e\<lparr>DiscussChannelMember_mute_until_dt := x\<rparr>) e
      else if k = ''unpin_dt'' then patch (de_option (read_time D) v) (\<lambda>x. e\<lparr>DiscussChannelMember_unpin_dt := x\<rparr>) e
      else if k = ''last_seen_dt'' then patch (de_option (read_time D) v) (\<lambda>x. e\<lparr>DiscussChannelMember_last_seen_dt := x\<rparr>) e
      else if k = ''message_unread_counter'' then patch (read_i32 D v) (\<lambda>x. e\<lparr>DiscussChannelMember_message_unread_counter := x\<rparr>) e
      else if k = ''unread_counter'' then patch (read_i32 D v) (\<lambda>x. e\<lparr>DiscussChannelMember_unread_counter := x\<rparr>) e
      else if k = ''message_follower_counter'' then patch (read_i32 D v) (\<lambda>x. e\<lparr>DiscussChannelMember_message_follower_counter := x\<rparr>) e
      else if k = ''seen_message_id'' then patch (de_option (read_uuid D) v) (\<lambda>x. e\<lparr>DiscussChannelMember_seen_message_id := x\<rparr>) e
      else if k = ''last_interest_dt'' then patch (de_option (read_time D) v) (\<lambda>x. e\<lparr>DiscussChannelMember_last_interest_dt := x\<rparr>) e
      else if k = ''is_pinned'' then patch (read_bool D v) (\<lambda>x. e\<lparr>DiscussChannelMember_is_pinned := x\<rparr>) e
      else e)"

definition DiscussChannelMember_apply_patch :: "decoders \<Rightarrow> (string \<times> json) list \<Rightarrow> DiscussChannelMember \<Rightarrow> DiscussChannelMember" where
  "DiscussChannelMember_apply_patch D = patch_all (DiscussChannelMember_patch_field D)"

definition DiscussChannelMember_column_types :: "(string \<times> string) list" where
  "DiscussChannelMember_column_types =
    [(''id'', ''uuid''), (''channel_id'', ''uuid''), (''partner_id'', ''uuid''), (''guest_id'', ''uuid''),
     (''fetched_message_id'', ''uuid''), (''seen_message_id'', ''uuid''), (''fold_state'', ''sidebar_fold_state''),
     (''custom_notifications'', ''member_custom_notifications''), (''mute_until_dt'', ''timestamptz''),
     (''unpin_dt'', ''timestamptz''), (''last_seen_dt'', ''timestamptz''), (''last_interest_dt'', ''timestamptz'')]"

record DiscussChannelMemberBuilder =
  DiscussChannelMemberBuilder_channel_id :: "uuid option"
  DiscussChannelMemberBuilder_partner_id :: "uuid option"
  DiscussChannelMemberBuilder_guest_id :: "uuid option"
  DiscussChannelMemberBuilder_fold_state :: "SidebarFoldState option"
  DiscussChannelMemberBuilder_fetched_message_id :: "uuid option"
  DiscussChannelMemberBuilder_new_message_separator :: "uuid option"
  DiscussChannelMemberBuilder_custom_notifications :: "MemberCustomNotifications option"
  DiscussChannelMemberBuilder_mute_until_dt :: "time option"
  DiscussChannelMemberBuilder_unpin_dt :: "time option"
  DiscussChannelMemberBuilder_last_seen_dt :: "time option"
  DiscussChannelMemberBuilder_message_unread_counter :: "int option"
  DiscussChannelMemberBuilder_unread_counter :: "int option"
  DiscussChannelMemberBuilder_message_follower_counter :: "int option"
  DiscussChannelMemberBuilder_seen_message_id :: "uuid option"
  DiscussChannelMemberBuilder_last_interest_dt :: "time option"
  DiscussChannelMemberBuilder_is_pinned :: "bool option"

definition DiscussChannelMember_build :: "DiscussChannelMemberBuilder \<Rightarrow> uuid \<Rightarrow> time \<Rightarrow> string + DiscussChannelMember" where
  "DiscussChannelMember_build b i now =
     require ''channel_id'' (DiscussChannelMemberBuilder_channel_id b) (\<lambda>channel_id'.
     Inr \<lparr>DiscussChannelMember_id = i, DiscussChannelMember_channel_id = channel_id',
         DiscussChannelMember_partner_id = DiscussChannelMemberBuilder_partner_id b,
         DiscussChannelMember_guest_id = DiscussChannelMemberBuilder_guest_id b,
         DiscussChannelMember_fold_state = DiscussChannelMemberBuilder_fold_state b,
         DiscussChannelMember_fetched_message_id = DiscussChannelMemberBuilder_fetched_message_id b,
         DiscussChannelMember_new_message_separator = DiscussChannelMemberBuilder_new_message_separator b,
         DiscussChannelMember_custom_notifications = DiscussChannelMemberBuilder_custom_notifications b,
         DiscussChannelMember_mute_until_dt = DiscussChannelMemberBuilder_mute_until_dt b,
         DiscussChannelMember_unpin_dt = DiscussChannelMemberBuilder_unpin_dt b,
         DiscussChannelMember_last_seen_dt = DiscussChannelMemberBuilder_last_seen_dt b,
         DiscussChannelMember_message_unread_counter = or_else (DiscussChannelMemberBuilder_message_unread_counter b) 0,
         DiscussChannelMember_unread_counter = or_else (DiscussChannelMemberBuilder_unread_counter b) 0,
         DiscussChannelMember_message_follower_counter = or_else (DiscussChannelMemberBuilder_message_follower_counter b) 0,
         DiscussChannelMember_seen_message_id = DiscussChannelMemberBuilder_seen_message_id b,
         DiscussChannelMember_last_interest_dt = DiscussChannelMemberBuilder_last_interest_dt b,
         DiscussChannelMember_is_pinned = or_else (DiscussChannelMemberBuilder_is_pinned b) False,
         DiscussChannelMember_metadata = audit_default\<rparr>)"

lemma DiscussChannelMember_apply_patch_keeps:
  "DiscussChannelMember_id (DiscussChannelMember_apply_patch D es e) = DiscussChannelMember_id e"
  "DiscussChannelMember_metadata (DiscussChannelMember_apply_patch D es e) = DiscussChannelMember_metadata e"

        unfolding DiscussChannelMember_apply_patch_def
  by (rule patch_all_keeps, simp add: DiscussChannelMember_patch_field_def
      if_distrib [of DiscussChannelMember_id] patch_distrib [of DiscussChannelMember_id]
      if_distrib [of DiscussChannelMember_metadata] patch_distrib [of DiscussChannelMember_metadata])+

lemma DiscussChannelMember_build_iff: "(\<exists>e. DiscussChannelMember_build b i now = Inr e) \<longleftrightarrow> DiscussChannelMemberBuilder_channel_id b \<noteq> None"
  by (auto simp: DiscussChannelMember_build_def require_Inr)

section \<open>MailGuest\<close>

record MailGuest =
  MailGuest_id :: uuid
  MailGuest_name :: string
  MailGuest_country_id :: "uuid option"
  MailGuest_last_connection_dt :: "time option"
  MailGuest_active :: bool
  MailGuest_metadata :: AuditMetadata

definition MailGuest_new ::
  "string \<Rightarrow> bool \<Rightarrow> uuid \<Rightarrow> MailGuest" where
  "MailGuest_new name' active' i =
     \<lparr>MailGuest_id = i, MailGuest_name = name', MailGuest_country_id = None,
      MailGuest_last_connection_dt = None, MailGuest_active = active', MailGuest_metadata = audit_default\<rparr>"

definition MailGuest_is_deleted :: "MailGuest \<Rightarrow> bool" where
  "MailGuest_is_deleted e \<longleftrightarrow> am_deleted_at (MailGuest_metadata e) \<noteq> None"

definition MailGuest_is_active :: "MailGuest \<Rightarrow> bool" where
  "MailGuest_is_active e \<longleftrightarrow> am_deleted_at (MailGuest_metadata e) = None"

definition MailGuest_set_entity_id :: "decoders \<Rightarrow> string \<Rightarrow> MailGuest \<Rightarrow> MailGuest" where
  "MailGuest_set_entity_id D s e = patch (parse_uuid D s) (\<lambda>u. e\<lparr>MailGuest_id := u\<rparr>) e"

definition MailGuest_patch_field :: "decoders \<Rightarrow> string \<Rightarrow> json \<Rightarrow> MailGuest \<Rightarrow> MailGuest" where
  "MailGuest_patch_field D k v e =
     (if k = ''name'' then patch (read_string D v) (\<lambda>x. e\<lparr>MailGuest_name := x\<rparr>) e
      else if k = ''country_id'' then patch (de_option (read_uuid D) v) (\<lambda>x. e\<lparr>MailGuest_country_id := x\<rparr>) e
      else if k = ''last_connection_dt'' then patch (de_option (read_time D) v) (\<lambda>x. e\<lparr>MailGuest_last_connection_dt := x\<rparr>) e
      else if k = ''active'' then patch (read_bool D v) (\<lambda>x. e\<lparr>MailGuest_active := x\<rparr>) e
      else e)"

definition MailGuest_apply_patch :: "decoders \<Rightarrow> (string \<times> json) list \<Rightarrow> MailGuest \<Rightarrow> MailGuest" where
  "MailGuest_apply_patch D = patch_all (MailGuest_patch_field D)"

definition MailGuest_column_types :: "(string \<times> string) list" where
  "MailGuest_column_types =
    [(''id'', ''uuid''), (''country_id'', ''uuid''), (''last_connection_dt'', ''timestamptz'')]"

record MailGuestBuilder =
  MailGuestBuilder_name :: "string option"
  MailGuestBuilder_country_id :: "uuid option"
  MailGuestBuilder_last_connection_dt :: "time option"
  MailGuestBuilder_active :: "bool option"

definition MailGuest_build :: "MailGuestBuilder \<Rightarrow> uuid \<Rightarrow> time \<Rightarrow> string + MailGuest" where
  "MailGuest_build b i now =
     require ''name'' (MailGuestBuilder_name b) (\<lambda>name'.
     Inr \<lparr>MailGuest_id = i, MailGuest_name = name', MailGuest_country_id = MailGuestBuilder_country_id b,
         MailGuest_last_connection_dt = MailGuestBuilder_last_connection_dt b,
         MailGuest_active = or_else (MailGuestBuilder_active b) True, MailGuest_metadata = audit_default\<rparr>)"

lemma MailGuest_apply_patch_keeps:
  "MailGuest_id (MailGuest_apply_patch D es e) = MailGuest_id e"
  "MailGuest_metadata (MailGuest_apply_patch D es e) = MailGuest_metadata e"
  unfolding MailGuest_apply_patch_def
  by (rule patch_all_keeps, simp add: MailGuest_patch_field_def
      if_distrib [of MailGuest_id] patch_distrib [of MailGuest_id]
      if_distrib [of MailGuest_metadata] patch_distrib [of MailGuest_metadata])+

lemma MailGuest_build_iff: "(\<exists>e. MailGuest_build b i now = Inr e) \<longleftrightarrow> MailGuestBuilder_name b \<noteq> None"
  by (auto simp: MailGuest_build_def require_Inr)

section \<open>MailPresence\<close>

record MailPresence =
  MailPresence_id :: uuid
  MailPresence_user_id :: "uuid option"
  MailPresence_guest_id :: "uuid option"
  MailPresence_status :: MailPresenceStatus
  MailPresence_last_poll :: "time option"
  MailPresence_metadata :: AuditMetadata

definition MailPresence_new ::
  "MailPresenceStatus \<Rightarrow> uuid \<Rightarrow> MailPresence" where
  "MailPresence_new status' i =
     \<lparr>MailPresence_id = i, MailPresence_user_id = None, MailPresence_guest_id = None,
      MailPresence_status = status', MailPresence_last_poll = None, MailPresence_metadata = audit_default\<rparr>"

definition MailPresence_is_deleted :: "MailPresence \<Rightarrow> bool" where
  "MailPresence_is_deleted e \<longleftrightarrow> am_deleted_at (MailPresence_metadata e) \<noteq> None"

definition MailPresence_is_active :: "MailPresence \<Rightarrow> bool" where
  "MailPresence_is_active e \<longleftrightarrow> am_deleted_at (MailPresence_metadata e) = None"

definition MailPresence_set_entity_id :: "decoders \<Rightarrow> string \<Rightarrow> MailPresence \<Rightarrow> MailPresence" where
  "MailPresence_set_entity_id D s e = patch (parse_uuid D s) (\<lambda>u. e\<lparr>MailPresence_id := u\<rparr>) e"

definition MailPresence_patch_field :: "decoders \<Rightarrow> string \<Rightarrow> json \<Rightarrow> MailPresence \<Rightarrow> MailPresence" where
  "MailPresence_patch_field D k v e =
     (if k = ''user_id'' then patch (de_option (read_uuid D) v) (\<lambda>x. e\<lparr>MailPresence_user_id := x\<rparr>) e
      else if k = ''guest_id'' then patch (de_option (read_uuid D) v) (\<lambda>x. e\<lparr>MailPresence_guest_id := x\<rparr>) e
      else if k = ''last_poll'' then patch (de_option (read_time D) v) (\<lambda>x. e\<lparr>MailPresence_last_poll := x\<rparr>) e
      else e)"

definition MailPresence_apply_patch :: "decoders \<Rightarrow> (string \<times> json) list \<Rightarrow> MailPresence \<Rightarrow> MailPresence" where
  "MailPresence_apply_patch D = patch_all (MailPresence_patch_field D)"

definition MailPresence_write_protected_fields :: "string list" where
  "MailPresence_write_protected_fields = [''status'']"

definition MailPresence_column_types :: "(string \<times> string) list" where
  "MailPresence_column_types =
    [(''id'', ''uuid''), (''user_id'', ''uuid''), (''guest_id'', ''uuid''), (''status'', ''mail_presence_status''),
     (''last_poll'', ''timestamptz'')]"

definition MailPresence_transition_to :: "MailPresenceHooksState \<Rightarrow> MailPresence \<Rightarrow> StateMachineError + MailPresence" where
  "MailPresence_transition_to new_state e =
     (case MailPresenceHooksState_from_str (MailPresenceStatus_show (MailPresence_status e)) of
        Inl x \<Rightarrow> Inl x
      | Inr current \<Rightarrow>
          (case fst (MailPresenceHooksStateMachine_transition_to_state current new_state) of
             Inl x \<Rightarrow> Inl x
           | Inr _ \<Rightarrow>
               (case MailPresenceStatus_from_str (MailPresenceHooksState_show new_state) of
                  Inl x \<Rightarrow> Inl (InvalidState x)
                | Inr s \<Rightarrow> Inr (e\<lparr>MailPresence_status := s\<rparr>))))"

record MailPresenceBuilder =
  MailPresenceBuilder_user_id :: "uuid option"
  MailPresenceBuilder_guest_id :: "uuid option"
  MailPresenceBuilder_status :: "MailPresenceStatus option"
  MailPresenceBuilder_last_poll :: "time option"

definition MailPresence_build :: "MailPresenceBuilder \<Rightarrow> uuid \<Rightarrow> time \<Rightarrow> string + MailPresence" where
  "MailPresence_build b i now =
     Inr \<lparr>MailPresence_id = i, MailPresence_user_id = MailPresenceBuilder_user_id b,
         MailPresence_guest_id = MailPresenceBuilder_guest_id b,
         MailPresence_status = or_else (MailPresenceBuilder_status b) MailPresenceStatus_default,
         MailPresence_last_poll = MailPresenceBuilder_last_poll b, MailPresence_metadata = audit_default\<rparr>"

lemma MailPresence_apply_patch_keeps:
  "MailPresence_id (MailPresence_apply_patch D es e) = MailPresence_id e"
  "MailPresence_status (MailPresence_apply_patch D es e) = MailPresence_status e"
  "MailPresence_metadata (MailPresence_apply_patch D es e) = MailPresence_metadata e"
  unfolding MailPresence_apply_patch_def
  by (rule patch_all_keeps, simp add: MailPresence_patch_field_def
      if_distrib [of MailPresence_id] patch_distrib [of MailPresence_id]
      if_distrib [of MailPresence_status] patch_distrib [of MailPresence_status]
      if_distrib [of MailPresence_metadata] patch_distrib [of MailPresence_metadata])+

lemma MailPresence_build_total: "\<exists>e. MailPresence_build b i now = Inr e"
  by (auto simp: MailPresence_build_def require_Inr)

lemma MailPresence_transition_to_iff:
  "MailPresence_transition_to goal e = Inr e' \<longleftrightarrow>
   (\<exists>s. MailPresenceHooksState_show s = MailPresenceStatus_show (MailPresence_status e) \<and> mail_presence_hooks.edge s goal) \<and>
   (\<exists>x. MailPresenceStatus_show x = MailPresenceHooksState_show goal \<and> e' = e\<lparr>MailPresence_status := x\<rparr>)"
proof -
  obtain s where s: "MailPresenceHooksState_show s = MailPresenceStatus_show (MailPresence_status e)"
    by (cases "MailPresence_status e") (metis MailPresenceHooksState_show.simps MailPresenceStatus_show.simps)+
  have p: "MailPresenceHooksState_from_str (MailPresenceStatus_show (MailPresence_status e)) = Inr s" unfolding s [symmetric] by (rule mail_presence_hooks_state_text.from_str_label)
  obtain x where x: "MailPresenceStatus_show x = MailPresenceHooksState_show goal"
    by (cases goal) (metis MailPresenceHooksState_show.simps MailPresenceStatus_show.simps)+
  have g: "MailPresenceStatus_from_str (MailPresenceHooksState_show goal) = Inr x" unfolding x [symmetric] by (rule mail_presence_status.from_str_label)
  have src: "(\<exists>s'. MailPresenceHooksState_show s' = MailPresenceStatus_show (MailPresence_status e) \<and> mail_presence_hooks.edge s' goal) \<longleftrightarrow> mail_presence_hooks.edge s goal"
    unfolding s [symmetric] mail_presence_hooks_state_text.label_inj by simp
  have tgt: "(\<exists>y. MailPresenceStatus_show y = MailPresenceHooksState_show goal \<and> e' = e\<lparr>MailPresence_status := y\<rparr>) \<longleftrightarrow> e' = e\<lparr>MailPresence_status := x\<rparr>"
    unfolding x [symmetric] mail_presence_status.label_inj by simp
  show ?thesis
  proof (cases "mail_presence_hooks.edge s goal")
    case True
    then show ?thesis unfolding src tgt
      using p g mail_presence_hooks.to_state_ok [of s goal] by (auto simp: MailPresence_transition_to_def MailPresenceHooksStateMachine_transition_to_state_def)
  next
    case False
    then show ?thesis unfolding src tgt
      using p g mail_presence_hooks.to_state_refused [of s goal] by (auto simp: MailPresence_transition_to_def MailPresenceHooksStateMachine_transition_to_state_def)
  qed
qed

section \<open>MailFollowers\<close>

record MailFollowers =
  MailFollowers_id :: uuid
  MailFollowers_res_model :: string
  MailFollowers_res_id :: uuid
  MailFollowers_partner_id :: "uuid option"
  MailFollowers_channel_id :: "uuid option"
  MailFollowers_subtype_ids :: "json option"
  MailFollowers_metadata :: AuditMetadata

definition MailFollowers_new ::
  "string \<Rightarrow> uuid \<Rightarrow> uuid \<Rightarrow> MailFollowers" where
  "MailFollowers_new res_model' res_id' i =
     \<lparr>MailFollowers_id = i, MailFollowers_res_model = res_model', MailFollowers_res_id = res_id',
      MailFollowers_partner_id = None, MailFollowers_channel_id = None, MailFollowers_subtype_ids = None,
      MailFollowers_metadata = audit_default\<rparr>"

definition MailFollowers_is_deleted :: "MailFollowers \<Rightarrow> bool" where
  "MailFollowers_is_deleted e \<longleftrightarrow> am_deleted_at (MailFollowers_metadata e) \<noteq> None"

definition MailFollowers_is_active :: "MailFollowers \<Rightarrow> bool" where
  "MailFollowers_is_active e \<longleftrightarrow> am_deleted_at (MailFollowers_metadata e) = None"

definition MailFollowers_set_entity_id :: "decoders \<Rightarrow> string \<Rightarrow> MailFollowers \<Rightarrow> MailFollowers" where
  "MailFollowers_set_entity_id D s e = patch (parse_uuid D s) (\<lambda>u. e\<lparr>MailFollowers_id := u\<rparr>) e"

definition MailFollowers_patch_field :: "decoders \<Rightarrow> string \<Rightarrow> json \<Rightarrow> MailFollowers \<Rightarrow> MailFollowers" where
  "MailFollowers_patch_field D k v e =
     (if k = ''res_model'' then patch (read_string D v) (\<lambda>x. e\<lparr>MailFollowers_res_model := x\<rparr>) e
      else if k = ''res_id'' then patch (read_uuid D v) (\<lambda>x. e\<lparr>MailFollowers_res_id := x\<rparr>) e
      else if k = ''partner_id'' then patch (de_option (read_uuid D) v) (\<lambda>x. e\<lparr>MailFollowers_partner_id := x\<rparr>) e
      else if k = ''channel_id'' then patch (de_option (read_uuid D) v) (\<lambda>x. e\<lparr>MailFollowers_channel_id := x\<rparr>) e
      else if k = ''subtype_ids'' then patch (de_option Some v) (\<lambda>x. e\<lparr>MailFollowers_subtype_ids := x\<rparr>) e
      else e)"

definition MailFollowers_apply_patch :: "decoders \<Rightarrow> (string \<times> json) list \<Rightarrow> MailFollowers \<Rightarrow> MailFollowers" where
  "MailFollowers_apply_patch D = patch_all (MailFollowers_patch_field D)"

definition MailFollowers_column_types :: "(string \<times> string) list" where
  "MailFollowers_column_types =
    [(''id'', ''uuid''), (''res_id'', ''uuid''), (''partner_id'', ''uuid''), (''channel_id'', ''uuid'')]"

record MailFollowersBuilder =
  MailFollowersBuilder_res_model :: "string option"
  MailFollowersBuilder_res_id :: "uuid option"
  MailFollowersBuilder_partner_id :: "uuid option"
  MailFollowersBuilder_channel_id :: "uuid option"
  MailFollowersBuilder_subtype_ids :: "json option"

definition MailFollowers_build :: "MailFollowersBuilder \<Rightarrow> uuid \<Rightarrow> time \<Rightarrow> string + MailFollowers" where
  "MailFollowers_build b i now =
     require ''res_model'' (MailFollowersBuilder_res_model b) (\<lambda>res_model'.
     require ''res_id'' (MailFollowersBuilder_res_id b) (\<lambda>res_id'.
     Inr \<lparr>MailFollowers_id = i, MailFollowers_res_model = res_model', MailFollowers_res_id = res_id',
         MailFollowers_partner_id = MailFollowersBuilder_partner_id b,
         MailFollowers_channel_id = MailFollowersBuilder_channel_id b,
         MailFollowers_subtype_ids = MailFollowersBuilder_subtype_ids b, MailFollowers_metadata = audit_default\<rparr>))"

lemma MailFollowers_apply_patch_keeps:
  "MailFollowers_id (MailFollowers_apply_patch D es e) = MailFollowers_id e"
  "MailFollowers_metadata (MailFollowers_apply_patch D es e) = MailFollowers_metadata e"
  unfolding MailFollowers_apply_patch_def
  by (rule patch_all_keeps, simp add: MailFollowers_patch_field_def
      if_distrib [of MailFollowers_id] patch_distrib [of MailFollowers_id]
      if_distrib [of MailFollowers_metadata] patch_distrib [of MailFollowers_metadata])+

lemma MailFollowers_build_iff: "(\<exists>e. MailFollowers_build b i now = Inr e) \<longleftrightarrow> MailFollowersBuilder_res_model b \<noteq> None \<and> MailFollowersBuilder_res_id b \<noteq> None"
  by (auto simp: MailFollowers_build_def require_Inr)

end
