(* ===== verification/RowGuards.thy ===== *)
theory RowGuards
  imports RowValues
begin

text \<open>
  What the generated row rules (\<open>src/application/service/*_service.rs\<close>, \<open>impl WriteGuard\<close>) and the generated
  \<open>Serialize\<close> of the rows share.  The rule functions \<open>backbone_core::row_rule\<close> (\<open>changed\<close>, \<open>field\<close>, \<open>holds\<close> and the
  combinators) are the framework's: they are the fields of a parameter \<open>row_rule\<close>, over the framework's value type
  \<open>'v\<close>.  The texts of uuids, instants and dates and the number of an \<open>f64\<close> are the crates' (\<open>encoders\<close>).
\<close>

section \<open>Writing a row as JSON\<close>

record encoders =
  write_uuid :: "uuid \<Rightarrow> string"
  write_time :: "time \<Rightarrow> string"
  write_date :: "int \<times> nat \<times> nat \<Rightarrow> string"
  write_f64 :: "f64 \<Rightarrow> json"

definition en_uuid :: "encoders \<Rightarrow> uuid \<Rightarrow> json" where
  "en_uuid E u = JString (write_uuid E u)"

definition en_time :: "encoders \<Rightarrow> time \<Rightarrow> json" where
  "en_time E t = JString (write_time E t)"

definition en_date :: "encoders \<Rightarrow> int \<times> nat \<times> nat \<Rightarrow> json" where
  "en_date E d = JString (write_date E d)"

text \<open>\<open>skip_serializing_if = "Option::is_none"\<close>: an absent entry is not written.\<close>

definition unless_none :: "string \<Rightarrow> ('a \<Rightarrow> json) \<Rightarrow> 'a option \<Rightarrow> (string \<times> json) list" where
  "unless_none k en z = (case z of None \<Rightarrow> [] | Some x \<Rightarrow> [(k, en x)])"

definition audit_to_value :: "encoders \<Rightarrow> AuditMetadata \<Rightarrow> json" where
  "audit_to_value E a = JObject (
     unless_none ''created_at'' (en_time E) (am_created_at a) @ unless_none ''updated_at'' (en_time E) (am_updated_at a) @
     unless_none ''deleted_at'' (en_time E) (am_deleted_at a) @ unless_none ''created_by'' (en_uuid E) (am_created_by a) @
     unless_none ''updated_by'' (en_uuid E) (am_updated_by a) @ unless_none ''deleted_by'' (en_uuid E) (am_deleted_by a))"

definition json_field :: "json \<Rightarrow> string \<Rightarrow> json option" where
  "json_field j k = (case j of JObject es \<Rightarrow> map_of es k | _ \<Rightarrow> None)"

section \<open>The guard\<close>

datatype WriteKind = Create | Update | OtherWrite string

record 'e write_ctx =
  wc_kind :: WriteKind
  wc_before :: "'e option"
  wc_after :: "'e option"
  wc_transition :: "string option"

record violation =
  vio_field :: string
  vio_code :: string
  vio_message :: string

definition violation_new :: "string \<Rightarrow> string \<Rightarrow> string \<Rightarrow> violation" where
  "violation_new f c m = \<lparr>vio_field = f, vio_code = c, vio_message = m\<rparr>"

record guard_outcome =
  go_refuse :: "violation list"
  go_shadow :: "violation list"

definition guard_allow :: guard_outcome where
  "guard_allow = \<lparr>go_refuse = [], go_shadow = []\<rparr>"

record 'v row_rule =
  rr_changed :: "json option \<Rightarrow> json \<Rightarrow> string list \<Rightarrow> bool"
  rr_field :: "json \<Rightarrow> string \<Rightarrow> 'v"
  rr_is_null :: "'v \<Rightarrow> 'v"
  rr_is_not_null :: "'v \<Rightarrow> 'v"
  rr_is_empty :: "'v \<Rightarrow> 'v"
  rr_trim :: "'v \<Rightarrow> 'v"
  rr_not :: "'v \<Rightarrow> 'v"
  rr_and :: "'v \<Rightarrow> 'v \<Rightarrow> 'v"
  rr_or :: "'v \<Rightarrow> 'v \<Rightarrow> 'v"
  rr_holds :: "'v \<Rightarrow> bool"

text \<open>The frame of every \<open>check\<close>: only a create or an update with a row is examined, on the JSON of that row.\<close>

definition row_guard ::
  "('e \<Rightarrow> json option) \<Rightarrow> (bool \<Rightarrow> bool \<Rightarrow> json option \<Rightarrow> json \<Rightarrow> violation list) \<Rightarrow> 'e write_ctx \<Rightarrow> guard_outcome" where
  "row_guard to_value rules ctx =
     (let create = (wc_kind ctx = WriteKind.Create); update = (wc_kind ctx = WriteKind.Update) in
      case (if create \<or> update then wc_after ctx else None) of
        None \<Rightarrow> guard_allow
      | Some after \<Rightarrow>
          (case to_value after of
             None \<Rightarrow> guard_allow
           | Some row \<Rightarrow>
               \<lparr>go_refuse = rules create update (Option.bind (wc_before ctx) to_value) row, go_shadow = []\<rparr>))"

text \<open>The rules a schema declares: a required text, and a state field that only its verbs move.\<close>

definition required_rule ::
  "'v row_rule \<Rightarrow> string \<Rightarrow> bool \<Rightarrow> bool \<Rightarrow> json option \<Rightarrow> json \<Rightarrow> violation list" where
  "required_rule R k create update old row =
     (if (create \<or> update \<and> rr_changed R old row [k]) \<and>
         \<not> rr_holds R (rr_and R (rr_is_not_null R (rr_field R row k))
                              (rr_not R (rr_is_empty R (rr_trim R (rr_field R row k)))))
      then [violation_new k ''required'' (k @ '' is required'')] else [])"

definition verbs_only_rule ::
  "'v row_rule \<Rightarrow> string \<Rightarrow> string option \<Rightarrow> bool \<Rightarrow> bool \<Rightarrow> json option \<Rightarrow> json \<Rightarrow> violation list" where
  "verbs_only_rule R k transition create update old row =
     (if update \<and> transition = None \<and> rr_changed R old row [k]
      then [violation_new k ''state_field_verbs_only'' ''the state field moves only through its verbs''] else [])"

definition EM_DASH :: string where
  "EM_DASH = [CHR 0xE2, CHR 0x80, CHR 0x94]"

text \<open>\<open>changed\<close> on one key, as the rules rely on it.\<close>

definition compares_field :: "'v row_rule \<Rightarrow> bool" where
  "compares_field R \<longleftrightarrow> (\<forall>a b k. rr_changed R (Some a) b [k] \<longleftrightarrow> json_field a k \<noteq> json_field b k)"

lemma row_guard_update:
  assumes "wc_kind ctx = WriteKind.Update" "wc_before ctx = Some a" "wc_after ctx = Some b"
    and "to_value a = Some j" "to_value b = Some k"
  shows "go_refuse (row_guard to_value rules ctx) = rules False True (Some j) k"
  using assms by (simp add: row_guard_def)

lemma row_guard_create:
  assumes "wc_kind ctx = WriteKind.Create" "wc_after ctx = Some b" "to_value b = Some k"
  shows "go_refuse (row_guard to_value rules ctx) = rules True False (Option.bind (wc_before ctx) to_value) k"
  using assms by (simp add: row_guard_def)

lemma verbs_only_update:
  assumes "compares_field R"
  shows "verbs_only_rule R k None False True (Some a) b = [] \<longleftrightarrow> json_field a k = json_field b k"
  using assms by (simp add: verbs_only_rule_def compares_field_def)

lemma verbs_only_verb [simp]: "verbs_only_rule R k (Some v) c u old row = []"
  by (simp add: verbs_only_rule_def)

lemma verbs_only_create [simp]: "verbs_only_rule R k t c False old row = []"
  by (simp add: verbs_only_rule_def)

end
