(* ===== verification/RowsChannels.thy ===== *)
theory RowsChannels
  imports EntitiesChannels RowGuards
begin

text \<open>
  The wire forms and the row rules of the entities of \<open>EntitiesChannels\<close>: \<open>src/presentation/dto/\<close> and the \<open>RowRules\<close> of
  \<open>src/application/service/\<close>.  The conversion from a reference and the one from an owned entity are one function.
\<close>

section \<open>DiscussChannel\<close>

record CreateDiscussChannelDto =
  CreateDiscussChannelDto_name :: "string option"
  CreateDiscussChannelDto_description :: "string option"
  CreateDiscussChannelDto_uuid :: "string option"
  CreateDiscussChannelDto_default_access_mode :: "string option"
  CreateDiscussChannelDto_avatar_128 :: "string option"
  CreateDiscussChannelDto_email_send :: bool
  CreateDiscussChannelDto_moderation :: bool
  CreateDiscussChannelDto_group_public_id :: "uuid option"
  CreateDiscussChannelDto_alias_id :: "uuid option"
  CreateDiscussChannelDto_last_message_id :: "uuid option"

record UpdateDiscussChannelDto =
  UpdateDiscussChannelDto_name :: "string option"
  UpdateDiscussChannelDto_channel_type :: DiscussChannelType
  UpdateDiscussChannelDto_description :: "string option"
  UpdateDiscussChannelDto_uuid :: "string option"
  UpdateDiscussChannelDto_default_access_mode :: "string option"
  UpdateDiscussChannelDto_avatar_128 :: "string option"
  UpdateDiscussChannelDto_email_send :: bool
  UpdateDiscussChannelDto_moderation :: bool
  UpdateDiscussChannelDto_group_public_id :: "uuid option"
  UpdateDiscussChannelDto_alias_id :: "uuid option"
  UpdateDiscussChannelDto_last_message_id :: "uuid option"

record DiscussChannelResponseDto =
  DiscussChannelResponseDto_id :: uuid
  DiscussChannelResponseDto_name :: "string option"
  DiscussChannelResponseDto_channel_type :: DiscussChannelType
  DiscussChannelResponseDto_description :: "string option"
  DiscussChannelResponseDto_uuid :: "string option"
  DiscussChannelResponseDto_default_access_mode :: "string option"
  DiscussChannelResponseDto_avatar_128 :: "string option"
  DiscussChannelResponseDto_email_send :: bool
  DiscussChannelResponseDto_moderation :: bool
  DiscussChannelResponseDto_group_public_id :: "uuid option"
  DiscussChannelResponseDto_alias_id :: "uuid option"
  DiscussChannelResponseDto_last_message_id :: "uuid option"
  DiscussChannelResponseDto_metadata :: AuditMetadata

definition DiscussChannel_response :: "DiscussChannel \<Rightarrow> DiscussChannelResponseDto" where
  "DiscussChannel_response e =
     \<lparr>DiscussChannelResponseDto_id = DiscussChannel_id e,
      DiscussChannelResponseDto_name = DiscussChannel_name e,
      DiscussChannelResponseDto_channel_type = DiscussChannel_channel_type e,
      DiscussChannelResponseDto_description = DiscussChannel_description e,
      DiscussChannelResponseDto_uuid = DiscussChannel_uuid e,
      DiscussChannelResponseDto_default_access_mode = DiscussChannel_default_access_mode e,
      DiscussChannelResponseDto_avatar_128 = DiscussChannel_avatar_128 e,
      DiscussChannelResponseDto_email_send = DiscussChannel_email_send e,
      DiscussChannelResponseDto_moderation = DiscussChannel_moderation e,
      DiscussChannelResponseDto_group_public_id = DiscussChannel_group_public_id e,
      DiscussChannelResponseDto_alias_id = DiscussChannel_alias_id e,
      DiscussChannelResponseDto_last_message_id = DiscussChannel_last_message_id e,
      DiscussChannelResponseDto_metadata = DiscussChannel_metadata e\<rparr>"

definition DiscussChannel_from_create :: "CreateDiscussChannelDto \<Rightarrow> uuid \<Rightarrow> DiscussChannel" where
  "DiscussChannel_from_create d i =
     \<lparr>DiscussChannel_id = i, DiscussChannel_name = CreateDiscussChannelDto_name d,
      DiscussChannel_channel_type = DiscussChannelType.Channel,
      DiscussChannel_description = CreateDiscussChannelDto_description d,
      DiscussChannel_uuid = CreateDiscussChannelDto_uuid d,
      DiscussChannel_default_access_mode = CreateDiscussChannelDto_default_access_mode d,
      DiscussChannel_avatar_128 = CreateDiscussChannelDto_avatar_128 d,
      DiscussChannel_email_send = CreateDiscussChannelDto_email_send d,
      DiscussChannel_moderation = CreateDiscussChannelDto_moderation d,
      DiscussChannel_group_public_id = CreateDiscussChannelDto_group_public_id d,
      DiscussChannel_alias_id = CreateDiscussChannelDto_alias_id d,
      DiscussChannel_last_message_id = CreateDiscussChannelDto_last_message_id d,
      DiscussChannel_metadata = audit_default\<rparr>"

definition DiscussChannel_apply_update :: "DiscussChannel \<Rightarrow> UpdateDiscussChannelDto \<Rightarrow> DiscussChannel" where
  "DiscussChannel_apply_update e d =
     e\<lparr>DiscussChannel_name := UpdateDiscussChannelDto_name d,
      DiscussChannel_channel_type := UpdateDiscussChannelDto_channel_type d,
      DiscussChannel_description := UpdateDiscussChannelDto_description d,
      DiscussChannel_uuid := UpdateDiscussChannelDto_uuid d,
      DiscussChannel_default_access_mode := UpdateDiscussChannelDto_default_access_mode d,
      DiscussChannel_avatar_128 := UpdateDiscussChannelDto_avatar_128 d,
      DiscussChannel_email_send := UpdateDiscussChannelDto_email_send d,
      DiscussChannel_moderation := UpdateDiscussChannelDto_moderation d,
      DiscussChannel_group_public_id := UpdateDiscussChannelDto_group_public_id d,
      DiscussChannel_alias_id := UpdateDiscussChannelDto_alias_id d,
      DiscussChannel_last_message_id := UpdateDiscussChannelDto_last_message_id d\<rparr>"

definition DiscussChannel_to_value :: "encoders \<Rightarrow> DiscussChannel \<Rightarrow> json" where
  "DiscussChannel_to_value E e = JObject
     [(''id'', en_uuid E (DiscussChannel_id e)), (''name'', jopt JString (DiscussChannel_name e)),
      (''channel_type'', (\<lambda>x. JString (DiscussChannelType_show x)) (DiscussChannel_channel_type e)),
      (''description'', jopt JString (DiscussChannel_description e)),
      (''uuid'', jopt JString (DiscussChannel_uuid e)),
      (''default_access_mode'', jopt JString (DiscussChannel_default_access_mode e)),
      (''avatar_128'', jopt JString (DiscussChannel_avatar_128 e)),
      (''email_send'', JBool (DiscussChannel_email_send e)), (''moderation'', JBool (DiscussChannel_moderation e)),
      (''group_public_id'', jopt (en_uuid E) (DiscussChannel_group_public_id e)),
      (''alias_id'', jopt (en_uuid E) (DiscussChannel_alias_id e)),
      (''last_message_id'', jopt (en_uuid E) (DiscussChannel_last_message_id e)),
      (''metadata'', audit_to_value E (DiscussChannel_metadata e))]"

lemma DiscussChannel_apply_update_reach:
  "(\<exists>d. DiscussChannel_apply_update e d = e') \<longleftrightarrow>
   DiscussChannel_id e' = DiscussChannel_id e \<and> DiscussChannel_metadata e' = DiscussChannel_metadata e"
proof
  assume "DiscussChannel_id e' = DiscussChannel_id e \<and> DiscussChannel_metadata e' = DiscussChannel_metadata e"
  then have "DiscussChannel_apply_update e \<lparr>UpdateDiscussChannelDto_name = DiscussChannel_name e',
      UpdateDiscussChannelDto_channel_type = DiscussChannel_channel_type e',
      UpdateDiscussChannelDto_description = DiscussChannel_description e',
      UpdateDiscussChannelDto_uuid = DiscussChannel_uuid e',
      UpdateDiscussChannelDto_default_access_mode = DiscussChannel_default_access_mode e',
      UpdateDiscussChannelDto_avatar_128 = DiscussChannel_avatar_128 e',
      UpdateDiscussChannelDto_email_send = DiscussChannel_email_send e',
      UpdateDiscussChannelDto_moderation = DiscussChannel_moderation e',
      UpdateDiscussChannelDto_group_public_id = DiscussChannel_group_public_id e',
      UpdateDiscussChannelDto_alias_id = DiscussChannel_alias_id e',
      UpdateDiscussChannelDto_last_message_id = DiscussChannel_last_message_id e'\<rparr> = e'"
    by (cases e; cases e') (simp add: DiscussChannel_apply_update_def)
  then show "\<exists>d. DiscussChannel_apply_update e d = e'" by blast
qed (auto simp: DiscussChannel_apply_update_def)

lemma DiscussChannel_response_eq: "DiscussChannel_response e = DiscussChannel_response e' \<longleftrightarrow> e = e'"
  by (cases e; cases e') (simp add: DiscussChannel_response_def)

section \<open>DiscussChannelMember\<close>

record CreateDiscussChannelMemberDto =
  CreateDiscussChannelMemberDto_channel_id :: uuid
  CreateDiscussChannelMemberDto_partner_id :: "uuid option"
  CreateDiscussChannelMemberDto_guest_id :: "uuid option"
  CreateDiscussChannelMemberDto_fold_state :: "SidebarFoldState option"
  CreateDiscussChannelMemberDto_fetched_message_id :: "uuid option"
  CreateDiscussChannelMemberDto_new_message_separator :: "uuid option"
  CreateDiscussChannelMemberDto_custom_notifications :: "MemberCustomNotifications option"
  CreateDiscussChannelMemberDto_mute_until_dt :: "time option"
  CreateDiscussChannelMemberDto_unpin_dt :: "time option"
  CreateDiscussChannelMemberDto_last_seen_dt :: "time option"
  CreateDiscussChannelMemberDto_message_unread_counter :: int
  CreateDiscussChannelMemberDto_unread_counter :: int
  CreateDiscussChannelMemberDto_message_follower_counter :: int
  CreateDiscussChannelMemberDto_seen_message_id :: "uuid option"
  CreateDiscussChannelMemberDto_last_interest_dt :: "time option"
  CreateDiscussChannelMemberDto_is_pinned :: bool

record UpdateDiscussChannelMemberDto =
  UpdateDiscussChannelMemberDto_channel_id :: uuid
  UpdateDiscussChannelMemberDto_partner_id :: "uuid option"
  UpdateDiscussChannelMemberDto_guest_id :: "uuid option"
  UpdateDiscussChannelMemberDto_fold_state :: "SidebarFoldState option"
  UpdateDiscussChannelMemberDto_fetched_message_id :: "uuid option"
  UpdateDiscussChannelMemberDto_new_message_separator :: "uuid option"
  UpdateDiscussChannelMemberDto_custom_notifications :: "MemberCustomNotifications option"
  UpdateDiscussChannelMemberDto_mute_until_dt :: "time option"
  UpdateDiscussChannelMemberDto_unpin_dt :: "time option"
  UpdateDiscussChannelMemberDto_last_seen_dt :: "time option"
  UpdateDiscussChannelMemberDto_message_unread_counter :: int
  UpdateDiscussChannelMemberDto_unread_counter :: int
  UpdateDiscussChannelMemberDto_message_follower_counter :: int
  UpdateDiscussChannelMemberDto_seen_message_id :: "uuid option"
  UpdateDiscussChannelMemberDto_last_interest_dt :: "time option"
  UpdateDiscussChannelMemberDto_is_pinned :: bool

record DiscussChannelMemberResponseDto =
  DiscussChannelMemberResponseDto_id :: uuid
  DiscussChannelMemberResponseDto_channel_id :: uuid
  DiscussChannelMemberResponseDto_partner_id :: "uuid option"
  DiscussChannelMemberResponseDto_guest_id :: "uuid option"
  DiscussChannelMemberResponseDto_fold_state :: "SidebarFoldState option"
  DiscussChannelMemberResponseDto_fetched_message_id :: "uuid option"
  DiscussChannelMemberResponseDto_new_message_separator :: "uuid option"
  DiscussChannelMemberResponseDto_custom_notifications :: "MemberCustomNotifications option"
  DiscussChannelMemberResponseDto_mute_until_dt :: "time option"
  DiscussChannelMemberResponseDto_unpin_dt :: "time option"
  DiscussChannelMemberResponseDto_last_seen_dt :: "time option"
  DiscussChannelMemberResponseDto_message_unread_counter :: int
  DiscussChannelMemberResponseDto_unread_counter :: int
  DiscussChannelMemberResponseDto_message_follower_counter :: int
  DiscussChannelMemberResponseDto_seen_message_id :: "uuid option"
  DiscussChannelMemberResponseDto_last_interest_dt :: "time option"
  DiscussChannelMemberResponseDto_is_pinned :: bool
  DiscussChannelMemberResponseDto_metadata :: AuditMetadata

definition DiscussChannelMember_response :: "DiscussChannelMember \<Rightarrow> DiscussChannelMemberResponseDto" where
  "DiscussChannelMember_response e =
     \<lparr>DiscussChannelMemberResponseDto_id = DiscussChannelMember_id e,
      DiscussChannelMemberResponseDto_channel_id = DiscussChannelMember_channel_id e,
      DiscussChannelMemberResponseDto_partner_id = DiscussChannelMember_partner_id e,
      DiscussChannelMemberResponseDto_guest_id = DiscussChannelMember_guest_id e,
      DiscussChannelMemberResponseDto_fold_state = DiscussChannelMember_fold_state e,
      DiscussChannelMemberResponseDto_fetched_message_id = DiscussChannelMember_fetched_message_id e,
      DiscussChannelMemberResponseDto_new_message_separator = DiscussChannelMember_new_message_separator e,
      DiscussChannelMemberResponseDto_custom_notifications = DiscussChannelMember_custom_notifications e,
      DiscussChannelMemberResponseDto_mute_until_dt = DiscussChannelMember_mute_until_dt e,
      DiscussChannelMemberResponseDto_unpin_dt = DiscussChannelMember_unpin_dt e,
      DiscussChannelMemberResponseDto_last_seen_dt = DiscussChannelMember_last_seen_dt e,
      DiscussChannelMemberResponseDto_message_unread_counter = DiscussChannelMember_message_unread_counter e,
      DiscussChannelMemberResponseDto_unread_counter = DiscussChannelMember_unread_counter e,
      DiscussChannelMemberResponseDto_message_follower_counter = DiscussChannelMember_message_follower_counter e,
      DiscussChannelMemberResponseDto_seen_message_id = DiscussChannelMember_seen_message_id e,
      DiscussChannelMemberResponseDto_last_interest_dt = DiscussChannelMember_last_interest_dt e,
      DiscussChannelMemberResponseDto_is_pinned = DiscussChannelMember_is_pinned e,
      DiscussChannelMemberResponseDto_metadata = DiscussChannelMember_metadata e\<rparr>"

definition DiscussChannelMember_from_create :: "CreateDiscussChannelMemberDto \<Rightarrow> uuid \<Rightarrow> DiscussChannelMember" where
  "DiscussChannelMember_from_create d i =
     \<lparr>DiscussChannelMember_id = i,
      DiscussChannelMember_channel_id = CreateDiscussChannelMemberDto_channel_id d,
      DiscussChannelMember_partner_id = CreateDiscussChannelMemberDto_partner_id d,
      DiscussChannelMember_guest_id = CreateDiscussChannelMemberDto_guest_id d,
      DiscussChannelMember_fold_state = CreateDiscussChannelMemberDto_fold_state d,
      DiscussChannelMember_fetched_message_id = CreateDiscussChannelMemberDto_fetched_message_id d,
      DiscussChannelMember_new_message_separator = CreateDiscussChannelMemberDto_new_message_separator d,
      DiscussChannelMember_custom_notifications = CreateDiscussChannelMemberDto_custom_notifications d,
      DiscussChannelMember_mute_until_dt = CreateDiscussChannelMemberDto_mute_until_dt d,
      DiscussChannelMember_unpin_dt = CreateDiscussChannelMemberDto_unpin_dt d,
      DiscussChannelMember_last_seen_dt = CreateDiscussChannelMemberDto_last_seen_dt d,
      DiscussChannelMember_message_unread_counter = CreateDiscussChannelMemberDto_message_unread_counter d,
      DiscussChannelMember_unread_counter = CreateDiscussChannelMemberDto_unread_counter d,
      DiscussChannelMember_message_follower_counter = CreateDiscussChannelMemberDto_message_follower_counter d,
      DiscussChannelMember_seen_message_id = CreateDiscussChannelMemberDto_seen_message_id d,
      DiscussChannelMember_last_interest_dt = CreateDiscussChannelMemberDto_last_interest_dt d,
      DiscussChannelMember_is_pinned = CreateDiscussChannelMemberDto_is_pinned d,
      DiscussChannelMember_metadata = audit_default\<rparr>"

definition DiscussChannelMember_apply_update :: "DiscussChannelMember \<Rightarrow> UpdateDiscussChannelMemberDto \<Rightarrow> DiscussChannelMember" where
  "DiscussChannelMember_apply_update e d =
     e\<lparr>DiscussChannelMember_channel_id := UpdateDiscussChannelMemberDto_channel_id d,
      DiscussChannelMember_partner_id := UpdateDiscussChannelMemberDto_partner_id d,
      DiscussChannelMember_guest_id := UpdateDiscussChannelMemberDto_guest_id d,
      DiscussChannelMember_fold_state := UpdateDiscussChannelMemberDto_fold_state d,
      DiscussChannelMember_fetched_message_id := UpdateDiscussChannelMemberDto_fetched_message_id d,
      DiscussChannelMember_new_message_separator := UpdateDiscussChannelMemberDto_new_message_separator d,
      DiscussChannelMember_custom_notifications := UpdateDiscussChannelMemberDto_custom_notifications d,
      DiscussChannelMember_mute_until_dt := UpdateDiscussChannelMemberDto_mute_until_dt d,
      DiscussChannelMember_unpin_dt := UpdateDiscussChannelMemberDto_unpin_dt d,
      DiscussChannelMember_last_seen_dt := UpdateDiscussChannelMemberDto_last_seen_dt d,
      DiscussChannelMember_message_unread_counter := UpdateDiscussChannelMemberDto_message_unread_counter d,
      DiscussChannelMember_unread_counter := UpdateDiscussChannelMemberDto_unread_counter d,
      DiscussChannelMember_message_follower_counter := UpdateDiscussChannelMemberDto_message_follower_counter d,
      DiscussChannelMember_seen_message_id := UpdateDiscussChannelMemberDto_seen_message_id d,
      DiscussChannelMember_last_interest_dt := UpdateDiscussChannelMemberDto_last_interest_dt d,
      DiscussChannelMember_is_pinned := UpdateDiscussChannelMemberDto_is_pinned d\<rparr>"

definition DiscussChannelMember_to_value :: "encoders \<Rightarrow> DiscussChannelMember \<Rightarrow> json" where
  "DiscussChannelMember_to_value E e = JObject
     [(''id'', en_uuid E (DiscussChannelMember_id e)),
      (''channel_id'', en_uuid E (DiscussChannelMember_channel_id e)),
      (''partner_id'', jopt (en_uuid E) (DiscussChannelMember_partner_id e)),
      (''guest_id'', jopt (en_uuid E) (DiscussChannelMember_guest_id e)),
      (''fold_state'', jopt (\<lambda>x. JString (SidebarFoldState_show x)) (DiscussChannelMember_fold_state e)),
      (''fetched_message_id'', jopt (en_uuid E) (DiscussChannelMember_fetched_message_id e)),
      (''new_message_separator'', jopt (en_uuid E) (DiscussChannelMember_new_message_separator e)),
      (''custom_notifications'', jopt (\<lambda>x. JString (MemberCustomNotifications_show x)) (DiscussChannelMember_custom_notifications e)),
      (''mute_until_dt'', jopt (en_time E) (DiscussChannelMember_mute_until_dt e)),
      (''unpin_dt'', jopt (en_time E) (DiscussChannelMember_unpin_dt e)),
      (''last_seen_dt'', jopt (en_time E) (DiscussChannelMember_last_seen_dt e)),
      (''message_unread_counter'', JNumber (DiscussChannelMember_message_unread_counter e)),
      (''unread_counter'', JNumber (DiscussChannelMember_unread_counter e)),
      (''message_follower_counter'', JNumber (DiscussChannelMember_message_follower_counter e)),
      (''seen_message_id'', jopt (en_uuid E) (DiscussChannelMember_seen_message_id e)),
      (''last_interest_dt'', jopt (en_time E) (DiscussChannelMember_last_interest_dt e)),
      (''is_pinned'', JBool (DiscussChannelMember_is_pinned e)),
      (''metadata'', audit_to_value E (DiscussChannelMember_metadata e))]"

definition DiscussChannelMember_row_rules :: "'v row_rule \<Rightarrow> encoders \<Rightarrow> DiscussChannelMember write_ctx \<Rightarrow> guard_outcome" where
  "DiscussChannelMember_row_rules R E ctx = row_guard (\<lambda>e. Some (DiscussChannelMember_to_value E e)) (\<lambda>create update old row.
      required_rule R ''channel_id'' create update old row @
      (if (create \<or> update) \<and> \<not> rr_holds R (rr_or R (rr_is_not_null R (rr_field R row ''partner_id'')) (rr_is_not_null R (rr_field R row ''guest_id'')))
       then [violation_new ''partner_id'' ''discuss_channel_member_persona_missing''
         (''A channel member must be a partner or a guest (CHECK partner_id IS NOT NULL OR guest_id IS NOT NULL '' @ EM_DASH @ '' fires on raw SQL).'')]
       else [])) ctx"

lemma DiscussChannelMember_apply_update_reach:
  "(\<exists>d. DiscussChannelMember_apply_update e d = e') \<longleftrightarrow>
   DiscussChannelMember_id e' = DiscussChannelMember_id e \<and> DiscussChannelMember_metadata e' = DiscussChannelMember_metadata e"
proof
  assume "DiscussChannelMember_id e' = DiscussChannelMember_id e \<and> DiscussChannelMember_metadata e' = DiscussChannelMember_metadata e"
  then have "DiscussChannelMember_apply_update e \<lparr>UpdateDiscussChannelMemberDto_channel_id = DiscussChannelMember_channel_id e',
      UpdateDiscussChannelMemberDto_partner_id = DiscussChannelMember_partner_id e',
      UpdateDiscussChannelMemberDto_guest_id = DiscussChannelMember_guest_id e',
      UpdateDiscussChannelMemberDto_fold_state = DiscussChannelMember_fold_state e',
      UpdateDiscussChannelMemberDto_fetched_message_id = DiscussChannelMember_fetched_message_id e',
      UpdateDiscussChannelMemberDto_new_message_separator = DiscussChannelMember_new_message_separator e',
      UpdateDiscussChannelMemberDto_custom_notifications = DiscussChannelMember_custom_notifications e',
      UpdateDiscussChannelMemberDto_mute_until_dt = DiscussChannelMember_mute_until_dt e',
      UpdateDiscussChannelMemberDto_unpin_dt = DiscussChannelMember_unpin_dt e',
      UpdateDiscussChannelMemberDto_last_seen_dt = DiscussChannelMember_last_seen_dt e',
      UpdateDiscussChannelMemberDto_message_unread_counter = DiscussChannelMember_message_unread_counter e',
      UpdateDiscussChannelMemberDto_unread_counter = DiscussChannelMember_unread_counter e',
      UpdateDiscussChannelMemberDto_message_follower_counter = DiscussChannelMember_message_follower_counter e',
      UpdateDiscussChannelMemberDto_seen_message_id = DiscussChannelMember_seen_message_id e',
      UpdateDiscussChannelMemberDto_last_interest_dt = DiscussChannelMember_last_interest_dt e',
      UpdateDiscussChannelMemberDto_is_pinned = DiscussChannelMember_is_pinned e'\<rparr> = e'"
    by (cases e; cases e') (simp add: DiscussChannelMember_apply_update_def)
  then show "\<exists>d. DiscussChannelMember_apply_update e d = e'" by blast
qed (auto simp: DiscussChannelMember_apply_update_def)

lemma DiscussChannelMember_response_eq: "DiscussChannelMember_response e = DiscussChannelMember_response e' \<longleftrightarrow> e = e'"
  by (cases e; cases e') (simp add: DiscussChannelMember_response_def)

section \<open>MailGuest\<close>

record CreateMailGuestDto =
  CreateMailGuestDto_name :: string
  CreateMailGuestDto_country_id :: "uuid option"
  CreateMailGuestDto_last_connection_dt :: "time option"
  CreateMailGuestDto_active :: bool

record UpdateMailGuestDto =
  UpdateMailGuestDto_name :: string
  UpdateMailGuestDto_country_id :: "uuid option"
  UpdateMailGuestDto_last_connection_dt :: "time option"
  UpdateMailGuestDto_active :: bool

record MailGuestResponseDto =
  MailGuestResponseDto_id :: uuid
  MailGuestResponseDto_name :: string
  MailGuestResponseDto_country_id :: "uuid option"
  MailGuestResponseDto_last_connection_dt :: "time option"
  MailGuestResponseDto_active :: bool
  MailGuestResponseDto_metadata :: AuditMetadata

definition MailGuest_response :: "MailGuest \<Rightarrow> MailGuestResponseDto" where
  "MailGuest_response e =
     \<lparr>MailGuestResponseDto_id = MailGuest_id e, MailGuestResponseDto_name = MailGuest_name e,
      MailGuestResponseDto_country_id = MailGuest_country_id e,
      MailGuestResponseDto_last_connection_dt = MailGuest_last_connection_dt e,
      MailGuestResponseDto_active = MailGuest_active e, MailGuestResponseDto_metadata = MailGuest_metadata e\<rparr>"

definition MailGuest_from_create :: "CreateMailGuestDto \<Rightarrow> uuid \<Rightarrow> MailGuest" where
  "MailGuest_from_create d i =
     \<lparr>MailGuest_id = i, MailGuest_name = CreateMailGuestDto_name d,
      MailGuest_country_id = CreateMailGuestDto_country_id d,
      MailGuest_last_connection_dt = CreateMailGuestDto_last_connection_dt d,
      MailGuest_active = CreateMailGuestDto_active d, MailGuest_metadata = audit_default\<rparr>"

definition MailGuest_apply_update :: "MailGuest \<Rightarrow> UpdateMailGuestDto \<Rightarrow> MailGuest" where
  "MailGuest_apply_update e d =
     e\<lparr>MailGuest_name := UpdateMailGuestDto_name d, MailGuest_country_id := UpdateMailGuestDto_country_id d,
      MailGuest_last_connection_dt := UpdateMailGuestDto_last_connection_dt d,
      MailGuest_active := UpdateMailGuestDto_active d\<rparr>"

definition MailGuest_to_value :: "encoders \<Rightarrow> MailGuest \<Rightarrow> json" where
  "MailGuest_to_value E e = JObject
     [(''id'', en_uuid E (MailGuest_id e)), (''name'', JString (MailGuest_name e)),
      (''country_id'', jopt (en_uuid E) (MailGuest_country_id e)),
      (''last_connection_dt'', jopt (en_time E) (MailGuest_last_connection_dt e)),
      (''active'', JBool (MailGuest_active e)), (''metadata'', audit_to_value E (MailGuest_metadata e))]"

definition MailGuest_row_rules :: "'v row_rule \<Rightarrow> encoders \<Rightarrow> MailGuest write_ctx \<Rightarrow> guard_outcome" where
  "MailGuest_row_rules R E ctx = row_guard (\<lambda>e. Some (MailGuest_to_value E e)) (\<lambda>create update old row.
      required_rule R ''name'' create update old row) ctx"

lemma MailGuest_apply_update_reach:
  "(\<exists>d. MailGuest_apply_update e d = e') \<longleftrightarrow>
   MailGuest_id e' = MailGuest_id e \<and> MailGuest_metadata e' = MailGuest_metadata e"
proof
  assume "MailGuest_id e' = MailGuest_id e \<and> MailGuest_metadata e' = MailGuest_metadata e"
  then have "MailGuest_apply_update e \<lparr>UpdateMailGuestDto_name = MailGuest_name e', UpdateMailGuestDto_country_id = MailGuest_country_id e',
      UpdateMailGuestDto_last_connection_dt = MailGuest_last_connection_dt e',
      UpdateMailGuestDto_active = MailGuest_active e'\<rparr> = e'"
    by (cases e; cases e') (simp add: MailGuest_apply_update_def)
  then show "\<exists>d. MailGuest_apply_update e d = e'" by blast
qed (auto simp: MailGuest_apply_update_def)

lemma MailGuest_response_eq: "MailGuest_response e = MailGuest_response e' \<longleftrightarrow> e = e'"
  by (cases e; cases e') (simp add: MailGuest_response_def)

section \<open>MailPresence\<close>

record CreateMailPresenceDto =
  CreateMailPresenceDto_user_id :: "uuid option"
  CreateMailPresenceDto_guest_id :: "uuid option"
  CreateMailPresenceDto_last_poll :: "time option"

record UpdateMailPresenceDto =
  UpdateMailPresenceDto_user_id :: "uuid option"
  UpdateMailPresenceDto_guest_id :: "uuid option"
  UpdateMailPresenceDto_status :: MailPresenceStatus
  UpdateMailPresenceDto_last_poll :: "time option"

record MailPresenceResponseDto =
  MailPresenceResponseDto_id :: uuid
  MailPresenceResponseDto_user_id :: "uuid option"
  MailPresenceResponseDto_guest_id :: "uuid option"
  MailPresenceResponseDto_status :: MailPresenceStatus
  MailPresenceResponseDto_last_poll :: "time option"
  MailPresenceResponseDto_metadata :: AuditMetadata

definition MailPresence_response :: "MailPresence \<Rightarrow> MailPresenceResponseDto" where
  "MailPresence_response e =
     \<lparr>MailPresenceResponseDto_id = MailPresence_id e,
      MailPresenceResponseDto_user_id = MailPresence_user_id e,
      MailPresenceResponseDto_guest_id = MailPresence_guest_id e,
      MailPresenceResponseDto_status = MailPresence_status e,
      MailPresenceResponseDto_last_poll = MailPresence_last_poll e,
      MailPresenceResponseDto_metadata = MailPresence_metadata e\<rparr>"

definition MailPresence_from_create :: "CreateMailPresenceDto \<Rightarrow> uuid \<Rightarrow> MailPresence" where
  "MailPresence_from_create d i =
     \<lparr>MailPresence_id = i, MailPresence_user_id = CreateMailPresenceDto_user_id d,
      MailPresence_guest_id = CreateMailPresenceDto_guest_id d, MailPresence_status = MailPresenceStatus.Offline,
      MailPresence_last_poll = CreateMailPresenceDto_last_poll d, MailPresence_metadata = audit_default\<rparr>"

definition MailPresence_apply_update :: "MailPresence \<Rightarrow> UpdateMailPresenceDto \<Rightarrow> MailPresence" where
  "MailPresence_apply_update e d =
     e\<lparr>MailPresence_user_id := UpdateMailPresenceDto_user_id d,
      MailPresence_guest_id := UpdateMailPresenceDto_guest_id d,
      MailPresence_status := UpdateMailPresenceDto_status d,
      MailPresence_last_poll := UpdateMailPresenceDto_last_poll d\<rparr>"

definition MailPresence_to_value :: "encoders \<Rightarrow> MailPresence \<Rightarrow> json" where
  "MailPresence_to_value E e = JObject
     [(''id'', en_uuid E (MailPresence_id e)), (''user_id'', jopt (en_uuid E) (MailPresence_user_id e)),
      (''guest_id'', jopt (en_uuid E) (MailPresence_guest_id e)),
      (''status'', (\<lambda>x. JString (MailPresenceStatus_show x)) (MailPresence_status e)),
      (''last_poll'', jopt (en_time E) (MailPresence_last_poll e)),
      (''metadata'', audit_to_value E (MailPresence_metadata e))]"

definition MailPresence_row_rules :: "'v row_rule \<Rightarrow> encoders \<Rightarrow> MailPresence write_ctx \<Rightarrow> guard_outcome" where
  "MailPresence_row_rules R E ctx = row_guard (\<lambda>e. Some (MailPresence_to_value E e)) (\<lambda>create update old row.
      verbs_only_rule R ''status'' (wc_transition ctx) create update old row) ctx"

lemma MailPresence_apply_update_reach:
  "(\<exists>d. MailPresence_apply_update e d = e') \<longleftrightarrow>
   MailPresence_id e' = MailPresence_id e \<and> MailPresence_metadata e' = MailPresence_metadata e"
proof
  assume "MailPresence_id e' = MailPresence_id e \<and> MailPresence_metadata e' = MailPresence_metadata e"
  then have "MailPresence_apply_update e \<lparr>UpdateMailPresenceDto_user_id = MailPresence_user_id e', UpdateMailPresenceDto_guest_id = MailPresence_guest_id e',
      UpdateMailPresenceDto_status = MailPresence_status e',
      UpdateMailPresenceDto_last_poll = MailPresence_last_poll e'\<rparr> = e'"
    by (cases e; cases e') (simp add: MailPresence_apply_update_def)
  then show "\<exists>d. MailPresence_apply_update e d = e'" by blast
qed (auto simp: MailPresence_apply_update_def)

lemma MailPresence_response_eq: "MailPresence_response e = MailPresence_response e' \<longleftrightarrow> e = e'"
  by (cases e; cases e') (simp add: MailPresence_response_def)

lemma MailPresence_state_guarded:
  assumes "compares_field R" and "wc_kind ctx = WriteKind.Update" "wc_before ctx = Some a" "wc_after ctx = Some b"
    and "wc_transition ctx = None" and "go_refuse (MailPresence_row_rules R E ctx) = []"
  shows "MailPresence_status b = MailPresence_status a"
  using assms(6) unfolding MailPresence_row_rules_def
  by (simp add: row_guard_update [OF assms(2-4) refl refl] assms(5) verbs_only_update [OF assms(1)] json_field_def MailPresence_to_value_def
      mail_presence_status.label_inj)

section \<open>MailFollowers\<close>

record CreateMailFollowersDto =
  CreateMailFollowersDto_res_model :: string
  CreateMailFollowersDto_res_id :: uuid
  CreateMailFollowersDto_partner_id :: "uuid option"
  CreateMailFollowersDto_channel_id :: "uuid option"
  CreateMailFollowersDto_subtype_ids :: "json option"

record UpdateMailFollowersDto =
  UpdateMailFollowersDto_res_model :: string
  UpdateMailFollowersDto_res_id :: uuid
  UpdateMailFollowersDto_partner_id :: "uuid option"
  UpdateMailFollowersDto_channel_id :: "uuid option"
  UpdateMailFollowersDto_subtype_ids :: "json option"

record MailFollowersResponseDto =
  MailFollowersResponseDto_id :: uuid
  MailFollowersResponseDto_res_model :: string
  MailFollowersResponseDto_res_id :: uuid
  MailFollowersResponseDto_partner_id :: "uuid option"
  MailFollowersResponseDto_channel_id :: "uuid option"
  MailFollowersResponseDto_subtype_ids :: "json option"
  MailFollowersResponseDto_metadata :: AuditMetadata

definition MailFollowers_response :: "MailFollowers \<Rightarrow> MailFollowersResponseDto" where
  "MailFollowers_response e =
     \<lparr>MailFollowersResponseDto_id = MailFollowers_id e,
      MailFollowersResponseDto_res_model = MailFollowers_res_model e,
      MailFollowersResponseDto_res_id = MailFollowers_res_id e,
      MailFollowersResponseDto_partner_id = MailFollowers_partner_id e,
      MailFollowersResponseDto_channel_id = MailFollowers_channel_id e,
      MailFollowersResponseDto_subtype_ids = MailFollowers_subtype_ids e,
      MailFollowersResponseDto_metadata = MailFollowers_metadata e\<rparr>"

definition MailFollowers_from_create :: "CreateMailFollowersDto \<Rightarrow> uuid \<Rightarrow> MailFollowers" where
  "MailFollowers_from_create d i =
     \<lparr>MailFollowers_id = i, MailFollowers_res_model = CreateMailFollowersDto_res_model d,
      MailFollowers_res_id = CreateMailFollowersDto_res_id d,
      MailFollowers_partner_id = CreateMailFollowersDto_partner_id d,
      MailFollowers_channel_id = CreateMailFollowersDto_channel_id d,
      MailFollowers_subtype_ids = CreateMailFollowersDto_subtype_ids d, MailFollowers_metadata = audit_default\<rparr>"

definition MailFollowers_apply_update :: "MailFollowers \<Rightarrow> UpdateMailFollowersDto \<Rightarrow> MailFollowers" where
  "MailFollowers_apply_update e d =
     e\<lparr>MailFollowers_res_model := UpdateMailFollowersDto_res_model d,
      MailFollowers_res_id := UpdateMailFollowersDto_res_id d,
      MailFollowers_partner_id := UpdateMailFollowersDto_partner_id d,
      MailFollowers_channel_id := UpdateMailFollowersDto_channel_id d,
      MailFollowers_subtype_ids := UpdateMailFollowersDto_subtype_ids d\<rparr>"

definition MailFollowers_to_value :: "encoders \<Rightarrow> MailFollowers \<Rightarrow> json" where
  "MailFollowers_to_value E e = JObject
     [(''id'', en_uuid E (MailFollowers_id e)), (''res_model'', JString (MailFollowers_res_model e)),
      (''res_id'', en_uuid E (MailFollowers_res_id e)),
      (''partner_id'', jopt (en_uuid E) (MailFollowers_partner_id e)),
      (''channel_id'', jopt (en_uuid E) (MailFollowers_channel_id e)),
      (''subtype_ids'', jopt id (MailFollowers_subtype_ids e)),
      (''metadata'', audit_to_value E (MailFollowers_metadata e))]"

definition MailFollowers_row_rules :: "'v row_rule \<Rightarrow> encoders \<Rightarrow> MailFollowers write_ctx \<Rightarrow> guard_outcome" where
  "MailFollowers_row_rules R E ctx = row_guard (\<lambda>e. Some (MailFollowers_to_value E e)) (\<lambda>create update old row.
      required_rule R ''res_model'' create update old row @
      required_rule R ''res_id'' create update old row) ctx"

lemma MailFollowers_apply_update_reach:
  "(\<exists>d. MailFollowers_apply_update e d = e') \<longleftrightarrow>
   MailFollowers_id e' = MailFollowers_id e \<and> MailFollowers_metadata e' = MailFollowers_metadata e"
proof
  assume "MailFollowers_id e' = MailFollowers_id e \<and> MailFollowers_metadata e' = MailFollowers_metadata e"
  then have "MailFollowers_apply_update e \<lparr>UpdateMailFollowersDto_res_model = MailFollowers_res_model e',
      UpdateMailFollowersDto_res_id = MailFollowers_res_id e',
      UpdateMailFollowersDto_partner_id = MailFollowers_partner_id e',
      UpdateMailFollowersDto_channel_id = MailFollowers_channel_id e',
      UpdateMailFollowersDto_subtype_ids = MailFollowers_subtype_ids e'\<rparr> = e'"
    by (cases e; cases e') (simp add: MailFollowers_apply_update_def)
  then show "\<exists>d. MailFollowers_apply_update e d = e'" by blast
qed (auto simp: MailFollowers_apply_update_def)

lemma MailFollowers_response_eq: "MailFollowers_response e = MailFollowers_response e' \<longleftrightarrow> e = e'"
  by (cases e; cases e') (simp add: MailFollowers_response_def)

end
