(* ===== verification/EntitiesMessages.thy ===== *)
theory EntitiesMessages
  imports RowValues
begin

text \<open>
  The generated entities of \<open>src/domain/entity/\<close>:
  \<open>mail_message\<close>, \<open>mail_message_attachment\<close>, \<open>mail_message_reaction\<close>,
  \<open>mail_message_star\<close>, \<open>mail_message_subtype\<close>, \<open>mail_attachment\<close>,
  \<open>mail_tracking_value\<close>.
  Each has its row, the constructor, the partial update, the builder and the
  tables the repository layer reads.  \<open>i\<close> is the fresh uuid of \<open>Uuid::new_v4()\<close> and \<open>now\<close> the instant of
  \<open>Utc::now()\<close>; the setters and getters of single fields are those of the records.
\<close>

section \<open>MailMessage\<close>

record MailMessage =
  MailMessage_id :: uuid
  MailMessage_subject :: "string option"
  MailMessage_date :: time
  MailMessage_body :: string
  MailMessage_message_type :: MailMessageType
  MailMessage_subtype_id :: "uuid option"
  MailMessage_is_internal :: bool
  MailMessage_author_id :: "uuid option"
  MailMessage_author_guest_id :: "uuid option"
  MailMessage_email_from :: "string option"
  MailMessage_message_id :: "string option"
  MailMessage_reply_to :: "string option"
  MailMessage_model :: "string option"
  MailMessage_res_id :: "uuid option"
  MailMessage_record_name :: "string option"
  MailMessage_moderation_status :: "MailModerationStatus option"
  MailMessage_needaction :: bool
  MailMessage_has_error :: bool
  MailMessage_failure_reason :: "string option"
  MailMessage_rating_value :: "f64 option"
  MailMessage_pinned_at :: "time option"
  MailMessage_metadata :: AuditMetadata

definition MailMessage_new ::
  "time \<Rightarrow> string \<Rightarrow> MailMessageType \<Rightarrow> bool \<Rightarrow> bool \<Rightarrow>
  bool \<Rightarrow> uuid \<Rightarrow> MailMessage" where
  "MailMessage_new date' body' message_type' is_internal' needaction' has_error' i =
     \<lparr>MailMessage_id = i, MailMessage_subject = None, MailMessage_date = date', MailMessage_body = body',
      MailMessage_message_type = message_type', MailMessage_subtype_id = None,
      MailMessage_is_internal = is_internal', MailMessage_author_id = None, MailMessage_author_guest_id = None,
      MailMessage_email_from = None, MailMessage_message_id = None, MailMessage_reply_to = None,
      MailMessage_model = None, MailMessage_res_id = None, MailMessage_record_name = None,
      MailMessage_moderation_status = None, MailMessage_needaction = needaction', MailMessage_has_error = has_error',
      MailMessage_failure_reason = None, MailMessage_rating_value = None, MailMessage_pinned_at = None,
      MailMessage_metadata = audit_default\<rparr>"

definition MailMessage_is_deleted :: "MailMessage \<Rightarrow> bool" where
  "MailMessage_is_deleted e \<longleftrightarrow> am_deleted_at (MailMessage_metadata e) \<noteq> None"

definition MailMessage_is_active :: "MailMessage \<Rightarrow> bool" where
  "MailMessage_is_active e \<longleftrightarrow> am_deleted_at (MailMessage_metadata e) = None"

definition MailMessage_set_entity_id :: "decoders \<Rightarrow> string \<Rightarrow> MailMessage \<Rightarrow> MailMessage" where
  "MailMessage_set_entity_id D s e = patch (parse_uuid D s) (\<lambda>u. e\<lparr>MailMessage_id := u\<rparr>) e"

definition MailMessage_patch_field :: "decoders \<Rightarrow> string \<Rightarrow> json \<Rightarrow> MailMessage \<Rightarrow> MailMessage" where
  "MailMessage_patch_field D k v e =
     (if k = ''subject'' then patch (de_option (read_string D) v) (\<lambda>x. e\<lparr>MailMessage_subject := x\<rparr>) e
      else if k = ''date'' then patch (read_time D v) (\<lambda>x. e\<lparr>MailMessage_date := x\<rparr>) e
      else if k = ''body'' then patch (read_string D v) (\<lambda>x. e\<lparr>MailMessage_body := x\<rparr>) e
      else if k = ''message_type'' then patch (de_enum D (pg_enum_cast MailMessageType_show MailMessageType_from_str) v) (\<lambda>x. e\<lparr>MailMessage_message_type := x\<rparr>) e
      else if k = ''subtype_id'' then patch (de_option (read_uuid D) v) (\<lambda>x. e\<lparr>MailMessage_subtype_id := x\<rparr>) e
      else if k = ''is_internal'' then patch (read_bool D v) (\<lambda>x. e\<lparr>MailMessage_is_internal := x\<rparr>) e
      else if k = ''author_id'' then patch (de_option (read_uuid D) v) (\<lambda>x. e\<lparr>MailMessage_author_id := x\<rparr>) e
      else if k = ''author_guest_id'' then patch (de_option (read_uuid D) v) (\<lambda>x. e\<lparr>MailMessage_author_guest_id := x\<rparr>) e
      else if k = ''email_from'' then patch (de_option (read_string D) v) (\<lambda>x. e\<lparr>MailMessage_email_from := x\<rparr>) e
      else if k = ''message_id'' then patch (de_option (read_string D) v) (\<lambda>x. e\<lparr>MailMessage_message_id := x\<rparr>) e
      else if k = ''reply_to'' then patch (de_option (read_string D) v) (\<lambda>x. e\<lparr>MailMessage_reply_to := x\<rparr>) e
      else if k = ''model'' then patch (de_option (read_string D) v) (\<lambda>x. e\<lparr>MailMessage_model := x\<rparr>) e
      else if k = ''res_id'' then patch (de_option (read_uuid D) v) (\<lambda>x. e\<lparr>MailMessage_res_id := x\<rparr>) e
      else if k = ''record_name'' then patch (de_option (read_string D) v) (\<lambda>x. e\<lparr>MailMessage_record_name := x\<rparr>) e
      else if k = ''moderation_status'' then patch (de_option (de_enum D (pg_enum_cast MailModerationStatus_show MailModerationStatus_from_str)) v) (\<lambda>x. e\<lparr>MailMessage_moderation_status := x\<rparr>) e
      else if k = ''needaction'' then patch (read_bool D v) (\<lambda>x. e\<lparr>MailMessage_needaction := x\<rparr>) e
      else if k = ''has_error'' then patch (read_bool D v) (\<lambda>x. e\<lparr>MailMessage_has_error := x\<rparr>) e
      else if k = ''failure_reason'' then patch (de_option (read_string D) v) (\<lambda>x. e\<lparr>MailMessage_failure_reason := x\<rparr>) e
      else if k = ''rating_value'' then patch (de_option (read_f64 D) v) (\<lambda>x. e\<lparr>MailMessage_rating_value := x\<rparr>) e
      else if k = ''pinned_at'' then patch (de_option (read_time D) v) (\<lambda>x. e\<lparr>MailMessage_pinned_at := x\<rparr>) e
      else e)"

definition MailMessage_apply_patch :: "decoders \<Rightarrow> (string \<times> json) list \<Rightarrow> MailMessage \<Rightarrow> MailMessage" where
  "MailMessage_apply_patch D = patch_all (MailMessage_patch_field D)"

definition MailMessage_write_protected_fields :: "string list" where
  "MailMessage_write_protected_fields = [''moderation_status'']"

definition MailMessage_column_types :: "(string \<times> string) list" where
  "MailMessage_column_types =
    [(''id'', ''uuid''), (''subtype_id'', ''uuid''), (''author_id'', ''uuid''), (''author_guest_id'', ''uuid''),
     (''res_id'', ''uuid''), (''message_type'', ''mail_message_type''),
     (''moderation_status'', ''mail_moderation_status''), (''date'', ''timestamptz''),
     (''pinned_at'', ''timestamptz'')]"

record MailMessageBuilder =
  MailMessageBuilder_subject :: "string option"
  MailMessageBuilder_date :: "time option"
  MailMessageBuilder_body :: "string option"
  MailMessageBuilder_message_type :: "MailMessageType option"
  MailMessageBuilder_subtype_id :: "uuid option"
  MailMessageBuilder_is_internal :: "bool option"
  MailMessageBuilder_author_id :: "uuid option"
  MailMessageBuilder_author_guest_id :: "uuid option"
  MailMessageBuilder_email_from :: "string option"
  MailMessageBuilder_message_id :: "string option"
  MailMessageBuilder_reply_to :: "string option"
  MailMessageBuilder_model :: "string option"
  MailMessageBuilder_res_id :: "uuid option"
  MailMessageBuilder_record_name :: "string option"
  MailMessageBuilder_moderation_status :: "MailModerationStatus option"
  MailMessageBuilder_needaction :: "bool option"
  MailMessageBuilder_has_error :: "bool option"
  MailMessageBuilder_failure_reason :: "string option"
  MailMessageBuilder_rating_value :: "f64 option"
  MailMessageBuilder_pinned_at :: "time option"

definition MailMessage_build :: "MailMessageBuilder \<Rightarrow> uuid \<Rightarrow> time \<Rightarrow> string + MailMessage" where
  "MailMessage_build b i now =
     require ''body'' (MailMessageBuilder_body b) (\<lambda>body'.
     Inr \<lparr>MailMessage_id = i, MailMessage_subject = MailMessageBuilder_subject b,
         MailMessage_date = or_else (MailMessageBuilder_date b) now, MailMessage_body = body',
         MailMessage_message_type = or_else (MailMessageBuilder_message_type b) MailMessageType_default,
         MailMessage_subtype_id = MailMessageBuilder_subtype_id b,
         MailMessage_is_internal = or_else (MailMessageBuilder_is_internal b) False,
         MailMessage_author_id = MailMessageBuilder_author_id b,
         MailMessage_author_guest_id = MailMessageBuilder_author_guest_id b,
         MailMessage_email_from = MailMessageBuilder_email_from b,
         MailMessage_message_id = MailMessageBuilder_message_id b,
         MailMessage_reply_to = MailMessageBuilder_reply_to b, MailMessage_model = MailMessageBuilder_model b,
         MailMessage_res_id = MailMessageBuilder_res_id b,
         MailMessage_record_name = MailMessageBuilder_record_name b,
         MailMessage_moderation_status = MailMessageBuilder_moderation_status b,
         MailMessage_needaction = or_else (MailMessageBuilder_needaction b) False,
         MailMessage_has_error = or_else (MailMessageBuilder_has_error b) False,
         MailMessage_failure_reason = MailMessageBuilder_failure_reason b,
         MailMessage_rating_value = MailMessageBuilder_rating_value b,
         MailMessage_pinned_at = MailMessageBuilder_pinned_at b, MailMessage_metadata = audit_default\<rparr>)"

lemma MailMessage_apply_patch_keeps:
  "MailMessage_id (MailMessage_apply_patch D es e) = MailMessage_id e"
  "MailMessage_metadata (MailMessage_apply_patch D es e) = MailMessage_metadata e"
  unfolding MailMessage_apply_patch_def
  by (rule patch_all_keeps, simp add: MailMessage_patch_field_def
      if_distrib [of MailMessage_id] patch_distrib [of MailMessage_id]
      if_distrib [of MailMessage_metadata] patch_distrib [of MailMessage_metadata])+

lemma MailMessage_build_iff: "(\<exists>e. MailMessage_build b i now = Inr e) \<longleftrightarrow> MailMessageBuilder_body b \<noteq> None"
  by (auto simp: MailMessage_build_def require_Inr)

section \<open>MailMessageAttachment\<close>

record MailMessageAttachment =
  MailMessageAttachment_id :: uuid
  MailMessageAttachment_message_id :: uuid
  MailMessageAttachment_attachment_id :: uuid
  MailMessageAttachment_metadata :: AuditMetadata

definition MailMessageAttachment_new ::
  "uuid \<Rightarrow> uuid \<Rightarrow> uuid \<Rightarrow> MailMessageAttachment" where
  "MailMessageAttachment_new message_id' attachment_id' i =
     \<lparr>MailMessageAttachment_id = i, MailMessageAttachment_message_id = message_id',
      MailMessageAttachment_attachment_id = attachment_id', MailMessageAttachment_metadata = audit_default\<rparr>"

definition MailMessageAttachment_is_deleted :: "MailMessageAttachment \<Rightarrow> bool" where
  "MailMessageAttachment_is_deleted e \<longleftrightarrow> am_deleted_at (MailMessageAttachment_metadata e) \<noteq> None"

definition MailMessageAttachment_is_active :: "MailMessageAttachment \<Rightarrow> bool" where
  "MailMessageAttachment_is_active e \<longleftrightarrow> am_deleted_at (MailMessageAttachment_metadata e) = None"

definition MailMessageAttachment_set_entity_id :: "decoders \<Rightarrow> string \<Rightarrow> MailMessageAttachment \<Rightarrow> MailMessageAttachment" where
  "MailMessageAttachment_set_entity_id D s e = patch (parse_uuid D s) (\<lambda>u. e\<lparr>MailMessageAttachment_id := u\<rparr>) e"

definition MailMessageAttachment_patch_field :: "decoders \<Rightarrow> string \<Rightarrow> json \<Rightarrow> MailMessageAttachment \<Rightarrow> MailMessageAttachment" where
  "MailMessageAttachment_patch_field D k v e =
     (if k = ''message_id'' then patch (read_uuid D v) (\<lambda>x. e\<lparr>MailMessageAttachment_message_id := x\<rparr>) e
      else if k = ''attachment_id'' then patch (read_uuid D v) (\<lambda>x. e\<lparr>MailMessageAttachment_attachment_id := x\<rparr>) e
      else e)"

definition MailMessageAttachment_apply_patch :: "decoders \<Rightarrow> (string \<times> json) list \<Rightarrow> MailMessageAttachment \<Rightarrow> MailMessageAttachment" where
  "MailMessageAttachment_apply_patch D = patch_all (MailMessageAttachment_patch_field D)"

definition MailMessageAttachment_column_types :: "(string \<times> string) list" where
  "MailMessageAttachment_column_types =
    [(''id'', ''uuid''), (''message_id'', ''uuid''), (''attachment_id'', ''uuid'')]"

record MailMessageAttachmentBuilder =
  MailMessageAttachmentBuilder_message_id :: "uuid option"
  MailMessageAttachmentBuilder_attachment_id :: "uuid option"

definition MailMessageAttachment_build :: "MailMessageAttachmentBuilder \<Rightarrow> uuid \<Rightarrow> time \<Rightarrow> string + MailMessageAttachment" where
  "MailMessageAttachment_build b i now =
     require ''message_id'' (MailMessageAttachmentBuilder_message_id b) (\<lambda>message_id'.
     require ''attachment_id'' (MailMessageAttachmentBuilder_attachment_id b) (\<lambda>attachment_id'.
     Inr \<lparr>MailMessageAttachment_id = i, MailMessageAttachment_message_id = message_id',
         MailMessageAttachment_attachment_id = attachment_id', MailMessageAttachment_metadata = audit_default\<rparr>))"

lemma MailMessageAttachment_apply_patch_keeps:
  "MailMessageAttachment_id (MailMessageAttachment_apply_patch D es e) = MailMessageAttachment_id e"
  "MailMessageAttachment_metadata (MailMessageAttachment_apply_patch D es e) = MailMessageAttachment_metadata e"

        unfolding MailMessageAttachment_apply_patch_def
  by (rule patch_all_keeps, simp add: MailMessageAttachment_patch_field_def
      if_distrib [of MailMessageAttachment_id] patch_distrib [of MailMessageAttachment_id]
      if_distrib [of MailMessageAttachment_metadata] patch_distrib [of MailMessageAttachment_metadata])+

lemma MailMessageAttachment_build_iff: "(\<exists>e. MailMessageAttachment_build b i now = Inr e) \<longleftrightarrow> MailMessageAttachmentBuilder_message_id b \<noteq> None \<and> MailMessageAttachmentBuilder_attachment_id b \<noteq> None"
  by (auto simp: MailMessageAttachment_build_def require_Inr)

section \<open>MailMessageReaction\<close>

record MailMessageReaction =
  MailMessageReaction_id :: uuid
  MailMessageReaction_message_id :: uuid
  MailMessageReaction_content :: string
  MailMessageReaction_partner_id :: "uuid option"
  MailMessageReaction_guest_id :: "uuid option"
  MailMessageReaction_metadata :: AuditMetadata

definition MailMessageReaction_new ::
  "uuid \<Rightarrow> string \<Rightarrow> uuid \<Rightarrow> MailMessageReaction" where
  "MailMessageReaction_new message_id' content' i =
     \<lparr>MailMessageReaction_id = i, MailMessageReaction_message_id = message_id',
      MailMessageReaction_content = content', MailMessageReaction_partner_id = None,
      MailMessageReaction_guest_id = None, MailMessageReaction_metadata = audit_default\<rparr>"

definition MailMessageReaction_is_deleted :: "MailMessageReaction \<Rightarrow> bool" where
  "MailMessageReaction_is_deleted e \<longleftrightarrow> am_deleted_at (MailMessageReaction_metadata e) \<noteq> None"

definition MailMessageReaction_is_active :: "MailMessageReaction \<Rightarrow> bool" where
  "MailMessageReaction_is_active e \<longleftrightarrow> am_deleted_at (MailMessageReaction_metadata e) = None"

definition MailMessageReaction_set_entity_id :: "decoders \<Rightarrow> string \<Rightarrow> MailMessageReaction \<Rightarrow> MailMessageReaction" where
  "MailMessageReaction_set_entity_id D s e = patch (parse_uuid D s) (\<lambda>u. e\<lparr>MailMessageReaction_id := u\<rparr>) e"

definition MailMessageReaction_patch_field :: "decoders \<Rightarrow> string \<Rightarrow> json \<Rightarrow> MailMessageReaction \<Rightarrow> MailMessageReaction" where
  "MailMessageReaction_patch_field D k v e =
     (if k = ''message_id'' then patch (read_uuid D v) (\<lambda>x. e\<lparr>MailMessageReaction_message_id := x\<rparr>) e
      else if k = ''content'' then patch (read_string D v) (\<lambda>x. e\<lparr>MailMessageReaction_content := x\<rparr>) e
      else if k = ''partner_id'' then patch (de_option (read_uuid D) v) (\<lambda>x. e\<lparr>MailMessageReaction_partner_id := x\<rparr>) e
      else if k = ''guest_id'' then patch (de_option (read_uuid D) v) (\<lambda>x. e\<lparr>MailMessageReaction_guest_id := x\<rparr>) e
      else e)"

definition MailMessageReaction_apply_patch :: "decoders \<Rightarrow> (string \<times> json) list \<Rightarrow> MailMessageReaction \<Rightarrow> MailMessageReaction" where
  "MailMessageReaction_apply_patch D = patch_all (MailMessageReaction_patch_field D)"

definition MailMessageReaction_column_types :: "(string \<times> string) list" where
  "MailMessageReaction_column_types =
    [(''id'', ''uuid''), (''message_id'', ''uuid''), (''partner_id'', ''uuid''), (''guest_id'', ''uuid'')]"

record MailMessageReactionBuilder =
  MailMessageReactionBuilder_message_id :: "uuid option"
  MailMessageReactionBuilder_content :: "string option"
  MailMessageReactionBuilder_partner_id :: "uuid option"
  MailMessageReactionBuilder_guest_id :: "uuid option"

definition MailMessageReaction_build :: "MailMessageReactionBuilder \<Rightarrow> uuid \<Rightarrow> time \<Rightarrow> string + MailMessageReaction" where
  "MailMessageReaction_build b i now =
     require ''message_id'' (MailMessageReactionBuilder_message_id b) (\<lambda>message_id'.
     require ''content'' (MailMessageReactionBuilder_content b) (\<lambda>content'.
     Inr \<lparr>MailMessageReaction_id = i, MailMessageReaction_message_id = message_id',
         MailMessageReaction_content = content',
         MailMessageReaction_partner_id = MailMessageReactionBuilder_partner_id b,
         MailMessageReaction_guest_id = MailMessageReactionBuilder_guest_id b,
         MailMessageReaction_metadata = audit_default\<rparr>))"

lemma MailMessageReaction_apply_patch_keeps:
  "MailMessageReaction_id (MailMessageReaction_apply_patch D es e) = MailMessageReaction_id e"
  "MailMessageReaction_metadata (MailMessageReaction_apply_patch D es e) = MailMessageReaction_metadata e"

        unfolding MailMessageReaction_apply_patch_def
  by (rule patch_all_keeps, simp add: MailMessageReaction_patch_field_def
      if_distrib [of MailMessageReaction_id] patch_distrib [of MailMessageReaction_id]
      if_distrib [of MailMessageReaction_metadata] patch_distrib [of MailMessageReaction_metadata])+

lemma MailMessageReaction_build_iff: "(\<exists>e. MailMessageReaction_build b i now = Inr e) \<longleftrightarrow> MailMessageReactionBuilder_message_id b \<noteq> None \<and> MailMessageReactionBuilder_content b \<noteq> None"
  by (auto simp: MailMessageReaction_build_def require_Inr)

section \<open>MailMessageStar\<close>

record MailMessageStar =
  MailMessageStar_id :: uuid
  MailMessageStar_partner_id :: uuid
  MailMessageStar_message_id :: uuid
  MailMessageStar_metadata :: AuditMetadata

definition MailMessageStar_new ::
  "uuid \<Rightarrow> uuid \<Rightarrow> uuid \<Rightarrow> MailMessageStar" where
  "MailMessageStar_new partner_id' message_id' i =
     \<lparr>MailMessageStar_id = i, MailMessageStar_partner_id = partner_id',
      MailMessageStar_message_id = message_id', MailMessageStar_metadata = audit_default\<rparr>"

definition MailMessageStar_is_deleted :: "MailMessageStar \<Rightarrow> bool" where
  "MailMessageStar_is_deleted e \<longleftrightarrow> am_deleted_at (MailMessageStar_metadata e) \<noteq> None"

definition MailMessageStar_is_active :: "MailMessageStar \<Rightarrow> bool" where
  "MailMessageStar_is_active e \<longleftrightarrow> am_deleted_at (MailMessageStar_metadata e) = None"

definition MailMessageStar_set_entity_id :: "decoders \<Rightarrow> string \<Rightarrow> MailMessageStar \<Rightarrow> MailMessageStar" where
  "MailMessageStar_set_entity_id D s e = patch (parse_uuid D s) (\<lambda>u. e\<lparr>MailMessageStar_id := u\<rparr>) e"

definition MailMessageStar_patch_field :: "decoders \<Rightarrow> string \<Rightarrow> json \<Rightarrow> MailMessageStar \<Rightarrow> MailMessageStar" where
  "MailMessageStar_patch_field D k v e =
     (if k = ''partner_id'' then patch (read_uuid D v) (\<lambda>x. e\<lparr>MailMessageStar_partner_id := x\<rparr>) e
      else if k = ''message_id'' then patch (read_uuid D v) (\<lambda>x. e\<lparr>MailMessageStar_message_id := x\<rparr>) e
      else e)"

definition MailMessageStar_apply_patch :: "decoders \<Rightarrow> (string \<times> json) list \<Rightarrow> MailMessageStar \<Rightarrow> MailMessageStar" where
  "MailMessageStar_apply_patch D = patch_all (MailMessageStar_patch_field D)"

definition MailMessageStar_column_types :: "(string \<times> string) list" where
  "MailMessageStar_column_types =
    [(''id'', ''uuid''), (''partner_id'', ''uuid''), (''message_id'', ''uuid'')]"

record MailMessageStarBuilder =
  MailMessageStarBuilder_partner_id :: "uuid option"
  MailMessageStarBuilder_message_id :: "uuid option"

definition MailMessageStar_build :: "MailMessageStarBuilder \<Rightarrow> uuid \<Rightarrow> time \<Rightarrow> string + MailMessageStar" where
  "MailMessageStar_build b i now =
     require ''partner_id'' (MailMessageStarBuilder_partner_id b) (\<lambda>partner_id'.
     require ''message_id'' (MailMessageStarBuilder_message_id b) (\<lambda>message_id'.
     Inr \<lparr>MailMessageStar_id = i, MailMessageStar_partner_id = partner_id',
         MailMessageStar_message_id = message_id', MailMessageStar_metadata = audit_default\<rparr>))"

lemma MailMessageStar_apply_patch_keeps:
  "MailMessageStar_id (MailMessageStar_apply_patch D es e) = MailMessageStar_id e"
  "MailMessageStar_metadata (MailMessageStar_apply_patch D es e) = MailMessageStar_metadata e"
  unfolding MailMessageStar_apply_patch_def
  by (rule patch_all_keeps, simp add: MailMessageStar_patch_field_def
      if_distrib [of MailMessageStar_id] patch_distrib [of MailMessageStar_id]
      if_distrib [of MailMessageStar_metadata] patch_distrib [of MailMessageStar_metadata])+

lemma MailMessageStar_build_iff: "(\<exists>e. MailMessageStar_build b i now = Inr e) \<longleftrightarrow> MailMessageStarBuilder_partner_id b \<noteq> None \<and> MailMessageStarBuilder_message_id b \<noteq> None"
  by (auto simp: MailMessageStar_build_def require_Inr)

section \<open>MailMessageSubtype\<close>

record MailMessageSubtype =
  MailMessageSubtype_id :: uuid
  MailMessageSubtype_name :: string
  MailMessageSubtype_description :: "string option"
  MailMessageSubtype_internal :: bool
  MailMessageSubtype_parent_id :: "uuid option"
  MailMessageSubtype_relation_field :: "string option"
  MailMessageSubtype_res_model :: "string option"
  MailMessageSubtype_default :: bool
  MailMessageSubtype_hidden :: bool
  MailMessageSubtype_tracked :: bool
  MailMessageSubtype_metadata :: AuditMetadata

definition MailMessageSubtype_new ::
  "string \<Rightarrow> bool \<Rightarrow> bool \<Rightarrow> bool \<Rightarrow> bool \<Rightarrow>
  uuid \<Rightarrow> MailMessageSubtype" where
  "MailMessageSubtype_new name' internal' default' hidden' tracked' i =
     \<lparr>MailMessageSubtype_id = i, MailMessageSubtype_name = name', MailMessageSubtype_description = None,
      MailMessageSubtype_internal = internal', MailMessageSubtype_parent_id = None,
      MailMessageSubtype_relation_field = None, MailMessageSubtype_res_model = None,
      MailMessageSubtype_default = default', MailMessageSubtype_hidden = hidden',
      MailMessageSubtype_tracked = tracked', MailMessageSubtype_metadata = audit_default\<rparr>"

definition MailMessageSubtype_is_deleted :: "MailMessageSubtype \<Rightarrow> bool" where
  "MailMessageSubtype_is_deleted e \<longleftrightarrow> am_deleted_at (MailMessageSubtype_metadata e) \<noteq> None"

definition MailMessageSubtype_is_active :: "MailMessageSubtype \<Rightarrow> bool" where
  "MailMessageSubtype_is_active e \<longleftrightarrow> am_deleted_at (MailMessageSubtype_metadata e) = None"

definition MailMessageSubtype_set_entity_id :: "decoders \<Rightarrow> string \<Rightarrow> MailMessageSubtype \<Rightarrow> MailMessageSubtype" where
  "MailMessageSubtype_set_entity_id D s e = patch (parse_uuid D s) (\<lambda>u. e\<lparr>MailMessageSubtype_id := u\<rparr>) e"

definition MailMessageSubtype_patch_field :: "decoders \<Rightarrow> string \<Rightarrow> json \<Rightarrow> MailMessageSubtype \<Rightarrow> MailMessageSubtype" where
  "MailMessageSubtype_patch_field D k v e =
     (if k = ''name'' then patch (read_string D v) (\<lambda>x. e\<lparr>MailMessageSubtype_name := x\<rparr>) e
      else if k = ''description'' then patch (de_option (read_string D) v) (\<lambda>x. e\<lparr>MailMessageSubtype_description := x\<rparr>) e
      else if k = ''internal'' then patch (read_bool D v) (\<lambda>x. e\<lparr>MailMessageSubtype_internal := x\<rparr>) e
      else if k = ''parent_id'' then patch (de_option (read_uuid D) v) (\<lambda>x. e\<lparr>MailMessageSubtype_parent_id := x\<rparr>) e
      else if k = ''relation_field'' then patch (de_option (read_string D) v) (\<lambda>x. e\<lparr>MailMessageSubtype_relation_field := x\<rparr>) e
      else if k = ''res_model'' then patch (de_option (read_string D) v) (\<lambda>x. e\<lparr>MailMessageSubtype_res_model := x\<rparr>) e
      else if k = ''default'' then patch (read_bool D v) (\<lambda>x. e\<lparr>MailMessageSubtype_default := x\<rparr>) e
      else if k = ''hidden'' then patch (read_bool D v) (\<lambda>x. e\<lparr>MailMessageSubtype_hidden := x\<rparr>) e
      else if k = ''tracked'' then patch (read_bool D v) (\<lambda>x. e\<lparr>MailMessageSubtype_tracked := x\<rparr>) e
      else e)"

definition MailMessageSubtype_apply_patch :: "decoders \<Rightarrow> (string \<times> json) list \<Rightarrow> MailMessageSubtype \<Rightarrow> MailMessageSubtype" where
  "MailMessageSubtype_apply_patch D = patch_all (MailMessageSubtype_patch_field D)"

definition MailMessageSubtype_column_types :: "(string \<times> string) list" where
  "MailMessageSubtype_column_types =
    [(''id'', ''uuid''), (''parent_id'', ''uuid'')]"

record MailMessageSubtypeBuilder =
  MailMessageSubtypeBuilder_name :: "string option"
  MailMessageSubtypeBuilder_description :: "string option"
  MailMessageSubtypeBuilder_internal :: "bool option"
  MailMessageSubtypeBuilder_parent_id :: "uuid option"
  MailMessageSubtypeBuilder_relation_field :: "string option"
  MailMessageSubtypeBuilder_res_model :: "string option"
  MailMessageSubtypeBuilder_default :: "bool option"
  MailMessageSubtypeBuilder_hidden :: "bool option"
  MailMessageSubtypeBuilder_tracked :: "bool option"

definition MailMessageSubtype_build :: "MailMessageSubtypeBuilder \<Rightarrow> uuid \<Rightarrow> time \<Rightarrow> string + MailMessageSubtype" where
  "MailMessageSubtype_build b i now =
     require ''name'' (MailMessageSubtypeBuilder_name b) (\<lambda>name'.
     Inr \<lparr>MailMessageSubtype_id = i, MailMessageSubtype_name = name',
         MailMessageSubtype_description = MailMessageSubtypeBuilder_description b,
         MailMessageSubtype_internal = or_else (MailMessageSubtypeBuilder_internal b) False,
         MailMessageSubtype_parent_id = MailMessageSubtypeBuilder_parent_id b,
         MailMessageSubtype_relation_field = MailMessageSubtypeBuilder_relation_field b,
         MailMessageSubtype_res_model = MailMessageSubtypeBuilder_res_model b,
         MailMessageSubtype_default = or_else (MailMessageSubtypeBuilder_default b) False,
         MailMessageSubtype_hidden = or_else (MailMessageSubtypeBuilder_hidden b) False,
         MailMessageSubtype_tracked = or_else (MailMessageSubtypeBuilder_tracked b) False,
         MailMessageSubtype_metadata = audit_default\<rparr>)"

lemma MailMessageSubtype_apply_patch_keeps:
  "MailMessageSubtype_id (MailMessageSubtype_apply_patch D es e) = MailMessageSubtype_id e"
  "MailMessageSubtype_metadata (MailMessageSubtype_apply_patch D es e) = MailMessageSubtype_metadata e"

        unfolding MailMessageSubtype_apply_patch_def
  by (rule patch_all_keeps, simp add: MailMessageSubtype_patch_field_def
      if_distrib [of MailMessageSubtype_id] patch_distrib [of MailMessageSubtype_id]
      if_distrib [of MailMessageSubtype_metadata] patch_distrib [of MailMessageSubtype_metadata])+

lemma MailMessageSubtype_build_iff: "(\<exists>e. MailMessageSubtype_build b i now = Inr e) \<longleftrightarrow> MailMessageSubtypeBuilder_name b \<noteq> None"
  by (auto simp: MailMessageSubtype_build_def require_Inr)

section \<open>MailAttachment\<close>

record MailAttachment =
  MailAttachment_id :: uuid
  MailAttachment_name :: string
  MailAttachment_mimetype :: "string option"
  MailAttachment_size :: "int option"
  MailAttachment_datas :: "string option"
  MailAttachment_checksum :: "string option"
  MailAttachment_access_token :: "uuid option"
  MailAttachment_owner_party_id :: "uuid option"
  MailAttachment_owner_guest_id :: "uuid option"
  MailAttachment_metadata :: AuditMetadata

definition MailAttachment_new ::
  "string \<Rightarrow> uuid \<Rightarrow> MailAttachment" where
  "MailAttachment_new name' i =
     \<lparr>MailAttachment_id = i, MailAttachment_name = name', MailAttachment_mimetype = None,
      MailAttachment_size = None, MailAttachment_datas = None, MailAttachment_checksum = None,
      MailAttachment_access_token = None, MailAttachment_owner_party_id = None, MailAttachment_owner_guest_id = None,
      MailAttachment_metadata = audit_default\<rparr>"

definition MailAttachment_is_deleted :: "MailAttachment \<Rightarrow> bool" where
  "MailAttachment_is_deleted e \<longleftrightarrow> am_deleted_at (MailAttachment_metadata e) \<noteq> None"

definition MailAttachment_is_active :: "MailAttachment \<Rightarrow> bool" where
  "MailAttachment_is_active e \<longleftrightarrow> am_deleted_at (MailAttachment_metadata e) = None"

definition MailAttachment_set_entity_id :: "decoders \<Rightarrow> string \<Rightarrow> MailAttachment \<Rightarrow> MailAttachment" where
  "MailAttachment_set_entity_id D s e = patch (parse_uuid D s) (\<lambda>u. e\<lparr>MailAttachment_id := u\<rparr>) e"

definition MailAttachment_patch_field :: "decoders \<Rightarrow> string \<Rightarrow> json \<Rightarrow> MailAttachment \<Rightarrow> MailAttachment" where
  "MailAttachment_patch_field D k v e =
     (if k = ''name'' then patch (read_string D v) (\<lambda>x. e\<lparr>MailAttachment_name := x\<rparr>) e
      else if k = ''mimetype'' then patch (de_option (read_string D) v) (\<lambda>x. e\<lparr>MailAttachment_mimetype := x\<rparr>) e
      else if k = ''size'' then patch (de_option (read_i32 D) v) (\<lambda>x. e\<lparr>MailAttachment_size := x\<rparr>) e
      else if k = ''datas'' then patch (de_option (read_string D) v) (\<lambda>x. e\<lparr>MailAttachment_datas := x\<rparr>) e
      else if k = ''checksum'' then patch (de_option (read_string D) v) (\<lambda>x. e\<lparr>MailAttachment_checksum := x\<rparr>) e
      else if k = ''access_token'' then patch (de_option (read_uuid D) v) (\<lambda>x. e\<lparr>MailAttachment_access_token := x\<rparr>) e
      else if k = ''owner_party_id'' then patch (de_option (read_uuid D) v) (\<lambda>x. e\<lparr>MailAttachment_owner_party_id := x\<rparr>) e
      else if k = ''owner_guest_id'' then patch (de_option (read_uuid D) v) (\<lambda>x. e\<lparr>MailAttachment_owner_guest_id := x\<rparr>) e
      else e)"

definition MailAttachment_apply_patch :: "decoders \<Rightarrow> (string \<times> json) list \<Rightarrow> MailAttachment \<Rightarrow> MailAttachment" where
  "MailAttachment_apply_patch D = patch_all (MailAttachment_patch_field D)"

definition MailAttachment_write_protected_fields :: "string list" where
  "MailAttachment_write_protected_fields = [''access_token'']"

definition MailAttachment_secret_fields :: "string list" where
  "MailAttachment_secret_fields = [''accessToken'']"

definition MailAttachment_column_types :: "(string \<times> string) list" where
  "MailAttachment_column_types =
    [(''id'', ''uuid''), (''owner_party_id'', ''uuid''), (''owner_guest_id'', ''uuid'')]"

record MailAttachmentBuilder =
  MailAttachmentBuilder_name :: "string option"
  MailAttachmentBuilder_mimetype :: "string option"
  MailAttachmentBuilder_size :: "int option"
  MailAttachmentBuilder_datas :: "string option"
  MailAttachmentBuilder_checksum :: "string option"
  MailAttachmentBuilder_access_token :: "uuid option"
  MailAttachmentBuilder_owner_party_id :: "uuid option"
  MailAttachmentBuilder_owner_guest_id :: "uuid option"

definition MailAttachment_build :: "MailAttachmentBuilder \<Rightarrow> uuid \<Rightarrow> time \<Rightarrow> string + MailAttachment" where
  "MailAttachment_build b i now =
     require ''name'' (MailAttachmentBuilder_name b) (\<lambda>name'.
     Inr \<lparr>MailAttachment_id = i, MailAttachment_name = name',
         MailAttachment_mimetype = MailAttachmentBuilder_mimetype b,
         MailAttachment_size = MailAttachmentBuilder_size b, MailAttachment_datas = MailAttachmentBuilder_datas b,
         MailAttachment_checksum = MailAttachmentBuilder_checksum b,
         MailAttachment_access_token = MailAttachmentBuilder_access_token b,
         MailAttachment_owner_party_id = MailAttachmentBuilder_owner_party_id b,
         MailAttachment_owner_guest_id = MailAttachmentBuilder_owner_guest_id b,
         MailAttachment_metadata = audit_default\<rparr>)"

lemma MailAttachment_apply_patch_keeps:
  "MailAttachment_id (MailAttachment_apply_patch D es e) = MailAttachment_id e"
  "MailAttachment_metadata (MailAttachment_apply_patch D es e) = MailAttachment_metadata e"
  unfolding MailAttachment_apply_patch_def
  by (rule patch_all_keeps, simp add: MailAttachment_patch_field_def
      if_distrib [of MailAttachment_id] patch_distrib [of MailAttachment_id]
      if_distrib [of MailAttachment_metadata] patch_distrib [of MailAttachment_metadata])+

lemma MailAttachment_build_iff: "(\<exists>e. MailAttachment_build b i now = Inr e) \<longleftrightarrow> MailAttachmentBuilder_name b \<noteq> None"
  by (auto simp: MailAttachment_build_def require_Inr)

section \<open>MailTrackingValue\<close>

record MailTrackingValue =
  MailTrackingValue_id :: uuid
  MailTrackingValue_mail_message_id :: uuid
  MailTrackingValue_field :: string
  MailTrackingValue_field_desc :: "string option"
  MailTrackingValue_field_type :: "string option"
  MailTrackingValue_old_value_integer :: "int option"
  MailTrackingValue_old_value_float :: "f64 option"
  MailTrackingValue_old_value_text :: "string option"
  MailTrackingValue_old_value_datetime :: "time option"
  MailTrackingValue_new_value_integer :: "int option"
  MailTrackingValue_new_value_float :: "f64 option"
  MailTrackingValue_new_value_text :: "string option"
  MailTrackingValue_new_value_datetime :: "time option"
  MailTrackingValue_currency_id :: "uuid option"
  MailTrackingValue_metadata :: AuditMetadata

definition MailTrackingValue_new ::
  "uuid \<Rightarrow> string \<Rightarrow> uuid \<Rightarrow> MailTrackingValue" where
  "MailTrackingValue_new mail_message_id' field' i =
     \<lparr>MailTrackingValue_id = i, MailTrackingValue_mail_message_id = mail_message_id',
      MailTrackingValue_field = field', MailTrackingValue_field_desc = None, MailTrackingValue_field_type = None,
      MailTrackingValue_old_value_integer = None, MailTrackingValue_old_value_float = None,
      MailTrackingValue_old_value_text = None, MailTrackingValue_old_value_datetime = None,
      MailTrackingValue_new_value_integer = None, MailTrackingValue_new_value_float = None,
      MailTrackingValue_new_value_text = None, MailTrackingValue_new_value_datetime = None,
      MailTrackingValue_currency_id = None, MailTrackingValue_metadata = audit_default\<rparr>"

definition MailTrackingValue_is_deleted :: "MailTrackingValue \<Rightarrow> bool" where
  "MailTrackingValue_is_deleted e \<longleftrightarrow> am_deleted_at (MailTrackingValue_metadata e) \<noteq> None"

definition MailTrackingValue_is_active :: "MailTrackingValue \<Rightarrow> bool" where
  "MailTrackingValue_is_active e \<longleftrightarrow> am_deleted_at (MailTrackingValue_metadata e) = None"

definition MailTrackingValue_set_entity_id :: "decoders \<Rightarrow> string \<Rightarrow> MailTrackingValue \<Rightarrow> MailTrackingValue" where
  "MailTrackingValue_set_entity_id D s e = patch (parse_uuid D s) (\<lambda>u. e\<lparr>MailTrackingValue_id := u\<rparr>) e"

definition MailTrackingValue_patch_field :: "decoders \<Rightarrow> string \<Rightarrow> json \<Rightarrow> MailTrackingValue \<Rightarrow> MailTrackingValue" where
  "MailTrackingValue_patch_field D k v e =
     (if k = ''mail_message_id'' then patch (read_uuid D v) (\<lambda>x. e\<lparr>MailTrackingValue_mail_message_id := x\<rparr>) e
      else if k = ''field'' then patch (read_string D v) (\<lambda>x. e\<lparr>MailTrackingValue_field := x\<rparr>) e
      else if k = ''field_desc'' then patch (de_option (read_string D) v) (\<lambda>x. e\<lparr>MailTrackingValue_field_desc := x\<rparr>) e
      else if k = ''field_type'' then patch (de_option (read_string D) v) (\<lambda>x. e\<lparr>MailTrackingValue_field_type := x\<rparr>) e
      else if k = ''old_value_integer'' then patch (de_option (read_i32 D) v) (\<lambda>x. e\<lparr>MailTrackingValue_old_value_integer := x\<rparr>) e
      else if k = ''old_value_float'' then patch (de_option (read_f64 D) v) (\<lambda>x. e\<lparr>MailTrackingValue_old_value_float := x\<rparr>) e
      else if k = ''old_value_text'' then patch (de_option (read_string D) v) (\<lambda>x. e\<lparr>MailTrackingValue_old_value_text := x\<rparr>) e
      else if k = ''old_value_datetime'' then patch (de_option (read_time D) v) (\<lambda>x. e\<lparr>MailTrackingValue_old_value_datetime := x\<rparr>) e
      else if k = ''new_value_integer'' then patch (de_option (read_i32 D) v) (\<lambda>x. e\<lparr>MailTrackingValue_new_value_integer := x\<rparr>) e
      else if k = ''new_value_float'' then patch (de_option (read_f64 D) v) (\<lambda>x. e\<lparr>MailTrackingValue_new_value_float := x\<rparr>) e
      else if k = ''new_value_text'' then patch (de_option (read_string D) v) (\<lambda>x. e\<lparr>MailTrackingValue_new_value_text := x\<rparr>) e
      else if k = ''new_value_datetime'' then patch (de_option (read_time D) v) (\<lambda>x. e\<lparr>MailTrackingValue_new_value_datetime := x\<rparr>) e
      else if k = ''currency_id'' then patch (de_option (read_uuid D) v) (\<lambda>x. e\<lparr>MailTrackingValue_currency_id := x\<rparr>) e
      else e)"

definition MailTrackingValue_apply_patch :: "decoders \<Rightarrow> (string \<times> json) list \<Rightarrow> MailTrackingValue \<Rightarrow> MailTrackingValue" where
  "MailTrackingValue_apply_patch D = patch_all (MailTrackingValue_patch_field D)"

definition MailTrackingValue_column_types :: "(string \<times> string) list" where
  "MailTrackingValue_column_types =
    [(''id'', ''uuid''), (''mail_message_id'', ''uuid''), (''currency_id'', ''uuid''),
     (''old_value_datetime'', ''timestamptz''), (''new_value_datetime'', ''timestamptz'')]"

record MailTrackingValueBuilder =
  MailTrackingValueBuilder_mail_message_id :: "uuid option"
  MailTrackingValueBuilder_field :: "string option"
  MailTrackingValueBuilder_field_desc :: "string option"
  MailTrackingValueBuilder_field_type :: "string option"
  MailTrackingValueBuilder_old_value_integer :: "int option"
  MailTrackingValueBuilder_old_value_float :: "f64 option"
  MailTrackingValueBuilder_old_value_text :: "string option"
  MailTrackingValueBuilder_old_value_datetime :: "time option"
  MailTrackingValueBuilder_new_value_integer :: "int option"
  MailTrackingValueBuilder_new_value_float :: "f64 option"
  MailTrackingValueBuilder_new_value_text :: "string option"
  MailTrackingValueBuilder_new_value_datetime :: "time option"
  MailTrackingValueBuilder_currency_id :: "uuid option"

definition MailTrackingValue_build :: "MailTrackingValueBuilder \<Rightarrow> uuid \<Rightarrow> time \<Rightarrow> string + MailTrackingValue" where
  "MailTrackingValue_build b i now =
     require ''mail_message_id'' (MailTrackingValueBuilder_mail_message_id b) (\<lambda>mail_message_id'.
     require ''field'' (MailTrackingValueBuilder_field b) (\<lambda>field'.
     Inr \<lparr>MailTrackingValue_id = i, MailTrackingValue_mail_message_id = mail_message_id',
         MailTrackingValue_field = field', MailTrackingValue_field_desc = MailTrackingValueBuilder_field_desc b,
         MailTrackingValue_field_type = MailTrackingValueBuilder_field_type b,
         MailTrackingValue_old_value_integer = MailTrackingValueBuilder_old_value_integer b,
         MailTrackingValue_old_value_float = MailTrackingValueBuilder_old_value_float b,
         MailTrackingValue_old_value_text = MailTrackingValueBuilder_old_value_text b,
         MailTrackingValue_old_value_datetime = MailTrackingValueBuilder_old_value_datetime b,
         MailTrackingValue_new_value_integer = MailTrackingValueBuilder_new_value_integer b,
         MailTrackingValue_new_value_float = MailTrackingValueBuilder_new_value_float b,
         MailTrackingValue_new_value_text = MailTrackingValueBuilder_new_value_text b,
         MailTrackingValue_new_value_datetime = MailTrackingValueBuilder_new_value_datetime b,
         MailTrackingValue_currency_id = MailTrackingValueBuilder_currency_id b,
         MailTrackingValue_metadata = audit_default\<rparr>))"

lemma MailTrackingValue_apply_patch_keeps:
  "MailTrackingValue_id (MailTrackingValue_apply_patch D es e) = MailTrackingValue_id e"
  "MailTrackingValue_metadata (MailTrackingValue_apply_patch D es e) = MailTrackingValue_metadata e"
  unfolding MailTrackingValue_apply_patch_def
  by (rule patch_all_keeps, simp add: MailTrackingValue_patch_field_def
      if_distrib [of MailTrackingValue_id] patch_distrib [of MailTrackingValue_id]
      if_distrib [of MailTrackingValue_metadata] patch_distrib [of MailTrackingValue_metadata])+

lemma MailTrackingValue_build_iff: "(\<exists>e. MailTrackingValue_build b i now = Inr e) \<longleftrightarrow> MailTrackingValueBuilder_mail_message_id b \<noteq> None \<and> MailTrackingValueBuilder_field b \<noteq> None"
  by (auto simp: MailTrackingValue_build_def require_Inr)

end
