(* ===== verification/RowsMessages.thy ===== *)
theory RowsMessages
  imports EntitiesMessages RowGuards
begin

text \<open>
  The wire forms and the row rules of the entities of \<open>EntitiesMessages\<close>: \<open>src/presentation/dto/\<close> and the \<open>RowRules\<close> of
  \<open>src/application/service/\<close>.  The conversion from a reference and the one from an owned entity are one function.
\<close>

section \<open>MailMessage\<close>

record CreateMailMessageDto =
  CreateMailMessageDto_subject :: "string option"
  CreateMailMessageDto_date :: time
  CreateMailMessageDto_body :: string
  CreateMailMessageDto_message_type :: MailMessageType
  CreateMailMessageDto_subtype_id :: "uuid option"
  CreateMailMessageDto_is_internal :: bool
  CreateMailMessageDto_author_id :: "uuid option"
  CreateMailMessageDto_author_guest_id :: "uuid option"
  CreateMailMessageDto_email_from :: "string option"
  CreateMailMessageDto_message_id :: "string option"
  CreateMailMessageDto_reply_to :: "string option"
  CreateMailMessageDto_model :: "string option"
  CreateMailMessageDto_res_id :: "uuid option"
  CreateMailMessageDto_record_name :: "string option"
  CreateMailMessageDto_needaction :: bool
  CreateMailMessageDto_has_error :: bool
  CreateMailMessageDto_failure_reason :: "string option"
  CreateMailMessageDto_rating_value :: "f64 option"
  CreateMailMessageDto_pinned_at :: "time option"

record UpdateMailMessageDto =
  UpdateMailMessageDto_subject :: "string option"
  UpdateMailMessageDto_date :: time
  UpdateMailMessageDto_body :: string
  UpdateMailMessageDto_message_type :: MailMessageType
  UpdateMailMessageDto_subtype_id :: "uuid option"
  UpdateMailMessageDto_is_internal :: bool
  UpdateMailMessageDto_author_id :: "uuid option"
  UpdateMailMessageDto_author_guest_id :: "uuid option"
  UpdateMailMessageDto_email_from :: "string option"
  UpdateMailMessageDto_message_id :: "string option"
  UpdateMailMessageDto_reply_to :: "string option"
  UpdateMailMessageDto_model :: "string option"
  UpdateMailMessageDto_res_id :: "uuid option"
  UpdateMailMessageDto_record_name :: "string option"
  UpdateMailMessageDto_moderation_status :: "MailModerationStatus option"
  UpdateMailMessageDto_needaction :: bool
  UpdateMailMessageDto_has_error :: bool
  UpdateMailMessageDto_failure_reason :: "string option"
  UpdateMailMessageDto_rating_value :: "f64 option"
  UpdateMailMessageDto_pinned_at :: "time option"

record MailMessageResponseDto =
  MailMessageResponseDto_id :: uuid
  MailMessageResponseDto_subject :: "string option"
  MailMessageResponseDto_date :: time
  MailMessageResponseDto_body :: string
  MailMessageResponseDto_message_type :: MailMessageType
  MailMessageResponseDto_subtype_id :: "uuid option"
  MailMessageResponseDto_is_internal :: bool
  MailMessageResponseDto_author_id :: "uuid option"
  MailMessageResponseDto_author_guest_id :: "uuid option"
  MailMessageResponseDto_email_from :: "string option"
  MailMessageResponseDto_message_id :: "string option"
  MailMessageResponseDto_reply_to :: "string option"
  MailMessageResponseDto_model :: "string option"
  MailMessageResponseDto_res_id :: "uuid option"
  MailMessageResponseDto_record_name :: "string option"
  MailMessageResponseDto_moderation_status :: "MailModerationStatus option"
  MailMessageResponseDto_needaction :: bool
  MailMessageResponseDto_has_error :: bool
  MailMessageResponseDto_failure_reason :: "string option"
  MailMessageResponseDto_rating_value :: "f64 option"
  MailMessageResponseDto_pinned_at :: "time option"
  MailMessageResponseDto_metadata :: AuditMetadata

definition MailMessage_response :: "MailMessage \<Rightarrow> MailMessageResponseDto" where
  "MailMessage_response e =
     \<lparr>MailMessageResponseDto_id = MailMessage_id e, MailMessageResponseDto_subject = MailMessage_subject e,
      MailMessageResponseDto_date = MailMessage_date e, MailMessageResponseDto_body = MailMessage_body e,
      MailMessageResponseDto_message_type = MailMessage_message_type e,
      MailMessageResponseDto_subtype_id = MailMessage_subtype_id e,
      MailMessageResponseDto_is_internal = MailMessage_is_internal e,
      MailMessageResponseDto_author_id = MailMessage_author_id e,
      MailMessageResponseDto_author_guest_id = MailMessage_author_guest_id e,
      MailMessageResponseDto_email_from = MailMessage_email_from e,
      MailMessageResponseDto_message_id = MailMessage_message_id e,
      MailMessageResponseDto_reply_to = MailMessage_reply_to e, MailMessageResponseDto_model = MailMessage_model e,
      MailMessageResponseDto_res_id = MailMessage_res_id e,
      MailMessageResponseDto_record_name = MailMessage_record_name e,
      MailMessageResponseDto_moderation_status = MailMessage_moderation_status e,
      MailMessageResponseDto_needaction = MailMessage_needaction e,
      MailMessageResponseDto_has_error = MailMessage_has_error e,
      MailMessageResponseDto_failure_reason = MailMessage_failure_reason e,
      MailMessageResponseDto_rating_value = MailMessage_rating_value e,
      MailMessageResponseDto_pinned_at = MailMessage_pinned_at e,
      MailMessageResponseDto_metadata = MailMessage_metadata e\<rparr>"

definition MailMessage_from_create :: "CreateMailMessageDto \<Rightarrow> uuid \<Rightarrow> MailMessage" where
  "MailMessage_from_create d i =
     \<lparr>MailMessage_id = i, MailMessage_subject = CreateMailMessageDto_subject d,
      MailMessage_date = CreateMailMessageDto_date d, MailMessage_body = CreateMailMessageDto_body d,
      MailMessage_message_type = CreateMailMessageDto_message_type d,
      MailMessage_subtype_id = CreateMailMessageDto_subtype_id d,
      MailMessage_is_internal = CreateMailMessageDto_is_internal d,
      MailMessage_author_id = CreateMailMessageDto_author_id d,
      MailMessage_author_guest_id = CreateMailMessageDto_author_guest_id d,
      MailMessage_email_from = CreateMailMessageDto_email_from d,
      MailMessage_message_id = CreateMailMessageDto_message_id d,
      MailMessage_reply_to = CreateMailMessageDto_reply_to d, MailMessage_model = CreateMailMessageDto_model d,
      MailMessage_res_id = CreateMailMessageDto_res_id d,
      MailMessage_record_name = CreateMailMessageDto_record_name d, MailMessage_moderation_status = None,
      MailMessage_needaction = CreateMailMessageDto_needaction d,
      MailMessage_has_error = CreateMailMessageDto_has_error d,
      MailMessage_failure_reason = CreateMailMessageDto_failure_reason d,
      MailMessage_rating_value = CreateMailMessageDto_rating_value d,
      MailMessage_pinned_at = CreateMailMessageDto_pinned_at d, MailMessage_metadata = audit_default\<rparr>"

definition MailMessage_apply_update :: "MailMessage \<Rightarrow> UpdateMailMessageDto \<Rightarrow> MailMessage" where
  "MailMessage_apply_update e d =
     e\<lparr>MailMessage_subject := UpdateMailMessageDto_subject d, MailMessage_date := UpdateMailMessageDto_date d,
      MailMessage_body := UpdateMailMessageDto_body d,
      MailMessage_message_type := UpdateMailMessageDto_message_type d,
      MailMessage_subtype_id := UpdateMailMessageDto_subtype_id d,
      MailMessage_is_internal := UpdateMailMessageDto_is_internal d,
      MailMessage_author_id := UpdateMailMessageDto_author_id d,
      MailMessage_author_guest_id := UpdateMailMessageDto_author_guest_id d,
      MailMessage_email_from := UpdateMailMessageDto_email_from d,
      MailMessage_message_id := UpdateMailMessageDto_message_id d,
      MailMessage_reply_to := UpdateMailMessageDto_reply_to d, MailMessage_model := UpdateMailMessageDto_model d,
      MailMessage_res_id := UpdateMailMessageDto_res_id d,
      MailMessage_record_name := UpdateMailMessageDto_record_name d,
      MailMessage_moderation_status := UpdateMailMessageDto_moderation_status d,
      MailMessage_needaction := UpdateMailMessageDto_needaction d,
      MailMessage_has_error := UpdateMailMessageDto_has_error d,
      MailMessage_failure_reason := UpdateMailMessageDto_failure_reason d,
      MailMessage_rating_value := UpdateMailMessageDto_rating_value d,
      MailMessage_pinned_at := UpdateMailMessageDto_pinned_at d\<rparr>"

definition MailMessage_to_value :: "encoders \<Rightarrow> MailMessage \<Rightarrow> json" where
  "MailMessage_to_value E e = JObject
     [(''id'', en_uuid E (MailMessage_id e)), (''subject'', jopt JString (MailMessage_subject e)),
      (''date'', en_time E (MailMessage_date e)), (''body'', JString (MailMessage_body e)),
      (''message_type'', (\<lambda>x. JString (MailMessageType_show x)) (MailMessage_message_type e)),
      (''subtype_id'', jopt (en_uuid E) (MailMessage_subtype_id e)),
      (''is_internal'', JBool (MailMessage_is_internal e)),
      (''author_id'', jopt (en_uuid E) (MailMessage_author_id e)),
      (''author_guest_id'', jopt (en_uuid E) (MailMessage_author_guest_id e)),
      (''email_from'', jopt JString (MailMessage_email_from e)),
      (''message_id'', jopt JString (MailMessage_message_id e)),
      (''reply_to'', jopt JString (MailMessage_reply_to e)), (''model'', jopt JString (MailMessage_model e)),
      (''res_id'', jopt (en_uuid E) (MailMessage_res_id e)),
      (''record_name'', jopt JString (MailMessage_record_name e)),
      (''moderation_status'', jopt (\<lambda>x. JString (MailModerationStatus_show x)) (MailMessage_moderation_status e)),
      (''needaction'', JBool (MailMessage_needaction e)), (''has_error'', JBool (MailMessage_has_error e)),
      (''failure_reason'', jopt JString (MailMessage_failure_reason e)),
      (''rating_value'', jopt (write_f64 E) (MailMessage_rating_value e)),
      (''pinned_at'', jopt (en_time E) (MailMessage_pinned_at e)),
      (''metadata'', audit_to_value E (MailMessage_metadata e))]"

lemma MailMessage_apply_update_reach:
  "(\<exists>d. MailMessage_apply_update e d = e') \<longleftrightarrow>
   MailMessage_id e' = MailMessage_id e \<and> MailMessage_metadata e' = MailMessage_metadata e"
proof
  assume "MailMessage_id e' = MailMessage_id e \<and> MailMessage_metadata e' = MailMessage_metadata e"
  then have "MailMessage_apply_update e \<lparr>UpdateMailMessageDto_subject = MailMessage_subject e', UpdateMailMessageDto_date = MailMessage_date e',
      UpdateMailMessageDto_body = MailMessage_body e',
      UpdateMailMessageDto_message_type = MailMessage_message_type e',
      UpdateMailMessageDto_subtype_id = MailMessage_subtype_id e',
      UpdateMailMessageDto_is_internal = MailMessage_is_internal e',
      UpdateMailMessageDto_author_id = MailMessage_author_id e',
      UpdateMailMessageDto_author_guest_id = MailMessage_author_guest_id e',
      UpdateMailMessageDto_email_from = MailMessage_email_from e',
      UpdateMailMessageDto_message_id = MailMessage_message_id e',
      UpdateMailMessageDto_reply_to = MailMessage_reply_to e', UpdateMailMessageDto_model = MailMessage_model e',
      UpdateMailMessageDto_res_id = MailMessage_res_id e',
      UpdateMailMessageDto_record_name = MailMessage_record_name e',
      UpdateMailMessageDto_moderation_status = MailMessage_moderation_status e',
      UpdateMailMessageDto_needaction = MailMessage_needaction e',
      UpdateMailMessageDto_has_error = MailMessage_has_error e',
      UpdateMailMessageDto_failure_reason = MailMessage_failure_reason e',
      UpdateMailMessageDto_rating_value = MailMessage_rating_value e',
      UpdateMailMessageDto_pinned_at = MailMessage_pinned_at e'\<rparr> = e'"
    by (cases e; cases e') (simp add: MailMessage_apply_update_def)
  then show "\<exists>d. MailMessage_apply_update e d = e'" by blast
qed (auto simp: MailMessage_apply_update_def)

lemma MailMessage_response_eq: "MailMessage_response e = MailMessage_response e' \<longleftrightarrow> e = e'"
  by (cases e; cases e') (simp add: MailMessage_response_def)

section \<open>MailMessageAttachment\<close>

record CreateMailMessageAttachmentDto =
  CreateMailMessageAttachmentDto_message_id :: uuid
  CreateMailMessageAttachmentDto_attachment_id :: uuid

record UpdateMailMessageAttachmentDto =
  UpdateMailMessageAttachmentDto_message_id :: uuid
  UpdateMailMessageAttachmentDto_attachment_id :: uuid

record MailMessageAttachmentResponseDto =
  MailMessageAttachmentResponseDto_id :: uuid
  MailMessageAttachmentResponseDto_message_id :: uuid
  MailMessageAttachmentResponseDto_attachment_id :: uuid
  MailMessageAttachmentResponseDto_metadata :: AuditMetadata

definition MailMessageAttachment_response :: "MailMessageAttachment \<Rightarrow> MailMessageAttachmentResponseDto" where
  "MailMessageAttachment_response e =
     \<lparr>MailMessageAttachmentResponseDto_id = MailMessageAttachment_id e,
      MailMessageAttachmentResponseDto_message_id = MailMessageAttachment_message_id e,
      MailMessageAttachmentResponseDto_attachment_id = MailMessageAttachment_attachment_id e,
      MailMessageAttachmentResponseDto_metadata = MailMessageAttachment_metadata e\<rparr>"

definition MailMessageAttachment_from_create :: "CreateMailMessageAttachmentDto \<Rightarrow> uuid \<Rightarrow> MailMessageAttachment" where
  "MailMessageAttachment_from_create d i =
     \<lparr>MailMessageAttachment_id = i,
      MailMessageAttachment_message_id = CreateMailMessageAttachmentDto_message_id d,
      MailMessageAttachment_attachment_id = CreateMailMessageAttachmentDto_attachment_id d,
      MailMessageAttachment_metadata = audit_default\<rparr>"

definition MailMessageAttachment_apply_update :: "MailMessageAttachment \<Rightarrow> UpdateMailMessageAttachmentDto \<Rightarrow> MailMessageAttachment" where
  "MailMessageAttachment_apply_update e d =
     e\<lparr>MailMessageAttachment_message_id := UpdateMailMessageAttachmentDto_message_id d,
      MailMessageAttachment_attachment_id := UpdateMailMessageAttachmentDto_attachment_id d\<rparr>"

definition MailMessageAttachment_to_value :: "encoders \<Rightarrow> MailMessageAttachment \<Rightarrow> json" where
  "MailMessageAttachment_to_value E e = JObject
     [(''id'', en_uuid E (MailMessageAttachment_id e)),
      (''message_id'', en_uuid E (MailMessageAttachment_message_id e)),
      (''attachment_id'', en_uuid E (MailMessageAttachment_attachment_id e)),
      (''metadata'', audit_to_value E (MailMessageAttachment_metadata e))]"

definition MailMessageAttachment_row_rules :: "'v row_rule \<Rightarrow> encoders \<Rightarrow> MailMessageAttachment write_ctx \<Rightarrow> guard_outcome" where
  "MailMessageAttachment_row_rules R E ctx = row_guard (\<lambda>e. Some (MailMessageAttachment_to_value E e)) (\<lambda>create update old row.
      required_rule R ''message_id'' create update old row @
      required_rule R ''attachment_id'' create update old row) ctx"

lemma MailMessageAttachment_apply_update_reach:
  "(\<exists>d. MailMessageAttachment_apply_update e d = e') \<longleftrightarrow>
   MailMessageAttachment_id e' = MailMessageAttachment_id e \<and> MailMessageAttachment_metadata e' = MailMessageAttachment_metadata e"
proof
  assume "MailMessageAttachment_id e' = MailMessageAttachment_id e \<and> MailMessageAttachment_metadata e' = MailMessageAttachment_metadata e"
  then have "MailMessageAttachment_apply_update e \<lparr>UpdateMailMessageAttachmentDto_message_id = MailMessageAttachment_message_id e',
      UpdateMailMessageAttachmentDto_attachment_id = MailMessageAttachment_attachment_id e'\<rparr> = e'"
    by (cases e; cases e') (simp add: MailMessageAttachment_apply_update_def)
  then show "\<exists>d. MailMessageAttachment_apply_update e d = e'" by blast
qed (auto simp: MailMessageAttachment_apply_update_def)

lemma MailMessageAttachment_response_eq: "MailMessageAttachment_response e = MailMessageAttachment_response e' \<longleftrightarrow> e = e'"
  by (cases e; cases e') (simp add: MailMessageAttachment_response_def)

section \<open>MailMessageReaction\<close>

record CreateMailMessageReactionDto =
  CreateMailMessageReactionDto_message_id :: uuid
  CreateMailMessageReactionDto_content :: string
  CreateMailMessageReactionDto_partner_id :: "uuid option"
  CreateMailMessageReactionDto_guest_id :: "uuid option"

record UpdateMailMessageReactionDto =
  UpdateMailMessageReactionDto_message_id :: uuid
  UpdateMailMessageReactionDto_content :: string
  UpdateMailMessageReactionDto_partner_id :: "uuid option"
  UpdateMailMessageReactionDto_guest_id :: "uuid option"

record MailMessageReactionResponseDto =
  MailMessageReactionResponseDto_id :: uuid
  MailMessageReactionResponseDto_message_id :: uuid
  MailMessageReactionResponseDto_content :: string
  MailMessageReactionResponseDto_partner_id :: "uuid option"
  MailMessageReactionResponseDto_guest_id :: "uuid option"
  MailMessageReactionResponseDto_metadata :: AuditMetadata

definition MailMessageReaction_response :: "MailMessageReaction \<Rightarrow> MailMessageReactionResponseDto" where
  "MailMessageReaction_response e =
     \<lparr>MailMessageReactionResponseDto_id = MailMessageReaction_id e,
      MailMessageReactionResponseDto_message_id = MailMessageReaction_message_id e,
      MailMessageReactionResponseDto_content = MailMessageReaction_content e,
      MailMessageReactionResponseDto_partner_id = MailMessageReaction_partner_id e,
      MailMessageReactionResponseDto_guest_id = MailMessageReaction_guest_id e,
      MailMessageReactionResponseDto_metadata = MailMessageReaction_metadata e\<rparr>"

definition MailMessageReaction_from_create :: "CreateMailMessageReactionDto \<Rightarrow> uuid \<Rightarrow> MailMessageReaction" where
  "MailMessageReaction_from_create d i =
     \<lparr>MailMessageReaction_id = i, MailMessageReaction_message_id = CreateMailMessageReactionDto_message_id d,
      MailMessageReaction_content = CreateMailMessageReactionDto_content d,
      MailMessageReaction_partner_id = CreateMailMessageReactionDto_partner_id d,
      MailMessageReaction_guest_id = CreateMailMessageReactionDto_guest_id d,
      MailMessageReaction_metadata = audit_default\<rparr>"

definition MailMessageReaction_apply_update :: "MailMessageReaction \<Rightarrow> UpdateMailMessageReactionDto \<Rightarrow> MailMessageReaction" where
  "MailMessageReaction_apply_update e d =
     e\<lparr>MailMessageReaction_message_id := UpdateMailMessageReactionDto_message_id d,
      MailMessageReaction_content := UpdateMailMessageReactionDto_content d,
      MailMessageReaction_partner_id := UpdateMailMessageReactionDto_partner_id d,
      MailMessageReaction_guest_id := UpdateMailMessageReactionDto_guest_id d\<rparr>"

definition MailMessageReaction_to_value :: "encoders \<Rightarrow> MailMessageReaction \<Rightarrow> json" where
  "MailMessageReaction_to_value E e = JObject
     [(''id'', en_uuid E (MailMessageReaction_id e)), (''message_id'', en_uuid E (MailMessageReaction_message_id e)),
      (''content'', JString (MailMessageReaction_content e)),
      (''partner_id'', jopt (en_uuid E) (MailMessageReaction_partner_id e)),
      (''guest_id'', jopt (en_uuid E) (MailMessageReaction_guest_id e)),
      (''metadata'', audit_to_value E (MailMessageReaction_metadata e))]"

definition MailMessageReaction_row_rules :: "'v row_rule \<Rightarrow> encoders \<Rightarrow> MailMessageReaction write_ctx \<Rightarrow> guard_outcome" where
  "MailMessageReaction_row_rules R E ctx = row_guard (\<lambda>e. Some (MailMessageReaction_to_value E e)) (\<lambda>create update old row.
      required_rule R ''message_id'' create update old row @
      required_rule R ''content'' create update old row) ctx"

lemma MailMessageReaction_apply_update_reach:
  "(\<exists>d. MailMessageReaction_apply_update e d = e') \<longleftrightarrow>
   MailMessageReaction_id e' = MailMessageReaction_id e \<and> MailMessageReaction_metadata e' = MailMessageReaction_metadata e"
proof
  assume "MailMessageReaction_id e' = MailMessageReaction_id e \<and> MailMessageReaction_metadata e' = MailMessageReaction_metadata e"
  then have "MailMessageReaction_apply_update e \<lparr>UpdateMailMessageReactionDto_message_id = MailMessageReaction_message_id e',
      UpdateMailMessageReactionDto_content = MailMessageReaction_content e',
      UpdateMailMessageReactionDto_partner_id = MailMessageReaction_partner_id e',
      UpdateMailMessageReactionDto_guest_id = MailMessageReaction_guest_id e'\<rparr> = e'"
    by (cases e; cases e') (simp add: MailMessageReaction_apply_update_def)
  then show "\<exists>d. MailMessageReaction_apply_update e d = e'" by blast
qed (auto simp: MailMessageReaction_apply_update_def)

lemma MailMessageReaction_response_eq: "MailMessageReaction_response e = MailMessageReaction_response e' \<longleftrightarrow> e = e'"
  by (cases e; cases e') (simp add: MailMessageReaction_response_def)

section \<open>MailMessageStar\<close>

record CreateMailMessageStarDto =
  CreateMailMessageStarDto_partner_id :: uuid
  CreateMailMessageStarDto_message_id :: uuid

record UpdateMailMessageStarDto =
  UpdateMailMessageStarDto_partner_id :: uuid
  UpdateMailMessageStarDto_message_id :: uuid

record MailMessageStarResponseDto =
  MailMessageStarResponseDto_id :: uuid
  MailMessageStarResponseDto_partner_id :: uuid
  MailMessageStarResponseDto_message_id :: uuid
  MailMessageStarResponseDto_metadata :: AuditMetadata

definition MailMessageStar_response :: "MailMessageStar \<Rightarrow> MailMessageStarResponseDto" where
  "MailMessageStar_response e =
     \<lparr>MailMessageStarResponseDto_id = MailMessageStar_id e,
      MailMessageStarResponseDto_partner_id = MailMessageStar_partner_id e,
      MailMessageStarResponseDto_message_id = MailMessageStar_message_id e,
      MailMessageStarResponseDto_metadata = MailMessageStar_metadata e\<rparr>"

definition MailMessageStar_from_create :: "CreateMailMessageStarDto \<Rightarrow> uuid \<Rightarrow> MailMessageStar" where
  "MailMessageStar_from_create d i =
     \<lparr>MailMessageStar_id = i, MailMessageStar_partner_id = CreateMailMessageStarDto_partner_id d,
      MailMessageStar_message_id = CreateMailMessageStarDto_message_id d, MailMessageStar_metadata = audit_default\<rparr>"

definition MailMessageStar_apply_update :: "MailMessageStar \<Rightarrow> UpdateMailMessageStarDto \<Rightarrow> MailMessageStar" where
  "MailMessageStar_apply_update e d =
     e\<lparr>MailMessageStar_partner_id := UpdateMailMessageStarDto_partner_id d,
      MailMessageStar_message_id := UpdateMailMessageStarDto_message_id d\<rparr>"

definition MailMessageStar_to_value :: "encoders \<Rightarrow> MailMessageStar \<Rightarrow> json" where
  "MailMessageStar_to_value E e = JObject
     [(''id'', en_uuid E (MailMessageStar_id e)), (''partner_id'', en_uuid E (MailMessageStar_partner_id e)),
      (''message_id'', en_uuid E (MailMessageStar_message_id e)),
      (''metadata'', audit_to_value E (MailMessageStar_metadata e))]"

definition MailMessageStar_row_rules :: "'v row_rule \<Rightarrow> encoders \<Rightarrow> MailMessageStar write_ctx \<Rightarrow> guard_outcome" where
  "MailMessageStar_row_rules R E ctx = row_guard (\<lambda>e. Some (MailMessageStar_to_value E e)) (\<lambda>create update old row.
      required_rule R ''partner_id'' create update old row @
      required_rule R ''message_id'' create update old row) ctx"

lemma MailMessageStar_apply_update_reach:
  "(\<exists>d. MailMessageStar_apply_update e d = e') \<longleftrightarrow>
   MailMessageStar_id e' = MailMessageStar_id e \<and> MailMessageStar_metadata e' = MailMessageStar_metadata e"
proof
  assume "MailMessageStar_id e' = MailMessageStar_id e \<and> MailMessageStar_metadata e' = MailMessageStar_metadata e"
  then have "MailMessageStar_apply_update e \<lparr>UpdateMailMessageStarDto_partner_id = MailMessageStar_partner_id e',
      UpdateMailMessageStarDto_message_id = MailMessageStar_message_id e'\<rparr> = e'"
    by (cases e; cases e') (simp add: MailMessageStar_apply_update_def)
  then show "\<exists>d. MailMessageStar_apply_update e d = e'" by blast
qed (auto simp: MailMessageStar_apply_update_def)

lemma MailMessageStar_response_eq: "MailMessageStar_response e = MailMessageStar_response e' \<longleftrightarrow> e = e'"
  by (cases e; cases e') (simp add: MailMessageStar_response_def)

section \<open>MailMessageSubtype\<close>

record CreateMailMessageSubtypeDto =
  CreateMailMessageSubtypeDto_name :: string
  CreateMailMessageSubtypeDto_description :: "string option"
  CreateMailMessageSubtypeDto_internal :: bool
  CreateMailMessageSubtypeDto_parent_id :: "uuid option"
  CreateMailMessageSubtypeDto_relation_field :: "string option"
  CreateMailMessageSubtypeDto_res_model :: "string option"
  CreateMailMessageSubtypeDto_default :: bool
  CreateMailMessageSubtypeDto_hidden :: bool
  CreateMailMessageSubtypeDto_tracked :: bool

record UpdateMailMessageSubtypeDto =
  UpdateMailMessageSubtypeDto_name :: string
  UpdateMailMessageSubtypeDto_description :: "string option"
  UpdateMailMessageSubtypeDto_internal :: bool
  UpdateMailMessageSubtypeDto_parent_id :: "uuid option"
  UpdateMailMessageSubtypeDto_relation_field :: "string option"
  UpdateMailMessageSubtypeDto_res_model :: "string option"
  UpdateMailMessageSubtypeDto_default :: bool
  UpdateMailMessageSubtypeDto_hidden :: bool
  UpdateMailMessageSubtypeDto_tracked :: bool

record MailMessageSubtypeResponseDto =
  MailMessageSubtypeResponseDto_id :: uuid
  MailMessageSubtypeResponseDto_name :: string
  MailMessageSubtypeResponseDto_description :: "string option"
  MailMessageSubtypeResponseDto_internal :: bool
  MailMessageSubtypeResponseDto_parent_id :: "uuid option"
  MailMessageSubtypeResponseDto_relation_field :: "string option"
  MailMessageSubtypeResponseDto_res_model :: "string option"
  MailMessageSubtypeResponseDto_default :: bool
  MailMessageSubtypeResponseDto_hidden :: bool
  MailMessageSubtypeResponseDto_tracked :: bool
  MailMessageSubtypeResponseDto_metadata :: AuditMetadata

definition MailMessageSubtype_response :: "MailMessageSubtype \<Rightarrow> MailMessageSubtypeResponseDto" where
  "MailMessageSubtype_response e =
     \<lparr>MailMessageSubtypeResponseDto_id = MailMessageSubtype_id e,
      MailMessageSubtypeResponseDto_name = MailMessageSubtype_name e,
      MailMessageSubtypeResponseDto_description = MailMessageSubtype_description e,
      MailMessageSubtypeResponseDto_internal = MailMessageSubtype_internal e,
      MailMessageSubtypeResponseDto_parent_id = MailMessageSubtype_parent_id e,
      MailMessageSubtypeResponseDto_relation_field = MailMessageSubtype_relation_field e,
      MailMessageSubtypeResponseDto_res_model = MailMessageSubtype_res_model e,
      MailMessageSubtypeResponseDto_default = MailMessageSubtype_default e,
      MailMessageSubtypeResponseDto_hidden = MailMessageSubtype_hidden e,
      MailMessageSubtypeResponseDto_tracked = MailMessageSubtype_tracked e,
      MailMessageSubtypeResponseDto_metadata = MailMessageSubtype_metadata e\<rparr>"

definition MailMessageSubtype_from_create :: "CreateMailMessageSubtypeDto \<Rightarrow> uuid \<Rightarrow> MailMessageSubtype" where
  "MailMessageSubtype_from_create d i =
     \<lparr>MailMessageSubtype_id = i, MailMessageSubtype_name = CreateMailMessageSubtypeDto_name d,
      MailMessageSubtype_description = CreateMailMessageSubtypeDto_description d,
      MailMessageSubtype_internal = CreateMailMessageSubtypeDto_internal d,
      MailMessageSubtype_parent_id = CreateMailMessageSubtypeDto_parent_id d,
      MailMessageSubtype_relation_field = CreateMailMessageSubtypeDto_relation_field d,
      MailMessageSubtype_res_model = CreateMailMessageSubtypeDto_res_model d,
      MailMessageSubtype_default = CreateMailMessageSubtypeDto_default d,
      MailMessageSubtype_hidden = CreateMailMessageSubtypeDto_hidden d,
      MailMessageSubtype_tracked = CreateMailMessageSubtypeDto_tracked d, MailMessageSubtype_metadata = audit_default\<rparr>"

definition MailMessageSubtype_apply_update :: "MailMessageSubtype \<Rightarrow> UpdateMailMessageSubtypeDto \<Rightarrow> MailMessageSubtype" where
  "MailMessageSubtype_apply_update e d =
     e\<lparr>MailMessageSubtype_name := UpdateMailMessageSubtypeDto_name d,
      MailMessageSubtype_description := UpdateMailMessageSubtypeDto_description d,
      MailMessageSubtype_internal := UpdateMailMessageSubtypeDto_internal d,
      MailMessageSubtype_parent_id := UpdateMailMessageSubtypeDto_parent_id d,
      MailMessageSubtype_relation_field := UpdateMailMessageSubtypeDto_relation_field d,
      MailMessageSubtype_res_model := UpdateMailMessageSubtypeDto_res_model d,
      MailMessageSubtype_default := UpdateMailMessageSubtypeDto_default d,
      MailMessageSubtype_hidden := UpdateMailMessageSubtypeDto_hidden d,
      MailMessageSubtype_tracked := UpdateMailMessageSubtypeDto_tracked d\<rparr>"

definition MailMessageSubtype_to_value :: "encoders \<Rightarrow> MailMessageSubtype \<Rightarrow> json" where
  "MailMessageSubtype_to_value E e = JObject
     [(''id'', en_uuid E (MailMessageSubtype_id e)), (''name'', JString (MailMessageSubtype_name e)),
      (''description'', jopt JString (MailMessageSubtype_description e)),
      (''internal'', JBool (MailMessageSubtype_internal e)),
      (''parent_id'', jopt (en_uuid E) (MailMessageSubtype_parent_id e)),
      (''relation_field'', jopt JString (MailMessageSubtype_relation_field e)),
      (''res_model'', jopt JString (MailMessageSubtype_res_model e)),
      (''default'', JBool (MailMessageSubtype_default e)), (''hidden'', JBool (MailMessageSubtype_hidden e)),
      (''tracked'', JBool (MailMessageSubtype_tracked e)),
      (''metadata'', audit_to_value E (MailMessageSubtype_metadata e))]"

definition MailMessageSubtype_row_rules :: "'v row_rule \<Rightarrow> encoders \<Rightarrow> MailMessageSubtype write_ctx \<Rightarrow> guard_outcome" where
  "MailMessageSubtype_row_rules R E ctx = row_guard (\<lambda>e. Some (MailMessageSubtype_to_value E e)) (\<lambda>create update old row.
      required_rule R ''name'' create update old row) ctx"

lemma MailMessageSubtype_apply_update_reach:
  "(\<exists>d. MailMessageSubtype_apply_update e d = e') \<longleftrightarrow>
   MailMessageSubtype_id e' = MailMessageSubtype_id e \<and> MailMessageSubtype_metadata e' = MailMessageSubtype_metadata e"
proof
  assume "MailMessageSubtype_id e' = MailMessageSubtype_id e \<and> MailMessageSubtype_metadata e' = MailMessageSubtype_metadata e"
  then have "MailMessageSubtype_apply_update e \<lparr>UpdateMailMessageSubtypeDto_name = MailMessageSubtype_name e',
      UpdateMailMessageSubtypeDto_description = MailMessageSubtype_description e',
      UpdateMailMessageSubtypeDto_internal = MailMessageSubtype_internal e',
      UpdateMailMessageSubtypeDto_parent_id = MailMessageSubtype_parent_id e',
      UpdateMailMessageSubtypeDto_relation_field = MailMessageSubtype_relation_field e',
      UpdateMailMessageSubtypeDto_res_model = MailMessageSubtype_res_model e',
      UpdateMailMessageSubtypeDto_default = MailMessageSubtype_default e',
      UpdateMailMessageSubtypeDto_hidden = MailMessageSubtype_hidden e',
      UpdateMailMessageSubtypeDto_tracked = MailMessageSubtype_tracked e'\<rparr> = e'"
    by (cases e; cases e') (simp add: MailMessageSubtype_apply_update_def)
  then show "\<exists>d. MailMessageSubtype_apply_update e d = e'" by blast
qed (auto simp: MailMessageSubtype_apply_update_def)

lemma MailMessageSubtype_response_eq: "MailMessageSubtype_response e = MailMessageSubtype_response e' \<longleftrightarrow> e = e'"
  by (cases e; cases e') (simp add: MailMessageSubtype_response_def)

section \<open>MailAttachment\<close>

record CreateMailAttachmentDto =
  CreateMailAttachmentDto_name :: string
  CreateMailAttachmentDto_mimetype :: "string option"
  CreateMailAttachmentDto_size :: "int option"
  CreateMailAttachmentDto_datas :: "string option"
  CreateMailAttachmentDto_checksum :: "string option"
  CreateMailAttachmentDto_access_token :: "uuid option"
  CreateMailAttachmentDto_owner_party_id :: "uuid option"
  CreateMailAttachmentDto_owner_guest_id :: "uuid option"

record UpdateMailAttachmentDto =
  UpdateMailAttachmentDto_name :: string
  UpdateMailAttachmentDto_mimetype :: "string option"
  UpdateMailAttachmentDto_size :: "int option"
  UpdateMailAttachmentDto_datas :: "string option"
  UpdateMailAttachmentDto_checksum :: "string option"
  UpdateMailAttachmentDto_owner_party_id :: "uuid option"
  UpdateMailAttachmentDto_owner_guest_id :: "uuid option"

record MailAttachmentResponseDto =
  MailAttachmentResponseDto_id :: uuid
  MailAttachmentResponseDto_name :: string
  MailAttachmentResponseDto_mimetype :: "string option"
  MailAttachmentResponseDto_size :: "int option"
  MailAttachmentResponseDto_datas :: "string option"
  MailAttachmentResponseDto_checksum :: "string option"
  MailAttachmentResponseDto_access_token :: "uuid option"
  MailAttachmentResponseDto_owner_party_id :: "uuid option"
  MailAttachmentResponseDto_owner_guest_id :: "uuid option"
  MailAttachmentResponseDto_metadata :: AuditMetadata

definition MailAttachment_response :: "MailAttachment \<Rightarrow> MailAttachmentResponseDto" where
  "MailAttachment_response e =
     \<lparr>MailAttachmentResponseDto_id = MailAttachment_id e,
      MailAttachmentResponseDto_name = MailAttachment_name e,
      MailAttachmentResponseDto_mimetype = MailAttachment_mimetype e,
      MailAttachmentResponseDto_size = MailAttachment_size e,
      MailAttachmentResponseDto_datas = MailAttachment_datas e,
      MailAttachmentResponseDto_checksum = MailAttachment_checksum e,
      MailAttachmentResponseDto_access_token = MailAttachment_access_token e,
      MailAttachmentResponseDto_owner_party_id = MailAttachment_owner_party_id e,
      MailAttachmentResponseDto_owner_guest_id = MailAttachment_owner_guest_id e,
      MailAttachmentResponseDto_metadata = MailAttachment_metadata e\<rparr>"

definition MailAttachment_from_create :: "CreateMailAttachmentDto \<Rightarrow> uuid \<Rightarrow> MailAttachment" where
  "MailAttachment_from_create d i =
     \<lparr>MailAttachment_id = i, MailAttachment_name = CreateMailAttachmentDto_name d,
      MailAttachment_mimetype = CreateMailAttachmentDto_mimetype d,
      MailAttachment_size = CreateMailAttachmentDto_size d, MailAttachment_datas = CreateMailAttachmentDto_datas d,
      MailAttachment_checksum = CreateMailAttachmentDto_checksum d,
      MailAttachment_access_token = CreateMailAttachmentDto_access_token d,
      MailAttachment_owner_party_id = CreateMailAttachmentDto_owner_party_id d,
      MailAttachment_owner_guest_id = CreateMailAttachmentDto_owner_guest_id d,
      MailAttachment_metadata = audit_default\<rparr>"

definition MailAttachment_apply_update :: "MailAttachment \<Rightarrow> UpdateMailAttachmentDto \<Rightarrow> MailAttachment" where
  "MailAttachment_apply_update e d =
     e\<lparr>MailAttachment_name := UpdateMailAttachmentDto_name d,
      MailAttachment_mimetype := UpdateMailAttachmentDto_mimetype d,
      MailAttachment_size := UpdateMailAttachmentDto_size d, MailAttachment_datas := UpdateMailAttachmentDto_datas d,
      MailAttachment_checksum := UpdateMailAttachmentDto_checksum d,
      MailAttachment_owner_party_id := UpdateMailAttachmentDto_owner_party_id d,
      MailAttachment_owner_guest_id := UpdateMailAttachmentDto_owner_guest_id d\<rparr>"

definition MailAttachment_to_value :: "encoders \<Rightarrow> MailAttachment \<Rightarrow> json" where
  "MailAttachment_to_value E e = JObject
     [(''id'', en_uuid E (MailAttachment_id e)), (''name'', JString (MailAttachment_name e)),
      (''mimetype'', jopt JString (MailAttachment_mimetype e)), (''size'', jopt JNumber (MailAttachment_size e)),
      (''datas'', jopt JString (MailAttachment_datas e)), (''checksum'', jopt JString (MailAttachment_checksum e)),
      (''access_token'', jopt (en_uuid E) (MailAttachment_access_token e)),
      (''owner_party_id'', jopt (en_uuid E) (MailAttachment_owner_party_id e)),
      (''owner_guest_id'', jopt (en_uuid E) (MailAttachment_owner_guest_id e)),
      (''metadata'', audit_to_value E (MailAttachment_metadata e))]"

definition MailAttachment_row_rules :: "'v row_rule \<Rightarrow> encoders \<Rightarrow> MailAttachment write_ctx \<Rightarrow> guard_outcome" where
  "MailAttachment_row_rules R E ctx = row_guard (\<lambda>e. Some (MailAttachment_to_value E e)) (\<lambda>create update old row.
      required_rule R ''name'' create update old row) ctx"

lemma MailAttachment_apply_update_reach:
  "(\<exists>d. MailAttachment_apply_update e d = e') \<longleftrightarrow>
   MailAttachment_id e' = MailAttachment_id e \<and> MailAttachment_access_token e' = MailAttachment_access_token e \<and> MailAttachment_metadata e' = MailAttachment_metadata e"
proof
  assume "MailAttachment_id e' = MailAttachment_id e \<and> MailAttachment_access_token e' = MailAttachment_access_token e \<and> MailAttachment_metadata e' = MailAttachment_metadata e"
  then have "MailAttachment_apply_update e \<lparr>UpdateMailAttachmentDto_name = MailAttachment_name e', UpdateMailAttachmentDto_mimetype = MailAttachment_mimetype e',
      UpdateMailAttachmentDto_size = MailAttachment_size e', UpdateMailAttachmentDto_datas = MailAttachment_datas e',
      UpdateMailAttachmentDto_checksum = MailAttachment_checksum e',
      UpdateMailAttachmentDto_owner_party_id = MailAttachment_owner_party_id e',
      UpdateMailAttachmentDto_owner_guest_id = MailAttachment_owner_guest_id e'\<rparr> = e'"
    by (cases e; cases e') (simp add: MailAttachment_apply_update_def)
  then show "\<exists>d. MailAttachment_apply_update e d = e'" by blast
qed (auto simp: MailAttachment_apply_update_def)

lemma MailAttachment_response_eq: "MailAttachment_response e = MailAttachment_response e' \<longleftrightarrow> e = e'"
  by (cases e; cases e') (simp add: MailAttachment_response_def)

section \<open>MailTrackingValue\<close>

record CreateMailTrackingValueDto =
  CreateMailTrackingValueDto_mail_message_id :: uuid
  CreateMailTrackingValueDto_field :: string
  CreateMailTrackingValueDto_field_desc :: "string option"
  CreateMailTrackingValueDto_field_type :: "string option"
  CreateMailTrackingValueDto_old_value_integer :: "int option"
  CreateMailTrackingValueDto_old_value_float :: "f64 option"
  CreateMailTrackingValueDto_old_value_text :: "string option"
  CreateMailTrackingValueDto_old_value_datetime :: "time option"
  CreateMailTrackingValueDto_new_value_integer :: "int option"
  CreateMailTrackingValueDto_new_value_float :: "f64 option"
  CreateMailTrackingValueDto_new_value_text :: "string option"
  CreateMailTrackingValueDto_new_value_datetime :: "time option"
  CreateMailTrackingValueDto_currency_id :: "uuid option"

record UpdateMailTrackingValueDto =
  UpdateMailTrackingValueDto_mail_message_id :: uuid
  UpdateMailTrackingValueDto_field :: string
  UpdateMailTrackingValueDto_field_desc :: "string option"
  UpdateMailTrackingValueDto_field_type :: "string option"
  UpdateMailTrackingValueDto_old_value_integer :: "int option"
  UpdateMailTrackingValueDto_old_value_float :: "f64 option"
  UpdateMailTrackingValueDto_old_value_text :: "string option"
  UpdateMailTrackingValueDto_old_value_datetime :: "time option"
  UpdateMailTrackingValueDto_new_value_integer :: "int option"
  UpdateMailTrackingValueDto_new_value_float :: "f64 option"
  UpdateMailTrackingValueDto_new_value_text :: "string option"
  UpdateMailTrackingValueDto_new_value_datetime :: "time option"
  UpdateMailTrackingValueDto_currency_id :: "uuid option"

record MailTrackingValueResponseDto =
  MailTrackingValueResponseDto_id :: uuid
  MailTrackingValueResponseDto_mail_message_id :: uuid
  MailTrackingValueResponseDto_field :: string
  MailTrackingValueResponseDto_field_desc :: "string option"
  MailTrackingValueResponseDto_field_type :: "string option"
  MailTrackingValueResponseDto_old_value_integer :: "int option"
  MailTrackingValueResponseDto_old_value_float :: "f64 option"
  MailTrackingValueResponseDto_old_value_text :: "string option"
  MailTrackingValueResponseDto_old_value_datetime :: "time option"
  MailTrackingValueResponseDto_new_value_integer :: "int option"
  MailTrackingValueResponseDto_new_value_float :: "f64 option"
  MailTrackingValueResponseDto_new_value_text :: "string option"
  MailTrackingValueResponseDto_new_value_datetime :: "time option"
  MailTrackingValueResponseDto_currency_id :: "uuid option"
  MailTrackingValueResponseDto_metadata :: AuditMetadata

definition MailTrackingValue_response :: "MailTrackingValue \<Rightarrow> MailTrackingValueResponseDto" where
  "MailTrackingValue_response e =
     \<lparr>MailTrackingValueResponseDto_id = MailTrackingValue_id e,
      MailTrackingValueResponseDto_mail_message_id = MailTrackingValue_mail_message_id e,
      MailTrackingValueResponseDto_field = MailTrackingValue_field e,
      MailTrackingValueResponseDto_field_desc = MailTrackingValue_field_desc e,
      MailTrackingValueResponseDto_field_type = MailTrackingValue_field_type e,
      MailTrackingValueResponseDto_old_value_integer = MailTrackingValue_old_value_integer e,
      MailTrackingValueResponseDto_old_value_float = MailTrackingValue_old_value_float e,
      MailTrackingValueResponseDto_old_value_text = MailTrackingValue_old_value_text e,
      MailTrackingValueResponseDto_old_value_datetime = MailTrackingValue_old_value_datetime e,
      MailTrackingValueResponseDto_new_value_integer = MailTrackingValue_new_value_integer e,
      MailTrackingValueResponseDto_new_value_float = MailTrackingValue_new_value_float e,
      MailTrackingValueResponseDto_new_value_text = MailTrackingValue_new_value_text e,
      MailTrackingValueResponseDto_new_value_datetime = MailTrackingValue_new_value_datetime e,
      MailTrackingValueResponseDto_currency_id = MailTrackingValue_currency_id e,
      MailTrackingValueResponseDto_metadata = MailTrackingValue_metadata e\<rparr>"

definition MailTrackingValue_from_create :: "CreateMailTrackingValueDto \<Rightarrow> uuid \<Rightarrow> MailTrackingValue" where
  "MailTrackingValue_from_create d i =
     \<lparr>MailTrackingValue_id = i,
      MailTrackingValue_mail_message_id = CreateMailTrackingValueDto_mail_message_id d,
      MailTrackingValue_field = CreateMailTrackingValueDto_field d,
      MailTrackingValue_field_desc = CreateMailTrackingValueDto_field_desc d,
      MailTrackingValue_field_type = CreateMailTrackingValueDto_field_type d,
      MailTrackingValue_old_value_integer = CreateMailTrackingValueDto_old_value_integer d,
      MailTrackingValue_old_value_float = CreateMailTrackingValueDto_old_value_float d,
      MailTrackingValue_old_value_text = CreateMailTrackingValueDto_old_value_text d,
      MailTrackingValue_old_value_datetime = CreateMailTrackingValueDto_old_value_datetime d,
      MailTrackingValue_new_value_integer = CreateMailTrackingValueDto_new_value_integer d,
      MailTrackingValue_new_value_float = CreateMailTrackingValueDto_new_value_float d,
      MailTrackingValue_new_value_text = CreateMailTrackingValueDto_new_value_text d,
      MailTrackingValue_new_value_datetime = CreateMailTrackingValueDto_new_value_datetime d,
      MailTrackingValue_currency_id = CreateMailTrackingValueDto_currency_id d,
      MailTrackingValue_metadata = audit_default\<rparr>"

definition MailTrackingValue_apply_update :: "MailTrackingValue \<Rightarrow> UpdateMailTrackingValueDto \<Rightarrow> MailTrackingValue" where
  "MailTrackingValue_apply_update e d =
     e\<lparr>MailTrackingValue_mail_message_id := UpdateMailTrackingValueDto_mail_message_id d,
      MailTrackingValue_field := UpdateMailTrackingValueDto_field d,
      MailTrackingValue_field_desc := UpdateMailTrackingValueDto_field_desc d,
      MailTrackingValue_field_type := UpdateMailTrackingValueDto_field_type d,
      MailTrackingValue_old_value_integer := UpdateMailTrackingValueDto_old_value_integer d,
      MailTrackingValue_old_value_float := UpdateMailTrackingValueDto_old_value_float d,
      MailTrackingValue_old_value_text := UpdateMailTrackingValueDto_old_value_text d,
      MailTrackingValue_old_value_datetime := UpdateMailTrackingValueDto_old_value_datetime d,
      MailTrackingValue_new_value_integer := UpdateMailTrackingValueDto_new_value_integer d,
      MailTrackingValue_new_value_float := UpdateMailTrackingValueDto_new_value_float d,
      MailTrackingValue_new_value_text := UpdateMailTrackingValueDto_new_value_text d,
      MailTrackingValue_new_value_datetime := UpdateMailTrackingValueDto_new_value_datetime d,
      MailTrackingValue_currency_id := UpdateMailTrackingValueDto_currency_id d\<rparr>"

definition MailTrackingValue_to_value :: "encoders \<Rightarrow> MailTrackingValue \<Rightarrow> json" where
  "MailTrackingValue_to_value E e = JObject
     [(''id'', en_uuid E (MailTrackingValue_id e)),
      (''mail_message_id'', en_uuid E (MailTrackingValue_mail_message_id e)),
      (''field'', JString (MailTrackingValue_field e)),
      (''field_desc'', jopt JString (MailTrackingValue_field_desc e)),
      (''field_type'', jopt JString (MailTrackingValue_field_type e)),
      (''old_value_integer'', jopt JNumber (MailTrackingValue_old_value_integer e)),
      (''old_value_float'', jopt (write_f64 E) (MailTrackingValue_old_value_float e)),
      (''old_value_text'', jopt JString (MailTrackingValue_old_value_text e)),
      (''old_value_datetime'', jopt (en_time E) (MailTrackingValue_old_value_datetime e)),
      (''new_value_integer'', jopt JNumber (MailTrackingValue_new_value_integer e)),
      (''new_value_float'', jopt (write_f64 E) (MailTrackingValue_new_value_float e)),
      (''new_value_text'', jopt JString (MailTrackingValue_new_value_text e)),
      (''new_value_datetime'', jopt (en_time E) (MailTrackingValue_new_value_datetime e)),
      (''currency_id'', jopt (en_uuid E) (MailTrackingValue_currency_id e)),
      (''metadata'', audit_to_value E (MailTrackingValue_metadata e))]"

definition MailTrackingValue_row_rules :: "'v row_rule \<Rightarrow> encoders \<Rightarrow> MailTrackingValue write_ctx \<Rightarrow> guard_outcome" where
  "MailTrackingValue_row_rules R E ctx = row_guard (\<lambda>e. Some (MailTrackingValue_to_value E e)) (\<lambda>create update old row.
      required_rule R ''mail_message_id'' create update old row @
      required_rule R ''field'' create update old row) ctx"

lemma MailTrackingValue_apply_update_reach:
  "(\<exists>d. MailTrackingValue_apply_update e d = e') \<longleftrightarrow>
   MailTrackingValue_id e' = MailTrackingValue_id e \<and> MailTrackingValue_metadata e' = MailTrackingValue_metadata e"
proof
  assume "MailTrackingValue_id e' = MailTrackingValue_id e \<and> MailTrackingValue_metadata e' = MailTrackingValue_metadata e"
  then have "MailTrackingValue_apply_update e \<lparr>UpdateMailTrackingValueDto_mail_message_id = MailTrackingValue_mail_message_id e',
      UpdateMailTrackingValueDto_field = MailTrackingValue_field e',
      UpdateMailTrackingValueDto_field_desc = MailTrackingValue_field_desc e',
      UpdateMailTrackingValueDto_field_type = MailTrackingValue_field_type e',
      UpdateMailTrackingValueDto_old_value_integer = MailTrackingValue_old_value_integer e',
      UpdateMailTrackingValueDto_old_value_float = MailTrackingValue_old_value_float e',
      UpdateMailTrackingValueDto_old_value_text = MailTrackingValue_old_value_text e',
      UpdateMailTrackingValueDto_old_value_datetime = MailTrackingValue_old_value_datetime e',
      UpdateMailTrackingValueDto_new_value_integer = MailTrackingValue_new_value_integer e',
      UpdateMailTrackingValueDto_new_value_float = MailTrackingValue_new_value_float e',
      UpdateMailTrackingValueDto_new_value_text = MailTrackingValue_new_value_text e',
      UpdateMailTrackingValueDto_new_value_datetime = MailTrackingValue_new_value_datetime e',
      UpdateMailTrackingValueDto_currency_id = MailTrackingValue_currency_id e'\<rparr> = e'"
    by (cases e; cases e') (simp add: MailTrackingValue_apply_update_def)
  then show "\<exists>d. MailTrackingValue_apply_update e d = e'" by blast
qed (auto simp: MailTrackingValue_apply_update_def)

lemma MailTrackingValue_response_eq: "MailTrackingValue_response e = MailTrackingValue_response e' \<longleftrightarrow> e = e'"
  by (cases e; cases e') (simp add: MailTrackingValue_response_def)

end
