(* ===== verification/EntitiesQueues.thy ===== *)
theory EntitiesQueues
  imports RowValues StateMachines
begin

text \<open>
  The generated entities of \<open>src/domain/entity/\<close>:
  \<open>mail\<close>, \<open>mail_notification\<close>, \<open>sms\<close>, \<open>sms_template\<close>,
  \<open>sms_tracker\<close>, \<open>mail_blacklist\<close>, \<open>phone_blacklist\<close>.
  Each has its row, the constructor, the partial update, the builder and the
  tables the repository layer reads.  \<open>i\<close> is the fresh uuid of \<open>Uuid::new_v4()\<close> and \<open>now\<close> the instant of
  \<open>Utc::now()\<close>; the setters and getters of single fields are those of the records.
\<close>

section \<open>Mail\<close>

record Mail =
  Mail_id :: uuid
  Mail_mail_message_id :: uuid
  Mail_state :: MailState
  Mail_failure_type :: "MailFailureType option"
  Mail_scheduled_date :: "time option"
  Mail_auto_delete :: bool
  Mail_failure_reason :: "string option"
  Mail_email_to :: "string option"
  Mail_email_cc :: "string option"
  Mail_reply_to :: "string option"
  Mail_headers :: json
  Mail_metadata :: AuditMetadata

definition Mail_new ::
  "uuid \<Rightarrow> MailState \<Rightarrow> bool \<Rightarrow> json \<Rightarrow> uuid \<Rightarrow> Mail" where
  "Mail_new mail_message_id' state' auto_delete' headers' i =
     \<lparr>Mail_id = i, Mail_mail_message_id = mail_message_id', Mail_state = state', Mail_failure_type = None,
      Mail_scheduled_date = None, Mail_auto_delete = auto_delete', Mail_failure_reason = None, Mail_email_to = None,
      Mail_email_cc = None, Mail_reply_to = None, Mail_headers = headers', Mail_metadata = audit_default\<rparr>"

definition Mail_is_deleted :: "Mail \<Rightarrow> bool" where
  "Mail_is_deleted e \<longleftrightarrow> am_deleted_at (Mail_metadata e) \<noteq> None"

definition Mail_is_active :: "Mail \<Rightarrow> bool" where
  "Mail_is_active e \<longleftrightarrow> am_deleted_at (Mail_metadata e) = None"

definition Mail_set_entity_id :: "decoders \<Rightarrow> string \<Rightarrow> Mail \<Rightarrow> Mail" where
  "Mail_set_entity_id D s e = patch (parse_uuid D s) (\<lambda>u. e\<lparr>Mail_id := u\<rparr>) e"

definition Mail_patch_field :: "decoders \<Rightarrow> string \<Rightarrow> json \<Rightarrow> Mail \<Rightarrow> Mail" where
  "Mail_patch_field D k v e =
     (if k = ''mail_message_id'' then patch (read_uuid D v) (\<lambda>x. e\<lparr>Mail_mail_message_id := x\<rparr>) e
      else if k = ''failure_type'' then patch (de_option (de_enum D (pg_enum_cast MailFailureType_show MailFailureType_from_str)) v) (\<lambda>x. e\<lparr>Mail_failure_type := x\<rparr>) e
      else if k = ''scheduled_date'' then patch (de_option (read_time D) v) (\<lambda>x. e\<lparr>Mail_scheduled_date := x\<rparr>) e
      else if k = ''auto_delete'' then patch (read_bool D v) (\<lambda>x. e\<lparr>Mail_auto_delete := x\<rparr>) e
      else if k = ''failure_reason'' then patch (de_option (read_string D) v) (\<lambda>x. e\<lparr>Mail_failure_reason := x\<rparr>) e
      else if k = ''email_to'' then patch (de_option (read_string D) v) (\<lambda>x. e\<lparr>Mail_email_to := x\<rparr>) e
      else if k = ''email_cc'' then patch (de_option (read_string D) v) (\<lambda>x. e\<lparr>Mail_email_cc := x\<rparr>) e
      else if k = ''reply_to'' then patch (de_option (read_string D) v) (\<lambda>x. e\<lparr>Mail_reply_to := x\<rparr>) e
      else if k = ''headers'' then patch (Some v) (\<lambda>x. e\<lparr>Mail_headers := x\<rparr>) e
      else e)"

definition Mail_apply_patch :: "decoders \<Rightarrow> (string \<times> json) list \<Rightarrow> Mail \<Rightarrow> Mail" where
  "Mail_apply_patch D = patch_all (Mail_patch_field D)"

definition Mail_write_protected_fields :: "string list" where
  "Mail_write_protected_fields = [''state'']"

definition Mail_column_types :: "(string \<times> string) list" where
  "Mail_column_types =
    [(''id'', ''uuid''), (''mail_message_id'', ''uuid''), (''state'', ''mail_state''),
     (''failure_type'', ''mail_failure_type''), (''scheduled_date'', ''timestamptz'')]"

definition Mail_transition_to :: "MailHooksState \<Rightarrow> Mail \<Rightarrow> StateMachineError + Mail" where
  "Mail_transition_to new_state e =
     (case MailHooksState_from_str (MailState_show (Mail_state e)) of
        Inl x \<Rightarrow> Inl x
      | Inr current \<Rightarrow>
          (case fst (MailHooksStateMachine_transition_to_state current new_state) of
             Inl x \<Rightarrow> Inl x
           | Inr _ \<Rightarrow>
               (case MailState_from_str (MailHooksState_show new_state) of
                  Inl x \<Rightarrow> Inl (InvalidState x)
                | Inr s \<Rightarrow> Inr (e\<lparr>Mail_state := s\<rparr>))))"

record MailBuilder =
  MailBuilder_mail_message_id :: "uuid option"
  MailBuilder_state :: "MailState option"
  MailBuilder_failure_type :: "MailFailureType option"
  MailBuilder_scheduled_date :: "time option"
  MailBuilder_auto_delete :: "bool option"
  MailBuilder_failure_reason :: "string option"
  MailBuilder_email_to :: "string option"
  MailBuilder_email_cc :: "string option"
  MailBuilder_reply_to :: "string option"
  MailBuilder_headers :: "json option"

definition Mail_build :: "MailBuilder \<Rightarrow> uuid \<Rightarrow> time \<Rightarrow> string + Mail" where
  "Mail_build b i now =
     require ''mail_message_id'' (MailBuilder_mail_message_id b) (\<lambda>mail_message_id'.
     Inr \<lparr>Mail_id = i, Mail_mail_message_id = mail_message_id',
         Mail_state = or_else (MailBuilder_state b) MailState_default,
         Mail_failure_type = MailBuilder_failure_type b, Mail_scheduled_date = MailBuilder_scheduled_date b,
         Mail_auto_delete = or_else (MailBuilder_auto_delete b) False,
         Mail_failure_reason = MailBuilder_failure_reason b, Mail_email_to = MailBuilder_email_to b,
         Mail_email_cc = MailBuilder_email_cc b, Mail_reply_to = MailBuilder_reply_to b,
         Mail_headers = or_else (MailBuilder_headers b) (JObject []), Mail_metadata = audit_default\<rparr>)"

lemma Mail_apply_patch_keeps:
  "Mail_id (Mail_apply_patch D es e) = Mail_id e"
  "Mail_state (Mail_apply_patch D es e) = Mail_state e"
  "Mail_metadata (Mail_apply_patch D es e) = Mail_metadata e"
  unfolding Mail_apply_patch_def
  by (rule patch_all_keeps, simp add: Mail_patch_field_def
      if_distrib [of Mail_id] patch_distrib [of Mail_id] if_distrib [of Mail_state] patch_distrib [of Mail_state]
      if_distrib [of Mail_metadata] patch_distrib [of Mail_metadata])+

lemma Mail_build_iff: "(\<exists>e. Mail_build b i now = Inr e) \<longleftrightarrow> MailBuilder_mail_message_id b \<noteq> None"
  by (auto simp: Mail_build_def require_Inr)

lemma Mail_transition_to_iff:
  "Mail_transition_to goal e = Inr e' \<longleftrightarrow>
   (\<exists>s. MailHooksState_show s = MailState_show (Mail_state e) \<and> mail_hooks.edge s goal) \<and>
   (\<exists>x. MailState_show x = MailHooksState_show goal \<and> e' = e\<lparr>Mail_state := x\<rparr>)"
proof -
  obtain s where s: "MailHooksState_show s = MailState_show (Mail_state e)"
    by (cases "Mail_state e") (metis MailHooksState_show.simps MailState_show.simps)+
  have p: "MailHooksState_from_str (MailState_show (Mail_state e)) = Inr s" unfolding s [symmetric] by (rule mail_hooks_state_text.from_str_label)
  obtain x where x: "MailState_show x = MailHooksState_show goal"
    by (cases goal) (metis MailHooksState_show.simps MailState_show.simps)+
  have g: "MailState_from_str (MailHooksState_show goal) = Inr x" unfolding x [symmetric] by (rule mail_state.from_str_label)
  have src: "(\<exists>s'. MailHooksState_show s' = MailState_show (Mail_state e) \<and> mail_hooks.edge s' goal) \<longleftrightarrow> mail_hooks.edge s goal"
    unfolding s [symmetric] mail_hooks_state_text.label_inj by simp
  have tgt: "(\<exists>y. MailState_show y = MailHooksState_show goal \<and> e' = e\<lparr>Mail_state := y\<rparr>) \<longleftrightarrow> e' = e\<lparr>Mail_state := x\<rparr>"
    unfolding x [symmetric] mail_state.label_inj by simp
  show ?thesis
  proof (cases "mail_hooks.edge s goal")
    case True
    then show ?thesis unfolding src tgt
      using p g mail_hooks.to_state_ok [of s goal] by (auto simp: Mail_transition_to_def MailHooksStateMachine_transition_to_state_def)
  next
    case False
    then show ?thesis unfolding src tgt
      using p g mail_hooks.to_state_refused [of s goal] by (auto simp: Mail_transition_to_def MailHooksStateMachine_transition_to_state_def)
  qed
qed

section \<open>MailNotification\<close>

record MailNotification =
  MailNotification_id :: uuid
  MailNotification_mail_message_id :: uuid
  MailNotification_res_partner_id :: "uuid option"
  MailNotification_notification_type :: MailNotificationType
  MailNotification_notification_status :: MailNotificationStatus
  MailNotification_failure_type :: "NotificationFailureType option"
  MailNotification_failure_reason :: "string option"
  MailNotification_mail_mail_id_int :: "uuid option"
  MailNotification_is_read :: bool
  MailNotification_metadata :: AuditMetadata

definition MailNotification_new ::
  "uuid \<Rightarrow> MailNotificationType \<Rightarrow> MailNotificationStatus \<Rightarrow> bool \<Rightarrow>
  uuid \<Rightarrow> MailNotification" where
  "MailNotification_new mail_message_id' notification_type' notification_status' is_read' i =
     \<lparr>MailNotification_id = i, MailNotification_mail_message_id = mail_message_id',
      MailNotification_res_partner_id = None, MailNotification_notification_type = notification_type',
      MailNotification_notification_status = notification_status', MailNotification_failure_type = None,
      MailNotification_failure_reason = None, MailNotification_mail_mail_id_int = None,
      MailNotification_is_read = is_read', MailNotification_metadata = audit_default\<rparr>"

definition MailNotification_is_deleted :: "MailNotification \<Rightarrow> bool" where
  "MailNotification_is_deleted e \<longleftrightarrow> am_deleted_at (MailNotification_metadata e) \<noteq> None"

definition MailNotification_is_active :: "MailNotification \<Rightarrow> bool" where
  "MailNotification_is_active e \<longleftrightarrow> am_deleted_at (MailNotification_metadata e) = None"

definition MailNotification_set_entity_id :: "decoders \<Rightarrow> string \<Rightarrow> MailNotification \<Rightarrow> MailNotification" where
  "MailNotification_set_entity_id D s e = patch (parse_uuid D s) (\<lambda>u. e\<lparr>MailNotification_id := u\<rparr>) e"

definition MailNotification_patch_field :: "decoders \<Rightarrow> string \<Rightarrow> json \<Rightarrow> MailNotification \<Rightarrow> MailNotification" where
  "MailNotification_patch_field D k v e =
     (if k = ''mail_message_id'' then patch (read_uuid D v) (\<lambda>x. e\<lparr>MailNotification_mail_message_id := x\<rparr>) e
      else if k = ''res_partner_id'' then patch (de_option (read_uuid D) v) (\<lambda>x. e\<lparr>MailNotification_res_partner_id := x\<rparr>) e
      else if k = ''notification_type'' then patch (de_enum D (pg_enum_cast MailNotificationType_show MailNotificationType_from_str) v) (\<lambda>x. e\<lparr>MailNotification_notification_type := x\<rparr>) e
      else if k = ''failure_type'' then patch (de_option (de_enum D (pg_enum_cast NotificationFailureType_show NotificationFailureType_from_str)) v) (\<lambda>x. e\<lparr>MailNotification_failure_type := x\<rparr>) e
      else if k = ''failure_reason'' then patch (de_option (read_string D) v) (\<lambda>x. e\<lparr>MailNotification_failure_reason := x\<rparr>) e
      else if k = ''mail_mail_id_int'' then patch (de_option (read_uuid D) v) (\<lambda>x. e\<lparr>MailNotification_mail_mail_id_int := x\<rparr>) e
      else if k = ''is_read'' then patch (read_bool D v) (\<lambda>x. e\<lparr>MailNotification_is_read := x\<rparr>) e
      else e)"

definition MailNotification_apply_patch :: "decoders \<Rightarrow> (string \<times> json) list \<Rightarrow> MailNotification \<Rightarrow> MailNotification" where
  "MailNotification_apply_patch D = patch_all (MailNotification_patch_field D)"

definition MailNotification_write_protected_fields :: "string list" where
  "MailNotification_write_protected_fields = [''notification_status'']"

definition MailNotification_column_types :: "(string \<times> string) list" where
  "MailNotification_column_types =
    [(''id'', ''uuid''), (''mail_message_id'', ''uuid''), (''res_partner_id'', ''uuid''),
     (''notification_type'', ''mail_notification_type''), (''notification_status'', ''mail_notification_status''),
     (''failure_type'', ''notification_failure_type'')]"

definition MailNotification_transition_to :: "MailNotificationHooksState \<Rightarrow> MailNotification \<Rightarrow> StateMachineError + MailNotification" where
  "MailNotification_transition_to new_state e =
     (case MailNotificationHooksState_from_str (MailNotificationStatus_show (MailNotification_notification_status e)) of
        Inl x \<Rightarrow> Inl x
      | Inr current \<Rightarrow>
          (case fst (MailNotificationHooksStateMachine_transition_to_state current new_state) of
             Inl x \<Rightarrow> Inl x
           | Inr _ \<Rightarrow>
               (case MailNotificationStatus_from_str (MailNotificationHooksState_show new_state) of
                  Inl x \<Rightarrow> Inl (InvalidState x)
                | Inr s \<Rightarrow> Inr (e\<lparr>MailNotification_notification_status := s\<rparr>))))"

record MailNotificationBuilder =
  MailNotificationBuilder_mail_message_id :: "uuid option"
  MailNotificationBuilder_res_partner_id :: "uuid option"
  MailNotificationBuilder_notification_type :: "MailNotificationType option"
  MailNotificationBuilder_notification_status :: "MailNotificationStatus option"
  MailNotificationBuilder_failure_type :: "NotificationFailureType option"
  MailNotificationBuilder_failure_reason :: "string option"
  MailNotificationBuilder_mail_mail_id_int :: "uuid option"
  MailNotificationBuilder_is_read :: "bool option"

definition MailNotification_build :: "MailNotificationBuilder \<Rightarrow> uuid \<Rightarrow> time \<Rightarrow> string + MailNotification" where
  "MailNotification_build b i now =
     require ''mail_message_id'' (MailNotificationBuilder_mail_message_id b) (\<lambda>mail_message_id'.
     Inr \<lparr>MailNotification_id = i, MailNotification_mail_message_id = mail_message_id',
         MailNotification_res_partner_id = MailNotificationBuilder_res_partner_id b,
         MailNotification_notification_type = or_else (MailNotificationBuilder_notification_type b) MailNotificationType_default,
         MailNotification_notification_status = or_else (MailNotificationBuilder_notification_status b) MailNotificationStatus_default,
         MailNotification_failure_type = MailNotificationBuilder_failure_type b,
         MailNotification_failure_reason = MailNotificationBuilder_failure_reason b,
         MailNotification_mail_mail_id_int = MailNotificationBuilder_mail_mail_id_int b,
         MailNotification_is_read = or_else (MailNotificationBuilder_is_read b) False,
         MailNotification_metadata = audit_default\<rparr>)"

lemma MailNotification_apply_patch_keeps:
  "MailNotification_id (MailNotification_apply_patch D es e) = MailNotification_id e"
  "MailNotification_notification_status (MailNotification_apply_patch D es e) = MailNotification_notification_status e"
  "MailNotification_metadata (MailNotification_apply_patch D es e) = MailNotification_metadata e"
  unfolding MailNotification_apply_patch_def
  by (rule patch_all_keeps, simp add: MailNotification_patch_field_def
      if_distrib [of MailNotification_id] patch_distrib [of MailNotification_id]
      if_distrib [of MailNotification_notification_status] patch_distrib [of MailNotification_notification_status]
      if_distrib [of MailNotification_metadata] patch_distrib [of MailNotification_metadata])+

lemma MailNotification_build_iff: "(\<exists>e. MailNotification_build b i now = Inr e) \<longleftrightarrow> MailNotificationBuilder_mail_message_id b \<noteq> None"
  by (auto simp: MailNotification_build_def require_Inr)

lemma MailNotification_transition_to_iff:
  "MailNotification_transition_to goal e = Inr e' \<longleftrightarrow>
   (\<exists>s. MailNotificationHooksState_show s = MailNotificationStatus_show (MailNotification_notification_status e) \<and> mail_notification_hooks.edge s goal) \<and>
   (\<exists>x. MailNotificationStatus_show x = MailNotificationHooksState_show goal \<and> e' = e\<lparr>MailNotification_notification_status := x\<rparr>)"
proof -
  obtain s where s: "MailNotificationHooksState_show s = MailNotificationStatus_show (MailNotification_notification_status e)"
    by (cases "MailNotification_notification_status e") (metis MailNotificationHooksState_show.simps MailNotificationStatus_show.simps)+
  have p: "MailNotificationHooksState_from_str (MailNotificationStatus_show (MailNotification_notification_status e)) = Inr s" unfolding s [symmetric] by (rule mail_notification_hooks_state_text.from_str_label)
  obtain x where x: "MailNotificationStatus_show x = MailNotificationHooksState_show goal"
    by (cases goal) (metis MailNotificationHooksState_show.simps MailNotificationStatus_show.simps)+
  have g: "MailNotificationStatus_from_str (MailNotificationHooksState_show goal) = Inr x" unfolding x [symmetric] by (rule mail_notification_status.from_str_label)
  have src: "(\<exists>s'. MailNotificationHooksState_show s' = MailNotificationStatus_show (MailNotification_notification_status e) \<and> mail_notification_hooks.edge s' goal) \<longleftrightarrow> mail_notification_hooks.edge s goal"
    unfolding s [symmetric] mail_notification_hooks_state_text.label_inj by simp
  have tgt: "(\<exists>y. MailNotificationStatus_show y = MailNotificationHooksState_show goal \<and> e' = e\<lparr>MailNotification_notification_status := y\<rparr>) \<longleftrightarrow> e' = e\<lparr>MailNotification_notification_status := x\<rparr>"
    unfolding x [symmetric] mail_notification_status.label_inj by simp
  show ?thesis
  proof (cases "mail_notification_hooks.edge s goal")
    case True
    then show ?thesis unfolding src tgt
      using p g mail_notification_hooks.to_state_ok [of s goal] by (auto simp: MailNotification_transition_to_def MailNotificationHooksStateMachine_transition_to_state_def)
  next
    case False
    then show ?thesis unfolding src tgt
      using p g mail_notification_hooks.to_state_refused [of s goal] by (auto simp: MailNotification_transition_to_def MailNotificationHooksStateMachine_transition_to_state_def)
  qed
qed

section \<open>Sms\<close>

record Sms =
  Sms_id :: uuid
  Sms_uuid :: string
  Sms_number :: string
  Sms_body :: string
  Sms_state :: SmsState
  Sms_failure_type :: "SmsFailureType option"
  Sms_error_message :: "string option"
  Sms_mail_message_id :: "uuid option"
  Sms_iap_status_code :: "int option"
  Sms_metadata :: AuditMetadata

definition Sms_new ::
  "string \<Rightarrow> string \<Rightarrow> string \<Rightarrow> SmsState \<Rightarrow> uuid \<Rightarrow> Sms" where
  "Sms_new uuid' number' body' state' i =
     \<lparr>Sms_id = i, Sms_uuid = uuid', Sms_number = number', Sms_body = body', Sms_state = state',
      Sms_failure_type = None, Sms_error_message = None, Sms_mail_message_id = None, Sms_iap_status_code = None,
      Sms_metadata = audit_default\<rparr>"

definition Sms_is_deleted :: "Sms \<Rightarrow> bool" where
  "Sms_is_deleted e \<longleftrightarrow> am_deleted_at (Sms_metadata e) \<noteq> None"

definition Sms_is_active :: "Sms \<Rightarrow> bool" where
  "Sms_is_active e \<longleftrightarrow> am_deleted_at (Sms_metadata e) = None"

definition Sms_set_entity_id :: "decoders \<Rightarrow> string \<Rightarrow> Sms \<Rightarrow> Sms" where
  "Sms_set_entity_id D s e = patch (parse_uuid D s) (\<lambda>u. e\<lparr>Sms_id := u\<rparr>) e"

definition Sms_patch_field :: "decoders \<Rightarrow> string \<Rightarrow> json \<Rightarrow> Sms \<Rightarrow> Sms" where
  "Sms_patch_field D k v e =
     (if k = ''uuid'' then patch (read_string D v) (\<lambda>x. e\<lparr>Sms_uuid := x\<rparr>) e
      else if k = ''number'' then patch (read_string D v) (\<lambda>x. e\<lparr>Sms_number := x\<rparr>) e
      else if k = ''body'' then patch (read_string D v) (\<lambda>x. e\<lparr>Sms_body := x\<rparr>) e
      else if k = ''failure_type'' then patch (de_option (de_enum D (pg_enum_cast SmsFailureType_show SmsFailureType_from_str)) v) (\<lambda>x. e\<lparr>Sms_failure_type := x\<rparr>) e
      else if k = ''error_message'' then patch (de_option (read_string D) v) (\<lambda>x. e\<lparr>Sms_error_message := x\<rparr>) e
      else if k = ''mail_message_id'' then patch (de_option (read_uuid D) v) (\<lambda>x. e\<lparr>Sms_mail_message_id := x\<rparr>) e
      else if k = ''iap_status_code'' then patch (de_option (read_i32 D) v) (\<lambda>x. e\<lparr>Sms_iap_status_code := x\<rparr>) e
      else e)"

definition Sms_apply_patch :: "decoders \<Rightarrow> (string \<times> json) list \<Rightarrow> Sms \<Rightarrow> Sms" where
  "Sms_apply_patch D = patch_all (Sms_patch_field D)"

definition Sms_write_protected_fields :: "string list" where
  "Sms_write_protected_fields = [''state'']"

definition Sms_column_types :: "(string \<times> string) list" where
  "Sms_column_types =
    [(''id'', ''uuid''), (''mail_message_id'', ''uuid''), (''state'', ''sms_state''),
     (''failure_type'', ''sms_failure_type'')]"

definition Sms_transition_to :: "SmsHooksState \<Rightarrow> Sms \<Rightarrow> StateMachineError + Sms" where
  "Sms_transition_to new_state e =
     (case SmsHooksState_from_str (SmsState_show (Sms_state e)) of
        Inl x \<Rightarrow> Inl x
      | Inr current \<Rightarrow>
          (case fst (SmsHooksStateMachine_transition_to_state current new_state) of
             Inl x \<Rightarrow> Inl x
           | Inr _ \<Rightarrow>
               (case SmsState_from_str (SmsHooksState_show new_state) of
                  Inl x \<Rightarrow> Inl (InvalidState x)
                | Inr s \<Rightarrow> Inr (e\<lparr>Sms_state := s\<rparr>))))"

record SmsBuilder =
  SmsBuilder_uuid :: "string option"
  SmsBuilder_number :: "string option"
  SmsBuilder_body :: "string option"
  SmsBuilder_state :: "SmsState option"
  SmsBuilder_failure_type :: "SmsFailureType option"
  SmsBuilder_error_message :: "string option"
  SmsBuilder_mail_message_id :: "uuid option"
  SmsBuilder_iap_status_code :: "int option"

definition Sms_build :: "SmsBuilder \<Rightarrow> uuid \<Rightarrow> time \<Rightarrow> string + Sms" where
  "Sms_build b i now =
     require ''uuid'' (SmsBuilder_uuid b) (\<lambda>uuid'.
     require ''number'' (SmsBuilder_number b) (\<lambda>number'.
     require ''body'' (SmsBuilder_body b) (\<lambda>body'.
     Inr \<lparr>Sms_id = i, Sms_uuid = uuid', Sms_number = number', Sms_body = body',
         Sms_state = or_else (SmsBuilder_state b) SmsState_default, Sms_failure_type = SmsBuilder_failure_type b,
         Sms_error_message = SmsBuilder_error_message b, Sms_mail_message_id = SmsBuilder_mail_message_id b,
         Sms_iap_status_code = SmsBuilder_iap_status_code b, Sms_metadata = audit_default\<rparr>)))"

lemma Sms_apply_patch_keeps:
  "Sms_id (Sms_apply_patch D es e) = Sms_id e"
  "Sms_state (Sms_apply_patch D es e) = Sms_state e"
  "Sms_metadata (Sms_apply_patch D es e) = Sms_metadata e"
  unfolding Sms_apply_patch_def
  by (rule patch_all_keeps, simp add: Sms_patch_field_def
      if_distrib [of Sms_id] patch_distrib [of Sms_id] if_distrib [of Sms_state] patch_distrib [of Sms_state]
      if_distrib [of Sms_metadata] patch_distrib [of Sms_metadata])+

lemma Sms_build_iff: "(\<exists>e. Sms_build b i now = Inr e) \<longleftrightarrow> SmsBuilder_uuid b \<noteq> None \<and> SmsBuilder_number b \<noteq> None \<and> SmsBuilder_body b \<noteq> None"
  by (auto simp: Sms_build_def require_Inr)

lemma Sms_transition_to_iff:
  "Sms_transition_to goal e = Inr e' \<longleftrightarrow>
   (\<exists>s. SmsHooksState_show s = SmsState_show (Sms_state e) \<and> sms_hooks.edge s goal) \<and>
   (\<exists>x. SmsState_show x = SmsHooksState_show goal \<and> e' = e\<lparr>Sms_state := x\<rparr>)"
proof -
  obtain s where s: "SmsHooksState_show s = SmsState_show (Sms_state e)"
    by (cases "Sms_state e") (metis SmsHooksState_show.simps SmsState_show.simps)+
  have p: "SmsHooksState_from_str (SmsState_show (Sms_state e)) = Inr s" unfolding s [symmetric] by (rule sms_hooks_state_text.from_str_label)
  obtain x where x: "SmsState_show x = SmsHooksState_show goal"
    by (cases goal) (metis SmsHooksState_show.simps SmsState_show.simps)+
  have g: "SmsState_from_str (SmsHooksState_show goal) = Inr x" unfolding x [symmetric] by (rule sms_state.from_str_label)
  have src: "(\<exists>s'. SmsHooksState_show s' = SmsState_show (Sms_state e) \<and> sms_hooks.edge s' goal) \<longleftrightarrow> sms_hooks.edge s goal"
    unfolding s [symmetric] sms_hooks_state_text.label_inj by simp
  have tgt: "(\<exists>y. SmsState_show y = SmsHooksState_show goal \<and> e' = e\<lparr>Sms_state := y\<rparr>) \<longleftrightarrow> e' = e\<lparr>Sms_state := x\<rparr>"
    unfolding x [symmetric] sms_state.label_inj by simp
  show ?thesis
  proof (cases "sms_hooks.edge s goal")
    case True
    then show ?thesis unfolding src tgt
      using p g sms_hooks.to_state_ok [of s goal] by (auto simp: Sms_transition_to_def SmsHooksStateMachine_transition_to_state_def)
  next
    case False
    then show ?thesis unfolding src tgt
      using p g sms_hooks.to_state_refused [of s goal] by (auto simp: Sms_transition_to_def SmsHooksStateMachine_transition_to_state_def)
  qed
qed

section \<open>SmsTemplate\<close>

record SmsTemplate =
  SmsTemplate_id :: uuid
  SmsTemplate_name :: string
  SmsTemplate_body :: string
  SmsTemplate_model_id :: "uuid option"
  SmsTemplate_lang :: "string option"
  SmsTemplate_condition :: "string option"
  SmsTemplate_active :: bool
  SmsTemplate_metadata :: AuditMetadata

definition SmsTemplate_new ::
  "string \<Rightarrow> string \<Rightarrow> bool \<Rightarrow> uuid \<Rightarrow> SmsTemplate" where
  "SmsTemplate_new name' body' active' i =
     \<lparr>SmsTemplate_id = i, SmsTemplate_name = name', SmsTemplate_body = body', SmsTemplate_model_id = None,
      SmsTemplate_lang = None, SmsTemplate_condition = None, SmsTemplate_active = active',
      SmsTemplate_metadata = audit_default\<rparr>"

definition SmsTemplate_is_deleted :: "SmsTemplate \<Rightarrow> bool" where
  "SmsTemplate_is_deleted e \<longleftrightarrow> am_deleted_at (SmsTemplate_metadata e) \<noteq> None"

definition SmsTemplate_is_active :: "SmsTemplate \<Rightarrow> bool" where
  "SmsTemplate_is_active e \<longleftrightarrow> am_deleted_at (SmsTemplate_metadata e) = None"

definition SmsTemplate_set_entity_id :: "decoders \<Rightarrow> string \<Rightarrow> SmsTemplate \<Rightarrow> SmsTemplate" where
  "SmsTemplate_set_entity_id D s e = patch (parse_uuid D s) (\<lambda>u. e\<lparr>SmsTemplate_id := u\<rparr>) e"

definition SmsTemplate_patch_field :: "decoders \<Rightarrow> string \<Rightarrow> json \<Rightarrow> SmsTemplate \<Rightarrow> SmsTemplate" where
  "SmsTemplate_patch_field D k v e =
     (if k = ''name'' then patch (read_string D v) (\<lambda>x. e\<lparr>SmsTemplate_name := x\<rparr>) e
      else if k = ''body'' then patch (read_string D v) (\<lambda>x. e\<lparr>SmsTemplate_body := x\<rparr>) e
      else if k = ''model_id'' then patch (de_option (read_uuid D) v) (\<lambda>x. e\<lparr>SmsTemplate_model_id := x\<rparr>) e
      else if k = ''lang'' then patch (de_option (read_string D) v) (\<lambda>x. e\<lparr>SmsTemplate_lang := x\<rparr>) e
      else if k = ''condition'' then patch (de_option (read_string D) v) (\<lambda>x. e\<lparr>SmsTemplate_condition := x\<rparr>) e
      else if k = ''active'' then patch (read_bool D v) (\<lambda>x. e\<lparr>SmsTemplate_active := x\<rparr>) e
      else e)"

definition SmsTemplate_apply_patch :: "decoders \<Rightarrow> (string \<times> json) list \<Rightarrow> SmsTemplate \<Rightarrow> SmsTemplate" where
  "SmsTemplate_apply_patch D = patch_all (SmsTemplate_patch_field D)"

definition SmsTemplate_column_types :: "(string \<times> string) list" where
  "SmsTemplate_column_types =
    [(''id'', ''uuid''), (''model_id'', ''uuid'')]"

record SmsTemplateBuilder =
  SmsTemplateBuilder_name :: "string option"
  SmsTemplateBuilder_body :: "string option"
  SmsTemplateBuilder_model_id :: "uuid option"
  SmsTemplateBuilder_lang :: "string option"
  SmsTemplateBuilder_condition :: "string option"
  SmsTemplateBuilder_active :: "bool option"

definition SmsTemplate_build :: "SmsTemplateBuilder \<Rightarrow> uuid \<Rightarrow> time \<Rightarrow> string + SmsTemplate" where
  "SmsTemplate_build b i now =
     require ''name'' (SmsTemplateBuilder_name b) (\<lambda>name'.
     require ''body'' (SmsTemplateBuilder_body b) (\<lambda>body'.
     Inr \<lparr>SmsTemplate_id = i, SmsTemplate_name = name', SmsTemplate_body = body',
         SmsTemplate_model_id = SmsTemplateBuilder_model_id b, SmsTemplate_lang = SmsTemplateBuilder_lang b,
         SmsTemplate_condition = SmsTemplateBuilder_condition b,
         SmsTemplate_active = or_else (SmsTemplateBuilder_active b) True, SmsTemplate_metadata = audit_default\<rparr>))"

lemma SmsTemplate_apply_patch_keeps:
  "SmsTemplate_id (SmsTemplate_apply_patch D es e) = SmsTemplate_id e"
  "SmsTemplate_metadata (SmsTemplate_apply_patch D es e) = SmsTemplate_metadata e"
  unfolding SmsTemplate_apply_patch_def
  by (rule patch_all_keeps, simp add: SmsTemplate_patch_field_def
      if_distrib [of SmsTemplate_id] patch_distrib [of SmsTemplate_id]
      if_distrib [of SmsTemplate_metadata] patch_distrib [of SmsTemplate_metadata])+

lemma SmsTemplate_build_iff: "(\<exists>e. SmsTemplate_build b i now = Inr e) \<longleftrightarrow> SmsTemplateBuilder_name b \<noteq> None \<and> SmsTemplateBuilder_body b \<noteq> None"
  by (auto simp: SmsTemplate_build_def require_Inr)

section \<open>SmsTracker\<close>

record SmsTracker =
  SmsTracker_id :: uuid
  SmsTracker_sms_uuid :: string
  SmsTracker_message_id :: "uuid option"
  SmsTracker_notification_id :: "uuid option"
  SmsTracker_state :: MailNotificationStatus
  SmsTracker_failure_type :: "NotificationFailureType option"
  SmsTracker_failure_reason :: "string option"
  SmsTracker_recipient :: "string option"
  SmsTracker_metadata :: AuditMetadata

definition SmsTracker_new ::
  "string \<Rightarrow> MailNotificationStatus \<Rightarrow> uuid \<Rightarrow> SmsTracker" where
  "SmsTracker_new sms_uuid' state' i =
     \<lparr>SmsTracker_id = i, SmsTracker_sms_uuid = sms_uuid', SmsTracker_message_id = None,
      SmsTracker_notification_id = None, SmsTracker_state = state', SmsTracker_failure_type = None,
      SmsTracker_failure_reason = None, SmsTracker_recipient = None, SmsTracker_metadata = audit_default\<rparr>"

definition SmsTracker_is_deleted :: "SmsTracker \<Rightarrow> bool" where
  "SmsTracker_is_deleted e \<longleftrightarrow> am_deleted_at (SmsTracker_metadata e) \<noteq> None"

definition SmsTracker_is_active :: "SmsTracker \<Rightarrow> bool" where
  "SmsTracker_is_active e \<longleftrightarrow> am_deleted_at (SmsTracker_metadata e) = None"

definition SmsTracker_set_entity_id :: "decoders \<Rightarrow> string \<Rightarrow> SmsTracker \<Rightarrow> SmsTracker" where
  "SmsTracker_set_entity_id D s e = patch (parse_uuid D s) (\<lambda>u. e\<lparr>SmsTracker_id := u\<rparr>) e"

definition SmsTracker_patch_field :: "decoders \<Rightarrow> string \<Rightarrow> json \<Rightarrow> SmsTracker \<Rightarrow> SmsTracker" where
  "SmsTracker_patch_field D k v e =
     (if k = ''sms_uuid'' then patch (read_string D v) (\<lambda>x. e\<lparr>SmsTracker_sms_uuid := x\<rparr>) e
      else if k = ''message_id'' then patch (de_option (read_uuid D) v) (\<lambda>x. e\<lparr>SmsTracker_message_id := x\<rparr>) e
      else if k = ''notification_id'' then patch (de_option (read_uuid D) v) (\<lambda>x. e\<lparr>SmsTracker_notification_id := x\<rparr>) e
      else if k = ''state'' then patch (de_enum D (pg_enum_cast MailNotificationStatus_show MailNotificationStatus_from_str) v) (\<lambda>x. e\<lparr>SmsTracker_state := x\<rparr>) e
      else if k = ''failure_type'' then patch (de_option (de_enum D (pg_enum_cast NotificationFailureType_show NotificationFailureType_from_str)) v) (\<lambda>x. e\<lparr>SmsTracker_failure_type := x\<rparr>) e
      else if k = ''failure_reason'' then patch (de_option (read_string D) v) (\<lambda>x. e\<lparr>SmsTracker_failure_reason := x\<rparr>) e
      else if k = ''recipient'' then patch (de_option (read_string D) v) (\<lambda>x. e\<lparr>SmsTracker_recipient := x\<rparr>) e
      else e)"

definition SmsTracker_apply_patch :: "decoders \<Rightarrow> (string \<times> json) list \<Rightarrow> SmsTracker \<Rightarrow> SmsTracker" where
  "SmsTracker_apply_patch D = patch_all (SmsTracker_patch_field D)"

definition SmsTracker_write_protected_fields :: "string list" where
  "SmsTracker_write_protected_fields = [''state'']"

definition SmsTracker_column_types :: "(string \<times> string) list" where
  "SmsTracker_column_types =
    [(''id'', ''uuid''), (''message_id'', ''uuid''), (''notification_id'', ''uuid''),
     (''state'', ''mail_notification_status''), (''failure_type'', ''notification_failure_type'')]"

record SmsTrackerBuilder =
  SmsTrackerBuilder_sms_uuid :: "string option"
  SmsTrackerBuilder_message_id :: "uuid option"
  SmsTrackerBuilder_notification_id :: "uuid option"
  SmsTrackerBuilder_state :: "MailNotificationStatus option"
  SmsTrackerBuilder_failure_type :: "NotificationFailureType option"
  SmsTrackerBuilder_failure_reason :: "string option"
  SmsTrackerBuilder_recipient :: "string option"

definition SmsTracker_build :: "SmsTrackerBuilder \<Rightarrow> uuid \<Rightarrow> time \<Rightarrow> string + SmsTracker" where
  "SmsTracker_build b i now =
     require ''sms_uuid'' (SmsTrackerBuilder_sms_uuid b) (\<lambda>sms_uuid'.
     Inr \<lparr>SmsTracker_id = i, SmsTracker_sms_uuid = sms_uuid',
         SmsTracker_message_id = SmsTrackerBuilder_message_id b,
         SmsTracker_notification_id = SmsTrackerBuilder_notification_id b,
         SmsTracker_state = or_else (SmsTrackerBuilder_state b) MailNotificationStatus_default,
         SmsTracker_failure_type = SmsTrackerBuilder_failure_type b,
         SmsTracker_failure_reason = SmsTrackerBuilder_failure_reason b,
         SmsTracker_recipient = SmsTrackerBuilder_recipient b, SmsTracker_metadata = audit_default\<rparr>)"

lemma SmsTracker_apply_patch_keeps:
  "SmsTracker_id (SmsTracker_apply_patch D es e) = SmsTracker_id e"
  "SmsTracker_metadata (SmsTracker_apply_patch D es e) = SmsTracker_metadata e"
  unfolding SmsTracker_apply_patch_def
  by (rule patch_all_keeps, simp add: SmsTracker_patch_field_def
      if_distrib [of SmsTracker_id] patch_distrib [of SmsTracker_id]
      if_distrib [of SmsTracker_metadata] patch_distrib [of SmsTracker_metadata])+

lemma SmsTracker_build_iff: "(\<exists>e. SmsTracker_build b i now = Inr e) \<longleftrightarrow> SmsTrackerBuilder_sms_uuid b \<noteq> None"
  by (auto simp: SmsTracker_build_def require_Inr)

section \<open>MailBlacklist\<close>

record MailBlacklist =
  MailBlacklist_id :: uuid
  MailBlacklist_email :: string
  MailBlacklist_opt_out_reason_id :: "uuid option"
  MailBlacklist_active :: bool
  MailBlacklist_metadata :: AuditMetadata

definition MailBlacklist_new ::
  "string \<Rightarrow> bool \<Rightarrow> uuid \<Rightarrow> MailBlacklist" where
  "MailBlacklist_new email' active' i =
     \<lparr>MailBlacklist_id = i, MailBlacklist_email = email', MailBlacklist_opt_out_reason_id = None,
      MailBlacklist_active = active', MailBlacklist_metadata = audit_default\<rparr>"

definition MailBlacklist_is_deleted :: "MailBlacklist \<Rightarrow> bool" where
  "MailBlacklist_is_deleted e \<longleftrightarrow> am_deleted_at (MailBlacklist_metadata e) \<noteq> None"

definition MailBlacklist_is_active :: "MailBlacklist \<Rightarrow> bool" where
  "MailBlacklist_is_active e \<longleftrightarrow> am_deleted_at (MailBlacklist_metadata e) = None"

definition MailBlacklist_set_entity_id :: "decoders \<Rightarrow> string \<Rightarrow> MailBlacklist \<Rightarrow> MailBlacklist" where
  "MailBlacklist_set_entity_id D s e = patch (parse_uuid D s) (\<lambda>u. e\<lparr>MailBlacklist_id := u\<rparr>) e"

definition MailBlacklist_patch_field :: "decoders \<Rightarrow> string \<Rightarrow> json \<Rightarrow> MailBlacklist \<Rightarrow> MailBlacklist" where
  "MailBlacklist_patch_field D k v e =
     (if k = ''email'' then patch (read_string D v) (\<lambda>x. e\<lparr>MailBlacklist_email := x\<rparr>) e
      else if k = ''opt_out_reason_id'' then patch (de_option (read_uuid D) v) (\<lambda>x. e\<lparr>MailBlacklist_opt_out_reason_id := x\<rparr>) e
      else if k = ''active'' then patch (read_bool D v) (\<lambda>x. e\<lparr>MailBlacklist_active := x\<rparr>) e
      else e)"

definition MailBlacklist_apply_patch :: "decoders \<Rightarrow> (string \<times> json) list \<Rightarrow> MailBlacklist \<Rightarrow> MailBlacklist" where
  "MailBlacklist_apply_patch D = patch_all (MailBlacklist_patch_field D)"

definition MailBlacklist_column_types :: "(string \<times> string) list" where
  "MailBlacklist_column_types =
    [(''id'', ''uuid''), (''opt_out_reason_id'', ''uuid'')]"

record MailBlacklistBuilder =
  MailBlacklistBuilder_email :: "string option"
  MailBlacklistBuilder_opt_out_reason_id :: "uuid option"
  MailBlacklistBuilder_active :: "bool option"

definition MailBlacklist_build :: "MailBlacklistBuilder \<Rightarrow> uuid \<Rightarrow> time \<Rightarrow> string + MailBlacklist" where
  "MailBlacklist_build b i now =
     require ''email'' (MailBlacklistBuilder_email b) (\<lambda>email'.
     Inr \<lparr>MailBlacklist_id = i, MailBlacklist_email = email',
         MailBlacklist_opt_out_reason_id = MailBlacklistBuilder_opt_out_reason_id b,
         MailBlacklist_active = or_else (MailBlacklistBuilder_active b) True, MailBlacklist_metadata = audit_default\<rparr>)"

lemma MailBlacklist_apply_patch_keeps:
  "MailBlacklist_id (MailBlacklist_apply_patch D es e) = MailBlacklist_id e"
  "MailBlacklist_metadata (MailBlacklist_apply_patch D es e) = MailBlacklist_metadata e"
  unfolding MailBlacklist_apply_patch_def
  by (rule patch_all_keeps, simp add: MailBlacklist_patch_field_def
      if_distrib [of MailBlacklist_id] patch_distrib [of MailBlacklist_id]
      if_distrib [of MailBlacklist_metadata] patch_distrib [of MailBlacklist_metadata])+

lemma MailBlacklist_build_iff: "(\<exists>e. MailBlacklist_build b i now = Inr e) \<longleftrightarrow> MailBlacklistBuilder_email b \<noteq> None"
  by (auto simp: MailBlacklist_build_def require_Inr)

section \<open>PhoneBlacklist\<close>

record PhoneBlacklist =
  PhoneBlacklist_id :: uuid
  PhoneBlacklist_number :: string
  PhoneBlacklist_active :: bool
  PhoneBlacklist_metadata :: AuditMetadata

definition PhoneBlacklist_new ::
  "string \<Rightarrow> bool \<Rightarrow> uuid \<Rightarrow> PhoneBlacklist" where
  "PhoneBlacklist_new number' active' i =
     \<lparr>PhoneBlacklist_id = i, PhoneBlacklist_number = number', PhoneBlacklist_active = active',
      PhoneBlacklist_metadata = audit_default\<rparr>"

definition PhoneBlacklist_is_deleted :: "PhoneBlacklist \<Rightarrow> bool" where
  "PhoneBlacklist_is_deleted e \<longleftrightarrow> am_deleted_at (PhoneBlacklist_metadata e) \<noteq> None"

definition PhoneBlacklist_is_active :: "PhoneBlacklist \<Rightarrow> bool" where
  "PhoneBlacklist_is_active e \<longleftrightarrow> am_deleted_at (PhoneBlacklist_metadata e) = None"

definition PhoneBlacklist_set_entity_id :: "decoders \<Rightarrow> string \<Rightarrow> PhoneBlacklist \<Rightarrow> PhoneBlacklist" where
  "PhoneBlacklist_set_entity_id D s e = patch (parse_uuid D s) (\<lambda>u. e\<lparr>PhoneBlacklist_id := u\<rparr>) e"

definition PhoneBlacklist_patch_field :: "decoders \<Rightarrow> string \<Rightarrow> json \<Rightarrow> PhoneBlacklist \<Rightarrow> PhoneBlacklist" where
  "PhoneBlacklist_patch_field D k v e =
     (if k = ''number'' then patch (read_string D v) (\<lambda>x. e\<lparr>PhoneBlacklist_number := x\<rparr>) e
      else if k = ''active'' then patch (read_bool D v) (\<lambda>x. e\<lparr>PhoneBlacklist_active := x\<rparr>) e
      else e)"

definition PhoneBlacklist_apply_patch :: "decoders \<Rightarrow> (string \<times> json) list \<Rightarrow> PhoneBlacklist \<Rightarrow> PhoneBlacklist" where
  "PhoneBlacklist_apply_patch D = patch_all (PhoneBlacklist_patch_field D)"

definition PhoneBlacklist_column_types :: "(string \<times> string) list" where
  "PhoneBlacklist_column_types =
    [(''id'', ''uuid'')]"

record PhoneBlacklistBuilder =
  PhoneBlacklistBuilder_number :: "string option"
  PhoneBlacklistBuilder_active :: "bool option"

definition PhoneBlacklist_build :: "PhoneBlacklistBuilder \<Rightarrow> uuid \<Rightarrow> time \<Rightarrow> string + PhoneBlacklist" where
  "PhoneBlacklist_build b i now =
     require ''number'' (PhoneBlacklistBuilder_number b) (\<lambda>number'.
     Inr \<lparr>PhoneBlacklist_id = i, PhoneBlacklist_number = number',
         PhoneBlacklist_active = or_else (PhoneBlacklistBuilder_active b) True,
         PhoneBlacklist_metadata = audit_default\<rparr>)"

lemma PhoneBlacklist_apply_patch_keeps:
  "PhoneBlacklist_id (PhoneBlacklist_apply_patch D es e) = PhoneBlacklist_id e"
  "PhoneBlacklist_metadata (PhoneBlacklist_apply_patch D es e) = PhoneBlacklist_metadata e"
  unfolding PhoneBlacklist_apply_patch_def
  by (rule patch_all_keeps, simp add: PhoneBlacklist_patch_field_def
      if_distrib [of PhoneBlacklist_id] patch_distrib [of PhoneBlacklist_id]
      if_distrib [of PhoneBlacklist_metadata] patch_distrib [of PhoneBlacklist_metadata])+

lemma PhoneBlacklist_build_iff: "(\<exists>e. PhoneBlacklist_build b i now = Inr e) \<longleftrightarrow> PhoneBlacklistBuilder_number b \<noteq> None"
  by (auto simp: PhoneBlacklist_build_def require_Inr)

end
