(* ===== verification/RowsQueues.thy ===== *)
theory RowsQueues
  imports EntitiesQueues RowGuards
begin

text \<open>
  The wire forms and the row rules of the entities of \<open>EntitiesQueues\<close>: \<open>src/presentation/dto/\<close> and the \<open>RowRules\<close> of
  \<open>src/application/service/\<close>.  The conversion from a reference and the one from an owned entity are one function.
\<close>

section \<open>Mail\<close>

record CreateMailDto =
  CreateMailDto_mail_message_id :: uuid
  CreateMailDto_failure_type :: "MailFailureType option"
  CreateMailDto_scheduled_date :: "time option"
  CreateMailDto_auto_delete :: bool
  CreateMailDto_failure_reason :: "string option"
  CreateMailDto_email_to :: "string option"
  CreateMailDto_email_cc :: "string option"
  CreateMailDto_reply_to :: "string option"
  CreateMailDto_headers :: json

record UpdateMailDto =
  UpdateMailDto_mail_message_id :: uuid
  UpdateMailDto_state :: MailState
  UpdateMailDto_failure_type :: "MailFailureType option"
  UpdateMailDto_scheduled_date :: "time option"
  UpdateMailDto_auto_delete :: bool
  UpdateMailDto_failure_reason :: "string option"
  UpdateMailDto_email_to :: "string option"
  UpdateMailDto_email_cc :: "string option"
  UpdateMailDto_reply_to :: "string option"
  UpdateMailDto_headers :: json

record MailResponseDto =
  MailResponseDto_id :: uuid
  MailResponseDto_mail_message_id :: uuid
  MailResponseDto_state :: MailState
  MailResponseDto_failure_type :: "MailFailureType option"
  MailResponseDto_scheduled_date :: "time option"
  MailResponseDto_auto_delete :: bool
  MailResponseDto_failure_reason :: "string option"
  MailResponseDto_email_to :: "string option"
  MailResponseDto_email_cc :: "string option"
  MailResponseDto_reply_to :: "string option"
  MailResponseDto_headers :: json
  MailResponseDto_metadata :: AuditMetadata

definition Mail_response :: "Mail \<Rightarrow> MailResponseDto" where
  "Mail_response e =
     \<lparr>MailResponseDto_id = Mail_id e, MailResponseDto_mail_message_id = Mail_mail_message_id e,
      MailResponseDto_state = Mail_state e, MailResponseDto_failure_type = Mail_failure_type e,
      MailResponseDto_scheduled_date = Mail_scheduled_date e, MailResponseDto_auto_delete = Mail_auto_delete e,
      MailResponseDto_failure_reason = Mail_failure_reason e, MailResponseDto_email_to = Mail_email_to e,
      MailResponseDto_email_cc = Mail_email_cc e, MailResponseDto_reply_to = Mail_reply_to e,
      MailResponseDto_headers = Mail_headers e, MailResponseDto_metadata = Mail_metadata e\<rparr>"

definition Mail_from_create :: "CreateMailDto \<Rightarrow> uuid \<Rightarrow> Mail" where
  "Mail_from_create d i =
     \<lparr>Mail_id = i, Mail_mail_message_id = CreateMailDto_mail_message_id d, Mail_state = MailState.Outgoing,
      Mail_failure_type = CreateMailDto_failure_type d, Mail_scheduled_date = CreateMailDto_scheduled_date d,
      Mail_auto_delete = CreateMailDto_auto_delete d, Mail_failure_reason = CreateMailDto_failure_reason d,
      Mail_email_to = CreateMailDto_email_to d, Mail_email_cc = CreateMailDto_email_cc d,
      Mail_reply_to = CreateMailDto_reply_to d, Mail_headers = CreateMailDto_headers d, Mail_metadata = audit_default\<rparr>"

definition Mail_apply_update :: "Mail \<Rightarrow> UpdateMailDto \<Rightarrow> Mail" where
  "Mail_apply_update e d =
     e\<lparr>Mail_mail_message_id := UpdateMailDto_mail_message_id d, Mail_state := UpdateMailDto_state d,
      Mail_failure_type := UpdateMailDto_failure_type d, Mail_scheduled_date := UpdateMailDto_scheduled_date d,
      Mail_auto_delete := UpdateMailDto_auto_delete d, Mail_failure_reason := UpdateMailDto_failure_reason d,
      Mail_email_to := UpdateMailDto_email_to d, Mail_email_cc := UpdateMailDto_email_cc d,
      Mail_reply_to := UpdateMailDto_reply_to d, Mail_headers := UpdateMailDto_headers d\<rparr>"

definition Mail_to_value :: "encoders \<Rightarrow> Mail \<Rightarrow> json" where
  "Mail_to_value E e = JObject
     [(''id'', en_uuid E (Mail_id e)), (''mail_message_id'', en_uuid E (Mail_mail_message_id e)),
      (''state'', (\<lambda>x. JString (MailState_show x)) (Mail_state e)),
      (''failure_type'', jopt (\<lambda>x. JString (MailFailureType_show x)) (Mail_failure_type e)),
      (''scheduled_date'', jopt (en_time E) (Mail_scheduled_date e)), (''auto_delete'', JBool (Mail_auto_delete e)),
      (''failure_reason'', jopt JString (Mail_failure_reason e)), (''email_to'', jopt JString (Mail_email_to e)),
      (''email_cc'', jopt JString (Mail_email_cc e)), (''reply_to'', jopt JString (Mail_reply_to e)),
      (''headers'', id (Mail_headers e)), (''metadata'', audit_to_value E (Mail_metadata e))]"

definition Mail_row_rules :: "'v row_rule \<Rightarrow> encoders \<Rightarrow> Mail write_ctx \<Rightarrow> guard_outcome" where
  "Mail_row_rules R E ctx = row_guard (\<lambda>e. Some (Mail_to_value E e)) (\<lambda>create update old row.
      verbs_only_rule R ''state'' (wc_transition ctx) create update old row @
      required_rule R ''mail_message_id'' create update old row) ctx"

lemma Mail_apply_update_reach:
  "(\<exists>d. Mail_apply_update e d = e') \<longleftrightarrow>
   Mail_id e' = Mail_id e \<and> Mail_metadata e' = Mail_metadata e"
proof
  assume "Mail_id e' = Mail_id e \<and> Mail_metadata e' = Mail_metadata e"
  then have "Mail_apply_update e \<lparr>UpdateMailDto_mail_message_id = Mail_mail_message_id e', UpdateMailDto_state = Mail_state e',
      UpdateMailDto_failure_type = Mail_failure_type e', UpdateMailDto_scheduled_date = Mail_scheduled_date e',
      UpdateMailDto_auto_delete = Mail_auto_delete e', UpdateMailDto_failure_reason = Mail_failure_reason e',
      UpdateMailDto_email_to = Mail_email_to e', UpdateMailDto_email_cc = Mail_email_cc e',
      UpdateMailDto_reply_to = Mail_reply_to e', UpdateMailDto_headers = Mail_headers e'\<rparr> = e'"
    by (cases e; cases e') (simp add: Mail_apply_update_def)
  then show "\<exists>d. Mail_apply_update e d = e'" by blast
qed (auto simp: Mail_apply_update_def)

lemma Mail_response_eq: "Mail_response e = Mail_response e' \<longleftrightarrow> e = e'"
  by (cases e; cases e') (simp add: Mail_response_def)

lemma Mail_state_guarded:
  assumes "compares_field R" and "wc_kind ctx = WriteKind.Update" "wc_before ctx = Some a" "wc_after ctx = Some b"
    and "wc_transition ctx = None" and "go_refuse (Mail_row_rules R E ctx) = []"
  shows "Mail_state b = Mail_state a"
  using assms(6) unfolding Mail_row_rules_def
  by (simp add: row_guard_update [OF assms(2-4) refl refl] assms(5) verbs_only_update [OF assms(1)] json_field_def Mail_to_value_def
      mail_state.label_inj)

section \<open>MailNotification\<close>

record CreateMailNotificationDto =
  CreateMailNotificationDto_mail_message_id :: uuid
  CreateMailNotificationDto_res_partner_id :: "uuid option"
  CreateMailNotificationDto_notification_type :: MailNotificationType
  CreateMailNotificationDto_failure_type :: "NotificationFailureType option"
  CreateMailNotificationDto_failure_reason :: "string option"
  CreateMailNotificationDto_mail_mail_id_int :: "uuid option"
  CreateMailNotificationDto_is_read :: bool

record UpdateMailNotificationDto =
  UpdateMailNotificationDto_mail_message_id :: uuid
  UpdateMailNotificationDto_res_partner_id :: "uuid option"
  UpdateMailNotificationDto_notification_type :: MailNotificationType
  UpdateMailNotificationDto_notification_status :: MailNotificationStatus
  UpdateMailNotificationDto_failure_type :: "NotificationFailureType option"
  UpdateMailNotificationDto_failure_reason :: "string option"
  UpdateMailNotificationDto_mail_mail_id_int :: "uuid option"
  UpdateMailNotificationDto_is_read :: bool

record MailNotificationResponseDto =
  MailNotificationResponseDto_id :: uuid
  MailNotificationResponseDto_mail_message_id :: uuid
  MailNotificationResponseDto_res_partner_id :: "uuid option"
  MailNotificationResponseDto_notification_type :: MailNotificationType
  MailNotificationResponseDto_notification_status :: MailNotificationStatus
  MailNotificationResponseDto_failure_type :: "NotificationFailureType option"
  MailNotificationResponseDto_failure_reason :: "string option"
  MailNotificationResponseDto_mail_mail_id_int :: "uuid option"
  MailNotificationResponseDto_is_read :: bool
  MailNotificationResponseDto_metadata :: AuditMetadata

definition MailNotification_response :: "MailNotification \<Rightarrow> MailNotificationResponseDto" where
  "MailNotification_response e =
     \<lparr>MailNotificationResponseDto_id = MailNotification_id e,
      MailNotificationResponseDto_mail_message_id = MailNotification_mail_message_id e,
      MailNotificationResponseDto_res_partner_id = MailNotification_res_partner_id e,
      MailNotificationResponseDto_notification_type = MailNotification_notification_type e,
      MailNotificationResponseDto_notification_status = MailNotification_notification_status e,
      MailNotificationResponseDto_failure_type = MailNotification_failure_type e,
      MailNotificationResponseDto_failure_reason = MailNotification_failure_reason e,
      MailNotificationResponseDto_mail_mail_id_int = MailNotification_mail_mail_id_int e,
      MailNotificationResponseDto_is_read = MailNotification_is_read e,
      MailNotificationResponseDto_metadata = MailNotification_metadata e\<rparr>"

definition MailNotification_from_create :: "CreateMailNotificationDto \<Rightarrow> uuid \<Rightarrow> MailNotification" where
  "MailNotification_from_create d i =
     \<lparr>MailNotification_id = i, MailNotification_mail_message_id = CreateMailNotificationDto_mail_message_id d,
      MailNotification_res_partner_id = CreateMailNotificationDto_res_partner_id d,
      MailNotification_notification_type = CreateMailNotificationDto_notification_type d,
      MailNotification_notification_status = MailNotificationStatus.Ready,
      MailNotification_failure_type = CreateMailNotificationDto_failure_type d,
      MailNotification_failure_reason = CreateMailNotificationDto_failure_reason d,
      MailNotification_mail_mail_id_int = CreateMailNotificationDto_mail_mail_id_int d,
      MailNotification_is_read = CreateMailNotificationDto_is_read d, MailNotification_metadata = audit_default\<rparr>"

definition MailNotification_apply_update :: "MailNotification \<Rightarrow> UpdateMailNotificationDto \<Rightarrow> MailNotification" where
  "MailNotification_apply_update e d =
     e\<lparr>MailNotification_mail_message_id := UpdateMailNotificationDto_mail_message_id d,
      MailNotification_res_partner_id := UpdateMailNotificationDto_res_partner_id d,
      MailNotification_notification_type := UpdateMailNotificationDto_notification_type d,
      MailNotification_notification_status := UpdateMailNotificationDto_notification_status d,
      MailNotification_failure_type := UpdateMailNotificationDto_failure_type d,
      MailNotification_failure_reason := UpdateMailNotificationDto_failure_reason d,
      MailNotification_mail_mail_id_int := UpdateMailNotificationDto_mail_mail_id_int d,
      MailNotification_is_read := UpdateMailNotificationDto_is_read d\<rparr>"

definition MailNotification_to_value :: "encoders \<Rightarrow> MailNotification \<Rightarrow> json" where
  "MailNotification_to_value E e = JObject
     [(''id'', en_uuid E (MailNotification_id e)),
      (''mail_message_id'', en_uuid E (MailNotification_mail_message_id e)),
      (''res_partner_id'', jopt (en_uuid E) (MailNotification_res_partner_id e)),
      (''notification_type'', (\<lambda>x. JString (MailNotificationType_show x)) (MailNotification_notification_type e)),
      (''notification_status'', (\<lambda>x. JString (MailNotificationStatus_show x)) (MailNotification_notification_status e)),
      (''failure_type'', jopt (\<lambda>x. JString (NotificationFailureType_show x)) (MailNotification_failure_type e)),
      (''failure_reason'', jopt JString (MailNotification_failure_reason e)),
      (''mail_mail_id_int'', jopt (en_uuid E) (MailNotification_mail_mail_id_int e)),
      (''is_read'', JBool (MailNotification_is_read e)),
      (''metadata'', audit_to_value E (MailNotification_metadata e))]"

definition MailNotification_row_rules :: "'v row_rule \<Rightarrow> encoders \<Rightarrow> MailNotification write_ctx \<Rightarrow> guard_outcome" where
  "MailNotification_row_rules R E ctx = row_guard (\<lambda>e. Some (MailNotification_to_value E e)) (\<lambda>create update old row.
      verbs_only_rule R ''notification_status'' (wc_transition ctx) create update old row @
      required_rule R ''mail_message_id'' create update old row) ctx"

lemma MailNotification_apply_update_reach:
  "(\<exists>d. MailNotification_apply_update e d = e') \<longleftrightarrow>
   MailNotification_id e' = MailNotification_id e \<and> MailNotification_metadata e' = MailNotification_metadata e"
proof
  assume "MailNotification_id e' = MailNotification_id e \<and> MailNotification_metadata e' = MailNotification_metadata e"
  then have "MailNotification_apply_update e \<lparr>UpdateMailNotificationDto_mail_message_id = MailNotification_mail_message_id e',
      UpdateMailNotificationDto_res_partner_id = MailNotification_res_partner_id e',
      UpdateMailNotificationDto_notification_type = MailNotification_notification_type e',
      UpdateMailNotificationDto_notification_status = MailNotification_notification_status e',
      UpdateMailNotificationDto_failure_type = MailNotification_failure_type e',
      UpdateMailNotificationDto_failure_reason = MailNotification_failure_reason e',
      UpdateMailNotificationDto_mail_mail_id_int = MailNotification_mail_mail_id_int e',
      UpdateMailNotificationDto_is_read = MailNotification_is_read e'\<rparr> = e'"
    by (cases e; cases e') (simp add: MailNotification_apply_update_def)
  then show "\<exists>d. MailNotification_apply_update e d = e'" by blast
qed (auto simp: MailNotification_apply_update_def)

lemma MailNotification_response_eq: "MailNotification_response e = MailNotification_response e' \<longleftrightarrow> e = e'"
  by (cases e; cases e') (simp add: MailNotification_response_def)

lemma MailNotification_state_guarded:
  assumes "compares_field R" and "wc_kind ctx = WriteKind.Update" "wc_before ctx = Some a" "wc_after ctx = Some b"
    and "wc_transition ctx = None" and "go_refuse (MailNotification_row_rules R E ctx) = []"
  shows "MailNotification_notification_status b = MailNotification_notification_status a"
  using assms(6) unfolding MailNotification_row_rules_def
  by (simp add: row_guard_update [OF assms(2-4) refl refl] assms(5) verbs_only_update [OF assms(1)] json_field_def MailNotification_to_value_def
      mail_notification_status.label_inj)

section \<open>Sms\<close>

record CreateSmsDto =
  CreateSmsDto_uuid :: string
  CreateSmsDto_number :: string
  CreateSmsDto_body :: string
  CreateSmsDto_failure_type :: "SmsFailureType option"
  CreateSmsDto_error_message :: "string option"
  CreateSmsDto_mail_message_id :: "uuid option"
  CreateSmsDto_iap_status_code :: "int option"

record UpdateSmsDto =
  UpdateSmsDto_uuid :: string
  UpdateSmsDto_number :: string
  UpdateSmsDto_body :: string
  UpdateSmsDto_state :: SmsState
  UpdateSmsDto_failure_type :: "SmsFailureType option"
  UpdateSmsDto_error_message :: "string option"
  UpdateSmsDto_mail_message_id :: "uuid option"
  UpdateSmsDto_iap_status_code :: "int option"

record SmsResponseDto =
  SmsResponseDto_id :: uuid
  SmsResponseDto_uuid :: string
  SmsResponseDto_number :: string
  SmsResponseDto_body :: string
  SmsResponseDto_state :: SmsState
  SmsResponseDto_failure_type :: "SmsFailureType option"
  SmsResponseDto_error_message :: "string option"
  SmsResponseDto_mail_message_id :: "uuid option"
  SmsResponseDto_iap_status_code :: "int option"
  SmsResponseDto_metadata :: AuditMetadata

definition Sms_response :: "Sms \<Rightarrow> SmsResponseDto" where
  "Sms_response e =
     \<lparr>SmsResponseDto_id = Sms_id e, SmsResponseDto_uuid = Sms_uuid e, SmsResponseDto_number = Sms_number e,
      SmsResponseDto_body = Sms_body e, SmsResponseDto_state = Sms_state e,
      SmsResponseDto_failure_type = Sms_failure_type e, SmsResponseDto_error_message = Sms_error_message e,
      SmsResponseDto_mail_message_id = Sms_mail_message_id e, SmsResponseDto_iap_status_code = Sms_iap_status_code e,
      SmsResponseDto_metadata = Sms_metadata e\<rparr>"

definition Sms_from_create :: "CreateSmsDto \<Rightarrow> uuid \<Rightarrow> Sms" where
  "Sms_from_create d i =
     \<lparr>Sms_id = i, Sms_uuid = CreateSmsDto_uuid d, Sms_number = CreateSmsDto_number d,
      Sms_body = CreateSmsDto_body d, Sms_state = SmsState.Outgoing, Sms_failure_type = CreateSmsDto_failure_type d,
      Sms_error_message = CreateSmsDto_error_message d, Sms_mail_message_id = CreateSmsDto_mail_message_id d,
      Sms_iap_status_code = CreateSmsDto_iap_status_code d, Sms_metadata = audit_default\<rparr>"

definition Sms_apply_update :: "Sms \<Rightarrow> UpdateSmsDto \<Rightarrow> Sms" where
  "Sms_apply_update e d =
     e\<lparr>Sms_uuid := UpdateSmsDto_uuid d, Sms_number := UpdateSmsDto_number d, Sms_body := UpdateSmsDto_body d,
      Sms_state := UpdateSmsDto_state d, Sms_failure_type := UpdateSmsDto_failure_type d,
      Sms_error_message := UpdateSmsDto_error_message d, Sms_mail_message_id := UpdateSmsDto_mail_message_id d,
      Sms_iap_status_code := UpdateSmsDto_iap_status_code d\<rparr>"

definition Sms_to_value :: "encoders \<Rightarrow> Sms \<Rightarrow> json" where
  "Sms_to_value E e = JObject
     [(''id'', en_uuid E (Sms_id e)), (''uuid'', JString (Sms_uuid e)), (''number'', JString (Sms_number e)),
      (''body'', JString (Sms_body e)), (''state'', (\<lambda>x. JString (SmsState_show x)) (Sms_state e)),
      (''failure_type'', jopt (\<lambda>x. JString (SmsFailureType_show x)) (Sms_failure_type e)),
      (''error_message'', jopt JString (Sms_error_message e)),
      (''mail_message_id'', jopt (en_uuid E) (Sms_mail_message_id e)),
      (''iap_status_code'', jopt JNumber (Sms_iap_status_code e)), (''metadata'', audit_to_value E (Sms_metadata e))]"

definition Sms_row_rules :: "'v row_rule \<Rightarrow> encoders \<Rightarrow> Sms write_ctx \<Rightarrow> guard_outcome" where
  "Sms_row_rules R E ctx = row_guard (\<lambda>e. Some (Sms_to_value E e)) (\<lambda>create update old row.
      verbs_only_rule R ''state'' (wc_transition ctx) create update old row @
      required_rule R ''uuid'' create update old row @
      required_rule R ''number'' create update old row @
      required_rule R ''body'' create update old row) ctx"

lemma Sms_apply_update_reach:
  "(\<exists>d. Sms_apply_update e d = e') \<longleftrightarrow>
   Sms_id e' = Sms_id e \<and> Sms_metadata e' = Sms_metadata e"
proof
  assume "Sms_id e' = Sms_id e \<and> Sms_metadata e' = Sms_metadata e"
  then have "Sms_apply_update e \<lparr>UpdateSmsDto_uuid = Sms_uuid e', UpdateSmsDto_number = Sms_number e', UpdateSmsDto_body = Sms_body e',
      UpdateSmsDto_state = Sms_state e', UpdateSmsDto_failure_type = Sms_failure_type e',
      UpdateSmsDto_error_message = Sms_error_message e', UpdateSmsDto_mail_message_id = Sms_mail_message_id e',
      UpdateSmsDto_iap_status_code = Sms_iap_status_code e'\<rparr> = e'"
    by (cases e; cases e') (simp add: Sms_apply_update_def)
  then show "\<exists>d. Sms_apply_update e d = e'" by blast
qed (auto simp: Sms_apply_update_def)

lemma Sms_response_eq: "Sms_response e = Sms_response e' \<longleftrightarrow> e = e'"
  by (cases e; cases e') (simp add: Sms_response_def)

lemma Sms_state_guarded:
  assumes "compares_field R" and "wc_kind ctx = WriteKind.Update" "wc_before ctx = Some a" "wc_after ctx = Some b"
    and "wc_transition ctx = None" and "go_refuse (Sms_row_rules R E ctx) = []"
  shows "Sms_state b = Sms_state a"
  using assms(6) unfolding Sms_row_rules_def
  by (simp add: row_guard_update [OF assms(2-4) refl refl] assms(5) verbs_only_update [OF assms(1)] json_field_def Sms_to_value_def
      sms_state.label_inj)

section \<open>SmsTemplate\<close>

record CreateSmsTemplateDto =
  CreateSmsTemplateDto_name :: string
  CreateSmsTemplateDto_body :: string
  CreateSmsTemplateDto_model_id :: "uuid option"
  CreateSmsTemplateDto_lang :: "string option"
  CreateSmsTemplateDto_condition :: "string option"
  CreateSmsTemplateDto_active :: bool

record UpdateSmsTemplateDto =
  UpdateSmsTemplateDto_name :: string
  UpdateSmsTemplateDto_body :: string
  UpdateSmsTemplateDto_model_id :: "uuid option"
  UpdateSmsTemplateDto_lang :: "string option"
  UpdateSmsTemplateDto_condition :: "string option"
  UpdateSmsTemplateDto_active :: bool

record SmsTemplateResponseDto =
  SmsTemplateResponseDto_id :: uuid
  SmsTemplateResponseDto_name :: string
  SmsTemplateResponseDto_body :: string
  SmsTemplateResponseDto_model_id :: "uuid option"
  SmsTemplateResponseDto_lang :: "string option"
  SmsTemplateResponseDto_condition :: "string option"
  SmsTemplateResponseDto_active :: bool
  SmsTemplateResponseDto_metadata :: AuditMetadata

definition SmsTemplate_response :: "SmsTemplate \<Rightarrow> SmsTemplateResponseDto" where
  "SmsTemplate_response e =
     \<lparr>SmsTemplateResponseDto_id = SmsTemplate_id e, SmsTemplateResponseDto_name = SmsTemplate_name e,
      SmsTemplateResponseDto_body = SmsTemplate_body e, SmsTemplateResponseDto_model_id = SmsTemplate_model_id e,
      SmsTemplateResponseDto_lang = SmsTemplate_lang e, SmsTemplateResponseDto_condition = SmsTemplate_condition e,
      SmsTemplateResponseDto_active = SmsTemplate_active e, SmsTemplateResponseDto_metadata = SmsTemplate_metadata e\<rparr>"

definition SmsTemplate_from_create :: "CreateSmsTemplateDto \<Rightarrow> uuid \<Rightarrow> SmsTemplate" where
  "SmsTemplate_from_create d i =
     \<lparr>SmsTemplate_id = i, SmsTemplate_name = CreateSmsTemplateDto_name d,
      SmsTemplate_body = CreateSmsTemplateDto_body d, SmsTemplate_model_id = CreateSmsTemplateDto_model_id d,
      SmsTemplate_lang = CreateSmsTemplateDto_lang d, SmsTemplate_condition = CreateSmsTemplateDto_condition d,
      SmsTemplate_active = CreateSmsTemplateDto_active d, SmsTemplate_metadata = audit_default\<rparr>"

definition SmsTemplate_apply_update :: "SmsTemplate \<Rightarrow> UpdateSmsTemplateDto \<Rightarrow> SmsTemplate" where
  "SmsTemplate_apply_update e d =
     e\<lparr>SmsTemplate_name := UpdateSmsTemplateDto_name d, SmsTemplate_body := UpdateSmsTemplateDto_body d,
      SmsTemplate_model_id := UpdateSmsTemplateDto_model_id d, SmsTemplate_lang := UpdateSmsTemplateDto_lang d,
      SmsTemplate_condition := UpdateSmsTemplateDto_condition d, SmsTemplate_active := UpdateSmsTemplateDto_active d\<rparr>"

definition SmsTemplate_to_value :: "encoders \<Rightarrow> SmsTemplate \<Rightarrow> json" where
  "SmsTemplate_to_value E e = JObject
     [(''id'', en_uuid E (SmsTemplate_id e)), (''name'', JString (SmsTemplate_name e)),
      (''body'', JString (SmsTemplate_body e)), (''model_id'', jopt (en_uuid E) (SmsTemplate_model_id e)),
      (''lang'', jopt JString (SmsTemplate_lang e)), (''condition'', jopt JString (SmsTemplate_condition e)),
      (''active'', JBool (SmsTemplate_active e)), (''metadata'', audit_to_value E (SmsTemplate_metadata e))]"

definition SmsTemplate_row_rules :: "'v row_rule \<Rightarrow> encoders \<Rightarrow> SmsTemplate write_ctx \<Rightarrow> guard_outcome" where
  "SmsTemplate_row_rules R E ctx = row_guard (\<lambda>e. Some (SmsTemplate_to_value E e)) (\<lambda>create update old row.
      required_rule R ''name'' create update old row @
      required_rule R ''body'' create update old row) ctx"

lemma SmsTemplate_apply_update_reach:
  "(\<exists>d. SmsTemplate_apply_update e d = e') \<longleftrightarrow>
   SmsTemplate_id e' = SmsTemplate_id e \<and> SmsTemplate_metadata e' = SmsTemplate_metadata e"
proof
  assume "SmsTemplate_id e' = SmsTemplate_id e \<and> SmsTemplate_metadata e' = SmsTemplate_metadata e"
  then have "SmsTemplate_apply_update e \<lparr>UpdateSmsTemplateDto_name = SmsTemplate_name e', UpdateSmsTemplateDto_body = SmsTemplate_body e',
      UpdateSmsTemplateDto_model_id = SmsTemplate_model_id e', UpdateSmsTemplateDto_lang = SmsTemplate_lang e',
      UpdateSmsTemplateDto_condition = SmsTemplate_condition e', UpdateSmsTemplateDto_active = SmsTemplate_active e'\<rparr> = e'"
    by (cases e; cases e') (simp add: SmsTemplate_apply_update_def)
  then show "\<exists>d. SmsTemplate_apply_update e d = e'" by blast
qed (auto simp: SmsTemplate_apply_update_def)

lemma SmsTemplate_response_eq: "SmsTemplate_response e = SmsTemplate_response e' \<longleftrightarrow> e = e'"
  by (cases e; cases e') (simp add: SmsTemplate_response_def)

section \<open>SmsTracker\<close>

record CreateSmsTrackerDto =
  CreateSmsTrackerDto_sms_uuid :: string
  CreateSmsTrackerDto_message_id :: "uuid option"
  CreateSmsTrackerDto_notification_id :: "uuid option"
  CreateSmsTrackerDto_failure_type :: "NotificationFailureType option"
  CreateSmsTrackerDto_failure_reason :: "string option"
  CreateSmsTrackerDto_recipient :: "string option"

record UpdateSmsTrackerDto =
  UpdateSmsTrackerDto_sms_uuid :: string
  UpdateSmsTrackerDto_message_id :: "uuid option"
  UpdateSmsTrackerDto_notification_id :: "uuid option"
  UpdateSmsTrackerDto_state :: MailNotificationStatus
  UpdateSmsTrackerDto_failure_type :: "NotificationFailureType option"
  UpdateSmsTrackerDto_failure_reason :: "string option"
  UpdateSmsTrackerDto_recipient :: "string option"

record SmsTrackerResponseDto =
  SmsTrackerResponseDto_id :: uuid
  SmsTrackerResponseDto_sms_uuid :: string
  SmsTrackerResponseDto_message_id :: "uuid option"
  SmsTrackerResponseDto_notification_id :: "uuid option"
  SmsTrackerResponseDto_state :: MailNotificationStatus
  SmsTrackerResponseDto_failure_type :: "NotificationFailureType option"
  SmsTrackerResponseDto_failure_reason :: "string option"
  SmsTrackerResponseDto_recipient :: "string option"
  SmsTrackerResponseDto_metadata :: AuditMetadata

definition SmsTracker_response :: "SmsTracker \<Rightarrow> SmsTrackerResponseDto" where
  "SmsTracker_response e =
     \<lparr>SmsTrackerResponseDto_id = SmsTracker_id e, SmsTrackerResponseDto_sms_uuid = SmsTracker_sms_uuid e,
      SmsTrackerResponseDto_message_id = SmsTracker_message_id e,
      SmsTrackerResponseDto_notification_id = SmsTracker_notification_id e,
      SmsTrackerResponseDto_state = SmsTracker_state e,
      SmsTrackerResponseDto_failure_type = SmsTracker_failure_type e,
      SmsTrackerResponseDto_failure_reason = SmsTracker_failure_reason e,
      SmsTrackerResponseDto_recipient = SmsTracker_recipient e, SmsTrackerResponseDto_metadata = SmsTracker_metadata e\<rparr>"

definition SmsTracker_from_create :: "CreateSmsTrackerDto \<Rightarrow> uuid \<Rightarrow> SmsTracker" where
  "SmsTracker_from_create d i =
     \<lparr>SmsTracker_id = i, SmsTracker_sms_uuid = CreateSmsTrackerDto_sms_uuid d,
      SmsTracker_message_id = CreateSmsTrackerDto_message_id d,
      SmsTracker_notification_id = CreateSmsTrackerDto_notification_id d,
      SmsTracker_state = MailNotificationStatus.Process,
      SmsTracker_failure_type = CreateSmsTrackerDto_failure_type d,
      SmsTracker_failure_reason = CreateSmsTrackerDto_failure_reason d,
      SmsTracker_recipient = CreateSmsTrackerDto_recipient d, SmsTracker_metadata = audit_default\<rparr>"

definition SmsTracker_apply_update :: "SmsTracker \<Rightarrow> UpdateSmsTrackerDto \<Rightarrow> SmsTracker" where
  "SmsTracker_apply_update e d =
     e\<lparr>SmsTracker_sms_uuid := UpdateSmsTrackerDto_sms_uuid d,
      SmsTracker_message_id := UpdateSmsTrackerDto_message_id d,
      SmsTracker_notification_id := UpdateSmsTrackerDto_notification_id d,
      SmsTracker_state := UpdateSmsTrackerDto_state d, SmsTracker_failure_type := UpdateSmsTrackerDto_failure_type d,
      SmsTracker_failure_reason := UpdateSmsTrackerDto_failure_reason d,
      SmsTracker_recipient := UpdateSmsTrackerDto_recipient d\<rparr>"

definition SmsTracker_to_value :: "encoders \<Rightarrow> SmsTracker \<Rightarrow> json" where
  "SmsTracker_to_value E e = JObject
     [(''id'', en_uuid E (SmsTracker_id e)), (''sms_uuid'', JString (SmsTracker_sms_uuid e)),
      (''message_id'', jopt (en_uuid E) (SmsTracker_message_id e)),
      (''notification_id'', jopt (en_uuid E) (SmsTracker_notification_id e)),
      (''state'', (\<lambda>x. JString (MailNotificationStatus_show x)) (SmsTracker_state e)),
      (''failure_type'', jopt (\<lambda>x. JString (NotificationFailureType_show x)) (SmsTracker_failure_type e)),
      (''failure_reason'', jopt JString (SmsTracker_failure_reason e)),
      (''recipient'', jopt JString (SmsTracker_recipient e)), (''metadata'', audit_to_value E (SmsTracker_metadata e))]"

definition SmsTracker_row_rules :: "'v row_rule \<Rightarrow> encoders \<Rightarrow> SmsTracker write_ctx \<Rightarrow> guard_outcome" where
  "SmsTracker_row_rules R E ctx = row_guard (\<lambda>e. Some (SmsTracker_to_value E e)) (\<lambda>create update old row.
      required_rule R ''sms_uuid'' create update old row) ctx"

lemma SmsTracker_apply_update_reach:
  "(\<exists>d. SmsTracker_apply_update e d = e') \<longleftrightarrow>
   SmsTracker_id e' = SmsTracker_id e \<and> SmsTracker_metadata e' = SmsTracker_metadata e"
proof
  assume "SmsTracker_id e' = SmsTracker_id e \<and> SmsTracker_metadata e' = SmsTracker_metadata e"
  then have "SmsTracker_apply_update e \<lparr>UpdateSmsTrackerDto_sms_uuid = SmsTracker_sms_uuid e', UpdateSmsTrackerDto_message_id = SmsTracker_message_id e',
      UpdateSmsTrackerDto_notification_id = SmsTracker_notification_id e',
      UpdateSmsTrackerDto_state = SmsTracker_state e', UpdateSmsTrackerDto_failure_type = SmsTracker_failure_type e',
      UpdateSmsTrackerDto_failure_reason = SmsTracker_failure_reason e',
      UpdateSmsTrackerDto_recipient = SmsTracker_recipient e'\<rparr> = e'"
    by (cases e; cases e') (simp add: SmsTracker_apply_update_def)
  then show "\<exists>d. SmsTracker_apply_update e d = e'" by blast
qed (auto simp: SmsTracker_apply_update_def)

lemma SmsTracker_response_eq: "SmsTracker_response e = SmsTracker_response e' \<longleftrightarrow> e = e'"
  by (cases e; cases e') (simp add: SmsTracker_response_def)

section \<open>MailBlacklist\<close>

record CreateMailBlacklistDto =
  CreateMailBlacklistDto_email :: string
  CreateMailBlacklistDto_opt_out_reason_id :: "uuid option"
  CreateMailBlacklistDto_active :: bool

record UpdateMailBlacklistDto =
  UpdateMailBlacklistDto_email :: string
  UpdateMailBlacklistDto_opt_out_reason_id :: "uuid option"
  UpdateMailBlacklistDto_active :: bool

record MailBlacklistResponseDto =
  MailBlacklistResponseDto_id :: uuid
  MailBlacklistResponseDto_email :: string
  MailBlacklistResponseDto_opt_out_reason_id :: "uuid option"
  MailBlacklistResponseDto_active :: bool
  MailBlacklistResponseDto_metadata :: AuditMetadata

definition MailBlacklist_response :: "MailBlacklist \<Rightarrow> MailBlacklistResponseDto" where
  "MailBlacklist_response e =
     \<lparr>MailBlacklistResponseDto_id = MailBlacklist_id e,
      MailBlacklistResponseDto_email = MailBlacklist_email e,
      MailBlacklistResponseDto_opt_out_reason_id = MailBlacklist_opt_out_reason_id e,
      MailBlacklistResponseDto_active = MailBlacklist_active e,
      MailBlacklistResponseDto_metadata = MailBlacklist_metadata e\<rparr>"

definition MailBlacklist_from_create :: "CreateMailBlacklistDto \<Rightarrow> uuid \<Rightarrow> MailBlacklist" where
  "MailBlacklist_from_create d i =
     \<lparr>MailBlacklist_id = i, MailBlacklist_email = CreateMailBlacklistDto_email d,
      MailBlacklist_opt_out_reason_id = CreateMailBlacklistDto_opt_out_reason_id d,
      MailBlacklist_active = CreateMailBlacklistDto_active d, MailBlacklist_metadata = audit_default\<rparr>"

definition MailBlacklist_apply_update :: "MailBlacklist \<Rightarrow> UpdateMailBlacklistDto \<Rightarrow> MailBlacklist" where
  "MailBlacklist_apply_update e d =
     e\<lparr>MailBlacklist_email := UpdateMailBlacklistDto_email d,
      MailBlacklist_opt_out_reason_id := UpdateMailBlacklistDto_opt_out_reason_id d,
      MailBlacklist_active := UpdateMailBlacklistDto_active d\<rparr>"

definition MailBlacklist_to_value :: "encoders \<Rightarrow> MailBlacklist \<Rightarrow> json" where
  "MailBlacklist_to_value E e = JObject
     [(''id'', en_uuid E (MailBlacklist_id e)), (''email'', JString (MailBlacklist_email e)),
      (''opt_out_reason_id'', jopt (en_uuid E) (MailBlacklist_opt_out_reason_id e)),
      (''active'', JBool (MailBlacklist_active e)), (''metadata'', audit_to_value E (MailBlacklist_metadata e))]"

definition MailBlacklist_row_rules :: "'v row_rule \<Rightarrow> encoders \<Rightarrow> MailBlacklist write_ctx \<Rightarrow> guard_outcome" where
  "MailBlacklist_row_rules R E ctx = row_guard (\<lambda>e. Some (MailBlacklist_to_value E e)) (\<lambda>create update old row.
      required_rule R ''email'' create update old row) ctx"

lemma MailBlacklist_apply_update_reach:
  "(\<exists>d. MailBlacklist_apply_update e d = e') \<longleftrightarrow>
   MailBlacklist_id e' = MailBlacklist_id e \<and> MailBlacklist_metadata e' = MailBlacklist_metadata e"
proof
  assume "MailBlacklist_id e' = MailBlacklist_id e \<and> MailBlacklist_metadata e' = MailBlacklist_metadata e"
  then have "MailBlacklist_apply_update e \<lparr>UpdateMailBlacklistDto_email = MailBlacklist_email e',
      UpdateMailBlacklistDto_opt_out_reason_id = MailBlacklist_opt_out_reason_id e',
      UpdateMailBlacklistDto_active = MailBlacklist_active e'\<rparr> = e'"
    by (cases e; cases e') (simp add: MailBlacklist_apply_update_def)
  then show "\<exists>d. MailBlacklist_apply_update e d = e'" by blast
qed (auto simp: MailBlacklist_apply_update_def)

lemma MailBlacklist_response_eq: "MailBlacklist_response e = MailBlacklist_response e' \<longleftrightarrow> e = e'"
  by (cases e; cases e') (simp add: MailBlacklist_response_def)

section \<open>PhoneBlacklist\<close>

record CreatePhoneBlacklistDto =
  CreatePhoneBlacklistDto_number :: string
  CreatePhoneBlacklistDto_active :: bool

record UpdatePhoneBlacklistDto =
  UpdatePhoneBlacklistDto_number :: string
  UpdatePhoneBlacklistDto_active :: bool

record PhoneBlacklistResponseDto =
  PhoneBlacklistResponseDto_id :: uuid
  PhoneBlacklistResponseDto_number :: string
  PhoneBlacklistResponseDto_active :: bool
  PhoneBlacklistResponseDto_metadata :: AuditMetadata

definition PhoneBlacklist_response :: "PhoneBlacklist \<Rightarrow> PhoneBlacklistResponseDto" where
  "PhoneBlacklist_response e =
     \<lparr>PhoneBlacklistResponseDto_id = PhoneBlacklist_id e,
      PhoneBlacklistResponseDto_number = PhoneBlacklist_number e,
      PhoneBlacklistResponseDto_active = PhoneBlacklist_active e,
      PhoneBlacklistResponseDto_metadata = PhoneBlacklist_metadata e\<rparr>"

definition PhoneBlacklist_from_create :: "CreatePhoneBlacklistDto \<Rightarrow> uuid \<Rightarrow> PhoneBlacklist" where
  "PhoneBlacklist_from_create d i =
     \<lparr>PhoneBlacklist_id = i, PhoneBlacklist_number = CreatePhoneBlacklistDto_number d,
      PhoneBlacklist_active = CreatePhoneBlacklistDto_active d, PhoneBlacklist_metadata = audit_default\<rparr>"

definition PhoneBlacklist_apply_update :: "PhoneBlacklist \<Rightarrow> UpdatePhoneBlacklistDto \<Rightarrow> PhoneBlacklist" where
  "PhoneBlacklist_apply_update e d =
     e\<lparr>PhoneBlacklist_number := UpdatePhoneBlacklistDto_number d,
      PhoneBlacklist_active := UpdatePhoneBlacklistDto_active d\<rparr>"

definition PhoneBlacklist_to_value :: "encoders \<Rightarrow> PhoneBlacklist \<Rightarrow> json" where
  "PhoneBlacklist_to_value E e = JObject
     [(''id'', en_uuid E (PhoneBlacklist_id e)), (''number'', JString (PhoneBlacklist_number e)),
      (''active'', JBool (PhoneBlacklist_active e)), (''metadata'', audit_to_value E (PhoneBlacklist_metadata e))]"

definition PhoneBlacklist_row_rules :: "'v row_rule \<Rightarrow> encoders \<Rightarrow> PhoneBlacklist write_ctx \<Rightarrow> guard_outcome" where
  "PhoneBlacklist_row_rules R E ctx = row_guard (\<lambda>e. Some (PhoneBlacklist_to_value E e)) (\<lambda>create update old row.
      required_rule R ''number'' create update old row) ctx"

lemma PhoneBlacklist_apply_update_reach:
  "(\<exists>d. PhoneBlacklist_apply_update e d = e') \<longleftrightarrow>
   PhoneBlacklist_id e' = PhoneBlacklist_id e \<and> PhoneBlacklist_metadata e' = PhoneBlacklist_metadata e"
proof
  assume "PhoneBlacklist_id e' = PhoneBlacklist_id e \<and> PhoneBlacklist_metadata e' = PhoneBlacklist_metadata e"
  then have "PhoneBlacklist_apply_update e \<lparr>UpdatePhoneBlacklistDto_number = PhoneBlacklist_number e', UpdatePhoneBlacklistDto_active = PhoneBlacklist_active e'\<rparr> = e'"
    by (cases e; cases e') (simp add: PhoneBlacklist_apply_update_def)
  then show "\<exists>d. PhoneBlacklist_apply_update e d = e'" by blast
qed (auto simp: PhoneBlacklist_apply_update_def)

lemma PhoneBlacklist_response_eq: "PhoneBlacklist_response e = PhoneBlacklist_response e' \<longleftrightarrow> e = e'"
  by (cases e; cases e') (simp add: PhoneBlacklist_response_def)

end
