(* ===== verification/EntitiesActivities.thy ===== *)
theory EntitiesActivities
  imports RowValues StateMachines
begin

text \<open>
  The generated entities of \<open>src/domain/entity/\<close>:
  \<open>mail_activity\<close>, \<open>mail_activity_plan\<close>, \<open>mail_activity_plan_template\<close>,
  \<open>mail_activity_type\<close>, \<open>mail_message_schedule\<close>, \<open>mail_scheduled_message\<close>.
  Each has its row, the constructor, the partial update, the builder and the
  tables the repository layer reads.  \<open>i\<close> is the fresh uuid of \<open>Uuid::new_v4()\<close> and \<open>now\<close> the instant of
  \<open>Utc::now()\<close>; the setters and getters of single fields are those of the records.
\<close>

section \<open>MailActivity\<close>

record MailActivity =
  MailActivity_id :: uuid
  MailActivity_res_model :: string
  MailActivity_res_id :: uuid
  MailActivity_res_model_id :: "uuid option"
  MailActivity_activity_type_id :: "uuid option"
  MailActivity_summary :: "string option"
  MailActivity_note :: "string option"
  MailActivity_date_deadline :: "(int \<times> nat \<times> nat)"
  MailActivity_user_id :: uuid
  MailActivity_requested_user_id :: "uuid option"
  MailActivity_state :: MailActivityState
  MailActivity_active :: bool
  MailActivity_has_recommended_activities :: bool
  MailActivity_chained_next_activity :: "json option"
  MailActivity_calendar_event_id :: "uuid option"
  MailActivity_metadata :: AuditMetadata

definition MailActivity_new ::
  "string \<Rightarrow> uuid \<Rightarrow> (int \<times> nat \<times> nat) \<Rightarrow> uuid \<Rightarrow>
  MailActivityState \<Rightarrow> bool \<Rightarrow> bool \<Rightarrow> uuid \<Rightarrow> MailActivity" where
  "MailActivity_new res_model' res_id' date_deadline' user_id' state' active' has_recommended_activities' i =
     \<lparr>MailActivity_id = i, MailActivity_res_model = res_model', MailActivity_res_id = res_id',
      MailActivity_res_model_id = None, MailActivity_activity_type_id = None, MailActivity_summary = None,
      MailActivity_note = None, MailActivity_date_deadline = date_deadline', MailActivity_user_id = user_id',
      MailActivity_requested_user_id = None, MailActivity_state = state', MailActivity_active = active',
      MailActivity_has_recommended_activities = has_recommended_activities',
      MailActivity_chained_next_activity = None, MailActivity_calendar_event_id = None,
      MailActivity_metadata = audit_default\<rparr>"

definition MailActivity_is_deleted :: "MailActivity \<Rightarrow> bool" where
  "MailActivity_is_deleted e \<longleftrightarrow> am_deleted_at (MailActivity_metadata e) \<noteq> None"

definition MailActivity_is_active :: "MailActivity \<Rightarrow> bool" where
  "MailActivity_is_active e \<longleftrightarrow> am_deleted_at (MailActivity_metadata e) = None"

definition MailActivity_set_entity_id :: "decoders \<Rightarrow> string \<Rightarrow> MailActivity \<Rightarrow> MailActivity" where
  "MailActivity_set_entity_id D s e = patch (parse_uuid D s) (\<lambda>u. e\<lparr>MailActivity_id := u\<rparr>) e"

definition MailActivity_patch_field :: "decoders \<Rightarrow> string \<Rightarrow> json \<Rightarrow> MailActivity \<Rightarrow> MailActivity" where
  "MailActivity_patch_field D k v e =
     (if k = ''res_model'' then patch (read_string D v) (\<lambda>x. e\<lparr>MailActivity_res_model := x\<rparr>) e
      else if k = ''res_id'' then patch (read_uuid D v) (\<lambda>x. e\<lparr>MailActivity_res_id := x\<rparr>) e
      else if k = ''res_model_id'' then patch (de_option (read_uuid D) v) (\<lambda>x. e\<lparr>MailActivity_res_model_id := x\<rparr>) e
      else if k = ''activity_type_id'' then patch (de_option (read_uuid D) v) (\<lambda>x. e\<lparr>MailActivity_activity_type_id := x\<rparr>) e
      else if k = ''summary'' then patch (de_option (read_string D) v) (\<lambda>x. e\<lparr>MailActivity_summary := x\<rparr>) e
      else if k = ''note'' then patch (de_option (read_string D) v) (\<lambda>x. e\<lparr>MailActivity_note := x\<rparr>) e
      else if k = ''date_deadline'' then patch (read_date D v) (\<lambda>x. e\<lparr>MailActivity_date_deadline := x\<rparr>) e
      else if k = ''user_id'' then patch (read_uuid D v) (\<lambda>x. e\<lparr>MailActivity_user_id := x\<rparr>) e
      else if k = ''requested_user_id'' then patch (de_option (read_uuid D) v) (\<lambda>x. e\<lparr>MailActivity_requested_user_id := x\<rparr>) e
      else if k = ''state'' then patch (de_enum D (pg_enum_cast MailActivityState_show MailActivityState_from_str) v) (\<lambda>x. e\<lparr>MailActivity_state := x\<rparr>) e
      else if k = ''active'' then patch (read_bool D v) (\<lambda>x. e\<lparr>MailActivity_active := x\<rparr>) e
      else if k = ''has_recommended_activities'' then patch (read_bool D v) (\<lambda>x. e\<lparr>MailActivity_has_recommended_activities := x\<rparr>) e
      else if k = ''chained_next_activity'' then patch (de_option Some v) (\<lambda>x. e\<lparr>MailActivity_chained_next_activity := x\<rparr>) e
      else if k = ''calendar_event_id'' then patch (de_option (read_uuid D) v) (\<lambda>x. e\<lparr>MailActivity_calendar_event_id := x\<rparr>) e
      else e)"

definition MailActivity_apply_patch :: "decoders \<Rightarrow> (string \<times> json) list \<Rightarrow> MailActivity \<Rightarrow> MailActivity" where
  "MailActivity_apply_patch D = patch_all (MailActivity_patch_field D)"

definition MailActivity_write_protected_fields :: "string list" where
  "MailActivity_write_protected_fields = [''state'']"

definition MailActivity_column_types :: "(string \<times> string) list" where
  "MailActivity_column_types =
    [(''id'', ''uuid''), (''res_id'', ''uuid''), (''res_model_id'', ''uuid''), (''activity_type_id'', ''uuid''),
     (''user_id'', ''uuid''), (''requested_user_id'', ''uuid''), (''calendar_event_id'', ''uuid''),
     (''state'', ''mail_activity_state''), (''date_deadline'', ''date'')]"

record MailActivityBuilder =
  MailActivityBuilder_res_model :: "string option"
  MailActivityBuilder_res_id :: "uuid option"
  MailActivityBuilder_res_model_id :: "uuid option"
  MailActivityBuilder_activity_type_id :: "uuid option"
  MailActivityBuilder_summary :: "string option"
  MailActivityBuilder_note :: "string option"
  MailActivityBuilder_date_deadline :: "(int \<times> nat \<times> nat) option"
  MailActivityBuilder_user_id :: "uuid option"
  MailActivityBuilder_requested_user_id :: "uuid option"
  MailActivityBuilder_state :: "MailActivityState option"
  MailActivityBuilder_active :: "bool option"
  MailActivityBuilder_has_recommended_activities :: "bool option"
  MailActivityBuilder_chained_next_activity :: "json option"
  MailActivityBuilder_calendar_event_id :: "uuid option"

definition MailActivity_build :: "MailActivityBuilder \<Rightarrow> uuid \<Rightarrow> time \<Rightarrow> string + MailActivity" where
  "MailActivity_build b i now =
     require ''res_model'' (MailActivityBuilder_res_model b) (\<lambda>res_model'.
     require ''res_id'' (MailActivityBuilder_res_id b) (\<lambda>res_id'.
     require ''date_deadline'' (MailActivityBuilder_date_deadline b) (\<lambda>date_deadline'.
     require ''user_id'' (MailActivityBuilder_user_id b) (\<lambda>user_id'.
     Inr \<lparr>MailActivity_id = i, MailActivity_res_model = res_model', MailActivity_res_id = res_id',
         MailActivity_res_model_id = MailActivityBuilder_res_model_id b,
         MailActivity_activity_type_id = MailActivityBuilder_activity_type_id b,
         MailActivity_summary = MailActivityBuilder_summary b, MailActivity_note = MailActivityBuilder_note b,
         MailActivity_date_deadline = date_deadline', MailActivity_user_id = user_id',
         MailActivity_requested_user_id = MailActivityBuilder_requested_user_id b,
         MailActivity_state = or_else (MailActivityBuilder_state b) MailActivityState_default,
         MailActivity_active = or_else (MailActivityBuilder_active b) True,
         MailActivity_has_recommended_activities = or_else (MailActivityBuilder_has_recommended_activities b) False,
         MailActivity_chained_next_activity = MailActivityBuilder_chained_next_activity b,
         MailActivity_calendar_event_id = MailActivityBuilder_calendar_event_id b,
         MailActivity_metadata = audit_default\<rparr>))))"

lemma MailActivity_apply_patch_keeps:
  "MailActivity_id (MailActivity_apply_patch D es e) = MailActivity_id e"
  "MailActivity_metadata (MailActivity_apply_patch D es e) = MailActivity_metadata e"
  unfolding MailActivity_apply_patch_def
  by (rule patch_all_keeps, simp add: MailActivity_patch_field_def
      if_distrib [of MailActivity_id] patch_distrib [of MailActivity_id]
      if_distrib [of MailActivity_metadata] patch_distrib [of MailActivity_metadata])+

lemma MailActivity_build_iff: "(\<exists>e. MailActivity_build b i now = Inr e) \<longleftrightarrow> MailActivityBuilder_res_model b \<noteq> None \<and> MailActivityBuilder_res_id b \<noteq> None \<and> MailActivityBuilder_date_deadline b \<noteq> None \<and> MailActivityBuilder_user_id b \<noteq> None"
  by (auto simp: MailActivity_build_def require_Inr)

section \<open>MailActivityPlan\<close>

record MailActivityPlan =
  MailActivityPlan_id :: uuid
  MailActivityPlan_name :: string
  MailActivityPlan_res_model :: "string option"
  MailActivityPlan_res_model_id :: "uuid option"
  MailActivityPlan_active :: bool
  MailActivityPlan_metadata :: AuditMetadata

definition MailActivityPlan_new ::
  "string \<Rightarrow> bool \<Rightarrow> uuid \<Rightarrow> MailActivityPlan" where
  "MailActivityPlan_new name' active' i =
     \<lparr>MailActivityPlan_id = i, MailActivityPlan_name = name', MailActivityPlan_res_model = None,
      MailActivityPlan_res_model_id = None, MailActivityPlan_active = active',
      MailActivityPlan_metadata = audit_default\<rparr>"

definition MailActivityPlan_is_deleted :: "MailActivityPlan \<Rightarrow> bool" where
  "MailActivityPlan_is_deleted e \<longleftrightarrow> am_deleted_at (MailActivityPlan_metadata e) \<noteq> None"

definition MailActivityPlan_is_active :: "MailActivityPlan \<Rightarrow> bool" where
  "MailActivityPlan_is_active e \<longleftrightarrow> am_deleted_at (MailActivityPlan_metadata e) = None"

definition MailActivityPlan_set_entity_id :: "decoders \<Rightarrow> string \<Rightarrow> MailActivityPlan \<Rightarrow> MailActivityPlan" where
  "MailActivityPlan_set_entity_id D s e = patch (parse_uuid D s) (\<lambda>u. e\<lparr>MailActivityPlan_id := u\<rparr>) e"

definition MailActivityPlan_patch_field :: "decoders \<Rightarrow> string \<Rightarrow> json \<Rightarrow> MailActivityPlan \<Rightarrow> MailActivityPlan" where
  "MailActivityPlan_patch_field D k v e =
     (if k = ''name'' then patch (read_string D v) (\<lambda>x. e\<lparr>MailActivityPlan_name := x\<rparr>) e
      else if k = ''res_model'' then patch (de_option (read_string D) v) (\<lambda>x. e\<lparr>MailActivityPlan_res_model := x\<rparr>) e
      else if k = ''res_model_id'' then patch (de_option (read_uuid D) v) (\<lambda>x. e\<lparr>MailActivityPlan_res_model_id := x\<rparr>) e
      else if k = ''active'' then patch (read_bool D v) (\<lambda>x. e\<lparr>MailActivityPlan_active := x\<rparr>) e
      else e)"

definition MailActivityPlan_apply_patch :: "decoders \<Rightarrow> (string \<times> json) list \<Rightarrow> MailActivityPlan \<Rightarrow> MailActivityPlan" where
  "MailActivityPlan_apply_patch D = patch_all (MailActivityPlan_patch_field D)"

definition MailActivityPlan_column_types :: "(string \<times> string) list" where
  "MailActivityPlan_column_types =
    [(''id'', ''uuid''), (''res_model_id'', ''uuid'')]"

record MailActivityPlanBuilder =
  MailActivityPlanBuilder_name :: "string option"
  MailActivityPlanBuilder_res_model :: "string option"
  MailActivityPlanBuilder_res_model_id :: "uuid option"
  MailActivityPlanBuilder_active :: "bool option"

definition MailActivityPlan_build :: "MailActivityPlanBuilder \<Rightarrow> uuid \<Rightarrow> time \<Rightarrow> string + MailActivityPlan" where
  "MailActivityPlan_build b i now =
     require ''name'' (MailActivityPlanBuilder_name b) (\<lambda>name'.
     Inr \<lparr>MailActivityPlan_id = i, MailActivityPlan_name = name',
         MailActivityPlan_res_model = MailActivityPlanBuilder_res_model b,
         MailActivityPlan_res_model_id = MailActivityPlanBuilder_res_model_id b,
         MailActivityPlan_active = or_else (MailActivityPlanBuilder_active b) True,
         MailActivityPlan_metadata = audit_default\<rparr>)"

lemma MailActivityPlan_apply_patch_keeps:
  "MailActivityPlan_id (MailActivityPlan_apply_patch D es e) = MailActivityPlan_id e"
  "MailActivityPlan_metadata (MailActivityPlan_apply_patch D es e) = MailActivityPlan_metadata e"
  unfolding MailActivityPlan_apply_patch_def
  by (rule patch_all_keeps, simp add: MailActivityPlan_patch_field_def
      if_distrib [of MailActivityPlan_id] patch_distrib [of MailActivityPlan_id]
      if_distrib [of MailActivityPlan_metadata] patch_distrib [of MailActivityPlan_metadata])+

lemma MailActivityPlan_build_iff: "(\<exists>e. MailActivityPlan_build b i now = Inr e) \<longleftrightarrow> MailActivityPlanBuilder_name b \<noteq> None"
  by (auto simp: MailActivityPlan_build_def require_Inr)

section \<open>MailActivityPlanTemplate\<close>

record MailActivityPlanTemplate =
  MailActivityPlanTemplate_id :: uuid
  MailActivityPlanTemplate_plan_id :: uuid
  MailActivityPlanTemplate_activity_type_id :: uuid
  MailActivityPlanTemplate_summary :: "string option"
  MailActivityPlanTemplate_note :: "string option"
  MailActivityPlanTemplate_delay_count :: "int option"
  MailActivityPlanTemplate_delay_unit :: "MailActivityDelayUnit option"
  MailActivityPlanTemplate_user_id :: "uuid option"
  MailActivityPlanTemplate_metadata :: AuditMetadata

definition MailActivityPlanTemplate_new ::
  "uuid \<Rightarrow> uuid \<Rightarrow> uuid \<Rightarrow> MailActivityPlanTemplate" where
  "MailActivityPlanTemplate_new plan_id' activity_type_id' i =
     \<lparr>MailActivityPlanTemplate_id = i, MailActivityPlanTemplate_plan_id = plan_id',
      MailActivityPlanTemplate_activity_type_id = activity_type_id', MailActivityPlanTemplate_summary = None,
      MailActivityPlanTemplate_note = None, MailActivityPlanTemplate_delay_count = None,
      MailActivityPlanTemplate_delay_unit = None, MailActivityPlanTemplate_user_id = None,
      MailActivityPlanTemplate_metadata = audit_default\<rparr>"

definition MailActivityPlanTemplate_is_deleted :: "MailActivityPlanTemplate \<Rightarrow> bool" where
  "MailActivityPlanTemplate_is_deleted e \<longleftrightarrow> am_deleted_at (MailActivityPlanTemplate_metadata e) \<noteq> None"

definition MailActivityPlanTemplate_is_active :: "MailActivityPlanTemplate \<Rightarrow> bool" where
  "MailActivityPlanTemplate_is_active e \<longleftrightarrow> am_deleted_at (MailActivityPlanTemplate_metadata e) = None"

definition MailActivityPlanTemplate_set_entity_id :: "decoders \<Rightarrow> string \<Rightarrow> MailActivityPlanTemplate \<Rightarrow> MailActivityPlanTemplate" where
  "MailActivityPlanTemplate_set_entity_id D s e = patch (parse_uuid D s) (\<lambda>u. e\<lparr>MailActivityPlanTemplate_id := u\<rparr>) e"

definition MailActivityPlanTemplate_patch_field :: "decoders \<Rightarrow> string \<Rightarrow> json \<Rightarrow> MailActivityPlanTemplate \<Rightarrow> MailActivityPlanTemplate" where
  "MailActivityPlanTemplate_patch_field D k v e =
     (if k = ''plan_id'' then patch (read_uuid D v) (\<lambda>x. e\<lparr>MailActivityPlanTemplate_plan_id := x\<rparr>) e
      else if k = ''activity_type_id'' then patch (read_uuid D v) (\<lambda>x. e\<lparr>MailActivityPlanTemplate_activity_type_id := x\<rparr>) e
      else if k = ''summary'' then patch (de_option (read_string D) v) (\<lambda>x. e\<lparr>MailActivityPlanTemplate_summary := x\<rparr>) e
      else if k = ''note'' then patch (de_option (read_string D) v) (\<lambda>x. e\<lparr>MailActivityPlanTemplate_note := x\<rparr>) e
      else if k = ''delay_count'' then patch (de_option (read_i32 D) v) (\<lambda>x. e\<lparr>MailActivityPlanTemplate_delay_count := x\<rparr>) e
      else if k = ''delay_unit'' then patch (de_option (de_enum D (pg_enum_cast MailActivityDelayUnit_show MailActivityDelayUnit_from_str)) v) (\<lambda>x. e\<lparr>MailActivityPlanTemplate_delay_unit := x\<rparr>) e
      else if k = ''user_id'' then patch (de_option (read_uuid D) v) (\<lambda>x. e\<lparr>MailActivityPlanTemplate_user_id := x\<rparr>) e
      else e)"

definition MailActivityPlanTemplate_apply_patch :: "decoders \<Rightarrow> (string \<times> json) list \<Rightarrow> MailActivityPlanTemplate \<Rightarrow> MailActivityPlanTemplate" where
  "MailActivityPlanTemplate_apply_patch D = patch_all (MailActivityPlanTemplate_patch_field D)"

definition MailActivityPlanTemplate_column_types :: "(string \<times> string) list" where
  "MailActivityPlanTemplate_column_types =
    [(''id'', ''uuid''), (''plan_id'', ''uuid''), (''activity_type_id'', ''uuid''), (''user_id'', ''uuid''),
     (''delay_unit'', ''mail_activity_delay_unit'')]"

record MailActivityPlanTemplateBuilder =
  MailActivityPlanTemplateBuilder_plan_id :: "uuid option"
  MailActivityPlanTemplateBuilder_activity_type_id :: "uuid option"
  MailActivityPlanTemplateBuilder_summary :: "string option"
  MailActivityPlanTemplateBuilder_note :: "string option"
  MailActivityPlanTemplateBuilder_delay_count :: "int option"
  MailActivityPlanTemplateBuilder_delay_unit :: "MailActivityDelayUnit option"
  MailActivityPlanTemplateBuilder_user_id :: "uuid option"

definition MailActivityPlanTemplate_build :: "MailActivityPlanTemplateBuilder \<Rightarrow> uuid \<Rightarrow> time \<Rightarrow> string + MailActivityPlanTemplate" where
  "MailActivityPlanTemplate_build b i now =
     require ''plan_id'' (MailActivityPlanTemplateBuilder_plan_id b) (\<lambda>plan_id'.
     require ''activity_type_id'' (MailActivityPlanTemplateBuilder_activity_type_id b) (\<lambda>activity_type_id'.
     Inr \<lparr>MailActivityPlanTemplate_id = i, MailActivityPlanTemplate_plan_id = plan_id',
         MailActivityPlanTemplate_activity_type_id = activity_type_id',
         MailActivityPlanTemplate_summary = MailActivityPlanTemplateBuilder_summary b,
         MailActivityPlanTemplate_note = MailActivityPlanTemplateBuilder_note b,
         MailActivityPlanTemplate_delay_count = MailActivityPlanTemplateBuilder_delay_count b,
         MailActivityPlanTemplate_delay_unit = MailActivityPlanTemplateBuilder_delay_unit b,
         MailActivityPlanTemplate_user_id = MailActivityPlanTemplateBuilder_user_id b,
         MailActivityPlanTemplate_metadata = audit_default\<rparr>))"

lemma MailActivityPlanTemplate_apply_patch_keeps:
  "MailActivityPlanTemplate_id (MailActivityPlanTemplate_apply_patch D es e) = MailActivityPlanTemplate_id e"
  "MailActivityPlanTemplate_metadata (MailActivityPlanTemplate_apply_patch D es e) = MailActivityPlanTemplate_metadata e"

        unfolding MailActivityPlanTemplate_apply_patch_def
  by (rule patch_all_keeps, simp add: MailActivityPlanTemplate_patch_field_def
      if_distrib [of MailActivityPlanTemplate_id] patch_distrib [of MailActivityPlanTemplate_id]
      if_distrib [of MailActivityPlanTemplate_metadata] patch_distrib [of MailActivityPlanTemplate_metadata])+

lemma MailActivityPlanTemplate_build_iff: "(\<exists>e. MailActivityPlanTemplate_build b i now = Inr e) \<longleftrightarrow> MailActivityPlanTemplateBuilder_plan_id b \<noteq> None \<and> MailActivityPlanTemplateBuilder_activity_type_id b \<noteq> None"
  by (auto simp: MailActivityPlanTemplate_build_def require_Inr)

section \<open>MailActivityType\<close>

record MailActivityType =
  MailActivityType_id :: uuid
  MailActivityType_name :: string
  MailActivityType_summary :: "string option"
  MailActivityType_note :: "string option"
  MailActivityType_category :: "MailActivityCategory option"
  MailActivityType_chaining_type :: MailActivityChainingType
  MailActivityType_delay_count :: int
  MailActivityType_delay_unit :: MailActivityDelayUnit
  MailActivityType_delay_from :: MailActivityDelayFrom
  MailActivityType_default_user_id :: "uuid option"
  MailActivityType_default_note :: "string option"
  MailActivityType_icon :: "string option"
  MailActivityType_res_model :: "string option"
  MailActivityType_res_model_id :: "uuid option"
  MailActivityType_active :: bool
  MailActivityType_metadata :: AuditMetadata

definition MailActivityType_new ::
  "string \<Rightarrow> MailActivityChainingType \<Rightarrow> int \<Rightarrow> MailActivityDelayUnit \<Rightarrow>
  MailActivityDelayFrom \<Rightarrow> bool \<Rightarrow> uuid \<Rightarrow> MailActivityType" where
  "MailActivityType_new name' chaining_type' delay_count' delay_unit' delay_from' active' i =
     \<lparr>MailActivityType_id = i, MailActivityType_name = name', MailActivityType_summary = None,
      MailActivityType_note = None, MailActivityType_category = None,
      MailActivityType_chaining_type = chaining_type', MailActivityType_delay_count = delay_count',
      MailActivityType_delay_unit = delay_unit', MailActivityType_delay_from = delay_from',
      MailActivityType_default_user_id = None, MailActivityType_default_note = None, MailActivityType_icon = None,
      MailActivityType_res_model = None, MailActivityType_res_model_id = None, MailActivityType_active = active',
      MailActivityType_metadata = audit_default\<rparr>"

definition MailActivityType_is_deleted :: "MailActivityType \<Rightarrow> bool" where
  "MailActivityType_is_deleted e \<longleftrightarrow> am_deleted_at (MailActivityType_metadata e) \<noteq> None"

definition MailActivityType_is_active :: "MailActivityType \<Rightarrow> bool" where
  "MailActivityType_is_active e \<longleftrightarrow> am_deleted_at (MailActivityType_metadata e) = None"

definition MailActivityType_set_entity_id :: "decoders \<Rightarrow> string \<Rightarrow> MailActivityType \<Rightarrow> MailActivityType" where
  "MailActivityType_set_entity_id D s e = patch (parse_uuid D s) (\<lambda>u. e\<lparr>MailActivityType_id := u\<rparr>) e"

definition MailActivityType_patch_field :: "decoders \<Rightarrow> string \<Rightarrow> json \<Rightarrow> MailActivityType \<Rightarrow> MailActivityType" where
  "MailActivityType_patch_field D k v e =
     (if k = ''name'' then patch (read_string D v) (\<lambda>x. e\<lparr>MailActivityType_name := x\<rparr>) e
      else if k = ''summary'' then patch (de_option (read_string D) v) (\<lambda>x. e\<lparr>MailActivityType_summary := x\<rparr>) e
      else if k = ''note'' then patch (de_option (read_string D) v) (\<lambda>x. e\<lparr>MailActivityType_note := x\<rparr>) e
      else if k = ''category'' then patch (de_option (de_enum D (pg_enum_cast MailActivityCategory_show MailActivityCategory_from_str)) v) (\<lambda>x. e\<lparr>MailActivityType_category := x\<rparr>) e
      else if k = ''delay_count'' then patch (read_i32 D v) (\<lambda>x. e\<lparr>MailActivityType_delay_count := x\<rparr>) e
      else if k = ''delay_unit'' then patch (de_enum D (pg_enum_cast MailActivityDelayUnit_show MailActivityDelayUnit_from_str) v) (\<lambda>x. e\<lparr>MailActivityType_delay_unit := x\<rparr>) e
      else if k = ''delay_from'' then patch (de_enum D (pg_enum_cast MailActivityDelayFrom_show MailActivityDelayFrom_from_str) v) (\<lambda>x. e\<lparr>MailActivityType_delay_from := x\<rparr>) e
      else if k = ''default_user_id'' then patch (de_option (read_uuid D) v) (\<lambda>x. e\<lparr>MailActivityType_default_user_id := x\<rparr>) e
      else if k = ''default_note'' then patch (de_option (read_string D) v) (\<lambda>x. e\<lparr>MailActivityType_default_note := x\<rparr>) e
      else if k = ''icon'' then patch (de_option (read_string D) v) (\<lambda>x. e\<lparr>MailActivityType_icon := x\<rparr>) e
      else if k = ''res_model'' then patch (de_option (read_string D) v) (\<lambda>x. e\<lparr>MailActivityType_res_model := x\<rparr>) e
      else if k = ''res_model_id'' then patch (de_option (read_uuid D) v) (\<lambda>x. e\<lparr>MailActivityType_res_model_id := x\<rparr>) e
      else if k = ''active'' then patch (read_bool D v) (\<lambda>x. e\<lparr>MailActivityType_active := x\<rparr>) e
      else e)"

definition MailActivityType_apply_patch :: "decoders \<Rightarrow> (string \<times> json) list \<Rightarrow> MailActivityType \<Rightarrow> MailActivityType" where
  "MailActivityType_apply_patch D = patch_all (MailActivityType_patch_field D)"

definition MailActivityType_write_protected_fields :: "string list" where
  "MailActivityType_write_protected_fields = [''chaining_type'']"

definition MailActivityType_column_types :: "(string \<times> string) list" where
  "MailActivityType_column_types =
    [(''id'', ''uuid''), (''default_user_id'', ''uuid''), (''res_model_id'', ''uuid''),
     (''category'', ''mail_activity_category''), (''chaining_type'', ''mail_activity_chaining_type''),
     (''delay_unit'', ''mail_activity_delay_unit''), (''delay_from'', ''mail_activity_delay_from'')]"

definition MailActivityType_transition_to :: "MailActivityTypeHooksState \<Rightarrow> MailActivityType \<Rightarrow> StateMachineError + MailActivityType" where
  "MailActivityType_transition_to new_state e =
     (case MailActivityTypeHooksState_from_str (MailActivityChainingType_show (MailActivityType_chaining_type e)) of
        Inl x \<Rightarrow> Inl x
      | Inr current \<Rightarrow>
          (case fst (MailActivityTypeHooksStateMachine_transition_to_state current new_state) of
             Inl x \<Rightarrow> Inl x
           | Inr _ \<Rightarrow>
               (case MailActivityChainingType_from_str (MailActivityTypeHooksState_show new_state) of
                  Inl x \<Rightarrow> Inl (InvalidState x)
                | Inr s \<Rightarrow> Inr (e\<lparr>MailActivityType_chaining_type := s\<rparr>))))"

record MailActivityTypeBuilder =
  MailActivityTypeBuilder_name :: "string option"
  MailActivityTypeBuilder_summary :: "string option"
  MailActivityTypeBuilder_note :: "string option"
  MailActivityTypeBuilder_category :: "MailActivityCategory option"
  MailActivityTypeBuilder_chaining_type :: "MailActivityChainingType option"
  MailActivityTypeBuilder_delay_count :: "int option"
  MailActivityTypeBuilder_delay_unit :: "MailActivityDelayUnit option"
  MailActivityTypeBuilder_delay_from :: "MailActivityDelayFrom option"
  MailActivityTypeBuilder_default_user_id :: "uuid option"
  MailActivityTypeBuilder_default_note :: "string option"
  MailActivityTypeBuilder_icon :: "string option"
  MailActivityTypeBuilder_res_model :: "string option"
  MailActivityTypeBuilder_res_model_id :: "uuid option"
  MailActivityTypeBuilder_active :: "bool option"

definition MailActivityType_build :: "MailActivityTypeBuilder \<Rightarrow> uuid \<Rightarrow> time \<Rightarrow> string + MailActivityType" where
  "MailActivityType_build b i now =
     require ''name'' (MailActivityTypeBuilder_name b) (\<lambda>name'.
     Inr \<lparr>MailActivityType_id = i, MailActivityType_name = name',
         MailActivityType_summary = MailActivityTypeBuilder_summary b,
         MailActivityType_note = MailActivityTypeBuilder_note b,
         MailActivityType_category = MailActivityTypeBuilder_category b,
         MailActivityType_chaining_type = or_else (MailActivityTypeBuilder_chaining_type b) MailActivityChainingType_default,
         MailActivityType_delay_count = or_else (MailActivityTypeBuilder_delay_count b) 0,
         MailActivityType_delay_unit = or_else (MailActivityTypeBuilder_delay_unit b) MailActivityDelayUnit_default,
         MailActivityType_delay_from = or_else (MailActivityTypeBuilder_delay_from b) MailActivityDelayFrom_default,
         MailActivityType_default_user_id = MailActivityTypeBuilder_default_user_id b,
         MailActivityType_default_note = MailActivityTypeBuilder_default_note b,
         MailActivityType_icon = MailActivityTypeBuilder_icon b,
         MailActivityType_res_model = MailActivityTypeBuilder_res_model b,
         MailActivityType_res_model_id = MailActivityTypeBuilder_res_model_id b,
         MailActivityType_active = or_else (MailActivityTypeBuilder_active b) True,
         MailActivityType_metadata = audit_default\<rparr>)"

lemma MailActivityType_apply_patch_keeps:
  "MailActivityType_id (MailActivityType_apply_patch D es e) = MailActivityType_id e"
  "MailActivityType_chaining_type (MailActivityType_apply_patch D es e) = MailActivityType_chaining_type e"
  "MailActivityType_metadata (MailActivityType_apply_patch D es e) = MailActivityType_metadata e"
  unfolding MailActivityType_apply_patch_def
  by (rule patch_all_keeps, simp add: MailActivityType_patch_field_def
      if_distrib [of MailActivityType_id] patch_distrib [of MailActivityType_id]
      if_distrib [of MailActivityType_chaining_type] patch_distrib [of MailActivityType_chaining_type]
      if_distrib [of MailActivityType_metadata] patch_distrib [of MailActivityType_metadata])+

lemma MailActivityType_build_iff: "(\<exists>e. MailActivityType_build b i now = Inr e) \<longleftrightarrow> MailActivityTypeBuilder_name b \<noteq> None"
  by (auto simp: MailActivityType_build_def require_Inr)

lemma MailActivityType_transition_to_iff:
  "MailActivityType_transition_to goal e = Inr e' \<longleftrightarrow>
   (\<exists>s. MailActivityTypeHooksState_show s = MailActivityChainingType_show (MailActivityType_chaining_type e) \<and> mail_activity_type_hooks.edge s goal) \<and>
   (\<exists>x. MailActivityChainingType_show x = MailActivityTypeHooksState_show goal \<and> e' = e\<lparr>MailActivityType_chaining_type := x\<rparr>)"
proof -
  obtain s where s: "MailActivityTypeHooksState_show s = MailActivityChainingType_show (MailActivityType_chaining_type e)"
    by (cases "MailActivityType_chaining_type e") (metis MailActivityTypeHooksState_show.simps MailActivityChainingType_show.simps)+
  have p: "MailActivityTypeHooksState_from_str (MailActivityChainingType_show (MailActivityType_chaining_type e)) = Inr s" unfolding s [symmetric] by (rule mail_activity_type_hooks_state_text.from_str_label)
  obtain x where x: "MailActivityChainingType_show x = MailActivityTypeHooksState_show goal"
    by (cases goal) (metis MailActivityTypeHooksState_show.simps MailActivityChainingType_show.simps)+
  have g: "MailActivityChainingType_from_str (MailActivityTypeHooksState_show goal) = Inr x" unfolding x [symmetric] by (rule mail_activity_chaining_type.from_str_label)
  have src: "(\<exists>s'. MailActivityTypeHooksState_show s' = MailActivityChainingType_show (MailActivityType_chaining_type e) \<and> mail_activity_type_hooks.edge s' goal) \<longleftrightarrow> mail_activity_type_hooks.edge s goal"
    unfolding s [symmetric] mail_activity_type_hooks_state_text.label_inj by simp
  have tgt: "(\<exists>y. MailActivityChainingType_show y = MailActivityTypeHooksState_show goal \<and> e' = e\<lparr>MailActivityType_chaining_type := y\<rparr>) \<longleftrightarrow> e' = e\<lparr>MailActivityType_chaining_type := x\<rparr>"
    unfolding x [symmetric] mail_activity_chaining_type.label_inj by simp
  show ?thesis
  proof (cases "mail_activity_type_hooks.edge s goal")
    case True
    then show ?thesis unfolding src tgt
      using p g mail_activity_type_hooks.to_state_ok [of s goal] by (auto simp: MailActivityType_transition_to_def MailActivityTypeHooksStateMachine_transition_to_state_def)
  next
    case False
    then show ?thesis unfolding src tgt
      using p g mail_activity_type_hooks.to_state_refused [of s goal] by (auto simp: MailActivityType_transition_to_def MailActivityTypeHooksStateMachine_transition_to_state_def)
  qed
qed

section \<open>MailMessageSchedule\<close>

record MailMessageSchedule =
  MailMessageSchedule_id :: uuid
  MailMessageSchedule_mail_message_id :: uuid
  MailMessageSchedule_notification_parameters :: "string option"
  MailMessageSchedule_scheduled_datetime :: time
  MailMessageSchedule_metadata :: AuditMetadata

definition MailMessageSchedule_new ::
  "uuid \<Rightarrow> time \<Rightarrow> uuid \<Rightarrow> MailMessageSchedule" where
  "MailMessageSchedule_new mail_message_id' scheduled_datetime' i =
     \<lparr>MailMessageSchedule_id = i, MailMessageSchedule_mail_message_id = mail_message_id',
      MailMessageSchedule_notification_parameters = None,
      MailMessageSchedule_scheduled_datetime = scheduled_datetime', MailMessageSchedule_metadata = audit_default\<rparr>"

definition MailMessageSchedule_is_deleted :: "MailMessageSchedule \<Rightarrow> bool" where
  "MailMessageSchedule_is_deleted e \<longleftrightarrow> am_deleted_at (MailMessageSchedule_metadata e) \<noteq> None"

definition MailMessageSchedule_is_active :: "MailMessageSchedule \<Rightarrow> bool" where
  "MailMessageSchedule_is_active e \<longleftrightarrow> am_deleted_at (MailMessageSchedule_metadata e) = None"

definition MailMessageSchedule_set_entity_id :: "decoders \<Rightarrow> string \<Rightarrow> MailMessageSchedule \<Rightarrow> MailMessageSchedule" where
  "MailMessageSchedule_set_entity_id D s e = patch (parse_uuid D s) (\<lambda>u. e\<lparr>MailMessageSchedule_id := u\<rparr>) e"

definition MailMessageSchedule_patch_field :: "decoders \<Rightarrow> string \<Rightarrow> json \<Rightarrow> MailMessageSchedule \<Rightarrow> MailMessageSchedule" where
  "MailMessageSchedule_patch_field D k v e =
     (if k = ''mail_message_id'' then patch (read_uuid D v) (\<lambda>x. e\<lparr>MailMessageSchedule_mail_message_id := x\<rparr>) e
      else if k = ''notification_parameters'' then patch (de_option (read_string D) v) (\<lambda>x. e\<lparr>MailMessageSchedule_notification_parameters := x\<rparr>) e
      else if k = ''scheduled_datetime'' then patch (read_time D v) (\<lambda>x. e\<lparr>MailMessageSchedule_scheduled_datetime := x\<rparr>) e
      else e)"

definition MailMessageSchedule_apply_patch :: "decoders \<Rightarrow> (string \<times> json) list \<Rightarrow> MailMessageSchedule \<Rightarrow> MailMessageSchedule" where
  "MailMessageSchedule_apply_patch D = patch_all (MailMessageSchedule_patch_field D)"

definition MailMessageSchedule_column_types :: "(string \<times> string) list" where
  "MailMessageSchedule_column_types =
    [(''id'', ''uuid''), (''mail_message_id'', ''uuid''), (''scheduled_datetime'', ''timestamptz'')]"

record MailMessageScheduleBuilder =
  MailMessageScheduleBuilder_mail_message_id :: "uuid option"
  MailMessageScheduleBuilder_notification_parameters :: "string option"
  MailMessageScheduleBuilder_scheduled_datetime :: "time option"

definition MailMessageSchedule_build :: "MailMessageScheduleBuilder \<Rightarrow> uuid \<Rightarrow> time \<Rightarrow> string + MailMessageSchedule" where
  "MailMessageSchedule_build b i now =
     require ''mail_message_id'' (MailMessageScheduleBuilder_mail_message_id b) (\<lambda>mail_message_id'.
     require ''scheduled_datetime'' (MailMessageScheduleBuilder_scheduled_datetime b) (\<lambda>scheduled_datetime'.
     Inr \<lparr>MailMessageSchedule_id = i, MailMessageSchedule_mail_message_id = mail_message_id',
         MailMessageSchedule_notification_parameters = MailMessageScheduleBuilder_notification_parameters b,
         MailMessageSchedule_scheduled_datetime = scheduled_datetime', MailMessageSchedule_metadata = audit_default\<rparr>))"

lemma MailMessageSchedule_apply_patch_keeps:
  "MailMessageSchedule_id (MailMessageSchedule_apply_patch D es e) = MailMessageSchedule_id e"
  "MailMessageSchedule_metadata (MailMessageSchedule_apply_patch D es e) = MailMessageSchedule_metadata e"

        unfolding MailMessageSchedule_apply_patch_def
  by (rule patch_all_keeps, simp add: MailMessageSchedule_patch_field_def
      if_distrib [of MailMessageSchedule_id] patch_distrib [of MailMessageSchedule_id]
      if_distrib [of MailMessageSchedule_metadata] patch_distrib [of MailMessageSchedule_metadata])+

lemma MailMessageSchedule_build_iff: "(\<exists>e. MailMessageSchedule_build b i now = Inr e) \<longleftrightarrow> MailMessageScheduleBuilder_mail_message_id b \<noteq> None \<and> MailMessageScheduleBuilder_scheduled_datetime b \<noteq> None"
  by (auto simp: MailMessageSchedule_build_def require_Inr)

section \<open>MailScheduledMessage\<close>

record MailScheduledMessage =
  MailScheduledMessage_id :: uuid
  MailScheduledMessage_subject :: "string option"
  MailScheduledMessage_body :: string
  MailScheduledMessage_scheduled_date :: time
  MailScheduledMessage_composition_comment_option :: "string option"
  MailScheduledMessage_model :: string
  MailScheduledMessage_res_id :: uuid
  MailScheduledMessage_author_party_id :: uuid
  MailScheduledMessage_recipient_party_ids :: "json option"
  MailScheduledMessage_is_note :: bool
  MailScheduledMessage_notification_parameters :: "string option"
  MailScheduledMessage_send_context :: "json option"
  MailScheduledMessage_metadata :: AuditMetadata

definition MailScheduledMessage_new ::
  "string \<Rightarrow> time \<Rightarrow> string \<Rightarrow> uuid \<Rightarrow> uuid \<Rightarrow>
  bool \<Rightarrow> uuid \<Rightarrow> MailScheduledMessage" where
  "MailScheduledMessage_new body' scheduled_date' model' res_id' author_party_id' is_note' i =
     \<lparr>MailScheduledMessage_id = i, MailScheduledMessage_subject = None, MailScheduledMessage_body = body',
      MailScheduledMessage_scheduled_date = scheduled_date', MailScheduledMessage_composition_comment_option = None,
      MailScheduledMessage_model = model', MailScheduledMessage_res_id = res_id',
      MailScheduledMessage_author_party_id = author_party_id', MailScheduledMessage_recipient_party_ids = None,
      MailScheduledMessage_is_note = is_note', MailScheduledMessage_notification_parameters = None,
      MailScheduledMessage_send_context = None, MailScheduledMessage_metadata = audit_default\<rparr>"

definition MailScheduledMessage_is_deleted :: "MailScheduledMessage \<Rightarrow> bool" where
  "MailScheduledMessage_is_deleted e \<longleftrightarrow> am_deleted_at (MailScheduledMessage_metadata e) \<noteq> None"

definition MailScheduledMessage_is_active :: "MailScheduledMessage \<Rightarrow> bool" where
  "MailScheduledMessage_is_active e \<longleftrightarrow> am_deleted_at (MailScheduledMessage_metadata e) = None"

definition MailScheduledMessage_set_entity_id :: "decoders \<Rightarrow> string \<Rightarrow> MailScheduledMessage \<Rightarrow> MailScheduledMessage" where
  "MailScheduledMessage_set_entity_id D s e = patch (parse_uuid D s) (\<lambda>u. e\<lparr>MailScheduledMessage_id := u\<rparr>) e"

definition MailScheduledMessage_patch_field :: "decoders \<Rightarrow> string \<Rightarrow> json \<Rightarrow> MailScheduledMessage \<Rightarrow> MailScheduledMessage" where
  "MailScheduledMessage_patch_field D k v e =
     (if k = ''subject'' then patch (de_option (read_string D) v) (\<lambda>x. e\<lparr>MailScheduledMessage_subject := x\<rparr>) e
      else if k = ''body'' then patch (read_string D v) (\<lambda>x. e\<lparr>MailScheduledMessage_body := x\<rparr>) e
      else if k = ''scheduled_date'' then patch (read_time D v) (\<lambda>x. e\<lparr>MailScheduledMessage_scheduled_date := x\<rparr>) e
      else if k = ''composition_comment_option'' then patch (de_option (read_string D) v) (\<lambda>x. e\<lparr>MailScheduledMessage_composition_comment_option := x\<rparr>) e
      else if k = ''model'' then patch (read_string D v) (\<lambda>x. e\<lparr>MailScheduledMessage_model := x\<rparr>) e
      else if k = ''res_id'' then patch (read_uuid D v) (\<lambda>x. e\<lparr>MailScheduledMessage_res_id := x\<rparr>) e
      else if k = ''author_party_id'' then patch (read_uuid D v) (\<lambda>x. e\<lparr>MailScheduledMessage_author_party_id := x\<rparr>) e
      else if k = ''recipient_party_ids'' then patch (de_option Some v) (\<lambda>x. e\<lparr>MailScheduledMessage_recipient_party_ids := x\<rparr>) e
      else if k = ''is_note'' then patch (read_bool D v) (\<lambda>x. e\<lparr>MailScheduledMessage_is_note := x\<rparr>) e
      else if k = ''notification_parameters'' then patch (de_option (read_string D) v) (\<lambda>x. e\<lparr>MailScheduledMessage_notification_parameters := x\<rparr>) e
      else if k = ''send_context'' then patch (de_option Some v) (\<lambda>x. e\<lparr>MailScheduledMessage_send_context := x\<rparr>) e
      else e)"

definition MailScheduledMessage_apply_patch :: "decoders \<Rightarrow> (string \<times> json) list \<Rightarrow> MailScheduledMessage \<Rightarrow> MailScheduledMessage" where
  "MailScheduledMessage_apply_patch D = patch_all (MailScheduledMessage_patch_field D)"

definition MailScheduledMessage_column_types :: "(string \<times> string) list" where
  "MailScheduledMessage_column_types =
    [(''id'', ''uuid''), (''res_id'', ''uuid''), (''author_party_id'', ''uuid''),
     (''scheduled_date'', ''timestamptz'')]"

record MailScheduledMessageBuilder =
  MailScheduledMessageBuilder_subject :: "string option"
  MailScheduledMessageBuilder_body :: "string option"
  MailScheduledMessageBuilder_scheduled_date :: "time option"
  MailScheduledMessageBuilder_composition_comment_option :: "string option"
  MailScheduledMessageBuilder_model :: "string option"
  MailScheduledMessageBuilder_res_id :: "uuid option"
  MailScheduledMessageBuilder_author_party_id :: "uuid option"
  MailScheduledMessageBuilder_recipient_party_ids :: "json option"
  MailScheduledMessageBuilder_is_note :: "bool option"
  MailScheduledMessageBuilder_notification_parameters :: "string option"
  MailScheduledMessageBuilder_send_context :: "json option"

definition MailScheduledMessage_build :: "MailScheduledMessageBuilder \<Rightarrow> uuid \<Rightarrow> time \<Rightarrow> string + MailScheduledMessage" where
  "MailScheduledMessage_build b i now =
     require ''body'' (MailScheduledMessageBuilder_body b) (\<lambda>body'.
     require ''scheduled_date'' (MailScheduledMessageBuilder_scheduled_date b) (\<lambda>scheduled_date'.
     require ''model'' (MailScheduledMessageBuilder_model b) (\<lambda>model'.
     require ''res_id'' (MailScheduledMessageBuilder_res_id b) (\<lambda>res_id'.
     require ''author_party_id'' (MailScheduledMessageBuilder_author_party_id b) (\<lambda>author_party_id'.
     Inr \<lparr>MailScheduledMessage_id = i, MailScheduledMessage_subject = MailScheduledMessageBuilder_subject b,
         MailScheduledMessage_body = body', MailScheduledMessage_scheduled_date = scheduled_date',
         MailScheduledMessage_composition_comment_option = MailScheduledMessageBuilder_composition_comment_option b,
         MailScheduledMessage_model = model', MailScheduledMessage_res_id = res_id',
         MailScheduledMessage_author_party_id = author_party_id',
         MailScheduledMessage_recipient_party_ids = MailScheduledMessageBuilder_recipient_party_ids b,
         MailScheduledMessage_is_note = or_else (MailScheduledMessageBuilder_is_note b) False,
         MailScheduledMessage_notification_parameters = MailScheduledMessageBuilder_notification_parameters b,
         MailScheduledMessage_send_context = MailScheduledMessageBuilder_send_context b,
         MailScheduledMessage_metadata = audit_default\<rparr>)))))"

lemma MailScheduledMessage_apply_patch_keeps:
  "MailScheduledMessage_id (MailScheduledMessage_apply_patch D es e) = MailScheduledMessage_id e"
  "MailScheduledMessage_metadata (MailScheduledMessage_apply_patch D es e) = MailScheduledMessage_metadata e"

        unfolding MailScheduledMessage_apply_patch_def
  by (rule patch_all_keeps, simp add: MailScheduledMessage_patch_field_def
      if_distrib [of MailScheduledMessage_id] patch_distrib [of MailScheduledMessage_id]
      if_distrib [of MailScheduledMessage_metadata] patch_distrib [of MailScheduledMessage_metadata])+

lemma MailScheduledMessage_build_iff: "(\<exists>e. MailScheduledMessage_build b i now = Inr e) \<longleftrightarrow> MailScheduledMessageBuilder_body b \<noteq> None \<and> MailScheduledMessageBuilder_scheduled_date b \<noteq> None \<and> MailScheduledMessageBuilder_model b \<noteq> None \<and> MailScheduledMessageBuilder_res_id b \<noteq> None \<and> MailScheduledMessageBuilder_author_party_id b \<noteq> None"
  by (auto simp: MailScheduledMessage_build_def require_Inr)

end
