(* ===== verification/RowsActivities.thy ===== *)
theory RowsActivities
  imports EntitiesActivities RowGuards
begin

text \<open>
  The wire forms and the row rules of the entities of \<open>EntitiesActivities\<close>: \<open>src/presentation/dto/\<close> and the \<open>RowRules\<close> of
  \<open>src/application/service/\<close>.  The conversion from a reference and the one from an owned entity are one function.
\<close>

section \<open>MailActivity\<close>

record CreateMailActivityDto =
  CreateMailActivityDto_res_model :: string
  CreateMailActivityDto_res_id :: uuid
  CreateMailActivityDto_res_model_id :: "uuid option"
  CreateMailActivityDto_activity_type_id :: "uuid option"
  CreateMailActivityDto_summary :: "string option"
  CreateMailActivityDto_note :: "string option"
  CreateMailActivityDto_date_deadline :: "(int \<times> nat \<times> nat)"
  CreateMailActivityDto_user_id :: uuid
  CreateMailActivityDto_requested_user_id :: "uuid option"
  CreateMailActivityDto_active :: bool
  CreateMailActivityDto_has_recommended_activities :: bool
  CreateMailActivityDto_chained_next_activity :: "json option"
  CreateMailActivityDto_calendar_event_id :: "uuid option"

record UpdateMailActivityDto =
  UpdateMailActivityDto_res_model :: string
  UpdateMailActivityDto_res_id :: uuid
  UpdateMailActivityDto_res_model_id :: "uuid option"
  UpdateMailActivityDto_activity_type_id :: "uuid option"
  UpdateMailActivityDto_summary :: "string option"
  UpdateMailActivityDto_note :: "string option"
  UpdateMailActivityDto_date_deadline :: "(int \<times> nat \<times> nat)"
  UpdateMailActivityDto_user_id :: uuid
  UpdateMailActivityDto_requested_user_id :: "uuid option"
  UpdateMailActivityDto_state :: MailActivityState
  UpdateMailActivityDto_active :: bool
  UpdateMailActivityDto_has_recommended_activities :: bool
  UpdateMailActivityDto_chained_next_activity :: "json option"
  UpdateMailActivityDto_calendar_event_id :: "uuid option"

record MailActivityResponseDto =
  MailActivityResponseDto_id :: uuid
  MailActivityResponseDto_res_model :: string
  MailActivityResponseDto_res_id :: uuid
  MailActivityResponseDto_res_model_id :: "uuid option"
  MailActivityResponseDto_activity_type_id :: "uuid option"
  MailActivityResponseDto_summary :: "string option"
  MailActivityResponseDto_note :: "string option"
  MailActivityResponseDto_date_deadline :: "(int \<times> nat \<times> nat)"
  MailActivityResponseDto_user_id :: uuid
  MailActivityResponseDto_requested_user_id :: "uuid option"
  MailActivityResponseDto_state :: MailActivityState
  MailActivityResponseDto_active :: bool
  MailActivityResponseDto_has_recommended_activities :: bool
  MailActivityResponseDto_chained_next_activity :: "json option"
  MailActivityResponseDto_calendar_event_id :: "uuid option"
  MailActivityResponseDto_metadata :: AuditMetadata

definition MailActivity_response :: "MailActivity \<Rightarrow> MailActivityResponseDto" where
  "MailActivity_response e =
     \<lparr>MailActivityResponseDto_id = MailActivity_id e,
      MailActivityResponseDto_res_model = MailActivity_res_model e,
      MailActivityResponseDto_res_id = MailActivity_res_id e,
      MailActivityResponseDto_res_model_id = MailActivity_res_model_id e,
      MailActivityResponseDto_activity_type_id = MailActivity_activity_type_id e,
      MailActivityResponseDto_summary = MailActivity_summary e, MailActivityResponseDto_note = MailActivity_note e,
      MailActivityResponseDto_date_deadline = MailActivity_date_deadline e,
      MailActivityResponseDto_user_id = MailActivity_user_id e,
      MailActivityResponseDto_requested_user_id = MailActivity_requested_user_id e,
      MailActivityResponseDto_state = MailActivity_state e, MailActivityResponseDto_active = MailActivity_active e,
      MailActivityResponseDto_has_recommended_activities = MailActivity_has_recommended_activities e,
      MailActivityResponseDto_chained_next_activity = MailActivity_chained_next_activity e,
      MailActivityResponseDto_calendar_event_id = MailActivity_calendar_event_id e,
      MailActivityResponseDto_metadata = MailActivity_metadata e\<rparr>"

definition MailActivity_from_create :: "CreateMailActivityDto \<Rightarrow> uuid \<Rightarrow> MailActivity" where
  "MailActivity_from_create d i =
     \<lparr>MailActivity_id = i, MailActivity_res_model = CreateMailActivityDto_res_model d,
      MailActivity_res_id = CreateMailActivityDto_res_id d,
      MailActivity_res_model_id = CreateMailActivityDto_res_model_id d,
      MailActivity_activity_type_id = CreateMailActivityDto_activity_type_id d,
      MailActivity_summary = CreateMailActivityDto_summary d, MailActivity_note = CreateMailActivityDto_note d,
      MailActivity_date_deadline = CreateMailActivityDto_date_deadline d,
      MailActivity_user_id = CreateMailActivityDto_user_id d,
      MailActivity_requested_user_id = CreateMailActivityDto_requested_user_id d,
      MailActivity_state = MailActivityState.Today, MailActivity_active = CreateMailActivityDto_active d,
      MailActivity_has_recommended_activities = CreateMailActivityDto_has_recommended_activities d,
      MailActivity_chained_next_activity = CreateMailActivityDto_chained_next_activity d,
      MailActivity_calendar_event_id = CreateMailActivityDto_calendar_event_id d,
      MailActivity_metadata = audit_default\<rparr>"

definition MailActivity_apply_update :: "MailActivity \<Rightarrow> UpdateMailActivityDto \<Rightarrow> MailActivity" where
  "MailActivity_apply_update e d =
     e\<lparr>MailActivity_res_model := UpdateMailActivityDto_res_model d,
      MailActivity_res_id := UpdateMailActivityDto_res_id d,
      MailActivity_res_model_id := UpdateMailActivityDto_res_model_id d,
      MailActivity_activity_type_id := UpdateMailActivityDto_activity_type_id d,
      MailActivity_summary := UpdateMailActivityDto_summary d, MailActivity_note := UpdateMailActivityDto_note d,
      MailActivity_date_deadline := UpdateMailActivityDto_date_deadline d,
      MailActivity_user_id := UpdateMailActivityDto_user_id d,
      MailActivity_requested_user_id := UpdateMailActivityDto_requested_user_id d,
      MailActivity_state := UpdateMailActivityDto_state d, MailActivity_active := UpdateMailActivityDto_active d,
      MailActivity_has_recommended_activities := UpdateMailActivityDto_has_recommended_activities d,
      MailActivity_chained_next_activity := UpdateMailActivityDto_chained_next_activity d,
      MailActivity_calendar_event_id := UpdateMailActivityDto_calendar_event_id d\<rparr>"

definition MailActivity_to_value :: "encoders \<Rightarrow> MailActivity \<Rightarrow> json" where
  "MailActivity_to_value E e = JObject
     [(''id'', en_uuid E (MailActivity_id e)), (''res_model'', JString (MailActivity_res_model e)),
      (''res_id'', en_uuid E (MailActivity_res_id e)),
      (''res_model_id'', jopt (en_uuid E) (MailActivity_res_model_id e)),
      (''activity_type_id'', jopt (en_uuid E) (MailActivity_activity_type_id e)),
      (''summary'', jopt JString (MailActivity_summary e)), (''note'', jopt JString (MailActivity_note e)),
      (''date_deadline'', en_date E (MailActivity_date_deadline e)),
      (''user_id'', en_uuid E (MailActivity_user_id e)),
      (''requested_user_id'', jopt (en_uuid E) (MailActivity_requested_user_id e)),
      (''state'', (\<lambda>x. JString (MailActivityState_show x)) (MailActivity_state e)),
      (''active'', JBool (MailActivity_active e)),
      (''has_recommended_activities'', JBool (MailActivity_has_recommended_activities e)),
      (''chained_next_activity'', jopt id (MailActivity_chained_next_activity e)),
      (''calendar_event_id'', jopt (en_uuid E) (MailActivity_calendar_event_id e)),
      (''metadata'', audit_to_value E (MailActivity_metadata e))]"

definition MailActivity_row_rules :: "'v row_rule \<Rightarrow> encoders \<Rightarrow> MailActivity write_ctx \<Rightarrow> guard_outcome" where
  "MailActivity_row_rules R E ctx = row_guard (\<lambda>e. Some (MailActivity_to_value E e)) (\<lambda>create update old row.
      required_rule R ''res_model'' create update old row @
      required_rule R ''res_id'' create update old row @
      required_rule R ''user_id'' create update old row @
      (if (create \<or> update) \<and> \<not> rr_holds R (rr_or R (rr_is_null R (rr_field R row ''res_model'')) (rr_is_not_null R (rr_field R row ''res_id'')))
       then [violation_new ''res_model'' ''mail_activity_res_id_required''
         (''An activity attached to a model MUST have a res_id (CHECK res_model IS NULL OR res_id IS NOT NULL '' @ EM_DASH @ '' fires on raw SQL).'')]
       else []) @
      (if (create \<or> update) \<and> \<not> rr_holds R (rr_or R (rr_is_null R (rr_field R row ''res_model'')) (rr_is_not_null R (rr_field R row ''user_id'')))
       then [violation_new ''res_model'' ''mail_activity_user_id_required''
         (''An activity attached to a model MUST have an assignee (CHECK res_model IS NULL OR user_id IS NOT NULL '' @ EM_DASH @ '' fires on raw SQL).'')]
       else [])) ctx"

lemma MailActivity_apply_update_reach:
  "(\<exists>d. MailActivity_apply_update e d = e') \<longleftrightarrow>
   MailActivity_id e' = MailActivity_id e \<and> MailActivity_metadata e' = MailActivity_metadata e"
proof
  assume "MailActivity_id e' = MailActivity_id e \<and> MailActivity_metadata e' = MailActivity_metadata e"
  then have "MailActivity_apply_update e \<lparr>UpdateMailActivityDto_res_model = MailActivity_res_model e', UpdateMailActivityDto_res_id = MailActivity_res_id e',
      UpdateMailActivityDto_res_model_id = MailActivity_res_model_id e',
      UpdateMailActivityDto_activity_type_id = MailActivity_activity_type_id e',
      UpdateMailActivityDto_summary = MailActivity_summary e', UpdateMailActivityDto_note = MailActivity_note e',
      UpdateMailActivityDto_date_deadline = MailActivity_date_deadline e',
      UpdateMailActivityDto_user_id = MailActivity_user_id e',
      UpdateMailActivityDto_requested_user_id = MailActivity_requested_user_id e',
      UpdateMailActivityDto_state = MailActivity_state e', UpdateMailActivityDto_active = MailActivity_active e',
      UpdateMailActivityDto_has_recommended_activities = MailActivity_has_recommended_activities e',
      UpdateMailActivityDto_chained_next_activity = MailActivity_chained_next_activity e',
      UpdateMailActivityDto_calendar_event_id = MailActivity_calendar_event_id e'\<rparr> = e'"
    by (cases e; cases e') (simp add: MailActivity_apply_update_def)
  then show "\<exists>d. MailActivity_apply_update e d = e'" by blast
qed (auto simp: MailActivity_apply_update_def)

lemma MailActivity_response_eq: "MailActivity_response e = MailActivity_response e' \<longleftrightarrow> e = e'"
  by (cases e; cases e') (simp add: MailActivity_response_def)

section \<open>MailActivityPlan\<close>

record CreateMailActivityPlanDto =
  CreateMailActivityPlanDto_name :: string
  CreateMailActivityPlanDto_res_model :: "string option"
  CreateMailActivityPlanDto_res_model_id :: "uuid option"
  CreateMailActivityPlanDto_active :: bool

record UpdateMailActivityPlanDto =
  UpdateMailActivityPlanDto_name :: string
  UpdateMailActivityPlanDto_res_model :: "string option"
  UpdateMailActivityPlanDto_res_model_id :: "uuid option"
  UpdateMailActivityPlanDto_active :: bool

record MailActivityPlanResponseDto =
  MailActivityPlanResponseDto_id :: uuid
  MailActivityPlanResponseDto_name :: string
  MailActivityPlanResponseDto_res_model :: "string option"
  MailActivityPlanResponseDto_res_model_id :: "uuid option"
  MailActivityPlanResponseDto_active :: bool
  MailActivityPlanResponseDto_metadata :: AuditMetadata

definition MailActivityPlan_response :: "MailActivityPlan \<Rightarrow> MailActivityPlanResponseDto" where
  "MailActivityPlan_response e =
     \<lparr>MailActivityPlanResponseDto_id = MailActivityPlan_id e,
      MailActivityPlanResponseDto_name = MailActivityPlan_name e,
      MailActivityPlanResponseDto_res_model = MailActivityPlan_res_model e,
      MailActivityPlanResponseDto_res_model_id = MailActivityPlan_res_model_id e,
      MailActivityPlanResponseDto_active = MailActivityPlan_active e,
      MailActivityPlanResponseDto_metadata = MailActivityPlan_metadata e\<rparr>"

definition MailActivityPlan_from_create :: "CreateMailActivityPlanDto \<Rightarrow> uuid \<Rightarrow> MailActivityPlan" where
  "MailActivityPlan_from_create d i =
     \<lparr>MailActivityPlan_id = i, MailActivityPlan_name = CreateMailActivityPlanDto_name d,
      MailActivityPlan_res_model = CreateMailActivityPlanDto_res_model d,
      MailActivityPlan_res_model_id = CreateMailActivityPlanDto_res_model_id d,
      MailActivityPlan_active = CreateMailActivityPlanDto_active d, MailActivityPlan_metadata = audit_default\<rparr>"

definition MailActivityPlan_apply_update :: "MailActivityPlan \<Rightarrow> UpdateMailActivityPlanDto \<Rightarrow> MailActivityPlan" where
  "MailActivityPlan_apply_update e d =
     e\<lparr>MailActivityPlan_name := UpdateMailActivityPlanDto_name d,
      MailActivityPlan_res_model := UpdateMailActivityPlanDto_res_model d,
      MailActivityPlan_res_model_id := UpdateMailActivityPlanDto_res_model_id d,
      MailActivityPlan_active := UpdateMailActivityPlanDto_active d\<rparr>"

definition MailActivityPlan_to_value :: "encoders \<Rightarrow> MailActivityPlan \<Rightarrow> json" where
  "MailActivityPlan_to_value E e = JObject
     [(''id'', en_uuid E (MailActivityPlan_id e)), (''name'', JString (MailActivityPlan_name e)),
      (''res_model'', jopt JString (MailActivityPlan_res_model e)),
      (''res_model_id'', jopt (en_uuid E) (MailActivityPlan_res_model_id e)),
      (''active'', JBool (MailActivityPlan_active e)), (''metadata'', audit_to_value E (MailActivityPlan_metadata e))]"

definition MailActivityPlan_row_rules :: "'v row_rule \<Rightarrow> encoders \<Rightarrow> MailActivityPlan write_ctx \<Rightarrow> guard_outcome" where
  "MailActivityPlan_row_rules R E ctx = row_guard (\<lambda>e. Some (MailActivityPlan_to_value E e)) (\<lambda>create update old row.
      required_rule R ''name'' create update old row) ctx"

lemma MailActivityPlan_apply_update_reach:
  "(\<exists>d. MailActivityPlan_apply_update e d = e') \<longleftrightarrow>
   MailActivityPlan_id e' = MailActivityPlan_id e \<and> MailActivityPlan_metadata e' = MailActivityPlan_metadata e"
proof
  assume "MailActivityPlan_id e' = MailActivityPlan_id e \<and> MailActivityPlan_metadata e' = MailActivityPlan_metadata e"
  then have "MailActivityPlan_apply_update e \<lparr>UpdateMailActivityPlanDto_name = MailActivityPlan_name e',
      UpdateMailActivityPlanDto_res_model = MailActivityPlan_res_model e',
      UpdateMailActivityPlanDto_res_model_id = MailActivityPlan_res_model_id e',
      UpdateMailActivityPlanDto_active = MailActivityPlan_active e'\<rparr> = e'"
    by (cases e; cases e') (simp add: MailActivityPlan_apply_update_def)
  then show "\<exists>d. MailActivityPlan_apply_update e d = e'" by blast
qed (auto simp: MailActivityPlan_apply_update_def)

lemma MailActivityPlan_response_eq: "MailActivityPlan_response e = MailActivityPlan_response e' \<longleftrightarrow> e = e'"
  by (cases e; cases e') (simp add: MailActivityPlan_response_def)

section \<open>MailActivityPlanTemplate\<close>

record CreateMailActivityPlanTemplateDto =
  CreateMailActivityPlanTemplateDto_plan_id :: uuid
  CreateMailActivityPlanTemplateDto_activity_type_id :: uuid
  CreateMailActivityPlanTemplateDto_summary :: "string option"
  CreateMailActivityPlanTemplateDto_note :: "string option"
  CreateMailActivityPlanTemplateDto_delay_count :: "int option"
  CreateMailActivityPlanTemplateDto_delay_unit :: "MailActivityDelayUnit option"
  CreateMailActivityPlanTemplateDto_user_id :: "uuid option"

record UpdateMailActivityPlanTemplateDto =
  UpdateMailActivityPlanTemplateDto_plan_id :: uuid
  UpdateMailActivityPlanTemplateDto_activity_type_id :: uuid
  UpdateMailActivityPlanTemplateDto_summary :: "string option"
  UpdateMailActivityPlanTemplateDto_note :: "string option"
  UpdateMailActivityPlanTemplateDto_delay_count :: "int option"
  UpdateMailActivityPlanTemplateDto_delay_unit :: "MailActivityDelayUnit option"
  UpdateMailActivityPlanTemplateDto_user_id :: "uuid option"

record MailActivityPlanTemplateResponseDto =
  MailActivityPlanTemplateResponseDto_id :: uuid
  MailActivityPlanTemplateResponseDto_plan_id :: uuid
  MailActivityPlanTemplateResponseDto_activity_type_id :: uuid
  MailActivityPlanTemplateResponseDto_summary :: "string option"
  MailActivityPlanTemplateResponseDto_note :: "string option"
  MailActivityPlanTemplateResponseDto_delay_count :: "int option"
  MailActivityPlanTemplateResponseDto_delay_unit :: "MailActivityDelayUnit option"
  MailActivityPlanTemplateResponseDto_user_id :: "uuid option"
  MailActivityPlanTemplateResponseDto_metadata :: AuditMetadata

definition MailActivityPlanTemplate_response :: "MailActivityPlanTemplate \<Rightarrow> MailActivityPlanTemplateResponseDto" where
  "MailActivityPlanTemplate_response e =
     \<lparr>MailActivityPlanTemplateResponseDto_id = MailActivityPlanTemplate_id e,
      MailActivityPlanTemplateResponseDto_plan_id = MailActivityPlanTemplate_plan_id e,
      MailActivityPlanTemplateResponseDto_activity_type_id = MailActivityPlanTemplate_activity_type_id e,
      MailActivityPlanTemplateResponseDto_summary = MailActivityPlanTemplate_summary e,
      MailActivityPlanTemplateResponseDto_note = MailActivityPlanTemplate_note e,
      MailActivityPlanTemplateResponseDto_delay_count = MailActivityPlanTemplate_delay_count e,
      MailActivityPlanTemplateResponseDto_delay_unit = MailActivityPlanTemplate_delay_unit e,
      MailActivityPlanTemplateResponseDto_user_id = MailActivityPlanTemplate_user_id e,
      MailActivityPlanTemplateResponseDto_metadata = MailActivityPlanTemplate_metadata e\<rparr>"

definition MailActivityPlanTemplate_from_create :: "CreateMailActivityPlanTemplateDto \<Rightarrow> uuid \<Rightarrow> MailActivityPlanTemplate" where
  "MailActivityPlanTemplate_from_create d i =
     \<lparr>MailActivityPlanTemplate_id = i,
      MailActivityPlanTemplate_plan_id = CreateMailActivityPlanTemplateDto_plan_id d,
      MailActivityPlanTemplate_activity_type_id = CreateMailActivityPlanTemplateDto_activity_type_id d,
      MailActivityPlanTemplate_summary = CreateMailActivityPlanTemplateDto_summary d,
      MailActivityPlanTemplate_note = CreateMailActivityPlanTemplateDto_note d,
      MailActivityPlanTemplate_delay_count = CreateMailActivityPlanTemplateDto_delay_count d,
      MailActivityPlanTemplate_delay_unit = CreateMailActivityPlanTemplateDto_delay_unit d,
      MailActivityPlanTemplate_user_id = CreateMailActivityPlanTemplateDto_user_id d,
      MailActivityPlanTemplate_metadata = audit_default\<rparr>"

definition MailActivityPlanTemplate_apply_update :: "MailActivityPlanTemplate \<Rightarrow> UpdateMailActivityPlanTemplateDto \<Rightarrow> MailActivityPlanTemplate" where
  "MailActivityPlanTemplate_apply_update e d =
     e\<lparr>MailActivityPlanTemplate_plan_id := UpdateMailActivityPlanTemplateDto_plan_id d,
      MailActivityPlanTemplate_activity_type_id := UpdateMailActivityPlanTemplateDto_activity_type_id d,
      MailActivityPlanTemplate_summary := UpdateMailActivityPlanTemplateDto_summary d,
      MailActivityPlanTemplate_note := UpdateMailActivityPlanTemplateDto_note d,
      MailActivityPlanTemplate_delay_count := UpdateMailActivityPlanTemplateDto_delay_count d,
      MailActivityPlanTemplate_delay_unit := UpdateMailActivityPlanTemplateDto_delay_unit d,
      MailActivityPlanTemplate_user_id := UpdateMailActivityPlanTemplateDto_user_id d\<rparr>"

definition MailActivityPlanTemplate_to_value :: "encoders \<Rightarrow> MailActivityPlanTemplate \<Rightarrow> json" where
  "MailActivityPlanTemplate_to_value E e = JObject
     [(''id'', en_uuid E (MailActivityPlanTemplate_id e)),
      (''plan_id'', en_uuid E (MailActivityPlanTemplate_plan_id e)),
      (''activity_type_id'', en_uuid E (MailActivityPlanTemplate_activity_type_id e)),
      (''summary'', jopt JString (MailActivityPlanTemplate_summary e)),
      (''note'', jopt JString (MailActivityPlanTemplate_note e)),
      (''delay_count'', jopt JNumber (MailActivityPlanTemplate_delay_count e)),
      (''delay_unit'', jopt (\<lambda>x. JString (MailActivityDelayUnit_show x)) (MailActivityPlanTemplate_delay_unit e)),
      (''user_id'', jopt (en_uuid E) (MailActivityPlanTemplate_user_id e)),
      (''metadata'', audit_to_value E (MailActivityPlanTemplate_metadata e))]"

definition MailActivityPlanTemplate_row_rules :: "'v row_rule \<Rightarrow> encoders \<Rightarrow> MailActivityPlanTemplate write_ctx \<Rightarrow> guard_outcome" where
  "MailActivityPlanTemplate_row_rules R E ctx = row_guard (\<lambda>e. Some (MailActivityPlanTemplate_to_value E e)) (\<lambda>create update old row.
      required_rule R ''plan_id'' create update old row @
      required_rule R ''activity_type_id'' create update old row) ctx"

lemma MailActivityPlanTemplate_apply_update_reach:
  "(\<exists>d. MailActivityPlanTemplate_apply_update e d = e') \<longleftrightarrow>
   MailActivityPlanTemplate_id e' = MailActivityPlanTemplate_id e \<and> MailActivityPlanTemplate_metadata e' = MailActivityPlanTemplate_metadata e"
proof
  assume "MailActivityPlanTemplate_id e' = MailActivityPlanTemplate_id e \<and> MailActivityPlanTemplate_metadata e' = MailActivityPlanTemplate_metadata e"
  then have "MailActivityPlanTemplate_apply_update e \<lparr>UpdateMailActivityPlanTemplateDto_plan_id = MailActivityPlanTemplate_plan_id e',
      UpdateMailActivityPlanTemplateDto_activity_type_id = MailActivityPlanTemplate_activity_type_id e',
      UpdateMailActivityPlanTemplateDto_summary = MailActivityPlanTemplate_summary e',
      UpdateMailActivityPlanTemplateDto_note = MailActivityPlanTemplate_note e',
      UpdateMailActivityPlanTemplateDto_delay_count = MailActivityPlanTemplate_delay_count e',
      UpdateMailActivityPlanTemplateDto_delay_unit = MailActivityPlanTemplate_delay_unit e',
      UpdateMailActivityPlanTemplateDto_user_id = MailActivityPlanTemplate_user_id e'\<rparr> = e'"
    by (cases e; cases e') (simp add: MailActivityPlanTemplate_apply_update_def)
  then show "\<exists>d. MailActivityPlanTemplate_apply_update e d = e'" by blast
qed (auto simp: MailActivityPlanTemplate_apply_update_def)

lemma MailActivityPlanTemplate_response_eq: "MailActivityPlanTemplate_response e = MailActivityPlanTemplate_response e' \<longleftrightarrow> e = e'"
  by (cases e; cases e') (simp add: MailActivityPlanTemplate_response_def)

section \<open>MailActivityType\<close>

record CreateMailActivityTypeDto =
  CreateMailActivityTypeDto_name :: string
  CreateMailActivityTypeDto_summary :: "string option"
  CreateMailActivityTypeDto_note :: "string option"
  CreateMailActivityTypeDto_category :: "MailActivityCategory option"
  CreateMailActivityTypeDto_delay_count :: int
  CreateMailActivityTypeDto_delay_unit :: MailActivityDelayUnit
  CreateMailActivityTypeDto_delay_from :: MailActivityDelayFrom
  CreateMailActivityTypeDto_default_user_id :: "uuid option"
  CreateMailActivityTypeDto_default_note :: "string option"
  CreateMailActivityTypeDto_icon :: "string option"
  CreateMailActivityTypeDto_res_model :: "string option"
  CreateMailActivityTypeDto_res_model_id :: "uuid option"
  CreateMailActivityTypeDto_active :: bool

record UpdateMailActivityTypeDto =
  UpdateMailActivityTypeDto_name :: string
  UpdateMailActivityTypeDto_summary :: "string option"
  UpdateMailActivityTypeDto_note :: "string option"
  UpdateMailActivityTypeDto_category :: "MailActivityCategory option"
  UpdateMailActivityTypeDto_chaining_type :: MailActivityChainingType
  UpdateMailActivityTypeDto_delay_count :: int
  UpdateMailActivityTypeDto_delay_unit :: MailActivityDelayUnit
  UpdateMailActivityTypeDto_delay_from :: MailActivityDelayFrom
  UpdateMailActivityTypeDto_default_user_id :: "uuid option"
  UpdateMailActivityTypeDto_default_note :: "string option"
  UpdateMailActivityTypeDto_icon :: "string option"
  UpdateMailActivityTypeDto_res_model :: "string option"
  UpdateMailActivityTypeDto_res_model_id :: "uuid option"
  UpdateMailActivityTypeDto_active :: bool

record MailActivityTypeResponseDto =
  MailActivityTypeResponseDto_id :: uuid
  MailActivityTypeResponseDto_name :: string
  MailActivityTypeResponseDto_summary :: "string option"
  MailActivityTypeResponseDto_note :: "string option"
  MailActivityTypeResponseDto_category :: "MailActivityCategory option"
  MailActivityTypeResponseDto_chaining_type :: MailActivityChainingType
  MailActivityTypeResponseDto_delay_count :: int
  MailActivityTypeResponseDto_delay_unit :: MailActivityDelayUnit
  MailActivityTypeResponseDto_delay_from :: MailActivityDelayFrom
  MailActivityTypeResponseDto_default_user_id :: "uuid option"
  MailActivityTypeResponseDto_default_note :: "string option"
  MailActivityTypeResponseDto_icon :: "string option"
  MailActivityTypeResponseDto_res_model :: "string option"
  MailActivityTypeResponseDto_res_model_id :: "uuid option"
  MailActivityTypeResponseDto_active :: bool
  MailActivityTypeResponseDto_metadata :: AuditMetadata

definition MailActivityType_response :: "MailActivityType \<Rightarrow> MailActivityTypeResponseDto" where
  "MailActivityType_response e =
     \<lparr>MailActivityTypeResponseDto_id = MailActivityType_id e,
      MailActivityTypeResponseDto_name = MailActivityType_name e,
      MailActivityTypeResponseDto_summary = MailActivityType_summary e,
      MailActivityTypeResponseDto_note = MailActivityType_note e,
      MailActivityTypeResponseDto_category = MailActivityType_category e,
      MailActivityTypeResponseDto_chaining_type = MailActivityType_chaining_type e,
      MailActivityTypeResponseDto_delay_count = MailActivityType_delay_count e,
      MailActivityTypeResponseDto_delay_unit = MailActivityType_delay_unit e,
      MailActivityTypeResponseDto_delay_from = MailActivityType_delay_from e,
      MailActivityTypeResponseDto_default_user_id = MailActivityType_default_user_id e,
      MailActivityTypeResponseDto_default_note = MailActivityType_default_note e,
      MailActivityTypeResponseDto_icon = MailActivityType_icon e,
      MailActivityTypeResponseDto_res_model = MailActivityType_res_model e,
      MailActivityTypeResponseDto_res_model_id = MailActivityType_res_model_id e,
      MailActivityTypeResponseDto_active = MailActivityType_active e,
      MailActivityTypeResponseDto_metadata = MailActivityType_metadata e\<rparr>"

definition MailActivityType_from_create :: "CreateMailActivityTypeDto \<Rightarrow> uuid \<Rightarrow> MailActivityType" where
  "MailActivityType_from_create d i =
     \<lparr>MailActivityType_id = i, MailActivityType_name = CreateMailActivityTypeDto_name d,
      MailActivityType_summary = CreateMailActivityTypeDto_summary d,
      MailActivityType_note = CreateMailActivityTypeDto_note d,
      MailActivityType_category = CreateMailActivityTypeDto_category d,
      MailActivityType_chaining_type = MailActivityChainingType.Suggest,
      MailActivityType_delay_count = CreateMailActivityTypeDto_delay_count d,
      MailActivityType_delay_unit = CreateMailActivityTypeDto_delay_unit d,
      MailActivityType_delay_from = CreateMailActivityTypeDto_delay_from d,
      MailActivityType_default_user_id = CreateMailActivityTypeDto_default_user_id d,
      MailActivityType_default_note = CreateMailActivityTypeDto_default_note d,
      MailActivityType_icon = CreateMailActivityTypeDto_icon d,
      MailActivityType_res_model = CreateMailActivityTypeDto_res_model d,
      MailActivityType_res_model_id = CreateMailActivityTypeDto_res_model_id d,
      MailActivityType_active = CreateMailActivityTypeDto_active d, MailActivityType_metadata = audit_default\<rparr>"

definition MailActivityType_apply_update :: "MailActivityType \<Rightarrow> UpdateMailActivityTypeDto \<Rightarrow> MailActivityType" where
  "MailActivityType_apply_update e d =
     e\<lparr>MailActivityType_name := UpdateMailActivityTypeDto_name d,
      MailActivityType_summary := UpdateMailActivityTypeDto_summary d,
      MailActivityType_note := UpdateMailActivityTypeDto_note d,
      MailActivityType_category := UpdateMailActivityTypeDto_category d,
      MailActivityType_chaining_type := UpdateMailActivityTypeDto_chaining_type d,
      MailActivityType_delay_count := UpdateMailActivityTypeDto_delay_count d,
      MailActivityType_delay_unit := UpdateMailActivityTypeDto_delay_unit d,
      MailActivityType_delay_from := UpdateMailActivityTypeDto_delay_from d,
      MailActivityType_default_user_id := UpdateMailActivityTypeDto_default_user_id d,
      MailActivityType_default_note := UpdateMailActivityTypeDto_default_note d,
      MailActivityType_icon := UpdateMailActivityTypeDto_icon d,
      MailActivityType_res_model := UpdateMailActivityTypeDto_res_model d,
      MailActivityType_res_model_id := UpdateMailActivityTypeDto_res_model_id d,
      MailActivityType_active := UpdateMailActivityTypeDto_active d\<rparr>"

definition MailActivityType_to_value :: "encoders \<Rightarrow> MailActivityType \<Rightarrow> json" where
  "MailActivityType_to_value E e = JObject
     [(''id'', en_uuid E (MailActivityType_id e)), (''name'', JString (MailActivityType_name e)),
      (''summary'', jopt JString (MailActivityType_summary e)), (''note'', jopt JString (MailActivityType_note e)),
      (''category'', jopt (\<lambda>x. JString (MailActivityCategory_show x)) (MailActivityType_category e)),
      (''chaining_type'', (\<lambda>x. JString (MailActivityChainingType_show x)) (MailActivityType_chaining_type e)),
      (''delay_count'', JNumber (MailActivityType_delay_count e)),
      (''delay_unit'', (\<lambda>x. JString (MailActivityDelayUnit_show x)) (MailActivityType_delay_unit e)),
      (''delay_from'', (\<lambda>x. JString (MailActivityDelayFrom_show x)) (MailActivityType_delay_from e)),
      (''default_user_id'', jopt (en_uuid E) (MailActivityType_default_user_id e)),
      (''default_note'', jopt JString (MailActivityType_default_note e)),
      (''icon'', jopt JString (MailActivityType_icon e)),
      (''res_model'', jopt JString (MailActivityType_res_model e)),
      (''res_model_id'', jopt (en_uuid E) (MailActivityType_res_model_id e)),
      (''active'', JBool (MailActivityType_active e)), (''metadata'', audit_to_value E (MailActivityType_metadata e))]"

definition MailActivityType_row_rules :: "'v row_rule \<Rightarrow> encoders \<Rightarrow> MailActivityType write_ctx \<Rightarrow> guard_outcome" where
  "MailActivityType_row_rules R E ctx = row_guard (\<lambda>e. Some (MailActivityType_to_value E e)) (\<lambda>create update old row.
      verbs_only_rule R ''chaining_type'' (wc_transition ctx) create update old row @
      required_rule R ''name'' create update old row) ctx"

lemma MailActivityType_apply_update_reach:
  "(\<exists>d. MailActivityType_apply_update e d = e') \<longleftrightarrow>
   MailActivityType_id e' = MailActivityType_id e \<and> MailActivityType_metadata e' = MailActivityType_metadata e"
proof
  assume "MailActivityType_id e' = MailActivityType_id e \<and> MailActivityType_metadata e' = MailActivityType_metadata e"
  then have "MailActivityType_apply_update e \<lparr>UpdateMailActivityTypeDto_name = MailActivityType_name e',
      UpdateMailActivityTypeDto_summary = MailActivityType_summary e',
      UpdateMailActivityTypeDto_note = MailActivityType_note e',
      UpdateMailActivityTypeDto_category = MailActivityType_category e',
      UpdateMailActivityTypeDto_chaining_type = MailActivityType_chaining_type e',
      UpdateMailActivityTypeDto_delay_count = MailActivityType_delay_count e',
      UpdateMailActivityTypeDto_delay_unit = MailActivityType_delay_unit e',
      UpdateMailActivityTypeDto_delay_from = MailActivityType_delay_from e',
      UpdateMailActivityTypeDto_default_user_id = MailActivityType_default_user_id e',
      UpdateMailActivityTypeDto_default_note = MailActivityType_default_note e',
      UpdateMailActivityTypeDto_icon = MailActivityType_icon e',
      UpdateMailActivityTypeDto_res_model = MailActivityType_res_model e',
      UpdateMailActivityTypeDto_res_model_id = MailActivityType_res_model_id e',
      UpdateMailActivityTypeDto_active = MailActivityType_active e'\<rparr> = e'"
    by (cases e; cases e') (simp add: MailActivityType_apply_update_def)
  then show "\<exists>d. MailActivityType_apply_update e d = e'" by blast
qed (auto simp: MailActivityType_apply_update_def)

lemma MailActivityType_response_eq: "MailActivityType_response e = MailActivityType_response e' \<longleftrightarrow> e = e'"
  by (cases e; cases e') (simp add: MailActivityType_response_def)

lemma MailActivityType_state_guarded:
  assumes "compares_field R" and "wc_kind ctx = WriteKind.Update" "wc_before ctx = Some a" "wc_after ctx = Some b"
    and "wc_transition ctx = None" and "go_refuse (MailActivityType_row_rules R E ctx) = []"
  shows "MailActivityType_chaining_type b = MailActivityType_chaining_type a"
  using assms(6) unfolding MailActivityType_row_rules_def
  by (simp add: row_guard_update [OF assms(2-4) refl refl] assms(5) verbs_only_update [OF assms(1)] json_field_def MailActivityType_to_value_def
      mail_activity_chaining_type.label_inj)

section \<open>MailMessageSchedule\<close>

record CreateMailMessageScheduleDto =
  CreateMailMessageScheduleDto_mail_message_id :: uuid
  CreateMailMessageScheduleDto_notification_parameters :: "string option"
  CreateMailMessageScheduleDto_scheduled_datetime :: time

record UpdateMailMessageScheduleDto =
  UpdateMailMessageScheduleDto_mail_message_id :: uuid
  UpdateMailMessageScheduleDto_notification_parameters :: "string option"
  UpdateMailMessageScheduleDto_scheduled_datetime :: time

record MailMessageScheduleResponseDto =
  MailMessageScheduleResponseDto_id :: uuid
  MailMessageScheduleResponseDto_mail_message_id :: uuid
  MailMessageScheduleResponseDto_notification_parameters :: "string option"
  MailMessageScheduleResponseDto_scheduled_datetime :: time
  MailMessageScheduleResponseDto_metadata :: AuditMetadata

definition MailMessageSchedule_response :: "MailMessageSchedule \<Rightarrow> MailMessageScheduleResponseDto" where
  "MailMessageSchedule_response e =
     \<lparr>MailMessageScheduleResponseDto_id = MailMessageSchedule_id e,
      MailMessageScheduleResponseDto_mail_message_id = MailMessageSchedule_mail_message_id e,
      MailMessageScheduleResponseDto_notification_parameters = MailMessageSchedule_notification_parameters e,
      MailMessageScheduleResponseDto_scheduled_datetime = MailMessageSchedule_scheduled_datetime e,
      MailMessageScheduleResponseDto_metadata = MailMessageSchedule_metadata e\<rparr>"

definition MailMessageSchedule_from_create :: "CreateMailMessageScheduleDto \<Rightarrow> uuid \<Rightarrow> MailMessageSchedule" where
  "MailMessageSchedule_from_create d i =
     \<lparr>MailMessageSchedule_id = i,
      MailMessageSchedule_mail_message_id = CreateMailMessageScheduleDto_mail_message_id d,
      MailMessageSchedule_notification_parameters = CreateMailMessageScheduleDto_notification_parameters d,
      MailMessageSchedule_scheduled_datetime = CreateMailMessageScheduleDto_scheduled_datetime d,
      MailMessageSchedule_metadata = audit_default\<rparr>"

definition MailMessageSchedule_apply_update :: "MailMessageSchedule \<Rightarrow> UpdateMailMessageScheduleDto \<Rightarrow> MailMessageSchedule" where
  "MailMessageSchedule_apply_update e d =
     e\<lparr>MailMessageSchedule_mail_message_id := UpdateMailMessageScheduleDto_mail_message_id d,
      MailMessageSchedule_notification_parameters := UpdateMailMessageScheduleDto_notification_parameters d,
      MailMessageSchedule_scheduled_datetime := UpdateMailMessageScheduleDto_scheduled_datetime d\<rparr>"

definition MailMessageSchedule_to_value :: "encoders \<Rightarrow> MailMessageSchedule \<Rightarrow> json" where
  "MailMessageSchedule_to_value E e = JObject
     [(''id'', en_uuid E (MailMessageSchedule_id e)),
      (''mail_message_id'', en_uuid E (MailMessageSchedule_mail_message_id e)),
      (''notification_parameters'', jopt JString (MailMessageSchedule_notification_parameters e)),
      (''scheduled_datetime'', en_time E (MailMessageSchedule_scheduled_datetime e)),
      (''metadata'', audit_to_value E (MailMessageSchedule_metadata e))]"

definition MailMessageSchedule_row_rules :: "'v row_rule \<Rightarrow> encoders \<Rightarrow> MailMessageSchedule write_ctx \<Rightarrow> guard_outcome" where
  "MailMessageSchedule_row_rules R E ctx = row_guard (\<lambda>e. Some (MailMessageSchedule_to_value E e)) (\<lambda>create update old row.
      required_rule R ''mail_message_id'' create update old row) ctx"

lemma MailMessageSchedule_apply_update_reach:
  "(\<exists>d. MailMessageSchedule_apply_update e d = e') \<longleftrightarrow>
   MailMessageSchedule_id e' = MailMessageSchedule_id e \<and> MailMessageSchedule_metadata e' = MailMessageSchedule_metadata e"
proof
  assume "MailMessageSchedule_id e' = MailMessageSchedule_id e \<and> MailMessageSchedule_metadata e' = MailMessageSchedule_metadata e"
  then have "MailMessageSchedule_apply_update e \<lparr>UpdateMailMessageScheduleDto_mail_message_id = MailMessageSchedule_mail_message_id e',
      UpdateMailMessageScheduleDto_notification_parameters = MailMessageSchedule_notification_parameters e',
      UpdateMailMessageScheduleDto_scheduled_datetime = MailMessageSchedule_scheduled_datetime e'\<rparr> = e'"
    by (cases e; cases e') (simp add: MailMessageSchedule_apply_update_def)
  then show "\<exists>d. MailMessageSchedule_apply_update e d = e'" by blast
qed (auto simp: MailMessageSchedule_apply_update_def)

lemma MailMessageSchedule_response_eq: "MailMessageSchedule_response e = MailMessageSchedule_response e' \<longleftrightarrow> e = e'"
  by (cases e; cases e') (simp add: MailMessageSchedule_response_def)

section \<open>MailScheduledMessage\<close>

record CreateMailScheduledMessageDto =
  CreateMailScheduledMessageDto_subject :: "string option"
  CreateMailScheduledMessageDto_body :: string
  CreateMailScheduledMessageDto_scheduled_date :: time
  CreateMailScheduledMessageDto_composition_comment_option :: "string option"
  CreateMailScheduledMessageDto_model :: string
  CreateMailScheduledMessageDto_res_id :: uuid
  CreateMailScheduledMessageDto_author_party_id :: uuid
  CreateMailScheduledMessageDto_recipient_party_ids :: "json option"
  CreateMailScheduledMessageDto_is_note :: bool
  CreateMailScheduledMessageDto_notification_parameters :: "string option"
  CreateMailScheduledMessageDto_send_context :: "json option"

record UpdateMailScheduledMessageDto =
  UpdateMailScheduledMessageDto_subject :: "string option"
  UpdateMailScheduledMessageDto_body :: string
  UpdateMailScheduledMessageDto_scheduled_date :: time
  UpdateMailScheduledMessageDto_composition_comment_option :: "string option"
  UpdateMailScheduledMessageDto_model :: string
  UpdateMailScheduledMessageDto_res_id :: uuid
  UpdateMailScheduledMessageDto_author_party_id :: uuid
  UpdateMailScheduledMessageDto_recipient_party_ids :: "json option"
  UpdateMailScheduledMessageDto_is_note :: bool
  UpdateMailScheduledMessageDto_notification_parameters :: "string option"
  UpdateMailScheduledMessageDto_send_context :: "json option"

record MailScheduledMessageResponseDto =
  MailScheduledMessageResponseDto_id :: uuid
  MailScheduledMessageResponseDto_subject :: "string option"
  MailScheduledMessageResponseDto_body :: string
  MailScheduledMessageResponseDto_scheduled_date :: time
  MailScheduledMessageResponseDto_composition_comment_option :: "string option"
  MailScheduledMessageResponseDto_model :: string
  MailScheduledMessageResponseDto_res_id :: uuid
  MailScheduledMessageResponseDto_author_party_id :: uuid
  MailScheduledMessageResponseDto_recipient_party_ids :: "json option"
  MailScheduledMessageResponseDto_is_note :: bool
  MailScheduledMessageResponseDto_notification_parameters :: "string option"
  MailScheduledMessageResponseDto_send_context :: "json option"
  MailScheduledMessageResponseDto_metadata :: AuditMetadata

definition MailScheduledMessage_response :: "MailScheduledMessage \<Rightarrow> MailScheduledMessageResponseDto" where
  "MailScheduledMessage_response e =
     \<lparr>MailScheduledMessageResponseDto_id = MailScheduledMessage_id e,
      MailScheduledMessageResponseDto_subject = MailScheduledMessage_subject e,
      MailScheduledMessageResponseDto_body = MailScheduledMessage_body e,
      MailScheduledMessageResponseDto_scheduled_date = MailScheduledMessage_scheduled_date e,
      MailScheduledMessageResponseDto_composition_comment_option = MailScheduledMessage_composition_comment_option e,
      MailScheduledMessageResponseDto_model = MailScheduledMessage_model e,
      MailScheduledMessageResponseDto_res_id = MailScheduledMessage_res_id e,
      MailScheduledMessageResponseDto_author_party_id = MailScheduledMessage_author_party_id e,
      MailScheduledMessageResponseDto_recipient_party_ids = MailScheduledMessage_recipient_party_ids e,
      MailScheduledMessageResponseDto_is_note = MailScheduledMessage_is_note e,
      MailScheduledMessageResponseDto_notification_parameters = MailScheduledMessage_notification_parameters e,
      MailScheduledMessageResponseDto_send_context = MailScheduledMessage_send_context e,
      MailScheduledMessageResponseDto_metadata = MailScheduledMessage_metadata e\<rparr>"

definition MailScheduledMessage_from_create :: "CreateMailScheduledMessageDto \<Rightarrow> uuid \<Rightarrow> MailScheduledMessage" where
  "MailScheduledMessage_from_create d i =
     \<lparr>MailScheduledMessage_id = i, MailScheduledMessage_subject = CreateMailScheduledMessageDto_subject d,
      MailScheduledMessage_body = CreateMailScheduledMessageDto_body d,
      MailScheduledMessage_scheduled_date = CreateMailScheduledMessageDto_scheduled_date d,
      MailScheduledMessage_composition_comment_option = CreateMailScheduledMessageDto_composition_comment_option d,
      MailScheduledMessage_model = CreateMailScheduledMessageDto_model d,
      MailScheduledMessage_res_id = CreateMailScheduledMessageDto_res_id d,
      MailScheduledMessage_author_party_id = CreateMailScheduledMessageDto_author_party_id d,
      MailScheduledMessage_recipient_party_ids = CreateMailScheduledMessageDto_recipient_party_ids d,
      MailScheduledMessage_is_note = CreateMailScheduledMessageDto_is_note d,
      MailScheduledMessage_notification_parameters = CreateMailScheduledMessageDto_notification_parameters d,
      MailScheduledMessage_send_context = CreateMailScheduledMessageDto_send_context d,
      MailScheduledMessage_metadata = audit_default\<rparr>"

definition MailScheduledMessage_apply_update :: "MailScheduledMessage \<Rightarrow> UpdateMailScheduledMessageDto \<Rightarrow> MailScheduledMessage" where
  "MailScheduledMessage_apply_update e d =
     e\<lparr>MailScheduledMessage_subject := UpdateMailScheduledMessageDto_subject d,
      MailScheduledMessage_body := UpdateMailScheduledMessageDto_body d,
      MailScheduledMessage_scheduled_date := UpdateMailScheduledMessageDto_scheduled_date d,
      MailScheduledMessage_composition_comment_option := UpdateMailScheduledMessageDto_composition_comment_option d,
      MailScheduledMessage_model := UpdateMailScheduledMessageDto_model d,
      MailScheduledMessage_res_id := UpdateMailScheduledMessageDto_res_id d,
      MailScheduledMessage_author_party_id := UpdateMailScheduledMessageDto_author_party_id d,
      MailScheduledMessage_recipient_party_ids := UpdateMailScheduledMessageDto_recipient_party_ids d,
      MailScheduledMessage_is_note := UpdateMailScheduledMessageDto_is_note d,
      MailScheduledMessage_notification_parameters := UpdateMailScheduledMessageDto_notification_parameters d,
      MailScheduledMessage_send_context := UpdateMailScheduledMessageDto_send_context d\<rparr>"

definition MailScheduledMessage_to_value :: "encoders \<Rightarrow> MailScheduledMessage \<Rightarrow> json" where
  "MailScheduledMessage_to_value E e = JObject
     [(''id'', en_uuid E (MailScheduledMessage_id e)), (''subject'', jopt JString (MailScheduledMessage_subject e)),
      (''body'', JString (MailScheduledMessage_body e)),
      (''scheduled_date'', en_time E (MailScheduledMessage_scheduled_date e)),
      (''composition_comment_option'', jopt JString (MailScheduledMessage_composition_comment_option e)),
      (''model'', JString (MailScheduledMessage_model e)), (''res_id'', en_uuid E (MailScheduledMessage_res_id e)),
      (''author_party_id'', en_uuid E (MailScheduledMessage_author_party_id e)),
      (''recipient_party_ids'', jopt id (MailScheduledMessage_recipient_party_ids e)),
      (''is_note'', JBool (MailScheduledMessage_is_note e)),
      (''notification_parameters'', jopt JString (MailScheduledMessage_notification_parameters e)),
      (''send_context'', jopt id (MailScheduledMessage_send_context e)),
      (''metadata'', audit_to_value E (MailScheduledMessage_metadata e))]"

definition MailScheduledMessage_row_rules :: "'v row_rule \<Rightarrow> encoders \<Rightarrow> MailScheduledMessage write_ctx \<Rightarrow> guard_outcome" where
  "MailScheduledMessage_row_rules R E ctx = row_guard (\<lambda>e. Some (MailScheduledMessage_to_value E e)) (\<lambda>create update old row.
      required_rule R ''body'' create update old row @
      required_rule R ''model'' create update old row @
      required_rule R ''res_id'' create update old row @
      required_rule R ''author_party_id'' create update old row) ctx"

lemma MailScheduledMessage_apply_update_reach:
  "(\<exists>d. MailScheduledMessage_apply_update e d = e') \<longleftrightarrow>
   MailScheduledMessage_id e' = MailScheduledMessage_id e \<and> MailScheduledMessage_metadata e' = MailScheduledMessage_metadata e"
proof
  assume "MailScheduledMessage_id e' = MailScheduledMessage_id e \<and> MailScheduledMessage_metadata e' = MailScheduledMessage_metadata e"
  then have "MailScheduledMessage_apply_update e \<lparr>UpdateMailScheduledMessageDto_subject = MailScheduledMessage_subject e',
      UpdateMailScheduledMessageDto_body = MailScheduledMessage_body e',
      UpdateMailScheduledMessageDto_scheduled_date = MailScheduledMessage_scheduled_date e',
      UpdateMailScheduledMessageDto_composition_comment_option = MailScheduledMessage_composition_comment_option e',
      UpdateMailScheduledMessageDto_model = MailScheduledMessage_model e',
      UpdateMailScheduledMessageDto_res_id = MailScheduledMessage_res_id e',
      UpdateMailScheduledMessageDto_author_party_id = MailScheduledMessage_author_party_id e',
      UpdateMailScheduledMessageDto_recipient_party_ids = MailScheduledMessage_recipient_party_ids e',
      UpdateMailScheduledMessageDto_is_note = MailScheduledMessage_is_note e',
      UpdateMailScheduledMessageDto_notification_parameters = MailScheduledMessage_notification_parameters e',
      UpdateMailScheduledMessageDto_send_context = MailScheduledMessage_send_context e'\<rparr> = e'"
    by (cases e; cases e') (simp add: MailScheduledMessage_apply_update_def)
  then show "\<exists>d. MailScheduledMessage_apply_update e d = e'" by blast
qed (auto simp: MailScheduledMessage_apply_update_def)

lemma MailScheduledMessage_response_eq: "MailScheduledMessage_response e = MailScheduledMessage_response e' \<longleftrightarrow> e = e'"
  by (cases e; cases e') (simp add: MailScheduledMessage_response_def)

end
