(* ===== verification/Transitions.thy ===== *)
theory Transitions
  imports RowsChannels RowsMessages RowsQueues RowsActivities
begin

text \<open>
  The generated verbs of the workflow machines, \<open>POST /<entities>/:id/transitions/<verb>\<close>: the
  \<open>*_transition\<close> handlers of \<open>src/presentation/http/*_handler.rs\<close>.  All are one body (\<open>run_verb\<close>) with the literals
  of the verb (\<open>verb\<close>).  The service under a handler is the framework's \<open>GenericCrudService\<close>: its \<open>get_by_id\<close> and its
  \<open>partial_update\<close> under \<open>as_transition\<close> are the parameter \<open>crud_service\<close>, over the framework's store \<open>'w\<close>.
  A reply stands for its status and fixed message; the permissions are those of the \<open>AuthContext\<close> of the request.
\<close>

section \<open>The body of a verb\<close>

record 't verb =
  verb_name :: string
  verb_permission :: string
  verb_step :: 't
  verb_field :: string
  verb_label :: string

record ('w, 'e) crud_service =
  cs_get_by_id :: "string \<Rightarrow> 'w \<Rightarrow> string + 'e option"
  cs_as_transition :: "string \<Rightarrow> string \<Rightarrow> (string \<times> json) list \<Rightarrow> 'w \<Rightarrow> (string + 'e option) \<times> 'w"

datatype 'r verb_reply =
    Moved 'r
  | NoSuchRow
  | ServiceFailed string
  | NeedsCaller
  | NeedsPermission string
  | NotAState
  | NotAllowed

fun verb_status :: "'r verb_reply \<Rightarrow> nat" where
  "verb_status (Moved r) = 200"
| "verb_status NoSuchRow = 404"
| "verb_status (ServiceFailed m) = 500"
| "verb_status NeedsCaller = 401"
| "verb_status (NeedsPermission m) = 403"
| "verb_status NotAState = 409"
| "verb_status NotAllowed = 400"

text \<open>The closure \<open>granted\<close>: segments are compared by position, \<open>*\<close> matches any segment, and a permission that ends
  in \<open>*\<close> covers every longer one.\<close>

definition granted :: "string list \<Rightarrow> string \<Rightarrow> bool" where
  "granted permissions required =
     list_ex (\<lambda>p. let held = split_char (CHR '':'') p; want = split_char (CHR '':'') required in
       list_all (\<lambda>(i, h). h = ''*'' \<or> (i < length want \<and> want ! i = h)) (enumerate 0 held) \<and>
       (length held = length want \<or> length held < length want \<and> held \<noteq> [] \<and> last held = ''*'')) permissions"

definition verb_gate ::
  "(string \<Rightarrow> StateMachineError + 's) \<Rightarrow> ('s \<Rightarrow> 't \<Rightarrow> bool) \<Rightarrow> 't verb \<Rightarrow> string list option \<Rightarrow> string \<Rightarrow> 'r verb_reply option" where
  "verb_gate parse can v auth state_text =
     (case auth of
        None \<Rightarrow> Some NeedsCaller
      | Some permissions \<Rightarrow>
          if \<not> granted permissions (verb_permission v)
          then Some (NeedsPermission (verb_name v @ '' needs '' @ verb_permission v))
          else case parse state_text of
                 Inl _ \<Rightarrow> Some NotAState
               | Inr s \<Rightarrow> if can s (verb_step v) then None else Some NotAllowed)"

definition verb_write ::
  "('e \<Rightarrow> 'r) \<Rightarrow> 't verb \<Rightarrow> ('w, 'e) crud_service \<Rightarrow> string \<Rightarrow> 'w \<Rightarrow> 'r verb_reply \<times> 'w" where
  "verb_write response v svc i w =
     (case cs_as_transition svc (verb_name v) i [(verb_field v, JString (verb_label v))] w of
        (Inr (Some e), w') \<Rightarrow> (Moved (response e), w')
      | (Inr None, w') \<Rightarrow> (NoSuchRow, w')
      | (Inl m, w') \<Rightarrow> (ServiceFailed m, w'))"

definition run_verb ::
  "(string \<Rightarrow> StateMachineError + 's) \<Rightarrow> ('s \<Rightarrow> 't \<Rightarrow> bool) \<Rightarrow> ('e \<Rightarrow> string) \<Rightarrow> ('e \<Rightarrow> 'r) \<Rightarrow>
   't verb \<Rightarrow> ('w, 'e) crud_service \<Rightarrow> string list option \<Rightarrow> string \<Rightarrow> 'w \<Rightarrow> 'r verb_reply \<times> 'w" where
  "run_verb parse can state_text response v svc auth i w =
     (case cs_get_by_id svc i w of
        Inl m \<Rightarrow> (ServiceFailed m, w)
      | Inr None \<Rightarrow> (NoSuchRow, w)
      | Inr (Some e) \<Rightarrow>
          (case verb_gate parse can v auth (state_text e) of
             Some r \<Rightarrow> (r, w)
           | None \<Rightarrow> verb_write response v svc i w))"

section \<open>Permissions by segments\<close>

text \<open>The reference: a recursion over the segments.\<close>

fun covers :: "string list \<Rightarrow> string list \<Rightarrow> bool" where
  "covers [] [] = True"
| "covers [h] (x # xs) = (h = ''*'' \<or> h = x \<and> xs = [])"
| "covers (h # hs) (x # xs) = ((h = ''*'' \<or> h = x) \<and> covers hs xs)"
| "covers _ _ = False"

lemma list_all_enumerate: "list_all (\<lambda>(i, h). Q i h) (enumerate 0 xs) \<longleftrightarrow> (\<forall>i < length xs. Q i (xs ! i))"
  by (auto simp: list_all_iff in_set_enumerate_eq)

lemma covers_iff:
  "held \<noteq> [] \<Longrightarrow> want \<noteq> [] \<Longrightarrow>
   covers held want \<longleftrightarrow>
   (\<forall>i < length held. held ! i = ''*'' \<or> (i < length want \<and> want ! i = held ! i)) \<and>
   (length held = length want \<or> length held < length want \<and> last held = ''*'')"
proof (induction held want rule: covers.induct)
  case (2 h x xs)
  then show ?case by (cases xs) auto
next
  case (3 h h' hs x xs)
  then show ?case by (cases xs) (auto simp: All_less_Suc2)
qed auto

lemma split_char_ne [simp]: "split_char d s \<noteq> []"
  by (cases s) (auto split: list.split)

lemma granted_covers:
  "granted ps required \<longleftrightarrow> (\<exists>p \<in> set ps. covers (split_char (CHR '':'') p) (split_char (CHR '':'') required))"
  by (simp add: granted_def Let_def list_ex_iff list_all_enumerate covers_iff)

section \<open>The contract of a machine's verbs\<close>

text \<open>
  \<open>partial_update\<close> as the handlers rely on it: it fails and leaves the store, or it stores and returns a row whose
  JSON has the given field replaced; the audit metadata may move.
\<close>

definition merged :: "('e \<Rightarrow> json) \<Rightarrow> string \<Rightarrow> json \<Rightarrow> 'e \<Rightarrow> 'e \<Rightarrow> bool" where
  "merged to_value k x e e' \<longleftrightarrow>
     (\<forall>k'. k' \<noteq> ''metadata'' \<longrightarrow> json_field (to_value e') k' = (if k' = k then Some x else json_field (to_value e) k'))"

definition merges :: "('e \<Rightarrow> json) \<Rightarrow> (string \<Rightarrow> 'e option, 'e) crud_service \<Rightarrow> bool" where
  "merges to_value svc \<longleftrightarrow>
     (\<forall>i w. cs_get_by_id svc i w = Inr (w i)) \<and>
     (\<forall>v i k x w r w'. cs_as_transition svc v i [(k, x)] w = (r, w') \<longrightarrow>
        (case r of Inl m \<Rightarrow> w' = w | Inr None \<Rightarrow> w i = None \<and> w' = w
         | Inr (Some e') \<Rightarrow> \<exists>e. w i = Some e \<and> w' = w(i \<mapsto> e') \<and> merged to_value k x e e'))"

lemma verb_write_merges:
  assumes "merges to_value svc" and "verb_write response v svc i w = (Moved r, w')"
  shows "\<exists>e e'. w i = Some e \<and> w' = w(i \<mapsto> e') \<and> r = response e' \<and>
    merged to_value (verb_field v) (JString (verb_label v)) e e'"
proof -
  from assms(2) obtain e' where t: "cs_as_transition svc (verb_name v) i [(verb_field v, JString (verb_label v))] w = (Inr (Some e'), w')"
    and r: "r = response e'"
    by (auto simp: verb_write_def split: prod.splits sum.splits option.splits)
  from assms(1) t have "\<exists>e. w i = Some e \<and> w' = w(i \<mapsto> e') \<and> merged to_value (verb_field v) (JString (verb_label v)) e e'"
    unfolding merges_def by fastforce
  with r show ?thesis by auto
qed

locale verbs =
  fixes parse :: "string \<Rightarrow> StateMachineError + 's"
    and can :: "'s \<Rightarrow> 't \<Rightarrow> bool"
    and state_text :: "'e \<Rightarrow> string"
    and response :: "'e \<Rightarrow> 'r"
    and show_s :: "'s \<Rightarrow> string"
    and target :: "'t \<Rightarrow> 's"
    and show_t :: "'t \<Rightarrow> string"
    and to_value :: "'e \<Rightarrow> json"
    and routes :: "(string \<times> 't verb) list"
    and entity :: string
  assumes parse_show: "parse (show_s s) = Inr s"
    and stored_state: "\<exists>s. state_text e = show_s s"
    and writes_target: "(p, v) \<in> set routes \<Longrightarrow>
          json_field (to_value e) (verb_field v) = Some (JString (verb_label v)) \<Longrightarrow>
          state_text e = show_s (target (verb_step v))"
    and not_audit: "(p, v) \<in> set routes \<Longrightarrow> verb_field v \<noteq> ''metadata''"
    and named: "(p, v) \<in> set routes \<Longrightarrow>
          verb_name v = show_t (verb_step v) \<and> verb_permission v = entity @ '':transition:'' @ verb_name v"
begin

lemma never_not_a_state: "verb_gate parse can v auth (state_text e) \<noteq> Some NotAState"
proof -
  obtain s where "state_text e = show_s s" using stored_state by blast
  then show ?thesis by (simp add: verb_gate_def parse_show split: option.split)
qed

text \<open>What a verb answers, whatever the service does: the gate in its order, then exactly one write.\<close>

lemma gated:
  assumes "(p, v) \<in> set routes" and "run_verb parse can state_text response v svc auth i w = (reply, w')"
  shows "case cs_get_by_id svc i w of
      Inl m \<Rightarrow> reply = ServiceFailed m \<and> w' = w
    | Inr None \<Rightarrow> reply = NoSuchRow \<and> w' = w
    | Inr (Some e) \<Rightarrow>
        (case auth of
           None \<Rightarrow> reply = NeedsCaller \<and> w' = w
         | Some ps \<Rightarrow> \<exists>s. state_text e = show_s s \<and>
             (if \<not> granted ps (entity @ '':transition:'' @ show_t (verb_step v))
              then reply = NeedsPermission (show_t (verb_step v) @ '' needs '' @ entity @ '':transition:'' @ show_t (verb_step v)) \<and> w' = w
              else if \<not> can s (verb_step v) then reply = NotAllowed \<and> w' = w
              else (reply, w') = verb_write response v svc i w))"
proof (cases "\<exists>e. cs_get_by_id svc i w = Inr (Some e)")
  case False
  with assms(2) show ?thesis by (auto simp: run_verb_def split: sum.splits option.splits)
next
  case True
  then obtain e where e: "cs_get_by_id svc i w = Inr (Some e)" by blast
  obtain s where s: "state_text e = show_s s" using stored_state by blast
  have n: "verb_name v = show_t (verb_step v)" "verb_permission v = entity @ '':transition:'' @ show_t (verb_step v)"
    using named [OF assms(1)] by simp_all
  show ?thesis
  proof (cases auth)
    case None
    with assms(2) e show ?thesis by (simp add: run_verb_def verb_gate_def)
  next
    case (Some ps)
    with assms(2) e s n show ?thesis
      by (auto simp: run_verb_def verb_gate_def parse_show intro!: exI [of _ s] split: if_splits)
  qed
qed

lemma moved:
  assumes "(p, v) \<in> set routes" and "merges to_value svc"
    and "run_verb parse can state_text response v svc auth i w = (Moved r, w')"
  shows "\<exists>e s ps e'. w i = Some e \<and> auth = Some ps \<and> granted ps (entity @ '':transition:'' @ show_t (verb_step v)) \<and>
    state_text e = show_s s \<and> can s (verb_step v) \<and> w' = w(i \<mapsto> e') \<and> r = response e' \<and>
    state_text e' = show_s (target (verb_step v)) \<and> merged to_value (verb_field v) (JString (verb_label v)) e e'"
proof -
  from assms(3) obtain e where e: "cs_get_by_id svc i w = Inr (Some e)"
    and g: "verb_gate parse can v auth (state_text e) = (None :: 'r verb_reply option)"
    and wr: "verb_write response v svc i w = (Moved r, w')"
    by (auto simp: run_verb_def verb_gate_def split: sum.splits option.splits if_splits)
  from assms(2) e have we: "w i = Some e" by (simp add: merges_def)
  obtain s where s: "state_text e = show_s s" using stored_state by blast
  from g s obtain ps where ps: "auth = Some ps" "granted ps (verb_permission v)" "can s (verb_step v)"
    by (auto simp: verb_gate_def parse_show split: option.splits if_splits)
  from verb_write_merges [OF assms(2) wr] we obtain e' where r: "r = response e'" and w': "w' = w(i \<mapsto> e')"
    and m: "merged to_value (verb_field v) (JString (verb_label v)) e e'" by auto
  from m not_audit [OF assms(1)] have "json_field (to_value e') (verb_field v) = Some (JString (verb_label v))"
    by (simp add: merged_def)
  from writes_target [OF assms(1) this] have "state_text e' = show_s (target (verb_step v))" .
  with we s ps r w' m named [OF assms(1)] show ?thesis by auto
qed

end

lemma verb_refused:
  assumes "run_verb parse can state_text response v svc auth i w = (r, w')" and "verb_status r \<in> {400, 401, 403, 409}"
  shows "w' = w"
  using assms
  by (auto simp: run_verb_def verb_write_def split: sum.splits option.splits prod.splits)

section \<open>Mail\<close>

definition Mail_smtp_accepted_transition :: "MailHooksTransition verb" where
  "Mail_smtp_accepted_transition = \<lparr>verb_name = ''smtp_accepted'', verb_permission = ''mail:transition:smtp_accepted'',
     verb_step = MailHooksTransition.SmtpAccepted, verb_field = ''state'', verb_label = ''sent''\<rparr>"

definition Mail_smtp_failed_transition :: "MailHooksTransition verb" where
  "Mail_smtp_failed_transition = \<lparr>verb_name = ''smtp_failed'', verb_permission = ''mail:transition:smtp_failed'',
     verb_step = MailHooksTransition.SmtpFailed, verb_field = ''state'', verb_label = ''exception''\<rparr>"

definition Mail_inbound_acknowledged_transition :: "MailHooksTransition verb" where
  "Mail_inbound_acknowledged_transition = \<lparr>verb_name = ''inbound_acknowledged'', verb_permission = ''mail:transition:inbound_acknowledged'',
     verb_step = MailHooksTransition.InboundAcknowledged, verb_field = ''state'', verb_label = ''received''\<rparr>"

definition Mail_requeued_transition :: "MailHooksTransition verb" where
  "Mail_requeued_transition = \<lparr>verb_name = ''requeued'', verb_permission = ''mail:transition:requeued'',
     verb_step = MailHooksTransition.Requeued, verb_field = ''state'', verb_label = ''outgoing''\<rparr>"

definition Mail_cancelled_transition :: "MailHooksTransition verb" where
  "Mail_cancelled_transition = \<lparr>verb_name = ''cancelled'', verb_permission = ''mail:transition:cancelled'',
     verb_step = MailHooksTransition.Cancelled, verb_field = ''state'', verb_label = ''cancel''\<rparr>"

definition Mail_transition_routes :: "(string \<times> MailHooksTransition verb) list" where
  "Mail_transition_routes =
    [(''/mails/:id/transitions/smtp_accepted'', Mail_smtp_accepted_transition),
     (''/mails/:id/transitions/smtp_failed'', Mail_smtp_failed_transition),
     (''/mails/:id/transitions/inbound_acknowledged'', Mail_inbound_acknowledged_transition),
     (''/mails/:id/transitions/requeued'', Mail_requeued_transition),
     (''/mails/:id/transitions/cancelled'', Mail_cancelled_transition)]"

definition Mail_run_verb ::
  "MailHooksTransition verb \<Rightarrow> ('w, Mail) crud_service \<Rightarrow> string list option \<Rightarrow> string \<Rightarrow> 'w \<Rightarrow> MailResponseDto verb_reply \<times> 'w" where
  "Mail_run_verb = run_verb MailHooksState_from_str MailHooks_can_transition (\<lambda>e. MailState_show (Mail_state e)) Mail_response"

lemmas Mail_verb_defs = Mail_smtp_accepted_transition_def Mail_smtp_failed_transition_def Mail_inbound_acknowledged_transition_def
  Mail_requeued_transition_def Mail_cancelled_transition_def

lemma Mail_state_label: "\<exists>s. MailState_show (Mail_state e) = MailHooksState_show s"
  by (cases "Mail_state e") (metis MailHooksState_show.simps MailState_show.simps)+

interpretation mail_hooks_verbs: verbs MailHooksState_from_str MailHooks_can_transition "\<lambda>e. MailState_show (Mail_state e)" Mail_response
  MailHooksState_show MailHooks_target_state MailHooksTransition_show "Mail_to_value E" Mail_transition_routes "''mail''" for E
  by unfold_locales
    (use Mail_state_label in \<open>auto simp: mail_hooks_state_text.from_str_label Mail_transition_routes_def Mail_verb_defs
      json_field_def Mail_to_value_def\<close>)

section \<open>Sms\<close>

definition Sms_pickup_transition :: "SmsHooksTransition verb" where
  "Sms_pickup_transition = \<lparr>verb_name = ''pickup'', verb_permission = ''sms:transition:pickup'',
     verb_step = SmsHooksTransition.Pickup, verb_field = ''state'', verb_label = ''process''\<rparr>"

definition Sms_iap_accepted_transition :: "SmsHooksTransition verb" where
  "Sms_iap_accepted_transition = \<lparr>verb_name = ''iap_accepted'', verb_permission = ''sms:transition:iap_accepted'',
     verb_step = SmsHooksTransition.IapAccepted, verb_field = ''state'', verb_label = ''pending''\<rparr>"

definition Sms_delivery_confirmed_transition :: "SmsHooksTransition verb" where
  "Sms_delivery_confirmed_transition = \<lparr>verb_name = ''delivery_confirmed'', verb_permission = ''sms:transition:delivery_confirmed'',
     verb_step = SmsHooksTransition.DeliveryConfirmed, verb_field = ''state'', verb_label = ''sent''\<rparr>"

definition Sms_send_failed_transition :: "SmsHooksTransition verb" where
  "Sms_send_failed_transition = \<lparr>verb_name = ''send_failed'', verb_permission = ''sms:transition:send_failed'',
     verb_step = SmsHooksTransition.SendFailed, verb_field = ''state'', verb_label = ''error''\<rparr>"

definition Sms_stuck_requeued_transition :: "SmsHooksTransition verb" where
  "Sms_stuck_requeued_transition = \<lparr>verb_name = ''stuck_requeued'', verb_permission = ''sms:transition:stuck_requeued'',
     verb_step = SmsHooksTransition.StuckRequeued, verb_field = ''state'', verb_label = ''outgoing''\<rparr>"

definition Sms_canceled_transition :: "SmsHooksTransition verb" where
  "Sms_canceled_transition = \<lparr>verb_name = ''canceled'', verb_permission = ''sms:transition:canceled'',
     verb_step = SmsHooksTransition.Canceled, verb_field = ''state'', verb_label = ''canceled''\<rparr>"

definition Sms_transition_routes :: "(string \<times> SmsHooksTransition verb) list" where
  "Sms_transition_routes =
    [(''/smses/:id/transitions/pickup'', Sms_pickup_transition),
     (''/smses/:id/transitions/iap_accepted'', Sms_iap_accepted_transition),
     (''/smses/:id/transitions/delivery_confirmed'', Sms_delivery_confirmed_transition),
     (''/smses/:id/transitions/send_failed'', Sms_send_failed_transition),
     (''/smses/:id/transitions/stuck_requeued'', Sms_stuck_requeued_transition),
     (''/smses/:id/transitions/canceled'', Sms_canceled_transition)]"

definition Sms_run_verb ::
  "SmsHooksTransition verb \<Rightarrow> ('w, Sms) crud_service \<Rightarrow> string list option \<Rightarrow> string \<Rightarrow> 'w \<Rightarrow> SmsResponseDto verb_reply \<times> 'w" where
  "Sms_run_verb = run_verb SmsHooksState_from_str SmsHooks_can_transition (\<lambda>e. SmsState_show (Sms_state e)) Sms_response"

lemmas Sms_verb_defs = Sms_pickup_transition_def Sms_iap_accepted_transition_def Sms_delivery_confirmed_transition_def
  Sms_send_failed_transition_def Sms_stuck_requeued_transition_def Sms_canceled_transition_def

lemma Sms_state_label: "\<exists>s. SmsState_show (Sms_state e) = SmsHooksState_show s"
  by (cases "Sms_state e") (metis SmsHooksState_show.simps SmsState_show.simps)+

interpretation sms_hooks_verbs: verbs SmsHooksState_from_str SmsHooks_can_transition "\<lambda>e. SmsState_show (Sms_state e)" Sms_response
  SmsHooksState_show SmsHooks_target_state SmsHooksTransition_show "Sms_to_value E" Sms_transition_routes "''sms''" for E
  by unfold_locales
    (use Sms_state_label in \<open>auto simp: sms_hooks_state_text.from_str_label Sms_transition_routes_def Sms_verb_defs
      json_field_def Sms_to_value_def\<close>)

section \<open>MailNotification\<close>

definition MailNotification_dispatch_started_transition :: "MailNotificationHooksTransition verb" where
  "MailNotification_dispatch_started_transition = \<lparr>verb_name = ''dispatch_started'', verb_permission = ''mail_notification:transition:dispatch_started'',
     verb_step = MailNotificationHooksTransition.DispatchStarted, verb_field = ''notification_status'', verb_label = ''process''\<rparr>"

definition MailNotification_smtp_accepted_transition :: "MailNotificationHooksTransition verb" where
  "MailNotification_smtp_accepted_transition = \<lparr>verb_name = ''smtp_accepted'', verb_permission = ''mail_notification:transition:smtp_accepted'',
     verb_step = MailNotificationHooksTransition.SmtpAccepted, verb_field = ''notification_status'', verb_label = ''pending''\<rparr>"

definition MailNotification_delivery_confirmed_transition :: "MailNotificationHooksTransition verb" where
  "MailNotification_delivery_confirmed_transition = \<lparr>verb_name = ''delivery_confirmed'', verb_permission = ''mail_notification:transition:delivery_confirmed'',
     verb_step = MailNotificationHooksTransition.DeliveryConfirmed, verb_field = ''notification_status'', verb_label = ''sent''\<rparr>"

definition MailNotification_instant_delivered_transition :: "MailNotificationHooksTransition verb" where
  "MailNotification_instant_delivered_transition = \<lparr>verb_name = ''instant_delivered'', verb_permission = ''mail_notification:transition:instant_delivered'',
     verb_step = MailNotificationHooksTransition.InstantDelivered, verb_field = ''notification_status'', verb_label = ''sent''\<rparr>"

definition MailNotification_bounced_transition :: "MailNotificationHooksTransition verb" where
  "MailNotification_bounced_transition = \<lparr>verb_name = ''bounced'', verb_permission = ''mail_notification:transition:bounced'',
     verb_step = MailNotificationHooksTransition.Bounced, verb_field = ''notification_status'', verb_label = ''bounce''\<rparr>"

definition MailNotification_send_failed_transition :: "MailNotificationHooksTransition verb" where
  "MailNotification_send_failed_transition = \<lparr>verb_name = ''send_failed'', verb_permission = ''mail_notification:transition:send_failed'',
     verb_step = MailNotificationHooksTransition.SendFailed, verb_field = ''notification_status'', verb_label = ''exception''\<rparr>"

definition MailNotification_accepted_unpicked_transition :: "MailNotificationHooksTransition verb" where
  "MailNotification_accepted_unpicked_transition = \<lparr>verb_name = ''accepted_unpicked'', verb_permission = ''mail_notification:transition:accepted_unpicked'',
     verb_step = MailNotificationHooksTransition.AcceptedUnpicked, verb_field = ''notification_status'', verb_label = ''pending''\<rparr>"

definition MailNotification_delivered_unpicked_transition :: "MailNotificationHooksTransition verb" where
  "MailNotification_delivered_unpicked_transition = \<lparr>verb_name = ''delivered_unpicked'', verb_permission = ''mail_notification:transition:delivered_unpicked'',
     verb_step = MailNotificationHooksTransition.DeliveredUnpicked, verb_field = ''notification_status'', verb_label = ''sent''\<rparr>"

definition MailNotification_failed_unpicked_transition :: "MailNotificationHooksTransition verb" where
  "MailNotification_failed_unpicked_transition = \<lparr>verb_name = ''failed_unpicked'', verb_permission = ''mail_notification:transition:failed_unpicked'',
     verb_step = MailNotificationHooksTransition.FailedUnpicked, verb_field = ''notification_status'', verb_label = ''exception''\<rparr>"

definition MailNotification_canceled_transition :: "MailNotificationHooksTransition verb" where
  "MailNotification_canceled_transition = \<lparr>verb_name = ''canceled'', verb_permission = ''mail_notification:transition:canceled'',
     verb_step = MailNotificationHooksTransition.Canceled, verb_field = ''notification_status'', verb_label = ''canceled''\<rparr>"

definition MailNotification_transition_routes :: "(string \<times> MailNotificationHooksTransition verb) list" where
  "MailNotification_transition_routes =
    [(''/mail_notifications/:id/transitions/dispatch_started'', MailNotification_dispatch_started_transition),
     (''/mail_notifications/:id/transitions/smtp_accepted'', MailNotification_smtp_accepted_transition),
     (''/mail_notifications/:id/transitions/delivery_confirmed'', MailNotification_delivery_confirmed_transition),
     (''/mail_notifications/:id/transitions/instant_delivered'', MailNotification_instant_delivered_transition),
     (''/mail_notifications/:id/transitions/bounced'', MailNotification_bounced_transition),
     (''/mail_notifications/:id/transitions/send_failed'', MailNotification_send_failed_transition),
     (''/mail_notifications/:id/transitions/accepted_unpicked'', MailNotification_accepted_unpicked_transition),
     (''/mail_notifications/:id/transitions/delivered_unpicked'', MailNotification_delivered_unpicked_transition),
     (''/mail_notifications/:id/transitions/failed_unpicked'', MailNotification_failed_unpicked_transition),
     (''/mail_notifications/:id/transitions/canceled'', MailNotification_canceled_transition)]"

definition MailNotification_run_verb ::
  "MailNotificationHooksTransition verb \<Rightarrow> ('w, MailNotification) crud_service \<Rightarrow> string list option \<Rightarrow> string \<Rightarrow> 'w \<Rightarrow> MailNotificationResponseDto verb_reply \<times> 'w" where
  "MailNotification_run_verb = run_verb MailNotificationHooksState_from_str MailNotificationHooks_can_transition (\<lambda>e. MailNotificationStatus_show (MailNotification_notification_status e)) MailNotification_response"

lemmas MailNotification_verb_defs = MailNotification_dispatch_started_transition_def MailNotification_smtp_accepted_transition_def
  MailNotification_delivery_confirmed_transition_def MailNotification_instant_delivered_transition_def
  MailNotification_bounced_transition_def MailNotification_send_failed_transition_def
  MailNotification_accepted_unpicked_transition_def MailNotification_delivered_unpicked_transition_def
  MailNotification_failed_unpicked_transition_def MailNotification_canceled_transition_def

lemma MailNotification_state_label: "\<exists>s. MailNotificationStatus_show (MailNotification_notification_status e) = MailNotificationHooksState_show s"
  by (cases "MailNotification_notification_status e") (metis MailNotificationHooksState_show.simps MailNotificationStatus_show.simps)+

interpretation mail_notification_hooks_verbs: verbs MailNotificationHooksState_from_str MailNotificationHooks_can_transition "\<lambda>e. MailNotificationStatus_show (MailNotification_notification_status e)" MailNotification_response
  MailNotificationHooksState_show MailNotificationHooks_target_state MailNotificationHooksTransition_show "MailNotification_to_value E" MailNotification_transition_routes "''mail_notification''" for E
  by unfold_locales
    (use MailNotification_state_label in \<open>auto simp: mail_notification_hooks_state_text.from_str_label MailNotification_transition_routes_def MailNotification_verb_defs
      json_field_def MailNotification_to_value_def\<close>)

section \<open>MailPresence\<close>

definition MailPresence_go_online_transition :: "MailPresenceHooksTransition verb" where
  "MailPresence_go_online_transition = \<lparr>verb_name = ''go_online'', verb_permission = ''mail_presence:transition:go_online'',
     verb_step = MailPresenceHooksTransition.GoOnline, verb_field = ''status'', verb_label = ''online''\<rparr>"

definition MailPresence_go_away_transition :: "MailPresenceHooksTransition verb" where
  "MailPresence_go_away_transition = \<lparr>verb_name = ''go_away'', verb_permission = ''mail_presence:transition:go_away'',
     verb_step = MailPresenceHooksTransition.GoAway, verb_field = ''status'', verb_label = ''away''\<rparr>"

definition MailPresence_go_offline_transition :: "MailPresenceHooksTransition verb" where
  "MailPresence_go_offline_transition = \<lparr>verb_name = ''go_offline'', verb_permission = ''mail_presence:transition:go_offline'',
     verb_step = MailPresenceHooksTransition.GoOffline, verb_field = ''status'', verb_label = ''offline''\<rparr>"

definition MailPresence_transition_routes :: "(string \<times> MailPresenceHooksTransition verb) list" where
  "MailPresence_transition_routes =
    [(''/mail_presences/:id/transitions/go_online'', MailPresence_go_online_transition),
     (''/mail_presences/:id/transitions/go_away'', MailPresence_go_away_transition),
     (''/mail_presences/:id/transitions/go_offline'', MailPresence_go_offline_transition)]"

definition MailPresence_run_verb ::
  "MailPresenceHooksTransition verb \<Rightarrow> ('w, MailPresence) crud_service \<Rightarrow> string list option \<Rightarrow> string \<Rightarrow> 'w \<Rightarrow> MailPresenceResponseDto verb_reply \<times> 'w" where
  "MailPresence_run_verb = run_verb MailPresenceHooksState_from_str MailPresenceHooks_can_transition (\<lambda>e. MailPresenceStatus_show (MailPresence_status e)) MailPresence_response"

lemmas MailPresence_verb_defs = MailPresence_go_online_transition_def MailPresence_go_away_transition_def MailPresence_go_offline_transition_def

lemma MailPresence_state_label: "\<exists>s. MailPresenceStatus_show (MailPresence_status e) = MailPresenceHooksState_show s"
  by (cases "MailPresence_status e") (metis MailPresenceHooksState_show.simps MailPresenceStatus_show.simps)+

interpretation mail_presence_hooks_verbs: verbs MailPresenceHooksState_from_str MailPresenceHooks_can_transition "\<lambda>e. MailPresenceStatus_show (MailPresence_status e)" MailPresence_response
  MailPresenceHooksState_show MailPresenceHooks_target_state MailPresenceHooksTransition_show "MailPresence_to_value E" MailPresence_transition_routes "''mail_presence''" for E
  by unfold_locales
    (use MailPresence_state_label in \<open>auto simp: mail_presence_hooks_state_text.from_str_label MailPresence_transition_routes_def MailPresence_verb_defs
      json_field_def MailPresence_to_value_def\<close>)

section \<open>MailActivityType\<close>

definition MailActivityType_enable_trigger_transition :: "MailActivityTypeHooksTransition verb" where
  "MailActivityType_enable_trigger_transition = \<lparr>verb_name = ''enable_trigger'', verb_permission = ''mail_activity_type:transition:enable_trigger'',
     verb_step = MailActivityTypeHooksTransition.EnableTrigger, verb_field = ''chaining_type'', verb_label = ''trigger''\<rparr>"

definition MailActivityType_transition_routes :: "(string \<times> MailActivityTypeHooksTransition verb) list" where
  "MailActivityType_transition_routes =
    [(''/mail_activity_types/:id/transitions/enable_trigger'', MailActivityType_enable_trigger_transition)]"

definition MailActivityType_run_verb ::
  "MailActivityTypeHooksTransition verb \<Rightarrow> ('w, MailActivityType) crud_service \<Rightarrow> string list option \<Rightarrow> string \<Rightarrow> 'w \<Rightarrow> MailActivityTypeResponseDto verb_reply \<times> 'w" where
  "MailActivityType_run_verb = run_verb MailActivityTypeHooksState_from_str MailActivityTypeHooks_can_transition (\<lambda>e. MailActivityChainingType_show (MailActivityType_chaining_type e)) MailActivityType_response"

lemmas MailActivityType_verb_defs = MailActivityType_enable_trigger_transition_def

lemma MailActivityType_state_label: "\<exists>s. MailActivityChainingType_show (MailActivityType_chaining_type e) = MailActivityTypeHooksState_show s"
  by (cases "MailActivityType_chaining_type e") (metis MailActivityTypeHooksState_show.simps MailActivityChainingType_show.simps)+

interpretation mail_activity_type_hooks_verbs: verbs MailActivityTypeHooksState_from_str MailActivityTypeHooks_can_transition "\<lambda>e. MailActivityChainingType_show (MailActivityType_chaining_type e)" MailActivityType_response
  MailActivityTypeHooksState_show MailActivityTypeHooks_target_state MailActivityTypeHooksTransition_show "MailActivityType_to_value E" MailActivityType_transition_routes "''mail_activity_type''" for E
  by unfold_locales
    (use MailActivityType_state_label in \<open>auto simp: mail_activity_type_hooks_state_text.from_str_label MailActivityType_transition_routes_def MailActivityType_verb_defs
      json_field_def MailActivityType_to_value_def\<close>)

section \<open>What the verbs guarantee\<close>

text \<open>
  Between the gate and the write another request may write: two verbs that were both allowed on the row as it
  was read are both carried out, and the second step is not one of the machine.
\<close>

lemma stale_gate_leaves_the_machine:
  assumes "Mail_state e = MailState.Outgoing" and "w i = Some e" and "merges (Mail_to_value E) svc"
    and "granted ps ''mail:transition:smtp_accepted''" and "granted ps ''mail:transition:smtp_failed''"
    and first_write: "verb_write Mail_response Mail_smtp_accepted_transition svc i w = (Moved r, w1)"
    and second_write: "verb_write Mail_response Mail_smtp_failed_transition svc i w1 = (Moved r', w2)"
  shows "verb_gate MailHooksState_from_str MailHooks_can_transition Mail_smtp_accepted_transition (Some ps) (MailState_show (Mail_state e)) = (None :: MailResponseDto verb_reply option)"
    and "verb_gate MailHooksState_from_str MailHooks_can_transition Mail_smtp_failed_transition (Some ps) (MailState_show (Mail_state e)) = (None :: MailResponseDto verb_reply option)"
    and "\<exists>e1 e2. w1 i = Some e1 \<and> w2 i = Some e2 \<and> Mail_state e1 = MailState.Sent \<and> Mail_state e2 = MailState.Exception"
    and "\<not> mail_hooks.edge MailHooksState.Sent MailHooksState.Exception"
proof -
  have out: "MailHooksState_from_str (MailState_show (Mail_state e)) = Inr MailHooksState.Outgoing"
    using mail_hooks_state_text.from_str_label [of MailHooksState.Outgoing] by (simp add: assms(1))
  show "verb_gate MailHooksState_from_str MailHooks_can_transition Mail_smtp_accepted_transition (Some ps) (MailState_show (Mail_state e)) = (None :: MailResponseDto verb_reply option)"
    and "verb_gate MailHooksState_from_str MailHooks_can_transition Mail_smtp_failed_transition (Some ps) (MailState_show (Mail_state e)) = (None :: MailResponseDto verb_reply option)"
    using assms(4,5) out by (simp_all add: verb_gate_def Mail_verb_defs MailHooks_can_transition_def)
  from verb_write_merges [OF assms(3) first_write] obtain e1 where 1: "w1 i = Some e1"
    "merged (Mail_to_value E) ''state'' (JString ''sent'') e e1" using assms(2) by (auto simp: Mail_verb_defs)
  from verb_write_merges [OF assms(3) second_write] obtain e2 where 2: "w2 i = Some e2"
    "merged (Mail_to_value E) ''state'' (JString ''exception'') e1 e2" using 1 by (auto simp: Mail_verb_defs)
  have "json_field (Mail_to_value E e1) ''state'' = Some (JString (MailState_show MailState.Sent))"
    and "json_field (Mail_to_value E e2) ''state'' = Some (JString (MailState_show MailState.Exception))"
    using 1(2) 2(2) by (simp_all add: merged_def)
  then have "Mail_state e1 = MailState.Sent" and "Mail_state e2 = MailState.Exception"
    unfolding Mail_to_value_def json_field_def
    by (simp_all add: mail_state.label_inj del: MailState_show.simps)
  with 1 2 show "\<exists>e1 e2. w1 i = Some e1 \<and> w2 i = Some e2 \<and> Mail_state e1 = MailState.Sent \<and> Mail_state e2 = MailState.Exception"
    by blast
  show "\<not> mail_hooks.edge MailHooksState.Sent MailHooksState.Exception"
    unfolding mail_hooks.edge_def
  proof
    assume "\<exists>t. MailHooks_can_transition MailHooksState.Sent t \<and> MailHooks_target_state t = MailHooksState.Exception"
    then obtain t where "MailHooks_can_transition MailHooksState.Sent t" "MailHooks_target_state t = MailHooksState.Exception" by blast
    then show False by (cases t) (auto simp: MailHooks_can_transition_def)
  qed
qed

text \<open>C40: the gate of the verbs of the mail queue, whatever the service under it does.  A verb that answers 200
  read a row of the id, was called by an authenticated caller who holds \<open>mail:transition:<verb>\<close>, and the state of the row as
  it was read had the machine's edge to the verb's target; what happened to the store is then exactly what
  one \<open>as_transition\<close> call did that sets \<open>state\<close> to that target, and the answer is the row it returned.  Conversely such a
  request makes exactly this call and answers by its result.  A refusal (400, 401, 403) leaves the store
  alone and is given exactly for the missing caller, permission or edge; a 409 does not occur, because every stored
  state is one of the machine.  The check is made on the row as read; it does not hold between the read and the write.\<close>

theorem mail_verb_gated:
  assumes "(p, v) \<in> set Mail_transition_routes" and "Mail_run_verb v svc auth i w = (reply, w')"
    and "name = MailHooksTransition_show (verb_step v)" and "goal = MailHooks_target_state (verb_step v)"
    and "call = cs_as_transition svc name i [(''state'', JString (MailHooksState_show goal))] w"
  shows "(verb_status reply \<in> {400, 401, 403, 409} \<longrightarrow> w' = w) \<and> verb_status reply \<noteq> 409 \<and>
    (\<forall>r. reply = Moved r \<longrightarrow>
       (\<exists>e s ps e'. cs_get_by_id svc i w = Inr (Some e) \<and> auth = Some ps \<and> granted ps (''mail:transition:'' @ name) \<and>
          MailState_show (Mail_state e) = MailHooksState_show s \<and> mail_hooks.edge s goal \<and>
          call = (Inr (Some e'), w') \<and> r = Mail_response e')) \<and>
    (\<forall>e. cs_get_by_id svc i w = Inr (Some e) \<longrightarrow>
       (case auth of
          None \<Rightarrow> reply = NeedsCaller
        | Some ps \<Rightarrow> \<exists>s. MailState_show (Mail_state e) = MailHooksState_show s \<and>
            (if \<not> granted ps (''mail:transition:'' @ name)
             then reply = NeedsPermission (name @ '' needs mail:transition:'' @ name)
             else if \<not> MailHooks_can_transition s (verb_step v) then reply = NotAllowed
             else reply = (case fst call of Inr (Some e') \<Rightarrow> Moved (Mail_response e') | Inr None \<Rightarrow> NoSuchRow | Inl m \<Rightarrow> ServiceFailed m) \<and>
                  w' = snd call)))"
proof -
  have f: "verb_field v = ''state''" "verb_label v = MailHooksState_show goal" "verb_name v = name"
    using assms(1) by (auto simp: Mail_transition_routes_def Mail_verb_defs assms(3,4))
  have wrote: "verb_write Mail_response v svc i w =
      (case fst call of Inr (Some e') \<Rightarrow> Moved (Mail_response e') | Inr None \<Rightarrow> NoSuchRow | Inl m \<Rightarrow> ServiceFailed m, snd call)"
    unfolding verb_write_def f assms(5) [symmetric] by (cases call) (auto split: sum.split option.split)
  have texts: "''mail'' @ '':transition:'' @ name = ''mail:transition:'' @ name"
    "name @ '' needs '' @ ''mail:transition:'' @ name = name @ '' needs mail:transition:'' @ name" by simp_all
  note g = mail_hooks_verbs.gated [OF assms(1) assms(2) [unfolded Mail_run_verb_def], folded assms(3), unfolded wrote texts prod.inject]
  have edge: "mail_hooks.edge s goal" if "MailHooks_can_transition s (verb_step v)" for s
    using that unfolding mail_hooks.edge_def assms(4) by blast
  consider m where "cs_get_by_id svc i w = Inl m" | "cs_get_by_id svc i w = Inr None"
    | e where "cs_get_by_id svc i w = Inr (Some e)" "auth = None"
    | e ps where "cs_get_by_id svc i w = Inr (Some e)" "auth = Some ps"
    by (metis sum.exhaust option.exhaust)
  then show ?thesis
  proof cases
    case 4
    with g obtain s where s: "MailState_show (Mail_state e) = MailHooksState_show s"
      and r: "if \<not> granted ps (''mail:transition:'' @ name)
             then reply = NeedsPermission (name @ '' needs mail:transition:'' @ name) \<and> w' = w
             else if \<not> MailHooks_can_transition s (verb_step v) then reply = NotAllowed \<and> w' = w
             else reply = (case fst call of Inr (Some e') \<Rightarrow> Moved (Mail_response e') | Inr None \<Rightarrow> NoSuchRow | Inl m \<Rightarrow> ServiceFailed m) \<and>
                  w' = snd call" by (simp only: sum.case option.case) blast
    from r s 4 edge [of s] show ?thesis
      by (cases call) (auto split: if_splits sum.splits option.splits intro!: exI [of _ s])
  qed (use g in auto)
qed

text \<open>Where the framework stores as \<open>merges\<close> says and nobody else writes, a verb that answers 200 leaves the row in
  the target of the edge; beside it only the audit metadata may have moved.\<close>

lemma mail_verb_moves_along_edge:
  assumes "(p, v) \<in> set Mail_transition_routes" and "merges (Mail_to_value E) svc"
    and "Mail_run_verb v svc auth i w = (Moved r, w')"
  shows "\<exists>e s ps e'. w i = Some e \<and> auth = Some ps \<and> granted ps (''mail:transition:'' @ MailHooksTransition_show (verb_step v)) \<and>
    MailState_show (Mail_state e) = MailHooksState_show s \<and> mail_hooks.edge s (MailHooks_target_state (verb_step v)) \<and>
    w' = w(i \<mapsto> e') \<and> r = Mail_response e' \<and>
    MailState_show (Mail_state e') = MailHooksState_show (MailHooks_target_state (verb_step v)) \<and>
    merged (Mail_to_value E) ''state'' (JString (MailState_show (Mail_state e'))) e e'"
proof -
  have f: "verb_field v = ''state''" "verb_label v = MailHooksState_show (MailHooks_target_state (verb_step v))"
    using assms(1) by (auto simp: Mail_transition_routes_def Mail_verb_defs)
  from mail_hooks_verbs.moved [OF assms(1,2) assms(3) [unfolded Mail_run_verb_def]] obtain e s ps e' where
    m: "w i = Some e" "auth = Some ps" "granted ps (''mail'' @ '':transition:'' @ MailHooksTransition_show (verb_step v))"
      "MailState_show (Mail_state e) = MailHooksState_show s" "MailHooks_can_transition s (verb_step v)"
      "w' = w(i \<mapsto> e')" "r = Mail_response e'"
    and t: "MailState_show (Mail_state e') = MailHooksState_show (MailHooks_target_state (verb_step v))"
      "merged (Mail_to_value E) (verb_field v) (JString (verb_label v)) e e'" by blast
  from m(5) have "mail_hooks.edge s (MailHooks_target_state (verb_step v))" unfolding mail_hooks.edge_def by blast
  with m t f show ?thesis by (intro exI [of _ e] exI [of _ s] exI [of _ ps] exI [of _ e']) simp
qed

text \<open>The permission check of a verb is the matching of permissions segment by segment: a segment is met by
  itself or by \<open>*\<close>, and only a permission whose last segment is \<open>*\<close> covers longer ones.\<close>

lemma verb_permission_by_segments:
  "granted permissions required \<longleftrightarrow>
   list_ex (\<lambda>p. covers (split_char (CHR '':'') p) (split_char (CHR '':'') required)) permissions"
  by (simp add: granted_covers list_ex_iff)

text \<open>A generic update of a notification cannot move its state.  If the row rules accept what a PUT would store
  outside a verb, the status in the request is the status the row has.\<close>

lemma generic_update_keeps_status:
  assumes "compares_field R"
    and "go_refuse (MailNotification_row_rules R E
           \<lparr>wc_kind = WriteKind.Update, wc_before = Some e, wc_after = Some (MailNotification_apply_update e d), wc_transition = None\<rparr>) = []"
  shows "UpdateMailNotificationDto_notification_status d = MailNotification_notification_status e"
  using MailNotification_state_guarded [OF assms(1) _ _ _ _ assms(2), of e "MailNotification_apply_update e d"]
  by (simp add: MailNotification_apply_update_def)

text \<open>A verb's write passes that rule, and a created row starts in the machine's first state.\<close>

lemma machine_rows_start:
  "MailState_show (Mail_state (Mail_from_create d i)) = MailHooksState_show MailHooksStateMachine_new"
  "SmsState_show (Sms_state (Sms_from_create ds i)) = SmsHooksState_show SmsHooksStateMachine_new"
  "MailNotificationStatus_show (MailNotification_notification_status (MailNotification_from_create dn i)) =
   MailNotificationHooksState_show MailNotificationHooksStateMachine_new"
  "MailPresenceStatus_show (MailPresence_status (MailPresence_from_create dp i)) =
   MailPresenceHooksState_show MailPresenceHooksStateMachine_new"
  "MailActivityChainingType_show (MailActivityType_chaining_type (MailActivityType_from_create da i)) =
   MailActivityTypeHooksState_show MailActivityTypeHooksStateMachine_new"
  by (simp_all add: Mail_from_create_def MailHooksStateMachine_new_def MailHooksState_default_def Sms_from_create_def
      SmsHooksStateMachine_new_def SmsHooksState_default_def MailNotification_from_create_def
      MailNotificationHooksStateMachine_new_def MailNotificationHooksState_default_def MailPresence_from_create_def
      MailPresenceHooksStateMachine_new_def MailPresenceHooksState_default_def MailActivityType_from_create_def
      MailActivityTypeHooksStateMachine_new_def MailActivityTypeHooksState_default_def)

text \<open>A row the caller may not know of answers 404 before the caller is known: an anonymous request tells them apart.\<close>

lemma anonymous_sees_existence:
  "verb_status (fst (run_verb parse can state_text response v svc None i w)) =
   (case cs_get_by_id svc i w of Inl m \<Rightarrow> 500 | Inr None \<Rightarrow> 404 | Inr (Some e) \<Rightarrow> 401)"
  by (auto simp: run_verb_def verb_gate_def split: sum.split option.split)

section \<open>The properties at concrete inputs\<close>

text \<open>A store that replaces the state of a mail, and refuses every other update.\<close>

definition mail_state_of :: "(string \<times> json) list \<Rightarrow> MailState option" where
  "mail_state_of fs = (case fs of [(k, JString s)] \<Rightarrow> if k = ''state'' then pg_enum_cast MailState_show MailState_from_str s else None | _ \<Rightarrow> None)"

definition plain_mails :: "(string \<Rightarrow> Mail option, Mail) crud_service" where
  "plain_mails = \<lparr>cs_get_by_id = (\<lambda>i w. Inr (w i)),
     cs_as_transition = (\<lambda>v i fs w. case w i of None \<Rightarrow> (Inr None, w)
       | Some e \<Rightarrow> (case mail_state_of fs of
           None \<Rightarrow> (Inl ''refused'', w)
         | Some s \<Rightarrow> (Inr (Some (e\<lparr>Mail_state := s\<rparr>)), w(i \<mapsto> e\<lparr>Mail_state := s\<rparr>))))\<rparr>"

definition plain_mail :: Mail where
  "plain_mail = Mail_new 1 MailState.Outgoing False (JObject []) 2"

lemma plain_mails_merges: "merges (Mail_to_value E) plain_mails"
  unfolding merges_def
proof (intro conjI allI impI)
  fix v i k x w r w'
  assume "cs_as_transition plain_mails v i [(k, x)] w = (r, w')"
  then show "case r of Inl m \<Rightarrow> w' = w | Inr None \<Rightarrow> w i = None \<and> w' = w
    | Inr (Some e') \<Rightarrow> \<exists>e. w i = Some e \<and> w' = w(i \<mapsto> e') \<and> merged (Mail_to_value E) k x e e'"
    by (auto simp: plain_mails_def merged_def json_field_def Mail_to_value_def mail_state_of_def mail_state.cast_iff
        split: option.splits if_splits json.splits list.splits)
qed (simp add: plain_mails_def)

definition sent_run :: "MailResponseDto verb_reply \<times> (string \<Rightarrow> Mail option)" where
  "sent_run = Mail_run_verb Mail_smtp_accepted_transition plain_mails (Some [''mail:*'']) ''2'' [''2'' \<mapsto> plain_mail]"

definition sent_mail :: Mail where
  "sent_mail = plain_mail\<lparr>Mail_state := MailState.Sent\<rparr>"

lemma sent_run_moves: "sent_run = (Moved (Mail_response sent_mail), [''2'' \<mapsto> sent_mail])"
proof -
  have g: "granted [''mail:*''] ''mail:transition:smtp_accepted''" by (simp add: granted_covers)
  have p: "MailHooksState_from_str ''outgoing'' = Inr MailHooksState.Outgoing"
    using mail_hooks_state_text.from_str_label [of MailHooksState.Outgoing] by simp
  have s: "pg_enum_cast MailState_show MailState_from_str ''sent'' = Some MailState.Sent" by (simp add: mail_state.cast_iff)
  show ?thesis
    using g p s by (simp add: sent_run_def Mail_run_verb_def run_verb_def verb_gate_def verb_write_def plain_mails_def mail_state_of_def Mail_verb_defs
        plain_mail_def Mail_new_def MailHooks_can_transition_def sent_mail_def)
qed

lemma mail_verb_moves_along_edge_witness:
  "\<exists>s. MailState_show (Mail_state plain_mail) = MailHooksState_show s \<and> mail_hooks.edge s MailHooksState.Sent"
  using mail_verb_moves_along_edge [of "''/mails/:id/transitions/smtp_accepted''" Mail_smtp_accepted_transition _ plain_mails
      "Some [''mail:*'']" "''2''" "[''2'' \<mapsto> plain_mail]", OF _ plain_mails_merges sent_run_moves [unfolded sent_run_def]]
  by (auto simp: Mail_transition_routes_def Mail_verb_defs)

lemma mail_verb_gated_witness:
  "\<exists>e s. cs_get_by_id plain_mails ''2'' [''2'' \<mapsto> plain_mail] = Inr (Some e) \<and>
     MailState_show (Mail_state e) = MailHooksState_show s \<and> mail_hooks.edge s MailHooksState.Sent \<and>
     cs_as_transition plain_mails ''smtp_accepted'' ''2'' [(''state'', JString ''sent'')] [''2'' \<mapsto> plain_mail] =
       (Inr (Some sent_mail), [''2'' \<mapsto> sent_mail])"
proof -
  have "(''/mails/:id/transitions/smtp_accepted'', Mail_smtp_accepted_transition) \<in> set Mail_transition_routes"
    by (simp add: Mail_transition_routes_def)
  note g = mail_verb_gated [OF this sent_run_moves [unfolded sent_run_def] refl refl refl]
  have "cs_get_by_id plain_mails ''2'' [''2'' \<mapsto> plain_mail] = Inr (Some plain_mail)" by (simp add: plain_mails_def)
  moreover from g obtain e s e' where "cs_get_by_id plain_mails ''2'' [''2'' \<mapsto> plain_mail] = Inr (Some e)"
      "MailState_show (Mail_state e) = MailHooksState_show s" "mail_hooks.edge s MailHooksState.Sent"
      "cs_as_transition plain_mails ''smtp_accepted'' ''2'' [(''state'', JString ''sent'')] [''2'' \<mapsto> plain_mail] =
         (Inr (Some e'), [''2'' \<mapsto> sent_mail])"
    unfolding Mail_verb_defs by auto
  moreover from this(4) have "e' = sent_mail"
    by (auto simp: plain_mails_def sent_mail_def mail_state_of_def split: option.splits dest: fun_cong [of _ _ "''2''"])
  ultimately show ?thesis by blast
qed

text \<open>A rule library over booleans that compares fields and lets every declared rule hold.\<close>

definition plain_rules :: "bool row_rule" where
  "plain_rules = \<lparr>rr_changed = (\<lambda>a b ks. list_ex (\<lambda>k. (case a of None \<Rightarrow> True | Some a \<Rightarrow> json_field a k \<noteq> json_field b k)) ks),
     rr_field = (\<lambda>j k. json_field j k \<noteq> None), rr_is_null = Not, rr_is_not_null = id, rr_is_empty = (\<lambda>_. False), rr_trim = id,
     rr_not = Not, rr_and = (\<and>), rr_or = (\<or>), rr_holds = id\<rparr>"

definition plain_notification :: MailNotification where
  "plain_notification = MailNotification_new 1 MailNotificationType.Email MailNotificationStatus.Ready False 2"

definition plain_put :: UpdateMailNotificationDto where
  "plain_put = \<lparr>UpdateMailNotificationDto_mail_message_id = 1, UpdateMailNotificationDto_res_partner_id = Some 7,
     UpdateMailNotificationDto_notification_type = MailNotificationType.Email,
     UpdateMailNotificationDto_notification_status = MailNotificationStatus.Ready,
     UpdateMailNotificationDto_failure_type = None, UpdateMailNotificationDto_failure_reason = None,
     UpdateMailNotificationDto_mail_mail_id_int = None, UpdateMailNotificationDto_is_read = True\<rparr>"

lemma generic_update_keeps_status_witness:
  "UpdateMailNotificationDto_notification_status plain_put = MailNotification_notification_status plain_notification"
proof (rule generic_update_keeps_status [of plain_rules])
  show "compares_field plain_rules" by (simp add: compares_field_def plain_rules_def)
  show "go_refuse (MailNotification_row_rules plain_rules
     \<lparr>write_uuid = (\<lambda>_. ''u''), write_time = (\<lambda>_. ''t''), write_date = (\<lambda>_. ''d''), write_f64 = (\<lambda>_. JNull)\<rparr>
     \<lparr>wc_kind = WriteKind.Update, wc_before = Some plain_notification,
      wc_after = Some (MailNotification_apply_update plain_notification plain_put), wc_transition = None\<rparr>) = []"
    by (simp add: MailNotification_row_rules_def row_guard_def verbs_only_rule_def required_rule_def plain_rules_def
        MailNotification_to_value_def json_field_def plain_notification_def MailNotification_new_def plain_put_def
        MailNotification_apply_update_def)
qed

end
