(* ===== verification/EntitiesGateway.thy ===== *)
theory EntitiesGateway
  imports RowValues
begin

text \<open>
  The generated entities of \<open>src/domain/entity/\<close>:
  \<open>fetchmail_server\<close>, \<open>mail_alias\<close>, \<open>mail_alias_domain\<close>,
  \<open>mail_gateway_allowed\<close>, \<open>mail_server\<close>.
  Each has its row, the constructor, the partial update, the builder and the
  tables the repository layer reads.  \<open>i\<close> is the fresh uuid of \<open>Uuid::new_v4()\<close> and \<open>now\<close> the instant of
  \<open>Utc::now()\<close>; the setters and getters of single fields are those of the records.
\<close>

section \<open>FetchmailServer\<close>

record FetchmailServer =
  FetchmailServer_id :: uuid
  FetchmailServer_name :: string
  FetchmailServer_active :: bool
  FetchmailServer_state :: FetchmailState
  FetchmailServer_default_thread_model :: "string option"
  FetchmailServer_priority :: int
  FetchmailServer_token_hash :: string
  FetchmailServer_last_fetch_at :: "time option"
  FetchmailServer_error_at :: "time option"
  FetchmailServer_error_message :: "string option"
  FetchmailServer_metadata :: AuditMetadata

definition FetchmailServer_new ::
  "string \<Rightarrow> bool \<Rightarrow> FetchmailState \<Rightarrow> int \<Rightarrow> string \<Rightarrow>
  uuid \<Rightarrow> FetchmailServer" where
  "FetchmailServer_new name' active' state' priority' token_hash' i =
     \<lparr>FetchmailServer_id = i, FetchmailServer_name = name', FetchmailServer_active = active',
      FetchmailServer_state = state', FetchmailServer_default_thread_model = None,
      FetchmailServer_priority = priority', FetchmailServer_token_hash = token_hash',
      FetchmailServer_last_fetch_at = None, FetchmailServer_error_at = None, FetchmailServer_error_message = None,
      FetchmailServer_metadata = audit_default\<rparr>"

definition FetchmailServer_is_deleted :: "FetchmailServer \<Rightarrow> bool" where
  "FetchmailServer_is_deleted e \<longleftrightarrow> am_deleted_at (FetchmailServer_metadata e) \<noteq> None"

definition FetchmailServer_is_active :: "FetchmailServer \<Rightarrow> bool" where
  "FetchmailServer_is_active e \<longleftrightarrow> am_deleted_at (FetchmailServer_metadata e) = None"

definition FetchmailServer_set_entity_id :: "decoders \<Rightarrow> string \<Rightarrow> FetchmailServer \<Rightarrow> FetchmailServer" where
  "FetchmailServer_set_entity_id D s e = patch (parse_uuid D s) (\<lambda>u. e\<lparr>FetchmailServer_id := u\<rparr>) e"

definition FetchmailServer_patch_field :: "decoders \<Rightarrow> string \<Rightarrow> json \<Rightarrow> FetchmailServer \<Rightarrow> FetchmailServer" where
  "FetchmailServer_patch_field D k v e =
     (if k = ''name'' then patch (read_string D v) (\<lambda>x. e\<lparr>FetchmailServer_name := x\<rparr>) e
      else if k = ''active'' then patch (read_bool D v) (\<lambda>x. e\<lparr>FetchmailServer_active := x\<rparr>) e
      else if k = ''state'' then patch (de_enum D (pg_enum_cast FetchmailState_show FetchmailState_from_str) v) (\<lambda>x. e\<lparr>FetchmailServer_state := x\<rparr>) e
      else if k = ''default_thread_model'' then patch (de_option (read_string D) v) (\<lambda>x. e\<lparr>FetchmailServer_default_thread_model := x\<rparr>) e
      else if k = ''priority'' then patch (read_i32 D v) (\<lambda>x. e\<lparr>FetchmailServer_priority := x\<rparr>) e
      else if k = ''token_hash'' then patch (read_string D v) (\<lambda>x. e\<lparr>FetchmailServer_token_hash := x\<rparr>) e
      else if k = ''last_fetch_at'' then patch (de_option (read_time D) v) (\<lambda>x. e\<lparr>FetchmailServer_last_fetch_at := x\<rparr>) e
      else if k = ''error_at'' then patch (de_option (read_time D) v) (\<lambda>x. e\<lparr>FetchmailServer_error_at := x\<rparr>) e
      else if k = ''error_message'' then patch (de_option (read_string D) v) (\<lambda>x. e\<lparr>FetchmailServer_error_message := x\<rparr>) e
      else e)"

definition FetchmailServer_apply_patch :: "decoders \<Rightarrow> (string \<times> json) list \<Rightarrow> FetchmailServer \<Rightarrow> FetchmailServer" where
  "FetchmailServer_apply_patch D = patch_all (FetchmailServer_patch_field D)"

definition FetchmailServer_write_protected_fields :: "string list" where
  "FetchmailServer_write_protected_fields = [''state'']"

definition FetchmailServer_secret_fields :: "string list" where
  "FetchmailServer_secret_fields = [''tokenHash'']"

definition FetchmailServer_column_types :: "(string \<times> string) list" where
  "FetchmailServer_column_types =
    [(''id'', ''uuid''), (''state'', ''fetchmail_state''), (''last_fetch_at'', ''timestamptz''),
     (''error_at'', ''timestamptz'')]"

record FetchmailServerBuilder =
  FetchmailServerBuilder_name :: "string option"
  FetchmailServerBuilder_active :: "bool option"
  FetchmailServerBuilder_state :: "FetchmailState option"
  FetchmailServerBuilder_default_thread_model :: "string option"
  FetchmailServerBuilder_priority :: "int option"
  FetchmailServerBuilder_token_hash :: "string option"
  FetchmailServerBuilder_last_fetch_at :: "time option"
  FetchmailServerBuilder_error_at :: "time option"
  FetchmailServerBuilder_error_message :: "string option"

definition FetchmailServer_build :: "FetchmailServerBuilder \<Rightarrow> uuid \<Rightarrow> time \<Rightarrow> string + FetchmailServer" where
  "FetchmailServer_build b i now =
     require ''name'' (FetchmailServerBuilder_name b) (\<lambda>name'.
     require ''token_hash'' (FetchmailServerBuilder_token_hash b) (\<lambda>token_hash'.
     Inr \<lparr>FetchmailServer_id = i, FetchmailServer_name = name',
         FetchmailServer_active = or_else (FetchmailServerBuilder_active b) True,
         FetchmailServer_state = or_else (FetchmailServerBuilder_state b) FetchmailState_default,
         FetchmailServer_default_thread_model = FetchmailServerBuilder_default_thread_model b,
         FetchmailServer_priority = or_else (FetchmailServerBuilder_priority b) 5,
         FetchmailServer_token_hash = token_hash',
         FetchmailServer_last_fetch_at = FetchmailServerBuilder_last_fetch_at b,
         FetchmailServer_error_at = FetchmailServerBuilder_error_at b,
         FetchmailServer_error_message = FetchmailServerBuilder_error_message b,
         FetchmailServer_metadata = audit_default\<rparr>))"

lemma FetchmailServer_apply_patch_keeps:
  "FetchmailServer_id (FetchmailServer_apply_patch D es e) = FetchmailServer_id e"
  "FetchmailServer_metadata (FetchmailServer_apply_patch D es e) = FetchmailServer_metadata e"
  unfolding FetchmailServer_apply_patch_def
  by (rule patch_all_keeps, simp add: FetchmailServer_patch_field_def
      if_distrib [of FetchmailServer_id] patch_distrib [of FetchmailServer_id]
      if_distrib [of FetchmailServer_metadata] patch_distrib [of FetchmailServer_metadata])+

lemma FetchmailServer_build_iff: "(\<exists>e. FetchmailServer_build b i now = Inr e) \<longleftrightarrow> FetchmailServerBuilder_name b \<noteq> None \<and> FetchmailServerBuilder_token_hash b \<noteq> None"
  by (auto simp: FetchmailServer_build_def require_Inr)

section \<open>MailAlias\<close>

record MailAlias =
  MailAlias_id :: uuid
  MailAlias_alias_name :: "string option"
  MailAlias_alias_domain_id :: "uuid option"
  MailAlias_alias_contact :: MailAliasContact
  MailAlias_alias_model_id :: "uuid option"
  MailAlias_alias_parent_model_id :: "uuid option"
  MailAlias_alias_parent_thread_id :: "uuid option"
  MailAlias_alias_user_id :: "uuid option"
  MailAlias_alias_defaults :: "string option"
  MailAlias_alias_force_thread_id :: "uuid option"
  MailAlias_alias_reply_to_address :: "string option"
  MailAlias_metadata :: AuditMetadata

definition MailAlias_new ::
  "MailAliasContact \<Rightarrow> uuid \<Rightarrow> MailAlias" where
  "MailAlias_new alias_contact' i =
     \<lparr>MailAlias_id = i, MailAlias_alias_name = None, MailAlias_alias_domain_id = None,
      MailAlias_alias_contact = alias_contact', MailAlias_alias_model_id = None,
      MailAlias_alias_parent_model_id = None, MailAlias_alias_parent_thread_id = None,
      MailAlias_alias_user_id = None, MailAlias_alias_defaults = None, MailAlias_alias_force_thread_id = None,
      MailAlias_alias_reply_to_address = None, MailAlias_metadata = audit_default\<rparr>"

definition MailAlias_is_deleted :: "MailAlias \<Rightarrow> bool" where
  "MailAlias_is_deleted e \<longleftrightarrow> am_deleted_at (MailAlias_metadata e) \<noteq> None"

definition MailAlias_is_active :: "MailAlias \<Rightarrow> bool" where
  "MailAlias_is_active e \<longleftrightarrow> am_deleted_at (MailAlias_metadata e) = None"

definition MailAlias_set_entity_id :: "decoders \<Rightarrow> string \<Rightarrow> MailAlias \<Rightarrow> MailAlias" where
  "MailAlias_set_entity_id D s e = patch (parse_uuid D s) (\<lambda>u. e\<lparr>MailAlias_id := u\<rparr>) e"

definition MailAlias_patch_field :: "decoders \<Rightarrow> string \<Rightarrow> json \<Rightarrow> MailAlias \<Rightarrow> MailAlias" where
  "MailAlias_patch_field D k v e =
     (if k = ''alias_name'' then patch (de_option (read_string D) v) (\<lambda>x. e\<lparr>MailAlias_alias_name := x\<rparr>) e
      else if k = ''alias_domain_id'' then patch (de_option (read_uuid D) v) (\<lambda>x. e\<lparr>MailAlias_alias_domain_id := x\<rparr>) e
      else if k = ''alias_contact'' then patch (de_enum D (pg_enum_cast MailAliasContact_show MailAliasContact_from_str) v) (\<lambda>x. e\<lparr>MailAlias_alias_contact := x\<rparr>) e
      else if k = ''alias_model_id'' then patch (de_option (read_uuid D) v) (\<lambda>x. e\<lparr>MailAlias_alias_model_id := x\<rparr>) e
      else if k = ''alias_parent_model_id'' then patch (de_option (read_uuid D) v) (\<lambda>x. e\<lparr>MailAlias_alias_parent_model_id := x\<rparr>) e
      else if k = ''alias_parent_thread_id'' then patch (de_option (read_uuid D) v) (\<lambda>x. e\<lparr>MailAlias_alias_parent_thread_id := x\<rparr>) e
      else if k = ''alias_user_id'' then patch (de_option (read_uuid D) v) (\<lambda>x. e\<lparr>MailAlias_alias_user_id := x\<rparr>) e
      else if k = ''alias_defaults'' then patch (de_option (read_string D) v) (\<lambda>x. e\<lparr>MailAlias_alias_defaults := x\<rparr>) e
      else if k = ''alias_force_thread_id'' then patch (de_option (read_uuid D) v) (\<lambda>x. e\<lparr>MailAlias_alias_force_thread_id := x\<rparr>) e
      else if k = ''alias_reply_to_address'' then patch (de_option (read_string D) v) (\<lambda>x. e\<lparr>MailAlias_alias_reply_to_address := x\<rparr>) e
      else e)"

definition MailAlias_apply_patch :: "decoders \<Rightarrow> (string \<times> json) list \<Rightarrow> MailAlias \<Rightarrow> MailAlias" where
  "MailAlias_apply_patch D = patch_all (MailAlias_patch_field D)"

definition MailAlias_column_types :: "(string \<times> string) list" where
  "MailAlias_column_types =
    [(''id'', ''uuid''), (''alias_domain_id'', ''uuid''), (''alias_model_id'', ''uuid''),
     (''alias_parent_model_id'', ''uuid''), (''alias_parent_thread_id'', ''uuid''), (''alias_user_id'', ''uuid''),
     (''alias_force_thread_id'', ''uuid''), (''alias_contact'', ''mail_alias_contact'')]"

record MailAliasBuilder =
  MailAliasBuilder_alias_name :: "string option"
  MailAliasBuilder_alias_domain_id :: "uuid option"
  MailAliasBuilder_alias_contact :: "MailAliasContact option"
  MailAliasBuilder_alias_model_id :: "uuid option"
  MailAliasBuilder_alias_parent_model_id :: "uuid option"
  MailAliasBuilder_alias_parent_thread_id :: "uuid option"
  MailAliasBuilder_alias_user_id :: "uuid option"
  MailAliasBuilder_alias_defaults :: "string option"
  MailAliasBuilder_alias_force_thread_id :: "uuid option"
  MailAliasBuilder_alias_reply_to_address :: "string option"

definition MailAlias_build :: "MailAliasBuilder \<Rightarrow> uuid \<Rightarrow> time \<Rightarrow> string + MailAlias" where
  "MailAlias_build b i now =
     Inr \<lparr>MailAlias_id = i, MailAlias_alias_name = MailAliasBuilder_alias_name b,
         MailAlias_alias_domain_id = MailAliasBuilder_alias_domain_id b,
         MailAlias_alias_contact = or_else (MailAliasBuilder_alias_contact b) MailAliasContact_default,
         MailAlias_alias_model_id = MailAliasBuilder_alias_model_id b,
         MailAlias_alias_parent_model_id = MailAliasBuilder_alias_parent_model_id b,
         MailAlias_alias_parent_thread_id = MailAliasBuilder_alias_parent_thread_id b,
         MailAlias_alias_user_id = MailAliasBuilder_alias_user_id b,
         MailAlias_alias_defaults = MailAliasBuilder_alias_defaults b,
         MailAlias_alias_force_thread_id = MailAliasBuilder_alias_force_thread_id b,
         MailAlias_alias_reply_to_address = MailAliasBuilder_alias_reply_to_address b,
         MailAlias_metadata = audit_default\<rparr>"

lemma MailAlias_apply_patch_keeps:
  "MailAlias_id (MailAlias_apply_patch D es e) = MailAlias_id e"
  "MailAlias_metadata (MailAlias_apply_patch D es e) = MailAlias_metadata e"
  unfolding MailAlias_apply_patch_def
  by (rule patch_all_keeps, simp add: MailAlias_patch_field_def
      if_distrib [of MailAlias_id] patch_distrib [of MailAlias_id]
      if_distrib [of MailAlias_metadata] patch_distrib [of MailAlias_metadata])+

lemma MailAlias_build_total: "\<exists>e. MailAlias_build b i now = Inr e"
  by (auto simp: MailAlias_build_def require_Inr)

section \<open>MailAliasDomain\<close>

record MailAliasDomain =
  MailAliasDomain_id :: uuid
  MailAliasDomain_name :: string
  MailAliasDomain_catchall_alias :: "string option"
  MailAliasDomain_bounce_alias :: "string option"
  MailAliasDomain_bounce_alias_email :: "string option"
  MailAliasDomain_catchall_alias_email :: "string option"
  MailAliasDomain_use_mx :: bool
  MailAliasDomain_mail_server_id :: "uuid option"
  MailAliasDomain_from_filter :: "string option"
  MailAliasDomain_metadata :: AuditMetadata

definition MailAliasDomain_new ::
  "string \<Rightarrow> bool \<Rightarrow> uuid \<Rightarrow> MailAliasDomain" where
  "MailAliasDomain_new name' use_mx' i =
     \<lparr>MailAliasDomain_id = i, MailAliasDomain_name = name', MailAliasDomain_catchall_alias = None,
      MailAliasDomain_bounce_alias = None, MailAliasDomain_bounce_alias_email = None,
      MailAliasDomain_catchall_alias_email = None, MailAliasDomain_use_mx = use_mx',
      MailAliasDomain_mail_server_id = None, MailAliasDomain_from_filter = None,
      MailAliasDomain_metadata = audit_default\<rparr>"

definition MailAliasDomain_is_deleted :: "MailAliasDomain \<Rightarrow> bool" where
  "MailAliasDomain_is_deleted e \<longleftrightarrow> am_deleted_at (MailAliasDomain_metadata e) \<noteq> None"

definition MailAliasDomain_is_active :: "MailAliasDomain \<Rightarrow> bool" where
  "MailAliasDomain_is_active e \<longleftrightarrow> am_deleted_at (MailAliasDomain_metadata e) = None"

definition MailAliasDomain_set_entity_id :: "decoders \<Rightarrow> string \<Rightarrow> MailAliasDomain \<Rightarrow> MailAliasDomain" where
  "MailAliasDomain_set_entity_id D s e = patch (parse_uuid D s) (\<lambda>u. e\<lparr>MailAliasDomain_id := u\<rparr>) e"

definition MailAliasDomain_patch_field :: "decoders \<Rightarrow> string \<Rightarrow> json \<Rightarrow> MailAliasDomain \<Rightarrow> MailAliasDomain" where
  "MailAliasDomain_patch_field D k v e =
     (if k = ''name'' then patch (read_string D v) (\<lambda>x. e\<lparr>MailAliasDomain_name := x\<rparr>) e
      else if k = ''catchall_alias'' then patch (de_option (read_string D) v) (\<lambda>x. e\<lparr>MailAliasDomain_catchall_alias := x\<rparr>) e
      else if k = ''bounce_alias'' then patch (de_option (read_string D) v) (\<lambda>x. e\<lparr>MailAliasDomain_bounce_alias := x\<rparr>) e
      else if k = ''bounce_alias_email'' then patch (de_option (read_string D) v) (\<lambda>x. e\<lparr>MailAliasDomain_bounce_alias_email := x\<rparr>) e
      else if k = ''catchall_alias_email'' then patch (de_option (read_string D) v) (\<lambda>x. e\<lparr>MailAliasDomain_catchall_alias_email := x\<rparr>) e
      else if k = ''use_mx'' then patch (read_bool D v) (\<lambda>x. e\<lparr>MailAliasDomain_use_mx := x\<rparr>) e
      else if k = ''mail_server_id'' then patch (de_option (read_uuid D) v) (\<lambda>x. e\<lparr>MailAliasDomain_mail_server_id := x\<rparr>) e
      else if k = ''from_filter'' then patch (de_option (read_string D) v) (\<lambda>x. e\<lparr>MailAliasDomain_from_filter := x\<rparr>) e
      else e)"

definition MailAliasDomain_apply_patch :: "decoders \<Rightarrow> (string \<times> json) list \<Rightarrow> MailAliasDomain \<Rightarrow> MailAliasDomain" where
  "MailAliasDomain_apply_patch D = patch_all (MailAliasDomain_patch_field D)"

definition MailAliasDomain_column_types :: "(string \<times> string) list" where
  "MailAliasDomain_column_types =
    [(''id'', ''uuid''), (''mail_server_id'', ''uuid'')]"

record MailAliasDomainBuilder =
  MailAliasDomainBuilder_name :: "string option"
  MailAliasDomainBuilder_catchall_alias :: "string option"
  MailAliasDomainBuilder_bounce_alias :: "string option"
  MailAliasDomainBuilder_bounce_alias_email :: "string option"
  MailAliasDomainBuilder_catchall_alias_email :: "string option"
  MailAliasDomainBuilder_use_mx :: "bool option"
  MailAliasDomainBuilder_mail_server_id :: "uuid option"
  MailAliasDomainBuilder_from_filter :: "string option"

definition MailAliasDomain_build :: "MailAliasDomainBuilder \<Rightarrow> uuid \<Rightarrow> time \<Rightarrow> string + MailAliasDomain" where
  "MailAliasDomain_build b i now =
     require ''name'' (MailAliasDomainBuilder_name b) (\<lambda>name'.
     Inr \<lparr>MailAliasDomain_id = i, MailAliasDomain_name = name',
         MailAliasDomain_catchall_alias = MailAliasDomainBuilder_catchall_alias b,
         MailAliasDomain_bounce_alias = MailAliasDomainBuilder_bounce_alias b,
         MailAliasDomain_bounce_alias_email = MailAliasDomainBuilder_bounce_alias_email b,
         MailAliasDomain_catchall_alias_email = MailAliasDomainBuilder_catchall_alias_email b,
         MailAliasDomain_use_mx = or_else (MailAliasDomainBuilder_use_mx b) False,
         MailAliasDomain_mail_server_id = MailAliasDomainBuilder_mail_server_id b,
         MailAliasDomain_from_filter = MailAliasDomainBuilder_from_filter b, MailAliasDomain_metadata = audit_default\<rparr>)"

lemma MailAliasDomain_apply_patch_keeps:
  "MailAliasDomain_id (MailAliasDomain_apply_patch D es e) = MailAliasDomain_id e"
  "MailAliasDomain_metadata (MailAliasDomain_apply_patch D es e) = MailAliasDomain_metadata e"
  unfolding MailAliasDomain_apply_patch_def
  by (rule patch_all_keeps, simp add: MailAliasDomain_patch_field_def
      if_distrib [of MailAliasDomain_id] patch_distrib [of MailAliasDomain_id]
      if_distrib [of MailAliasDomain_metadata] patch_distrib [of MailAliasDomain_metadata])+

lemma MailAliasDomain_build_iff: "(\<exists>e. MailAliasDomain_build b i now = Inr e) \<longleftrightarrow> MailAliasDomainBuilder_name b \<noteq> None"
  by (auto simp: MailAliasDomain_build_def require_Inr)

section \<open>MailGatewayAllowed\<close>

record MailGatewayAllowed =
  MailGatewayAllowed_id :: uuid
  MailGatewayAllowed_fetchmail_server_id :: "uuid option"
  MailGatewayAllowed_pattern :: string
  MailGatewayAllowed_active :: bool
  MailGatewayAllowed_metadata :: AuditMetadata

definition MailGatewayAllowed_new ::
  "string \<Rightarrow> bool \<Rightarrow> uuid \<Rightarrow> MailGatewayAllowed" where
  "MailGatewayAllowed_new pattern' active' i =
     \<lparr>MailGatewayAllowed_id = i, MailGatewayAllowed_fetchmail_server_id = None,
      MailGatewayAllowed_pattern = pattern', MailGatewayAllowed_active = active',
      MailGatewayAllowed_metadata = audit_default\<rparr>"

definition MailGatewayAllowed_is_deleted :: "MailGatewayAllowed \<Rightarrow> bool" where
  "MailGatewayAllowed_is_deleted e \<longleftrightarrow> am_deleted_at (MailGatewayAllowed_metadata e) \<noteq> None"

definition MailGatewayAllowed_is_active :: "MailGatewayAllowed \<Rightarrow> bool" where
  "MailGatewayAllowed_is_active e \<longleftrightarrow> am_deleted_at (MailGatewayAllowed_metadata e) = None"

definition MailGatewayAllowed_set_entity_id :: "decoders \<Rightarrow> string \<Rightarrow> MailGatewayAllowed \<Rightarrow> MailGatewayAllowed" where
  "MailGatewayAllowed_set_entity_id D s e = patch (parse_uuid D s) (\<lambda>u. e\<lparr>MailGatewayAllowed_id := u\<rparr>) e"

definition MailGatewayAllowed_patch_field :: "decoders \<Rightarrow> string \<Rightarrow> json \<Rightarrow> MailGatewayAllowed \<Rightarrow> MailGatewayAllowed" where
  "MailGatewayAllowed_patch_field D k v e =
     (if k = ''fetchmail_server_id'' then patch (de_option (read_uuid D) v) (\<lambda>x. e\<lparr>MailGatewayAllowed_fetchmail_server_id := x\<rparr>) e
      else if k = ''pattern'' then patch (read_string D v) (\<lambda>x. e\<lparr>MailGatewayAllowed_pattern := x\<rparr>) e
      else if k = ''active'' then patch (read_bool D v) (\<lambda>x. e\<lparr>MailGatewayAllowed_active := x\<rparr>) e
      else e)"

definition MailGatewayAllowed_apply_patch :: "decoders \<Rightarrow> (string \<times> json) list \<Rightarrow> MailGatewayAllowed \<Rightarrow> MailGatewayAllowed" where
  "MailGatewayAllowed_apply_patch D = patch_all (MailGatewayAllowed_patch_field D)"

definition MailGatewayAllowed_column_types :: "(string \<times> string) list" where
  "MailGatewayAllowed_column_types =
    [(''id'', ''uuid''), (''fetchmail_server_id'', ''uuid'')]"

record MailGatewayAllowedBuilder =
  MailGatewayAllowedBuilder_fetchmail_server_id :: "uuid option"
  MailGatewayAllowedBuilder_pattern :: "string option"
  MailGatewayAllowedBuilder_active :: "bool option"

definition MailGatewayAllowed_build :: "MailGatewayAllowedBuilder \<Rightarrow> uuid \<Rightarrow> time \<Rightarrow> string + MailGatewayAllowed" where
  "MailGatewayAllowed_build b i now =
     require ''pattern'' (MailGatewayAllowedBuilder_pattern b) (\<lambda>pattern'.
     Inr \<lparr>MailGatewayAllowed_id = i,
         MailGatewayAllowed_fetchmail_server_id = MailGatewayAllowedBuilder_fetchmail_server_id b,
         MailGatewayAllowed_pattern = pattern',
         MailGatewayAllowed_active = or_else (MailGatewayAllowedBuilder_active b) True,
         MailGatewayAllowed_metadata = audit_default\<rparr>)"

lemma MailGatewayAllowed_apply_patch_keeps:
  "MailGatewayAllowed_id (MailGatewayAllowed_apply_patch D es e) = MailGatewayAllowed_id e"
  "MailGatewayAllowed_metadata (MailGatewayAllowed_apply_patch D es e) = MailGatewayAllowed_metadata e"

        unfolding MailGatewayAllowed_apply_patch_def
  by (rule patch_all_keeps, simp add: MailGatewayAllowed_patch_field_def
      if_distrib [of MailGatewayAllowed_id] patch_distrib [of MailGatewayAllowed_id]
      if_distrib [of MailGatewayAllowed_metadata] patch_distrib [of MailGatewayAllowed_metadata])+

lemma MailGatewayAllowed_build_iff: "(\<exists>e. MailGatewayAllowed_build b i now = Inr e) \<longleftrightarrow> MailGatewayAllowedBuilder_pattern b \<noteq> None"
  by (auto simp: MailGatewayAllowed_build_def require_Inr)

section \<open>MailServer\<close>

record MailServer =
  MailServer_id :: uuid
  MailServer_name :: string
  MailServer_from_filter :: "string option"
  MailServer_smtp_host :: string
  MailServer_smtp_port :: int
  MailServer_smtp_authentication :: SmtpAuthentication
  MailServer_smtp_user :: "string option"
  MailServer_smtp_pass_ref :: "string option"
  MailServer_smtp_encryption :: SmtpEncryption
  MailServer_smtp_debug :: bool
  MailServer_sequence :: int
  MailServer_active :: bool
  MailServer_metadata :: AuditMetadata

definition MailServer_new ::
  "string \<Rightarrow> string \<Rightarrow> int \<Rightarrow> SmtpAuthentication \<Rightarrow>
  SmtpEncryption \<Rightarrow> bool \<Rightarrow> int \<Rightarrow> bool \<Rightarrow> uuid \<Rightarrow> MailServer" where
  "MailServer_new name' smtp_host' smtp_port' smtp_authentication' smtp_encryption' smtp_debug' sequence' active' i =
     \<lparr>MailServer_id = i, MailServer_name = name', MailServer_from_filter = None,
      MailServer_smtp_host = smtp_host', MailServer_smtp_port = smtp_port',
      MailServer_smtp_authentication = smtp_authentication', MailServer_smtp_user = None,
      MailServer_smtp_pass_ref = None, MailServer_smtp_encryption = smtp_encryption',
      MailServer_smtp_debug = smtp_debug', MailServer_sequence = sequence', MailServer_active = active',
      MailServer_metadata = audit_default\<rparr>"

definition MailServer_is_deleted :: "MailServer \<Rightarrow> bool" where
  "MailServer_is_deleted e \<longleftrightarrow> am_deleted_at (MailServer_metadata e) \<noteq> None"

definition MailServer_is_active :: "MailServer \<Rightarrow> bool" where
  "MailServer_is_active e \<longleftrightarrow> am_deleted_at (MailServer_metadata e) = None"

definition MailServer_set_entity_id :: "decoders \<Rightarrow> string \<Rightarrow> MailServer \<Rightarrow> MailServer" where
  "MailServer_set_entity_id D s e = patch (parse_uuid D s) (\<lambda>u. e\<lparr>MailServer_id := u\<rparr>) e"

definition MailServer_patch_field :: "decoders \<Rightarrow> string \<Rightarrow> json \<Rightarrow> MailServer \<Rightarrow> MailServer" where
  "MailServer_patch_field D k v e =
     (if k = ''name'' then patch (read_string D v) (\<lambda>x. e\<lparr>MailServer_name := x\<rparr>) e
      else if k = ''from_filter'' then patch (de_option (read_string D) v) (\<lambda>x. e\<lparr>MailServer_from_filter := x\<rparr>) e
      else if k = ''smtp_host'' then patch (read_string D v) (\<lambda>x. e\<lparr>MailServer_smtp_host := x\<rparr>) e
      else if k = ''smtp_port'' then patch (read_i32 D v) (\<lambda>x. e\<lparr>MailServer_smtp_port := x\<rparr>) e
      else if k = ''smtp_authentication'' then patch (de_enum D (pg_enum_cast SmtpAuthentication_show SmtpAuthentication_from_str) v) (\<lambda>x. e\<lparr>MailServer_smtp_authentication := x\<rparr>) e
      else if k = ''smtp_user'' then patch (de_option (read_string D) v) (\<lambda>x. e\<lparr>MailServer_smtp_user := x\<rparr>) e
      else if k = ''smtp_pass_ref'' then patch (de_option (read_string D) v) (\<lambda>x. e\<lparr>MailServer_smtp_pass_ref := x\<rparr>) e
      else if k = ''smtp_encryption'' then patch (de_enum D (pg_enum_cast SmtpEncryption_show SmtpEncryption_from_str) v) (\<lambda>x. e\<lparr>MailServer_smtp_encryption := x\<rparr>) e
      else if k = ''smtp_debug'' then patch (read_bool D v) (\<lambda>x. e\<lparr>MailServer_smtp_debug := x\<rparr>) e
      else if k = ''sequence'' then patch (read_i32 D v) (\<lambda>x. e\<lparr>MailServer_sequence := x\<rparr>) e
      else if k = ''active'' then patch (read_bool D v) (\<lambda>x. e\<lparr>MailServer_active := x\<rparr>) e
      else e)"

definition MailServer_apply_patch :: "decoders \<Rightarrow> (string \<times> json) list \<Rightarrow> MailServer \<Rightarrow> MailServer" where
  "MailServer_apply_patch D = patch_all (MailServer_patch_field D)"

definition MailServer_column_types :: "(string \<times> string) list" where
  "MailServer_column_types =
    [(''id'', ''uuid''), (''smtp_authentication'', ''smtp_authentication''),
     (''smtp_encryption'', ''smtp_encryption'')]"

record MailServerBuilder =
  MailServerBuilder_name :: "string option"
  MailServerBuilder_from_filter :: "string option"
  MailServerBuilder_smtp_host :: "string option"
  MailServerBuilder_smtp_port :: "int option"
  MailServerBuilder_smtp_authentication :: "SmtpAuthentication option"
  MailServerBuilder_smtp_user :: "string option"
  MailServerBuilder_smtp_pass_ref :: "string option"
  MailServerBuilder_smtp_encryption :: "SmtpEncryption option"
  MailServerBuilder_smtp_debug :: "bool option"
  MailServerBuilder_sequence :: "int option"
  MailServerBuilder_active :: "bool option"

definition MailServer_build :: "MailServerBuilder \<Rightarrow> uuid \<Rightarrow> time \<Rightarrow> string + MailServer" where
  "MailServer_build b i now =
     require ''name'' (MailServerBuilder_name b) (\<lambda>name'.
     require ''smtp_host'' (MailServerBuilder_smtp_host b) (\<lambda>smtp_host'.
     Inr \<lparr>MailServer_id = i, MailServer_name = name',
         MailServer_from_filter = MailServerBuilder_from_filter b, MailServer_smtp_host = smtp_host',
         MailServer_smtp_port = or_else (MailServerBuilder_smtp_port b) 25,
         MailServer_smtp_authentication = or_else (MailServerBuilder_smtp_authentication b) SmtpAuthentication_default,
         MailServer_smtp_user = MailServerBuilder_smtp_user b,
         MailServer_smtp_pass_ref = MailServerBuilder_smtp_pass_ref b,
         MailServer_smtp_encryption = or_else (MailServerBuilder_smtp_encryption b) SmtpEncryption_default,
         MailServer_smtp_debug = or_else (MailServerBuilder_smtp_debug b) False,
         MailServer_sequence = or_else (MailServerBuilder_sequence b) 10,
         MailServer_active = or_else (MailServerBuilder_active b) True, MailServer_metadata = audit_default\<rparr>))"

lemma MailServer_apply_patch_keeps:
  "MailServer_id (MailServer_apply_patch D es e) = MailServer_id e"
  "MailServer_metadata (MailServer_apply_patch D es e) = MailServer_metadata e"
  unfolding MailServer_apply_patch_def
  by (rule patch_all_keeps, simp add: MailServer_patch_field_def
      if_distrib [of MailServer_id] patch_distrib [of MailServer_id]
      if_distrib [of MailServer_metadata] patch_distrib [of MailServer_metadata])+

lemma MailServer_build_iff: "(\<exists>e. MailServer_build b i now = Inr e) \<longleftrightarrow> MailServerBuilder_name b \<noteq> None \<and> MailServerBuilder_smtp_host b \<noteq> None"
  by (auto simp: MailServer_build_def require_Inr)

end
