(* ===== verification/RowsGateway.thy ===== *)
theory RowsGateway
  imports EntitiesGateway RowGuards
begin

text \<open>
  The wire forms and the row rules of the entities of \<open>EntitiesGateway\<close>: \<open>src/presentation/dto/\<close> and the \<open>RowRules\<close> of
  \<open>src/application/service/\<close>.  The conversion from a reference and the one from an owned entity are one function.
\<close>

section \<open>FetchmailServer\<close>

record CreateFetchmailServerDto =
  CreateFetchmailServerDto_name :: string
  CreateFetchmailServerDto_active :: bool
  CreateFetchmailServerDto_default_thread_model :: "string option"
  CreateFetchmailServerDto_priority :: int
  CreateFetchmailServerDto_token_hash :: string
  CreateFetchmailServerDto_last_fetch_at :: "time option"
  CreateFetchmailServerDto_error_at :: "time option"
  CreateFetchmailServerDto_error_message :: "string option"

record UpdateFetchmailServerDto =
  UpdateFetchmailServerDto_name :: string
  UpdateFetchmailServerDto_active :: bool
  UpdateFetchmailServerDto_state :: FetchmailState
  UpdateFetchmailServerDto_default_thread_model :: "string option"
  UpdateFetchmailServerDto_priority :: int
  UpdateFetchmailServerDto_token_hash :: string
  UpdateFetchmailServerDto_last_fetch_at :: "time option"
  UpdateFetchmailServerDto_error_at :: "time option"
  UpdateFetchmailServerDto_error_message :: "string option"

record FetchmailServerResponseDto =
  FetchmailServerResponseDto_id :: uuid
  FetchmailServerResponseDto_name :: string
  FetchmailServerResponseDto_active :: bool
  FetchmailServerResponseDto_state :: FetchmailState
  FetchmailServerResponseDto_default_thread_model :: "string option"
  FetchmailServerResponseDto_priority :: int
  FetchmailServerResponseDto_token_hash :: string
  FetchmailServerResponseDto_last_fetch_at :: "time option"
  FetchmailServerResponseDto_error_at :: "time option"
  FetchmailServerResponseDto_error_message :: "string option"
  FetchmailServerResponseDto_metadata :: AuditMetadata

definition FetchmailServer_response :: "FetchmailServer \<Rightarrow> FetchmailServerResponseDto" where
  "FetchmailServer_response e =
     \<lparr>FetchmailServerResponseDto_id = FetchmailServer_id e,
      FetchmailServerResponseDto_name = FetchmailServer_name e,
      FetchmailServerResponseDto_active = FetchmailServer_active e,
      FetchmailServerResponseDto_state = FetchmailServer_state e,
      FetchmailServerResponseDto_default_thread_model = FetchmailServer_default_thread_model e,
      FetchmailServerResponseDto_priority = FetchmailServer_priority e,
      FetchmailServerResponseDto_token_hash = FetchmailServer_token_hash e,
      FetchmailServerResponseDto_last_fetch_at = FetchmailServer_last_fetch_at e,
      FetchmailServerResponseDto_error_at = FetchmailServer_error_at e,
      FetchmailServerResponseDto_error_message = FetchmailServer_error_message e,
      FetchmailServerResponseDto_metadata = FetchmailServer_metadata e\<rparr>"

definition FetchmailServer_from_create :: "CreateFetchmailServerDto \<Rightarrow> uuid \<Rightarrow> FetchmailServer" where
  "FetchmailServer_from_create d i =
     \<lparr>FetchmailServer_id = i, FetchmailServer_name = CreateFetchmailServerDto_name d,
      FetchmailServer_active = CreateFetchmailServerDto_active d, FetchmailServer_state = FetchmailState.Draft,
      FetchmailServer_default_thread_model = CreateFetchmailServerDto_default_thread_model d,
      FetchmailServer_priority = CreateFetchmailServerDto_priority d,
      FetchmailServer_token_hash = CreateFetchmailServerDto_token_hash d,
      FetchmailServer_last_fetch_at = CreateFetchmailServerDto_last_fetch_at d,
      FetchmailServer_error_at = CreateFetchmailServerDto_error_at d,
      FetchmailServer_error_message = CreateFetchmailServerDto_error_message d,
      FetchmailServer_metadata = audit_default\<rparr>"

definition FetchmailServer_apply_update :: "FetchmailServer \<Rightarrow> UpdateFetchmailServerDto \<Rightarrow> FetchmailServer" where
  "FetchmailServer_apply_update e d =
     e\<lparr>FetchmailServer_name := UpdateFetchmailServerDto_name d,
      FetchmailServer_active := UpdateFetchmailServerDto_active d,
      FetchmailServer_state := UpdateFetchmailServerDto_state d,
      FetchmailServer_default_thread_model := UpdateFetchmailServerDto_default_thread_model d,
      FetchmailServer_priority := UpdateFetchmailServerDto_priority d,
      FetchmailServer_token_hash := UpdateFetchmailServerDto_token_hash d,
      FetchmailServer_last_fetch_at := UpdateFetchmailServerDto_last_fetch_at d,
      FetchmailServer_error_at := UpdateFetchmailServerDto_error_at d,
      FetchmailServer_error_message := UpdateFetchmailServerDto_error_message d\<rparr>"

definition FetchmailServer_to_value :: "encoders \<Rightarrow> FetchmailServer \<Rightarrow> json" where
  "FetchmailServer_to_value E e = JObject
     [(''id'', en_uuid E (FetchmailServer_id e)), (''name'', JString (FetchmailServer_name e)),
      (''active'', JBool (FetchmailServer_active e)),
      (''state'', (\<lambda>x. JString (FetchmailState_show x)) (FetchmailServer_state e)),
      (''default_thread_model'', jopt JString (FetchmailServer_default_thread_model e)),
      (''priority'', JNumber (FetchmailServer_priority e)), (''token_hash'', JString (FetchmailServer_token_hash e)),
      (''last_fetch_at'', jopt (en_time E) (FetchmailServer_last_fetch_at e)),
      (''error_at'', jopt (en_time E) (FetchmailServer_error_at e)),
      (''error_message'', jopt JString (FetchmailServer_error_message e)),
      (''metadata'', audit_to_value E (FetchmailServer_metadata e))]"

definition FetchmailServer_row_rules :: "'v row_rule \<Rightarrow> encoders \<Rightarrow> FetchmailServer write_ctx \<Rightarrow> guard_outcome" where
  "FetchmailServer_row_rules R E ctx = row_guard (\<lambda>e. Some (FetchmailServer_to_value E e)) (\<lambda>create update old row.
      required_rule R ''name'' create update old row @
      required_rule R ''token_hash'' create update old row) ctx"

lemma FetchmailServer_apply_update_reach:
  "(\<exists>d. FetchmailServer_apply_update e d = e') \<longleftrightarrow>
   FetchmailServer_id e' = FetchmailServer_id e \<and> FetchmailServer_metadata e' = FetchmailServer_metadata e"
proof
  assume "FetchmailServer_id e' = FetchmailServer_id e \<and> FetchmailServer_metadata e' = FetchmailServer_metadata e"
  then have "FetchmailServer_apply_update e \<lparr>UpdateFetchmailServerDto_name = FetchmailServer_name e', UpdateFetchmailServerDto_active = FetchmailServer_active e',
      UpdateFetchmailServerDto_state = FetchmailServer_state e',
      UpdateFetchmailServerDto_default_thread_model = FetchmailServer_default_thread_model e',
      UpdateFetchmailServerDto_priority = FetchmailServer_priority e',
      UpdateFetchmailServerDto_token_hash = FetchmailServer_token_hash e',
      UpdateFetchmailServerDto_last_fetch_at = FetchmailServer_last_fetch_at e',
      UpdateFetchmailServerDto_error_at = FetchmailServer_error_at e',
      UpdateFetchmailServerDto_error_message = FetchmailServer_error_message e'\<rparr> = e'"
    by (cases e; cases e') (simp add: FetchmailServer_apply_update_def)
  then show "\<exists>d. FetchmailServer_apply_update e d = e'" by blast
qed (auto simp: FetchmailServer_apply_update_def)

lemma FetchmailServer_response_eq: "FetchmailServer_response e = FetchmailServer_response e' \<longleftrightarrow> e = e'"
  by (cases e; cases e') (simp add: FetchmailServer_response_def)

section \<open>MailAlias\<close>

record CreateMailAliasDto =
  CreateMailAliasDto_alias_name :: "string option"
  CreateMailAliasDto_alias_domain_id :: "uuid option"
  CreateMailAliasDto_alias_contact :: MailAliasContact
  CreateMailAliasDto_alias_model_id :: "uuid option"
  CreateMailAliasDto_alias_parent_model_id :: "uuid option"
  CreateMailAliasDto_alias_parent_thread_id :: "uuid option"
  CreateMailAliasDto_alias_user_id :: "uuid option"
  CreateMailAliasDto_alias_defaults :: "string option"
  CreateMailAliasDto_alias_force_thread_id :: "uuid option"
  CreateMailAliasDto_alias_reply_to_address :: "string option"

record UpdateMailAliasDto =
  UpdateMailAliasDto_alias_name :: "string option"
  UpdateMailAliasDto_alias_domain_id :: "uuid option"
  UpdateMailAliasDto_alias_contact :: MailAliasContact
  UpdateMailAliasDto_alias_model_id :: "uuid option"
  UpdateMailAliasDto_alias_parent_model_id :: "uuid option"
  UpdateMailAliasDto_alias_parent_thread_id :: "uuid option"
  UpdateMailAliasDto_alias_user_id :: "uuid option"
  UpdateMailAliasDto_alias_defaults :: "string option"
  UpdateMailAliasDto_alias_force_thread_id :: "uuid option"
  UpdateMailAliasDto_alias_reply_to_address :: "string option"

record MailAliasResponseDto =
  MailAliasResponseDto_id :: uuid
  MailAliasResponseDto_alias_name :: "string option"
  MailAliasResponseDto_alias_domain_id :: "uuid option"
  MailAliasResponseDto_alias_contact :: MailAliasContact
  MailAliasResponseDto_alias_model_id :: "uuid option"
  MailAliasResponseDto_alias_parent_model_id :: "uuid option"
  MailAliasResponseDto_alias_parent_thread_id :: "uuid option"
  MailAliasResponseDto_alias_user_id :: "uuid option"
  MailAliasResponseDto_alias_defaults :: "string option"
  MailAliasResponseDto_alias_force_thread_id :: "uuid option"
  MailAliasResponseDto_alias_reply_to_address :: "string option"
  MailAliasResponseDto_metadata :: AuditMetadata

definition MailAlias_response :: "MailAlias \<Rightarrow> MailAliasResponseDto" where
  "MailAlias_response e =
     \<lparr>MailAliasResponseDto_id = MailAlias_id e, MailAliasResponseDto_alias_name = MailAlias_alias_name e,
      MailAliasResponseDto_alias_domain_id = MailAlias_alias_domain_id e,
      MailAliasResponseDto_alias_contact = MailAlias_alias_contact e,
      MailAliasResponseDto_alias_model_id = MailAlias_alias_model_id e,
      MailAliasResponseDto_alias_parent_model_id = MailAlias_alias_parent_model_id e,
      MailAliasResponseDto_alias_parent_thread_id = MailAlias_alias_parent_thread_id e,
      MailAliasResponseDto_alias_user_id = MailAlias_alias_user_id e,
      MailAliasResponseDto_alias_defaults = MailAlias_alias_defaults e,
      MailAliasResponseDto_alias_force_thread_id = MailAlias_alias_force_thread_id e,
      MailAliasResponseDto_alias_reply_to_address = MailAlias_alias_reply_to_address e,
      MailAliasResponseDto_metadata = MailAlias_metadata e\<rparr>"

definition MailAlias_from_create :: "CreateMailAliasDto \<Rightarrow> uuid \<Rightarrow> MailAlias" where
  "MailAlias_from_create d i =
     \<lparr>MailAlias_id = i, MailAlias_alias_name = CreateMailAliasDto_alias_name d,
      MailAlias_alias_domain_id = CreateMailAliasDto_alias_domain_id d,
      MailAlias_alias_contact = CreateMailAliasDto_alias_contact d,
      MailAlias_alias_model_id = CreateMailAliasDto_alias_model_id d,
      MailAlias_alias_parent_model_id = CreateMailAliasDto_alias_parent_model_id d,
      MailAlias_alias_parent_thread_id = CreateMailAliasDto_alias_parent_thread_id d,
      MailAlias_alias_user_id = CreateMailAliasDto_alias_user_id d,
      MailAlias_alias_defaults = CreateMailAliasDto_alias_defaults d,
      MailAlias_alias_force_thread_id = CreateMailAliasDto_alias_force_thread_id d,
      MailAlias_alias_reply_to_address = CreateMailAliasDto_alias_reply_to_address d,
      MailAlias_metadata = audit_default\<rparr>"

definition MailAlias_apply_update :: "MailAlias \<Rightarrow> UpdateMailAliasDto \<Rightarrow> MailAlias" where
  "MailAlias_apply_update e d =
     e\<lparr>MailAlias_alias_name := UpdateMailAliasDto_alias_name d,
      MailAlias_alias_domain_id := UpdateMailAliasDto_alias_domain_id d,
      MailAlias_alias_contact := UpdateMailAliasDto_alias_contact d,
      MailAlias_alias_model_id := UpdateMailAliasDto_alias_model_id d,
      MailAlias_alias_parent_model_id := UpdateMailAliasDto_alias_parent_model_id d,
      MailAlias_alias_parent_thread_id := UpdateMailAliasDto_alias_parent_thread_id d,
      MailAlias_alias_user_id := UpdateMailAliasDto_alias_user_id d,
      MailAlias_alias_defaults := UpdateMailAliasDto_alias_defaults d,
      MailAlias_alias_force_thread_id := UpdateMailAliasDto_alias_force_thread_id d,
      MailAlias_alias_reply_to_address := UpdateMailAliasDto_alias_reply_to_address d\<rparr>"

definition MailAlias_to_value :: "encoders \<Rightarrow> MailAlias \<Rightarrow> json" where
  "MailAlias_to_value E e = JObject
     [(''id'', en_uuid E (MailAlias_id e)), (''alias_name'', jopt JString (MailAlias_alias_name e)),
      (''alias_domain_id'', jopt (en_uuid E) (MailAlias_alias_domain_id e)),
      (''alias_contact'', (\<lambda>x. JString (MailAliasContact_show x)) (MailAlias_alias_contact e)),
      (''alias_model_id'', jopt (en_uuid E) (MailAlias_alias_model_id e)),
      (''alias_parent_model_id'', jopt (en_uuid E) (MailAlias_alias_parent_model_id e)),
      (''alias_parent_thread_id'', jopt (en_uuid E) (MailAlias_alias_parent_thread_id e)),
      (''alias_user_id'', jopt (en_uuid E) (MailAlias_alias_user_id e)),
      (''alias_defaults'', jopt JString (MailAlias_alias_defaults e)),
      (''alias_force_thread_id'', jopt (en_uuid E) (MailAlias_alias_force_thread_id e)),
      (''alias_reply_to_address'', jopt JString (MailAlias_alias_reply_to_address e)),
      (''metadata'', audit_to_value E (MailAlias_metadata e))]"

lemma MailAlias_apply_update_reach:
  "(\<exists>d. MailAlias_apply_update e d = e') \<longleftrightarrow>
   MailAlias_id e' = MailAlias_id e \<and> MailAlias_metadata e' = MailAlias_metadata e"
proof
  assume "MailAlias_id e' = MailAlias_id e \<and> MailAlias_metadata e' = MailAlias_metadata e"
  then have "MailAlias_apply_update e \<lparr>UpdateMailAliasDto_alias_name = MailAlias_alias_name e',
      UpdateMailAliasDto_alias_domain_id = MailAlias_alias_domain_id e',
      UpdateMailAliasDto_alias_contact = MailAlias_alias_contact e',
      UpdateMailAliasDto_alias_model_id = MailAlias_alias_model_id e',
      UpdateMailAliasDto_alias_parent_model_id = MailAlias_alias_parent_model_id e',
      UpdateMailAliasDto_alias_parent_thread_id = MailAlias_alias_parent_thread_id e',
      UpdateMailAliasDto_alias_user_id = MailAlias_alias_user_id e',
      UpdateMailAliasDto_alias_defaults = MailAlias_alias_defaults e',
      UpdateMailAliasDto_alias_force_thread_id = MailAlias_alias_force_thread_id e',
      UpdateMailAliasDto_alias_reply_to_address = MailAlias_alias_reply_to_address e'\<rparr> = e'"
    by (cases e; cases e') (simp add: MailAlias_apply_update_def)
  then show "\<exists>d. MailAlias_apply_update e d = e'" by blast
qed (auto simp: MailAlias_apply_update_def)

lemma MailAlias_response_eq: "MailAlias_response e = MailAlias_response e' \<longleftrightarrow> e = e'"
  by (cases e; cases e') (simp add: MailAlias_response_def)

section \<open>MailAliasDomain\<close>

record CreateMailAliasDomainDto =
  CreateMailAliasDomainDto_name :: string
  CreateMailAliasDomainDto_catchall_alias :: "string option"
  CreateMailAliasDomainDto_bounce_alias :: "string option"
  CreateMailAliasDomainDto_bounce_alias_email :: "string option"
  CreateMailAliasDomainDto_catchall_alias_email :: "string option"
  CreateMailAliasDomainDto_use_mx :: bool
  CreateMailAliasDomainDto_mail_server_id :: "uuid option"
  CreateMailAliasDomainDto_from_filter :: "string option"

record UpdateMailAliasDomainDto =
  UpdateMailAliasDomainDto_name :: string
  UpdateMailAliasDomainDto_catchall_alias :: "string option"
  UpdateMailAliasDomainDto_bounce_alias :: "string option"
  UpdateMailAliasDomainDto_bounce_alias_email :: "string option"
  UpdateMailAliasDomainDto_catchall_alias_email :: "string option"
  UpdateMailAliasDomainDto_use_mx :: bool
  UpdateMailAliasDomainDto_mail_server_id :: "uuid option"
  UpdateMailAliasDomainDto_from_filter :: "string option"

record MailAliasDomainResponseDto =
  MailAliasDomainResponseDto_id :: uuid
  MailAliasDomainResponseDto_name :: string
  MailAliasDomainResponseDto_catchall_alias :: "string option"
  MailAliasDomainResponseDto_bounce_alias :: "string option"
  MailAliasDomainResponseDto_bounce_alias_email :: "string option"
  MailAliasDomainResponseDto_catchall_alias_email :: "string option"
  MailAliasDomainResponseDto_use_mx :: bool
  MailAliasDomainResponseDto_mail_server_id :: "uuid option"
  MailAliasDomainResponseDto_from_filter :: "string option"
  MailAliasDomainResponseDto_metadata :: AuditMetadata

definition MailAliasDomain_response :: "MailAliasDomain \<Rightarrow> MailAliasDomainResponseDto" where
  "MailAliasDomain_response e =
     \<lparr>MailAliasDomainResponseDto_id = MailAliasDomain_id e,
      MailAliasDomainResponseDto_name = MailAliasDomain_name e,
      MailAliasDomainResponseDto_catchall_alias = MailAliasDomain_catchall_alias e,
      MailAliasDomainResponseDto_bounce_alias = MailAliasDomain_bounce_alias e,
      MailAliasDomainResponseDto_bounce_alias_email = MailAliasDomain_bounce_alias_email e,
      MailAliasDomainResponseDto_catchall_alias_email = MailAliasDomain_catchall_alias_email e,
      MailAliasDomainResponseDto_use_mx = MailAliasDomain_use_mx e,
      MailAliasDomainResponseDto_mail_server_id = MailAliasDomain_mail_server_id e,
      MailAliasDomainResponseDto_from_filter = MailAliasDomain_from_filter e,
      MailAliasDomainResponseDto_metadata = MailAliasDomain_metadata e\<rparr>"

definition MailAliasDomain_from_create :: "CreateMailAliasDomainDto \<Rightarrow> uuid \<Rightarrow> MailAliasDomain" where
  "MailAliasDomain_from_create d i =
     \<lparr>MailAliasDomain_id = i, MailAliasDomain_name = CreateMailAliasDomainDto_name d,
      MailAliasDomain_catchall_alias = CreateMailAliasDomainDto_catchall_alias d,
      MailAliasDomain_bounce_alias = CreateMailAliasDomainDto_bounce_alias d,
      MailAliasDomain_bounce_alias_email = CreateMailAliasDomainDto_bounce_alias_email d,
      MailAliasDomain_catchall_alias_email = CreateMailAliasDomainDto_catchall_alias_email d,
      MailAliasDomain_use_mx = CreateMailAliasDomainDto_use_mx d,
      MailAliasDomain_mail_server_id = CreateMailAliasDomainDto_mail_server_id d,
      MailAliasDomain_from_filter = CreateMailAliasDomainDto_from_filter d, MailAliasDomain_metadata = audit_default\<rparr>"

definition MailAliasDomain_apply_update :: "MailAliasDomain \<Rightarrow> UpdateMailAliasDomainDto \<Rightarrow> MailAliasDomain" where
  "MailAliasDomain_apply_update e d =
     e\<lparr>MailAliasDomain_name := UpdateMailAliasDomainDto_name d,
      MailAliasDomain_catchall_alias := UpdateMailAliasDomainDto_catchall_alias d,
      MailAliasDomain_bounce_alias := UpdateMailAliasDomainDto_bounce_alias d,
      MailAliasDomain_bounce_alias_email := UpdateMailAliasDomainDto_bounce_alias_email d,
      MailAliasDomain_catchall_alias_email := UpdateMailAliasDomainDto_catchall_alias_email d,
      MailAliasDomain_use_mx := UpdateMailAliasDomainDto_use_mx d,
      MailAliasDomain_mail_server_id := UpdateMailAliasDomainDto_mail_server_id d,
      MailAliasDomain_from_filter := UpdateMailAliasDomainDto_from_filter d\<rparr>"

definition MailAliasDomain_to_value :: "encoders \<Rightarrow> MailAliasDomain \<Rightarrow> json" where
  "MailAliasDomain_to_value E e = JObject
     [(''id'', en_uuid E (MailAliasDomain_id e)), (''name'', JString (MailAliasDomain_name e)),
      (''catchall_alias'', jopt JString (MailAliasDomain_catchall_alias e)),
      (''bounce_alias'', jopt JString (MailAliasDomain_bounce_alias e)),
      (''bounce_alias_email'', jopt JString (MailAliasDomain_bounce_alias_email e)),
      (''catchall_alias_email'', jopt JString (MailAliasDomain_catchall_alias_email e)),
      (''use_mx'', JBool (MailAliasDomain_use_mx e)),
      (''mail_server_id'', jopt (en_uuid E) (MailAliasDomain_mail_server_id e)),
      (''from_filter'', jopt JString (MailAliasDomain_from_filter e)),
      (''metadata'', audit_to_value E (MailAliasDomain_metadata e))]"

definition MailAliasDomain_row_rules :: "'v row_rule \<Rightarrow> encoders \<Rightarrow> MailAliasDomain write_ctx \<Rightarrow> guard_outcome" where
  "MailAliasDomain_row_rules R E ctx = row_guard (\<lambda>e. Some (MailAliasDomain_to_value E e)) (\<lambda>create update old row.
      required_rule R ''name'' create update old row) ctx"

lemma MailAliasDomain_apply_update_reach:
  "(\<exists>d. MailAliasDomain_apply_update e d = e') \<longleftrightarrow>
   MailAliasDomain_id e' = MailAliasDomain_id e \<and> MailAliasDomain_metadata e' = MailAliasDomain_metadata e"
proof
  assume "MailAliasDomain_id e' = MailAliasDomain_id e \<and> MailAliasDomain_metadata e' = MailAliasDomain_metadata e"
  then have "MailAliasDomain_apply_update e \<lparr>UpdateMailAliasDomainDto_name = MailAliasDomain_name e',
      UpdateMailAliasDomainDto_catchall_alias = MailAliasDomain_catchall_alias e',
      UpdateMailAliasDomainDto_bounce_alias = MailAliasDomain_bounce_alias e',
      UpdateMailAliasDomainDto_bounce_alias_email = MailAliasDomain_bounce_alias_email e',
      UpdateMailAliasDomainDto_catchall_alias_email = MailAliasDomain_catchall_alias_email e',
      UpdateMailAliasDomainDto_use_mx = MailAliasDomain_use_mx e',
      UpdateMailAliasDomainDto_mail_server_id = MailAliasDomain_mail_server_id e',
      UpdateMailAliasDomainDto_from_filter = MailAliasDomain_from_filter e'\<rparr> = e'"
    by (cases e; cases e') (simp add: MailAliasDomain_apply_update_def)
  then show "\<exists>d. MailAliasDomain_apply_update e d = e'" by blast
qed (auto simp: MailAliasDomain_apply_update_def)

lemma MailAliasDomain_response_eq: "MailAliasDomain_response e = MailAliasDomain_response e' \<longleftrightarrow> e = e'"
  by (cases e; cases e') (simp add: MailAliasDomain_response_def)

section \<open>MailGatewayAllowed\<close>

record CreateMailGatewayAllowedDto =
  CreateMailGatewayAllowedDto_fetchmail_server_id :: "uuid option"
  CreateMailGatewayAllowedDto_pattern :: string
  CreateMailGatewayAllowedDto_active :: bool

record UpdateMailGatewayAllowedDto =
  UpdateMailGatewayAllowedDto_fetchmail_server_id :: "uuid option"
  UpdateMailGatewayAllowedDto_pattern :: string
  UpdateMailGatewayAllowedDto_active :: bool

record MailGatewayAllowedResponseDto =
  MailGatewayAllowedResponseDto_id :: uuid
  MailGatewayAllowedResponseDto_fetchmail_server_id :: "uuid option"
  MailGatewayAllowedResponseDto_pattern :: string
  MailGatewayAllowedResponseDto_active :: bool
  MailGatewayAllowedResponseDto_metadata :: AuditMetadata

definition MailGatewayAllowed_response :: "MailGatewayAllowed \<Rightarrow> MailGatewayAllowedResponseDto" where
  "MailGatewayAllowed_response e =
     \<lparr>MailGatewayAllowedResponseDto_id = MailGatewayAllowed_id e,
      MailGatewayAllowedResponseDto_fetchmail_server_id = MailGatewayAllowed_fetchmail_server_id e,
      MailGatewayAllowedResponseDto_pattern = MailGatewayAllowed_pattern e,
      MailGatewayAllowedResponseDto_active = MailGatewayAllowed_active e,
      MailGatewayAllowedResponseDto_metadata = MailGatewayAllowed_metadata e\<rparr>"

definition MailGatewayAllowed_from_create :: "CreateMailGatewayAllowedDto \<Rightarrow> uuid \<Rightarrow> MailGatewayAllowed" where
  "MailGatewayAllowed_from_create d i =
     \<lparr>MailGatewayAllowed_id = i,
      MailGatewayAllowed_fetchmail_server_id = CreateMailGatewayAllowedDto_fetchmail_server_id d,
      MailGatewayAllowed_pattern = CreateMailGatewayAllowedDto_pattern d,
      MailGatewayAllowed_active = CreateMailGatewayAllowedDto_active d, MailGatewayAllowed_metadata = audit_default\<rparr>"

definition MailGatewayAllowed_apply_update :: "MailGatewayAllowed \<Rightarrow> UpdateMailGatewayAllowedDto \<Rightarrow> MailGatewayAllowed" where
  "MailGatewayAllowed_apply_update e d =
     e\<lparr>MailGatewayAllowed_fetchmail_server_id := UpdateMailGatewayAllowedDto_fetchmail_server_id d,
      MailGatewayAllowed_pattern := UpdateMailGatewayAllowedDto_pattern d,
      MailGatewayAllowed_active := UpdateMailGatewayAllowedDto_active d\<rparr>"

definition MailGatewayAllowed_to_value :: "encoders \<Rightarrow> MailGatewayAllowed \<Rightarrow> json" where
  "MailGatewayAllowed_to_value E e = JObject
     [(''id'', en_uuid E (MailGatewayAllowed_id e)),
      (''fetchmail_server_id'', jopt (en_uuid E) (MailGatewayAllowed_fetchmail_server_id e)),
      (''pattern'', JString (MailGatewayAllowed_pattern e)), (''active'', JBool (MailGatewayAllowed_active e)),
      (''metadata'', audit_to_value E (MailGatewayAllowed_metadata e))]"

definition MailGatewayAllowed_row_rules :: "'v row_rule \<Rightarrow> encoders \<Rightarrow> MailGatewayAllowed write_ctx \<Rightarrow> guard_outcome" where
  "MailGatewayAllowed_row_rules R E ctx = row_guard (\<lambda>e. Some (MailGatewayAllowed_to_value E e)) (\<lambda>create update old row.
      required_rule R ''pattern'' create update old row) ctx"

lemma MailGatewayAllowed_apply_update_reach:
  "(\<exists>d. MailGatewayAllowed_apply_update e d = e') \<longleftrightarrow>
   MailGatewayAllowed_id e' = MailGatewayAllowed_id e \<and> MailGatewayAllowed_metadata e' = MailGatewayAllowed_metadata e"
proof
  assume "MailGatewayAllowed_id e' = MailGatewayAllowed_id e \<and> MailGatewayAllowed_metadata e' = MailGatewayAllowed_metadata e"
  then have "MailGatewayAllowed_apply_update e \<lparr>UpdateMailGatewayAllowedDto_fetchmail_server_id = MailGatewayAllowed_fetchmail_server_id e',
      UpdateMailGatewayAllowedDto_pattern = MailGatewayAllowed_pattern e',
      UpdateMailGatewayAllowedDto_active = MailGatewayAllowed_active e'\<rparr> = e'"
    by (cases e; cases e') (simp add: MailGatewayAllowed_apply_update_def)
  then show "\<exists>d. MailGatewayAllowed_apply_update e d = e'" by blast
qed (auto simp: MailGatewayAllowed_apply_update_def)

lemma MailGatewayAllowed_response_eq: "MailGatewayAllowed_response e = MailGatewayAllowed_response e' \<longleftrightarrow> e = e'"
  by (cases e; cases e') (simp add: MailGatewayAllowed_response_def)

section \<open>MailServer\<close>

record CreateMailServerDto =
  CreateMailServerDto_name :: string
  CreateMailServerDto_from_filter :: "string option"
  CreateMailServerDto_smtp_host :: string
  CreateMailServerDto_smtp_port :: int
  CreateMailServerDto_smtp_authentication :: SmtpAuthentication
  CreateMailServerDto_smtp_user :: "string option"
  CreateMailServerDto_smtp_pass_ref :: "string option"
  CreateMailServerDto_smtp_encryption :: SmtpEncryption
  CreateMailServerDto_smtp_debug :: bool
  CreateMailServerDto_sequence :: int
  CreateMailServerDto_active :: bool

record UpdateMailServerDto =
  UpdateMailServerDto_name :: string
  UpdateMailServerDto_from_filter :: "string option"
  UpdateMailServerDto_smtp_host :: string
  UpdateMailServerDto_smtp_port :: int
  UpdateMailServerDto_smtp_authentication :: SmtpAuthentication
  UpdateMailServerDto_smtp_user :: "string option"
  UpdateMailServerDto_smtp_pass_ref :: "string option"
  UpdateMailServerDto_smtp_encryption :: SmtpEncryption
  UpdateMailServerDto_smtp_debug :: bool
  UpdateMailServerDto_sequence :: int
  UpdateMailServerDto_active :: bool

record MailServerResponseDto =
  MailServerResponseDto_id :: uuid
  MailServerResponseDto_name :: string
  MailServerResponseDto_from_filter :: "string option"
  MailServerResponseDto_smtp_host :: string
  MailServerResponseDto_smtp_port :: int
  MailServerResponseDto_smtp_authentication :: SmtpAuthentication
  MailServerResponseDto_smtp_user :: "string option"
  MailServerResponseDto_smtp_pass_ref :: "string option"
  MailServerResponseDto_smtp_encryption :: SmtpEncryption
  MailServerResponseDto_smtp_debug :: bool
  MailServerResponseDto_sequence :: int
  MailServerResponseDto_active :: bool
  MailServerResponseDto_metadata :: AuditMetadata

definition MailServer_response :: "MailServer \<Rightarrow> MailServerResponseDto" where
  "MailServer_response e =
     \<lparr>MailServerResponseDto_id = MailServer_id e, MailServerResponseDto_name = MailServer_name e,
      MailServerResponseDto_from_filter = MailServer_from_filter e,
      MailServerResponseDto_smtp_host = MailServer_smtp_host e,
      MailServerResponseDto_smtp_port = MailServer_smtp_port e,
      MailServerResponseDto_smtp_authentication = MailServer_smtp_authentication e,
      MailServerResponseDto_smtp_user = MailServer_smtp_user e,
      MailServerResponseDto_smtp_pass_ref = MailServer_smtp_pass_ref e,
      MailServerResponseDto_smtp_encryption = MailServer_smtp_encryption e,
      MailServerResponseDto_smtp_debug = MailServer_smtp_debug e,
      MailServerResponseDto_sequence = MailServer_sequence e, MailServerResponseDto_active = MailServer_active e,
      MailServerResponseDto_metadata = MailServer_metadata e\<rparr>"

definition MailServer_from_create :: "CreateMailServerDto \<Rightarrow> uuid \<Rightarrow> MailServer" where
  "MailServer_from_create d i =
     \<lparr>MailServer_id = i, MailServer_name = CreateMailServerDto_name d,
      MailServer_from_filter = CreateMailServerDto_from_filter d,
      MailServer_smtp_host = CreateMailServerDto_smtp_host d, MailServer_smtp_port = CreateMailServerDto_smtp_port d,
      MailServer_smtp_authentication = CreateMailServerDto_smtp_authentication d,
      MailServer_smtp_user = CreateMailServerDto_smtp_user d,
      MailServer_smtp_pass_ref = CreateMailServerDto_smtp_pass_ref d,
      MailServer_smtp_encryption = CreateMailServerDto_smtp_encryption d,
      MailServer_smtp_debug = CreateMailServerDto_smtp_debug d, MailServer_sequence = CreateMailServerDto_sequence d,
      MailServer_active = CreateMailServerDto_active d, MailServer_metadata = audit_default\<rparr>"

definition MailServer_apply_update :: "MailServer \<Rightarrow> UpdateMailServerDto \<Rightarrow> MailServer" where
  "MailServer_apply_update e d =
     e\<lparr>MailServer_name := UpdateMailServerDto_name d,
      MailServer_from_filter := UpdateMailServerDto_from_filter d,
      MailServer_smtp_host := UpdateMailServerDto_smtp_host d,
      MailServer_smtp_port := UpdateMailServerDto_smtp_port d,
      MailServer_smtp_authentication := UpdateMailServerDto_smtp_authentication d,
      MailServer_smtp_user := UpdateMailServerDto_smtp_user d,
      MailServer_smtp_pass_ref := UpdateMailServerDto_smtp_pass_ref d,
      MailServer_smtp_encryption := UpdateMailServerDto_smtp_encryption d,
      MailServer_smtp_debug := UpdateMailServerDto_smtp_debug d,
      MailServer_sequence := UpdateMailServerDto_sequence d, MailServer_active := UpdateMailServerDto_active d\<rparr>"

definition MailServer_to_value :: "encoders \<Rightarrow> MailServer \<Rightarrow> json" where
  "MailServer_to_value E e = JObject
     [(''id'', en_uuid E (MailServer_id e)), (''name'', JString (MailServer_name e)),
      (''from_filter'', jopt JString (MailServer_from_filter e)), (''smtp_host'', JString (MailServer_smtp_host e)),
      (''smtp_port'', JNumber (MailServer_smtp_port e)),
      (''smtp_authentication'', (\<lambda>x. JString (SmtpAuthentication_show x)) (MailServer_smtp_authentication e)),
      (''smtp_user'', jopt JString (MailServer_smtp_user e)),
      (''smtp_pass_ref'', jopt JString (MailServer_smtp_pass_ref e)),
      (''smtp_encryption'', (\<lambda>x. JString (SmtpEncryption_show x)) (MailServer_smtp_encryption e)),
      (''smtp_debug'', JBool (MailServer_smtp_debug e)), (''sequence'', JNumber (MailServer_sequence e)),
      (''active'', JBool (MailServer_active e)), (''metadata'', audit_to_value E (MailServer_metadata e))]"

definition MailServer_row_rules :: "'v row_rule \<Rightarrow> encoders \<Rightarrow> MailServer write_ctx \<Rightarrow> guard_outcome" where
  "MailServer_row_rules R E ctx = row_guard (\<lambda>e. Some (MailServer_to_value E e)) (\<lambda>create update old row.
      required_rule R ''name'' create update old row @
      required_rule R ''smtp_host'' create update old row) ctx"

lemma MailServer_apply_update_reach:
  "(\<exists>d. MailServer_apply_update e d = e') \<longleftrightarrow>
   MailServer_id e' = MailServer_id e \<and> MailServer_metadata e' = MailServer_metadata e"
proof
  assume "MailServer_id e' = MailServer_id e \<and> MailServer_metadata e' = MailServer_metadata e"
  then have "MailServer_apply_update e \<lparr>UpdateMailServerDto_name = MailServer_name e', UpdateMailServerDto_from_filter = MailServer_from_filter e',
      UpdateMailServerDto_smtp_host = MailServer_smtp_host e',
      UpdateMailServerDto_smtp_port = MailServer_smtp_port e',
      UpdateMailServerDto_smtp_authentication = MailServer_smtp_authentication e',
      UpdateMailServerDto_smtp_user = MailServer_smtp_user e',
      UpdateMailServerDto_smtp_pass_ref = MailServer_smtp_pass_ref e',
      UpdateMailServerDto_smtp_encryption = MailServer_smtp_encryption e',
      UpdateMailServerDto_smtp_debug = MailServer_smtp_debug e',
      UpdateMailServerDto_sequence = MailServer_sequence e', UpdateMailServerDto_active = MailServer_active e'\<rparr> = e'"
    by (cases e; cases e') (simp add: MailServer_apply_update_def)
  then show "\<exists>d. MailServer_apply_update e d = e'" by blast
qed (auto simp: MailServer_apply_update_def)

lemma MailServer_response_eq: "MailServer_response e = MailServer_response e' \<longleftrightarrow> e = e'"
  by (cases e; cases e') (simp add: MailServer_response_def)

end
