(* ===== verification/Mounts.thy ===== *)
theory Mounts
  imports RowsChannels RowsMessages RowsQueues RowsActivities RowsGateway
begin

text \<open>
  What the generated module mounts for each entity: \<open>all_crud_routes\<close>, \<open>readonly_routes\<close> and \<open>transition_routes\<close> of
  \<open>src/lib.rs\<close>, and which services are built with their row rules (\<open>src/application/service/mod.rs\<close>).  The routers
  themselves are the framework's \<open>BackboneCrudHandler\<close>.
\<close>

datatype mount = Crud | ReadOnly | Verbs

definition all_crud_routes :: "(string \<times> mount) list" where
  "all_crud_routes =
    [(''MailActivity'', Crud), (''MailActivityType'', ReadOnly), (''MailActivityPlan'', Crud),
     (''MailActivityPlanTemplate'', Crud), (''MailAliasDomain'', Crud), (''MailAlias'', Crud),
     (''MailAttachment'', Crud), (''MailMessageAttachment'', Crud), (''MailMessageStar'', Crud),
     (''MailMessage'', ReadOnly), (''Mail'', ReadOnly), (''MailNotification'', ReadOnly),
     (''MailMessageSubtype'', Crud), (''MailMessageReaction'', Crud), (''MailFollowers'', Crud),
     (''MailPresence'', ReadOnly), (''MailBlacklist'', Crud), (''MailTrackingValue'', Crud),
     (''DiscussChannel'', ReadOnly), (''DiscussChannelMember'', Crud), (''MailGuest'', Crud), (''MailServer'', Crud),
     (''FetchmailServer'', ReadOnly), (''MailGatewayAllowed'', Crud), (''PhoneBlacklist'', Crud),
     (''MailMessageSchedule'', Crud), (''MailScheduledMessage'', Crud), (''Sms'', ReadOnly), (''SmsTemplate'', Crud),
     (''SmsTracker'', ReadOnly)]"

definition routes :: "(string \<times> mount) list" where
  "routes = all_crud_routes"

definition readonly_routes :: "(string \<times> mount) list" where
  "readonly_routes =
    [(''MailActivity'', ReadOnly), (''MailActivityType'', ReadOnly), (''MailActivityPlan'', ReadOnly),
     (''MailActivityPlanTemplate'', ReadOnly), (''MailAliasDomain'', ReadOnly), (''MailAlias'', ReadOnly),
     (''MailAttachment'', ReadOnly), (''MailMessageAttachment'', ReadOnly), (''MailMessageStar'', ReadOnly),
     (''MailMessage'', ReadOnly), (''Mail'', ReadOnly), (''MailNotification'', ReadOnly),
     (''MailMessageSubtype'', ReadOnly), (''MailMessageReaction'', ReadOnly), (''MailFollowers'', ReadOnly),
     (''MailPresence'', ReadOnly), (''MailBlacklist'', ReadOnly), (''MailTrackingValue'', ReadOnly),
     (''DiscussChannel'', ReadOnly), (''DiscussChannelMember'', ReadOnly), (''MailGuest'', ReadOnly),
     (''MailServer'', ReadOnly), (''FetchmailServer'', ReadOnly), (''MailGatewayAllowed'', ReadOnly),
     (''PhoneBlacklist'', ReadOnly), (''MailMessageSchedule'', ReadOnly), (''MailScheduledMessage'', ReadOnly),
     (''Sms'', ReadOnly), (''SmsTemplate'', ReadOnly), (''SmsTracker'', ReadOnly)]"

definition transition_routes :: "(string \<times> mount) list" where
  "transition_routes =
    [(''MailActivityType'', Verbs)]"

text \<open>The services \<open>build_*_service\<close> attach their row rules to.\<close>

definition guarded_services :: "string list" where
  "guarded_services =
    [''MailActivity'', ''MailActivityType'', ''MailActivityPlan'', ''MailActivityPlanTemplate'', ''MailAliasDomain'',
     ''MailAttachment'', ''MailMessageAttachment'', ''MailMessageStar'', ''Mail'', ''MailNotification'',
     ''MailMessageSubtype'', ''MailMessageReaction'', ''MailFollowers'', ''MailPresence'', ''MailBlacklist'',
     ''MailTrackingValue'', ''DiscussChannelMember'', ''MailGuest'', ''MailServer'', ''FetchmailServer'',
     ''MailGatewayAllowed'', ''PhoneBlacklist'', ''MailMessageSchedule'', ''MailScheduledMessage'', ''Sms'',
     ''SmsTemplate'', ''SmsTracker'']"

text \<open>The fields a row declares protected from generic writes.\<close>

definition protected_fields :: "(string \<times> string list) list" where
  "protected_fields =
    [(''DiscussChannel'', DiscussChannel_write_protected_fields),
     (''FetchmailServer'', FetchmailServer_write_protected_fields), (''Mail'', Mail_write_protected_fields),
     (''MailActivity'', MailActivity_write_protected_fields),
     (''MailActivityType'', MailActivityType_write_protected_fields),
     (''MailAttachment'', MailAttachment_write_protected_fields),
     (''MailMessage'', MailMessage_write_protected_fields),
     (''MailNotification'', MailNotification_write_protected_fields),
     (''MailPresence'', MailPresence_write_protected_fields), (''Sms'', Sms_write_protected_fields),
     (''SmsTracker'', SmsTracker_write_protected_fields)]"

lemma mount_tables:
  "distinct (map fst all_crud_routes)" "map fst readonly_routes = map fst all_crud_routes"
  by (simp_all add: all_crud_routes_def readonly_routes_def)

text \<open>No route of \<open>readonly_routes\<close> writes.\<close>

lemma readonly_never_writes: "list_all (\<lambda>m. snd m = ReadOnly) readonly_routes"
  by (simp add: readonly_routes_def)

text \<open>
  Of the entities that declare protected fields, all but \<open>MailActivity\<close> and \<open>MailAttachment\<close> are mounted without the
  generic writes.
\<close>

lemma protected_entities_mounted_for_writing:
  "map fst (filter (\<lambda>p. (fst p, Crud) \<in> set all_crud_routes) protected_fields) = [''MailActivity'', ''MailAttachment'']"
  by (simp add: protected_fields_def all_crud_routes_def)

text \<open>The protected state of an activity is one a PUT sets: its update carries it and its row rules do not look at it.\<close>

lemma activity_update_sets_protected_state:
  "''state'' \<in> set MailActivity_write_protected_fields"
  "MailActivity_state (MailActivity_apply_update e d) = UpdateMailActivityDto_state d"
  by (simp_all add: MailActivity_write_protected_fields_def MailActivity_apply_update_def)

text \<open>The access token of an attachment is in no update.\<close>

lemma attachment_update_keeps_token:
  "''access_token'' \<in> set MailAttachment_write_protected_fields"
  "MailAttachment_access_token (MailAttachment_apply_update e d) = MailAttachment_access_token e"
  by (simp_all add: MailAttachment_write_protected_fields_def MailAttachment_apply_update_def)

end
