(* ===== verification/Pagination.thy ===== *)
theory Pagination
  imports "HOL-Library.Word"
begin

text \<open>
  The page parameters of the generated repository ports, \<open>src/domain/repositories/*_repository.rs\<close>: every file has the
  same type.  The product is a product of \<open>u32\<close>, which wraps in a release build (a debug build panics).
\<close>

record page_params =
  pp_page :: "32 word"
  pp_per_page :: "32 word"

definition saturating_dec :: "32 word \<Rightarrow> 32 word" where
  "saturating_dec n = (if n = 0 then 0 else n - 1)"

definition page_offset :: "page_params \<Rightarrow> 64 word" where
  "page_offset p = ucast (saturating_dec (pp_page p) * pp_per_page p)"

definition page_limit :: "page_params \<Rightarrow> 64 word" where
  "page_limit p = ucast (pp_per_page p)"

lemma unat_saturating_dec: "unat (saturating_dec n) = unat n - 1"
proof (cases "n = 0")
  case False
  then have "1 \<le> n" by (simp add: word_le_nat_alt Suc_le_eq unat_gt_0)
  with False show ?thesis by (simp add: saturating_dec_def unat_sub)
qed (simp add: saturating_dec_def)

lemma unat_widen: "unat (ucast (x :: 32 word) :: 64 word) = unat x"
proof -
  have "unat x < 2 ^ 32" using unsigned_less [of x, where ?'a = nat] by simp
  then show ?thesis by (simp add: unsigned_ucast_eq take_bit_nat_eq_self)
qed

lemma unat_page_limit: "unat (page_limit p) = unat (pp_per_page p)"
  by (simp add: page_limit_def unat_widen)

lemma unat_page_offset: "unat (page_offset p) = (unat (pp_page p) - 1) * unat (pp_per_page p) mod 2 ^ 32"
proof -
  have "unat (page_offset p) = unat (saturating_dec (pp_page p) * pp_per_page p)"
    by (simp add: page_offset_def unat_widen)
  also have "\<dots> = unat (saturating_dec (pp_page p)) * unat (pp_per_page p) mod 2 ^ 32"
    by (simp add: unat_word_ariths)
  finally show ?thesis by (simp add: unat_saturating_dec)
qed

text \<open>Pages follow each other without gap or overlap exactly as long as the product stays under \<open>2 ^ 32\<close>.\<close>

lemma page_offset_exact_iff:
  "unat (page_offset p) = (unat (pp_page p) - 1) * unat (pp_per_page p) \<longleftrightarrow>
   (unat (pp_page p) - 1) * unat (pp_per_page p) < 2 ^ 32"
  by (metis mod_less mod_less_divisor unat_page_offset zero_less_numeral zero_less_power)

lemma pages_adjacent:
  "unat (page_offset \<lparr>pp_page = n + 1, pp_per_page = k\<rparr>) = unat (page_offset \<lparr>pp_page = n, pp_per_page = k\<rparr>) + unat k"
  if "n \<noteq> 0" "unat n * unat k < 2 ^ 32" "n + 1 \<noteq> 0"
proof -
  have s: "unat (n + 1) = unat n + 1" using unatSuc [of n] that(3) by (simp add: add.commute)
  have "unat n \<noteq> 0" using that(1) by (simp add: unat_eq_0)
  then obtain m where m: "unat n = Suc m" by (rule not0_implies_Suc [THEN exE])
  have small: "m * unat k < 2 ^ 32" using that(2) unfolding m mult_Suc by (rule le_less_trans [OF le_add2])
  have "unat (page_offset \<lparr>pp_page = n + 1, pp_per_page = k\<rparr>) = unat n * unat k"
    unfolding unat_page_offset page_params.simps s add_diff_cancel_right' by (rule mod_less [OF that(2)])
  moreover have "unat (page_offset \<lparr>pp_page = n, pp_per_page = k\<rparr>) = m * unat k"
    unfolding unat_page_offset page_params.simps m diff_Suc_1 by (rule mod_less [OF small])
  ultimately show ?thesis by (simp add: m)
qed

text \<open>Page 65538 of 65536 rows is served as page 2.\<close>

lemma page_offset_wraps: "page_offset \<lparr>pp_page = 65538, pp_per_page = 65536\<rparr> = page_offset \<lparr>pp_page = 2, pp_per_page = 65536\<rparr>"
  by (simp add: page_offset_def saturating_dec_def)

end
