(* ===== verification/Spec2Isabelle.thy ===== *)
theory Spec2Isabelle
  imports Lattice MailVerdicts SmsVerdicts SmsWebhook Gc Inbound Members Activities Schedule MessageEdits Queries PhoneValidation Stream Module RelayB7 Gateways Transitions Mounts Pagination
begin

text \<open>
  Verification of \<open>backbone-mail\<close>, the messaging module of a business framework: a port of Odoo's mail core
  to Rust over PostgreSQL.  It posts messages on documents, fans them out to the inbox, to email and to sms,
  drains the two outgoing queues through transports, takes mail in through a gateway, keeps followers,
  activities, discussion channels and their members, guests and presence, serves all of it over HTTP and pushes
  its events to browsers.  This development models that program from its sources under \<open>src/\<close>, one theory for
  a component, and proves what makes each component, and their composition, correct.

  \<^bold>\<open>How the program is modelled.\<close>  A service method is an \<^emph>\<open>action\<close> (\<open>Effects\<close>): a function of an environment and a
  world to an error or a value, and a world.  The world holds the database (\<open>Store\<close>, one list of records for
  each table, with its keys, references, checks and triggers), PostgreSQL's failed-transaction flag, the start
  time of the transaction and a trace of what was handed to the outside.  The environment holds the clock, the
  uuid generator, the locks other sessions hold, and which statements, commits and acknowledgements fail; it is
  indexed by a count of the effects, so it may answer differently each time.  \<open>?\<close> is \<open>bindA\<close>; a transaction rolls
  back on an error, and a COMMIT may take effect although its acknowledgement is lost.  Statements of the
  repositories are functions on tables, written clause by clause.  Errors are values of the source's own enums.
  Machine integers are written at their width where the code computes with them (\<open>Hex\<close>, \<open>Stream\<close>, \<open>Gateways\<close>,
  \<open>Pagination\<close>); a Rust \<open>String\<close> is the list of its UTF-8 bytes.

  \<^bold>\<open>The theories.\<close>

  \<^item> \<open>Prelude\<close>, \<open>Effects\<close>, \<open>Refusals\<close>, \<open>Hex\<close>: shared lemmas and collections; the action algebra; which actions
    write nothing when they fail; bytes and the comparison in constant time.
  \<^item> \<open>Vocab\<close>, \<open>StateMachines\<close>: the enumerations of \<open>domain/entity\<close> with their printers and parsers (locale \<open>text_enum\<close>)
    and the five workflow machines of \<open>domain/state_machine\<close> (locale \<open>workflow\<close>).  \<open>Lattice\<close> compares the machines
    with the transition triggers and the monotonic guards of the migrations.
  \<^item> \<open>Bus\<close>, \<open>Store\<close>: channel keys and envelopes of \<open>domain/event/constants.rs\<close>; the tables and their constraints.
  \<^item> \<open>MessagePipeline\<close>, \<open>MessageDelivery\<close>, \<open>NotificationPump\<close>: \<open>message_post\<close> of \<open>message_write_service.rs\<close> with
    \<open>message_pipeline_repository.rs\<close>.  A post is all or nothing, mints one notification for each recipient and queues
    the email and the sms; the status of a notification only advances.
  \<^item> \<open>MailHeaders\<close>, \<open>Drain\<close>, \<open>MailQueue\<close>, \<open>MailVerdicts\<close>, \<open>SmsQueue\<close>, \<open>SmsDrain\<close>, \<open>SmsVerdicts\<close>, \<open>SmsWebhook\<close>: the two
    queues.  The loop is stated once (locale \<open>drain\<close>) and interpreted on both: what is handed to a transport was
    queued, is handed over once and is not queued any more, under every failure.  Late verdicts keep sms, tracker
    and notification in step; a webhook call writes only when its signature verifies.
  \<^item> \<open>Gc\<close>: the four reapers and the sweep of stuck rows (\<open>gc_service.rs\<close>), whose bound is the clock at the start of its
    transaction less the configured minutes.
  \<^item> \<open>Addresses\<close>, \<open>Gateways\<close>: the choice of the mail server and of an alias; the adapters over SMTP and HTTP.
  \<^item> \<open>Inbound\<close>: the inbound gateway: authentication, deduplication, allowlist, routing; its outcomes refine an
    abstract gateway and every authorised delivery is answered.
  \<^item> \<open>Acl\<close>, \<open>ThreadChatter\<close>, \<open>ThreadRoutes\<close>, \<open>Module\<close>: access to host documents (locale \<open>closed_resolver\<close>), the chatter
    facade, its routes, and the module as it is built: documents are closed until the host opens them.
  \<^item> \<open>Channels\<close>, \<open>Members\<close>, \<open>Personas\<close>, \<open>Attachments\<close>, \<open>ChannelRoutes\<close>, \<open>EdgeRoutes\<close>: discussion channels and
    membership, presence, typing and guests, files, and their routes.
  \<^item> \<open>Followers\<close>, \<open>Activities\<close>, \<open>Schedule\<close>, \<open>MessageEdits\<close>, \<open>Queries\<close>, \<open>Blacklists\<close>, \<open>PhoneValidation\<close>, \<open>RelayB7\<close>: the
    service of that name under \<open>application/service\<close> with its repository.  The write services keep the invariants of
    their tables (locales \<open>*_invariant\<close>), and where there is an abstract state (a map of subscriptions, a set of
    addresses) each verb refines one update of it.  For deferred messages each verb has its exact effect or none
    (\<open>outcome\<close>), and the dispatch of posts refines an abstract one.
  \<^item> \<open>Wire\<close>, \<open>Realtime\<close>, \<open>Stream\<close>: who a request is (\<open>presentation/middleware\<close>), the replay ring and the tailer, the
    session proof and the stream (\<open>realtime\<close>).  A poll leaves no event of its window unpublished under any clocks;
    that no event is published twice needs the database clock not to lag behind the process clock.  A stream
    sends all that is permitted while its client stays; replay and feed join without a gap or a repetition when
    nothing is published between the two, and otherwise differ by exactly what was.
  \<^item> \<open>Surface\<close>: the routers over all the handlers; refusals write nothing, anonymous callers are refused.
  \<^item> \<open>RowValues\<close>, \<open>Entities*\<close>, \<open>RowGuards\<close>, \<open>Rows*\<close>, \<open>Transitions\<close>, \<open>Mounts\<close>, \<open>Pagination\<close>: the generated layer: the thirty
    rows with their constructors, builders, partial updates and wire forms (\<open>domain/entity\<close>, \<open>presentation/dto\<close>),
    their row rules (\<open>application/service/*_service.rs\<close>), the state-machine verbs (\<open>*_handler.rs\<close>, locale \<open>verbs\<close>: the gate and
    the one call behind it, for every service under it; the check is of the row as read), what
    \<open>src/lib.rs\<close> mounts, and the page parameters.  A record of \<open>Store\<close> holds the columns the hand-written services use; the
    record of \<open>Entities*\<close> is the row as the generated code declares it.

  \<^bold>\<open>How the parts interact.\<close>  A request passes \<open>Wire\<close>, a router of \<open>Surface\<close>, a handler of the \<open>*Routes\<close>, a service, and
  statements on \<open>Store\<close>; whatever a service stages on the outbox is what \<open>Realtime\<close> publishes and \<open>Stream\<close> sends to the
  clients permitted to see it.  \<open>message_post\<close> is called by the chatter facade, the dispatches of \<open>Schedule\<close>, the
  completion of an activity, the inbound gateway and the consumer of \<open>RelayB7\<close>, and their properties rest on its
  specification.  Other sessions appear as locks, as failures, and, in \<open>MailVerdicts\<close>, \<open>Realtime\<close>, \<open>Stream\<close> and \<open>Transitions\<close>, as
  steps between the steps of one.

  \<^bold>\<open>Loops.\<close>  Loops over rows are structural recursions.  The drain loops have no bound of their own: they take fuel
  and return \<open>None\<close> without it; the termination property of \<open>MailQueue\<close> shows that more fuel than there are outgoing
  rows is always enough, whatever fails.  The poll loop of the tailer is a step relation between its turns.  All
  other functions are total.

  \<^bold>\<open>Parameters.\<close>  What is not under \<open>src/\<close> is an argument: the transports and the HTTP client, the uuid and time texts,
  SQL's \<open>lower\<close>, \<open>ILIKE\<close>, collation and unordered aggregates, Unicode case folding, HMAC, SHA-256 and base64, the
  validation of a JWT, the reading of bodies by serde, the crates \<open>phonenumber\<close> and \<open>chrono\<close>, the resolver and the phone
  book of a host, and \<open>backbone_core\<close>'s generic service and rule functions.  Where a property needs something of one,
  it is a named hypothesis (\<open>uuid_format\<close>, \<open>folds_agree\<close>, \<open>base64_ok\<close>, \<open>compares_field\<close>) with a witness; the lemmas
  on what a verb of a machine leaves in the table also assume that the framework's update replaces just the given
  field (\<open>merges\<close>).

  \<^bold>\<open>Not modelled.\<close>  The generic CRUD service, its repository and its router (the framework's; the files here are
  aliases and newtypes over them), rate limits, transport headers and keep-alive frames, seeders, event aliases and
  public export types without behaviour, filter, summary and list forms and handler error enumerations that no
  route uses, field accessors and fluent setters.  The isolation of concurrent transactions is that of the locks
  and constraints the statements name; statement reordering inside PostgreSQL is not modelled.
\<close>

end
